(* ===== verification/Base.thy ===== *)
theory Base
  imports Main "HOL-Library.Char_ord" "HOL-Library.List_Lexorder" "HOL-Library.Product_Lexorder"
begin

text \<open>
  The prelude of the development: the result type every fallible operation returns, the
  registry errors (\<open>packages/persistence/src/index.ts\<close> and the subclasses of its
  \<open>RegistryError\<close>), and the lemmas on keyed tables that all repositories share. A table
  is a list of rows in insertion order; a statement that names a primary key reads with
  \<open>find_by\<close> and writes with \<open>update_by\<close>. The locale \<open>keyed_update\<close> states once what an
  update that keeps the key gives: the table's keys, its lookups and its length.
\<close>

named_theorems row_simps "what the writers of a table row leave unchanged"
named_theorems doc_simps "what the encoders and validators of a document evaluate to"

section \<open>Errors and results\<close>

text \<open>
  The codes, grouped by the module that throws them (\<open>error_code\<close> is their sum). Node's SQLite
  binding gives its own errors the code \<open>ERR_SQLITE_ERROR\<close>.
\<close>

datatype general_code =
    REGISTRY_VALIDATION_ERROR | SOURCE_NOT_FOUND | COLLECTION_PLAN_NOT_FOUND
  | CONNECTOR_NOT_FOUND | EXECUTION_RUN_NOT_FOUND | WORKER_NOT_FOUND | LEASE_NOT_FOUND
  | WORKER_AUTHENTICATION_FAILED | EXECUTION_ATTEMPT_NOT_FOUND | EXECUTION_LEASE_NOT_FOUND
  | ERR_SQLITE_ERROR

datatype ledger_code =
    EXECUTION_JOB_TYPE_AMBIGUOUS | EXECUTION_JOB_TYPE_UNSUPPORTED
  | EXECUTION_CAPABILITY_MISMATCH | EXECUTION_PLAN_NOT_ACTIVE | EXECUTION_SOURCE_NOT_ACTIVE
  | EXECUTION_CONNECTOR_NOT_ACTIVE | EXECUTION_SOURCE_TYPE_MISMATCH
  | EXECUTION_CHANGE_WATCH_UNSUPPORTED | EXECUTION_OUTPUT_MISMATCH
  | EXECUTION_IDEMPOTENCY_CONFLICT | EXECUTION_VERSION_CONFLICT
  | EXECUTION_RUN_NOT_CANCELLABLE | EXECUTION_JOB_NOT_CANCELLABLE
  | EXECUTION_JOB_STATE_CONFLICT

datatype worker_code =
    WORKER_CONNECTOR_NOT_FOUND | WORKER_CONNECTOR_DISABLED | WORKER_CAPABILITY_MISMATCH
  | WORKER_JOB_TYPE_MISMATCH | WORKER_VERSION_CONFLICT | WORKER_DISABLED | WORKER_CLOCK_SKEW
  | WORKER_HEARTBEAT_UNKNOWN_LEASE | WORKER_LEASE_OWNERSHIP | WORKER_NOT_ACTIVE
  | WORKER_HEARTBEAT_STALE | WORKER_HEALTH_ERROR | WORKER_AT_CAPACITY

datatype lease_code =
    JOB_NOT_FOUND | JOB_NOT_CLAIMABLE | WORKER_JOB_INCOMPATIBLE
  | WEB_DOMAIN_CLAIM_QUOTA_EXCEEDED | JOB_CLAIM_CONFLICT | LEASE_EXPIRED
  | LEASE_MAX_LIFETIME_REACHED | LEASE_NOT_ACTIVE

datatype execution_code =
    EXECUTION_LEASE_AUTHENTICATION_FAILED | EXECUTION_LEASE_NOT_ACTIVE
  | EXECUTION_START_STATE_CONFLICT | EXECUTION_ATTEMPT_ALREADY_EXISTS
  | EXECUTION_TRANSITION_CONFLICT | EXECUTION_EXECUTOR_MISMATCH
  | EXECUTION_RECEIPT_OUTPUT_MISMATCH | ARTIFACT_RECEIPT_NOT_FINALIZED
  | ARTIFACT_RECEIPT_EXECUTION_MISMATCH | ARTIFACT_RECEIPT_TOTAL_MISMATCH

datatype scheduler_code =
    SCHEDULER_INVALID_INTERVAL | SCHEDULER_INVALID_CRON | SCHEDULER_INVALID_TIMEZONE
  | SCHEDULER_TIMEZONE_FORMAT_ERROR | SCHEDULER_CRON_LOOKAHEAD_EXCEEDED
  | SCHEDULER_CONNECTOR_NOT_FOUND | SCHEDULER_CAPABILITY_MISMATCH
  | SCHEDULER_PLAN_NOT_ACTIVE | SCHEDULER_MANUAL_PLAN | SCHEDULER_SOURCE_NOT_ACTIVE
  | SCHEDULER_CONNECTOR_NOT_ACTIVE | SCHEDULER_SOURCE_TYPE_MISMATCH
  | SCHEDULER_CHANGE_WATCH_UNSUPPORTED | SCHEDULER_OUTPUT_MISMATCH
  | SCHEDULER_IDEMPOTENCY_CONFLICT | SCHEDULER_STATE_LOST | SCHEDULER_INTERNAL_ERROR

datatype registry_code =
    WORKSPACE_NOT_FOUND | WORKSPACE_NOT_ACTIVE | CONNECTOR_NOT_REGISTERED
  | CONNECTOR_SOURCE_TYPE_INCOMPATIBLE | CONNECTOR_NOT_ACTIVE
  | CRAWL4AI_START_URL_BUDGET_EXCEEDED | SOURCE_SLUG_CONFLICT | SOURCE_VERSION_CONFLICT
  | CONNECTOR_VERSION_CONFLICT

datatype plan_code =
    COLLECTION_PLAN_CONNECTOR_MISSING | COLLECTION_PLAN_ARCHIVED
  | COLLECTION_PLAN_CAPABILITY_MISMATCH
  | COLLECTION_PLAN_CHANGE_WATCH_ENTRYPOINT_BUDGET_EXCEEDED
  | COLLECTION_PLAN_CRAWL4AI_POLICY_MISMATCH | COLLECTION_PLAN_SOURCE_TYPE_MISMATCH
  | COLLECTION_PLAN_OUTPUT_MISMATCH | COLLECTION_PLAN_CHANGE_WATCH_UNSUPPORTED
  | COLLECTION_PLAN_SOURCE_INACTIVE | COLLECTION_PLAN_CONNECTOR_INACTIVE
  | COLLECTION_PLAN_NAME_CONFLICT | COLLECTION_PLAN_VERSION_CONFLICT
  | SOURCE_DEFAULT_PLAN_MISMATCH | SOURCE_DEFAULT_PLAN_ARCHIVED

datatype artifact_code =
    ARTIFACT_SESSION_NOT_FOUND | RAW_ARTIFACT_NOT_FOUND | ARTIFACT_PATH_REJECTED
  | ARTIFACT_TOO_LARGE | ARTIFACT_OBJECT_INVALID | ARTIFACT_OBJECT_VERIFICATION_FAILED
  | ARTIFACT_INGESTION_IDEMPOTENCY_CONFLICT | ARTIFACT_EXECUTION_STATE_CONFLICT
  | ARTIFACT_SESSION_STATE_CONFLICT | ARTIFACT_SESSION_NOT_VERIFIED | ARTIFACT_SIZE_MISMATCH
  | ARTIFACT_DIGEST_MISMATCH | ARTIFACT_EXECUTION_CONTEXT_NOT_FOUND
  | ARTIFACT_LEASE_AUTHENTICATION_FAILED | ARTIFACT_EXECUTION_TERMINAL
  | ARTIFACT_SESSION_OWNERSHIP_MISMATCH | ARTIFACT_RECEIPT_KIND_MISMATCH

datatype error_code =
    General general_code | Ledger ledger_code | Worker worker_code | Lease lease_code
  | Execution execution_code | Scheduler scheduler_code | Registry registry_code | Plan plan_code
  | Artifact artifact_code

text \<open>
  What an operation throws: a \<open>RegistryError\<close> or a subclass of it, each with its code; the
  errors of the standard library are a failed constraint of node:sqlite, which carries its
  own code, a \<open>RangeError\<close> of a date, which carries none, and a failed call of the file system
  or a broken stream, whose code no registry reads. The operator-facing message texts steer
  nothing in the code and are not modelled.
\<close>

datatype registry_error =
    RegistryError error_code
  | RegistryValidationError
  | RegistryNotFoundError
  | RegistryConflictError error_code
  | SqliteUniqueConstraint
  | SqliteForeignKeyConstraint
  | JsRangeError
  | NodeError

fun error_code_of :: "registry_error \<Rightarrow> error_code option" where
  "error_code_of (RegistryError c) = Some c"
| "error_code_of RegistryValidationError = Some (General REGISTRY_VALIDATION_ERROR)"
| "error_code_of RegistryNotFoundError = Some (General SOURCE_NOT_FOUND)"
| "error_code_of (RegistryConflictError c) = Some c"
| "error_code_of SqliteUniqueConstraint = Some (General ERR_SQLITE_ERROR)"
| "error_code_of SqliteForeignKeyConstraint = Some (General ERR_SQLITE_ERROR)"
| "error_code_of JsRangeError = None"
| "error_code_of NodeError = None"

type_synonym 'a result = "registry_error + 'a"

definition fail_unless :: "bool \<Rightarrow> registry_error \<Rightarrow> unit result" where
  "fail_unless b e = (if b then Inr () else Inl e)"

lemma fail_unless_Inr [simp]: "fail_unless b e = Inr u \<longleftrightarrow> b"
  by (simp add: fail_unless_def)

lemma fail_unless_Inl [simp]: "fail_unless b e = Inl e' \<longleftrightarrow> \<not> b \<and> e' = e"
  by (auto simp: fail_unless_def)

text \<open>
  \<open>BEGIN IMMEDIATE; body; COMMIT\<close>, with \<open>ROLLBACK\<close> and rethrow when the body throws: the
  database after an error is the one before the transaction.
\<close>

definition in_transaction :: "'db \<Rightarrow> ('a \<times> 'db) result \<Rightarrow> 'a result \<times> 'db" where
  "in_transaction db body =
     (case body of Inl e \<Rightarrow> (Inl e, db) | Inr (a, db') \<Rightarrow> (Inr a, db'))"

lemma in_transaction_Inl [simp]: "in_transaction db (Inl e) = (Inl e, db)"
  by (simp add: in_transaction_def)

lemma in_transaction_Inr [simp]: "in_transaction db (Inr (a, db')) = (Inr a, db')"
  by (simp add: in_transaction_def)

lemma in_transaction_error_rolls_back:
  "in_transaction db body = (Inl e, db') \<Longrightarrow> db' = db"
  by (auto simp: in_transaction_def split: sum.splits prod.splits)

lemma in_transaction_commit:
  "in_transaction db body = (Inr a, db') \<longleftrightarrow> body = Inr (a, db')"
  by (auto simp: in_transaction_def split: sum.splits prod.splits)

section \<open>Keyed tables\<close>

definition find_by :: "('r \<Rightarrow> 'k) \<Rightarrow> 'k \<Rightarrow> 'r list \<Rightarrow> 'r option" where
  "find_by key k rows = find (\<lambda>r. key r = k) rows"

definition update_by :: "('r \<Rightarrow> 'k) \<Rightarrow> 'k \<Rightarrow> ('r \<Rightarrow> 'r) \<Rightarrow> 'r list \<Rightarrow> 'r list" where
  "update_by key k f rows = map (\<lambda>r. if key r = k then f r else r) rows"

lemma find_by_simps [simp]:
  "find_by key k [] = None"
  "find_by key k (r # rows) = (if key r = k then Some r else find_by key k rows)"
  by (simp_all add: find_by_def)

lemma find_by_SomeD: "find_by key k rows = Some r \<Longrightarrow> r \<in> set rows \<and> key r = k"
  by (induction rows) (auto split: if_splits)

lemma find_by_None: "find_by key k rows = None \<longleftrightarrow> k \<notin> key ` set rows"
  by (induction rows) auto

lemma find_by_unique:
  "distinct (map key rows) \<Longrightarrow> r \<in> set rows \<Longrightarrow> find_by key (key r) rows = Some r"
  by (induction rows) (auto simp: image_iff)

lemma find_by_iff:
  "distinct (map key rows) \<Longrightarrow> find_by key k rows = Some r \<longleftrightarrow> r \<in> set rows \<and> key r = k"
  using find_by_SomeD find_by_unique by fastforce

text \<open>The rows with a property that determines the key are the one row that has it.\<close>

lemma filter_unique_key:
  assumes "distinct (map key xs)" "x \<in> set xs" "P x" and only: "\<And>y. y \<in> set xs \<Longrightarrow> P y \<Longrightarrow> key y = key x"
  shows "filter P xs = [x]"
proof -
  have inj: "inj_on key (set xs)" and dist: "distinct (filter P xs)"
    using assms(1) by (simp_all add: distinct_map)
  have same: "y = x" if "y \<in> set xs" "P y" for y
    by (rule inj_onD [OF inj only [OF that] that(1) assms(2)])
  have members: "set (filter P xs) = {x}"
    unfolding set_filter using same assms(2,3) by blast
  then have "length (filter P xs) = Suc 0" using distinct_card [OF dist] by simp
  then obtain y where "filter P xs = [y]" by (cases "filter P xs") auto
  with members show ?thesis by simp
qed

lemma find_by_append:
  "find_by key k (rows @ rows') =
     (case find_by key k rows of None \<Rightarrow> find_by key k rows' | Some r \<Rightarrow> Some r)"
  by (induction rows) auto

lemma distinct_key_eq:
  "distinct (map key rows) \<Longrightarrow> r \<in> set rows \<Longrightarrow> r' \<in> set rows \<Longrightarrow> key r = key r' \<Longrightarrow> r = r'"
  by (metis find_by_unique option.inject)

lemma update_by_simps [simp]:
  "update_by key k f [] = []"
  "update_by key k f (r # rows) = (if key r = k then f r else r) # update_by key k f rows"
  by (simp_all add: update_by_def)

lemma set_update_by:
  "set (update_by key k f rows) = {if key r = k then f r else r | r. r \<in> set rows}"
  by (auto simp: update_by_def)

lemma length_update_by [simp]: "length (update_by key k f rows) = length rows"
  by (simp add: update_by_def)

lemma update_by_append [simp]:
  "update_by key k f (rows @ rows') = update_by key k f rows @ update_by key k f rows'"
  by (simp add: update_by_def)

lemma update_by_absent: "k \<notin> key ` set rows \<Longrightarrow> update_by key k f rows = rows"
  by (induction rows) auto

text \<open>
  The contract of a row writer: it keeps the key of the row it writes. Everything the
  repositories need of \<open>UPDATE ... WHERE id = ?\<close> follows from that law.
\<close>

locale keyed_update =
  fixes key :: "'r \<Rightarrow> 'k"
    and upd :: "'r \<Rightarrow> 'r"
  assumes key_upd: "key (upd r) = key r"
begin

lemma map_key_update: "map key (update_by key k upd rows) = map key rows"
  by (induction rows) (auto simp: key_upd)

lemma keys_update: "key ` set (update_by key k upd rows) = key ` set rows"
  by (metis map_key_update set_map)

lemma distinct_update:
  "distinct (map key (update_by key k upd rows)) = distinct (map key rows)"
  by (simp only: map_key_update)

lemma find_update_same:
  "find_by key k (update_by key k upd rows) = map_option upd (find_by key k rows)"
  by (induction rows) (auto simp: key_upd)

lemma find_update_other:
  "k' \<noteq> k \<Longrightarrow> find_by key k' (update_by key k upd rows) = find_by key k' rows"
  by (induction rows) (auto simp: key_upd)

lemma find_update:
  "find_by key k' (update_by key k upd rows) =
     (if k' = k then map_option upd (find_by key k rows) else find_by key k' rows)"
  by (simp add: find_update_same find_update_other)

lemma in_updateD:
  "r \<in> set (update_by key k upd rows) \<Longrightarrow>
     (key r \<noteq> k \<and> r \<in> set rows) \<or> (key r = k \<and> (\<exists>r0. r0 \<in> set rows \<and> key r0 = k \<and> r = upd r0))"
  by (auto simp: set_update_by key_upd split: if_splits)

lemma all_update:
  assumes "\<And>r. r \<in> set rows \<Longrightarrow> P r"
    and "\<And>r. r \<in> set rows \<Longrightarrow> key r = k \<Longrightarrow> P r \<Longrightarrow> P (upd r)"
    and "r \<in> set (update_by key k upd rows)"
  shows "P r"
  using assms by (auto simp: set_update_by split: if_splits)

end

section \<open>Lists\<close>

text \<open>\<open>[...new Set(xs)]\<close>: the first occurrence of each element, in order.\<close>

fun unique_list :: "'a list \<Rightarrow> 'a list" where
  "unique_list [] = []"
| "unique_list (x # xs) = x # filter (\<lambda>y. y \<noteq> x) (unique_list xs)"

lemma set_unique_list [simp]: "set (unique_list xs) = set xs"
  by (induction xs) auto

lemma distinct_unique_list [simp]: "distinct (unique_list xs)"
  by (induction xs) auto

lemma unique_list_distinct: "distinct xs \<Longrightarrow> unique_list xs = xs"
proof (induction xs)
  case (Cons x xs)
  then have "filter (\<lambda>y. y \<noteq> x) xs = xs"
    by (auto simp: filter_id_conv)
  with Cons show ?case by simp
qed simp

text \<open>\<open>new Set(xs).size === xs.length\<close> is \<open>distinct\<close>.\<close>

lemma length_unique_list: "length (unique_list xs) = length xs \<longleftrightarrow> distinct xs"
proof -
  have "length (unique_list xs) = card (set xs)"
    using distinct_card [of "unique_list xs"] by simp
  then show ?thesis by (metis card_distinct distinct_card)
qed

text \<open>\<open>ORDER BY key ASC\<close>: a stable sort; the head of the result is a minimal row.\<close>

lemma sort_key_hd_minimal:
  fixes key :: "'a \<Rightarrow> 'k::linorder"
  assumes "sort_key key xs = y # ys" and "x \<in> set xs"
  shows "key y \<le> key x"
proof -
  have "sorted (map key (sort_key key xs))"
    by simp
  moreover have "x \<in> set (y # ys)"
    using assms by (metis set_sort)
  ultimately show ?thesis
    using assms(1) by auto
qed

lemma find_firstD:
  "find P xs = Some x \<Longrightarrow> \<exists>pre post. xs = pre @ x # post \<and> P x \<and> (\<forall>y\<in>set pre. \<not> P y)"
proof (induction xs)
  case (Cons a xs)
  show ?case
  proof (cases "P a")
    case True
    with Cons.prems have "a # xs = [] @ x # xs" "P x" by simp_all
    then show ?thesis by fastforce
  next
    case False
    with Cons obtain pre post where "xs = pre @ x # post" "P x" "\<forall>y\<in>set pre. \<not> P y"
      by auto
    with False have "a # xs = (a # pre) @ x # post" "P x" "\<forall>y\<in>set (a # pre). \<not> P y"
      by simp_all
    then show ?thesis by blast
  qed
qed simp

end
