(* ===== verification/Js_Text.thy ===== *)
theory Js_Text
  imports Base
begin

text \<open>
  JavaScript strings as the sources use them: a string is a list of code units (characters up
  to U+00FF), \<open>trim\<close> and \<open>toLowerCase\<close> are the language's, and each regular expression of
  the contracts is a recogniser of the same language, all of them anchored by \<open>^\<close> and \<open>$\<close>.
  A repetition such as \<open>[a-z0-9]+(?:-[a-z0-9]+)*\<close> is read as the pieces between the
  separators (\<open>split_on\<close>), each of which must match.
\<close>

section \<open>Characters and trimming\<close>

definition code_unit :: "char \<Rightarrow> nat" where
  "code_unit c = of_char c"

definition between :: "char \<Rightarrow> char \<Rightarrow> char \<Rightarrow> bool" where
  "between lo hi c = (code_unit lo \<le> code_unit c \<and> code_unit c \<le> code_unit hi)"

definition is_digit :: "char \<Rightarrow> bool" where
  "is_digit = between CHR ''0'' CHR ''9''"

definition is_lower :: "char \<Rightarrow> bool" where
  "is_lower = between CHR ''a'' CHR ''z''"

definition is_upper :: "char \<Rightarrow> bool" where
  "is_upper = between CHR ''A'' CHR ''Z''"

definition is_space :: "char \<Rightarrow> bool" where
  "is_space c = (let n = code_unit c in 9 \<le> n \<and> n \<le> 13 \<or> n = 32 \<or> n = 160)"

definition trim :: "string \<Rightarrow> string" where
  "trim s = rev (dropWhile is_space (rev (dropWhile is_space s)))"

definition to_lower_char :: "char \<Rightarrow> char" where
  "to_lower_char c =
     (let n = code_unit c
      in if is_upper c \<or> 192 \<le> n \<and> n \<le> 222 \<and> n \<noteq> 215 then char_of (n + 32) else c)"

definition toLowerCase :: "string \<Rightarrow> string" where
  "toLowerCase = map to_lower_char"

text \<open>\<open>s.split(sep)\<close> for a one-character separator; \<open>s.trim().split(/\s+/)\<close> as \<open>words\<close>.\<close>

fun split_on :: "char \<Rightarrow> string \<Rightarrow> string list" where
  "split_on sep [] = [[]]"
| "split_on sep (c # cs) =
     (if c = sep then [] # split_on sep cs
      else (case split_on sep cs of [] \<Rightarrow> [[c]] | w # ws \<Rightarrow> (c # w) # ws))"

fun split_spaces :: "string \<Rightarrow> string list" where
  "split_spaces [] = [[]]"
| "split_spaces [c] = (if is_space c then [[], []] else [[c]])"
| "split_spaces (c # d # cs) =
     (if is_space c then if is_space d then split_spaces (d # cs) else [] # split_spaces (d # cs)
      else (case split_spaces (d # cs) of [] \<Rightarrow> [[c]] | w # ws \<Rightarrow> (c # w) # ws))"

definition starts_with :: "string \<Rightarrow> string \<Rightarrow> bool" where
  "starts_with p s = (take (length p) s = p)"

lemma split_on_not_Nil [simp]: "split_on sep s \<noteq> []"
  by (induction s) (auto split: list.splits)

lemma split_on_none: "sep \<notin> set s \<Longrightarrow> split_on sep s = [s]"
  by (induction s) auto

lemma split_on_first: "sep \<notin> set s \<Longrightarrow> split_on sep (s @ sep # rest) = s # split_on sep rest"
  by (induction s) auto

lemma trim_length: "length (trim s) \<le> length s"
proof -
  have "length (dropWhile is_space (rev (dropWhile is_space s))) \<le> length (dropWhile is_space s)"
    using length_dropWhile_le [of is_space "rev (dropWhile is_space s)"] by simp
  then show ?thesis
    using length_dropWhile_le [of is_space s] by (simp add: trim_def)
qed

lemma dropWhile_idem [simp]: "dropWhile P (dropWhile P xs) = dropWhile P xs"
  by (metis dropWhile_eq_self_iff hd_dropWhile)

lemma dropWhile_rev_hd:
  "xs \<noteq> [] \<Longrightarrow> \<not> P (hd xs) \<Longrightarrow> dropWhile P (rev xs) \<noteq> [] \<and> last (dropWhile P (rev xs)) = hd xs"
proof -
  assume xs: "xs \<noteq> []" and hd: "\<not> P (hd xs)"
  obtain ys where ys: "rev xs = ys @ [hd xs]"
    using xs by (metis hd_Cons_tl rev.simps(2))
  show ?thesis
    unfolding ys using hd by (induction ys) auto
qed

lemma trim_idem [simp]: "trim (trim s) = trim s"
proof -
  define u where "u = dropWhile is_space s"
  define v where "v = dropWhile is_space (rev u)"
  have "dropWhile is_space (rev v) = rev v"
  proof (cases "u = []")
    case True
    then show ?thesis by (simp add: v_def)
  next
    case False
    then have "\<not> is_space (hd u)"
      using hd_dropWhile [of is_space s] by (simp add: u_def)
    with False have "v \<noteq> []" and "last v = hd u"
      using dropWhile_rev_hd [of u is_space] by (auto simp: v_def)
    then show ?thesis
      using \<open>\<not> is_space (hd u)\<close> by (simp add: dropWhile_eq_self_iff hd_rev)
  qed
  moreover have "dropWhile is_space v = v"
    by (simp add: v_def)
  ultimately show ?thesis
    by (simp add: trim_def u_def v_def)
qed

section \<open>The patterns of the contracts\<close>

text \<open>\<open>[0-9A-HJKMNP-TV-Z]\<close>: Crockford's base 32 digits.\<close>

definition is_crockford :: "char \<Rightarrow> bool" where
  "is_crockford c =
     (is_digit c \<or> between CHR ''A'' CHR ''H'' c \<or> c = CHR ''J'' \<or> c = CHR ''K'' \<or> c = CHR ''M''
      \<or> c = CHR ''N'' \<or> between CHR ''P'' CHR ''T'' c \<or> between CHR ''V'' CHR ''Z'' c)"

definition is_typed_id :: "string \<Rightarrow> string \<Rightarrow> bool" where
  "is_typed_id prefix s =
     (starts_with (prefix @ ''_'') s
      \<and> length s = length prefix + 27
      \<and> list_all is_crockford (drop (length prefix + 1) s))"

definition is_lower_alnum :: "char \<Rightarrow> bool" where
  "is_lower_alnum c = (is_lower c \<or> is_digit c)"

definition is_slug :: "string \<Rightarrow> bool" where
  "is_slug s = list_all (\<lambda>w. w \<noteq> [] \<and> list_all is_lower_alnum w) (split_on CHR ''-'' s)"

text \<open>\<open>^[a-z0-9]+(?:[._-][a-z0-9]+)*$\<close>.\<close>

definition is_runtime_id :: "string \<Rightarrow> bool" where
  "is_runtime_id s =
     is_slug (map (\<lambda>c. if c = CHR ''.'' \<or> c = CHR ''_'' then CHR ''-'' else c) s)"

text \<open>
  \<open>^\d+\.\d+\.\d+(?:-[0-9A-Za-z.-]+)?(?:\+[0-9A-Za-z.-]+)?$\<close>: the three numbers, then an
  optional pre-release and an optional build part; no part may hold a \<open>+\<close>.
\<close>

definition is_semver_char :: "char \<Rightarrow> bool" where
  "is_semver_char c =
     (is_digit c \<or> is_upper c \<or> is_lower c \<or> c = CHR ''.'' \<or> c = CHR ''-'')"

definition semver_part :: "string \<Rightarrow> bool" where
  "semver_part s = (s \<noteq> [] \<and> list_all is_semver_char s)"

definition is_semver_core :: "string \<Rightarrow> bool" where
  "is_semver_core s =
     (let ps = split_on CHR ''.'' s
      in length ps = 3 \<and> list_all (\<lambda>w. w \<noteq> [] \<and> list_all is_digit w) ps)"

definition is_semver_release :: "string \<Rightarrow> bool" where
  "is_semver_release s =
     (let core = takeWhile (\<lambda>c. c \<noteq> CHR ''-'') s; rest = dropWhile (\<lambda>c. c \<noteq> CHR ''-'') s
      in is_semver_core core \<and> (rest = [] \<or> semver_part (tl rest)))"

definition is_semver :: "string \<Rightarrow> bool" where
  "is_semver s =
     (let release = takeWhile (\<lambda>c. c \<noteq> CHR ''+'') s; build = dropWhile (\<lambda>c. c \<noteq> CHR ''+'') s
      in is_semver_release release \<and> (build = [] \<or> semver_part (tl build)))"

definition is_extension_key :: "string \<Rightarrow> bool" where
  "is_extension_key s =
     (case s of
        x # d # c # cs \<Rightarrow> x = CHR ''x'' \<and> d = CHR ''-'' \<and> is_lower_alnum c
          \<and> list_all (\<lambda>e. is_lower_alnum e \<or> e = CHR ''.'' \<or> e = CHR ''-'') cs
      | _ \<Rightarrow> False)"

definition is_hex :: "char \<Rightarrow> bool" where
  "is_hex c = (is_digit c \<or> between CHR ''a'' CHR ''f'' c)"

definition is_sha256 :: "string \<Rightarrow> bool" where
  "is_sha256 s = (length s = 64 \<and> list_all is_hex s)"

text \<open>\<open>^[A-Z]rest{lo,hi}$\<close> with \<open>rest = [A-Z0-9_]\<close>, the failure codes of both protocols.\<close>

definition is_code_char :: "char \<Rightarrow> bool" where
  "is_code_char c = (is_upper c \<or> is_digit c \<or> c = CHR ''_'')"

definition is_failure_code :: "string \<Rightarrow> bool" where
  "is_failure_code s =
     (3 \<le> length s \<and> length s \<le> 100 \<and> is_upper (hd s) \<and> list_all is_code_char (tl s))"

definition is_lifecycle_code :: "string \<Rightarrow> bool" where
  "is_lifecycle_code s =
     (2 \<le> length s \<and> length s \<le> 100 \<and> (is_upper (hd s) \<or> is_digit (hd s))
      \<and> list_all is_code_char (tl s))"

text \<open>\<open>^[A-Za-z]{2,3}(?:-[A-Za-z0-9]{2,8})*$\<close>.\<close>

definition is_locale :: "string \<Rightarrow> bool" where
  "is_locale s =
     (case split_on CHR ''-'' s of
        [] \<Rightarrow> False
      | w # ws \<Rightarrow> 2 \<le> length w \<and> length w \<le> 3 \<and> list_all (\<lambda>c. is_upper c \<or> is_lower c) w
          \<and> list_all (\<lambda>v. 2 \<le> length v \<and> length v \<le> 8
              \<and> list_all (\<lambda>c. is_upper c \<or> is_lower c \<or> is_digit c) v) ws)"

text \<open>\<open>^[A-Za-z][A-Za-z0-9+.-]*:\<close>, a prefix test.\<close>

definition is_uri :: "string \<Rightarrow> bool" where
  "is_uri s =
     (let scheme = takeWhile (\<lambda>c. c \<noteq> CHR '':'') s
      in CHR '':'' \<in> set s \<and> scheme \<noteq> [] \<and> (is_upper (hd scheme) \<or> is_lower (hd scheme))
         \<and> list_all (\<lambda>c. is_upper c \<or> is_lower c \<or> is_digit c
              \<or> c = CHR ''+'' \<or> c = CHR ''.'' \<or> c = CHR ''-'') scheme)"

text \<open>
  \<open>^[\w.+-]+\/[\w.+-]+(?:\s*;\s*[\w!#$&^_.+-]+=[\w!#$&^_.+-]+)*$\<close>: type, subtype and
  parameters. Neither class holds a semicolon, a slash or white space, so the pieces between
  the semicolons are the subtype and one parameter each, with white space around the
  semicolons only.
\<close>

definition is_mime_char :: "char \<Rightarrow> bool" where
  "is_mime_char c =
     (is_upper c \<or> is_lower c \<or> is_digit c \<or> c \<in> set ''_.+-'')"

definition is_param_char :: "char \<Rightarrow> bool" where
  "is_param_char c = (is_mime_char c \<or> c \<in> set ''!#$&^'')"

definition trim_left :: "string \<Rightarrow> string" where
  "trim_left = dropWhile is_space"

definition trim_right :: "string \<Rightarrow> string" where
  "trim_right s = rev (dropWhile is_space (rev s))"

definition is_mime_param :: "string \<Rightarrow> bool" where
  "is_mime_param s =
     (case split_on CHR ''='' s of
        [k, v] \<Rightarrow> k \<noteq> [] \<and> list_all is_param_char k \<and> v \<noteq> [] \<and> list_all is_param_char v
      | _ \<Rightarrow> False)"

fun mime_params :: "string list \<Rightarrow> bool" where
  "mime_params [] = True"
| "mime_params [p] = is_mime_param (trim_left p)"
| "mime_params (p # ps) = (is_mime_param (trim p) \<and> mime_params ps)"

definition is_mime_type :: "string \<Rightarrow> bool" where
  "is_mime_type s =
     (case split_on CHR '';'' s of
        [] \<Rightarrow> False
      | essence # ps \<Rightarrow>
          (case split_on CHR ''/'' (if ps = [] then essence else trim_right essence) of
             [t, u] \<Rightarrow> t \<noteq> [] \<and> list_all is_mime_char t \<and> u \<noteq> [] \<and> list_all is_mime_char u
           | _ \<Rightarrow> False)
          \<and> mime_params ps)"

end
