(* ===== verification/Json_Values.thy ===== *)
theory Json_Values
  imports Js_Text Complex_Main
begin

text \<open>
  JSON documents and the guards the contract files share
  (\<open>isRecord\<close>, \<open>hasOnlyKeys\<close>, \<open>isEnumValue\<close>, \<open>isExtensions\<close> and their kin, repeated in each file of
  \<open>packages/contracts/src\<close>). An object is its list of entries in insertion order, with a
  missing key read as \<open>undefined\<close>; numbers are rationals, so that \<open>Number.isInteger\<close> is a real
  test. The second half is \<open>hasForbiddenSecretValue\<close>, the recursive search for credential
  keys, and \<open>canonicalJson\<close> of the execution ledger.
\<close>

datatype json =
    JNull
  | JBool bool
  | JNum rat
  | JStr string
  | JArr "json list"
  | JObj "(string \<times> json) list"

type_synonym json_object = "(string \<times> json) list"

section \<open>Property access and the shared guards\<close>

definition field :: "string \<Rightarrow> json_object \<Rightarrow> json option" where
  "field k ob = map_of ob k"

definition keys :: "json_object \<Rightarrow> string list" where
  "keys ob = map fst ob"

fun isRecord :: "json \<Rightarrow> bool" where
  "isRecord (JObj _) = True"
| "isRecord _ = False"

definition hasOnlyKeys :: "json_object \<Rightarrow> string list \<Rightarrow> bool" where
  "hasOnlyKeys ob allowed = list_all (\<lambda>k. k \<in> set allowed) (keys ob)"

definition hasRequiredKeys :: "json_object \<Rightarrow> string list \<Rightarrow> bool" where
  "hasRequiredKeys ob required = list_all (\<lambda>k. k \<in> set (keys ob)) required"

fun isEnumValue :: "string list \<Rightarrow> json \<Rightarrow> bool" where
  "isEnumValue values (JStr s) = (s \<in> set values)"
| "isEnumValue values _ = False"

definition isInteger :: "rat \<Rightarrow> bool" where
  "isInteger r = (of_int \<lfloor>r\<rfloor> = r)"

fun isNonNegativeInteger :: "json \<Rightarrow> bool" where
  "isNonNegativeInteger (JNum r) = (isInteger r \<and> 0 \<le> r)"
| "isNonNegativeInteger _ = False"

fun isPositiveInteger :: "json \<Rightarrow> bool" where
  "isPositiveInteger (JNum r) = (isInteger r \<and> 0 < r)"
| "isPositiveInteger _ = False"

fun isBool :: "json \<Rightarrow> bool" where
  "isBool (JBool _) = True"
| "isBool _ = False"

fun isString :: "json \<Rightarrow> bool" where
  "isString (JStr _) = True"
| "isString _ = False"

fun isStringWith :: "(string \<Rightarrow> bool) \<Rightarrow> json \<Rightarrow> bool" where
  "isStringWith P (JStr s) = P s"
| "isStringWith P _ = False"

fun isArrayOf :: "(json \<Rightarrow> bool) \<Rightarrow> json \<Rightarrow> bool" where
  "isArrayOf P (JArr vs) = list_all P vs"
| "isArrayOf P _ = False"

definition isEnumArray :: "string list \<Rightarrow> json \<Rightarrow> bool" where
  "isEnumArray values = isArrayOf (isEnumValue values)"

fun arrayLength :: "json \<Rightarrow> nat" where
  "arrayLength (JArr vs) = length vs"
| "arrayLength _ = 0"

fun isSetArray :: "json \<Rightarrow> bool" where
  "isSetArray (JArr vs) = distinct vs"
| "isSetArray _ = False"

text \<open>\<open>value.k\<close> passed to a guard: required (undefined fails) or optional (undefined passes).\<close>

definition has :: "json_object \<Rightarrow> string \<Rightarrow> (json \<Rightarrow> bool) \<Rightarrow> bool" where
  "has ob k P = (case field k ob of None \<Rightarrow> False | Some v \<Rightarrow> P v)"

definition may_have :: "json_object \<Rightarrow> string \<Rightarrow> (json \<Rightarrow> bool) \<Rightarrow> bool" where
  "may_have ob k P = (case field k ob of None \<Rightarrow> True | Some v \<Rightarrow> P v)"

definition lacks :: "json_object \<Rightarrow> string \<Rightarrow> bool" where
  "lacks ob k = (field k ob = None)"

definition has_record :: "json_object \<Rightarrow> string \<Rightarrow> (json_object \<Rightarrow> bool) \<Rightarrow> bool" where
  "has_record ob k P = (case field k ob of Some (JObj c) \<Rightarrow> P c | _ \<Rightarrow> False)"

lemma isInteger_of_int [simp]: "isInteger (of_int i)"
  by (simp add: isInteger_def)

lemma isInteger_numeral [simp]: "isInteger (numeral n)" "isInteger 0" "isInteger 1"
  using isInteger_of_int [of "numeral n"] isInteger_of_int [of 0] isInteger_of_int [of 1]
  by simp_all

lemma isInteger_iff: "isInteger r \<longleftrightarrow> (\<exists>i. r = of_int i)"
  by (metis isInteger_def isInteger_of_int)

lemma field_Nil [simp]: "field k [] = None"
  by (simp add: field_def)

lemma field_Cons [simp]: "field k ((k', v) # ob) = (if k = k' then Some v else field k ob)"
  by (simp add: field_def)

lemma field_append: "field k (ob @ ob') = (case field k ob of None \<Rightarrow> field k ob' | Some v \<Rightarrow> Some v)"
  by (simp add: field_def map_add_def split: option.split)

lemma keys_simps [simp]:
  "keys [] = []" "keys ((k, v) # ob) = k # keys ob" "keys (ob @ ob') = keys ob @ keys ob'"
  by (simp_all add: keys_def)

lemma field_None: "field k ob = None \<longleftrightarrow> k \<notin> set (keys ob)"
  by (simp add: field_def keys_def map_of_eq_None_iff)

text \<open>
  Encoders: \<open>JSON.stringify\<close> leaves out a key whose value is \<open>undefined\<close>. The optional keys of
  a document are its last entries here; no reader of the program depends on their place.
\<close>

fun opt_entry :: "string \<Rightarrow> ('a \<Rightarrow> json) \<Rightarrow> 'a option \<Rightarrow> json_object" where
  "opt_entry k f None = []"
| "opt_entry k f (Some v) = [(k, f v)]"

abbreviation JStrs :: "string list \<Rightarrow> json" where
  "JStrs ss \<equiv> JArr (map JStr ss)"

abbreviation JInt :: "int \<Rightarrow> json" where
  "JInt i \<equiv> JNum (of_int i)"

abbreviation is_text :: "string \<Rightarrow> json \<Rightarrow> bool" where
  "is_text s \<equiv> isStringWith (\<lambda>t. t = s)"

lemma field_opt_entry [simp]:
  "field k (opt_entry k' f v) = (if k = k' then map_option f v else None)"
  "k \<noteq> k' \<Longrightarrow> field k (opt_entry k' f v @ ob) = field k ob"
  "field k ob = None \<Longrightarrow> field k (opt_entry k f v @ ob) = map_option f v"
  by (cases v; simp)+

lemma keys_opt_entry [simp]:
  "set (keys (opt_entry k f v)) = (if v = None then {} else {k})"
  "list_all P (keys (opt_entry k f v)) \<longleftrightarrow> (v \<noteq> None \<longrightarrow> P k)"
  by (cases v; simp)+

lemma isArrayOf_map [simp]: "isArrayOf P (JArr (map f xs)) = list_all (\<lambda>x. P (f x)) xs"
  by (simp add: list.pred_map comp_def)

lemma isSetArray_map [simp]: "isSetArray (JArr (map f xs)) = distinct (map f xs)"
  by simp

lemma distinct_JStr [simp]: "distinct (map JStr xs) = distinct xs"
  by (simp add: distinct_map inj_on_def)

lemma isInteger_JInt [simp]:
  "isNonNegativeInteger (JInt i) = (0 \<le> i)" "isPositiveInteger (JInt i) = (0 < i)"
  by simp_all

lemma required_key_defined:
  "hasRequiredKeys ob required \<Longrightarrow> k \<in> set required \<Longrightarrow> field k ob \<noteq> None"
  by (auto simp: hasRequiredKeys_def list_all_iff field_None)

lemma undeclared_key_undefined:
  "hasOnlyKeys ob allowed \<Longrightarrow> k \<notin> set allowed \<Longrightarrow> field k ob = None"
  by (auto simp: hasOnlyKeys_def list_all_iff field_None)

section \<open>Credentials in documents\<close>

definition forbiddenSecretKeys :: "string list" where
  "forbiddenSecretKeys =
     [''password'', ''token'', ''apikey'', ''apisecret'', ''clientsecret'', ''privatekey'',
      ''accesskey'', ''secret'']"

definition normalizedSecretKey :: "string \<Rightarrow> string" where
  "normalizedSecretKey k =
     filter (\<lambda>c. \<not> (c = CHR ''-'' \<or> c = CHR ''_'' \<or> is_space c)) (toLowerCase k)"

fun hasForbiddenSecretValue :: "json \<Rightarrow> bool" where
  "hasForbiddenSecretValue (JArr vs) = list_ex hasForbiddenSecretValue vs"
| "hasForbiddenSecretValue (JObj ob) =
     list_ex (\<lambda>(k, child). normalizedSecretKey k \<in> set forbiddenSecretKeys
                \<or> hasForbiddenSecretValue child) ob"
| "hasForbiddenSecretValue _ = False"

text \<open>\<open>isExtensions\<close> of schema v1 checks the keys only; the execution contracts also search for secrets.\<close>

fun isSchemaExtensions :: "json \<Rightarrow> bool" where
  "isSchemaExtensions (JObj ob) = list_all is_extension_key (keys ob)"
| "isSchemaExtensions _ = False"

fun isExtensions :: "json \<Rightarrow> bool" where
  "isExtensions (JObj ob) =
     (list_all is_extension_key (keys ob) \<and> \<not> hasForbiddenSecretValue (JObj ob))"
| "isExtensions _ = False"

text \<open>
  What the search promises, independently of the order in which it walks: it fails exactly
  when some object inside the document has a credential key. \<open>occurs_in\<close> is the
  sub-document relation.
\<close>

inductive occurs_in :: "json \<Rightarrow> json \<Rightarrow> bool" where
  here: "occurs_in v v"
| element: "occurs_in v w \<Longrightarrow> w \<in> set ws \<Longrightarrow> occurs_in v (JArr ws)"
| entry: "occurs_in v w \<Longrightarrow> (k, w) \<in> set ob \<Longrightarrow> occurs_in v (JObj ob)"

inductive_cases occurs_in_ArrE: "occurs_in v (JArr ws)"
inductive_cases occurs_in_ObjE: "occurs_in v (JObj ob)"

lemma hasForbiddenSecretValue_sound:
  "occurs_in (JObj ob) v \<Longrightarrow> k \<in> set (keys ob) \<Longrightarrow>
     normalizedSecretKey k \<in> set forbiddenSecretKeys \<Longrightarrow> hasForbiddenSecretValue v"
proof (induction "JObj ob" v rule: occurs_in.induct)
  case here
  then show ?case by (fastforce simp: list_ex_iff keys_def)
next
  case (element w ws)
  then show ?case by (auto simp: list_ex_iff)
next
  case (entry w k ob')
  then show ?case by (fastforce simp: list_ex_iff)
qed

lemma hasForbiddenSecretValue_complete:
  "hasForbiddenSecretValue v \<Longrightarrow>
     \<exists>ob k. occurs_in (JObj ob) v \<and> k \<in> set (keys ob)
            \<and> normalizedSecretKey k \<in> set forbiddenSecretKeys"
proof (induction v rule: hasForbiddenSecretValue.induct)
  case (1 vs)
  then show ?case by (fastforce simp: list_ex_iff intro: occurs_in.element)
next
  case (2 kvs)
  then obtain k c where kc: "(k, c) \<in> set kvs"
    and "normalizedSecretKey k \<in> set forbiddenSecretKeys \<or> hasForbiddenSecretValue c"
    by (auto simp: list_ex_iff)
  then show ?case
  proof (elim disjE)
    assume "normalizedSecretKey k \<in> set forbiddenSecretKeys"
    moreover have "k \<in> set (keys kvs)"
      using kc by (force simp: keys_def)
    ultimately show ?thesis using occurs_in.here by blast
  next
    assume "hasForbiddenSecretValue c"
    with "2.IH" [OF kc refl] kc show ?thesis
      by (blast intro: occurs_in.entry)
  qed
qed simp_all

section \<open>Canonical JSON\<close>

text \<open>
  \<open>canonicalJson\<close> prints a value with the entries of every object sorted by key, so two
  texts are equal exactly when the sorted values are: \<open>canonical\<close> is that value. The sort is by
  code units; \<open>localeCompare\<close> orders extension keys differently but, being a total order on
  them too, identifies the same values.
\<close>

fun canonical :: "json \<Rightarrow> json" where
  "canonical (JArr vs) = JArr (map canonical vs)"
| "canonical (JObj ob) = JObj (sort_key fst (map (\<lambda>(k, v). (k, canonical v)) ob))"
| "canonical v = v"

end
