(* ===== verification/Vocabulary.thy ===== *)
theory Vocabulary
  imports Json_Values
begin

text \<open>
  The closed vocabularies of \<open>packages/contracts/src\<close> (\<open>vocabularies.ts\<close>, and the \<open>as const\<close>
  lists of \<open>schema-v1.ts\<close>, \<open>execution-v1.ts\<close>, \<open>worker-protocol-v1.ts\<close> and
  \<open>worker-execution-v1.ts\<close>). Each is a datatype with the function that names its values
  as the documents do; the list of the source is the image of the constructors, and the
  names are distinct, so a guard \<open>isEnumValue(LIST, name)\<close> holds of every encoded value.
\<close>

section \<open>Sources, connectors and plans\<close>

datatype source_type =
  S_WEB | S_API | S_EMAIL | S_LOCAL_FOLDER | S_DATABASE | S_GITHUB | S_RSS | S_MANUAL_UPLOAD

fun source_type_name :: "source_type \<Rightarrow> string" where
  "source_type_name S_WEB = ''WEB''"
| "source_type_name S_API = ''API''"
| "source_type_name S_EMAIL = ''EMAIL''"
| "source_type_name S_LOCAL_FOLDER = ''LOCAL_FOLDER''"
| "source_type_name S_DATABASE = ''DATABASE''"
| "source_type_name S_GITHUB = ''GITHUB''"
| "source_type_name S_RSS = ''RSS''"
| "source_type_name S_MANUAL_UPLOAD = ''MANUAL_UPLOAD''"

definition SOURCE_TYPES :: "string list" where
  "SOURCE_TYPES =
     [''WEB'', ''API'', ''EMAIL'', ''LOCAL_FOLDER'', ''DATABASE'', ''GITHUB'', ''RSS'',
      ''MANUAL_UPLOAD'']"

datatype source_status = S_DRAFT | S_ACTIVE | S_PAUSED | S_ERROR | S_ARCHIVED

fun source_status_name :: "source_status \<Rightarrow> string" where
  "source_status_name S_DRAFT = ''DRAFT''"
| "source_status_name S_ACTIVE = ''ACTIVE''"
| "source_status_name S_PAUSED = ''PAUSED''"
| "source_status_name S_ERROR = ''ERROR''"
| "source_status_name S_ARCHIVED = ''ARCHIVED''"

definition SOURCE_STATUSES :: "string list" where
  "SOURCE_STATUSES = [''DRAFT'', ''ACTIVE'', ''PAUSED'', ''ERROR'', ''ARCHIVED'']"

definition SOURCE_CATEGORIES :: "string list" where
  "SOURCE_CATEGORIES =
     [''OFFICIAL_AUTHORITY'', ''OFFICIAL_GUIDANCE'', ''LAW_FIRM'', ''NEWS'', ''RESEARCH'',
      ''TECHNICAL'', ''INTERNAL'', ''USER_PROVIDED'', ''OTHER'']"

definition AUTHORITY_LEVELS :: "string list" where
  "AUTHORITY_LEVELS =
     [''PRIMARY_OFFICIAL'', ''SECONDARY_OFFICIAL'', ''PROFESSIONAL'', ''INDUSTRY'',
      ''COMMUNITY'', ''INTERNAL'', ''UNKNOWN'']"

datatype connector_status = C_ACTIVE | C_DEPRECATED | C_DISABLED

fun connector_status_name :: "connector_status \<Rightarrow> string" where
  "connector_status_name C_ACTIVE = ''ACTIVE''"
| "connector_status_name C_DEPRECATED = ''DEPRECATED''"
| "connector_status_name C_DISABLED = ''DISABLED''"

definition CONNECTOR_STATUSES :: "string list" where
  "CONNECTOR_STATUSES = [''ACTIVE'', ''DEPRECATED'', ''DISABLED'']"

definition CONNECTOR_RUNTIMES :: "string list" where
  "CONNECTOR_RUNTIMES = [''PYTHON'', ''NODE'', ''EXTERNAL'', ''LOCAL_AGENT'']"

definition HEALTH_CHECK_MODES :: "string list" where
  "HEALTH_CHECK_MODES = [''NONE'', ''DECLARATIVE_ENDPOINT'', ''WORKER_PROBE'']"

datatype capability =
    TEST_CONNECTION | DISCOVER | PREVIEW | COLLECT | CHECK_UPDATE | DEEP_CRAWL
  | RENDER_JAVASCRIPT | FETCH_ATTACHMENTS | WATCH | IMPORT

fun capability_name :: "capability \<Rightarrow> string" where
  "capability_name TEST_CONNECTION = ''TEST_CONNECTION''"
| "capability_name DISCOVER = ''DISCOVER''"
| "capability_name PREVIEW = ''PREVIEW''"
| "capability_name COLLECT = ''COLLECT''"
| "capability_name CHECK_UPDATE = ''CHECK_UPDATE''"
| "capability_name DEEP_CRAWL = ''DEEP_CRAWL''"
| "capability_name RENDER_JAVASCRIPT = ''RENDER_JAVASCRIPT''"
| "capability_name FETCH_ATTACHMENTS = ''FETCH_ATTACHMENTS''"
| "capability_name WATCH = ''WATCH''"
| "capability_name IMPORT = ''IMPORT''"

definition CONNECTOR_CAPABILITIES :: "string list" where
  "CONNECTOR_CAPABILITIES =
     [''TEST_CONNECTION'', ''DISCOVER'', ''PREVIEW'', ''COLLECT'', ''CHECK_UPDATE'',
      ''DEEP_CRAWL'', ''RENDER_JAVASCRIPT'', ''FETCH_ATTACHMENTS'', ''WATCH'', ''IMPORT'']"

datatype artifact_kind =
    A_HTML | A_PDF | A_DOCX | A_XLSX | A_CSV | A_JSON | A_XML | A_EMAIL | A_IMAGE | A_AUDIO
  | A_VIDEO | A_TEXT | A_MARKDOWN | A_OTHER

fun artifact_kind_name :: "artifact_kind \<Rightarrow> string" where
  "artifact_kind_name A_HTML = ''HTML''"
| "artifact_kind_name A_PDF = ''PDF''"
| "artifact_kind_name A_DOCX = ''DOCX''"
| "artifact_kind_name A_XLSX = ''XLSX''"
| "artifact_kind_name A_CSV = ''CSV''"
| "artifact_kind_name A_JSON = ''JSON''"
| "artifact_kind_name A_XML = ''XML''"
| "artifact_kind_name A_EMAIL = ''EMAIL''"
| "artifact_kind_name A_IMAGE = ''IMAGE''"
| "artifact_kind_name A_AUDIO = ''AUDIO''"
| "artifact_kind_name A_VIDEO = ''VIDEO''"
| "artifact_kind_name A_TEXT = ''TEXT''"
| "artifact_kind_name A_MARKDOWN = ''MARKDOWN''"
| "artifact_kind_name A_OTHER = ''OTHER''"

definition ARTIFACT_KINDS :: "string list" where
  "ARTIFACT_KINDS =
     [''HTML'', ''PDF'', ''DOCX'', ''XLSX'', ''CSV'', ''JSON'', ''XML'', ''EMAIL'', ''IMAGE'',
      ''AUDIO'', ''VIDEO'', ''TEXT'', ''MARKDOWN'', ''OTHER'']"

datatype plan_status = P_ACTIVE | P_PAUSED | P_ARCHIVED

fun plan_status_name :: "plan_status \<Rightarrow> string" where
  "plan_status_name P_ACTIVE = ''ACTIVE''"
| "plan_status_name P_PAUSED = ''PAUSED''"
| "plan_status_name P_ARCHIVED = ''ARCHIVED''"

definition COLLECTION_PLAN_STATUSES :: "string list" where
  "COLLECTION_PLAN_STATUSES = [''ACTIVE'', ''PAUSED'', ''ARCHIVED'']"

datatype priority = CRITICAL | HIGH | NORMAL | LOW

fun priority_name :: "priority \<Rightarrow> string" where
  "priority_name CRITICAL = ''CRITICAL''"
| "priority_name HIGH = ''HIGH''"
| "priority_name NORMAL = ''NORMAL''"
| "priority_name LOW = ''LOW''"

definition COLLECTION_PRIORITIES :: "string list" where
  "COLLECTION_PRIORITIES = [''CRITICAL'', ''HIGH'', ''NORMAL'', ''LOW'']"

section \<open>Jobs and runs\<close>

datatype job_type =
    WEB_DISCOVERY | WEB_CRAWL | PAGE_UPDATE_CHECK | API_COLLECTION | EMAIL_IMPORT
  | LOCAL_FILE_SCAN | DOCUMENT_CONVERSION | VAULT_EXPORT | VAULT_IMPORT | PACKAGE_BUILD

fun job_type_name :: "job_type \<Rightarrow> string" where
  "job_type_name WEB_DISCOVERY = ''WEB_DISCOVERY''"
| "job_type_name WEB_CRAWL = ''WEB_CRAWL''"
| "job_type_name PAGE_UPDATE_CHECK = ''PAGE_UPDATE_CHECK''"
| "job_type_name API_COLLECTION = ''API_COLLECTION''"
| "job_type_name EMAIL_IMPORT = ''EMAIL_IMPORT''"
| "job_type_name LOCAL_FILE_SCAN = ''LOCAL_FILE_SCAN''"
| "job_type_name DOCUMENT_CONVERSION = ''DOCUMENT_CONVERSION''"
| "job_type_name VAULT_EXPORT = ''VAULT_EXPORT''"
| "job_type_name VAULT_IMPORT = ''VAULT_IMPORT''"
| "job_type_name PACKAGE_BUILD = ''PACKAGE_BUILD''"

definition JOB_TYPES :: "string list" where
  "JOB_TYPES =
     [''WEB_DISCOVERY'', ''WEB_CRAWL'', ''PAGE_UPDATE_CHECK'', ''API_COLLECTION'',
      ''EMAIL_IMPORT'', ''LOCAL_FILE_SCAN'', ''DOCUMENT_CONVERSION'', ''VAULT_EXPORT'',
      ''VAULT_IMPORT'', ''PACKAGE_BUILD'']"

datatype job_status =
    J_PENDING | J_LEASED | J_RUNNING | J_UPLOADING | J_VERIFYING | J_COMPLETED | J_RETRY
  | J_FAILED | J_DEAD_LETTER | J_CANCELLED

fun job_status_name :: "job_status \<Rightarrow> string" where
  "job_status_name J_PENDING = ''PENDING''"
| "job_status_name J_LEASED = ''LEASED''"
| "job_status_name J_RUNNING = ''RUNNING''"
| "job_status_name J_UPLOADING = ''UPLOADING''"
| "job_status_name J_VERIFYING = ''VERIFYING''"
| "job_status_name J_COMPLETED = ''COMPLETED''"
| "job_status_name J_RETRY = ''RETRY''"
| "job_status_name J_FAILED = ''FAILED''"
| "job_status_name J_DEAD_LETTER = ''DEAD_LETTER''"
| "job_status_name J_CANCELLED = ''CANCELLED''"

definition JOB_STATUSES :: "string list" where
  "JOB_STATUSES =
     [''PENDING'', ''LEASED'', ''RUNNING'', ''UPLOADING'', ''VERIFYING'', ''COMPLETED'',
      ''RETRY'', ''FAILED'', ''DEAD_LETTER'', ''CANCELLED'']"

datatype run_status = R_PENDING | R_RUNNING | R_COMPLETED | R_FAILED | R_CANCELLED

fun run_status_name :: "run_status \<Rightarrow> string" where
  "run_status_name R_PENDING = ''PENDING''"
| "run_status_name R_RUNNING = ''RUNNING''"
| "run_status_name R_COMPLETED = ''COMPLETED''"
| "run_status_name R_FAILED = ''FAILED''"
| "run_status_name R_CANCELLED = ''CANCELLED''"

definition COLLECTION_RUN_STATUSES :: "string list" where
  "COLLECTION_RUN_STATUSES =
     [''PENDING'', ''RUNNING'', ''COMPLETED'', ''FAILED'', ''CANCELLED'']"

datatype trigger_type = T_MANUAL | T_SCHEDULED | T_RETRY | T_API

fun trigger_type_name :: "trigger_type \<Rightarrow> string" where
  "trigger_type_name T_MANUAL = ''MANUAL''"
| "trigger_type_name T_SCHEDULED = ''SCHEDULED''"
| "trigger_type_name T_RETRY = ''RETRY''"
| "trigger_type_name T_API = ''API''"

definition RUN_TRIGGER_TYPES :: "string list" where
  "RUN_TRIGGER_TYPES = [''MANUAL'', ''SCHEDULED'', ''RETRY'', ''API'']"

datatype actor_type = LOCAL_ADMIN | SYSTEM | API_CLIENT

fun actor_type_name :: "actor_type \<Rightarrow> string" where
  "actor_type_name LOCAL_ADMIN = ''LOCAL_ADMIN''"
| "actor_type_name SYSTEM = ''SYSTEM''"
| "actor_type_name API_CLIENT = ''API_CLIENT''"

definition EXECUTION_ACTOR_TYPES :: "string list" where
  "EXECUTION_ACTOR_TYPES = [''LOCAL_ADMIN'', ''SYSTEM'', ''API_CLIENT'']"

section \<open>Workers, leases and attempts\<close>

datatype desired_state = W_ACTIVE | W_DRAINING | W_DISABLED

fun desired_state_name :: "desired_state \<Rightarrow> string" where
  "desired_state_name W_ACTIVE = ''ACTIVE''"
| "desired_state_name W_DRAINING = ''DRAINING''"
| "desired_state_name W_DISABLED = ''DISABLED''"

definition WORKER_DESIRED_STATES :: "string list" where
  "WORKER_DESIRED_STATES = [''ACTIVE'', ''DRAINING'', ''DISABLED'']"

datatype worker_status = ST_ONLINE | ST_BUSY | ST_DRAINING | ST_OFFLINE | ST_DISABLED | ST_ERROR

datatype health_state = HEALTHY | DEGRADED | HEALTH_ERROR

fun health_state_name :: "health_state \<Rightarrow> string" where
  "health_state_name HEALTHY = ''HEALTHY''"
| "health_state_name DEGRADED = ''DEGRADED''"
| "health_state_name HEALTH_ERROR = ''ERROR''"

definition WORKER_HEALTH_STATES :: "string list" where
  "WORKER_HEALTH_STATES = [''HEALTHY'', ''DEGRADED'', ''ERROR'']"

datatype lease_status = L_ACTIVE | L_RELEASED | L_EXPIRED | L_REVOKED

fun lease_status_name :: "lease_status \<Rightarrow> string" where
  "lease_status_name L_ACTIVE = ''ACTIVE''"
| "lease_status_name L_RELEASED = ''RELEASED''"
| "lease_status_name L_EXPIRED = ''EXPIRED''"
| "lease_status_name L_REVOKED = ''REVOKED''"

definition JOB_LEASE_STATUSES :: "string list" where
  "JOB_LEASE_STATUSES = [''ACTIVE'', ''RELEASED'', ''EXPIRED'', ''REVOKED'']"

datatype attempt_status = X_RUNNING | X_UPLOADING | X_VERIFYING | X_COMPLETED | X_FAILED

fun attempt_status_name :: "attempt_status \<Rightarrow> string" where
  "attempt_status_name X_RUNNING = ''RUNNING''"
| "attempt_status_name X_UPLOADING = ''UPLOADING''"
| "attempt_status_name X_VERIFYING = ''VERIFYING''"
| "attempt_status_name X_COMPLETED = ''COMPLETED''"
| "attempt_status_name X_FAILED = ''FAILED''"

definition EXECUTION_ATTEMPT_STATUSES :: "string list" where
  "EXECUTION_ATTEMPT_STATUSES =
     [''RUNNING'', ''UPLOADING'', ''VERIFYING'', ''COMPLETED'', ''FAILED'']"

datatype event_type = E_STARTED | E_UPLOADING | E_VERIFYING | E_COMPLETED | E_FAILED | E_ABANDONED

fun event_type_name :: "event_type \<Rightarrow> string" where
  "event_type_name E_STARTED = ''STARTED''"
| "event_type_name E_UPLOADING = ''UPLOADING''"
| "event_type_name E_VERIFYING = ''VERIFYING''"
| "event_type_name E_COMPLETED = ''COMPLETED''"
| "event_type_name E_FAILED = ''FAILED''"
| "event_type_name E_ABANDONED = ''ABANDONED''"

definition EXECUTION_EVENT_TYPES :: "string list" where
  "EXECUTION_EVENT_TYPES =
     [''STARTED'', ''UPLOADING'', ''VERIFYING'', ''COMPLETED'', ''FAILED'', ''ABANDONED'']"

definition EXECUTOR_MODES :: "string list" where
  "EXECUTOR_MODES = [''FIXTURE'', ''PRODUCTION'']"

section \<open>Every name is in its list\<close>

lemma name_in_list [doc_simps]:
  "source_type_name st \<in> set SOURCE_TYPES"
  "source_status_name ss \<in> set SOURCE_STATUSES"
  "connector_status_name cs \<in> set CONNECTOR_STATUSES"
  "capability_name c \<in> set CONNECTOR_CAPABILITIES"
  "artifact_kind_name k \<in> set ARTIFACT_KINDS"
  "plan_status_name ps \<in> set COLLECTION_PLAN_STATUSES"
  "priority_name p \<in> set COLLECTION_PRIORITIES"
  "job_type_name jt \<in> set JOB_TYPES"
  "job_status_name js \<in> set JOB_STATUSES"
  "run_status_name rs \<in> set COLLECTION_RUN_STATUSES"
  "trigger_type_name t \<in> set RUN_TRIGGER_TYPES"
  "actor_type_name a \<in> set EXECUTION_ACTOR_TYPES"
  "desired_state_name ds \<in> set WORKER_DESIRED_STATES"
  "health_state_name h \<in> set WORKER_HEALTH_STATES"
  "lease_status_name ls \<in> set JOB_LEASE_STATUSES"
  "attempt_status_name x \<in> set EXECUTION_ATTEMPT_STATUSES"
  "event_type_name e \<in> set EXECUTION_EVENT_TYPES"
proof -
  show "source_type_name st \<in> set SOURCE_TYPES" by (cases st) (simp_all add: SOURCE_TYPES_def)
  show "source_status_name ss \<in> set SOURCE_STATUSES" by (cases ss) (simp_all add: SOURCE_STATUSES_def)
  show "connector_status_name cs \<in> set CONNECTOR_STATUSES" by (cases cs) (simp_all add: CONNECTOR_STATUSES_def)
  show "capability_name c \<in> set CONNECTOR_CAPABILITIES" by (cases c) (simp_all add: CONNECTOR_CAPABILITIES_def)
  show "artifact_kind_name k \<in> set ARTIFACT_KINDS" by (cases k) (simp_all add: ARTIFACT_KINDS_def)
  show "plan_status_name ps \<in> set COLLECTION_PLAN_STATUSES" by (cases ps) (simp_all add: COLLECTION_PLAN_STATUSES_def)
  show "priority_name p \<in> set COLLECTION_PRIORITIES" by (cases p) (simp_all add: COLLECTION_PRIORITIES_def)
  show "job_type_name jt \<in> set JOB_TYPES" by (cases jt) (simp_all add: JOB_TYPES_def)
  show "job_status_name js \<in> set JOB_STATUSES" by (cases js) (simp_all add: JOB_STATUSES_def)
  show "run_status_name rs \<in> set COLLECTION_RUN_STATUSES" by (cases rs) (simp_all add: COLLECTION_RUN_STATUSES_def)
  show "trigger_type_name t \<in> set RUN_TRIGGER_TYPES" by (cases t) (simp_all add: RUN_TRIGGER_TYPES_def)
  show "actor_type_name a \<in> set EXECUTION_ACTOR_TYPES" by (cases a) (simp_all add: EXECUTION_ACTOR_TYPES_def)
  show "desired_state_name ds \<in> set WORKER_DESIRED_STATES" by (cases ds) (simp_all add: WORKER_DESIRED_STATES_def)
  show "health_state_name h \<in> set WORKER_HEALTH_STATES" by (cases h) (simp_all add: WORKER_HEALTH_STATES_def)
  show "lease_status_name ls \<in> set JOB_LEASE_STATUSES" by (cases ls) (simp_all add: JOB_LEASE_STATUSES_def)
  show "attempt_status_name x \<in> set EXECUTION_ATTEMPT_STATUSES" by (cases x) (simp_all add: EXECUTION_ATTEMPT_STATUSES_def)
  show "event_type_name e \<in> set EXECUTION_EVENT_TYPES" by (cases e) (simp_all add: EXECUTION_EVENT_TYPES_def)
qed

lemma capability_name_inject [simp]: "capability_name c = capability_name d \<longleftrightarrow> c = d"
  by (cases c; cases d; simp)

lemma artifact_kind_name_inject [simp]: "artifact_kind_name c = artifact_kind_name d \<longleftrightarrow> c = d"
  by (cases c; cases d; simp)

lemma job_type_name_inject [simp]: "job_type_name c = job_type_name d \<longleftrightarrow> c = d"
  by (cases c; cases d; simp)

lemma lease_status_name_inject [simp]: "lease_status_name c = lease_status_name d \<longleftrightarrow> c = d"
  by (cases c; cases d; simp)

end
