(* ===== verification/Js_Date.thy ===== *)
theory Js_Date
  imports Js_Text
begin

text \<open>
  The part of JavaScript's \<open>Date\<close> the control plane rests on. A time value is an integer of
  milliseconds since 1970; \<open>to_iso\<close> is \<open>toISOString\<close> and \<open>parse_iso\<close> is \<open>Date.parse\<close> on the
  RFC 3339 shape every contract demands (\<open>isRfc3339\<close>). The registries keep timestamps as
  text and let SQL compare the text (\<open>expires_at <= ?\<close>, \<open>available_at <= ?\<close>), while the
  TypeScript code compares parsed numbers: the locale \<open>timestamp_codec\<close> states what makes the
  two agree, and its interpretation at the end of this theory proves it of \<open>to_iso\<close> and
  \<open>parse_iso\<close> for the years 0000 to 9999.
\<close>

section \<open>Days, years and months\<close>

definition days_from_year :: "int \<Rightarrow> int" where
  "days_from_year y =
     365 * (y - 1970) + (y - 1969) div 4 - (y - 1901) div 100 + (y - 1601) div 400"

definition leap_year :: "int \<Rightarrow> bool" where
  "leap_year y = (4 dvd y \<and> \<not> 100 dvd y \<or> 400 dvd y)"

definition year_from_day :: "int \<Rightarrow> int" where
  "year_from_day d =
     (let c = 1970 + (400 * d) div 146097
      in if d < days_from_year c then c - 1
         else if days_from_year (c + 1) \<le> d then c + 1 else c)"

definition month_start :: "bool \<Rightarrow> int \<Rightarrow> int" where
  "month_start leap m =
     (if m \<le> 0 then 0 else if m = 1 then 31 else
      (if leap then 1 else 0) +
      (if m = 2 then 59 else if m = 3 then 90 else if m = 4 then 120 else if m = 5 then 151
       else if m = 6 then 181 else if m = 7 then 212 else if m = 8 then 243
       else if m = 9 then 273 else if m = 10 then 304 else if m = 11 then 334 else 365))"

definition month_from_day :: "bool \<Rightarrow> int \<Rightarrow> int" where
  "month_from_day leap n =
     (if n < month_start leap 1 then 0 else if n < month_start leap 2 then 1
      else if n < month_start leap 3 then 2 else if n < month_start leap 4 then 3
      else if n < month_start leap 5 then 4 else if n < month_start leap 6 then 5
      else if n < month_start leap 7 then 6 else if n < month_start leap 8 then 7
      else if n < month_start leap 9 then 8 else if n < month_start leap 10 then 9
      else if n < month_start leap 11 then 10 else 11)"

lemma int_div_Suc:
  fixes n x :: int
  assumes "0 < n"
  shows "(x + 1) div n = x div n + (if n dvd x + 1 then 1 else 0)"
proof (cases "x mod n = n - 1")
  case True
  then have x: "x + 1 = n * (x div n + 1)"
    using mult_div_mod_eq [of n x] by (simp add: distrib_left)
  then have "n dvd x + 1" by (metis dvd_triv_left)
  moreover have "(x + 1) div n = x div n + 1"
    using assms by (subst x) simp
  ultimately show ?thesis by simp
next
  case False
  with assms have r: "0 \<le> x mod n + 1" "x mod n + 1 < n"
    using pos_mod_sign [of n x] pos_mod_bound [of n x] by linarith+
  have x: "x + 1 = n * (x div n) + (x mod n + 1)"
    using mult_div_mod_eq [of n x] by simp
  have "(x + 1) div n = x div n"
    by (rule int_div_pos_eq [OF x r])
  moreover have "(x + 1) mod n = x mod n + 1"
    by (rule int_mod_pos_eq [OF x r])
  moreover have "0 \<le> x mod n" using assms by simp
  ultimately show ?thesis by (auto simp: dvd_eq_mod_eq_0)
qed

lemma days_from_year_Suc:
  "days_from_year (y + 1) = days_from_year y + (if leap_year y then 366 else 365)"
proof -
  have a: "(y - 1968) div 4 = (y - 1969) div 4 + (if 4 dvd y then 1 else 0)"
    using int_div_Suc [of 4 "y - 1969"] dvd_add_left_iff [of 4 "-1968" y] by simp
  have b: "(y - 1900) div 100 = (y - 1901) div 100 + (if 100 dvd y then 1 else 0)"
    using int_div_Suc [of 100 "y - 1901"] dvd_add_left_iff [of 100 "-1900" y] by simp
  have c: "(y - 1600) div 400 = (y - 1601) div 400 + (if 400 dvd y then 1 else 0)"
    using int_div_Suc [of 400 "y - 1601"] dvd_add_left_iff [of 400 "-1600" y] by simp
  have d: "100 dvd y" if "400 dvd y"
    using dvd_trans [OF _ that, of 100] by simp
  have e: "4 dvd y" if "100 dvd y"
    using dvd_trans [OF _ that, of 4] by simp
  have "days_from_year (y + 1) =
      365 * (y - 1970) + 365 + (y - 1968) div 4 - (y - 1900) div 100 + (y - 1600) div 400"
    by (simp add: days_from_year_def algebra_simps)
  then show ?thesis
    using d e unfolding a b c by (auto simp: days_from_year_def leap_year_def)
qed

lemma days_from_year_less: "a < b \<Longrightarrow> days_from_year a < days_from_year b"
proof (induction "nat (b - a)" arbitrary: b)
  case (Suc n)
  have step: "days_from_year (b - 1) < days_from_year b"
    using days_from_year_Suc [of "b - 1"] by (simp split: if_splits)
  show ?case
  proof (cases "a = b - 1")
    case True
    with step show ?thesis by simp
  next
    case False
    with Suc.prems Suc.hyps(2) have "n = nat (b - 1 - a)" "a < b - 1" by linarith+
    from Suc.hyps(1) [OF this] step show ?thesis by linarith
  qed
qed simp

lemma div_bounds:
  fixes n x :: int
  assumes "0 < n"
  shows "n * (x div n) \<le> x" "x < n * (x div n) + n"
  using assms pos_mod_sign [of n x] pos_mod_bound [of n x] mult_div_mod_eq [of n x] by linarith+

lemma year_from_day_bracket:
  "days_from_year (year_from_day d) \<le> d \<and> d < days_from_year (year_from_day d + 1)"
proof -
  define q where "q = (400 * d) div 146097"
  define c where "c = 1970 + q"
  have q: "146097 * q \<le> 400 * d" "400 * d < 146097 * q + 146097"
    unfolding q_def by (rule div_bounds, simp)+
  have low: "days_from_year (c - 1) \<le> d"
  proof -
    have "days_from_year (c - 1) = 365 * (q - 1) + q div 4 - (q + 68) div 100 + (q + 368) div 400"
      by (simp add: days_from_year_def c_def add.commute)
    with q div_bounds [of 4 q] div_bounds [of 100 "q + 68"] div_bounds [of 400 "q + 368"]
    show ?thesis by simp
  qed
  have high: "d < days_from_year (c + 2)"
  proof -
    have "days_from_year (c + 2) = 365 * (q + 2) + (q + 3) div 4 - (q + 71) div 100 + (q + 371) div 400"
      by (simp add: days_from_year_def c_def add.commute)
    with q div_bounds [of 4 "q + 3"] div_bounds [of 100 "q + 71"] div_bounds [of 400 "q + 371"]
    show ?thesis by simp
  qed
  have "year_from_day d = (if d < days_from_year c then c - 1
      else if days_from_year (c + 1) \<le> d then c + 1 else c)"
    by (simp add: year_from_day_def c_def q_def Let_def)
  then show ?thesis
    using low high by (simp add: algebra_simps)
qed

lemma year_from_day_unique:
  "days_from_year y \<le> d \<Longrightarrow> d < days_from_year (y + 1) \<Longrightarrow> year_from_day d = y"
  using year_from_day_bracket [of d] days_from_year_less
  by (metis dual_order.strict_trans1 not_less_iff_gr_or_eq zless_imp_add1_zle order_le_less)

lemma year_from_day_mono: "d \<le> d' \<Longrightarrow> year_from_day d \<le> year_from_day d'"
proof (rule ccontr)
  assume le: "d \<le> d'" and "\<not> year_from_day d \<le> year_from_day d'"
  then have "year_from_day d' + 1 \<le> year_from_day d" by simp
  then have "days_from_year (year_from_day d' + 1) \<le> days_from_year (year_from_day d)"
    using days_from_year_less by (cases "year_from_day d' + 1 = year_from_day d") (auto simp: less_le)
  with year_from_day_bracket [of d] year_from_day_bracket [of d'] le show False by linarith
qed

lemma day_of_year_range:
  "0 \<le> d - days_from_year (year_from_day d)"
  "d - days_from_year (year_from_day d) < (if leap_year (year_from_day d) then 366 else 365)"
  using year_from_day_bracket [of d] days_from_year_Suc [of "year_from_day d"]
  by (auto split: if_splits)

lemma month_from_day_range: "0 \<le> month_from_day l n \<and> month_from_day l n \<le> 11"
  by (simp add: month_from_day_def)

lemma month_day_range:
  assumes "0 \<le> n" "n < (if l then 366 else 365)"
  shows "month_start l (month_from_day l n) \<le> n" "n < month_start l (month_from_day l n) + 31"
  using assms by (auto simp: month_from_day_def month_start_def split: if_splits)

lemma month_from_day_mono: "n \<le> n' \<Longrightarrow> month_from_day l n \<le> month_from_day l n'"
  by (auto simp: month_from_day_def month_start_def)

section \<open>Decimal fields\<close>

definition digit_char :: "int \<Rightarrow> char" where
  "digit_char d = char_of (48 + nat d)"

fun digits :: "nat \<Rightarrow> int \<Rightarrow> string" where
  "digits 0 n = []"
| "digits (Suc k) n = digits k (n div 10) @ [digit_char (n mod 10)]"

definition read_digits :: "string \<Rightarrow> int" where
  "read_digits s = foldl (\<lambda>a c. 10 * a + (int (code_unit c) - 48)) 0 s"

lemma length_digits [simp]: "length (digits k n) = k"
  by (induction k arbitrary: n) auto

lemma code_unit_digit_char: "0 \<le> d \<Longrightarrow> d \<le> 9 \<Longrightarrow> code_unit (digit_char d) = 48 + nat d"
  by (simp add: code_unit_def digit_char_def)

lemma is_digit_digit_char: "0 \<le> d \<Longrightarrow> d \<le> 9 \<Longrightarrow> is_digit (digit_char d)"
  by (simp add: is_digit_def between_def code_unit_digit_char) (simp add: code_unit_def)

lemma digits_are_digits: "list_all is_digit (digits k n)"
  by (induction k arbitrary: n) (auto simp: is_digit_digit_char)

lemma read_digits_digits: "0 \<le> n \<Longrightarrow> n < 10 ^ k \<Longrightarrow> read_digits (digits k n) = n"
proof (induction k arbitrary: n)
  case (Suc k)
  then have "read_digits (digits k (n div 10)) = n div 10"
    by (intro Suc.IH) auto
  then show ?case
    using code_unit_digit_char [of "n mod 10"] by (simp add: read_digits_def)
qed (simp add: read_digits_def)

lemma digit_char_less: "0 \<le> a \<Longrightarrow> a \<le> 9 \<Longrightarrow> 0 \<le> b \<Longrightarrow> b \<le> 9 \<Longrightarrow>
    digit_char a < digit_char b \<longleftrightarrow> a < b"
  using code_unit_digit_char [of a] code_unit_digit_char [of b]
  by (auto simp: less_char_def code_unit_def)

lemma append_less_iff:
  fixes a c :: "'a::linorder list"
  shows "length a = length c \<Longrightarrow> a @ b < c @ d \<longleftrightarrow> a < c \<or> a = c \<and> b < d"
  by (induction a c rule: list_induct2) auto

lemma digits_less:
  "0 \<le> a \<Longrightarrow> a < b \<Longrightarrow> b < 10 ^ k \<Longrightarrow> digits k a < digits k b"
proof (induction k arbitrary: a b)
  case (Suc k)
  show ?case
  proof (cases "a div 10 = b div 10")
    case True
    with Suc.prems have "a mod 10 < b mod 10"
      by (metis mult_div_mod_eq add_less_cancel_left)
    with True show ?thesis by (simp add: append_less_iff digit_char_less)
  next
    case False
    with Suc.prems have "a div 10 < b div 10"
      by (metis zdiv_mono1 order_less_le zero_less_numeral)
    moreover have "b div 10 < 10 ^ k" using Suc.prems by simp
    ultimately have "digits k (a div 10) < digits k (b div 10)"
      using Suc.prems by (intro Suc.IH) auto
    then show ?thesis by (simp add: append_less_iff)
  qed
qed simp

section \<open>ISO text\<close>

text \<open>
  \<open>toISOString\<close>: four-digit years from 0000 to 9999, a sign and six digits outside. A \<open>Date\<close>
  holds at most 8.64e15 milliseconds either side of 1970; beyond, it is the Invalid Date (None)
  and \<open>toISOString\<close> throws a RangeError.
\<close>

definition iso_text :: "int \<Rightarrow> int \<Rightarrow> int \<Rightarrow> int \<Rightarrow> int \<Rightarrow> int \<Rightarrow> int \<Rightarrow> string" where
  "iso_text y mo d h mi s ms =
     (if 0 \<le> y \<and> y \<le> 9999 then digits 4 y
      else (if y < 0 then CHR ''-'' else CHR ''+'') # digits 6 \<bar>y\<bar>)
     @ CHR ''-'' # digits 2 mo @ CHR ''-'' # digits 2 d
     @ CHR ''T'' # digits 2 h @ CHR '':'' # digits 2 mi @ CHR '':'' # digits 2 s
     @ CHR ''.'' # digits 3 ms @ ''Z''"

definition to_iso :: "int \<Rightarrow> string" where
  "to_iso t =
     (let d = t div 86400000; r = t mod 86400000;
          y = year_from_day d; l = leap_year y; n = d - days_from_year y;
          m = month_from_day l n
      in iso_text y (m + 1) (n - month_start l m + 1)
           (r div 3600000) (r div 60000 mod 60) (r div 1000 mod 60) (r mod 1000))"

type_synonym js_date = "int option"

definition max_time :: int where
  "max_time = 8640000000000000"

definition new_Date :: "int \<Rightarrow> js_date" where
  "new_Date t = (if \<bar>t\<bar> \<le> max_time then Some t else None)"

definition toISOString :: "js_date \<Rightarrow> string result" where
  "toISOString d = (case d of None \<Rightarrow> Inl JsRangeError | Some t \<Rightarrow> Inr (to_iso t))"

text \<open>
  \<open>^\d{4}-\d{2}-\d{2}T\d{2}:\d{2}:\d{2}(?:\.\d+)?Z$\<close>, and \<open>Date.parse\<close> of such a text: the
  engine checks the ranges of the fields (a day up to 31 in any month, rolling over; 24:00:00
  as the end of the day) and reads three digits of the fraction.
\<close>

definition rfc3339_shape :: "string \<Rightarrow> bool" where
  "rfc3339_shape s =
     (20 \<le> length s
      \<and> list_all (\<lambda>i. is_digit (s ! i)) [0, 1, 2, 3, 5, 6, 8, 9, 11, 12, 14, 15, 17, 18]
      \<and> s ! 4 = CHR ''-'' \<and> s ! 7 = CHR ''-'' \<and> s ! 10 = CHR ''T''
      \<and> s ! 13 = CHR '':'' \<and> s ! 16 = CHR '':'' \<and> last s = CHR ''Z''
      \<and> (length s = 20
         \<or> 22 \<le> length s \<and> s ! 19 = CHR ''.'' \<and> list_all is_digit (butlast (drop 20 s))))"

definition read_at :: "nat \<Rightarrow> nat \<Rightarrow> string \<Rightarrow> int" where
  "read_at i k s = read_digits (take k (drop i s))"

definition parse_iso :: "string \<Rightarrow> js_date" where
  "parse_iso s =
     (if rfc3339_shape s then
        let y = read_at 0 4 s; mo = read_at 5 2 s; d = read_at 8 2 s;
            h = read_at 11 2 s; mi = read_at 14 2 s; sec = read_at 17 2 s;
            ms = read_digits (take 3 (butlast (drop 20 s) @ ''000''))
        in if 1 \<le> mo \<and> mo \<le> 12 \<and> 1 \<le> d \<and> d \<le> 31 \<and> mi \<le> 59 \<and> sec \<le> 59
              \<and> (h \<le> 23 \<or> h = 24 \<and> mi = 0 \<and> sec = 0 \<and> ms = 0)
           then Some ((days_from_year y + month_start (leap_year y) (mo - 1) + d - 1) * 86400000
                      + h * 3600000 + mi * 60000 + sec * 1000 + ms)
           else None
      else None)"

definition isRfc3339 :: "string \<Rightarrow> bool" where
  "isRfc3339 s = (rfc3339_shape s \<and> parse_iso s \<noteq> None)"

text \<open>The instants whose text has a four-digit year; every clock of a deployment reads one.\<close>

definition iso_instant :: "int \<Rightarrow> bool" where
  "iso_instant t = (0 \<le> year_from_day (t div 86400000) \<and> year_from_day (t div 86400000) \<le> 9999)"

subsection \<open>Reading back\<close>

lemma iso_text_shape:
  assumes "0 \<le> y" "y \<le> 9999"
  shows "iso_text y mo d h mi s ms =
    digits 4 y @ CHR ''-'' # digits 2 mo @ CHR ''-'' # digits 2 d
     @ CHR ''T'' # digits 2 h @ CHR '':'' # digits 2 mi @ CHR '':'' # digits 2 s
     @ CHR ''.'' # digits 3 ms @ ''Z''"
  using assms by (simp add: iso_text_def)

lemma digit_at: "i < k \<Longrightarrow> is_digit (digits k n ! i)"
  using digits_are_digits [of k n] by (simp add: list_all_length)

lemma iso_text_rfc3339: "0 \<le> y \<Longrightarrow> y \<le> 9999 \<Longrightarrow> rfc3339_shape (iso_text y mo d h mi s ms)"
  using digits_are_digits [of 3 ms]
  by (simp add: rfc3339_shape_def iso_text_shape nth_append nth_Cons' digit_at butlast_append
      del: digits.simps)

lemma iso_text_fields:
  assumes "0 \<le> y" "y \<le> 9999"
  shows "read_at 0 4 (iso_text y mo d h mi s ms) = read_digits (digits 4 y)"
    "read_at 5 2 (iso_text y mo d h mi s ms) = read_digits (digits 2 mo)"
    "read_at 8 2 (iso_text y mo d h mi s ms) = read_digits (digits 2 d)"
    "read_at 11 2 (iso_text y mo d h mi s ms) = read_digits (digits 2 h)"
    "read_at 14 2 (iso_text y mo d h mi s ms) = read_digits (digits 2 mi)"
    "read_at 17 2 (iso_text y mo d h mi s ms) = read_digits (digits 2 s)"
    "take 3 (butlast (drop 20 (iso_text y mo d h mi s ms)) @ ''000'') = digits 3 ms"
  using assms
  by (simp_all add: read_at_def iso_text_shape drop_Cons' butlast_append del: digits.simps)

lemma parse_iso_text:
  assumes "0 \<le> y" "y \<le> 9999" "1 \<le> mo" "mo \<le> 12" "1 \<le> d" "d \<le> 31" "0 \<le> h" "h \<le> 23"
    "0 \<le> mi" "mi \<le> 59" "0 \<le> s" "s \<le> 59" "0 \<le> ms" "ms \<le> 999"
  shows "parse_iso (iso_text y mo d h mi s ms) =
    Some ((days_from_year y + month_start (leap_year y) (mo - 1) + d - 1) * 86400000
          + h * 3600000 + mi * 60000 + s * 1000 + ms)"
  unfolding parse_iso_def Let_def iso_text_fields [OF assms(1,2)]
  using assms by (simp add: iso_text_rfc3339 read_digits_digits del: digits.simps)

subsection \<open>Text order is time order\<close>

lemma iso_text_less:
  assumes "0 \<le> y" "y \<le> 9999" "0 \<le> y'" "y' \<le> 9999" "0 \<le> mo" "mo' < 100" "0 \<le> d" "d' < 100"
    "0 \<le> h" "h' < 100" "0 \<le> mi" "mi' < 100" "0 \<le> s" "s' < 100" "0 \<le> ms" "ms' < 1000"
    and "y < y' \<or> y = y' \<and> (mo < mo' \<or> mo = mo' \<and> (d < d' \<or> d = d' \<and> (h < h' \<or> h = h' \<and>
      (mi < mi' \<or> mi = mi' \<and> (s < s' \<or> s = s' \<and> ms < ms')))))"
  shows "iso_text y mo d h mi s ms < iso_text y' mo' d' h' mi' s' ms'"
proof -
  have "digits 4 y < digits 4 y'" if "y < y'" using that assms by (intro digits_less) auto
  moreover have "digits 2 a < digits 2 b" if "0 \<le> a" "a < b" "b < 100" for a b
    using that by (intro digits_less) auto
  moreover have "digits 3 ms < digits 3 ms'" if "ms < ms'" using that assms by (intro digits_less) auto
  ultimately show ?thesis
    using assms by (auto simp: iso_text_shape append_less_iff simp del: digits.simps)
qed

text \<open>A time of day is its hours, minutes, seconds and milliseconds in mixed radix.\<close>

lemma clock_split:
  fixes x :: int
  shows "x = 3600000 * (x div 3600000) + 60000 * (x div 60000 mod 60)
      + 1000 * (x div 1000 mod 60) + x mod 1000"
proof -
  have "x div 1000 = 60 * (x div 1000 div 60) + x div 1000 mod 60"
    using mult_div_mod_eq [of 60 "x div 1000"] by simp
  moreover have "x div 60000 = 60 * (x div 60000 div 60) + x div 60000 mod 60"
    using mult_div_mod_eq [of 60 "x div 60000"] by simp
  moreover have "x div 1000 div 60 = x div 60000" "x div 60000 div 60 = x div 3600000"
    by (simp_all add: zdiv_zmult2_eq [symmetric])
  moreover have "x = 1000 * (x div 1000) + x mod 1000"
    using mult_div_mod_eq [of 1000 x] by simp
  moreover have "x = 1000 * a + z \<Longrightarrow> a = 60 * b + p \<Longrightarrow> b = 60 * h + q \<Longrightarrow>
      x = 3600000 * h + 60000 * q + 1000 * p + z" for a b h p q z
    by simp
  ultimately show ?thesis by metis
qed

lemma mixed_radix_less:
  fixes h mi s ms h' mi' s' ms' :: int
  assumes "3600000 * h + 60000 * mi + 1000 * s + ms < 3600000 * h' + 60000 * mi' + 1000 * s' + ms'"
    and "0 \<le> mi" "mi < 60" "0 \<le> mi'" "mi' < 60" "0 \<le> s" "s < 60" "0 \<le> s'" "s' < 60"
    and "0 \<le> ms" "ms < 1000" "0 \<le> ms'" "ms' < 1000"
  shows "h < h' \<or> h = h' \<and> (mi < mi' \<or> mi = mi' \<and> (s < s' \<or> s = s' \<and> ms < ms'))"
proof -
  have "h \<le> h'" using assms by linarith
  moreover have "h = h' \<Longrightarrow> mi \<le> mi'" using assms by linarith
  moreover have "h = h' \<Longrightarrow> mi = mi' \<Longrightarrow> s \<le> s'" using assms by linarith
  moreover have "h = h' \<Longrightarrow> mi = mi' \<Longrightarrow> s = s' \<Longrightarrow> ms < ms'" using assms by linarith
  ultimately show ?thesis by linarith
qed

lemma clock_fields_less:
  fixes r r' :: int
  assumes "r < r'"
  shows "r div 3600000 < r' div 3600000 \<or> r div 3600000 = r' div 3600000 \<and>
    (r div 60000 mod 60 < r' div 60000 mod 60 \<or> r div 60000 mod 60 = r' div 60000 mod 60 \<and>
     (r div 1000 mod 60 < r' div 1000 mod 60 \<or> r div 1000 mod 60 = r' div 1000 mod 60 \<and>
      r mod 1000 < r' mod 1000))"
  by (rule mixed_radix_less)
    (simp_all only: clock_split [symmetric] assms pos_mod_sign pos_mod_bound zero_less_numeral)

lemma to_iso_mono:
  assumes "iso_instant t" "iso_instant u" "t < u"
  shows "to_iso t < to_iso u"
proof -
  define d where "d = t div 86400000"
  define e where "e = u div 86400000"
  define m where "m = d - days_from_year (year_from_day d)"
  define n where "n = e - days_from_year (year_from_day e)"
  define l where "l = leap_year (year_from_day d)"
  define k where "k = leap_year (year_from_day e)"
  have de: "d \<le> e" using assms(3) by (simp add: d_def e_def zdiv_mono1)
  have same: "t mod 86400000 < u mod 86400000" if "d = e"
    using that assms(3) mult_div_mod_eq [of 86400000 t] mult_div_mod_eq [of 86400000 u]
    unfolding d_def e_def by linarith
  note clock = clock_fields_less [of "t mod 86400000" "u mod 86400000"]
  have ymono: "year_from_day d \<le> year_from_day e" using de by (rule year_from_day_mono)
  have m: "0 \<le> m" "m < (if l then 366 else 365)" and n: "0 \<le> n" "n < (if k then 366 else 365)"
    unfolding m_def n_def l_def k_def by (rule day_of_year_range)+
  have mm: "month_from_day l m \<le> month_from_day k n" "m \<le> n" "l = k"
    if "year_from_day d = year_from_day e"
    using that de by (simp_all add: m_def n_def l_def k_def month_from_day_mono)
  have md: "m = n \<Longrightarrow> year_from_day d = year_from_day e \<Longrightarrow> d = e" by (simp add: m_def n_def)
  have hours: "0 \<le> x mod 86400000 div 3600000" "x mod 86400000 div 3600000 < 100" for x :: int
    using div_bounds [of 3600000 "x mod 86400000"] pos_mod_bound [of 86400000 x]
      pos_mod_sign [of 86400000 x] by linarith+
  have days: "0 \<le> m - month_start l (month_from_day l m) + 1"
    "n - month_start k (month_from_day k n) + 1 < 100"
    using month_day_range [OF m] month_day_range [OF n] by linarith+
  have months: "0 \<le> month_from_day l m + 1" "month_from_day k n + 1 < 100"
    using month_from_day_range by (smt (verit))+
  have sixty: "0 \<le> x mod 60" "x mod 60 < 100" "0 \<le> x mod 1000" "x mod 1000 < 1000" for x :: int
    using pos_mod_bound [of 60 x] by simp_all
  have year: "0 \<le> year_from_day d" "year_from_day d \<le> 9999"
    "0 \<le> year_from_day e" "year_from_day e \<le> 9999"
    using assms(1,2) by (simp_all add: iso_instant_def d_def e_def)
  show ?thesis
    unfolding to_iso_def Let_def d_def [symmetric] e_def [symmetric] m_def [symmetric]
      n_def [symmetric] l_def [symmetric] k_def [symmetric]
  proof (rule iso_text_less)
    show "year_from_day d < year_from_day e \<or> year_from_day d = year_from_day e \<and>
      (month_from_day l m + 1 < month_from_day k n + 1 \<or> month_from_day l m + 1 = month_from_day k n + 1 \<and>
       (m - month_start l (month_from_day l m) + 1 < n - month_start k (month_from_day k n) + 1 \<or>
        m - month_start l (month_from_day l m) + 1 = n - month_start k (month_from_day k n) + 1 \<and>
        (t mod 86400000 div 3600000 < u mod 86400000 div 3600000 \<or>
         t mod 86400000 div 3600000 = u mod 86400000 div 3600000 \<and>
         (t mod 86400000 div 60000 mod 60 < u mod 86400000 div 60000 mod 60 \<or>
          t mod 86400000 div 60000 mod 60 = u mod 86400000 div 60000 mod 60 \<and>
          (t mod 86400000 div 1000 mod 60 < u mod 86400000 div 1000 mod 60 \<or>
           t mod 86400000 div 1000 mod 60 = u mod 86400000 div 1000 mod 60 \<and>
           t mod 86400000 mod 1000 < u mod 86400000 mod 1000)))))"
    proof (cases "year_from_day d = year_from_day e \<and> month_from_day l m = month_from_day k n \<and> m = n")
      case True
      with md same clock mm show ?thesis by simp
    next
      case False
      with ymono mm show ?thesis by (auto simp: less_le)
    qed
  qed (use hours days months sixty year in simp_all)
qed

lemma parse_to_iso:
  assumes "iso_instant t"
  shows "parse_iso (to_iso t) = Some t"
proof -
  define d where "d = t div 86400000"
  define r where "r = t mod 86400000"
  define y where "y = year_from_day d"
  define n where "n = d - days_from_year y"
  define l where "l = leap_year y"
  define m where "m = month_from_day l n"
  have r: "0 \<le> r" "r < 86400000" by (simp_all add: r_def)
  have y: "0 \<le> y" "y \<le> 9999" using assms by (simp_all add: iso_instant_def y_def d_def)
  have n: "0 \<le> n" "n < (if l then 366 else 365)"
    unfolding n_def l_def y_def by (rule day_of_year_range)+
  have "to_iso t = iso_text y (m + 1) (n - month_start l m + 1)
           (r div 3600000) (r div 60000 mod 60) (r div 1000 mod 60) (r mod 1000)"
    by (simp add: to_iso_def Let_def d_def r_def y_def n_def l_def m_def)
  moreover have "parse_iso (iso_text y (m + 1) (n - month_start l m + 1)
           (r div 3600000) (r div 60000 mod 60) (r div 1000 mod 60) (r mod 1000)) =
    Some ((days_from_year y + month_start (leap_year y) (m + 1 - 1) + (n - month_start l m + 1) - 1)
           * 86400000 + r div 3600000 * 3600000 + r div 60000 mod 60 * 60000
           + r div 1000 mod 60 * 1000 + r mod 1000)"
  proof (rule parse_iso_text)
    show "0 \<le> y" "y \<le> 9999" by fact+
    show "1 \<le> m + 1" "m + 1 \<le> 12" using month_from_day_range [of l n] by (simp_all add: m_def)
    show "1 \<le> n - month_start l m + 1" "n - month_start l m + 1 \<le> 31"
      using month_day_range [OF n] by (simp_all add: m_def)
    show "0 \<le> r div 3600000" "r div 3600000 \<le> 23"
      using r div_bounds [of 3600000 r] by linarith+
  qed (use pos_mod_bound [of 60 "r div 60000"] pos_mod_bound [of 60 "r div 1000"]
        pos_mod_bound [of 1000 r] in simp_all)
  moreover have "r div 3600000 * 3600000 + r div 60000 mod 60 * 60000
           + r div 1000 mod 60 * 1000 + r mod 1000 = r"
    using clock_split [of r] by (simp only: mult.commute)
  moreover have "days_from_year y + month_start (leap_year y) (m + 1 - 1)
      + (n - month_start l m + 1) - 1 = d"
    by (simp add: n_def l_def)
  moreover have "d * 86400000 + r = t"
    by (simp add: d_def r_def)
  moreover have "a = d \<Longrightarrow> h + i + s + z = r \<Longrightarrow> d * 86400000 + r = t \<Longrightarrow>
      a * 86400000 + h + i + s + z = t" for a h i s z
    by simp
  ultimately show ?thesis by metis
qed

text \<open>
  What the registries need of a way to write instants as text: reading gives the instant back,
  and a later instant has a greater text.
\<close>

locale timestamp_codec =
  fixes render :: "int \<Rightarrow> string"
    and read :: "string \<Rightarrow> int option"
    and instant :: "int \<Rightarrow> bool"
  assumes read_render: "instant t \<Longrightarrow> read (render t) = Some t"
    and render_mono: "instant t \<Longrightarrow> instant u \<Longrightarrow> t < u \<Longrightarrow> render t < render u"
begin

lemma render_less_iff: "instant t \<Longrightarrow> instant u \<Longrightarrow> render t < render u \<longleftrightarrow> t < u"
  by (metis render_mono not_less_iff_gr_or_eq)

lemma render_le_iff: "instant t \<Longrightarrow> instant u \<Longrightarrow> render t \<le> render u \<longleftrightarrow> t \<le> u"
  by (metis render_less_iff linorder_not_le)

lemma render_eq_iff: "instant t \<Longrightarrow> instant u \<Longrightarrow> render t = render u \<longleftrightarrow> t = u"
  by (metis read_render option.inject)

end

interpretation iso: timestamp_codec to_iso parse_iso iso_instant
  by unfold_locales (rule parse_to_iso, assumption, rule to_iso_mono)

lemma iso_instant_range:
  "-62167219200000 \<le> t \<Longrightarrow> t < 253402300800000 \<Longrightarrow> iso_instant t"
proof -
  assume t: "-62167219200000 \<le> t" "t < 253402300800000"
  then have "-719528 \<le> t div 86400000" "t div 86400000 \<le> 2932896"
    using zdiv_mono1 [of "-62167219200000" t 86400000] zdiv_mono1 [of t 253402300799999 86400000]
    by simp_all
  then have "year_from_day (-719528) \<le> year_from_day (t div 86400000)"
    "year_from_day (t div 86400000) \<le> year_from_day 2932896"
    by (simp_all add: year_from_day_mono)
  moreover have "year_from_day (-719528) = 0" "year_from_day 2932896 = 9999"
    by (simp_all add: year_from_day_def days_from_year_def)
  ultimately show ?thesis
    by (simp add: iso_instant_def)
qed

lemma isRfc3339_to_iso: "iso_instant t \<Longrightarrow> isRfc3339 (to_iso t)"
  using parse_to_iso [of t]
  by (auto simp: isRfc3339_def parse_iso_def split: if_splits)

lemma iso_length: "iso_instant t \<Longrightarrow> length (to_iso t) = 24"
  by (simp add: iso_instant_def to_iso_def iso_text_def Let_def)

end
