(* ===== verification/Schema_V1.thy ===== *)
theory Schema_V1
  imports Vocabulary Js_Date
begin

text \<open>
  \<open>packages/contracts/src/schema-v1.ts\<close>: the workspace, connector, plan, source and raw
  artifact documents. Each guard is translated over JSON values, with its lists of required
  and optional keys; the documents the registries work with are records, and the \<open>_json\<close>
  function of each is the object the type declares. The \<open>_valid\<close> predicates say what a guard
  means for a typed document, and the \<open>_guard\<close> lemmas prove that it means exactly that.
\<close>

section \<open>The document types\<close>

record connector_ref =
  ref_connectorId :: string
  ref_version :: string

datatype collection_schedule =
    ManualSchedule
  | IntervalSchedule int
  | CronSchedule string string
  | ChangeWatchSchedule int

record collection_policy =
  includePatterns :: "string list"
  excludePatterns :: "string list"
  maxDepth :: int
  maxItems :: int
  renderJavascript :: bool
  fetchAttachments :: bool
  respectRobots :: bool
  rateLimitPerMinute :: int
  timeoutSeconds :: int
  retry_maxAttempts :: int
  retry_backoffSeconds :: int
  policy_locale :: "string option"

record collection_plan =
  plan_id :: string
  plan_workspaceId :: string
  plan_sourceId :: string
  plan_name :: string
  plan_status :: plan_status
  plan_schedule :: collection_schedule
  plan_priority :: priority
  plan_policy :: collection_policy
  plan_artifactKinds :: "artifact_kind list"
  plan_conversionProfileId :: "string option"
  plan_createdAt :: string
  plan_updatedAt :: string
  plan_extensions :: "json_object option"

record source_definition =
  source_id :: string
  source_workspaceId :: string
  source_name :: string
  source_slug :: string
  source_type :: source_type
  source_category :: string
  source_authorityLevel :: string
  source_status :: source_status
  source_jurisdictions :: "string list"
  source_languages :: "string list"
  source_connector :: connector_ref
  source_connectorConfig :: json_object
  source_secretRef :: "string option"
  source_canonicalUri :: "string option"
  source_entrypoints :: "(string \<times> string option) list"
  source_defaultCollectionPlanId :: "string option"
  source_tags :: "string list"
  source_createdAt :: string
  source_updatedAt :: string
  source_extensions :: "json_object option"

record connector_manifest =
  connector_connectorId :: string
  connector_displayName :: string
  connector_version :: string
  connector_sourceTypes :: "source_type list"
  connector_runtime :: string
  connector_capabilities :: "capability list"
  connector_supportedJobTypes :: "job_type list"
  connector_configurationSchema :: json_object
  connector_secretSchema :: json_object
  connector_outputArtifactKinds :: "artifact_kind list"
  connector_healthMode :: string
  connector_timeoutSeconds :: int
  connector_status :: connector_status
  connector_extensions :: "json_object option"

section \<open>Encoders\<close>

definition connector_ref_json :: "connector_ref \<Rightarrow> json" where
  "connector_ref_json r =
     JObj [(''connectorId'', JStr (ref_connectorId r)), (''version'', JStr (ref_version r))]"

fun schedule_json :: "collection_schedule \<Rightarrow> json" where
  "schedule_json ManualSchedule = JObj [(''mode'', JStr ''MANUAL'')]"
| "schedule_json (IntervalSchedule n) =
     JObj [(''mode'', JStr ''INTERVAL''), (''intervalSeconds'', JInt n)]"
| "schedule_json (CronSchedule e z) =
     JObj [(''mode'', JStr ''CRON''), (''expression'', JStr e), (''timezone'', JStr z)]"
| "schedule_json (ChangeWatchSchedule n) =
     JObj [(''mode'', JStr ''CHANGE_WATCH''), (''pollIntervalSeconds'', JInt n)]"

definition policy_json :: "collection_policy \<Rightarrow> json" where
  "policy_json p = JObj (
     [(''includePatterns'', JStrs (includePatterns p)),
      (''excludePatterns'', JStrs (excludePatterns p)),
      (''maxDepth'', JInt (maxDepth p)),
      (''maxItems'', JInt (maxItems p)),
      (''renderJavascript'', JBool (renderJavascript p)),
      (''fetchAttachments'', JBool (fetchAttachments p)),
      (''respectRobots'', JBool (respectRobots p)),
      (''rateLimitPerMinute'', JInt (rateLimitPerMinute p)),
      (''timeoutSeconds'', JInt (timeoutSeconds p)),
      (''retry'', JObj [(''maxAttempts'', JInt (retry_maxAttempts p)),
                      (''backoffSeconds'', JInt (retry_backoffSeconds p))])]
     @ opt_entry ''locale'' JStr (policy_locale p))"

definition plan_json :: "collection_plan \<Rightarrow> json" where
  "plan_json p = JObj (
     [(''schemaVersion'', JStr ''1.0''),
      (''objectType'', JStr ''COLLECTION_PLAN''),
      (''id'', JStr (plan_id p)),
      (''workspaceId'', JStr (plan_workspaceId p)),
      (''sourceId'', JStr (plan_sourceId p)),
      (''name'', JStr (plan_name p)),
      (''status'', JStr (plan_status_name (plan_status p))),
      (''schedule'', schedule_json (plan_schedule p)),
      (''priority'', JStr (priority_name (plan_priority p))),
      (''policy'', policy_json (plan_policy p)),
      (''output'', JObj (
         [(''artifactKinds'', JStrs (map artifact_kind_name (plan_artifactKinds p)))]
         @ opt_entry ''conversionProfileId'' JStr (plan_conversionProfileId p))),
      (''createdAt'', JStr (plan_createdAt p)),
      (''updatedAt'', JStr (plan_updatedAt p))]
     @ opt_entry ''extensions'' JObj (plan_extensions p))"

definition entrypoint_json :: "string \<times> string option \<Rightarrow> json" where
  "entrypoint_json e = JObj ((''uri'', JStr (fst e)) # opt_entry ''label'' JStr (snd e))"

definition source_json :: "source_definition \<Rightarrow> json" where
  "source_json s = JObj (
     [(''schemaVersion'', JStr ''1.0''),
      (''objectType'', JStr ''SOURCE_DEFINITION''),
      (''id'', JStr (source_id s)),
      (''workspaceId'', JStr (source_workspaceId s)),
      (''name'', JStr (source_name s)),
      (''slug'', JStr (source_slug s)),
      (''sourceType'', JStr (source_type_name (source_type s))),
      (''category'', JStr (source_category s)),
      (''authorityLevel'', JStr (source_authorityLevel s)),
      (''status'', JStr (source_status_name (source_status s))),
      (''jurisdictions'', JStrs (source_jurisdictions s)),
      (''languages'', JStrs (source_languages s)),
      (''connector'', connector_ref_json (source_connector s)),
      (''connectorConfig'', JObj (source_connectorConfig s)),
      (''entrypoints'', JArr (map entrypoint_json (source_entrypoints s))),
      (''tags'', JStrs (source_tags s)),
      (''createdAt'', JStr (source_createdAt s)),
      (''updatedAt'', JStr (source_updatedAt s))]
     @ opt_entry ''secretRef'' JStr (source_secretRef s)
     @ opt_entry ''canonicalUri'' JStr (source_canonicalUri s)
     @ opt_entry ''defaultCollectionPlanId'' JStr (source_defaultCollectionPlanId s)
     @ opt_entry ''extensions'' JObj (source_extensions s))"

definition connector_json :: "connector_manifest \<Rightarrow> json" where
  "connector_json c = JObj (
     [(''schemaVersion'', JStr ''1.0''),
      (''objectType'', JStr ''CONNECTOR_MANIFEST''),
      (''connectorId'', JStr (connector_connectorId c)),
      (''displayName'', JStr (connector_displayName c)),
      (''version'', JStr (connector_version c)),
      (''sourceTypes'', JStrs (map source_type_name (connector_sourceTypes c))),
      (''runtime'', JStr (connector_runtime c)),
      (''capabilities'', JStrs (map capability_name (connector_capabilities c))),
      (''supportedJobTypes'', JStrs (map job_type_name (connector_supportedJobTypes c))),
      (''configurationSchema'', JObj (connector_configurationSchema c)),
      (''secretSchema'', JObj (connector_secretSchema c)),
      (''outputArtifactKinds'', JStrs (map artifact_kind_name (connector_outputArtifactKinds c))),
      (''healthCheck'', JObj [(''mode'', JStr (connector_healthMode c)),
                            (''timeoutSeconds'', JInt (connector_timeoutSeconds c))]),
      (''status'', JStr (connector_status_name (connector_status c)))]
     @ opt_entry ''extensions'' JObj (connector_extensions c))"

section \<open>Guards\<close>

definition SCHEMA_V1_VERSION :: string where
  "SCHEMA_V1_VERSION = ''1.0''"

definition DATA_DOMAINS :: "string list" where
  "DATA_DOMAINS = [''PUBLIC'', ''ORGANIZATION'', ''WORKSPACE_PRIVATE'', ''USER_LOCAL'']"

definition WORKSPACE_STATUSES :: "string list" where
  "WORKSPACE_STATUSES = [''ACTIVE'', ''SUSPENDED'', ''ARCHIVED'']"

definition SYNC_MODES :: "string list" where
  "SYNC_MODES = [''RAW'', ''METADATA'', ''LOCAL_ONLY'']"

definition STORAGE_PROVIDERS :: "string list" where
  "STORAGE_PROVIDERS = [''LOCAL'', ''S3'', ''OBJECT_STORAGE'', ''REMOTE_REFERENCE'']"

definition HASH_ALGORITHMS :: "string list" where
  "HASH_ALGORITHMS = [''SHA-256'']"

definition ARTIFACT_STATUSES :: "string list" where
  "ARTIFACT_STATUSES =
     [''RECEIVED'', ''REGISTERED'', ''DUPLICATE_CHECKED'', ''READY_FOR_CONVERSION'', ''CONVERTED'',
      ''STAGED'', ''ARCHIVED'']"

fun isJsonValue :: "json \<Rightarrow> bool" where
  "isJsonValue (JArr vs) = list_all isJsonValue vs"
| "isJsonValue (JObj ob) = list_all (\<lambda>(k, v). isJsonValue v) ob"
| "isJsonValue _ = True"

fun isJsonRecord :: "json \<Rightarrow> bool" where
  "isJsonRecord (JObj ob) = list_all (\<lambda>(k, v). isJsonValue v) ob"
| "isJsonRecord _ = False"

definition isUri :: "json \<Rightarrow> bool" where
  "isUri = isStringWith is_uri"

definition isRfc3339_json :: "json \<Rightarrow> bool" where
  "isRfc3339_json = isStringWith isRfc3339"

definition isStringArray :: "json \<Rightarrow> bool" where
  "isStringArray = isArrayOf isString"

definition optionalSchemaExtensions :: "json_object \<Rightarrow> bool" where
  "optionalSchemaExtensions ob = may_have ob ''extensions'' isSchemaExtensions"

fun isRetentionDays :: "json \<Rightarrow> bool" where
  "isRetentionDays JNull = True"
| "isRetentionDays v = isNonNegativeInteger v"

fun isWorkspace :: "json \<Rightarrow> bool" where
  "isWorkspace (JObj ob) =
     (let required = [''schemaVersion'', ''objectType'', ''id'', ''slug'', ''name'', ''dataDomain'',
            ''status'', ''defaultLocale'', ''timezone'', ''syncPolicy'', ''retentionPolicy'',
            ''createdAt'', ''updatedAt'']
      in hasRequiredKeys ob required
       \<and> hasOnlyKeys ob (required @ [''extensions''])
       \<and> has ob ''schemaVersion'' (is_text SCHEMA_V1_VERSION)
       \<and> has ob ''objectType'' (is_text ''WORKSPACE'')
       \<and> has ob ''id'' (isStringWith (is_typed_id ''wsp''))
       \<and> has ob ''slug'' (isStringWith is_slug)
       \<and> has ob ''name'' (isStringWith (\<lambda>s. s \<noteq> []))
       \<and> has ob ''dataDomain'' (isEnumValue DATA_DOMAINS)
       \<and> has ob ''status'' (isEnumValue WORKSPACE_STATUSES)
       \<and> has ob ''defaultLocale'' (isStringWith is_locale)
       \<and> has ob ''timezone'' (isStringWith (\<lambda>s. s \<noteq> []))
       \<and> has_record ob ''syncPolicy'' (\<lambda>sp.
            hasOnlyKeys sp [''mode'', ''allowPublicPromotion'']
            \<and> has sp ''mode'' (isEnumValue SYNC_MODES)
            \<and> has sp ''allowPublicPromotion'' isBool)
       \<and> has_record ob ''retentionPolicy'' (\<lambda>rp.
            hasOnlyKeys rp [''rawArtifactDays'', ''derivedDocumentDays'']
            \<and> has rp ''rawArtifactDays'' isRetentionDays
            \<and> has rp ''derivedDocumentDays'' isRetentionDays)
       \<and> has ob ''createdAt'' isRfc3339_json
       \<and> has ob ''updatedAt'' isRfc3339_json
       \<and> optionalSchemaExtensions ob)"
| "isWorkspace _ = False"

fun isConnectorManifest :: "json \<Rightarrow> bool" where
  "isConnectorManifest (JObj ob) =
     (let required = [''schemaVersion'', ''objectType'', ''connectorId'', ''displayName'', ''version'',
            ''sourceTypes'', ''runtime'', ''capabilities'', ''supportedJobTypes'',
            ''configurationSchema'', ''secretSchema'', ''outputArtifactKinds'', ''healthCheck'',
            ''status'']
      in hasRequiredKeys ob required
       \<and> hasOnlyKeys ob (required @ [''extensions''])
       \<and> has ob ''schemaVersion'' (is_text SCHEMA_V1_VERSION)
       \<and> has ob ''objectType'' (is_text ''CONNECTOR_MANIFEST'')
       \<and> has ob ''connectorId'' (isStringWith is_slug)
       \<and> has ob ''displayName'' (isStringWith (\<lambda>s. s \<noteq> []))
       \<and> has ob ''version'' (isStringWith is_semver)
       \<and> has ob ''sourceTypes'' (\<lambda>v. isEnumArray SOURCE_TYPES v \<and> 0 < arrayLength v)
       \<and> has ob ''runtime'' (isEnumValue CONNECTOR_RUNTIMES)
       \<and> has ob ''capabilities'' (isEnumArray CONNECTOR_CAPABILITIES)
       \<and> has ob ''supportedJobTypes'' (isEnumArray JOB_TYPES)
       \<and> has ob ''configurationSchema'' isJsonRecord
       \<and> has ob ''secretSchema'' isJsonRecord
       \<and> has ob ''outputArtifactKinds'' (isEnumArray ARTIFACT_KINDS)
       \<and> has_record ob ''healthCheck'' (\<lambda>hc.
            hasOnlyKeys hc [''mode'', ''timeoutSeconds'']
            \<and> has hc ''mode'' (isEnumValue HEALTH_CHECK_MODES)
            \<and> has hc ''timeoutSeconds'' isPositiveInteger)
       \<and> has ob ''status'' (isEnumValue CONNECTOR_STATUSES)
       \<and> optionalSchemaExtensions ob)"
| "isConnectorManifest _ = False"

fun isCollectionSchedule :: "json \<Rightarrow> bool" where
  "isCollectionSchedule (JObj ob) =
     (case field ''mode'' ob of
        Some (JStr m) \<Rightarrow>
          if m = ''MANUAL'' then hasOnlyKeys ob [''mode'']
          else if m = ''INTERVAL'' then
            hasOnlyKeys ob [''mode'', ''intervalSeconds''] \<and> has ob ''intervalSeconds'' isPositiveInteger
          else if m = ''CRON'' then
            hasOnlyKeys ob [''mode'', ''expression'', ''timezone'']
            \<and> has ob ''expression'' (isStringWith (\<lambda>e. 5 \<le> length (split_spaces (trim e))))
            \<and> has ob ''timezone'' (isStringWith (\<lambda>s. s \<noteq> []))
          else if m = ''CHANGE_WATCH'' then
            hasOnlyKeys ob [''mode'', ''pollIntervalSeconds'']
            \<and> has ob ''pollIntervalSeconds'' isPositiveInteger
          else False
      | _ \<Rightarrow> False)"
| "isCollectionSchedule _ = False"

definition policyKeys :: "string list" where
  "policyKeys =
     [''includePatterns'', ''excludePatterns'', ''maxDepth'', ''maxItems'', ''renderJavascript'',
      ''fetchAttachments'', ''respectRobots'', ''rateLimitPerMinute'', ''timeoutSeconds'', ''retry'',
      ''locale'']"

fun isCollectionPlan :: "json \<Rightarrow> bool" where
  "isCollectionPlan (JObj ob) =
     (let required = [''schemaVersion'', ''objectType'', ''id'', ''workspaceId'', ''sourceId'', ''name'',
            ''status'', ''schedule'', ''priority'', ''policy'', ''output'', ''createdAt'', ''updatedAt'']
      in hasRequiredKeys ob required
       \<and> hasOnlyKeys ob (required @ [''extensions''])
       \<and> has ob ''schemaVersion'' (is_text SCHEMA_V1_VERSION)
       \<and> has ob ''objectType'' (is_text ''COLLECTION_PLAN'')
       \<and> has ob ''id'' (isStringWith (is_typed_id ''pln''))
       \<and> has ob ''workspaceId'' (isStringWith (is_typed_id ''wsp''))
       \<and> has ob ''sourceId'' (isStringWith (is_typed_id ''src''))
       \<and> has ob ''name'' (isStringWith (\<lambda>s. s \<noteq> []))
       \<and> has ob ''status'' (isEnumValue COLLECTION_PLAN_STATUSES)
       \<and> has ob ''schedule'' isCollectionSchedule
       \<and> has ob ''priority'' (isEnumValue COLLECTION_PRIORITIES)
       \<and> has_record ob ''policy'' (\<lambda>policy.
            hasOnlyKeys policy policyKeys
            \<and> has policy ''includePatterns'' isStringArray
            \<and> has policy ''excludePatterns'' isStringArray
            \<and> has policy ''maxDepth'' isNonNegativeInteger
            \<and> has policy ''maxItems'' isPositiveInteger
            \<and> has policy ''renderJavascript'' isBool
            \<and> has policy ''fetchAttachments'' isBool
            \<and> has policy ''respectRobots'' isBool
            \<and> has policy ''rateLimitPerMinute'' isPositiveInteger
            \<and> has policy ''timeoutSeconds'' isPositiveInteger
            \<and> has_record policy ''retry'' (\<lambda>retry.
                 hasOnlyKeys retry [''maxAttempts'', ''backoffSeconds'']
                 \<and> has retry ''maxAttempts'' isPositiveInteger
                 \<and> has retry ''backoffSeconds'' isNonNegativeInteger)
            \<and> may_have policy ''locale'' (isStringWith is_locale))
       \<and> has_record ob ''output'' (\<lambda>output.
            hasOnlyKeys output [''artifactKinds'', ''conversionProfileId'']
            \<and> has output ''artifactKinds'' (\<lambda>v. isEnumArray ARTIFACT_KINDS v \<and> 0 < arrayLength v)
            \<and> may_have output ''conversionProfileId'' (isStringWith (is_typed_id ''cnv'')))
       \<and> has ob ''createdAt'' isRfc3339_json
       \<and> has ob ''updatedAt'' isRfc3339_json
       \<and> optionalSchemaExtensions ob)"
| "isCollectionPlan _ = False"

fun isEntrypoint :: "json \<Rightarrow> bool" where
  "isEntrypoint (JObj ob) =
     (hasOnlyKeys ob [''uri'', ''label''] \<and> has ob ''uri'' isUri \<and> may_have ob ''label'' isString)"
| "isEntrypoint _ = False"

fun isSourceDefinition :: "json \<Rightarrow> bool" where
  "isSourceDefinition (JObj ob) =
     (let required = [''schemaVersion'', ''objectType'', ''id'', ''workspaceId'', ''name'', ''slug'',
            ''sourceType'', ''category'', ''authorityLevel'', ''status'', ''jurisdictions'',
            ''languages'', ''connector'', ''connectorConfig'', ''entrypoints'', ''tags'', ''createdAt'',
            ''updatedAt''];
          optional = [''secretRef'', ''canonicalUri'', ''defaultCollectionPlanId'', ''extensions'']
      in hasRequiredKeys ob required
       \<and> hasOnlyKeys ob (required @ optional)
       \<and> has ob ''schemaVersion'' (is_text SCHEMA_V1_VERSION)
       \<and> has ob ''objectType'' (is_text ''SOURCE_DEFINITION'')
       \<and> has ob ''id'' (isStringWith (is_typed_id ''src''))
       \<and> has ob ''workspaceId'' (isStringWith (is_typed_id ''wsp''))
       \<and> has ob ''name'' (isStringWith (\<lambda>s. s \<noteq> []))
       \<and> has ob ''slug'' (isStringWith is_slug)
       \<and> has ob ''sourceType'' (isEnumValue SOURCE_TYPES)
       \<and> has ob ''category'' (isEnumValue SOURCE_CATEGORIES)
       \<and> has ob ''authorityLevel'' (isEnumValue AUTHORITY_LEVELS)
       \<and> has ob ''status'' (isEnumValue SOURCE_STATUSES)
       \<and> has ob ''jurisdictions'' isStringArray
       \<and> has ob ''languages'' (\<lambda>v. isStringArray v \<and> isArrayOf (isStringWith is_locale) v)
       \<and> has_record ob ''connector'' (\<lambda>c.
            hasOnlyKeys c [''connectorId'', ''version'']
            \<and> has c ''connectorId'' (isStringWith is_slug)
            \<and> has c ''version'' (isStringWith is_semver))
       \<and> has ob ''connectorConfig'' (\<lambda>v. isJsonRecord v \<and> \<not> hasForbiddenSecretValue v)
       \<and> may_have ob ''secretRef'' (isStringWith (is_typed_id ''sec''))
       \<and> may_have ob ''canonicalUri'' isUri
       \<and> has ob ''entrypoints'' (\<lambda>v. 0 < arrayLength v \<and> isArrayOf isEntrypoint v)
       \<and> may_have ob ''defaultCollectionPlanId'' (isStringWith (is_typed_id ''pln''))
       \<and> has ob ''tags'' isStringArray
       \<and> has ob ''createdAt'' isRfc3339_json
       \<and> has ob ''updatedAt'' isRfc3339_json
       \<and> optionalSchemaExtensions ob)"
| "isSourceDefinition _ = False"

fun isHash :: "json \<Rightarrow> bool" where
  "isHash (JObj ob) =
     (hasOnlyKeys ob [''algorithm'', ''value'']
      \<and> has ob ''algorithm'' (isEnumValue HASH_ALGORITHMS)
      \<and> has ob ''value'' (isStringWith is_sha256))"
| "isHash _ = False"

text \<open>The version-1 artifact supersedes nothing; a later version supersedes another artifact.\<close>

definition versionRelationshipIsValid :: "json_object \<Rightarrow> bool" where
  "versionRelationshipIsValid ob =
     ((field ''version'' ob = Some (JNum 1) \<and> lacks ob ''supersedesArtifactId'')
      \<or> (has ob ''version'' isPositiveInteger
         \<and> (case field ''version'' ob of Some (JNum n) \<Rightarrow> 1 < n | _ \<Rightarrow> False)
         \<and> has ob ''supersedesArtifactId'' (isStringWith (is_typed_id ''art''))
         \<and> field ''supersedesArtifactId'' ob \<noteq> field ''id'' ob))"

fun isRawArtifact :: "json \<Rightarrow> bool" where
  "isRawArtifact (JObj ob) =
     (let required = [''schemaVersion'', ''objectType'', ''id'', ''workspaceId'', ''sourceId'', ''version'',
            ''artifactKind'', ''mimeType'', ''originalName'', ''storage'', ''binaryHash'', ''sizeBytes'',
            ''capturedAt'', ''collector'', ''provenance'', ''status'', ''createdAt''];
          optional = [''collectionRunId'', ''logicalDocumentId'', ''supersedesArtifactId'',
            ''canonicalUri'', ''contentHash'', ''publishedAt'', ''extensions'']
      in hasRequiredKeys ob required
       \<and> hasOnlyKeys ob (required @ optional)
       \<and> has ob ''schemaVersion'' (is_text SCHEMA_V1_VERSION)
       \<and> has ob ''objectType'' (is_text ''RAW_ARTIFACT'')
       \<and> has ob ''id'' (isStringWith (is_typed_id ''art''))
       \<and> has ob ''workspaceId'' (isStringWith (is_typed_id ''wsp''))
       \<and> has ob ''sourceId'' (isStringWith (is_typed_id ''src''))
       \<and> may_have ob ''collectionRunId'' (isStringWith (is_typed_id ''run''))
       \<and> may_have ob ''logicalDocumentId'' (isStringWith (is_typed_id ''doc''))
       \<and> versionRelationshipIsValid ob
       \<and> has ob ''artifactKind'' (isEnumValue ARTIFACT_KINDS)
       \<and> has ob ''mimeType'' (isStringWith is_mime_type)
       \<and> has ob ''originalName'' (isStringWith (\<lambda>s. s \<noteq> []))
       \<and> may_have ob ''canonicalUri'' isUri
       \<and> has_record ob ''storage'' (\<lambda>st.
            hasOnlyKeys st [''provider'', ''uri'']
            \<and> has st ''provider'' (isEnumValue STORAGE_PROVIDERS)
            \<and> has st ''uri'' isUri)
       \<and> has ob ''binaryHash'' isHash
       \<and> may_have ob ''contentHash'' isHash
       \<and> has ob ''sizeBytes'' isNonNegativeInteger
       \<and> has ob ''capturedAt'' isRfc3339_json
       \<and> may_have ob ''publishedAt'' isRfc3339_json
       \<and> has_record ob ''collector'' (\<lambda>c.
            hasOnlyKeys c [''connectorId'', ''connectorVersion'', ''workerId'', ''requestId'']
            \<and> has c ''connectorId'' (isStringWith is_slug)
            \<and> has c ''connectorVersion'' (isStringWith is_semver)
            \<and> may_have c ''workerId'' (isStringWith (is_typed_id ''wrk''))
            \<and> may_have c ''requestId'' isString)
       \<and> has_record ob ''provenance'' (\<lambda>pr.
            hasOnlyKeys pr [''sourceUri'', ''parentArtifactIds'']
            \<and> has pr ''sourceUri'' isUri
            \<and> may_have pr ''parentArtifactIds'' (\<lambda>v.
                 isStringArray v \<and> isArrayOf (isStringWith (is_typed_id ''art'')) v))
       \<and> has ob ''status'' (isEnumValue ARTIFACT_STATUSES)
       \<and> has ob ''createdAt'' isRfc3339_json
       \<and> optionalSchemaExtensions ob)"
| "isRawArtifact _ = False"

text \<open>
  \<open>isSchemaV1Contract\<close> looks its guard up with \<open>SCHEMA_V1_GUARDS[value.objectType]\<close>, an object
  literal, so the names of \<open>Object.prototype\<close> are found too: \<open>constructor\<close> is the function
  \<open>Object\<close>, which returns its argument, \<open>toString\<close> of an undefined \<open>this\<close> is the non-empty
  text \<open>[object Undefined]\<close>, both truthy, and every other inherited member throws a
  \<open>TypeError\<close> (\<open>None\<close> here) when it is called without a receiver, or is no function.
\<close>

definition SCHEMA_V1_GUARDS :: "(string \<times> (json \<Rightarrow> bool)) list" where
  "SCHEMA_V1_GUARDS =
     [(''WORKSPACE'', isWorkspace), (''CONNECTOR_MANIFEST'', isConnectorManifest),
      (''COLLECTION_PLAN'', isCollectionPlan), (''SOURCE_DEFINITION'', isSourceDefinition),
      (''RAW_ARTIFACT'', isRawArtifact)]"

definition Object_prototype :: "(string \<times> bool option) list" where
  "Object_prototype =
     [(''constructor'', Some True), (''toString'', Some True)]
     @ map (\<lambda>name. (name, None))
         [''toLocaleString'', ''valueOf'', ''hasOwnProperty'', ''isPrototypeOf'', ''propertyIsEnumerable'',
          ''__proto__'', ''__defineGetter__'', ''__defineSetter__'', ''__lookupGetter__'',
          ''__lookupSetter__'']"

fun isSchemaV1Contract :: "json \<Rightarrow> bool option" where
  "isSchemaV1Contract (JObj ob) =
     (case field ''objectType'' ob of
        Some (JStr t) \<Rightarrow>
          (case map_of SCHEMA_V1_GUARDS t of
             Some guard \<Rightarrow> Some (guard (JObj ob))
           | None \<Rightarrow> (case map_of Object_prototype t of Some called \<Rightarrow> called | None \<Rightarrow> Some False))
      | _ \<Rightarrow> Some False)"
| "isSchemaV1Contract _ = Some False"

section \<open>What the guards mean for typed documents\<close>

definition valid_extensions :: "json_object option \<Rightarrow> bool" where
  "valid_extensions e = (case e of None \<Rightarrow> True | Some ob \<Rightarrow> isSchemaExtensions (JObj ob))"

definition optionally :: "('a \<Rightarrow> bool) \<Rightarrow> 'a option \<Rightarrow> bool" where
  "optionally P v = (case v of None \<Rightarrow> True | Some x \<Rightarrow> P x)"

lemma optionally_simps [simp]: "optionally P None" "optionally P (Some x) = P x"
  by (simp_all add: optionally_def)

fun schedule_valid :: "collection_schedule \<Rightarrow> bool" where
  "schedule_valid ManualSchedule = True"
| "schedule_valid (IntervalSchedule n) = (0 < n)"
| "schedule_valid (CronSchedule e z) = (5 \<le> length (split_spaces (trim e)) \<and> z \<noteq> [])"
| "schedule_valid (ChangeWatchSchedule n) = (0 < n)"

definition policy_valid :: "collection_policy \<Rightarrow> bool" where
  "policy_valid p =
     (0 \<le> maxDepth p \<and> 0 < maxItems p \<and> 0 < rateLimitPerMinute p \<and> 0 < timeoutSeconds p
      \<and> 0 < retry_maxAttempts p \<and> 0 \<le> retry_backoffSeconds p
      \<and> optionally is_locale (policy_locale p))"

definition plan_valid :: "collection_plan \<Rightarrow> bool" where
  "plan_valid p =
     (is_typed_id ''pln'' (plan_id p) \<and> is_typed_id ''wsp'' (plan_workspaceId p)
      \<and> is_typed_id ''src'' (plan_sourceId p) \<and> plan_name p \<noteq> []
      \<and> schedule_valid (plan_schedule p) \<and> policy_valid (plan_policy p)
      \<and> plan_artifactKinds p \<noteq> []
      \<and> optionally (is_typed_id ''cnv'') (plan_conversionProfileId p)
      \<and> isRfc3339 (plan_createdAt p) \<and> isRfc3339 (plan_updatedAt p)
      \<and> valid_extensions (plan_extensions p))"

definition source_valid :: "source_definition \<Rightarrow> bool" where
  "source_valid s =
     (is_typed_id ''src'' (source_id s) \<and> is_typed_id ''wsp'' (source_workspaceId s)
      \<and> source_name s \<noteq> [] \<and> is_slug (source_slug s)
      \<and> source_category s \<in> set SOURCE_CATEGORIES
      \<and> source_authorityLevel s \<in> set AUTHORITY_LEVELS
      \<and> list_all is_locale (source_languages s)
      \<and> is_slug (ref_connectorId (source_connector s))
      \<and> is_semver (ref_version (source_connector s))
      \<and> \<not> hasForbiddenSecretValue (JObj (source_connectorConfig s))
      \<and> optionally (is_typed_id ''sec'') (source_secretRef s)
      \<and> optionally is_uri (source_canonicalUri s)
      \<and> source_entrypoints s \<noteq> [] \<and> list_all (is_uri \<circ> fst) (source_entrypoints s)
      \<and> optionally (is_typed_id ''pln'') (source_defaultCollectionPlanId s)
      \<and> isRfc3339 (source_createdAt s) \<and> isRfc3339 (source_updatedAt s)
      \<and> valid_extensions (source_extensions s))"

definition connector_valid :: "connector_manifest \<Rightarrow> bool" where
  "connector_valid c =
     (is_slug (connector_connectorId c) \<and> connector_displayName c \<noteq> []
      \<and> is_semver (connector_version c) \<and> connector_sourceTypes c \<noteq> []
      \<and> connector_runtime c \<in> set CONNECTOR_RUNTIMES
      \<and> connector_healthMode c \<in> set HEALTH_CHECK_MODES \<and> 0 < connector_timeoutSeconds c
      \<and> valid_extensions (connector_extensions c))"

lemma isJsonValue_always [simp]: "isJsonValue v"
  by (induction v rule: isJsonValue.induct) (auto simp: list_all_iff)

text \<open>Evaluating a guard on an encoded document: the lists of keys compute.\<close>

lemmas guard_eval =
  Let_def hasRequiredKeys_def hasOnlyKeys_def has_def may_have_def has_record_def lacks_def
  isEnumArray_def isStringArray_def isUri_def isRfc3339_json_def SCHEMA_V1_VERSION_def
  name_in_list list.pred_True list.pred_map comp_def

lemma optionalSchemaExtensions_iff:
  "optionalSchemaExtensions ob \<longleftrightarrow> may_have ob ''extensions'' isSchemaExtensions"
  by (simp add: optionalSchemaExtensions_def)

lemma list_all_isJsonValue [simp]: "list_all (\<lambda>(k, v). isJsonValue v) ob"
  by (simp add: list_all_iff split_beta)

lemma optional_texts [simp]:
  "(case v of None \<Rightarrow> True | Some w \<Rightarrow> (isStringWith P \<circ> JStr) w) = optionally P v"
  "(case v of None \<Rightarrow> True | Some w \<Rightarrow> (isString \<circ> JStr) w)"
  by (cases v; simp add: optionally_def)+

lemma optional_extensions [simp]:
  "(case e of None \<Rightarrow> True | Some w \<Rightarrow> (isSchemaExtensions \<circ> JObj) w) = valid_extensions e"
  by (cases e) (simp_all add: valid_extensions_def)

lemma isCollectionSchedule_schedule_json [doc_simps]:
  "isCollectionSchedule (schedule_json s) = schedule_valid s"
  by (cases s) (simp_all add: guard_eval)

lemma isCollectionPlan_plan_json [doc_simps]: "isCollectionPlan (plan_json p) = plan_valid p"
  by (simp add: plan_json_def plan_valid_def policy_json_def policy_valid_def policyKeys_def
      guard_eval optionalSchemaExtensions_iff
      isCollectionSchedule_schedule_json list_all_iff conj_ac)

lemma isConnectorManifest_connector_json [doc_simps]:
  "isConnectorManifest (connector_json c) = connector_valid c"
  by (simp add: connector_json_def connector_valid_def
      guard_eval optionalSchemaExtensions_iff conj_ac)

lemma isEntrypoint_entrypoint_json [simp]: "isEntrypoint (entrypoint_json e) = is_uri (fst e)"
  by (cases "snd e") (simp_all add: entrypoint_json_def guard_eval)

lemma isSourceDefinition_source_json [doc_simps]:
  "isSourceDefinition (source_json s) = source_valid s"
  by (simp add: source_json_def source_valid_def connector_ref_json_def
      guard_eval optionalSchemaExtensions_iff conj_ac)

lemma isSchemaV1Contract_prototype_member:
  "isSchemaV1Contract (JObj [(''objectType'', JStr ''constructor'')]) = Some True"
  by (simp add: SCHEMA_V1_GUARDS_def Object_prototype_def)

end
