(* ===== verification/Execution_V1.thy ===== *)
theory Execution_V1
  imports Schema_V1
begin

text \<open>
  \<open>packages/contracts/src/execution-v1.ts\<close>: collection runs and jobs. A run and its job carry
  the snapshots of the plan, the source and the connector they were created from; the guards
  check that the snapshots belong together and that only a cancelled document says when and
  why it was cancelled.
\<close>

record execution_actor =
  actor_type :: actor_type
  actor_id :: "string option"

record execution_trigger =
  trigger_type :: trigger_type
  trigger_requestedBy :: execution_actor
  trigger_idempotencyKey :: "string option"
  trigger_parentRunId :: "string option"

record collection_run =
  run_id :: string
  run_workspaceId :: string
  run_sourceId :: string
  run_planId :: string
  run_status :: run_status
  run_trigger :: execution_trigger
  run_planSnapshot :: collection_plan
  run_sourceSnapshot :: source_definition
  run_connectorSnapshot :: connector_manifest
  run_requestedAt :: string
  run_createdAt :: string
  run_updatedAt :: string
  run_cancelledAt :: "string option"
  run_cancellationReason :: "string option"
  run_extensions :: "json_object option"

record job =
  job_id :: string
  job_runId :: string
  job_workspaceId :: string
  job_sourceId :: string
  job_planId :: string
  job_type :: job_type
  job_status :: job_status
  job_connector :: connector_ref
  job_priority :: priority
  job_attempt :: int
  job_maxAttempts :: int
  job_availableAt :: string
  job_planSnapshot :: collection_plan
  job_sourceSnapshot :: source_definition
  job_connectorSnapshot :: connector_manifest
  job_createdAt :: string
  job_updatedAt :: string
  job_cancelledAt :: "string option"
  job_cancellationReason :: "string option"
  job_extensions :: "json_object option"

definition actor_json :: "execution_actor \<Rightarrow> json" where
  "actor_json a = JObj ((''actorType'', JStr (actor_type_name (actor_type a)))
                        # opt_entry ''actorId'' JStr (actor_id a))"

definition trigger_json :: "execution_trigger \<Rightarrow> json" where
  "trigger_json t = JObj (
     [(''type'', JStr (trigger_type_name (trigger_type t))),
      (''requestedBy'', actor_json (trigger_requestedBy t))]
     @ opt_entry ''idempotencyKey'' JStr (trigger_idempotencyKey t)
     @ opt_entry ''parentRunId'' JStr (trigger_parentRunId t))"

definition run_json :: "collection_run \<Rightarrow> json" where
  "run_json r = JObj (
     [(''contractVersion'', JStr ''1.0''),
      (''objectType'', JStr ''COLLECTION_RUN''),
      (''id'', JStr (run_id r)),
      (''workspaceId'', JStr (run_workspaceId r)),
      (''sourceId'', JStr (run_sourceId r)),
      (''planId'', JStr (run_planId r)),
      (''status'', JStr (run_status_name (run_status r))),
      (''trigger'', trigger_json (run_trigger r)),
      (''planSnapshot'', plan_json (run_planSnapshot r)),
      (''sourceSnapshot'', source_json (run_sourceSnapshot r)),
      (''connectorSnapshot'', connector_json (run_connectorSnapshot r)),
      (''requestedAt'', JStr (run_requestedAt r)),
      (''createdAt'', JStr (run_createdAt r)),
      (''updatedAt'', JStr (run_updatedAt r))]
     @ opt_entry ''cancelledAt'' JStr (run_cancelledAt r)
     @ opt_entry ''cancellationReason'' JStr (run_cancellationReason r)
     @ opt_entry ''extensions'' JObj (run_extensions r))"

definition job_json :: "job \<Rightarrow> json" where
  "job_json j = JObj (
     [(''contractVersion'', JStr ''1.0''),
      (''objectType'', JStr ''JOB''),
      (''id'', JStr (job_id j)),
      (''runId'', JStr (job_runId j)),
      (''workspaceId'', JStr (job_workspaceId j)),
      (''sourceId'', JStr (job_sourceId j)),
      (''planId'', JStr (job_planId j)),
      (''jobType'', JStr (job_type_name (job_type j))),
      (''status'', JStr (job_status_name (job_status j))),
      (''connector'', connector_ref_json (job_connector j)),
      (''priority'', JStr (priority_name (job_priority j))),
      (''attempt'', JInt (job_attempt j)),
      (''maxAttempts'', JInt (job_maxAttempts j)),
      (''availableAt'', JStr (job_availableAt j)),
      (''planSnapshot'', plan_json (job_planSnapshot j)),
      (''sourceSnapshot'', source_json (job_sourceSnapshot j)),
      (''connectorSnapshot'', connector_json (job_connectorSnapshot j)),
      (''createdAt'', JStr (job_createdAt j)),
      (''updatedAt'', JStr (job_updatedAt j))]
     @ opt_entry ''cancelledAt'' JStr (job_cancelledAt j)
     @ opt_entry ''cancellationReason'' JStr (job_cancellationReason j)
     @ opt_entry ''extensions'' JObj (job_extensions j))"

section \<open>Guards\<close>

definition EXECUTION_CONTRACT_VERSION :: string where
  "EXECUTION_CONTRACT_VERSION = ''1.0''"

definition optionalExtensions :: "json_object \<Rightarrow> string \<Rightarrow> bool" where
  "optionalExtensions ob k = may_have ob k isExtensions"

definition text_within :: "nat \<Rightarrow> string \<Rightarrow> bool" where
  "text_within n s = (0 < length s \<and> length s \<le> n)"

fun isExecutionActor :: "json \<Rightarrow> bool" where
  "isExecutionActor (JObj ob) =
     (hasRequiredKeys ob [''actorType'']
      \<and> hasOnlyKeys ob [''actorType'', ''actorId'']
      \<and> has ob ''actorType'' (isEnumValue EXECUTION_ACTOR_TYPES)
      \<and> may_have ob ''actorId'' (isStringWith (text_within 200)))"
| "isExecutionActor _ = False"

fun isExecutionTrigger :: "json \<Rightarrow> bool" where
  "isExecutionTrigger (JObj ob) =
     (hasRequiredKeys ob [''type'', ''requestedBy'']
      \<and> hasOnlyKeys ob [''type'', ''requestedBy'', ''idempotencyKey'', ''parentRunId'']
      \<and> has ob ''type'' (isEnumValue RUN_TRIGGER_TYPES)
      \<and> has ob ''requestedBy'' isExecutionActor
      \<and> may_have ob ''idempotencyKey'' (isStringWith (text_within 128))
      \<and> may_have ob ''parentRunId'' (isStringWith (is_typed_id ''run''))
      \<and> (if field ''type'' ob = Some (JStr ''RETRY'') then has ob ''parentRunId'' isString
         else lacks ob ''parentRunId''))"
| "isExecutionTrigger _ = False"

text \<open>
  \<open>snapshotsAlign\<close> reads the snapshots after their own guards have passed; \<open>path_of\<close> follows a path
  of properties.
\<close>

fun path_of :: "string list \<Rightarrow> json \<Rightarrow> json option" where
  "path_of [] v = Some v"
| "path_of (k # ks) (JObj ob) = (case field k ob of None \<Rightarrow> None | Some w \<Rightarrow> path_of ks w)"
| "path_of (k # ks) _ = None"

definition snapshotsAlign :: "json_object \<Rightarrow> bool" where
  "snapshotsAlign ob =
     (let value = JObj ob in
        path_of [''planSnapshot'', ''id''] value = path_of [''planId''] value
        \<and> path_of [''planSnapshot'', ''sourceId''] value = path_of [''sourceId''] value
        \<and> path_of [''planSnapshot'', ''workspaceId''] value = path_of [''workspaceId''] value
        \<and> path_of [''sourceSnapshot'', ''id''] value = path_of [''sourceId''] value
        \<and> path_of [''sourceSnapshot'', ''workspaceId''] value = path_of [''workspaceId''] value
        \<and> path_of [''sourceSnapshot'', ''connector'', ''connectorId''] value
            = path_of [''connectorSnapshot'', ''connectorId''] value
        \<and> path_of [''sourceSnapshot'', ''connector'', ''version''] value
            = path_of [''connectorSnapshot'', ''version''] value)"

definition cancellationFieldsAreValid :: "json_object \<Rightarrow> bool" where
  "cancellationFieldsAreValid ob =
     (if field ''status'' ob = Some (JStr ''CANCELLED'')
      then has ob ''cancelledAt'' isRfc3339_json
           \<and> may_have ob ''cancellationReason'' (isStringWith (text_within 500))
      else lacks ob ''cancelledAt'' \<and> lacks ob ''cancellationReason'')"

fun isCollectionRun :: "json \<Rightarrow> bool" where
  "isCollectionRun (JObj ob) =
     (let required = [''contractVersion'', ''objectType'', ''id'', ''workspaceId'', ''sourceId'',
            ''planId'', ''status'', ''trigger'', ''planSnapshot'', ''sourceSnapshot'',
            ''connectorSnapshot'', ''requestedAt'', ''createdAt'', ''updatedAt'']
      in hasRequiredKeys ob required
       \<and> hasOnlyKeys ob (required @ [''cancelledAt'', ''cancellationReason'', ''extensions''])
       \<and> has ob ''contractVersion'' (is_text EXECUTION_CONTRACT_VERSION)
       \<and> has ob ''objectType'' (is_text ''COLLECTION_RUN'')
       \<and> has ob ''id'' (isStringWith (is_typed_id ''run''))
       \<and> has ob ''workspaceId'' (isStringWith (is_typed_id ''wsp''))
       \<and> has ob ''sourceId'' (isStringWith (is_typed_id ''src''))
       \<and> has ob ''planId'' (isStringWith (is_typed_id ''pln''))
       \<and> has ob ''status'' (isEnumValue COLLECTION_RUN_STATUSES)
       \<and> has ob ''trigger'' isExecutionTrigger
       \<and> has ob ''planSnapshot'' isCollectionPlan
       \<and> has ob ''sourceSnapshot'' isSourceDefinition
       \<and> has ob ''connectorSnapshot'' isConnectorManifest
       \<and> has ob ''requestedAt'' isRfc3339_json
       \<and> has ob ''createdAt'' isRfc3339_json
       \<and> has ob ''updatedAt'' isRfc3339_json
       \<and> optionalExtensions ob ''extensions''
       \<and> snapshotsAlign ob
       \<and> cancellationFieldsAreValid ob)"
| "isCollectionRun _ = False"

fun isJob :: "json \<Rightarrow> bool" where
  "isJob (JObj ob) =
     (let required = [''contractVersion'', ''objectType'', ''id'', ''runId'', ''workspaceId'', ''sourceId'',
            ''planId'', ''jobType'', ''status'', ''connector'', ''priority'', ''attempt'', ''maxAttempts'',
            ''availableAt'', ''planSnapshot'', ''sourceSnapshot'', ''connectorSnapshot'', ''createdAt'',
            ''updatedAt'']
      in hasRequiredKeys ob required
       \<and> hasOnlyKeys ob (required @ [''cancelledAt'', ''cancellationReason'', ''extensions''])
       \<and> has_record ob ''connector'' (\<lambda>c. hasOnlyKeys c [''connectorId'', ''version''])
       \<and> has ob ''contractVersion'' (is_text EXECUTION_CONTRACT_VERSION)
       \<and> has ob ''objectType'' (is_text ''JOB'')
       \<and> has ob ''id'' (isStringWith (is_typed_id ''job''))
       \<and> has ob ''runId'' (isStringWith (is_typed_id ''run''))
       \<and> has ob ''workspaceId'' (isStringWith (is_typed_id ''wsp''))
       \<and> has ob ''sourceId'' (isStringWith (is_typed_id ''src''))
       \<and> has ob ''planId'' (isStringWith (is_typed_id ''pln''))
       \<and> has ob ''jobType'' (isEnumValue JOB_TYPES)
       \<and> has ob ''status'' (isEnumValue JOB_STATUSES)
       \<and> has_record ob ''connector'' (\<lambda>c.
            has c ''connectorId'' (isStringWith is_slug) \<and> has c ''version'' (isStringWith is_semver))
       \<and> has ob ''priority'' (isEnumValue COLLECTION_PRIORITIES)
       \<and> has ob ''attempt'' isPositiveInteger
       \<and> has ob ''maxAttempts'' isPositiveInteger
       \<and> (case (field ''attempt'' ob, field ''maxAttempts'' ob) of
            (Some (JNum n), Some (JNum m)) \<Rightarrow> \<not> m < n | _ \<Rightarrow> False)
       \<and> has ob ''availableAt'' isRfc3339_json
       \<and> has ob ''planSnapshot'' isCollectionPlan
       \<and> has ob ''sourceSnapshot'' isSourceDefinition
       \<and> has ob ''connectorSnapshot'' isConnectorManifest
       \<and> has ob ''createdAt'' isRfc3339_json
       \<and> has ob ''updatedAt'' isRfc3339_json
       \<and> optionalExtensions ob ''extensions''
       \<and> snapshotsAlign ob
       \<and> path_of [''connector'', ''connectorId''] (JObj ob)
           = path_of [''connectorSnapshot'', ''connectorId''] (JObj ob)
       \<and> path_of [''connector'', ''version''] (JObj ob) = path_of [''connectorSnapshot'', ''version''] (JObj ob)
       \<and> cancellationFieldsAreValid ob)"
| "isJob _ = False"

definition isExecutionContract :: "json \<Rightarrow> bool" where
  "isExecutionContract v = (isCollectionRun v \<or> isJob v)"

section \<open>What the guards mean for runs and jobs\<close>

definition safe_extensions :: "json_object option \<Rightarrow> bool" where
  "safe_extensions = optionally (isExtensions \<circ> JObj)"

definition actor_valid :: "execution_actor \<Rightarrow> bool" where
  "actor_valid a = optionally (text_within 200) (actor_id a)"

definition trigger_valid :: "execution_trigger \<Rightarrow> bool" where
  "trigger_valid t =
     (actor_valid (trigger_requestedBy t)
      \<and> optionally (text_within 128) (trigger_idempotencyKey t)
      \<and> optionally (is_typed_id ''run'') (trigger_parentRunId t)
      \<and> (trigger_type t = T_RETRY \<longleftrightarrow> trigger_parentRunId t \<noteq> None))"

definition snapshots_align ::
    "string \<Rightarrow> string \<Rightarrow> string \<Rightarrow> collection_plan \<Rightarrow> source_definition \<Rightarrow> connector_manifest \<Rightarrow> bool"
  where
  "snapshots_align workspaceId sourceId planId plan source connector =
     (plan_id plan = planId \<and> plan_sourceId plan = sourceId \<and> plan_workspaceId plan = workspaceId
      \<and> source_id source = sourceId \<and> source_workspaceId source = workspaceId
      \<and> ref_connectorId (source_connector source) = connector_connectorId connector
      \<and> ref_version (source_connector source) = connector_version connector)"

definition cancellation_valid :: "bool \<Rightarrow> string option \<Rightarrow> string option \<Rightarrow> bool" where
  "cancellation_valid cancelled cancelledAt reason =
     (if cancelled then cancelledAt \<noteq> None \<and> optionally isRfc3339 cancelledAt \<and> optionally (text_within 500) reason
      else cancelledAt = None \<and> reason = None)"

definition run_valid :: "collection_run \<Rightarrow> bool" where
  "run_valid r =
     (is_typed_id ''run'' (run_id r) \<and> is_typed_id ''wsp'' (run_workspaceId r)
      \<and> is_typed_id ''src'' (run_sourceId r) \<and> is_typed_id ''pln'' (run_planId r)
      \<and> trigger_valid (run_trigger r)
      \<and> plan_valid (run_planSnapshot r) \<and> source_valid (run_sourceSnapshot r)
      \<and> connector_valid (run_connectorSnapshot r)
      \<and> isRfc3339 (run_requestedAt r) \<and> isRfc3339 (run_createdAt r) \<and> isRfc3339 (run_updatedAt r)
      \<and> safe_extensions (run_extensions r)
      \<and> snapshots_align (run_workspaceId r) (run_sourceId r) (run_planId r)
          (run_planSnapshot r) (run_sourceSnapshot r) (run_connectorSnapshot r)
      \<and> cancellation_valid (run_status r = R_CANCELLED) (run_cancelledAt r)
          (run_cancellationReason r))"

definition job_valid :: "job \<Rightarrow> bool" where
  "job_valid j =
     (is_typed_id ''job'' (job_id j) \<and> is_typed_id ''run'' (job_runId j)
      \<and> is_typed_id ''wsp'' (job_workspaceId j)
      \<and> is_typed_id ''src'' (job_sourceId j) \<and> is_typed_id ''pln'' (job_planId j)
      \<and> is_slug (ref_connectorId (job_connector j)) \<and> is_semver (ref_version (job_connector j))
      \<and> 0 < job_attempt j \<and> 0 < job_maxAttempts j \<and> job_attempt j \<le> job_maxAttempts j
      \<and> isRfc3339 (job_availableAt j)
      \<and> plan_valid (job_planSnapshot j) \<and> source_valid (job_sourceSnapshot j)
      \<and> connector_valid (job_connectorSnapshot j)
      \<and> isRfc3339 (job_createdAt j) \<and> isRfc3339 (job_updatedAt j)
      \<and> safe_extensions (job_extensions j)
      \<and> snapshots_align (job_workspaceId j) (job_sourceId j) (job_planId j)
          (job_planSnapshot j) (job_sourceSnapshot j) (job_connectorSnapshot j)
      \<and> ref_connectorId (job_connector j) = connector_connectorId (job_connectorSnapshot j)
      \<and> ref_version (job_connector j) = connector_version (job_connectorSnapshot j)
      \<and> cancellation_valid (job_status j = J_CANCELLED) (job_cancelledAt j)
          (job_cancellationReason j))"

lemma optional_safe_extensions [simp]:
  "(case e of None \<Rightarrow> True | Some w \<Rightarrow> (isExtensions \<circ> JObj) w) = safe_extensions e"
  by (cases e) (simp_all add: safe_extensions_def)

lemma safe_extensions_None [simp]: "safe_extensions None"
  by (simp add: safe_extensions_def)

lemma required_texts [simp]:
  "(case v of None \<Rightarrow> False | Some w \<Rightarrow> (isStringWith P \<circ> JStr) w) =
     (v \<noteq> None \<and> optionally P v)"
  "(case v of None \<Rightarrow> False | Some w \<Rightarrow> (isString \<circ> JStr) w) = (v \<noteq> None)"
  by (cases v; simp)+

lemma trigger_type_is_RETRY [simp]: "trigger_type_name t = ''RETRY'' \<longleftrightarrow> t = T_RETRY"
  by (cases t) simp_all

lemma run_status_is_CANCELLED [simp]: "run_status_name s = ''CANCELLED'' \<longleftrightarrow> s = R_CANCELLED"
  by (cases s) simp_all

lemma job_status_is_CANCELLED [simp]: "job_status_name s = ''CANCELLED'' \<longleftrightarrow> s = J_CANCELLED"
  by (cases s) simp_all

lemma CANCELLED_in_lists [simp]:
  "''CANCELLED'' \<in> set COLLECTION_RUN_STATUSES" "''CANCELLED'' \<in> set JOB_STATUSES"
  by (simp_all add: COLLECTION_RUN_STATUSES_def JOB_STATUSES_def)

lemma isExecutionActor_actor_json [doc_simps]: "isExecutionActor (actor_json a) = actor_valid a"
  by (simp add: actor_json_def actor_valid_def guard_eval)

lemma isExecutionTrigger_trigger_json [doc_simps]:
  "isExecutionTrigger (trigger_json t) = trigger_valid t"
  by (auto simp add: trigger_json_def trigger_valid_def guard_eval isExecutionActor_actor_json)

lemma path_of_snapshots [simp]:
  "path_of [''id''] (plan_json p) = Some (JStr (plan_id p))"
  "path_of [''sourceId''] (plan_json p) = Some (JStr (plan_sourceId p))"
  "path_of [''workspaceId''] (plan_json p) = Some (JStr (plan_workspaceId p))"
  "path_of [''id''] (source_json s) = Some (JStr (source_id s))"
  "path_of [''workspaceId''] (source_json s) = Some (JStr (source_workspaceId s))"
  "path_of [''connector'', ''connectorId''] (source_json s) =
     Some (JStr (ref_connectorId (source_connector s)))"
  "path_of [''connector'', ''version''] (source_json s) = Some (JStr (ref_version (source_connector s)))"
  "path_of [''connectorId''] (connector_json c) = Some (JStr (connector_connectorId c))"
  "path_of [''version''] (connector_json c) = Some (JStr (connector_version c))"
  by (simp_all add: plan_json_def source_json_def connector_json_def connector_ref_json_def)

lemmas execution_guard_eval =
  guard_eval EXECUTION_CONTRACT_VERSION_def optionalExtensions_def snapshotsAlign_def
  cancellationFieldsAreValid_def snapshots_align_def cancellation_valid_def doc_simps

lemma isCollectionRun_run_json [doc_simps]: "isCollectionRun (run_json r) = run_valid r"
  by (cases "run_status r = R_CANCELLED")
    (auto simp add: run_json_def run_valid_def execution_guard_eval)

lemma isJob_job_json [doc_simps]: "isJob (job_json j) = job_valid j"
  by (cases "job_status j = J_CANCELLED")
    (auto simp add: job_json_def job_valid_def connector_ref_json_def execution_guard_eval)

end
