(* ===== verification/Worker_Protocol_V1.thy ===== *)
theory Worker_Protocol_V1
  imports Execution_V1
begin

text \<open>
  \<open>packages/contracts/src/worker-protocol-v1.ts\<close>: worker definitions, heartbeats and job leases.
  A lease is open exactly while its status is \<open>ACTIVE\<close>, expires after it was acquired, and no
  document of the protocol holds a credential.
\<close>

record connector_binding =
  binding_connectorId :: string
  binding_version :: string
  binding_capabilities :: "capability list"

record worker_definition =
  worker_id :: string
  worker_workspaceId :: string
  worker_displayName :: string
  worker_desiredState :: desired_state
  worker_runtimeId :: string
  worker_runtimeVersion :: string
  worker_supportedJobTypes :: "job_type list"
  worker_connectorBindings :: "connector_binding list"
  worker_maxConcurrency :: int
  worker_labels :: "string list"
  worker_createdAt :: string
  worker_updatedAt :: string
  worker_extensions :: "json_object option"

record worker_heartbeat =
  heartbeat_id :: string
  heartbeat_workerId :: string
  heartbeat_workspaceId :: string
  heartbeat_observedAt :: string
  heartbeat_receivedAt :: string
  heartbeat_runtimeVersion :: string
  heartbeat_health :: health_state
  heartbeat_activeLeaseIds :: "string list"
  heartbeat_diagnostics :: "json_object option"

record job_lease =
  lease_id :: string
  lease_workspaceId :: string
  lease_workerId :: string
  lease_jobId :: string
  lease_runId :: string
  lease_jobType :: job_type
  lease_connector :: connector_ref
  lease_status :: lease_status
  lease_acquiredAt :: string
  lease_expiresAt :: string
  lease_updatedAt :: string
  lease_closedAt :: "string option"
  lease_closeReason :: "string option"
  lease_extensions :: "json_object option"

record worker_runtime_view =
  view_worker :: worker_definition
  view_effectiveStatus :: worker_status
  view_latestHeartbeat :: "worker_heartbeat option"
  view_activeLeaseCount :: nat
  view_activeLeases :: "job_lease list"

definition binding_json :: "connector_binding \<Rightarrow> json" where
  "binding_json b =
     JObj [(''connectorId'', JStr (binding_connectorId b)),
           (''version'', JStr (binding_version b)),
           (''capabilities'', JStrs (map capability_name (binding_capabilities b)))]"

definition worker_json :: "worker_definition \<Rightarrow> json" where
  "worker_json w = JObj (
     [(''contractVersion'', JStr ''1.0''),
      (''objectType'', JStr ''WORKER_DEFINITION''),
      (''id'', JStr (worker_id w)),
      (''workspaceId'', JStr (worker_workspaceId w)),
      (''displayName'', JStr (worker_displayName w)),
      (''desiredState'', JStr (desired_state_name (worker_desiredState w))),
      (''runtime'', JObj [(''runtimeId'', JStr (worker_runtimeId w)),
                        (''version'', JStr (worker_runtimeVersion w))]),
      (''supportedJobTypes'', JStrs (map job_type_name (worker_supportedJobTypes w))),
      (''connectorBindings'', JArr (map binding_json (worker_connectorBindings w))),
      (''maxConcurrency'', JInt (worker_maxConcurrency w)),
      (''labels'', JStrs (worker_labels w)),
      (''createdAt'', JStr (worker_createdAt w)),
      (''updatedAt'', JStr (worker_updatedAt w))]
     @ opt_entry ''extensions'' JObj (worker_extensions w))"

definition heartbeat_json :: "worker_heartbeat \<Rightarrow> json" where
  "heartbeat_json h = JObj (
     [(''contractVersion'', JStr ''1.0''),
      (''objectType'', JStr ''WORKER_HEARTBEAT''),
      (''id'', JStr (heartbeat_id h)),
      (''workerId'', JStr (heartbeat_workerId h)),
      (''workspaceId'', JStr (heartbeat_workspaceId h)),
      (''observedAt'', JStr (heartbeat_observedAt h)),
      (''receivedAt'', JStr (heartbeat_receivedAt h)),
      (''runtimeVersion'', JStr (heartbeat_runtimeVersion h)),
      (''health'', JStr (health_state_name (heartbeat_health h))),
      (''activeLeaseIds'', JStrs (heartbeat_activeLeaseIds h))]
     @ opt_entry ''diagnostics'' JObj (heartbeat_diagnostics h))"

definition lease_json :: "job_lease \<Rightarrow> json" where
  "lease_json l = JObj (
     [(''contractVersion'', JStr ''1.0''),
      (''objectType'', JStr ''JOB_LEASE''),
      (''id'', JStr (lease_id l)),
      (''workspaceId'', JStr (lease_workspaceId l)),
      (''workerId'', JStr (lease_workerId l)),
      (''jobId'', JStr (lease_jobId l)),
      (''runId'', JStr (lease_runId l)),
      (''jobType'', JStr (job_type_name (lease_jobType l))),
      (''connector'', connector_ref_json (lease_connector l)),
      (''status'', JStr (lease_status_name (lease_status l))),
      (''acquiredAt'', JStr (lease_acquiredAt l)),
      (''expiresAt'', JStr (lease_expiresAt l)),
      (''updatedAt'', JStr (lease_updatedAt l))]
     @ opt_entry ''closedAt'' JStr (lease_closedAt l)
     @ opt_entry ''closeReason'' JStr (lease_closeReason l)
     @ opt_entry ''extensions'' JObj (lease_extensions l))"

section \<open>Guards\<close>

definition WORKER_PROTOCOL_VERSION :: string where
  "WORKER_PROTOCOL_VERSION = ''1.0''"

definition WORKER_STATUSES :: "string list" where
  "WORKER_STATUSES =
     [''ONLINE'', ''BUSY'', ''DRAINING'', ''OFFLINE'', ''DISABLED'', ''ERROR'']"

definition bounded_text :: "nat \<Rightarrow> string \<Rightarrow> bool" where
  "bounded_text limit s = (0 < length (trim s) \<and> length s \<le> limit)"

definition isBoundedText :: "nat \<Rightarrow> json \<Rightarrow> bool" where
  "isBoundedText limit = isStringWith (bounded_text limit)"

definition isBoundedStringArray :: "nat \<Rightarrow> json \<Rightarrow> bool" where
  "isBoundedStringArray most v =
     (isArrayOf (isBoundedText 200) v \<and> arrayLength v \<le> most \<and> isSetArray v)"

fun isConnectorBinding :: "json \<Rightarrow> bool" where
  "isConnectorBinding (JObj ob) =
     (hasRequiredKeys ob [''connectorId'', ''version'', ''capabilities'']
      \<and> hasOnlyKeys ob [''connectorId'', ''version'', ''capabilities'']
      \<and> has ob ''connectorId'' (isStringWith is_slug)
      \<and> has ob ''version'' (isStringWith is_semver)
      \<and> has ob ''capabilities'' (\<lambda>v.
           0 < arrayLength v \<and> isArrayOf (isEnumValue CONNECTOR_CAPABILITIES) v \<and> isSetArray v))"
| "isConnectorBinding _ = False"

text \<open>The identity of a binding is the text \<open>connectorId@version\<close>.\<close>

definition binding_identity :: "json \<Rightarrow> string" where
  "binding_identity v =
     (case (path_of [''connectorId''] v, path_of [''version''] v) of
        (Some (JStr c), Some (JStr n)) \<Rightarrow> c @ ''@'' @ n | _ \<Rightarrow> [])"

fun bindingsAreUnique :: "json \<Rightarrow> bool" where
  "bindingsAreUnique (JArr vs) = distinct (map binding_identity vs)"
| "bindingsAreUnique _ = False"

definition closureFieldsAreValid :: "json_object \<Rightarrow> bool" where
  "closureFieldsAreValid ob =
     (if field ''status'' ob = Some (JStr ''ACTIVE'')
      then lacks ob ''closedAt'' \<and> lacks ob ''closeReason''
      else has ob ''closedAt'' isRfc3339_json
           \<and> may_have ob ''closeReason'' (isStringWith (\<lambda>s. length s \<le> 500)))"

text \<open>\<open>Date.parse(x) <= Date.parse(y)\<close>, false when one of them is no date.\<close>

definition not_later :: "string \<Rightarrow> string \<Rightarrow> bool" where
  "not_later x y =
     (case (parse_iso x, parse_iso y) of (Some t, Some u) \<Rightarrow> t \<le> u | _ \<Rightarrow> False)"

fun isWorkerDefinition :: "json \<Rightarrow> bool" where
  "isWorkerDefinition (JObj ob) =
     (let required = [''contractVersion'', ''objectType'', ''id'', ''workspaceId'', ''displayName'',
            ''desiredState'', ''runtime'', ''supportedJobTypes'', ''connectorBindings'',
            ''maxConcurrency'', ''labels'', ''createdAt'', ''updatedAt'']
      in hasRequiredKeys ob required
       \<and> hasOnlyKeys ob (required @ [''extensions''])
       \<and> has_record ob ''runtime'' (\<lambda>runtime.
            hasRequiredKeys runtime [''runtimeId'', ''version'']
            \<and> hasOnlyKeys runtime [''runtimeId'', ''version'']
            \<and> has runtime ''runtimeId'' (isStringWith is_runtime_id)
            \<and> has runtime ''version'' (isStringWith is_semver))
       \<and> has ob ''contractVersion'' (is_text WORKER_PROTOCOL_VERSION)
       \<and> has ob ''objectType'' (is_text ''WORKER_DEFINITION'')
       \<and> has ob ''id'' (isStringWith (is_typed_id ''wrk''))
       \<and> has ob ''workspaceId'' (isStringWith (is_typed_id ''wsp''))
       \<and> has ob ''displayName'' (isBoundedText 200)
       \<and> has ob ''desiredState'' (isEnumValue WORKER_DESIRED_STATES)
       \<and> has ob ''supportedJobTypes'' (\<lambda>v.
            0 < arrayLength v \<and> isArrayOf (isEnumValue JOB_TYPES) v \<and> isSetArray v)
       \<and> has ob ''connectorBindings'' (\<lambda>v.
            0 < arrayLength v \<and> isArrayOf isConnectorBinding v \<and> bindingsAreUnique v)
       \<and> has ob ''maxConcurrency'' (\<lambda>v. isPositiveInteger v \<and>
            (case v of JNum n \<Rightarrow> \<not> n < 1 \<and> \<not> 1000 < n | _ \<Rightarrow> False))
       \<and> has ob ''labels'' (isBoundedStringArray 50)
       \<and> has ob ''createdAt'' isRfc3339_json
       \<and> has ob ''updatedAt'' isRfc3339_json
       \<and> optionalExtensions ob ''extensions''
       \<and> \<not> hasForbiddenSecretValue (JObj ob))"
| "isWorkerDefinition _ = False"

fun isWorkerHeartbeat :: "json \<Rightarrow> bool" where
  "isWorkerHeartbeat (JObj ob) =
     (let required = [''contractVersion'', ''objectType'', ''id'', ''workerId'', ''workspaceId'',
            ''observedAt'', ''receivedAt'', ''runtimeVersion'', ''health'', ''activeLeaseIds'']
      in hasRequiredKeys ob required
       \<and> hasOnlyKeys ob (required @ [''diagnostics''])
       \<and> has ob ''contractVersion'' (is_text WORKER_PROTOCOL_VERSION)
       \<and> has ob ''objectType'' (is_text ''WORKER_HEARTBEAT'')
       \<and> has ob ''id'' (isStringWith (is_typed_id ''hbt''))
       \<and> has ob ''workerId'' (isStringWith (is_typed_id ''wrk''))
       \<and> has ob ''workspaceId'' (isStringWith (is_typed_id ''wsp''))
       \<and> has ob ''observedAt'' isRfc3339_json
       \<and> has ob ''receivedAt'' isRfc3339_json
       \<and> has ob ''runtimeVersion'' (isStringWith is_semver)
       \<and> has ob ''health'' (isEnumValue WORKER_HEALTH_STATES)
       \<and> has ob ''activeLeaseIds'' (\<lambda>v.
            isArrayOf (isStringWith (is_typed_id ''lse'')) v \<and> arrayLength v \<le> 1000
            \<and> isSetArray v)
       \<and> optionalExtensions ob ''diagnostics''
       \<and> \<not> hasForbiddenSecretValue (JObj ob))"
| "isWorkerHeartbeat _ = False"

fun isJobLease :: "json \<Rightarrow> bool" where
  "isJobLease (JObj ob) =
     (let required = [''contractVersion'', ''objectType'', ''id'', ''workspaceId'', ''workerId'', ''jobId'',
            ''runId'', ''jobType'', ''connector'', ''status'', ''acquiredAt'', ''expiresAt'',
            ''updatedAt'']
      in hasRequiredKeys ob required
       \<and> hasOnlyKeys ob (required @ [''closedAt'', ''closeReason'', ''extensions''])
       \<and> has_record ob ''connector'' (\<lambda>c.
            hasRequiredKeys c [''connectorId'', ''version'']
            \<and> hasOnlyKeys c [''connectorId'', ''version'']
            \<and> has c ''connectorId'' (isStringWith is_slug)
            \<and> has c ''version'' (isStringWith is_semver))
       \<and> has ob ''contractVersion'' (is_text WORKER_PROTOCOL_VERSION)
       \<and> has ob ''objectType'' (is_text ''JOB_LEASE'')
       \<and> has ob ''id'' (isStringWith (is_typed_id ''lse''))
       \<and> has ob ''workspaceId'' (isStringWith (is_typed_id ''wsp''))
       \<and> has ob ''workerId'' (isStringWith (is_typed_id ''wrk''))
       \<and> has ob ''jobId'' (isStringWith (is_typed_id ''job''))
       \<and> has ob ''runId'' (isStringWith (is_typed_id ''run''))
       \<and> has ob ''jobType'' (isEnumValue JOB_TYPES)
       \<and> has ob ''status'' (isEnumValue JOB_LEASE_STATUSES)
       \<and> has ob ''acquiredAt'' isRfc3339_json
       \<and> has ob ''expiresAt'' isRfc3339_json
       \<and> (case (field ''expiresAt'' ob, field ''acquiredAt'' ob) of
            (Some (JStr e), Some (JStr a)) \<Rightarrow> \<not> not_later e a | _ \<Rightarrow> False)
       \<and> has ob ''updatedAt'' isRfc3339_json
       \<and> closureFieldsAreValid ob
       \<and> optionalExtensions ob ''extensions''
       \<and> \<not> hasForbiddenSecretValue (JObj ob))"
| "isJobLease _ = False"

fun isWorkerRuntimeView :: "json \<Rightarrow> bool" where
  "isWorkerRuntimeView (JObj ob) =
     (let ks = [''worker'', ''effectiveStatus'', ''latestHeartbeat'', ''activeLeaseCount'',
            ''activeLeases'']
      in hasRequiredKeys ob ks
       \<and> hasOnlyKeys ob ks
       \<and> has ob ''worker'' isWorkerDefinition
       \<and> has ob ''effectiveStatus'' (isEnumValue WORKER_STATUSES)
       \<and> has ob ''latestHeartbeat'' (\<lambda>v. v = JNull \<or> isWorkerHeartbeat v)
       \<and> has ob ''activeLeaseCount'' isNonNegativeInteger
       \<and> has ob ''activeLeases'' (\<lambda>v. isArrayOf isJobLease v
            \<and> has ob ''activeLeaseCount'' (\<lambda>n. n = JNum (of_nat (arrayLength v)))))"
| "isWorkerRuntimeView _ = False"

definition jobStatusCanBeLeased :: "job_status \<Rightarrow> bool" where
  "jobStatusCanBeLeased s = (s = J_PENDING)"

section \<open>What the guards mean for typed documents\<close>

definition binding_valid :: "connector_binding \<Rightarrow> bool" where
  "binding_valid b =
     (is_slug (binding_connectorId b) \<and> is_semver (binding_version b)
      \<and> binding_capabilities b \<noteq> [] \<and> distinct (binding_capabilities b))"

definition worker_valid :: "worker_definition \<Rightarrow> bool" where
  "worker_valid w =
     (is_typed_id ''wrk'' (worker_id w) \<and> is_typed_id ''wsp'' (worker_workspaceId w)
      \<and> bounded_text 200 (worker_displayName w)
      \<and> is_runtime_id (worker_runtimeId w) \<and> is_semver (worker_runtimeVersion w)
      \<and> worker_supportedJobTypes w \<noteq> [] \<and> distinct (worker_supportedJobTypes w)
      \<and> worker_connectorBindings w \<noteq> [] \<and> list_all binding_valid (worker_connectorBindings w)
      \<and> distinct (map (\<lambda>b. binding_connectorId b @ ''@'' @ binding_version b)
           (worker_connectorBindings w))
      \<and> 1 \<le> worker_maxConcurrency w \<and> worker_maxConcurrency w \<le> 1000
      \<and> list_all (bounded_text 200) (worker_labels w) \<and> length (worker_labels w) \<le> 50
      \<and> distinct (worker_labels w)
      \<and> isRfc3339 (worker_createdAt w) \<and> isRfc3339 (worker_updatedAt w)
      \<and> safe_extensions (worker_extensions w))"

definition heartbeat_valid :: "worker_heartbeat \<Rightarrow> bool" where
  "heartbeat_valid h =
     (is_typed_id ''hbt'' (heartbeat_id h) \<and> is_typed_id ''wrk'' (heartbeat_workerId h)
      \<and> is_typed_id ''wsp'' (heartbeat_workspaceId h)
      \<and> isRfc3339 (heartbeat_observedAt h) \<and> isRfc3339 (heartbeat_receivedAt h)
      \<and> is_semver (heartbeat_runtimeVersion h)
      \<and> list_all (is_typed_id ''lse'') (heartbeat_activeLeaseIds h)
      \<and> length (heartbeat_activeLeaseIds h) \<le> 1000 \<and> distinct (heartbeat_activeLeaseIds h)
      \<and> safe_extensions (heartbeat_diagnostics h))"

definition lease_valid :: "job_lease \<Rightarrow> bool" where
  "lease_valid l =
     (is_typed_id ''lse'' (lease_id l) \<and> is_typed_id ''wsp'' (lease_workspaceId l)
      \<and> is_typed_id ''wrk'' (lease_workerId l) \<and> is_typed_id ''job'' (lease_jobId l)
      \<and> is_typed_id ''run'' (lease_runId l)
      \<and> is_slug (ref_connectorId (lease_connector l)) \<and> is_semver (ref_version (lease_connector l))
      \<and> isRfc3339 (lease_acquiredAt l) \<and> isRfc3339 (lease_expiresAt l)
      \<and> \<not> not_later (lease_expiresAt l) (lease_acquiredAt l)
      \<and> isRfc3339 (lease_updatedAt l)
      \<and> (if lease_status l = L_ACTIVE then lease_closedAt l = None \<and> lease_closeReason l = None
         else lease_closedAt l \<noteq> None \<and> optionally isRfc3339 (lease_closedAt l)
           \<and> optionally (\<lambda>s. length s \<le> 500) (lease_closeReason l))
      \<and> safe_extensions (lease_extensions l))"

text \<open>No key of the protocol's own documents is a credential key.\<close>

definition plain_key :: "string \<Rightarrow> bool" where
  "plain_key k = (normalizedSecretKey k \<notin> set forbiddenSecretKeys)"

definition protocol_keys :: "string list" where
  "protocol_keys =
     [''contractVersion'', ''objectType'', ''id'', ''workspaceId'', ''displayName'', ''desiredState'',
      ''runtime'', ''runtimeId'', ''version'', ''supportedJobTypes'', ''connectorBindings'',
      ''maxConcurrency'', ''labels'', ''createdAt'', ''updatedAt'', ''extensions'', ''connectorId'',
      ''capabilities'', ''workerId'', ''observedAt'', ''receivedAt'', ''runtimeVersion'', ''health'',
      ''activeLeaseIds'', ''diagnostics'', ''jobId'', ''runId'', ''jobType'', ''connector'', ''status'',
      ''acquiredAt'', ''expiresAt'', ''closedAt'', ''closeReason'']"

lemma protocol_keys_plain: "list_all plain_key protocol_keys"
  by code_simp

lemma plain_key_not_forbidden [simp]:
  "normalizedSecretKey k \<in> set forbiddenSecretKeys \<longleftrightarrow> \<not> plain_key k"
  by (simp add: plain_key_def)

lemmas protocol_key_plain [simp] = protocol_keys_plain [unfolded protocol_keys_def, simplified]

lemma list_ex_opt_entry [simp]:
  "list_ex P (opt_entry k f v) \<longleftrightarrow> (\<exists>x. v = Some x \<and> P (k, f x))"
  by (cases v) simp_all

lemma set_opt_entry [simp]:
  "e \<in> set (opt_entry k f v) \<longleftrightarrow> (\<exists>x. v = Some x \<and> e = (k, f x))"
  by (cases v) simp_all

lemma safe_extensions_not_forbidden:
  "safe_extensions e \<Longrightarrow> e = Some ob \<Longrightarrow> \<not> hasForbiddenSecretValue (JObj ob)"
  by (simp add: safe_extensions_def)

lemma status_is_ACTIVE [simp]: "lease_status_name s = ''ACTIVE'' \<longleftrightarrow> s = L_ACTIVE"
  by (cases s) simp_all

lemma isConnectorBinding_binding_json [simp]: "isConnectorBinding (binding_json b) = binding_valid b"
  by (simp add: binding_json_def binding_valid_def guard_eval distinct_map inj_on_def conj_ac)

lemma binding_json_plain [simp]: "\<not> hasForbiddenSecretValue (binding_json b)"
  by (simp add: binding_json_def list_ex_iff)

lemma binding_identity_json [simp]:
  "binding_identity (binding_json b) = binding_connectorId b @ ''@'' @ binding_version b"
  by (simp add: binding_identity_def binding_json_def)

lemma binding_identity_map [simp]:
  "map (binding_identity \<circ> binding_json) bs =
     map (\<lambda>b. binding_connectorId b @ ''@'' @ binding_version b) bs"
  by simp

lemmas protocol_guard_eval =
  guard_eval WORKER_PROTOCOL_VERSION_def optionalExtensions_def isBoundedText_def
  isBoundedStringArray_def closureFieldsAreValid_def

lemma worker_json_plain:
  "safe_extensions (worker_extensions w) \<Longrightarrow> \<not> hasForbiddenSecretValue (worker_json w)"
  by (auto simp add: worker_json_def list_ex_iff dest: safe_extensions_not_forbidden)

lemma heartbeat_json_plain:
  "safe_extensions (heartbeat_diagnostics h) \<Longrightarrow> \<not> hasForbiddenSecretValue (heartbeat_json h)"
  by (auto simp add: heartbeat_json_def list_ex_iff dest: safe_extensions_not_forbidden)

lemma lease_json_plain:
  "safe_extensions (lease_extensions l) \<Longrightarrow> \<not> hasForbiddenSecretValue (lease_json l)"
  by (auto simp add: lease_json_def connector_ref_json_def list_ex_iff
      dest: safe_extensions_not_forbidden)

lemma capability_names_distinct [simp]:
  "distinct (map (JStr \<circ> capability_name) cs) = distinct cs"
  "distinct (map (JStr \<circ> job_type_name) ts) = distinct ts"
  "distinct (map (\<lambda>c. JStr (capability_name c)) cs) = distinct cs"
  "distinct (map (\<lambda>c. JStr (job_type_name c)) ts) = distinct ts"
  by (simp_all add: distinct_map inj_on_def)

lemma isWorkerDefinition_worker_json [doc_simps]:
  "isWorkerDefinition (worker_json w) = worker_valid w"
proof (cases "safe_extensions (worker_extensions w)")
  case True
  from worker_json_plain [OF this] True show ?thesis
    unfolding worker_json_def
    by (auto simp add: worker_valid_def protocol_guard_eval simp del: hasForbiddenSecretValue.simps)
next
  case False
  then show ?thesis
    by (simp add: worker_json_def worker_valid_def protocol_guard_eval
        del: hasForbiddenSecretValue.simps)
qed

lemma isWorkerHeartbeat_heartbeat_json [doc_simps]:
  "isWorkerHeartbeat (heartbeat_json h) = heartbeat_valid h"
proof (cases "safe_extensions (heartbeat_diagnostics h)")
  case True
  from heartbeat_json_plain [OF this] True show ?thesis
    unfolding heartbeat_json_def
    by (auto simp add: heartbeat_valid_def protocol_guard_eval simp del: hasForbiddenSecretValue.simps)
next
  case False
  then show ?thesis
    by (simp add: heartbeat_json_def heartbeat_valid_def protocol_guard_eval
        del: hasForbiddenSecretValue.simps)
qed

lemma isJobLease_lease_json [doc_simps]: "isJobLease (lease_json l) = lease_valid l"
proof (cases "safe_extensions (lease_extensions l)")
  case True
  from lease_json_plain [OF this] True show ?thesis
    unfolding lease_json_def
    by (auto simp add: lease_valid_def connector_ref_json_def protocol_guard_eval
        simp del: hasForbiddenSecretValue.simps split: if_splits)
next
  case False
  then show ?thesis
    by (simp add: lease_json_def lease_valid_def connector_ref_json_def protocol_guard_eval
        del: hasForbiddenSecretValue.simps)
qed

end
