(* ===== verification/Worker_Execution_V1.thy ===== *)
theory Worker_Execution_V1
  imports Worker_Protocol_V1
begin

text \<open>
  \<open>packages/contracts/src/worker-execution-v1.ts\<close>: execution attempts, their events and the
  receipts workers hand in. Executors and receipts stay JSON values, because the program
  compares them by their \<open>JSON.stringify\<close> texts: two such texts are equal exactly when the
  values, with their entries in order, are.
\<close>

record execution_failure =
  failure_code :: string
  failure_message :: string
  failure_retryable :: bool
  failure_occurredAt :: string

record execution_attempt =
  attempt_id :: string
  attempt_workspaceId :: string
  attempt_runId :: string
  attempt_jobId :: string
  attempt_jobAttempt :: int
  attempt_leaseId :: string
  attempt_workerId :: string
  attempt_connector :: connector_ref
  attempt_executor :: json
  attempt_status :: attempt_status
  attempt_startedAt :: string
  attempt_updatedAt :: string
  attempt_completedAt :: "string option"
  attempt_receipt :: "json option"
  attempt_failure :: "execution_failure option"

record execution_event =
  event_id :: string
  event_attemptId :: string
  event_sequence :: int
  event_type :: event_type
  event_fromStatus :: "attempt_status option"
  event_toStatus :: attempt_status
  event_idempotencyKey :: string
  event_payloadHash :: string
  event_recordedAt :: string

definition failure_json :: "execution_failure \<Rightarrow> json" where
  "failure_json f =
     JObj [(''code'', JStr (failure_code f)),
           (''message'', JStr (failure_message f)),
           (''retryable'', JBool (failure_retryable f)),
           (''occurredAt'', JStr (failure_occurredAt f))]"

definition attempt_json :: "execution_attempt \<Rightarrow> json" where
  "attempt_json a = JObj (
     [(''contractVersion'', JStr ''1.0''),
      (''objectType'', JStr ''EXECUTION_ATTEMPT''),
      (''id'', JStr (attempt_id a)),
      (''workspaceId'', JStr (attempt_workspaceId a)),
      (''runId'', JStr (attempt_runId a)),
      (''jobId'', JStr (attempt_jobId a)),
      (''jobAttempt'', JInt (attempt_jobAttempt a)),
      (''leaseId'', JStr (attempt_leaseId a)),
      (''workerId'', JStr (attempt_workerId a)),
      (''connector'', connector_ref_json (attempt_connector a)),
      (''executor'', attempt_executor a),
      (''status'', JStr (attempt_status_name (attempt_status a))),
      (''startedAt'', JStr (attempt_startedAt a)),
      (''updatedAt'', JStr (attempt_updatedAt a))]
     @ opt_entry ''completedAt'' JStr (attempt_completedAt a)
     @ opt_entry ''receipt'' (\<lambda>r. r) (attempt_receipt a)
     @ opt_entry ''failure'' failure_json (attempt_failure a))"

definition event_json :: "execution_event \<Rightarrow> json" where
  "event_json e = JObj (
     [(''contractVersion'', JStr ''1.0''),
      (''objectType'', JStr ''EXECUTION_EVENT''),
      (''id'', JStr (event_id e)),
      (''attemptId'', JStr (event_attemptId e)),
      (''sequence'', JInt (event_sequence e)),
      (''eventType'', JStr (event_type_name (event_type e))),
      (''toStatus'', JStr (attempt_status_name (event_toStatus e))),
      (''idempotencyKey'', JStr (event_idempotencyKey e)),
      (''payloadHash'', JStr (event_payloadHash e)),
      (''recordedAt'', JStr (event_recordedAt e))]
     @ opt_entry ''fromStatus'' (\<lambda>s. JStr (attempt_status_name s)) (event_fromStatus e))"

section \<open>Guards\<close>

definition WORKER_EXECUTION_PROTOCOL_VERSION :: string where
  "WORKER_EXECUTION_PROTOCOL_VERSION = ''1.0''"

fun isExecutionExecutor :: "json \<Rightarrow> bool" where
  "isExecutionExecutor (JObj ob) =
     (hasRequiredKeys ob [''executorId'', ''version'', ''mode'']
      \<and> hasOnlyKeys ob [''executorId'', ''version'', ''mode'']
      \<and> has ob ''executorId'' (isStringWith is_slug)
      \<and> has ob ''version'' (isStringWith is_semver)
      \<and> has ob ''mode'' (isEnumValue EXECUTOR_MODES))"
| "isExecutionExecutor _ = False"

fun isExecutionReceipt :: "json \<Rightarrow> bool" where
  "isExecutionReceipt (JObj ob) =
     (let required = [''executor'', ''outputKinds'', ''itemsObserved'', ''bytesPrepared'', ''metadataOnly''];
          metadataOnly = (field ''metadataOnly'' ob = Some (JBool True));
          evidenceIsValid =
            (if metadataOnly then lacks ob ''artifactReceiptIds''
             else field ''metadataOnly'' ob = Some (JBool False)
                  \<and> has ob ''artifactReceiptIds'' (\<lambda>v.
                       0 < arrayLength v \<and> isArrayOf (isStringWith (is_typed_id ''air'')) v
                       \<and> isSetArray v))
      in hasRequiredKeys ob required
       \<and> hasOnlyKeys ob (required @ [''summary''] @ (if metadataOnly then [] else [''artifactReceiptIds'']))
       \<and> has ob ''executor'' isExecutionExecutor
       \<and> has ob ''outputKinds'' (\<lambda>v.
            0 < arrayLength v \<and> isArrayOf (isEnumValue ARTIFACT_KINDS) v \<and> isSetArray v)
       \<and> has ob ''itemsObserved'' isNonNegativeInteger
       \<and> has ob ''bytesPrepared'' isNonNegativeInteger
       \<and> evidenceIsValid
       \<and> may_have ob ''summary'' (isStringWith (text_within 500)))"
| "isExecutionReceipt _ = False"

fun isExecutionFailure :: "json \<Rightarrow> bool" where
  "isExecutionFailure (JObj ob) =
     (hasRequiredKeys ob [''code'', ''message'', ''retryable'', ''occurredAt'']
      \<and> hasOnlyKeys ob [''code'', ''message'', ''retryable'', ''occurredAt'']
      \<and> has ob ''code'' (isStringWith is_failure_code)
      \<and> has ob ''message'' (isStringWith (text_within 1000))
      \<and> has ob ''retryable'' isBool
      \<and> has ob ''occurredAt'' isRfc3339_json)"
| "isExecutionFailure _ = False"

definition attemptOutcomeIsValid :: "json_object \<Rightarrow> bool" where
  "attemptOutcomeIsValid ob =
     (if field ''status'' ob = Some (JStr ''COMPLETED'')
      then has ob ''completedAt'' isRfc3339_json
           \<and> has ob ''receipt'' isExecutionReceipt
           \<and> lacks ob ''failure''
           \<and> field ''executor'' ob = path_of [''receipt'', ''executor''] (JObj ob)
      else if field ''status'' ob = Some (JStr ''FAILED'')
      then has ob ''completedAt'' isRfc3339_json
           \<and> has ob ''failure'' isExecutionFailure
           \<and> lacks ob ''receipt''
      else lacks ob ''completedAt'' \<and> lacks ob ''receipt'' \<and> lacks ob ''failure'')"

fun isExecutionAttempt :: "json \<Rightarrow> bool" where
  "isExecutionAttempt (JObj ob) =
     (let required = [''contractVersion'', ''objectType'', ''id'', ''workspaceId'', ''runId'', ''jobId'',
            ''jobAttempt'', ''leaseId'', ''workerId'', ''connector'', ''executor'', ''status'', ''startedAt'',
            ''updatedAt'']
      in hasRequiredKeys ob required
       \<and> hasOnlyKeys ob (required @ [''completedAt'', ''receipt'', ''failure''])
       \<and> has_record ob ''connector'' (\<lambda>c. hasOnlyKeys c [''connectorId'', ''version''])
       \<and> has ob ''contractVersion'' (is_text WORKER_EXECUTION_PROTOCOL_VERSION)
       \<and> has ob ''objectType'' (is_text ''EXECUTION_ATTEMPT'')
       \<and> has ob ''id'' (isStringWith (is_typed_id ''exa''))
       \<and> has ob ''workspaceId'' (isStringWith (is_typed_id ''wsp''))
       \<and> has ob ''runId'' (isStringWith (is_typed_id ''run''))
       \<and> has ob ''jobId'' (isStringWith (is_typed_id ''job''))
       \<and> has ob ''jobAttempt'' isPositiveInteger
       \<and> has ob ''leaseId'' (isStringWith (is_typed_id ''lse''))
       \<and> has ob ''workerId'' (isStringWith (is_typed_id ''wrk''))
       \<and> has_record ob ''connector'' (\<lambda>c.
            has c ''connectorId'' (isStringWith is_slug) \<and> has c ''version'' (isStringWith is_semver))
       \<and> has ob ''executor'' isExecutionExecutor
       \<and> has ob ''status'' (isEnumValue EXECUTION_ATTEMPT_STATUSES)
       \<and> has ob ''startedAt'' isRfc3339_json
       \<and> has ob ''updatedAt'' isRfc3339_json
       \<and> attemptOutcomeIsValid ob)"
| "isExecutionAttempt _ = False"

fun isExecutionEvent :: "json \<Rightarrow> bool" where
  "isExecutionEvent (JObj ob) =
     (let required = [''contractVersion'', ''objectType'', ''id'', ''attemptId'', ''sequence'', ''eventType'',
            ''toStatus'', ''idempotencyKey'', ''payloadHash'', ''recordedAt'']
      in hasRequiredKeys ob required
       \<and> hasOnlyKeys ob (required @ [''fromStatus''])
       \<and> has ob ''contractVersion'' (is_text WORKER_EXECUTION_PROTOCOL_VERSION)
       \<and> has ob ''objectType'' (is_text ''EXECUTION_EVENT'')
       \<and> has ob ''id'' (isStringWith (is_typed_id ''eve''))
       \<and> has ob ''attemptId'' (isStringWith (is_typed_id ''exa''))
       \<and> has ob ''sequence'' isPositiveInteger
       \<and> has ob ''eventType'' (isEnumValue EXECUTION_EVENT_TYPES)
       \<and> may_have ob ''fromStatus'' (isEnumValue EXECUTION_ATTEMPT_STATUSES)
       \<and> has ob ''toStatus'' (isEnumValue EXECUTION_ATTEMPT_STATUSES)
       \<and> has ob ''idempotencyKey'' (isStringWith (text_within 128))
       \<and> has ob ''payloadHash'' (isStringWith is_sha256)
       \<and> has ob ''recordedAt'' isRfc3339_json)"
| "isExecutionEvent _ = False"

section \<open>What the guards mean for typed documents\<close>

definition failure_valid :: "execution_failure \<Rightarrow> bool" where
  "failure_valid f =
     (is_failure_code (failure_code f) \<and> text_within 1000 (failure_message f)
      \<and> isRfc3339 (failure_occurredAt f))"

definition outcome_valid :: "execution_attempt \<Rightarrow> bool" where
  "outcome_valid a =
     (case attempt_status a of
        X_COMPLETED \<Rightarrow>
          attempt_completedAt a \<noteq> None \<and> optionally isRfc3339 (attempt_completedAt a)
          \<and> attempt_receipt a \<noteq> None \<and> optionally isExecutionReceipt (attempt_receipt a)
          \<and> attempt_failure a = None
          \<and> optionally (\<lambda>r. path_of [''executor''] r = Some (attempt_executor a)) (attempt_receipt a)
      | X_FAILED \<Rightarrow>
          attempt_completedAt a \<noteq> None \<and> optionally isRfc3339 (attempt_completedAt a)
          \<and> attempt_failure a \<noteq> None \<and> optionally failure_valid (attempt_failure a)
          \<and> attempt_receipt a = None
      | _ \<Rightarrow> attempt_completedAt a = None \<and> attempt_receipt a = None \<and> attempt_failure a = None)"

definition attempt_valid :: "execution_attempt \<Rightarrow> bool" where
  "attempt_valid a =
     (is_typed_id ''exa'' (attempt_id a) \<and> is_typed_id ''wsp'' (attempt_workspaceId a)
      \<and> is_typed_id ''run'' (attempt_runId a) \<and> is_typed_id ''job'' (attempt_jobId a)
      \<and> 0 < attempt_jobAttempt a
      \<and> is_typed_id ''lse'' (attempt_leaseId a) \<and> is_typed_id ''wrk'' (attempt_workerId a)
      \<and> is_slug (ref_connectorId (attempt_connector a))
      \<and> is_semver (ref_version (attempt_connector a))
      \<and> isExecutionExecutor (attempt_executor a)
      \<and> isRfc3339 (attempt_startedAt a) \<and> isRfc3339 (attempt_updatedAt a)
      \<and> outcome_valid a)"

definition event_valid :: "execution_event \<Rightarrow> bool" where
  "event_valid e =
     (is_typed_id ''eve'' (event_id e) \<and> is_typed_id ''exa'' (event_attemptId e)
      \<and> 0 < event_sequence e
      \<and> text_within 128 (event_idempotencyKey e)
      \<and> is_sha256 (event_payloadHash e) \<and> isRfc3339 (event_recordedAt e))"

lemma isExecutionFailure_failure_json [doc_simps]:
  "isExecutionFailure (failure_json f) = failure_valid f"
  by (simp add: failure_json_def failure_valid_def guard_eval)

lemma attempt_status_names [simp]:
  "attempt_status_name s = ''COMPLETED'' \<longleftrightarrow> s = X_COMPLETED"
  "attempt_status_name s = ''FAILED'' \<longleftrightarrow> s = X_FAILED"
  by (cases s; simp)+

lemma attempt_outcome_json:
  "attemptOutcomeIsValid
     ([(''executor'', attempt_executor a), (''status'', JStr (attempt_status_name (attempt_status a)))]
      @ opt_entry ''completedAt'' JStr (attempt_completedAt a)
      @ opt_entry ''receipt'' (\<lambda>r. r) (attempt_receipt a)
      @ opt_entry ''failure'' failure_json (attempt_failure a)) = outcome_valid a"
  by (cases "attempt_receipt a"; cases "attempt_failure a"; cases "attempt_status a")
    (auto simp: attemptOutcomeIsValid_def outcome_valid_def guard_eval
      isExecutionFailure_failure_json)

lemma attemptOutcomeIsValid_cong:
  assumes "field ''executor'' ob = field ''executor'' ob'" "field ''status'' ob = field ''status'' ob'"
    and "field ''completedAt'' ob = field ''completedAt'' ob'"
    and "field ''receipt'' ob = field ''receipt'' ob'" "field ''failure'' ob = field ''failure'' ob'"
  shows "attemptOutcomeIsValid ob = attemptOutcomeIsValid ob'"
  using assms by (simp add: attemptOutcomeIsValid_def has_def lacks_def)

lemma attempt_entries_outcome:
  "attemptOutcomeIsValid (case attempt_json a of JObj ob \<Rightarrow> ob | _ \<Rightarrow> []) = outcome_valid a"
  unfolding attempt_outcome_json [symmetric]
  by (rule attemptOutcomeIsValid_cong) (simp_all add: attempt_json_def)

lemma isExecutionAttempt_attempt_json [doc_simps]:
  "isExecutionAttempt (attempt_json a) = attempt_valid a"
  using attempt_entries_outcome [of a, unfolded attempt_json_def, simplified]
  by (simp add: attempt_json_def attempt_valid_def connector_ref_json_def guard_eval
      WORKER_EXECUTION_PROTOCOL_VERSION_def conj_ac)

lemma isExecutionEvent_event_json [doc_simps]: "isExecutionEvent (event_json e) = event_valid e"
  by (cases "event_fromStatus e")
    (simp_all add: event_json_def event_valid_def guard_eval WORKER_EXECUTION_PROTOCOL_VERSION_def)

end
