(* ===== verification/Execution_Lifecycle_V1.thy ===== *)
theory Execution_Lifecycle_V1
  imports Execution_V1
begin

text \<open>
  \<open>packages/contracts/src/execution-lifecycle-v1.ts\<close>: the lifecycle events a worker reports, the
  job transitions they may cause and the run status that follows from a job.
\<close>

section \<open>Job transitions\<close>

datatype lifecycle_event =
    V_STARTED | V_PROGRESS_REPORTED | V_UPLOAD_READY | V_VERIFICATION_READY | V_COMPLETED | V_FAILED

fun lifecycle_event_name :: "lifecycle_event \<Rightarrow> string" where
  "lifecycle_event_name V_STARTED = ''STARTED''"
| "lifecycle_event_name V_PROGRESS_REPORTED = ''PROGRESS_REPORTED''"
| "lifecycle_event_name V_UPLOAD_READY = ''UPLOAD_READY''"
| "lifecycle_event_name V_VERIFICATION_READY = ''VERIFICATION_READY''"
| "lifecycle_event_name V_COMPLETED = ''COMPLETED''"
| "lifecycle_event_name V_FAILED = ''FAILED''"

definition LIFECYCLE_EVENT_TYPES :: "string list" where
  "LIFECYCLE_EVENT_TYPES =
     [''STARTED'', ''PROGRESS_REPORTED'', ''UPLOAD_READY'', ''VERIFICATION_READY'', ''COMPLETED'',
      ''FAILED'']"

definition EXECUTION_FAILURE_KINDS :: "string list" where
  "EXECUTION_FAILURE_KINDS =
     [''CONNECTOR_ERROR'', ''SOURCE_UNAVAILABLE'', ''POLICY_REJECTED'', ''OUTPUT_INVALID'',
      ''WORKER_ERROR'', ''TIMEOUT'', ''CANCELLED_EXTERNALLY'', ''UNKNOWN'']"

fun targetStatusForExecutionEvent :: "lifecycle_event \<Rightarrow> job_status" where
  "targetStatusForExecutionEvent V_STARTED = J_RUNNING"
| "targetStatusForExecutionEvent V_PROGRESS_REPORTED = J_RUNNING"
| "targetStatusForExecutionEvent V_UPLOAD_READY = J_UPLOADING"
| "targetStatusForExecutionEvent V_VERIFICATION_READY = J_VERIFYING"
| "targetStatusForExecutionEvent V_COMPLETED = J_COMPLETED"
| "targetStatusForExecutionEvent V_FAILED = J_FAILED"

fun ALLOWED_TRANSITIONS :: "job_status \<Rightarrow> job_status list" where
  "ALLOWED_TRANSITIONS J_PENDING = []"
| "ALLOWED_TRANSITIONS J_LEASED = [J_RUNNING]"
| "ALLOWED_TRANSITIONS J_RUNNING = [J_RUNNING, J_UPLOADING, J_FAILED]"
| "ALLOWED_TRANSITIONS J_UPLOADING = [J_VERIFYING, J_FAILED]"
| "ALLOWED_TRANSITIONS J_VERIFYING = [J_COMPLETED, J_FAILED]"
| "ALLOWED_TRANSITIONS J_COMPLETED = []"
| "ALLOWED_TRANSITIONS J_RETRY = []"
| "ALLOWED_TRANSITIONS J_FAILED = []"
| "ALLOWED_TRANSITIONS J_DEAD_LETTER = []"
| "ALLOWED_TRANSITIONS J_CANCELLED = []"

definition canTransitionJob :: "job_status \<Rightarrow> job_status \<Rightarrow> bool" where
  "canTransitionJob before after = (after \<in> set (ALLOWED_TRANSITIONS before))"

definition deriveRunStatusFromJob :: "job_status \<Rightarrow> run_status" where
  "deriveRunStatusFromJob status =
     (if status = J_RUNNING \<or> status = J_UPLOADING \<or> status = J_VERIFYING then R_RUNNING
      else if status = J_COMPLETED then R_COMPLETED
      else if status = J_FAILED \<or> status = J_DEAD_LETTER then R_FAILED
      else if status = J_CANCELLED then R_CANCELLED
      else R_PENDING)"

section \<open>Guards\<close>

definition EXECUTION_LIFECYCLE_VERSION :: string where
  "EXECUTION_LIFECYCLE_VERSION = ''1.0''"

fun isMetrics :: "json \<Rightarrow> bool" where
  "isMetrics (JObj ob) =
     (hasOnlyKeys ob [''discoveredCount'', ''processedCount'', ''skippedCount'', ''warningCount'',
        ''byteCount'', ''durationMs'']
      \<and> list_all (\<lambda>(k, v). isNonNegativeInteger v) ob)"
| "isMetrics _ = False"

fun isOutputSummary :: "json \<Rightarrow> bool" where
  "isOutputSummary (JObj ob) =
     (hasOnlyKeys ob [''outputCount'', ''outputTypes'', ''contentHashes'']
      \<and> has ob ''outputCount'' isNonNegativeInteger
      \<and> has ob ''outputTypes'' (\<lambda>v. isArrayOf (isStringWith (text_within 100)) v \<and> isSetArray v)
      \<and> may_have ob ''contentHashes'' (isArrayOf (isStringWith is_sha256)))"
| "isOutputSummary _ = False"

fun isLifecycleFailure :: "json \<Rightarrow> bool" where
  "isLifecycleFailure (JObj ob) =
     (hasOnlyKeys ob [''kind'', ''code'', ''message'', ''retryable'', ''details'']
      \<and> has ob ''kind'' (isEnumValue EXECUTION_FAILURE_KINDS)
      \<and> has ob ''code'' (isStringWith is_lifecycle_code)
      \<and> has ob ''message'' (isStringWith (text_within 1000))
      \<and> has ob ''retryable'' isBool
      \<and> may_have ob ''details'' isExtensions)"
| "isLifecycleFailure _ = False"

definition eventFieldsAreValid :: "json_object \<Rightarrow> bool" where
  "eventFieldsAreValid ob =
     (let eventType = field ''eventType'' ob in
      if eventType = Some (JStr ''STARTED'') then
        lacks ob ''progressPercent'' \<and> lacks ob ''outputSummary'' \<and> lacks ob ''failure''
      else if eventType = Some (JStr ''PROGRESS_REPORTED'') then
        has ob ''progressPercent'' (\<lambda>v. case v of JNum r \<Rightarrow> 0 \<le> r \<and> r \<le> 100 | _ \<Rightarrow> False)
        \<and> lacks ob ''outputSummary'' \<and> lacks ob ''failure''
      else if eventType = Some (JStr ''UPLOAD_READY'') \<or> eventType = Some (JStr ''VERIFICATION_READY'')
           \<or> eventType = Some (JStr ''COMPLETED'') then
        has ob ''outputSummary'' isOutputSummary \<and> lacks ob ''failure''
      else if eventType = Some (JStr ''FAILED'') then
        has ob ''failure'' isLifecycleFailure \<and> lacks ob ''outputSummary''
      else False)"

definition lifecycleKeys :: "string list" where
  "lifecycleKeys =
     [''contractVersion'', ''workerId'', ''jobId'', ''runId'', ''leaseId'', ''sequence'', ''eventType'',
      ''observedAt'', ''message'', ''progressPercent'', ''metrics'', ''outputSummary'', ''failure'',
      ''metadata'']"

fun isExecutionLifecycleInput :: "json \<Rightarrow> bool" where
  "isExecutionLifecycleInput (JObj ob) =
     (hasOnlyKeys ob lifecycleKeys
      \<and> \<not> hasForbiddenSecretValue (JObj ob)
      \<and> has ob ''contractVersion'' (is_text EXECUTION_LIFECYCLE_VERSION)
      \<and> has ob ''workerId'' (isStringWith (is_typed_id ''wrk''))
      \<and> has ob ''jobId'' (isStringWith (is_typed_id ''job''))
      \<and> has ob ''runId'' (isStringWith (is_typed_id ''run''))
      \<and> has ob ''leaseId'' (isStringWith (is_typed_id ''lse''))
      \<and> has ob ''sequence'' isPositiveInteger
      \<and> has ob ''eventType'' (isEnumValue LIFECYCLE_EVENT_TYPES)
      \<and> has ob ''observedAt'' isRfc3339_json
      \<and> may_have ob ''message'' (isStringWith (text_within 500))
      \<and> may_have ob ''metrics'' isMetrics
      \<and> may_have ob ''metadata'' isExtensions
      \<and> eventFieldsAreValid ob)"
| "isExecutionLifecycleInput _ = False"

definition all_job_statuses :: "job_status list" where
  "all_job_statuses =
     [J_PENDING, J_LEASED, J_RUNNING, J_UPLOADING, J_VERIFYING, J_COMPLETED, J_RETRY, J_FAILED,
      J_DEAD_LETTER, J_CANCELLED]"

definition all_lifecycle_events :: "lifecycle_event list" where
  "all_lifecycle_events =
     [V_STARTED, V_PROGRESS_REPORTED, V_UPLOAD_READY, V_VERIFICATION_READY, V_COMPLETED, V_FAILED]"

text \<open>The value a text of a vocabulary stands for; \<open>None\<close> for any other value.\<close>

definition named :: "('a \<Rightarrow> string) \<Rightarrow> 'a list \<Rightarrow> json option \<Rightarrow> 'a option" where
  "named name values v =
     (case v of Some (JStr s) \<Rightarrow> find (\<lambda>x. name x = s) values | _ \<Rightarrow> None)"

fun isJobExecutionEvent :: "json \<Rightarrow> bool" where
  "isJobExecutionEvent (JObj ob) =
     (let allowed = lifecycleKeys
            @ [''objectType'', ''id'', ''workspaceId'', ''fromStatus'', ''toStatus'', ''recordedAt''];
          lifecycle = map (\<lambda>k. (k, the (field k ob))) (filter (\<lambda>k. field k ob \<noteq> None) lifecycleKeys)
      in hasOnlyKeys ob allowed
       \<and> isExecutionLifecycleInput (JObj lifecycle)
       \<and> has ob ''objectType'' (is_text ''JOB_EXECUTION_EVENT'')
       \<and> has ob ''id'' (isStringWith (is_typed_id ''evt''))
       \<and> has ob ''workspaceId'' (isStringWith (is_typed_id ''wsp''))
       \<and> (case (named job_status_name all_job_statuses (field ''fromStatus'' ob),
                named job_status_name all_job_statuses (field ''toStatus'' ob),
                named lifecycle_event_name all_lifecycle_events (field ''eventType'' ob)) of
            (Some before, Some after, Some e) \<Rightarrow>
              after = targetStatusForExecutionEvent e \<and> canTransitionJob before after
          | _ \<Rightarrow> False)
       \<and> has ob ''recordedAt'' isRfc3339_json)"
| "isJobExecutionEvent _ = False"

text \<open>The assertions throw a \<open>TypeError\<close> (\<open>None\<close>) unless their guard holds.\<close>

definition assertExecutionLifecycleInput :: "json \<Rightarrow> unit option" where
  "assertExecutionLifecycleInput v = (if isExecutionLifecycleInput v then Some () else None)"

definition assertJobExecutionEvent :: "json \<Rightarrow> unit option" where
  "assertJobExecutionEvent v = (if isJobExecutionEvent v then Some () else None)"

lemma find_named:
  "named name values v = Some x \<Longrightarrow> v = Some (JStr (name x)) \<and> x \<in> set values"
  by (auto simp: named_def find_Some_iff split: option.splits json.splits)

end
