(* ===== verification/Control_Store.thy ===== *)
theory Control_Store
  imports Worker_Execution_V1 Execution_Lifecycle_V1
begin

text \<open>
  The SQLite tables of \<open>execution-ledger.ts\<close>, \<open>worker-registry.ts\<close> and
  \<open>controlled-worker-execution.ts\<close> and the statements that write them. A row holds the columns some
  statement reads beside the document itself (the \<open>document_json\<close> column); \<open>..._row_of\<close> is the row
  an INSERT writes, and a row is coherent when its columns say what its document says. Primary
  keys, UNIQUE constraints, the partial unique index \<open>idx_one_active_lease_per_job\<close> and foreign
  keys (which node:sqlite enforces) are checked by the inserts.
\<close>

section \<open>Sequencing fallible steps\<close>

definition and_then :: "'a result \<Rightarrow> ('a \<Rightarrow> 'b result) \<Rightarrow> 'b result" where
  "and_then m f = (case m of Inl e \<Rightarrow> Inl e | Inr a \<Rightarrow> f a)"

lemma and_then_simps [simp]:
  "and_then (Inl e) f = Inl e" "and_then (Inr a) f = f a"
  by (simp_all add: and_then_def)

lemma and_then_Inr: "and_then m f = Inr b \<longleftrightarrow> (\<exists>a. m = Inr a \<and> f a = Inr b)"
  by (cases m) simp_all

lemma and_then_Inl: "and_then m f = Inl e \<longleftrightarrow> m = Inl e \<or> (\<exists>a. m = Inr a \<and> f a = Inl e)"
  by (cases m) simp_all

lemma if_Inl_Inr [simp]:
  "(if b then Inl e else m) = Inr a \<longleftrightarrow> \<not> b \<and> m = Inr a"
  "(if b then m else Inl e) = Inr a \<longleftrightarrow> b \<and> m = Inr a"
  by auto

fun map_result :: "('a \<Rightarrow> 'b result) \<Rightarrow> 'a list \<Rightarrow> 'b list result" where
  "map_result f [] = Inr []"
| "map_result f (x # xs) =
     and_then (f x) (\<lambda>y. and_then (map_result f xs) (\<lambda>ys. Inr (y # ys)))"

fun fold_result :: "('a \<Rightarrow> 's \<Rightarrow> 's result) \<Rightarrow> 'a list \<Rightarrow> 's \<Rightarrow> 's result" where
  "fold_result f [] s = Inr s"
| "fold_result f (x # xs) s = and_then (f x s) (fold_result f xs)"

lemma map_result_Inr:
  "map_result f xs = Inr ys \<longleftrightarrow>
     length xs = length ys \<and> (\<forall>i < length xs. f (xs ! i) = Inr (ys ! i))"
proof (induction xs arbitrary: ys)
  case (Cons x xs)
  show ?case
  proof (cases ys)
    case (Cons y ys')
    then show ?thesis
      using Cons.IH [of ys'] by (auto simp: and_then_Inr All_less_Suc2 Let_def)
  qed (auto simp: and_then_Inr)
qed auto

lemma map_result_same:
  assumes "\<And>x y. f x = Inr y \<Longrightarrow> y = g x" and "map_result f xs = Inr ys"
  shows "ys = map g xs"
  using assms(2) by (induction xs arbitrary: ys) (auto simp: and_then_Inr dest: assms(1))

lemma map_result_total: "(\<And>x. x \<in> set xs \<Longrightarrow> f x = Inr (g x)) \<Longrightarrow> map_result f xs = Inr (map g xs)"
  by (induction xs) auto

lemma fold_result_invariant:
  assumes "fold_result f xs s = Inr s'" and "I s"
    and "\<And>x s s'. x \<in> set xs \<Longrightarrow> I s \<Longrightarrow> f x s = Inr s' \<Longrightarrow> I s'"
  shows "I s'"
  using assms by (induction xs arbitrary: s) (auto simp: and_then_Inr)

lemma fold_result_append:
  "fold_result f (xs @ ys) s = and_then (fold_result f xs s) (fold_result f ys)"
  by (induction xs arbitrary: s) (auto simp: and_then_def split: sum.splits)

section \<open>Rows\<close>

record run_row =
  rr_id :: string
  rr_workspace_id :: string
  rr_source_id :: string
  rr_plan_id :: string
  rr_plan_name :: string
  rr_source_name :: string
  rr_connector_id :: string
  rr_trigger_type :: trigger_type
  rr_status :: run_status
  rr_idempotency_key :: "string option"
  rr_document :: collection_run
  rr_created_at :: string
  rr_updated_at :: string

record job_row =
  jr_id :: string
  jr_run_id :: string
  jr_job_type :: job_type
  jr_status :: job_status
  jr_attempt :: int
  jr_available_at :: string
  jr_document :: job
  jr_created_at :: string
  jr_updated_at :: string

record lease_row =
  lr_id :: string
  lr_worker_id :: string
  lr_job_id :: string
  lr_run_id :: string
  lr_status :: lease_status
  lr_token_digest :: string
  lr_document :: job_lease
  lr_acquired_at :: string
  lr_expires_at :: string
  lr_updated_at :: string

record worker_row =
  wr_id :: string
  wr_workspace_id :: string
  wr_display_name :: string
  wr_desired_state :: desired_state
  wr_runtime_id :: string
  wr_job_types :: "job_type list"
  wr_bindings :: "connector_binding list"
  wr_labels :: "string list"
  wr_document :: worker_definition
  wr_updated_at :: string

record credential_row =
  cr_worker_id :: string
  cr_digest :: string
  cr_rotated_at :: string

record heartbeat_row =
  hr_id :: string
  hr_worker_id :: string
  hr_received_at :: string
  hr_document :: worker_heartbeat

record attempt_row =
  ar_id :: string
  ar_run_id :: string
  ar_job_id :: string
  ar_job_attempt :: int
  ar_lease_id :: string
  ar_status :: attempt_status
  ar_document :: execution_attempt
  ar_started_at :: string

record event_row =
  er_id :: string
  er_attempt_id :: string
  er_sequence :: int
  er_document :: execution_event

record request_row =
  qr_worker_id :: string
  qr_lease_id :: string
  qr_idempotency_key :: string
  qr_operation :: string
  qr_payload_hash :: string
  qr_result :: "execution_attempt \<times> execution_event"

record workspace_row =
  ws_id :: string
  ws_document :: json

record connector_row =
  kr_connector_id :: string
  kr_version :: string
  kr_display_name :: string
  kr_runtime :: string
  kr_status :: connector_status
  kr_source_types :: "source_type list"
  kr_capabilities :: "capability list"
  kr_job_types :: "job_type list"
  kr_artifact_kinds :: "artifact_kind list"
  kr_document :: connector_manifest
  kr_registered_at :: string
  kr_updated_at :: string

text \<open>
  The columns of \<open>source_definitions\<close> always say what the document says, so a source row is its
  document; the same holds for \<open>collection_plans\<close>, except for the connector a plan was last written
  under, which its document does not name.
\<close>

record plan_row =
  pl_connector_id :: string
  pl_document :: collection_plan

text \<open>
  \<open>raw_artifacts\<close> and \<open>artifact_ingestion_sessions\<close>: the columns the completion check joins. The
  tables exist only once the ingestion registry has been set up (\<open>None\<close> before).
\<close>

record artifact_row =
  xr_receipt_id :: string
  xr_execution_attempt_id :: string
  xr_session_id :: string
  xr_document :: json

record session_row =
  sr_id :: string
  sr_status :: string
  sr_receipt :: "string option"

record control_store =
  workspaces :: "workspace_row list"
  plans :: "plan_row list"
  sources :: "source_definition list"
  connectors :: "connector_row list"
  collection_runs :: "run_row list"
  jobs :: "job_row list"
  workers :: "worker_row list"
  credentials :: "credential_row list"
  heartbeats :: "heartbeat_row list"
  leases :: "lease_row list"
  attempts :: "attempt_row list"
  events :: "event_row list"
  requests :: "request_row list"
  artifacts :: "(artifact_row list \<times> session_row list) option"
  
definition plan_documents :: "control_store \<Rightarrow> collection_plan list" where
  "plan_documents db = map pl_document (plans db)"

lemma plan_documents_update [simp]:
  "plan_documents (db\<lparr>workspaces := x0\<rparr>) = plan_documents db"
  "plan_documents (db\<lparr>sources := x1\<rparr>) = plan_documents db"
  "plan_documents (db\<lparr>connectors := x2\<rparr>) = plan_documents db"
  "plan_documents (db\<lparr>collection_runs := x3\<rparr>) = plan_documents db"
  "plan_documents (db\<lparr>jobs := x4\<rparr>) = plan_documents db"
  "plan_documents (db\<lparr>workers := x5\<rparr>) = plan_documents db"
  "plan_documents (db\<lparr>credentials := x6\<rparr>) = plan_documents db"
  "plan_documents (db\<lparr>heartbeats := x7\<rparr>) = plan_documents db"
  "plan_documents (db\<lparr>leases := x8\<rparr>) = plan_documents db"
  "plan_documents (db\<lparr>attempts := x9\<rparr>) = plan_documents db"
  "plan_documents (db\<lparr>events := x10\<rparr>) = plan_documents db"
  "plan_documents (db\<lparr>requests := x11\<rparr>) = plan_documents db"
  "plan_documents (db\<lparr>artifacts := x12\<rparr>) = plan_documents db"
  by (simp_all add: plan_documents_def)

definition run_row_of :: "collection_run \<Rightarrow> run_row" where
  "run_row_of r =
     \<lparr> rr_id = run_id r, rr_workspace_id = run_workspaceId r, rr_source_id = run_sourceId r,
       rr_plan_id = run_planId r, rr_plan_name = plan_name (run_planSnapshot r),
       rr_source_name = source_name (run_sourceSnapshot r),
       rr_connector_id = connector_connectorId (run_connectorSnapshot r),
       rr_trigger_type = trigger_type (run_trigger r), rr_status = run_status r,
       rr_idempotency_key = trigger_idempotencyKey (run_trigger r), rr_document = r,
       rr_created_at = run_createdAt r, rr_updated_at = run_updatedAt r \<rparr>"

definition job_row_of :: "job \<Rightarrow> job_row" where
  "job_row_of j =
     \<lparr> jr_id = job_id j, jr_run_id = job_runId j, jr_job_type = job_type j, jr_status = job_status j,
       jr_attempt = job_attempt j, jr_available_at = job_availableAt j, jr_document = j,
       jr_created_at = job_createdAt j, jr_updated_at = job_updatedAt j \<rparr>"

definition lease_row_of :: "string \<Rightarrow> job_lease \<Rightarrow> lease_row" where
  "lease_row_of token_digest l =
     \<lparr> lr_id = lease_id l, lr_worker_id = lease_workerId l, lr_job_id = lease_jobId l,
       lr_run_id = lease_runId l, lr_status = lease_status l, lr_token_digest = token_digest,
       lr_document = l, lr_acquired_at = lease_acquiredAt l, lr_expires_at = lease_expiresAt l,
       lr_updated_at = lease_updatedAt l \<rparr>"

definition worker_row_of :: "worker_definition \<Rightarrow> worker_row" where
  "worker_row_of w =
     \<lparr> wr_id = worker_id w, wr_workspace_id = worker_workspaceId w,
       wr_display_name = worker_displayName w, wr_desired_state = worker_desiredState w,
       wr_runtime_id = worker_runtimeId w, wr_job_types = worker_supportedJobTypes w,
       wr_bindings = worker_connectorBindings w, wr_labels = worker_labels w, wr_document = w,
       wr_updated_at = worker_updatedAt w \<rparr>"

definition heartbeat_row_of :: "worker_heartbeat \<Rightarrow> heartbeat_row" where
  "heartbeat_row_of h =
     \<lparr> hr_id = heartbeat_id h, hr_worker_id = heartbeat_workerId h,
       hr_received_at = heartbeat_receivedAt h, hr_document = h \<rparr>"

definition attempt_row_of :: "execution_attempt \<Rightarrow> attempt_row" where
  "attempt_row_of a =
     \<lparr> ar_id = attempt_id a, ar_run_id = attempt_runId a, ar_job_id = attempt_jobId a,
       ar_job_attempt = attempt_jobAttempt a, ar_lease_id = attempt_leaseId a,
       ar_status = attempt_status a, ar_document = a, ar_started_at = attempt_startedAt a \<rparr>"

definition event_row_of :: "execution_event \<Rightarrow> event_row" where
  "event_row_of e =
     \<lparr> er_id = event_id e, er_attempt_id = event_attemptId e, er_sequence = event_sequence e,
       er_document = e \<rparr>"

section \<open>Inserts\<close>

definition insert_run :: "collection_run \<Rightarrow> control_store \<Rightarrow> control_store result" where
  "insert_run r db =
     (if run_id r \<in> rr_id ` set (collection_runs db)
         \<or> (\<exists>x\<in>set (collection_runs db). trigger_idempotencyKey (run_trigger r) \<noteq> None
              \<and> rr_workspace_id x = run_workspaceId r
              \<and> rr_idempotency_key x = trigger_idempotencyKey (run_trigger r))
      then Inl SqliteUniqueConstraint
      else if run_sourceId r \<notin> source_id ` set (sources db)
              \<or> run_planId r \<notin> plan_id ` set (plan_documents db)
      then Inl SqliteForeignKeyConstraint
      else Inr (db\<lparr>collection_runs := collection_runs db @ [run_row_of r]\<rparr>))"

definition insert_job :: "job \<Rightarrow> control_store \<Rightarrow> control_store result" where
  "insert_job j db =
     (if job_id j \<in> jr_id ` set (jobs db)
         \<or> (\<exists>x\<in>set (jobs db). jr_run_id x = job_runId j \<and> jr_attempt x = job_attempt j)
      then Inl SqliteUniqueConstraint
      else if job_runId j \<notin> rr_id ` set (collection_runs db)
      then Inl SqliteForeignKeyConstraint
      else Inr (db\<lparr>jobs := jobs db @ [job_row_of j]\<rparr>))"

definition insert_lease :: "string \<Rightarrow> job_lease \<Rightarrow> control_store \<Rightarrow> control_store result" where
  "insert_lease token_digest l db =
     (if lease_id l \<in> lr_id ` set (leases db)
         \<or> (lease_status l = L_ACTIVE
            \<and> (\<exists>x\<in>set (leases db). lr_job_id x = lease_jobId l \<and> lr_status x = L_ACTIVE))
      then Inl SqliteUniqueConstraint
      else if lease_workerId l \<notin> wr_id ` set (workers db)
              \<or> lease_jobId l \<notin> jr_id ` set (jobs db)
              \<or> lease_runId l \<notin> rr_id ` set (collection_runs db)
      then Inl SqliteForeignKeyConstraint
      else Inr (db\<lparr>leases := leases db @ [lease_row_of token_digest l]\<rparr>))"

definition insert_worker :: "worker_definition \<Rightarrow> control_store \<Rightarrow> control_store result" where
  "insert_worker w db =
     (if worker_id w \<in> wr_id ` set (workers db) then Inl SqliteUniqueConstraint
      else if worker_workspaceId w \<notin> ws_id ` set (workspaces db) then Inl SqliteForeignKeyConstraint
      else Inr (db\<lparr>workers := workers db @ [worker_row_of w]\<rparr>))"

definition insert_credential :: "credential_row \<Rightarrow> control_store \<Rightarrow> control_store result" where
  "insert_credential c db =
     (if cr_worker_id c \<in> cr_worker_id ` set (credentials db) then Inl SqliteUniqueConstraint
      else if cr_worker_id c \<notin> wr_id ` set (workers db) then Inl SqliteForeignKeyConstraint
      else Inr (db\<lparr>credentials := credentials db @ [c]\<rparr>))"

definition insert_heartbeat :: "worker_heartbeat \<Rightarrow> control_store \<Rightarrow> control_store result" where
  "insert_heartbeat h db =
     (if heartbeat_id h \<in> hr_id ` set (heartbeats db) then Inl SqliteUniqueConstraint
      else if heartbeat_workerId h \<notin> wr_id ` set (workers db) then Inl SqliteForeignKeyConstraint
      else Inr (db\<lparr>heartbeats := heartbeats db @ [heartbeat_row_of h]\<rparr>))"

definition insert_attempt :: "execution_attempt \<Rightarrow> control_store \<Rightarrow> control_store result" where
  "insert_attempt a db =
     (if attempt_id a \<in> ar_id ` set (attempts db)
         \<or> attempt_leaseId a \<in> ar_lease_id ` set (attempts db)
         \<or> (\<exists>x\<in>set (attempts db). ar_job_id x = attempt_jobId a
              \<and> ar_job_attempt x = attempt_jobAttempt a)
      then Inl SqliteUniqueConstraint
      else if attempt_runId a \<notin> rr_id ` set (collection_runs db)
              \<or> attempt_jobId a \<notin> jr_id ` set (jobs db)
              \<or> attempt_leaseId a \<notin> lr_id ` set (leases db)
              \<or> attempt_workerId a \<notin> wr_id ` set (workers db)
      then Inl SqliteForeignKeyConstraint
      else Inr (db\<lparr>attempts := attempts db @ [attempt_row_of a]\<rparr>))"

definition insert_event :: "execution_event \<Rightarrow> control_store \<Rightarrow> control_store result" where
  "insert_event e db =
     (if event_id e \<in> er_id ` set (events db)
         \<or> (\<exists>x\<in>set (events db). er_attempt_id x = event_attemptId e
              \<and> er_sequence x = event_sequence e)
      then Inl SqliteUniqueConstraint
      else if event_attemptId e \<notin> ar_id ` set (attempts db) then Inl SqliteForeignKeyConstraint
      else Inr (db\<lparr>events := events db @ [event_row_of e]\<rparr>))"

definition insert_request :: "request_row \<Rightarrow> control_store \<Rightarrow> control_store result" where
  "insert_request q db =
     (if \<exists>x\<in>set (requests db). qr_worker_id x = qr_worker_id q \<and> qr_lease_id x = qr_lease_id q
           \<and> qr_idempotency_key x = qr_idempotency_key q
      then Inl SqliteUniqueConstraint
      else if qr_worker_id q \<notin> wr_id ` set (workers db) \<or> qr_lease_id q \<notin> lr_id ` set (leases db)
      then Inl SqliteForeignKeyConstraint
      else Inr (db\<lparr>requests := requests db @ [q]\<rparr>))"

section \<open>Updates\<close>

text \<open>
  \<open>UPDATE jobs SET status, document_json, updated_at\<close> and its kin for runs, leases and attempts:
  the columns the statement names, from the new document.
\<close>

definition write_job :: "job \<Rightarrow> job_row \<Rightarrow> job_row" where
  "write_job j r = r\<lparr>jr_status := job_status j, jr_document := j, jr_updated_at := job_updatedAt j\<rparr>"

definition write_run :: "collection_run \<Rightarrow> run_row \<Rightarrow> run_row" where
  "write_run c r = r\<lparr>rr_status := run_status c, rr_document := c, rr_updated_at := run_updatedAt c\<rparr>"

definition write_lease :: "job_lease \<Rightarrow> lease_row \<Rightarrow> lease_row" where
  "write_lease l r =
     r\<lparr>lr_status := lease_status l, lr_document := l, lr_expires_at := lease_expiresAt l,
       lr_updated_at := lease_updatedAt l\<rparr>"

text \<open>The closing statement of the execution repository leaves \<open>expires_at\<close> as it was.\<close>

definition write_lease_closed :: "job_lease \<Rightarrow> lease_row \<Rightarrow> lease_row" where
  "write_lease_closed l r =
     r\<lparr>lr_status := lease_status l, lr_document := l, lr_updated_at := lease_updatedAt l\<rparr>"

definition write_worker :: "worker_definition \<Rightarrow> worker_row \<Rightarrow> worker_row" where
  "write_worker w r =
     r\<lparr>wr_display_name := worker_displayName w, wr_desired_state := worker_desiredState w,
       wr_runtime_id := worker_runtimeId w, wr_job_types := worker_supportedJobTypes w,
       wr_bindings := worker_connectorBindings w, wr_labels := worker_labels w, wr_document := w,
       wr_updated_at := worker_updatedAt w\<rparr>"

definition write_attempt :: "execution_attempt \<Rightarrow> attempt_row \<Rightarrow> attempt_row" where
  "write_attempt a r = r\<lparr>ar_status := attempt_status a, ar_document := a\<rparr>"

definition update_job :: "job \<Rightarrow> control_store \<Rightarrow> control_store" where
  "update_job j db = db\<lparr>jobs := update_by jr_id (job_id j) (write_job j) (jobs db)\<rparr>"

definition update_run :: "collection_run \<Rightarrow> control_store \<Rightarrow> control_store" where
  "update_run c db =
     db\<lparr>collection_runs := update_by rr_id (run_id c) (write_run c) (collection_runs db)\<rparr>"

definition update_lease :: "job_lease \<Rightarrow> control_store \<Rightarrow> control_store" where
  "update_lease l db = db\<lparr>leases := update_by lr_id (lease_id l) (write_lease l) (leases db)\<rparr>"

definition update_lease_closed :: "job_lease \<Rightarrow> control_store \<Rightarrow> control_store" where
  "update_lease_closed l db =
     db\<lparr>leases := update_by lr_id (lease_id l) (write_lease_closed l) (leases db)\<rparr>"

definition update_attempt :: "execution_attempt \<Rightarrow> control_store \<Rightarrow> control_store" where
  "update_attempt a db =
     db\<lparr>attempts := update_by ar_id (attempt_id a) (write_attempt a) (attempts db)\<rparr>"

text \<open>
  \<open>UPDATE jobs ... WHERE id = ? AND status = 'PENDING'\<close> with its \<open>changes\<close> count: \<open>None\<close> when no
  row was changed (the id is the primary key, so at most one is).
\<close>

definition update_pending_job :: "job \<Rightarrow> control_store \<Rightarrow> control_store option" where
  "update_pending_job j db =
     (case find_by jr_id (job_id j) (jobs db) of
        Some r \<Rightarrow> if jr_status r = J_PENDING then Some (update_job j db) else None
      | None \<Rightarrow> None)"

definition job_by_id :: "string \<Rightarrow> control_store \<Rightarrow> job_row option" where
  "job_by_id i db = find_by jr_id i (jobs db)"

definition run_by_id :: "string \<Rightarrow> control_store \<Rightarrow> run_row option" where
  "run_by_id i db = find_by rr_id i (collection_runs db)"

definition lease_by_id :: "string \<Rightarrow> control_store \<Rightarrow> lease_row option" where
  "lease_by_id i db = find_by lr_id i (leases db)"

definition worker_by_id :: "string \<Rightarrow> control_store \<Rightarrow> worker_row option" where
  "worker_by_id i db = find_by wr_id i (workers db)"

section \<open>Reading documents back\<close>

definition parseJob :: "job \<Rightarrow> job result" where
  "parseJob j = (if isJob (job_json j) then Inr j else Inl RegistryValidationError)"

definition parseRun :: "collection_run \<Rightarrow> collection_run result" where
  "parseRun r = (if isCollectionRun (run_json r) then Inr r else Inl RegistryValidationError)"

definition parseLease :: "job_lease \<Rightarrow> job_lease result" where
  "parseLease l = (if isJobLease (lease_json l) then Inr l else Inl RegistryValidationError)"

definition parseWorker :: "worker_definition \<Rightarrow> worker_definition result" where
  "parseWorker w = (if isWorkerDefinition (worker_json w) then Inr w else Inl RegistryValidationError)"

definition parseHeartbeat :: "worker_heartbeat \<Rightarrow> worker_heartbeat result" where
  "parseHeartbeat h =
     (if isWorkerHeartbeat (heartbeat_json h) then Inr h else Inl RegistryValidationError)"

definition parseAttempt :: "execution_attempt \<Rightarrow> execution_attempt result" where
  "parseAttempt a =
     (if isExecutionAttempt (attempt_json a) then Inr a else Inl RegistryValidationError)"

definition parseEvent :: "execution_event \<Rightarrow> execution_event result" where
  "parseEvent e = (if isExecutionEvent (event_json e) then Inr e else Inl RegistryValidationError)"

definition parsePlan :: "collection_plan \<Rightarrow> collection_plan result" where
  "parsePlan p = (if isCollectionPlan (plan_json p) then Inr p else Inl RegistryValidationError)"

definition parseSource :: "source_definition \<Rightarrow> source_definition result" where
  "parseSource s = (if isSourceDefinition (source_json s) then Inr s else Inl RegistryValidationError)"

definition parseConnector :: "connector_manifest \<Rightarrow> connector_manifest result" where
  "parseConnector c =
     (if isConnectorManifest (connector_json c) then Inr c else Inl RegistryValidationError)"

lemma parse_Inr [simp]:
  "parseJob j = Inr j' \<longleftrightarrow> job_valid j \<and> j' = j"
  "parseRun r = Inr r' \<longleftrightarrow> run_valid r \<and> r' = r"
  "parseLease l = Inr l' \<longleftrightarrow> lease_valid l \<and> l' = l"
  "parseWorker w = Inr w' \<longleftrightarrow> worker_valid w \<and> w' = w"
  "parseHeartbeat h = Inr h' \<longleftrightarrow> heartbeat_valid h \<and> h' = h"
  "parseAttempt a = Inr a' \<longleftrightarrow> attempt_valid a \<and> a' = a"
  "parseEvent e = Inr e' \<longleftrightarrow> event_valid e \<and> e' = e"
  "parsePlan p = Inr p' \<longleftrightarrow> plan_valid p \<and> p' = p"
  "parseSource s = Inr s' \<longleftrightarrow> source_valid s \<and> s' = s"
  "parseConnector c = Inr c' \<longleftrightarrow> connector_valid c \<and> c' = c"
  by (auto simp: parseJob_def parseRun_def parseLease_def parseWorker_def parseHeartbeat_def
      parseAttempt_def parseEvent_def parsePlan_def parseSource_def parseConnector_def doc_simps)

end
