(* ===== verification/Coordination.thy ===== *)
theory Coordination
  imports Execution_Lifecycle_V1
begin

text \<open>
  The abstract specification of the control plane: runs, jobs, leases and attempts by
  identifier, with their statuses only, and one step per thing an operation may do to them. The
  repositories refine it (Lease_Protocol, Execution_Protocol): whatever an operation writes is a sequence of
  these steps. The invariant \<open>coordinated\<close> says how the four kinds of objects hang together; it
  is proved by rule induction on the steps.
\<close>

section \<open>States and steps\<close>

type_synonym job_map = "string \<Rightarrow> (string \<times> int \<times> job_status) option"

record spec =
  sp_runs :: "string \<Rightarrow> run_status option"
  sp_jobs :: job_map
  sp_leases :: "string \<Rightarrow> (string \<times> bool) option"
  sp_attempts :: "string \<Rightarrow> (string \<times> int \<times> string \<times> attempt_status) option"

definition executing :: "job_status \<Rightarrow> bool" where
  "executing s = (s \<in> {J_RUNNING, J_UPLOADING, J_VERIFYING})"

definition in_flight :: "job_status \<Rightarrow> bool" where
  "in_flight s = (s = J_LEASED \<or> executing s)"

definition live_job :: "job_status \<Rightarrow> bool" where
  "live_job s = (s = J_PENDING \<or> in_flight s)"

definition live_run :: "run_status \<Rightarrow> bool" where
  "live_run s = (s = R_PENDING \<or> s = R_RUNNING)"

fun active_attempt :: "attempt_status \<Rightarrow> bool" where
  "active_attempt X_COMPLETED = False"
| "active_attempt X_FAILED = False"
| "active_attempt _ = True"

text \<open>The job status that an attempt in a given status goes with.\<close>

fun job_of_attempt :: "attempt_status \<Rightarrow> job_status" where
  "job_of_attempt X_RUNNING = J_RUNNING"
| "job_of_attempt X_UPLOADING = J_UPLOADING"
| "job_of_attempt X_VERIFYING = J_VERIFYING"
| "job_of_attempt X_COMPLETED = J_COMPLETED"
| "job_of_attempt X_FAILED = J_FAILED"

fun attempt_advances :: "attempt_status \<Rightarrow> attempt_status \<Rightarrow> bool" where
  "attempt_advances X_RUNNING X_UPLOADING = True"
| "attempt_advances X_UPLOADING X_VERIFYING = True"
| "attempt_advances _ _ = False"

text \<open>What ends an attempt: job status, run status and whether a retry job is created.\<close>

datatype ending = Complete | Retry string | Exhaust | Fail

fun ending_attempt :: "ending \<Rightarrow> attempt_status" where
  "ending_attempt Complete = X_COMPLETED"
| "ending_attempt _ = X_FAILED"

fun ending_job :: "ending \<Rightarrow> job_status" where
  "ending_job Complete = J_COMPLETED"
| "ending_job (Retry _) = J_RETRY"
| "ending_job Exhaust = J_DEAD_LETTER"
| "ending_job Fail = J_FAILED"

fun ending_run :: "ending \<Rightarrow> run_status" where
  "ending_run Complete = R_COMPLETED"
| "ending_run (Retry _) = R_PENDING"
| "ending_run Exhaust = R_FAILED"
| "ending_run Fail = R_FAILED"

text \<open>What cancelling a run does to its jobs.\<close>

definition cancel_jobs :: "string \<Rightarrow> job_map \<Rightarrow> job_map" where
  "cancel_jobs r J j =
     (case J j of None \<Rightarrow> None
      | Some (r', n, t) \<Rightarrow> Some (r', n, if r' = r then J_CANCELLED else t))"

fun retry_job :: "ending \<Rightarrow> string \<Rightarrow> int \<Rightarrow> job_map \<Rightarrow> job_map" where
  "retry_job (Retry j') r n js = js(j' \<mapsto> (r, n + 1, J_PENDING))"
| "retry_job _ r n js = js"

inductive spec_step :: "spec \<Rightarrow> spec \<Rightarrow> bool" where
  dispatch: "sp_runs s r = None \<Longrightarrow> sp_jobs s j = None \<Longrightarrow>
     spec_step s (s\<lparr>sp_runs := (sp_runs s)(r \<mapsto> R_PENDING),
                    sp_jobs := (sp_jobs s)(j \<mapsto> (r, 1, J_PENDING))\<rparr>)"
| cancel: "sp_runs s r = Some R_PENDING \<Longrightarrow>
     (\<forall>j n t. sp_jobs s j = Some (r, n, t) \<longrightarrow> t = J_PENDING) \<Longrightarrow>
     spec_step s (s\<lparr>sp_runs := (sp_runs s)(r \<mapsto> R_CANCELLED),
                    sp_jobs := cancel_jobs r (sp_jobs s)\<rparr>)"
| claim: "sp_jobs s j = Some (r, n, J_PENDING) \<Longrightarrow> sp_leases s l = None \<Longrightarrow>
     spec_step s (s\<lparr>sp_jobs := (sp_jobs s)(j \<mapsto> (r, n, J_LEASED)),
                    sp_leases := (sp_leases s)(l \<mapsto> (j, True))\<rparr>)"
| close: "sp_leases s l = Some (j, True) \<Longrightarrow> sp_jobs s j = Some (r, n, t) \<Longrightarrow>
     spec_step s (s\<lparr>sp_leases := (sp_leases s)(l \<mapsto> (j, False)),
                    sp_jobs := (sp_jobs s)(j \<mapsto> (r, n, if t = J_LEASED then J_PENDING else t))\<rparr>)"
| start: "sp_leases s l = Some (j, True) \<Longrightarrow> sp_jobs s j = Some (r, n, J_LEASED) \<Longrightarrow>
     sp_runs s r = Some R_PENDING \<Longrightarrow> sp_attempts s a = None \<Longrightarrow>
     (\<forall>a' j' n' l' x. sp_attempts s a' = Some (j', n', l', x) \<longrightarrow> l' \<noteq> l \<and> (j', n') \<noteq> (j, n)) \<Longrightarrow>
     spec_step s (s\<lparr>sp_attempts := (sp_attempts s)(a \<mapsto> (j, n, l, X_RUNNING)),
                    sp_jobs := (sp_jobs s)(j \<mapsto> (r, n, J_RUNNING)),
                    sp_runs := (sp_runs s)(r \<mapsto> R_RUNNING)\<rparr>)"
| advance: "sp_leases s l = Some (j, True) \<Longrightarrow> sp_attempts s a = Some (j, n, l, x) \<Longrightarrow>
     sp_jobs s j = Some (r, n, job_of_attempt x) \<Longrightarrow> attempt_advances x y \<Longrightarrow>
     spec_step s (s\<lparr>sp_attempts := (sp_attempts s)(a \<mapsto> (j, n, l, y)),
                    sp_jobs := (sp_jobs s)(j \<mapsto> (r, n, job_of_attempt y))\<rparr>)"
| finish: "sp_leases s l = Some (j, True) \<Longrightarrow> sp_attempts s a = Some (j, n, l, x) \<Longrightarrow>
     sp_jobs s j = Some (r, n, t) \<Longrightarrow> active_attempt x \<Longrightarrow> sp_runs s r \<noteq> None \<Longrightarrow>
     (e = Complete \<longrightarrow> x = X_VERIFYING) \<Longrightarrow>
     (\<forall>j'. e = Retry j' \<longrightarrow> sp_jobs s j' = None) \<Longrightarrow>
     spec_step s (s\<lparr>sp_attempts := (sp_attempts s)(a \<mapsto> (j, n, l, ending_attempt e)),
                    sp_jobs := retry_job e r n ((sp_jobs s)(j \<mapsto> (r, n, ending_job e))),
                    sp_runs := (sp_runs s)(r \<mapsto> ending_run e),
                    sp_leases := (sp_leases s)(l \<mapsto> (j, False))\<rparr>)"
| abandon: "sp_attempts s a = Some (j, n, l, x) \<Longrightarrow> active_attempt x \<Longrightarrow>
     sp_leases s l = Some (j, b) \<Longrightarrow> sp_jobs s j = Some (r, n, t) \<Longrightarrow> sp_runs s r \<noteq> None \<Longrightarrow>
     spec_step s (s\<lparr>sp_attempts := (sp_attempts s)(a \<mapsto> (j, n, l, X_FAILED)),
                    sp_jobs := (sp_jobs s)(j \<mapsto> (r, n, J_FAILED)),
                    sp_runs := (sp_runs s)(r \<mapsto> R_FAILED),
                    sp_leases := (sp_leases s)(l \<mapsto> (j, False))\<rparr>)"

section \<open>The invariant\<close>

text \<open>
  \<open>run_part\<close>: a job belongs to a run, the run of a live job has the status the job gives it, a
  run has at most one live job, and a live run has one. \<open>lease_part\<close>: a lease is on a job, an
  active one on a job in flight; a job has at most one active lease, and a leased job has one.
  \<open>attempt_part\<close>: an attempt belongs to the job of its lease, at the job's attempt number; an
  active one is at the stage of its job; a job has at most one attempt, and an executing job has
  an active one, which holds the job's active lease if there is one.
\<close>

definition run_part :: "(string \<Rightarrow> run_status option) \<Rightarrow> job_map \<Rightarrow> bool" where
  "run_part R J \<longleftrightarrow>
     (\<forall>j r n t. J j = Some (r, n, t) \<longrightarrow> R r \<noteq> None)
     \<and> (\<forall>j r n t. J j = Some (r, n, t) \<longrightarrow> live_job t \<longrightarrow> R r = Some (deriveRunStatusFromJob t))
     \<and> (\<forall>j j' r n n' t t'. J j = Some (r, n, t) \<longrightarrow> J j' = Some (r, n', t') \<longrightarrow>
          live_job t \<longrightarrow> live_job t' \<longrightarrow> j = j')
     \<and> (\<forall>r st. R r = Some st \<longrightarrow> live_run st \<longrightarrow> (\<exists>j n t. J j = Some (r, n, t) \<and> live_job t))"

definition lease_part :: "job_map \<Rightarrow> (string \<Rightarrow> (string \<times> bool) option) \<Rightarrow> bool" where
  "lease_part J L \<longleftrightarrow>
     (\<forall>l j b. L l = Some (j, b) \<longrightarrow> J j \<noteq> None)
     \<and> (\<forall>l j r n t. L l = Some (j, True) \<longrightarrow> J j = Some (r, n, t) \<longrightarrow> in_flight t)
     \<and> (\<forall>l l' j. L l = Some (j, True) \<longrightarrow> L l' = Some (j, True) \<longrightarrow> l = l')
     \<and> (\<forall>j r n. J j = Some (r, n, J_LEASED) \<longrightarrow> (\<exists>l. L l = Some (j, True)))"

definition attempt_part ::
    "(string \<Rightarrow> (string \<times> int \<times> string \<times> attempt_status) option) \<Rightarrow> job_map
      \<Rightarrow> (string \<Rightarrow> (string \<times> bool) option) \<Rightarrow> bool" where
  "attempt_part A J L \<longleftrightarrow>
     (\<forall>a j n l x. A a = Some (j, n, l, x) \<longrightarrow> (\<exists>b. L l = Some (j, b)))
     \<and> (\<forall>a j n l x. A a = Some (j, n, l, x) \<longrightarrow> (\<exists>r t. J j = Some (r, n, t)))
     \<and> (\<forall>a j n l x r n' t. A a = Some (j, n, l, x) \<longrightarrow> active_attempt x \<longrightarrow>
          J j = Some (r, n', t) \<longrightarrow> t = job_of_attempt x)
     \<and> (\<forall>a a' j n l x n' l' x'. A a = Some (j, n, l, x) \<longrightarrow> A a' = Some (j, n', l', x') \<longrightarrow> a = a')
     \<and> (\<forall>j r n t. J j = Some (r, n, t) \<longrightarrow> executing t \<longrightarrow>
          (\<exists>a l x. A a = Some (j, n, l, x) \<and> active_attempt x
             \<and> (\<forall>l'. L l' = Some (j, True) \<longrightarrow> l' = l)))"

definition coordinated :: "spec \<Rightarrow> bool" where
  "coordinated s \<longleftrightarrow>
     run_part (sp_runs s) (sp_jobs s) \<and> lease_part (sp_jobs s) (sp_leases s)
     \<and> attempt_part (sp_attempts s) (sp_jobs s) (sp_leases s)"

definition spec_init :: spec where
  "spec_init = \<lparr>sp_runs = \<lambda>_. None, sp_jobs = \<lambda>_. None, sp_leases = \<lambda>_. None,
                sp_attempts = \<lambda>_. None\<rparr>"

lemmas status_defs =
  executing_def in_flight_def live_job_def live_run_def deriveRunStatusFromJob_def

lemma coordinated_init: "coordinated spec_init"
  by (simp add: coordinated_def run_part_def lease_part_def attempt_part_def spec_init_def)

lemma executing_attempt: "active_attempt x \<Longrightarrow> executing (job_of_attempt x)"
  by (cases x) (simp_all add: executing_def)

lemma not_executing [simp]:
  "\<not> executing J_LEASED" "\<not> executing J_PENDING" "\<not> executing J_CANCELLED" "\<not> executing J_FAILED"
  "\<not> executing (ending_job e)"
  by (cases e; simp add: executing_def)+

lemma live_simps [simp]:
  "live_job J_PENDING" "live_job J_LEASED" "live_job J_RUNNING" "executing J_RUNNING"
  "\<not> live_job J_CANCELLED" "\<not> live_job J_FAILED" "\<not> live_job (ending_job e)"
  "in_flight J_LEASED" "in_flight J_RUNNING" "\<not> in_flight J_PENDING" "ending_job e \<noteq> J_LEASED"
  "\<not> active_attempt (ending_attempt e)"
  by (cases e; simp add: status_defs)+

lemma derive_simps [simp]:
  "deriveRunStatusFromJob J_PENDING = R_PENDING" "deriveRunStatusFromJob J_LEASED = R_PENDING"
  "deriveRunStatusFromJob J_RUNNING = R_RUNNING"
  by (simp_all add: deriveRunStatusFromJob_def)

lemma executing_live: "executing t \<Longrightarrow> in_flight t \<and> live_job t \<and> deriveRunStatusFromJob t = R_RUNNING"
  by (auto simp: status_defs)

lemma in_flight_live: "in_flight t \<Longrightarrow> live_job t"
  by (auto simp: status_defs)

subsection \<open>Runs\<close>

lemma run_partI:
  assumes "\<And>j r n t. J j = Some (r, n, t) \<Longrightarrow> R r \<noteq> None"
    and "\<And>j r n t. J j = Some (r, n, t) \<Longrightarrow> live_job t \<Longrightarrow> R r = Some (deriveRunStatusFromJob t)"
    and "\<And>j j' r n n' t t'. J j = Some (r, n, t) \<Longrightarrow> J j' = Some (r, n', t') \<Longrightarrow>
           live_job t \<Longrightarrow> live_job t' \<Longrightarrow> j = j'"
    and "\<And>r st. R r = Some st \<Longrightarrow> live_run st \<Longrightarrow> \<exists>j n t. J j = Some (r, n, t) \<and> live_job t"
  shows "run_part R J"
  unfolding run_part_def using assms by (intro conjI allI impI) assumption+

lemma run_partD:
  assumes "run_part R J"
  shows "J j = Some (r, n, t) \<Longrightarrow> R r \<noteq> None"
    and "J j = Some (r, n, t) \<Longrightarrow> live_job t \<Longrightarrow> R r = Some (deriveRunStatusFromJob t)"
    and "J j = Some (r, n, t) \<Longrightarrow> J j' = Some (r, n', t') \<Longrightarrow> live_job t \<Longrightarrow> live_job t' \<Longrightarrow> j = j'"
    and "R r = Some st \<Longrightarrow> live_run st \<Longrightarrow> \<exists>j n t. J j = Some (r, n, t) \<and> live_job t"
  using assms unfolding run_part_def by (-, metis+)

lemma run_part_new:
  assumes p: "run_part R J" and new: "R r = None" "J j = None"
  shows "run_part (R(r \<mapsto> R_PENDING)) (J(j \<mapsto> (r, n, J_PENDING)))"
proof (rule run_partI, goal_cases)
  case (1 k rr m u)
  then show ?case using run_partD(1) [OF p] by (auto split: if_splits)
next
  case (2 k rr m u)
  then show ?case using run_partD(1,2) [OF p] new by (auto split: if_splits)
next
  case (3 k k' rr m m' u u')
  then show ?case using run_partD(1,3) [OF p] new by (auto split: if_splits; metis)
next
  case (4 rr st)
  show ?case
  proof (cases "rr = r")
    case True
    then show ?thesis by (intro exI [of _ j]) auto
  next
    case False
    with 4 obtain k m u where "J k = Some (rr, m, u)" "live_job u"
      using run_partD(4) [OF p, of rr st] by auto
    with new show ?thesis by (intro exI [of _ k]) auto
  qed
qed

lemma run_part_move:
  assumes p: "run_part R J" and j: "J j = Some (r, n, t)" "live_job t" "live_job t'"
  shows "run_part (R(r \<mapsto> deriveRunStatusFromJob t')) (J(j \<mapsto> (r, n, t')))"
proof (rule run_partI, goal_cases)
  case (1 k rr m u)
  then show ?case using run_partD(1) [OF p] by (auto split: if_splits)
next
  case (2 k rr m u)
  then show ?case using run_partD(2,3) [OF p] j by (auto split: if_splits; metis)
next
  case (3 k k' rr m m' u u')
  then show ?case using run_partD(3) [OF p] j by (auto split: if_splits; metis)
next
  case (4 rr st)
  show ?case
  proof (cases "rr = r")
    case True
    then show ?thesis using j by (intro exI [of _ j]) auto
  next
    case False
    with 4 obtain k m u where k: "J k = Some (rr, m, u)" "live_job u"
      using run_partD(4) [OF p, of rr st] by auto
    with False j have "k \<noteq> j" by auto
    with k show ?thesis by (intro exI [of _ k]) auto
  qed
qed

lemma run_part_end:
  assumes p: "run_part R J" and j: "J j = Some (r, n, t)" "live_job t" "\<not> live_job t'" "\<not> live_run st'"
  shows "run_part (R(r \<mapsto> st')) (J(j \<mapsto> (r, n, t')))"
proof (rule run_partI, goal_cases)
  case (1 k rr m u)
  then show ?case using run_partD(1) [OF p] by (auto split: if_splits)
next
  case (2 k rr m u)
  then show ?case using run_partD(2,3) [OF p] j by (auto split: if_splits; metis)
next
  case (3 k k' rr m m' u u')
  then show ?case using run_partD(3) [OF p] j by (auto split: if_splits)
next
  case (4 rr st)
  with j have "rr \<noteq> r" by auto
  with 4 obtain k m u where k: "J k = Some (rr, m, u)" "live_job u"
    using run_partD(4) [OF p, of rr st] by auto
  with \<open>rr \<noteq> r\<close> j have "k \<noteq> j" by auto
  with k show ?case by (intro exI [of _ k]) auto
qed

lemma run_part_retry:
  assumes p: "run_part R J" and j: "J j = Some (r, n, t)" "live_job t" "\<not> live_job t'"
    and new: "J j' = None"
  shows "run_part (R(r \<mapsto> R_PENDING)) (J(j \<mapsto> (r, n, t'), j' \<mapsto> (r, m, J_PENDING)))"
proof (rule run_partI, goal_cases)
  case (1 k rr m u)
  then show ?case using run_partD(1) [OF p] by (auto split: if_splits)
next
  case (2 k rr m u)
  then show ?case using run_partD(2,3) [OF p] j by (auto split: if_splits; metis)
next
  case (3 k k' rr m m' u u')
  then show ?case using run_partD(3) [OF p] j by (auto split: if_splits; metis)
next
  case (4 rr st)
  show ?case
  proof (cases "rr = r")
    case True
    then show ?thesis by (intro exI [of _ j']) auto
  next
    case False
    with 4 obtain k i u where k: "J k = Some (rr, i, u)" "live_job u"
      using run_partD(4) [OF p, of rr st] by auto
    with False j new have "k \<noteq> j" "k \<noteq> j'" by auto
    with k show ?thesis by (intro exI [of _ k]) auto
  qed
qed

lemma cancel_jobs_Some:
  "cancel_jobs r J j = Some (r', n, t) \<longleftrightarrow>
     (\<exists>t0. J j = Some (r', n, t0) \<and> t = (if r' = r then J_CANCELLED else t0))"
  by (auto simp: cancel_jobs_def split: option.splits)

lemma run_part_cancel:
  assumes p: "run_part R J" and r: "\<not> live_run st'"
  shows "run_part (R(r \<mapsto> st')) (cancel_jobs r J)"
proof (rule run_partI, goal_cases)
  case (1 k rr m u)
  then show ?case using run_partD(1) [OF p] by (auto simp: cancel_jobs_Some)
next
  case (2 k rr m u)
  then show ?case using run_partD(2) [OF p] by (auto simp: cancel_jobs_Some split: if_splits)
next
  case (3 k k' rr m m' u u')
  then show ?case using run_partD(3) [OF p] by (auto simp: cancel_jobs_Some split: if_splits)
next
  case (4 rr st)
  with r have "rr \<noteq> r" by auto
  with 4 obtain k m u where k: "J k = Some (rr, m, u)" "live_job u"
    using run_partD(4) [OF p, of rr st] by auto
  with \<open>rr \<noteq> r\<close> show ?case by (intro exI [of _ k]) (auto simp: cancel_jobs_Some)
qed

subsection \<open>Leases\<close>

lemma lease_partI:
  assumes "\<And>l j b. L l = Some (j, b) \<Longrightarrow> J j \<noteq> None"
    and "\<And>l j r n t. L l = Some (j, True) \<Longrightarrow> J j = Some (r, n, t) \<Longrightarrow> in_flight t"
    and "\<And>l l' j. L l = Some (j, True) \<Longrightarrow> L l' = Some (j, True) \<Longrightarrow> l = l'"
    and "\<And>j r n. J j = Some (r, n, J_LEASED) \<Longrightarrow> \<exists>l. L l = Some (j, True)"
  shows "lease_part J L"
  unfolding lease_part_def using assms by (intro conjI allI impI) assumption+

lemma lease_partD:
  assumes "lease_part J L"
  shows "L l = Some (j, b) \<Longrightarrow> J j \<noteq> None"
    and "L l = Some (j, True) \<Longrightarrow> J j = Some (r, n, t) \<Longrightarrow> in_flight t"
    and "L l = Some (j, True) \<Longrightarrow> L l' = Some (j, True) \<Longrightarrow> l = l'"
    and "J j = Some (r, n, J_LEASED) \<Longrightarrow> \<exists>l. L l = Some (j, True)"
  using assms unfolding lease_part_def by (-, metis+)

lemma lease_part_new:
  assumes p: "lease_part J L" and new: "J j = None"
  shows "lease_part (J(j \<mapsto> (r, n, J_PENDING))) L"
proof (rule lease_partI, goal_cases)
  case (2 l k rr m u)
  then show ?case
    using lease_partD(1) [OF p, of l k True] lease_partD(2) [OF p, of l k rr m u] new
    by (auto split: if_splits)
next
  case (4 k rr m)
  then show ?case using lease_partD(4) [OF p] by (auto split: if_splits)
qed (use lease_partD(1,3) [OF p] in \<open>auto split: if_splits\<close>)

lemma lease_part_claim:
  assumes p: "lease_part J L" and j: "J j = Some (r, n, J_PENDING)" and new: "L l = None"
  shows "lease_part (J(j \<mapsto> (r, n, J_LEASED))) (L(l \<mapsto> (j, True)))"
proof (rule lease_partI, goal_cases)
  case (1 m k b)
  then show ?case using lease_partD(1) [OF p] by (auto split: if_splits)
next
  case (2 m k rr i u)
  then show ?case using lease_partD(2) [OF p] by (auto split: if_splits)
next
  case (3 m m' k)
  have "L m \<noteq> Some (j, True)" for m
    using lease_partD(2) [OF p _ j, of m] by auto
  with 3 show ?case using lease_partD(3) [OF p] by (auto split: if_splits)
next
  case (4 k rr i)
  show ?case
  proof (cases "k = j")
    case True
    then show ?thesis by (intro exI [of _ l]) simp
  next
    case False
    with 4 obtain m where "L m = Some (k, True)"
      using lease_partD(4) [OF p, of k] by auto
    with new show ?thesis by (intro exI [of _ m]) auto
  qed
qed

lemma lease_part_close:
  assumes p: "lease_part J L" and l: "L l = Some (j, True)" and j: "J j \<noteq> None" and t': "t' \<noteq> J_LEASED"
  shows "lease_part (J(j \<mapsto> (r, n, t'))) (L(l \<mapsto> (j, False)))"
proof (rule lease_partI, goal_cases)
  case (1 m k b)
  then show ?case using lease_partD(1) [OF p] j by (auto split: if_splits)
next
  case (2 m k rr i u)
  then have m: "m \<noteq> l" "L m = Some (k, True)" by (auto split: if_splits)
  then have "k \<noteq> j" using lease_partD(3) [OF p, of m j l] l by auto
  with 2 m show ?case using lease_partD(2) [OF p] by auto
next
  case (3 m m' k)
  then show ?case using lease_partD(3) [OF p] by (auto split: if_splits)
next
  case (4 k rr i)
  with t' have k: "k \<noteq> j" "J k = Some (rr, i, J_LEASED)" by (auto split: if_splits)
  then obtain m where "L m = Some (k, True)"
    using lease_partD(4) [OF p, of k] by auto
  with k l show ?case by (intro exI [of _ m]) auto
qed

lemma lease_part_move:
  assumes p: "lease_part J L" and t': "t' \<noteq> J_LEASED"
    and ok: "in_flight t' \<or> (\<forall>l. L l \<noteq> Some (j, True))"
  shows "lease_part (J(j \<mapsto> (r, n, t'))) L"
proof (rule lease_partI, goal_cases)
  case (1 m k b)
  then show ?case using lease_partD(1) [OF p] by auto
next
  case (2 m k rr i u)
  then show ?case using lease_partD(2) [OF p] ok by (auto split: if_splits)
next
  case (3 m m' k)
  then show ?case using lease_partD(3) [OF p] by blast
next
  case (4 k rr i)
  then show ?case using lease_partD(4) [OF p] t' by (auto split: if_splits)
qed

lemma lease_part_cancel:
  assumes p: "lease_part J L" and r: "\<And>j n t. J j = Some (r, n, t) \<Longrightarrow> t = J_PENDING"
  shows "lease_part (cancel_jobs r J) L"
proof (rule lease_partI, goal_cases)
  case (1 m k b)
  then show ?case using lease_partD(1) [OF p, of m k b] by (auto simp: cancel_jobs_def split: prod.splits)
next
  case (2 m k rr i u)
  then show ?case using lease_partD(2) [OF p, of m k] r by (fastforce simp: cancel_jobs_Some)
next
  case (3 m m' k)
  then show ?case using lease_partD(3) [OF p] by blast
next
  case (4 k rr i)
  then show ?case using lease_partD(4) [OF p] by (auto simp: cancel_jobs_Some split: if_splits)
qed

subsection \<open>Attempts\<close>

lemma attempt_partI:
  assumes "\<And>a j n l x. A a = Some (j, n, l, x) \<Longrightarrow> \<exists>b. L l = Some (j, b)"
    and "\<And>a j n l x. A a = Some (j, n, l, x) \<Longrightarrow> \<exists>r t. J j = Some (r, n, t)"
    and "\<And>a j n l x r n' t. A a = Some (j, n, l, x) \<Longrightarrow> active_attempt x \<Longrightarrow>
           J j = Some (r, n', t) \<Longrightarrow> t = job_of_attempt x"
    and "\<And>a a' j n l x n' l' x'. A a = Some (j, n, l, x) \<Longrightarrow> A a' = Some (j, n', l', x') \<Longrightarrow> a = a'"
    and "\<And>j r n t. J j = Some (r, n, t) \<Longrightarrow> executing t \<Longrightarrow>
           \<exists>a l x. A a = Some (j, n, l, x) \<and> active_attempt x
             \<and> (\<forall>l'. L l' = Some (j, True) \<longrightarrow> l' = l)"
  shows "attempt_part A J L"
  unfolding attempt_part_def using assms by (intro conjI allI impI) assumption+

lemma attempt_partD:
  assumes "attempt_part A J L"
  shows "A a = Some (j, n, l, x) \<Longrightarrow> \<exists>b. L l = Some (j, b)"
    and "A a = Some (j, n, l, x) \<Longrightarrow> \<exists>r t. J j = Some (r, n, t)"
    and "A a = Some (j, n, l, x) \<Longrightarrow> active_attempt x \<Longrightarrow> J j = Some (r, n', t) \<Longrightarrow> t = job_of_attempt x"
    and "A a = Some (j, n, l, x) \<Longrightarrow> A a' = Some (j, n', l', x') \<Longrightarrow> a = a'"
    and "J j = Some (r, n, t) \<Longrightarrow> executing t \<Longrightarrow>
           \<exists>a l x. A a = Some (j, n, l, x) \<and> active_attempt x
             \<and> (\<forall>l'. L l' = Some (j, True) \<longrightarrow> l' = l)"
  using assms unfolding attempt_part_def by (-, metis+)

text \<open>Job changes that touch no attempt, with the leases they come with.\<close>

lemma attempt_part_job:
  assumes p: "attempt_part A J L"
    and j: "J j = Some (r, n, t) \<or> J j = None" "\<not> executing t'"
      "J j = Some (r, n, t) \<Longrightarrow> \<not> executing t \<or> t' = t"
    and L: "\<And>l k b. L l = Some (k, b) \<Longrightarrow> \<exists>b'. L' l = Some (k, b')"
      "\<And>l k. L' l = Some (k, True) \<Longrightarrow> k = j \<or> L l = Some (k, True)"
  shows "attempt_part A (J(j \<mapsto> (r, n, t'))) L'"
proof (rule attempt_partI, goal_cases)
  case (1 a k m l x)
  then show ?case using attempt_partD(1) [OF p] L(1) by blast
next
  case (2 a k m l x)
  then show ?case using attempt_partD(2) [OF p, of a k m l x] j by auto
next
  case (3 a k m l x rr m' u)
  show ?case
  proof (cases "k = j")
    case True
    from attempt_partD(2) [OF p 3(1)] obtain r0 t0 where "J j = Some (r0, m, t0)"
      using True by auto
    moreover from this have "t0 = job_of_attempt x"
      using attempt_partD(3) [OF p 3(1,2)] True by auto
    ultimately have "t = job_of_attempt x" "J j = Some (r, n, t)" using j(1) by auto
    with j(2,3) executing_attempt [OF 3(2)] show ?thesis by auto
  next
    case False
    with 3 show ?thesis using attempt_partD(3) [OF p] by auto
  qed
next
  case (4 a a' k m l x m' l' x')
  then show ?case using attempt_partD(4) [OF p] by blast
next
  case (5 k rr m u)
  with j(2) have k: "k \<noteq> j" "J k = Some (rr, m, u)" by (auto split: if_splits)
  from attempt_partD(5) [OF p k(2) 5(2)] obtain a l x
    where "A a = Some (k, m, l, x)" "active_attempt x" "\<And>l'. L l' = Some (k, True) \<Longrightarrow> l' = l"
    by blast
  with k L(2) show ?case by blast
qed

lemma attempt_part_close_lease:
  assumes p: "attempt_part A J L" and l: "L l = Some (j, True)"
  shows "attempt_part A J (L(l \<mapsto> (j, False)))"
proof (rule attempt_partI, goal_cases)
  case (1 a k m l' x)
  then show ?case using attempt_partD(1) [OF p] l by fastforce
next
  case (2 a k m l' x)
  then show ?case using attempt_partD(2) [OF p] by blast
next
  case (3 a k m l' x rr m' u)
  then show ?case using attempt_partD(3) [OF p] by blast
next
  case (4 a a' k m l1 x m' l2 x')
  then show ?case using attempt_partD(4) [OF p, of a k m l1 x a'] by blast
next
  case (5 k rr m u)
  then show ?case using attempt_partD(5) [OF p 5] by (auto split: if_splits)
qed

lemma attempt_part_start:
  assumes p: "attempt_part A J L" and lp: "lease_part J L"
    and l: "L l = Some (j, True)" and j: "J j = Some (r, n, J_LEASED)" and new: "A a = None"
    and free: "\<And>a' j' n' l' x. A a' = Some (j', n', l', x) \<Longrightarrow> (j', n') \<noteq> (j, n)"
  shows "attempt_part (A(a \<mapsto> (j, n, l, X_RUNNING))) (J(j \<mapsto> (r, n, J_RUNNING))) L"
proof -
  have no: "A a' \<noteq> Some (j, n', l', x)" for a' n' l' x
    using attempt_partD(2) [OF p, of a' j n' l' x] free [of a' j n' l' x] j by auto
  show ?thesis
  proof (rule attempt_partI, goal_cases)
    case (1 a' k m l' x)
    then show ?case using attempt_partD(1) [OF p] l by (auto split: if_splits)
  next
    case (2 a' k m l' x)
    then show ?case using attempt_partD(2) [OF p, of a' k m l' x] no by (auto split: if_splits)
  next
    case (3 a' k m l' x rr m' u)
    then show ?case
      using attempt_partD(3) [OF p, of a' k m l' x rr m' u] no by (auto split: if_splits)
  next
    case (4 a1 a2 k m1 l1 x1 m2 l2 x2)
    then show ?case
      using attempt_partD(4) [OF p, of a1 k m1 l1 x1 a2 m2 l2 x2] no
      by (cases "a1 = a"; cases "a2 = a") auto
  next
    case (5 k rr m u)
    show ?case
    proof (cases "k = j")
      case True
      have "\<forall>l'. L l' = Some (j, True) \<longrightarrow> l' = l"
        using lease_partD(3) [OF lp _ l] by blast
      with 5 True show ?thesis
        by (intro exI [of _ a] exI [of _ l] exI [of _ X_RUNNING]) auto
    next
      case False
      with 5 obtain a' l' x where "A a' = Some (k, m, l', x)" "active_attempt x"
        "\<forall>l''. L l'' = Some (k, True) \<longrightarrow> l'' = l'"
        using attempt_partD(5) [OF p, of k rr m u] by auto
      with new show ?thesis by (intro exI [of _ a'] exI [of _ l'] exI [of _ x]) auto
    qed
  qed
qed

lemma attempt_part_advance:
  assumes p: "attempt_part A J L" and a: "A a = Some (j, n, l, x)"
    and act: "active_attempt x" "active_attempt y" and j: "J j = Some (r, n, job_of_attempt x)"
  shows "attempt_part (A(a \<mapsto> (j, n, l, y))) (J(j \<mapsto> (r, n, job_of_attempt y))) L"
proof (rule attempt_partI, goal_cases)
  case (1 a' k m l' z)
  then show ?case using attempt_partD(1) [OF p] a by (fastforce split: if_splits)
next
  case (2 a' k m l' z)
  then show ?case using attempt_partD(2) [OF p] j by (fastforce split: if_splits)
next
  case (3 a' k m l' z rr m' u)
  then show ?case using attempt_partD(3) [OF p] attempt_partD(4) [OF p a, of a'] by (auto split: if_splits)
next
  case (4 a1 a2 k m1 l1 x1 m2 l2 x2)
  then show ?case using attempt_partD(4) [OF p, of a1] attempt_partD(4) [OF p, of a2] a
    by (fastforce split: if_splits)
next
  case (5 k rr m u)
  show ?case
  proof (cases "k = j")
    case True
    from attempt_partD(5) [OF p j executing_attempt [OF act(1)]] obtain a' l' z
      where a': "A a' = Some (j, n, l', z)" "\<forall>l''. L l'' = Some (j, True) \<longrightarrow> l'' = l'" by blast
    with a have "a' = a" using attempt_partD(4) [OF p, of a' j n l' z a] by auto
    with a a' 5 True act show ?thesis by (intro exI [of _ a] exI [of _ l] exI [of _ y]) auto
  next
    case False
    with 5 obtain a' l' z where "A a' = Some (k, m, l', z)" "active_attempt z"
      "\<forall>l''. L l'' = Some (k, True) \<longrightarrow> l'' = l'"
      using attempt_partD(5) [OF p, of k rr m u] by auto
    with a False show ?thesis by (intro exI [of _ a'] exI [of _ l'] exI [of _ z]) auto
  qed
qed

lemma attempt_part_end:
  assumes p: "attempt_part A J L" and a: "A a = Some (j, n, l, x)" and x': "\<not> active_attempt x'"
    and j: "J j = Some (r, n, t)" "\<not> executing t'"
  shows "attempt_part (A(a \<mapsto> (j, n, l, x'))) (J(j \<mapsto> (r, n, t'))) (L(l \<mapsto> (j, False)))"
proof (rule attempt_partI, goal_cases)
  case (1 a' k m l' z)
  then show ?case using attempt_partD(1) [OF p] attempt_partD(1) [OF p a] by (fastforce split: if_splits)
next
  case (2 a' k m l' z)
  then show ?case using attempt_partD(2) [OF p] j by (fastforce split: if_splits)
next
  case (3 a' k m l' z rr m' u)
  then show ?case using attempt_partD(3) [OF p] attempt_partD(4) [OF p a, of a'] x' by (auto split: if_splits)
next
  case (4 a1 a2 k m1 l1 x1 m2 l2 x2)
  then show ?case using attempt_partD(4) [OF p, of a1] attempt_partD(4) [OF p, of a2] a
    by (fastforce split: if_splits)
next
  case (5 k rr m u)
  with j(2) have k: "k \<noteq> j" "J k = Some (rr, m, u)" by (auto split: if_splits)
  from attempt_partD(5) [OF p k(2) 5(2)] obtain a' l' z where "A a' = Some (k, m, l', z)"
    "active_attempt z" "\<forall>l''. L l'' = Some (k, True) \<longrightarrow> l'' = l'"
    by blast
  with a k show ?case by (intro exI [of _ a'] exI [of _ l'] exI [of _ z]) auto
qed

lemma attempt_part_cancel:
  assumes p: "attempt_part A J L" and r: "\<And>j n t. J j = Some (r, n, t) \<Longrightarrow> t = J_PENDING"
  shows "attempt_part A (cancel_jobs r J) L"
proof (rule attempt_partI, goal_cases)
  case (1 a k m l x)
  then show ?case using attempt_partD(1) [OF p] by blast
next
  case (2 a k m l x)
  then show ?case using attempt_partD(2) [OF p, of a k m l x] by (auto simp: cancel_jobs_Some)
next
  case (3 a k m l x rr m' u)
  then obtain u0 where "J k = Some (rr, m', u0)" "u = (if rr = r then J_CANCELLED else u0)"
    by (auto simp: cancel_jobs_Some)
  moreover from this have "u0 = job_of_attempt x"
    using attempt_partD(3) [OF p 3(1,2)] by blast
  moreover have "job_of_attempt x \<noteq> J_PENDING"
    by (cases x) simp_all
  ultimately show ?case using r by (auto split: if_splits)
next
  case (4 a a' k m l x m' l' x')
  then show ?case using attempt_partD(4) [OF p] by blast
next
  case (5 k rr m u)
  then show ?case using attempt_partD(5) [OF p] by (auto simp: cancel_jobs_Some split: if_splits)
qed

section \<open>Every step keeps the invariant\<close>

lemma retry_job_parts:
  assumes "run_part R J" "lease_part J L" "attempt_part A J L"
    and "J j = Some (r, n, t)" "live_job t" "\<forall>j'. e = Retry j' \<longrightarrow> J j' = None"
    and "lease_part (J(j \<mapsto> (r, n, ending_job e))) L'"
    and "attempt_part A' (J(j \<mapsto> (r, n, ending_job e))) L'"
  shows "run_part (R(r \<mapsto> ending_run e)) (retry_job e r n (J(j \<mapsto> (r, n, ending_job e))))
    \<and> lease_part (retry_job e r n (J(j \<mapsto> (r, n, ending_job e)))) L'
    \<and> attempt_part A' (retry_job e r n (J(j \<mapsto> (r, n, ending_job e)))) L'"
proof (cases e)
  case (Retry j')
  then have j': "J j' = None" "(J(j \<mapsto> (r, n, ending_job e))) j' = None"
    using assms(4,6) by auto
  have "run_part (R(r \<mapsto> R_PENDING)) (J(j \<mapsto> (r, n, ending_job e), j' \<mapsto> (r, n + 1, J_PENDING)))"
    using assms(1,4,5) j'(1) by (intro run_part_retry [where t = t]) auto
  moreover have "lease_part (J(j \<mapsto> (r, n, ending_job e), j' \<mapsto> (r, n + 1, J_PENDING))) L'"
    using assms(7) j'(2) by (rule lease_part_new)
  moreover have "attempt_part A' (J(j \<mapsto> (r, n, ending_job e), j' \<mapsto> (r, n + 1, J_PENDING))) L'"
    using assms(8) by (rule attempt_part_job [where t = J_PENDING]) (use j'(2) in auto)
  ultimately show ?thesis using Retry by simp
next
  case Complete
  then show ?thesis
    using run_part_end [OF assms(1,4,5), of "ending_job e" "ending_run e"] assms(7,8)
    by (simp add: status_defs)
next
  case Exhaust
  then show ?thesis
    using run_part_end [OF assms(1,4,5), of "ending_job e" "ending_run e"] assms(7,8)
    by (simp add: status_defs)
next
  case Fail
  then show ?thesis
    using run_part_end [OF assms(1,4,5), of "ending_job e" "ending_run e"] assms(7,8)
    by (simp add: status_defs)
qed

lemma coordinated_dispatch:
  assumes "coordinated s" "sp_runs s r = None" "sp_jobs s j = None"
  shows "coordinated (s\<lparr>sp_runs := (sp_runs s)(r \<mapsto> R_PENDING),
                        sp_jobs := (sp_jobs s)(j \<mapsto> (r, 1, J_PENDING))\<rparr>)"
  using assms run_part_new [of "sp_runs s" "sp_jobs s" r j 1]
    lease_part_new [of "sp_jobs s" "sp_leases s" j r 1]
    attempt_part_job [of "sp_attempts s" "sp_jobs s" "sp_leases s" j r 1 J_PENDING J_PENDING "sp_leases s"]
  by (simp add: coordinated_def)

lemma coordinated_cancel:
  assumes "coordinated s" "\<forall>j n t. sp_jobs s j = Some (r, n, t) \<longrightarrow> t = J_PENDING"
  shows "coordinated (s\<lparr>sp_runs := (sp_runs s)(r \<mapsto> R_CANCELLED),
                        sp_jobs := cancel_jobs r (sp_jobs s)\<rparr>)"
  using assms run_part_cancel [of "sp_runs s" "sp_jobs s" R_CANCELLED r]
    lease_part_cancel [of "sp_jobs s" "sp_leases s" r]
    attempt_part_cancel [of "sp_attempts s" "sp_jobs s" "sp_leases s" r]
  by (simp add: coordinated_def live_run_def)

lemma coordinated_claim:
  assumes c: "coordinated s" and j: "sp_jobs s j = Some (r, n, J_PENDING)" and l: "sp_leases s l = None"
  shows "coordinated (s\<lparr>sp_jobs := (sp_jobs s)(j \<mapsto> (r, n, J_LEASED)),
                        sp_leases := (sp_leases s)(l \<mapsto> (j, True))\<rparr>)"
proof -
  have p: "run_part (sp_runs s) (sp_jobs s)" "lease_part (sp_jobs s) (sp_leases s)"
    "attempt_part (sp_attempts s) (sp_jobs s) (sp_leases s)"
    using c by (simp_all add: coordinated_def)
  have "sp_runs s r = Some R_PENDING"
    using run_partD(2) [OF p(1) j] by simp
  then have "run_part (sp_runs s) ((sp_jobs s)(j \<mapsto> (r, n, J_LEASED)))"
    using run_part_move [OF p(1) j, of J_LEASED] by (simp add: fun_upd_idem)
  moreover have "attempt_part (sp_attempts s) ((sp_jobs s)(j \<mapsto> (r, n, J_LEASED)))
      ((sp_leases s)(l \<mapsto> (j, True)))"
    by (rule attempt_part_job [OF p(3), where t = J_PENDING]) (use j l in \<open>auto split: if_splits\<close>)
  ultimately show ?thesis
    using lease_part_claim [OF p(2) j l] by (simp add: coordinated_def)
qed

lemma coordinated_close:
  assumes c: "coordinated s" and l: "sp_leases s l = Some (j, True)" and j: "sp_jobs s j = Some (r, n, t)"
  shows "coordinated (s\<lparr>sp_leases := (sp_leases s)(l \<mapsto> (j, False)),
                        sp_jobs := (sp_jobs s)(j \<mapsto> (r, n, if t = J_LEASED then J_PENDING else t))\<rparr>)"
proof -
  have p: "run_part (sp_runs s) (sp_jobs s)" "lease_part (sp_jobs s) (sp_leases s)"
    "attempt_part (sp_attempts s) (sp_jobs s) (sp_leases s)"
    using c by (simp_all add: coordinated_def)
  have live: "live_job t"
    using lease_partD(2) [OF p(2) l j] by (rule in_flight_live)
  then have "sp_runs s r = Some (deriveRunStatusFromJob t)"
    by (rule run_partD(2) [OF p(1) j])
  then have "run_part (sp_runs s) ((sp_jobs s)(j \<mapsto> (r, n, if t = J_LEASED then J_PENDING else t)))"
    using run_part_move [OF p(1) j live, of "if t = J_LEASED then J_PENDING else t"] live
    by (auto simp: fun_upd_idem)
  moreover have "attempt_part (sp_attempts s)
      ((sp_jobs s)(j \<mapsto> (r, n, if t = J_LEASED then J_PENDING else t))) ((sp_leases s)(l \<mapsto> (j, False)))"
  proof (cases "t = J_LEASED")
    case True
    then show ?thesis
      by (intro attempt_part_job [OF attempt_part_close_lease [OF p(3) l], where t = J_LEASED])
        (use j in auto)
  next
    case False
    then show ?thesis
      using attempt_part_close_lease [OF p(3) l] j by (simp add: fun_upd_idem)
  qed
  ultimately show ?thesis
    using lease_part_close [OF p(2) l] j by (simp add: coordinated_def)
qed

lemma coordinated_start:
  assumes c: "coordinated s" and l: "sp_leases s l = Some (j, True)"
    and j: "sp_jobs s j = Some (r, n, J_LEASED)" and a: "sp_attempts s a = None"
    and free: "\<forall>a' j' n' l' x. sp_attempts s a' = Some (j', n', l', x) \<longrightarrow> l' \<noteq> l \<and> (j', n') \<noteq> (j, n)"
  shows "coordinated (s\<lparr>sp_attempts := (sp_attempts s)(a \<mapsto> (j, n, l, X_RUNNING)),
                        sp_jobs := (sp_jobs s)(j \<mapsto> (r, n, J_RUNNING)),
                        sp_runs := (sp_runs s)(r \<mapsto> R_RUNNING)\<rparr>)"
proof -
  have p: "run_part (sp_runs s) (sp_jobs s)" "lease_part (sp_jobs s) (sp_leases s)"
    "attempt_part (sp_attempts s) (sp_jobs s) (sp_leases s)"
    using c by (simp_all add: coordinated_def)
  show ?thesis
    using run_part_move [OF p(1) j, of J_RUNNING] lease_part_move [OF p(2), of J_RUNNING j r n]
      attempt_part_start [OF p(3,2) l j a, OF free [rule_format, THEN conjunct2]]
    by (simp add: coordinated_def)
qed

lemma coordinated_advance:
  assumes c: "coordinated s" and a: "sp_attempts s a = Some (j, n, l, x)"
    and j: "sp_jobs s j = Some (r, n, job_of_attempt x)" and adv: "attempt_advances x y"
  shows "coordinated (s\<lparr>sp_attempts := (sp_attempts s)(a \<mapsto> (j, n, l, y)),
                        sp_jobs := (sp_jobs s)(j \<mapsto> (r, n, job_of_attempt y))\<rparr>)"
proof -
  have p: "run_part (sp_runs s) (sp_jobs s)" "lease_part (sp_jobs s) (sp_leases s)"
    "attempt_part (sp_attempts s) (sp_jobs s) (sp_leases s)"
    using c by (simp_all add: coordinated_def)
  have act: "active_attempt x" "active_attempt y"
    using adv by (cases x; cases y; simp)+
  note ex = executing_live [OF executing_attempt [OF act(1)]] executing_live [OF executing_attempt [OF act(2)]]
  have "sp_runs s r = Some R_RUNNING"
    using run_partD(2) [OF p(1) j] ex by simp
  then have "run_part (sp_runs s) ((sp_jobs s)(j \<mapsto> (r, n, job_of_attempt y)))"
    using run_part_move [OF p(1) j, of "job_of_attempt y"] ex by (simp add: fun_upd_idem)
  moreover have "job_of_attempt y \<noteq> J_LEASED"
    by (cases y) simp_all
  ultimately show ?thesis
    using lease_part_move [OF p(2), of "job_of_attempt y" j r n] ex
      attempt_part_advance [OF p(3) a act j]
    by (simp add: coordinated_def)
qed

lemma coordinated_finish:
  assumes c: "coordinated s" and l: "sp_leases s l = Some (j, True)"
    and a: "sp_attempts s a = Some (j, n, l, x)" and j: "sp_jobs s j = Some (r, n, t)"
    and e: "\<forall>j'. e = Retry j' \<longrightarrow> sp_jobs s j' = None"
  shows "coordinated (s\<lparr>sp_attempts := (sp_attempts s)(a \<mapsto> (j, n, l, ending_attempt e)),
                        sp_jobs := retry_job e r n ((sp_jobs s)(j \<mapsto> (r, n, ending_job e))),
                        sp_runs := (sp_runs s)(r \<mapsto> ending_run e),
                        sp_leases := (sp_leases s)(l \<mapsto> (j, False))\<rparr>)"
proof -
  have p: "run_part (sp_runs s) (sp_jobs s)" "lease_part (sp_jobs s) (sp_leases s)"
    "attempt_part (sp_attempts s) (sp_jobs s) (sp_leases s)"
    using c by (simp_all add: coordinated_def)
  have "live_job t"
    using lease_partD(2) [OF p(2) l j] by (rule in_flight_live)
  then show ?thesis
    using retry_job_parts [OF p j _ e, of "(sp_leases s)(l \<mapsto> (j, False))"
        "(sp_attempts s)(a \<mapsto> (j, n, l, ending_attempt e))"]
      lease_part_close [OF p(2) l, of "ending_job e" r n] j
      attempt_part_end [OF p(3) a _ j, of "ending_attempt e" "ending_job e"]
    by (simp add: coordinated_def)
qed

lemma coordinated_abandon:
  assumes c: "coordinated s" and a: "sp_attempts s a = Some (j, n, l, x)" and x: "active_attempt x"
    and l: "sp_leases s l = Some (j, b)" and j: "sp_jobs s j = Some (r, n, t)"
  shows "coordinated (s\<lparr>sp_attempts := (sp_attempts s)(a \<mapsto> (j, n, l, X_FAILED)),
                        sp_jobs := (sp_jobs s)(j \<mapsto> (r, n, J_FAILED)),
                        sp_runs := (sp_runs s)(r \<mapsto> R_FAILED),
                        sp_leases := (sp_leases s)(l \<mapsto> (j, False))\<rparr>)"
proof -
  have p: "run_part (sp_runs s) (sp_jobs s)" "lease_part (sp_jobs s) (sp_leases s)"
    "attempt_part (sp_attempts s) (sp_jobs s) (sp_leases s)"
    using c by (simp_all add: coordinated_def)
  have t: "t = job_of_attempt x"
    using attempt_partD(3) [OF p(3) a x j] .
  then have ex: "executing t" using executing_attempt [OF x] by simp
  have "lease_part ((sp_jobs s)(j \<mapsto> (r, n, J_FAILED))) ((sp_leases s)(l \<mapsto> (j, False)))"
  proof (cases b)
    case True
    with l j show ?thesis using lease_part_close [OF p(2), of l j J_FAILED r n] by simp
  next
    case False
    have "sp_leases s l' \<noteq> Some (j, True)" for l'
    proof
      assume l': "sp_leases s l' = Some (j, True)"
      from attempt_partD(5) [OF p(3) j ex] obtain a' m y
        where a': "sp_attempts s a' = Some (j, n, m, y)" "\<forall>l'. sp_leases s l' = Some (j, True) \<longrightarrow> l' = m"
        by blast
      then have "a' = a" using attempt_partD(4) [OF p(3) a'(1) a] by simp
      with a a' l l' False show False by auto
    qed
    with False l show ?thesis
      using lease_part_move [OF p(2), of J_FAILED j r n] by (simp add: fun_upd_idem)
  qed
  then show ?thesis
    using run_part_end [OF p(1) j, of J_FAILED R_FAILED] executing_live [OF ex]
      attempt_part_end [OF p(3) a _ j, of X_FAILED J_FAILED]
    by (simp add: coordinated_def live_run_def)
qed

theorem spec_step_coordinated: "spec_step s s' \<Longrightarrow> coordinated s \<Longrightarrow> coordinated s'"
proof (induction rule: spec_step.induct)
  case (finish s l j a n x r t e)
  then show ?case by (intro coordinated_finish) auto
next
  case (abandon s a j n l x b r t)
  then show ?case by (intro coordinated_abandon) auto
qed (simp_all add: coordinated_dispatch coordinated_cancel coordinated_claim coordinated_close
    coordinated_start coordinated_advance)

lemma spec_steps_coordinated: "spec_step\<^sup>*\<^sup>* s s' \<Longrightarrow> coordinated s \<Longrightarrow> coordinated s'"
  by (induction rule: rtranclp_induct) (auto intro: spec_step_coordinated)

end
