(* ===== verification/Store_View.thy ===== *)
theory Store_View
  imports Control_Store Coordination
begin

text \<open>
  What the proofs use of the tables: \<open>store_ok\<close> (primary keys are unique and every row is
  coherent with its document) and \<open>view_of\<close>, the abstract state of a store. Each statement keeps
  the first and acts on the second as one map update.
\<close>

section \<open>Coherent tables\<close>

definition coherent :: "('r \<Rightarrow> 'k) \<Rightarrow> ('r \<Rightarrow> 'r) \<Rightarrow> 'r list \<Rightarrow> bool" where
  "coherent key canon rows \<longleftrightarrow> distinct (map key rows) \<and> (\<forall>r\<in>set rows. canon r = r)"

definition canon_run :: "run_row \<Rightarrow> run_row" where
  "canon_run r = run_row_of (rr_document r)"

definition canon_job :: "job_row \<Rightarrow> job_row" where
  "canon_job r = job_row_of (jr_document r)"

definition canon_lease :: "lease_row \<Rightarrow> lease_row" where
  "canon_lease r = lease_row_of (lr_token_digest r) (lr_document r)"

definition canon_worker :: "worker_row \<Rightarrow> worker_row" where
  "canon_worker r = worker_row_of (wr_document r)"

definition canon_attempt :: "attempt_row \<Rightarrow> attempt_row" where
  "canon_attempt r = attempt_row_of (ar_document r)"

definition canon_event :: "event_row \<Rightarrow> event_row" where
  "canon_event r = event_row_of (er_document r)"

definition store_ok :: "control_store \<Rightarrow> bool" where
  "store_ok db \<longleftrightarrow>
     coherent rr_id canon_run (collection_runs db)
     \<and> coherent jr_id canon_job (jobs db)
     \<and> coherent lr_id canon_lease (leases db)
     \<and> coherent wr_id canon_worker (workers db)
     \<and> coherent ar_id canon_attempt (attempts db)
     \<and> coherent er_id canon_event (events db)"

lemma coherent_Nil [simp]: "coherent key canon []"
  by (simp add: coherent_def)

lemma coherent_snoc:
  "coherent key canon (rows @ [r]) \<longleftrightarrow>
     coherent key canon rows \<and> key r \<notin> key ` set rows \<and> canon r = r"
  by (auto simp: coherent_def)

lemma coherent_filter: "coherent key canon rows \<Longrightarrow> coherent key canon (filter P rows)"
  by (auto simp: coherent_def distinct_map_filter)

lemma coherentD:
  "coherent key canon rows \<Longrightarrow> r \<in> set rows \<Longrightarrow> canon r = r"
  "coherent key canon rows \<Longrightarrow> r \<in> set rows \<Longrightarrow> find_by key (key r) rows = Some r"
  by (auto simp: coherent_def find_by_unique)

lemma coherent_find:
  "coherent key canon rows \<Longrightarrow> find_by key k rows = Some r \<longleftrightarrow> r \<in> set rows \<and> key r = k"
  by (auto simp: coherent_def find_by_iff)

lemma coherent_update:
  assumes c: "coherent key canon rows" and k: "\<And>r. key (f r) = key r"
    and f: "\<And>r. find_by key k rows = Some r \<Longrightarrow> canon r = r \<Longrightarrow> canon (f r) = f r"
  shows "coherent key canon (update_by key k f rows)"
proof -
  have ku: "keyed_update key f" by unfold_locales (rule k)
  have "canon r = r" if "r \<in> set (update_by key k f rows)" for r
    using keyed_update.in_updateD [OF ku that] coherentD [OF c] f by metis
  then show ?thesis
    using c by (simp add: coherent_def keyed_update.map_key_update [OF ku])
qed

text \<open>The row writers keep their keys.\<close>

interpretation write_run: keyed_update rr_id "write_run c" for c
  by unfold_locales (simp add: write_run_def)

interpretation write_job: keyed_update jr_id "write_job j" for j
  by unfold_locales (simp add: write_job_def)

interpretation write_lease: keyed_update lr_id "write_lease l" for l
  by unfold_locales (simp add: write_lease_def)

interpretation write_lease_closed: keyed_update lr_id "write_lease_closed l" for l
  by unfold_locales (simp add: write_lease_closed_def)

interpretation write_worker: keyed_update wr_id "write_worker w" for w
  by unfold_locales (simp add: write_worker_def)

interpretation write_attempt: keyed_update ar_id "write_attempt a" for a
  by unfold_locales (simp add: write_attempt_def)

section \<open>The abstract state of a store\<close>

definition view_of :: "control_store \<Rightarrow> spec" where
  "view_of db =
     \<lparr> sp_runs = (\<lambda>i. map_option rr_status (run_by_id i db)),
       sp_jobs = (\<lambda>i. map_option (\<lambda>r. (jr_run_id r, jr_attempt r, jr_status r)) (job_by_id i db)),
       sp_leases = (\<lambda>i. map_option (\<lambda>r. (lr_job_id r, lr_status r = L_ACTIVE)) (lease_by_id i db)),
       sp_attempts = (\<lambda>i. map_option (\<lambda>r. (ar_job_id r, ar_job_attempt r, ar_lease_id r, ar_status r))
                            (find_by ar_id i (attempts db))) \<rparr>"

lemma view_simps [simp]:
  "sp_runs (view_of db) i = map_option rr_status (run_by_id i db)"
  "sp_jobs (view_of db) i = map_option (\<lambda>r. (jr_run_id r, jr_attempt r, jr_status r)) (job_by_id i db)"
  "sp_leases (view_of db) i = map_option (\<lambda>r. (lr_job_id r, lr_status r = L_ACTIVE)) (lease_by_id i db)"
  "sp_attempts (view_of db) i =
     map_option (\<lambda>r. (ar_job_id r, ar_job_attempt r, ar_lease_id r, ar_status r))
       (find_by ar_id i (attempts db))"
  by (simp_all add: view_of_def)

lemma view_of_cong:
  "collection_runs db' = collection_runs db \<Longrightarrow> jobs db' = jobs db \<Longrightarrow> leases db' = leases db \<Longrightarrow>
     attempts db' = attempts db \<Longrightarrow> view_of db' = view_of db"
  by (simp add: view_of_def run_by_id_def job_by_id_def lease_by_id_def)

lemma store_ok_cong:
  "collection_runs db' = collection_runs db \<Longrightarrow> jobs db' = jobs db \<Longrightarrow> leases db' = leases db \<Longrightarrow>
     attempts db' = attempts db \<Longrightarrow> workers db' = workers db \<Longrightarrow> events db' = events db \<Longrightarrow>
     store_ok db' = store_ok db"
  by (simp add: store_ok_def)

text \<open>The columns of a row are those of its document.\<close>

lemma run_columns:
  assumes "store_ok db" "run_by_id i db = Some r"
  shows "run_id (rr_document r) = i" "rr_id r = i" "rr_status r = run_status (rr_document r)"
    "rr_updated_at r = run_updatedAt (rr_document r)" "run_row_of (rr_document r) = r"
proof -
  have "canon_run r = r" "rr_id r = i"
    using assms coherentD(1) coherent_find unfolding store_ok_def run_by_id_def by metis+
  then show "run_row_of (rr_document r) = r" "rr_id r = i" by (simp_all add: canon_run_def)
  then show "run_id (rr_document r) = i" "rr_status r = run_status (rr_document r)"
    "rr_updated_at r = run_updatedAt (rr_document r)"
    unfolding run_row_of_def by (metis run_row.select_convs)+
qed

lemma job_columns:
  assumes "store_ok db" "job_by_id i db = Some r"
  shows "job_id (jr_document r) = i" "jr_id r = i" "jr_status r = job_status (jr_document r)"
    "jr_run_id r = job_runId (jr_document r)" "jr_attempt r = job_attempt (jr_document r)"
    "jr_available_at r = job_availableAt (jr_document r)" "job_row_of (jr_document r) = r"
proof -
  have "canon_job r = r" "jr_id r = i"
    using assms coherentD(1) coherent_find unfolding store_ok_def job_by_id_def by metis+
  then show "job_row_of (jr_document r) = r" "jr_id r = i" by (simp_all add: canon_job_def)
  then show "job_id (jr_document r) = i" "jr_status r = job_status (jr_document r)"
    "jr_run_id r = job_runId (jr_document r)" "jr_attempt r = job_attempt (jr_document r)"
    "jr_available_at r = job_availableAt (jr_document r)"
    unfolding job_row_of_def by (metis job_row.select_convs)+
qed

lemma lease_columns:
  assumes "store_ok db" "lease_by_id i db = Some r"
  shows "lease_id (lr_document r) = i" "lr_id r = i" "lr_status r = lease_status (lr_document r)"
    "lr_job_id r = lease_jobId (lr_document r)" "lr_run_id r = lease_runId (lr_document r)"
    "lr_worker_id r = lease_workerId (lr_document r)"
    "lr_expires_at r = lease_expiresAt (lr_document r)"
    "lr_acquired_at r = lease_acquiredAt (lr_document r)"
    "lease_row_of (lr_token_digest r) (lr_document r) = r"
proof -
  have "canon_lease r = r" "lr_id r = i"
    using assms coherentD(1) coherent_find unfolding store_ok_def lease_by_id_def by metis+
  then show "lease_row_of (lr_token_digest r) (lr_document r) = r" "lr_id r = i"
    by (simp_all add: canon_lease_def)
  then show "lease_id (lr_document r) = i" "lr_status r = lease_status (lr_document r)"
    "lr_job_id r = lease_jobId (lr_document r)" "lr_run_id r = lease_runId (lr_document r)"
    "lr_worker_id r = lease_workerId (lr_document r)"
    "lr_expires_at r = lease_expiresAt (lr_document r)"
    "lr_acquired_at r = lease_acquiredAt (lr_document r)"
    unfolding lease_row_of_def by (metis lease_row.select_convs)+
qed

lemma worker_columns:
  assumes "store_ok db" "worker_by_id i db = Some r"
  shows "worker_id (wr_document r) = i" "wr_id r = i"
    "wr_desired_state r = worker_desiredState (wr_document r)"
    "wr_updated_at r = worker_updatedAt (wr_document r)" "worker_row_of (wr_document r) = r"
proof -
  have "canon_worker r = r" "wr_id r = i"
    using assms coherentD(1) coherent_find unfolding store_ok_def worker_by_id_def by metis+
  then show "worker_row_of (wr_document r) = r" "wr_id r = i" by (simp_all add: canon_worker_def)
  then show "worker_id (wr_document r) = i" "wr_desired_state r = worker_desiredState (wr_document r)"
    "wr_updated_at r = worker_updatedAt (wr_document r)"
    unfolding worker_row_of_def by (metis worker_row.select_convs)+
qed

lemma attempt_columns:
  assumes "store_ok db" "r \<in> set (attempts db)"
  shows "ar_id r = attempt_id (ar_document r)" "ar_status r = attempt_status (ar_document r)"
    "ar_job_id r = attempt_jobId (ar_document r)" "ar_job_attempt r = attempt_jobAttempt (ar_document r)"
    "ar_lease_id r = attempt_leaseId (ar_document r)" "ar_run_id r = attempt_runId (ar_document r)"
    "attempt_row_of (ar_document r) = r" "find_by ar_id (ar_id r) (attempts db) = Some r"
proof -
  have "canon_attempt r = r"
    using assms coherentD(1) unfolding store_ok_def by metis
  then show "attempt_row_of (ar_document r) = r" by (simp add: canon_attempt_def)
  then show "ar_id r = attempt_id (ar_document r)" "ar_status r = attempt_status (ar_document r)"
    "ar_job_id r = attempt_jobId (ar_document r)" "ar_job_attempt r = attempt_jobAttempt (ar_document r)"
    "ar_lease_id r = attempt_leaseId (ar_document r)" "ar_run_id r = attempt_runId (ar_document r)"
    unfolding attempt_row_of_def by (metis attempt_row.select_convs)+
  show "find_by ar_id (ar_id r) (attempts db) = Some r"
    using assms coherentD(2) unfolding store_ok_def by metis
qed

section \<open>Statements\<close>

lemma update_fields [simp]:
  "jobs (update_run c db) = jobs db" "leases (update_run c db) = leases db"
  "attempts (update_run c db) = attempts db" "workers (update_run c db) = workers db"
  "events (update_run c db) = events db" "requests (update_run c db) = requests db"
  "collection_runs (update_job j db) = collection_runs db" "leases (update_job j db) = leases db"
  "attempts (update_job j db) = attempts db" "workers (update_job j db) = workers db"
  "events (update_job j db) = events db" "requests (update_job j db) = requests db"
  "collection_runs (update_lease l db) = collection_runs db" "jobs (update_lease l db) = jobs db"
  "attempts (update_lease l db) = attempts db" "workers (update_lease l db) = workers db"
  "events (update_lease l db) = events db" "requests (update_lease l db) = requests db"
  "collection_runs (update_lease_closed l db) = collection_runs db"
  "jobs (update_lease_closed l db) = jobs db" "attempts (update_lease_closed l db) = attempts db"
  "workers (update_lease_closed l db) = workers db" "events (update_lease_closed l db) = events db"
  "requests (update_lease_closed l db) = requests db"
  "collection_runs (update_attempt a db) = collection_runs db" "jobs (update_attempt a db) = jobs db"
  "leases (update_attempt a db) = leases db" "workers (update_attempt a db) = workers db"
  "events (update_attempt a db) = events db" "requests (update_attempt a db) = requests db"
  by (simp_all add: update_run_def update_job_def update_lease_def update_lease_closed_def
      update_attempt_def)

lemma by_id_updates [simp]:
  "job_by_id i (update_run c db) = job_by_id i db" "lease_by_id i (update_run c db) = lease_by_id i db"
  "worker_by_id i (update_run c db) = worker_by_id i db"
  "run_by_id i (update_job j db) = run_by_id i db" "lease_by_id i (update_job j db) = lease_by_id i db"
  "worker_by_id i (update_job j db) = worker_by_id i db"
  "run_by_id i (update_lease l db) = run_by_id i db" "job_by_id i (update_lease l db) = job_by_id i db"
  "worker_by_id i (update_lease l db) = worker_by_id i db"
  "run_by_id i (update_lease_closed l db) = run_by_id i db"
  "job_by_id i (update_lease_closed l db) = job_by_id i db"
  "worker_by_id i (update_lease_closed l db) = worker_by_id i db"
  "run_by_id i (update_attempt a db) = run_by_id i db" "job_by_id i (update_attempt a db) = job_by_id i db"
  "lease_by_id i (update_attempt a db) = lease_by_id i db"
  "worker_by_id i (update_attempt a db) = worker_by_id i db"
  by (simp_all add: run_by_id_def job_by_id_def lease_by_id_def worker_by_id_def)

lemma by_id_update_same [simp]:
  "run_by_id i (update_run c db) =
     (if i = run_id c then map_option (write_run c) (run_by_id i db) else run_by_id i db)"
  "job_by_id i (update_job j db) =
     (if i = job_id j then map_option (write_job j) (job_by_id i db) else job_by_id i db)"
  "lease_by_id i (update_lease l db) =
     (if i = lease_id l then map_option (write_lease l) (lease_by_id i db) else lease_by_id i db)"
  "lease_by_id i (update_lease_closed l db) =
     (if i = lease_id l then map_option (write_lease_closed l) (lease_by_id i db) else lease_by_id i db)"
  by (simp_all add: run_by_id_def job_by_id_def lease_by_id_def update_run_def update_job_def
      update_lease_def update_lease_closed_def write_run.find_update write_job.find_update
      write_lease.find_update write_lease_closed.find_update)

lemma canon_row_of [simp]:
  "canon_run (run_row_of c) = run_row_of c" "canon_job (job_row_of j) = job_row_of j"
  "canon_lease (lease_row_of d l) = lease_row_of d l" "canon_worker (worker_row_of w) = worker_row_of w"
  "canon_attempt (attempt_row_of a) = attempt_row_of a" "canon_event (event_row_of e) = event_row_of e"
  by (simp_all add: canon_run_def canon_job_def canon_lease_def canon_worker_def canon_attempt_def
      canon_event_def run_row_of_def job_row_of_def lease_row_of_def worker_row_of_def
      attempt_row_of_def event_row_of_def)

lemma row_of_key [simp]:
  "rr_id (run_row_of c) = run_id c" "jr_id (job_row_of j) = job_id j" "lr_id (lease_row_of d l) = lease_id l"
  "wr_id (worker_row_of w) = worker_id w" "ar_id (attempt_row_of a) = attempt_id a"
  "er_id (event_row_of e) = event_id e"
  by (simp_all add: run_row_of_def job_row_of_def lease_row_of_def worker_row_of_def
      attempt_row_of_def event_row_of_def)

lemma store_ok_update_run:
  assumes "store_ok db"
    and "\<And>r. run_by_id (run_id c) db = Some r \<Longrightarrow> write_run c r = run_row_of c"
  shows "store_ok (update_run c db)"
proof -
  have "coherent rr_id canon_run (update_by rr_id (run_id c) (write_run c) (collection_runs db))"
    using assms by (intro coherent_update)
      (simp_all add: store_ok_def write_run.key_upd run_by_id_def)
  then show ?thesis using assms(1) by (simp add: store_ok_def update_run_def)
qed

lemma store_ok_update_job:
  assumes "store_ok db"
    and "\<And>r. job_by_id (job_id j) db = Some r \<Longrightarrow> write_job j r = job_row_of j"
  shows "store_ok (update_job j db)"
proof -
  have "coherent jr_id canon_job (update_by jr_id (job_id j) (write_job j) (jobs db))"
    using assms by (intro coherent_update)
      (simp_all add: store_ok_def write_job.key_upd job_by_id_def)
  then show ?thesis using assms(1) by (simp add: store_ok_def update_job_def)
qed

lemma store_ok_update_lease:
  assumes "store_ok db"
    and "\<And>r. lease_by_id (lease_id l) db = Some r \<Longrightarrow>
           write_lease l r = lease_row_of (lr_token_digest r) l"
  shows "store_ok (update_lease l db)"
proof -
  have "coherent lr_id canon_lease (update_by lr_id (lease_id l) (write_lease l) (leases db))"
    using assms by (intro coherent_update)
      (simp_all add: store_ok_def write_lease.key_upd lease_by_id_def)
  then show ?thesis using assms(1) by (simp add: store_ok_def update_lease_def)
qed

lemma store_ok_update_lease_closed:
  assumes "store_ok db"
    and "\<And>r. lease_by_id (lease_id l) db = Some r \<Longrightarrow>
           write_lease_closed l r = lease_row_of (lr_token_digest r) l"
  shows "store_ok (update_lease_closed l db)"
proof -
  have "coherent lr_id canon_lease (update_by lr_id (lease_id l) (write_lease_closed l) (leases db))"
    using assms by (intro coherent_update)
      (simp_all add: store_ok_def write_lease_closed.key_upd lease_by_id_def)
  then show ?thesis using assms(1) by (simp add: store_ok_def update_lease_closed_def)
qed

lemma store_ok_update_attempt:
  assumes "store_ok db"
    and "\<And>r. find_by ar_id (attempt_id a) (attempts db) = Some r \<Longrightarrow> write_attempt a r = attempt_row_of a"
  shows "store_ok (update_attempt a db)"
proof -
  have "coherent ar_id canon_attempt (update_by ar_id (attempt_id a) (write_attempt a) (attempts db))"
    using assms by (intro coherent_update)
      (simp_all add: store_ok_def write_attempt.key_upd )
  then show ?thesis using assms(1) by (simp add: store_ok_def update_attempt_def)
qed

lemma store_ok_insert:
  assumes "store_ok db"
  shows "insert_run c db = Inr db1 \<Longrightarrow> store_ok db1" "insert_job j db = Inr db2 \<Longrightarrow> store_ok db2"
    "insert_lease d l db = Inr db3 \<Longrightarrow> store_ok db3" "insert_worker w db = Inr db4 \<Longrightarrow> store_ok db4"
    "insert_attempt a db = Inr db5 \<Longrightarrow> store_ok db5" "insert_event e db = Inr db6 \<Longrightarrow> store_ok db6"
    "insert_credential cr db = Inr db7 \<Longrightarrow> store_ok db7" "insert_heartbeat h db = Inr db8 \<Longrightarrow> store_ok db8"
    "insert_request q db = Inr db9 \<Longrightarrow> store_ok db9"
  using assms
  by (auto simp: insert_run_def insert_job_def insert_lease_def insert_worker_def insert_attempt_def
      insert_event_def insert_credential_def insert_heartbeat_def insert_request_def store_ok_def
      coherent_snoc split: if_splits)

section \<open>Statements on the abstract state\<close>

lemma view_update_run:
  "run_by_id (run_id c) db = Some r \<Longrightarrow>
     view_of (update_run c db) =
       (view_of db)\<lparr>sp_runs := (sp_runs (view_of db))(run_id c \<mapsto> run_status c)\<rparr>"
  by (auto simp: view_of_def write_run_def)

lemma view_update_job:
  "job_by_id (job_id j) db = Some r \<Longrightarrow>
     view_of (update_job j db) =
       (view_of db)\<lparr>sp_jobs := (sp_jobs (view_of db))(job_id j \<mapsto> (jr_run_id r, jr_attempt r, job_status j))\<rparr>"
  by (auto simp: view_of_def write_job_def)

lemma view_update_lease:
  "lease_by_id (lease_id l) db = Some r \<Longrightarrow>
     view_of (update_lease l db) =
       (view_of db)\<lparr>sp_leases := (sp_leases (view_of db))(lease_id l \<mapsto> (lr_job_id r, lease_status l = L_ACTIVE))\<rparr>"
  by (auto simp: view_of_def write_lease_def)

lemma view_update_lease_closed:
  "lease_by_id (lease_id l) db = Some r \<Longrightarrow>
     view_of (update_lease_closed l db) =
       (view_of db)\<lparr>sp_leases := (sp_leases (view_of db))(lease_id l \<mapsto> (lr_job_id r, lease_status l = L_ACTIVE))\<rparr>"
  by (auto simp: view_of_def write_lease_closed_def)

lemma view_update_attempt:
  "find_by ar_id (attempt_id a) (attempts db) = Some r \<Longrightarrow>
     view_of (update_attempt a db) =
       (view_of db)\<lparr>sp_attempts := (sp_attempts (view_of db))
          (attempt_id a \<mapsto> (ar_job_id r, ar_job_attempt r, ar_lease_id r, attempt_status a))\<rparr>"
  by (auto simp: view_of_def update_attempt_def run_by_id_def job_by_id_def lease_by_id_def
      write_attempt.find_update write_attempt_def)

lemma find_by_snoc:
  "key r \<notin> key ` set rows \<Longrightarrow>
     find_by key i (rows @ [r]) = (if i = key r then Some r else find_by key i rows)"
  by (auto simp: find_by_append find_by_None [symmetric] split: option.splits)

lemma insert_run_view:
  assumes "insert_run c db = Inr db'"
  shows "view_of db' = (view_of db)\<lparr>sp_runs := (sp_runs (view_of db))(run_id c \<mapsto> run_status c)\<rparr>"
    and "run_by_id (run_id c) db = None" and "jobs db' = jobs db" and "leases db' = leases db"
    and "attempts db' = attempts db" and "run_by_id (run_id c) db' = Some (run_row_of c)"
  using assms
  by (auto simp: insert_run_def view_of_def run_by_id_def job_by_id_def lease_by_id_def find_by_None
      find_by_snoc run_row_of_def split: if_splits)

lemma insert_job_view:
  assumes "insert_job j db = Inr db'"
  shows "view_of db' = (view_of db)\<lparr>sp_jobs := (sp_jobs (view_of db))
           (job_id j \<mapsto> (job_runId j, job_attempt j, job_status j))\<rparr>"
    and "job_by_id (job_id j) db = None" and "collection_runs db' = collection_runs db"
    and "leases db' = leases db" and "attempts db' = attempts db"
    and "job_by_id i db' = (if i = job_id j then Some (job_row_of j) else job_by_id i db)"
  using assms
  by (auto simp: insert_job_def view_of_def run_by_id_def job_by_id_def lease_by_id_def find_by_None
      find_by_snoc job_row_of_def split: if_splits)

lemma insert_lease_view:
  assumes "insert_lease d l db = Inr db'"
  shows "view_of db' = (view_of db)\<lparr>sp_leases := (sp_leases (view_of db))
           (lease_id l \<mapsto> (lease_jobId l, lease_status l = L_ACTIVE))\<rparr>"
    and "lease_by_id (lease_id l) db = None" and "collection_runs db' = collection_runs db"
    and "jobs db' = jobs db" and "attempts db' = attempts db"
    and "leases db' = leases db @ [lease_row_of d l]"
  using assms
  by (auto simp: insert_lease_def view_of_def run_by_id_def job_by_id_def lease_by_id_def find_by_None
      find_by_snoc lease_row_of_def split: if_splits)

lemma insert_attempt_view:
  assumes "insert_attempt a db = Inr db'"
  shows "view_of db' = (view_of db)\<lparr>sp_attempts := (sp_attempts (view_of db))
           (attempt_id a \<mapsto> (attempt_jobId a, attempt_jobAttempt a, attempt_leaseId a, attempt_status a))\<rparr>"
    and "find_by ar_id (attempt_id a) (attempts db) = None"
    and "\<And>x. x \<in> set (attempts db) \<Longrightarrow> ar_lease_id x \<noteq> attempt_leaseId a
           \<and> (ar_job_id x, ar_job_attempt x) \<noteq> (attempt_jobId a, attempt_jobAttempt a)"
    and "collection_runs db' = collection_runs db" "jobs db' = jobs db" "leases db' = leases db"
    and "attempts db' = attempts db @ [attempt_row_of a]"
proof -
  have new: "attempt_id a \<notin> ar_id ` set (attempts db)" "attempt_leaseId a \<notin> ar_lease_id ` set (attempts db)"
      "\<not> (\<exists>x\<in>set (attempts db). ar_job_id x = attempt_jobId a \<and> ar_job_attempt x = attempt_jobAttempt a)"
    and db': "db' = db\<lparr>attempts := attempts db @ [attempt_row_of a]\<rparr>"
    using assms by (simp_all add: insert_attempt_def split: if_splits)
  show "view_of db' = (view_of db)\<lparr>sp_attempts := (sp_attempts (view_of db))
           (attempt_id a \<mapsto> (attempt_jobId a, attempt_jobAttempt a, attempt_leaseId a, attempt_status a))\<rparr>"
    and "find_by ar_id (attempt_id a) (attempts db) = None"
    using new(1)
    by (auto simp: db' view_of_def run_by_id_def job_by_id_def lease_by_id_def find_by_None
        find_by_snoc attempt_row_of_def)
  show "\<And>x. x \<in> set (attempts db) \<Longrightarrow> ar_lease_id x \<noteq> attempt_leaseId a
           \<and> (ar_job_id x, ar_job_attempt x) \<noteq> (attempt_jobId a, attempt_jobAttempt a)"
    using new(2,3) by (auto simp: image_iff)
qed (use assms in \<open>auto simp: insert_attempt_def split: if_splits\<close>)

lemma insert_others:
  "insert_event e db = Inr db' \<Longrightarrow> view_of db' = view_of db"
  "insert_request q db = Inr db' \<Longrightarrow> view_of db' = view_of db"
  "insert_worker w db = Inr db' \<Longrightarrow> view_of db' = view_of db"
  "insert_credential c db = Inr db' \<Longrightarrow> view_of db' = view_of db"
  "insert_heartbeat h db = Inr db' \<Longrightarrow> view_of db' = view_of db"
  by (auto simp: insert_event_def insert_request_def insert_worker_def insert_credential_def
      insert_heartbeat_def intro!: view_of_cong split: if_splits)

end
