(* ===== verification/Typed_Ids.thy ===== *)
theory Typed_Ids
  imports Json_Values
begin

text \<open>
  The generators of typed identifiers (\<open>encodeBase32\<close>, \<open>typedId\<close> and the \<open>generate...Id\<close>
  functions), which the repositories repeat: ten base-32 digits of the clock and sixteen of
  eighty random bits behind a prefix. The random bytes are an argument.
\<close>

definition CROCKFORD :: string where
  "CROCKFORD = ''0123456789ABCDEFGHJKMNPQRSTVWXYZ''"

fun encodeBase32_loop :: "nat \<Rightarrow> int \<Rightarrow> string \<Rightarrow> string" where
  "encodeBase32_loop 0 remaining output = output"
| "encodeBase32_loop (Suc n) remaining output =
     encodeBase32_loop n (remaining div 32) (CROCKFORD ! nat (remaining mod 32) # output)"

definition encodeBase32 :: "int \<Rightarrow> nat \<Rightarrow> string" where
  "encodeBase32 v n = encodeBase32_loop n v []"

definition typedId :: "string \<Rightarrow> int \<Rightarrow> int \<Rightarrow> string" where
  "typedId prefix now randomValue =
     prefix @ ''_'' @ encodeBase32 now 10 @ encodeBase32 randomValue 16"

definition generateCollectionRunId :: "int \<Rightarrow> int \<Rightarrow> string" where
  "generateCollectionRunId now rnd = typedId ''run'' now rnd"

definition generateJobId :: "int \<Rightarrow> int \<Rightarrow> string" where
  "generateJobId now rnd = typedId ''job'' now rnd"

definition generateWorkerId :: "int \<Rightarrow> int \<Rightarrow> string" where
  "generateWorkerId now rnd = typedId ''wrk'' now rnd"

definition generateHeartbeatId :: "int \<Rightarrow> int \<Rightarrow> string" where
  "generateHeartbeatId now rnd = typedId ''hbt'' now rnd"

definition generateLeaseId :: "int \<Rightarrow> int \<Rightarrow> string" where
  "generateLeaseId now rnd = typedId ''lse'' now rnd"

definition generateExecutionAttemptId :: "int \<Rightarrow> int \<Rightarrow> string" where
  "generateExecutionAttemptId now rnd = typedId ''exa'' now rnd"

definition generateExecutionEventId :: "int \<Rightarrow> int \<Rightarrow> string" where
  "generateExecutionEventId now rnd = typedId ''eve'' now rnd"

lemma CROCKFORD_alphabet: "list_all is_crockford CROCKFORD \<and> length CROCKFORD = 32 \<and> distinct CROCKFORD"
  by code_simp

lemma crockford_digit: "is_crockford (CROCKFORD ! nat (v mod 32))"
proof -
  have "nat (v mod 32) < 32"
    by (simp add: nat_less_iff)
  then show ?thesis
    using CROCKFORD_alphabet by (simp add: list_all_length)
qed

lemma encodeBase32_loop_shape:
  "length (encodeBase32_loop n v out) = n + length out
   \<and> (list_all is_crockford out \<longrightarrow> list_all is_crockford (encodeBase32_loop n v out))"
  by (induction n arbitrary: v out) (simp_all add: crockford_digit)

lemma encodeBase32_shape:
  "length (encodeBase32 v n) = n" "list_all is_crockford (encodeBase32 v n)"
  using encodeBase32_loop_shape [of n v "[]"] by (simp_all add: encodeBase32_def)

lemma typedId_is_typed_id: "is_typed_id prefix (typedId prefix now rnd)"
  by (simp add: typedId_def is_typed_id_def starts_with_def encodeBase32_shape list_all_append)

text \<open>The digits are the number: equal texts of equal length come from equal residues.\<close>

fun decode_loop :: "nat \<Rightarrow> string \<Rightarrow> nat option" where
  "decode_loop acc [] = Some acc"
| "decode_loop acc (c # cs) =
     (case find (\<lambda>i. CROCKFORD ! i = c) [0..<32] of
        None \<Rightarrow> None | Some i \<Rightarrow> decode_loop (acc * 32 + i) cs)"

lemma find_crockford: "i < 32 \<Longrightarrow> find (\<lambda>k. CROCKFORD ! k = CROCKFORD ! i) [0..<32] = Some i"
proof -
  assume i: "i < 32"
  have inj: "CROCKFORD ! k = CROCKFORD ! i \<longleftrightarrow> k = i" if "k < 32" for k
    using CROCKFORD_alphabet i that by (simp add: nth_eq_iff_index_eq)
  show ?thesis
    unfolding find_Some_iff
  proof (intro exI [of _ i] conjI allI impI)
    fix j assume "j < i"
    with i inj [of j] show "CROCKFORD ! ([0..<32] ! j) \<noteq> CROCKFORD ! i" by simp
  qed (use i in simp_all)
qed

lemma encodeBase32_loop_append:
  "encodeBase32_loop n v (out @ rest) = encodeBase32_loop n v out @ rest"
  by (induction n arbitrary: v out) (simp_all flip: append_Cons)

lemma encodeBase32_Suc:
  "encodeBase32 v (Suc n) = encodeBase32 (v div 32) n @ [CROCKFORD ! nat (v mod 32)]"
  using encodeBase32_loop_append [of n "v div 32" "[]" "[CROCKFORD ! nat (v mod 32)]"]
  by (simp add: encodeBase32_def)

lemma decode_loop_append:
  "decode_loop acc (xs @ ys) = (case decode_loop acc xs of None \<Rightarrow> None | Some a \<Rightarrow> decode_loop a ys)"
  by (induction xs arbitrary: acc) (auto split: option.splits)

lemma decode_encodeBase32:
  "0 \<le> v \<Longrightarrow> v < 32 ^ n \<Longrightarrow> decode_loop 0 (encodeBase32 v n) = Some (nat v)"
proof (induction n arbitrary: v)
  case 0
  then show ?case by (simp add: encodeBase32_def)
next
  case (Suc n)
  have "v div 32 < 32 ^ n"
    using Suc.prems(2) by (simp add: div_less_iff_less_mult mult.commute)
  moreover have "0 \<le> v div 32"
    using Suc.prems(1) by (simp add: pos_imp_zdiv_nonneg_iff)
  ultimately have "decode_loop 0 (encodeBase32 (v div 32) n) = Some (nat (v div 32))"
    by (intro Suc.IH)
  moreover have "nat (v div 32) * 32 + nat (v mod 32) = nat v"
    using Suc.prems(1) by (simp add: nat_div_distrib nat_mod_distrib)
  moreover have "nat (v mod 32) < 32"
    by (simp add: nat_less_iff)
  ultimately show ?case
    by (simp add: encodeBase32_Suc decode_loop_append find_crockford)
qed

end
