(* ===== verification/Execution_Ledger.thy ===== *)
theory Execution_Ledger
  imports Store_View Typed_Ids
begin

text \<open>
  \<open>packages/persistence/src/execution-ledger.ts\<close>: dispatching an active plan into a run with its
  first job, reading the ledger back and cancelling a pending run. Each method of
  \<open>SqliteExecutionLedgerRepository\<close> is a function from the store (and the clock readings and fresh
  identifiers it consumes) to its result and the store after it.
\<close>

section \<open>Inputs\<close>

record dispatch_input =
  di_planId :: string
  di_requestedBy :: "execution_actor option"
  di_idempotencyKey :: "string option"
  di_extensions :: "json_object option"

record run_filters =
  rf_q :: "string option"
  rf_workspaceId :: "string option"
  rf_sourceId :: "string option"
  rf_planId :: "string option"
  rf_connectorId :: "string option"
  rf_status :: "run_status option"
  rf_triggerType :: "trigger_type option"
  rf_jobType :: "job_type option"
  rf_limit :: "rat option"
  rf_offset :: "rat option"

type_synonym run_record = "collection_run \<times> job list"

definition DEFAULT_LIMIT :: int where
  "DEFAULT_LIMIT = 25"

definition MAX_LIMIT :: int where
  "MAX_LIMIT = 100"

definition COLLECTION_JOB_TYPES :: "job_type list" where
  "COLLECTION_JOB_TYPES =
     [WEB_CRAWL, PAGE_UPDATE_CHECK, API_COLLECTION, EMAIL_IMPORT, LOCAL_FILE_SCAN]"

definition normalizeLimit :: "rat option \<Rightarrow> int result" where
  "normalizeLimit v =
     (case v of None \<Rightarrow> Inr DEFAULT_LIMIT
      | Some n \<Rightarrow> if \<not> isInteger n \<or> n \<le> 0 then Inl RegistryValidationError
                  else Inr (min \<lfloor>n\<rfloor> MAX_LIMIT))"

definition normalizeOffset :: "rat option \<Rightarrow> int result" where
  "normalizeOffset v =
     (case v of None \<Rightarrow> Inr 0
      | Some n \<Rightarrow> if \<not> isInteger n \<or> n < 0 then Inl RegistryValidationError else Inr \<lfloor>n\<rfloor>)"

definition canonicalJson_eq :: "json \<Rightarrow> json \<Rightarrow> bool" where
  "canonicalJson_eq v w = (canonical v = canonical w)"

definition extensions_or_null :: "json_object option \<Rightarrow> json" where
  "extensions_or_null e = (case e of None \<Rightarrow> JNull | Some ob \<Rightarrow> JObj ob)"

definition extensionsMatch :: "json_object option \<Rightarrow> json_object option \<Rightarrow> bool" where
  "extensionsMatch l r = canonicalJson_eq (extensions_or_null l) (extensions_or_null r)"

definition normalizeIdempotencyKey :: "string option \<Rightarrow> string option result" where
  "normalizeIdempotencyKey v =
     (case v of None \<Rightarrow> Inr None
      | Some s \<Rightarrow>
          let normalized = trim s
          in if length normalized = 0 \<or> 128 < length normalized then Inl RegistryValidationError
             else Inr (Some normalized))"

definition normalizeActor :: "execution_actor option \<Rightarrow> execution_actor result" where
  "normalizeActor v =
     (let actor = (case v of None \<Rightarrow> \<lparr>actor_type = LOCAL_ADMIN, actor_id = Some ''local-admin''\<rparr>
                   | Some a \<Rightarrow> a)
      in case actor_id actor of
           None \<Rightarrow> Inr actor
         | Some i \<Rightarrow> if length (trim i) = 0 \<or> 200 < length (trim i) then Inl RegistryValidationError
                     else Inr (actor\<lparr>actor_id := Some (trim i)\<rparr>))"

section \<open>Loading and validating\<close>

definition loadPlan :: "control_store \<Rightarrow> string \<Rightarrow> collection_plan result" where
  "loadPlan db planId =
     (case find_by plan_id planId (plan_documents db) of
        None \<Rightarrow> Inl (RegistryError (General COLLECTION_PLAN_NOT_FOUND))
      | Some p \<Rightarrow> parsePlan p)"

definition loadSource :: "control_store \<Rightarrow> string \<Rightarrow> source_definition result" where
  "loadSource db sourceId =
     (case find_by source_id sourceId (sources db) of
        None \<Rightarrow> Inl RegistryNotFoundError
      | Some s \<Rightarrow> parseSource s)"

definition connector_by_ref :: "connector_ref \<Rightarrow> control_store \<Rightarrow> connector_row option" where
  "connector_by_ref ref db =
     find_by (\<lambda>r. (kr_connector_id r, kr_version r)) (ref_connectorId ref, ref_version ref)
       (connectors db)"

definition loadConnector :: "control_store \<Rightarrow> source_definition \<Rightarrow> connector_manifest result" where
  "loadConnector db source =
     (case connector_by_ref (source_connector source) db of
        None \<Rightarrow> Inl (RegistryError (General CONNECTOR_NOT_FOUND))
      | Some r \<Rightarrow> parseConnector (kr_document r))"

fun is_change_watch :: "collection_schedule \<Rightarrow> bool" where
  "is_change_watch (ChangeWatchSchedule _) = True"
| "is_change_watch _ = False"

abbreviation conflict :: "error_code \<Rightarrow> 'a result" where
  "conflict c \<equiv> Inl (RegistryConflictError c)"

definition deriveCollectionJobType ::
    "collection_plan \<Rightarrow> source_definition \<Rightarrow> connector_manifest \<Rightarrow> job_type result" where
  "deriveCollectionJobType plan source connector =
     and_then
       (case source_type source of
          S_WEB \<Rightarrow> Inr (if is_change_watch (plan_schedule plan) then PAGE_UPDATE_CHECK else WEB_CRAWL)
        | S_API \<Rightarrow> Inr API_COLLECTION
        | S_EMAIL \<Rightarrow> Inr EMAIL_IMPORT
        | S_LOCAL_FOLDER \<Rightarrow> Inr LOCAL_FILE_SCAN
        | S_MANUAL_UPLOAD \<Rightarrow> Inr LOCAL_FILE_SCAN
        | _ \<Rightarrow> (case filter (\<lambda>t. t \<in> set COLLECTION_JOB_TYPES) (connector_supportedJobTypes connector) of
                 [t] \<Rightarrow> Inr t
               | _ \<Rightarrow> conflict (Ledger EXECUTION_JOB_TYPE_AMBIGUOUS)))
       (\<lambda>derived.
          if derived \<notin> set (connector_supportedJobTypes connector)
          then conflict (Ledger EXECUTION_JOB_TYPE_UNSUPPORTED)
          else Inr derived)"

definition assertCapability :: "connector_manifest \<Rightarrow> capability \<Rightarrow> unit result" where
  "assertCapability connector c =
     (if c \<notin> set (connector_capabilities connector)
      then conflict (Ledger EXECUTION_CAPABILITY_MISMATCH) else Inr ())"

definition validateDispatch ::
    "collection_plan \<Rightarrow> source_definition \<Rightarrow> connector_manifest \<Rightarrow> job_type result" where
  "validateDispatch plan source connector =
     (if plan_status plan \<noteq> P_ACTIVE then conflict (Ledger EXECUTION_PLAN_NOT_ACTIVE)
      else if source_status source \<noteq> S_ACTIVE then conflict (Ledger EXECUTION_SOURCE_NOT_ACTIVE)
      else if connector_status connector \<noteq> C_ACTIVE
        then conflict (Ledger EXECUTION_CONNECTOR_NOT_ACTIVE)
      else if source_type source \<notin> set (connector_sourceTypes connector)
        then conflict (Ledger EXECUTION_SOURCE_TYPE_MISMATCH)
      else and_then (assertCapability connector COLLECT) (\<lambda>_.
        and_then (if renderJavascript (plan_policy plan)
                  then assertCapability connector RENDER_JAVASCRIPT else Inr ()) (\<lambda>_.
        and_then (if fetchAttachments (plan_policy plan)
                  then assertCapability connector FETCH_ATTACHMENTS else Inr ()) (\<lambda>_.
          if is_change_watch (plan_schedule plan)
             \<and> CHECK_UPDATE \<notin> set (connector_capabilities connector)
             \<and> WATCH \<notin> set (connector_capabilities connector)
          then conflict (Ledger EXECUTION_CHANGE_WATCH_UNSUPPORTED)
          else if filter (\<lambda>k. k \<notin> set (connector_outputArtifactKinds connector))
                    (plan_artifactKinds plan) \<noteq> []
          then conflict (Ledger EXECUTION_OUTPUT_MISMATCH)
          else deriveCollectionJobType plan source connector))))"

section \<open>Reading the ledger\<close>

definition jobsForRun :: "control_store \<Rightarrow> string \<Rightarrow> job list result" where
  "jobsForRun db runId =
     map_result (\<lambda>r. parseJob (jr_document r))
       (sort_key (\<lambda>r. (jr_attempt r, jr_created_at r)) (filter (\<lambda>r. jr_run_id r = runId) (jobs db)))"

definition recordFromRun :: "control_store \<Rightarrow> collection_run \<Rightarrow> run_record result" where
  "recordFromRun db doc =
     and_then (parseRun doc) (\<lambda>run. and_then (jobsForRun db (run_id run)) (\<lambda>js. Inr (run, js)))"

definition getRunById :: "control_store \<Rightarrow> string \<Rightarrow> run_record option result" where
  "getRunById db i =
     (case run_by_id i db of
        None \<Rightarrow> Inr None
      | Some r \<Rightarrow> and_then (recordFromRun db (rr_document r)) (\<lambda>rec. Inr (Some rec)))"

definition run_by_key :: "string \<Rightarrow> string \<Rightarrow> control_store \<Rightarrow> run_row option" where
  "run_by_key workspaceId key db =
     find (\<lambda>r. rr_workspace_id r = workspaceId \<and> rr_idempotency_key r = Some key) (collection_runs db)"

text \<open>SQLite's \<open>LIKE\<close> (ASCII case-insensitive, \<open>%\<close> and \<open>_\<close> wildcards) and \<open>lower\<close>.\<close>

definition lower :: "string \<Rightarrow> string" where
  "lower = map (\<lambda>c. if is_upper c then to_lower_char c else c)"

fun sql_like :: "string \<Rightarrow> string \<Rightarrow> bool" where
  "sql_like [] s = (s = [])"
| "sql_like (p # ps) s =
     (if p = CHR ''%'' then list_ex (\<lambda>n. sql_like ps (drop n s)) [0..<Suc (length s)]
      else s \<noteq> [] \<and> (p = CHR ''_'' \<or> lower [hd s] = lower [p]) \<and> sql_like ps (tl s))"

definition given :: "string option \<Rightarrow> (string \<Rightarrow> bool) \<Rightarrow> bool" where
  "given v P = (case v of None \<Rightarrow> True | Some s \<Rightarrow> s = [] \<or> P s)"

definition like_query :: "string \<Rightarrow> string" where
  "like_query q = ''%'' @ toLowerCase (trim q) @ ''%''"

definition buildWhere :: "run_filters \<Rightarrow> bool \<Rightarrow> control_store \<Rightarrow> run_row \<Rightarrow> bool" where
  "buildWhere f includeStatus db r \<longleftrightarrow>
     given (map_option trim (rf_q f)) (\<lambda>q.
        sql_like (like_query q) (lower (rr_plan_name r))
        \<or> sql_like (like_query q) (lower (rr_source_name r))
        \<or> sql_like (like_query q) (lower (rr_id r)))
     \<and> given (rf_workspaceId f) (\<lambda>w. rr_workspace_id r = w)
     \<and> given (rf_sourceId f) (\<lambda>s. rr_source_id r = s)
     \<and> given (rf_planId f) (\<lambda>p. rr_plan_id r = p)
     \<and> given (rf_connectorId f) (\<lambda>c. rr_connector_id r = c)
     \<and> (includeStatus \<longrightarrow> optionally (\<lambda>s. rr_status r = s) (rf_status f))
     \<and> optionally (\<lambda>t. rr_trigger_type r = t) (rf_triggerType f)
     \<and> optionally (\<lambda>t. list_ex (\<lambda>j. jr_run_id j = rr_id r \<and> jr_job_type j = t) (jobs db))
          (rf_jobType f)"

record run_list =
  rl_items :: "run_record list"
  rl_total :: nat
  rl_limit :: int
  rl_offset :: int
  rl_summary_total :: nat
  rl_statuses :: "(run_status \<times> nat) list"
  rl_triggers :: "(trigger_type \<times> nat) list"

definition all_run_statuses :: "run_status list" where
  "all_run_statuses = [R_PENDING, R_RUNNING, R_COMPLETED, R_FAILED, R_CANCELLED]"

definition all_trigger_types :: "trigger_type list" where
  "all_trigger_types = [T_MANUAL, T_SCHEDULED, T_RETRY, T_API]"

definition count_by :: "('r \<Rightarrow> 'k) \<Rightarrow> 'k list \<Rightarrow> 'r list \<Rightarrow> ('k \<times> nat) list" where
  "count_by key ks rows = map (\<lambda>k. (k, length (filter (\<lambda>r. key r = k) rows))) ks"

definition listRuns :: "run_filters \<Rightarrow> control_store \<Rightarrow> run_list result" where
  "listRuns f db =
     and_then (normalizeLimit (rf_limit f)) (\<lambda>limit.
     and_then (normalizeOffset (rf_offset f)) (\<lambda>offset.
       let matching = filter (buildWhere f True db) (collection_runs db);
           rows = take (nat limit) (drop (nat offset)
                    (rev (sort_key (\<lambda>r. (rr_created_at r, rr_id r)) matching)));
           summarised = filter (buildWhere f False db) (collection_runs db);
           statuses = count_by rr_status all_run_statuses summarised
       in and_then (map_result (\<lambda>r. recordFromRun db (rr_document r)) rows) (\<lambda>items.
            Inr \<lparr> rl_items = items, rl_total = length matching, rl_limit = limit, rl_offset = offset,
                  rl_summary_total = sum_list (map snd statuses), rl_statuses = statuses,
                  rl_triggers = count_by rr_trigger_type all_trigger_types summarised \<rparr>)))"

definition no_run_filters :: run_filters where
  "no_run_filters =
     \<lparr> rf_q = None, rf_workspaceId = None, rf_sourceId = None, rf_planId = None,
       rf_connectorId = None, rf_status = None, rf_triggerType = None, rf_jobType = None,
       rf_limit = None, rf_offset = None \<rparr>"

definition listForPlan :: "string \<Rightarrow> rat option \<Rightarrow> control_store \<Rightarrow> run_record list result" where
  "listForPlan planId limit db =
     and_then (listRuns (no_run_filters\<lparr>rf_planId := Some planId,
         rf_limit := Some (case limit of None \<Rightarrow> 20 | Some n \<Rightarrow> n)\<rparr>) db) (\<lambda>l. Inr (rl_items l))"

definition listForSource :: "string \<Rightarrow> rat option \<Rightarrow> control_store \<Rightarrow> run_record list result" where
  "listForSource sourceId limit db =
     and_then (listRuns (no_run_filters\<lparr>rf_sourceId := Some sourceId,
         rf_limit := Some (case limit of None \<Rightarrow> 20 | Some n \<Rightarrow> n)\<rparr>) db) (\<lambda>l. Inr (rl_items l))"

section \<open>Dispatching\<close>

definition dispatched_run ::
    "collection_plan \<Rightarrow> source_definition \<Rightarrow> connector_manifest \<Rightarrow> execution_actor \<Rightarrow> string option
      \<Rightarrow> json_object option \<Rightarrow> string \<Rightarrow> string \<Rightarrow> collection_run" where
  "dispatched_run plan source connector actor key extensions runId timestamp =
     \<lparr> run_id = runId, run_workspaceId = plan_workspaceId plan, run_sourceId = source_id source,
       run_planId = plan_id plan, run_status = R_PENDING,
       run_trigger = \<lparr> trigger_type = T_MANUAL, trigger_requestedBy = actor,
                       trigger_idempotencyKey = key, trigger_parentRunId = None \<rparr>,
       run_planSnapshot = plan, run_sourceSnapshot = source, run_connectorSnapshot = connector,
       run_requestedAt = timestamp, run_createdAt = timestamp, run_updatedAt = timestamp,
       run_cancelledAt = None, run_cancellationReason = None, run_extensions = extensions \<rparr>"

definition dispatched_job :: "collection_run \<Rightarrow> job_type \<Rightarrow> string \<Rightarrow> string \<Rightarrow> job" where
  "dispatched_job run jobType jobId timestamp =
     (let plan = run_planSnapshot run; connector = run_connectorSnapshot run in
     \<lparr> job_id = jobId, job_runId = run_id run, job_workspaceId = run_workspaceId run,
       job_sourceId = run_sourceId run, job_planId = run_planId run, job_type = jobType,
       job_status = J_PENDING,
       job_connector = \<lparr> ref_connectorId = connector_connectorId connector,
                         ref_version = connector_version connector \<rparr>,
       job_priority = plan_priority plan, job_attempt = 1,
       job_maxAttempts = retry_maxAttempts (plan_policy plan), job_availableAt = timestamp,
       job_planSnapshot = plan, job_sourceSnapshot = run_sourceSnapshot run,
       job_connectorSnapshot = connector, job_createdAt = timestamp, job_updatedAt = timestamp,
       job_cancelledAt = None, job_cancellationReason = None, job_extensions = run_extensions run \<rparr>)"

text \<open>What an earlier run under the same key means: a replay, or a conflict.\<close>

definition replay_dispatch ::
    "control_store \<Rightarrow> collection_plan \<Rightarrow> json_object option \<Rightarrow> run_row \<Rightarrow> (run_record \<times> bool) result" where
  "replay_dispatch db plan extensions existing =
     and_then (recordFromRun db (rr_document existing)) (\<lambda>record.
       let run = fst record in
       if run_planId run \<noteq> plan_id plan \<or> trigger_type (run_trigger run) \<noteq> T_MANUAL
          \<or> \<not> extensionsMatch (run_extensions run) extensions
       then conflict (Ledger EXECUTION_IDEMPOTENCY_CONFLICT)
       else Inr (record, True))"

definition insert_dispatch :: "collection_run \<Rightarrow> job \<Rightarrow> control_store \<Rightarrow> control_store result" where
  "insert_dispatch run job db = and_then (insert_run run db) (insert_job job)"

definition dispatchManual ::
    "int \<Rightarrow> string \<Rightarrow> string \<Rightarrow> dispatch_input \<Rightarrow> control_store
      \<Rightarrow> (run_record \<times> bool) result \<times> control_store" where
  "dispatchManual now runId jobId inp db =
     (let prepared =
        and_then (loadPlan db (trim (di_planId inp))) (\<lambda>plan.
        and_then (loadSource db (plan_sourceId plan)) (\<lambda>source.
        and_then (loadConnector db source) (\<lambda>connector.
        and_then (validateDispatch plan source connector) (\<lambda>jobType.
        and_then (normalizeIdempotencyKey (di_idempotencyKey inp)) (\<lambda>key.
          Inr (plan, source, connector, jobType, key))))))
      in case prepared of
           Inl e \<Rightarrow> (Inl e, db)
         | Inr (plan, source, connector, jobType, key) \<Rightarrow>
             (case (case key of None \<Rightarrow> None
                    | Some k \<Rightarrow> run_by_key (plan_workspaceId plan) k db) of
                Some existing \<Rightarrow> (replay_dispatch db plan (di_extensions inp) existing, db)
              | None \<Rightarrow>
                  (case normalizeActor (di_requestedBy inp) of
                     Inl e \<Rightarrow> (Inl e, db)
                   | Inr actor \<Rightarrow>
                       let timestamp = to_iso now;
                           run = dispatched_run plan source connector actor key
                                   (di_extensions inp) runId timestamp;
                           job = dispatched_job run jobType jobId timestamp
                       in if \<not> isCollectionRun (run_json run) \<or> \<not> isJob (job_json job)
                          then (Inl RegistryValidationError, db)
                          else (case insert_dispatch run job db of
                                  Inr db' \<Rightarrow> (Inr ((run, [job]), False), db')
                                | Inl e \<Rightarrow>
                                    (case (if e = SqliteUniqueConstraint then key else None) of
                                       None \<Rightarrow> (Inl e, db)
                                     | Some k \<Rightarrow>
                                         (case run_by_key (plan_workspaceId plan) k db of
                                            None \<Rightarrow> (Inl e, db)
                                          | Some existing \<Rightarrow>
                                              (replay_dispatch db plan (di_extensions inp) existing, db)))))))"

section \<open>Cancelling\<close>

definition cancelled_run :: "collection_run \<Rightarrow> string \<Rightarrow> string option \<Rightarrow> collection_run" where
  "cancelled_run run timestamp reason =
     run\<lparr> run_status := R_CANCELLED, run_updatedAt := timestamp, run_cancelledAt := Some timestamp,
          run_cancellationReason := (case reason of None \<Rightarrow> run_cancellationReason run | r \<Rightarrow> r) \<rparr>"

definition cancelled_job :: "job \<Rightarrow> string \<Rightarrow> string option \<Rightarrow> job" where
  "cancelled_job job timestamp reason =
     job\<lparr> job_status := J_CANCELLED, job_updatedAt := timestamp, job_cancelledAt := Some timestamp,
          job_cancellationReason := (case reason of None \<Rightarrow> job_cancellationReason job | r \<Rightarrow> r) \<rparr>"

definition update_run_if :: "string \<Rightarrow> collection_run \<Rightarrow> control_store \<Rightarrow> control_store option" where
  "update_run_if expectedUpdatedAt run db =
     (case run_by_id (run_id run) db of
        Some r \<Rightarrow> if rr_updated_at r = expectedUpdatedAt then Some (update_run run db) else None
      | None \<Rightarrow> None)"

definition cancel_job_step :: "job \<Rightarrow> control_store \<Rightarrow> control_store result" where
  "cancel_job_step job db =
     (case update_pending_job job db of
        None \<Rightarrow> conflict (Ledger EXECUTION_JOB_STATE_CONFLICT) | Some db' \<Rightarrow> Inr db')"

definition cancel_body ::
    "int \<Rightarrow> string \<Rightarrow> string \<Rightarrow> string option \<Rightarrow> control_store \<Rightarrow> (run_record \<times> control_store) result" where
  "cancel_body now i expectedUpdatedAt reason_input db =
     and_then (getRunById db i) (\<lambda>found.
       case found of
         None \<Rightarrow> Inl (RegistryError (General EXECUTION_RUN_NOT_FOUND))
       | Some (current, current_jobs) \<Rightarrow>
           let reason = (case map_option trim reason_input of Some [] \<Rightarrow> None | r \<Rightarrow> r);
               timestamp = to_iso now;
               run = cancelled_run current timestamp reason
           in if run_updatedAt current \<noteq> expectedUpdatedAt
              then conflict (Ledger EXECUTION_VERSION_CONFLICT)
              else if run_status current \<noteq> R_PENDING
              then conflict (Ledger EXECUTION_RUN_NOT_CANCELLABLE)
              else if \<not> optionally (\<lambda>r. length r \<le> 500) reason then Inl RegistryValidationError
              else and_then (map_result (\<lambda>job.
                       if job_status job \<noteq> J_PENDING
                       then conflict (Ledger EXECUTION_JOB_NOT_CANCELLABLE)
                       else Inr (cancelled_job job timestamp reason)) current_jobs) (\<lambda>js.
                if \<not> isCollectionRun (run_json run) \<or> \<not> list_all (\<lambda>j. isJob (job_json j)) js
                then Inl RegistryValidationError
                else (case update_run_if expectedUpdatedAt run db of
                        None \<Rightarrow> conflict (Ledger EXECUTION_VERSION_CONFLICT)
                      | Some db1 \<Rightarrow>
                          and_then (fold_result cancel_job_step js db1) (\<lambda>db2. Inr ((run, js), db2)))))"

definition cancel ::
    "int \<Rightarrow> string \<Rightarrow> string \<Rightarrow> string option \<Rightarrow> control_store \<Rightarrow> run_record result \<times> control_store" where
  "cancel now i expectedUpdatedAt reason db =
     in_transaction db (cancel_body now i expectedUpdatedAt reason db)"

definition assertNoPublicWorkerMutation :: "string \<Rightarrow> unit result" where
  "assertNoPublicWorkerMutation status =
     (if status \<noteq> ''PENDING'' \<and> status \<noteq> ''CANCELLED'' then Inl RegistryValidationError else Inr ())"

section \<open>What dispatching does\<close>

lemma validateDispatch_Inr:
  assumes "validateDispatch plan source connector = Inr t"
  shows "plan_status plan = P_ACTIVE" "source_status source = S_ACTIVE"
    "connector_status connector = C_ACTIVE" "source_type source \<in> set (connector_sourceTypes connector)"
    "COLLECT \<in> set (connector_capabilities connector)"
    "renderJavascript (plan_policy plan) \<Longrightarrow> RENDER_JAVASCRIPT \<in> set (connector_capabilities connector)"
    "fetchAttachments (plan_policy plan) \<Longrightarrow> FETCH_ATTACHMENTS \<in> set (connector_capabilities connector)"
    "set (plan_artifactKinds plan) \<subseteq> set (connector_outputArtifactKinds connector)"
    "deriveCollectionJobType plan source connector = Inr t"
  using assms
  by (auto simp: validateDispatch_def assertCapability_def and_then_Inr filter_empty_conv split: if_splits)

lemma deriveCollectionJobType_Inr:
  "deriveCollectionJobType plan source connector = Inr t \<Longrightarrow>
     t \<in> set (connector_supportedJobTypes connector) \<and> t \<in> set COLLECTION_JOB_TYPES"
  by (auto simp: deriveCollectionJobType_def and_then_Inr COLLECTION_JOB_TYPES_def filter_eq_Cons_iff
      split: source_type.splits if_splits list.splits)

lemma insert_dispatch_Inr:
  assumes "insert_dispatch run job db = Inr db'"
  shows "db' = db\<lparr>collection_runs := collection_runs db @ [run_row_of run],
                 jobs := jobs db @ [job_row_of job]\<rparr>"
    "run_id run \<notin> rr_id ` set (collection_runs db)" "job_id job \<notin> jr_id ` set (jobs db)"
    "\<And>k. trigger_idempotencyKey (run_trigger run) = Some k \<Longrightarrow> run_by_key (run_workspaceId run) k db = None"
  using assms
  by (auto simp: insert_dispatch_def and_then_Inr insert_run_def insert_job_def run_by_key_def
      find_None_iff split: if_splits)

lemma dispatchManual_new:
  assumes "dispatchManual now runId jobId inp db = (Inr ((run, js), False), db')"
  obtains plan source connector jobType key actor where
    "loadPlan db (trim (di_planId inp)) = Inr plan" "loadSource db (plan_sourceId plan) = Inr source"
    "loadConnector db source = Inr connector" "validateDispatch plan source connector = Inr jobType"
    "normalizeIdempotencyKey (di_idempotencyKey inp) = Inr key"
    "normalizeActor (di_requestedBy inp) = Inr actor"
    "run = dispatched_run plan source connector actor key (di_extensions inp) runId (to_iso now)"
    "js = [dispatched_job run jobType jobId (to_iso now)]"
    "run_valid run" "list_all job_valid js"
    "insert_dispatch run (dispatched_job run jobType jobId (to_iso now)) db = Inr db'"
  using assms
  by (auto simp: dispatchManual_def Let_def and_then_Inr and_then_Inl doc_simps replay_dispatch_def
      split: sum.splits option.splits if_splits prod.splits intro: that)

lemma dispatchManual_other:
  assumes "dispatchManual now runId jobId inp db = (res, db')" and "\<And>rec. res \<noteq> Inr (rec, False)"
  shows "db' = db"
  using assms
  by (auto simp: dispatchManual_def Let_def split: sum.splits option.splits if_splits prod.splits)

text \<open>Dispatching refines the abstract step.\<close>

lemma insert_dispatch_refines:
  assumes ok: "store_ok db" and ins: "insert_dispatch run job db = Inr db'"
    and job: "job_runId job = run_id run" "job_attempt job = 1" "job_status job = J_PENDING"
    and run: "run_status run = R_PENDING"
  shows "store_ok db'" "spec_step (view_of db) (view_of db')"
proof -
  from ins obtain db1 where db1: "insert_run run db = Inr db1" "insert_job job db1 = Inr db'"
    by (auto simp: insert_dispatch_def and_then_Inr)
  then show "store_ok db'" using ok store_ok_insert by blast
  have "sp_jobs (view_of db1) (job_id job) = None"
    using insert_job_view(2) [OF db1(2)] by simp
  then have "sp_jobs (view_of db) (job_id job) = None"
    using insert_run_view(1) [OF db1(1)] by simp
  moreover have "sp_runs (view_of db) (run_id run) = None"
    using insert_run_view(2) [OF db1(1)] by simp
  ultimately have "spec_step (view_of db) ((view_of db)
      \<lparr>sp_runs := (sp_runs (view_of db))(run_id run \<mapsto> R_PENDING),
       sp_jobs := (sp_jobs (view_of db))(job_id job \<mapsto> (run_id run, 1, J_PENDING))\<rparr>)"
    by (intro spec_step.dispatch)
  then show "spec_step (view_of db) (view_of db')"
    using insert_job_view(1) [OF db1(2)] insert_run_view(1) [OF db1(1)] job run by simp
qed

lemma dispatched_shape [simp]:
  "run_id (dispatched_run p s c a k e i t) = i" "run_status (dispatched_run p s c a k e i t) = R_PENDING"
  "run_planId (dispatched_run p s c a k e i t) = plan_id p"
  "run_workspaceId (dispatched_run p s c a k e i t) = plan_workspaceId p"
  "run_extensions (dispatched_run p s c a k e i t) = e"
  "run_planSnapshot (dispatched_run p s c a k e i t) = p"
  "run_sourceSnapshot (dispatched_run p s c a k e i t) = s"
  "run_connectorSnapshot (dispatched_run p s c a k e i t) = c"
  "trigger_type (run_trigger (dispatched_run p s c a k e i t)) = T_MANUAL"
  "trigger_idempotencyKey (run_trigger (dispatched_run p s c a k e i t)) = k"
  "job_id (dispatched_job r jt j t) = j" "job_runId (dispatched_job r jt j t) = run_id r"
  "job_attempt (dispatched_job r jt j t) = 1" "job_status (dispatched_job r jt j t) = J_PENDING"
  "job_type (dispatched_job r jt j t) = jt"
  "job_maxAttempts (dispatched_job r jt j t) = retry_maxAttempts (plan_policy (run_planSnapshot r))"
  by (simp_all add: dispatched_run_def dispatched_job_def Let_def)

lemma dispatchManual_refines:
  assumes "store_ok db" and "dispatchManual now runId jobId inp db = (res, db')"
  shows "store_ok db' \<and> spec_step\<^sup>*\<^sup>* (view_of db) (view_of db')"
proof (cases "\<exists>rec. res = Inr (rec, False)")
  case True
  then obtain run js where "res = Inr ((run, js), False)" by fast
  with assms(2) obtain plan source connector key actor jobType where
    run: "run = dispatched_run plan source connector actor key (di_extensions inp) runId (to_iso now)"
    and ins: "insert_dispatch run (dispatched_job run jobType jobId (to_iso now)) db = Inr db'"
    by (auto elim: dispatchManual_new)
  from insert_dispatch_refines [OF assms(1) ins] run show ?thesis by auto
next
  case False
  with dispatchManual_other [OF assms(2)] assms(1) show ?thesis by auto
qed

text \<open>Replaying a dispatch.\<close>

lemma extensionsMatch_refl [simp]: "extensionsMatch e e"
  by (simp add: extensionsMatch_def canonicalJson_eq_def)

lemma find_snoc: "find P (xs @ [x]) = (case find P xs of Some y \<Rightarrow> Some y | None \<Rightarrow> if P x then Some x else None)"
  by (induction xs) auto

lemma run_by_key_snoc:
  "run_by_key w k (db\<lparr>collection_runs := collection_runs db @ [r], jobs := js\<rparr>) =
     (case run_by_key w k db of Some x \<Rightarrow> Some x
      | None \<Rightarrow> if rr_workspace_id r = w \<and> rr_idempotency_key r = Some k then Some r else None)"
  by (simp add: run_by_key_def find_snoc split: option.splits)

lemma sort_key_single: "filter P xs = [x] \<Longrightarrow> sort_key f (filter P xs) = [x]"
  by simp

lemma jobs_of_new_run:
  assumes "\<And>x. x \<in> set (jobs db) \<Longrightarrow> jr_run_id x \<in> rr_id ` set (collection_runs db)"
    and "run_id run \<notin> rr_id ` set (collection_runs db)" and "job_runId job = run_id run" and "job_valid job"
  shows "jobsForRun (db\<lparr>collection_runs := rs, jobs := jobs db @ [job_row_of job]\<rparr>) (run_id run) = Inr [job]"
proof -
  have "filter (\<lambda>r. jr_run_id r = run_id run) (jobs db) = []"
    using assms(1,2) by (metis (mono_tags, lifting) filter_False)
  then show ?thesis
    using assms(3,4) by (simp add: jobsForRun_def job_row_of_def parseJob_def doc_simps)
qed

lemma job_runs_known:
  assumes "store_ok db" "coordinated (view_of db)" "x \<in> set (jobs db)"
  shows "jr_run_id x \<in> rr_id ` set (collection_runs db)"
proof -
  have "job_by_id (jr_id x) db = Some x"
    using assms(1,3) coherentD(2) unfolding store_ok_def job_by_id_def by metis
  then have "sp_jobs (view_of db) (jr_id x) = Some (jr_run_id x, jr_attempt x, jr_status x)" by simp
  then have "sp_runs (view_of db) (jr_run_id x) \<noteq> None"
    using assms(2) run_partD(1) unfolding coordinated_def by blast
  then show ?thesis
    by (auto simp: run_by_id_def find_by_None dest: find_by_SomeD)
qed

lemma dispatch_then_replay:
  assumes ok: "store_ok db" "coordinated (view_of db)"
    and d: "dispatchManual now runId jobId inp db = (Inr (record, False), db')"
    and key: "di_idempotencyKey inp \<noteq> None"
  shows "dispatchManual now' runId' jobId' inp db' = (Inr (record, True), db')"
proof -
  obtain run js where rec: "record = (run, js)" by fastforce
  from d [unfolded rec] obtain plan source connector jobType k actor where
    p: "loadPlan db (trim (di_planId inp)) = Inr plan" "loadSource db (plan_sourceId plan) = Inr source"
      "loadConnector db source = Inr connector" "validateDispatch plan source connector = Inr jobType"
    and k: "normalizeIdempotencyKey (di_idempotencyKey inp) = Inr (Some k)"
    and run: "run = dispatched_run plan source connector actor (Some k) (di_extensions inp) runId (to_iso now)"
    and js: "js = [dispatched_job run jobType jobId (to_iso now)]"
    and valid: "run_valid run" "list_all job_valid js"
    and ins: "insert_dispatch run (dispatched_job run jobType jobId (to_iso now)) db = Inr db'"
    using key by (elim dispatchManual_new)
      (auto simp: normalizeIdempotencyKey_def Let_def split: if_splits)
  note shape = insert_dispatch_Inr [OF ins]
  have "loadPlan db' (trim (di_planId inp)) = Inr plan" "loadSource db' (plan_sourceId plan) = Inr source"
    "loadConnector db' source = Inr connector"
    using p by (simp_all add: shape(1) loadPlan_def loadSource_def loadConnector_def connector_by_ref_def)
  moreover have "run_by_key (plan_workspaceId plan) k db' = Some (run_row_of run)"
    using shape(4) [of k]
    by (simp add: shape(1) run_by_key_snoc run run_row_of_def)
  moreover have "jobsForRun db' (run_id run) = Inr js"
    unfolding shape(1) js
    using valid(2) js shape(2) by (intro jobs_of_new_run job_runs_known [OF ok]) auto
  then have "recordFromRun db' run = Inr (run, js)"
    using valid(1) by (simp add: recordFromRun_def parseRun_def doc_simps)
  then have "replay_dispatch db' plan (di_extensions inp) (run_row_of run) = Inr (record, True)"
    by (simp add: replay_dispatch_def run_row_of_def rec run Let_def)
  ultimately show ?thesis
    using p k by (simp add: dispatchManual_def)
qed

text \<open>The guarded update of a pending job.\<close>

lemma update_pending_job_Some:
  "update_pending_job j db = Some db' \<longleftrightarrow>
     (\<exists>r. job_by_id (job_id j) db = Some r \<and> jr_status r = J_PENDING \<and> db' = update_job j db)"
  by (auto simp: update_pending_job_def job_by_id_def split: option.splits if_splits)

lemma cancel_job_step_Inr:
  "cancel_job_step j db = Inr db' \<longleftrightarrow>
     (\<exists>r. job_by_id (job_id j) db = Some r \<and> jr_status r = J_PENDING \<and> db' = update_job j db)"
  by (auto simp: cancel_job_step_def update_pending_job_Some [symmetric] split: option.splits)

text \<open>The loop over the jobs writes each of them once.\<close>

lemma cancel_loop_frame:
  assumes "fold_result cancel_job_step js db = Inr db'"
  shows "collection_runs db' = collection_runs db \<and> leases db' = leases db \<and> attempts db' = attempts db
    \<and> workers db' = workers db \<and> events db' = events db"
  by (rule fold_result_invariant [OF assms]) (auto simp: cancel_job_step_Inr)

lemma cancel_loop_lookup:
  assumes "fold_result cancel_job_step js db = Inr db'" and "distinct (map job_id js)"
  shows "job_by_id i db' = (case find_by job_id i js of
           None \<Rightarrow> job_by_id i db | Some j \<Rightarrow> map_option (write_job j) (job_by_id i db))"
  using assms
proof (induction js arbitrary: db)
  case (Cons j js)
  then have rest: "fold_result cancel_job_step js (update_job j db) = Inr db'" "distinct (map job_id js)"
    and new: "job_id j \<notin> job_id ` set js"
    by (auto simp: and_then_Inr cancel_job_step_Inr)
  from new have "find_by job_id (job_id j) js = None"
    by (simp add: find_by_None)
  with Cons.IH [OF rest] show ?case
    by (auto split: option.splits)
qed simp

lemma cancel_loop_pending:
  assumes "fold_result cancel_job_step js db = Inr db'" and "distinct (map job_id js)" and "j \<in> set js"
  shows "\<exists>r. job_by_id (job_id j) db = Some r \<and> jr_status r = J_PENDING"
  using assms
proof (induction js arbitrary: db)
  case (Cons k js)
  then have rest: "fold_result cancel_job_step js (update_job k db) = Inr db'" "distinct (map job_id js)"
    by (auto simp: and_then_Inr cancel_job_step_Inr)
  show ?case
  proof (cases "j = k")
    case True
    then show ?thesis using Cons.prems by (auto simp: and_then_Inr cancel_job_step_Inr)
  next
    case False
    with Cons.prems have "j \<in> set js" "job_id j \<noteq> job_id k" by (auto simp: image_iff)
    with Cons.IH [OF rest] show ?thesis by simp
  qed
qed simp

lemma cancel_loop_store_ok:
  assumes "fold_result cancel_job_step js db = Inr db'" and "distinct (map job_id js)" and "store_ok db"
    and "\<And>j r. j \<in> set js \<Longrightarrow> job_by_id (job_id j) db = Some r \<Longrightarrow> write_job j r = job_row_of j"
  shows "store_ok db'"
  using assms
proof (induction js arbitrary: db)
  case (Cons j js)
  then have rest: "fold_result cancel_job_step js (update_job j db) = Inr db'" "distinct (map job_id js)"
    by (auto simp: and_then_Inr cancel_job_step_Inr)
  have "store_ok (update_job j db)"
    using Cons.prems by (intro store_ok_update_job) auto
  with Cons show ?case
    by (intro Cons.IH [OF rest]) (auto simp: image_iff)
qed simp

text \<open>The jobs of a run, read back from a coherent store.\<close>

lemma jobsForRun_Inr:
  assumes "store_ok db" and "jobsForRun db i = Inr js"
  shows "js = map jr_document (sort_key (\<lambda>r. (jr_attempt r, jr_created_at r))
            (filter (\<lambda>r. jr_run_id r = i) (jobs db)))"
    "distinct (map job_id js)"
    "\<And>j. j \<in> set js \<longleftrightarrow> (\<exists>r. r \<in> set (jobs db) \<and> jr_run_id r = i \<and> j = jr_document r)"
    "\<And>k. find_by job_id k js = (case job_by_id k db of None \<Rightarrow> None
       | Some r \<Rightarrow> if jr_run_id r = i then Some (jr_document r) else None)"
proof -
  let ?rows = "sort_key (\<lambda>r. (jr_attempt r, jr_created_at r)) (filter (\<lambda>r. jr_run_id r = i) (jobs db))"
  show js: "js = map jr_document ?rows"
    using assms(2) unfolding jobsForRun_def by (rule map_result_same [rotated]) simp
  have key: "job_id (jr_document r) = jr_id r" if "r \<in> set (jobs db)" for r
    using job_columns(1) [OF assms(1)] coherentD(2) assms(1) that
    unfolding store_ok_def job_by_id_def by metis
  have dist: "distinct (map jr_id (jobs db))"
    using assms(1) by (simp add: store_ok_def coherent_def)
  have "map job_id js = map jr_id ?rows"
    using key by (simp add: js)
  also have "distinct \<dots>"
    using dist by (simp add: distinct_map inj_on_def)
  finally show dj: "distinct (map job_id js)" .
  show mem: "\<And>j. j \<in> set js \<longleftrightarrow> (\<exists>r. r \<in> set (jobs db) \<and> jr_run_id r = i \<and> j = jr_document r)"
    by (auto simp: js)
  fix k
  show "find_by job_id k js = (case job_by_id k db of None \<Rightarrow> None
       | Some r \<Rightarrow> if jr_run_id r = i then Some (jr_document r) else None)"
  proof (cases "job_by_id k db")
    case None
    then have "k \<notin> job_id ` set js"
      using key mem by (auto simp: job_by_id_def find_by_None image_iff) blast
    with None show ?thesis by (simp add: find_by_None)
  next
    case (Some r)
    then have r: "r \<in> set (jobs db)" "jr_id r = k"
      by (auto simp: job_by_id_def dest: find_by_SomeD)
    show ?thesis
    proof (cases "jr_run_id r = i")
      case True
      with r key have "jr_document r \<in> set js" "job_id (jr_document r) = k"
        by (auto simp: mem)
      with True Some dj show ?thesis by (simp add: find_by_iff)
    next
      case False
      have "k \<notin> job_id ` set js"
      proof
        assume "k \<in> job_id ` set js"
        then obtain r' where "r' \<in> set (jobs db)" "jr_run_id r' = i" "jr_id r' = k"
          using key mem by auto
        with r dist False show False by (metis distinct_key_eq)
      qed
      with False Some show ?thesis by (simp add: find_by_None)
    qed
  qed
qed


lemma getRunById_Inr:
  assumes "getRunById db i = Inr (Some (run, js))"
  shows "\<exists>r. run_by_id i db = Some r \<and> rr_document r = run" "run_valid run"
    "jobsForRun db (run_id run) = Inr js"
  using assms by (auto simp: getRunById_def recordFromRun_def and_then_Inr split: option.splits)

lemma cancel_Inr:
  assumes "cancel now i expected reason db = (Inr (run, js), db')"
  obtains current current_jobs why db1 where
    "getRunById db i = Inr (Some (current, current_jobs))" "run = cancelled_run current (to_iso now) why"
    "js = map (\<lambda>j. cancelled_job j (to_iso now) why) current_jobs"
    "run_updatedAt current = expected" "run_status current = R_PENDING"
    "list_all (\<lambda>j. job_status j = J_PENDING) current_jobs" "list_all job_valid js" "run_valid run"
    "db1 = update_run run db" "fold_result cancel_job_step js db1 = Inr db'"
proof -
  from assms have "cancel_body now i expected reason db = Inr ((run, js), db')"
    by (simp add: cancel_def in_transaction_commit)
  then obtain current current_jobs why db1 where
    c: "getRunById db i = Inr (Some (current, current_jobs))" "run = cancelled_run current (to_iso now) why"
      "run_updatedAt current = expected" "run_status current = R_PENDING"
      "list_all job_valid js" "run_valid run" "update_run_if expected run db = Some db1"
      "fold_result cancel_job_step js db1 = Inr db'"
    and m: "map_result (\<lambda>job. if job_status job \<noteq> J_PENDING
              then conflict (Ledger EXECUTION_JOB_NOT_CANCELLABLE)
              else Inr (cancelled_job job (to_iso now) why)) current_jobs = Inr js"
    unfolding cancel_body_def Let_def
    by (auto simp: and_then_Inr doc_simps split: option.splits)
  have "js = map (\<lambda>j. cancelled_job j (to_iso now) why) current_jobs"
    by (rule map_result_same [OF _ m]) (auto split: if_splits)
  moreover have "list_all (\<lambda>j. job_status j = J_PENDING) current_jobs"
    using m by (auto simp: list_all_length map_result_Inr)
  moreover have "db1 = update_run run db"
    using c(7) by (auto simp: update_run_if_def split: option.splits if_splits)
  ultimately show ?thesis using c that by blast
qed

lemma cancelled_shape [simp]:
  "run_id (cancelled_run c t w) = run_id c" "run_status (cancelled_run c t w) = R_CANCELLED"
  "job_id (cancelled_job j t w) = job_id j" "job_status (cancelled_job j t w) = J_CANCELLED"
  "job_runId (cancelled_job j t w) = job_runId j" "job_attempt (cancelled_job j t w) = job_attempt j"
  by (simp_all add: cancelled_run_def cancelled_job_def)

lemma write_cancelled:
  "run_row_of c = r \<Longrightarrow> write_run (cancelled_run c t w) r = run_row_of (cancelled_run c t w)"
  "job_row_of j = q \<Longrightarrow> write_job (cancelled_job j t w) q = job_row_of (cancelled_job j t w)"
  by (auto simp: write_run_def run_row_of_def cancelled_run_def write_job_def job_row_of_def
      cancelled_job_def)

lemma find_by_map_same:
  "(\<And>x. key (f x) = key x) \<Longrightarrow> find_by key k (map f xs) = map_option f (find_by key k xs)"
  by (induction xs) auto

lemma cancel_refines:
  assumes ok: "store_ok db" and c: "cancel now i expected reason db = (Inr (run, js), db')"
  shows "store_ok db'" "spec_step (view_of db) (view_of db')"
    "view_of db' = (view_of db)\<lparr>sp_runs := (sp_runs (view_of db))(i \<mapsto> R_CANCELLED),
       sp_jobs := cancel_jobs i (sp_jobs (view_of db))\<rparr>"
    "\<And>k n t. sp_jobs (view_of db) k = Some (i, n, t) \<Longrightarrow> t = J_PENDING"
    "sp_runs (view_of db) i = Some R_PENDING"
proof -
  from c obtain current current_jobs why db1 where
    g: "getRunById db i = Inr (Some (current, current_jobs))"
    and run: "run = cancelled_run current (to_iso now) why"
    and js: "js = map (\<lambda>j. cancelled_job j (to_iso now) why) current_jobs"
    and st: "run_status current = R_PENDING" "list_all (\<lambda>j. job_status j = J_PENDING) current_jobs"
    and db1: "db1 = update_run run db" and loop: "fold_result cancel_job_step js db1 = Inr db'"
    by (rule cancel_Inr)
  from getRunById_Inr [OF g] obtain r where r: "run_by_id i db = Some r" "rr_document r = current"
    and jr: "jobsForRun db (run_id current) = Inr current_jobs" by blast
  note rc = run_columns [OF ok r(1), unfolded r(2)]
  note jf = jobsForRun_Inr [OF ok jr, unfolded rc(1)]
  have ok1: "store_ok db1"
    using write_cancelled(1) [OF rc(5)] r(1) rc(1)
    by (auto simp: db1 run intro: store_ok_update_run [OF ok])
  have dist: "distinct (map job_id js)"
    using jf(2) by (simp add: js comp_def)
  have rows: "\<exists>q. job_by_id (job_id j) db = Some q \<and> job_row_of j = q" if "j \<in> set current_jobs" for j
    using jf(3) that job_columns(7) [OF ok] job_columns(1) [OF ok] ok coherentD(2)
    unfolding store_ok_def job_by_id_def by metis
  have "write_job j q = job_row_of j" if "j \<in> set js" "job_by_id (job_id j) db1 = Some q" for j q
    using that rows by (auto simp: js db1 intro!: write_cancelled)
  with loop dist ok1 show "store_ok db'" by (rule cancel_loop_store_ok)
  have look: "job_by_id k db' = map_option (\<lambda>q. if jr_run_id q = i
      then write_job (cancelled_job (jr_document q) (to_iso now) why) q else q) (job_by_id k db)" for k
    unfolding cancel_loop_lookup [OF loop dist]
    by (auto simp: js find_by_map_same jf(4) db1 split: option.splits)
  have "sp_jobs (view_of db') = cancel_jobs i (sp_jobs (view_of db))"
    by (rule ext) (auto simp: look cancel_jobs_def write_job_def split: option.splits)
  moreover have "sp_runs (view_of db') = (sp_runs (view_of db))(i \<mapsto> R_CANCELLED)"
    using cancel_loop_frame [OF loop] r rc(1)
    by (auto simp: run_by_id_def db1 run update_run_def write_run.find_update write_run_def)
  moreover have "sp_leases (view_of db') = sp_leases (view_of db)"
    "sp_attempts (view_of db') = sp_attempts (view_of db)"
    using cancel_loop_frame [OF loop] by (auto simp: lease_by_id_def db1)
  ultimately show v: "view_of db' = (view_of db)\<lparr>sp_runs := (sp_runs (view_of db))(i \<mapsto> R_CANCELLED),
      sp_jobs := cancel_jobs i (sp_jobs (view_of db))\<rparr>"
    by (simp add: view_of_def)
  show pending: "t = J_PENDING" if "sp_jobs (view_of db) k = Some (i, n, t)" for k n t
  proof -
    from that obtain q where q: "job_by_id k db = Some q" "jr_run_id q = i" "jr_status q = t" by auto
    then have "jr_document q \<in> set current_jobs"
      using jf(3) by (auto simp: job_by_id_def dest!: find_by_SomeD)
    then show ?thesis
      using q job_columns(3) [OF ok q(1)] st(2) by (auto simp: list_all_iff)
  qed
  show run_pending: "sp_runs (view_of db) i = Some R_PENDING"
    using r st(1) rc(3) by simp
  show "spec_step (view_of db) (view_of db')"
    unfolding v using run_pending pending by (intro spec_step.cancel) auto
qed

lemma map_result_all_errors:
  assumes "\<And>x. x \<in> set xs \<Longrightarrow> P x \<Longrightarrow> f x = Inl e" "\<And>x. x \<in> set xs \<Longrightarrow> \<not> P x \<Longrightarrow> \<exists>y. f x = Inr y"
    and "list_ex P xs"
  shows "map_result f xs = Inl e"
  using assms
proof (induction xs)
  case (Cons x xs)
  show ?case
  proof (cases "P x")
    case False
    with Cons.prems obtain y where "f x = Inr y" by auto
    with False Cons show ?thesis by simp
  qed (use Cons.prems in simp)
qed simp

lemma cancel_other_job:
  assumes "getRunById db i = Inr (Some (run, js))" "run_updatedAt run = expected"
    and "run_status run = R_PENDING" "list_ex (\<lambda>j. job_status j \<noteq> J_PENDING) js"
  shows "cancel now i expected None db
           = (Inl (RegistryConflictError (Ledger EXECUTION_JOB_NOT_CANCELLABLE)), db)"
proof -
  have "map_result (\<lambda>job. if job_status job \<noteq> J_PENDING
      then conflict (Ledger EXECUTION_JOB_NOT_CANCELLABLE)
      else Inr (cancelled_job job (to_iso now) None)) js
    = conflict (Ledger EXECUTION_JOB_NOT_CANCELLABLE)"
    by (rule map_result_all_errors [where P = "\<lambda>j. job_status j \<noteq> J_PENDING"]) (use assms(4) in simp_all)
  with assms(1-3) show ?thesis
    by (simp add: cancel_def cancel_body_def optionally_def)
qed

lemma cancel_error: "cancel now i expected reason db = (Inl e, db') \<Longrightarrow> db' = db"
  by (simp add: cancel_def in_transaction_error_rolls_back)

end
