(* ===== verification/Worker_Registry.thy ===== *)
theory Worker_Registry
  imports Execution_Ledger "HOL-Library.Word"
begin

text \<open>
  \<open>packages/persistence/src/worker-registry.ts\<close>: registering workers, their credentials and
  heartbeats, and the leases under which they hold jobs. As in the ledger, a method is a function
  from the store, its clock readings and the fresh identifiers and tokens it draws to its result
  and the store after it. SHA-256, the URL parser, the legacy formats of the \<open>Date\<close> constructor and
  the engine's text of a number that is not a small integer are the fields of \<open>platform\<close>.
\<close>

section \<open>Options and inputs\<close>

type_synonym byte = "8 word"

record platform =
  sha256 :: "string \<Rightarrow> byte list"
  parse_url :: "string \<Rightarrow> (string \<times> string) option"
  parse_date :: "string \<Rightarrow> js_date"
  number_text :: "rat \<Rightarrow> string"

definition DEFAULT_HEARTBEAT_FRESHNESS_MS :: int where
  "DEFAULT_HEARTBEAT_FRESHNESS_MS = 90000"

definition DEFAULT_HEARTBEAT_CLOCK_SKEW_MS :: int where
  "DEFAULT_HEARTBEAT_CLOCK_SKEW_MS = 300000"

definition DEFAULT_LEASE_DURATION_MS :: int where
  "DEFAULT_LEASE_DURATION_MS = 120000"

definition DEFAULT_MAX_LEASE_LIFETIME_MS :: int where
  "DEFAULT_MAX_LEASE_LIFETIME_MS = 900000"

definition DEFAULT_MAX_CONCURRENT_WEB_LEASES_PER_DOMAIN :: int where
  "DEFAULT_MAX_CONCURRENT_WEB_LEASES_PER_DOMAIN = 1"

definition HEARTBEAT_HISTORY_LIMIT :: nat where
  "HEARTBEAT_HISTORY_LIMIT = 100"

definition DEFAULT_WORKSPACE_id :: string where
  "DEFAULT_WORKSPACE_id = ''wsp_01ARZ3NDEKTSV4RRFFQ69G5FAV''"

record protocol_options =
  po_heartbeatFreshnessMs :: "rat option"
  po_heartbeatClockSkewMs :: "rat option"
  po_leaseDurationMs :: "rat option"
  po_maxLeaseLifetimeMs :: "rat option"
  po_maxConcurrentWebLeasesPerDomain :: "rat option"

text \<open>The private fields of the repository, once its constructor has resolved the options.\<close>

record registry_config =
  heartbeatFreshnessMs :: int
  heartbeatClockSkewMs :: int
  leaseDurationMs :: int
  maxLeaseLifetimeMs :: int
  maxConcurrentWebLeasesPerDomain :: int

definition resolve_number :: "rat option \<Rightarrow> int \<Rightarrow> rat" where
  "resolve_number v fallback = (case v of None \<Rightarrow> of_int fallback | Some n \<Rightarrow> n)"

definition boundedDuration :: "rat option \<Rightarrow> int \<Rightarrow> int result" where
  "boundedDuration v fallback =
     (let resolved = resolve_number v fallback
      in if \<not> isInteger resolved \<or> resolved < 1000 \<or> resolved > 86400000
         then Inl RegistryValidationError else Inr \<lfloor>resolved\<rfloor>)"

definition boundedConcurrency :: "rat option \<Rightarrow> int result" where
  "boundedConcurrency v =
     (let resolved = resolve_number v DEFAULT_MAX_CONCURRENT_WEB_LEASES_PER_DOMAIN
      in if \<not> isInteger resolved \<or> resolved < 1 \<or> resolved > 32
         then Inl RegistryValidationError else Inr \<lfloor>resolved\<rfloor>)"

definition construct_registry :: "protocol_options \<Rightarrow> registry_config result" where
  "construct_registry opts =
     and_then (boundedDuration (po_heartbeatFreshnessMs opts) DEFAULT_HEARTBEAT_FRESHNESS_MS) (\<lambda>fresh.
     and_then (boundedDuration (po_heartbeatClockSkewMs opts) DEFAULT_HEARTBEAT_CLOCK_SKEW_MS) (\<lambda>skew.
     and_then (boundedDuration (po_leaseDurationMs opts) DEFAULT_LEASE_DURATION_MS) (\<lambda>duration.
     and_then (boundedDuration (po_maxLeaseLifetimeMs opts) DEFAULT_MAX_LEASE_LIFETIME_MS) (\<lambda>life.
     and_then (boundedConcurrency (po_maxConcurrentWebLeasesPerDomain opts)) (\<lambda>conc.
       if life < duration then Inl RegistryValidationError
       else Inr \<lparr> heartbeatFreshnessMs = fresh, heartbeatClockSkewMs = skew,
                  leaseDurationMs = duration, maxLeaseLifetimeMs = life,
                  maxConcurrentWebLeasesPerDomain = conc \<rparr>)))))"

record create_worker_input =
  cw_workspaceId :: "string option"
  cw_displayName :: string
  cw_desiredState :: "desired_state option"
  cw_runtimeId :: string
  cw_runtimeVersion :: string
  cw_supportedJobTypes :: "job_type list"
  cw_connectorBindings :: "connector_binding list"
  cw_maxConcurrency :: rat
  cw_labels :: "string list option"
  cw_extensions :: "json_object option"

text \<open>In an update, an absent field is \<open>None\<close>; \<open>extensions: null\<close> is \<open>Some None\<close>.\<close>

record update_worker_input =
  uw_displayName :: "string option"
  uw_desiredState :: "desired_state option"
  uw_runtime :: "(string \<times> string) option"
  uw_supportedJobTypes :: "job_type list option"
  uw_connectorBindings :: "connector_binding list option"
  uw_maxConcurrency :: "rat option"
  uw_labels :: "string list option"
  uw_extensions :: "json_object option option"

record heartbeat_input =
  hi_workerId :: string
  hi_observedAt :: string
  hi_runtimeVersion :: string
  hi_health :: health_state
  hi_activeLeaseIds :: "string list option"
  hi_diagnostics :: "json_object option"

type_synonym claim_result = "(job \<times> job_lease \<times> string) option"

section \<open>Secrets\<close>

definition hex_digit :: "nat \<Rightarrow> char" where
  "hex_digit n = ''0123456789abcdef'' ! n"

fun toHex :: "byte list \<Rightarrow> string" where
  "toHex [] = []"
| "toHex (b # bs) = hex_digit (unat b div 16) # hex_digit (unat b mod 16) # toHex bs"

definition hex_value :: "char \<Rightarrow> nat option" where
  "hex_value c = find (\<lambda>n. hex_digit n = to_lower_char c) [0..<16]"

text \<open>\<open>Buffer.from(text, "hex")\<close> stops at the first pair that is not two hex digits.\<close>

fun fromHex :: "string \<Rightarrow> byte list" where
  "fromHex (c # d # cs) =
     (case (hex_value c, hex_value d) of
        (Some a, Some b) \<Rightarrow> word_of_nat (16 * a + b) # fromHex cs
      | _ \<Rightarrow> [])"
| "fromHex _ = []"

definition digestHex :: "platform \<Rightarrow> string \<Rightarrow> string" where
  "digestHex env v = toHex (sha256 env v)"

definition verifyDigest :: "platform \<Rightarrow> string \<Rightarrow> string \<Rightarrow> bool" where
  "verifyDigest env v expectedHex =
     (let actual = sha256 env v; expected = fromHex expectedHex
      in length expected = length actual \<and> actual = expected)"

section \<open>Workers\<close>

definition normalize_bindings :: "connector_binding list \<Rightarrow> connector_binding list" where
  "normalize_bindings bs =
     map (\<lambda>b. \<lparr> binding_connectorId = toLowerCase (trim (binding_connectorId b)),
                binding_version = trim (binding_version b),
                binding_capabilities = unique_list (binding_capabilities b) \<rparr>) bs"

definition normalize_labels :: "string list \<Rightarrow> string list" where
  "normalize_labels ls = unique_list (filter (\<lambda>l. l \<noteq> []) (map trim ls))"

definition normalizeWorkerInput ::
    "create_worker_input \<Rightarrow> string \<Rightarrow> string \<Rightarrow> worker_definition result" where
  "normalizeWorkerInput inp i timestamp =
     (let worker =
        \<lparr> worker_id = i,
          worker_workspaceId = (case cw_workspaceId inp of None \<Rightarrow> DEFAULT_WORKSPACE_id | Some w \<Rightarrow> w),
          worker_displayName = trim (cw_displayName inp),
          worker_desiredState = (case cw_desiredState inp of None \<Rightarrow> W_ACTIVE | Some d \<Rightarrow> d),
          worker_runtimeId = toLowerCase (trim (cw_runtimeId inp)),
          worker_runtimeVersion = trim (cw_runtimeVersion inp),
          worker_supportedJobTypes = unique_list (cw_supportedJobTypes inp),
          worker_connectorBindings = normalize_bindings (cw_connectorBindings inp),
          worker_maxConcurrency = \<lfloor>cw_maxConcurrency inp\<rfloor>,
          worker_labels = normalize_labels (case cw_labels inp of None \<Rightarrow> [] | Some ls \<Rightarrow> ls),
          worker_createdAt = timestamp, worker_updatedAt = timestamp,
          worker_extensions = cw_extensions inp \<rparr>
      in if isInteger (cw_maxConcurrency inp) \<and> isWorkerDefinition (worker_json worker)
         then Inr worker else Inl RegistryValidationError)"

definition given_or :: "'a option \<Rightarrow> ('a \<Rightarrow> 'b) \<Rightarrow> 'b \<Rightarrow> 'b" where
  "given_or v f d = (case v of None \<Rightarrow> d | Some x \<Rightarrow> f x)"

definition applyWorkerUpdate ::
    "worker_definition \<Rightarrow> update_worker_input \<Rightarrow> string \<Rightarrow> worker_definition result" where
  "applyWorkerUpdate current inp timestamp =
     (let next =
        current\<lparr>
          worker_displayName := given_or (uw_displayName inp) trim (worker_displayName current),
          worker_desiredState := given_or (uw_desiredState inp) id (worker_desiredState current),
          worker_runtimeId :=
            given_or (uw_runtime inp) (\<lambda>(i, v). toLowerCase (trim i)) (worker_runtimeId current),
          worker_runtimeVersion :=
            given_or (uw_runtime inp) (\<lambda>(i, v). trim v) (worker_runtimeVersion current),
          worker_supportedJobTypes :=
            given_or (uw_supportedJobTypes inp) unique_list (worker_supportedJobTypes current),
          worker_connectorBindings :=
            given_or (uw_connectorBindings inp) normalize_bindings (worker_connectorBindings current),
          worker_maxConcurrency := given_or (uw_maxConcurrency inp) floor (worker_maxConcurrency current),
          worker_labels := given_or (uw_labels inp) normalize_labels (worker_labels current),
          worker_extensions := given_or (uw_extensions inp) id (worker_extensions current),
          worker_updatedAt := timestamp \<rparr>
      in if given_or (uw_maxConcurrency inp) isInteger True \<and> isWorkerDefinition (worker_json next)
         then Inr next else Inl RegistryValidationError)"

text \<open>The bindings of a worker against the registered connectors, in the order of the bindings.\<close>

fun validate_bindings :: "control_store \<Rightarrow> connector_binding list \<Rightarrow> job_type list result" where
  "validate_bindings db [] = Inr []"
| "validate_bindings db (b # bs) =
     (case connector_by_ref \<lparr> ref_connectorId = binding_connectorId b, ref_version = binding_version b \<rparr> db of
        None \<Rightarrow> conflict (Worker WORKER_CONNECTOR_NOT_FOUND)
      | Some row \<Rightarrow>
          if kr_status row = C_DISABLED then conflict (Worker WORKER_CONNECTOR_DISABLED)
          else if filter (\<lambda>c. c \<notin> set (kr_capabilities row)) (binding_capabilities b) \<noteq> []
          then conflict (Worker WORKER_CAPABILITY_MISMATCH)
          else and_then (validate_bindings db bs) (\<lambda>types. Inr (kr_job_types row @ types)))"

definition validateWorkerBindings :: "control_store \<Rightarrow> worker_definition \<Rightarrow> unit result" where
  "validateWorkerBindings db w =
     and_then (validate_bindings db (worker_connectorBindings w)) (\<lambda>manifestJobTypes.
       if filter (\<lambda>t. t \<notin> set manifestJobTypes) (worker_supportedJobTypes w) \<noteq> []
       then conflict (Worker WORKER_JOB_TYPE_MISMATCH) else Inr ())"

definition requiredCapabilities :: "job \<Rightarrow> capability list" where
  "requiredCapabilities j =
     unique_list ([COLLECT]
       @ (if renderJavascript (plan_policy (job_planSnapshot j)) then [RENDER_JAVASCRIPT] else [])
       @ (if fetchAttachments (plan_policy (job_planSnapshot j)) then [FETCH_ATTACHMENTS] else [])
       @ (if is_change_watch (plan_schedule (job_planSnapshot j))
          then (if CHECK_UPDATE \<in> set (connector_capabilities (job_connectorSnapshot j))
                then [CHECK_UPDATE] else [WATCH])
          else []))"

definition workerCanRun :: "worker_definition \<Rightarrow> job \<Rightarrow> bool" where
  "workerCanRun w j =
     (job_type j \<in> set (worker_supportedJobTypes w)
      \<and> (case find (\<lambda>b. binding_connectorId b = ref_connectorId (job_connector j)
                         \<and> binding_version b = ref_version (job_connector j))
              (worker_connectorBindings w) of
           None \<Rightarrow> False
         | Some b \<Rightarrow> list_all (\<lambda>c. c \<in> set (binding_capabilities b)) (requiredCapabilities j)))"

section \<open>Reading workers\<close>

definition getWorker :: "control_store \<Rightarrow> string \<Rightarrow> worker_definition option result" where
  "getWorker db i =
     (case worker_by_id i db of
        None \<Rightarrow> Inr None
      | Some r \<Rightarrow> and_then (parseWorker (wr_document r)) (\<lambda>w. Inr (Some w)))"

definition getLease :: "control_store \<Rightarrow> string \<Rightarrow> job_lease option result" where
  "getLease db i =
     (case lease_by_id i db of
        None \<Rightarrow> Inr None
      | Some r \<Rightarrow> and_then (parseLease (lr_document r)) (\<lambda>l. Inr (Some l)))"

text \<open>\<open>ORDER BY received_at DESC, id DESC\<close>.\<close>

definition heartbeats_newest_first :: "string \<Rightarrow> control_store \<Rightarrow> heartbeat_row list" where
  "heartbeats_newest_first workerId db =
     rev (sort_key (\<lambda>r. (hr_received_at r, hr_id r))
       (filter (\<lambda>r. hr_worker_id r = workerId) (heartbeats db)))"

definition latestHeartbeat :: "control_store \<Rightarrow> string \<Rightarrow> worker_heartbeat option result" where
  "latestHeartbeat db workerId =
     (case heartbeats_newest_first workerId db of
        [] \<Rightarrow> Inr None
      | r # _ \<Rightarrow> and_then (parseHeartbeat (hr_document r)) (\<lambda>h. Inr (Some h)))"

definition activeLeases :: "control_store \<Rightarrow> string \<Rightarrow> job_lease list result" where
  "activeLeases db workerId =
     map_result (\<lambda>r. parseLease (lr_document r))
       (sort_key (\<lambda>r. (lr_acquired_at r, lr_id r))
         (filter (\<lambda>r. lr_worker_id r = workerId \<and> lr_status r = L_ACTIVE) (leases db)))"

text \<open>Comparisons with an invalid date (\<open>NaN\<close>) are false.\<close>

definition stale :: "registry_config \<Rightarrow> int \<Rightarrow> worker_heartbeat \<Rightarrow> bool" where
  "stale cfg now h =
     (case parse_iso (heartbeat_receivedAt h) of
        None \<Rightarrow> False
      | Some t \<Rightarrow> now - t > heartbeatFreshnessMs cfg)"

definition effectiveStatus ::
    "registry_config \<Rightarrow> int \<Rightarrow> worker_definition \<Rightarrow> worker_heartbeat option \<Rightarrow> nat \<Rightarrow> worker_status" where
  "effectiveStatus cfg now w heartbeat activeLeaseCount =
     (if worker_desiredState w = W_DISABLED then ST_DISABLED
      else if worker_desiredState w = W_DRAINING then ST_DRAINING
      else case heartbeat of
             None \<Rightarrow> ST_OFFLINE
           | Some h \<Rightarrow>
               if stale cfg now h then ST_OFFLINE
               else if heartbeat_health h = HEALTH_ERROR then ST_ERROR
               else if int activeLeaseCount \<ge> worker_maxConcurrency w then ST_BUSY
               else ST_ONLINE)"

definition viewForWorker ::
    "registry_config \<Rightarrow> int \<Rightarrow> control_store \<Rightarrow> worker_definition \<Rightarrow> worker_runtime_view result" where
  "viewForWorker cfg now db w =
     and_then (latestHeartbeat db (worker_id w)) (\<lambda>h.
     and_then (activeLeases db (worker_id w)) (\<lambda>ls.
       Inr \<lparr> view_worker = w, view_effectiveStatus = effectiveStatus cfg now w h (length ls),
             view_latestHeartbeat = h, view_activeLeaseCount = length ls, view_activeLeases = ls \<rparr>))"

definition getWorkerById ::
    "registry_config \<Rightarrow> int \<Rightarrow> control_store \<Rightarrow> string \<Rightarrow> worker_runtime_view option result" where
  "getWorkerById cfg now db i =
     (case worker_by_id i db of
        None \<Rightarrow> Inr None
      | Some r \<Rightarrow> and_then (parseWorker (wr_document r)) (\<lambda>w.
                 and_then (viewForWorker cfg now db w) (\<lambda>v. Inr (Some v))))"

section \<open>Writing workers\<close>

definition createWorker ::
    "platform \<Rightarrow> registry_config \<Rightarrow> int \<Rightarrow> int \<Rightarrow> string \<Rightarrow> string \<Rightarrow> create_worker_input \<Rightarrow> control_store
      \<Rightarrow> (worker_runtime_view \<times> string) result \<times> control_store" where
  "createWorker env cfg now now' workerId credential inp db =
     (let timestamp = to_iso now
      in case and_then (normalizeWorkerInput inp workerId timestamp)
                (\<lambda>w. and_then (validateWorkerBindings db w) (\<lambda>_. Inr w)) of
           Inl e \<Rightarrow> (Inl e, db)
         | Inr w \<Rightarrow>
             (case in_transaction db
                     (and_then (insert_worker w db) (\<lambda>db1.
                      and_then (insert_credential
                          \<lparr> cr_worker_id = worker_id w, cr_digest = digestHex env credential,
                            cr_rotated_at = timestamp \<rparr> db1) (\<lambda>db2. Inr ((), db2)))) of
                (Inl e, db') \<Rightarrow> (Inl e, db')
              | (Inr _, db') \<Rightarrow>
                  (and_then (viewForWorker cfg now' db' w) (\<lambda>v. Inr (v, credential)), db')))"

text \<open>Closing a lease, and giving its job back.\<close>

definition jobWithStatus :: "job \<Rightarrow> job_status \<Rightarrow> string \<Rightarrow> job result" where
  "jobWithStatus j status timestamp =
     (let next = j\<lparr>job_status := status, job_updatedAt := timestamp\<rparr>
      in if isJob (job_json next) then Inr next else Inl RegistryValidationError)"

definition closed_lease :: "job_lease \<Rightarrow> lease_status \<Rightarrow> string \<Rightarrow> string \<Rightarrow> job_lease" where
  "closed_lease l status timestamp reason =
     l\<lparr> lease_status := status, lease_updatedAt := timestamp, lease_closedAt := Some timestamp,
        lease_closeReason := Some (take 500 reason) \<rparr>"

definition closeLease ::
    "job_lease \<Rightarrow> lease_status \<Rightarrow> string \<Rightarrow> string \<Rightarrow> control_store \<Rightarrow> (job_lease \<times> control_store) result" where
  "closeLease l status timestamp reason db =
     (let next = closed_lease l status timestamp reason
      in if isJobLease (lease_json next) then Inr (next, update_lease next db)
         else Inl RegistryValidationError)"

definition returnJobToPending :: "string \<Rightarrow> string \<Rightarrow> control_store \<Rightarrow> control_store result" where
  "returnJobToPending jobId timestamp db =
     (case job_by_id jobId db of
        None \<Rightarrow> Inr db
      | Some r \<Rightarrow>
          and_then (parseJob (jr_document r)) (\<lambda>j.
            if job_status j \<noteq> J_LEASED then Inr db
            else and_then (jobWithStatus j J_PENDING timestamp) (\<lambda>pending. Inr (update_job pending db))))"

definition close_and_return ::
    "lease_status \<Rightarrow> string \<Rightarrow> string \<Rightarrow> job_lease \<Rightarrow> control_store \<Rightarrow> control_store result" where
  "close_and_return status timestamp reason l db =
     and_then (closeLease l status timestamp reason db) (\<lambda>(_, db1).
       returnJobToPending (lease_jobId l) timestamp db1)"

definition expireLeaseInTransaction :: "string \<Rightarrow> job_lease \<Rightarrow> control_store \<Rightarrow> control_store result" where
  "expireLeaseInTransaction timestamp = close_and_return L_EXPIRED timestamp ''Lease expired''"

definition expired_leases :: "string \<Rightarrow> control_store \<Rightarrow> lease_row list" where
  "expired_leases timestamp db =
     sort_key (\<lambda>r. (lr_expires_at r, lr_id r))
       (filter (\<lambda>r. lr_status r = L_ACTIVE \<and> lr_expires_at r \<le> timestamp) (leases db))"

definition reapExpiredInTransaction :: "string \<Rightarrow> control_store \<Rightarrow> (nat \<times> control_store) result" where
  "reapExpiredInTransaction timestamp db =
     and_then (map_result (\<lambda>r. parseLease (lr_document r)) (expired_leases timestamp db)) (\<lambda>expired.
     and_then (fold_result (expireLeaseInTransaction timestamp) expired db) (\<lambda>db'.
       Inr (length expired, db')))"

definition revokeActiveLeasesForWorker ::
    "string \<Rightarrow> string \<Rightarrow> string \<Rightarrow> control_store \<Rightarrow> control_store result" where
  "revokeActiveLeasesForWorker workerId timestamp reason db =
     and_then (activeLeases db workerId) (\<lambda>ls.
       fold_result (close_and_return L_REVOKED timestamp reason) ls db)"

definition update_worker_if ::
    "string \<Rightarrow> string \<Rightarrow> worker_definition \<Rightarrow> control_store \<Rightarrow> control_store option" where
  "update_worker_if i expectedUpdatedAt w db =
     (case worker_by_id i db of
        Some r \<Rightarrow> if wr_updated_at r = expectedUpdatedAt
                  then Some (db\<lparr>workers := update_by wr_id i (write_worker w) (workers db)\<rparr>)
                  else None
      | None \<Rightarrow> None)"

definition updateWorker ::
    "registry_config \<Rightarrow> int \<Rightarrow> int \<Rightarrow> string \<Rightarrow> update_worker_input \<Rightarrow> string \<Rightarrow> control_store
      \<Rightarrow> worker_runtime_view result \<times> control_store" where
  "updateWorker cfg now now' i inp expectedUpdatedAt db =
     (case and_then (getWorker db i) (\<lambda>found.
             case found of
               None \<Rightarrow> Inl (RegistryError (General WORKER_NOT_FOUND))
             | Some current \<Rightarrow>
                 if worker_updatedAt current \<noteq> expectedUpdatedAt
                 then conflict (Worker WORKER_VERSION_CONFLICT)
                 else and_then (applyWorkerUpdate current inp (to_iso now)) (\<lambda>next.
                      and_then (validateWorkerBindings db next) (\<lambda>_. Inr next))) of
        Inl e \<Rightarrow> (Inl e, db)
      | Inr next \<Rightarrow>
          (case in_transaction db
                  (case update_worker_if i expectedUpdatedAt next db of
                     None \<Rightarrow> conflict (Worker WORKER_VERSION_CONFLICT)
                   | Some db1 \<Rightarrow>
                       if worker_desiredState next = W_DISABLED
                       then and_then (revokeActiveLeasesForWorker i (to_iso now)
                                ''Worker disabled by administrator'' db1) (\<lambda>db2. Inr ((), db2))
                       else Inr ((), db1)) of
             (Inl e, db') \<Rightarrow> (Inl e, db')
           | (Inr _, db') \<Rightarrow> (viewForWorker cfg now' db' next, db')))"

definition rotateCredential ::
    "platform \<Rightarrow> int \<Rightarrow> string \<Rightarrow> string \<Rightarrow> control_store
      \<Rightarrow> (string \<times> string \<times> string) result \<times> control_store" where
  "rotateCredential env now credential i db =
     (case getWorker db i of
        Inl e \<Rightarrow> (Inl e, db)
      | Inr None \<Rightarrow> (Inl (RegistryError (General WORKER_NOT_FOUND)), db)
      | Inr (Some _) \<Rightarrow>
          (Inr (i, credential, to_iso now),
           db\<lparr>credentials := update_by cr_worker_id i
                (\<lambda>c. c\<lparr>cr_digest := digestHex env credential, cr_rotated_at := to_iso now\<rparr>)
                (credentials db)\<rparr>))"

section \<open>Authentication\<close>

definition unauthenticated :: registry_error where
  "unauthenticated = RegistryError (General WORKER_AUTHENTICATION_FAILED)"

definition verifyCredential ::
    "platform \<Rightarrow> control_store \<Rightarrow> string \<Rightarrow> string \<Rightarrow> worker_definition result" where
  "verifyCredential env db workerId credential =
     (if credential = [] \<or> 256 < length credential then Inl unauthenticated
      else case (worker_by_id workerId db, find_by cr_worker_id workerId (credentials db)) of
             (Some w, Some c) \<Rightarrow>
               if \<not> verifyDigest env credential (cr_digest c) then Inl unauthenticated
               else and_then (parseWorker (wr_document w)) (\<lambda>worker.
                      if worker_desiredState worker = W_DISABLED
                      then Inl (RegistryError (Worker WORKER_DISABLED)) else Inr worker)
           | _ \<Rightarrow> Inl unauthenticated)"

definition requireOwnedActiveLease ::
    "platform \<Rightarrow> control_store \<Rightarrow> string \<Rightarrow> string \<Rightarrow> string \<Rightarrow> job_lease result" where
  "requireOwnedActiveLease env db workerId leaseId leaseToken =
     (case lease_by_id leaseId db of
        None \<Rightarrow> Inl (RegistryError (General LEASE_NOT_FOUND))
      | Some r \<Rightarrow>
          and_then (parseLease (lr_document r)) (\<lambda>l.
            if lease_workerId l \<noteq> workerId then Inl (RegistryError (Worker WORKER_LEASE_OWNERSHIP))
            else if leaseToken = [] \<or> \<not> verifyDigest env leaseToken (lr_token_digest r)
            then Inl unauthenticated
            else if lease_status l \<noteq> L_ACTIVE then conflict (Lease LEASE_NOT_ACTIVE)
            else Inr l))"

section \<open>Heartbeats\<close>

fun check_reported_leases :: "control_store \<Rightarrow> worker_definition \<Rightarrow> string list \<Rightarrow> unit result" where
  "check_reported_leases db w [] = Inr ()"
| "check_reported_leases db w (i # is) =
     and_then (getLease db i) (\<lambda>found.
       case found of
         None \<Rightarrow> conflict (Worker WORKER_HEARTBEAT_UNKNOWN_LEASE)
       | Some l \<Rightarrow>
           if lease_status l \<noteq> L_ACTIVE then conflict (Worker WORKER_HEARTBEAT_UNKNOWN_LEASE)
           else if lease_workerId l \<noteq> worker_id w
           then Inl (RegistryError (Worker WORKER_LEASE_OWNERSHIP))
           else check_reported_leases db w is)"

definition trim_heartbeats :: "string \<Rightarrow> control_store \<Rightarrow> control_store" where
  "trim_heartbeats workerId db =
     (let kept = map hr_id (take HEARTBEAT_HISTORY_LIMIT (heartbeats_newest_first workerId db))
      in db\<lparr>heartbeats := filter (\<lambda>r. hr_worker_id r \<noteq> workerId \<or> hr_id r \<in> set kept) (heartbeats db)\<rparr>)"

definition heartbeat ::
    "platform \<Rightarrow> registry_config \<Rightarrow> int \<Rightarrow> int \<Rightarrow> string \<Rightarrow> heartbeat_input \<Rightarrow> string \<Rightarrow> control_store
      \<Rightarrow> worker_runtime_view result \<times> control_store" where
  "heartbeat env cfg now now' heartbeatId inp credential db =
     (case and_then (verifyCredential env db (hi_workerId inp) credential) (\<lambda>w.
             case parse_date env (hi_observedAt inp) of
               None \<Rightarrow> Inl RegistryValidationError
             | Some observed \<Rightarrow>
                 if \<bar>now - observed\<bar> > heartbeatClockSkewMs cfg
                 then conflict (Worker WORKER_CLOCK_SKEW)
                 else let ids = unique_list (case hi_activeLeaseIds inp of None \<Rightarrow> [] | Some is \<Rightarrow> is);
                          h = \<lparr> heartbeat_id = heartbeatId, heartbeat_workerId = worker_id w,
                                heartbeat_workspaceId = worker_workspaceId w,
                                heartbeat_observedAt = to_iso observed,
                                heartbeat_receivedAt = to_iso now,
                                heartbeat_runtimeVersion = trim (hi_runtimeVersion inp),
                                heartbeat_health = hi_health inp,
                                heartbeat_activeLeaseIds = ids,
                                heartbeat_diagnostics = hi_diagnostics inp \<rparr>
                      in and_then (check_reported_leases db w ids) (\<lambda>_.
                           if isWorkerHeartbeat (heartbeat_json h) then Inr (w, h)
                           else Inl RegistryValidationError)) of
        Inl e \<Rightarrow> (Inl e, db)
      | Inr (w, h) \<Rightarrow>
          (case in_transaction db
                  (and_then (insert_heartbeat h db) (\<lambda>db1. Inr ((), trim_heartbeats (worker_id w) db1))) of
             (Inl e, db') \<Rightarrow> (Inl e, db')
           | (Inr _, db') \<Rightarrow> (viewForWorker cfg now' db' w, db')))"

section \<open>Claiming\<close>

record web_domain_state =
  wd_active :: int
  wd_recent :: int
  wd_minRateLimit :: int

fun first_domain :: "platform \<Rightarrow> string option list \<Rightarrow> string option" where
  "first_domain env [] = None"
| "first_domain env (locator # locators) =
     (case locator of
        None \<Rightarrow> first_domain env locators
      | Some l \<Rightarrow>
          if l = [] then first_domain env locators
          else case parse_url env l of
                 None \<Rightarrow> first_domain env locators
               | Some (protocol, host) \<Rightarrow>
                   if protocol \<noteq> ''http:'' \<and> protocol \<noteq> ''https:'' then first_domain env locators
                   else let hostname = toLowerCase host
                        in Some (if starts_with ''www.'' hostname then drop 4 hostname else hostname))"

definition webDomainKey :: "platform \<Rightarrow> job \<Rightarrow> string option" where
  "webDomainKey env j =
     (if source_type (job_sourceSnapshot j) \<noteq> S_WEB then None
      else first_domain env (source_canonicalUri (job_sourceSnapshot j)
             # map (\<lambda>e. Some (fst e)) (source_entrypoints (job_sourceSnapshot j))))"

text \<open>\<open>if (!domain)\<close>: no domain, or an empty one.\<close>

definition domain_of :: "platform \<Rightarrow> job \<Rightarrow> string option" where
  "domain_of env j = (case webDomainKey env j of Some [] \<Rightarrow> None | d \<Rightarrow> d)"

text \<open>
  One lease row of the join with its job. The first row of a domain meets the initial
  \<open>minRateLimit\<close> of positive infinity, so the minimum is its own rate.
\<close>

definition count_lease ::
    "platform \<Rightarrow> string \<Rightarrow> lease_row \<times> job \<Rightarrow> (string \<Rightarrow> web_domain_state option)
      \<Rightarrow> string \<Rightarrow> web_domain_state option" where
  "count_lease env windowStart p state =
     (case p of (r, leasedJob) \<Rightarrow>
        case domain_of env leasedJob of
          None \<Rightarrow> state
        | Some d \<Rightarrow>
            let rate = rateLimitPerMinute (plan_policy (job_planSnapshot leasedJob));
                current = (case state d of
                             None \<Rightarrow> \<lparr> wd_active = 0, wd_recent = 0, wd_minRateLimit = rate \<rparr>
                           | Some s \<Rightarrow> s)
            in state(d \<mapsto> \<lparr> wd_active = wd_active current + (if lr_status r = L_ACTIVE then 1 else 0),
                            wd_recent = wd_recent current
                              + (if lr_acquired_at r \<ge> windowStart then 1 else 0),
                            wd_minRateLimit = min (wd_minRateLimit current) rate \<rparr>))"

definition counted_leases :: "string \<Rightarrow> control_store \<Rightarrow> (lease_row \<times> job_row) list" where
  "counted_leases windowStart db =
     concat (map (\<lambda>r. case job_by_id (lr_job_id r) db of None \<Rightarrow> [] | Some j \<Rightarrow> [(r, j)])
       (filter (\<lambda>r. lr_status r = L_ACTIVE \<or> lr_acquired_at r \<ge> windowStart) (leases db)))"

definition webDomainLeaseState ::
    "platform \<Rightarrow> int \<Rightarrow> control_store \<Rightarrow> (string \<Rightarrow> web_domain_state option) result" where
  "webDomainLeaseState env now db =
     and_then (toISOString (new_Date (now - 60000))) (\<lambda>windowStart.
     and_then (map_result (\<lambda>(r, j). and_then (parseJob (jr_document j)) (\<lambda>job. Inr (r, job)))
                 (counted_leases windowStart db)) (\<lambda>rows.
       Inr (fold (count_lease env windowStart) rows (\<lambda>_. None))))"

definition webDomainQuotaAllows ::
    "platform \<Rightarrow> registry_config \<Rightarrow> job \<Rightarrow> (string \<Rightarrow> web_domain_state option) \<Rightarrow> bool" where
  "webDomainQuotaAllows env cfg j state =
     (case domain_of env j of
        None \<Rightarrow> True
      | Some d \<Rightarrow>
          (case state d of
             None \<Rightarrow> True
           | Some current \<Rightarrow>
               let effectiveRateLimit =
                     min (rateLimitPerMinute (plan_policy (job_planSnapshot j))) (wd_minRateLimit current)
               in wd_active current < maxConcurrentWebLeasesPerDomain cfg
                  \<and> wd_recent current < effectiveRateLimit))"

definition new_lease ::
    "string \<Rightarrow> worker_definition \<Rightarrow> job \<Rightarrow> string \<Rightarrow> string \<Rightarrow> job_lease" where
  "new_lease leaseId w j timestamp expiresAt =
     \<lparr> lease_id = leaseId, lease_workspaceId = job_workspaceId j, lease_workerId = worker_id w,
       lease_jobId = job_id j, lease_runId = job_runId j, lease_jobType = job_type j,
       lease_connector = job_connector j, lease_status = L_ACTIVE, lease_acquiredAt = timestamp,
       lease_expiresAt = expiresAt, lease_updatedAt = timestamp, lease_closedAt = None,
       lease_closeReason = None, lease_extensions = None \<rparr>"

definition claimJobInTransaction ::
    "platform \<Rightarrow> registry_config \<Rightarrow> int \<Rightarrow> string \<Rightarrow> string \<Rightarrow> worker_definition \<Rightarrow> job \<Rightarrow> control_store
      \<Rightarrow> (claim_result \<times> control_store) result" where
  "claimJobInTransaction env cfg now leaseId leaseToken w j db =
     and_then (toISOString (new_Date (now + leaseDurationMs cfg))) (\<lambda>expiresAt.
       let timestamp = to_iso now;
           l = new_lease leaseId w j timestamp expiresAt
       in if \<not> isJobLease (lease_json l) then Inl RegistryValidationError
          else and_then (jobWithStatus j J_LEASED timestamp) (\<lambda>leasedJob.
            case update_pending_job leasedJob db of
              None \<Rightarrow> conflict (Lease JOB_CLAIM_CONFLICT)
            | Some db1 \<Rightarrow>
                and_then (insert_lease (digestHex env leaseToken) l db1) (\<lambda>db2.
                  Inr (Some (leasedJob, l, leaseToken), db2))))"

text \<open>The guards both claims share, read after the reaper has run.\<close>

definition claiming_worker ::
    "registry_config \<Rightarrow> int \<Rightarrow> string \<Rightarrow> control_store \<Rightarrow> worker_definition result" where
  "claiming_worker cfg now' workerId db =
     and_then (getWorker db workerId) (\<lambda>found.
       case found of
         None \<Rightarrow> Inl (RegistryError (General WORKER_NOT_FOUND))
       | Some w \<Rightarrow>
           if worker_desiredState w \<noteq> W_ACTIVE then Inl (RegistryError (Worker WORKER_NOT_ACTIVE))
           else and_then (viewForWorker cfg now' db w) (\<lambda>view.
                  if view_effectiveStatus view = ST_OFFLINE
                  then conflict (Worker WORKER_HEARTBEAT_STALE)
                  else if view_effectiveStatus view = ST_ERROR
                  then conflict (Worker WORKER_HEALTH_ERROR)
                  else if int (view_activeLeaseCount view) \<ge> worker_maxConcurrency w
                  then conflict (Worker WORKER_AT_CAPACITY)
                  else Inr w))"

text \<open>\<open>CASE ... WHEN 'CRITICAL' THEN 1 ...\<close>: the order of the priorities.\<close>

fun priority_rank :: "priority \<Rightarrow> nat" where
  "priority_rank CRITICAL = 1"
| "priority_rank HIGH = 2"
| "priority_rank NORMAL = 3"
| "priority_rank LOW = 4"

instantiation priority :: linorder
begin

definition less_eq_priority :: "priority \<Rightarrow> priority \<Rightarrow> bool" where
  "less_eq_priority a b = (priority_rank a \<le> priority_rank b)"

definition less_priority :: "priority \<Rightarrow> priority \<Rightarrow> bool" where
  "less_priority a b = (priority_rank a < priority_rank b)"

instance
proof
  fix a b c :: priority
  show "a < b \<longleftrightarrow> a \<le> b \<and> \<not> b \<le> a" "a \<le> a" "a \<le> b \<Longrightarrow> b \<le> c \<Longrightarrow> a \<le> c" "a \<le> b \<or> b \<le> a"
    by (auto simp: less_eq_priority_def less_priority_def)
  show "a \<le> b \<Longrightarrow> b \<le> a \<Longrightarrow> a = b"
    by (cases a; cases b) (simp_all add: less_eq_priority_def)
qed

end

definition claim_key :: "job_row \<Rightarrow> priority \<times> string \<times> string \<times> string" where
  "claim_key r = (job_priority (jr_document r), jr_available_at r, jr_created_at r, jr_id r)"

definition claim_candidates :: "string \<Rightarrow> control_store \<Rightarrow> job_row list" where
  "claim_candidates timestamp db =
     take 250 (sort_key claim_key
       (filter (\<lambda>r. jr_status r = J_PENDING \<and> jr_available_at r \<le> timestamp) (jobs db)))"

definition claimable ::
    "platform \<Rightarrow> registry_config \<Rightarrow> worker_definition \<Rightarrow> (string \<Rightarrow> web_domain_state option) \<Rightarrow> job \<Rightarrow> bool" where
  "claimable env cfg w state j =
     (job_workspaceId j = worker_workspaceId w \<and> workerCanRun w j \<and> webDomainQuotaAllows env cfg j state)"

definition claim_body ::
    "platform \<Rightarrow> registry_config \<Rightarrow> int \<Rightarrow> int \<Rightarrow> string \<Rightarrow> string \<Rightarrow> string \<Rightarrow> control_store
      \<Rightarrow> (claim_result \<times> control_store) result" where
  "claim_body env cfg now now' leaseId leaseToken workerId db =
     and_then (reapExpiredInTransaction (to_iso now) db) (\<lambda>(_, db1).
     and_then (claiming_worker cfg now' workerId db1) (\<lambda>w.
     and_then (map_result (\<lambda>r. parseJob (jr_document r)) (claim_candidates (to_iso now) db1)) (\<lambda>candidates.
     and_then (webDomainLeaseState env now db1) (\<lambda>state.
       case find (claimable env cfg w state) candidates of
         None \<Rightarrow> Inr (None, db1)
       | Some j \<Rightarrow> claimJobInTransaction env cfg now leaseId leaseToken w j db1))))"

definition claim ::
    "platform \<Rightarrow> registry_config \<Rightarrow> int \<Rightarrow> int \<Rightarrow> string \<Rightarrow> string \<Rightarrow> string \<Rightarrow> string \<Rightarrow> control_store
      \<Rightarrow> claim_result result \<times> control_store" where
  "claim env cfg now now' leaseId leaseToken workerId credential db =
     (case verifyCredential env db workerId credential of
        Inl e \<Rightarrow> (Inl e, db)
      | Inr _ \<Rightarrow> in_transaction db (claim_body env cfg now now' leaseId leaseToken workerId db))"

definition date_after :: "string \<Rightarrow> int \<Rightarrow> bool" where
  "date_after s now = (case parse_iso s of None \<Rightarrow> False | Some t \<Rightarrow> t > now)"

definition claimSpecific_body ::
    "platform \<Rightarrow> registry_config \<Rightarrow> int \<Rightarrow> int \<Rightarrow> string \<Rightarrow> string \<Rightarrow> string \<Rightarrow> string \<Rightarrow> control_store
      \<Rightarrow> (claim_result \<times> control_store) result" where
  "claimSpecific_body env cfg now now' leaseId leaseToken workerId jobId db =
     and_then (reapExpiredInTransaction (to_iso now) db) (\<lambda>(_, db1).
     and_then (claiming_worker cfg now' workerId db1) (\<lambda>w.
       case job_by_id jobId db1 of
         None \<Rightarrow> conflict (Lease JOB_NOT_FOUND)
       | Some r \<Rightarrow>
           and_then (parseJob (jr_document r)) (\<lambda>j.
             if job_status j \<noteq> J_PENDING \<or> date_after (jr_available_at r) now
             then conflict (Lease JOB_NOT_CLAIMABLE)
             else if job_workspaceId j \<noteq> worker_workspaceId w \<or> \<not> workerCanRun w j
             then conflict (Lease WORKER_JOB_INCOMPATIBLE)
             else and_then (webDomainLeaseState env now db1) (\<lambda>state.
                    if \<not> webDomainQuotaAllows env cfg j state
                    then conflict (Lease WEB_DOMAIN_CLAIM_QUOTA_EXCEEDED)
                    else claimJobInTransaction env cfg now leaseId leaseToken w j db1))))"

definition claimSpecific ::
    "platform \<Rightarrow> registry_config \<Rightarrow> int \<Rightarrow> int \<Rightarrow> string \<Rightarrow> string \<Rightarrow> string \<Rightarrow> string \<Rightarrow> string \<Rightarrow> control_store
      \<Rightarrow> claim_result result \<times> control_store" where
  "claimSpecific env cfg now now' leaseId leaseToken workerId credential jobId db =
     (case verifyCredential env db workerId credential of
        Inl e \<Rightarrow> (Inl e, db)
      | Inr _ \<Rightarrow>
          in_transaction db (claimSpecific_body env cfg now now' leaseId leaseToken workerId jobId db))"

section \<open>Leases\<close>

definition date_due :: "js_date \<Rightarrow> int \<Rightarrow> bool" where
  "date_due d now = (case d of None \<Rightarrow> False | Some t \<Rightarrow> t \<le> now)"

definition renewed_expiry :: "registry_config \<Rightarrow> int \<Rightarrow> job_lease \<Rightarrow> js_date" where
  "renewed_expiry cfg now l =
     (case parse_iso (lease_acquiredAt l) of
        None \<Rightarrow> None
      | Some acquired \<Rightarrow>
          let hardLimit = acquired + maxLeaseLifetimeMs cfg
          in new_Date (min (now + leaseDurationMs cfg) hardLimit))"

definition renewLease_body ::
    "platform \<Rightarrow> registry_config \<Rightarrow> int \<Rightarrow> string \<Rightarrow> string \<Rightarrow> string \<Rightarrow> control_store
      \<Rightarrow> (job_lease \<times> control_store) result" where
  "renewLease_body env cfg now workerId leaseId leaseToken db =
     and_then (requireOwnedActiveLease env db workerId leaseId leaseToken) (\<lambda>l.
       if date_due (parse_iso (lease_expiresAt l)) now
       then and_then (expireLeaseInTransaction (to_iso now) l db) (\<lambda>_. conflict (Lease LEASE_EXPIRED))
       else and_then (toISOString (renewed_expiry cfg now l)) (\<lambda>expiresAt.
              if date_due (parse_iso expiresAt) now
              then and_then (expireLeaseInTransaction (to_iso now) l db)
                     (\<lambda>_. conflict (Lease LEASE_MAX_LIFETIME_REACHED))
              else let next = l\<lparr>lease_expiresAt := expiresAt, lease_updatedAt := to_iso now\<rparr>
                   in Inr (next, update_lease next db)))"

definition renewLease ::
    "platform \<Rightarrow> registry_config \<Rightarrow> int \<Rightarrow> string \<Rightarrow> string \<Rightarrow> string \<Rightarrow> string \<Rightarrow> control_store
      \<Rightarrow> job_lease result \<times> control_store" where
  "renewLease env cfg now workerId credential leaseId leaseToken db =
     (case verifyCredential env db workerId credential of
        Inl e \<Rightarrow> (Inl e, db)
      | Inr _ \<Rightarrow> in_transaction db (renewLease_body env cfg now workerId leaseId leaseToken db))"

definition releaseLease ::
    "platform \<Rightarrow> int \<Rightarrow> string \<Rightarrow> string \<Rightarrow> string \<Rightarrow> string \<Rightarrow> string option \<Rightarrow> control_store
      \<Rightarrow> job_lease result \<times> control_store" where
  "releaseLease env now workerId credential leaseId leaseToken reason db =
     (case verifyCredential env db workerId credential of
        Inl e \<Rightarrow> (Inl e, db)
      | Inr _ \<Rightarrow>
          in_transaction db
            (and_then (requireOwnedActiveLease env db workerId leaseId leaseToken) (\<lambda>l.
             and_then (closeLease l L_RELEASED (to_iso now)
                (case reason of None \<Rightarrow> ''Released by Worker'' | Some r \<Rightarrow> r) db) (\<lambda>(next, db1).
             and_then (returnJobToPending (lease_jobId l) (to_iso now) db1) (\<lambda>db2. Inr (next, db2))))))"

definition reapExpired :: "int \<Rightarrow> control_store \<Rightarrow> nat result \<times> control_store" where
  "reapExpired now db = in_transaction db (reapExpiredInTransaction (to_iso now) db)"

text \<open>
  \<open>safe-worker-registry.ts\<close>: the public adapter reaps when a renewal reports that the lease has
  expired. The reaper reads the clock again; what it throws replaces the reported conflict.
\<close>

definition safe_renewLease ::
    "platform \<Rightarrow> registry_config \<Rightarrow> int \<Rightarrow> int \<Rightarrow> string \<Rightarrow> string \<Rightarrow> string \<Rightarrow> string \<Rightarrow> control_store
      \<Rightarrow> job_lease result \<times> control_store" where
  "safe_renewLease env cfg now now' workerId credential leaseId leaseToken db =
     (case renewLease env cfg now workerId credential leaseId leaseToken db of
        (Inl e, db1) \<Rightarrow>
          if e = RegistryConflictError (Lease LEASE_EXPIRED)
             \<or> e = RegistryConflictError (Lease LEASE_MAX_LIFETIME_REACHED)
          then (case reapExpired now' db1 of
                  (Inl e', db2) \<Rightarrow> (Inl e', db2)
                | (Inr _, db2) \<Rightarrow> (Inl e, db2))
          else (Inl e, db1)
      | (Inr l, db1) \<Rightarrow> (Inr l, db1))"

section \<open>Listing\<close>

record worker_list_filters =
  wf_q :: "string option"
  wf_workspaceId :: "string option"
  wf_desiredState :: "desired_state option"
  wf_effectiveStatus :: "worker_status option"
  wf_runtimeId :: "string option"
  wf_connectorId :: "string option"
  wf_jobType :: "job_type option"
  wf_label :: "string option"
  wf_limit :: "rat option"
  wf_offset :: "rat option"

record worker_list =
  wl_items :: "worker_runtime_view list"
  wl_total :: nat
  wl_limit :: int
  wl_offset :: int
  wl_statuses :: "(worker_status \<times> nat) list"
  wl_summary_total :: nat
  wl_activeLeases :: nat
  wl_expiredLeases :: nat

definition all_worker_statuses :: "worker_status list" where
  "all_worker_statuses = [ST_ONLINE, ST_BUSY, ST_DRAINING, ST_OFFLINE, ST_DISABLED, ST_ERROR]"

definition worker_where :: "worker_list_filters \<Rightarrow> worker_row \<Rightarrow> bool" where
  "worker_where f r \<longleftrightarrow>
     given (map_option trim (wf_q f)) (\<lambda>q.
        sql_like (like_query q) (lower (wr_display_name r)) \<or> sql_like (like_query q) (lower (wr_id r)))
     \<and> given (wf_workspaceId f) (\<lambda>w. wr_workspace_id r = w)
     \<and> optionally (\<lambda>d. wr_desired_state r = d) (wf_desiredState f)
     \<and> given (wf_runtimeId f) (\<lambda>i. wr_runtime_id r = i)
     \<and> given (wf_connectorId f) (\<lambda>c. list_ex (\<lambda>b. binding_connectorId b = c) (wr_bindings r))
     \<and> optionally (\<lambda>t. t \<in> set (wr_job_types r)) (wf_jobType f)
     \<and> given (wf_label f) (\<lambda>l. l \<in> set (wr_labels r))"

text \<open>The clock is read once for each worker viewed: \<open>clock i\<close> is the reading for worker \<open>i\<close>.\<close>

definition listWorkers ::
    "registry_config \<Rightarrow> (string \<Rightarrow> int) \<Rightarrow> worker_list_filters \<Rightarrow> control_store \<Rightarrow> worker_list result" where
  "listWorkers cfg clock f db =
     and_then (normalizeLimit (wf_limit f)) (\<lambda>limit.
     and_then (normalizeOffset (wf_offset f)) (\<lambda>offset.
     and_then (map_result (\<lambda>r. and_then (parseWorker (wr_document r)) (\<lambda>w.
                 viewForWorker cfg (clock (worker_id w)) db w))
          (rev (sort_key (\<lambda>r. (wr_updated_at r, wr_id r)) (filter (worker_where f) (workers db))))) (\<lambda>all.
       let filtered = (case wf_effectiveStatus f of None \<Rightarrow> all
                       | Some s \<Rightarrow> filter (\<lambda>v. view_effectiveStatus v = s) all)
       in Inr \<lparr> wl_items = take (nat limit) (drop (nat offset) filtered), wl_total = length filtered,
                wl_limit = limit, wl_offset = offset,
                wl_statuses = count_by view_effectiveStatus all_worker_statuses all,
                wl_summary_total = length all,
                wl_activeLeases = length (filter (\<lambda>r. lr_status r = L_ACTIVE) (leases db)),
                wl_expiredLeases = length (filter (\<lambda>r. lr_status r = L_EXPIRED) (leases db)) \<rparr>)))"

record lease_list_filters =
  lf_workerId :: "string option"
  lf_jobId :: "string option"
  lf_runId :: "string option"
  lf_status :: "lease_status option"
  lf_limit :: "rat option"
  lf_offset :: "rat option"

definition lease_where :: "lease_list_filters \<Rightarrow> lease_row \<Rightarrow> bool" where
  "lease_where f r \<longleftrightarrow>
     given (lf_workerId f) (\<lambda>w. lr_worker_id r = w) \<and> given (lf_jobId f) (\<lambda>j. lr_job_id r = j)
     \<and> given (lf_runId f) (\<lambda>i. lr_run_id r = i) \<and> optionally (\<lambda>s. lr_status r = s) (lf_status f)"

definition listLeases ::
    "lease_list_filters \<Rightarrow> control_store \<Rightarrow> (job_lease list \<times> nat \<times> int \<times> int) result" where
  "listLeases f db =
     and_then (normalizeLimit (lf_limit f)) (\<lambda>limit.
     and_then (normalizeOffset (lf_offset f)) (\<lambda>offset.
       let matching = filter (lease_where f) (leases db)
       in and_then (map_result (\<lambda>r. parseLease (lr_document r))
            (take (nat limit) (drop (nat offset) (rev (sort_key (\<lambda>r. (lr_updated_at r, lr_id r)) matching)))))
            (\<lambda>items. Inr (items, length matching, limit, offset))))"

definition workerProtocolWritesOnlyLeaseStates :: "string \<Rightarrow> bool" where
  "workerProtocolWritesOnlyLeaseStates status =
     (status \<in> set JOB_STATUSES \<and> status \<in> {''PENDING'', ''LEASED''})"

end
