(* ===== verification/Json_Text.thy ===== *)
theory Json_Text
  imports Json_Values Js_Date
begin

text \<open>
  \<open>JSON.stringify\<close> without an indentation: the text the execution repository hashes to compare
  the payloads of two requests under one idempotency key. An integer below \<open>10^21\<close> is written in
  decimal; how the engine prints any other number (\<open>Number.prototype.toString\<close>) is an argument.
\<close>

fun decimal :: "nat \<Rightarrow> string" where
  "decimal n = (if n < 10 then [digit_char (int n)] else decimal (n div 10) @ [digit_char (int (n mod 10))])"

declare decimal.simps [simp del]

definition int_text :: "int \<Rightarrow> string" where
  "int_text i = (if i < 0 then CHR ''-'' # decimal (nat (- i)) else decimal (nat i))"

definition number_json_text :: "(rat \<Rightarrow> string) \<Rightarrow> rat \<Rightarrow> string" where
  "number_json_text other r =
     (if isInteger r \<and> \<bar>r\<bar> < 10 ^ 21 then int_text \<lfloor>r\<rfloor> else other r)"

definition hex_char :: "nat \<Rightarrow> char" where
  "hex_char n = ''0123456789abcdef'' ! n"

definition escape_char :: "char \<Rightarrow> string" where
  "escape_char c =
     (let n = code_unit c
      in if n = 34 then [CHR 0x5C, CHR 0x22]
         else if n = 92 then [CHR 0x5C, CHR 0x5C]
         else if n = 8 then CHR 0x5C # ''b''
         else if n = 9 then CHR 0x5C # ''t''
         else if n = 10 then CHR 0x5C # ''n''
         else if n = 12 then CHR 0x5C # ''f''
         else if n = 13 then CHR 0x5C # ''r''
         else if n < 32 then CHR 0x5C # ''u00'' @ [hex_char (n div 16), hex_char (n mod 16)]
         else [c])"

definition quoted :: "string \<Rightarrow> string" where
  "quoted s = CHR 0x22 # concat (map escape_char s) @ [CHR 0x22]"

fun joined :: "string list \<Rightarrow> string" where
  "joined [] = []"
| "joined [w] = w"
| "joined (w # ws) = w @ CHR '','' # joined ws"

fun stringify :: "(rat \<Rightarrow> string) \<Rightarrow> json \<Rightarrow> string" where
  "stringify num JNull = ''null''"
| "stringify num (JBool b) = (if b then ''true'' else ''false'')"
| "stringify num (JNum r) = number_json_text num r"
| "stringify num (JStr s) = quoted s"
| "stringify num (JArr vs) = CHR ''['' # joined (map (stringify num) vs) @ '']''"
| "stringify num (JObj ob) =
     CHR 0x7B # joined (map (\<lambda>(k, v). quoted k @ CHR '':'' # stringify num v) ob) @ [CHR 0x7D]"

lemma decimal_digits: "decimal n \<noteq> [] \<and> list_all is_digit (decimal n)"
proof (induction n rule: decimal.induct)
  case (1 n)
  then show ?case
    by (subst (1 2) decimal.simps) (auto simp: is_digit_digit_char)
qed

end
