(* ===== verification/Worker_Execution.thy ===== *)
theory Worker_Execution
  imports Worker_Registry Json_Text
begin

text \<open>
  \<open>packages/persistence/src/controlled-worker-execution.ts\<close>: a worker that holds a lease starts an
  attempt, moves it through uploading and verifying, and completes or fails it; a failure may
  schedule a retry job. Every transition is recorded as an event and under its idempotency key.
  Methods are modelled as in the worker registry; executors and receipts stay JSON values.
\<close>

section \<open>Inputs and results\<close>

definition ACTIVE_EXECUTION_STATES :: "attempt_status list" where
  "ACTIVE_EXECUTION_STATES = [X_RUNNING, X_UPLOADING, X_VERIFYING]"

definition MAX_RETRY_BACKOFF_MS :: int where
  "MAX_RETRY_BACKOFF_MS = 30 * 60000"

record start_input =
  si_executor :: json
  si_idempotencyKey :: string

record complete_input =
  ci_receipt :: json
  ci_idempotencyKey :: string

record fail_input =
  fi_code :: string
  fi_message :: string
  fi_retryable :: bool
  fi_idempotencyKey :: string

text \<open>\<open>ExecutionTransitionResult\<close>: the attempt, the event and whether the call was a replay.\<close>

type_synonym transition_result = "execution_attempt \<times> execution_event \<times> bool"

type_synonym attempt_record = "execution_attempt \<times> execution_event list"

record lease_context =
  ctx_lease :: job_lease
  ctx_job :: job
  ctx_run :: collection_run
  ctx_tokenDigest :: string

record read_authorization =
  ra_workspaceId :: string
  ra_runId :: string
  ra_jobId :: string
  ra_leaseId :: string
  ra_workerId :: string
  ra_job :: job

datatype execution_outcome = Receipt json | Failure execution_failure

section \<open>Retry delays\<close>

definition readUInt32BE :: "byte list \<Rightarrow> 32 word" where
  "readUInt32BE bs = word_rcat (take 4 bs)"

text \<open>
  Doubles are exact on these integers below \<open>2^53\<close>; \<open>Math.floor(seed * (window + 1))\<close> with
  \<open>seed = word / 0xffffffff\<close> is the integer quotient.
\<close>

definition computeExecutionRetryDelayMs :: "platform \<Rightarrow> job \<Rightarrow> int" where
  "computeExecutionRetryDelayMs env j =
     (let baseMs = retry_backoffSeconds (plan_policy (job_planSnapshot j)) * 1000;
          capMs = max baseMs MAX_RETRY_BACKOFF_MS;
          exponent = min (max (job_attempt j - 1) 0) 20;
          exponentialMs = min (baseMs * 2 ^ nat exponent) capMs;
          remainingBeforeCap = max (capMs - exponentialMs) 0;
          jitterWindowMs = min (exponentialMs div 4) remainingBeforeCap
      in if jitterWindowMs = 0 then exponentialMs
         else let seed = uint (readUInt32BE (sha256 env (job_id j @ CHR '':'' # int_text (job_attempt j))))
              in exponentialMs + seed * (jitterWindowMs + 1) div 0xffffffff)"

section \<open>Idempotency keys and payloads\<close>

definition normalizeTransitionKey :: "string \<Rightarrow> string result" where
  "normalizeTransitionKey v =
     (let normalized = trim v
      in if length normalized = 0 \<or> 128 < length normalized then Inl RegistryValidationError
         else Inr normalized)"

definition hashPayload :: "platform \<Rightarrow> json \<Rightarrow> string" where
  "hashPayload env v = digestHex env (stringify (number_text env) v)"

definition findReplay ::
    "control_store \<Rightarrow> string \<Rightarrow> string \<Rightarrow> string \<Rightarrow> string \<Rightarrow> string \<Rightarrow> transition_result option result" where
  "findReplay db workerId leaseId key operation payloadDigest =
     (case find (\<lambda>q. qr_worker_id q = workerId \<and> qr_lease_id q = leaseId \<and> qr_idempotency_key q = key)
             (requests db) of
        None \<Rightarrow> Inr None
      | Some q \<Rightarrow>
          if qr_operation q \<noteq> operation \<or> qr_payload_hash q \<noteq> payloadDigest
          then conflict (Ledger EXECUTION_IDEMPOTENCY_CONFLICT)
          else if isExecutionAttempt (attempt_json (fst (qr_result q)))
                  \<and> isExecutionEvent (event_json (snd (qr_result q)))
          then Inr (Some (fst (qr_result q), snd (qr_result q), True))
          else Inl RegistryValidationError)"

definition storeReplay ::
    "string \<Rightarrow> string \<Rightarrow> string \<Rightarrow> string \<Rightarrow> string \<Rightarrow> execution_attempt \<Rightarrow> execution_event
      \<Rightarrow> control_store \<Rightarrow> control_store result" where
  "storeReplay workerId leaseId key operation payloadDigest attempt event db =
     insert_request \<lparr> qr_worker_id = workerId, qr_lease_id = leaseId, qr_idempotency_key = key,
       qr_operation = operation, qr_payload_hash = payloadDigest, qr_result = (attempt, event) \<rparr> db"

section \<open>The lease an execution runs under\<close>

definition loadLeaseContext :: "control_store \<Rightarrow> string \<Rightarrow> lease_context result" where
  "loadLeaseContext db leaseId =
     (case lease_by_id leaseId db of
        None \<Rightarrow> Inl (RegistryError (General EXECUTION_LEASE_NOT_FOUND))
      | Some l \<Rightarrow>
          (case (job_by_id (lr_job_id l) db, run_by_id (lr_run_id l) db) of
             (Some j, Some r) \<Rightarrow>
               and_then (parseLease (lr_document l)) (\<lambda>lease.
               and_then (parseJob (jr_document j)) (\<lambda>job.
               and_then (parseRun (rr_document r)) (\<lambda>run.
                 Inr \<lparr> ctx_lease = lease, ctx_job = job, ctx_run = run,
                        ctx_tokenDigest = lr_token_digest l \<rparr>)))
           | _ \<Rightarrow> Inl (RegistryError (General EXECUTION_LEASE_NOT_FOUND))))"

definition ownedContext ::
    "platform \<Rightarrow> control_store \<Rightarrow> string \<Rightarrow> string \<Rightarrow> string \<Rightarrow> lease_context result" where
  "ownedContext env db workerId leaseId leaseToken =
     and_then (loadLeaseContext db leaseId) (\<lambda>c.
       if lease_workerId (ctx_lease c) \<noteq> workerId \<or> \<not> verifyDigest env leaseToken (ctx_tokenDigest c)
       then conflict (Execution EXECUTION_LEASE_AUTHENTICATION_FAILED) else Inr c)"

definition authenticate ::
    "platform \<Rightarrow> control_store \<Rightarrow> string \<Rightarrow> string \<Rightarrow> string \<Rightarrow> string \<Rightarrow> lease_context result" where
  "authenticate env db workerId credential leaseId leaseToken =
     and_then (verifyCredential env db workerId credential) (\<lambda>_.
       ownedContext env db workerId leaseId leaseToken)"

definition dates_le :: "js_date \<Rightarrow> js_date \<Rightarrow> bool" where
  "dates_le a b = (case (a, b) of (Some x, Some y) \<Rightarrow> x \<le> y | _ \<Rightarrow> False)"

definition requireActiveContext ::
    "platform \<Rightarrow> control_store \<Rightarrow> string \<Rightarrow> string \<Rightarrow> string \<Rightarrow> string \<Rightarrow> lease_context result" where
  "requireActiveContext env db workerId leaseId leaseToken now =
     and_then (ownedContext env db workerId leaseId leaseToken) (\<lambda>c.
       if lease_status (ctx_lease c) \<noteq> L_ACTIVE
          \<or> dates_le (parse_iso (lease_expiresAt (ctx_lease c))) (parse_iso now)
       then conflict (Execution EXECUTION_LEASE_NOT_ACTIVE) else Inr c)"

section \<open>Reading attempts\<close>

definition recordForAttempt :: "control_store \<Rightarrow> execution_attempt \<Rightarrow> attempt_record result" where
  "recordForAttempt db a =
     and_then (map_result (\<lambda>e. parseEvent (er_document e))
                (sort_key er_sequence (filter (\<lambda>e. er_attempt_id e = attempt_id a) (events db))))
       (\<lambda>es. Inr (a, es))"

definition record_of_row :: "control_store \<Rightarrow> attempt_row option \<Rightarrow> attempt_record option result" where
  "record_of_row db row =
     (case row of
        None \<Rightarrow> Inr None
      | Some r \<Rightarrow> and_then (parseAttempt (ar_document r)) (\<lambda>a.
                  and_then (recordForAttempt db a) (\<lambda>rec. Inr (Some rec))))"

definition getAttemptById :: "control_store \<Rightarrow> string \<Rightarrow> attempt_record option result" where
  "getAttemptById db i = record_of_row db (find_by ar_id i (attempts db))"

definition getByLeaseId :: "control_store \<Rightarrow> string \<Rightarrow> attempt_record option result" where
  "getByLeaseId db leaseId = record_of_row db (find_by ar_lease_id leaseId (attempts db))"

definition requireAttemptByLease :: "control_store \<Rightarrow> string \<Rightarrow> attempt_record result" where
  "requireAttemptByLease db leaseId =
     and_then (getByLeaseId db leaseId) (\<lambda>found.
       case found of
         None \<Rightarrow> Inl (RegistryError (General EXECUTION_ATTEMPT_NOT_FOUND))
       | Some rec \<Rightarrow> Inr rec)"

definition listForRun :: "control_store \<Rightarrow> string \<Rightarrow> attempt_record list result" where
  "listForRun db runId =
     map_result (\<lambda>r. and_then (parseAttempt (ar_document r)) (recordForAttempt db))
       (sort_key ar_started_at (filter (\<lambda>r. ar_run_id r = runId) (attempts db)))"

definition authorizeArtifactRead ::
    "platform \<Rightarrow> int \<Rightarrow> string \<Rightarrow> string \<Rightarrow> string \<Rightarrow> string \<Rightarrow> control_store \<Rightarrow> read_authorization result" where
  "authorizeArtifactRead env now workerId credential leaseId leaseToken db =
     and_then (verifyCredential env db workerId credential) (\<lambda>_.
     and_then (requireActiveContext env db workerId leaseId leaseToken (to_iso now)) (\<lambda>c.
       Inr \<lparr> ra_workspaceId = job_workspaceId (ctx_job c), ra_runId = job_runId (ctx_job c),
              ra_jobId = job_id (ctx_job c), ra_leaseId = lease_id (ctx_lease c),
              ra_workerId = workerId, ra_job = ctx_job c \<rparr>))"

section \<open>Statements\<close>

definition buildEvent ::
    "control_store \<Rightarrow> string \<Rightarrow> execution_attempt \<Rightarrow> attempt_status option \<Rightarrow> attempt_status \<Rightarrow> event_type
      \<Rightarrow> string \<Rightarrow> string \<Rightarrow> string \<Rightarrow> execution_event result" where
  "buildEvent db eventId attempt fromStatus toStatus eventType key payloadDigest recordedAt =
     (let sequence = int (length (filter (\<lambda>e. er_attempt_id e = attempt_id attempt) (events db))) + 1;
          event =
            \<lparr> event_id = eventId, event_attemptId = attempt_id attempt, event_sequence = sequence,
              event_type = eventType, event_fromStatus = fromStatus, event_toStatus = toStatus,
              event_idempotencyKey = key, event_payloadHash = payloadDigest,
              event_recordedAt = recordedAt \<rparr>
      in if isExecutionEvent (event_json event) then Inr event else Inl RegistryValidationError)"

definition updateAttempt :: "execution_attempt \<Rightarrow> control_store \<Rightarrow> control_store result" where
  "updateAttempt a db =
     (if isExecutionAttempt (attempt_json a) then Inr (update_attempt a db)
      else Inl RegistryValidationError)"

definition updateJob :: "job \<Rightarrow> job_status \<Rightarrow> string \<Rightarrow> control_store \<Rightarrow> control_store result" where
  "updateJob j status timestamp db =
     (let next = j\<lparr>job_status := status, job_updatedAt := timestamp\<rparr>
      in if isJob (job_json next) then Inr (update_job next db) else Inl RegistryValidationError)"

definition updateRun :: "collection_run \<Rightarrow> run_status \<Rightarrow> string \<Rightarrow> control_store \<Rightarrow> control_store result" where
  "updateRun r status timestamp db =
     (let next = r\<lparr>run_status := status, run_updatedAt := timestamp\<rparr>
      in if isCollectionRun (run_json next) then Inr (update_run next db)
         else Inl RegistryValidationError)"

definition ended_lease :: "job_lease \<Rightarrow> lease_status \<Rightarrow> string \<Rightarrow> string \<Rightarrow> job_lease" where
  "ended_lease l status reason timestamp =
     l\<lparr> lease_status := status, lease_updatedAt := timestamp, lease_closedAt := Some timestamp,
        lease_closeReason := Some reason \<rparr>"

definition closeExecutionLease ::
    "job_lease \<Rightarrow> lease_status \<Rightarrow> string \<Rightarrow> string \<Rightarrow> control_store \<Rightarrow> control_store result" where
  "closeExecutionLease l status reason timestamp db =
     (let next = ended_lease l status reason timestamp
      in if isJobLease (lease_json next) then Inr (update_lease_closed next db)
         else Inl RegistryValidationError)"

definition retryJob :: "job \<Rightarrow> string \<Rightarrow> string \<Rightarrow> string \<Rightarrow> job" where
  "retryJob j jobId availableAt timestamp =
     j\<lparr> job_id := jobId, job_status := J_PENDING, job_attempt := job_attempt j + 1,
        job_availableAt := availableAt, job_createdAt := timestamp, job_updatedAt := timestamp \<rparr>"

definition insertRetryJob ::
    "platform \<Rightarrow> string \<Rightarrow> job \<Rightarrow> string \<Rightarrow> control_store \<Rightarrow> control_store result" where
  "insertRetryJob env jobId j timestamp db =
     and_then (toISOString (case parse_iso timestamp of
                              None \<Rightarrow> None
                            | Some t \<Rightarrow> new_Date (t + computeExecutionRetryDelayMs env j)))
       (\<lambda>availableAt.
          if isJob (job_json (retryJob j jobId availableAt timestamp))
          then insert_job (retryJob j jobId availableAt timestamp) db
          else Inl RegistryValidationError)"

section \<open>Starting and advancing\<close>

definition new_attempt :: "string \<Rightarrow> string \<Rightarrow> json \<Rightarrow> job \<Rightarrow> job_lease \<Rightarrow> string \<Rightarrow> execution_attempt" where
  "new_attempt attemptId workerId executor j l timestamp =
     \<lparr> attempt_id = attemptId, attempt_workspaceId = job_workspaceId j, attempt_runId = job_runId j,
       attempt_jobId = job_id j, attempt_jobAttempt = job_attempt j, attempt_leaseId = lease_id l,
       attempt_workerId = workerId, attempt_connector = job_connector j, attempt_executor = executor,
       attempt_status = X_RUNNING, attempt_startedAt = timestamp, attempt_updatedAt = timestamp,
       attempt_completedAt = None, attempt_receipt = None, attempt_failure = None \<rparr>"

definition start_body ::
    "platform \<Rightarrow> int \<Rightarrow> string \<Rightarrow> string \<Rightarrow> string \<Rightarrow> string \<Rightarrow> string \<Rightarrow> json \<Rightarrow> string \<Rightarrow> string
      \<Rightarrow> control_store \<Rightarrow> (transition_result \<times> control_store) result" where
  "start_body env now attemptId eventId workerId leaseId leaseToken executor key payloadDigest db =
     (let timestamp = to_iso now in
      and_then (requireActiveContext env db workerId leaseId leaseToken timestamp) (\<lambda>c.
        if job_status (ctx_job c) \<noteq> J_LEASED \<or> run_status (ctx_run c) \<noteq> R_PENDING
        then conflict (Execution EXECUTION_START_STATE_CONFLICT)
        else and_then (getByLeaseId db leaseId) (\<lambda>found.
        if found \<noteq> None then conflict (Execution EXECUTION_ATTEMPT_ALREADY_EXISTS)
        else let attempt = new_attempt attemptId workerId executor (ctx_job c) (ctx_lease c) timestamp in
        if \<not> isExecutionAttempt (attempt_json attempt) then Inl RegistryValidationError
        else and_then (buildEvent db eventId attempt None X_RUNNING E_STARTED key payloadDigest timestamp) (\<lambda>event.
             and_then (insert_attempt attempt db) (\<lambda>db1.
             and_then (insert_event event db1) (\<lambda>db2.
             and_then (updateJob (ctx_job c) J_RUNNING timestamp db2) (\<lambda>db3.
             and_then (updateRun (ctx_run c) R_RUNNING timestamp db3) (\<lambda>db4.
             and_then (storeReplay workerId leaseId key ''START'' payloadDigest attempt event db4) (\<lambda>db5.
               Inr ((attempt, event, False), db5))))))))))"

text \<open>
  What every method does before its own transaction: authenticate, then answer a request already
  recorded under its key. \<open>k\<close> is the rest of the method.
\<close>

definition replay_or ::
    "platform \<Rightarrow> string \<Rightarrow> string \<Rightarrow> string \<Rightarrow> string \<Rightarrow> string result \<Rightarrow> string \<Rightarrow> string
      \<Rightarrow> (string \<Rightarrow> control_store \<Rightarrow> transition_result result \<times> control_store)
      \<Rightarrow> control_store \<Rightarrow> transition_result result \<times> control_store" where
  "replay_or env workerId credential leaseId leaseToken key operation payloadDigest k db =
     (case and_then key (\<lambda>normalized.
           and_then (authenticate env db workerId credential leaseId leaseToken) (\<lambda>_.
           and_then (findReplay db workerId leaseId normalized operation payloadDigest) (\<lambda>replay.
             Inr (normalized, replay)))) of
        Inl e \<Rightarrow> (Inl e, db)
      | Inr (normalized, Some result) \<Rightarrow> (Inr result, db)
      | Inr (normalized, None) \<Rightarrow> k normalized db)"

definition startExecution ::
    "platform \<Rightarrow> int \<Rightarrow> string \<Rightarrow> string \<Rightarrow> string \<Rightarrow> string \<Rightarrow> string \<Rightarrow> string \<Rightarrow> start_input
      \<Rightarrow> control_store \<Rightarrow> transition_result result \<times> control_store" where
  "startExecution env now attemptId eventId workerId credential leaseId leaseToken inp db =
     (if \<not> isExecutionExecutor (si_executor inp) then (Inl RegistryValidationError, db)
      else let payloadDigest = hashPayload env (JObj [(''executor'', si_executor inp)])
           in replay_or env workerId credential leaseId leaseToken
                (normalizeTransitionKey (si_idempotencyKey inp)) ''START'' payloadDigest
                (\<lambda>key db. in_transaction db
                   (start_body env now attemptId eventId workerId leaseId leaseToken (si_executor inp)
                      key payloadDigest db)) db)"

definition transition_body ::
    "platform \<Rightarrow> int \<Rightarrow> string \<Rightarrow> string \<Rightarrow> string \<Rightarrow> string \<Rightarrow> string \<Rightarrow> event_type \<Rightarrow> attempt_status
      \<Rightarrow> attempt_status \<Rightarrow> string \<Rightarrow> control_store \<Rightarrow> (transition_result \<times> control_store) result" where
  "transition_body env now eventId workerId leaseId leaseToken key operation expected target payloadDigest db =
     (let timestamp = to_iso now in
      and_then (requireActiveContext env db workerId leaseId leaseToken timestamp) (\<lambda>c.
      and_then (requireAttemptByLease db leaseId) (\<lambda>record.
        if attempt_status (fst record) \<noteq> expected \<or> job_status (ctx_job c) \<noteq> job_of_attempt expected
        then conflict (Execution EXECUTION_TRANSITION_CONFLICT)
        else let attempt = (fst record)\<lparr>attempt_status := target, attempt_updatedAt := timestamp\<rparr> in
             and_then (buildEvent db eventId attempt (Some expected) target operation key payloadDigest timestamp)
               (\<lambda>event.
             and_then (updateAttempt attempt db) (\<lambda>db1.
             and_then (insert_event event db1) (\<lambda>db2.
             and_then (updateJob (ctx_job c) (job_of_attempt target) timestamp db2) (\<lambda>db3.
             and_then (storeReplay workerId leaseId key (event_type_name operation) payloadDigest attempt event db3)
               (\<lambda>db4. Inr ((attempt, event, False), db4))))))))) "

definition transitionExecution ::
    "platform \<Rightarrow> int \<Rightarrow> string \<Rightarrow> string \<Rightarrow> string \<Rightarrow> string \<Rightarrow> string \<Rightarrow> string \<Rightarrow> event_type
      \<Rightarrow> attempt_status \<Rightarrow> attempt_status \<Rightarrow> control_store \<Rightarrow> transition_result result \<times> control_store" where
  "transitionExecution env now eventId workerId credential leaseId leaseToken idempotencyKey
       operation expected target db =
     (let payloadDigest = hashPayload env (JObj [(''target'', JStr (attempt_status_name target))])
      in replay_or env workerId credential leaseId leaseToken (normalizeTransitionKey idempotencyKey)
           (event_type_name operation) payloadDigest
           (\<lambda>key db. in_transaction db
              (transition_body env now eventId workerId leaseId leaseToken key operation expected target
                 payloadDigest db)) db)"

definition markUploading ::
    "platform \<Rightarrow> int \<Rightarrow> string \<Rightarrow> string \<Rightarrow> string \<Rightarrow> string \<Rightarrow> string \<Rightarrow> string
      \<Rightarrow> control_store \<Rightarrow> transition_result result \<times> control_store" where
  "markUploading env now eventId workerId credential leaseId leaseToken idempotencyKey =
     transitionExecution env now eventId workerId credential leaseId leaseToken idempotencyKey
       E_UPLOADING X_RUNNING X_UPLOADING"

definition markVerifying ::
    "platform \<Rightarrow> int \<Rightarrow> string \<Rightarrow> string \<Rightarrow> string \<Rightarrow> string \<Rightarrow> string \<Rightarrow> string
      \<Rightarrow> control_store \<Rightarrow> transition_result result \<times> control_store" where
  "markVerifying env now eventId workerId credential leaseId leaseToken idempotencyKey =
     transitionExecution env now eventId workerId credential leaseId leaseToken idempotencyKey
       E_VERIFYING X_UPLOADING X_VERIFYING"

section \<open>Evidence for a completion\<close>

fun receipt_field :: "string \<Rightarrow> json \<Rightarrow> json" where
  "receipt_field k (JObj ob) = (case field k ob of None \<Rightarrow> JNull | Some v \<Rightarrow> v)"
| "receipt_field k _ = JNull"

fun json_text :: "json \<Rightarrow> string" where
  "json_text (JStr s) = s"
| "json_text _ = []"

fun json_number :: "json \<Rightarrow> rat" where
  "json_number (JNum r) = r"
| "json_number _ = 0"

fun json_texts :: "json \<Rightarrow> string list" where
  "json_texts (JArr vs) = map json_text vs"
| "json_texts _ = []"

definition assertReceiptMatchesJob :: "json \<Rightarrow> job \<Rightarrow> unit result" where
  "assertReceiptMatchesJob receipt j =
     (let requested = map artifact_kind_name (plan_artifactKinds (job_planSnapshot j));
          supported = map artifact_kind_name (connector_outputArtifactKinds (job_connectorSnapshot j));
          unsupported = filter (\<lambda>k. k \<notin> set requested \<or> k \<notin> set supported)
                          (json_texts (receipt_field ''outputKinds'' receipt))
      in if unsupported \<noteq> [] then conflict (Execution EXECUTION_RECEIPT_OUTPUT_MISMATCH) else Inr ())"

definition artifact_evidence ::
    "artifact_row list \<Rightarrow> session_row list \<Rightarrow> string \<Rightarrow> string \<Rightarrow> (rat \<times> string) result" where
  "artifact_evidence arts sessions attemptId receiptId =
     (case find (\<lambda>a. xr_receipt_id a = receiptId) arts of
        None \<Rightarrow> conflict (Execution ARTIFACT_RECEIPT_NOT_FINALIZED)
      | Some a \<Rightarrow>
          (case find_by sr_id (xr_session_id a) sessions of
             None \<Rightarrow> conflict (Execution ARTIFACT_RECEIPT_NOT_FINALIZED)
           | Some s \<Rightarrow>
               if sr_status s \<noteq> ''FINALIZED'' \<or> sr_receipt s = None \<or> sr_receipt s = Some []
               then conflict (Execution ARTIFACT_RECEIPT_NOT_FINALIZED)
               else if xr_execution_attempt_id a \<noteq> attemptId
               then conflict (Execution ARTIFACT_RECEIPT_EXECUTION_MISMATCH)
               else (case (receipt_field ''sizeBytes'' (xr_document a), receipt_field ''artifactKind'' (xr_document a)) of
                       (JNum bytes, JStr kind) \<Rightarrow> Inr (bytes, kind)
                     | _ \<Rightarrow> conflict (Execution ARTIFACT_RECEIPT_EXECUTION_MISMATCH))))"

definition assertArtifactEvidence :: "control_store \<Rightarrow> string \<Rightarrow> json \<Rightarrow> job \<Rightarrow> unit result" where
  "assertArtifactEvidence db attemptId receipt j =
     (if receipt_field ''metadataOnly'' receipt = JBool True then Inr ()
      else case artifacts db of
        None \<Rightarrow> conflict (Execution ARTIFACT_RECEIPT_NOT_FINALIZED)
      | Some (arts, sessions) \<Rightarrow>
          and_then (map_result (artifact_evidence arts sessions attemptId)
                      (json_texts (receipt_field ''artifactReceiptIds'' receipt))) (\<lambda>rows.
            let observedKinds = sort (unique_list (map snd rows));
                declaredKinds = sort (json_texts (receipt_field ''outputKinds'' receipt));
                observedBytes = sum_list (map fst rows);
                reportsAllObservedPages =
                  (job_type j = PAGE_UPDATE_CHECK \<and> \<not> fetchAttachments (plan_policy (job_planSnapshot j)));
                observed = json_number (receipt_field ''itemsObserved'' receipt);
                itemCountMismatch =
                  (if reportsAllObservedPages then of_nat (length rows) > observed
                   else of_nat (length rows) \<noteq> observed)
            in if observedKinds \<noteq> declaredKinds \<or> itemCountMismatch
                  \<or> observedBytes \<noteq> json_number (receipt_field ''bytesPrepared'' receipt)
               then conflict (Execution ARTIFACT_RECEIPT_TOTAL_MISMATCH) else Inr ()))"

section \<open>Ending an attempt\<close>

definition check_completion ::
    "control_store \<Rightarrow> execution_attempt \<Rightarrow> job \<Rightarrow> execution_outcome \<Rightarrow> unit result" where
  "check_completion db a j terminal =
     (case terminal of
        Receipt receipt \<Rightarrow>
          if attempt_status a \<noteq> X_VERIFYING \<or> job_status j \<noteq> J_VERIFYING
          then conflict (Execution EXECUTION_TRANSITION_CONFLICT)
          else if attempt_executor a \<noteq> receipt_field ''executor'' receipt
          then conflict (Execution EXECUTION_EXECUTOR_MISMATCH)
          else and_then (assertReceiptMatchesJob receipt j) (\<lambda>_.
                 assertArtifactEvidence db (attempt_id a) receipt j)
      | Failure _ \<Rightarrow>
          if attempt_status a \<notin> set ACTIVE_EXECUTION_STATES
          then conflict (Execution EXECUTION_TRANSITION_CONFLICT) else Inr ())"

fun outcome_status :: "execution_outcome \<Rightarrow> attempt_status" where
  "outcome_status (Receipt _) = X_COMPLETED"
| "outcome_status (Failure _) = X_FAILED"

fun outcome_event :: "execution_outcome \<Rightarrow> event_type" where
  "outcome_event (Receipt _) = E_COMPLETED"
| "outcome_event (Failure _) = E_FAILED"

fun ended_attempt :: "execution_attempt \<Rightarrow> execution_outcome \<Rightarrow> string \<Rightarrow> execution_attempt" where
  "ended_attempt a (Receipt r) timestamp =
     a\<lparr>attempt_status := X_COMPLETED, attempt_updatedAt := timestamp,
       attempt_completedAt := Some timestamp, attempt_receipt := Some r\<rparr>"
| "ended_attempt a (Failure f) timestamp =
     a\<lparr>attempt_status := X_FAILED, attempt_updatedAt := timestamp,
       attempt_completedAt := Some timestamp, attempt_failure := Some f\<rparr>"

text \<open>What the outcome writes to the job and its run, and the reason the lease is closed with.\<close>

definition settle_job ::
    "platform \<Rightarrow> string \<Rightarrow> execution_outcome \<Rightarrow> job \<Rightarrow> collection_run \<Rightarrow> string
      \<Rightarrow> control_store \<Rightarrow> (string \<times> control_store) result" where
  "settle_job env retryJobId terminal j run timestamp db =
     (case terminal of
        Receipt _ \<Rightarrow>
          and_then (updateJob j J_COMPLETED timestamp db) (\<lambda>db1.
          and_then (updateRun run R_COMPLETED timestamp db1) (\<lambda>db2. Inr (''EXECUTION_COMPLETED'', db2)))
      | Failure f \<Rightarrow>
          if failure_retryable f \<and> job_attempt j < job_maxAttempts j
          then and_then (updateJob j J_RETRY timestamp db) (\<lambda>db1.
               and_then (insertRetryJob env retryJobId j timestamp db1) (\<lambda>db2.
               and_then (updateRun run R_PENDING timestamp db2) (\<lambda>db3.
                 Inr (''EXECUTION_RETRY_SCHEDULED'', db3))))
          else if failure_retryable f
          then and_then (updateJob j J_DEAD_LETTER timestamp db) (\<lambda>db1.
               and_then (updateRun run R_FAILED timestamp db1) (\<lambda>db2.
                 Inr (''EXECUTION_RETRY_EXHAUSTED'', db2)))
          else and_then (updateJob j J_FAILED timestamp db) (\<lambda>db1.
               and_then (updateRun run R_FAILED timestamp db1) (\<lambda>db2.
                 Inr (''EXECUTION_FAILED'', db2))))"

definition terminal_body ::
    "platform \<Rightarrow> int \<Rightarrow> string \<Rightarrow> string \<Rightarrow> string \<Rightarrow> string \<Rightarrow> string \<Rightarrow> string \<Rightarrow> string \<Rightarrow> string
      \<Rightarrow> execution_outcome \<Rightarrow> control_store \<Rightarrow> (transition_result \<times> control_store) result" where
  "terminal_body env now eventId retryJobId workerId leaseId leaseToken key operation payloadDigest terminal db =
     (let timestamp = to_iso now in
      and_then (requireActiveContext env db workerId leaseId leaseToken timestamp) (\<lambda>c.
      and_then (requireAttemptByLease db leaseId) (\<lambda>record.
      and_then (check_completion db (fst record) (ctx_job c) terminal) (\<lambda>_.
        let attempt = ended_attempt (fst record) terminal timestamp in
        if \<not> isExecutionAttempt (attempt_json attempt) then Inl RegistryValidationError
        else and_then (buildEvent db eventId attempt (Some (attempt_status (fst record)))
                         (outcome_status terminal) (outcome_event terminal) key payloadDigest timestamp) (\<lambda>event.
             and_then (updateAttempt attempt db) (\<lambda>db1.
             and_then (insert_event event db1) (\<lambda>db2.
             and_then (settle_job env retryJobId terminal (ctx_job c) (ctx_run c) timestamp db2) (\<lambda>(reason, db3).
             and_then (closeExecutionLease (ctx_lease c) L_RELEASED reason timestamp db3) (\<lambda>db4.
             and_then (storeReplay workerId leaseId key operation payloadDigest attempt event db4) (\<lambda>db5.
               Inr ((attempt, event, False), db5)))))))))))"

definition completeExecution ::
    "platform \<Rightarrow> int \<Rightarrow> string \<Rightarrow> string \<Rightarrow> string \<Rightarrow> string \<Rightarrow> string \<Rightarrow> string \<Rightarrow> complete_input
      \<Rightarrow> control_store \<Rightarrow> transition_result result \<times> control_store" where
  "completeExecution env now eventId retryJobId workerId credential leaseId leaseToken inp db =
     (if \<not> isExecutionReceipt (ci_receipt inp) then (Inl RegistryValidationError, db)
      else let payloadDigest = hashPayload env (JObj [(''receipt'', ci_receipt inp)])
           in replay_or env workerId credential leaseId leaseToken
                (normalizeTransitionKey (ci_idempotencyKey inp)) ''COMPLETE'' payloadDigest
                (\<lambda>key db. in_transaction db
                   (terminal_body env now eventId retryJobId workerId leaseId leaseToken key ''COMPLETE''
                      payloadDigest (Receipt (ci_receipt inp)) db)) db)"

text \<open>\<open>fail\<close> reads the clock twice: for the failure and, later, for the transition.\<close>

definition failExecution ::
    "platform \<Rightarrow> int \<Rightarrow> int \<Rightarrow> string \<Rightarrow> string \<Rightarrow> string \<Rightarrow> string \<Rightarrow> string \<Rightarrow> string \<Rightarrow> fail_input
      \<Rightarrow> control_store \<Rightarrow> transition_result result \<times> control_store" where
  "failExecution env occurred now eventId retryJobId workerId credential leaseId leaseToken inp db =
     (let code = trim (fi_code inp); message = trim (fi_message inp);
          payloadDigest = hashPayload env (JObj [(''code'', JStr code), (''message'', JStr message),
                            (''retryable'', JBool (fi_retryable inp))])
      in replay_or env workerId credential leaseId leaseToken
           (normalizeTransitionKey (fi_idempotencyKey inp)) ''FAIL'' payloadDigest
           (\<lambda>key db.
              let failure = \<lparr> failure_code = code, failure_message = message,
                              failure_retryable = fi_retryable inp, failure_occurredAt = to_iso occurred \<rparr>
              in if \<not> isExecutionFailure (failure_json failure) then (Inl RegistryValidationError, db)
                 else in_transaction db
                        (terminal_body env now eventId retryJobId workerId leaseId leaseToken key ''FAIL''
                           payloadDigest (Failure failure) db)) db)"

section \<open>Reconciling attempts whose lease has ended\<close>

record reconcile_row =
  rc_attempt :: execution_attempt
  rc_lease :: job_lease
  rc_job :: job
  rc_run :: collection_run

definition reconcile_join :: "string \<Rightarrow> control_store \<Rightarrow> attempt_row \<Rightarrow> reconcile_row list" where
  "reconcile_join now db a =
     (case (lease_by_id (ar_lease_id a) db, job_by_id (ar_job_id a) db, run_by_id (ar_run_id a) db) of
        (Some l, Some j, Some r) \<Rightarrow>
          if ar_status a \<in> set ACTIVE_EXECUTION_STATES \<and> (lr_status l \<noteq> L_ACTIVE \<or> lr_expires_at l \<le> now)
          then [\<lparr> rc_attempt = ar_document a, rc_lease = lr_document l, rc_job = jr_document j,
                  rc_run = rr_document r \<rparr>]
          else []
      | _ \<Rightarrow> [])"

definition reconcile_rows :: "string \<Rightarrow> control_store \<Rightarrow> reconcile_row list" where
  "reconcile_rows now db =
     concat (map (reconcile_join now db) (sort_key (\<lambda>a. (ar_started_at a, ar_id a)) (attempts db)))"

definition abandonment :: "string \<Rightarrow> execution_failure" where
  "abandonment now =
     \<lparr> failure_code = ''LEASE_EXPIRED_DURING_EXECUTION'',
       failure_message = ''The execution lease ended after execution started; external outcome is unknown.'',
       failure_retryable = False, failure_occurredAt = now \<rparr>"

definition reconcile_one ::
    "platform \<Rightarrow> string \<Rightarrow> string \<times> reconcile_row \<Rightarrow> control_store \<Rightarrow> control_store result" where
  "reconcile_one env now = (\<lambda>(eventId, row) db.
     and_then (parseAttempt (rc_attempt row)) (\<lambda>attempt.
     and_then (parseLease (rc_lease row)) (\<lambda>lease.
     and_then (parseJob (rc_job row)) (\<lambda>j.
     and_then (parseRun (rc_run row)) (\<lambda>run.
       let next = ended_attempt attempt (Failure (abandonment now)) now;
           key = take 128 (''system-reconcile-'' @ lease_id lease);
           payloadDigest = hashPayload env (JObj [(''code'', JStr (failure_code (abandonment now))),
                             (''leaseStatus'', JStr (lease_status_name (lease_status lease)))])
       in and_then (buildEvent db eventId next (Some (attempt_status attempt)) X_FAILED E_ABANDONED
                      key payloadDigest now) (\<lambda>event.
          and_then (updateAttempt next db) (\<lambda>db1.
          and_then (insert_event event db1) (\<lambda>db2.
          and_then (updateJob j J_FAILED now db2) (\<lambda>db3.
          and_then (updateRun run R_FAILED now db3) (\<lambda>db4.
            if lease_status lease = L_ACTIVE
            then closeExecutionLease lease L_EXPIRED ''LEASE_EXPIRED_DURING_EXECUTION'' now db4
            else Inr db4)))))))))) "

text \<open>\<open>eventIds i\<close> is the \<open>i\<close>-th identifier the event factory hands out.\<close>

definition reconcileExpired ::
    "platform \<Rightarrow> int \<Rightarrow> (nat \<Rightarrow> string) \<Rightarrow> control_store \<Rightarrow> nat result \<times> control_store" where
  "reconcileExpired env now eventIds db =
     in_transaction db
       (let rows = reconcile_rows (to_iso now) db
        in and_then (fold_result (reconcile_one env (to_iso now))
                       (zip (map eventIds [0..<length rows]) rows) db)
             (\<lambda>db1. Inr (length rows, db1)))"

end
