(* ===== verification/Lease_Protocol.thy ===== *)
theory Lease_Protocol
  imports Worker_Registry
begin

text \<open>
  What the worker registry guarantees. Each statement sequence on leases is one abstract step
  (closing a lease and returning its job; claiming), each method a sequence of them, so every
  method keeps \<open>coordinated\<close>; and the guards of the claim and the renewal hold of the result: the
  claimed job is pending, available, of the worker's workspace, one the worker can run, within the
  domain quota and first in priority order; a renewal never passes the lifetime limit.
\<close>

section \<open>Closing a lease\<close>

lemma jobWithStatus_Inr:
  "jobWithStatus j s t = Inr j' \<longleftrightarrow>
     j' = j\<lparr>job_status := s, job_updatedAt := t\<rparr> \<and> job_valid (j\<lparr>job_status := s, job_updatedAt := t\<rparr>)"
  by (auto simp: jobWithStatus_def Let_def doc_simps)

lemma closeLease_Inr:
  "closeLease l s t why db = Inr (l', db') \<longleftrightarrow>
     l' = closed_lease l s t why \<and> lease_valid l' \<and> db' = update_lease l' db"
  by (auto simp: closeLease_def Let_def doc_simps)

lemma returnJobToPending_Inr:
  "returnJobToPending i t db = Inr db' \<longleftrightarrow>
     (case job_by_id i db of
        None \<Rightarrow> db' = db
      | Some r \<Rightarrow> job_valid (jr_document r) \<and>
          (if job_status (jr_document r) \<noteq> J_LEASED then db' = db
           else job_valid ((jr_document r)\<lparr>job_status := J_PENDING, job_updatedAt := t\<rparr>)
                \<and> db' = update_job ((jr_document r)\<lparr>job_status := J_PENDING, job_updatedAt := t\<rparr>) db))"
  by (auto simp: returnJobToPending_def and_then_Inr jobWithStatus_Inr split: option.splits)

lemma closed_lease_shape [simp]:
  "lease_id (closed_lease l s t why) = lease_id l" "lease_status (closed_lease l s t why) = s"
  "lease_jobId (closed_lease l s t why) = lease_jobId l" "lease_updatedAt (closed_lease l s t why) = t"
  "lease_workerId (closed_lease l s t why) = lease_workerId l" "lease_expiresAt (closed_lease l s t why) = lease_expiresAt l"
  by (simp_all add: closed_lease_def)

lemma write_lease_canon:
  assumes "lease_row_of d l = r" and "lease_id l' = lease_id l" "lease_workerId l' = lease_workerId l"
    "lease_jobId l' = lease_jobId l" "lease_runId l' = lease_runId l" "lease_acquiredAt l' = lease_acquiredAt l"
  shows "write_lease l' r = lease_row_of d l'"
  using assms by (auto simp: write_lease_def lease_row_of_def)

lemma write_job_canon:
  assumes "job_row_of j = r" and "job_id j' = job_id j" "job_runId j' = job_runId j" "job_type j' = job_type j"
    "job_attempt j' = job_attempt j" "job_availableAt j' = job_availableAt j" "job_createdAt j' = job_createdAt j"
  shows "write_job j' r = job_row_of j'"
  using assms by (auto simp: write_job_def job_row_of_def)

text \<open>Returning a job to the queue, on the abstract state.\<close>

lemma returnJobToPending_view:
  assumes "store_ok db" and "returnJobToPending i t db = Inr db'" and "job_by_id i db = Some r"
  shows "store_ok db'"
    "view_of db' = (view_of db)\<lparr>sp_jobs := (sp_jobs (view_of db))
       (i \<mapsto> (jr_run_id r, jr_attempt r, if jr_status r = J_LEASED then J_PENDING else jr_status r))\<rparr>"
    "leases db' = leases db" "workers db' = workers db" "attempts db' = attempts db"
    "collection_runs db' = collection_runs db" "events db' = events db"
proof -
  note col = job_columns [OF assms(1,3)]
  let ?p = "(jr_document r)\<lparr>job_status := J_PENDING, job_updatedAt := t\<rparr>"
  have id: "job_id ?p = i" using col(1) by simp
  have same: "job_status (jr_document r) \<noteq> J_LEASED \<Longrightarrow> db' = db"
    and upd: "job_status (jr_document r) = J_LEASED \<Longrightarrow> db' = update_job ?p db"
    using assms(2,3) by (auto simp: returnJobToPending_Inr)
  have w: "store_ok (update_job ?p db)"
    using assms(1,3) col id by (intro store_ok_update_job) (auto intro!: write_job_canon [OF col(7)])
  with same upd assms(1) show "store_ok db'" by (cases "job_status (jr_document r) = J_LEASED") simp_all
  show "view_of db' = (view_of db)\<lparr>sp_jobs := (sp_jobs (view_of db))
       (i \<mapsto> (jr_run_id r, jr_attempt r, if jr_status r = J_LEASED then J_PENDING else jr_status r))\<rparr>"
  proof (cases "job_status (jr_document r) = J_LEASED")
    case True
    then show ?thesis
      using view_update_job [of ?p db r] assms(3) id col(3) upd by simp
  next
    case False
    then have "(sp_jobs (view_of db))(i \<mapsto> (jr_run_id r, jr_attempt r, jr_status r)) = sp_jobs (view_of db)"
      using assms(3) by (simp add: fun_upd_idem)
    with False show ?thesis using same col(3) by simp
  qed
  show "leases db' = leases db" "workers db' = workers db" "attempts db' = attempts db"
    "collection_runs db' = collection_runs db" "events db' = events db"
    using same upd by (cases "job_status (jr_document r) = J_LEASED"; simp)+
qed

definition holds_lease :: "control_store \<Rightarrow> job_lease \<Rightarrow> bool" where
  "holds_lease db l \<longleftrightarrow>
     (\<exists>r. lease_by_id (lease_id l) db = Some r \<and> lr_document r = l \<and> lr_status r = L_ACTIVE)"

text \<open>Closing an active lease and returning its job is the abstract \<open>close\<close>.\<close>

lemma close_and_return_refines:
  assumes ok: "store_ok db" and inv: "coordinated (view_of db)" and h: "holds_lease db l"
    and s: "s \<noteq> L_ACTIVE" and c: "close_and_return s t why l db = Inr db'"
  shows "store_ok db'" "spec_step (view_of db) (view_of db')"
    "leases db' = update_by lr_id (lease_id l) (write_lease (closed_lease l s t why)) (leases db)"
    "workers db' = workers db" "attempts db' = attempts db"
    "collection_runs db' = collection_runs db" "events db' = events db"
proof -
  obtain r where r: "lease_by_id (lease_id l) db = Some r" "lr_document r = l" "lr_status r = L_ACTIVE"
    using h by (auto simp: holds_lease_def)
  note col = lease_columns [OF ok r(1), unfolded r(2)]
  let ?l = "closed_lease l s t why"
  let ?db = "update_lease ?l db"
  have ret: "returnJobToPending (lease_jobId l) t ?db = Inr db'"
    using c by (auto simp: close_and_return_def and_then_Inr closeLease_Inr)
  have ok1: "store_ok ?db"
    using r(1) col by (intro store_ok_update_lease [OF ok])
      (auto intro!: write_lease_canon [where l = l] simp: closed_lease_def)
  have lv: "sp_leases (view_of db) (lease_id l) = Some (lease_jobId l, True)"
    using r col by simp
  then have "sp_jobs (view_of db) (lease_jobId l) \<noteq> None"
    using inv unfolding coordinated_def lease_part_def by blast
  then obtain jr where jr: "job_by_id (lease_jobId l) db = Some jr" by auto
  then have jr': "job_by_id (lease_jobId l) ?db = Some jr" by simp
  note rv = returnJobToPending_view [OF ok1 ret jr']
  show "store_ok db'" by (rule rv(1))
  have v1: "view_of ?db = (view_of db)\<lparr>sp_leases := (sp_leases (view_of db))(lease_id l \<mapsto> (lease_jobId l, False))\<rparr>"
    using view_update_lease [of ?l db r] r s col by simp
  have "spec_step (view_of db) ((view_of db)\<lparr>sp_leases := (sp_leases (view_of db))(lease_id l \<mapsto> (lease_jobId l, False)),
      sp_jobs := (sp_jobs (view_of db))(lease_jobId l \<mapsto>
        (jr_run_id jr, jr_attempt jr, if jr_status jr = J_LEASED then J_PENDING else jr_status jr))\<rparr>)"
    using lv jr by (intro spec_step.close) auto
  then show "spec_step (view_of db) (view_of db')"
    using rv(2) v1 by simp
  show "leases db' = update_by lr_id (lease_id l) (write_lease (closed_lease l s t why)) (leases db)"
    "workers db' = workers db" "attempts db' = attempts db"
    "collection_runs db' = collection_runs db" "events db' = events db"
    using rv(3-7) by (simp_all add: update_lease_def)
qed

lemma write_lease_status [simp]:
  "lr_status (write_lease l r) = lease_status l" "lr_id (write_lease l r) = lr_id r"
  "lr_job_id (write_lease l r) = lr_job_id r" "lr_worker_id (write_lease l r) = lr_worker_id r"
  by (simp_all add: write_lease_def)

lemma holds_lease_after:
  assumes "holds_lease db l'" "lease_id l' \<noteq> lease_id l"
    and "leases db' = update_by lr_id (lease_id l) f (leases db)" "\<And>r. lr_id (f r) = lr_id r"
  shows "holds_lease db' l'"
proof -
  have ku: "keyed_update lr_id f" by unfold_locales (rule assms(4))
  show ?thesis
    using assms(1,2) by (simp add: holds_lease_def lease_by_id_def assms(3) keyed_update.find_update_other [OF ku])
qed

lemma row_found:
  assumes "store_ok db"
  shows "q \<in> set (leases db) \<Longrightarrow> lease_by_id (lr_id q) db = Some q"
    "j \<in> set (jobs db) \<Longrightarrow> job_by_id (jr_id j) db = Some j"
    "c \<in> set (collection_runs db) \<Longrightarrow> run_by_id (rr_id c) db = Some c"
  using assms coherentD(2) unfolding store_ok_def lease_by_id_def job_by_id_def run_by_id_def by metis+

lemma close_all_refines:
  assumes "store_ok db" "coordinated (view_of db)" "s \<noteq> L_ACTIVE"
    and "\<And>l. l \<in> set ls \<Longrightarrow> holds_lease db l" "distinct (map lease_id ls)"
    and "fold_result (close_and_return s t why) ls db = Inr db'"
  shows "store_ok db' \<and> spec_step\<^sup>*\<^sup>* (view_of db) (view_of db')
    \<and> workers db' = workers db \<and> attempts db' = attempts db
    \<and> collection_runs db' = collection_runs db \<and> events db' = events db
    \<and> length (leases db') = length (leases db)
    \<and> (\<forall>x\<in>set (leases db'). x \<in> set (leases db) \<and> lr_id x \<notin> lease_id ` set ls \<or> lr_status x = s)"
  using assms
proof (induction ls arbitrary: db)
  case (Cons l ls)
  from Cons.prems(6) obtain db1 where
    db1: "close_and_return s t why l db = Inr db1" "fold_result (close_and_return s t why) ls db1 = Inr db'"
    by (auto simp: and_then_Inr)
  have "holds_lease db l" using Cons.prems by simp
  note c = close_and_return_refines [OF Cons.prems(1,2) this Cons.prems(3) db1(1)]
  have inv1: "coordinated (view_of db1)"
    using spec_step_coordinated [OF c(2) Cons.prems(2)] .
  have held: "holds_lease db1 l'" if "l' \<in> set ls" for l'
  proof (rule holds_lease_after [OF _ _ c(3)])
    show "holds_lease db l'" "lease_id l' \<noteq> lease_id l"
      using that Cons.prems(4,5) by (auto simp: image_iff)
  qed simp
  have rest: "distinct (map lease_id ls)" using Cons.prems(5) by simp
  note ih = Cons.IH [OF c(1) inv1 Cons.prems(3) held rest db1(2)]
  have "x \<in> set (leases db) \<and> lr_id x \<notin> lease_id ` set (l # ls) \<or> lr_status x = s"
    if x: "x \<in> set (leases db')" for x
  proof -
    from ih x consider "lr_status x = s" | "x \<in> set (leases db1)" "lr_id x \<notin> lease_id ` set ls" by blast
    then show ?thesis
      by cases (auto simp: c(3) dest!: write_lease.in_updateD)
  qed
  with ih c show ?case
    by (auto intro: converse_rtranclp_into_rtranclp)
qed simp

section \<open>Reaping\<close>

lemma parsed_leases:
  assumes ok: "store_ok db" and "map_result (\<lambda>r. parseLease (lr_document r)) rows = Inr ls"
    and "set rows \<subseteq> set (leases db)" "distinct (map lr_id rows)" "\<And>r. r \<in> set rows \<Longrightarrow> lr_status r = L_ACTIVE"
  shows "ls = map lr_document rows" "distinct (map lease_id ls)" "map lease_id ls = map lr_id rows"
    "\<And>l. l \<in> set ls \<Longrightarrow> holds_lease db l" "\<And>l. l \<in> set ls \<Longrightarrow> lease_valid l"
proof -
  show ls: "ls = map lr_document rows"
    by (rule map_result_same [OF _ assms(2)]) simp
  have row: "lease_by_id (lr_id r) db = Some r" if "r \<in> set rows" for r
    using row_found(1) [OF ok] that assms(3) by blast
  have id: "lease_id (lr_document r) = lr_id r" if "r \<in> set rows" for r
    using lease_columns(1) [OF ok row [OF that]] .
  show m: "map lease_id ls = map lr_id rows" by (simp add: ls id)
  then show "distinct (map lease_id ls)" using assms(4) by simp
  show "holds_lease db l" if "l \<in> set ls" for l
    using that row id assms(5) by (auto simp: ls holds_lease_def)
  show "lease_valid l" if "l \<in> set ls" for l
    using that assms(2) by (auto simp: map_result_Inr in_set_conv_nth)
qed

lemma distinct_selected:
  "store_ok db \<Longrightarrow> distinct (map lr_id (sort_key f (filter P (leases db))))"
  by (auto simp: store_ok_def coherent_def distinct_map inj_on_def)

lemma reap_refines:
  assumes ok: "store_ok db" "coordinated (view_of db)"
    and reap: "reapExpiredInTransaction t db = Inr (n, db')"
  shows "store_ok db'" "spec_step\<^sup>*\<^sup>* (view_of db) (view_of db')" "workers db' = workers db"
    "attempts db' = attempts db" "collection_runs db' = collection_runs db" "events db' = events db"
    "n = length (expired_leases t db)"
    "\<And>x. x \<in> set (leases db') \<Longrightarrow> lr_status x = L_ACTIVE \<Longrightarrow>
       x \<in> set (leases db) \<and> \<not> lr_expires_at x \<le> t"
proof -
  obtain ls where ls: "map_result (\<lambda>r. parseLease (lr_document r)) (expired_leases t db) = Inr ls"
      "fold_result (expireLeaseInTransaction t) ls db = Inr db'" "n = length ls"
    using reap by (auto simp: reapExpiredInTransaction_def and_then_Inr)
  note p = parsed_leases [OF ok(1) ls(1)]
  have rows: "set (expired_leases t db) \<subseteq> set (leases db)" "distinct (map lr_id (expired_leases t db))"
    "\<And>r. r \<in> set (expired_leases t db) \<Longrightarrow> lr_status r = L_ACTIVE"
    using distinct_selected [OF ok(1)] by (auto simp: expired_leases_def)
  note p = p [OF rows]
  have c: "store_ok db' \<and> spec_step\<^sup>*\<^sup>* (view_of db) (view_of db')
    \<and> workers db' = workers db \<and> attempts db' = attempts db
    \<and> collection_runs db' = collection_runs db \<and> events db' = events db
    \<and> length (leases db') = length (leases db)
    \<and> (\<forall>x\<in>set (leases db'). x \<in> set (leases db) \<and> lr_id x \<notin> lease_id ` set ls \<or> lr_status x = L_EXPIRED)"
    using ls(2) unfolding expireLeaseInTransaction_def
    by (intro close_all_refines [OF ok _ p(4) p(2)]) auto
  then show "store_ok db'" "spec_step\<^sup>*\<^sup>* (view_of db) (view_of db')" "workers db' = workers db"
    "attempts db' = attempts db" "collection_runs db' = collection_runs db" "events db' = events db"
    by simp_all
  show "n = length (expired_leases t db)" by (simp add: ls(3) p(1))
  fix x assume x: "x \<in> set (leases db')" "lr_status x = L_ACTIVE"
  with c have "x \<in> set (leases db)" "lr_id x \<notin> lease_id ` set ls" by auto
  moreover have "lease_id ` set ls = lr_id ` set (expired_leases t db)"
    using p(3) by (metis set_map)
  ultimately show "x \<in> set (leases db) \<and> \<not> lr_expires_at x \<le> t"
    using x(2) by (auto simp: expired_leases_def)
qed

lemma revoke_refines:
  assumes ok: "store_ok db" "coordinated (view_of db)"
    and r: "revokeActiveLeasesForWorker w t why db = Inr db'"
  shows "store_ok db'" "spec_step\<^sup>*\<^sup>* (view_of db) (view_of db')"
    "\<And>x. x \<in> set (leases db') \<Longrightarrow> lr_status x = L_ACTIVE \<Longrightarrow> lr_worker_id x \<noteq> w"
proof -
  let ?rows = "sort_key (\<lambda>r. (lr_acquired_at r, lr_id r))
         (filter (\<lambda>r. lr_worker_id r = w \<and> lr_status r = L_ACTIVE) (leases db))"
  obtain ls where ls: "map_result (\<lambda>r. parseLease (lr_document r)) ?rows = Inr ls"
      "fold_result (close_and_return L_REVOKED t why) ls db = Inr db'"
    using r by (auto simp: revokeActiveLeasesForWorker_def activeLeases_def and_then_Inr)
  have rows: "set ?rows \<subseteq> set (leases db)" "distinct (map lr_id ?rows)"
    "\<And>r. r \<in> set ?rows \<Longrightarrow> lr_status r = L_ACTIVE"
    using distinct_selected [OF ok(1)] by auto
  note p = parsed_leases [OF ok(1) ls(1) rows]
  have c: "store_ok db' \<and> spec_step\<^sup>*\<^sup>* (view_of db) (view_of db')
    \<and> workers db' = workers db \<and> attempts db' = attempts db
    \<and> collection_runs db' = collection_runs db \<and> events db' = events db
    \<and> length (leases db') = length (leases db)
    \<and> (\<forall>x\<in>set (leases db'). x \<in> set (leases db) \<and> lr_id x \<notin> lease_id ` set ls \<or> lr_status x = L_REVOKED)"
    using ls(2) by (intro close_all_refines [OF ok _ p(4) p(2)]) auto
  then show "store_ok db'" "spec_step\<^sup>*\<^sup>* (view_of db) (view_of db')" by simp_all
  fix x assume x: "x \<in> set (leases db')" "lr_status x = L_ACTIVE"
  with c have "x \<in> set (leases db)" "lr_id x \<notin> lease_id ` set ls" by auto
  moreover have "lease_id ` set ls = lr_id ` set ?rows"
    using p(3) by (metis set_map)
  ultimately show "lr_worker_id x \<noteq> w" using x(2) by auto
qed

section \<open>Claiming\<close>

lemma claimJob_Inr:
  assumes "claimJobInTransaction env cfg now leaseId token w j db = Inr (res, db')"
  obtains expires db1 where
    "toISOString (new_Date (now + leaseDurationMs cfg)) = Inr expires"
    "lease_valid (new_lease leaseId w j (to_iso now) expires)"
    "job_valid (j\<lparr>job_status := J_LEASED, job_updatedAt := to_iso now\<rparr>)"
    "update_pending_job (j\<lparr>job_status := J_LEASED, job_updatedAt := to_iso now\<rparr>) db = Some db1"
    "insert_lease (digestHex env token) (new_lease leaseId w j (to_iso now) expires) db1 = Inr db'"
    "res = Some (j\<lparr>job_status := J_LEASED, job_updatedAt := to_iso now\<rparr>,
                 new_lease leaseId w j (to_iso now) expires, token)"
  using assms
  by (auto simp: claimJobInTransaction_def and_then_Inr jobWithStatus_Inr Let_def doc_simps
      split: option.splits intro: that)

lemma new_lease_shape [simp]:
  "lease_id (new_lease i w j t x) = i" "lease_jobId (new_lease i w j t x) = job_id j"
  "lease_status (new_lease i w j t x) = L_ACTIVE" "lease_workerId (new_lease i w j t x) = worker_id w"
  "lease_acquiredAt (new_lease i w j t x) = t" "lease_expiresAt (new_lease i w j t x) = x"
  "lease_runId (new_lease i w j t x) = job_runId j"
  by (simp_all add: new_lease_def)

lemma claimJob_refines:
  assumes ok: "store_ok db" and j: "job_by_id (job_id j) db = Some r" "jr_document r = j"
    and c: "claimJobInTransaction env cfg now leaseId token w j db = Inr (res, db')"
  shows "store_ok db'" "spec_step (view_of db) (view_of db')" "jr_status r = J_PENDING"
    "workers db' = workers db" "attempts db' = attempts db"
    "collection_runs db' = collection_runs db" "events db' = events db"
proof -
  let ?j = "j\<lparr>job_status := J_LEASED, job_updatedAt := to_iso now\<rparr>"
  from c obtain expires db1 where
    up: "update_pending_job ?j db = Some db1" and
    ins: "insert_lease (digestHex env token) (new_lease leaseId w j (to_iso now) expires) db1 = Inr db'"
    by (rule claimJob_Inr)
  have db1: "db1 = update_job ?j db" and pend: "jr_status r = J_PENDING"
    using up j by (auto simp: update_pending_job_Some)
  show "jr_status r = J_PENDING" by (rule pend)
  note col = job_columns [OF ok j(1), unfolded j(2)]
  have ok1: "store_ok db1"
    unfolding db1 using j col by (intro store_ok_update_job [OF ok]) (auto intro!: write_job_canon [OF col(7)])
  then show "store_ok db'" using ins store_ok_insert(3) by blast
  note iv = insert_lease_view [OF ins]
  have v1: "view_of db1 = (view_of db)\<lparr>sp_jobs := (sp_jobs (view_of db))(job_id j \<mapsto> (jr_run_id r, jr_attempt r, J_LEASED))\<rparr>"
    unfolding db1 using view_update_job [of ?j db r] j by simp
  have "sp_leases (view_of db) leaseId = None"
    using iv(2) by (simp add: db1)
  then have "spec_step (view_of db) ((view_of db)\<lparr>sp_jobs := (sp_jobs (view_of db))(job_id j \<mapsto> (jr_run_id r, jr_attempt r, J_LEASED)),
      sp_leases := (sp_leases (view_of db))(leaseId \<mapsto> (job_id j, True))\<rparr>)"
    using j pend by (intro spec_step.claim) auto
  then show "spec_step (view_of db) (view_of db')"
    using iv(1) v1 by simp
  show "workers db' = workers db" "attempts db' = attempts db"
    "collection_runs db' = collection_runs db" "events db' = events db"
    using ins by (auto simp: insert_lease_def db1 split: if_splits)
qed

text \<open>What a successful claim took: everything its guards checked, after the reaper ran.\<close>

lemma claim_Inr:
  assumes "claim env cfg now now' leaseId token workerId credential db = (Inr (Some (j', l, tok)), db')"
  obtains n db1 w candidates state j where
    "reapExpiredInTransaction (to_iso now) db = Inr (n, db1)"
    "claiming_worker cfg now' workerId db1 = Inr w"
    "map_result (\<lambda>r. parseJob (jr_document r)) (claim_candidates (to_iso now) db1) = Inr candidates"
    "webDomainLeaseState env now db1 = Inr state"
    "find (claimable env cfg w state) candidates = Some j"
    "claimJobInTransaction env cfg now leaseId token w j db1 = Inr (Some (j', l, tok), db')"
  using assms
  by (auto simp: claim_def claim_body_def in_transaction_commit and_then_Inr
      split: sum.splits option.splits prod.splits intro: that)

lemma parsed_jobs:
  assumes ok: "store_ok db" and "map_result (\<lambda>r. parseJob (jr_document r)) rows = Inr js"
    and "set rows \<subseteq> set (jobs db)" "j \<in> set js"
  shows "\<exists>r. r \<in> set rows \<and> jr_document r = j \<and> job_by_id (job_id j) db = Some r \<and> job_valid j"
proof -
  have "js = map jr_document rows"
    by (rule map_result_same [OF _ assms(2)]) simp
  with assms(4) obtain r where r: "r \<in> set rows" "jr_document r = j" by auto
  have "job_by_id (jr_id r) db = Some r"
    using row_found(2) [OF ok] r assms(3) by blast
  moreover from job_columns(1,2) [OF ok this] r have "job_id j = jr_id r" by simp
  moreover have "job_valid j"
    using assms(2,4) by (auto simp: map_result_Inr in_set_conv_nth)
  ultimately show ?thesis using r by auto
qed

lemma claim_candidates_in: "set (claim_candidates t db) \<subseteq> set (jobs db)"
  unfolding claim_candidates_def by (auto dest!: in_set_takeD)

lemma claim_candidatesD:
  "r \<in> set (claim_candidates t db) \<Longrightarrow> jr_status r = J_PENDING \<and> jr_available_at r \<le> t \<and> r \<in> set (jobs db)"
  unfolding claim_candidates_def by (auto dest!: in_set_takeD)

lemma claim_body_refines:
  assumes ok: "store_ok db" "coordinated (view_of db)"
    and c: "claim_body env cfg now now' leaseId token workerId db = Inr (res, db')"
  shows "store_ok db' \<and> spec_step\<^sup>*\<^sup>* (view_of db) (view_of db')"
proof -
  from c obtain n db1 w candidates state where
    reap: "reapExpiredInTransaction (to_iso now) db = Inr (n, db1)"
    and cand: "map_result (\<lambda>r. parseJob (jr_document r)) (claim_candidates (to_iso now) db1) = Inr candidates"
    and res: "(case find (claimable env cfg w state) candidates of
         None \<Rightarrow> Inr (None, db1)
       | Some j \<Rightarrow> claimJobInTransaction env cfg now leaseId token w j db1) = Inr (res, db')"
    by (auto simp: claim_body_def and_then_Inr)
  note rr = reap_refines [OF ok reap]
  show ?thesis
  proof (cases "find (claimable env cfg w state) candidates")
    case None
    with res rr show ?thesis by auto
  next
    case (Some j)
    then have "j \<in> set candidates" by (metis find_Some_iff nth_mem)
    then obtain r where "jr_document r = j" "job_by_id (job_id j) db1 = Some r"
      using parsed_jobs [OF rr(1) cand claim_candidates_in] by blast
    with res Some claimJob_refines [OF rr(1)] rr(2) show ?thesis
      by (auto intro: rtranclp.rtrancl_into_rtrancl)
  qed
qed

lemma claimSpecific_body_refines:
  assumes ok: "store_ok db" "coordinated (view_of db)"
    and c: "claimSpecific_body env cfg now now' leaseId token workerId jobId db = Inr (res, db')"
  shows "store_ok db' \<and> spec_step\<^sup>*\<^sup>* (view_of db) (view_of db')"
proof -
  from c obtain n db1 w r j where
    reap: "reapExpiredInTransaction (to_iso now) db = Inr (n, db1)"
    and r: "job_by_id jobId db1 = Some r" "j = jr_document r"
    and res: "claimJobInTransaction env cfg now leaseId token w j db1 = Inr (res, db')"
    by (auto simp: claimSpecific_body_def and_then_Inr split: option.splits)
  note rr = reap_refines [OF ok reap]
  have "job_by_id (job_id j) db1 = Some r"
    using r job_columns(1) [OF rr(1) r(1)] by simp
  from claimJob_refines [OF rr(1) this _ res] r rr(2) show ?thesis
    by (auto intro: rtranclp.rtrancl_into_rtrancl)
qed

section \<open>The methods as sound operations\<close>

text \<open>
  The contract every method of the repositories meets: from a coherent, coordinated store it
  leads to a coherent one whose abstract state the specification can reach, whether it returns
  or throws.
\<close>

definition sound_step :: "control_store \<Rightarrow> control_store \<Rightarrow> bool" where
  "sound_step db db' \<longleftrightarrow>
     (store_ok db \<longrightarrow> coordinated (view_of db) \<longrightarrow>
        store_ok db' \<and> spec_step\<^sup>*\<^sup>* (view_of db) (view_of db'))"

lemma sound_step_refl [simp]: "sound_step db db"
  by (simp add: sound_step_def)

lemma sound_step_trans: "sound_step db db1 \<Longrightarrow> sound_step db1 db2 \<Longrightarrow> sound_step db db2"
  unfolding sound_step_def by (meson rtranclp_trans spec_steps_coordinated)

lemma sound_transaction:
  "(\<And>a db'. body = Inr (a, db') \<Longrightarrow> sound_step db db') \<Longrightarrow> sound_step db (snd (in_transaction db body))"
  by (auto simp: in_transaction_def split: sum.splits)

lemma sound_authenticated:
  "(\<And>w a db'. auth = Inr w \<Longrightarrow> body = Inr (a, db') \<Longrightarrow> sound_step db db') \<Longrightarrow>
     sound_step db (snd (case auth of Inl e \<Rightarrow> (Inl e, db) | Inr w \<Rightarrow> in_transaction db body))"
  by (cases auth) (auto intro: sound_transaction)

lemma sound_then_view:
  "sound_step db (snd t) \<Longrightarrow>
     sound_step db (snd (case t of (Inl e, db') \<Rightarrow> (Inl e, db') | (Inr x, db') \<Rightarrow> (f x db', db')))"
  by (cases t) (auto split: sum.splits)

lemma sound_same_view:
  "(store_ok db \<Longrightarrow> store_ok db' \<and> view_of db' = view_of db) \<Longrightarrow> sound_step db db'"
  by (auto simp: sound_step_def)

locale sound_operation =
  fixes run :: "control_store \<Rightarrow> 'a result \<times> control_store"
  assumes sound: "sound_step db (snd (run db))"
begin

lemma keeps_store_ok:
  "store_ok db \<Longrightarrow> coordinated (view_of db) \<Longrightarrow> run db = (res, db') \<Longrightarrow> store_ok db'"
  using sound [of db] by (simp add: sound_step_def)

lemma keeps_coordinated:
  "store_ok db \<Longrightarrow> coordinated (view_of db) \<Longrightarrow> run db = (res, db') \<Longrightarrow> coordinated (view_of db')"
  using sound [of db] spec_steps_coordinated by (auto simp: sound_step_def)

lemma keeps_refinement:
  "store_ok db \<Longrightarrow> coordinated (view_of db) \<Longrightarrow> run db = (res, db') \<Longrightarrow>
     spec_step\<^sup>*\<^sup>* (view_of db) (view_of db')"
  using sound [of db] by (simp add: sound_step_def)

end

interpretation dispatch_op: sound_operation "dispatchManual now runId jobId inp" for now runId jobId inp
proof unfold_locales
  fix db
  show "sound_step db (snd (dispatchManual now runId jobId inp db))"
    using dispatchManual_refines [of db now runId jobId inp] unfolding sound_step_def
    by (metis prod.collapse)
qed

interpretation cancel_op: sound_operation "cancel now i expected reason" for now i expected reason
proof unfold_locales
  fix db
  show "sound_step db (snd (cancel now i expected reason db))"
  proof (cases "cancel now i expected reason db")
    case (Pair res db')
    then show ?thesis
      using cancel_error [of now i expected reason db] cancel_refines(1,2) [of db now i expected reason]
      by (cases res) (auto simp: sound_step_def)
  qed
qed

interpretation claim_op: sound_operation "claim env cfg now now' leaseId token workerId credential"
  for env cfg now now' leaseId token workerId credential
proof unfold_locales
  fix db
  show "sound_step db (snd (claim env cfg now now' leaseId token workerId credential db))"
    unfolding claim_def
    by (rule sound_authenticated) (auto simp: sound_step_def dest: claim_body_refines)
qed

interpretation claimSpecific_op: sound_operation "claimSpecific env cfg now now' leaseId token workerId credential jobId"
  for env cfg now now' leaseId token workerId credential jobId
proof unfold_locales
  fix db
  show "sound_step db (snd (claimSpecific env cfg now now' leaseId token workerId credential jobId db))"
    unfolding claimSpecific_def
    by (rule sound_authenticated) (auto simp: sound_step_def dest: claimSpecific_body_refines)
qed

interpretation reap_op: sound_operation "reapExpired now" for now
proof unfold_locales
  fix db
  show "sound_step db (snd (reapExpired now db))"
    unfolding reapExpired_def
    by (rule sound_transaction) (auto simp: sound_step_def dest: reap_refines(1,2))
qed

text \<open>Renewing moves no status.\<close>

lemma requireOwned_Inr:
  "requireOwnedActiveLease env db workerId leaseId token = Inr l \<Longrightarrow>
     \<exists>r. lease_by_id leaseId db = Some r \<and> lr_document r = l \<and> lease_valid l \<and> lease_workerId l = workerId
        \<and> token \<noteq> [] \<and> verifyDigest env token (lr_token_digest r) \<and> lease_status l = L_ACTIVE"
  by (auto simp: requireOwnedActiveLease_def and_then_Inr split: option.splits)

lemma renewLease_body_Inr:
  assumes "renewLease_body env cfg now workerId leaseId token db = Inr (l', db')"
  obtains l t where "requireOwnedActiveLease env db workerId leaseId token = Inr l"
    "\<not> date_due (parse_iso (lease_expiresAt l)) now" "renewed_expiry cfg now l = Some t"
    "\<not> date_due (parse_iso (to_iso t)) now"
    "l' = l\<lparr>lease_expiresAt := to_iso t, lease_updatedAt := to_iso now\<rparr>" "db' = update_lease l' db"
  using assms
  by (auto simp: renewLease_body_def and_then_Inr Let_def toISOString_def split: if_splits option.splits
      intro: that)

lemma renewLease_body_view:
  assumes ok: "store_ok db" and r: "renewLease_body env cfg now workerId leaseId token db = Inr (l', db')"
  shows "store_ok db'" "view_of db' = view_of db"
proof -
  from r obtain l t where own: "requireOwnedActiveLease env db workerId leaseId token = Inr l"
    and l': "l' = l\<lparr>lease_expiresAt := to_iso t, lease_updatedAt := to_iso now\<rparr>" and db': "db' = update_lease l' db"
    by (rule renewLease_body_Inr)
  then obtain row where row: "lease_by_id leaseId db = Some row" "lr_document row = l" "lease_status l = L_ACTIVE"
    using requireOwned_Inr by blast
  note col = lease_columns [OF ok row(1), unfolded row(2)]
  show "store_ok db'"
    unfolding db' using row col
    by (intro store_ok_update_lease [OF ok]) (auto intro!: write_lease_canon [where l = l] simp: l')
  have "(sp_leases (view_of db))(leaseId \<mapsto> (lr_job_id row, True)) = sp_leases (view_of db)"
    using row col by (simp add: fun_upd_idem)
  then show "view_of db' = view_of db"
    unfolding db' using view_update_lease [of l' db row] row col by (simp add: l')
qed

interpretation renew_op: sound_operation "renewLease env cfg now workerId credential leaseId token"
  for env cfg now workerId credential leaseId token
proof unfold_locales
  fix db
  show "sound_step db (snd (renewLease env cfg now workerId credential leaseId token db))"
    unfolding renewLease_def
    by (rule sound_authenticated, rule sound_same_view) (simp add: renewLease_body_view)
qed

lemma release_close:
  assumes "requireOwnedActiveLease env db workerId leaseId token = Inr l" "store_ok db"
  shows "holds_lease db l"
proof -
  obtain r where r: "lease_by_id leaseId db = Some r" "lr_document r = l" "lease_status l = L_ACTIVE"
    using requireOwned_Inr [OF assms(1)] by blast
  from lease_columns(1,3) [OF assms(2) r(1)] r show ?thesis by (simp add: holds_lease_def)
qed

interpretation release_op: sound_operation "releaseLease env now workerId credential leaseId token reason"
  for env now workerId credential leaseId token reason
proof unfold_locales
  fix db
  have "sound_step db db2"
    if "requireOwnedActiveLease env db workerId leaseId token = Inr l" "closeLease l L_RELEASED t why db = Inr (next, db1)"
      "returnJobToPending (lease_jobId l) t db1 = Inr db2" for l t why "next" db1 db2
  proof -
    have "close_and_return L_RELEASED t why l db = Inr db2"
      using that by (simp add: close_and_return_def)
    then show ?thesis
      using close_and_return_refines(1,2) [of db l L_RELEASED t why db2] release_close [OF that(1)]
      by (auto simp: sound_step_def)
  qed
  then show "sound_step db (snd (releaseLease env now workerId credential leaseId token reason db))"
    unfolding releaseLease_def
    by (intro sound_authenticated) (auto simp: and_then_Inr)
qed

interpretation safe_renew_op: sound_operation "safe_renewLease env cfg now now' workerId credential leaseId token"
  for env cfg now now' workerId credential leaseId token
proof unfold_locales
  fix db
  show "sound_step db (snd (safe_renewLease env cfg now now' workerId credential leaseId token db))"
    using renew_op.sound [of db env cfg now workerId credential leaseId token] reap_op.sound
    by (auto simp: safe_renewLease_def split: prod.splits sum.splits)
      (metis snd_conv sound_step_trans)+
qed

text \<open>The writers of worker definitions, credentials and heartbeats.\<close>

lemma applyWorkerUpdate_keeps:
  "applyWorkerUpdate w inp t = Inr w' \<Longrightarrow> worker_id w' = worker_id w \<and> worker_workspaceId w' = worker_workspaceId w
     \<and> worker_createdAt w' = worker_createdAt w \<and> worker_valid w'"
  by (auto simp: applyWorkerUpdate_def Let_def doc_simps split: if_splits)

lemma worker_row_found:
  assumes "store_ok db" "worker_by_id i db = Some r"
  shows "worker_id (wr_document r) = i" "worker_row_of (wr_document r) = r"
proof -
  have "canon_worker r = r" "wr_id r = i"
    using assms coherentD(1) coherent_find unfolding store_ok_def worker_by_id_def by metis+
  then show "worker_row_of (wr_document r) = r" "worker_id (wr_document r) = i"
    by (simp_all add: canon_worker_def worker_row_of_def) (metis worker_row.select_convs(1))
qed

lemma write_worker_canon:
  "worker_row_of w0 = r \<Longrightarrow> worker_id w = worker_id w0 \<Longrightarrow> worker_workspaceId w = worker_workspaceId w0 \<Longrightarrow>
     write_worker w r = worker_row_of w"
  by (auto simp: write_worker_def worker_row_of_def)

lemma store_ok_update_worker:
  assumes "store_ok db" "worker_by_id i db = Some r" "worker_id w = worker_id (wr_document r)"
    "worker_workspaceId w = worker_workspaceId (wr_document r)"
  shows "store_ok (db\<lparr>workers := update_by wr_id i (write_worker w) (workers db)\<rparr>)"
proof -
  have "write_worker w r = worker_row_of w"
    by (rule write_worker_canon [OF worker_row_found(2) [OF assms(1,2)] assms(3,4)])
  then have "coherent wr_id canon_worker (update_by wr_id i (write_worker w) (workers db))"
    using assms(1,2) by (intro coherent_update)
      (auto simp: store_ok_def write_worker.key_upd worker_by_id_def)
  then show ?thesis using assms(1) by (simp add: store_ok_def)
qed

interpretation create_worker_op: sound_operation "createWorker env cfg now now' workerId credential inp"
  for env cfg now now' workerId credential inp
proof unfold_locales
  fix db
  have ins: "sound_step db db2" if "insert_worker w db = Inr db1" "insert_credential c db1 = Inr db2" for w c db1 db2
    using insert_others(3) [OF that(1)] insert_others(4) [OF that(2)]
      store_ok_insert(4) [OF _ that(1)] store_ok_insert(7) [OF _ that(2)]
    by (intro sound_same_view) simp
  have "sound_step db (snd (in_transaction db
          (and_then (insert_worker w db) (\<lambda>db1. and_then (insert_credential c db1) (\<lambda>db2. Inr ((), db2))))))" for w c
    by (rule sound_transaction) (auto simp: and_then_Inr intro: ins)
  then show "sound_step db (snd (createWorker env cfg now now' workerId credential inp db))"
    unfolding createWorker_def Let_def
    by (auto intro!: sound_then_view split: sum.split)
qed

interpretation rotate_op: sound_operation "rotateCredential env now credential i" for env now credential i
proof unfold_locales
  fix db
  show "sound_step db (snd (rotateCredential env now credential i db))"
    by (auto simp: rotateCredential_def store_ok_def split: sum.splits option.splits
        intro!: sound_same_view view_of_cong)
qed

lemma trim_heartbeats_frame:
  "view_of (trim_heartbeats w db) = view_of db" "store_ok (trim_heartbeats w db) = store_ok db"
  unfolding trim_heartbeats_def Let_def by (rule view_of_cong; simp) (rule store_ok_cong; simp)

interpretation heartbeat_op: sound_operation "heartbeat env cfg now now' heartbeatId inp credential"
  for env cfg now now' heartbeatId inp credential
proof unfold_locales
  fix db
  have "sound_step db (snd (in_transaction db
          (and_then (insert_heartbeat h db) (\<lambda>db1. Inr ((), trim_heartbeats w db1)))))" for w h
  proof (rule sound_transaction)
    fix a db'
    assume "and_then (insert_heartbeat h db) (\<lambda>db1. Inr ((), trim_heartbeats w db1)) = Inr (a, db')"
    then obtain db1 where db1: "insert_heartbeat h db = Inr db1" "db' = trim_heartbeats w db1"
      by (auto simp: and_then_Inr)
    then show "sound_step db db'"
      using insert_others(5) [OF db1(1)] store_ok_insert(8) [OF _ db1(1)]
      by (intro sound_same_view) (simp add: trim_heartbeats_frame)
  qed
  then show "sound_step db (snd (heartbeat env cfg now now' heartbeatId inp credential db))"
    unfolding heartbeat_def
    by (auto intro!: sound_then_view split: sum.split)
qed

lemma update_worker_body_sound:
  assumes cur: "getWorker db i = Inr (Some current)" "applyWorkerUpdate current inp t = Inr next"
    and body: "(case update_worker_if i expected next db of
         None \<Rightarrow> conflict (Worker WORKER_VERSION_CONFLICT)
       | Some db1 \<Rightarrow>
           if worker_desiredState next = W_DISABLED
           then and_then (revokeActiveLeasesForWorker i t why db1) (\<lambda>db2. Inr ((), db2))
           else Inr ((), db1)) = Inr (u, db')"
  shows "sound_step db db'"
proof -
  obtain r where r: "worker_by_id i db = Some r" "wr_document r = current"
    using cur(1) by (auto simp: getWorker_def and_then_Inr split: option.splits)
  let ?db1 = "db\<lparr>workers := update_by wr_id i (write_worker next) (workers db)\<rparr>"
  have "view_of ?db1 = view_of db"
    by (intro view_of_cong) simp_all
  then have s1: "sound_step db ?db1"
    using store_ok_update_worker [of db i r "next"] applyWorkerUpdate_keeps [OF cur(2)] r
    by (intro sound_same_view) simp
  have "sound_step ?db1 db'"
    using body r(1)
    by (auto simp: update_worker_if_def and_then_Inr sound_step_def dest: revoke_refines(1,2)
        split: if_splits)
  with s1 show ?thesis by (rule sound_step_trans)
qed

interpretation update_worker_op: sound_operation "updateWorker cfg now now' i inp expected"
  for cfg now now' i inp expected
proof unfold_locales
  fix db
  have sound: "sound_step db (snd (in_transaction db
      (case update_worker_if i expected next db of
         None \<Rightarrow> conflict (Worker WORKER_VERSION_CONFLICT)
       | Some db1 \<Rightarrow>
           if worker_desiredState next = W_DISABLED
           then and_then (revokeActiveLeasesForWorker i t why db1) (\<lambda>db2. Inr ((), db2))
           else Inr ((), db1))))"
    if "getWorker db i = Inr (Some current)" "applyWorkerUpdate current inp t = Inr next" for current "next" t why
    using update_worker_body_sound [OF that] by (intro sound_transaction) blast
  show "sound_step db (snd (updateWorker cfg now now' i inp expected db))"
  proof (cases "and_then (getWorker db i) (\<lambda>found.
             case found of
               None \<Rightarrow> Inl (RegistryError (General WORKER_NOT_FOUND))
             | Some current \<Rightarrow>
                 if worker_updatedAt current \<noteq> expected
                 then conflict (Worker WORKER_VERSION_CONFLICT)
                 else and_then (applyWorkerUpdate current inp (to_iso now)) (\<lambda>next.
                      and_then (validateWorkerBindings db next) (\<lambda>_. Inr next)))")
    case (Inl e)
    then show ?thesis by (simp add: updateWorker_def)
  next
    case (Inr "next")
    then obtain current where "getWorker db i = Inr (Some current)"
      "applyWorkerUpdate current inp (to_iso now) = Inr next"
      by (auto simp: and_then_Inr split: option.splits)
    from sound [OF this, of "''Worker disabled by administrator''"] Inr show ?thesis
      unfolding updateWorker_def by (auto split: sum.splits prod.splits)
  qed
qed

section \<open>What the claim guards establish\<close>

definition worker_load :: "string \<Rightarrow> control_store \<Rightarrow> nat" where
  "worker_load w db = length (filter (\<lambda>r. lr_worker_id r = w \<and> lr_status r = L_ACTIVE) (leases db))"

definition lease_domain :: "platform \<Rightarrow> control_store \<Rightarrow> lease_row \<Rightarrow> string option" where
  "lease_domain env db r =
     (case job_by_id (lr_job_id r) db of None \<Rightarrow> None | Some j \<Rightarrow> domain_of env (jr_document j))"

definition domain_load :: "platform \<Rightarrow> string \<Rightarrow> control_store \<Rightarrow> nat" where
  "domain_load env d db =
     length (filter (\<lambda>r. lr_status r = L_ACTIVE \<and> lease_domain env db r = Some d) (leases db))"

definition domain_recent :: "platform \<Rightarrow> string \<Rightarrow> string \<Rightarrow> control_store \<Rightarrow> nat" where
  "domain_recent env windowStart d db =
     length (filter (\<lambda>r. windowStart \<le> lr_acquired_at r \<and> lease_domain env db r = Some d) (leases db))"

lemma claiming_worker_Inr:
  assumes "claiming_worker cfg now workerId db = Inr w" and "store_ok db"
  shows "worker_id w = workerId" "worker_valid w" "worker_desiredState w = W_ACTIVE"
    "int (worker_load workerId db) < worker_maxConcurrency w"
    "\<exists>r. worker_by_id workerId db = Some r \<and> wr_document r = w"
    "\<exists>h. latestHeartbeat db workerId = Inr (Some h) \<and> \<not> stale cfg now h \<and> heartbeat_health h \<noteq> HEALTH_ERROR"
proof -
  obtain r view where r: "worker_by_id workerId db = Some r" "wr_document r = w" "worker_valid w"
    and st: "worker_desiredState w = W_ACTIVE" and view: "viewForWorker cfg now db w = Inr view"
    and v: "view_effectiveStatus view \<noteq> ST_OFFLINE" "view_effectiveStatus view \<noteq> ST_ERROR"
      "int (view_activeLeaseCount view) < worker_maxConcurrency w"
    using assms(1)
    by (auto simp: claiming_worker_def getWorker_def and_then_Inr split: option.splits if_splits)
  show i: "worker_id w = workerId" using worker_row_found(1) [OF assms(2) r(1)] r(2) by simp
  show "worker_valid w" "worker_desiredState w = W_ACTIVE" using r st by simp_all
  show "\<exists>r. worker_by_id workerId db = Some r \<and> wr_document r = w" using r by simp
  obtain h ls where h: "latestHeartbeat db workerId = Inr h" and ls: "activeLeases db workerId = Inr ls"
    and view': "view_effectiveStatus view = effectiveStatus cfg now w h (length ls)" "view_activeLeaseCount view = length ls"
    using view i by (auto simp: viewForWorker_def and_then_Inr)
  have "length ls = worker_load workerId db"
    using ls by (auto simp: activeLeases_def map_result_Inr worker_load_def)
  then show "int (worker_load workerId db) < worker_maxConcurrency w"
    using v(3) view'(2) by simp
  show "\<exists>h. latestHeartbeat db workerId = Inr (Some h) \<and> \<not> stale cfg now h \<and> heartbeat_health h \<noteq> HEALTH_ERROR"
    using v(1,2) st h by (auto simp: view' effectiveStatus_def split: option.splits if_splits)
qed

text \<open>The state the quota reads: for each domain, the counts over the rows of the join.\<close>

lemma count_lease_fold:
  "let mine = filter (\<lambda>(r, j). domain_of env j = Some d) rows
   in case fold (count_lease env ws) rows (\<lambda>_. None) d of
        None \<Rightarrow> mine = []
      | Some s \<Rightarrow> wd_active s = int (length (filter (\<lambda>(r, j). lr_status r = L_ACTIVE) mine))
          \<and> wd_recent s = int (length (filter (\<lambda>(r, j). ws \<le> lr_acquired_at r) mine))
          \<and> (\<forall>(r, j)\<in>set mine. wd_minRateLimit s \<le> rateLimitPerMinute (plan_policy (job_planSnapshot j)))"
proof (induction rows rule: rev_induct)
  case (snoc p rows)
  obtain r j where p: "p = (r, j)" by fastforce
  show ?case
  proof (cases "domain_of env j = Some d")
    case True
    then show ?thesis
      using snoc.IH unfolding Let_def
      by (cases "fold (count_lease env ws) rows (\<lambda>_. None) d")
        (auto simp: p count_lease_def Let_def filter_empty_conv min_le_iff_disj)
  next
    case False
    then have "count_lease env ws (r, j) st d = st d" for st
      by (auto simp: count_lease_def Let_def split: option.splits)
    with False snoc.IH show ?thesis by (simp add: p)
  qed
qed simp

lemma filter_join:
  assumes "\<And>r. P r \<Longrightarrow> Q r"
  shows "length (filter (\<lambda>(r, j). F j \<and> P r)
            (concat (map (\<lambda>r. case look r of None \<Rightarrow> [] | Some j \<Rightarrow> [(r, j)]) (filter Q rows))))
    = length (filter (\<lambda>r. P r \<and> (case look r of None \<Rightarrow> False | Some j \<Rightarrow> F j)) rows)"
  by (induction rows) (auto dest: assms split: option.splits)

lemma webDomainLeaseState_counts:
  assumes "webDomainLeaseState env now db = Inr state"
  shows "\<exists>ws. toISOString (new_Date (now - 60000)) = Inr ws
    \<and> (case state d of None \<Rightarrow> domain_load env d db = 0 \<and> domain_recent env ws d db = 0
       | Some s \<Rightarrow> wd_active s = int (domain_load env d db) \<and> wd_recent s = int (domain_recent env ws d db))"
proof -
  obtain ws rows where ws: "toISOString (new_Date (now - 60000)) = Inr ws"
    and rows: "map_result (\<lambda>(r, j). and_then (parseJob (jr_document j)) (\<lambda>job. Inr (r, job))) (counted_leases ws db) = Inr rows"
    and st: "state = fold (count_lease env ws) rows (\<lambda>_. None)"
    using assms by (auto simp: webDomainLeaseState_def and_then_Inr)
  have rows': "rows = map (\<lambda>(r, j). (r, jr_document j)) (counted_leases ws db)"
    by (rule map_result_same [OF _ rows]) (auto simp: and_then_Inr)
  let ?mine = "filter (\<lambda>(r, j). domain_of env j = Some d) rows"
  have act: "length (filter (\<lambda>(r, j). lr_status r = L_ACTIVE) ?mine) = domain_load env d db"
    using filter_join [of "\<lambda>r. lr_status r = L_ACTIVE" "\<lambda>r. lr_status r = L_ACTIVE \<or> lr_acquired_at r \<ge> ws"
        "\<lambda>j. domain_of env (jr_document j) = Some d" "\<lambda>r. job_by_id (lr_job_id r) db" "leases db"]
    by (simp add: rows' counted_leases_def domain_load_def lease_domain_def filter_map comp_def
        case_prod_unfold filter_filter option.case_distrib [where h = "\<lambda>x. x = Some d"] cong: option.case_cong)
  have rec: "length (filter (\<lambda>(r, j). ws \<le> lr_acquired_at r) ?mine) = domain_recent env ws d db"
    using filter_join [of "\<lambda>r. ws \<le> lr_acquired_at r" "\<lambda>r. lr_status r = L_ACTIVE \<or> lr_acquired_at r \<ge> ws"
        "\<lambda>j. domain_of env (jr_document j) = Some d" "\<lambda>r. job_by_id (lr_job_id r) db" "leases db"]
    by (simp add: rows' counted_leases_def domain_recent_def lease_domain_def filter_map comp_def
        case_prod_unfold filter_filter option.case_distrib [where h = "\<lambda>x. x = Some d"] cong: option.case_cong)
  define mine where "mine = ?mine"
  show ?thesis
  proof (cases "state d")
    case None
    then have "mine = []"
      using count_lease_fold [of env d rows ws] by (simp add: mine_def st)
    with None ws act rec show ?thesis by (simp add: mine_def [symmetric])
  next
    case (Some s)
    then have "wd_active s = int (length (filter (\<lambda>(r, j). lr_status r = L_ACTIVE) mine))
        \<and> wd_recent s = int (length (filter (\<lambda>(r, j). ws \<le> lr_acquired_at r) mine))"
      using count_lease_fold [of env d rows ws] by (simp add: mine_def st Let_def)
    with Some ws act rec show ?thesis by (simp only: mine_def [symmetric]) simp
  qed
qed

lemma quota_bound:
  assumes "webDomainLeaseState env now db = Inr state" "webDomainQuotaAllows env cfg j state"
    "domain_of env j = Some d" "1 \<le> maxConcurrentWebLeasesPerDomain cfg"
  shows "int (domain_load env d db) < maxConcurrentWebLeasesPerDomain cfg"
  using webDomainLeaseState_counts [OF assms(1), of d] assms(2-4)
  by (auto simp: webDomainQuotaAllows_def Let_def split: option.splits)

lemma rate_bound:
  assumes "webDomainLeaseState env now db = Inr state" "webDomainQuotaAllows env cfg j state"
    "domain_of env j = Some d" "1 \<le> rateLimitPerMinute (plan_policy (job_planSnapshot j))"
    "toISOString (new_Date (now - 60000)) = Inr ws"
  shows "int (domain_recent env ws d db) < rateLimitPerMinute (plan_policy (job_planSnapshot j))"
  using webDomainLeaseState_counts [OF assms(1), of d] assms(2-5)
  by (auto simp: webDomainQuotaAllows_def Let_def split: option.splits)

text \<open>Taking the job adds one active lease, of the worker and on the domain of the job.\<close>

lemma domain_of_status [simp]:
  "domain_of env (j\<lparr>job_status := s, job_updatedAt := t\<rparr>) = domain_of env j"
  by (simp add: domain_of_def webDomainKey_def)

lemma claimJob_loads:
  assumes ok: "store_ok db" and j: "job_by_id (job_id j) db = Some r" "jr_document r = j"
    and c: "claimJobInTransaction env cfg now leaseId token w j db = Inr (res, db')"
  shows "worker_load i db' = worker_load i db + (if i = worker_id w then 1 else 0)"
    "domain_load env d db' = domain_load env d db + (if domain_of env j = Some d then 1 else 0)"
proof -
  let ?j = "j\<lparr>job_status := J_LEASED, job_updatedAt := to_iso now\<rparr>"
  from c obtain expires db1 where
    up: "update_pending_job ?j db = Some db1" and
    ins: "insert_lease (digestHex env token) (new_lease leaseId w j (to_iso now) expires) db1 = Inr db'"
    by (rule claimJob_Inr)
  have db1: "db1 = update_job ?j db" using up by (auto simp: update_pending_job_Some)
  have ls: "leases db' = leases db @ [lease_row_of (digestHex env token) (new_lease leaseId w j (to_iso now) expires)]"
    and js: "jobs db' = jobs db1"
    using insert_lease_view(4,6) [OF ins] by (simp_all add: db1)
  show "worker_load i db' = worker_load i db + (if i = worker_id w then 1 else 0)"
    by (simp add: worker_load_def ls lease_row_of_def)
  have "job_by_id k db' = map_option (\<lambda>q. if k = job_id j then write_job ?j q else q) (job_by_id k db)" for k
  proof -
    have "job_by_id k db' = job_by_id k db1" by (simp only: job_by_id_def js)
    then show ?thesis by (simp add: db1 option.map_ident)
  qed
  then have dom: "lease_domain env db' q = (if lr_job_id q = job_id j then domain_of env j else lease_domain env db q)" for q
    using j by (auto simp: lease_domain_def write_job_def split: option.splits)
  have same: "lease_domain env db q = domain_of env j" if "lr_job_id q = job_id j" for q
    using that j by (simp add: lease_domain_def)
  then have eq: "lease_domain env db' q = lease_domain env db q" for q
    using dom by auto
  show "domain_load env d db' = domain_load env d db + (if domain_of env j = Some d then 1 else 0)"
    by (simp add: domain_load_def ls eq same lease_row_of_def)
qed

text \<open>Both claims take their job through the same guards.\<close>

lemma claim_taken:
  assumes ok: "store_ok db" "coordinated (view_of db)"
    and c: "claim env cfg now now' leaseId token workerId credential db = (Inr (Some (j', l, tok)), db')
      \<or> claimSpecific env cfg now now' leaseId token workerId credential jobId db = (Inr (Some (j', l, tok)), db')"
  obtains n db1 w r state where
    "reapExpiredInTransaction (to_iso now) db = Inr (n, db1)" "store_ok db1"
    "claiming_worker cfg now' workerId db1 = Inr w"
    "job_by_id (job_id (jr_document r)) db1 = Some r" "job_valid (jr_document r)"
    "job_workspaceId (jr_document r) = worker_workspaceId w" "workerCanRun w (jr_document r)"
    "webDomainLeaseState env now db1 = Inr state" "webDomainQuotaAllows env cfg (jr_document r) state"
    "claimJobInTransaction env cfg now leaseId token w (jr_document r) db1 = Inr (Some (j', l, tok), db')"
proof (cases "claim env cfg now now' leaseId token workerId credential db = (Inr (Some (j', l, tok)), db')")
  case True
  then obtain n db1 w candidates state j where
    reap: "reapExpiredInTransaction (to_iso now) db = Inr (n, db1)"
    and w: "claiming_worker cfg now' workerId db1 = Inr w"
    and cand: "map_result (\<lambda>r. parseJob (jr_document r)) (claim_candidates (to_iso now) db1) = Inr candidates"
    and st: "webDomainLeaseState env now db1 = Inr state"
    and j: "find (claimable env cfg w state) candidates = Some j"
    and take: "claimJobInTransaction env cfg now leaseId token w j db1 = Inr (Some (j', l, tok), db')"
    by (rule claim_Inr)
  note rr = reap_refines [OF ok reap]
  from j have "j \<in> set candidates" "claimable env cfg w state j"
    by (auto simp: find_Some_iff)
  moreover then obtain r where "jr_document r = j" "job_by_id (job_id j) db1 = Some r" "job_valid j"
    using parsed_jobs [OF rr(1) cand claim_candidates_in] by blast
  ultimately show ?thesis
    using that [of n db1 w r state] reap rr(1) w st take by (auto simp: claimable_def)
next
  case False
  with c obtain n db1 w r state where
    *: "reapExpiredInTransaction (to_iso now) db = Inr (n, db1)"
      "claiming_worker cfg now' workerId db1 = Inr w" "job_by_id jobId db1 = Some r"
      "job_valid (jr_document r)"
      "job_workspaceId (jr_document r) = worker_workspaceId w" "workerCanRun w (jr_document r)"
      "webDomainLeaseState env now db1 = Inr state" "webDomainQuotaAllows env cfg (jr_document r) state"
      "claimJobInTransaction env cfg now leaseId token w (jr_document r) db1 = Inr (Some (j', l, tok), db')"
    by (auto simp: claimSpecific_def claimSpecific_body_def in_transaction_commit and_then_Inr
        split: sum.splits option.splits)
  note rr = reap_refines [OF ok *(1)]
  with * job_columns(1) [OF rr(1) *(3)] show ?thesis
    using that [of n db1 w r state] by simp
qed

text \<open>The first claimable candidate is a minimal one.\<close>

lemma sorted_find_minimal:
  assumes "find P (map f rows) = Some y" and "sorted (map key rows)"
  obtains r where "r \<in> set rows" "f r = y" "P y" "\<And>x. x \<in> set rows \<Longrightarrow> P (f x) \<Longrightarrow> key r \<le> key x"
proof -
  have "find (P \<circ> f) rows = Some r \<Longrightarrow> sorted (map key rows) \<Longrightarrow>
      r \<in> set rows \<and> P (f r) \<and> (\<forall>x\<in>set rows. P (f x) \<longrightarrow> key r \<le> key x)" for r
    by (induction rows) (auto split: if_splits)
  moreover obtain r where "find (P \<circ> f) rows = Some r" "f r = y"
    using assms(1) by (induction rows) (auto split: if_splits)
  ultimately show ?thesis using assms(2) that by blast
qed

lemma claim_candidates_sorted: "sorted (map claim_key (claim_candidates t db))"
  unfolding claim_candidates_def take_map [symmetric] by (rule sorted_wrt_take [OF sorted_sort_key])

lemma claim_first:
  assumes ok: "store_ok db" "coordinated (view_of db)"
    and c: "claim env cfg now now' leaseId token workerId credential db = (Inr (Some (j', l, tok)), db')"
  obtains n db1 w state r where
    "reapExpiredInTransaction (to_iso now) db = Inr (n, db1)"
    "claiming_worker cfg now' workerId db1 = Inr w" "webDomainLeaseState env now db1 = Inr state"
    "r \<in> set (claim_candidates (to_iso now) db1)" "claimable env cfg w state (jr_document r)"
    "\<And>x. x \<in> set (claim_candidates (to_iso now) db1) \<Longrightarrow> claimable env cfg w state (jr_document x) \<Longrightarrow>
       claim_key r \<le> claim_key x"
    "claimJobInTransaction env cfg now leaseId token w (jr_document r) db1 = Inr (Some (j', l, tok), db')"
proof -
  from c obtain n db1 w candidates state j where
    *: "reapExpiredInTransaction (to_iso now) db = Inr (n, db1)"
      "claiming_worker cfg now' workerId db1 = Inr w" "webDomainLeaseState env now db1 = Inr state"
    and cand: "map_result (\<lambda>r. parseJob (jr_document r)) (claim_candidates (to_iso now) db1) = Inr candidates"
    and j: "find (claimable env cfg w state) candidates = Some j"
    and take: "claimJobInTransaction env cfg now leaseId token w j db1 = Inr (Some (j', l, tok), db')"
    by (rule claim_Inr)
  have "candidates = map jr_document (claim_candidates (to_iso now) db1)"
    by (rule map_result_same [OF _ cand]) simp
  with j obtain r where "r \<in> set (claim_candidates (to_iso now) db1)" "jr_document r = j" "claimable env cfg w state j"
    "\<And>x. x \<in> set (claim_candidates (to_iso now) db1) \<Longrightarrow> claimable env cfg w state (jr_document x) \<Longrightarrow> claim_key r \<le> claim_key x"
    using sorted_find_minimal [OF _ claim_candidates_sorted] by metis
  with that [OF * ] take show ?thesis by blast
qed

lemma claimJob_result:
  assumes "claimJobInTransaction env cfg now leaseId token w j db = Inr (Some (j', l, tok), db')"
  shows "j' = j\<lparr>job_status := J_LEASED, job_updatedAt := to_iso now\<rparr>" "tok = token"
    "\<exists>x. toISOString (new_Date (now + leaseDurationMs cfg)) = Inr x \<and> l = new_lease leaseId w j (to_iso now) x"
    "lease_valid l" "job_valid j'"
  using assms by (auto elim!: claimJob_Inr)

section \<open>Digests, and what the reaper can throw\<close>

lemma hex_value_hex_digit: "n < 16 \<Longrightarrow> hex_value (hex_digit n) = Some n"
proof -
  have "list_all (\<lambda>n. hex_value (hex_digit n) = Some n) [0..<16]"
    by code_simp
  then show "n < 16 \<Longrightarrow> hex_value (hex_digit n) = Some n"
    by (simp add: list_all_iff)
qed

lemma fromHex_toHex: "fromHex (toHex bs) = bs"
proof (induction bs)
  case (Cons b bs)
  have "unat b < 2 ^ LENGTH(8)" by (rule unsigned_less)
  then have "unat b div 16 < 16" "unat b mod 16 < 16" by (simp_all add: less_mult_imp_div_less)
  then show ?case
    using Cons by (simp add: hex_value_hex_digit)
qed simp

lemma fold_result_error:
  assumes "\<And>x s e. f x s = Inl e \<Longrightarrow> e = E" and "fold_result f xs s = Inl e"
  shows "e = E"
  using assms(2) by (induction xs arbitrary: s) (auto simp: and_then_Inl dest: assms(1))

lemma map_result_error:
  assumes "\<And>x e. f x = Inl e \<Longrightarrow> e = E" and "map_result f xs = Inl e"
  shows "e = E"
  using assms(2) by (induction xs) (auto simp: and_then_Inl dest: assms(1))

lemma close_and_return_error: "close_and_return s t why l db = Inl e \<Longrightarrow> e = RegistryValidationError"
  by (auto simp: close_and_return_def closeLease_def returnJobToPending_def jobWithStatus_def parseJob_def
      Let_def and_then_Inl split: if_splits option.splits)

lemma reap_error: "reapExpiredInTransaction t db = Inl e \<Longrightarrow> e = RegistryValidationError"
  by (auto simp: reapExpiredInTransaction_def expireLeaseInTransaction_def and_then_Inl parseLease_def
      dest!: map_result_error [rotated] fold_result_error [rotated] close_and_return_error split: if_splits)

end
