(* ===== verification/Store_Links.thy ===== *)
theory Store_Links
  imports Lease_Protocol
begin

text \<open>
  Leases and attempts name their job and, redundantly, the run of that job; the statements of the
  execution repository reach the run through them. \<open>linked\<close> says the redundant columns agree, and
  the locale \<open>control_operation\<close> is the contract of every method on a well-formed store: it stays
  well-formed, and the abstract state moves by steps of the specification.
\<close>

section \<open>Links\<close>

definition job_links :: "control_store \<Rightarrow> (string \<times> string) set" where
  "job_links db = (\<lambda>r. (jr_id r, jr_run_id r)) ` set (jobs db)"

definition lease_links :: "control_store \<Rightarrow> (string \<times> string) set" where
  "lease_links db = (\<lambda>r. (lr_job_id r, lr_run_id r)) ` set (leases db)"

definition attempt_links :: "control_store \<Rightarrow> (string \<times> string) set" where
  "attempt_links db = (\<lambda>r. (ar_job_id r, ar_run_id r)) ` set (attempts db)"

definition linked :: "control_store \<Rightarrow> bool" where
  "linked db \<longleftrightarrow> lease_links db \<subseteq> job_links db \<and> attempt_links db \<subseteq> job_links db"

text \<open>What most statements do: rows come or change, but no link does.\<close>

definition same_links :: "control_store \<Rightarrow> control_store \<Rightarrow> bool" where
  "same_links db db' \<longleftrightarrow>
     job_links db' = job_links db \<and> lease_links db' = lease_links db \<and> attempt_links db' = attempt_links db"

lemma same_links_refl [simp]: "same_links db db"
  by (simp add: same_links_def)

lemma same_links_trans: "same_links db db1 \<Longrightarrow> same_links db1 db2 \<Longrightarrow> same_links db db2"
  by (simp add: same_links_def)

lemma same_links_linked: "same_links db db' \<Longrightarrow> linked db \<Longrightarrow> linked db'"
  by (simp add: same_links_def linked_def)

lemma same_links_cong:
  "jobs db' = jobs db \<Longrightarrow> leases db' = leases db \<Longrightarrow> attempts db' = attempts db \<Longrightarrow> same_links db db'"
  by (simp add: same_links_def job_links_def lease_links_def attempt_links_def)

lemma image_update:
  assumes "\<And>r. f (g r) = f r"
  shows "f ` set (update_by key k g rows) = f ` set rows"
proof -
  have "map f (update_by key k g rows) = map f rows"
    using assms by (induction rows) auto
  then show ?thesis by (metis set_map)
qed

lemma same_links_update [simp]:
  "same_links db (update_run c db)" "same_links db (update_job j db)" "same_links db (update_lease l db)"
  "same_links db (update_lease_closed l db)" "same_links db (update_attempt a db)"
  by (auto simp: same_links_def job_links_def lease_links_def attempt_links_def update_run_def
      update_job_def update_lease_def update_lease_closed_def update_attempt_def image_update
      write_job_def write_lease_def write_lease_closed_def write_attempt_def)

lemma linked_insert_job:
  assumes "insert_job j db = Inr db'" "linked db"
  shows "linked db'"
proof -
  have "job_links db \<subseteq> job_links db'" "lease_links db' = lease_links db" "attempt_links db' = attempt_links db"
    using assms(1) by (auto simp: insert_job_def job_links_def lease_links_def attempt_links_def
        split: if_splits)
  with assms(2) show ?thesis by (auto simp: linked_def)
qed

lemma linked_insert_lease:
  assumes "insert_lease d l db = Inr db'" "linked db" "(lease_jobId l, lease_runId l) \<in> job_links db"
  shows "linked db'"
proof -
  have "lease_links db' = insert (lease_jobId l, lease_runId l) (lease_links db)"
    "job_links db' = job_links db" "attempt_links db' = attempt_links db"
    using assms(1) by (auto simp: insert_lease_def job_links_def lease_links_def attempt_links_def
        lease_row_of_def split: if_splits)
  with assms(2,3) show ?thesis by (simp add: linked_def)
qed

lemma linked_insert_attempt:
  assumes "insert_attempt a db = Inr db'" "linked db" "(attempt_jobId a, attempt_runId a) \<in> job_links db"
  shows "linked db'"
proof -
  have "attempt_links db' = insert (attempt_jobId a, attempt_runId a) (attempt_links db)"
    "job_links db' = job_links db" "lease_links db' = lease_links db"
    using assms(1) by (auto simp: insert_attempt_def job_links_def lease_links_def attempt_links_def
        attempt_row_of_def split: if_splits)
  with assms(2,3) show ?thesis by (simp add: linked_def)
qed

lemma same_links_insert:
  "insert_run c db = Inr db1 \<Longrightarrow> same_links db db1" "insert_event e db = Inr db2 \<Longrightarrow> same_links db db2"
  "insert_request q db = Inr db3 \<Longrightarrow> same_links db db3" "insert_worker w db = Inr db4 \<Longrightarrow> same_links db db4"
  "insert_credential cr db = Inr db5 \<Longrightarrow> same_links db db5"
  "insert_heartbeat h db = Inr db6 \<Longrightarrow> same_links db db6"
  by (auto simp: insert_run_def insert_event_def insert_request_def insert_worker_def
      insert_credential_def insert_heartbeat_def intro!: same_links_cong split: if_splits)

lemma job_link: "job_by_id i db = Some r \<Longrightarrow> (i, jr_run_id r) \<in> job_links db"
  by (auto simp: job_by_id_def job_links_def dest!: find_by_SomeD)

text \<open>On a linked store, a lease or an attempt leads to the run of its job.\<close>

lemma linked_run:
  assumes "linked db" "store_ok db" "job_by_id j db = Some jr"
  shows "l \<in> set (leases db) \<Longrightarrow> lr_job_id l = j \<Longrightarrow> lr_run_id l = jr_run_id jr"
    "a \<in> set (attempts db) \<Longrightarrow> ar_job_id a = j \<Longrightarrow> ar_run_id a = jr_run_id jr"
proof -
  have unique: "r = jr_run_id jr" if "(j, r) \<in> job_links db" for r
    using that row_found(2) [OF assms(2)] assms(3) by (auto simp: job_links_def)
  then show "l \<in> set (leases db) \<Longrightarrow> lr_job_id l = j \<Longrightarrow> lr_run_id l = jr_run_id jr"
    "a \<in> set (attempts db) \<Longrightarrow> ar_job_id a = j \<Longrightarrow> ar_run_id a = jr_run_id jr"
    using assms(1) unfolding linked_def lease_links_def attempt_links_def by blast+
qed

section \<open>Well-formed stores and the contract of a method\<close>

definition well_formed :: "control_store \<Rightarrow> bool" where
  "well_formed db \<longleftrightarrow> store_ok db \<and> coordinated (view_of db) \<and> linked db"

definition control_step :: "control_store \<Rightarrow> control_store \<Rightarrow> bool" where
  "control_step db db' \<longleftrightarrow>
     (well_formed db \<longrightarrow> store_ok db' \<and> linked db' \<and> spec_step\<^sup>*\<^sup>* (view_of db) (view_of db'))"

lemma control_step_refl [simp]: "control_step db db"
  by (simp add: control_step_def well_formed_def)

lemma control_transaction:
  "(\<And>a db'. body = Inr (a, db') \<Longrightarrow> control_step db db') \<Longrightarrow>
     control_step db (snd (in_transaction db body))"
  by (auto simp: in_transaction_def split: sum.splits)

locale control_operation =
  fixes run :: "control_store \<Rightarrow> 'a result \<times> control_store"
  assumes controlled: "control_step db (snd (run db))"
begin

lemma keeps_well_formed: "well_formed db \<Longrightarrow> run db = (res, db') \<Longrightarrow> well_formed db'"
  using controlled [of db] spec_steps_coordinated by (auto simp: control_step_def well_formed_def)

lemma keeps_specification:
  "well_formed db \<Longrightarrow> run db = (res, db') \<Longrightarrow> spec_step\<^sup>*\<^sup>* (view_of db) (view_of db')"
  using controlled [of db] by (auto simp: control_step_def)

end

text \<open>A sound operation meets the contract as soon as it keeps the links.\<close>

locale linking_operation = sound_operation +
  assumes links: "well_formed db \<Longrightarrow> linked (snd (run db))"

sublocale linking_operation \<subseteq> control_operation
  using sound links by unfold_locales (auto simp: control_step_def well_formed_def sound_step_def)

lemma links_transaction:
  "(\<And>a db'. body = Inr (a, db') \<Longrightarrow> linked db') \<Longrightarrow> linked db \<Longrightarrow> linked (snd (in_transaction db body))"
  by (auto simp: in_transaction_def split: sum.splits)

lemma links_authenticated:
  "(\<And>w a db'. auth = Inr w \<Longrightarrow> body = Inr (a, db') \<Longrightarrow> linked db') \<Longrightarrow> linked db \<Longrightarrow>
     linked (snd (case auth of Inl e \<Rightarrow> (Inl e, db) | Inr w \<Rightarrow> in_transaction db body))"
  by (cases auth) (auto intro: links_transaction)

lemma links_then_view:
  "linked (snd t) \<Longrightarrow> linked (snd (case t of (Inl e, db') \<Rightarrow> (Inl e, db') | (Inr x, db') \<Rightarrow> (f x db', db')))"
  by (cases t) (auto split: sum.splits)

section \<open>The methods of the ledger and the registry\<close>

lemma close_and_return_links:
  "close_and_return s t why l db = Inr db' \<Longrightarrow> same_links db db'"
  by (auto simp: close_and_return_def and_then_Inr closeLease_Inr returnJobToPending_Inr
      intro: same_links_trans [OF same_links_update(3) same_links_update(2)] split: option.splits if_splits)

lemma close_all_links:
  "fold_result (close_and_return s t why) ls db = Inr db' \<Longrightarrow> same_links db db'"
  by (rule fold_result_invariant [where I = "same_links db"])
    (auto intro: same_links_trans close_and_return_links)

lemma reap_links: "reapExpiredInTransaction t db = Inr (n, db') \<Longrightarrow> same_links db db'"
  by (auto simp: reapExpiredInTransaction_def expireLeaseInTransaction_def and_then_Inr
      intro: close_all_links)

lemma revoke_links: "revokeActiveLeasesForWorker w t why db = Inr db' \<Longrightarrow> same_links db db'"
  by (auto simp: revokeActiveLeasesForWorker_def and_then_Inr intro: close_all_links)

lemma claimJob_links:
  assumes "store_ok db" "job_by_id (job_id j) db = Some r" "jr_document r = j" "linked db"
    and "claimJobInTransaction env cfg now leaseId token w j db = Inr (res, db')"
  shows "linked db'"
proof -
  let ?j = "j\<lparr>job_status := J_LEASED, job_updatedAt := to_iso now\<rparr>"
  from assms(5) obtain expires db1 where up: "update_pending_job ?j db = Some db1"
    and ins: "insert_lease (digestHex env token) (new_lease leaseId w j (to_iso now) expires) db1 = Inr db'"
    by (rule claimJob_Inr)
  have db1: "db1 = update_job ?j db"
    using up by (auto simp: update_pending_job_Some)
  have "(job_id j, job_runId j) \<in> job_links db"
    using job_link [OF assms(2)] job_columns(4) [OF assms(1,2)] assms(3) by simp
  then have "(job_id j, job_runId j) \<in> job_links db1"
    unfolding db1 using same_links_update(2) [of db ?j] by (simp add: same_links_def)
  then show ?thesis
    using linked_insert_lease [OF ins] same_links_linked [OF same_links_update(2) assms(4)] by (simp add: db1)
qed

lemma claim_body_links:
  assumes ok: "well_formed db"
    and c: "claim_body env cfg now now' leaseId token workerId db = Inr (res, db')"
  shows "linked db'"
proof -
  from c obtain n db1 w candidates state where
    reap: "reapExpiredInTransaction (to_iso now) db = Inr (n, db1)"
    and cand: "map_result (\<lambda>r. parseJob (jr_document r)) (claim_candidates (to_iso now) db1) = Inr candidates"
    and res: "(case find (claimable env cfg w state) candidates of
         None \<Rightarrow> Inr (None, db1)
       | Some j \<Rightarrow> claimJobInTransaction env cfg now leaseId token w j db1) = Inr (res, db')"
    by (auto simp: claim_body_def and_then_Inr)
  have ok1: "store_ok db1" "linked db1"
    using ok reap_refines(1) [OF _ _ reap] same_links_linked [OF reap_links [OF reap]]
    by (simp_all add: well_formed_def)
  show ?thesis
  proof (cases "find (claimable env cfg w state) candidates")
    case None
    with res ok1 show ?thesis by auto
  next
    case (Some j)
    then have "j \<in> set candidates" by (metis find_Some_iff nth_mem)
    then obtain r where "jr_document r = j" "job_by_id (job_id j) db1 = Some r"
      using parsed_jobs [OF ok1(1) cand claim_candidates_in] by blast
    with res Some claimJob_links [OF ok1(1)] ok1(2) show ?thesis by auto
  qed
qed

lemma claimSpecific_body_links:
  assumes ok: "well_formed db"
    and c: "claimSpecific_body env cfg now now' leaseId token workerId jobId db = Inr (res, db')"
  shows "linked db'"
proof -
  from c obtain n db1 w r j where
    reap: "reapExpiredInTransaction (to_iso now) db = Inr (n, db1)"
    and r: "job_by_id jobId db1 = Some r" "j = jr_document r"
    and res: "claimJobInTransaction env cfg now leaseId token w j db1 = Inr (res, db')"
    by (auto simp: claimSpecific_body_def and_then_Inr split: option.splits)
  have ok1: "store_ok db1" "linked db1"
    using ok reap_refines(1) [OF _ _ reap] same_links_linked [OF reap_links [OF reap]]
    by (simp_all add: well_formed_def)
  have "job_by_id (job_id j) db1 = Some r"
    using r job_columns(1) [OF ok1(1) r(1)] by simp
  from claimJob_links [OF ok1(1) this _ ok1(2) res] r show ?thesis by simp
qed

lemma dispatchManual_links:
  "dispatchManual now runId jobId inp db = (res, db') \<Longrightarrow> linked db \<Longrightarrow> linked db'"
proof (cases "\<exists>rec. res = Inr (rec, False)")
  case True
  assume d: "dispatchManual now runId jobId inp db = (res, db')" and l: "linked db"
  from True obtain run js where "res = Inr ((run, js), False)" by auto
  with d have "dispatchManual now runId jobId inp db = (Inr ((run, js), False), db')" by simp
  then obtain job where "insert_dispatch run job db = Inr db'"
    by (rule dispatchManual_new)
  then obtain db1 where "insert_run run db = Inr db1" "insert_job job db1 = Inr db'"
    by (auto simp: insert_dispatch_def and_then_Inr)
  from linked_insert_job [OF this(2) same_links_linked [OF same_links_insert(1) [OF this(1)] l]]
  show "linked db'" .
next
  case False
  assume d: "dispatchManual now runId jobId inp db = (res, db')" and l: "linked db"
  from dispatchManual_other [OF d] False have "db' = db" by blast
  with l show "linked db'" by simp
qed

lemma cancel_links: "cancel now i expected reason db = (res, db') \<Longrightarrow> same_links db db'"
proof (cases res)
  case (Inl e)
  assume "cancel now i expected reason db = (res, db')"
  with Inl cancel_error show ?thesis by fastforce
next
  case (Inr a)
  assume "cancel now i expected reason db = (res, db')"
  with Inr obtain run js where "cancel now i expected reason db = (Inr (run, js), db')" by (cases a) auto
  then obtain db1 where "db1 = update_run run db" "fold_result cancel_job_step js db1 = Inr db'"
    by (rule cancel_Inr)
  moreover have "same_links db1 db'"
    by (rule fold_result_invariant [where I = "same_links db1", OF calculation(2)])
      (auto simp: cancel_job_step_Inr intro: same_links_trans)
  ultimately show ?thesis using same_links_trans [OF same_links_update(1)] by blast
qed

lemma renewLease_body_links:
  "renewLease_body env cfg now workerId leaseId token db = Inr (l', db') \<Longrightarrow> same_links db db'"
  by (erule renewLease_body_Inr) simp

interpretation dispatch_ctl: linking_operation "dispatchManual now runId jobId inp" for now runId jobId inp
  by unfold_locales (metis dispatchManual_links prod.collapse well_formed_def)

interpretation cancel_ctl: linking_operation "cancel now i expected reason" for now i expected reason
  by unfold_locales (metis cancel_links same_links_linked prod.collapse well_formed_def)

interpretation claim_ctl: linking_operation "claim env cfg now now' leaseId token workerId credential"
  for env cfg now now' leaseId token workerId credential
proof unfold_locales
  fix db assume "well_formed db"
  then show "linked (snd (claim env cfg now now' leaseId token workerId credential db))"
    unfolding claim_def
    by (intro links_authenticated) (auto simp: well_formed_def dest: claim_body_links [rotated])
qed

interpretation claimSpecific_ctl: linking_operation "claimSpecific env cfg now now' leaseId token workerId credential jobId"
  for env cfg now now' leaseId token workerId credential jobId
proof unfold_locales
  fix db assume "well_formed db"
  then show "linked (snd (claimSpecific env cfg now now' leaseId token workerId credential jobId db))"
    unfolding claimSpecific_def
    by (intro links_authenticated) (auto simp: well_formed_def dest: claimSpecific_body_links [rotated])
qed

interpretation reap_ctl: linking_operation "reapExpired now" for now
proof unfold_locales
  fix db assume "well_formed db"
  then show "linked (snd (reapExpired now db))"
    unfolding reapExpired_def
    by (intro links_transaction) (auto simp: well_formed_def dest: reap_links intro: same_links_linked)
qed

interpretation renew_ctl: linking_operation "renewLease env cfg now workerId credential leaseId token"
  for env cfg now workerId credential leaseId token
proof unfold_locales
  fix db assume "well_formed db"
  then show "linked (snd (renewLease env cfg now workerId credential leaseId token db))"
    unfolding renewLease_def
    by (intro links_authenticated) (auto simp: well_formed_def dest: renewLease_body_links intro: same_links_linked)
qed

interpretation release_ctl: linking_operation "releaseLease env now workerId credential leaseId token reason"
  for env now workerId credential leaseId token reason
proof unfold_locales
  fix db assume wf: "well_formed db"
  have "linked db2" if "closeLease l L_RELEASED t why db = Inr (next, db1)"
      "returnJobToPending (lease_jobId l) t db1 = Inr db2" for l t why "next" db1 db2
  proof -
    have "close_and_return L_RELEASED t why l db = Inr db2"
      using that by (simp add: close_and_return_def)
    with close_and_return_links same_links_linked wf show ?thesis unfolding well_formed_def by blast
  qed
  with wf show "linked (snd (releaseLease env now workerId credential leaseId token reason db))"
    unfolding releaseLease_def
    by (intro links_authenticated) (auto simp: and_then_Inr well_formed_def)
qed

interpretation safe_renew_ctl: linking_operation "safe_renewLease env cfg now now' workerId credential leaseId token"
  for env cfg now now' workerId credential leaseId token
proof unfold_locales
  fix db assume wf: "well_formed db"
  obtain res db1 where r: "renewLease env cfg now workerId credential leaseId token db = (res, db1)" by fastforce
  have "well_formed db1" by (rule renew_ctl.keeps_well_formed [OF wf r])
  moreover have "well_formed (snd (reapExpired now' db1))" if "well_formed db1"
    using reap_ctl.keeps_well_formed [OF that] by (metis prod.collapse)
  ultimately show "linked (snd (safe_renewLease env cfg now now' workerId credential leaseId token db))"
    by (auto simp: safe_renewLease_def r well_formed_def split: sum.splits prod.splits)
qed

interpretation create_worker_ctl: linking_operation "createWorker env cfg now now' workerId credential inp"
  for env cfg now now' workerId credential inp
proof unfold_locales
  fix db assume wf: "well_formed db"
  have "linked db2" if "insert_worker w db = Inr db1" "insert_credential c db1 = Inr db2" for w c db1 db2
    using same_links_linked [OF same_links_trans [OF same_links_insert(4) [OF that(1)] same_links_insert(5) [OF that(2)]]]
      wf by (simp add: well_formed_def)
  then have "linked (snd (in_transaction db
          (and_then (insert_worker w db) (\<lambda>db1. and_then (insert_credential c db1) (\<lambda>db2. Inr ((), db2))))))" for w c
    using wf by (intro links_transaction) (auto simp: and_then_Inr well_formed_def)
  with wf show "linked (snd (createWorker env cfg now now' workerId credential inp db))"
    unfolding createWorker_def Let_def
    by (auto intro!: links_then_view simp: well_formed_def split: sum.split)
qed

interpretation rotate_ctl: linking_operation "rotateCredential env now credential i" for env now credential i
proof unfold_locales
  fix db assume "well_formed db"
  then show "linked (snd (rotateCredential env now credential i db))"
    by (auto simp: rotateCredential_def well_formed_def split: sum.splits option.splits
        elim!: same_links_linked [rotated] intro!: same_links_cong)
qed

interpretation heartbeat_ctl: linking_operation "heartbeat env cfg now now' heartbeatId inp credential"
  for env cfg now now' heartbeatId inp credential
proof unfold_locales
  fix db assume wf: "well_formed db"
  have trim: "same_links db1 (trim_heartbeats w db1)" for w db1
    unfolding trim_heartbeats_def Let_def by (rule same_links_cong) simp_all
  have "linked (trim_heartbeats w db1)" if "insert_heartbeat h db = Inr db1" for h w db1
    using wf same_links_linked [OF same_links_trans [OF same_links_insert(6) [OF that] trim]]
    by (simp add: well_formed_def)
  then have "linked (snd (in_transaction db
          (and_then (insert_heartbeat h db) (\<lambda>db1. Inr ((), trim_heartbeats w db1)))))" for w h
    using wf by (intro links_transaction) (auto simp: and_then_Inr well_formed_def)
  with wf show "linked (snd (heartbeat env cfg now now' heartbeatId inp credential db))"
    unfolding heartbeat_def
    by (auto intro!: links_then_view simp: well_formed_def split: sum.split)
qed

interpretation update_worker_ctl: linking_operation "updateWorker cfg now now' i inp expected"
  for cfg now now' i inp expected
proof unfold_locales
  fix db assume wf: "well_formed db"
  have up: "same_links db db1" if "update_worker_if i expected next db = Some db1" for "next" db1
    using that by (auto simp: update_worker_if_def intro!: same_links_cong split: option.splits if_splits)
  have "linked (snd (in_transaction db
          (case update_worker_if i expected next db of
             None \<Rightarrow> conflict (Worker WORKER_VERSION_CONFLICT)
           | Some db1 \<Rightarrow>
               if worker_desiredState next = W_DISABLED
               then and_then (revokeActiveLeasesForWorker i t why db1) (\<lambda>db2. Inr ((), db2))
               else Inr ((), db1))))" for "next" t why
    using wf
    by (intro links_transaction)
      (auto simp: and_then_Inr well_formed_def split: option.splits if_splits
        dest!: up revoke_links intro: same_links_linked same_links_trans)
  with wf show "linked (snd (updateWorker cfg now now' i inp expected db))"
    unfolding updateWorker_def
    by (auto intro!: links_then_view simp: well_formed_def split: sum.split)
qed

end
