(* ===== verification/Execution_Protocol.thy ===== *)
theory Execution_Protocol
  imports Worker_Execution Store_Links
begin

text \<open>
  What the execution repository guarantees. Each transition is one step of the specification
  (start, advance, finish, abandon); with the links of \<open>Store_Links\<close> every method meets the contract
  \<open>control_operation\<close>.
\<close>

section \<open>What the guards establish\<close>

lemma update_document_Inr:
  "updateAttempt a db = Inr db' \<longleftrightarrow> attempt_valid a \<and> db' = update_attempt a db"
  "updateJob j s t db = Inr db' \<longleftrightarrow>
     job_valid (j\<lparr>job_status := s, job_updatedAt := t\<rparr>) \<and> db' = update_job (j\<lparr>job_status := s, job_updatedAt := t\<rparr>) db"
  "updateRun r rs t db = Inr db' \<longleftrightarrow>
     run_valid (r\<lparr>run_status := rs, run_updatedAt := t\<rparr>) \<and> db' = update_run (r\<lparr>run_status := rs, run_updatedAt := t\<rparr>) db"
  "closeExecutionLease l ls why t db = Inr db' \<longleftrightarrow>
     lease_valid (ended_lease l ls why t) \<and> db' = update_lease_closed (ended_lease l ls why t) db"
  by (auto simp: updateAttempt_def updateJob_def updateRun_def closeExecutionLease_def Let_def doc_simps)

lemma buildEvent_Inr:
  "buildEvent db i a from to ty key digest t = Inr e \<Longrightarrow>
     event_valid e \<and> event_id e = i \<and> event_attemptId e = attempt_id a
     \<and> event_sequence e = int (length (filter (\<lambda>x. er_attempt_id x = attempt_id a) (events db))) + 1
     \<and> event_fromStatus e = from \<and> event_toStatus e = to \<and> event_type e = ty
     \<and> event_idempotencyKey e = key \<and> event_payloadHash e = digest \<and> event_recordedAt e = t"
  by (auto simp: buildEvent_def Let_def doc_simps)

text \<open>The context of a lease held by the caller, in terms of the rows and of the abstract state.\<close>

lemma activeContext_Inr:
  assumes "requireActiveContext env db workerId leaseId token t = Inr c" and wf: "well_formed db"
  obtains lr jr rr where
    "lease_by_id leaseId db = Some lr" "lr_document lr = ctx_lease c"
    "job_by_id (job_id (ctx_job c)) db = Some jr" "jr_document jr = ctx_job c"
    "run_by_id (run_id (ctx_run c)) db = Some rr" "rr_document rr = ctx_run c"
    "lease_id (ctx_lease c) = leaseId" "lease_workerId (ctx_lease c) = workerId"
    "lease_jobId (ctx_lease c) = job_id (ctx_job c)" "run_id (ctx_run c) = job_runId (ctx_job c)"
    "lease_status (ctx_lease c) = L_ACTIVE" "verifyDigest env token (ctx_tokenDigest c)"
    "\<not> dates_le (parse_iso (lease_expiresAt (ctx_lease c))) (parse_iso t)"
    "sp_leases (view_of db) leaseId = Some (job_id (ctx_job c), True)"
    "sp_jobs (view_of db) (job_id (ctx_job c)) =
       Some (run_id (ctx_run c), job_attempt (ctx_job c), job_status (ctx_job c))"
    "sp_runs (view_of db) (run_id (ctx_run c)) = Some (run_status (ctx_run c))"
proof -
  have ok: "store_ok db" "linked db" using wf by (simp_all add: well_formed_def)
  obtain lr jr rr where rows: "lease_by_id leaseId db = Some lr" "job_by_id (lr_job_id lr) db = Some jr"
      "run_by_id (lr_run_id lr) db = Some rr"
    and docs: "lr_document lr = ctx_lease c" "jr_document jr = ctx_job c" "rr_document rr = ctx_run c"
      "ctx_tokenDigest c = lr_token_digest lr"
    and guards: "lease_workerId (ctx_lease c) = workerId" "verifyDigest env token (ctx_tokenDigest c)"
      "lease_status (ctx_lease c) = L_ACTIVE"
      "\<not> dates_le (parse_iso (lease_expiresAt (ctx_lease c))) (parse_iso t)"
    using assms(1)
    by (auto simp: requireActiveContext_def ownedContext_def loadLeaseContext_def and_then_Inr
        split: option.splits prod.splits if_splits)
  note lc = lease_columns [OF ok(1) rows(1)] and jc = job_columns [OF ok(1) rows(2)]
    and rc = run_columns [OF ok(1) rows(3)]
  have "lr \<in> set (leases db)"
    using rows(1) by (auto simp: lease_by_id_def dest: find_by_SomeD)
  then have run: "lr_run_id lr = jr_run_id jr"
    using linked_run(1) [OF ok(2,1) rows(2)] by simp
  show ?thesis
    by (rule that [of lr jr rr]) (use rows docs guards lc jc rc run in auto)
qed

lemma attempt_row_found:
  assumes "store_ok db" "find_by ar_lease_id leaseId (attempts db) = Some r"
  shows "find_by ar_id (attempt_id (ar_document r)) (attempts db) = Some r"
    "attempt_leaseId (ar_document r) = leaseId" "attempt_row_of (ar_document r) = r"
    "ar_status r = attempt_status (ar_document r)" "ar_job_id r = attempt_jobId (ar_document r)"
    "ar_job_attempt r = attempt_jobAttempt (ar_document r)" "ar_run_id r = attempt_runId (ar_document r)"
proof -
  have "r \<in> set (attempts db)" "ar_lease_id r = leaseId"
    using find_by_SomeD [OF assms(2)] by simp_all
  with attempt_columns [OF assms(1)] show
    "find_by ar_id (attempt_id (ar_document r)) (attempts db) = Some r"
    "attempt_leaseId (ar_document r) = leaseId" "attempt_row_of (ar_document r) = r"
    "ar_status r = attempt_status (ar_document r)" "ar_job_id r = attempt_jobId (ar_document r)"
    "ar_job_attempt r = attempt_jobAttempt (ar_document r)" "ar_run_id r = attempt_runId (ar_document r)"
    by metis+
qed

lemma requireAttempt_Inr:
  assumes "requireAttemptByLease db leaseId = Inr (a, es)" and ok: "store_ok db"
  obtains r where "find_by ar_id (attempt_id a) (attempts db) = Some r" "ar_document r = a"
    "attempt_row_of a = r" "attempt_leaseId a = leaseId" "attempt_valid a"
    "sp_attempts (view_of db) (attempt_id a) =
       Some (attempt_jobId a, attempt_jobAttempt a, leaseId, attempt_status a)"
proof -
  obtain r where r: "find_by ar_lease_id leaseId (attempts db) = Some r" "ar_document r = a" "attempt_valid a"
    using assms(1)
    by (auto simp: requireAttemptByLease_def getByLeaseId_def record_of_row_def recordForAttempt_def
        and_then_Inr split: option.splits)
  note f = attempt_row_found [OF ok r(1), unfolded r(2)]
  have "ar_lease_id r = leaseId" using find_by_SomeD [OF r(1)] by simp
  with f r show ?thesis by (intro that [of r]) auto
qed

section \<open>The transitions as steps of the specification\<close>

text \<open>
  Writing the rows of a transition, on the abstract state. The attempt is new or present; the
  job's and the run's rows are found, and only statuses and times change.
\<close>

lemma write_run_canon:
  "run_row_of r = row \<Longrightarrow> write_run (r\<lparr>run_status := s, run_updatedAt := t\<rparr>) row
     = run_row_of (r\<lparr>run_status := s, run_updatedAt := t\<rparr>)"
  by (auto simp: write_run_def run_row_of_def)

lemma update_job_status:
  assumes ok: "store_ok db" and j: "job_by_id (job_id j) db = Some r" "jr_document r = j"
  shows "store_ok (update_job (j\<lparr>job_status := s, job_updatedAt := t\<rparr>) db)"
    "view_of (update_job (j\<lparr>job_status := s, job_updatedAt := t\<rparr>) db) =
       (view_of db)\<lparr>sp_jobs := (sp_jobs (view_of db))(job_id j \<mapsto> (job_runId j, job_attempt j, s))\<rparr>"
proof -
  note col = job_columns [OF ok j(1), unfolded j(2)]
  show "store_ok (update_job (j\<lparr>job_status := s, job_updatedAt := t\<rparr>) db)"
    using j col by (intro store_ok_update_job [OF ok]) (auto intro!: write_job_canon [OF col(7)])
  show "view_of (update_job (j\<lparr>job_status := s, job_updatedAt := t\<rparr>) db) =
       (view_of db)\<lparr>sp_jobs := (sp_jobs (view_of db))(job_id j \<mapsto> (job_runId j, job_attempt j, s))\<rparr>"
    using view_update_job [of "j\<lparr>job_status := s, job_updatedAt := t\<rparr>" db r] j col by simp
qed

lemma update_run_status:
  assumes ok: "store_ok db" and r: "run_by_id (run_id c) db = Some r" "rr_document r = c"
  shows "store_ok (update_run (c\<lparr>run_status := s, run_updatedAt := t\<rparr>) db)"
    "view_of (update_run (c\<lparr>run_status := s, run_updatedAt := t\<rparr>) db) =
       (view_of db)\<lparr>sp_runs := (sp_runs (view_of db))(run_id c \<mapsto> s)\<rparr>"
proof -
  note col = run_columns [OF ok r(1), unfolded r(2)]
  show "store_ok (update_run (c\<lparr>run_status := s, run_updatedAt := t\<rparr>) db)"
    using r col by (intro store_ok_update_run [OF ok]) (auto intro!: write_run_canon)
  show "view_of (update_run (c\<lparr>run_status := s, run_updatedAt := t\<rparr>) db) =
       (view_of db)\<lparr>sp_runs := (sp_runs (view_of db))(run_id c \<mapsto> s)\<rparr>"
    using view_update_run [of "c\<lparr>run_status := s, run_updatedAt := t\<rparr>" db r] r by simp
qed

lemma update_lease_ended:
  assumes ok: "store_ok db" and l: "lease_by_id (lease_id l) db = Some r" "lr_document r = l" and s: "s \<noteq> L_ACTIVE"
  shows "store_ok (update_lease_closed (ended_lease l s why t) db)"
    "view_of (update_lease_closed (ended_lease l s why t) db) =
       (view_of db)\<lparr>sp_leases := (sp_leases (view_of db))(lease_id l \<mapsto> (lease_jobId l, False))\<rparr>"
proof -
  note col = lease_columns [OF ok l(1), unfolded l(2)]
  have w: "write_lease_closed (ended_lease l s why t) r = lease_row_of (lr_token_digest r) (ended_lease l s why t)"
    using col by (auto simp: write_lease_closed_def lease_row_of_def ended_lease_def)
  then show "store_ok (update_lease_closed (ended_lease l s why t) db)"
    using l by (intro store_ok_update_lease_closed [OF ok]) (auto simp: ended_lease_def)
  show "view_of (update_lease_closed (ended_lease l s why t) db) =
       (view_of db)\<lparr>sp_leases := (sp_leases (view_of db))(lease_id l \<mapsto> (lease_jobId l, False))\<rparr>"
    using view_update_lease_closed [of "ended_lease l s why t" db r] l s col by (simp add: ended_lease_def)
qed

lemma update_attempt_status:
  assumes ok: "store_ok db" and a: "find_by ar_id (attempt_id a) (attempts db) = Some r" "attempt_row_of a = r"
    and a': "attempt_id a' = attempt_id a" "attempt_runId a' = attempt_runId a" "attempt_jobId a' = attempt_jobId a"
      "attempt_jobAttempt a' = attempt_jobAttempt a" "attempt_leaseId a' = attempt_leaseId a"
      "attempt_startedAt a' = attempt_startedAt a"
  shows "store_ok (update_attempt a' db)"
    "view_of (update_attempt a' db) = (view_of db)\<lparr>sp_attempts := (sp_attempts (view_of db))
       (attempt_id a \<mapsto> (attempt_jobId a, attempt_jobAttempt a, attempt_leaseId a, attempt_status a'))\<rparr>"
proof -
  have w: "write_attempt a' r = attempt_row_of a'"
    using a(2) a' by (auto simp: write_attempt_def attempt_row_of_def)
  then show "store_ok (update_attempt a' db)"
    using a a' by (intro store_ok_update_attempt [OF ok]) auto
  show "view_of (update_attempt a' db) = (view_of db)\<lparr>sp_attempts := (sp_attempts (view_of db))
       (attempt_id a \<mapsto> (attempt_jobId a, attempt_jobAttempt a, attempt_leaseId a, attempt_status a'))\<rparr>"
    using view_update_attempt [of a' db r] a a' by (auto simp: attempt_row_of_def)
qed

lemma insert_frames:
  "insert_attempt a db = Inr db1 \<Longrightarrow> jobs db1 = jobs db \<and> collection_runs db1 = collection_runs db
     \<and> leases db1 = leases db \<and> events db1 = events db"
  "insert_event e db = Inr db2 \<Longrightarrow> jobs db2 = jobs db \<and> collection_runs db2 = collection_runs db
     \<and> leases db2 = leases db \<and> attempts db2 = attempts db \<and> events db2 = events db @ [event_row_of e]"
  "insert_request q db = Inr db3 \<Longrightarrow> jobs db3 = jobs db \<and> collection_runs db3 = collection_runs db
     \<and> leases db3 = leases db \<and> attempts db3 = attempts db \<and> events db3 = events db
     \<and> requests db3 = requests db @ [q]"
  "insert_job j db = Inr db4 \<Longrightarrow> collection_runs db4 = collection_runs db
     \<and> leases db4 = leases db \<and> attempts db4 = attempts db \<and> events db4 = events db"
  by (auto simp: insert_attempt_def insert_event_def insert_request_def insert_job_def split: if_splits)

lemma by_id_cong:
  "jobs db' = jobs db \<Longrightarrow> job_by_id i db' = job_by_id i db"
  "collection_runs db' = collection_runs db \<Longrightarrow> run_by_id i db' = run_by_id i db"
  "leases db' = leases db \<Longrightarrow> lease_by_id i db' = lease_by_id i db"
  by (simp_all add: job_by_id_def run_by_id_def lease_by_id_def)

lemma start_body_Inr:
  assumes "start_body env now attemptId eventId workerId leaseId token executor key digest db = Inr (res, db')"
  obtains c attempt event db1 db2 where
    "requireActiveContext env db workerId leaseId token (to_iso now) = Inr c"
    "job_status (ctx_job c) = J_LEASED" "run_status (ctx_run c) = R_PENDING"
    "attempt = new_attempt attemptId workerId executor (ctx_job c) (ctx_lease c) (to_iso now)" "attempt_valid attempt"
    "buildEvent db eventId attempt None X_RUNNING E_STARTED key digest (to_iso now) = Inr event"
    "insert_attempt attempt db = Inr db1" "insert_event event db1 = Inr db2"
    "job_valid ((ctx_job c)\<lparr>job_status := J_RUNNING, job_updatedAt := to_iso now\<rparr>)"
    "run_valid ((ctx_run c)\<lparr>run_status := R_RUNNING, run_updatedAt := to_iso now\<rparr>)"
    "storeReplay workerId leaseId key ''START'' digest attempt event
       (update_run ((ctx_run c)\<lparr>run_status := R_RUNNING, run_updatedAt := to_iso now\<rparr>)
         (update_job ((ctx_job c)\<lparr>job_status := J_RUNNING, job_updatedAt := to_iso now\<rparr>) db2)) = Inr db'"
    "res = (attempt, event, False)"
  using assms
  by (auto simp: start_body_def Let_def and_then_Inr update_document_Inr doc_simps split: if_splits intro: that)

lemma new_attempt_shape [simp]:
  "attempt_id (new_attempt i w x j l t) = i" "attempt_jobId (new_attempt i w x j l t) = job_id j"
  "attempt_runId (new_attempt i w x j l t) = job_runId j" "attempt_leaseId (new_attempt i w x j l t) = lease_id l"
  "attempt_jobAttempt (new_attempt i w x j l t) = job_attempt j" "attempt_workerId (new_attempt i w x j l t) = w"
  "attempt_status (new_attempt i w x j l t) = X_RUNNING" "attempt_executor (new_attempt i w x j l t) = x"
  by (simp_all add: new_attempt_def)

text \<open>What a start writes, on the abstract state.\<close>

definition started :: "lease_context \<Rightarrow> string \<Rightarrow> string \<Rightarrow> spec \<Rightarrow> spec" where
  "started c l a s =
     s\<lparr>sp_attempts := (sp_attempts s)(a \<mapsto> (job_id (ctx_job c), job_attempt (ctx_job c), l, X_RUNNING)),
       sp_jobs := (sp_jobs s)(job_id (ctx_job c) \<mapsto> (run_id (ctx_run c), job_attempt (ctx_job c), J_RUNNING)),
       sp_runs := (sp_runs s)(run_id (ctx_run c) \<mapsto> R_RUNNING)\<rparr>"

lemma start_body_refines:
  assumes wf: "well_formed db"
    and s: "start_body env now attemptId eventId workerId leaseId token executor key digest db = Inr (res, db')"
  shows "store_ok db'" "linked db'" "spec_step (view_of db) (view_of db')"
    "\<exists>c. requireActiveContext env db workerId leaseId token (to_iso now) = Inr c
      \<and> view_of db' = started c leaseId attemptId (view_of db)"
proof -
  have ok: "store_ok db" "linked db" using wf by (simp_all add: well_formed_def)
  from s obtain c attempt event db1 db2 where
    ctx: "requireActiveContext env db workerId leaseId token (to_iso now) = Inr c"
    and st: "job_status (ctx_job c) = J_LEASED" "run_status (ctx_run c) = R_PENDING"
    and at: "attempt = new_attempt attemptId workerId executor (ctx_job c) (ctx_lease c) (to_iso now)"
    and ins: "insert_attempt attempt db = Inr db1" "insert_event event db1 = Inr db2"
    and rep: "storeReplay workerId leaseId key ''START'' digest attempt event
       (update_run ((ctx_run c)\<lparr>run_status := R_RUNNING, run_updatedAt := to_iso now\<rparr>)
         (update_job ((ctx_job c)\<lparr>job_status := J_RUNNING, job_updatedAt := to_iso now\<rparr>) db2)) = Inr db'"
    by (rule start_body_Inr)
  let ?j = "ctx_job c" and ?r = "ctx_run c"
  let ?db3 = "update_job (?j\<lparr>job_status := J_RUNNING, job_updatedAt := to_iso now\<rparr>) db2"
  let ?db4 = "update_run (?r\<lparr>run_status := R_RUNNING, run_updatedAt := to_iso now\<rparr>) ?db3"
  from ctx wf obtain jr rr where
    rows: "job_by_id (job_id ?j) db = Some jr" "jr_document jr = ?j"
      "run_by_id (run_id ?r) db = Some rr" "rr_document rr = ?r"
    and ids: "lease_id (ctx_lease c) = leaseId" "run_id ?r = job_runId ?j"
    and view: "sp_leases (view_of db) leaseId = Some (job_id ?j, True)"
      "sp_jobs (view_of db) (job_id ?j) = Some (run_id ?r, job_attempt ?j, job_status ?j)"
      "sp_runs (view_of db) (run_id ?r) = Some (run_status ?r)"
    by (rule activeContext_Inr)
  note fr = insert_frames(1) [OF ins(1)] insert_frames(2) [OF ins(2)]
  have ok2: "store_ok db2"
    using store_ok_insert(6) [OF store_ok_insert(5) [OF ok(1) ins(1)] ins(2)] .
  have rows2: "job_by_id (job_id ?j) db2 = Some jr" "run_by_id (run_id ?r) db2 = Some rr"
    using rows fr by (simp_all add: job_by_id_def run_by_id_def)
  note u3 = update_job_status [OF ok2 rows2(1) rows(2)]
  have r3: "run_by_id (run_id ?r) ?db3 = Some rr" using rows2(2) by simp
  note u4 = update_run_status [OF u3(1) r3 rows(4)]
  show "store_ok db'"
    using rep store_ok_insert(9) [OF u4(1)] unfolding storeReplay_def by blast
  have "linked db1"
    using linked_insert_attempt [OF ins(1) ok(2)] job_link [OF rows(1)] job_columns(4) [OF ok(1) rows(1)] rows(2)
    by (simp add: at)
  then have "linked ?db4"
    using same_links_linked [OF same_links_trans [OF same_links_insert(2) [OF ins(2)]
          same_links_trans [OF same_links_update(2) same_links_update(1)]]] by blast
  then show "linked db'"
    using rep same_links_linked [OF same_links_insert(3)] unfolding storeReplay_def by blast
  note av = insert_attempt_view [OF ins(1)]
  have v: "view_of db' = (view_of db)\<lparr>sp_attempts := (sp_attempts (view_of db))
        (attemptId \<mapsto> (job_id ?j, job_attempt ?j, leaseId, X_RUNNING)),
      sp_jobs := (sp_jobs (view_of db))(job_id ?j \<mapsto> (run_id ?r, job_attempt ?j, J_RUNNING)),
      sp_runs := (sp_runs (view_of db))(run_id ?r \<mapsto> R_RUNNING)\<rparr>"
    using insert_others(2) [OF rep [unfolded storeReplay_def]] u4(2) u3(2)
      insert_others(1) [OF ins(2)] av(1) ids by (simp add: at)
  then show "\<exists>c. requireActiveContext env db workerId leaseId token (to_iso now) = Inr c
      \<and> view_of db' = started c leaseId attemptId (view_of db)"
    unfolding started_def using ctx by blast
  have free: "l' \<noteq> leaseId \<and> (j', n') \<noteq> (job_id ?j, job_attempt ?j)"
    if "sp_attempts (view_of db) a' = Some (j', n', l', x)" for a' j' n' l' x
  proof -
    from that obtain ar where "find_by ar_id a' (attempts db) = Some ar"
        "ar_job_id ar = j'" "ar_job_attempt ar = n'" "ar_lease_id ar = l'" by auto
    with av(3) [of ar] find_by_SomeD [of ar_id a' "attempts db" ar] ids show ?thesis by (auto simp: at)
  qed
  have new: "sp_attempts (view_of db) attemptId = None"
    using av(2) by (simp add: at)
  show "spec_step (view_of db) (view_of db')"
    unfolding v
  proof (rule spec_step.start [OF view(1) _ _ new])
    show "sp_jobs (view_of db) (job_id ?j) = Some (run_id ?r, job_attempt ?j, J_LEASED)"
      "sp_runs (view_of db) (run_id ?r) = Some R_PENDING"
      using view(2,3) st by (simp_all del: view_simps)
    show "\<forall>a' j' n' l' x. sp_attempts (view_of db) a' = Some (j', n', l', x) \<longrightarrow>
        l' \<noteq> leaseId \<and> (j', n') \<noteq> (job_id ?j, job_attempt ?j)"
      using free by blast
  qed
qed

text \<open>The attempt under a lease is an attempt of the lease's job, at the job's attempt number.\<close>

lemma attempt_of_lease:
  assumes "well_formed db" "sp_leases (view_of db) l = Some (j, b)"
    and "sp_attempts (view_of db) a = Some (j', n', l, x)" "sp_jobs (view_of db) j = Some (r, n, t)"
  shows "j' = j" "n' = n"
proof -
  have "attempt_part (sp_attempts (view_of db)) (sp_jobs (view_of db)) (sp_leases (view_of db))"
    using assms(1) by (simp add: well_formed_def coordinated_def del: view_simps)
  note p = attempt_partD(1,2) [OF this assms(3)]
  show "j' = j" using p(1) assms(2) by (auto simp del: view_simps)
  then show "n' = n" using p(2) assms(4) by (auto simp del: view_simps)
qed

lemma transition_body_Inr:
  assumes "transition_body env now eventId workerId leaseId token key op expected target digest db = Inr (res, db')"
  obtains c a es event db2 where
    "requireActiveContext env db workerId leaseId token (to_iso now) = Inr c"
    "requireAttemptByLease db leaseId = Inr (a, es)"
    "attempt_status a = expected" "job_status (ctx_job c) = job_of_attempt expected"
    "attempt_valid (a\<lparr>attempt_status := target, attempt_updatedAt := to_iso now\<rparr>)"
    "buildEvent db eventId (a\<lparr>attempt_status := target, attempt_updatedAt := to_iso now\<rparr>) (Some expected) target op
       key digest (to_iso now) = Inr event"
    "insert_event event (update_attempt (a\<lparr>attempt_status := target, attempt_updatedAt := to_iso now\<rparr>) db) = Inr db2"
    "job_valid ((ctx_job c)\<lparr>job_status := job_of_attempt target, job_updatedAt := to_iso now\<rparr>)"
    "storeReplay workerId leaseId key (event_type_name op) digest
       (a\<lparr>attempt_status := target, attempt_updatedAt := to_iso now\<rparr>) event
       (update_job ((ctx_job c)\<lparr>job_status := job_of_attempt target, job_updatedAt := to_iso now\<rparr>) db2) = Inr db'"
    "res = (a\<lparr>attempt_status := target, attempt_updatedAt := to_iso now\<rparr>, event, False)"
  using assms
  by (auto simp: transition_body_def Let_def and_then_Inr update_document_Inr split: if_splits intro: that)

lemma transition_body_refines:
  assumes wf: "well_formed db" and adv: "attempt_advances expected target"
    and s: "transition_body env now eventId workerId leaseId token key op expected target digest db = Inr (res, db')"
  shows "store_ok db'" "linked db'" "spec_step (view_of db) (view_of db')"
proof -
  have ok: "store_ok db" "linked db" using wf by (simp_all add: well_formed_def)
  from s obtain c a es event db2 where
    ctx: "requireActiveContext env db workerId leaseId token (to_iso now) = Inr c"
    and at: "requireAttemptByLease db leaseId = Inr (a, es)"
    and st: "attempt_status a = expected" "job_status (ctx_job c) = job_of_attempt expected"
    and ins: "insert_event event (update_attempt (a\<lparr>attempt_status := target, attempt_updatedAt := to_iso now\<rparr>) db) = Inr db2"
    and rep: "storeReplay workerId leaseId key (event_type_name op) digest
       (a\<lparr>attempt_status := target, attempt_updatedAt := to_iso now\<rparr>) event
       (update_job ((ctx_job c)\<lparr>job_status := job_of_attempt target, job_updatedAt := to_iso now\<rparr>) db2) = Inr db'"
    by (rule transition_body_Inr)
  let ?j = "ctx_job c" and ?r = "ctx_run c"
  let ?a = "a\<lparr>attempt_status := target, attempt_updatedAt := to_iso now\<rparr>"
  let ?db1 = "update_attempt ?a db"
  let ?db3 = "update_job (?j\<lparr>job_status := job_of_attempt target, job_updatedAt := to_iso now\<rparr>) db2"
  from ctx wf obtain jr where
    rows: "job_by_id (job_id ?j) db = Some jr" "jr_document jr = ?j"
    and ids: "run_id ?r = job_runId ?j"
    and view: "sp_leases (view_of db) leaseId = Some (job_id ?j, True)"
      "sp_jobs (view_of db) (job_id ?j) = Some (run_id ?r, job_attempt ?j, job_status ?j)"
    by (rule activeContext_Inr)
  from at ok(1) obtain ar where
    ar: "find_by ar_id (attempt_id a) (attempts db) = Some ar" "attempt_row_of a = ar"
    and al: "attempt_leaseId a = leaseId"
    and av: "sp_attempts (view_of db) (attempt_id a) =
       Some (attempt_jobId a, attempt_jobAttempt a, leaseId, attempt_status a)"
    by (rule requireAttempt_Inr)
  have same: "attempt_jobId a = job_id ?j" "attempt_jobAttempt a = job_attempt ?j"
    using attempt_of_lease [OF wf view(1) av view(2)] by simp_all
  note u1 = update_attempt_status [OF ok(1) ar, of ?a]
  note fr = insert_frames(2) [OF ins]
  have ok2: "store_ok db2"
    by (rule store_ok_insert(6) [OF u1(1) ins]) simp_all
  have rows2: "job_by_id (job_id ?j) db2 = Some jr"
    using rows fr by (simp add: job_by_id_def)
  note u3 = update_job_status [OF ok2 rows2 rows(2)]
  show "store_ok db'"
    using rep store_ok_insert(9) [OF u3(1)] unfolding storeReplay_def by blast
  have "same_links db ?db3"
    using same_links_trans [OF same_links_update(5) same_links_trans [OF same_links_insert(2) [OF ins] same_links_update(2)]] .
  then have "same_links db db'"
    using rep same_links_insert(3) same_links_trans unfolding storeReplay_def by blast
  then show "linked db'" using same_links_linked ok(2) by blast
  have v: "view_of db' = (view_of db)\<lparr>sp_attempts := (sp_attempts (view_of db))
        (attempt_id a \<mapsto> (job_id ?j, job_attempt ?j, leaseId, target)),
      sp_jobs := (sp_jobs (view_of db))(job_id ?j \<mapsto> (run_id ?r, job_attempt ?j, job_of_attempt target))\<rparr>"
    using insert_others(2) [OF rep [unfolded storeReplay_def]] u3(2) insert_others(1) [OF ins] u1(2) ids same al
    by simp
  show "spec_step (view_of db) (view_of db')"
    unfolding v
    by (rule spec_step.advance [OF view(1) av [unfolded same st(1)] _ adv]) (use view(2) st in simp)
qed

section \<open>Endings\<close>

definition ending_of :: "execution_outcome \<Rightarrow> job \<Rightarrow> string \<Rightarrow> ending" where
  "ending_of terminal j retryJobId =
     (case terminal of
        Receipt _ \<Rightarrow> Complete
      | Failure f \<Rightarrow>
          if failure_retryable f \<and> job_attempt j < job_maxAttempts j then Retry retryJobId
          else if failure_retryable f then Exhaust else Fail)"

lemma retryJob_shape [simp]:
  "job_id (retryJob j i a t) = i" "job_runId (retryJob j i a t) = job_runId j"
  "job_attempt (retryJob j i a t) = job_attempt j + 1" "job_status (retryJob j i a t) = J_PENDING"
  "job_maxAttempts (retryJob j i a t) = job_maxAttempts j" "job_availableAt (retryJob j i a t) = a"
  by (simp_all add: retryJob_def)

lemma insertRetryJob_Inr:
  assumes "insertRetryJob env i j t db = Inr db'"
  obtains available where "job_valid (retryJob j i available t)" "insert_job (retryJob j i available t) db = Inr db'"
    "toISOString (case parse_iso t of None \<Rightarrow> None
       | Some u \<Rightarrow> new_Date (u + computeExecutionRetryDelayMs env j)) = Inr available"
  using assms by (auto simp: insertRetryJob_def and_then_Inr doc_simps split: if_splits intro: that)

text \<open>Updating the job, possibly inserting its successor, and updating the run.\<close>

lemma settle_plain:
  assumes ok: "store_ok db" and j: "job_by_id (job_id j) db = Some jr" "jr_document jr = j"
    and r: "run_by_id (run_id c) db = Some rr" "rr_document rr = c"
    and u: "updateJob j s t db = Inr db1" "updateRun c rs t db1 = Inr db2"
  shows "store_ok db2" "same_links db db2" "leases db2 = leases db" "attempts db2 = attempts db" "events db2 = events db"
    "view_of db2 = (view_of db)\<lparr>sp_jobs := (sp_jobs (view_of db))(job_id j \<mapsto> (job_runId j, job_attempt j, s)),
       sp_runs := (sp_runs (view_of db))(run_id c \<mapsto> rs)\<rparr>"
proof -
  have db: "db1 = update_job (j\<lparr>job_status := s, job_updatedAt := t\<rparr>) db"
      "db2 = update_run (c\<lparr>run_status := rs, run_updatedAt := t\<rparr>) db1"
    using u by (simp_all add: update_document_Inr)
  note u1 = update_job_status [OF ok j, of t s, folded db(1)]
  have "run_by_id (run_id c) db1 = Some rr" using r(1) by (simp add: db)
  note u2 = update_run_status [OF u1(1) this r(2), of t rs, folded db(2)]
  show "store_ok db2" by (rule u2(1))
  show "same_links db db2"
    unfolding db by (rule same_links_trans [OF same_links_update(2) same_links_update(1)])
  show "leases db2 = leases db" "attempts db2 = attempts db" "events db2 = events db" by (simp_all add: db)
  show "view_of db2 = (view_of db)\<lparr>sp_jobs := (sp_jobs (view_of db))(job_id j \<mapsto> (job_runId j, job_attempt j, s)),
       sp_runs := (sp_runs (view_of db))(run_id c \<mapsto> rs)\<rparr>"
    using u1(2) u2(2) by simp
qed

lemma settle_retry:
  assumes ok: "store_ok db" and j: "job_by_id (job_id j) db = Some jr" "jr_document jr = j"
    and r: "run_by_id (run_id c) db = Some rr" "rr_document rr = c"
    and u: "updateJob j J_RETRY t db = Inr db1" "insertRetryJob env i j t db1 = Inr db2" "updateRun c R_PENDING t db2 = Inr db3"
  shows "store_ok db3" "linked db \<Longrightarrow> linked db3" "leases db3 = leases db" "attempts db3 = attempts db"
    "events db3 = events db" "sp_jobs (view_of db) i = None"
    "view_of db3 = (view_of db)\<lparr>sp_jobs := (sp_jobs (view_of db))(job_id j \<mapsto> (job_runId j, job_attempt j, J_RETRY),
         i \<mapsto> (job_runId j, job_attempt j + 1, J_PENDING)),
       sp_runs := (sp_runs (view_of db))(run_id c \<mapsto> R_PENDING)\<rparr>"
proof -
  have db1: "db1 = update_job (j\<lparr>job_status := J_RETRY, job_updatedAt := t\<rparr>) db"
    and db3: "db3 = update_run (c\<lparr>run_status := R_PENDING, run_updatedAt := t\<rparr>) db2"
    using u by (simp_all add: update_document_Inr)
  from u(2) obtain available where ins: "insert_job (retryJob j i available t) db1 = Inr db2"
    by (rule insertRetryJob_Inr)
  note u1 = update_job_status [OF ok j, of t J_RETRY, folded db1]
  note iv = insert_job_view [OF ins]
  have ok2: "store_ok db2" by (rule store_ok_insert(2) [OF u1(1) ins])
  have "run_by_id (run_id c) db2 = Some rr" using r(1) iv(3) by (simp add: db1 run_by_id_def)
  note u3 = update_run_status [OF ok2 this r(2), of t R_PENDING, folded db3]
  show "store_ok db3" by (rule u3(1))
  show "linked db \<Longrightarrow> linked db3"
    using linked_insert_job [OF ins] same_links_linked [OF same_links_update(2)]
      same_links_linked [OF same_links_update(1)] unfolding db3 by (simp add: db1)
  show "leases db3 = leases db" "attempts db3 = attempts db" "events db3 = events db"
    using iv(4,5) insert_frames(4) [OF ins] by (simp_all add: db1 db3)
  show "sp_jobs (view_of db) i = None"
    using iv(2) by (auto simp: db1 split: if_splits)
  show "view_of db3 = (view_of db)\<lparr>sp_jobs := (sp_jobs (view_of db))(job_id j \<mapsto> (job_runId j, job_attempt j, J_RETRY),
         i \<mapsto> (job_runId j, job_attempt j + 1, J_PENDING)),
       sp_runs := (sp_runs (view_of db))(run_id c \<mapsto> R_PENDING)\<rparr>"
    using u1(2) iv(1) u3(2) by simp
qed

lemma settle_job_refines:
  assumes ok: "store_ok db" and j: "job_by_id (job_id j) db = Some jr" "jr_document jr = j"
    and r: "run_by_id (run_id c) db = Some rr" "rr_document rr = c"
    and u: "settle_job env i terminal j c t db = Inr (why, db')"
  shows "store_ok db' \<and> (linked db \<longrightarrow> linked db') \<and> leases db' = leases db \<and> attempts db' = attempts db
    \<and> events db' = events db
    \<and> (\<forall>i'. ending_of terminal j i = Retry i' \<longrightarrow> sp_jobs (view_of db) i' = None)
    \<and> view_of db' = (view_of db)\<lparr>sp_jobs := retry_job (ending_of terminal j i) (job_runId j) (job_attempt j)
           ((sp_jobs (view_of db))(job_id j \<mapsto> (job_runId j, job_attempt j, ending_job (ending_of terminal j i)))),
         sp_runs := (sp_runs (view_of db))(run_id c \<mapsto> ending_run (ending_of terminal j i))\<rparr>"
proof (cases "\<exists>i'. ending_of terminal j i = Retry i'")
  case True
  then obtain f where t: "terminal = Failure f" "failure_retryable f" "job_attempt j < job_maxAttempts j"
    by (auto simp: ending_of_def split: execution_outcome.splits if_splits)
  with u obtain db1 db2 where
    s: "updateJob j J_RETRY t db = Inr db1" "insertRetryJob env i j t db1 = Inr db2" "updateRun c R_PENDING t db2 = Inr db'"
    by (auto simp: settle_job_def and_then_Inr)
  show ?thesis
    using settle_retry [OF ok j r s] t by (simp add: ending_of_def del: view_simps)
next
  case False
  with u obtain db1 where
    s: "updateJob j (ending_job (ending_of terminal j i)) t db = Inr db1"
       "updateRun c (ending_run (ending_of terminal j i)) t db1 = Inr db'"
    by (auto simp: settle_job_def ending_of_def and_then_Inr split: execution_outcome.splits if_splits)
  have "retry_job (ending_of terminal j i) a b m = m" for a b m
    using False by (cases "ending_of terminal j i") auto
  with settle_plain [OF ok j r s] False show ?thesis
    by (auto simp del: view_simps intro: same_links_linked)
qed

lemma terminal_body_Inr:
  assumes "terminal_body env now eventId retryId workerId leaseId token key op digest terminal db = Inr (res, db')"
  obtains c a es event db2 why db3 where
    "requireActiveContext env db workerId leaseId token (to_iso now) = Inr c"
    "requireAttemptByLease db leaseId = Inr (a, es)"
    "check_completion db a (ctx_job c) terminal = Inr ()"
    "attempt_valid (ended_attempt a terminal (to_iso now))"
    "buildEvent db eventId (ended_attempt a terminal (to_iso now)) (Some (attempt_status a)) (outcome_status terminal)
       (outcome_event terminal) key digest (to_iso now) = Inr event"
    "insert_event event (update_attempt (ended_attempt a terminal (to_iso now)) db) = Inr db2"
    "settle_job env retryId terminal (ctx_job c) (ctx_run c) (to_iso now) db2 = Inr (why, db3)"
    "lease_valid (ended_lease (ctx_lease c) L_RELEASED why (to_iso now))"
    "storeReplay workerId leaseId key op digest (ended_attempt a terminal (to_iso now)) event
       (update_lease_closed (ended_lease (ctx_lease c) L_RELEASED why (to_iso now)) db3) = Inr db'"
    "res = (ended_attempt a terminal (to_iso now), event, False)"
  using assms
  by (auto simp: terminal_body_def Let_def and_then_Inr update_document_Inr doc_simps split: if_splits intro: that)

lemma ended_attempt_shape [simp]:
  "attempt_id (ended_attempt a x t) = attempt_id a" "attempt_jobId (ended_attempt a x t) = attempt_jobId a"
  "attempt_runId (ended_attempt a x t) = attempt_runId a" "attempt_leaseId (ended_attempt a x t) = attempt_leaseId a"
  "attempt_jobAttempt (ended_attempt a x t) = attempt_jobAttempt a" "attempt_status (ended_attempt a x t) = outcome_status x"
  "attempt_startedAt (ended_attempt a x t) = attempt_startedAt a"
  by (cases x; simp)+

lemma check_completion_Inr:
  assumes "check_completion db a j terminal = Inr u"
  shows "active_attempt (attempt_status a)"
    "terminal = Receipt r \<Longrightarrow> attempt_status a = X_VERIFYING \<and> attempt_executor a = receipt_field ''executor'' r
       \<and> assertReceiptMatchesJob r j = Inr () \<and> assertArtifactEvidence db (attempt_id a) r j = Inr ()"
  using assms
  by (auto simp: check_completion_def and_then_Inr ACTIVE_EXECUTION_STATES_def split: execution_outcome.splits if_splits)

text \<open>What an ending writes, on the abstract state.\<close>

definition ended :: "ending \<Rightarrow> lease_context \<Rightarrow> string \<Rightarrow> string \<Rightarrow> spec \<Rightarrow> spec" where
  "ended e c l a s =
     s\<lparr>sp_attempts := (sp_attempts s)(a \<mapsto> (job_id (ctx_job c), job_attempt (ctx_job c), l, ending_attempt e)),
       sp_jobs := retry_job e (run_id (ctx_run c)) (job_attempt (ctx_job c))
         ((sp_jobs s)(job_id (ctx_job c) \<mapsto> (run_id (ctx_run c), job_attempt (ctx_job c), ending_job e))),
       sp_runs := (sp_runs s)(run_id (ctx_run c) \<mapsto> ending_run e),
       sp_leases := (sp_leases s)(l \<mapsto> (job_id (ctx_job c), False))\<rparr>"

lemma terminal_body_refines:
  assumes wf: "well_formed db"
    and s: "terminal_body env now eventId retryId workerId leaseId token key op digest terminal db = Inr (res, db')"
  shows "store_ok db'" "linked db'" "spec_step (view_of db) (view_of db')"
    "\<exists>c a es. requireActiveContext env db workerId leaseId token (to_iso now) = Inr c
      \<and> requireAttemptByLease db leaseId = Inr (a, es) \<and> attempt_jobId a = job_id (ctx_job c)
      \<and> view_of db' = ended (ending_of terminal (ctx_job c) retryId) c leaseId (attempt_id a) (view_of db)"
proof -
  have ok: "store_ok db" "linked db" using wf by (simp_all add: well_formed_def)
  from s obtain c a es event db2 why db3 where
    ctx: "requireActiveContext env db workerId leaseId token (to_iso now) = Inr c"
    and at: "requireAttemptByLease db leaseId = Inr (a, es)"
    and check: "check_completion db a (ctx_job c) terminal = Inr ()"
    and ins: "insert_event event (update_attempt (ended_attempt a terminal (to_iso now)) db) = Inr db2"
    and settle: "settle_job env retryId terminal (ctx_job c) (ctx_run c) (to_iso now) db2 = Inr (why, db3)"
    and rep: "storeReplay workerId leaseId key op digest (ended_attempt a terminal (to_iso now)) event
       (update_lease_closed (ended_lease (ctx_lease c) L_RELEASED why (to_iso now)) db3) = Inr db'"
    by (rule terminal_body_Inr)
  let ?j = "ctx_job c" and ?r = "ctx_run c" and ?l = "ctx_lease c"
  let ?a = "ended_attempt a terminal (to_iso now)" and ?e = "ending_of terminal ?j retryId"
  let ?db4 = "update_lease_closed (ended_lease ?l L_RELEASED why (to_iso now)) db3"
  from ctx wf obtain lr jr rr where
    rows: "lease_by_id leaseId db = Some lr" "lr_document lr = ?l"
      "job_by_id (job_id ?j) db = Some jr" "jr_document jr = ?j"
      "run_by_id (run_id ?r) db = Some rr" "rr_document rr = ?r"
    and ids: "lease_id ?l = leaseId" "lease_jobId ?l = job_id ?j" "run_id ?r = job_runId ?j"
    and view: "sp_leases (view_of db) leaseId = Some (job_id ?j, True)"
      "sp_jobs (view_of db) (job_id ?j) = Some (run_id ?r, job_attempt ?j, job_status ?j)"
      "sp_runs (view_of db) (run_id ?r) = Some (run_status ?r)"
    by (rule activeContext_Inr)
  from at ok(1) obtain ar where
    ar: "find_by ar_id (attempt_id a) (attempts db) = Some ar" "attempt_row_of a = ar"
    and al: "attempt_leaseId a = leaseId"
    and av: "sp_attempts (view_of db) (attempt_id a) =
       Some (attempt_jobId a, attempt_jobAttempt a, leaseId, attempt_status a)"
    by (rule requireAttempt_Inr)
  have same: "attempt_jobId a = job_id ?j" "attempt_jobAttempt a = job_attempt ?j"
    using attempt_of_lease [OF wf view(1) av view(2)] by simp_all
  have u1: "store_ok (update_attempt ?a db)"
    "view_of (update_attempt ?a db) = (view_of db)\<lparr>sp_attempts := (sp_attempts (view_of db))
       (attempt_id a \<mapsto> (attempt_jobId a, attempt_jobAttempt a, attempt_leaseId a, attempt_status ?a))\<rparr>"
    by (rule update_attempt_status [OF ok(1) ar]; simp)+
  note fr = insert_frames(2) [OF ins]
  have ok2: "store_ok db2" by (rule store_ok_insert(6) [OF u1(1) ins])
  have rows2: "job_by_id (job_id ?j) db2 = Some jr" "run_by_id (run_id ?r) db2 = Some rr"
    "lease_by_id leaseId db2 = Some lr"
    using rows fr by (simp_all add: job_by_id_def run_by_id_def lease_by_id_def)
  have links2: "linked db2"
    using same_links_linked [OF same_links_trans [OF same_links_update(5) same_links_insert(2) [OF ins]] ok(2)] .
  note st = settle_job_refines [OF ok2 rows2(1) rows(4) rows2(2) rows(6) settle]
  have l3: "lease_by_id (lease_id ?l) db3 = Some lr"
    using rows2(3) st ids by (simp add: lease_by_id_def)
  note u4 = update_lease_ended [OF conjunct1 [OF st] l3 rows(2), of L_RELEASED why "to_iso now", OF lease_status.distinct(1) [symmetric]]
  show "store_ok db'"
    using rep store_ok_insert(9) [OF u4(1)] unfolding storeReplay_def by blast
  have "linked ?db4" using st links2 same_links_linked [OF same_links_update(4)] by blast
  then show "linked db'"
    using rep same_links_linked [OF same_links_insert(3)] unfolding storeReplay_def by blast
  have v2: "view_of db2 = view_of (update_attempt ?a db)" by (rule insert_others(1) [OF ins])
  have out: "outcome_status terminal = ending_attempt ?e"
    by (cases terminal) (auto simp: ending_of_def)
  have fresh: "\<forall>j'. ?e = Retry j' \<longrightarrow> sp_jobs (view_of db) j' = None"
  proof -
    have "sp_jobs (view_of db2) = sp_jobs (view_of db)" using v2 u1(2) by simp
    then show ?thesis using st by metis
  qed
  have v: "view_of db' = (view_of db)\<lparr>sp_attempts := (sp_attempts (view_of db))
        (attempt_id a \<mapsto> (job_id ?j, job_attempt ?j, leaseId, ending_attempt ?e)),
      sp_jobs := retry_job ?e (run_id ?r) (job_attempt ?j)
        ((sp_jobs (view_of db))(job_id ?j \<mapsto> (run_id ?r, job_attempt ?j, ending_job ?e))),
      sp_runs := (sp_runs (view_of db))(run_id ?r \<mapsto> ending_run ?e),
      sp_leases := (sp_leases (view_of db))(leaseId \<mapsto> (job_id ?j, False))\<rparr>"
    using insert_others(2) [OF rep [unfolded storeReplay_def]] u4(2) st v2 u1(2) ids same al out
    by simp
  then show "\<exists>c a es. requireActiveContext env db workerId leaseId token (to_iso now) = Inr c
      \<and> requireAttemptByLease db leaseId = Inr (a, es) \<and> attempt_jobId a = job_id (ctx_job c)
      \<and> view_of db' = ended (ending_of terminal (ctx_job c) retryId) c leaseId (attempt_id a) (view_of db)"
    unfolding ended_def using ctx at same(1) by blast
  show "spec_step (view_of db) (view_of db')"
    unfolding v
  proof (rule spec_step.finish [OF view(1) av [unfolded same] view(2)])
    show "active_attempt (attempt_status a)" by (rule check_completion_Inr(1) [OF check])
    show "sp_runs (view_of db) (run_id ?r) \<noteq> None" using view(3) by (simp del: view_simps)
    show "?e = Complete \<longrightarrow> attempt_status a = X_VERIFYING"
      using check_completion_Inr(2) [OF check] by (auto simp: ending_of_def split: execution_outcome.splits if_splits)
  qed (rule fresh)
qed

section \<open>Reconciling\<close>

lemma reconcile_one_Inr:
  assumes "reconcile_one env t (i, row) db = Inr db'"
  obtains event db2 where
    "attempt_valid (rc_attempt row)" "lease_valid (rc_lease row)" "job_valid (rc_job row)" "run_valid (rc_run row)"
    "buildEvent db i (ended_attempt (rc_attempt row) (Failure (abandonment t)) t) (Some (attempt_status (rc_attempt row)))
       X_FAILED E_ABANDONED (take 128 (''system-reconcile-'' @ lease_id (rc_lease row)))
       (hashPayload env (JObj [(''code'', JStr (failure_code (abandonment t))),
          (''leaseStatus'', JStr (lease_status_name (lease_status (rc_lease row))))])) t = Inr event"
    "insert_event event (update_attempt (ended_attempt (rc_attempt row) (Failure (abandonment t)) t) db) = Inr db2"
    "db' = (let db4 = update_run ((rc_run row)\<lparr>run_status := R_FAILED, run_updatedAt := t\<rparr>)
              (update_job ((rc_job row)\<lparr>job_status := J_FAILED, job_updatedAt := t\<rparr>) db2)
       in if lease_status (rc_lease row) = L_ACTIVE
          then update_lease_closed (ended_lease (rc_lease row) L_EXPIRED ''LEASE_EXPIRED_DURING_EXECUTION'' t) db4
          else db4)"
  using assms
  by (auto simp: reconcile_one_def Let_def and_then_Inr update_document_Inr split: if_splits intro: that)

text \<open>A row of the join, still as it was read when its attempt is reached.\<close>

definition current_row :: "control_store \<Rightarrow> reconcile_row \<Rightarrow> bool" where
  "current_row db row \<longleftrightarrow>
     (\<exists>ar. find_by ar_id (attempt_id (rc_attempt row)) (attempts db) = Some ar \<and> ar_document ar = rc_attempt row)
     \<and> (\<exists>lr. lease_by_id (lease_id (rc_lease row)) db = Some lr \<and> lr_document lr = rc_lease row)
     \<and> (\<exists>jr. job_by_id (job_id (rc_job row)) db = Some jr \<and> jr_document jr = rc_job row)
     \<and> (\<exists>rr. run_by_id (run_id (rc_run row)) db = Some rr \<and> rr_document rr = rc_run row)
     \<and> attempt_leaseId (rc_attempt row) = lease_id (rc_lease row) \<and> attempt_jobId (rc_attempt row) = job_id (rc_job row)
     \<and> attempt_runId (rc_attempt row) = run_id (rc_run row) \<and> active_attempt (attempt_status (rc_attempt row))"

lemma reconcile_one_refines:
  assumes wf: "well_formed db" and cur: "current_row db row" and s: "reconcile_one env t (i, row) db = Inr db'"
  shows "store_ok db'" "linked db'" "spec_step (view_of db) (view_of db')"
    "attempts db' = update_by ar_id (attempt_id (rc_attempt row))
       (write_attempt (ended_attempt (rc_attempt row) (Failure (abandonment t)) t)) (attempts db)"
proof -
  have ok: "store_ok db" "linked db" using wf by (simp_all add: well_formed_def)
  let ?a = "rc_attempt row" and ?l = "rc_lease row" and ?j = "rc_job row" and ?r = "rc_run row"
  let ?a' = "ended_attempt ?a (Failure (abandonment t)) t"
  from s obtain event db2 where
    ins: "insert_event event (update_attempt ?a' db) = Inr db2"
    and db': "db' = (let db4 = update_run (?r\<lparr>run_status := R_FAILED, run_updatedAt := t\<rparr>)
              (update_job (?j\<lparr>job_status := J_FAILED, job_updatedAt := t\<rparr>) db2)
       in if lease_status ?l = L_ACTIVE
          then update_lease_closed (ended_lease ?l L_EXPIRED ''LEASE_EXPIRED_DURING_EXECUTION'' t) db4
          else db4)"
    by (rule reconcile_one_Inr)
  obtain ar lr jr rr where
    ar: "find_by ar_id (attempt_id ?a) (attempts db) = Some ar" "ar_document ar = ?a"
    and lr: "lease_by_id (lease_id ?l) db = Some lr" "lr_document lr = ?l"
    and jr: "job_by_id (job_id ?j) db = Some jr" "jr_document jr = ?j"
    and rr: "run_by_id (run_id ?r) db = Some rr" "rr_document rr = ?r"
    and ids: "attempt_leaseId ?a = lease_id ?l" "attempt_jobId ?a = job_id ?j" "attempt_runId ?a = run_id ?r"
    and act: "active_attempt (attempt_status ?a)"
    using cur by (auto simp: current_row_def)
  have arin: "ar \<in> set (attempts db)" using find_by_SomeD [OF ar(1)] by simp
  note ac = attempt_columns [OF ok(1) arin, unfolded ar(2)]
  note lc = lease_columns [OF ok(1) lr(1), unfolded lr(2)]
  note jc = job_columns [OF ok(1) jr(1), unfolded jr(2)]
  have run: "run_id ?r = job_runId ?j"
    using linked_run(2) [OF ok(2,1) jr(1) arin] ac ids jc by simp
  have av: "sp_attempts (view_of db) (attempt_id ?a) =
      Some (job_id ?j, attempt_jobAttempt ?a, lease_id ?l, attempt_status ?a)"
    using ar(1) ac ids by simp
  have jv: "sp_jobs (view_of db) (job_id ?j) = Some (run_id ?r, job_attempt ?j, job_status ?j)"
    using jr jc run by simp
  have "attempt_part (sp_attempts (view_of db)) (sp_jobs (view_of db)) (sp_leases (view_of db))"
    using wf by (simp add: well_formed_def coordinated_def del: view_simps)
  note ap = attempt_partD(1,2) [OF this av]
  have jl: "lease_jobId ?l = job_id ?j" using ap(1) lr lc by auto
  have lv: "sp_leases (view_of db) (lease_id ?l) = Some (job_id ?j, lease_status ?l = L_ACTIVE)"
    using ap(1) lr lc by auto
  have n: "attempt_jobAttempt ?a = job_attempt ?j" using ap(2) jv by (auto simp del: view_simps)
  have u1: "store_ok (update_attempt ?a' db)"
    "view_of (update_attempt ?a' db) = (view_of db)\<lparr>sp_attempts := (sp_attempts (view_of db))
       (attempt_id ?a \<mapsto> (attempt_jobId ?a, attempt_jobAttempt ?a, attempt_leaseId ?a, attempt_status ?a'))\<rparr>"
    by (rule update_attempt_status [OF ok(1) ar(1)]; simp add: ac del: ended_attempt.simps)+
  note fr = insert_frames(2) [OF ins]
  have ok2: "store_ok db2" by (rule store_ok_insert(6) [OF u1(1) ins])
  have rows2: "job_by_id (job_id ?j) db2 = Some jr" "run_by_id (run_id ?r) db2 = Some rr"
    "lease_by_id (lease_id ?l) db2 = Some lr"
    using jr rr lr fr by (simp_all add: job_by_id_def run_by_id_def lease_by_id_def)
  let ?db3 = "update_job (?j\<lparr>job_status := J_FAILED, job_updatedAt := t\<rparr>) db2"
  let ?db4 = "update_run (?r\<lparr>run_status := R_FAILED, run_updatedAt := t\<rparr>) ?db3"
  note u3 = update_job_status [OF ok2 rows2(1) jr(2), of t J_FAILED]
  have r3: "run_by_id (run_id ?r) ?db3 = Some rr" using rows2(2) by simp
  note u4 = update_run_status [OF u3(1) r3 rr(2), of t R_FAILED]
  have l4: "lease_by_id (lease_id ?l) ?db4 = Some lr" using rows2(3) by simp
  note u5 = update_lease_ended [OF u4(1) l4 lr(2), of L_EXPIRED "''LEASE_EXPIRED_DURING_EXECUTION''" t]
  have same4: "same_links db ?db4"
    using same_links_trans [OF same_links_update(5) same_links_trans [OF same_links_insert(2) [OF ins]
        same_links_trans [OF same_links_update(2) same_links_update(1)]]] .
  have v4: "view_of ?db4 = (view_of db)\<lparr>sp_attempts := (sp_attempts (view_of db))
        (attempt_id ?a \<mapsto> (job_id ?j, job_attempt ?j, lease_id ?l, X_FAILED)),
      sp_jobs := (sp_jobs (view_of db))(job_id ?j \<mapsto> (run_id ?r, job_attempt ?j, J_FAILED)),
      sp_runs := (sp_runs (view_of db))(run_id ?r \<mapsto> R_FAILED)\<rparr>"
    using u4(2) u3(2) insert_others(1) [OF ins] u1(2) ids run n by simp
  have att4: "attempts ?db4 = update_by ar_id (attempt_id ?a) (write_attempt ?a') (attempts db)"
    using fr by (simp add: update_attempt_def)
  have step: "spec_step (view_of db) ((view_of ?db4)\<lparr>sp_leases := (sp_leases (view_of db))
      (lease_id ?l \<mapsto> (job_id ?j, False))\<rparr>)"
  proof -
    have "sp_runs (view_of db) (run_id ?r) \<noteq> None" using rr(1) by simp
    then show ?thesis unfolding v4
      using spec_step.abandon [OF av [unfolded n] act lv jv] by (simp del: view_simps)
  qed
  have all: "store_ok db' \<and> linked db' \<and> spec_step (view_of db) (view_of db') \<and>
        attempts db' = update_by ar_id (attempt_id ?a) (write_attempt ?a') (attempts db)"
  proof (cases "lease_status ?l = L_ACTIVE")
    case True
    then have d: "db' = update_lease_closed (ended_lease ?l L_EXPIRED ''LEASE_EXPIRED_DURING_EXECUTION'' t) ?db4"
      using db' by (simp add: Let_def)
    have "view_of db' = (view_of ?db4)\<lparr>sp_leases := (sp_leases (view_of db))(lease_id ?l \<mapsto> (job_id ?j, False))\<rparr>"
      using u5(2) jl by (simp add: d v4 del: view_simps)
    with u5(1) same_links_linked [OF same_links_trans [OF same4 same_links_update(4)] ok(2)] step att4
    show ?thesis by (simp add: d del: ended_attempt.simps)
  next
    case False
    then have d: "db' = ?db4" using db' by (simp add: Let_def)
    have "(sp_leases (view_of db))(lease_id ?l \<mapsto> (job_id ?j, False)) = sp_leases (view_of db)"
      using lv False by (simp add: fun_upd_idem del: view_simps)
    with step have "spec_step (view_of db) (view_of ?db4)"
      by (simp add: v4 del: view_simps)
    with u4(1) same_links_linked [OF same4 ok(2)] att4
    show ?thesis by (simp add: d del: ended_attempt.simps)
  qed
  then show "store_ok db'" "linked db'" "spec_step (view_of db) (view_of db')"
    "attempts db' = update_by ar_id (attempt_id ?a) (write_attempt ?a') (attempts db)"
    by blast+
qed

lemma current_view:
  assumes wf: "well_formed db" and cur: "current_row db row"
  shows "sp_attempts (view_of db) (attempt_id (rc_attempt row)) =
      Some (job_id (rc_job row), attempt_jobAttempt (rc_attempt row), lease_id (rc_lease row), attempt_status (rc_attempt row))"
    "\<exists>b. sp_leases (view_of db) (lease_id (rc_lease row)) = Some (job_id (rc_job row), b)"
    "\<exists>n t. sp_jobs (view_of db) (job_id (rc_job row)) = Some (run_id (rc_run row), n, t) \<and> live_job t"
proof -
  have ok: "store_ok db" "linked db" using wf by (simp_all add: well_formed_def)
  have p: "attempt_part (sp_attempts (view_of db)) (sp_jobs (view_of db)) (sp_leases (view_of db))"
    using wf by (simp add: well_formed_def coordinated_def del: view_simps)
  obtain ar jr where
    ar: "find_by ar_id (attempt_id (rc_attempt row)) (attempts db) = Some ar" "ar_document ar = rc_attempt row"
    and jr: "job_by_id (job_id (rc_job row)) db = Some jr"
    and ids: "attempt_leaseId (rc_attempt row) = lease_id (rc_lease row)" "attempt_jobId (rc_attempt row) = job_id (rc_job row)"
      "attempt_runId (rc_attempt row) = run_id (rc_run row)" and act: "active_attempt (attempt_status (rc_attempt row))"
    using cur by (auto simp: current_row_def)
  have arin: "ar \<in> set (attempts db)" using find_by_SomeD [OF ar(1)] by simp
  note ac = attempt_columns [OF ok(1) arin, unfolded ar(2)]
  show av: "sp_attempts (view_of db) (attempt_id (rc_attempt row)) =
      Some (job_id (rc_job row), attempt_jobAttempt (rc_attempt row), lease_id (rc_lease row), attempt_status (rc_attempt row))"
    using ar(1) ac ids by simp
  show "\<exists>b. sp_leases (view_of db) (lease_id (rc_lease row)) = Some (job_id (rc_job row), b)"
    by (rule attempt_partD(1) [OF p av])
  have "jr_run_id jr = run_id (rc_run row)"
    using linked_run(2) [OF ok(2,1) jr arin] ac ids by simp
  then have jv: "sp_jobs (view_of db) (job_id (rc_job row)) = Some (run_id (rc_run row), jr_attempt jr, jr_status jr)"
    using jr by simp
  moreover have "live_job (jr_status jr)"
    using attempt_partD(3) [OF p av act jv] executing_live [OF executing_attempt [OF act]] by simp
  ultimately show "\<exists>n t. sp_jobs (view_of db) (job_id (rc_job row)) = Some (run_id (rc_run row), n, t) \<and> live_job t"
    by blast
qed

text \<open>Two stranded attempts share no lease, no job and no run.\<close>

lemma current_distinct:
  assumes wf: "well_formed db" and x: "current_row db x" and y: "current_row db y"
    and ne: "attempt_id (rc_attempt x) \<noteq> attempt_id (rc_attempt y)"
  shows "job_id (rc_job x) \<noteq> job_id (rc_job y)" "lease_id (rc_lease x) \<noteq> lease_id (rc_lease y)"
    "run_id (rc_run x) \<noteq> run_id (rc_run y)"
proof -
  have p: "attempt_part (sp_attempts (view_of db)) (sp_jobs (view_of db)) (sp_leases (view_of db))"
    "run_part (sp_runs (view_of db)) (sp_jobs (view_of db))"
    using wf by (simp_all add: well_formed_def coordinated_def del: view_simps)
  note vx = current_view [OF wf x] and vy = current_view [OF wf y]
  show j: "job_id (rc_job x) \<noteq> job_id (rc_job y)"
  proof
    assume e: "job_id (rc_job x) = job_id (rc_job y)"
    from attempt_partD(4) [OF p(1) vx(1) vy(1) [folded e]] ne show False by simp
  qed
  show "lease_id (rc_lease x) \<noteq> lease_id (rc_lease y)"
    using vx(2) vy(2) j by (auto simp del: view_simps)
  show "run_id (rc_run x) \<noteq> run_id (rc_run y)"
    using vx(3) vy(3) j run_partD(3) [OF p(2)] by metis
qed

lemma reconcile_one_frame:
  assumes "reconcile_one env t (i, row) db = Inr db'"
  shows "j \<noteq> job_id (rc_job row) \<Longrightarrow> job_by_id j db' = job_by_id j db"
    "r \<noteq> run_id (rc_run row) \<Longrightarrow> run_by_id r db' = run_by_id r db"
    "l \<noteq> lease_id (rc_lease row) \<Longrightarrow> lease_by_id l db' = lease_by_id l db"
    "a \<noteq> attempt_id (rc_attempt row) \<Longrightarrow> find_by ar_id a (attempts db') = find_by ar_id a (attempts db)"
proof -
  let ?a' = "ended_attempt (rc_attempt row) (Failure (abandonment t)) t"
  from assms obtain event db2 where
    ins: "insert_event event (update_attempt ?a' db) = Inr db2"
    and db': "db' = (let db4 = update_run ((rc_run row)\<lparr>run_status := R_FAILED, run_updatedAt := t\<rparr>)
              (update_job ((rc_job row)\<lparr>job_status := J_FAILED, job_updatedAt := t\<rparr>) db2)
       in if lease_status (rc_lease row) = L_ACTIVE
          then update_lease_closed (ended_lease (rc_lease row) L_EXPIRED ''LEASE_EXPIRED_DURING_EXECUTION'' t) db4
          else db4)"
    by (rule reconcile_one_Inr)
  note fr = insert_frames(2) [OF ins]
  have fa: "attempts db' = update_by ar_id (attempt_id (rc_attempt row)) (write_attempt ?a') (attempts db)"
    using fr by (simp add: db' Let_def update_attempt_def)
  have b: "job_by_id j db2 = job_by_id j db" "run_by_id r db2 = run_by_id r db" "lease_by_id l db2 = lease_by_id l db"
    using fr by (simp_all add: job_by_id_def run_by_id_def lease_by_id_def)
  show "j \<noteq> job_id (rc_job row) \<Longrightarrow> job_by_id j db' = job_by_id j db"
    "r \<noteq> run_id (rc_run row) \<Longrightarrow> run_by_id r db' = run_by_id r db"
    "l \<noteq> lease_id (rc_lease row) \<Longrightarrow> lease_by_id l db' = lease_by_id l db"
    using b by (auto simp: db' Let_def ended_lease_def)
  show "a \<noteq> attempt_id (rc_attempt row) \<Longrightarrow> find_by ar_id a (attempts db') = find_by ar_id a (attempts db)"
    unfolding fa by (rule write_attempt.find_update_other)
qed

text \<open>Handling one row keeps the other rows current.\<close>

lemma reconcile_one_keeps:
  assumes wf: "well_formed db" and cur: "current_row db row" and s: "reconcile_one env t (i, row) db = Inr db1"
  shows "well_formed db1"
    and "current_row db row' \<Longrightarrow> attempt_id (rc_attempt row) \<noteq> attempt_id (rc_attempt row') \<Longrightarrow> current_row db1 row'"
proof -
  note r = reconcile_one_refines [OF wf cur s]
  show "well_formed db1"
    using r(1-3) wf spec_step_coordinated by (auto simp: well_formed_def)
  assume c': "current_row db row'" and ne: "attempt_id (rc_attempt row) \<noteq> attempt_id (rc_attempt row')"
  note d = current_distinct [OF wf cur c' ne]
  show "current_row db1 row'"
    using c' reconcile_one_frame [OF s] d ne unfolding current_row_def by metis
qed

lemma reconcile_all:
  assumes "fold_result (reconcile_one env t) items db = Inr db'" and "well_formed db"
    and "\<And>i row. (i, row) \<in> set items \<Longrightarrow> current_row db row"
    and "distinct (map (\<lambda>(i, row). attempt_id (rc_attempt row)) items)"
  shows "well_formed db' \<and> spec_step\<^sup>*\<^sup>* (view_of db) (view_of db')
    \<and> (\<forall>x\<in>set (attempts db'). ar_status x = X_FAILED \<or>
          x \<in> set (attempts db) \<and> ar_id x \<notin> (\<lambda>(i, row). attempt_id (rc_attempt row)) ` set items)
    \<and> (\<forall>l. l \<notin> (\<lambda>(i, row). lease_id (rc_lease row)) ` set items \<longrightarrow> lease_by_id l db' = lease_by_id l db)"
  using assms
proof (induction items arbitrary: db)
  case (Cons item items)
  obtain i row where item: "item = (i, row)" by (cases item)
  from Cons.prems(1) obtain db1 where
    s: "reconcile_one env t (i, row) db = Inr db1" "fold_result (reconcile_one env t) items db1 = Inr db'"
    by (auto simp: item and_then_Inr)
  have cur: "current_row db row" by (rule Cons.prems(3) [of i]) (simp add: item)
  note r = reconcile_one_refines [OF Cons.prems(2) cur s(1)]
  note keep = reconcile_one_keeps [OF Cons.prems(2) cur s(1)]
  have wf1: "well_formed db1" by (rule keep(1))
  have rest: "current_row db1 row'" if "(i', row') \<in> set items" for i' row'
  proof (rule keep(2))
    show "current_row db row'" by (rule Cons.prems(3) [of i']) (simp add: that)
    show "attempt_id (rc_attempt row) \<noteq> attempt_id (rc_attempt row')"
      using Cons.prems(4) that by (auto simp: item image_iff)
  qed
  have dist: "distinct (map (\<lambda>(i, row). attempt_id (rc_attempt row)) items)" using Cons.prems(4) by simp
  note ih = Cons.IH [OF s(2) wf1 rest dist]
  have "ar_status x = X_FAILED \<or>
      x \<in> set (attempts db) \<and> ar_id x \<notin> (\<lambda>(i, row). attempt_id (rc_attempt row)) ` set (item # items)"
    if x: "x \<in> set (attempts db')" for x
  proof -
    note c = bspec [OF conjunct1 [OF conjunct2 [OF conjunct2 [OF ih]]] x]
    show ?thesis
    proof (cases "ar_status x = X_FAILED")
      case False
      with c have 2: "x \<in> set (attempts db1)" "ar_id x \<notin> (\<lambda>(i, row). attempt_id (rc_attempt row)) ` set items"
        by simp_all
      from write_attempt.in_updateD [OF 2(1) [unfolded r(4)]] 2(2) show ?thesis
        by (auto simp: item write_attempt_def)
    qed simp
  qed
  moreover have "lease_by_id l db' = lease_by_id l db"
    if "l \<notin> (\<lambda>(i, row). lease_id (rc_lease row)) ` set (item # items)" for l
    using that ih reconcile_one_frame(3) [OF s(1), of l] by (simp add: item)
  ultimately show ?case
    using ih r(3) by (auto intro: converse_rtranclp_into_rtranclp)
qed simp

lemma active_states: "s \<in> set ACTIVE_EXECUTION_STATES \<longleftrightarrow> active_attempt s"
  by (cases s) (simp_all add: ACTIVE_EXECUTION_STATES_def)

lemma reconcile_join_Cons:
  "reconcile_join t db a = row # rest \<longleftrightarrow> rest = [] \<and>
     (\<exists>l j r. lease_by_id (ar_lease_id a) db = Some l \<and> job_by_id (ar_job_id a) db = Some j
        \<and> run_by_id (ar_run_id a) db = Some r \<and> active_attempt (ar_status a)
        \<and> (lr_status l \<noteq> L_ACTIVE \<or> lr_expires_at l \<le> t)
        \<and> row = \<lparr> rc_attempt = ar_document a, rc_lease = lr_document l, rc_job = jr_document j, rc_run = rr_document r \<rparr>)"
  by (auto simp: reconcile_join_def active_states split: option.splits)

lemma reconcile_rows_ids:
  assumes ok: "store_ok db"
  shows "distinct (map (\<lambda>row. attempt_id (rc_attempt row)) (reconcile_rows t db))"
proof -
  have ids: "map (\<lambda>row. attempt_id (rc_attempt row)) (concat (map (reconcile_join t db) xs))
      = map ar_id (filter (\<lambda>a. reconcile_join t db a \<noteq> []) xs)"
    if "set xs \<subseteq> set (attempts db)" for xs
    using that
  proof (induction xs)
    case (Cons a xs)
    have id: "attempt_id (ar_document a) = ar_id a" using attempt_columns(1) [OF ok] Cons.prems by simp
    show ?case
    proof (cases "reconcile_join t db a")
      case Nil
      then show ?thesis using Cons by simp
    next
      case (Cons row rest)
      then have "rest = []" "rc_attempt row = ar_document a" by (auto simp: reconcile_join_Cons)
      then show ?thesis using Cons Cons.IH Cons.prems id by simp
    qed
  qed simp
  have "distinct (map ar_id (sort_key (\<lambda>a. (ar_started_at a, ar_id a)) (attempts db)))"
    using ok by (simp add: store_ok_def coherent_def distinct_map)
  then show ?thesis
    unfolding reconcile_rows_def by (subst ids) (auto simp: distinct_map_filter)
qed

lemma in_reconcile_rows:
  "row \<in> set (reconcile_rows t db) \<longleftrightarrow> (\<exists>a\<in>set (attempts db). reconcile_join t db a = [row])"
proof -
  have "reconcile_join t db a = [row]" if "row \<in> set (reconcile_join t db a)" for a
  proof (cases "reconcile_join t db a")
    case (Cons row' rest)
    then have "rest = []" using reconcile_join_Cons [of t db a row' rest] by simp
    then show ?thesis using Cons that by simp
  qed (use that in simp)
  then show ?thesis by (force simp: reconcile_rows_def)
qed

lemma reconcile_rows_current:
  assumes wf: "well_formed db" and "row \<in> set (reconcile_rows t db)"
  shows "current_row db row"
proof -
  have ok: "store_ok db" using wf by (simp add: well_formed_def)
  from assms(2) obtain a where a: "a \<in> set (attempts db)" "reconcile_join t db a = [row]"
    by (auto simp: in_reconcile_rows)
  from a(2) obtain l j r where
    rows: "lease_by_id (ar_lease_id a) db = Some l" "job_by_id (ar_job_id a) db = Some j" "run_by_id (ar_run_id a) db = Some r"
    and act: "active_attempt (ar_status a)"
    and row: "row = \<lparr> rc_attempt = ar_document a, rc_lease = lr_document l, rc_job = jr_document j, rc_run = rr_document r \<rparr>"
    by (auto simp: reconcile_join_Cons)
  note ac = attempt_columns [OF ok a(1)]
  show ?thesis
    unfolding current_row_def row
    using rows act ac lease_columns(1) [OF ok rows(1)] job_columns(1) [OF ok rows(2)] run_columns(1) [OF ok rows(3)]
    by simp
qed

lemma reconcileExpired_Inr:
  assumes wf: "well_formed db" and r: "reconcileExpired env now ids db = (Inr n, db')"
  shows "n = length (reconcile_rows (to_iso now) db)" "well_formed db'" "spec_step\<^sup>*\<^sup>* (view_of db) (view_of db')"
    "reconcile_rows (to_iso now) db' = []"
proof -
  have ok: "store_ok db" using wf by (simp add: well_formed_def)
  let ?t = "to_iso now"
  let ?rows = "reconcile_rows ?t db"
  let ?items = "zip (map ids [0..<length ?rows]) ?rows"
  from r have f: "fold_result (reconcile_one env ?t) ?items db = Inr db'" and n: "n = length ?rows"
    by (auto simp: reconcileExpired_def in_transaction_commit and_then_Inr Let_def)
  show "n = length ?rows" by (rule n)
  have m: "map (\<lambda>(i, row). g row) ?items = map g ?rows" for g :: "reconcile_row \<Rightarrow> string"
  proof -
    have "map (\<lambda>(i, row). g row) ?items = map g (map snd ?items)"
      unfolding map_map comp_def case_prod_beta' ..
    also have "map snd ?items = ?rows" by (rule map_snd_zip) simp
    finally show ?thesis .
  qed
  have dist: "distinct (map (\<lambda>(i, row). attempt_id (rc_attempt row)) ?items)"
    using reconcile_rows_ids [OF ok] by (simp only: m)
  have cur: "current_row db row" if "(i, row) \<in> set ?items" for i row
    using reconcile_rows_current [OF wf] set_zip_rightD [OF that] by blast
  have all: "well_formed db' \<and> spec_step\<^sup>*\<^sup>* (view_of db) (view_of db')
    \<and> (\<forall>x\<in>set (attempts db'). ar_status x = X_FAILED \<or>
          x \<in> set (attempts db) \<and> ar_id x \<notin> (\<lambda>(i, row). attempt_id (rc_attempt row)) ` set ?items)
    \<and> (\<forall>l. l \<notin> (\<lambda>(i, row). lease_id (rc_lease row)) ` set ?items \<longrightarrow> lease_by_id l db' = lease_by_id l db)"
    by (rule reconcile_all [OF f wf _ dist]) (rule cur)
  from all show "well_formed db'" "spec_step\<^sup>*\<^sup>* (view_of db) (view_of db')" by simp_all
  have atts: "(\<lambda>(i, row). attempt_id (rc_attempt row)) ` set ?items = (\<lambda>row. attempt_id (rc_attempt row)) ` set ?rows"
    using m [of "\<lambda>row. attempt_id (rc_attempt row)"] by (metis set_map)
  have lses: "(\<lambda>(i, row). lease_id (rc_lease row)) ` set ?items = (\<lambda>row. lease_id (rc_lease row)) ` set ?rows"
    using m [of "\<lambda>row. lease_id (rc_lease row)"] by (metis set_map)
  show "reconcile_rows ?t db' = []"
  proof (rule ccontr)
    assume "reconcile_rows ?t db' \<noteq> []"
    then obtain row where "row \<in> set (reconcile_rows ?t db')" by (metis list.set_intros(1) neq_Nil_conv)
    then obtain a l j r where a: "a \<in> set (attempts db')" "active_attempt (ar_status a)"
      and l: "lease_by_id (ar_lease_id a) db' = Some l" "lr_status l \<noteq> L_ACTIVE \<or> lr_expires_at l \<le> ?t"
      by (auto simp: in_reconcile_rows reconcile_join_Cons)
    from all a have old: "a \<in> set (attempts db)" "ar_id a \<notin> (\<lambda>row. attempt_id (rc_attempt row)) ` set ?rows"
      unfolding atts by auto
    note ac = attempt_columns [OF ok old(1)]
    have av: "sp_attempts (view_of db) (ar_id a) = Some (ar_job_id a, ar_job_attempt a, ar_lease_id a, ar_status a)"
      using ac(8) by simp
    have p: "attempt_part (sp_attempts (view_of db)) (sp_jobs (view_of db)) (sp_leases (view_of db))"
      using wf by (simp add: well_formed_def coordinated_def del: view_simps)
    have ne: "ar_lease_id a \<notin> (\<lambda>row. lease_id (rc_lease row)) ` set ?rows"
    proof
      assume "ar_lease_id a \<in> (\<lambda>row. lease_id (rc_lease row)) ` set ?rows"
      then obtain row where row: "row \<in> set ?rows" "lease_id (rc_lease row) = ar_lease_id a" by auto
      note v = current_view [OF wf reconcile_rows_current [OF wf row(1)]]
      have "job_id (rc_job row) = ar_job_id a"
        using v(2) row(2) attempt_partD(1) [OF p av] by (auto simp del: view_simps)
      then have "ar_id a = attempt_id (rc_attempt row)"
        using attempt_partD(4) [OF p av] v(1) by (metis)
      with old(2) row(1) show False by blast
    qed
    then have ldb: "lease_by_id (ar_lease_id a) db = Some l" using all l(1) unfolding lses by auto
    obtain jr where jr: "job_by_id (ar_job_id a) db = Some jr"
      using attempt_partD(2) [OF p av] by auto
    have "run_by_id (ar_run_id a) db \<noteq> None"
    proof -
      have "ar_run_id a = jr_run_id jr" using linked_run(2) [OF _ ok jr old(1)] wf by (simp add: well_formed_def)
      moreover have "run_part (sp_runs (view_of db)) (sp_jobs (view_of db))"
        using wf by (simp add: well_formed_def coordinated_def del: view_simps)
      ultimately show ?thesis
        using run_partD(1) [of _ _ "ar_job_id a" "jr_run_id jr"] jr by fastforce
    qed
    then obtain rr where "run_by_id (ar_run_id a) db = Some rr" by auto
    with ldb jr l(2) a(2) old(1) have
      "\<lparr> rc_attempt = ar_document a, rc_lease = lr_document l, rc_job = jr_document jr, rc_run = rr_document rr \<rparr> \<in> set ?rows"
      by (auto simp: in_reconcile_rows reconcile_join_Cons)
    with old(2) ac(1) show False by (force simp: image_iff)
  qed
qed

section \<open>The methods meet the contract\<close>

lemma control_refining:
  assumes "\<And>a db'. well_formed db \<Longrightarrow> body = Inr (a, db') \<Longrightarrow>
      store_ok db' \<and> linked db' \<and> spec_step (view_of db) (view_of db')"
  shows "control_step db (snd (in_transaction db body))"
  by (rule control_transaction) (use assms in \<open>auto simp: control_step_def simp del: view_simps\<close>)

text \<open>A replayed or refused call leaves the store alone.\<close>

lemma replay_or_keeps:
  "(\<And>key. control_step db (snd (k key db))) \<Longrightarrow>
     control_step db (snd (replay_or env workerId credential leaseId token key op digest k db))"
  by (auto simp: replay_or_def split: sum.split option.split)

interpretation start_ctl: control_operation
    "startExecution env now attemptId eventId workerId credential leaseId token inp"
  for env now attemptId eventId workerId credential leaseId token inp
  by unfold_locales
    (auto simp: startExecution_def Let_def simp del: view_simps
      intro!: replay_or_keeps control_refining start_body_refines)

interpretation uploading_ctl: control_operation
    "markUploading env now eventId workerId credential leaseId token key"
  for env now eventId workerId credential leaseId token key
  by unfold_locales
    (auto simp: markUploading_def transitionExecution_def Let_def simp del: view_simps
      intro!: replay_or_keeps control_refining transition_body_refines)

interpretation verifying_ctl: control_operation
    "markVerifying env now eventId workerId credential leaseId token key"
  for env now eventId workerId credential leaseId token key
  by unfold_locales
    (auto simp: markVerifying_def transitionExecution_def Let_def simp del: view_simps
      intro!: replay_or_keeps control_refining transition_body_refines)

interpretation complete_ctl: control_operation
    "completeExecution env now eventId retryId workerId credential leaseId token inp"
  for env now eventId retryId workerId credential leaseId token inp
  by unfold_locales
    (auto simp: completeExecution_def Let_def simp del: view_simps
      intro!: replay_or_keeps control_refining terminal_body_refines)

interpretation fail_ctl: control_operation
    "failExecution env occurred now eventId retryId workerId credential leaseId token inp"
  for env occurred now eventId retryId workerId credential leaseId token inp
  by unfold_locales
    (auto simp: failExecution_def Let_def simp del: view_simps
      intro!: replay_or_keeps control_refining terminal_body_refines)

interpretation reconcile_ctl: control_operation "reconcileExpired env now ids" for env now ids
proof unfold_locales
  fix db
  obtain res db' where r: "reconcileExpired env now ids db = (res, db')" by fastforce
  show "control_step db (snd (reconcileExpired env now ids db))"
  proof (cases res)
    case (Inr n)
    with r reconcileExpired_Inr(2,3) [of db env now ids n db'] show ?thesis
      by (auto simp: control_step_def well_formed_def simp del: view_simps)
  next
    case (Inl e)
    with r have "db' = db"
      by (auto simp: reconcileExpired_def in_transaction_def split: sum.splits)
    with r show ?thesis by simp
  qed
qed

end
