(* ===== verification/Cron_Schedule.thy ===== *)
theory Cron_Schedule
  imports Control_Store Json_Text
begin

text \<open>
  The pure part of \<open>packages/persistence/src/collection-scheduler.ts\<close>: reading a five-field cron
  expression, matching it against the local time of a zone, and the next occurrence of a plan's
  schedule. Numbers of an expression are exact integers here; a decimal too large for a double
  is out of every field's range in both readings, and as a step it leaves only the first value.
  \<open>Intl.DateTimeFormat\<close> is the parameter \<open>zones\<close>: \<open>None\<close> when its constructor throws, otherwise
  the numeric parts it formats an instant to.
\<close>

abbreviation schedulerConflict :: "scheduler_code \<Rightarrow> 'a result" where
  "schedulerConflict c \<equiv> Inl (RegistryConflictError (Scheduler c))"

section \<open>Numbers\<close>

definition DEFAULT_TICK_LIMIT :: int where
  "DEFAULT_TICK_LIMIT = 50"

definition MAX_TICK_LIMIT :: int where
  "MAX_TICK_LIMIT = 250"

definition MAX_CRON_LOOKAHEAD_MINUTES :: int where
  "MAX_CRON_LOOKAHEAD_MINUTES = 367 * 24 * 60"

definition MAX_SAFE_INTEGER :: int where
  "MAX_SAFE_INTEGER = 9007199254740991"

definition normalizedTickLimit :: "rat option \<Rightarrow> int result" where
  "normalizedTickLimit v =
     (case v of None \<Rightarrow> Inr DEFAULT_TICK_LIMIT
      | Some n \<Rightarrow> if \<not> isInteger n \<or> n \<le> 0 then Inl RegistryValidationError
                  else Inr (min \<lfloor>n\<rfloor> MAX_TICK_LIMIT))"

definition parsePositiveSeconds :: "int \<Rightarrow> int result" where
  "parsePositiveSeconds seconds =
     (if MAX_SAFE_INTEGER < \<bar>seconds\<bar> \<or> seconds \<le> 0 then schedulerConflict SCHEDULER_INVALID_INTERVAL
      else if MAX_SAFE_INTEGER < seconds * 1000 then schedulerConflict SCHEDULER_INVALID_INTERVAL
      else Inr (seconds * 1000))"

definition parseInteger :: "string \<Rightarrow> int result" where
  "parseInteger s =
     (if s = [] \<or> \<not> list_all is_digit s then schedulerConflict SCHEDULER_INVALID_CRON
      else Inr (read_digits s))"

section \<open>Cron expressions\<close>

record cron_field =
  cf_values :: "int list"
  cf_unrestricted :: bool

record cron_spec =
  cs_minute :: cron_field
  cs_hour :: cron_field
  cs_dayOfMonth :: cron_field
  cs_month :: cron_field
  cs_dayOfWeek :: cron_field

text \<open>The loop \<open>for (value = start; value <= end; value += step)\<close>, entered with a positive step.\<close>

function step_values :: "int \<Rightarrow> int \<Rightarrow> int \<Rightarrow> int list" where
  "step_values start last_value step =
     (if start \<le> last_value \<and> 0 < step
      then start # step_values (start + step) last_value step else [])"
  by pat_completeness auto
termination by (relation "measure (\<lambda>(start, last_value, step). nat (last_value - start + 1))") auto

declare step_values.simps [simp del]

definition cron_range :: "int \<Rightarrow> int \<Rightarrow> bool \<Rightarrow> string \<Rightarrow> (int \<times> int) result" where
  "cron_range minimum maximum stepped base =
     (if base = ''*'' then Inr (minimum, maximum)
      else if CHR ''-'' \<in> set base then
        (case split_on CHR ''-'' base of
           [first, final] \<Rightarrow>
             and_then (parseInteger first) (\<lambda>a. and_then (parseInteger final) (\<lambda>b. Inr (a, b)))
         | _ \<Rightarrow> schedulerConflict SCHEDULER_INVALID_CRON)
      else and_then (parseInteger base) (\<lambda>a. Inr (a, if stepped then maximum else a)))"

definition cron_segment :: "int \<Rightarrow> int \<Rightarrow> string \<Rightarrow> int list result" where
  "cron_segment minimum maximum segment =
     (if segment = [] then schedulerConflict SCHEDULER_INVALID_CRON
      else let slashParts = split_on CHR ''/'' segment; stepped = (length slashParts = 2) in
        if 2 < length slashParts then schedulerConflict SCHEDULER_INVALID_CRON
        else and_then (if stepped then parseInteger (slashParts ! 1) else Inr 1) (\<lambda>step.
          if step \<le> 0 then schedulerConflict SCHEDULER_INVALID_CRON
          else and_then (cron_range minimum maximum stepped (hd slashParts)) (\<lambda>(a, b).
            if a < minimum \<or> maximum < a \<or> b < minimum \<or> maximum < b \<or> b < a
            then schedulerConflict SCHEDULER_INVALID_CRON
            else Inr (step_values a b step))))"

definition cronField :: "int \<Rightarrow> int \<Rightarrow> (int \<Rightarrow> int) \<Rightarrow> string \<Rightarrow> cron_field result" where
  "cronField minimum maximum adjust expression =
     (if trim expression = [] then schedulerConflict SCHEDULER_INVALID_CRON
      else and_then (map_result (cron_segment minimum maximum) (split_on CHR '','' (trim expression)))
        (\<lambda>segments.
          let vals = unique_list (map adjust (concat segments));
              domain = unique_list (map adjust (step_values minimum maximum 1))
          in Inr \<lparr> cf_values = vals, cf_unrestricted = (length vals = length domain) \<rparr>))"

definition sunday_zero :: "int \<Rightarrow> int" where
  "sunday_zero v = (if v = 7 then 0 else v)"

definition parseCron :: "string \<Rightarrow> cron_spec result" where
  "parseCron expression =
     (case split_spaces (trim expression) of
        [minute, hour, dayOfMonth, month, dayOfWeek] \<Rightarrow>
          and_then (cronField 0 59 id minute) (\<lambda>mi.
          and_then (cronField 0 23 id hour) (\<lambda>h.
          and_then (cronField 1 31 id dayOfMonth) (\<lambda>d.
          and_then (cronField 1 12 id month) (\<lambda>mo.
          and_then (cronField 0 7 sunday_zero dayOfWeek) (\<lambda>w.
            Inr \<lparr> cs_minute = mi, cs_hour = h, cs_dayOfMonth = d, cs_month = mo,
                  cs_dayOfWeek = w \<rparr>)))))
      | _ \<Rightarrow> schedulerConflict SCHEDULER_INVALID_CRON)"

section \<open>Local time\<close>

text \<open>\<open>Number(parts.year)\<close> and its kin: \<open>None\<close> stands for a value that is no integer.\<close>

record zone_parts =
  zp_year :: "int option"
  zp_month :: "int option"
  zp_day :: "int option"
  zp_hour :: "int option"
  zp_minute :: "int option"

type_synonym time_zones = "string \<Rightarrow> (int \<Rightarrow> zone_parts) option"

record local_parts =
  lp_year :: int
  lp_month :: int
  lp_day :: int
  lp_hour :: int
  lp_minute :: int
  lp_dayOfWeek :: "int option"

definition timezoneFormatter :: "time_zones \<Rightarrow> string \<Rightarrow> (int \<Rightarrow> zone_parts) result" where
  "timezoneFormatter zones timezone =
     (case zones timezone of None \<Rightarrow> schedulerConflict SCHEDULER_INVALID_TIMEZONE
      | Some formatter \<Rightarrow> Inr formatter)"

text \<open>\<open>Date.UTC(year, month, day)\<close>: months carry into years, two-digit years are of the 1900s.\<close>

definition Date_UTC :: "int \<Rightarrow> int \<Rightarrow> int \<Rightarrow> js_date" where
  "Date_UTC year month day =
     (let y = (if 0 \<le> year \<and> year \<le> 99 then 1900 + year else year) + month div 12
      in new_Date ((days_from_year y + month_start (leap_year y) (month mod 12) + day - 1) * 86400000))"

definition getUTCDay :: "js_date \<Rightarrow> int option" where
  "getUTCDay d = map_option (\<lambda>t. (t div 86400000 + 4) mod 7) d"

definition localParts :: "(int \<Rightarrow> zone_parts) \<Rightarrow> js_date \<Rightarrow> local_parts result" where
  "localParts formatter date =
     (case date of None \<Rightarrow> Inl JsRangeError
      | Some t \<Rightarrow>
          (let parts = formatter t in
           case (zp_year parts, zp_month parts, zp_day parts, zp_hour parts, zp_minute parts) of
             (Some year, Some month, Some day, Some hourValue, Some minute) \<Rightarrow>
               Inr \<lparr> lp_year = year, lp_month = month, lp_day = day,
                     lp_hour = (if hourValue = 24 then 0 else hourValue), lp_minute = minute,
                     lp_dayOfWeek = getUTCDay (Date_UTC year (month - 1) day) \<rparr>
           | _ \<Rightarrow> schedulerConflict SCHEDULER_TIMEZONE_FORMAT_ERROR))"

definition cronMatches :: "cron_spec \<Rightarrow> local_parts \<Rightarrow> bool" where
  "cronMatches spec parts =
     (if lp_minute parts \<notin> set (cf_values (cs_minute spec)) then False
      else if lp_hour parts \<notin> set (cf_values (cs_hour spec)) then False
      else if lp_month parts \<notin> set (cf_values (cs_month spec)) then False
      else
        let dayOfMonthMatches = lp_day parts \<in> set (cf_values (cs_dayOfMonth spec));
            dayOfWeekMatches =
              (case lp_dayOfWeek parts of None \<Rightarrow> False
               | Some d \<Rightarrow> d \<in> set (cf_values (cs_dayOfWeek spec)))
        in if cf_unrestricted (cs_dayOfMonth spec) \<and> cf_unrestricted (cs_dayOfWeek spec) then True
           else if cf_unrestricted (cs_dayOfMonth spec) then dayOfWeekMatches
           else if cf_unrestricted (cs_dayOfWeek spec) then dayOfMonthMatches
           else dayOfMonthMatches \<or> dayOfWeekMatches)"

section \<open>The next occurrence\<close>

definition later :: "js_date \<Rightarrow> int \<Rightarrow> js_date" where
  "later d ms = (case d of None \<Rightarrow> None | Some t \<Rightarrow> new_Date (t + ms))"

function cron_search ::
    "(int \<Rightarrow> zone_parts) \<Rightarrow> cron_spec \<Rightarrow> int \<Rightarrow> js_date \<Rightarrow> js_date result" where
  "cron_search formatter spec minute candidate =
     (if minute < MAX_CRON_LOOKAHEAD_MINUTES then
        and_then (localParts formatter candidate) (\<lambda>parts.
          if cronMatches spec parts then Inr candidate
          else cron_search formatter spec (minute + 1) (later candidate 60000))
      else schedulerConflict SCHEDULER_CRON_LOOKAHEAD_EXCEEDED)"
  by pat_completeness auto
termination
  by (relation "measure (\<lambda>(_, _, minute, _). nat (MAX_CRON_LOOKAHEAD_MINUTES - minute))") auto

declare cron_search.simps [simp del]

definition nextCronOccurrence :: "time_zones \<Rightarrow> string \<Rightarrow> string \<Rightarrow> js_date \<Rightarrow> js_date result" where
  "nextCronOccurrence zones expression timezone after =
     (case after of None \<Rightarrow> Inl RegistryValidationError
      | Some t \<Rightarrow>
          and_then (parseCron expression) (\<lambda>spec.
          and_then (timezoneFormatter zones (trim timezone)) (\<lambda>formatter.
            cron_search formatter spec 0 (new_Date (t div 60000 * 60000 + 60000)))))"

definition nextScheduledAt :: "time_zones \<Rightarrow> collection_schedule \<Rightarrow> js_date \<Rightarrow> js_date option result" where
  "nextScheduledAt zones schedule after =
     (case schedule of
        ManualSchedule \<Rightarrow> Inr None
      | IntervalSchedule intervalSeconds \<Rightarrow>
          and_then (parsePositiveSeconds intervalSeconds) (\<lambda>ms. Inr (Some (later after ms)))
      | ChangeWatchSchedule pollIntervalSeconds \<Rightarrow>
          and_then (parsePositiveSeconds pollIntervalSeconds) (\<lambda>ms. Inr (Some (later after ms)))
      | CronSchedule expression timezone \<Rightarrow>
          and_then (nextCronOccurrence zones expression timezone after) (\<lambda>d. Inr (Some d)))"

text \<open>The slots an interval schedule skips: \<open>now\<close> is valid wherever the scheduler calls this.\<close>

definition future_slot :: "int \<Rightarrow> int \<Rightarrow> int \<Rightarrow> int" where
  "future_slot interval slot now =
     (let next_time = slot + interval
      in if next_time \<le> now then next_time + ((now - next_time) div interval + 1) * interval
         else next_time)"

definition nextFutureScheduledAt ::
    "time_zones \<Rightarrow> collection_schedule \<Rightarrow> js_date \<Rightarrow> int \<Rightarrow> js_date option result" where
  "nextFutureScheduledAt zones schedule slot now =
     (let by_interval = (\<lambda>seconds. and_then (parsePositiveSeconds seconds) (\<lambda>interval.
            Inr (Some (case slot of None \<Rightarrow> None
                       | Some t \<Rightarrow> new_Date (future_slot interval t now)))))
      in case schedule of
           ManualSchedule \<Rightarrow> Inr None
         | CronSchedule expression timezone \<Rightarrow>
             and_then (nextCronOccurrence zones expression timezone (Some now)) (\<lambda>d. Inr (Some d))
         | IntervalSchedule intervalSeconds \<Rightarrow> by_interval intervalSeconds
         | ChangeWatchSchedule pollIntervalSeconds \<Rightarrow> by_interval pollIntervalSeconds)"

section \<open>What a field denotes\<close>

lemma set_step_values:
  "0 < s \<Longrightarrow> set (step_values a b s) = {v. a \<le> v \<and> v \<le> b \<and> s dvd v - a}"
proof (induction a b s rule: step_values.induct)
  case (1 a b s)
  show ?case
  proof (cases "a \<le> b")
    case True
    have "s dvd v - (a + s) \<longleftrightarrow> s dvd v - a" for v
      using dvd_add_right_iff [of s "- s" "v - a"] by (simp add: algebra_simps)
    moreover have "a + s \<le> v \<or> v = a" if "a \<le> v" "s dvd v - a" for v
      using that zdvd_imp_le [of s "v - a"] by linarith
    ultimately have "{v. a \<le> v \<and> v \<le> b \<and> s dvd v - a}
        = insert a {v. a + s \<le> v \<and> v \<le> b \<and> s dvd v - (a + s)}"
      using True 1(2) by auto
    then show ?thesis
      using 1 True by (subst step_values.simps) simp
  qed (subst step_values.simps, auto)
qed

lemma step_values_ends:
  "a \<le> b \<Longrightarrow> 0 < s \<Longrightarrow> a \<in> set (step_values a b s)"
  "0 < s \<Longrightarrow> v \<in> set (step_values a b s) \<Longrightarrow> a \<le> v \<and> v \<le> b"
  by (auto simp: set_step_values)

lemma cron_segment_Inr:
  assumes "cron_segment lo hi segment = Inr vs"
  obtains a b s where "vs = step_values a b s" "lo \<le> a" "a \<le> b" "b \<le> hi" "0 < s"
  using assms by (auto simp: cron_segment_def Let_def and_then_Inr not_less split: if_splits prod.splits)

lemma cron_segment_range:
  assumes "cron_segment lo hi segment = Inr vs"
  shows "vs \<noteq> []" "set vs \<subseteq> {lo..hi}"
  using assms by (auto elim!: cron_segment_Inr dest: step_values_ends)

lemma whole_range: "set (step_values lo hi 1) = {lo..hi}"
  by (auto simp: set_step_values)

text \<open>What \<open>cronField\<close> hands to \<open>cronMatches\<close>.\<close>

definition field_ok :: "int set \<Rightarrow> cron_field \<Rightarrow> bool" where
  "field_ok universe f \<longleftrightarrow> cf_values f \<noteq> [] \<and> distinct (cf_values f) \<and> set (cf_values f) \<subseteq> universe
     \<and> (cf_unrestricted f \<longleftrightarrow> set (cf_values f) = universe)"

lemma distinct_set_eq_length:
  assumes "distinct xs" "distinct ys" "set xs \<subseteq> set ys"
  shows "length xs = length ys \<longleftrightarrow> set xs = set ys"
  using assms card_subset_eq [of "set ys" "set xs"] by (metis List.finite_set distinct_card)

lemma map_result_all: "map_result f xs = Inr ys \<Longrightarrow> y \<in> set ys \<Longrightarrow> \<exists>x\<in>set xs. f x = Inr y"
  by (metis map_result_Inr in_set_conv_nth)

lemma cronField_ok:
  assumes "cronField lo hi adjust expression = Inr f"
  shows "field_ok (adjust ` {lo..hi}) f"
proof -
  from assms obtain segments where
    segments: "map_result (cron_segment lo hi) (split_on CHR '','' (trim expression)) = Inr segments"
    and f: "cf_values f = unique_list (map adjust (concat segments))"
      "cf_unrestricted f \<longleftrightarrow> length (unique_list (map adjust (concat segments)))
         = length (unique_list (map adjust (step_values lo hi 1)))"
    by (auto simp: cronField_def and_then_Inr Let_def split: if_splits)
  have range: "vs \<noteq> [] \<and> set vs \<subseteq> {lo..hi}" if "vs \<in> set segments" for vs
    using map_result_all [OF segments that] cron_segment_range by blast
  moreover have "segments \<noteq> []" using segments by (auto simp: map_result_Inr)
  ultimately have "concat segments \<noteq> []" by (cases segments) auto
  then obtain v where "v \<in> set (concat segments)" using last_in_set by blast
  then have "adjust v \<in> set (cf_values f)" by (auto simp: f(1))
  then have "cf_values f \<noteq> []" by auto
  moreover have sub: "set (cf_values f) \<subseteq> adjust ` {lo..hi}"
    using range by (auto simp: f(1))
  moreover have "cf_unrestricted f \<longleftrightarrow> set (cf_values f) = adjust ` {lo..hi}"
    using distinct_set_eq_length [of "cf_values f" "unique_list (map adjust (step_values lo hi 1))"] sub
    by (simp add: f whole_range)
  moreover have "distinct (cf_values f)" by (simp add: f(1))
  ultimately show ?thesis unfolding field_ok_def by blast
qed

definition spec_ok :: "cron_spec \<Rightarrow> bool" where
  "spec_ok spec \<longleftrightarrow> field_ok {0..59} (cs_minute spec) \<and> field_ok {0..23} (cs_hour spec)
     \<and> field_ok {1..31} (cs_dayOfMonth spec) \<and> field_ok {1..12} (cs_month spec)
     \<and> field_ok {0..6} (cs_dayOfWeek spec)"

lemma sunday_zero_range: "sunday_zero ` {0..7} = {0..6}"
proof -
  have "{0..7} = insert 7 {0..6::int}" by auto
  then show ?thesis by (auto simp: sunday_zero_def image_iff)
qed

lemma parseCron_ok: "parseCron expression = Inr spec \<Longrightarrow> spec_ok spec"
  by (auto simp: parseCron_def and_then_Inr spec_ok_def sunday_zero_range [symmetric]
      split: list.splits dest!: cronField_ok)

text \<open>An expression is rejected with one code only.\<close>

lemma cron_errors:
  "parseInteger s = Inl e \<Longrightarrow> e = RegistryConflictError (Scheduler SCHEDULER_INVALID_CRON)"
  "cron_range lo hi stepped base = Inl e \<Longrightarrow> e = RegistryConflictError (Scheduler SCHEDULER_INVALID_CRON)"
  by (auto simp: parseInteger_def cron_range_def and_then_Inl split: if_splits list.splits)

lemma cron_segment_error:
  "cron_segment lo hi segment = Inl e \<Longrightarrow> e = RegistryConflictError (Scheduler SCHEDULER_INVALID_CRON)"
  by (auto simp: cron_segment_def Let_def and_then_Inl split: if_splits dest: cron_errors)

lemma map_result_failed: "map_result f xs = Inl e \<Longrightarrow> \<exists>x\<in>set xs. f x = Inl e"
  by (induction xs) (auto simp: and_then_Inl)

lemma cronField_error:
  "cronField lo hi adjust expression = Inl e \<Longrightarrow> e = RegistryConflictError (Scheduler SCHEDULER_INVALID_CRON)"
  by (auto simp: cronField_def Let_def and_then_Inl split: if_splits dest!: map_result_failed cron_segment_error)

lemma parseCron_error: "parseCron expression \<noteq> schedulerConflict SCHEDULER_CRON_LOOKAHEAD_EXCEEDED"
  by (auto simp: parseCron_def and_then_Inl split: list.splits dest!: cronField_error)

subsection \<open>The grammar of a field\<close>

text \<open>
  The terms a field is made of, as a datatype with its own text and meaning: reading the text of
  a list of terms gives the union of what they mean.
\<close>

datatype cron_base = Every | At nat | Between nat nat

type_synonym cron_term = "cron_base \<times> nat option"

fun base_text :: "cron_base \<Rightarrow> string" where
  "base_text Every = ''*''"
| "base_text (At a) = decimal a"
| "base_text (Between a b) = decimal a @ CHR ''-'' # decimal b"

fun term_text :: "cron_term \<Rightarrow> string" where
  "term_text (t, None) = base_text t"
| "term_text (t, Some s) = base_text t @ CHR ''/'' # decimal s"

fun base_bounds :: "int \<Rightarrow> int \<Rightarrow> cron_term \<Rightarrow> int \<times> int" where
  "base_bounds lo hi (Every, s) = (lo, hi)"
| "base_bounds lo hi (At a, None) = (int a, int a)"
| "base_bounds lo hi (At a, Some s) = (int a, hi)"
| "base_bounds lo hi (Between a b, s) = (int a, int b)"

definition term_step :: "cron_term \<Rightarrow> int" where
  "term_step t = (case snd t of None \<Rightarrow> 1 | Some s \<Rightarrow> int s)"

definition term_valid :: "int \<Rightarrow> int \<Rightarrow> cron_term \<Rightarrow> bool" where
  "term_valid lo hi t \<longleftrightarrow> (case base_bounds lo hi t of (a, b) \<Rightarrow> lo \<le> a \<and> a \<le> b \<and> b \<le> hi) \<and> 0 < term_step t"

definition term_meaning :: "int \<Rightarrow> int \<Rightarrow> cron_term \<Rightarrow> int set" where
  "term_meaning lo hi t =
     (case base_bounds lo hi t of (a, b) \<Rightarrow> {v. a \<le> v \<and> v \<le> b \<and> term_step t dvd v - a})"

definition field_text :: "cron_term list \<Rightarrow> string" where
  "field_text ts = joined (map term_text ts)"

lemma read_decimal: "read_digits (decimal n) = int n"
proof (induction n rule: decimal.induct)
  case (1 n)
  then show ?case
    by (subst decimal.simps) (auto simp: read_digits_def code_unit_digit_char zdiv_int zmod_int)
qed

lemma parseInteger_decimal [simp]: "parseInteger (decimal n) = Inr (int n)"
  using decimal_digits [of n] by (simp add: parseInteger_def read_decimal)

lemma not_in_decimal: "\<not> is_digit c \<Longrightarrow> c \<notin> set (decimal n)"
  using decimal_digits [of n] by (auto simp: list_all_iff)

lemma punctuation_not_digit [simp]:
  "\<not> is_digit CHR ''-''" "\<not> is_digit CHR ''/''" "\<not> is_digit CHR '',''" "\<not> is_digit CHR ''*''"
  by code_simp+

lemma base_text_chars:
  "c \<in> set (base_text t) \<Longrightarrow> is_digit c \<or> c = CHR ''*'' \<or> c = CHR ''-''"
  using decimal_digits by (cases t) (auto simp: list_all_iff)

lemma term_text_chars:
  "c \<in> set (term_text t) \<Longrightarrow> is_digit c \<or> c = CHR ''*'' \<or> c = CHR ''-'' \<or> c = CHR ''/''"
  using decimal_digits base_text_chars by (cases t rule: term_text.cases) (fastforce simp: list_all_iff)+

lemma base_text_not_Nil [simp]: "base_text t \<noteq> []"
  using decimal_digits by (cases t) auto

lemma term_text_not_Nil [simp]: "term_text t \<noteq> []"
  by (cases t rule: term_text.cases) auto

lemma decimal_not_star: "decimal n \<noteq> ''*''"
  using not_in_decimal [of "CHR ''*''" n] by auto

lemma cron_range_text:
  "cron_range lo hi (s \<noteq> None) (base_text t) = Inr (base_bounds lo hi (t, s))"
proof (cases t)
  case (Between a b)
  have "decimal a @ CHR ''-'' # decimal b \<noteq> ''*''"
    by (metis decimal_digits append_is_Nil_conv list.distinct(1) append_eq_Cons_conv)
  with Between show ?thesis
    by (simp add: cron_range_def split_on_first split_on_none not_in_decimal)
qed (cases s; auto simp: cron_range_def decimal_not_star not_in_decimal)+

lemma cron_segment_text:
  assumes "term_valid lo hi t"
  shows "cron_segment lo hi (term_text t)
    = (case base_bounds lo hi t of (a, b) \<Rightarrow> Inr (step_values a b (term_step t)))"
proof -
  obtain base s where t: "t = (base, s)" by fastforce
  have slash: "CHR ''/'' \<notin> set (base_text base)"
    using base_text_chars [of "CHR ''/''" base] by auto
  from assms show ?thesis
    using cron_range_text [of lo hi s base]
    by (cases s)
      (auto simp: t cron_segment_def Let_def term_valid_def term_step_def split_on_none [OF slash]
        split_on_first [OF slash] split_on_none not_in_decimal split: prod.splits)
qed

lemma split_on_joined:
  assumes "ws \<noteq> []" "\<And>w. w \<in> set ws \<Longrightarrow> CHR '','' \<notin> set w"
  shows "split_on CHR '','' (joined ws) = ws"
  using assms by (induction ws rule: joined.induct) (auto simp: split_on_first split_on_none)

lemma trim_no_space: "\<forall>c\<in>set s. \<not> is_space c \<Longrightarrow> trim s = s"
proof -
  assume no: "\<forall>c\<in>set s. \<not> is_space c"
  have stop: "dropWhile is_space u = u" if "\<forall>c\<in>set u. \<not> is_space c" for u
    using that by (cases u) auto
  from stop [of s] stop [of "rev s"] no have "dropWhile is_space s = s" "dropWhile is_space (rev s) = rev s"
    by auto
  then show ?thesis by (simp add: trim_def)
qed

lemma joined_chars: "c \<in> set (joined ws) \<Longrightarrow> c = CHR '','' \<or> (\<exists>w\<in>set ws. c \<in> set w)"
  by (induction ws rule: joined.induct) auto

lemma field_text_no_space: "c \<in> set (field_text ts) \<Longrightarrow> \<not> is_space c"
proof -
  assume "c \<in> set (field_text ts)"
  then have "is_digit c \<or> c \<in> {CHR ''*'', CHR ''-'', CHR ''/'', CHR '',''}"
    using joined_chars [of c "map term_text ts"] term_text_chars by (fastforce simp: field_text_def)
  moreover have "\<not> is_space CHR ''*''" "\<not> is_space CHR ''-''" "\<not> is_space CHR ''/''" "\<not> is_space CHR '',''"
    by code_simp+
  moreover have "is_digit c \<Longrightarrow> \<not> is_space c"
    by (auto simp: is_digit_def between_def is_space_def Let_def code_unit_def)
  ultimately show ?thesis by auto
qed

lemma cronField_text:
  assumes "ts \<noteq> []" "\<And>t. t \<in> set ts \<Longrightarrow> term_valid lo hi t"
  shows "\<exists>f. cronField lo hi adjust (field_text ts) = Inr f
     \<and> set (cf_values f) = adjust ` (\<Union>t\<in>set ts. term_meaning lo hi t)"
proof -
  define g where "g t = (case base_bounds lo hi t of (a, b) \<Rightarrow> step_values a b (term_step t))" for t
  have g: "cron_segment lo hi (term_text t) = Inr (g t)" "set (g t) = term_meaning lo hi t"
    if "t \<in> set ts" for t
    using cron_segment_text [OF assms(2) [OF that]] assms(2) [OF that]
    by (auto simp: g_def term_valid_def term_meaning_def set_step_values split: prod.splits)
  have "map_result (cron_segment lo hi) (map term_text ts) = Inr (map g ts)"
    using g(1) by (simp add: map_result_Inr)
  moreover have "split_on CHR '','' (field_text ts) = map term_text ts"
    unfolding field_text_def using assms(1) term_text_chars [of "CHR '',''"]
    by (intro split_on_joined) auto
  moreover have "trim (field_text ts) = field_text ts"
    using field_text_no_space by (intro trim_no_space) blast
  moreover have "field_text ts \<noteq> []"
    using assms(1) by (cases "map term_text ts" rule: joined.cases) (auto simp: field_text_def)
  ultimately show ?thesis
    using g(2) by (auto simp: cronField_def Let_def)
qed

section \<open>Which occurrence is next\<close>

text \<open>
  What the scheduler needs of a rule of occurrences: the next one is later and due, and nothing
  in between is. Two readings of the clock before an occurrence then agree on it.
\<close>

locale occurrence_rule =
  fixes next_after :: "int \<Rightarrow> int option" and due :: "int \<Rightarrow> bool"
  assumes next_due: "next_after t = Some u \<Longrightarrow> t < u \<and> due u"
    and none_between: "next_after t = Some u \<Longrightarrow> t < v \<Longrightarrow> v < u \<Longrightarrow> \<not> due v"
begin

lemma next_is_least: "next_after t = Some u \<Longrightarrow> t < v \<Longrightarrow> due v \<Longrightarrow> u \<le> v"
  using none_between not_le by blast

lemma next_mono: "next_after t = Some u \<Longrightarrow> next_after s = Some w \<Longrightarrow> t \<le> s \<Longrightarrow> u \<le> w"
  using next_is_least [of t u w] next_due [of s w] by linarith

lemma next_stable: "next_after t = Some u \<Longrightarrow> next_after s = Some w \<Longrightarrow> t \<le> s \<Longrightarrow> s < u \<Longrightarrow> w = u"
  using next_mono [of t u s w] next_is_least [of s w u] next_due [of t u] by linarith

lemma next_after_next: "next_after t = Some u \<Longrightarrow> next_after u = Some w \<Longrightarrow> u < w"
  using next_due by blast

end

subsection \<open>Cron\<close>

definition cron_match :: "(int \<Rightarrow> zone_parts) \<Rightarrow> cron_spec \<Rightarrow> int \<Rightarrow> bool" where
  "cron_match formatter spec u =
     (case localParts formatter (Some u) of Inl _ \<Rightarrow> False | Inr parts \<Rightarrow> cronMatches spec parts)"

definition cron_due :: "(int \<Rightarrow> zone_parts) \<Rightarrow> cron_spec \<Rightarrow> int \<Rightarrow> bool" where
  "cron_due formatter spec u \<longleftrightarrow> 60000 dvd u \<and> cron_match formatter spec u"

definition first_candidate :: "int \<Rightarrow> int" where
  "first_candidate t = t div 60000 * 60000 + 60000"

definition cron_next :: "(int \<Rightarrow> zone_parts) \<Rightarrow> cron_spec \<Rightarrow> int \<Rightarrow> int option" where
  "cron_next formatter spec t =
     (case cron_search formatter spec 0 (new_Date (first_candidate t)) of
        Inl _ \<Rightarrow> None | Inr d \<Rightarrow> d)"

lemma localParts_error:
  "localParts f d \<noteq> schedulerConflict SCHEDULER_CRON_LOOKAHEAD_EXCEEDED"
  by (auto simp: localParts_def Let_def split: option.splits)

lemma cron_search_None [simp]:
  "cron_search f spec m None =
     (if m < MAX_CRON_LOOKAHEAD_MINUTES then Inl JsRangeError
      else schedulerConflict SCHEDULER_CRON_LOOKAHEAD_EXCEEDED)"
  by (subst cron_search.simps) (simp add: localParts_def)

lemma cron_search_step:
  assumes "m < MAX_CRON_LOOKAHEAD_MINUTES" "localParts f (Some c) = Inr parts"
  shows "cron_search f spec m (Some c) =
    (if cron_match f spec c then Inr (Some c) else cron_search f spec (m + 1) (new_Date (c + 60000)))"
  using assms by (subst cron_search.simps) (simp add: cron_match_def later_def)

text \<open>The minutes the search passes over: \<open>c + 60000 * k\<close>.\<close>

lemma minutes_step:
  fixes n c :: int
  assumes "P c" and rest: "\<And>k. 0 \<le> k \<Longrightarrow> k < n \<Longrightarrow> P (c + 60000 + 60000 * k)"
    and k: "0 \<le> k" "k < n + 1"
  shows "P (c + 60000 * k)"
proof (cases "k = 0")
  case False
  with k have "P (c + 60000 + 60000 * (k - 1))" by (intro rest) auto
  then show ?thesis by (simp add: algebra_simps)
qed (use assms(1) in simp)

lemma cron_search_found:
  assumes "cron_search f spec m (Some c) = Inr d"
  shows "\<exists>k. 0 \<le> k \<and> k < MAX_CRON_LOOKAHEAD_MINUTES - m \<and> d = Some (c + 60000 * k)
     \<and> cron_match f spec (c + 60000 * k)
     \<and> (\<forall>j. 0 \<le> j \<and> j < k \<longrightarrow> \<not> cron_match f spec (c + 60000 * j))"
  using assms
proof (induction "nat (MAX_CRON_LOOKAHEAD_MINUTES - m)" arbitrary: m c)
  case 0
  then have "\<not> m < MAX_CRON_LOOKAHEAD_MINUTES" by simp
  with 0(2) show ?case by (subst (asm) cron_search.simps) simp
next
  case (Suc n)
  then have m: "m < MAX_CRON_LOOKAHEAD_MINUTES" by simp
  then obtain parts where parts: "localParts f (Some c) = Inr parts"
    using Suc.prems by (subst (asm) cron_search.simps) (auto simp: and_then_Inr)
  show ?case
  proof (cases "cron_match f spec c")
    case True
    with Suc.prems have "d = Some c" by (simp add: cron_search_step [OF m parts])
    with True m show ?thesis by (intro exI [of _ 0]) auto
  next
    case False
    with Suc.prems have rest: "cron_search f spec (m + 1) (new_Date (c + 60000)) = Inr d"
      by (simp add: cron_search_step [OF m parts])
    then have valid: "new_Date (c + 60000) = Some (c + 60000)"
      by (cases "new_Date (c + 60000)") (auto simp: new_Date_def split: if_splits)
    have "n = nat (MAX_CRON_LOOKAHEAD_MINUTES - (m + 1))" using Suc.hyps(2) by simp
    from Suc.hyps(1) [OF this] rest valid
    obtain k where k: "0 \<le> k" "k < MAX_CRON_LOOKAHEAD_MINUTES - (m + 1)" "d = Some (c + 60000 + 60000 * k)"
      "cron_match f spec (c + 60000 + 60000 * k)"
      "\<And>j. 0 \<le> j \<Longrightarrow> j < k \<Longrightarrow> \<not> cron_match f spec (c + 60000 + 60000 * j)"
      by fastforce
    have "\<not> cron_match f spec (c + 60000 * j)" if "0 \<le> j" "j < k + 1" for j
      using False k(5) that by (rule minutes_step)
    with k show ?thesis by (intro exI [of _ "k + 1"]) (simp add: algebra_simps)
  qed
qed

lemma cron_search_exhausted:
  assumes "cron_search f spec m (Some c) = schedulerConflict SCHEDULER_CRON_LOOKAHEAD_EXCEEDED"
    and "0 \<le> k" "k < MAX_CRON_LOOKAHEAD_MINUTES - m"
  shows "\<not> cron_match f spec (c + 60000 * k)"
  using assms
proof (induction "nat (MAX_CRON_LOOKAHEAD_MINUTES - m)" arbitrary: m c k)
  case (Suc n)
  then have m: "m < MAX_CRON_LOOKAHEAD_MINUTES" by simp
  with Suc.prems(1) obtain parts where parts: "localParts f (Some c) = Inr parts"
    by (subst (asm) cron_search.simps) (auto simp: and_then_Inl localParts_error)
  with Suc.prems(1) m have no: "\<not> cron_match f spec c"
    and rest: "cron_search f spec (m + 1) (new_Date (c + 60000))
      = schedulerConflict SCHEDULER_CRON_LOOKAHEAD_EXCEEDED"
    by (auto simp: cron_search_step split: if_splits)
  have n: "n = nat (MAX_CRON_LOOKAHEAD_MINUTES - (m + 1))" using Suc.hyps(2) by simp
  have tail: "\<not> cron_match f spec (c + 60000 + 60000 * j)"
    if j: "0 \<le> j" "j < MAX_CRON_LOOKAHEAD_MINUTES - (m + 1)" for j
  proof -
    from j rest have "new_Date (c + 60000) = Some (c + 60000)"
      by (cases "new_Date (c + 60000)") (auto simp: new_Date_def split: if_splits)
    with rest show ?thesis by (intro Suc.hyps(1) [OF n _ j]) simp
  qed
  from Suc.prems(3) have "k < MAX_CRON_LOOKAHEAD_MINUTES - (m + 1) + 1" by simp
  with no tail Suc.prems(2) show ?case by (rule minutes_step)
qed simp

lemma first_candidate_bounds: "t < first_candidate t" "first_candidate t \<le> t + 60000" "60000 dvd first_candidate t"
  using div_bounds [of 60000 t] by (auto simp: first_candidate_def)

text \<open>A whole minute after the reference is one the search visits.\<close>

lemma minute_after:
  assumes "60000 dvd v" "t < v"
  obtains k where "0 \<le> k" "v = first_candidate t + 60000 * k"
proof -
  from assms(1) obtain q where q: "v = 60000 * q" by (auto simp: dvd_def)
  have "t div 60000 < q" using assms(2) div_bounds [of 60000 t] unfolding q by linarith
  with q show ?thesis by (intro that [of "q - t div 60000 - 1"]) (simp_all add: first_candidate_def algebra_simps)
qed

lemma cron_next_cases:
  assumes "cron_search f spec 0 (new_Date (first_candidate t)) = Inr d"
  obtains k where "0 \<le> k" "k < MAX_CRON_LOOKAHEAD_MINUTES" "d = Some (first_candidate t + 60000 * k)"
    "cron_match f spec (first_candidate t + 60000 * k)"
    "\<And>j. 0 \<le> j \<Longrightarrow> j < k \<Longrightarrow> \<not> cron_match f spec (first_candidate t + 60000 * j)"
proof -
  have "new_Date (first_candidate t) = Some (first_candidate t)"
    using assms by (cases "new_Date (first_candidate t)")
      (auto simp: new_Date_def MAX_CRON_LOOKAHEAD_MINUTES_def split: if_splits)
  with assms cron_search_found [of f spec 0 "first_candidate t" d] that show ?thesis by auto
qed

interpretation cron_rule: occurrence_rule "cron_next f spec" "cron_due f spec" for f spec
proof
  fix t u
  assume "cron_next f spec t = Some u"
  then obtain d where "cron_search f spec 0 (new_Date (first_candidate t)) = Inr d" "d = Some u"
    by (auto simp: cron_next_def split: sum.splits)
  from this(1) obtain k where k: "0 \<le> k" "u = first_candidate t + 60000 * k" "cron_match f spec u"
    "\<And>j. 0 \<le> j \<Longrightarrow> j < k \<Longrightarrow> \<not> cron_match f spec (first_candidate t + 60000 * j)"
    by (rule cron_next_cases) (use \<open>d = Some u\<close> in auto)
  then show "t < u \<and> cron_due f spec u"
    using first_candidate_bounds [of t] by (simp add: cron_due_def)
  fix v
  assume v: "t < v" "v < u"
  show "\<not> cron_due f spec v"
  proof
    assume "cron_due f spec v"
    then have "60000 dvd v" "cron_match f spec v" by (simp_all add: cron_due_def)
    then show False using minute_after [of v t] v k by (metis add_less_cancel_left mult_less_cancel_left_pos zero_less_numeral)
  qed
qed

lemma nextCronOccurrence_eq:
  "nextCronOccurrence zones expression timezone (Some t) =
     and_then (parseCron expression) (\<lambda>spec. and_then (timezoneFormatter zones (trim timezone)) (\<lambda>f.
       cron_search f spec 0 (new_Date (first_candidate t))))"
  by (simp add: nextCronOccurrence_def first_candidate_def)

lemma nextCronOccurrence_Inr:
  assumes "nextCronOccurrence zones expression timezone (Some t) = Inr d"
  obtains spec f u where "parseCron expression = Inr spec" "zones (trim timezone) = Some f"
    "d = Some u" "cron_next f spec t = Some u" "u \<le> t + 60000 * MAX_CRON_LOOKAHEAD_MINUTES"
proof -
  from assms obtain spec f where p: "parseCron expression = Inr spec" "zones (trim timezone) = Some f"
    "cron_search f spec 0 (new_Date (first_candidate t)) = Inr d"
    by (auto simp: nextCronOccurrence_eq and_then_Inr timezoneFormatter_def split: option.splits)
  from p(3) obtain k where k: "k < MAX_CRON_LOOKAHEAD_MINUTES" "d = Some (first_candidate t + 60000 * k)"
    by (rule cron_next_cases)
  then have "cron_next f spec t = Some (first_candidate t + 60000 * k)" by (simp add: cron_next_def p(3))
  with p k first_candidate_bounds [of t] show ?thesis by (intro that) auto
qed

lemma nextCronOccurrence_exceeded:
  assumes "nextCronOccurrence zones expression timezone (Some t)
      = schedulerConflict SCHEDULER_CRON_LOOKAHEAD_EXCEEDED"
  shows "\<exists>spec f. parseCron expression = Inr spec \<and> zones (trim timezone) = Some f
    \<and> (\<forall>v. \<not> (t < v \<and> v \<le> t + 60000 * MAX_CRON_LOOKAHEAD_MINUTES \<and> cron_due f spec v))"
proof -
  have "parseCron expression \<noteq> schedulerConflict SCHEDULER_CRON_LOOKAHEAD_EXCEEDED" by (rule parseCron_error)
  with assms obtain spec f where p: "parseCron expression = Inr spec" "zones (trim timezone) = Some f"
    "cron_search f spec 0 (new_Date (first_candidate t)) = schedulerConflict SCHEDULER_CRON_LOOKAHEAD_EXCEEDED"
    by (auto simp: nextCronOccurrence_eq and_then_Inl timezoneFormatter_def split: option.splits)
  have c: "new_Date (first_candidate t) = Some (first_candidate t)"
    using p(3) by (cases "new_Date (first_candidate t)")
      (auto simp: new_Date_def MAX_CRON_LOOKAHEAD_MINUTES_def split: if_splits)
  have "\<not> cron_due f spec v" if v: "t < v" "v \<le> t + 60000 * MAX_CRON_LOOKAHEAD_MINUTES" for v
  proof
    assume due: "cron_due f spec v"
    then have "60000 dvd v" by (simp add: cron_due_def)
    then obtain k where k: "0 \<le> k" "v = first_candidate t + 60000 * k"
      using v(1) by (rule minute_after)
    have "k < MAX_CRON_LOOKAHEAD_MINUTES - 0"
      using k(2) v(2) first_candidate_bounds(1) [of t] by linarith
    with cron_search_exhausted [OF p(3) [unfolded c] k(1)] due k(2) show False
      by (simp add: cron_due_def)
  qed
  with p show ?thesis by blast
qed

subsection \<open>Intervals\<close>

definition interval_next :: "int \<Rightarrow> int \<Rightarrow> int \<Rightarrow> int option" where
  "interval_next seconds slot now =
     (case parsePositiveSeconds seconds of Inl _ \<Rightarrow> None
      | Inr interval \<Rightarrow> Some (future_slot interval slot now))"

definition interval_due :: "int \<Rightarrow> int \<Rightarrow> int \<Rightarrow> bool" where
  "interval_due seconds slot u \<longleftrightarrow> slot < u \<and> 1000 * seconds dvd u - slot"

lemma parsePositiveSeconds_Inr: "parsePositiveSeconds s = Inr i \<longleftrightarrow> i = 1000 * s \<and> 0 < s \<and> 1000 * s \<le> MAX_SAFE_INTEGER"
  by (auto simp: parsePositiveSeconds_def)

lemma future_slot_after:
  assumes "0 < i"
  shows "now < future_slot i slot now" "slot < future_slot i slot now" "i dvd future_slot i slot now - slot"
    and "v \<le> now \<or> v \<le> slot \<or> \<not> i dvd v - slot \<or> future_slot i slot now \<le> v"
proof -
  define d where "d = now - (slot + i)"
  have b: "i * (d div i) \<le> d" "d < i * (d div i) + i" using div_bounds [OF assms] by auto
  have eq: "future_slot i slot now =
      (if slot + i \<le> now then slot + i + (d div i + 1) * i else slot + i)"
    by (simp add: future_slot_def Let_def d_def)
  have nn: "0 \<le> d div i" if "slot + i \<le> now"
    using that assms by (simp add: d_def pos_imp_zdiv_nonneg_iff)
  show "now < future_slot i slot now" using b assms by (simp add: eq d_def algebra_simps)
  show "slot < future_slot i slot now" using nn assms by (simp add: eq add_pos_nonneg)
  show "i dvd future_slot i slot now - slot" by (simp add: eq algebra_simps)
  show "v \<le> now \<or> v \<le> slot \<or> \<not> i dvd v - slot \<or> future_slot i slot now \<le> v"
  proof (rule ccontr)
    assume "\<not> ?thesis"
    then have v: "now < v" "slot < v" "i dvd v - slot" "v < future_slot i slot now" by auto
    from v(3) obtain q where "v - slot = i * q" by (auto simp: dvd_def)
    then have q: "v = slot + i * q" by simp
    have "0 < i * q" using v(2) q by simp
    then have q1: "1 \<le> q" using assms by (simp add: zero_less_mult_iff)
    show False
    proof (cases "slot + i \<le> now")
      case True
      then have "i * q < i * (d div i + 2)" using v(4) q by (simp add: eq algebra_simps)
      then have "q \<le> d div i + 1" using assms by simp
      then have "i * q \<le> i * (d div i + 1)" using assms by simp
      then show False using b(1) v(1) q by (simp add: d_def algebra_simps)
    next
      case False
      then have "i * q < i * 1" using v(4) q by (simp add: eq)
      then show False using assms q1 by simp
    qed
  qed
qed

interpretation interval_rule: occurrence_rule "interval_next s slot" "interval_due s slot" for s slot
proof
  fix t u
  assume "interval_next s slot t = Some u"
  then have s: "0 < 1000 * s" and u: "u = future_slot (1000 * s) slot t"
    by (auto simp: interval_next_def parsePositiveSeconds_Inr split: sum.splits)
  show "t < u \<and> interval_due s slot u"
    using future_slot_after(1-3) [OF s, where now = t and slot = slot] by (simp add: interval_due_def u)
  fix v
  assume "t < v" "v < u"
  then show "\<not> interval_due s slot v"
    using future_slot_after(4) [OF s, where v = v and now = t and slot = slot] by (auto simp: interval_due_def u)
qed

subsection \<open>The future slot of a schedule\<close>

lemma nextCronOccurrence_later: "nextCronOccurrence zones e z (Some now) = Inr (Some u) \<Longrightarrow> now < u"
  by (erule nextCronOccurrence_Inr) (use cron_rule.next_due in auto)

lemma nextFutureScheduledAt_future:
  assumes "nextFutureScheduledAt zones schedule slot now = Inr (Some (Some u))"
  shows "now < u"
proof -
  have interval: "now < u" if "new_Date (future_slot (1000 * s) t now) = Some u" "0 < s" for s t
    using that future_slot_after(1) [of "1000 * s" now t] by (auto simp: new_Date_def split: if_splits)
  show ?thesis
    using assms interval
    by (cases schedule)
      (auto simp: nextFutureScheduledAt_def and_then_Inr Let_def parsePositiveSeconds_Inr
        nextCronOccurrence_later split: option.splits)
qed

lemma nextScheduledAt_future:
  assumes "nextScheduledAt zones schedule (Some now) = Inr (Some (Some u))"
  shows "now < u"
  using assms
  by (cases schedule)
    (auto simp: nextScheduledAt_def and_then_Inr later_def new_Date_def parsePositiveSeconds_Inr
      nextCronOccurrence_later split: if_splits)

end
