(* ===== verification/Collection_Scheduler.thy ===== *)
theory Collection_Scheduler
  imports Store_Links Cron_Schedule
begin

text \<open>
  \<open>packages/persistence/src/collection-scheduler.ts\<close>: the table of schedule states beside the
  control store, and \<open>SqliteCollectionSchedulerRepository\<close>, whose \<open>tick\<close> dispatches every active
  plan that is due. The instants \<open>now\<close> are valid dates; \<open>fresh\<close> is what the two identifier
  factories return when the dispatch of a plan asks for them (a plan is dispatched at most once in
  a tick). The foreign keys of the table name the plan being scheduled and the run just read or
  written, so they always hold. The texts of error messages are not modelled; \<open>collection_runs.requested_at\<close>, which no
  statement updates, is read off the run's document.
\<close>

section \<open>The schedule states\<close>

datatype schedule_mode = M_MANUAL | M_INTERVAL | M_CRON | M_CHANGE_WATCH

fun schedule_mode_of :: "collection_schedule \<Rightarrow> schedule_mode" where
  "schedule_mode_of ManualSchedule = M_MANUAL"
| "schedule_mode_of (IntervalSchedule _) = M_INTERVAL"
| "schedule_mode_of (CronSchedule _ _) = M_CRON"
| "schedule_mode_of (ChangeWatchSchedule _) = M_CHANGE_WATCH"

record schedule_row =
  ss_plan_id :: string
  ss_workspace_id :: string
  ss_mode :: schedule_mode
  ss_fingerprint :: string
  ss_next_due_at :: "string option"
  ss_last_slot_at :: "string option"
  ss_last_triggered_at :: "string option"
  ss_last_run_id :: "string option"
  ss_last_error_code :: "error_code option"
  ss_last_error_at :: "string option"
  ss_updated_at :: string

record scheduler_store =
  sd_control :: control_store
  sd_states :: "schedule_row list"

definition scheduleFingerprint :: "platform \<Rightarrow> collection_schedule \<Rightarrow> string" where
  "scheduleFingerprint env schedule = digestHex env (stringify (number_text env) (schedule_json schedule))"

definition errorFields :: "registry_error \<Rightarrow> error_code" where
  "errorFields e = (case error_code_of e of None \<Rightarrow> Scheduler SCHEDULER_INTERNAL_ERROR | Some c \<Rightarrow> c)"

definition stateRow :: "string \<Rightarrow> schedule_row list \<Rightarrow> schedule_row option" where
  "stateRow planId ss = find_by ss_plan_id planId ss"

text \<open>\<open>INSERT ... ON CONFLICT(plan_id) DO UPDATE\<close>, and the row as it is read back.\<close>

definition upsert_state ::
    "schedule_row \<Rightarrow> (schedule_row \<Rightarrow> schedule_row) \<Rightarrow> schedule_row list \<Rightarrow> schedule_row \<times> schedule_row list" where
  "upsert_state row upd ss =
     (case stateRow (ss_plan_id row) ss of
        None \<Rightarrow> (row, ss @ [row])
      | Some r \<Rightarrow> (upd r, update_by ss_plan_id (ss_plan_id row) upd ss))"

definition writeScheduleError ::
    "platform \<Rightarrow> collection_plan \<Rightarrow> int \<Rightarrow> registry_error \<Rightarrow> schedule_row list
      \<Rightarrow> (schedule_row \<times> schedule_row list) result" where
  "writeScheduleError env plan now e ss =
     (if schedule_mode_of (plan_schedule plan) = M_MANUAL then Inl RegistryValidationError
      else let fingerprint = scheduleFingerprint env (plan_schedule plan); timestamp = to_iso now in
        Inr (upsert_state
          \<lparr> ss_plan_id = plan_id plan, ss_workspace_id = plan_workspaceId plan,
            ss_mode = schedule_mode_of (plan_schedule plan), ss_fingerprint = fingerprint,
            ss_next_due_at = None, ss_last_slot_at = None, ss_last_triggered_at = None,
            ss_last_run_id = None, ss_last_error_code = Some (errorFields e),
            ss_last_error_at = Some timestamp, ss_updated_at = timestamp \<rparr>
          (\<lambda>r. r\<lparr> ss_workspace_id := plan_workspaceId plan,
                  ss_mode := schedule_mode_of (plan_schedule plan),
                  ss_next_due_at := (if ss_fingerprint r \<noteq> fingerprint then None else ss_next_due_at r),
                  ss_fingerprint := fingerprint, ss_last_error_code := Some (errorFields e),
                  ss_last_error_at := Some timestamp, ss_updated_at := timestamp \<rparr>) ss))"

definition initial_due :: "time_zones \<Rightarrow> collection_schedule \<Rightarrow> int \<Rightarrow> string result" where
  "initial_due zones schedule now =
     and_then (nextScheduledAt zones schedule (Some now)) (\<lambda>found.
       case found of None \<Rightarrow> Inl RegistryValidationError | Some d \<Rightarrow> toISOString d)"

definition state_current :: "platform \<Rightarrow> collection_plan \<Rightarrow> schedule_row \<Rightarrow> bool" where
  "state_current env plan r \<longleftrightarrow>
     ss_mode r = schedule_mode_of (plan_schedule plan)
     \<and> ss_fingerprint r = scheduleFingerprint env (plan_schedule plan)
     \<and> (case ss_next_due_at r of None \<Rightarrow> False | Some d \<Rightarrow> d \<noteq> [] \<and> isRfc3339 d)"

definition initialize_state ::
    "platform \<Rightarrow> collection_plan \<Rightarrow> int \<Rightarrow> string \<Rightarrow> schedule_row list \<Rightarrow> schedule_row \<times> schedule_row list" where
  "initialize_state env plan now next_due ss =
     (let fingerprint = scheduleFingerprint env (plan_schedule plan); timestamp = to_iso now in
      upsert_state
        \<lparr> ss_plan_id = plan_id plan, ss_workspace_id = plan_workspaceId plan,
          ss_mode = schedule_mode_of (plan_schedule plan), ss_fingerprint = fingerprint,
          ss_next_due_at = Some next_due, ss_last_slot_at = None, ss_last_triggered_at = None,
          ss_last_run_id = None, ss_last_error_code = None, ss_last_error_at = None,
          ss_updated_at = timestamp \<rparr>
        (\<lambda>r. r\<lparr> ss_workspace_id := plan_workspaceId plan,
                ss_mode := schedule_mode_of (plan_schedule plan), ss_fingerprint := fingerprint,
                ss_next_due_at := Some next_due, ss_last_error_code := None,
                ss_last_error_at := None, ss_updated_at := timestamp \<rparr>) ss)"

definition reconcileActivePlan ::
    "time_zones \<Rightarrow> platform \<Rightarrow> collection_plan \<Rightarrow> int \<Rightarrow> schedule_row list
      \<Rightarrow> ((schedule_row \<times> bool) \<times> schedule_row list) result" where
  "reconcileActivePlan zones env plan now ss =
     (if plan_status plan \<noteq> P_ACTIVE \<or> schedule_mode_of (plan_schedule plan) = M_MANUAL
      then Inl RegistryValidationError
      else
        let existing = stateRow (plan_id plan) ss;
            recompute =
              (case initial_due zones (plan_schedule plan) now of
                 Inr next_due \<Rightarrow>
                   (case initialize_state env plan now next_due ss of (r, ss') \<Rightarrow> Inr ((r, True), ss'))
               | Inl e \<Rightarrow>
                   and_then (writeScheduleError env plan now e ss)
                     (\<lambda>(r, ss'). Inr ((r, existing = None), ss')))
        in case existing of
             None \<Rightarrow> recompute
           | Some r \<Rightarrow> if state_current env plan r then Inr ((r, False), ss) else recompute)"

section \<open>Loading and validating\<close>

definition scheduler_loadPlan :: "control_store \<Rightarrow> string \<Rightarrow> collection_plan result" where
  "scheduler_loadPlan db planId =
     (case find_by plan_id planId (plan_documents db) of
        None \<Rightarrow> Inl RegistryNotFoundError
      | Some p \<Rightarrow> parsePlan p)"

definition scheduler_loadSource :: "control_store \<Rightarrow> string \<Rightarrow> source_definition result" where
  "scheduler_loadSource db sourceId =
     (case find_by source_id sourceId (sources db) of
        None \<Rightarrow> Inl RegistryNotFoundError
      | Some s \<Rightarrow> parseSource s)"

definition scheduler_loadConnector :: "control_store \<Rightarrow> source_definition \<Rightarrow> connector_manifest result" where
  "scheduler_loadConnector db source =
     (case connector_by_ref (source_connector source) db of
        None \<Rightarrow> schedulerConflict SCHEDULER_CONNECTOR_NOT_FOUND
      | Some r \<Rightarrow> parseConnector (kr_document r))"

definition scheduler_assertCapability :: "connector_manifest \<Rightarrow> capability \<Rightarrow> unit result" where
  "scheduler_assertCapability connector c =
     (if c \<notin> set (connector_capabilities connector)
      then schedulerConflict SCHEDULER_CAPABILITY_MISMATCH else Inr ())"

definition validateScheduledDispatch ::
    "collection_plan \<Rightarrow> source_definition \<Rightarrow> connector_manifest \<Rightarrow> job_type result" where
  "validateScheduledDispatch plan source connector =
     (if plan_status plan \<noteq> P_ACTIVE then schedulerConflict SCHEDULER_PLAN_NOT_ACTIVE
      else if schedule_mode_of (plan_schedule plan) = M_MANUAL then schedulerConflict SCHEDULER_MANUAL_PLAN
      else if source_status source \<noteq> S_ACTIVE then schedulerConflict SCHEDULER_SOURCE_NOT_ACTIVE
      else if connector_status connector \<noteq> C_ACTIVE
        then schedulerConflict SCHEDULER_CONNECTOR_NOT_ACTIVE
      else if source_type source \<notin> set (connector_sourceTypes connector)
        then schedulerConflict SCHEDULER_SOURCE_TYPE_MISMATCH
      else and_then (scheduler_assertCapability connector COLLECT) (\<lambda>_.
        and_then (if renderJavascript (plan_policy plan)
                  then scheduler_assertCapability connector RENDER_JAVASCRIPT else Inr ()) (\<lambda>_.
        and_then (if fetchAttachments (plan_policy plan)
                  then scheduler_assertCapability connector FETCH_ATTACHMENTS else Inr ()) (\<lambda>_.
          if schedule_mode_of (plan_schedule plan) = M_CHANGE_WATCH
             \<and> CHECK_UPDATE \<notin> set (connector_capabilities connector)
             \<and> WATCH \<notin> set (connector_capabilities connector)
          then schedulerConflict SCHEDULER_CHANGE_WATCH_UNSUPPORTED
          else if filter (\<lambda>k. k \<notin> set (connector_outputArtifactKinds connector))
                    (plan_artifactKinds plan) \<noteq> []
          then schedulerConflict SCHEDULER_OUTPUT_MISMATCH
          else deriveCollectionJobType plan source connector))))"

section \<open>Dispatching a slot\<close>

record scheduled_dispatch =
  sdr_run :: collection_run
  sdr_jobs :: "job list"
  sdr_replayed :: bool
  sdr_coalesced :: bool

definition inFlightRunForPlan :: "control_store \<Rightarrow> string \<Rightarrow> collection_run option result" where
  "inFlightRunForPlan db planId =
     (case rev (sort_key (\<lambda>r. (run_requestedAt (rr_document r), rr_id r))
             (filter (\<lambda>r. rr_plan_id r = planId \<and> rr_status r \<in> {R_PENDING, R_RUNNING})
               (collection_runs db))) of
        [] \<Rightarrow> Inr None
      | r # _ \<Rightarrow> and_then (parseRun (rr_document r)) (\<lambda>run. Inr (Some run)))"

definition coalescedDispatch :: "collection_run \<Rightarrow> scheduled_dispatch" where
  "coalescedDispatch run = \<lparr> sdr_run = run, sdr_jobs = [], sdr_replayed = False, sdr_coalesced = True \<rparr>"

definition existingScheduledRun ::
    "control_store \<Rightarrow> string \<Rightarrow> string \<Rightarrow> string \<Rightarrow> scheduled_dispatch option result" where
  "existingScheduledRun db workspaceId planId key =
     (case run_by_key workspaceId key db of
        None \<Rightarrow> Inr None
      | Some r \<Rightarrow>
          and_then (parseRun (rr_document r)) (\<lambda>run.
            if run_planId run \<noteq> planId \<or> trigger_type (run_trigger run) \<noteq> T_SCHEDULED
            then schedulerConflict SCHEDULER_IDEMPOTENCY_CONFLICT
            else and_then (jobsForRun db (run_id run)) (\<lambda>js.
              Inr (Some \<lparr> sdr_run = run, sdr_jobs = js, sdr_replayed = True, sdr_coalesced = False \<rparr>))))"

definition scheduledSlotIdempotencyKey :: "string \<Rightarrow> js_date \<Rightarrow> string result" where
  "scheduledSlotIdempotencyKey planId slot =
     and_then (toISOString slot) (\<lambda>iso.
       let value = ''schedule:'' @ planId @ '':'' @ iso
       in if 128 < length value then Inl RegistryValidationError else Inr value)"

definition SYSTEM_ACTOR_ID :: string where
  "SYSTEM_ACTOR_ID = ''collection-scheduler''"

definition scheduled_run ::
    "collection_plan \<Rightarrow> source_definition \<Rightarrow> connector_manifest \<Rightarrow> string \<Rightarrow> string \<Rightarrow> string \<Rightarrow> string
      \<Rightarrow> collection_run" where
  "scheduled_run plan source connector key slot_iso runId timestamp =
     \<lparr> run_id = runId, run_workspaceId = plan_workspaceId plan, run_sourceId = source_id source,
       run_planId = plan_id plan, run_status = R_PENDING,
       run_trigger = \<lparr> trigger_type = T_SCHEDULED,
                       trigger_requestedBy = \<lparr> actor_type = SYSTEM, actor_id = Some SYSTEM_ACTOR_ID \<rparr>,
                       trigger_idempotencyKey = Some key, trigger_parentRunId = None \<rparr>,
       run_planSnapshot = plan, run_sourceSnapshot = source, run_connectorSnapshot = connector,
       run_requestedAt = timestamp, run_createdAt = timestamp, run_updatedAt = timestamp,
       run_cancelledAt = None, run_cancellationReason = None,
       run_extensions = Some [(''x-markorbit.schedule-slot-at'', JStr slot_iso)] \<rparr>"

text \<open>The body of the transaction: both checks again, on the database as it is then.\<close>

definition scheduled_body ::
    "collection_plan \<Rightarrow> string \<Rightarrow> collection_run \<Rightarrow> job \<Rightarrow> control_store
      \<Rightarrow> (scheduled_dispatch \<times> control_store) result" where
  "scheduled_body plan key run job db =
     and_then (existingScheduledRun db (plan_workspaceId plan) (plan_id plan) key) (\<lambda>concurrentReplay.
       case concurrentReplay of
         Some d \<Rightarrow> Inr (d, db)
       | None \<Rightarrow>
           and_then (inFlightRunForPlan db (plan_id plan)) (\<lambda>concurrentActive.
             case concurrentActive of
               Some active \<Rightarrow> Inr (coalescedDispatch active, db)
             | None \<Rightarrow>
                 and_then (insert_dispatch run job db) (\<lambda>db'.
                   Inr (\<lparr> sdr_run = run, sdr_jobs = [job], sdr_replayed = False, sdr_coalesced = False \<rparr>,
                        db'))))"

definition scheduled_commit ::
    "collection_plan \<Rightarrow> string \<Rightarrow> collection_run \<Rightarrow> job \<Rightarrow> control_store
      \<Rightarrow> scheduled_dispatch result \<times> control_store" where
  "scheduled_commit plan key run job db =
     (case in_transaction db (scheduled_body plan key run job db) of
        (Inr d, db') \<Rightarrow> (Inr d, db')
      | (Inl e, db') \<Rightarrow>
          ((if e = SqliteUniqueConstraint then
              and_then (existingScheduledRun db' (plan_workspaceId plan) (plan_id plan) key) (\<lambda>raceReplay.
                case raceReplay of Some d \<Rightarrow> Inr d | None \<Rightarrow> Inl e)
            else Inl e), db'))"

definition dispatchScheduled ::
    "(string \<Rightarrow> string \<times> string) \<Rightarrow> collection_plan \<Rightarrow> js_date \<Rightarrow> int \<Rightarrow> control_store
      \<Rightarrow> scheduled_dispatch result \<times> control_store" where
  "dispatchScheduled fresh plan slot now db =
     (let prepared =
        and_then (scheduler_loadSource db (plan_sourceId plan)) (\<lambda>source.
        and_then (scheduler_loadConnector db source) (\<lambda>connector.
        and_then (validateScheduledDispatch plan source connector) (\<lambda>jobType.
        and_then (scheduledSlotIdempotencyKey (plan_id plan) slot) (\<lambda>key.
        and_then (existingScheduledRun db (plan_workspaceId plan) (plan_id plan) key) (\<lambda>replay.
          case replay of
            Some d \<Rightarrow> Inr (Inl d)
          | None \<Rightarrow>
              and_then (inFlightRunForPlan db (plan_id plan)) (\<lambda>active.
                case active of
                  Some run \<Rightarrow> Inr (Inl (coalescedDispatch run))
                | None \<Rightarrow>
                    and_then (toISOString slot) (\<lambda>slot_iso.
                      let (runId, jobId) = fresh (plan_id plan);
                          run = scheduled_run plan source connector key slot_iso runId (to_iso now);
                          job = dispatched_job run jobType jobId (to_iso now)
                      in if \<not> isCollectionRun (run_json run) \<or> \<not> isJob (job_json job)
                         then Inl RegistryValidationError
                         else Inr (Inr (key, run, job)))))))))
      in case prepared of
           Inl e \<Rightarrow> (Inl e, db)
         | Inr (Inl d) \<Rightarrow> (Inr d, db)
         | Inr (Inr (key, run, job)) \<Rightarrow> scheduled_commit plan key run job db)"

section \<open>Advancing the state\<close>

text \<open>\<open>new Date(text)\<close>: RFC 3339 text by the standard, any other text as the engine reads it.\<close>

definition new_Date_text :: "platform \<Rightarrow> string \<Rightarrow> js_date" where
  "new_Date_text env s = (if rfc3339_shape s then parse_iso s else parse_date env s)"

definition future_due ::
    "time_zones \<Rightarrow> platform \<Rightarrow> collection_plan \<Rightarrow> string \<Rightarrow> int \<Rightarrow> string result" where
  "future_due zones env plan expectedSlot now =
     and_then (nextFutureScheduledAt zones (plan_schedule plan) (new_Date_text env expectedSlot) now)
       (\<lambda>found. case found of None \<Rightarrow> Inl RegistryValidationError | Some d \<Rightarrow> toISOString d)"

text \<open>
  \<open>UPDATE ... WHERE plan_id = ? AND schedule_fingerprint = ? AND next_due_at = ?\<close>; when no row
  changed the current row is returned, and an absent one is an error.
\<close>

definition move_state ::
    "platform \<Rightarrow> collection_plan \<Rightarrow> string \<Rightarrow> (schedule_row \<Rightarrow> schedule_row) \<Rightarrow> schedule_row list
      \<Rightarrow> (schedule_row \<times> schedule_row list) result" where
  "move_state env plan expectedSlot upd ss =
     (case stateRow (plan_id plan) ss of
        None \<Rightarrow> schedulerConflict SCHEDULER_STATE_LOST
      | Some r \<Rightarrow>
          if ss_fingerprint r = scheduleFingerprint env (plan_schedule plan)
             \<and> ss_next_due_at r = Some expectedSlot
          then Inr (upd r, update_by ss_plan_id (plan_id plan) upd ss)
          else Inr (r, ss))"

definition advanceCoalescedState ::
    "time_zones \<Rightarrow> platform \<Rightarrow> collection_plan \<Rightarrow> string \<Rightarrow> int \<Rightarrow> schedule_row list
      \<Rightarrow> (schedule_row \<times> schedule_row list) result" where
  "advanceCoalescedState zones env plan expectedSlot now ss =
     and_then (future_due zones env plan expectedSlot now) (\<lambda>next_due.
       move_state env plan expectedSlot
         (\<lambda>r. r\<lparr> ss_next_due_at := Some next_due, ss_last_slot_at := Some expectedSlot,
                 ss_last_error_code := None, ss_last_error_at := None, ss_updated_at := to_iso now \<rparr>) ss)"

definition advanceState ::
    "time_zones \<Rightarrow> platform \<Rightarrow> collection_plan \<Rightarrow> string \<Rightarrow> collection_run \<Rightarrow> int \<Rightarrow> schedule_row list
      \<Rightarrow> (schedule_row \<times> schedule_row list) result" where
  "advanceState zones env plan expectedSlot run now ss =
     and_then (future_due zones env plan expectedSlot now) (\<lambda>next_due.
       move_state env plan expectedSlot
         (\<lambda>r. r\<lparr> ss_next_due_at := Some next_due, ss_last_slot_at := Some expectedSlot,
                 ss_last_triggered_at := Some (to_iso now), ss_last_run_id := Some (run_id run),
                 ss_last_error_code := None, ss_last_error_at := None, ss_updated_at := to_iso now \<rparr>) ss)"

section \<open>A tick\<close>

datatype tick_outcome = O_INITIALIZED | O_NOT_DUE | O_DISPATCHED | O_REPLAYED | O_COALESCED | O_ERROR

record tick_item =
  ti_planId :: string
  ti_outcome :: tick_outcome
  ti_nextDueAt :: "string option"
  ti_runId :: "string option"
  ti_errorCode :: "error_code option"

record tick_result =
  tr_observedAt :: string
  tr_examined :: nat
  tr_dispatched :: nat
  tr_replayed :: nat
  tr_coalesced :: nat
  tr_errors :: nat
  tr_items :: "tick_item list"

definition push_item :: "tick_item \<Rightarrow> tick_result \<Rightarrow> tick_result" where
  "push_item item acc = acc\<lparr>tr_items := tr_items acc @ [item]\<rparr>"

definition tick_key :: "string \<Rightarrow> schedule_row list \<Rightarrow> collection_plan \<Rightarrow> nat \<times> string \<times> string" where
  "tick_key now ss p =
     (case stateRow (plan_id p) ss of
        None \<Rightarrow> (0, [], plan_id p)
      | Some s \<Rightarrow>
          (1, (case ss_last_error_at s of
                 Some failed_at \<Rightarrow>
                   (case ss_next_due_at s of None \<Rightarrow> failed_at | Some d \<Rightarrow> if d \<le> now then failed_at else d)
               | None \<Rightarrow> (case ss_next_due_at s of None \<Rightarrow> [] | Some d \<Rightarrow> d)), plan_id p))"

definition tick_rows :: "int \<Rightarrow> int \<Rightarrow> scheduler_store \<Rightarrow> collection_plan list" where
  "tick_rows now limit sd =
     take (nat limit)
       (sort_key (tick_key (to_iso now) (sd_states sd))
         (filter (\<lambda>p. plan_status p = P_ACTIVE \<and> schedule_mode_of (plan_schedule p) \<noteq> M_MANUAL)
           (plan_documents (sd_control sd))))"

text \<open>The \<open>try\<close> block of the loop: a slot dispatched, and the state moved past it.\<close>

definition tick_dispatch ::
    "time_zones \<Rightarrow> platform \<Rightarrow> (string \<Rightarrow> string \<times> string) \<Rightarrow> int \<Rightarrow> collection_plan \<Rightarrow> string
      \<Rightarrow> scheduler_store \<Rightarrow> (scheduled_dispatch \<times> schedule_row) result \<times> scheduler_store" where
  "tick_dispatch zones env fresh now plan due sd =
     (case dispatchScheduled fresh plan (new_Date_text env due) now (sd_control sd) of
        (Inl e, db) \<Rightarrow> (Inl e, sd\<lparr>sd_control := db\<rparr>)
      | (Inr d, db) \<Rightarrow>
          (case (if sdr_coalesced d then advanceCoalescedState zones env plan due now (sd_states sd)
                 else advanceState zones env plan due (sdr_run d) now (sd_states sd)) of
             Inl e \<Rightarrow> (Inl e, sd\<lparr>sd_control := db\<rparr>)
           | Inr (r, ss) \<Rightarrow> (Inr (d, r), sd\<lparr>sd_control := db, sd_states := ss\<rparr>)))"

definition tick_plan ::
    "time_zones \<Rightarrow> platform \<Rightarrow> (string \<Rightarrow> string \<times> string) \<Rightarrow> int \<Rightarrow> collection_plan \<Rightarrow> tick_result
      \<Rightarrow> scheduler_store \<Rightarrow> tick_result result \<times> scheduler_store" where
  "tick_plan zones env fresh now doc acc sd =
     (case and_then (parsePlan doc) (\<lambda>plan.
             and_then (reconcileActivePlan zones env plan now (sd_states sd)) (\<lambda>x. Inr (plan, x))) of
        Inl e \<Rightarrow> (Inl e, sd)
      | Inr (plan, (state, initialized), ss) \<Rightarrow>
          let sd1 = sd\<lparr>sd_states := ss\<rparr>; code = ss_last_error_code state;
              errored = acc\<lparr>tr_errors := tr_errors acc + 1\<rparr> in
          case ss_next_due_at state of
            None \<Rightarrow>
              (Inr (push_item \<lparr> ti_planId = plan_id plan, ti_outcome = O_ERROR, ti_nextDueAt = None,
                                ti_runId = None, ti_errorCode = code \<rparr> errored), sd1)
          | Some [] \<Rightarrow>
              (Inr (push_item \<lparr> ti_planId = plan_id plan, ti_outcome = O_ERROR, ti_nextDueAt = None,
                                ti_runId = None, ti_errorCode = code \<rparr> errored), sd1)
          | Some due \<Rightarrow>
              if (case new_Date_text env due of None \<Rightarrow> False | Some t \<Rightarrow> now < t) then
                (Inr (push_item \<lparr> ti_planId = plan_id plan,
                        ti_outcome = (if code \<noteq> None then O_ERROR
                                      else if initialized then O_INITIALIZED else O_NOT_DUE),
                        ti_nextDueAt = Some due, ti_runId = None, ti_errorCode = code \<rparr>
                      (if code \<noteq> None then errored else acc)), sd1)
              else
                (case tick_dispatch zones env fresh now plan due sd1 of
                   (Inr (d, advanced), sd2) \<Rightarrow>
                     if sdr_coalesced d then
                       (Inr (push_item \<lparr> ti_planId = plan_id plan, ti_outcome = O_COALESCED,
                               ti_nextDueAt = ss_next_due_at advanced, ti_runId = Some (run_id (sdr_run d)),
                               ti_errorCode = None \<rparr>
                             (acc\<lparr>tr_coalesced := tr_coalesced acc + 1\<rparr>)), sd2)
                     else
                       (Inr (push_item \<lparr> ti_planId = plan_id plan,
                               ti_outcome = (if sdr_replayed d then O_REPLAYED else O_DISPATCHED),
                               ti_nextDueAt = ss_next_due_at advanced, ti_runId = Some (run_id (sdr_run d)),
                               ti_errorCode = None \<rparr>
                             (if sdr_replayed d then acc\<lparr>tr_replayed := tr_replayed acc + 1\<rparr>
                              else acc\<lparr>tr_dispatched := tr_dispatched acc + 1\<rparr>)), sd2)
                 | (Inl e, sd2) \<Rightarrow>
                     (case writeScheduleError env plan now e (sd_states sd2) of
                        Inl e' \<Rightarrow> (Inl e', sd2)
                      | Inr (failed, ss') \<Rightarrow>
                          (Inr (push_item \<lparr> ti_planId = plan_id plan, ti_outcome = O_ERROR,
                                  ti_nextDueAt = ss_next_due_at failed, ti_runId = None,
                                  ti_errorCode = ss_last_error_code failed \<rparr> errored),
                           sd2\<lparr>sd_states := ss'\<rparr>))))"

fun tick_loop ::
    "time_zones \<Rightarrow> platform \<Rightarrow> (string \<Rightarrow> string \<times> string) \<Rightarrow> int \<Rightarrow> collection_plan list \<Rightarrow> tick_result
      \<Rightarrow> scheduler_store \<Rightarrow> tick_result result \<times> scheduler_store" where
  "tick_loop zones env fresh now [] acc sd = (Inr acc, sd)"
| "tick_loop zones env fresh now (doc # docs) acc sd =
     (case tick_plan zones env fresh now doc acc sd of
        (Inl e, sd') \<Rightarrow> (Inl e, sd')
      | (Inr acc', sd') \<Rightarrow> tick_loop zones env fresh now docs acc' sd')"

definition tick ::
    "time_zones \<Rightarrow> platform \<Rightarrow> (string \<Rightarrow> string \<times> string) \<Rightarrow> int \<Rightarrow> js_date option \<Rightarrow> rat option
      \<Rightarrow> scheduler_store \<Rightarrow> tick_result result \<times> scheduler_store" where
  "tick zones env fresh clock observedAt limit_input sd =
     (case (case observedAt of None \<Rightarrow> Some clock | Some d \<Rightarrow> d) of
        None \<Rightarrow> (Inl RegistryValidationError, sd)
      | Some now \<Rightarrow>
          (case normalizedTickLimit limit_input of
             Inl e \<Rightarrow> (Inl e, sd)
           | Inr limit \<Rightarrow>
               let docs = tick_rows now limit sd
               in tick_loop zones env fresh now docs
                    \<lparr> tr_observedAt = to_iso now, tr_examined = length docs, tr_dispatched = 0,
                      tr_replayed = 0, tr_coalesced = 0, tr_errors = 0, tr_items = [] \<rparr> sd))"

section \<open>Reading the states\<close>

datatype scheduler_runtime_state = NOT_SCHEDULED | PAUSED | SCHEDULED | ERROR

record schedule_state =
  st_planId :: string
  st_workspaceId :: string
  st_scheduleMode :: schedule_mode
  st_scheduleFingerprint :: string
  st_runtimeState :: scheduler_runtime_state
  st_nextDueAt :: "string option"
  st_lastSlotAt :: "string option"
  st_lastTriggeredAt :: "string option"
  st_lastRunId :: "string option"
  st_lastError :: "(error_code \<times> string) option"
  st_updatedAt :: string

text \<open>\<open>...(value ? { key: value } : {})\<close>: an absent or empty text leaves the key out.\<close>

definition if_given :: "string option \<Rightarrow> string option" where
  "if_given v = (case v of Some (c # cs) \<Rightarrow> Some (c # cs) | _ \<Rightarrow> None)"

definition publicState :: "platform \<Rightarrow> collection_plan \<Rightarrow> schedule_row option \<Rightarrow> schedule_state" where
  "publicState env plan row =
     (let mode = schedule_mode_of (plan_schedule plan);
          fingerprint = scheduleFingerprint env (plan_schedule plan);
          unscheduled = \<lparr> st_planId = plan_id plan, st_workspaceId = plan_workspaceId plan,
            st_scheduleMode = mode, st_scheduleFingerprint = fingerprint,
            st_runtimeState = NOT_SCHEDULED, st_nextDueAt = None, st_lastSlotAt = None,
            st_lastTriggeredAt = None, st_lastRunId = None, st_lastError = None,
            st_updatedAt = plan_updatedAt plan \<rparr>
      in if mode = M_MANUAL then unscheduled
         else case row of
           None \<Rightarrow> unscheduled\<lparr>st_runtimeState := (if plan_status plan = P_ACTIVE then SCHEDULED else PAUSED)\<rparr>
         | Some r \<Rightarrow>
             \<lparr> st_planId = plan_id plan, st_workspaceId = plan_workspaceId plan,
               st_scheduleMode = mode, st_scheduleFingerprint = ss_fingerprint r,
               st_runtimeState = (if plan_status plan \<noteq> P_ACTIVE then PAUSED
                                  else if ss_last_error_code r \<noteq> None then ERROR else SCHEDULED),
               st_nextDueAt = ss_next_due_at r, st_lastSlotAt = if_given (ss_last_slot_at r),
               st_lastTriggeredAt = if_given (ss_last_triggered_at r),
               st_lastRunId = if_given (ss_last_run_id r),
               st_lastError = (case (ss_last_error_code r, if_given (ss_last_error_at r)) of
                                 (Some code, Some failed_at) \<Rightarrow> Some (code, failed_at) | _ \<Rightarrow> None),
               st_updatedAt = ss_updated_at r \<rparr>)"

definition state_of_plan ::
    "time_zones \<Rightarrow> platform \<Rightarrow> int \<Rightarrow> collection_plan \<Rightarrow> schedule_row list
      \<Rightarrow> (schedule_state \<times> schedule_row list) result" where
  "state_of_plan zones env now plan ss =
     (if schedule_mode_of (plan_schedule plan) = M_MANUAL \<or> plan_status plan \<noteq> P_ACTIVE
      then Inr (publicState env plan (stateRow (plan_id plan) ss), ss)
      else and_then (reconcileActivePlan zones env plan now ss)
             (\<lambda>((r, initialized), ss'). Inr (publicState env plan (Some r), ss')))"

definition getState ::
    "time_zones \<Rightarrow> platform \<Rightarrow> int \<Rightarrow> string \<Rightarrow> scheduler_store \<Rightarrow> schedule_state result \<times> scheduler_store" where
  "getState zones env now planId sd =
     (case and_then (scheduler_loadPlan (sd_control sd) (trim planId)) (\<lambda>plan.
             state_of_plan zones env now plan (sd_states sd)) of
        Inl e \<Rightarrow> (Inl e, sd)
      | Inr (st, ss) \<Rightarrow> (Inr st, sd\<lparr>sd_states := ss\<rparr>))"

fun states_loop ::
    "time_zones \<Rightarrow> platform \<Rightarrow> int \<Rightarrow> collection_plan list \<Rightarrow> schedule_row list
      \<Rightarrow> schedule_state list result \<times> schedule_row list" where
  "states_loop zones env now [] ss = (Inr [], ss)"
| "states_loop zones env now (doc # docs) ss =
     (case and_then (parsePlan doc) (\<lambda>plan. state_of_plan zones env now plan ss) of
        Inl e \<Rightarrow> (Inl e, ss)
      | Inr (st, ss') \<Rightarrow>
          (case states_loop zones env now docs ss' of
             (Inl e, ss'') \<Rightarrow> (Inl e, ss'')
           | (Inr sts, ss'') \<Rightarrow> (Inr (st # sts), ss'')))"

definition listStates ::
    "time_zones \<Rightarrow> platform \<Rightarrow> int \<Rightarrow> string option \<Rightarrow> rat option \<Rightarrow> scheduler_store
      \<Rightarrow> schedule_state list result \<times> scheduler_store" where
  "listStates zones env now workspaceId limit_input sd =
     (case normalizedTickLimit limit_input of
        Inl e \<Rightarrow> (Inl e, sd)
      | Inr limit \<Rightarrow>
          let listed = take (nat limit) (rev (sort_key (\<lambda>p. (plan_updatedAt p, plan_id p))
                 (filter (\<lambda>p. given (map_option trim workspaceId) (\<lambda>w. plan_workspaceId p = w))
                   (plan_documents (sd_control sd)))))
          in case states_loop zones env now listed (sd_states sd) of
               (res, ss) \<Rightarrow> (res, sd\<lparr>sd_states := ss\<rparr>))"

end
