(* ===== verification/Scheduler_Protocol.thy ===== *)
theory Scheduler_Protocol
  imports Collection_Scheduler
begin

text \<open>
  What the scheduler guarantees: a slot becomes at most one run, no run starts beside one in
  flight, every plan a tick examines gets one item, and the plans it serves are due later. On the
  control store a tick is a sequence of dispatches, so it meets the contract \<open>control_operation\<close>
  of every other method.
\<close>

section \<open>The state table\<close>

lemma upsert_state_row:
  assumes "upsert_state row upd ss = (r, ss')" and upd: "\<And>x. ss_plan_id (upd x) = ss_plan_id x"
  shows "stateRow (ss_plan_id row) ss' = Some r"
    "q \<noteq> ss_plan_id row \<Longrightarrow> stateRow q ss' = stateRow q ss"
    "r = row \<or> (\<exists>x. stateRow (ss_plan_id row) ss = Some x \<and> r = upd x)"
proof -
  have ku: "keyed_update ss_plan_id upd" by (rule keyed_update.intro) (rule upd)
  show "stateRow (ss_plan_id row) ss' = Some r"
    "r = row \<or> (\<exists>x. stateRow (ss_plan_id row) ss = Some x \<and> r = upd x)"
    using assms(1)
    by (auto simp: upsert_state_def stateRow_def find_by_append keyed_update.find_update [OF ku]
        split: option.splits)
  show "stateRow q ss' = stateRow q ss" if "q \<noteq> ss_plan_id row"
    using assms(1) that
    by (auto simp: upsert_state_def stateRow_def find_by_append keyed_update.find_update [OF ku]
        split: option.splits)
qed

lemma writeScheduleError_Inr:
  assumes "writeScheduleError env plan now e ss = Inr (r, ss')"
  shows "stateRow (plan_id plan) ss' = Some r" "ss_last_error_code r = Some (errorFields e)"
  using assms upsert_state_row(1,3)
  by (fastforce simp: writeScheduleError_def Let_def split: if_splits)+

lemma writeScheduleError_total:
  "schedule_mode_of (plan_schedule plan) \<noteq> M_MANUAL \<Longrightarrow>
     \<exists>r ss'. writeScheduleError env plan now e ss = Inr (r, ss')"
  by (cases "snd (upsert_state undefined undefined ss)") (auto simp: writeScheduleError_def Let_def)

lemma initialize_state_row:
  assumes "initialize_state env plan now d ss = (r, ss')"
  shows "stateRow (plan_id plan) ss' = Some r" "ss_next_due_at r = Some d" "ss_last_error_code r = None"
    "ss_mode r = schedule_mode_of (plan_schedule plan)"
    "ss_fingerprint r = scheduleFingerprint env (plan_schedule plan)"
  using assms upsert_state_row(1,3) by (fastforce simp: initialize_state_def Let_def)+

text \<open>Reconciling leaves the row current, freshly initialized, or marked with an error.\<close>

lemma reconcileActivePlan_Inr:
  assumes "reconcileActivePlan zones env plan now ss = Inr ((r, initialized), ss')"
  obtains "stateRow (plan_id plan) ss = Some r" "state_current env plan r" "\<not> initialized" "ss' = ss"
  | d where "initial_due zones (plan_schedule plan) now = Inr d"
      "initialize_state env plan now d ss = (r, ss')" "initialized"
  | e where "initial_due zones (plan_schedule plan) now = Inl e"
      "writeScheduleError env plan now e ss = Inr (r, ss')"
  using assms
  by (auto simp: reconcileActivePlan_def Let_def and_then_Inr split: option.splits sum.splits if_splits prod.splits
      intro: that)

lemma reconcileActivePlan_row:
  assumes "reconcileActivePlan zones env plan now ss = Inr ((r, initialized), ss')"
  shows "stateRow (plan_id plan) ss' = Some r"
  using assms by (rule reconcileActivePlan_Inr) (auto dest: writeScheduleError_Inr initialize_state_row)

lemma reconcileActivePlan_total:
  assumes "plan_status plan = P_ACTIVE" "schedule_mode_of (plan_schedule plan) \<noteq> M_MANUAL"
  shows "\<exists>x ss'. reconcileActivePlan zones env plan now ss = Inr (x, ss')"
proof (cases "initial_due zones (plan_schedule plan) now")
  case (Inl e)
  obtain r ss' where "writeScheduleError env plan now e ss = Inr (r, ss')"
    using writeScheduleError_total [OF assms(2)] by blast
  with assms Inl show ?thesis by (auto simp: reconcileActivePlan_def Let_def split: option.splits)
next
  case (Inr d)
  with assms show ?thesis
    by (cases "initialize_state env plan now d ss")
      (auto simp: reconcileActivePlan_def Let_def split: option.splits)
qed

section \<open>Dispatching a slot\<close>

definition plan_in_flight :: "control_store \<Rightarrow> string \<Rightarrow> bool" where
  "plan_in_flight db planId \<longleftrightarrow>
     (\<exists>r\<in>set (collection_runs db). rr_plan_id r = planId \<and> rr_status r \<in> {R_PENDING, R_RUNNING})"

lemma inFlightRunForPlan_None: "inFlightRunForPlan db planId = Inr None \<longleftrightarrow> \<not> plan_in_flight db planId"
proof -
  let ?f = "sort_key (\<lambda>r. (run_requestedAt (rr_document r), rr_id r))
      (filter (\<lambda>r. rr_plan_id r = planId \<and> rr_status r \<in> {R_PENDING, R_RUNNING}) (collection_runs db))"
  have "set ?f = {} \<longleftrightarrow> \<not> plan_in_flight db planId" by (auto simp: plan_in_flight_def)
  moreover have "inFlightRunForPlan db planId = Inr None \<longleftrightarrow> rev ?f = []"
    by (auto simp: inFlightRunForPlan_def and_then_Inr split: list.splits)
  ultimately show ?thesis by (simp only: rev_is_Nil_conv set_empty)
qed

lemma existingScheduledRun_None:
  "existingScheduledRun db w p key = Inr None \<longleftrightarrow> run_by_key w key db = None"
  by (auto simp: existingScheduledRun_def and_then_Inr split: option.splits if_splits)

lemma existingScheduledRun_Some:
  "existingScheduledRun db w p key = Inr (Some d) \<Longrightarrow> sdr_replayed d \<and> \<not> sdr_coalesced d"
  by (auto simp: existingScheduledRun_def and_then_Inr split: option.splits if_splits)

lemma scheduled_body_Inr:
  assumes "scheduled_body plan key run job db = Inr (d, db')"
  obtains "db' = db" "sdr_replayed d \<or> sdr_coalesced d"
  | "insert_dispatch run job db = Inr db'" "\<not> plan_in_flight db (plan_id plan)"
    "run_by_key (plan_workspaceId plan) key db = None"
    "d = \<lparr> sdr_run = run, sdr_jobs = [job], sdr_replayed = False, sdr_coalesced = False \<rparr>"
proof -
  from assms obtain replay where replay: "existingScheduledRun db (plan_workspaceId plan) (plan_id plan) key = Inr replay"
    by (auto simp: scheduled_body_def and_then_Inr)
  show thesis
  proof (cases replay)
    case None
    with assms replay obtain active where active: "inFlightRunForPlan db (plan_id plan) = Inr active"
      by (auto simp: scheduled_body_def and_then_Inr)
    show thesis
    proof (cases active)
      case None': None
      with assms replay None active show thesis
        by (intro that(2)) (auto simp: scheduled_body_def and_then_Inr inFlightRunForPlan_None existingScheduledRun_None)
    next
      case (Some r)
      with assms replay None active show thesis
        by (intro that(1)) (auto simp: scheduled_body_def coalescedDispatch_def)
    qed
  next
    case (Some x)
    with assms replay that(1) existingScheduledRun_Some show thesis by (auto simp: scheduled_body_def)
  qed
qed

lemma scheduled_commit_cases:
  assumes "scheduled_commit plan key run job db = (res, db')"
  obtains "db' = db" "\<And>d. res = Inr d \<Longrightarrow> sdr_replayed d \<or> sdr_coalesced d"
  | "insert_dispatch run job db = Inr db'" "\<not> plan_in_flight db (plan_id plan)"
    "run_by_key (plan_workspaceId plan) key db = None"
    "res = Inr \<lparr> sdr_run = run, sdr_jobs = [job], sdr_replayed = False, sdr_coalesced = False \<rparr>"
proof (cases "scheduled_body plan key run job db")
  case (Inl e)
  with assms show ?thesis
    by (intro that(1))
      (auto simp: scheduled_commit_def and_then_Inr split: if_splits option.splits dest: existingScheduledRun_Some)
next
  case (Inr x)
  then obtain d db1 where body: "scheduled_body plan key run job db = Inr (d, db1)" by (cases x) auto
  with assms have "res = Inr d" "db1 = db'" by (auto simp: scheduled_commit_def)
  with scheduled_body_Inr [OF body] that show ?thesis by (metis sum.inject(2))
qed

text \<open>A dispatch of a slot changes nothing, or starts the run of that slot.\<close>

lemma dispatchScheduled_cases:
  assumes "dispatchScheduled fresh plan slot now db = (res, db')"
  obtains "db' = db" "\<And>d. res = Inr d \<Longrightarrow> sdr_replayed d \<or> sdr_coalesced d"
  | source connector jobType key slot_iso runId jobId run job where
    "scheduler_loadSource db (plan_sourceId plan) = Inr source"
    "scheduler_loadConnector db source = Inr connector"
    "validateScheduledDispatch plan source connector = Inr jobType"
    "scheduledSlotIdempotencyKey (plan_id plan) slot = Inr key" "toISOString slot = Inr slot_iso"
    "run = scheduled_run plan source connector key slot_iso runId (to_iso now)"
    "job = dispatched_job run jobType jobId (to_iso now)" "run_valid run" "job_valid job"
    "insert_dispatch run job db = Inr db'" "\<not> plan_in_flight db (plan_id plan)"
    "run_by_key (plan_workspaceId plan) key db = None"
    "res = Inr \<lparr> sdr_run = run, sdr_jobs = [job], sdr_replayed = False, sdr_coalesced = False \<rparr>"
proof -
  note cases_of = assms [unfolded dispatchScheduled_def Let_def]
  show thesis
  proof (cases "\<exists>key run job. scheduled_commit plan key run job db = (res, db')
      \<and> (\<exists>source connector jobType slot_iso runId jobId.
            scheduler_loadSource db (plan_sourceId plan) = Inr source
            \<and> scheduler_loadConnector db source = Inr connector
            \<and> validateScheduledDispatch plan source connector = Inr jobType
            \<and> scheduledSlotIdempotencyKey (plan_id plan) slot = Inr key \<and> toISOString slot = Inr slot_iso
            \<and> run = scheduled_run plan source connector key slot_iso runId (to_iso now)
            \<and> job = dispatched_job run jobType jobId (to_iso now) \<and> run_valid run \<and> job_valid job)")
    case True
    then obtain key run job where c: "scheduled_commit plan key run job db = (res, db')"
      and p: "\<exists>source connector jobType slot_iso runId jobId.
            scheduler_loadSource db (plan_sourceId plan) = Inr source
            \<and> scheduler_loadConnector db source = Inr connector
            \<and> validateScheduledDispatch plan source connector = Inr jobType
            \<and> scheduledSlotIdempotencyKey (plan_id plan) slot = Inr key \<and> toISOString slot = Inr slot_iso
            \<and> run = scheduled_run plan source connector key slot_iso runId (to_iso now)
            \<and> job = dispatched_job run jobType jobId (to_iso now) \<and> run_valid run \<and> job_valid job"
      by blast
    from c show thesis
      by (rule scheduled_commit_cases) (use p that in blast)+
  next
    case False
    with cases_of have "db' = db" "\<And>d. res = Inr d \<Longrightarrow> sdr_replayed d \<or> sdr_coalesced d"
      by (auto simp: and_then_Inr doc_simps coalescedDispatch_def dest!: existingScheduledRun_Some
          split: sum.splits option.splits if_splits prod.splits)
    then show thesis by (rule that(1))
  qed
qed

lemma scheduled_shape [simp]:
  "run_id (scheduled_run p s c k slot i t) = i" "run_status (scheduled_run p s c k slot i t) = R_PENDING"
  "run_planId (scheduled_run p s c k slot i t) = plan_id p"
  "run_workspaceId (scheduled_run p s c k slot i t) = plan_workspaceId p"
  "trigger_type (run_trigger (scheduled_run p s c k slot i t)) = T_SCHEDULED"
  "trigger_idempotencyKey (run_trigger (scheduled_run p s c k slot i t)) = Some k"
  by (simp_all add: scheduled_run_def)

text \<open>A slot dispatched again is a replay of its run, whoever asks and whenever.\<close>

lemma dispatchScheduled_replay:
  assumes ok: "store_ok db" "coordinated (view_of db)"
    and d: "dispatchScheduled fresh plan slot now db = (Inr d, db')"
    and new: "\<not> sdr_replayed d" "\<not> sdr_coalesced d"
  shows "dispatchScheduled fresh' plan slot now' db' = (Inr (d\<lparr>sdr_replayed := True\<rparr>), db')"
  using d
proof (rule dispatchScheduled_cases)
  assume "db' = db" "\<And>d'. Inr d = Inr d' \<Longrightarrow> sdr_replayed d' \<or> sdr_coalesced d'"
  with new show ?thesis by blast
next
  fix source connector jobType key slot_iso runId jobId run job
  assume p: "scheduler_loadSource db (plan_sourceId plan) = Inr source"
    "scheduler_loadConnector db source = Inr connector"
    "validateScheduledDispatch plan source connector = Inr jobType"
    "scheduledSlotIdempotencyKey (plan_id plan) slot = Inr key"
    and run: "run = scheduled_run plan source connector key slot_iso runId (to_iso now)"
    and job: "job = dispatched_job run jobType jobId (to_iso now)" and valid: "run_valid run" "job_valid job"
    and ins: "insert_dispatch run job db = Inr db'"
    and none: "run_by_key (plan_workspaceId plan) key db = None"
    and res: "(Inr d :: scheduled_dispatch result) = Inr \<lparr> sdr_run = run, sdr_jobs = [job], sdr_replayed = False, sdr_coalesced = False \<rparr>"
  note db' = insert_dispatch_Inr(1) [OF ins]
  have same: "scheduler_loadSource db' = scheduler_loadSource db" "scheduler_loadConnector db' = scheduler_loadConnector db"
    by (simp_all add: db' fun_eq_iff scheduler_loadSource_def scheduler_loadConnector_def connector_by_ref_def)
  have row: "run_by_key (plan_workspaceId plan) key db' = Some (run_row_of run)"
    using none by (simp add: db' run_by_key_snoc) (simp add: run_row_of_def run)
  have "jobsForRun db' (run_id run) = Inr [job]"
    unfolding db'
    by (rule jobs_of_new_run) (use job_runs_known [OF ok] insert_dispatch_Inr(2) [OF ins] valid job in auto)
  then have "existingScheduledRun db' (plan_workspaceId plan) (plan_id plan) key
      = Inr (Some \<lparr> sdr_run = run, sdr_jobs = [job], sdr_replayed = True, sdr_coalesced = False \<rparr>)"
    using row valid(1) by (simp add: existingScheduledRun_def run_row_of_def parseRun_def doc_simps) (simp add: run)
  with p same res show ?thesis by (simp add: dispatchScheduled_def Let_def)
qed

section \<open>The contract on the control store\<close>

lemma control_step_trans: "control_step db db1 \<Longrightarrow> control_step db1 db2 \<Longrightarrow> control_step db db2"
  unfolding control_step_def well_formed_def
  using spec_steps_coordinated [of "view_of db" "view_of db1"] rtranclp_trans [of spec_step "view_of db"] by blast

lemma insert_dispatch_controlled:
  assumes ins: "insert_dispatch run job db = Inr db'"
    and job: "job_runId job = run_id run" "job_attempt job = 1" "job_status job = J_PENDING"
    and run: "run_status run = R_PENDING"
  shows "control_step db db'"
  unfolding control_step_def
proof (intro impI conjI)
  assume wf: "well_formed db"
  then have ok: "store_ok db" "linked db" by (simp_all add: well_formed_def)
  show "store_ok db'" by (rule insert_dispatch_refines(1) [OF ok(1) ins job run])
  show "spec_step\<^sup>*\<^sup>* (view_of db) (view_of db')"
    by (rule r_into_rtranclp) (rule insert_dispatch_refines(2) [OF ok(1) ins job run])
  from ins obtain db1 where "insert_run run db = Inr db1" "insert_job job db1 = Inr db'"
    by (auto simp: insert_dispatch_def and_then_Inr)
  from linked_insert_job [OF this(2) same_links_linked [OF same_links_insert(1) [OF this(1)] ok(2)]]
  show "linked db'" .
qed

lemma dispatchScheduled_controlled:
  assumes "dispatchScheduled fresh plan slot now db = (res, db')"
  shows "control_step db db'"
  using assms
proof (rule dispatchScheduled_cases)
  fix source connector jobType key slot_iso runId jobId run job
  assume "run = scheduled_run plan source connector key slot_iso runId (to_iso now)"
    "job = dispatched_job run jobType jobId (to_iso now)" "insert_dispatch run job db = Inr db'"
  then show ?thesis by (intro insert_dispatch_controlled [of run job]) simp_all
qed simp

text \<open>What a tick does to the control store, plan by plan, is what its dispatches do.\<close>

lemma tick_dispatch_control:
  assumes "tick_dispatch zones env fresh now plan due sd = (res, sd')"
  obtains res' where
    "dispatchScheduled fresh plan (new_Date_text env due) now (sd_control sd) = (res', sd_control sd')"
    "\<And>d r. res = Inr (d, r) \<Longrightarrow> res' = Inr d"
  using assms by (auto simp: tick_dispatch_def split: prod.splits sum.splits if_splits)

definition count_outcome :: "tick_outcome \<Rightarrow> tick_result \<Rightarrow> tick_result" where
  "count_outcome outcome acc =
     (case outcome of
        O_ERROR \<Rightarrow> acc\<lparr>tr_errors := tr_errors acc + 1\<rparr>
      | O_DISPATCHED \<Rightarrow> acc\<lparr>tr_dispatched := tr_dispatched acc + 1\<rparr>
      | O_REPLAYED \<Rightarrow> acc\<lparr>tr_replayed := tr_replayed acc + 1\<rparr>
      | O_COALESCED \<Rightarrow> acc\<lparr>tr_coalesced := tr_coalesced acc + 1\<rparr>
      | _ \<Rightarrow> acc)"

text \<open>A text that names an instant after \<open>now\<close>, written by \<open>toISOString\<close> or read by \<open>new Date\<close>.\<close>

definition later_due :: "platform \<Rightarrow> int \<Rightarrow> string option \<Rightarrow> bool" where
  "later_due env now due \<longleftrightarrow> (\<exists>d t. due = Some d \<and> (d = to_iso t \<or> new_Date_text env d = Some t) \<and> now < t)"

text \<open>
  The ways through the body of the loop: it throws for a plan that is not an active automatic one;
  otherwise the plan waits, is served, or its failure is recorded.
\<close>

lemma tick_plan_cases:
  assumes "tick_plan zones env fresh now doc acc sd = (res, sd')"
  obtains (thrown) e where "res = Inl e" "sd' = sd"
      "\<not> plan_valid doc \<or> plan_status doc \<noteq> P_ACTIVE \<or> schedule_mode_of (plan_schedule doc) = M_MANUAL"
  | (waiting) item where "plan_valid doc" "sd_control sd' = sd_control sd"
      "res = Inr (push_item item (count_outcome (ti_outcome item) acc))" "ti_planId item = plan_id doc"
      "ti_outcome item = O_ERROR \<or> later_due env now (ti_nextDueAt item)"
  | (served) item state initialized ss due d advanced where "plan_valid doc"
      "reconcileActivePlan zones env doc now (sd_states sd) = Inr ((state, initialized), ss)"
      "ss_next_due_at state = Some due"
      "tick_dispatch zones env fresh now doc due (sd\<lparr>sd_states := ss\<rparr>) = (Inr (d, advanced), sd')"
      "res = Inr (push_item item (count_outcome (ti_outcome item) acc))" "ti_planId item = plan_id doc"
      "ti_nextDueAt item = ss_next_due_at advanced"
  | (failed) item ss due e sd2 ss' where "plan_valid doc"
      "tick_dispatch zones env fresh now doc due (sd\<lparr>sd_states := ss\<rparr>) = (Inl e, sd2)"
      "sd' = sd2\<lparr>sd_states := ss'\<rparr>"
      "res = Inr (push_item item (count_outcome (ti_outcome item) acc))" "ti_planId item = plan_id doc"
      "ti_outcome item = O_ERROR"
proof (cases "plan_valid doc \<and> plan_status doc = P_ACTIVE \<and> schedule_mode_of (plan_schedule doc) \<noteq> M_MANUAL")
  case False
  then obtain e where "and_then (parsePlan doc) (\<lambda>plan.
      and_then (reconcileActivePlan zones env plan now (sd_states sd)) (\<lambda>x. Inr (plan, x))) = Inl e"
    by (auto simp: parsePlan_def reconcileActivePlan_def doc_simps)
  with assms False show thesis
    by (intro thrown [of e]) (auto simp: tick_plan_def)
next
  case True
  then obtain state initialized ss where
    rec: "reconcileActivePlan zones env doc now (sd_states sd) = Inr ((state, initialized), ss)"
    using reconcileActivePlan_total [of doc] by (metis surj_pair)
  have parse: "parsePlan doc = Inr doc" using True by simp
  note body = assms [unfolded tick_plan_def Let_def parse and_then_simps rec sum.case prod.case]
  show thesis
  proof (cases "ss_next_due_at state")
    case None
    with body True show thesis
      by (intro waiting [of "last (tr_items (projr res))"]) (auto simp: count_outcome_def push_item_def)
  next
    case (Some due)
    show thesis
    proof (cases "due = [] \<or> (case new_Date_text env due of None \<Rightarrow> False | Some t \<Rightarrow> now < t)")
      case True
      with body Some \<open>plan_valid doc \<and> _\<close> show thesis
        by (intro waiting [of "last (tr_items (projr res))"])
          (auto simp: count_outcome_def push_item_def later_due_def split: list.splits option.splits if_splits)
    next
      case due: False
      obtain r sd2 where t: "tick_dispatch zones env fresh now doc due (sd\<lparr>sd_states := ss\<rparr>) = (r, sd2)" by fastforce
      show thesis
      proof (cases r)
        case (Inl e)
        obtain f ss' where w: "writeScheduleError env doc now e (sd_states sd2) = Inr (f, ss')"
          using True writeScheduleError_total [of doc] by blast
        from body due Some t [unfolded Inl] w True show thesis
          by (intro failed [of due ss e sd2 ss' "last (tr_items (projr res))"])
            (auto simp: count_outcome_def push_item_def neq_Nil_conv split: if_splits)
      next
        case (Inr x)
        then obtain d advanced where x: "r = Inr (d, advanced)" by (cases x) auto
        from body due Some t [unfolded x] rec True show thesis
          by (intro served [of state initialized ss due d advanced "last (tr_items (projr res))"])
            (auto simp: count_outcome_def push_item_def neq_Nil_conv split: if_splits)
      qed
    qed
  qed
qed

lemma tick_plan_control:
  assumes "tick_plan zones env fresh now doc acc sd = (res, sd')"
  shows "sd_control sd' = sd_control sd \<or>
    (\<exists>slot r. plan_valid doc \<and> dispatchScheduled fresh doc slot now (sd_control sd) = (r, sd_control sd'))"
  using assms by (rule tick_plan_cases) (auto elim: tick_dispatch_control)

lemma tick_loop_induct [consumes 2, case_names dispatch]:
  assumes "tick_loop zones env fresh now docs acc sd = (res, sd')" and "I (sd_control sd)"
    and step: "\<And>doc slot r db db'. doc \<in> set docs \<Longrightarrow> plan_valid doc \<Longrightarrow> I db \<Longrightarrow>
      dispatchScheduled fresh doc slot now db = (r, db') \<Longrightarrow> I db'"
  shows "I (sd_control sd')"
  using assms
proof (induction docs arbitrary: acc sd)
  case (Cons doc docs)
  obtain r1 sd1 where t: "tick_plan zones env fresh now doc acc sd = (r1, sd1)" by fastforce
  have I1: "I (sd_control sd1)"
    using tick_plan_control [OF t] Cons.prems(2,3) by (metis list.set_intros(1))
  show ?case
  proof (cases r1)
    case (Inl e)
    with Cons.prems(1) t I1 show ?thesis by auto
  next
    case (Inr acc')
    with Cons.prems(1) t have "tick_loop zones env fresh now docs acc' sd1 = (res, sd')" by simp
    from Cons.IH [OF this I1] Cons.prems(3) show ?thesis by (meson list.set_intros(2))
  qed
qed simp

lemma tick_loop_of:
  assumes "tick zones env fresh clock observedAt limit sd = (res, sd')"
  obtains "sd' = sd" "\<And>t. res \<noteq> Inr t"
  | now n acc where "normalizedTickLimit limit = Inr n"
      "(case observedAt of None \<Rightarrow> Some clock | Some d \<Rightarrow> d) = Some now"
      "acc = \<lparr> tr_observedAt = to_iso now, tr_examined = length (tick_rows now n sd), tr_dispatched = 0,
               tr_replayed = 0, tr_coalesced = 0, tr_errors = 0, tr_items = [] \<rparr>"
      "tick_loop zones env fresh now (tick_rows now n sd) acc sd = (res, sd')"
  using assms by (auto simp: tick_def Let_def split: option.splits sum.splits)

definition control_tick ::
    "time_zones \<Rightarrow> platform \<Rightarrow> (string \<Rightarrow> string \<times> string) \<Rightarrow> int \<Rightarrow> js_date option \<Rightarrow> rat option
      \<Rightarrow> schedule_row list \<Rightarrow> control_store \<Rightarrow> tick_result result \<times> control_store" where
  "control_tick zones env fresh clock observedAt limit ss db =
     (case tick zones env fresh clock observedAt limit \<lparr> sd_control = db, sd_states = ss \<rparr> of
        (res, sd') \<Rightarrow> (res, sd_control sd'))"

lemma tick_controlled:
  assumes "tick zones env fresh clock observedAt limit sd = (res, sd')"
  shows "control_step (sd_control sd) (sd_control sd')"
  using assms
proof (rule tick_loop_of)
  fix now n acc
  assume "tick_loop zones env fresh now (tick_rows now n sd) acc sd = (res, sd')"
  then show ?thesis
    by (rule tick_loop_induct [where I = "control_step (sd_control sd)"])
      (auto intro: control_step_trans dispatchScheduled_controlled)
qed simp

interpretation tick_ctl: control_operation "control_tick zones env fresh clock observedAt limit ss"
  for zones env fresh clock observedAt limit ss
proof unfold_locales
  fix db
  show "control_step db (snd (control_tick zones env fresh clock observedAt limit ss db))"
    using tick_controlled [of zones env fresh clock observedAt limit "\<lparr> sd_control = db, sd_states = ss \<rparr>"]
    by (auto simp: control_tick_def split: prod.splits)
qed

section \<open>What a tick reports\<close>

definition tally :: "tick_outcome \<Rightarrow> tick_result \<Rightarrow> nat" where
  "tally outcome acc = length (filter (\<lambda>i. ti_outcome i = outcome) (tr_items acc))"

definition balanced :: "tick_result \<Rightarrow> bool" where
  "balanced acc \<longleftrightarrow> tr_dispatched acc = tally O_DISPATCHED acc \<and> tr_replayed acc = tally O_REPLAYED acc
     \<and> tr_coalesced acc = tally O_COALESCED acc \<and> tr_errors acc = tally O_ERROR acc"

lemma count_outcome_frame [simp]:
  "tr_items (count_outcome c acc) = tr_items acc" "tr_examined (count_outcome c acc) = tr_examined acc"
  by (cases c; simp add: count_outcome_def)+

lemma balanced_push:
  "balanced acc \<Longrightarrow> balanced (push_item item (count_outcome (ti_outcome item) acc))"
  by (cases "ti_outcome item") (simp_all add: balanced_def tally_def push_item_def count_outcome_def)

lemma tick_plan_Inr:
  assumes "tick_plan zones env fresh now doc acc sd = (Inr acc', sd')"
  obtains item where "acc' = push_item item (count_outcome (ti_outcome item) acc)"
    "ti_planId item = plan_id doc"
  using assms by (rule tick_plan_cases) (blast, (metis that sum.inject(2))+)

lemma tick_loop_report:
  assumes "tick_loop zones env fresh now docs acc sd = (Inr acc', sd')" and "balanced acc"
  shows "balanced acc'" "tr_examined acc' = tr_examined acc"
    "map ti_planId (tr_items acc') = map ti_planId (tr_items acc) @ map plan_id docs"
  using assms
proof (induction docs arbitrary: acc sd)
  case (Cons doc docs)
  case 1
  then obtain acc1 sd1 where "tick_plan zones env fresh now doc acc sd = (Inr acc1, sd1)"
    "tick_loop zones env fresh now docs acc1 sd1 = (Inr acc', sd')"
    by (auto split: prod.splits sum.splits)
  with 1(2) Cons.IH(1) show ?case by (metis tick_plan_Inr balanced_push)
next
  case (Cons doc docs)
  case 2
  then obtain acc1 sd1 where t: "tick_plan zones env fresh now doc acc sd = (Inr acc1, sd1)"
    "tick_loop zones env fresh now docs acc1 sd1 = (Inr acc', sd')"
    by (auto split: prod.splits sum.splits)
  from t(1) obtain item where "acc1 = push_item item (count_outcome (ti_outcome item) acc)"
    by (rule tick_plan_Inr)
  with Cons.IH(2) [OF t(2)] balanced_push [OF 2(2)] show ?case by (simp add: push_item_def)
next
  case (Cons doc docs)
  case 3
  then obtain acc1 sd1 where t: "tick_plan zones env fresh now doc acc sd = (Inr acc1, sd1)"
    "tick_loop zones env fresh now docs acc1 sd1 = (Inr acc', sd')"
    by (auto split: prod.splits sum.splits)
  from t(1) obtain item where "acc1 = push_item item (count_outcome (ti_outcome item) acc)" "ti_planId item = plan_id doc"
    by (rule tick_plan_Inr)
  with Cons.IH(3) [OF t(2)] balanced_push [OF 3(2)] show ?case by (simp add: push_item_def)
qed simp_all

lemma tick_loop_total:
  assumes "\<And>doc. doc \<in> set docs \<Longrightarrow> plan_valid doc \<and> plan_status doc = P_ACTIVE
      \<and> schedule_mode_of (plan_schedule doc) \<noteq> M_MANUAL"
  shows "\<exists>acc' sd'. tick_loop zones env fresh now docs acc sd = (Inr acc', sd')"
  using assms
proof (induction docs arbitrary: acc sd)
  case (Cons doc docs)
  obtain r sd1 where t: "tick_plan zones env fresh now doc acc sd = (r, sd1)" by fastforce
  then obtain acc1 where "r = Inr acc1"
    by (rule tick_plan_cases) (use Cons.prems [of doc] in auto)
  with t Cons.IH [of acc1 sd1] Cons.prems show ?case by simp
qed simp

lemma tick_rows_shape:
  "set (tick_rows now n sd) \<subseteq> {p \<in> set (plan_documents (sd_control sd)). plan_status p = P_ACTIVE
      \<and> schedule_mode_of (plan_schedule p) \<noteq> M_MANUAL}"
  "length (tick_rows now n sd) \<le> nat n"
  by (auto simp: tick_rows_def dest: in_set_takeD)

section \<open>What a tick starts\<close>

definition only_starts_idle :: "control_store \<Rightarrow> control_store \<Rightarrow> bool" where
  "only_starts_idle db db' \<longleftrightarrow>
     (\<exists>news. collection_runs db' = collection_runs db @ news \<and> distinct (map rr_plan_id news)
        \<and> (\<forall>r\<in>set news. rr_trigger_type r = T_SCHEDULED \<and> rr_status r = R_PENDING
             \<and> \<not> plan_in_flight db (rr_plan_id r)))"

lemma dispatchScheduled_starts:
  assumes "dispatchScheduled fresh plan slot now db = (res, db')" and "only_starts_idle db0 db"
  shows "only_starts_idle db0 db'"
  using assms(1)
proof (rule dispatchScheduled_cases)
  fix source connector jobType key slot_iso runId jobId run job
  assume run: "run = scheduled_run plan source connector key slot_iso runId (to_iso now)"
    and ins: "insert_dispatch run job db = Inr db'" and idle: "\<not> plan_in_flight db (plan_id plan)"
  from assms(2) obtain news where news: "collection_runs db = collection_runs db0 @ news" "distinct (map rr_plan_id news)"
    "\<forall>r\<in>set news. rr_trigger_type r = T_SCHEDULED \<and> rr_status r = R_PENDING \<and> \<not> plan_in_flight db0 (rr_plan_id r)"
    by (auto simp: only_starts_idle_def)
  have "collection_runs db' = collection_runs db0 @ news @ [run_row_of run]"
    using insert_dispatch_Inr(1) [OF ins] news(1) by simp
  moreover have "plan_id plan \<notin> rr_plan_id ` set news" "\<not> plan_in_flight db0 (plan_id plan)"
    using idle news(1,3) by (auto simp: plan_in_flight_def)
  ultimately show ?thesis
    unfolding only_starts_idle_def using news(2,3)
    by (intro exI [of _ "news @ [run_row_of run]"]) (simp add: run_row_of_def run)
qed (use assms(2) in simp)

lemma tick_starts:
  assumes "tick zones env fresh clock observedAt limit sd = (res, sd')"
  shows "only_starts_idle (sd_control sd) (sd_control sd')"
  using assms
proof (rule tick_loop_of)
  fix now n acc
  assume "tick_loop zones env fresh now (tick_rows now n sd) acc sd = (res, sd')"
  then show ?thesis
    by (rule tick_loop_induct [where I = "only_starts_idle (sd_control sd)"])
      (auto simp: only_starts_idle_def [of "sd_control sd" "sd_control sd"] intro: dispatchScheduled_starts)
qed (simp add: only_starts_idle_def)

section \<open>Served plans are due later\<close>

lemma reconcile_fingerprint:
  assumes "reconcileActivePlan zones env plan now ss = Inr ((r, initialized), ss')"
  shows "ss_fingerprint r = scheduleFingerprint env (plan_schedule plan)"
  using assms
proof (rule reconcileActivePlan_Inr)
  fix e
  assume "writeScheduleError env plan now e ss = Inr (r, ss')"
  then show ?thesis
    using upsert_state_row(3) by (fastforce simp: writeScheduleError_def Let_def split: if_splits)
qed (auto simp: state_current_def dest: initialize_state_row)

lemma future_due_later:
  assumes "future_due zones env plan slot now = Inr d"
  shows "later_due env now (Some d)"
proof -
  from assms(1) obtain t where "nextFutureScheduledAt zones (plan_schedule plan) (new_Date_text env slot) now = Inr (Some (Some t))"
    "d = to_iso t"
    by (auto simp: future_due_def and_then_Inr toISOString_def split: option.splits)
  with nextFutureScheduledAt_future show ?thesis
    by (auto simp: later_due_def)
qed

lemma tick_dispatch_later:
  assumes "tick_dispatch zones env fresh now plan due sd = (Inr (d, advanced), sd')"
    and "stateRow (plan_id plan) (sd_states sd) = Some r" "ss_next_due_at r = Some due"
    and "ss_fingerprint r = scheduleFingerprint env (plan_schedule plan)"
  shows "later_due env now (ss_next_due_at advanced)"
  using assms(1-4) future_due_later 
  by (auto simp: tick_dispatch_def advanceState_def advanceCoalescedState_def move_state_def and_then_Inr
      split: prod.splits sum.splits if_splits)

lemma tick_plan_later:
  assumes "tick_plan zones env fresh now doc acc sd = (Inr acc', sd')"
    and "\<forall>i\<in>set (tr_items acc). ti_outcome i = O_ERROR \<or> later_due env now (ti_nextDueAt i)"
  shows "\<forall>i\<in>set (tr_items acc'). ti_outcome i = O_ERROR \<or> later_due env now (ti_nextDueAt i)"
  using assms(1)
proof (rule tick_plan_cases)
  fix item state initialized ss due d advanced
  assume r: "reconcileActivePlan zones env doc now (sd_states sd) = Inr ((state, initialized), ss)"
    "ss_next_due_at state = Some due"
    "tick_dispatch zones env fresh now doc due (sd\<lparr>sd_states := ss\<rparr>) = (Inr (d, advanced), sd')"
    "(Inr acc' :: tick_result result) = Inr (push_item item (count_outcome (ti_outcome item) acc))"
    "ti_nextDueAt item = ss_next_due_at advanced"
  have "later_due env now (ss_next_due_at advanced)"
    by (rule tick_dispatch_later [OF r(3) _ r(2)])
      (simp_all add: reconcileActivePlan_row [OF r(1)] reconcile_fingerprint [OF r(1)])
  with r(4,5) assms(2) show ?thesis by (simp add: push_item_def)
qed (use assms(2) in \<open>auto simp: push_item_def\<close>)

lemma tick_loop_later:
  assumes "tick_loop zones env fresh now docs acc sd = (Inr acc', sd')"
    and "\<forall>i\<in>set (tr_items acc). ti_outcome i = O_ERROR \<or> later_due env now (ti_nextDueAt i)"
  shows "\<forall>i\<in>set (tr_items acc'). ti_outcome i = O_ERROR \<or> later_due env now (ti_nextDueAt i)"
  using assms
proof (induction docs arbitrary: acc sd)
  case (Cons doc docs)
  then obtain acc1 sd1 where t: "tick_plan zones env fresh now doc acc sd = (Inr acc1, sd1)"
    "tick_loop zones env fresh now docs acc1 sd1 = (Inr acc', sd')"
    by (auto split: prod.splits sum.splits)
  show ?case by (rule Cons.IH [OF t(2) tick_plan_later [OF t(1) Cons.prems(2)]])
qed simp

section \<open>The key of a slot\<close>

lemma length_to_iso: "iso_instant t \<Longrightarrow> length (to_iso t) = 24"
  by (simp add: to_iso_def Let_def iso_text_def iso_instant_def del: digits.simps)

lemma to_iso_inj: "iso_instant t \<Longrightarrow> iso_instant u \<Longrightarrow> to_iso t = to_iso u \<Longrightarrow> t = u"
  using parse_to_iso by (metis option.inject)

lemma slot_key_text:
  assumes "scheduledSlotIdempotencyKey planId (Some t) = Inr key"
  shows "key = ''schedule:'' @ planId @ '':'' @ to_iso t" "length key \<le> 128"
  using assms by (auto simp: scheduledSlotIdempotencyKey_def toISOString_def Let_def split: if_splits)

end
