(* ===== verification/Source_Registry.thy ===== *)
theory Source_Registry
  imports Worker_Registry
begin

text \<open>
  \<open>packages/persistence/src/index.ts\<close>: the default workspace and connector a new registry starts
  with, and \<open>SqliteSourceRepository\<close>, which creates, reads, lists, updates and archives source
  definitions. A method is a function from the store (and the clock readings and fresh identifiers it
  consumes) to its result and the store after it. Inputs have the types the code declares; a key an
  update may set to \<open>null\<close> is a \<open>patch\<close>.
\<close>

section \<open>What a new registry holds\<close>

definition DEFAULT_CONNECTOR_REGISTERED_AT :: string where
  "DEFAULT_CONNECTOR_REGISTERED_AT = ''2026-07-15T18:30:00Z''"

definition DEFAULT_WORKSPACE :: json where
  "DEFAULT_WORKSPACE = JObj
     [(''schemaVersion'', JStr SCHEMA_V1_VERSION),
      (''objectType'', JStr ''WORKSPACE''),
      (''id'', JStr DEFAULT_WORKSPACE_id),
      (''slug'', JStr ''global-public''),
      (''name'', JStr ''Global Public Knowledge''),
      (''dataDomain'', JStr ''PUBLIC''),
      (''status'', JStr ''ACTIVE''),
      (''defaultLocale'', JStr ''zh-CN''),
      (''timezone'', JStr ''Asia/Shanghai''),
      (''syncPolicy'', JObj [(''mode'', JStr ''RAW''), (''allowPublicPromotion'', JBool True)]),
      (''retentionPolicy'', JObj [(''rawArtifactDays'', JNull), (''derivedDocumentDays'', JNum 3650)]),
      (''createdAt'', JStr ''2026-07-15T16:00:00Z''),
      (''updatedAt'', JStr ''2026-07-15T16:00:00Z''),
      (''extensions'', JObj [(''x-markorbit-purpose'', JStr ''public-source-registry'')])]"

definition DEFAULT_CONNECTOR_MANIFEST :: connector_manifest where
  "DEFAULT_CONNECTOR_MANIFEST =
     \<lparr> connector_connectorId = ''crawl4ai-web'',
       connector_displayName = ''Crawl4AI Web Connector'',
       connector_version = ''1.0.0'',
       connector_sourceTypes = [S_WEB],
       connector_runtime = ''PYTHON'',
       connector_capabilities =
         [TEST_CONNECTION, DISCOVER, PREVIEW, COLLECT, CHECK_UPDATE, DEEP_CRAWL,
          RENDER_JAVASCRIPT, FETCH_ATTACHMENTS],
       connector_supportedJobTypes = [WEB_DISCOVERY, WEB_CRAWL, PAGE_UPDATE_CHECK],
       connector_configurationSchema =
         [(''type'', JStr ''object''),
          (''properties'', JObj
             [(''renderJavascript'', JObj [(''type'', JStr ''boolean'')]),
              (''maxDepth'', JObj [(''type'', JStr ''integer''), (''minimum'', JNum 0)])])],
       connector_secretSchema = [(''type'', JStr ''object''), (''properties'', JObj [])],
       connector_outputArtifactKinds = [A_HTML, A_MARKDOWN, A_JSON],
       connector_healthMode = ''WORKER_PROBE'',
       connector_timeoutSeconds = 30,
       connector_status = C_ACTIVE,
       connector_extensions = Some [(''x-markorbit-default-provider'', JBool True)] \<rparr>"

text \<open>The row an INSERT of a manifest writes (\<open>manifestRow\<close> of the connector registry).\<close>

definition manifestRow :: "connector_manifest \<Rightarrow> string \<Rightarrow> string \<Rightarrow> connector_row" where
  "manifestRow m registeredAt updatedAt =
     \<lparr> kr_connector_id = connector_connectorId m, kr_version = connector_version m,
       kr_display_name = connector_displayName m, kr_runtime = connector_runtime m,
       kr_status = connector_status m, kr_source_types = connector_sourceTypes m,
       kr_capabilities = connector_capabilities m, kr_job_types = connector_supportedJobTypes m,
       kr_artifact_kinds = connector_outputArtifactKinds m, kr_document = m,
       kr_registered_at = registeredAt, kr_updated_at = updatedAt \<rparr>"

definition kr_key :: "connector_row \<Rightarrow> string \<times> string" where
  "kr_key r = (kr_connector_id r, kr_version r)"

text \<open>The two \<open>INSERT OR IGNORE\<close> statements of \<open>initializeRegistry\<close>.\<close>

definition initializeRegistry :: "control_store \<Rightarrow> control_store" where
  "initializeRegistry db =
     (let row = manifestRow DEFAULT_CONNECTOR_MANIFEST DEFAULT_CONNECTOR_REGISTERED_AT
                  DEFAULT_CONNECTOR_REGISTERED_AT
      in db\<lparr>workspaces := (if DEFAULT_WORKSPACE_id \<in> ws_id ` set (workspaces db) then workspaces db
               else workspaces db @ [\<lparr> ws_id = DEFAULT_WORKSPACE_id, ws_document = DEFAULT_WORKSPACE \<rparr>]),
             connectors := (if kr_key row \<in> kr_key ` set (connectors db) then connectors db
               else connectors db @ [row])\<rparr>)"

definition generateTypedId :: "string \<Rightarrow> int \<Rightarrow> int \<Rightarrow> string" where
  "generateTypedId prefix now randomValue =
     prefix @ ''_'' @ encodeBase32 now 10 @ encodeBase32 randomValue 16"

section \<open>Inputs\<close>

text \<open>A key that is absent, \<open>null\<close>, or set.\<close>

datatype 'a patch = Keep | Clear | Put 'a

fun patched :: "'a patch \<Rightarrow> 'a option \<Rightarrow> 'a option" where
  "patched Keep v = v"
| "patched Clear v = None"
| "patched (Put x) v = Some x"

record create_source_input =
  cs_workspaceId :: "string option"
  cs_name :: string
  cs_slug :: string
  cs_sourceType :: source_type
  cs_category :: string
  cs_authorityLevel :: string
  cs_status :: "source_status option"
  cs_jurisdictions :: "string list"
  cs_languages :: "string list"
  cs_connector :: connector_ref
  cs_connectorConfig :: "json_object option"
  cs_secretRef :: "string option"
  cs_canonicalUri :: "string option"
  cs_entrypoints :: "(string \<times> string option) list"
  cs_defaultCollectionPlanId :: "string option"
  cs_tags :: "string list option"
  cs_extensions :: "json_object option"

record update_source_input =
  us_name :: "string option"
  us_slug :: "string option"
  us_sourceType :: "source_type option"
  us_category :: "string option"
  us_authorityLevel :: "string option"
  us_status :: "source_status option"
  us_jurisdictions :: "string list option"
  us_languages :: "string list option"
  us_connector :: "connector_ref option"
  us_connectorConfig :: "json_object option"
  us_secretRef :: "string patch"
  us_canonicalUri :: "string patch"
  us_entrypoints :: "(string \<times> string option) list option"
  us_defaultCollectionPlanId :: "string patch"
  us_tags :: "string list option"
  us_extensions :: "json_object patch"

text \<open>The update \<open>{ status }\<close>, with no other key.\<close>

definition status_update :: "source_status \<Rightarrow> update_source_input" where
  "status_update s =
     \<lparr> us_name = None, us_slug = None, us_sourceType = None, us_category = None,
       us_authorityLevel = None, us_status = Some s, us_jurisdictions = None, us_languages = None,
       us_connector = None, us_connectorConfig = None, us_secretRef = Keep, us_canonicalUri = Keep,
       us_entrypoints = None, us_defaultCollectionPlanId = Keep, us_tags = None,
       us_extensions = Keep \<rparr>"

definition normalize_texts :: "string list \<Rightarrow> string list" where
  "normalize_texts xs = filter (\<lambda>s. s \<noteq> []) (map trim xs)"

text \<open>\<open>v ? { key: v.trim() } : {}\<close>.\<close>

definition trimmed_if_given :: "string option \<Rightarrow> string option" where
  "trimmed_if_given v = (case v of None \<Rightarrow> None | Some s \<Rightarrow> if s = [] then None else Some (trim s))"

definition normalize_entrypoint :: "string \<times> string option \<Rightarrow> string \<times> string option" where
  "normalize_entrypoint e = (trim (fst e), trimmed_if_given (snd e))"

definition normalize_ref :: "connector_ref \<Rightarrow> connector_ref" where
  "normalize_ref r = \<lparr> ref_connectorId = trim (ref_connectorId r), ref_version = trim (ref_version r) \<rparr>"

definition normalizeCreateInput ::
    "create_source_input \<Rightarrow> string \<Rightarrow> string \<Rightarrow> source_definition result" where
  "normalizeCreateInput inp i timestamp =
     (let source =
        \<lparr> source_id = i,
          source_workspaceId = given_or (cs_workspaceId inp) id DEFAULT_WORKSPACE_id,
          source_name = trim (cs_name inp),
          source_slug = toLowerCase (trim (cs_slug inp)),
          source_type = cs_sourceType inp,
          source_category = cs_category inp,
          source_authorityLevel = cs_authorityLevel inp,
          source_status = given_or (cs_status inp) id S_DRAFT,
          source_jurisdictions = normalize_texts (cs_jurisdictions inp),
          source_languages = normalize_texts (cs_languages inp),
          source_connector = normalize_ref (cs_connector inp),
          source_connectorConfig = given_or (cs_connectorConfig inp) id [],
          source_secretRef = trimmed_if_given (cs_secretRef inp),
          source_canonicalUri = trimmed_if_given (cs_canonicalUri inp),
          source_entrypoints = map normalize_entrypoint (cs_entrypoints inp),
          source_defaultCollectionPlanId = trimmed_if_given (cs_defaultCollectionPlanId inp),
          source_tags = normalize_texts (given_or (cs_tags inp) id []),
          source_createdAt = timestamp,
          source_updatedAt = timestamp,
          source_extensions = cs_extensions inp \<rparr>
      in if isSourceDefinition (source_json source) then Inr source
         else Inl RegistryValidationError)"

text \<open>
  \<open>{ ...source, ...input }\<close>: what is given replaces what was stored, then the texts of the result are
  normalized again, whether they were given or not. An input of the declared type \<open>UpdateSourceInput\<close>
  has no other keys; a caller that casts a request body to the type passes the keys of the body on, and
  the spread copies them (\<open>undeclared\<close>).
\<close>

definition updated_source :: "source_definition \<Rightarrow> update_source_input \<Rightarrow> string \<Rightarrow> source_definition" where
  "updated_source source inp timestamp =
     source\<lparr>
       source_name := trim (given_or (us_name inp) id (source_name source)),
       source_slug := toLowerCase (trim (given_or (us_slug inp) id (source_slug source))),
       source_type := given_or (us_sourceType inp) id (source_type source),
       source_category := given_or (us_category inp) id (source_category source),
       source_authorityLevel := given_or (us_authorityLevel inp) id (source_authorityLevel source),
       source_status := given_or (us_status inp) id (source_status source),
       source_jurisdictions :=
         normalize_texts (given_or (us_jurisdictions inp) id (source_jurisdictions source)),
       source_languages :=
         normalize_texts (given_or (us_languages inp) id (source_languages source)),
       source_connector := normalize_ref (given_or (us_connector inp) id (source_connector source)),
       source_connectorConfig :=
         given_or (us_connectorConfig inp) id (source_connectorConfig source),
       source_secretRef := patched (us_secretRef inp) (source_secretRef source),
       source_canonicalUri := patched (us_canonicalUri inp) (source_canonicalUri source),
       source_entrypoints :=
         map normalize_entrypoint (given_or (us_entrypoints inp) id (source_entrypoints source)),
       source_defaultCollectionPlanId :=
         patched (us_defaultCollectionPlanId inp) (source_defaultCollectionPlanId source),
       source_tags := normalize_texts (given_or (us_tags inp) id (source_tags source)),
       source_extensions := patched (us_extensions inp) (source_extensions source),
       source_updatedAt := timestamp \<rparr>"

definition applySourceUpdate ::
    "source_definition \<Rightarrow> update_source_input \<Rightarrow> string \<Rightarrow> source_definition result" where
  "applySourceUpdate source inp timestamp =
     (let next = updated_source source inp timestamp
      in if isSourceDefinition (source_json next) then Inr next else Inl RegistryValidationError)"

text \<open>An entry of the later object replaces the entry of its key or comes last.\<close>

fun spread :: "json_object \<Rightarrow> json_object \<Rightarrow> json_object" where
  "spread ob [] = ob"
| "spread ob ((k, v) # es) =
     spread (if k \<in> set (keys ob) then map (\<lambda>(k', v'). if k' = k then (k, v) else (k', v')) ob
             else ob @ [(k, v)]) es"

fun spread_over :: "json \<Rightarrow> json_object \<Rightarrow> json" where
  "spread_over (JObj ob) es = JObj (spread ob es)"
| "spread_over v _ = v"

definition applyRawSourceUpdate ::
    "source_definition \<Rightarrow> update_source_input \<Rightarrow> json_object \<Rightarrow> string \<Rightarrow> json result" where
  "applyRawSourceUpdate source inp undeclared timestamp =
     (let next = spread_over (source_json (updated_source source inp timestamp))
                   (filter (\<lambda>(k, _). k \<noteq> ''updatedAt'') undeclared)
      in if isSourceDefinition next then Inr next else Inl RegistryValidationError)"

section \<open>Checks against the registry\<close>

fun workspace_status :: "json \<Rightarrow> json option" where
  "workspace_status (JObj ob) = field ''status'' ob"
| "workspace_status _ = None"

definition assertWorkspaceActive :: "control_store \<Rightarrow> string \<Rightarrow> json result" where
  "assertWorkspaceActive db workspaceId =
     (case find_by ws_id (trim workspaceId) (workspaces db) of
        None \<Rightarrow> Inl (RegistryError (Registry WORKSPACE_NOT_FOUND))
      | Some r \<Rightarrow>
          if \<not> isWorkspace (ws_document r) then Inl RegistryValidationError
          else if workspace_status (ws_document r) \<noteq> Some (JStr ''ACTIVE'')
          then conflict (Registry WORKSPACE_NOT_ACTIVE)
          else Inr (ws_document r))"

definition connectorManifest :: "control_store \<Rightarrow> connector_ref \<Rightarrow> connector_manifest option result" where
  "connectorManifest db ref =
     (case connector_by_ref ref db of
        None \<Rightarrow> Inr None
      | Some r \<Rightarrow> and_then (parseConnector (kr_document r)) (\<lambda>m. Inr (Some m)))"

definition validateConnectorBinding ::
    "control_store \<Rightarrow> source_definition \<Rightarrow> bool \<Rightarrow> connector_manifest result" where
  "validateConnectorBinding db source requireActive =
     and_then (connectorManifest db (source_connector source)) (\<lambda>found.
       case found of
         None \<Rightarrow> conflict (Registry CONNECTOR_NOT_REGISTERED)
       | Some manifest \<Rightarrow>
           if source_type source \<notin> set (connector_sourceTypes manifest)
           then conflict (Registry CONNECTOR_SOURCE_TYPE_INCOMPATIBLE)
           else if requireActive \<and> connector_status manifest \<noteq> C_ACTIVE
           then conflict (Registry CONNECTOR_NOT_ACTIVE)
           else Inr manifest)"

definition CRAWL4AI_MAX_START_URLS :: nat where
  "CRAWL4AI_MAX_START_URLS = 500"

definition uniqueStartUrls :: "source_definition \<Rightarrow> string list" where
  "uniqueStartUrls source =
     unique_list (filter (\<lambda>u. u \<noteq> [])
       ((case source_canonicalUri source of None \<Rightarrow> [] | Some u \<Rightarrow> [u]) @ map fst (source_entrypoints source)))"

definition validateConnectorAcquisitionBoundary :: "source_definition \<Rightarrow> unit result" where
  "validateConnectorAcquisitionBoundary source =
     (if ref_connectorId (source_connector source) \<noteq> ''crawl4ai-web'' then Inr ()
      else if length (uniqueStartUrls source) \<le> CRAWL4AI_MAX_START_URLS then Inr ()
      else conflict (Registry CRAWL4AI_START_URL_BUDGET_EXCEEDED))"

section \<open>Statements\<close>

text \<open>\<open>catch (error) { if (isUnique...Error(error)) throw ... }\<close>: a violated UNIQUE constraint becomes a conflict.\<close>

definition conflict_on_unique :: "error_code \<Rightarrow> 'a result \<Rightarrow> 'a result" where
  "conflict_on_unique c m = (if m = Inl SqliteUniqueConstraint then conflict c else m)"

text \<open>\<open>UNIQUE (workspace_id, slug)\<close> against the rows of other sources.\<close>

definition slug_taken :: "source_definition \<Rightarrow> control_store \<Rightarrow> bool" where
  "slug_taken s db =
     list_ex (\<lambda>x. source_id x \<noteq> source_id s \<and> source_workspaceId x = source_workspaceId s
                  \<and> source_slug x = source_slug s) (sources db)"

definition insert_source :: "source_definition \<Rightarrow> control_store \<Rightarrow> control_store result" where
  "insert_source s db =
     (if source_id s \<in> source_id ` set (sources db) \<or> slug_taken s db then Inl SqliteUniqueConstraint
      else if source_workspaceId s \<notin> ws_id ` set (workspaces db) then Inl SqliteForeignKeyConstraint
      else Inr (db\<lparr>sources := sources db @ [s]\<rparr>))"

text \<open>\<open>UPDATE source_definitions SET ... WHERE id = ? AND updated_at = ?\<close>; \<open>None\<close> when no row matches.\<close>

definition update_source_if ::
    "string \<Rightarrow> string \<Rightarrow> source_definition \<Rightarrow> control_store \<Rightarrow> control_store option result" where
  "update_source_if i expected next db =
     (case find_by source_id i (sources db) of
        None \<Rightarrow> Inr None
      | Some s \<Rightarrow>
          if source_updatedAt s \<noteq> expected then Inr None
          else if slug_taken next db then Inl SqliteUniqueConstraint
          else Inr (Some (db\<lparr>sources := update_by source_id i (\<lambda>_. next) (sources db)\<rparr>)))"

text \<open>
  A method that writes with one statement leaves the database as it was when it throws, as a
  transaction of that one statement would.
\<close>

abbreviation one_statement :: "'db \<Rightarrow> ('a \<times> 'db) result \<Rightarrow> 'a result \<times> 'db" where
  "one_statement \<equiv> in_transaction"

section \<open>The repository\<close>

definition createSource ::
    "int \<Rightarrow> string \<Rightarrow> create_source_input \<Rightarrow> control_store
     \<Rightarrow> source_definition result \<times> control_store" where
  "createSource now i inp db =
     one_statement db
       (and_then (normalizeCreateInput inp i (to_iso now)) (\<lambda>source.
        and_then (assertWorkspaceActive db (source_workspaceId source)) (\<lambda>_.
        and_then (validateConnectorBinding db source True) (\<lambda>_.
        and_then (validateConnectorAcquisitionBoundary source) (\<lambda>_.
        and_then (conflict_on_unique (Registry SOURCE_SLUG_CONFLICT) (insert_source source db)) (\<lambda>db'.
          Inr (source, db')))))))"

definition getSourceById :: "control_store \<Rightarrow> string \<Rightarrow> source_definition option result" where
  "getSourceById db i =
     (case find_by source_id i (sources db) of
        None \<Rightarrow> Inr None
      | Some s \<Rightarrow> and_then (parseSource s) (\<lambda>s. Inr (Some s)))"

definition binding_changed :: "source_definition \<Rightarrow> source_definition \<Rightarrow> bool" where
  "binding_changed current next \<longleftrightarrow>
     source_type current \<noteq> source_type next \<or> source_connector current \<noteq> source_connector next"

definition activating :: "source_definition \<Rightarrow> source_definition \<Rightarrow> bool" where
  "activating current next \<longleftrightarrow> source_status current \<noteq> S_ACTIVE \<and> source_status next = S_ACTIVE"

definition write_source ::
    "string \<Rightarrow> string \<Rightarrow> source_definition \<Rightarrow> control_store
     \<Rightarrow> (source_definition \<times> control_store) result" where
  "write_source i expected next db =
     and_then (conflict_on_unique (Registry SOURCE_SLUG_CONFLICT)
                 (update_source_if i expected next db)) (\<lambda>changed.
       case changed of
         None \<Rightarrow> conflict (Registry SOURCE_VERSION_CONFLICT)
       | Some db' \<Rightarrow> Inr (next, db'))"

definition updateSource ::
    "int \<Rightarrow> string \<Rightarrow> update_source_input \<Rightarrow> string \<Rightarrow> control_store
     \<Rightarrow> source_definition result \<times> control_store" where
  "updateSource now i inp expected db =
     one_statement db
       (and_then (getSourceById db i) (\<lambda>found.
          case found of
            None \<Rightarrow> Inl RegistryNotFoundError
          | Some current \<Rightarrow>
              if source_updatedAt current \<noteq> expected
              then conflict (Registry SOURCE_VERSION_CONFLICT)
              else
                and_then (if inp = status_update S_ARCHIVED then Inr JNull
                          else assertWorkspaceActive db (source_workspaceId current)) (\<lambda>_.
                and_then (applySourceUpdate current inp (to_iso now)) (\<lambda>next.
                and_then (validateConnectorBinding db next
                            (binding_changed current next \<or> activating current next)) (\<lambda>_.
                and_then (validateConnectorAcquisitionBoundary next) (\<lambda>_.
                  write_source i expected next db))))))"

definition archiveSource ::
    "int \<Rightarrow> string \<Rightarrow> string \<Rightarrow> control_store \<Rightarrow> source_definition result \<times> control_store" where
  "archiveSource now i expected db = updateSource now i (status_update S_ARCHIVED) expected db"

section \<open>Listing\<close>

text \<open>Filters as the request gives them: texts, and the empty text filters nothing.\<close>

record source_filters =
  sf_q :: "string option"
  sf_workspaceId :: "string option"
  sf_sourceType :: "string option"
  sf_category :: "string option"
  sf_authorityLevel :: "string option"
  sf_status :: "string option"
  sf_jurisdiction :: "string option"
  sf_language :: "string option"
  sf_tag :: "string option"
  sf_connectorId :: "string option"
  sf_limit :: "rat option"
  sf_offset :: "rat option"

definition source_where :: "source_filters \<Rightarrow> bool \<Rightarrow> source_definition \<Rightarrow> bool" where
  "source_where f includeStatus s \<longleftrightarrow>
     given (map_option trim (sf_q f)) (\<lambda>q.
        sql_like (like_query q) (lower (source_name s))
        \<or> sql_like (like_query q) (lower (source_slug s))
        \<or> sql_like (like_query q) (lower (given_or (source_canonicalUri s) id [])))
     \<and> given (sf_workspaceId f) (\<lambda>w. source_workspaceId s = w)
     \<and> given (sf_sourceType f) (\<lambda>t. source_type_name (source_type s) = t)
     \<and> given (sf_category f) (\<lambda>c. source_category s = c)
     \<and> given (sf_authorityLevel f) (\<lambda>a. source_authorityLevel s = a)
     \<and> (includeStatus \<longrightarrow> given (sf_status f) (\<lambda>t. source_status_name (source_status s) = t))
     \<and> given (sf_connectorId f) (\<lambda>c. ref_connectorId (source_connector s) = c)
     \<and> given (sf_jurisdiction f) (\<lambda>j. j \<in> set (source_jurisdictions s))
     \<and> given (sf_language f) (\<lambda>l. l \<in> set (source_languages s))
     \<and> given (sf_tag f) (\<lambda>t. t \<in> set (source_tags s))"

record source_list =
  sl_items :: "source_definition list"
  sl_total :: nat
  sl_limit :: int
  sl_offset :: int
  sl_statuses :: "(source_status \<times> nat) list"
  sl_summary_total :: nat

definition all_source_statuses :: "source_status list" where
  "all_source_statuses = [S_DRAFT, S_ACTIVE, S_PAUSED, S_ERROR, S_ARCHIVED]"

definition listSources :: "source_filters \<Rightarrow> control_store \<Rightarrow> source_list result" where
  "listSources f db =
     and_then (normalizeLimit (sf_limit f)) (\<lambda>limit.
     and_then (normalizeOffset (sf_offset f)) (\<lambda>offset.
       let matching = filter (source_where f True) (sources db);
           page = take (nat limit) (drop (nat offset)
                    (rev (sort_key (\<lambda>s. (source_updatedAt s, source_id s)) matching)));
           statuses = count_by source_status all_source_statuses
                        (filter (source_where f False) (sources db))
       in and_then (map_result parseSource page) (\<lambda>items.
            Inr \<lparr> sl_items = items, sl_total = length matching, sl_limit = limit,
                  sl_offset = offset, sl_statuses = statuses,
                  sl_summary_total = sum_list (map snd statuses) \<rparr>)))"

definition assertSourceFilterValue :: "source_filters \<Rightarrow> unit result" where
  "assertSourceFilterValue f =
     (if \<not> given (sf_sourceType f) (\<lambda>t. t \<in> set SOURCE_TYPES) then Inl RegistryValidationError
      else if \<not> given (sf_category f) (\<lambda>c. c \<in> set SOURCE_CATEGORIES) then Inl RegistryValidationError
      else if \<not> given (sf_authorityLevel f) (\<lambda>a. a \<in> set AUTHORITY_LEVELS) then Inl RegistryValidationError
      else if \<not> given (sf_status f) (\<lambda>t. t \<in> set SOURCE_STATUSES) then Inl RegistryValidationError
      else Inr ())"

section \<open>Keys the declared type of an update does not have\<close>

text \<open>
  Without them the document is that of the typed update; with them the guard of Schema v1 accepts a
  source under another identifier and workspace, since it only checks their shape.
\<close>

lemma map_opt_entry:
  "k \<noteq> l \<Longrightarrow> map (\<lambda>(k', v'). if k' = k then (k, v) else (k', v')) (opt_entry l f x) = opt_entry l f x"
  by (cases x) auto

lemma raw_update_declared:
  "applyRawSourceUpdate s inp [] t = (case applySourceUpdate s inp t of Inl e \<Rightarrow> Inl e | Inr next \<Rightarrow> Inr (source_json next))"
proof -
  have "spread_over (source_json x) [] = source_json x" for x by (simp add: source_json_def)
  then show ?thesis by (simp add: applyRawSourceUpdate_def applySourceUpdate_def Let_def)
qed

lemma spread_source:
  "spread_over (source_json s) [(''id'', JStr i), (''workspaceId'', JStr w)] =
     source_json (s\<lparr>source_id := i, source_workspaceId := w\<rparr>)"
  by (simp add: source_json_def map_opt_entry keys_def)

lemma raw_update_moves:
  assumes "applySourceUpdate s inp t = Inr next" "is_typed_id ''src'' i" "is_typed_id ''wsp'' w"
  shows "applyRawSourceUpdate s inp [(''id'', JStr i), (''workspaceId'', JStr w)] t =
    Inr (source_json (next\<lparr>source_id := i, source_workspaceId := w\<rparr>))"
proof -
  have n: "next = updated_source s inp t" "source_valid next"
    using assms(1) by (auto simp: applySourceUpdate_def Let_def doc_simps split: if_splits)
  then have "source_valid (next\<lparr>source_id := i, source_workspaceId := w\<rparr>)"
    using assms(2,3) by (simp add: source_valid_def)
  then show ?thesis
    by (simp add: applyRawSourceUpdate_def Let_def n(1) [symmetric] spread_source doc_simps)
qed

end
