(* ===== verification/Connector_Registry.thy ===== *)
theory Connector_Registry
  imports Source_Registry
begin

text \<open>
  \<open>packages/persistence/src/connector-registry.ts\<close>: \<open>SqliteConnectorRepository\<close> registers versions
  of connector manifests, whose document is immutable except for its status, and reads them back with
  the number of sources bound to each.
\<close>

section \<open>Inputs\<close>

record create_connector_input =
  cc_connectorId :: string
  cc_displayName :: string
  cc_version :: string
  cc_sourceTypes :: "source_type list"
  cc_runtime :: string
  cc_capabilities :: "capability list"
  cc_supportedJobTypes :: "job_type list"
  cc_configurationSchema :: json_object
  cc_secretSchema :: json_object
  cc_outputArtifactKinds :: "artifact_kind list"
  cc_healthMode :: string
  cc_timeoutSeconds :: rat
  cc_status :: "connector_status option"
  cc_extensions :: "json_object option"
  cc_unknownKeys :: "string list"

text \<open>\<open>cc_unknownKeys\<close>: the keys of the input object outside the list the registry accepts.\<close>

definition normalizeManifest :: "create_connector_input \<Rightarrow> connector_manifest result" where
  "normalizeManifest inp =
     (if cc_unknownKeys inp \<noteq> [] then Inl RegistryValidationError
      else
        let manifest =
          \<lparr> connector_connectorId = toLowerCase (trim (cc_connectorId inp)),
            connector_displayName = trim (cc_displayName inp),
            connector_version = trim (cc_version inp),
            connector_sourceTypes = unique_list (cc_sourceTypes inp),
            connector_runtime = cc_runtime inp,
            connector_capabilities = unique_list (cc_capabilities inp),
            connector_supportedJobTypes = unique_list (cc_supportedJobTypes inp),
            connector_configurationSchema = cc_configurationSchema inp,
            connector_secretSchema = cc_secretSchema inp,
            connector_outputArtifactKinds = unique_list (cc_outputArtifactKinds inp),
            connector_healthMode = cc_healthMode inp,
            connector_timeoutSeconds = \<lfloor>cc_timeoutSeconds inp\<rfloor>,
            connector_status = given_or (cc_status inp) id C_ACTIVE,
            connector_extensions = cc_extensions inp \<rparr>
        in if isInteger (cc_timeoutSeconds inp) \<and> isConnectorManifest (connector_json manifest)
           then Inr manifest else Inl RegistryValidationError)"

section \<open>Records\<close>

record connector_record =
  cn_manifest :: connector_manifest
  cn_registeredAt :: string
  cn_updatedAt :: string
  cn_boundSourceCount :: nat

text \<open>The subquery of \<open>selectColumns\<close>: how many sources name the row's connector and version.\<close>

definition bound_source_count :: "connector_row \<Rightarrow> control_store \<Rightarrow> nat" where
  "bound_source_count r db =
     length (filter (\<lambda>s. ref_connectorId (source_connector s) = kr_connector_id r
                        \<and> ref_version (source_connector s) = kr_version r) (sources db))"

definition connector_recordFromRow :: "control_store \<Rightarrow> connector_row \<Rightarrow> connector_record result" where
  "connector_recordFromRow db r =
     and_then (parseConnector (kr_document r)) (\<lambda>m.
       Inr \<lparr> cn_manifest = m, cn_registeredAt = kr_registered_at r, cn_updatedAt = kr_updated_at r,
             cn_boundSourceCount = bound_source_count r db \<rparr>)"

definition connector_by_key :: "string \<times> string \<Rightarrow> control_store \<Rightarrow> connector_row option" where
  "connector_by_key k db = find_by kr_key k (connectors db)"

definition getConnector ::
    "control_store \<Rightarrow> string \<times> string \<Rightarrow> connector_record option result" where
  "getConnector db k =
     (case connector_by_key k db of
        None \<Rightarrow> Inr None
      | Some r \<Rightarrow> and_then (connector_recordFromRow db r) (\<lambda>c. Inr (Some c)))"

definition connectorNotFound :: registry_error where
  "connectorNotFound = RegistryError (General CONNECTOR_NOT_FOUND)"

definition reload_connector ::
    "control_store \<Rightarrow> string \<times> string \<Rightarrow> connector_record result" where
  "reload_connector db k =
     and_then (getConnector db k) (\<lambda>c. case c of None \<Rightarrow> Inl connectorNotFound | Some r \<Rightarrow> Inr r)"

section \<open>Writing\<close>

definition insert_connector :: "connector_row \<Rightarrow> control_store \<Rightarrow> control_store result" where
  "insert_connector r db =
     (if kr_key r \<in> kr_key ` set (connectors db) then Inl SqliteUniqueConstraint
      else Inr (db\<lparr>connectors := connectors db @ [r]\<rparr>))"

text \<open>The row is committed before it is read back, so an error of the reading does not undo it.\<close>

definition createConnector ::
    "int \<Rightarrow> create_connector_input \<Rightarrow> control_store \<Rightarrow> connector_record result \<times> control_store" where
  "createConnector now inp db =
     (case and_then (normalizeManifest inp) (\<lambda>m.
             and_then (conflict_on_unique (Registry CONNECTOR_VERSION_CONFLICT)
                         (insert_connector (manifestRow m (to_iso now) (to_iso now)) db)) (\<lambda>db'.
               Inr (m, db'))) of
        Inl e \<Rightarrow> (Inl e, db)
      | Inr (m, db') \<Rightarrow>
          (reload_connector db' (connector_connectorId m, connector_version m), db'))"

definition all_connector_statuses :: "connector_status list" where
  "all_connector_statuses = [C_ACTIVE, C_DEPRECATED, C_DISABLED]"

definition read_connector_status :: "string \<Rightarrow> connector_status option" where
  "read_connector_status t = find (\<lambda>s. connector_status_name s = t) all_connector_statuses"

text \<open>\<open>SET status = ?, document_json = ?, updated_at = ?\<close>.\<close>

definition write_connector_status ::
    "connector_status \<Rightarrow> connector_manifest \<Rightarrow> string \<Rightarrow> connector_row \<Rightarrow> connector_row" where
  "write_connector_status s next t r =
     r\<lparr>kr_status := s, kr_document := next, kr_updated_at := t\<rparr>"

definition updateConnectorStatus ::
    "int \<Rightarrow> string \<times> string \<Rightarrow> string \<Rightarrow> control_store
     \<Rightarrow> connector_record result \<times> control_store" where
  "updateConnectorStatus now k status_text db =
     (case read_connector_status status_text of
        None \<Rightarrow> (Inl RegistryValidationError, db)
      | Some status \<Rightarrow>
         (case reload_connector db k of
            Inl e \<Rightarrow> (Inl e, db)
          | Inr current \<Rightarrow>
              if connector_status (cn_manifest current) = status then (Inr current, db)
              else
                let next = (cn_manifest current)\<lparr>connector_status := status\<rparr> in
                if \<not> isConnectorManifest (connector_json next) then (Inl RegistryValidationError, db)
                else if connector_by_key k db = None then (Inl connectorNotFound, db)
                else
                  let db' = db\<lparr>connectors := update_by kr_key k
                                 (write_connector_status status next (to_iso now)) (connectors db)\<rparr>
                  in (reload_connector db' k, db')))"

section \<open>Listing\<close>

record connector_filters =
  kf_q :: "string option"
  kf_runtime :: "string option"
  kf_status :: "string option"
  kf_sourceType :: "string option"
  kf_capability :: "string option"
  kf_jobType :: "string option"
  kf_artifactKind :: "string option"
  kf_limit :: "rat option"
  kf_offset :: "rat option"

definition connector_where :: "connector_filters \<Rightarrow> bool \<Rightarrow> connector_row \<Rightarrow> bool" where
  "connector_where f includeStatus r \<longleftrightarrow>
     given (map_option trim (kf_q f)) (\<lambda>q.
        sql_like (like_query q) (lower (kr_connector_id r))
        \<or> sql_like (like_query q) (lower (kr_display_name r)))
     \<and> given (kf_runtime f) (\<lambda>t. kr_runtime r = t)
     \<and> (includeStatus \<longrightarrow> given (kf_status f) (\<lambda>t. connector_status_name (kr_status r) = t))
     \<and> given (kf_sourceType f) (\<lambda>t. t \<in> source_type_name ` set (kr_source_types r))
     \<and> given (kf_capability f) (\<lambda>t. t \<in> capability_name ` set (kr_capabilities r))
     \<and> given (kf_jobType f) (\<lambda>t. t \<in> job_type_name ` set (kr_job_types r))
     \<and> given (kf_artifactKind f) (\<lambda>t. t \<in> artifact_kind_name ` set (kr_artifact_kinds r))"

definition assertConnectorFilterValue :: "connector_filters \<Rightarrow> unit result" where
  "assertConnectorFilterValue f =
     (if \<not> given (kf_runtime f) (\<lambda>t. t \<in> set CONNECTOR_RUNTIMES) then Inl RegistryValidationError
      else if \<not> given (kf_status f) (\<lambda>t. t \<in> set CONNECTOR_STATUSES) then Inl RegistryValidationError
      else if \<not> given (kf_sourceType f) (\<lambda>t. t \<in> set SOURCE_TYPES) then Inl RegistryValidationError
      else if \<not> given (kf_capability f) (\<lambda>t. t \<in> set CONNECTOR_CAPABILITIES) then Inl RegistryValidationError
      else if \<not> given (kf_jobType f) (\<lambda>t. t \<in> set JOB_TYPES) then Inl RegistryValidationError
      else if \<not> given (kf_artifactKind f) (\<lambda>t. t \<in> set ARTIFACT_KINDS) then Inl RegistryValidationError
      else Inr ())"

record connector_list =
  kl_items :: "connector_record list"
  kl_total :: nat
  kl_limit :: int
  kl_offset :: int
  kl_statuses :: "(connector_status \<times> nat) list"
  kl_totalVersions :: nat
  kl_connectorIds :: nat

text \<open>\<open>ORDER BY connector_id ASC, registered_at DESC, version DESC\<close>: the sort is stable.\<close>

definition versions_newest_first :: "connector_row list \<Rightarrow> connector_row list" where
  "versions_newest_first rs = rev (sort_key (\<lambda>r. (kr_registered_at r, kr_version r)) rs)"

definition listConnectors :: "connector_filters \<Rightarrow> control_store \<Rightarrow> connector_list result" where
  "listConnectors f db =
     and_then (assertConnectorFilterValue f) (\<lambda>_.
     and_then (normalizeLimit (kf_limit f)) (\<lambda>limit.
     and_then (normalizeOffset (kf_offset f)) (\<lambda>offset.
       let matching = filter (connector_where f True) (connectors db);
           page = take (nat limit) (drop (nat offset)
                    (sort_key kr_connector_id (versions_newest_first matching)));
           summarised = filter (connector_where f False) (connectors db);
           statuses = count_by kr_status all_connector_statuses summarised
       in and_then (map_result (connector_recordFromRow db) page) (\<lambda>found.
            Inr \<lparr> kl_items = found, kl_total = length matching, kl_limit = limit, kl_offset = offset,
                  kl_statuses = statuses, kl_totalVersions = sum_list (map snd statuses),
                  kl_connectorIds = length (unique_list (map kr_connector_id summarised)) \<rparr>))))"

definition listVersions :: "string \<Rightarrow> control_store \<Rightarrow> connector_record list result" where
  "listVersions connectorId db =
     map_result (connector_recordFromRow db)
       (versions_newest_first (filter (\<lambda>r. kr_connector_id r = connectorId) (connectors db)))"

definition compatible :: "string \<Rightarrow> control_store \<Rightarrow> connector_record list result" where
  "compatible sourceType db =
     (if sourceType \<notin> set SOURCE_TYPES then Inl RegistryValidationError
      else and_then (listConnectors
             \<lparr> kf_q = None, kf_runtime = None, kf_status = Some ''ACTIVE'',
               kf_sourceType = Some sourceType, kf_capability = None, kf_jobType = None,
               kf_artifactKind = None, kf_limit = Some (of_int MAX_LIMIT), kf_offset = None \<rparr> db) (\<lambda>l.
             Inr (kl_items l)))"

end
