(* ===== verification/Plan_Registry.thy ===== *)
theory Plan_Registry
  imports Connector_Registry
begin

text \<open>
  \<open>packages/persistence/src/collection-plan-registry.ts\<close>: \<open>SqliteCollectionPlanRepository\<close> creates,
  reads, lists and updates collection plans, moves them between their statuses and chooses the default
  plan of a source. A plan is checked against its source and the connector the source is bound to
  whenever it is written (\<open>validateCompatibility\<close>).
\<close>

section \<open>Inputs\<close>

datatype schedule_input =
    ManualInput
  | IntervalInput rat
  | CronInput string string
  | ChangeWatchInput rat

record policy_input =
  pi_includePatterns :: "string list"
  pi_excludePatterns :: "string list"
  pi_maxDepth :: rat
  pi_maxItems :: rat
  pi_renderJavascript :: bool
  pi_fetchAttachments :: bool
  pi_respectRobots :: bool
  pi_rateLimitPerMinute :: rat
  pi_timeoutSeconds :: rat
  pi_maxAttempts :: rat
  pi_backoffSeconds :: rat
  pi_locale :: "string option"

record create_plan_input =
  cp_workspaceId :: "string option"
  cp_sourceId :: string
  cp_name :: string
  cp_status :: "plan_status option"
  cp_schedule :: schedule_input
  cp_priority :: priority
  cp_policy :: policy_input
  cp_output :: "artifact_kind list \<times> string option"
  cp_extensions :: "json_object option"

record update_plan_input =
  up_name :: "string option"
  up_schedule :: "schedule_input option"
  up_priority :: "priority option"
  up_policy :: "policy_input option"
  up_output :: "(artifact_kind list \<times> string option) option"
  up_extensions :: "json_object patch"

text \<open>
  The documents hold integers; a number that is none fails the guard at the end of the normalization,
  so the normalizations round and the guards ask for integers (\<open>schedule_integral\<close>, \<open>policy_integral\<close>).
\<close>

fun schedule_integral :: "schedule_input \<Rightarrow> bool" where
  "schedule_integral (IntervalInput n) = isInteger n"
| "schedule_integral (ChangeWatchInput n) = isInteger n"
| "schedule_integral _ = True"

fun normalizeSchedule :: "schedule_input \<Rightarrow> collection_schedule" where
  "normalizeSchedule ManualInput = ManualSchedule"
| "normalizeSchedule (IntervalInput n) = IntervalSchedule \<lfloor>n\<rfloor>"
| "normalizeSchedule (CronInput e z) = CronSchedule (trim e) (trim z)"
| "normalizeSchedule (ChangeWatchInput n) = ChangeWatchSchedule \<lfloor>n\<rfloor>"

definition policy_integral :: "policy_input \<Rightarrow> bool" where
  "policy_integral p \<longleftrightarrow>
     isInteger (pi_maxDepth p) \<and> isInteger (pi_maxItems p) \<and> isInteger (pi_rateLimitPerMinute p)
     \<and> isInteger (pi_timeoutSeconds p) \<and> isInteger (pi_maxAttempts p) \<and> isInteger (pi_backoffSeconds p)"

definition normalizePolicy :: "policy_input \<Rightarrow> collection_policy" where
  "normalizePolicy p =
     \<lparr> includePatterns = normalize_texts (pi_includePatterns p),
       excludePatterns = normalize_texts (pi_excludePatterns p),
       maxDepth = \<lfloor>pi_maxDepth p\<rfloor>,
       maxItems = \<lfloor>pi_maxItems p\<rfloor>,
       renderJavascript = pi_renderJavascript p,
       fetchAttachments = pi_fetchAttachments p,
       respectRobots = pi_respectRobots p,
       rateLimitPerMinute = \<lfloor>pi_rateLimitPerMinute p\<rfloor>,
       timeoutSeconds = \<lfloor>pi_timeoutSeconds p\<rfloor>,
       retry_maxAttempts = \<lfloor>pi_maxAttempts p\<rfloor>,
       retry_backoffSeconds = \<lfloor>pi_backoffSeconds p\<rfloor>,
       policy_locale = trimmed_if_given (pi_locale p) \<rparr>"

definition normalizePlan ::
    "create_plan_input \<Rightarrow> string \<Rightarrow> string \<Rightarrow> source_definition \<Rightarrow> collection_plan result" where
  "normalizePlan inp i timestamp source =
     (let plan =
        \<lparr> plan_id = i,
          plan_workspaceId = given_or (cp_workspaceId inp) id (source_workspaceId source),
          plan_sourceId = trim (cp_sourceId inp),
          plan_name = trim (cp_name inp),
          plan_status = given_or (cp_status inp) id P_PAUSED,
          plan_schedule = normalizeSchedule (cp_schedule inp),
          plan_priority = cp_priority inp,
          plan_policy = normalizePolicy (cp_policy inp),
          plan_artifactKinds = unique_list (fst (cp_output inp)),
          plan_conversionProfileId = trimmed_if_given (snd (cp_output inp)),
          plan_createdAt = timestamp,
          plan_updatedAt = timestamp,
          plan_extensions = cp_extensions inp \<rparr>
      in if \<not> (schedule_integral (cp_schedule inp) \<and> policy_integral (cp_policy inp)
              \<and> isCollectionPlan (plan_json plan)) then Inl RegistryValidationError
         else if plan_workspaceId plan \<noteq> source_workspaceId source then Inl RegistryValidationError
         else Inr plan)"

text \<open>
  The input has the keys of its declared type. The code spreads the whole input over the plan, so any
  other key of it would be copied too; the model leaves such keys out (for sources they are
  \<open>applyRawSourceUpdate\<close>).
\<close>

definition applyPlanUpdate ::
    "collection_plan \<Rightarrow> update_plan_input \<Rightarrow> string \<Rightarrow> collection_plan result" where
  "applyPlanUpdate current inp timestamp =
     (if plan_status current = P_ARCHIVED then conflict (Plan COLLECTION_PLAN_ARCHIVED)
      else
        let next =
          current\<lparr>
            plan_name := given_or (up_name inp) trim (plan_name current),
            plan_schedule := given_or (up_schedule inp) normalizeSchedule (plan_schedule current),
            plan_priority := given_or (up_priority inp) id (plan_priority current),
            plan_policy := given_or (up_policy inp) normalizePolicy (plan_policy current),
            plan_artifactKinds :=
              given_or (up_output inp) (\<lambda>out. unique_list (fst out)) (plan_artifactKinds current),
            plan_conversionProfileId :=
              given_or (up_output inp) (\<lambda>out. trimmed_if_given (snd out))
                (plan_conversionProfileId current),
            plan_extensions := patched (up_extensions inp) (plan_extensions current),
            plan_updatedAt := timestamp \<rparr>
        in if given_or (up_schedule inp) schedule_integral True
              \<and> given_or (up_policy inp) policy_integral True \<and> isCollectionPlan (plan_json next)
           then Inr next else Inl RegistryValidationError)"

section \<open>Compatibility of a plan with its source and connector\<close>

text \<open>The plan registry has its own error for a connector that is not registered.\<close>

definition plan_loadConnector :: "control_store \<Rightarrow> source_definition \<Rightarrow> connector_manifest result" where
  "plan_loadConnector db source =
     (case connector_by_ref (source_connector source) db of
        None \<Rightarrow> conflict (Plan COLLECTION_PLAN_CONNECTOR_MISSING)
      | Some r \<Rightarrow> parseConnector (kr_document r))"

definition plan_assertCapability :: "connector_manifest \<Rightarrow> capability \<Rightarrow> unit result" where
  "plan_assertCapability connector c =
     (if c \<notin> set (connector_capabilities connector)
      then conflict (Plan COLLECTION_PLAN_CAPABILITY_MISMATCH) else Inr ())"

definition crawl4AiChangeWatchStartUrls :: "source_definition \<Rightarrow> string list" where
  "crawl4AiChangeWatchStartUrls source =
     (let entrypoints = filter (\<lambda>u. u \<noteq> []) (unique_list (map fst (source_entrypoints source)))
      in if entrypoints \<noteq> [] then entrypoints
         else case source_canonicalUri source of
                None \<Rightarrow> []
              | Some u \<Rightarrow> if u = [] then [] else [u])"

definition validateCrawl4AiChangeWatch :: "collection_plan \<Rightarrow> source_definition \<Rightarrow> unit result" where
  "validateCrawl4AiChangeWatch plan source =
     (if ref_connectorId (source_connector source) \<noteq> ''crawl4ai-web''
         \<or> \<not> is_change_watch (plan_schedule plan) then Inr ()
      else if int (length (crawl4AiChangeWatchStartUrls source)) \<le> maxItems (plan_policy plan) then Inr ()
      else conflict (Plan COLLECTION_PLAN_CHANGE_WATCH_ENTRYPOINT_BUDGET_EXCEEDED))"

definition CRAWL4AI_MAX_DEPTH :: int where
  "CRAWL4AI_MAX_DEPTH = 5"

definition CRAWL4AI_MAX_ITEMS :: int where
  "CRAWL4AI_MAX_ITEMS = 500"

definition CRAWL4AI_MAX_RATE_LIMIT_PER_MINUTE :: int where
  "CRAWL4AI_MAX_RATE_LIMIT_PER_MINUTE = 600"

definition CRAWL4AI_MAX_TIMEOUT_SECONDS :: int where
  "CRAWL4AI_MAX_TIMEOUT_SECONDS = 300"

definition CRAWL4AI_MAX_PATTERNS_PER_LIST :: nat where
  "CRAWL4AI_MAX_PATTERNS_PER_LIST = 100"

definition CRAWL4AI_MAX_PATTERN_LENGTH :: nat where
  "CRAWL4AI_MAX_PATTERN_LENGTH = 500"

definition CRAWL4AI_MAX_LOCALE_LENGTH :: nat where
  "CRAWL4AI_MAX_LOCALE_LENGTH = 64"

text \<open>The violated bounds of the policy, by the field the report names.\<close>

definition crawl4ai_violations :: "collection_policy \<Rightarrow> string list" where
  "crawl4ai_violations p =
     (let longestPattern = foldl max 0 (map length (includePatterns p @ excludePatterns p))
      in (if maxDepth p > CRAWL4AI_MAX_DEPTH then [''maxDepth''] else [])
       @ (if maxItems p > CRAWL4AI_MAX_ITEMS then [''maxItems''] else [])
       @ (if rateLimitPerMinute p > CRAWL4AI_MAX_RATE_LIMIT_PER_MINUTE then [''rateLimitPerMinute''] else [])
       @ (if timeoutSeconds p > CRAWL4AI_MAX_TIMEOUT_SECONDS then [''timeoutSeconds''] else [])
       @ (if length (includePatterns p) > CRAWL4AI_MAX_PATTERNS_PER_LIST then [''includePatterns.length''] else [])
       @ (if length (excludePatterns p) > CRAWL4AI_MAX_PATTERNS_PER_LIST then [''excludePatterns.length''] else [])
       @ (if longestPattern > CRAWL4AI_MAX_PATTERN_LENGTH then [''pattern.length''] else [])
       @ (case policy_locale p of
            None \<Rightarrow> []
          | Some l \<Rightarrow> if length l > CRAWL4AI_MAX_LOCALE_LENGTH then [''locale.length''] else []))"

definition validateCrawl4AiPolicy :: "collection_plan \<Rightarrow> connector_manifest \<Rightarrow> unit result" where
  "validateCrawl4AiPolicy plan connector =
     (if connector_connectorId connector \<noteq> ''crawl4ai-web'' then Inr ()
      else if crawl4ai_violations (plan_policy plan) = [] then Inr ()
      else conflict (Plan COLLECTION_PLAN_CRAWL4AI_POLICY_MISMATCH))"

definition validateCompatibility ::
    "collection_plan \<Rightarrow> source_definition \<Rightarrow> connector_manifest \<Rightarrow> unit result" where
  "validateCompatibility plan source connector =
     and_then (validateCrawl4AiPolicy plan connector) (\<lambda>_.
     and_then (validateCrawl4AiChangeWatch plan source) (\<lambda>_.
       if source_type source \<notin> set (connector_sourceTypes connector)
       then conflict (Plan COLLECTION_PLAN_SOURCE_TYPE_MISMATCH)
       else if filter (\<lambda>k. k \<notin> set (connector_outputArtifactKinds connector)) (plan_artifactKinds plan) \<noteq> []
       then conflict (Plan COLLECTION_PLAN_OUTPUT_MISMATCH)
       else
         and_then (if renderJavascript (plan_policy plan)
                   then plan_assertCapability connector RENDER_JAVASCRIPT else Inr ()) (\<lambda>_.
         and_then (if fetchAttachments (plan_policy plan)
                   then plan_assertCapability connector FETCH_ATTACHMENTS else Inr ()) (\<lambda>_.
           if is_change_watch (plan_schedule plan) \<and> CHECK_UPDATE \<notin> set (connector_capabilities connector)
              \<and> WATCH \<notin> set (connector_capabilities connector)
           then conflict (Plan COLLECTION_PLAN_CHANGE_WATCH_UNSUPPORTED)
           else if plan_status plan = P_ACTIVE then
             if source_status source \<noteq> S_ACTIVE then conflict (Plan COLLECTION_PLAN_SOURCE_INACTIVE)
             else if connector_status connector \<noteq> C_ACTIVE
             then conflict (Plan COLLECTION_PLAN_CONNECTOR_INACTIVE)
             else plan_assertCapability connector COLLECT
           else Inr ()))))"

section \<open>Statements\<close>

definition planRow :: "collection_plan \<Rightarrow> string \<Rightarrow> plan_row" where
  "planRow plan connectorId = \<lparr> pl_connector_id = connectorId, pl_document = plan \<rparr>"

definition pl_id :: "plan_row \<Rightarrow> string" where
  "pl_id r = plan_id (pl_document r)"

text \<open>\<open>UNIQUE (source_id, name)\<close> against the rows of other plans.\<close>

definition name_taken :: "collection_plan \<Rightarrow> control_store \<Rightarrow> bool" where
  "name_taken p db =
     list_ex (\<lambda>x. plan_id x \<noteq> plan_id p \<and> plan_sourceId x = plan_sourceId p \<and> plan_name x = plan_name p)
       (plan_documents db)"

definition insert_plan :: "plan_row \<Rightarrow> control_store \<Rightarrow> control_store result" where
  "insert_plan r db =
     (if pl_id r \<in> pl_id ` set (plans db) \<or> name_taken (pl_document r) db then Inl SqliteUniqueConstraint
      else if plan_sourceId (pl_document r) \<notin> source_id ` set (sources db)
      then Inl SqliteForeignKeyConstraint
      else Inr (db\<lparr>plans := plans db @ [r]\<rparr>))"

text \<open>\<open>UPDATE collection_plans SET ... WHERE id = ? AND updated_at = ?\<close>; \<open>None\<close> when no row matches.\<close>

definition update_plan_if :: "string \<Rightarrow> plan_row \<Rightarrow> control_store \<Rightarrow> control_store option result" where
  "update_plan_if expected r db =
     (case find_by pl_id (pl_id r) (plans db) of
        None \<Rightarrow> Inr None
      | Some x \<Rightarrow>
          if plan_updatedAt (pl_document x) \<noteq> expected then Inr None
          else if name_taken (pl_document r) db then Inl SqliteUniqueConstraint
          else Inr (Some (db\<lparr>plans := update_by pl_id (pl_id r) (\<lambda>_. r) (plans db)\<rparr>)))"

definition writeUpdate ::
    "collection_plan \<Rightarrow> string \<Rightarrow> string \<Rightarrow> control_store \<Rightarrow> control_store result" where
  "writeUpdate plan expected connectorId db =
     and_then (conflict_on_unique (Plan COLLECTION_PLAN_NAME_CONFLICT)
                 (update_plan_if expected (planRow plan connectorId) db)) (\<lambda>changed.
       case changed of
         None \<Rightarrow> conflict (Plan COLLECTION_PLAN_VERSION_CONFLICT)
       | Some db' \<Rightarrow> Inr db')"

section \<open>Reading\<close>

text \<open>What a plan record shows of its source.\<close>

record plan_source =
  ps_id :: string
  ps_name :: string
  ps_slug :: string
  ps_status :: source_status
  ps_sourceType :: source_type
  ps_connector :: connector_ref

type_synonym plan_record = "collection_plan \<times> plan_source"

definition plan_recordFromRow :: "plan_row \<times> source_definition \<Rightarrow> plan_record result" where
  "plan_recordFromRow row =
     and_then (parsePlan (pl_document (fst row))) (\<lambda>plan.
     and_then (parseSource (snd row)) (\<lambda>source.
       Inr (plan, \<lparr> ps_id = source_id source, ps_name = source_name source,
                    ps_slug = source_slug source, ps_status = source_status source,
                    ps_sourceType = source_type source, ps_connector = source_connector source \<rparr>)))"

text \<open>\<open>JOIN source_definitions s ON s.id = p.source_id\<close>.\<close>

definition join_source :: "control_store \<Rightarrow> plan_row \<Rightarrow> (plan_row \<times> source_definition) list" where
  "join_source db r =
     (case find_by source_id (plan_sourceId (pl_document r)) (sources db) of
        None \<Rightarrow> []
      | Some s \<Rightarrow> [(r, s)])"

definition getPlanById :: "control_store \<Rightarrow> string \<Rightarrow> plan_record option result" where
  "getPlanById db i =
     (case find_by pl_id i (plans db) of
        None \<Rightarrow> Inr None
      | Some r \<Rightarrow>
          (case join_source db r of
             [] \<Rightarrow> Inr None
           | row # _ \<Rightarrow> and_then (plan_recordFromRow row) (\<lambda>p. Inr (Some p))))"

section \<open>Creating and updating\<close>

definition createPlan ::
    "int \<Rightarrow> string \<Rightarrow> create_plan_input \<Rightarrow> control_store
     \<Rightarrow> plan_record option result \<times> control_store" where
  "createPlan now i inp db =
     (case and_then (loadSource db (cp_sourceId inp)) (\<lambda>source.
           and_then (plan_loadConnector db source) (\<lambda>connector.
           and_then (normalizePlan inp i (to_iso now) source) (\<lambda>plan.
           and_then (validateCompatibility plan source connector) (\<lambda>_.
           and_then (conflict_on_unique (Plan COLLECTION_PLAN_NAME_CONFLICT)
                       (insert_plan (planRow plan (connector_connectorId connector)) db)) (\<lambda>db'.
             Inr (plan, db')))))) of
        Inl e \<Rightarrow> (Inl e, db)
      | Inr (plan, db') \<Rightarrow> (getPlanById db' (plan_id plan), db'))"

text \<open>Loading the current plan under the caller's version token.\<close>

definition expected_plan :: "control_store \<Rightarrow> string \<Rightarrow> string \<Rightarrow> collection_plan result" where
  "expected_plan db i expected =
     and_then (getPlanById db i) (\<lambda>found.
       case found of
         None \<Rightarrow> Inl (RegistryError (General COLLECTION_PLAN_NOT_FOUND))
       | Some (current, _) \<Rightarrow>
           if plan_updatedAt current \<noteq> expected then conflict (Plan COLLECTION_PLAN_VERSION_CONFLICT)
           else Inr current)"

text \<open>The checks and the write every change of a plan ends with.\<close>

definition write_checked ::
    "(collection_plan \<Rightarrow> collection_plan result) \<Rightarrow> string \<Rightarrow> collection_plan \<Rightarrow> control_store
     \<Rightarrow> (collection_plan \<times> control_store) result" where
  "write_checked change expected current db =
     and_then (loadSource db (plan_sourceId current)) (\<lambda>source.
     and_then (plan_loadConnector db source) (\<lambda>connector.
     and_then (change current) (\<lambda>next.
     and_then (validateCompatibility next source connector) (\<lambda>_.
     and_then (writeUpdate next expected (connector_connectorId connector) db) (\<lambda>db'.
       Inr (next, db'))))))"

definition updatePlan ::
    "int \<Rightarrow> string \<Rightarrow> update_plan_input \<Rightarrow> string \<Rightarrow> control_store
     \<Rightarrow> plan_record option result \<times> control_store" where
  "updatePlan now i inp expected db =
     (case and_then (expected_plan db i expected) (\<lambda>current.
             write_checked (\<lambda>p. applyPlanUpdate p inp (to_iso now)) expected current db) of
        Inl e \<Rightarrow> (Inl e, db)
      | Inr (_, db') \<Rightarrow> (getPlanById db' i, db'))"

text \<open>\<open>UPDATE source_definitions SET document_json = ?, updated_at = ? WHERE id = ?\<close>.\<close>

definition clearDefaultPlanIfNeeded ::
    "int \<Rightarrow> collection_plan \<Rightarrow> control_store \<Rightarrow> control_store result" where
  "clearDefaultPlanIfNeeded now plan db =
     and_then (loadSource db (plan_sourceId plan)) (\<lambda>source.
       if source_defaultCollectionPlanId source \<noteq> Some (plan_id plan) then Inr db
       else
         let next = source\<lparr>source_updatedAt := to_iso now, source_defaultCollectionPlanId := None\<rparr>
         in if \<not> isSourceDefinition (source_json next) then Inl RegistryValidationError
            else Inr (db\<lparr>sources := update_by source_id (source_id source) (\<lambda>_. next) (sources db)\<rparr>))"

definition all_plan_statuses :: "plan_status list" where
  "all_plan_statuses = [P_ACTIVE, P_PAUSED, P_ARCHIVED]"

definition read_plan_status :: "string \<Rightarrow> plan_status option" where
  "read_plan_status t = find (\<lambda>s. plan_status_name s = t) all_plan_statuses"

definition checked_status ::
    "int \<Rightarrow> string \<Rightarrow> string \<Rightarrow> string \<Rightarrow> control_store
     \<Rightarrow> (collection_plan \<times> control_store) result" where
  "checked_status now i status_text expected db =
     (case read_plan_status status_text of
        None \<Rightarrow> Inl RegistryValidationError
      | Some status \<Rightarrow>
          and_then (expected_plan db i expected) (\<lambda>current.
            if plan_status current = P_ARCHIVED \<and> status \<noteq> P_ARCHIVED
            then conflict (Plan COLLECTION_PLAN_ARCHIVED)
            else write_checked
                   (\<lambda>p. Inr (p\<lparr>plan_status := status, plan_updatedAt := to_iso now\<rparr>)) expected current db))"

text \<open>
  The plan is written first; the default of its source is cleared by a second statement, in no
  transaction with the first (\<open>now'\<close> is the clock reading of that statement).
\<close>

definition updatePlanStatus ::
    "int \<Rightarrow> int \<Rightarrow> string \<Rightarrow> string \<Rightarrow> string \<Rightarrow> control_store
     \<Rightarrow> plan_record option result \<times> control_store" where
  "updatePlanStatus now now' i status_text expected db =
     (case checked_status now i status_text expected db of
        Inl e \<Rightarrow> (Inl e, db)
      | Inr (next, db1) \<Rightarrow>
          if plan_status next = P_ARCHIVED then
            (case clearDefaultPlanIfNeeded now' next db1 of
               Inl e \<Rightarrow> (Inl e, db1)
             | Inr db2 \<Rightarrow> (getPlanById db2 i, db2))
          else (getPlanById db1 i, db1))"

section \<open>The default plan of a source\<close>

definition check_default :: "control_store \<Rightarrow> string \<Rightarrow> string \<Rightarrow> unit result" where
  "check_default db sourceId planId =
     and_then (getPlanById db planId) (\<lambda>found.
       case found of
         None \<Rightarrow> Inl (RegistryError (General COLLECTION_PLAN_NOT_FOUND))
       | Some (plan, _) \<Rightarrow>
           if plan_sourceId plan \<noteq> sourceId then conflict (Plan SOURCE_DEFAULT_PLAN_MISMATCH)
           else if plan_status plan = P_ARCHIVED then conflict (Plan SOURCE_DEFAULT_PLAN_ARCHIVED)
           else Inr ())"

text \<open>The empty text unsets the default, as \<open>null\<close> does.\<close>

definition chosen_plan :: "string option \<Rightarrow> string option" where
  "chosen_plan planId = (if planId = Some [] then None else planId)"

definition setSourceDefaultPlan ::
    "int \<Rightarrow> string \<Rightarrow> string option \<Rightarrow> string \<Rightarrow> control_store
     \<Rightarrow> source_definition result \<times> control_store" where
  "setSourceDefaultPlan now sourceId planId expected db =
     one_statement db
       (and_then (loadSource db sourceId) (\<lambda>source.
          if source_updatedAt source \<noteq> expected then conflict (Registry SOURCE_VERSION_CONFLICT)
          else
            and_then (case chosen_plan planId of None \<Rightarrow> Inr () | Some p \<Rightarrow> check_default db sourceId p) (\<lambda>_.
              let next = source\<lparr>source_updatedAt := to_iso now,
                               source_defaultCollectionPlanId := chosen_plan planId\<rparr>
              in if \<not> isSourceDefinition (source_json next) then Inl RegistryValidationError
                 else
                   case find_by source_id sourceId (sources db) of
                     None \<Rightarrow> conflict (Registry SOURCE_VERSION_CONFLICT)
                   | Some s \<Rightarrow>
                       if source_updatedAt s \<noteq> expected then conflict (Registry SOURCE_VERSION_CONFLICT)
                       else Inr (next,
                              db\<lparr>sources := update_by source_id sourceId (\<lambda>_. next) (sources db)\<rparr>))))"

section \<open>Listing\<close>

record plan_filters =
  pf_q :: "string option"
  pf_workspaceId :: "string option"
  pf_sourceId :: "string option"
  pf_status :: "string option"
  pf_scheduleMode :: "string option"
  pf_priority :: "string option"
  pf_connectorId :: "string option"
  pf_artifactKind :: "string option"
  pf_limit :: "rat option"
  pf_offset :: "rat option"

fun schedule_mode_text :: "collection_schedule \<Rightarrow> string" where
  "schedule_mode_text ManualSchedule = ''MANUAL''"
| "schedule_mode_text (IntervalSchedule _) = ''INTERVAL''"
| "schedule_mode_text (CronSchedule _ _) = ''CRON''"
| "schedule_mode_text (ChangeWatchSchedule _) = ''CHANGE_WATCH''"

definition SCHEDULE_MODES :: "string list" where
  "SCHEDULE_MODES = [''MANUAL'', ''INTERVAL'', ''CRON'', ''CHANGE_WATCH'']"

definition plan_where :: "plan_filters \<Rightarrow> bool \<Rightarrow> plan_row \<times> source_definition \<Rightarrow> bool" where
  "plan_where f includeStatus row \<longleftrightarrow>
     (let p = pl_document (fst row); s = snd row in
     given (map_option trim (pf_q f)) (\<lambda>q.
        sql_like (like_query q) (lower (plan_name p))
        \<or> sql_like (like_query q) (lower (source_name s))
        \<or> sql_like (like_query q) (lower (source_slug s)))
     \<and> given (pf_workspaceId f) (\<lambda>w. plan_workspaceId p = w)
     \<and> given (pf_sourceId f) (\<lambda>i. plan_sourceId p = i)
     \<and> (includeStatus \<longrightarrow> given (pf_status f) (\<lambda>t. plan_status_name (plan_status p) = t))
     \<and> given (pf_scheduleMode f) (\<lambda>t. schedule_mode_text (plan_schedule p) = t)
     \<and> given (pf_priority f) (\<lambda>t. priority_name (plan_priority p) = t)
     \<and> given (pf_connectorId f) (\<lambda>c. pl_connector_id (fst row) = c)
     \<and> given (pf_artifactKind f) (\<lambda>t. t \<in> artifact_kind_name ` set (plan_artifactKinds p)))"

definition assertCollectionPlanFilterValues :: "plan_filters \<Rightarrow> unit result" where
  "assertCollectionPlanFilterValues f =
     (if \<not> given (pf_status f) (\<lambda>t. t \<in> set COLLECTION_PLAN_STATUSES) then Inl RegistryValidationError
      else if \<not> given (pf_scheduleMode f) (\<lambda>t. t \<in> set SCHEDULE_MODES) then Inl RegistryValidationError
      else if \<not> given (pf_priority f) (\<lambda>t. t \<in> set COLLECTION_PRIORITIES) then Inl RegistryValidationError
      else if \<not> given (pf_artifactKind f) (\<lambda>t. t \<in> set ARTIFACT_KINDS) then Inl RegistryValidationError
      else Inr ())"

record plan_list =
  pg_items :: "plan_record list"
  pg_total :: nat
  pg_limit :: int
  pg_offset :: int
  pg_summary_total :: nat
  pg_statuses :: "(plan_status \<times> nat) list"
  pg_scheduleModes :: "(string \<times> nat) list"

definition joined_plans :: "control_store \<Rightarrow> (plan_row \<times> source_definition) list" where
  "joined_plans db = concat (map (join_source db) (plans db))"

definition listPlans :: "plan_filters \<Rightarrow> control_store \<Rightarrow> plan_list result" where
  "listPlans f db =
     and_then (assertCollectionPlanFilterValues f) (\<lambda>_.
     and_then (normalizeLimit (pf_limit f)) (\<lambda>limit.
     and_then (normalizeOffset (pf_offset f)) (\<lambda>offset.
       let matching = filter (plan_where f True) (joined_plans db);
           page = take (nat limit) (drop (nat offset) (rev
                    (sort_key (\<lambda>row. (plan_updatedAt (pl_document (fst row)), pl_id (fst row))) matching)));
           summarised = filter (plan_where f False) (joined_plans db);
           statuses = count_by (\<lambda>row. plan_status (pl_document (fst row))) all_plan_statuses summarised;
           modes = count_by (\<lambda>row. schedule_mode_text (plan_schedule (pl_document (fst row))))
                     SCHEDULE_MODES summarised
       in and_then (map_result plan_recordFromRow page) (\<lambda>found.
            Inr \<lparr> pg_items = found, pg_total = length matching, pg_limit = limit, pg_offset = offset,
                  pg_summary_total = sum_list (map snd statuses), pg_statuses = statuses,
                  pg_scheduleModes = modes \<rparr>))))"

definition listPlansForSource :: "string \<Rightarrow> control_store \<Rightarrow> plan_record list result" where
  "listPlansForSource sourceId db =
     and_then (loadSource db sourceId) (\<lambda>_.
     and_then (listPlans
       \<lparr> pf_q = None, pf_workspaceId = None, pf_sourceId = Some sourceId, pf_status = None,
         pf_scheduleMode = None, pf_priority = None, pf_connectorId = None, pf_artifactKind = None,
         pf_limit = Some (of_int MAX_LIMIT), pf_offset = None \<rparr> db) (\<lambda>l. Inr (pg_items l)))"

end
