(* ===== verification/Registry_Protocol.thy ===== *)
theory Registry_Protocol
  imports Plan_Registry Store_Links
begin

text \<open>
  What the registries promise of the catalogue (workspaces, sources, connectors and plans). The
  locale \<open>catalogue_operation\<close> is their contract: a method keeps the catalogue consistent and lets it
  only evolve (no row is lost, a manifest changes in nothing but its status, an archived plan in
  nothing but its time stamp). The methods of the other components leave the catalogue alone.
\<close>

section \<open>The consistent catalogue\<close>

definition coherent_connector :: "connector_row \<Rightarrow> bool" where
  "coherent_connector r \<longleftrightarrow>
     connector_valid (kr_document r)
     \<and> r = manifestRow (kr_document r) (kr_registered_at r) (kr_updated_at r)"

definition bound_source :: "control_store \<Rightarrow> source_definition \<Rightarrow> bool" where
  "bound_source db s \<longleftrightarrow>
     source_valid s \<and> source_workspaceId s \<in> ws_id ` set (workspaces db)
     \<and> (\<exists>r\<in>set (connectors db).
          kr_key r = (ref_connectorId (source_connector s), ref_version (source_connector s))
          \<and> source_type s \<in> set (connector_sourceTypes (kr_document r)))"

text \<open>
  A stored plan satisfies Schema v1. There is one exception: \<open>updateStatus\<close> stamps a plan with the
  clock without checking it again, so a clock outside the years 0000 to 9999 leaves an expanded year in
  \<open>updatedAt\<close>, which the guard refuses.
\<close>

definition plan_content_valid :: "collection_plan \<Rightarrow> bool" where
  "plan_content_valid p \<longleftrightarrow> plan_valid p
     \<or> plan_valid (p\<lparr>plan_updatedAt := plan_createdAt p\<rparr>) \<and> (\<exists>now. \<not> iso_instant now \<and> plan_updatedAt p = to_iso now)"

definition placed_plan :: "control_store \<Rightarrow> collection_plan \<Rightarrow> bool" where
  "placed_plan db p \<longleftrightarrow>
     plan_content_valid p
     \<and> (\<exists>s\<in>set (sources db). source_id s = plan_sourceId p \<and> source_workspaceId s = plan_workspaceId p)"

definition slug_key :: "source_definition \<Rightarrow> string \<times> string" where
  "slug_key s = (source_workspaceId s, source_slug s)"

definition name_key :: "plan_row \<Rightarrow> string \<times> string" where
  "name_key r = (plan_sourceId (pl_document r), plan_name (pl_document r))"

definition catalogue_ok :: "control_store \<Rightarrow> bool" where
  "catalogue_ok db \<longleftrightarrow>
     distinct (map source_id (sources db)) \<and> distinct (map slug_key (sources db))
     \<and> distinct (map kr_key (connectors db)) \<and> (\<forall>r\<in>set (connectors db). coherent_connector r)
     \<and> distinct (map pl_id (plans db)) \<and> distinct (map name_key (plans db))
     \<and> (\<forall>s\<in>set (sources db). bound_source db s)
     \<and> (\<forall>r\<in>set (plans db). placed_plan db (pl_document r))"

section \<open>Evolution\<close>

definition same_plan_archived :: "plan_row \<Rightarrow> plan_row \<Rightarrow> bool" where
  "same_plan_archived r r' \<longleftrightarrow>
     plan_id (pl_document r') = plan_id (pl_document r)
     \<and> plan_sourceId (pl_document r') = plan_sourceId (pl_document r)
     \<and> plan_createdAt (pl_document r') = plan_createdAt (pl_document r)
     \<and> (plan_status (pl_document r) = P_ARCHIVED \<longrightarrow>
          pl_document r' = (pl_document r)\<lparr>plan_updatedAt := plan_updatedAt (pl_document r')\<rparr>)"

definition same_version :: "connector_row \<Rightarrow> connector_row \<Rightarrow> bool" where
  "same_version r r' \<longleftrightarrow>
     kr_document r' = (kr_document r)\<lparr>connector_status := connector_status (kr_document r')\<rparr>
     \<and> kr_registered_at r' = kr_registered_at r"

definition same_source :: "source_definition \<Rightarrow> source_definition \<Rightarrow> bool" where
  "same_source s s' \<longleftrightarrow>
     source_id s' = source_id s \<and> source_workspaceId s' = source_workspaceId s
     \<and> source_createdAt s' = source_createdAt s"

text \<open>Every row has a successor.\<close>

definition kept :: "('r \<Rightarrow> 'r \<Rightarrow> bool) \<Rightarrow> 'r list \<Rightarrow> 'r list \<Rightarrow> bool" where
  "kept R rs rs' \<longleftrightarrow> (\<forall>r\<in>set rs. \<exists>r'\<in>set rs'. R r r')"

lemma keptD: "kept R rs rs' \<Longrightarrow> r \<in> set rs \<Longrightarrow> \<exists>r'\<in>set rs'. R r r'"
  by (simp add: kept_def)

lemma kept_same: "(\<And>r. R r r) \<Longrightarrow> kept R rs rs"
  by (auto simp: kept_def)

lemma kept_append: "(\<And>r. R r r) \<Longrightarrow> kept R rs (rs @ rs')"
  by (auto simp: kept_def)

lemma kept_update:
  assumes "\<And>r. R r r" and "\<And>r. r \<in> set rs \<Longrightarrow> key r = k \<Longrightarrow> R r (f r)"
  shows "kept R rs (update_by key k f rs)"
  unfolding kept_def
proof
  fix r assume r: "r \<in> set rs"
  show "\<exists>r'\<in>set (update_by key k f rs). R r r'"
  proof (rule bexI)
    show "R r (if key r = k then f r else r)" using assms r by simp
    show "(if key r = k then f r else r) \<in> set (update_by key k f rs)" using r unfolding set_update_by by blast
  qed
qed

lemma kept_trans:
  assumes "kept R rs rs1" "kept R rs1 rs2" and "\<And>x y z. R x y \<Longrightarrow> R y z \<Longrightarrow> R x z"
  shows "kept R rs rs2"
  using assms unfolding kept_def by meson

definition evolves :: "control_store \<Rightarrow> control_store \<Rightarrow> bool" where
  "evolves db db' \<longleftrightarrow>
     kept same_plan_archived (plans db) (plans db') \<and> kept same_version (connectors db) (connectors db')
     \<and> kept same_source (sources db) (sources db') \<and> set (workspaces db) \<subseteq> set (workspaces db')"

lemma same_refl [simp]: "same_plan_archived r r" "same_version c c" "same_source s s"
  by (simp_all add: same_plan_archived_def same_version_def same_source_def)

lemma same_plan_archived_trans:
  assumes "same_plan_archived r r1" "same_plan_archived r1 r2"
  shows "same_plan_archived r r2"
proof (cases "plan_status (pl_document r) = P_ARCHIVED")
  case True
  with assms(1) have eq: "pl_document r1 = (pl_document r)\<lparr>plan_updatedAt := plan_updatedAt (pl_document r1)\<rparr>"
    by (simp add: same_plan_archived_def)
  then have "plan_status (pl_document r1) = plan_status (pl_document r)"
    by (metis collection_plan.select_convs(5) collection_plan.surjective collection_plan.update_convs(12))
  with True assms(2)
  have "pl_document r2 = (pl_document r1)\<lparr>plan_updatedAt := plan_updatedAt (pl_document r2)\<rparr>"
    by (simp add: same_plan_archived_def)
  also have "\<dots> = (pl_document r)\<lparr>plan_updatedAt := plan_updatedAt (pl_document r2)\<rparr>"
    by (subst eq) simp
  finally show ?thesis using assms by (simp add: same_plan_archived_def)
qed (use assms in \<open>simp add: same_plan_archived_def\<close>)

lemma same_version_trans:
  assumes "same_version c c1" "same_version c1 c2"
  shows "same_version c c2"
proof -
  have eq: "kr_document c1 = (kr_document c)\<lparr>connector_status := connector_status (kr_document c1)\<rparr>"
    "kr_document c2 = (kr_document c1)\<lparr>connector_status := connector_status (kr_document c2)\<rparr>"
    using assms by (simp_all add: same_version_def)
  have "kr_document c2 = (kr_document c)\<lparr>connector_status := connector_status (kr_document c2)\<rparr>"
    by (subst eq(2), subst eq(1)) simp
  then show ?thesis using assms by (simp add: same_version_def)
qed

lemma evolves_refl [simp]: "evolves db db"
  by (simp add: evolves_def kept_same)

lemma evolves_trans: "evolves db db1 \<Longrightarrow> evolves db1 db2 \<Longrightarrow> evolves db db2"
  unfolding evolves_def
  by (auto elim!: kept_trans intro: same_plan_archived_trans same_version_trans simp: same_source_def)

text \<open>Replacing the row of one key keeps a second key unique when no other row has it.\<close>

lemma distinct_replaced:
  assumes "distinct (map key rs)" "distinct (map key2 rs)"
    and "\<And>x. x \<in> set rs \<Longrightarrow> key x \<noteq> k \<Longrightarrow> key2 x \<noteq> key2 r"
  shows "distinct (map key2 (update_by key k (\<lambda>_. r) rs))"
  using assms
proof (induction rs)
  case (Cons a rs)
  then have IH: "distinct (map key2 (update_by key k (\<lambda>_. r) rs))" by simp
  show ?case
  proof (cases "key a = k")
    case True
    with Cons.prems(1) have "update_by key k (\<lambda>_. r) rs = rs" by (intro update_by_absent) auto
    with True Cons.prems(1,2) Cons.prems(3) show ?thesis by (auto simp: image_iff) (metis)
  next
    case False
    then have "key2 a \<noteq> key2 r" using Cons.prems(3) by simp
    with False IH Cons.prems(2) show ?thesis by (auto simp: set_update_by image_iff)
  qed
qed simp

section \<open>The contract\<close>

locale catalogue_operation =
  fixes run :: "control_store \<Rightarrow> 'a result \<times> control_store"
  assumes keeps: "catalogue_ok db \<Longrightarrow> catalogue_ok (snd (run db)) \<and> evolves db (snd (run db))"
begin

lemma catalogue_kept:
  assumes "catalogue_ok db" "run db = (res, db')"
  shows "catalogue_ok db'" "evolves db db'"
  using keeps [OF assms(1)] assms(2) by simp_all

end

definition same_catalogue :: "control_store \<Rightarrow> control_store \<Rightarrow> bool" where
  "same_catalogue db db' \<longleftrightarrow>
     workspaces db' = workspaces db \<and> sources db' = sources db \<and> connectors db' = connectors db
     \<and> plans db' = plans db"

lemma same_catalogue_kept:
  "same_catalogue db db' \<Longrightarrow> catalogue_ok db \<Longrightarrow> catalogue_ok db' \<and> evolves db db'"
  by (simp add: same_catalogue_def catalogue_ok_def bound_source_def placed_plan_def evolves_def kept_same)

text \<open>What the registries write, the control plane does not read.\<close>

definition same_work :: "control_store \<Rightarrow> control_store \<Rightarrow> bool" where
  "same_work db db' \<longleftrightarrow>
     collection_runs db' = collection_runs db \<and> jobs db' = jobs db \<and> leases db' = leases db
     \<and> workers db' = workers db \<and> attempts db' = attempts db \<and> events db' = events db"

lemma same_work_refl [simp]: "same_work db db"
  by (simp add: same_work_def)

lemma same_work_control: "same_work db db' \<Longrightarrow> control_step db db'"
  by (simp add: same_work_def control_step_def well_formed_def store_ok_def linked_def view_of_def
      lease_links_def attempt_links_def job_links_def run_by_id_def job_by_id_def lease_by_id_def)

section \<open>Replacing and adding rows\<close>

lemma placed_plan_kept:
  "placed_plan db p \<Longrightarrow> kept same_source (sources db) (sources db') \<Longrightarrow> placed_plan db' p"
  unfolding placed_plan_def kept_def same_source_def by metis

lemma bound_source_cong:
  "workspaces db' = workspaces db \<Longrightarrow> connectors db' = connectors db \<Longrightarrow> bound_source db' s = bound_source db s"
  by (simp add: bound_source_def)

text \<open>One table of the catalogue changes.\<close>

lemma sources_changed:
  assumes ok: "catalogue_ok db" and "db' = db\<lparr>sources := ss\<rparr>"
    and "distinct (map source_id ss)" "distinct (map slug_key ss)"
    and "\<And>s. s \<in> set ss \<Longrightarrow> bound_source db s" and kept: "kept same_source (sources db) ss"
  shows "catalogue_ok db' \<and> evolves db db'"
proof -
  have "placed_plan db' (pl_document r)" if "r \<in> set (plans db)" for r
    by (rule placed_plan_kept [of db]) (use ok that kept assms(2) in \<open>auto simp: catalogue_ok_def\<close>)
  moreover have "bound_source db' = bound_source db"
    by (rule ext, rule bound_source_cong) (simp_all add: assms(2))
  moreover have "sources db' = ss" "plans db' = plans db" "connectors db' = connectors db"
    "workspaces db' = workspaces db"
    by (simp_all add: assms(2))
  ultimately show ?thesis
    using ok assms(3-) by (simp add: catalogue_ok_def evolves_def kept_same)
qed

lemma connectors_changed:
  assumes ok: "catalogue_ok db" and db': "db' = db\<lparr>connectors := rs\<rparr>"
    and "distinct (map kr_key rs)" "\<And>r. r \<in> set rs \<Longrightarrow> coherent_connector r"
    and kept: "kept same_version (connectors db) rs"
  shows "catalogue_ok db' \<and> evolves db db'"
proof -
  have "bound_source db' s" if b: "bound_source db s" for s
  proof -
    obtain r where r: "r \<in> set (connectors db)" "source_type s \<in> set (connector_sourceTypes (kr_document r))"
      "kr_key r = (ref_connectorId (source_connector s), ref_version (source_connector s))"
      using b by (auto simp: bound_source_def)
    with kept obtain r' where r': "r' \<in> set rs" "same_version r r'" by (auto dest: keptD)
    have coherent: "coherent_connector r" "coherent_connector r'" using ok assms(4) r r' by (auto simp: catalogue_ok_def)
    have "kr_key x = (connector_connectorId (kr_document x), connector_version (kr_document x))"
      if "coherent_connector x" for x
    proof -
      have "x = manifestRow (kr_document x) (kr_registered_at x) (kr_updated_at x)"
        using that by (simp add: coherent_connector_def)
      then show ?thesis by (metis kr_key_def connector_row.select_convs(1,2) manifestRow_def)
    qed
    note key = this [OF coherent(1)] this [OF coherent(2)]
    have doc: "kr_document r' = (kr_document r)\<lparr>connector_status := connector_status (kr_document r')\<rparr>"
      using r'(2) by (simp add: same_version_def)
    have "kr_key r' = kr_key r" "connector_sourceTypes (kr_document r') = connector_sourceTypes (kr_document r)"
      unfolding key by (subst doc, simp)+
    with r r' b show ?thesis by (auto simp: bound_source_def db')
  qed
  with assms show ?thesis
    by (auto simp: catalogue_ok_def evolves_def kept_same placed_plan_def)
qed

lemma plans_changed:
  assumes "catalogue_ok db" and "db' = db\<lparr>plans := rs\<rparr>"
    and "distinct (map pl_id rs)" "distinct (map name_key rs)"
    and "\<And>r. r \<in> set rs \<Longrightarrow> placed_plan db (pl_document r)" and "kept same_plan_archived (plans db) rs"
  shows "catalogue_ok db' \<and> evolves db db'"
  using assms by (auto simp: catalogue_ok_def evolves_def kept_same bound_source_def placed_plan_def)

lemma add_source:
  assumes ok: "catalogue_ok db" and ins: "insert_source s db = Inr db'" and b: "bound_source db s"
  shows "catalogue_ok db' \<and> evolves db db'"
proof (rule sources_changed [OF ok])
  from ins show "db' = db\<lparr>sources := sources db @ [s]\<rparr>"
    by (auto simp: insert_source_def split: if_splits)
  from ins have new: "source_id s \<notin> source_id ` set (sources db)" "\<not> slug_taken s db"
    by (auto simp: insert_source_def split: if_splits)
  then have "slug_key s \<notin> slug_key ` set (sources db)"
    unfolding slug_taken_def slug_key_def list_ex_iff image_iff prod.inject by metis
  with ok show "distinct (map slug_key (sources db @ [s]))" by (simp add: catalogue_ok_def)
  from ok new show "distinct (map source_id (sources db @ [s]))" by (simp add: catalogue_ok_def)
  show "bound_source db x" if "x \<in> set (sources db @ [s])" for x
    using that ok b by (auto simp: catalogue_ok_def)
qed (simp add: kept_append)

lemma map_key_replace: "key r = k \<Longrightarrow> map key (update_by key k (\<lambda>_. r) rs) = map key rs"
  by (induction rs) auto

lemma in_replaceD: "x \<in> set (update_by key k (\<lambda>_. r) rs) \<Longrightarrow> x = r \<or> x \<in> set rs"
  by (auto simp: set_update_by split: if_splits)

lemma replace_source:
  assumes ok: "catalogue_ok db" and row: "find_by source_id i (sources db) = Some s"
    and n: "same_source s next" "\<not> slug_taken next db" "bound_source db next"
    and db': "db' = db\<lparr>sources := update_by source_id i (\<lambda>_. next) (sources db)\<rparr>"
  shows "catalogue_ok db' \<and> evolves db db'"
proof (rule sources_changed [OF ok db'])
  note s = find_by_SomeD [OF row]
  have ids: "source_id next = i" using n(1) s by (simp add: same_source_def)
  have dist: "distinct (map source_id (sources db))" using ok by (simp add: catalogue_ok_def)
  then show "distinct (map source_id (update_by source_id i (\<lambda>_. next) (sources db)))"
    by (simp add: map_key_replace ids)
  show "distinct (map slug_key (update_by source_id i (\<lambda>_. next) (sources db)))"
    by (rule distinct_replaced [OF dist])
      (use ok n(2) ids in \<open>auto simp: catalogue_ok_def slug_taken_def slug_key_def list_ex_iff\<close>)
  show "bound_source db x" if "x \<in> set (update_by source_id i (\<lambda>_. next) (sources db))" for x
    using in_replaceD [OF that] n(3) ok by (auto simp: catalogue_ok_def)
  show "kept same_source (sources db) (update_by source_id i (\<lambda>_. next) (sources db))"
    by (rule kept_update) (use n(1) s distinct_key_eq [OF dist] in auto)
qed

lemma replace_plan:
  assumes ok: "catalogue_ok db" and row: "find_by pl_id i (plans db) = Some r0"
    and n: "same_plan_archived r0 r" "\<not> name_taken (pl_document r) db" "placed_plan db (pl_document r)"
    and db': "db' = db\<lparr>plans := update_by pl_id i (\<lambda>_. r) (plans db)\<rparr>"
  shows "catalogue_ok db' \<and> evolves db db'"
proof (rule plans_changed [OF ok db'])
  note r0 = find_by_SomeD [OF row]
  have ids: "pl_id r = i" using n(1) r0 by (simp add: same_plan_archived_def pl_id_def)
  have dist: "distinct (map pl_id (plans db))" using ok by (simp add: catalogue_ok_def)
  then show "distinct (map pl_id (update_by pl_id i (\<lambda>_. r) (plans db)))"
    by (simp add: map_key_replace ids)
  show "distinct (map name_key (update_by pl_id i (\<lambda>_. r) (plans db)))"
    by (rule distinct_replaced [OF dist])
      (use ok n(2) ids in \<open>auto simp: catalogue_ok_def name_taken_def name_key_def pl_id_def plan_documents_def list_ex_iff\<close>)
  show "placed_plan db (pl_document x)" if "x \<in> set (update_by pl_id i (\<lambda>_. r) (plans db))" for x
    using in_replaceD [OF that] n(3) ok by (auto simp: catalogue_ok_def)
  show "kept same_plan_archived (plans db) (update_by pl_id i (\<lambda>_. r) (plans db))"
    by (rule kept_update) (use n(1) r0 distinct_key_eq [OF dist] in auto)
qed

lemma add_plan:
  assumes ok: "catalogue_ok db" and ins: "insert_plan r db = Inr db'" and p: "placed_plan db (pl_document r)"
  shows "catalogue_ok db' \<and> evolves db db'"
proof (rule plans_changed [OF ok])
  from ins show "db' = db\<lparr>plans := plans db @ [r]\<rparr>"
    by (auto simp: insert_plan_def split: if_splits)
  from ins have new: "pl_id r \<notin> pl_id ` set (plans db)" "\<not> name_taken (pl_document r) db"
    by (auto simp: insert_plan_def split: if_splits)
  then have "name_key r \<notin> name_key ` set (plans db)"
    unfolding name_taken_def name_key_def pl_id_def plan_documents_def list_ex_iff image_iff set_map bex_simps prod.inject
    by metis
  with ok show "distinct (map name_key (plans db @ [r]))" by (simp add: catalogue_ok_def)
  from ok new show "distinct (map pl_id (plans db @ [r]))" by (simp add: catalogue_ok_def)
  show "placed_plan db (pl_document x)" if "x \<in> set (plans db @ [r])" for x
    using that ok p by (auto simp: catalogue_ok_def)
qed (simp add: kept_append)

section \<open>The methods of the registries\<close>

text \<open>A method of a registry writes the catalogue only, so it is a step of the control plane, an empty one.\<close>

locale registry_operation = catalogue_operation +
  assumes work: "same_work db (snd (run db))"

sublocale registry_operation \<subseteq> control_operation
  by unfold_locales (rule same_work_control [OF work])

lemma conflict_on_unique_Inr [simp]: "conflict_on_unique c m = Inr x \<longleftrightarrow> m = Inr x"
  by (auto simp: conflict_on_unique_def)

lemma catalogue_transaction:
  assumes "catalogue_ok db" and "\<And>a db'. body = Inr (a, db') \<Longrightarrow> catalogue_ok db' \<and> evolves db db'"
  shows "catalogue_ok (snd (in_transaction db body)) \<and> evolves db (snd (in_transaction db body))"
  using assms by (auto simp: in_transaction_def split: sum.splits)

lemma same_work_transaction:
  "(\<And>a db'. body = Inr (a, db') \<Longrightarrow> same_work db db') \<Longrightarrow> same_work db (snd (in_transaction db body))"
  by (auto simp: in_transaction_def split: sum.splits)

subsection \<open>A new registry\<close>

text \<open>The checks of the module at load time: the defaults satisfy Schema v1.\<close>

lemma default_workspace_valid: "isWorkspace DEFAULT_WORKSPACE"
  by code_simp

lemma default_connector_valid: "connector_valid DEFAULT_CONNECTOR_MANIFEST"
  by code_simp

lemma kr_key_manifestRow [simp]:
  "kr_key (manifestRow m t u) = (connector_connectorId m, connector_version m)" "kr_document (manifestRow m t u) = m"
  "kr_registered_at (manifestRow m t u) = t" "kr_updated_at (manifestRow m t u) = u"
  by (simp_all add: kr_key_def manifestRow_def)

interpretation initialize_reg: registry_operation "\<lambda>db. (Inr () :: unit result, initializeRegistry db)"
proof unfold_locales
  fix db assume ok: "catalogue_ok db"
  let ?t = DEFAULT_CONNECTOR_REGISTERED_AT
  let ?row = "manifestRow DEFAULT_CONNECTOR_MANIFEST ?t ?t"
  let ?db1 = "db\<lparr>workspaces := workspaces (initializeRegistry db)\<rparr>"
  have ws: "set (workspaces db) \<subseteq> set (workspaces ?db1)" by (auto simp: initializeRegistry_def Let_def)
  have "bound_source ?db1 s" if "bound_source db s" for s
    using that image_mono [OF ws, of ws_id] by (auto simp: bound_source_def)
  then have one: "catalogue_ok ?db1" "evolves db ?db1"
    using ok ws by (auto simp: catalogue_ok_def placed_plan_def evolves_def kept_same)
  have db': "initializeRegistry db = ?db1\<lparr>connectors := connectors (initializeRegistry db)\<rparr>"
    by (simp add: initializeRegistry_def Let_def)
  have "catalogue_ok (initializeRegistry db) \<and> evolves ?db1 (initializeRegistry db)"
  proof (rule connectors_changed [OF one(1) db'])
    show "distinct (map kr_key (connectors (initializeRegistry db)))"
      using ok by (auto simp: catalogue_ok_def initializeRegistry_def Let_def)
    show "coherent_connector r" if "r \<in> set (connectors (initializeRegistry db))" for r
      using that ok default_connector_valid
      by (auto simp: catalogue_ok_def initializeRegistry_def Let_def coherent_connector_def split: if_splits)
    show "kept same_version (connectors ?db1) (connectors (initializeRegistry db))"
      by (auto simp: initializeRegistry_def Let_def kept_same intro: kept_append)
  qed
  with one(2) show "catalogue_ok (snd (Inr (), initializeRegistry db)) \<and> evolves db (snd (Inr (), initializeRegistry db))"
    by (auto intro: evolves_trans)
qed (simp add: initializeRegistry_def Let_def same_work_def)

subsection \<open>Sources\<close>

lemma connector_by_ref_key:
  "connector_by_ref ref db = find_by kr_key (ref_connectorId ref, ref_version ref) (connectors db)"
  by (simp add: connector_by_ref_def kr_key_def [abs_def])

lemma validateConnectorBinding_Inr:
  assumes "validateConnectorBinding db s active = Inr m"
  obtains r where "r \<in> set (connectors db)" "kr_document r = m" "connector_valid m"
    "kr_key r = (ref_connectorId (source_connector s), ref_version (source_connector s))"
    "source_type s \<in> set (connector_sourceTypes m)" "active \<Longrightarrow> connector_status m = C_ACTIVE"
  using assms
  by (auto simp: validateConnectorBinding_def connectorManifest_def connector_by_ref_key and_then_Inr parse_Inr
      split: option.splits if_splits dest: find_by_SomeD)

lemma bound_sourceI:
  assumes "validateConnectorBinding db s active = Inr m" "source_valid s" "source_workspaceId s \<in> ws_id ` set (workspaces db)"
  shows "bound_source db s"
  using assms(2,3) by (rule_tac validateConnectorBinding_Inr [OF assms(1)]) (auto simp: bound_source_def)

lemma insert_source_Inr:
  "insert_source s db = Inr db' \<longleftrightarrow>
     source_id s \<notin> source_id ` set (sources db) \<and> \<not> slug_taken s db
     \<and> source_workspaceId s \<in> ws_id ` set (workspaces db) \<and> db' = db\<lparr>sources := sources db @ [s]\<rparr>"
  by (auto simp: insert_source_def)

lemma normalizeCreateInput_Inr:
  "normalizeCreateInput inp i t = Inr s \<Longrightarrow>
     source_valid s \<and> source_id s = i \<and> source_updatedAt s = t \<and> source_createdAt s = t"
  by (auto simp: normalizeCreateInput_def Let_def doc_simps split: if_splits)

lemma applySourceUpdate_Inr:
  "applySourceUpdate s inp t = Inr next \<Longrightarrow> source_valid next \<and> same_source s next \<and> source_updatedAt next = t"
  by (auto simp: applySourceUpdate_def updated_source_def Let_def doc_simps same_source_def split: if_splits)

lemma createSource_Inr:
  assumes "createSource now i inp db = (Inr s, db')"
  shows "insert_source s db = Inr db'" "source_valid s" "bound_source db s" "source_updatedAt s = to_iso now"
    "source_id s = i"
  using assms
  by (auto simp: createSource_def in_transaction_commit and_then_Inr insert_source_Inr
      dest: normalizeCreateInput_Inr intro: bound_sourceI)

lemma update_source_if_Inr:
  "update_source_if i expected next db = Inr (Some db') \<longleftrightarrow>
     (\<exists>s. find_by source_id i (sources db) = Some s \<and> source_updatedAt s = expected) \<and> \<not> slug_taken next db
     \<and> db' = db\<lparr>sources := update_by source_id i (\<lambda>_. next) (sources db)\<rparr>"
  by (auto simp: update_source_if_def split: option.splits)

lemma updateSource_Inr:
  assumes "updateSource now i inp expected db = (Inr next, db')"
  obtains s m active where "find_by source_id i (sources db) = Some s" "source_updatedAt s = expected" "source_valid s"
    "applySourceUpdate s inp (to_iso now) = Inr next" "validateConnectorBinding db next active = Inr m"
    "\<not> slug_taken next db" "db' = db\<lparr>sources := update_by source_id i (\<lambda>_. next) (sources db)\<rparr>"
  using assms
  by (auto simp: updateSource_def getSourceById_def write_source_def in_transaction_commit and_then_Inr parse_Inr
      update_source_if_Inr split: option.splits if_splits)

lemma failed_statement: "in_transaction db body = (Inl e, db') \<Longrightarrow> db' = db"
  by (rule in_transaction_error_rolls_back)

interpretation create_source_reg: registry_operation "createSource now i inp" for now i inp
proof unfold_locales
  fix db assume ok: "catalogue_ok db"
  obtain res db' where c: "createSource now i inp db = (res, db')" by fastforce
  show "catalogue_ok (snd (createSource now i inp db)) \<and> evolves db (snd (createSource now i inp db))"
  proof (cases res)
    case (Inl e)
    with c ok show ?thesis by (auto simp: createSource_def dest: failed_statement)
  next
    case (Inr s)
    with c have "createSource now i inp db = (Inr s, db')" by simp
    note s = createSource_Inr [OF this]
    show ?thesis using add_source [OF ok s(1,3)] by (simp add: c)
  qed
next
  fix db
  show "same_work db (snd (createSource now i inp db))"
    unfolding createSource_def by (rule same_work_transaction) (auto simp: and_then_Inr insert_source_Inr same_work_def)
qed

interpretation update_source_reg: registry_operation "updateSource now i inp expected" for now i inp expected
proof unfold_locales
  fix db assume ok: "catalogue_ok db"
  obtain res db' where c: "updateSource now i inp expected db = (res, db')" by fastforce
  show "catalogue_ok (snd (updateSource now i inp expected db)) \<and> evolves db (snd (updateSource now i inp expected db))"
  proof (cases res)
    case (Inl e)
    with c ok show ?thesis by (auto simp: updateSource_def dest: failed_statement)
  next
    case (Inr "next")
    with c have "updateSource now i inp expected db = (Inr next, db')" by simp
    then obtain s m active where u: "find_by source_id i (sources db) = Some s"
        "applySourceUpdate s inp (to_iso now) = Inr next" "validateConnectorBinding db next active = Inr m"
        "\<not> slug_taken next db" "db' = db\<lparr>sources := update_by source_id i (\<lambda>_. next) (sources db)\<rparr>"
      by (rule updateSource_Inr)
    note a = applySourceUpdate_Inr [OF u(2)]
    have "bound_source db s" using ok find_by_SomeD [OF u(1)] by (auto simp: catalogue_ok_def)
    with a have "bound_source db next"
      by (intro bound_sourceI [OF u(3)]) (auto simp: bound_source_def same_source_def)
    then have "catalogue_ok db' \<and> evolves db db'"
      using a by (intro replace_source [OF ok u(1) _ u(4) _ u(5)]) blast+
    then show ?thesis unfolding c snd_conv .
  qed
next
  fix db
  show "same_work db (snd (updateSource now i inp expected db))"
  proof (cases "fst (updateSource now i inp expected db)")
    case (Inl e)
    then have "updateSource now i inp expected db = (Inl e, snd (updateSource now i inp expected db))"
      by (metis prod.collapse)
    then have "snd (updateSource now i inp expected db) = db"
      unfolding updateSource_def by (rule failed_statement)
    then show ?thesis by simp
  next
    case (Inr "next")
    then have "updateSource now i inp expected db = (Inr next, snd (updateSource now i inp expected db))"
      by (metis prod.collapse)
    then show ?thesis by (rule updateSource_Inr) (simp add: same_work_def)
  qed
qed

interpretation archive_source_reg: registry_operation "archiveSource now i expected" for now i expected
  unfolding archiveSource_def by (rule update_source_reg.registry_operation_axioms)

subsection \<open>Connectors\<close>

lemma normalizeManifest_Inr: "normalizeManifest inp = Inr m \<Longrightarrow> connector_valid m"
  by (auto simp: normalizeManifest_def Let_def doc_simps split: if_splits)

lemma createConnector_cases:
  assumes "createConnector now inp db = (res, db')"
  obtains e where "res = Inl e" "db' = db"
  | m where "normalizeManifest inp = Inr m" "(connector_connectorId m, connector_version m) \<notin> kr_key ` set (connectors db)"
      "db' = db\<lparr>connectors := connectors db @ [manifestRow m (to_iso now) (to_iso now)]\<rparr>"
      "res = reload_connector db' (connector_connectorId m, connector_version m)"
proof (cases "normalizeManifest inp")
  case (Inr m)
  let ?k = "(connector_connectorId m, connector_version m)"
  show ?thesis
  proof (cases "?k \<in> kr_key ` set (connectors db)")
    case True
    then have "res = Inl (RegistryConflictError (Registry CONNECTOR_VERSION_CONFLICT))" "db' = db"
      using assms Inr by (simp_all add: createConnector_def insert_connector_def conflict_on_unique_def)
    then show ?thesis by (rule that(1))
  next
    case False
    with assms Inr show ?thesis
      by (intro that(2) [OF Inr False]) (auto simp: createConnector_def insert_connector_def conflict_on_unique_def)
  qed
qed (use assms in \<open>auto simp: createConnector_def intro: that(1)\<close>)

lemma reload_connector_Inr:
  "reload_connector db k = Inr c \<longleftrightarrow>
     (\<exists>r. find_by kr_key k (connectors db) = Some r \<and> connector_valid (kr_document r)
        \<and> c = \<lparr> cn_manifest = kr_document r, cn_registeredAt = kr_registered_at r, cn_updatedAt = kr_updated_at r,
                cn_boundSourceCount = bound_source_count r db \<rparr>)"
  by (auto simp: reload_connector_def getConnector_def connector_by_key_def connector_recordFromRow_def and_then_Inr
      parse_Inr split: option.splits)

lemma updateConnectorStatus_cases:
  assumes "updateConnectorStatus now k t db = (res, db')"
  obtains "db' = db"
  | r s where "find_by kr_key k (connectors db) = Some r" "read_connector_status t = Some s"
      "connector_valid ((kr_document r)\<lparr>connector_status := s\<rparr>)"
      "db' = db\<lparr>connectors := update_by kr_key k
         (write_connector_status s ((kr_document r)\<lparr>connector_status := s\<rparr>) (to_iso now)) (connectors db)\<rparr>"
proof (cases "db' = db")
  case False
  obtain s where s: "read_connector_status t = Some s"
    using assms False by (cases "read_connector_status t") (simp_all add: updateConnectorStatus_def)
  obtain current where cur: "reload_connector db k = Inr current"
    using assms False s by (cases "reload_connector db k") (simp_all add: updateConnectorStatus_def)
  then obtain r where r: "find_by kr_key k (connectors db) = Some r" "cn_manifest current = kr_document r"
    by (auto simp: reload_connector_Inr)
  let ?next = "(kr_document r)\<lparr>connector_status := s\<rparr>"
  have run: "updateConnectorStatus now k t db =
      (if connector_status (kr_document r) = s then (Inr current, db)
       else if \<not> connector_valid ?next then (Inl RegistryValidationError, db)
       else (let db1 = db\<lparr>connectors := update_by kr_key k (write_connector_status s ?next (to_iso now)) (connectors db)\<rparr>
             in (reload_connector db1 k, db1)))"
    by (simp add: updateConnectorStatus_def s cur r connector_by_key_def doc_simps)
  show ?thesis
    by (rule that(2) [OF r(1) s]) (use assms False in \<open>auto simp: run Let_def split: if_splits\<close>)
qed (rule that(1))

interpretation create_connector_reg: registry_operation "createConnector now inp" for now inp
proof unfold_locales
  fix db assume ok: "catalogue_ok db"
  obtain res db' where c: "createConnector now inp db = (res, db')" by fastforce
  then show "catalogue_ok (snd (createConnector now inp db)) \<and> evolves db (snd (createConnector now inp db))"
  proof (cases rule: createConnector_cases)
    case (2 m)
    have "catalogue_ok db' \<and> evolves db db'"
      by (rule connectors_changed [OF ok 2(3)])
        (use ok 2(2) normalizeManifest_Inr [OF 2(1)] in
          \<open>auto simp: catalogue_ok_def coherent_connector_def intro: kept_append\<close>)
    then show ?thesis unfolding c snd_conv .
  qed (use ok c in simp)
next
  fix db
  obtain res db' where c: "createConnector now inp db = (res, db')" by fastforce
  then show "same_work db (snd (createConnector now inp db))"
    by (cases rule: createConnector_cases) (simp_all add: c same_work_def)
qed

interpretation connector_status_reg: registry_operation "updateConnectorStatus now k t" for now k t
proof unfold_locales
  fix db assume ok: "catalogue_ok db"
  obtain res db' where c: "updateConnectorStatus now k t db = (res, db')" by fastforce
  then show "catalogue_ok (snd (updateConnectorStatus now k t db)) \<and> evolves db (snd (updateConnectorStatus now k t db))"
  proof (cases rule: updateConnectorStatus_cases)
    case (2 row st)
    let ?next = "(kr_document row)\<lparr>connector_status := st\<rparr>"
    let ?w = "write_connector_status st ?next (to_iso now)"
    have dist: "distinct (map kr_key (connectors db))" using ok by (simp add: catalogue_ok_def)
    have key: "kr_key (?w x) = kr_key x" for x by (simp add: write_connector_status_def kr_key_def)
    have only: "x = row" if "x \<in> set (connectors db)" "kr_key x = k" for x
      using find_by_SomeD [OF 2(1)] distinct_key_eq [OF dist] that by metis
    have coherent: "coherent_connector row" using ok find_by_SomeD [OF 2(1)] by (auto simp: catalogue_ok_def)
    have "catalogue_ok db' \<and> evolves db db'"
    proof (rule connectors_changed [OF ok 2(4)])
      show "distinct (map kr_key (update_by kr_key k ?w (connectors db)))"
        using dist by (simp add: keyed_update.distinct_update [of kr_key ?w] keyed_update.intro key)
      show "kept same_version (connectors db) (update_by kr_key k ?w (connectors db))"
        by (rule kept_update) (auto simp: same_version_def write_connector_status_def dest: only)
      show "coherent_connector x" if x: "x \<in> set (update_by kr_key k ?w (connectors db))" for x
      proof -
        from x have "x \<in> set (connectors db) \<or> x = ?w row" by (auto simp: set_update_by dest: only split: if_splits)
        moreover have "coherent_connector (?w row)"
          using coherent 2(3) by (cases row) (auto simp: coherent_connector_def write_connector_status_def manifestRow_def)
        ultimately show ?thesis using ok by (auto simp: catalogue_ok_def)
      qed
    qed
    then show ?thesis unfolding c snd_conv .
  qed (use ok c in simp)
next
  fix db
  obtain res db' where c: "updateConnectorStatus now k t db = (res, db')" by fastforce
  then show "same_work db (snd (updateConnectorStatus now k t db))"
    by (cases rule: updateConnectorStatus_cases) (simp_all add: c same_work_def)
qed

subsection \<open>Plans\<close>

lemma plan_valid_content: "plan_valid p \<Longrightarrow> plan_content_valid p"
  by (simp add: plan_content_valid_def plan_valid_def)

lemma plan_content_cong:
  "plan_valid p \<Longrightarrow> plan_content_valid (p\<lparr>plan_status := st, plan_updatedAt := to_iso now\<rparr>)"
  using isRfc3339_to_iso [of now]
  by (cases "iso_instant now") (auto simp: plan_content_valid_def plan_valid_def)

lemma loadSource_Inr:
  "loadSource db i = Inr s \<longleftrightarrow> find_by source_id i (sources db) = Some s \<and> source_valid s"
  by (auto simp: loadSource_def parse_Inr split: option.splits)

lemma normalizePlan_Inr:
  "normalizePlan inp i t s = Inr p \<Longrightarrow>
     plan_valid p \<and> plan_id p = i \<and> plan_workspaceId p = source_workspaceId s \<and> plan_updatedAt p = t
     \<and> plan_sourceId p = trim (cp_sourceId inp)"
  by (auto simp: normalizePlan_def Let_def doc_simps split: if_splits)

lemma applyPlanUpdate_Inr:
  "applyPlanUpdate p inp t = Inr next \<Longrightarrow>
     plan_status p \<noteq> P_ARCHIVED \<and> plan_valid next \<and> plan_id next = plan_id p \<and> plan_sourceId next = plan_sourceId p
     \<and> plan_workspaceId next = plan_workspaceId p \<and> plan_createdAt next = plan_createdAt p
     \<and> plan_status next = plan_status p \<and> plan_updatedAt next = t"
  by (auto simp: applyPlanUpdate_def Let_def doc_simps split: if_splits)

lemma insert_plan_Inr:
  "insert_plan r db = Inr db' \<longleftrightarrow>
     pl_id r \<notin> pl_id ` set (plans db) \<and> \<not> name_taken (pl_document r) db
     \<and> plan_sourceId (pl_document r) \<in> source_id ` set (sources db) \<and> db' = db\<lparr>plans := plans db @ [r]\<rparr>"
  by (auto simp: insert_plan_def)

lemma planRow_simps [simp]:
  "pl_document (planRow p c) = p" "pl_connector_id (planRow p c) = c" "pl_id (planRow p c) = plan_id p"
  by (simp_all add: planRow_def pl_id_def)

lemma writeUpdate_Inr:
  "writeUpdate p expected c db = Inr db' \<longleftrightarrow>
     (\<exists>r. find_by pl_id (plan_id p) (plans db) = Some r \<and> plan_updatedAt (pl_document r) = expected)
     \<and> \<not> name_taken p db \<and> db' = db\<lparr>plans := update_by pl_id (plan_id p) (\<lambda>_. planRow p c) (plans db)\<rparr>"
  by (auto simp: writeUpdate_def update_plan_if_def and_then_Inr split: option.splits if_splits)

lemma expected_plan_Inr:
  assumes "expected_plan db i expected = Inr p"
  obtains r s where "find_by pl_id i (plans db) = Some r" "pl_document r = p" "plan_valid p"
    "plan_updatedAt p = expected" "find_by source_id (plan_sourceId p) (sources db) = Some s" "source_valid s"
  using assms
  by (auto simp: expected_plan_def getPlanById_def plan_recordFromRow_def join_source_def and_then_Inr parse_Inr
      split: option.splits if_splits)

lemma write_checked_Inr:
  assumes "write_checked change expected p db = Inr (next, db')"
  obtains s c where "loadSource db (plan_sourceId p) = Inr s" "plan_loadConnector db s = Inr c" "change p = Inr next"
    "validateCompatibility next s c = Inr ()" "writeUpdate next expected (connector_connectorId c) db = Inr db'"
  using assms by (auto simp: write_checked_def and_then_Inr)

text \<open>Every checked change of a plan keeps the catalogue.\<close>

lemma write_checked_keeps:
  assumes ok: "catalogue_ok db" and w: "write_checked change expected p db = Inr (next, db')"
    and row: "find_by pl_id (plan_id p) (plans db) = Some r" "pl_document r = p"
    and change: "plan_id next = plan_id p" "plan_content_valid next" "plan_sourceId next = plan_sourceId p"
      "plan_workspaceId next = plan_workspaceId p" "plan_createdAt next = plan_createdAt p"
      "plan_status p = P_ARCHIVED \<Longrightarrow> next = p\<lparr>plan_updatedAt := plan_updatedAt next\<rparr>"
  shows "catalogue_ok db' \<and> evolves db db'"
proof -
  from w obtain c where "writeUpdate next expected c db = Inr db'" by (rule write_checked_Inr)
  then have n: "\<not> name_taken next db"
    and db': "db' = db\<lparr>plans := update_by pl_id (plan_id p) (\<lambda>_. planRow next c) (plans db)\<rparr>"
    by (auto simp: writeUpdate_Inr change(1))
  have "placed_plan db p" using ok find_by_SomeD [OF row(1)] row(2) by (auto simp: catalogue_ok_def)
  then have placed: "placed_plan db next" using change by (simp add: placed_plan_def)
  have "same_plan_archived r (planRow next c)"
    using change row(2) by (simp add: same_plan_archived_def)
  then show ?thesis
    by (rule replace_plan [OF ok row(1) _ _ _ db']) (simp_all add: n placed)
qed

lemma checked_status_Inr:
  assumes "checked_status now i t expected db = Inr (next, db')"
  obtains st p r where "read_plan_status t = Some st" "expected_plan db i expected = Inr p"
    "find_by pl_id i (plans db) = Some r" "pl_document r = p" "plan_valid p"
    "plan_status p = P_ARCHIVED \<longrightarrow> st = P_ARCHIVED"
    "next = p\<lparr>plan_status := st, plan_updatedAt := to_iso now\<rparr>"
    "write_checked (\<lambda>p. Inr (p\<lparr>plan_status := st, plan_updatedAt := to_iso now\<rparr>)) expected p db = Inr (next, db')"
proof -
  from assms obtain st p where st: "read_plan_status t = Some st" "expected_plan db i expected = Inr p"
      "plan_status p = P_ARCHIVED \<longrightarrow> st = P_ARCHIVED"
      "write_checked (\<lambda>p. Inr (p\<lparr>plan_status := st, plan_updatedAt := to_iso now\<rparr>)) expected p db = Inr (next, db')"
    by (auto simp: checked_status_def and_then_Inr split: option.splits if_splits)
  from st(2) obtain r where r: "find_by pl_id i (plans db) = Some r" "pl_document r = p" "plan_valid p"
    by (rule expected_plan_Inr)
  from st(4) have "next = p\<lparr>plan_status := st, plan_updatedAt := to_iso now\<rparr>"
    by (rule write_checked_Inr) simp
  with st r show ?thesis by (intro that)
qed

lemma trim_spaceless: "list_all (\<lambda>c. \<not> is_space c) s \<Longrightarrow> trim s = s"
proof -
  have "dropWhile is_space xs = xs" if "list_all (\<lambda>c. \<not> is_space c) xs" for xs
    using that by (cases xs) simp_all
  moreover assume "list_all (\<lambda>c. \<not> is_space c) s"
  ultimately show ?thesis by (simp add: trim_def)
qed

lemma crockford_not_space: "is_crockford c \<Longrightarrow> \<not> is_space c"
  by (auto simp: is_crockford_def is_digit_def between_def is_space_def Let_def code_unit_def)

lemma source_id_trimmed:
  assumes "is_typed_id ''src'' i"
  shows "trim i = i"
proof (rule trim_spaceless)
  have "i = take 4 i @ drop 4 i" by simp
  also have "take 4 i = ''src_''" using assms by (simp add: is_typed_id_def starts_with_def eval_nat_numeral)
  finally have i: "i = ''src_'' @ drop 4 i" .
  have "list_all is_crockford (drop 4 i)" using assms by (simp add: is_typed_id_def eval_nat_numeral)
  then have "list_all (\<lambda>c. \<not> is_space c) (drop 4 i)"
    by (rule list.pred_mono_strong) (rule crockford_not_space)
  then show "list_all (\<lambda>c. \<not> is_space c) i"
    by (subst i) (simp add: is_space_def code_unit_def)
qed

lemma createPlan_cases:
  assumes "createPlan now i inp db = (res, db')"
  obtains e where "res = Inl e" "db' = db"
  | s c p where "loadSource db (cp_sourceId inp) = Inr s" "plan_loadConnector db s = Inr c"
      "normalizePlan inp i (to_iso now) s = Inr p" "validateCompatibility p s c = Inr ()"
      "insert_plan (planRow p (connector_connectorId c)) db = Inr db'" "res = getPlanById db' (plan_id p)"
proof -
  let ?m = "and_then (loadSource db (cp_sourceId inp)) (\<lambda>source.
     and_then (plan_loadConnector db source) (\<lambda>connector.
     and_then (normalizePlan inp i (to_iso now) source) (\<lambda>plan.
     and_then (validateCompatibility plan source connector) (\<lambda>_.
     and_then (conflict_on_unique (Plan COLLECTION_PLAN_NAME_CONFLICT)
                 (insert_plan (planRow plan (connector_connectorId connector)) db)) (\<lambda>db'.
       Inr (plan, db'))))))"
  show ?thesis
  proof (cases ?m)
    case (Inl e)
    with assms show ?thesis by (intro that(1) [of e]) (auto simp: createPlan_def)
  next
    case (Inr x)
    then obtain p where m: "?m = Inr (p, snd x)" by (cases x) simp
    then obtain s c where "loadSource db (cp_sourceId inp) = Inr s" "plan_loadConnector db s = Inr c"
        "normalizePlan inp i (to_iso now) s = Inr p" "validateCompatibility p s c = Inr ()"
        "insert_plan (planRow p (connector_connectorId c)) db = Inr (snd x)"
      by (auto simp: and_then_Inr)
    moreover have "db' = snd x" "res = getPlanById db' (plan_id p)" using assms m by (auto simp: createPlan_def)
    ultimately show ?thesis by (intro that(2)) simp_all
  qed
qed

interpretation create_plan_reg: registry_operation "createPlan now i inp" for now i inp
proof unfold_locales
  fix db assume ok: "catalogue_ok db"
  obtain res db' where c: "createPlan now i inp db = (res, db')" by fastforce
  then show "catalogue_ok (snd (createPlan now i inp db)) \<and> evolves db (snd (createPlan now i inp db))"
  proof (cases rule: createPlan_cases)
    case (2 s m p)
    note p = normalizePlan_Inr [OF 2(3)]
    have "plan_sourceId p \<in> source_id ` set (sources db)" using 2(5) by (simp add: insert_plan_Inr)
    moreover have src: "s \<in> set (sources db)" "source_id s = cp_sourceId inp"
      using 2(1) find_by_SomeD [of source_id "cp_sourceId inp" "sources db" s] by (simp_all add: loadSource_Inr)
    moreover have "trim (source_id s) = source_id s"
      using 2(1) by (simp add: loadSource_Inr source_valid_def source_id_trimmed)
    ultimately have "placed_plan db p"
      using p plan_valid_content by (auto simp: placed_plan_def)
    then have "catalogue_ok db' \<and> evolves db db'" by (intro add_plan [OF ok 2(5)]) simp
    then show ?thesis unfolding c snd_conv .
  qed (use ok c in simp)
next
  fix db
  obtain res db' where c: "createPlan now i inp db = (res, db')" by fastforce
  then show "same_work db (snd (createPlan now i inp db))"
    by (cases rule: createPlan_cases) (auto simp: c same_work_def insert_plan_Inr)
qed

lemma updatePlan_cases:
  assumes "updatePlan now i inp expected db = (res, db')"
  obtains e where "res = Inl e" "db' = db"
  | p r "next" where "find_by pl_id i (plans db) = Some r" "pl_document r = p" "plan_updatedAt p = expected"
      "applyPlanUpdate p inp (to_iso now) = Inr next"
      "write_checked (\<lambda>p. applyPlanUpdate p inp (to_iso now)) expected p db = Inr (next, db')"
      "res = getPlanById db' i"
proof -
  let ?m = "and_then (expected_plan db i expected) (\<lambda>current.
              write_checked (\<lambda>p. applyPlanUpdate p inp (to_iso now)) expected current db)"
  show ?thesis
  proof (cases ?m)
    case (Inl e)
    with assms show ?thesis by (intro that(1) [of e]) (auto simp: updatePlan_def)
  next
    case (Inr x)
    obtain "next" db1 where x: "x = (next, db1)" by (cases x)
    with Inr obtain p where p: "expected_plan db i expected = Inr p"
        "write_checked (\<lambda>p. applyPlanUpdate p inp (to_iso now)) expected p db = Inr (next, db1)"
      by (auto simp: and_then_Inr)
    from p(1) obtain r where r: "find_by pl_id i (plans db) = Some r" "pl_document r = p" "plan_updatedAt p = expected"
      by (rule expected_plan_Inr)
    from p(2) have change: "applyPlanUpdate p inp (to_iso now) = Inr next" by (rule write_checked_Inr)
    have "db' = db1" "res = getPlanById db' i" using assms Inr x by (auto simp: updatePlan_def)
    with r p change show ?thesis by (intro that(2)) simp_all
  qed
qed

lemma same_work_write_checked:
  "write_checked change expected p db = Inr (next, db') \<Longrightarrow> same_work db db'"
  by (erule write_checked_Inr) (auto simp: writeUpdate_Inr same_work_def)

interpretation update_plan_reg: registry_operation "updatePlan now i inp expected" for now i inp expected
proof unfold_locales
  fix db assume ok: "catalogue_ok db"
  obtain res db' where c: "updatePlan now i inp expected db = (res, db')" by fastforce
  then show "catalogue_ok (snd (updatePlan now i inp expected db)) \<and> evolves db (snd (updatePlan now i inp expected db))"
  proof (cases rule: updatePlan_cases)
    case (2 p r "next")
    note a = applyPlanUpdate_Inr [OF 2(4)]
    have "plan_id p = i" using find_by_SomeD [OF 2(1)] 2(2) by (simp add: pl_id_def)
    then have "catalogue_ok db' \<and> evolves db db'"
      using a 2(1,2) plan_valid_content by (intro write_checked_keeps [OF ok 2(5)]) auto
    then show ?thesis unfolding c snd_conv .
  qed (use ok c in simp)
next
  fix db
  obtain res db' where c: "updatePlan now i inp expected db = (res, db')" by fastforce
  then show "same_work db (snd (updatePlan now i inp expected db))"
    by (cases rule: updatePlan_cases) (auto simp: c dest: same_work_write_checked)
qed

text \<open>Clearing and choosing the default plan rewrite one source.\<close>

lemma default_written:
  assumes ok: "catalogue_ok db" and row: "find_by source_id i (sources db) = Some s"
    and "source_valid (s\<lparr>source_updatedAt := t, source_defaultCollectionPlanId := d\<rparr>)"
    and db': "db' = db\<lparr>sources := update_by source_id i
       (\<lambda>_. s\<lparr>source_updatedAt := t, source_defaultCollectionPlanId := d\<rparr>) (sources db)\<rparr>"
  shows "catalogue_ok db' \<and> evolves db db'"
proof (rule replace_source [OF ok row _ _ _ db'])
  note s = find_by_SomeD [OF row]
  have "distinct (map slug_key (sources db))" using ok by (simp add: catalogue_ok_def)
  note slugs = distinct_key_eq [OF this]
  show "\<not> slug_taken (s\<lparr>source_updatedAt := t, source_defaultCollectionPlanId := d\<rparr>) db"
    using slugs [OF _ s [THEN conjunct1]] by (auto simp: slug_taken_def list_ex_iff slug_key_def)
  have "bound_source db s" using ok s by (auto simp: catalogue_ok_def)
  with assms(3) show "bound_source db (s\<lparr>source_updatedAt := t, source_defaultCollectionPlanId := d\<rparr>)"
    by (simp add: bound_source_def)
qed (simp add: same_source_def)

lemma clearDefault_Inr:
  "clearDefaultPlanIfNeeded now p db = Inr db' \<longleftrightarrow>
     (\<exists>s. find_by source_id (plan_sourceId p) (sources db) = Some s \<and> source_valid s
        \<and> (if source_defaultCollectionPlanId s = Some (plan_id p)
           then source_valid (s\<lparr>source_updatedAt := to_iso now, source_defaultCollectionPlanId := None\<rparr>)
             \<and> db' = db\<lparr>sources := update_by source_id (plan_sourceId p)
                  (\<lambda>_. s\<lparr>source_updatedAt := to_iso now, source_defaultCollectionPlanId := None\<rparr>) (sources db)\<rparr>
           else db' = db))"
proof (cases "find_by source_id (plan_sourceId p) (sources db)")
  case None
  then show ?thesis by (simp add: clearDefaultPlanIfNeeded_def loadSource_def)
next
  case (Some s)
  then have i: "source_id s = plan_sourceId p" using find_by_SomeD [of source_id] by metis
  have load: "loadSource db (plan_sourceId p) = (if source_valid s then Inr s else Inl RegistryValidationError)"
    by (simp add: loadSource_def Some parseSource_def doc_simps)
  show ?thesis
    unfolding clearDefaultPlanIfNeeded_def load Some Let_def i doc_simps
    by (cases "source_valid s"; cases "source_defaultCollectionPlanId s = Some (plan_id p)") (auto simp: i)
qed

lemma clearDefault_keeps:
  assumes "catalogue_ok db" "clearDefaultPlanIfNeeded now p db = Inr db'"
  shows "catalogue_ok db' \<and> evolves db db'"
  using assms(2) default_written [OF assms(1)]
  by (auto simp: clearDefault_Inr assms(1) split: if_splits)

lemma updatePlanStatus_cases:
  assumes "updatePlanStatus now now' i t expected db = (res, db')"
  obtains e where "checked_status now i t expected db = Inl e" "res = Inl e" "db' = db"
  | "next" where "checked_status now i t expected db = Inr (next, db')" "plan_status next \<noteq> P_ARCHIVED"
      "res = getPlanById db' i"
  | "next" e where "checked_status now i t expected db = Inr (next, db')" "plan_status next = P_ARCHIVED"
      "clearDefaultPlanIfNeeded now' next db' = Inl e" "res = Inl e"
  | "next" db1 where "checked_status now i t expected db = Inr (next, db1)" "plan_status next = P_ARCHIVED"
      "clearDefaultPlanIfNeeded now' next db1 = Inr db'" "res = getPlanById db' i"
proof (cases "checked_status now i t expected db")
  case (Inl e)
  with assms show ?thesis by (intro that(1) [of e]) (auto simp: updatePlanStatus_def)
next
  case (Inr x)
  obtain "next" db1 where x: "x = (next, db1)" by (cases x)
  show ?thesis
  proof (cases "plan_status next = P_ARCHIVED")
    case False
    with assms Inr x show ?thesis by (intro that(2) [of "next"]) (auto simp: updatePlanStatus_def)
  next
    case arch: True
    show ?thesis
    proof (cases "clearDefaultPlanIfNeeded now' next db1")
      case (Inl e)
      with assms Inr x arch show ?thesis
        using \<open>checked_status now i t expected db = Inr x\<close>
        by (intro that(3) [of "next" e]) (auto simp: updatePlanStatus_def)
    next
      case (Inr db2)
      with assms x arch show ?thesis
        using \<open>checked_status now i t expected db = Inr x\<close>
        by (intro that(4) [of "next" db1]) (auto simp: updatePlanStatus_def)
    qed
  qed
qed

lemma checked_status_keeps:
  assumes ok: "catalogue_ok db" and c: "checked_status now i t expected db = Inr (next, db')"
  shows "catalogue_ok db' \<and> evolves db db'"
  using c
proof (rule checked_status_Inr)
  fix st p r
  assume st: "find_by pl_id i (plans db) = Some r" "pl_document r = p" "plan_valid p"
    "plan_status p = P_ARCHIVED \<longrightarrow> st = P_ARCHIVED" "next = p\<lparr>plan_status := st, plan_updatedAt := to_iso now\<rparr>"
    "write_checked (\<lambda>p. Inr (p\<lparr>plan_status := st, plan_updatedAt := to_iso now\<rparr>)) expected p db = Inr (next, db')"
  have i: "plan_id p = i" using find_by_SomeD [OF st(1)] st(2) by (simp add: pl_id_def)
  show ?thesis
    by (rule write_checked_keeps [OF ok st(6), of r])
      (use st i plan_content_cong [OF st(3)] in \<open>cases p; auto\<close>)+
qed

lemma same_work_checked_status: "checked_status now i t expected db = Inr (next, db') \<Longrightarrow> same_work db db'"
  by (erule checked_status_Inr) (rule same_work_write_checked)

lemma same_work_clearDefault: "clearDefaultPlanIfNeeded now p db = Inr db' \<Longrightarrow> same_work db db'"
  by (auto simp: clearDefault_Inr same_work_def split: if_splits)

lemma same_work_trans: "same_work db db1 \<Longrightarrow> same_work db1 db2 \<Longrightarrow> same_work db db2"
  by (simp add: same_work_def)

interpretation plan_status_reg: registry_operation "updatePlanStatus now now' i t expected" for now now' i t expected
proof unfold_locales
  fix db assume ok: "catalogue_ok db"
  obtain res db' where c: "updatePlanStatus now now' i t expected db = (res, db')" by fastforce
  then have "catalogue_ok db' \<and> evolves db db'"
  proof (cases rule: updatePlanStatus_cases)
    case (4 "next" db1)
    from checked_status_keeps [OF ok 4(1)] have one: "catalogue_ok db1" "evolves db db1" by simp_all
    from clearDefault_keeps [OF one(1) 4(3)] one(2) show ?thesis by (auto intro: evolves_trans)
  qed (use ok checked_status_keeps [OF ok] in auto)
  then show "catalogue_ok (snd (updatePlanStatus now now' i t expected db))
      \<and> evolves db (snd (updatePlanStatus now now' i t expected db))"
    unfolding c snd_conv .
next
  fix db
  obtain res db' where c: "updatePlanStatus now now' i t expected db = (res, db')" by fastforce
  then show "same_work db (snd (updatePlanStatus now now' i t expected db))"
    by (cases rule: updatePlanStatus_cases)
      (auto simp: c dest: same_work_checked_status same_work_clearDefault intro: same_work_trans)
qed

lemma setSourceDefaultPlan_Inr:
  assumes "setSourceDefaultPlan now i planId expected db = (Inr next, db')"
  obtains s where "find_by source_id i (sources db) = Some s" "source_valid s" "source_updatedAt s = expected"
    "next = s\<lparr>source_updatedAt := to_iso now, source_defaultCollectionPlanId := chosen_plan planId\<rparr>"
    "source_valid next" "db' = db\<lparr>sources := update_by source_id i (\<lambda>_. next) (sources db)\<rparr>"
    "\<And>p. chosen_plan planId = Some p \<Longrightarrow> check_default db i p = Inr ()"
  using assms
  by (auto simp: setSourceDefaultPlan_def in_transaction_commit and_then_Inr loadSource_Inr Let_def doc_simps
      split: option.splits if_splits)

interpretation default_plan_reg: registry_operation "setSourceDefaultPlan now i planId expected" for now i planId expected
proof unfold_locales
  fix db assume ok: "catalogue_ok db"
  obtain res db' where c: "setSourceDefaultPlan now i planId expected db = (res, db')" by fastforce
  have "catalogue_ok db' \<and> evolves db db'"
  proof (cases res)
    case (Inl e)
    with c ok show ?thesis by (auto simp: setSourceDefaultPlan_def dest: failed_statement)
  next
    case (Inr "next")
    with c have "setSourceDefaultPlan now i planId expected db = (Inr next, db')" by simp
    then show ?thesis
      by (rule setSourceDefaultPlan_Inr) (rule default_written [OF ok], auto)
  qed
  then show "catalogue_ok (snd (setSourceDefaultPlan now i planId expected db))
      \<and> evolves db (snd (setSourceDefaultPlan now i planId expected db))"
    unfolding c snd_conv .
next
  fix db
  obtain res db' where c: "setSourceDefaultPlan now i planId expected db = (res, db')" by fastforce
  have "same_work db db'"
  proof (cases res)
    case (Inl e)
    with c show ?thesis by (auto simp: setSourceDefaultPlan_def dest: failed_statement)
  next
    case (Inr "next")
    with c have "setSourceDefaultPlan now i planId expected db = (Inr next, db')" by simp
    then show ?thesis by (rule setSourceDefaultPlan_Inr) (simp add: same_work_def)
  qed
  then show "same_work db (snd (setSourceDefaultPlan now i planId expected db))" unfolding c snd_conv .
qed

end
