(* ===== verification/Control_Plane.thy ===== *)
theory Control_Plane
  imports Execution_Protocol Scheduler_Protocol Registry_Protocol
begin

text \<open>
  The control plane as a whole: a call is one method of the registries of sources, connectors and
  plans, the execution ledger, the worker registry or the execution repository, or a tick of the
  collection scheduler, on the shared database, and a run of the system is a sequence of calls, in any
  order, by any caller and at any times, that starts from a database without work.
\<close>

inductive control_call :: "control_store \<Rightarrow> control_store \<Rightarrow> bool" where
  dispatch: "control_call db (snd (dispatchManual now runId jobId inp db))"
| cancel: "control_call db (snd (cancel now i expected reason db))"
| create_worker: "control_call db (snd (createWorker env cfg now now' workerId credential win db))"
| update_worker: "control_call db (snd (updateWorker cfg now now' i upd expected db))"
| rotate: "control_call db (snd (rotateCredential env now credential i db))"
| beat: "control_call db (snd (heartbeat env cfg now now' heartbeatId beat credential db))"
| claim: "control_call db (snd (claim env cfg now now' leaseId token workerId credential db))"
| claim_specific: "control_call db (snd (claimSpecific env cfg now now' leaseId token workerId credential jobId db))"
| renew: "control_call db (snd (renewLease env cfg now workerId credential leaseId token db))"
| safe_renew: "control_call db (snd (safe_renewLease env cfg now now' workerId credential leaseId token db))"
| release: "control_call db (snd (releaseLease env now workerId credential leaseId token reason db))"
| reap: "control_call db (snd (reapExpired now db))"
| start: "control_call db (snd (startExecution env now attemptId eventId workerId credential leaseId token startInput db))"
| uploading: "control_call db (snd (markUploading env now eventId workerId credential leaseId token key db))"
| verifying: "control_call db (snd (markVerifying env now eventId workerId credential leaseId token key db))"
| complete: "control_call db (snd (completeExecution env now eventId retryId workerId credential leaseId token completion db))"
| fail: "control_call db (snd (failExecution env now' now eventId retryId workerId credential leaseId token failInput db))"
| reconcile: "control_call db (snd (reconcileExpired env now ids db))"
| tick: "control_call db (snd (control_tick zones env fresh clock observedAt limit ss db))"
| initialize: "control_call db (initializeRegistry db)"
| create_source: "control_call db (snd (createSource now i sourceInput db))"
| update_source: "control_call db (snd (updateSource now i sourceUpdate expected db))"
| create_connector: "control_call db (snd (createConnector now connectorInput db))"
| connector_status: "control_call db (snd (updateConnectorStatus now connectorKey status db))"
| create_plan: "control_call db (snd (createPlan now i planInput db))"
| update_plan: "control_call db (snd (updatePlan now i planUpdate expected db))"
| plan_status: "control_call db (snd (updatePlanStatus now now' i status expected db))"
| default_plan: "control_call db (snd (setSourceDefaultPlan now i planId expected db))"

text \<open>Every method meets the contract, so every call keeps the invariant and follows the specification.\<close>

lemmas method_contracts =
  dispatch_ctl.controlled cancel_ctl.controlled create_worker_ctl.controlled update_worker_ctl.controlled
  rotate_ctl.controlled heartbeat_ctl.controlled claim_ctl.controlled claimSpecific_ctl.controlled
  renew_ctl.controlled safe_renew_ctl.controlled release_ctl.controlled reap_ctl.controlled
  start_ctl.controlled uploading_ctl.controlled verifying_ctl.controlled complete_ctl.controlled
  fail_ctl.controlled reconcile_ctl.controlled tick_ctl.controlled
  initialize_reg.controlled [unfolded snd_conv] create_source_reg.controlled update_source_reg.controlled
  create_connector_reg.controlled connector_status_reg.controlled create_plan_reg.controlled
  update_plan_reg.controlled plan_status_reg.controlled default_plan_reg.controlled

lemma call_controlled: "control_call db db' \<Longrightarrow> control_step db db'"
  by (cases rule: control_call.cases) (assumption | simp only: method_contracts)+

lemma control_stepD:
  assumes "control_step db db'" "well_formed db"
  shows "well_formed db'" "spec_step\<^sup>*\<^sup>* (view_of db) (view_of db')"
  using assms spec_steps_coordinated by (auto simp: control_step_def well_formed_def simp del: view_simps)

lemma calls_controlled:
  assumes "control_call\<^sup>*\<^sup>* db db'" "well_formed db"
  shows "well_formed db' \<and> spec_step\<^sup>*\<^sup>* (view_of db) (view_of db')"
  using assms
proof (induction rule: rtranclp_induct)
  case (step y z)
  with control_stepD [OF call_controlled [OF step.hyps(2)]] show ?case
    by (auto intro: rtranclp_trans simp del: view_simps)
qed simp

definition without_work :: "control_store \<Rightarrow> bool" where
  "without_work db \<longleftrightarrow>
     collection_runs db = [] \<and> jobs db = [] \<and> leases db = [] \<and> attempts db = [] \<and> events db = []
     \<and> coherent wr_id canon_worker (workers db)"

lemma without_work_view: "without_work db \<Longrightarrow> view_of db = spec_init"
  by (simp add: without_work_def view_of_def spec_init_def fun_eq_iff run_by_id_def job_by_id_def lease_by_id_def)

lemma without_work_well_formed: "without_work db \<Longrightarrow> well_formed db"
  using without_work_view [of db] coordinated_init
  by (simp add: well_formed_def store_ok_def without_work_def linked_def lease_links_def attempt_links_def
      job_links_def del: view_simps)

definition reachable_store :: "control_store \<Rightarrow> bool" where
  "reachable_store db \<longleftrightarrow> (\<exists>db0. without_work db0 \<and> control_call\<^sup>*\<^sup>* db0 db)"

lemma reachable_well_formed: "reachable_store db \<Longrightarrow> well_formed db"
  using calls_controlled without_work_well_formed by (auto simp: reachable_store_def)

lemma reachable_call: "reachable_store db \<Longrightarrow> control_call db db' \<Longrightarrow> reachable_store db'"
  by (auto simp: reachable_store_def intro: rtranclp.rtrancl_into_rtrancl)

lemma coordinated_parts:
  assumes "well_formed db"
  shows "run_part (sp_runs (view_of db)) (sp_jobs (view_of db))"
    "lease_part (sp_jobs (view_of db)) (sp_leases (view_of db))"
    "attempt_part (sp_attempts (view_of db)) (sp_jobs (view_of db)) (sp_leases (view_of db))"
  using assms by (simp_all add: well_formed_def coordinated_def del: view_simps)

text \<open>The one live job of a run, and the one active attempt of a job, in a reachable store.\<close>

lemma live_job_of_run:
  assumes "reachable_store db" "j \<in> set (jobs db)" "live_job (jr_status j)"
  shows "\<exists>r. run_by_id (jr_run_id j) db = Some r \<and> rr_status r = deriveRunStatusFromJob (jr_status j)
    \<and> filter (\<lambda>x. jr_run_id x = jr_run_id j \<and> live_job (jr_status x)) (jobs db) = [j]"
proof -
  note wf = reachable_well_formed [OF assms(1)]
  have ok: "store_ok db" using wf by (simp add: well_formed_def)
  note p = coordinated_parts(1) [OF wf]
  have view: "sp_jobs (view_of db) (jr_id x) = Some (jr_run_id x, jr_attempt x, jr_status x)" if "x \<in> set (jobs db)" for x
    using row_found(2) [OF ok that] by simp
  have "sp_runs (view_of db) (jr_run_id j) = Some (deriveRunStatusFromJob (jr_status j))"
    by (rule run_partD(2) [OF p view [OF assms(2)] assms(3)])
  moreover have "filter (\<lambda>x. jr_run_id x = jr_run_id j \<and> live_job (jr_status x)) (jobs db) = [j]"
  proof (rule filter_unique_key [of jr_id])
    show "distinct (map jr_id (jobs db))" using ok by (simp add: store_ok_def coherent_def)
    show "jr_id y = jr_id j" if "y \<in> set (jobs db)" "jr_run_id y = jr_run_id j \<and> live_job (jr_status y)" for y
      using run_partD(3) [OF p view [OF that(1)], of "jr_id j" "jr_attempt j" "jr_status j"] view [OF assms(2)] that(2) assms(3) by simp
  qed (use assms in simp_all)
  ultimately show ?thesis by auto
qed

lemma active_attempt_of_job:
  assumes "reachable_store db" "a \<in> set (attempts db)" "active_attempt (ar_status a)"
  shows "\<exists>j. job_by_id (ar_job_id a) db = Some j \<and> jr_status j = job_of_attempt (ar_status a)
    \<and> jr_attempt j = ar_job_attempt a \<and> jr_run_id j = ar_run_id a
    \<and> filter (\<lambda>x. ar_job_id x = ar_job_id a) (attempts db) = [a]"
proof -
  note wf = reachable_well_formed [OF assms(1)]
  have ok: "store_ok db" "linked db" using wf by (simp_all add: well_formed_def)
  note p = coordinated_parts(3) [OF wf]
  have view: "sp_attempts (view_of db) (ar_id x) = Some (ar_job_id x, ar_job_attempt x, ar_lease_id x, ar_status x)"
    if "x \<in> set (attempts db)" for x
    using attempt_columns(8) [OF ok(1) that] by simp
  note v = view [OF assms(2)]
  obtain j where j: "job_by_id (ar_job_id a) db = Some j" "jr_attempt j = ar_job_attempt a"
    using attempt_partD(2) [OF p v] by auto
  then have "jr_status j = job_of_attempt (ar_status a)"
    using attempt_partD(3) [OF p v assms(3), of "jr_run_id j" "jr_attempt j" "jr_status j"] by simp
  moreover have "filter (\<lambda>x. ar_job_id x = ar_job_id a) (attempts db) = [a]"
  proof (rule filter_unique_key [of ar_id])
    show "distinct (map ar_id (attempts db))" using ok(1) by (simp add: store_ok_def coherent_def)
    show "ar_id y = ar_id a" if "y \<in> set (attempts db)" "ar_job_id y = ar_job_id a" for y
    proof -
      have "ar_job_attempt y = ar_job_attempt a"
        using attempt_partD(2) [OF p view [OF that(1)]] j that(2) by auto
      with attempt_partD(4) [OF p view [OF that(1)]] v that(2) show ?thesis by metis
    qed
  qed (use assms in simp_all)
  ultimately show ?thesis using j linked_run(2) [OF ok(2,1) j(1) assms(2)] by simp
qed

end
