(* ===== verification/Execution_Results.thy ===== *)
theory Execution_Results
  imports Control_Plane
begin

text \<open>
  What a successful call of the execution repository returns and writes: the facts the properties of
  starts, completions, failures and replays rest on.
\<close>

section \<open>Answers that are not replays\<close>

lemma findReplay_True: "findReplay db w l key op d = Inr (Some (a, e, b)) \<Longrightarrow> b"
  by (auto simp: findReplay_def split: option.splits if_splits)

lemma replay_or_fresh:
  assumes "replay_or env w cred l tok key op d k db = (Inr (a, e, False), db')"
  obtains n where "key = Inr n" "k n db = (Inr (a, e, False), db')" "findReplay db w l n op d = Inr None"
  using assms
  by (auto simp: replay_or_def and_then_Inr split: sum.splits option.splits prod.splits
      dest: findReplay_True intro: that)

lemma committed_body: "in_transaction db body = (Inr a, db') \<Longrightarrow> body = Inr (a, db')"
  by (auto simp: in_transaction_def split: sum.splits)

lemma start_fresh:
  assumes "startExecution env now attemptId eventId w cred l tok inp db = (Inr (a, e, False), db')"
  obtains key where "normalizeTransitionKey (si_idempotencyKey inp) = Inr key"
    "start_body env now attemptId eventId w l tok (si_executor inp) key
       (hashPayload env (JObj [(''executor'', si_executor inp)])) db = Inr ((a, e, False), db')"
  using assms
  by (auto simp: startExecution_def Let_def split: if_splits elim!: replay_or_fresh dest!: committed_body intro: that)

lemma complete_fresh:
  assumes "completeExecution env now eventId retryId w cred l tok inp db = (Inr (a, e, False), db')"
  obtains key where "normalizeTransitionKey (ci_idempotencyKey inp) = Inr key"
    "terminal_body env now eventId retryId w l tok key ''COMPLETE''
       (hashPayload env (JObj [(''receipt'', ci_receipt inp)])) (Receipt (ci_receipt inp)) db = Inr ((a, e, False), db')"
  using assms
  by (auto simp: completeExecution_def Let_def split: if_splits elim!: replay_or_fresh dest!: committed_body intro: that)

definition reported_failure :: "fail_input \<Rightarrow> int \<Rightarrow> execution_failure" where
  "reported_failure inp occurred =
     \<lparr> failure_code = trim (fi_code inp), failure_message = trim (fi_message inp),
       failure_retryable = fi_retryable inp, failure_occurredAt = to_iso occurred \<rparr>"

definition failure_digest :: "platform \<Rightarrow> fail_input \<Rightarrow> string" where
  "failure_digest env inp =
     hashPayload env (JObj [(''code'', JStr (trim (fi_code inp))), (''message'', JStr (trim (fi_message inp))),
       (''retryable'', JBool (fi_retryable inp))])"

lemma fail_fresh:
  assumes "failExecution env occurred now eventId retryId w cred l tok inp db = (Inr (a, e, False), db')"
  obtains key where "normalizeTransitionKey (fi_idempotencyKey inp) = Inr key"
    "terminal_body env now eventId retryId w l tok key ''FAIL'' (failure_digest env inp)
       (Failure (reported_failure inp occurred)) db = Inr ((a, e, False), db')"
  using assms
  by (auto simp: failExecution_def Let_def reported_failure_def failure_digest_def split: if_splits
      elim!: replay_or_fresh dest!: committed_body intro: that)

section \<open>Endings\<close>

lemma terminal_result:
  assumes wf: "well_formed db"
    and s: "terminal_body env now eventId retryId w l tok key op d terminal db = Inr ((a, e, False), db')"
  obtains c a0 es where
    "requireActiveContext env db w l tok (to_iso now) = Inr c" "requireAttemptByLease db l = Inr (a0, es)"
    "attempt_jobId a0 = job_id (ctx_job c)" "check_completion db a0 (ctx_job c) terminal = Inr ()"
    "a = ended_attempt a0 terminal (to_iso now)"
    "view_of db' = ended (ending_of terminal (ctx_job c) retryId) c l (attempt_id a0) (view_of db)"
proof -
  from s obtain c a0 es where
    c: "requireActiveContext env db w l tok (to_iso now) = Inr c" "requireAttemptByLease db l = Inr (a0, es)"
      "check_completion db a0 (ctx_job c) terminal = Inr ()" "(a, e, False) = (ended_attempt a0 terminal (to_iso now), e, False)"
    by (auto elim!: terminal_body_Inr)
  from terminal_body_refines(4) [OF wf s] c(1,2) show ?thesis
    by (auto intro!: that [OF c(1,2) _ c(3)] simp: c(4) [simplified])
qed

section \<open>Artifact evidence\<close>

definition evidenced :: "artifact_row list \<Rightarrow> session_row list \<Rightarrow> string \<Rightarrow> string \<Rightarrow> rat \<times> string \<Rightarrow> bool" where
  "evidenced arts sessions attemptId receiptId row \<longleftrightarrow>
     (\<exists>a s. a \<in> set arts \<and> xr_receipt_id a = receiptId \<and> xr_execution_attempt_id a = attemptId
        \<and> s \<in> set sessions \<and> sr_id s = xr_session_id a \<and> sr_status s = ''FINALIZED'' \<and> sr_receipt s \<noteq> None
        \<and> receipt_field ''sizeBytes'' (xr_document a) = JNum (fst row)
        \<and> receipt_field ''artifactKind'' (xr_document a) = JStr (snd row))"

lemma artifact_evidence_Inr:
  assumes "artifact_evidence arts sessions attemptId receiptId = Inr row"
  shows "evidenced arts sessions attemptId receiptId row"
proof -
  from assms obtain a s where
    a: "find (\<lambda>a. xr_receipt_id a = receiptId) arts = Some a" and s: "find_by sr_id (xr_session_id a) sessions = Some s"
    and g: "sr_status s = ''FINALIZED''" "sr_receipt s \<noteq> None" "xr_execution_attempt_id a = attemptId"
    and r: "receipt_field ''sizeBytes'' (xr_document a) = JNum (fst row)"
      "receipt_field ''artifactKind'' (xr_document a) = JStr (snd row)"
    by (auto simp: artifact_evidence_def split: option.splits if_splits json.splits)
  from a have "a \<in> set arts" "xr_receipt_id a = receiptId" by (auto simp: find_Some_iff)
  with find_by_SomeD [OF s] g r show ?thesis
    unfolding evidenced_def by blast
qed

lemma map_result_list_all2:
  "map_result f xs = Inr ys \<Longrightarrow> list_all2 (\<lambda>x y. f x = Inr y) xs ys"
  by (induction xs arbitrary: ys) (auto simp: and_then_Inr)

lemma assertArtifactEvidence_Inr:
  assumes "assertArtifactEvidence db attemptId receipt j = Inr ()" "receipt_field ''metadataOnly'' receipt \<noteq> JBool True"
  obtains arts sessions rows where "artifacts db = Some (arts, sessions)"
    "list_all2 (evidenced arts sessions attemptId) (json_texts (receipt_field ''artifactReceiptIds'' receipt)) rows"
    "set (map snd rows) = set (json_texts (receipt_field ''outputKinds'' receipt))"
    "sum_list (map fst rows) = json_number (receipt_field ''bytesPrepared'' receipt)"
    "of_nat (length rows) \<le> json_number (receipt_field ''itemsObserved'' receipt)"
    "job_type j \<noteq> PAGE_UPDATE_CHECK \<Longrightarrow> of_nat (length rows) = json_number (receipt_field ''itemsObserved'' receipt)"
proof -
  from assms obtain arts sessions rows where a: "artifacts db = Some (arts, sessions)"
    and m: "map_result (artifact_evidence arts sessions attemptId)
        (json_texts (receipt_field ''artifactReceiptIds'' receipt)) = Inr rows"
    and k: "sort (unique_list (map snd rows)) = sort (json_texts (receipt_field ''outputKinds'' receipt))"
    and b: "sum_list (map fst rows) = json_number (receipt_field ''bytesPrepared'' receipt)"
    and n: "\<not> (if job_type j = PAGE_UPDATE_CHECK \<and> \<not> fetchAttachments (plan_policy (job_planSnapshot j))
         then of_nat (length rows) > json_number (receipt_field ''itemsObserved'' receipt)
         else of_nat (length rows) \<noteq> json_number (receipt_field ''itemsObserved'' receipt))"
    by (auto simp: assertArtifactEvidence_def and_then_Inr Let_def simp del: receipt_field.simps split: option.splits if_splits)
  have "list_all2 (evidenced arts sessions attemptId) (json_texts (receipt_field ''artifactReceiptIds'' receipt)) rows"
    by (rule list_all2_mono [OF map_result_list_all2 [OF m] artifact_evidence_Inr])
  moreover have "set (map snd rows) = set (json_texts (receipt_field ''outputKinds'' receipt))"
    using arg_cong [OF k, of set] by simp
  moreover have "of_nat (length rows) \<le> json_number (receipt_field ''itemsObserved'' receipt)"
    using n by (simp split: if_splits)
  ultimately show ?thesis
    using that [OF a] b n by (simp split: if_splits)
qed

section \<open>Replays\<close>

text \<open>The caller is still authenticated when the rows of its lease, job and run are valid documents.\<close>

lemma authenticate_persists:
  assumes auth: "authenticate env db w cred l tok = Inr c0"
    and same: "workers db' = workers db" "credentials db' = credentials db"
    and l: "lease_by_id l db' = Some lr" "lease_valid (lr_document lr)" "lease_workerId (lr_document lr) = w"
      "verifyDigest env tok (lr_token_digest lr)"
    and j: "job_by_id (lr_job_id lr) db' = Some jr" "job_valid (jr_document jr)"
    and r: "run_by_id (lr_run_id lr) db' = Some rr" "run_valid (rr_document rr)"
  shows "\<exists>c. authenticate env db' w cred l tok = Inr c"
proof -
  have "verifyCredential env db' w cred = verifyCredential env db w cred"
    by (simp add: verifyCredential_def worker_by_id_def same)
  with assms show ?thesis
    by (auto simp: authenticate_def ownedContext_def loadLeaseContext_def and_then_Inr)
qed

text \<open>A stored answer is found again under its key.\<close>

lemma storeReplay_found:
  assumes "storeReplay w l key op d a e db = Inr db'" "attempt_valid a" "event_valid e"
  shows "findReplay db' w l key op d = Inr (Some (a, e, True))"
proof -
  have db': "requests db' = requests db @ [\<lparr> qr_worker_id = w, qr_lease_id = l, qr_idempotency_key = key,
        qr_operation = op, qr_payload_hash = d, qr_result = (a, e) \<rparr>]"
    and fresh: "\<not> (\<exists>x\<in>set (requests db). qr_worker_id x = w \<and> qr_lease_id x = l \<and> qr_idempotency_key x = key)"
    using assms(1) by (auto simp: storeReplay_def insert_request_def split: if_splits)
  from fresh have "find (\<lambda>q. qr_worker_id q = w \<and> qr_lease_id q = l \<and> qr_idempotency_key q = key) (requests db) = None"
    by (auto simp: find_None_iff)
  then show ?thesis
    using assms(2,3) by (simp add: findReplay_def db' find_snoc doc_simps)
qed

lemma replay_or_answers:
  assumes "key = Inr n" "authenticate env db w cred l tok = Inr c" "findReplay db w l n op d = Inr (Some (a, e, True))"
  shows "replay_or env w cred l tok key op d k db = (Inr (a, e, True), db)"
  using assms by (simp add: replay_or_def)

lemma replay_or_authentic:
  "replay_or env w cred l tok key op d k db = (Inr x, db') \<Longrightarrow> \<exists>c. authenticate env db w cred l tok = Inr c"
  by (auto simp: replay_or_def and_then_Inr split: sum.splits option.splits prod.splits)

text \<open>The lease's row against the documents of its context.\<close>

lemma active_rows:
  assumes wf: "well_formed db" and ctx: "requireActiveContext env db w l tok t = Inr c"
  obtains lr jr rr where "lease_by_id l db = Some lr" "lr_document lr = ctx_lease c" "lease_workerId (ctx_lease c) = w"
    "verifyDigest env tok (lr_token_digest lr)" "lr_job_id lr = job_id (ctx_job c)" "lr_run_id lr = run_id (ctx_run c)"
    "lease_valid (ctx_lease c)" "lease_id (ctx_lease c) = l"
    "job_by_id (job_id (ctx_job c)) db = Some jr" "run_by_id (run_id (ctx_run c)) db = Some rr"
proof -
  have ok: "store_ok db" "linked db" using wf by (simp_all add: well_formed_def)
  obtain lr jr rr where rows: "lease_by_id l db = Some lr" "job_by_id (lr_job_id lr) db = Some jr"
      "run_by_id (lr_run_id lr) db = Some rr"
    and docs: "lr_document lr = ctx_lease c" "jr_document jr = ctx_job c" "rr_document rr = ctx_run c"
    and guards: "lease_workerId (ctx_lease c) = w" "verifyDigest env tok (lr_token_digest lr)" "lease_valid (ctx_lease c)"
    using ctx
    by (auto simp: requireActiveContext_def ownedContext_def loadLeaseContext_def and_then_Inr
        split: option.splits prod.splits if_splits)
  note ids = lease_columns(1) [OF ok(1) rows(1)] job_columns(1) [OF ok(1) rows(2)] run_columns(1) [OF ok(1) rows(3)]
  show ?thesis
    by (rule that [of lr jr rr]) (use rows docs guards ids in auto)
qed

lemma start_replays:
  assumes wf: "well_formed db"
    and s: "startExecution env now attemptId eventId w cred l tok inp db = (Inr (a, e, False), db')"
  shows "startExecution env now' attemptId' eventId' w cred l tok inp db' = (Inr (a, e, True), db')"
proof -
  let ?d = "hashPayload env (JObj [(''executor'', si_executor inp)])"
  from s obtain key where key: "normalizeTransitionKey (si_idempotencyKey inp) = Inr key"
    and body: "start_body env now attemptId eventId w l tok (si_executor inp) key ?d db = Inr ((a, e, False), db')"
    by (rule start_fresh)
  from s obtain c0 where auth: "authenticate env db w cred l tok = Inr c0" and exe: "isExecutionExecutor (si_executor inp)"
    by (auto simp: startExecution_def Let_def split: if_splits dest!: replay_or_authentic)
  from body obtain c db1 db2 where
    ctx: "requireActiveContext env db w l tok (to_iso now) = Inr c" and av: "attempt_valid a"
    and ev: "buildEvent db eventId a None X_RUNNING E_STARTED key ?d (to_iso now) = Inr e"
    and ins: "insert_attempt a db = Inr db1" "insert_event e db1 = Inr db2"
    and docs: "job_valid ((ctx_job c)\<lparr>job_status := J_RUNNING, job_updatedAt := to_iso now\<rparr>)"
      "run_valid ((ctx_run c)\<lparr>run_status := R_RUNNING, run_updatedAt := to_iso now\<rparr>)"
    and rep: "storeReplay w l key ''START'' ?d a e
       (update_run ((ctx_run c)\<lparr>run_status := R_RUNNING, run_updatedAt := to_iso now\<rparr>)
         (update_job ((ctx_job c)\<lparr>job_status := J_RUNNING, job_updatedAt := to_iso now\<rparr>) db2)) = Inr db'"
    by (auto elim!: start_body_Inr)
  from active_rows [OF wf ctx] obtain lr jr rr where
    lr: "lease_by_id l db = Some lr" "lr_document lr = ctx_lease c" "lease_workerId (ctx_lease c) = w"
      "verifyDigest env tok (lr_token_digest lr)" "lr_job_id lr = job_id (ctx_job c)" "lr_run_id lr = run_id (ctx_run c)"
      "lease_valid (ctx_lease c)"
    and rows: "job_by_id (job_id (ctx_job c)) db = Some jr" "run_by_id (run_id (ctx_run c)) db = Some rr" by metis
  have frame: "jobs db2 = jobs db" "collection_runs db2 = collection_runs db" "leases db2 = leases db"
    using insert_frames(1) [OF ins(1)] insert_frames(2) [OF ins(2)] by simp_all
  have same: "workers db' = workers db" "credentials db' = credentials db"
    using ins rep by (auto simp: insert_attempt_def insert_event_def storeReplay_def insert_request_def update_run_def
        update_job_def split: if_splits)
  note fr = insert_frames(3) [OF rep [unfolded storeReplay_def]]
  have "\<exists>c. authenticate env db' w cred l tok = Inr c"
  proof (rule authenticate_persists [OF auth same, of lr])
    show "lease_by_id l db' = Some lr" using fr frame lr(1) by (simp add: lease_by_id_def)
    show "job_by_id (lr_job_id lr) db' =
        Some (write_job ((ctx_job c)\<lparr>job_status := J_RUNNING, job_updatedAt := to_iso now\<rparr>) jr)"
      using fr frame rows(1) lr(5) by (simp add: by_id_cong(1) [of db'] by_id_cong(1) [of db2 db])
    show "run_by_id (lr_run_id lr) db' =
        Some (write_run ((ctx_run c)\<lparr>run_status := R_RUNNING, run_updatedAt := to_iso now\<rparr>) rr)"
      using fr frame rows(2) lr(6) by (simp add: by_id_cong(2) [of db'] by_id_cong(2) [of db2 db])
  qed (use lr docs in \<open>simp_all add: write_job_def write_run_def\<close>)
  moreover have "event_valid e" using buildEvent_Inr [OF ev] by simp
  ultimately show ?thesis
    using storeReplay_found [OF rep av] replay_or_answers exe key by (auto simp: startExecution_def Let_def)
qed

text \<open>After an ending the job and the run of the lease are rows with valid documents.\<close>

lemma job_by_id_insert: "insert_job j db = Inr db' \<Longrightarrow> job_by_id i db = Some r \<Longrightarrow> job_by_id i db' = Some r"
  by (auto simp: insert_job_def job_by_id_def find_by_append split: if_splits)

lemma insert_job_frame:
  "insert_job j db = Inr db' \<Longrightarrow> workers db' = workers db \<and> credentials db' = credentials db
     \<and> run_by_id i db' = run_by_id i db \<and> lease_by_id i db' = lease_by_id i db"
  by (auto simp: insert_job_def run_by_id_def lease_by_id_def split: if_splits)

lemma update_credentials [simp]:
  "credentials (update_job j db) = credentials db" "credentials (update_run r db) = credentials db"
  "credentials (update_attempt a db) = credentials db" "credentials (update_lease_closed c db) = credentials db"
  by (simp_all add: update_job_def update_run_def update_attempt_def update_lease_closed_def)

lemma settle_rows:
  assumes s: "settle_job env i terminal j c t db = Inr (why, db')"
    and rows: "job_by_id (job_id j) db = Some jr" "run_by_id (run_id c) db = Some rr"
  shows "workers db' = workers db \<and> credentials db' = credentials db \<and> (\<forall>l. lease_by_id l db' = lease_by_id l db)
    \<and> (\<exists>jr'. job_by_id (job_id j) db' = Some jr' \<and> job_valid (jr_document jr'))
    \<and> (\<exists>rr'. run_by_id (run_id c) db' = Some rr' \<and> run_valid (rr_document rr'))"
proof (cases "\<exists>f. terminal = Failure f \<and> failure_retryable f \<and> job_attempt j < job_maxAttempts j")
  case True
  with s obtain available db2 where
    v: "job_valid (j\<lparr>job_status := J_RETRY, job_updatedAt := t\<rparr>)" "run_valid (c\<lparr>run_status := R_PENDING, run_updatedAt := t\<rparr>)"
    and ins: "insert_job (retryJob j i available t) (update_job (j\<lparr>job_status := J_RETRY, job_updatedAt := t\<rparr>) db) = Inr db2"
    and db': "db' = update_run (c\<lparr>run_status := R_PENDING, run_updatedAt := t\<rparr>) db2"
    by (auto simp: settle_job_def and_then_Inr update_document_Inr elim!: insertRetryJob_Inr)
  show ?thesis
    using insert_job_frame [OF ins] job_by_id_insert [OF ins, of "job_id j"] rows v
    by (simp add: db' write_job_def write_run_def)
next
  case False
  with s obtain x y where
    v: "job_valid (j\<lparr>job_status := x, job_updatedAt := t\<rparr>)" "run_valid (c\<lparr>run_status := y, run_updatedAt := t\<rparr>)"
    and db': "db' = update_run (c\<lparr>run_status := y, run_updatedAt := t\<rparr>) (update_job (j\<lparr>job_status := x, job_updatedAt := t\<rparr>) db)"
    by (auto simp: settle_job_def and_then_Inr update_document_Inr split: execution_outcome.splits if_splits)
  then show ?thesis
    using rows by (simp add: db' write_job_def write_run_def)
qed

lemma terminal_authentic:
  assumes wf: "well_formed db" and auth: "authenticate env db w cred l tok = Inr c0"
    and s: "terminal_body env now eventId retryId w l tok key op d terminal db = Inr ((a, e, False), db')"
  shows "(\<exists>c. authenticate env db' w cred l tok = Inr c) \<and> findReplay db' w l key op d = Inr (Some (a, e, True))"
proof -
  from s obtain c and a0 :: execution_attempt and db2 why db3 where
    ctx: "requireActiveContext env db w l tok (to_iso now) = Inr c" and av: "attempt_valid a"
    and ev: "buildEvent db eventId a (Some (attempt_status a0)) (outcome_status terminal) (outcome_event terminal) key d
        (to_iso now) = Inr e"
    and ins: "insert_event e (update_attempt a db) = Inr db2"
    and settle: "settle_job env retryId terminal (ctx_job c) (ctx_run c) (to_iso now) db2 = Inr (why, db3)"
    and lv: "lease_valid (ended_lease (ctx_lease c) L_RELEASED why (to_iso now))"
    and rep: "storeReplay w l key op d a e (update_lease_closed (ended_lease (ctx_lease c) L_RELEASED why (to_iso now)) db3) = Inr db'"
  proof (rule terminal_body_Inr)
    fix c a0 es event db2 why db3
    assume "(a, e, False) = (ended_attempt a0 terminal (to_iso now), event, False)"
    then have eq: "ended_attempt a0 terminal (to_iso now) = a" "event = e" by simp_all
    assume "requireActiveContext env db w l tok (to_iso now) = Inr c"
      "attempt_valid (ended_attempt a0 terminal (to_iso now))"
      "buildEvent db eventId (ended_attempt a0 terminal (to_iso now)) (Some (attempt_status a0)) (outcome_status terminal)
        (outcome_event terminal) key d (to_iso now) = Inr event"
      "insert_event event (update_attempt (ended_attempt a0 terminal (to_iso now)) db) = Inr db2"
      "settle_job env retryId terminal (ctx_job c) (ctx_run c) (to_iso now) db2 = Inr (why, db3)"
      "lease_valid (ended_lease (ctx_lease c) L_RELEASED why (to_iso now))"
      "storeReplay w l key op d (ended_attempt a0 terminal (to_iso now)) event
        (update_lease_closed (ended_lease (ctx_lease c) L_RELEASED why (to_iso now)) db3) = Inr db'"
    note facts = this [unfolded eq]
    show thesis by (rule that [OF facts])
  qed
  from active_rows [OF wf ctx] obtain lr jr rr where
    lr: "lease_by_id l db = Some lr" "lr_document lr = ctx_lease c" "lease_workerId (ctx_lease c) = w"
      "verifyDigest env tok (lr_token_digest lr)" "lr_job_id lr = job_id (ctx_job c)" "lr_run_id lr = run_id (ctx_run c)"
      "lease_valid (ctx_lease c)" "lease_id (ctx_lease c) = l"
    and rows: "job_by_id (job_id (ctx_job c)) db = Some jr" "run_by_id (run_id (ctx_run c)) db = Some rr" by metis
  note fr2 = insert_frames(2) [OF ins]
  have two: "job_by_id i db2 = job_by_id i db" "run_by_id i db2 = run_by_id i db" "lease_by_id i db2 = lease_by_id i db" for i
    using fr2 by (simp_all add: job_by_id_def run_by_id_def lease_by_id_def)
  have same2: "workers db2 = workers db" "credentials db2 = credentials db"
    using ins by (auto simp: insert_event_def split: if_splits)
  from settle_rows [OF settle, unfolded two, OF rows] same2 obtain jr' rr' where
    three: "workers db3 = workers db" "credentials db3 = credentials db" "\<And>i. lease_by_id i db3 = lease_by_id i db"
    and new: "job_by_id (job_id (ctx_job c)) db3 = Some jr'" "job_valid (jr_document jr')"
      "run_by_id (run_id (ctx_run c)) db3 = Some rr'" "run_valid (rr_document rr')"
    by (auto simp: two)
  let ?l = "ended_lease (ctx_lease c) L_RELEASED why (to_iso now)"
  note fr = insert_frames(3) [OF rep [unfolded storeReplay_def]]
  have same: "workers db' = workers db" "credentials db' = credentials db"
    using three(1,2) rep by (auto simp: storeReplay_def insert_request_def split: if_splits)
  have shape: "lease_id ?l = l" "lease_workerId ?l = w" using lr by (simp_all add: ended_lease_def)
  have "\<exists>c. authenticate env db' w cred l tok = Inr c"
  proof (rule authenticate_persists [OF auth same, of "write_lease_closed ?l lr"])
    show "lease_by_id l db' = Some (write_lease_closed ?l lr)"
      using fr lr(1) three(3) shape(1) by (simp add: by_id_cong(3) [of db'])
    show "job_by_id (lr_job_id (write_lease_closed ?l lr)) db' = Some jr'"
      using fr new(1) lr(5) by (simp add: by_id_cong(1) [of db'] write_lease_closed_def)
    show "run_by_id (lr_run_id (write_lease_closed ?l lr)) db' = Some rr'"
      using fr new(3) lr(6) by (simp add: by_id_cong(2) [of db'] write_lease_closed_def)
  qed (use lr lv shape new in \<open>simp_all add: write_lease_closed_def\<close>)
  moreover have "event_valid e" using buildEvent_Inr [OF ev] by simp
  ultimately show ?thesis using storeReplay_found [OF rep av] by simp
qed

lemma complete_replays:
  assumes wf: "well_formed db"
    and s: "completeExecution env now eventId retryId w cred l tok inp db = (Inr (a, e, False), db')"
  shows "completeExecution env now' eventId' retryId' w cred l tok inp db' = (Inr (a, e, True), db')"
proof -
  from s obtain key where key: "normalizeTransitionKey (ci_idempotencyKey inp) = Inr key"
    and body: "terminal_body env now eventId retryId w l tok key ''COMPLETE''
       (hashPayload env (JObj [(''receipt'', ci_receipt inp)])) (Receipt (ci_receipt inp)) db = Inr ((a, e, False), db')"
    by (rule complete_fresh)
  from s obtain c0 where auth: "authenticate env db w cred l tok = Inr c0" and ok: "isExecutionReceipt (ci_receipt inp)"
    by (auto simp: completeExecution_def Let_def split: if_splits dest!: replay_or_authentic)
  from terminal_authentic [OF wf auth body] show ?thesis
    using replay_or_answers key ok by (auto simp: completeExecution_def Let_def)
qed

lemma fail_replays:
  assumes wf: "well_formed db"
    and s: "failExecution env occurred now eventId retryId w cred l tok inp db = (Inr (a, e, False), db')"
  shows "failExecution env occurred' now' eventId' retryId' w cred l tok inp db' = (Inr (a, e, True), db')"
proof -
  from s obtain key where key: "normalizeTransitionKey (fi_idempotencyKey inp) = Inr key"
    and body: "terminal_body env now eventId retryId w l tok key ''FAIL'' (failure_digest env inp)
       (Failure (reported_failure inp occurred)) db = Inr ((a, e, False), db')"
    by (rule fail_fresh)
  from s obtain c0 where auth: "authenticate env db w cred l tok = Inr c0"
    by (auto simp: failExecution_def Let_def dest!: replay_or_authentic)
  from terminal_authentic [OF wf auth body] show ?thesis
    using replay_or_answers key by (auto simp: failExecution_def Let_def failure_digest_def)
qed

section \<open>Retry delays\<close>

text \<open>The capped exponential the jitter is added to.\<close>

definition exponential_backoff :: "job \<Rightarrow> int" where
  "exponential_backoff j =
     (let baseMs = retry_backoffSeconds (plan_policy (job_planSnapshot j)) * 1000
      in min (baseMs * 2 ^ nat (min (max (job_attempt j - 1) 0) 20)) (max baseMs MAX_RETRY_BACKOFF_MS))"

lemma jitter_bounds:
  fixes w :: "32 word" and n :: int
  assumes "0 \<le> n"
  shows "0 \<le> uint w * (n + 1) div 0xffffffff" "uint w * (n + 1) div 0xffffffff \<le> n + 1"
proof -
  have "uint w < 2 ^ LENGTH(32)" by (rule unsigned_less)
  then have le: "uint w \<le> 0xffffffff" by simp
  have ge: "0 \<le> uint w" by simp
  show "0 \<le> uint w * (n + 1) div 0xffffffff"
    using ge assms by (simp add: pos_imp_zdiv_nonneg_iff)
  have "uint w * (n + 1) \<le> 0xffffffff * (n + 1)"
    by (rule mult_right_mono) (use le assms in simp_all)
  then have "uint w * (n + 1) div 0xffffffff \<le> 0xffffffff * (n + 1) div 0xffffffff"
    by (rule zdiv_mono1) simp
  then show "uint w * (n + 1) div 0xffffffff \<le> n + 1" by simp
qed

lemma retry_delay_window:
  assumes "0 \<le> retry_backoffSeconds (plan_policy (job_planSnapshot j))"
  shows "exponential_backoff j \<le> computeExecutionRetryDelayMs env j"
    "computeExecutionRetryDelayMs env j \<le> exponential_backoff j + exponential_backoff j div 4 + 1"
    "computeExecutionRetryDelayMs env j
       \<le> max (retry_backoffSeconds (plan_policy (job_planSnapshot j)) * 1000) MAX_RETRY_BACKOFF_MS + 1"
proof -
  let ?base = "retry_backoffSeconds (plan_policy (job_planSnapshot j)) * 1000"
  let ?cap = "max ?base MAX_RETRY_BACKOFF_MS" and ?e = "exponential_backoff j"
  let ?window = "min (?e div 4) (max (?cap - ?e) 0)"
  let ?w = "readUInt32BE (sha256 env (job_id j @ CHR '':'' # int_text (job_attempt j)))"
  have pos: "0 \<le> ?e" "?e \<le> ?cap"
    using assms by (simp_all add: exponential_backoff_def Let_def MAX_RETRY_BACKOFF_MS_def)
  have d: "computeExecutionRetryDelayMs env j =
      (if ?window = 0 then ?e else ?e + uint ?w * (?window + 1) div 0xffffffff)"
    unfolding computeExecutionRetryDelayMs_def exponential_backoff_def Let_def by (rule refl)
  have w: "0 \<le> ?window" using pos by simp
  note b = jitter_bounds [OF w, of ?w]
  have "?window \<le> max (?cap - ?e) 0" by (rule min.cobounded2)
  also have "max (?cap - ?e) 0 = ?cap - ?e" by (rule max_absorb1) (use pos in linarith)
  finally have "?window \<le> ?cap - ?e" .
  moreover have "?window \<le> ?e div 4" by (rule min.cobounded1)
  moreover have "?e \<le> computeExecutionRetryDelayMs env j \<and> computeExecutionRetryDelayMs env j \<le> ?e + ?window + 1"
  proof (cases "?window = 0")
    case True
    then have "computeExecutionRetryDelayMs env j = ?e" by (rule trans [OF d if_P])
    with w show ?thesis by linarith
  next
    case False
    then have "computeExecutionRetryDelayMs env j = ?e + uint ?w * (?window + 1) div 0xffffffff"
      by (rule trans [OF d if_not_P])
    with b show ?thesis by linarith
  qed
  ultimately show "?e \<le> computeExecutionRetryDelayMs env j"
    "computeExecutionRetryDelayMs env j \<le> ?e + ?e div 4 + 1" "computeExecutionRetryDelayMs env j \<le> ?cap + 1"
    by linarith+
qed

end
