(* ===== verification/Store_Frames.thy ===== *)
theory Store_Frames
  imports Execution_Protocol Scheduler_Protocol
begin

text \<open>
  What a method leaves true of the database. The locale \<open>work_frame\<close> proves once that the ledger, the
  worker registry and the scheduler keep every condition that ignores jobs, leases, workers and their
  credentials and heartbeats and that survives the writes to a run that exists and the insertion of a
  new one; \<open>execution_frame\<close> proves that the execution repository keeps the conditions that ignore
  attempts, events and requests as well. A condition may say that some tables are the ones they were, or
  that what a run was dispatched for is still recorded.
\<close>

section \<open>Dispatching, claiming and keeping leases\<close>

locale work_frame =
  fixes part :: "control_store \<Rightarrow> bool"
  assumes part_update_run: "part db \<Longrightarrow> part (update_run r db)"
    and part_insert_run: "part db \<Longrightarrow> insert_run r db = Inr db' \<Longrightarrow> part db'"
    and part_jobs: "part (db\<lparr>jobs := b\<rparr>) = part db"
    and part_workers: "part (db\<lparr>workers := c\<rparr>) = part db"
    and part_credentials: "part (db\<lparr>credentials := d\<rparr>) = part db"
    and part_heartbeats: "part (db\<lparr>heartbeats := e\<rparr>) = part db"
    and part_leases: "part (db\<lparr>leases := f\<rparr>) = part db"
begin

lemmas part_fields = part_jobs part_workers part_credentials part_heartbeats part_leases

lemma part_updates:
  "part (update_job j db) = part db" "part (update_lease l db) = part db" "part (update_lease_closed l db) = part db"
  by (simp_all add: update_job_def update_lease_def update_lease_closed_def part_fields)

lemma part_inserts:
  "insert_job j db = Inr db2 \<Longrightarrow> part db2 = part db"
  "insert_lease t l db = Inr db3 \<Longrightarrow> part db3 = part db" "insert_worker w db = Inr db4 \<Longrightarrow> part db4 = part db"
  "insert_credential c db = Inr db5 \<Longrightarrow> part db5 = part db" "insert_heartbeat h db = Inr db6 \<Longrightarrow> part db6 = part db"
  by (auto simp: insert_job_def insert_lease_def insert_worker_def insert_credential_def
      insert_heartbeat_def part_fields split: if_splits)

lemma part_transaction:
  "(\<And>a db'. body = Inr (a, db') \<Longrightarrow> part db' = part db) \<Longrightarrow> part (snd (in_transaction db body)) = part db"
  by (auto simp: in_transaction_def split: sum.splits)

lemma part_authenticated:
  "(\<And>a db'. body = Inr (a, db') \<Longrightarrow> part db' = part db) \<Longrightarrow>
     part (snd (case auth of Inl e \<Rightarrow> (Inl e, db) | Inr w \<Rightarrow> in_transaction db body)) = part db"
  using part_transaction [of body db] by (cases auth) simp_all

lemma part_then_view:
  "part (snd t) = v \<Longrightarrow> part (snd (case t of (Inl e, db') \<Rightarrow> (Inl e, db') | (Inr x, db') \<Rightarrow> (f x db', db'))) = v"
  by (cases t) (auto split: sum.splits)

lemma close_and_return_part: "close_and_return s t why l db = Inr db' \<Longrightarrow> part db' = part db"
  by (auto simp: close_and_return_def and_then_Inr closeLease_Inr returnJobToPending_Inr part_updates part_fields
      split: option.splits if_splits)

lemma close_all_part: "fold_result (close_and_return s t why) ls db = Inr db' \<Longrightarrow> part db' = part db"
  by (rule fold_result_invariant [where I = "\<lambda>x. part x = part db"]) (auto dest: close_and_return_part)

lemma reap_part: "reapExpiredInTransaction t db = Inr (n, db') \<Longrightarrow> part db' = part db"
  by (auto simp: reapExpiredInTransaction_def expireLeaseInTransaction_def and_then_Inr dest: close_all_part)

lemma revoke_part: "revokeActiveLeasesForWorker w t why db = Inr db' \<Longrightarrow> part db' = part db"
  by (auto simp: revokeActiveLeasesForWorker_def and_then_Inr dest: close_all_part)

lemma claimJob_part: "claimJobInTransaction env cfg now leaseId token w j db = Inr (res, db') \<Longrightarrow> part db' = part db"
  by (erule claimJob_Inr) (auto simp: update_pending_job_Some part_updates part_fields dest!: part_inserts(2))

lemma claim_body_part:
  "claim_body env cfg now now' leaseId token workerId db = Inr (res, db') \<Longrightarrow> part db' = part db"
  "claimSpecific_body env cfg now now' leaseId token workerId jobId db = Inr (res', db'') \<Longrightarrow> part db'' = part db"
  by (auto simp: claim_body_def claimSpecific_body_def and_then_Inr split: option.splits if_splits
      dest!: reap_part claimJob_part)

lemma claim_part: "part (snd (claim env cfg now now' leaseId token workerId credential db)) = part db"
  by (auto simp: claim_def intro!: part_authenticated dest: claim_body_part)

lemma claimSpecific_part:
  "part (snd (claimSpecific env cfg now now' leaseId token workerId credential jobId db)) = part db"
  by (auto simp: claimSpecific_def intro!: part_authenticated dest: claim_body_part)

lemma reapExpired_part: "part (snd (reapExpired now db)) = part db"
  by (auto simp: reapExpired_def intro!: part_transaction dest: reap_part)

lemma renewLease_part: "part (snd (renewLease env cfg now workerId credential leaseId token db)) = part db"
  by (auto simp: renewLease_def intro!: part_authenticated elim!: renewLease_body_Inr simp: part_updates)

lemma releaseLease_part: "part (snd (releaseLease env now workerId credential leaseId token reason db)) = part db"
proof -
  have "part db2 = part db" if "closeLease l L_RELEASED t why db = Inr (next, db1)"
      "returnJobToPending (lease_jobId l) t db1 = Inr db2" for l t why "next" db1 db2
    using that by (intro close_and_return_part [of L_RELEASED t why l]) (simp add: close_and_return_def)
  then show ?thesis
    unfolding releaseLease_def by (intro part_authenticated) (auto simp: and_then_Inr)
qed

lemma safe_renewLease_part: "part (snd (safe_renewLease env cfg now now' workerId credential leaseId token db)) = part db"
proof -
  obtain res db1 where r: "renewLease env cfg now workerId credential leaseId token db = (res, db1)" by fastforce
  have "part db1 = part db" using renewLease_part [of env cfg now workerId credential leaseId token db] r by simp
  with reapExpired_part [of now' db1] show ?thesis
    by (auto simp: safe_renewLease_def r split: sum.splits prod.splits)
qed

lemma insert_dispatch_part: "insert_dispatch run job db = Inr db' \<Longrightarrow> part db \<Longrightarrow> part db'"
  by (auto simp: insert_dispatch_def and_then_Inr part_inserts(1) dest: part_insert_run)

lemma dispatchManual_part: "part db \<Longrightarrow> part (snd (dispatchManual now runId jobId inp db))"
proof -
  assume old: "part db"
  obtain res db' where d: "dispatchManual now runId jobId inp db = (res, db')" by fastforce
  have "part db'"
  proof (cases "\<exists>run js. res = Inr ((run, js), False)")
    case True
    with d obtain run js where "dispatchManual now runId jobId inp db = (Inr ((run, js), False), db')" by auto
    then obtain job where "insert_dispatch run job db = Inr db'" by (rule dispatchManual_new)
    then show ?thesis using old by (rule insert_dispatch_part)
  next
    case False
    then have "db' = db" using dispatchManual_other [OF d] by auto
    then show ?thesis using old by simp
  qed
  with d show ?thesis by simp
qed

lemma cancel_part: "part db \<Longrightarrow> part (snd (cancel now i expected reason db))"
proof -
  assume old: "part db"
  obtain res db' where c: "cancel now i expected reason db = (res, db')" by fastforce
  have "part db'"
  proof (cases res)
    case (Inl e)
    with c cancel_error old show ?thesis by fastforce
  next
    case (Inr a)
    with c obtain run js where "cancel now i expected reason db = (Inr (run, js), db')" by (cases a) auto
    then obtain db1 where db1: "db1 = update_run run db" "fold_result cancel_job_step js db1 = Inr db'"
      by (rule cancel_Inr)
    have "part db' = part db1"
      by (rule fold_result_invariant [where I = "\<lambda>x. part x = part db1", OF db1(2)])
        (auto simp: cancel_job_step_Inr part_updates)
    with db1(1) old show ?thesis by (simp add: part_update_run)
  qed
  with c show ?thesis by simp
qed

lemma dispatchScheduled_part:
  assumes "dispatchScheduled fresh plan slot now db = (res, db')"
  shows "part db \<Longrightarrow> part db'"
  using assms by (rule dispatchScheduled_cases) (auto dest: insert_dispatch_part)

lemma tick_part: "part db \<Longrightarrow> part (snd (control_tick zones env fresh clock observedAt limit ss db))"
proof -
  assume old: "part db"
  have "part (sd_control sd')"
    if "tick zones env fresh clock observedAt limit sd = (res, sd')" "part (sd_control sd)" for sd res sd'
    using that(1)
  proof (rule tick_loop_of)
    fix now n acc
    assume "tick_loop zones env fresh now (tick_rows now n sd) acc sd = (res, sd')"
    then show ?thesis
      by (rule tick_loop_induct [where I = part]) (auto simp: that(2) dest: dispatchScheduled_part)
  qed (use that(2) in simp)
  from this [of "\<lparr> sd_control = db, sd_states = ss \<rparr>"] old show ?thesis
    by (auto simp: control_tick_def split: prod.splits)
qed

lemma createWorker_part: "part (snd (createWorker env cfg now now' workerId credential inp db)) = part db"
  by (auto simp: createWorker_def Let_def and_then_Inr split: sum.split
      intro!: part_then_view part_transaction dest!: part_inserts)

lemma rotateCredential_part: "part (snd (rotateCredential env now credential i db)) = part db"
  by (auto simp: rotateCredential_def part_fields split: sum.splits option.splits)

lemma heartbeat_part: "part (snd (heartbeat env cfg now now' heartbeatId inp credential db)) = part db"
proof -
  have "part (trim_heartbeats w db1) = part db" if "insert_heartbeat h db = Inr db1" for h w db1
    using part_inserts(5) [OF that] by (simp add: trim_heartbeats_def Let_def part_fields)
  then show ?thesis
    unfolding heartbeat_def
    by (auto simp: and_then_Inr split: sum.split intro!: part_then_view part_transaction)
qed

lemma updateWorker_part: "part (snd (updateWorker cfg now now' i inp expected db)) = part db"
proof -
  have upd: "part db1 = part db" if "update_worker_if i expected' next db = Some db1" for expected' "next" db1
    using that by (auto simp: update_worker_if_def part_fields split: option.splits if_splits)
  show ?thesis
    unfolding updateWorker_def
    by (auto simp: and_then_Inr split: sum.split option.splits if_splits
        intro!: part_then_view part_transaction dest!: upd revoke_part)
qed

lemma settle_part: "settle_job env retryId terminal j r t db = Inr (why, db') \<Longrightarrow> part db \<Longrightarrow> part db'"
  by (auto simp: settle_job_def and_then_Inr update_document_Inr part_updates part_update_run
      elim!: insertRetryJob_Inr dest!: part_inserts(1) split: execution_outcome.splits if_splits)

end

section \<open>Executing\<close>

locale execution_frame = work_frame +
  assumes part_attempts: "part (db\<lparr>attempts := g\<rparr>) = part db"
    and part_events: "part (db\<lparr>events := h\<rparr>) = part db"
    and part_requests: "part (db\<lparr>requests := k\<rparr>) = part db"
begin

lemma part_records:
  "insert_attempt a db = Inr db1 \<Longrightarrow> part db1 = part db" "insert_event ev db = Inr db2 \<Longrightarrow> part db2 = part db"
  "storeReplay w l key op digest a ev db = Inr db3 \<Longrightarrow> part db3 = part db"
  "part (update_attempt a db) = part db"
  by (auto simp: insert_attempt_def insert_event_def storeReplay_def insert_request_def update_attempt_def
      part_attempts part_events part_requests split: if_splits)

lemma start_body_part:
  "start_body env now attemptId eventId w l tok executor key digest db = Inr (res, db') \<Longrightarrow> part db \<Longrightarrow> part db'"
  by (erule start_body_Inr) (auto simp: part_updates part_update_run dest!: part_records(1,2,3))

lemma transition_body_part:
  "transition_body env now eventId w l tok key op expected target digest db = Inr (res, db') \<Longrightarrow> part db' = part db"
  by (erule transition_body_Inr) (auto simp: part_updates part_records(4) dest!: part_records(2,3))

lemma terminal_body_part:
  "terminal_body env now eventId retryId w l tok key op digest terminal db = Inr (res, db') \<Longrightarrow> part db \<Longrightarrow> part db'"
  by (erule terminal_body_Inr) (auto simp: part_updates part_records(4) dest!: part_records(2,3) settle_part)

lemma reconcile_one_part: "reconcile_one env t ir db = Inr db' \<Longrightarrow> part db \<Longrightarrow> part db'"
  by (cases ir, simp, erule reconcile_one_Inr)
    (auto simp: Let_def part_updates part_update_run part_records(4) dest!: part_records(2) split: if_splits)

lemma part_kept_transaction:
  "(\<And>a db'. body = Inr (a, db') \<Longrightarrow> part db') \<Longrightarrow> part db \<Longrightarrow> part (snd (in_transaction db body))"
  by (auto simp: in_transaction_def split: sum.splits)

lemma replay_or_part:
  "(\<And>n. part (snd (k n db))) \<Longrightarrow> part db \<Longrightarrow> part (snd (replay_or env w cred l tok key op d k db))"
  by (auto simp: replay_or_def split: sum.split option.split)

lemma startExecution_part: "part db \<Longrightarrow> part (snd (startExecution env now attemptId eventId w cred l tok inp db))"
  by (auto simp: startExecution_def Let_def intro!: replay_or_part part_kept_transaction dest: start_body_part)

lemma markUploading_part: "part db \<Longrightarrow> part (snd (markUploading env now eventId w cred l tok key db))"
  by (auto simp: markUploading_def transitionExecution_def Let_def intro!: replay_or_part part_kept_transaction
      dest: transition_body_part)

lemma markVerifying_part: "part db \<Longrightarrow> part (snd (markVerifying env now eventId w cred l tok key db))"
  by (auto simp: markVerifying_def transitionExecution_def Let_def intro!: replay_or_part part_kept_transaction
      dest: transition_body_part)

lemma completeExecution_part: "part db \<Longrightarrow> part (snd (completeExecution env now eventId retryId w cred l tok inp db))"
  by (auto simp: completeExecution_def Let_def intro!: replay_or_part part_kept_transaction dest: terminal_body_part)

lemma failExecution_part: "part db \<Longrightarrow> part (snd (failExecution env occurred now eventId retryId w cred l tok inp db))"
  by (auto simp: failExecution_def Let_def intro!: replay_or_part part_kept_transaction dest: terminal_body_part)

lemma reconcileExpired_part: "part db \<Longrightarrow> part (snd (reconcileExpired env now ids db))"
proof -
  assume old: "part db"
  have "part db'" if "fold_result (reconcile_one env t) rs db = Inr db'" for t rs db'
    using that by (rule fold_result_invariant [where I = part]) (auto simp: old dest: reconcile_one_part)
  then show ?thesis
    using old by (auto simp: reconcileExpired_def and_then_Inr Let_def intro!: part_kept_transaction)
qed

lemmas method_parts =
  dispatchManual_part cancel_part tick_part startExecution_part markUploading_part markVerifying_part
  completeExecution_part failExecution_part reconcileExpired_part

lemmas registry_parts =
  createWorker_part updateWorker_part rotateCredential_part heartbeat_part claim_part claimSpecific_part
  renewLease_part safe_renewLease_part releaseLease_part reapExpired_part

lemmas kept_parts = method_parts registry_parts [THEN iffD2]

end

end
