(* ===== verification/Audit_Trail.thy ===== *)
theory Audit_Trail
  imports Execution_Results Store_Frames
begin

text \<open>
  The events of an execution attempt as its audit trail: in every store the control plane can reach,
  the events of an attempt are numbered from one without gaps, each starts at the status the previous
  one ended at, and the last one ends at the status the attempt has now.
\<close>

section \<open>Trails\<close>

definition log_of :: "string \<Rightarrow> control_store \<Rightarrow> event_row list" where
  "log_of a db = filter (\<lambda>e. er_attempt_id e = a) (events db)"

fun chained :: "attempt_status option \<Rightarrow> execution_event list \<Rightarrow> attempt_status option \<Rightarrow> bool" where
  "chained x [] y \<longleftrightarrow> x = y"
| "chained x (e # es) y \<longleftrightarrow> event_fromStatus e = x \<and> chained (Some (event_toStatus e)) es y"

definition status_of :: "string \<Rightarrow> control_store \<Rightarrow> attempt_status option" where
  "status_of a db = map_option ar_status (find_by ar_id a (attempts db))"

definition audited :: "control_store \<Rightarrow> bool" where
  "audited db \<longleftrightarrow>
     (\<forall>a. chained None (map er_document (log_of a db)) (status_of a db)
        \<and> map er_sequence (log_of a db) = map int [1..<length (log_of a db) + 1])"

lemma chained_snoc:
  "chained x (es @ [e]) y \<longleftrightarrow> chained x es (event_fromStatus e) \<and> y = Some (event_toStatus e)"
  by (induction es arbitrary: x) auto

text \<open>One event recorded for one attempt, from its old status to its new one.\<close>

lemma audited_record:
  assumes "audited db" and ev: "events db' = events db @ [event_row_of e]"
    and "event_sequence e = int (length (log_of (event_attemptId e) db)) + 1"
    and "event_fromStatus e = status_of (event_attemptId e) db"
    and "status_of (event_attemptId e) db' = Some (event_toStatus e)"
    and "\<And>a. a \<noteq> event_attemptId e \<Longrightarrow> status_of a db' = status_of a db"
  shows "audited db'"
  unfolding audited_def
proof
  fix a
  have row: "er_attempt_id (event_row_of e) = event_attemptId e" "er_sequence (event_row_of e) = event_sequence e"
    "er_document (event_row_of e) = e" by (simp_all add: event_row_of_def)
  show "chained None (map er_document (log_of a db')) (status_of a db')
      \<and> map er_sequence (log_of a db') = map int [1..<length (log_of a db') + 1]"
  proof (cases "a = event_attemptId e")
    case True
    then have "log_of a db' = log_of a db @ [event_row_of e]" by (simp add: log_of_def ev row)
    with assms True show ?thesis by (simp add: audited_def row chained_snoc)
  next
    case False
    then have "log_of a db' = log_of a db" by (simp add: log_of_def ev row)
    with assms False show ?thesis by (simp add: audited_def)
  qed
qed

text \<open>What leaves events and attempts alone leaves the trail alone.\<close>

definition same_log :: "control_store \<Rightarrow> control_store \<Rightarrow> bool" where
  "same_log db db' \<longleftrightarrow> events db' = events db \<and> attempts db' = attempts db"

lemma same_log_refl [simp]: "same_log db db"
  by (simp add: same_log_def)

lemma same_log_trans: "same_log db db1 \<Longrightarrow> same_log db1 db2 \<Longrightarrow> same_log db db2"
  by (simp add: same_log_def)

lemma same_log_audited: "same_log db db' \<Longrightarrow> audited db \<Longrightarrow> audited db'"
  by (simp add: same_log_def audited_def log_of_def status_of_def)

lemma same_log_iff: "same_log db db' \<longleftrightarrow> (events db', attempts db') = (events db, attempts db)"
  by (auto simp: same_log_def)

locale audited_operation =
  fixes run :: "control_store \<Rightarrow> 'a result \<times> control_store"
  assumes audited: "well_formed db \<Longrightarrow> audited db \<Longrightarrow> audited (snd (run db))"
begin

lemma keeps_audited: "well_formed db \<Longrightarrow> audited db \<Longrightarrow> run db = (res, db') \<Longrightarrow> audited db'"
  using audited [of db] by simp

end

text \<open>A method that records nothing.\<close>

locale silent_operation =
  fixes run :: "control_store \<Rightarrow> 'a result \<times> control_store"
  assumes silent: "same_log db (snd (run db))"

sublocale silent_operation \<subseteq> audited_operation
  by unfold_locales (rule same_log_audited [OF silent])

section \<open>The methods that record nothing\<close>

interpretation log_part: work_frame "\<lambda>db. (events db, attempts db) = v" for v
  by unfold_locales (auto simp: insert_run_def update_run_def split: if_splits)

interpretation claim_log: silent_operation "claim env cfg now now' leaseId token workerId credential"
  for env cfg now now' leaseId token workerId credential
  by unfold_locales (simp only: same_log_iff log_part.claim_part)

interpretation claimSpecific_log: silent_operation "claimSpecific env cfg now now' leaseId token workerId credential jobId"
  for env cfg now now' leaseId token workerId credential jobId
  by unfold_locales (simp only: same_log_iff log_part.claimSpecific_part)

interpretation reap_log: silent_operation "reapExpired now"
  for now
  by unfold_locales (simp only: same_log_iff log_part.reapExpired_part)

interpretation renew_log: silent_operation "renewLease env cfg now workerId credential leaseId token"
  for env cfg now workerId credential leaseId token
  by unfold_locales (simp only: same_log_iff log_part.renewLease_part)

interpretation safe_renew_log: silent_operation "safe_renewLease env cfg now now' workerId credential leaseId token"
  for env cfg now now' workerId credential leaseId token
  by unfold_locales (simp only: same_log_iff log_part.safe_renewLease_part)

interpretation release_log: silent_operation "releaseLease env now workerId credential leaseId token reason"
  for env now workerId credential leaseId token reason
  by unfold_locales (simp only: same_log_iff log_part.releaseLease_part)

interpretation dispatch_log: silent_operation "dispatchManual now runId jobId inp"
  for now runId jobId inp
  by unfold_locales (simp only: same_log_iff log_part.dispatchManual_part [OF refl])

interpretation cancel_log: silent_operation "cancel now i expected reason"
  for now i expected reason
  by unfold_locales (simp only: same_log_iff log_part.cancel_part [OF refl])

interpretation tick_log: silent_operation "control_tick zones env fresh clock observedAt limit ss"
  for zones env fresh clock observedAt limit ss
  by unfold_locales (simp only: same_log_iff log_part.tick_part [OF refl])

interpretation create_worker_log: silent_operation "createWorker env cfg now now' workerId credential inp"
  for env cfg now now' workerId credential inp
  by unfold_locales (simp only: same_log_iff log_part.createWorker_part)

interpretation update_worker_log: silent_operation "updateWorker cfg now now' i inp expected"
  for cfg now now' i inp expected
  by unfold_locales (simp only: same_log_iff log_part.updateWorker_part)

interpretation rotate_log: silent_operation "rotateCredential env now credential i"
  for env now credential i
  by unfold_locales (simp only: same_log_iff log_part.rotateCredential_part)

interpretation heartbeat_log: silent_operation "heartbeat env cfg now now' heartbeatId inp credential"
  for env cfg now now' heartbeatId inp credential
  by unfold_locales (simp only: same_log_iff log_part.heartbeat_part)

text \<open>The registries write neither table.\<close>

lemma same_work_log: "same_work db db' \<Longrightarrow> same_log db db'"
  by (simp add: same_work_def same_log_def)

interpretation initialize_log: silent_operation "\<lambda>db. (Inr () :: unit result, initializeRegistry db)"
  by unfold_locales (rule same_work_log [OF initialize_reg.work])

interpretation create_source_log: silent_operation "createSource now i inp"
  for now i inp
  by unfold_locales (rule same_work_log [OF create_source_reg.work])

interpretation update_source_log: silent_operation "updateSource now i inp expected"
  for now i inp expected
  by unfold_locales (rule same_work_log [OF update_source_reg.work])

interpretation create_connector_log: silent_operation "createConnector now inp"
  for now inp
  by unfold_locales (rule same_work_log [OF create_connector_reg.work])

interpretation connector_status_log: silent_operation "updateConnectorStatus now k t"
  for now k t
  by unfold_locales (rule same_work_log [OF connector_status_reg.work])

interpretation create_plan_log: silent_operation "createPlan now i inp"
  for now i inp
  by unfold_locales (rule same_work_log [OF create_plan_reg.work])

interpretation update_plan_log: silent_operation "updatePlan now i inp expected"
  for now i inp expected
  by unfold_locales (rule same_work_log [OF update_plan_reg.work])

interpretation plan_status_log: silent_operation "updatePlanStatus now now' i t expected"
  for now now' i t expected
  by unfold_locales (rule same_work_log [OF plan_status_reg.work])

interpretation default_plan_log: silent_operation "setSourceDefaultPlan now i planId expected"
  for now i planId expected
  by unfold_locales (rule same_work_log [OF default_plan_reg.work])

section \<open>The methods that record an event\<close>

lemma buildEvent_record:
  assumes "buildEvent db i a from to ty key digest t = Inr e"
  shows "event_sequence e = int (length (log_of (event_attemptId e) db)) + 1" "event_attemptId e = attempt_id a"
    "event_fromStatus e = from" "event_toStatus e = to"
  using buildEvent_Inr [OF assms] by (simp_all add: log_of_def)

lemma start_body_audited:
  assumes au: "audited db"
    and s: "start_body env now attemptId eventId w l tok executor key digest db = Inr (res, db')"
  shows "audited db'"
proof -
  from s obtain c attempt event db1 db2 where
    ctx: "requireActiveContext env db w l tok (to_iso now) = Inr c"
    and at: "attempt = new_attempt attemptId w executor (ctx_job c) (ctx_lease c) (to_iso now)"
    and ev: "buildEvent db eventId attempt None X_RUNNING E_STARTED key digest (to_iso now) = Inr event"
    and ins: "insert_attempt attempt db = Inr db1" "insert_event event db1 = Inr db2"
    and rep: "storeReplay w l key ''START'' digest attempt event
       (update_run ((ctx_run c)\<lparr>run_status := R_RUNNING, run_updatedAt := to_iso now\<rparr>)
         (update_job ((ctx_job c)\<lparr>job_status := J_RUNNING, job_updatedAt := to_iso now\<rparr>) db2)) = Inr db'"
    by (rule start_body_Inr)
  note e = buildEvent_record [OF ev]
  have rows: "attempts db1 = attempts db @ [attempt_row_of attempt]" "attempt_id attempt \<notin> ar_id ` set (attempts db)"
    using ins(1) by (auto simp: insert_attempt_def split: if_splits)
  note fr = insert_frames(1) [OF ins(1)] insert_frames(2) [OF ins(2)] insert_frames(3) [OF rep [unfolded storeReplay_def]]
  have db': "events db' = events db @ [event_row_of event]" "attempts db' = attempts db @ [attempt_row_of attempt]"
    using fr rows(1) by simp_all
  show ?thesis
  proof (rule audited_record [OF au db'(1) e(1)])
    have new: "find_by ar_id (attempt_id attempt) (attempts db) = None"
      using rows(2) by (simp add: find_by_None)
    show "event_fromStatus event = status_of (event_attemptId event) db"
      using new e by (simp add: status_of_def)
    show "status_of (event_attemptId event) db' = Some (event_toStatus event)"
      using new e by (simp add: status_of_def db'(2) find_by_append attempt_row_of_def at)
    show "status_of a db' = status_of a db" if "a \<noteq> event_attemptId event" for a
      using that e by (simp add: status_of_def db'(2) find_by_append attempt_row_of_def split: option.splits)
  qed
qed

text \<open>Recording the new status of an existing attempt.\<close>

lemma audited_update:
  assumes au: "audited db" and row: "find_by ar_id (attempt_id a) (attempts db) = Some r" "ar_status r = old"
    and ev: "buildEvent db eventId next (Some old) (attempt_status next) ty key digest t = Inr event"
      "attempt_id next = attempt_id a"
    and db': "events db' = events db @ [event_row_of event]" "attempts db' = attempts (update_attempt next db)"
  shows "audited db'"
proof (rule audited_record [OF au db'(1)])
  note e = buildEvent_record [OF ev(1)]
  show "event_sequence event = int (length (log_of (event_attemptId event) db)) + 1" by (rule e(1))
  show "event_fromStatus event = status_of (event_attemptId event) db"
    using row e ev(2) by (simp add: status_of_def)
  show "status_of (event_attemptId event) db' = Some (event_toStatus event)"
    using row e ev(2) by (simp add: status_of_def db'(2) update_attempt_def write_attempt.find_update write_attempt_def)
  show "status_of b db' = status_of b db" if "b \<noteq> event_attemptId event" for b
    using that e ev(2) by (simp add: status_of_def db'(2) update_attempt_def write_attempt.find_update_other)
qed

lemma transition_body_audited:
  assumes wf: "well_formed db" and au: "audited db"
    and s: "transition_body env now eventId w l tok key op expected target digest db = Inr (res, db')"
  shows "audited db'"
proof -
  have ok: "store_ok db" using wf by (simp add: well_formed_def)
  let ?next = "\<lambda>a. a\<lparr>attempt_status := target, attempt_updatedAt := to_iso now\<rparr>"
  from s obtain c a es event db2 where
    ctx: "requireActiveContext env db w l tok (to_iso now) = Inr c"
    and at: "requireAttemptByLease db l = Inr (a, es)" and st: "attempt_status a = expected"
    and ev: "buildEvent db eventId (?next a) (Some expected) target op key digest (to_iso now) = Inr event"
    and ins: "insert_event event (update_attempt (?next a) db) = Inr db2"
    and rep: "storeReplay w l key (event_type_name op) digest (?next a) event
       (update_job ((ctx_job c)\<lparr>job_status := job_of_attempt target, job_updatedAt := to_iso now\<rparr>) db2) = Inr db'"
    by (rule transition_body_Inr)
  from at ok obtain r where r: "find_by ar_id (attempt_id a) (attempts db) = Some r" "attempt_row_of a = r"
    by (rule requireAttempt_Inr)
  note fr = insert_frames(2) [OF ins] insert_frames(3) [OF rep [unfolded storeReplay_def]]
  show ?thesis
    by (rule audited_update [OF au r(1), of expected eventId "?next a"]) (use r ev st fr in \<open>auto simp: attempt_row_of_def\<close>)
qed

lemma terminal_body_audited:
  assumes wf: "well_formed db" and au: "audited db"
    and s: "terminal_body env now eventId retryId w l tok key op digest terminal db = Inr (res, db')"
  shows "audited db'"
proof -
  have ok: "store_ok db" using wf by (simp add: well_formed_def)
  let ?next = "\<lambda>a. ended_attempt a terminal (to_iso now)"
  from s obtain c a es event db2 why db3 where
    ctx: "requireActiveContext env db w l tok (to_iso now) = Inr c"
    and at: "requireAttemptByLease db l = Inr (a, es)"
    and ev: "buildEvent db eventId (?next a) (Some (attempt_status a)) (outcome_status terminal)
       (outcome_event terminal) key digest (to_iso now) = Inr event"
    and ins: "insert_event event (update_attempt (?next a) db) = Inr db2"
    and settle: "settle_job env retryId terminal (ctx_job c) (ctx_run c) (to_iso now) db2 = Inr (why, db3)"
    and rep: "storeReplay w l key op digest (?next a) event
       (update_lease_closed (ended_lease (ctx_lease c) L_RELEASED why (to_iso now)) db3) = Inr db'"
    by (rule terminal_body_Inr)
  from at ok obtain r where r: "find_by ar_id (attempt_id a) (attempts db) = Some r" "attempt_row_of a = r"
    by (rule requireAttempt_Inr)
  have "(events db3, attempts db3) = (events db2, attempts db2)" by (rule log_part.settle_part [OF settle refl])
  then have "events db3 = events db2" "attempts db3 = attempts db2" by (simp_all add: same_log_def)
  note fr = this insert_frames(2) [OF ins] insert_frames(3) [OF rep [unfolded storeReplay_def]]
  show ?thesis
    by (rule audited_update [OF au r(1), of "attempt_status a" eventId "?next a"]) (use r ev fr in \<open>auto simp: attempt_row_of_def\<close>)
qed

lemma reconcile_one_audited:
  assumes wf: "well_formed db" and cur: "current_row db row" and au: "audited db"
    and s: "reconcile_one env t (i, row) db = Inr db'"
  shows "audited db'"
proof -
  have ok: "store_ok db" using wf by (simp add: well_formed_def)
  let ?next = "ended_attempt (rc_attempt row) (Failure (abandonment t)) t"
  from s obtain event db2 key digest where
    ev: "buildEvent db i ?next (Some (attempt_status (rc_attempt row))) X_FAILED E_ABANDONED key digest t = Inr event"
    and ins: "insert_event event (update_attempt ?next db) = Inr db2"
    and db': "events db' = events db2" "attempts db' = attempts db2"
    by (rule reconcile_one_Inr) (auto simp: Let_def intro: that split: if_splits)
  from cur obtain r where r: "find_by ar_id (attempt_id (rc_attempt row)) (attempts db) = Some r" "ar_document r = rc_attempt row"
    by (auto simp: current_row_def)
  have "ar_status r = attempt_status (rc_attempt row)"
    using attempt_columns [OF ok] find_by_SomeD [OF r(1)] r(2) by metis
  note fr = insert_frames(2) [OF ins]
  show ?thesis
    by (rule audited_update [OF au r(1) \<open>ar_status r = _\<close>, of i ?next]) (use ev fr db' in auto)
qed

lemma reconcile_all_audited:
  assumes "fold_result (reconcile_one env t) items db = Inr db'" and "well_formed db" and "audited db"
    and "\<And>i row. (i, row) \<in> set items \<Longrightarrow> current_row db row"
    and "distinct (map (\<lambda>(i, row). attempt_id (rc_attempt row)) items)"
  shows "audited db'"
  using assms
proof (induction items arbitrary: db)
  case (Cons item items)
  obtain i row where item: "item = (i, row)" by (cases item)
  from Cons.prems(1) obtain db1 where
    s: "reconcile_one env t (i, row) db = Inr db1" "fold_result (reconcile_one env t) items db1 = Inr db'"
    by (auto simp: item and_then_Inr)
  have cur: "current_row db row" by (rule Cons.prems(4) [of i]) (simp add: item)
  note keep = reconcile_one_keeps [OF Cons.prems(2) cur s(1)]
  show ?case
  proof (rule Cons.IH [OF s(2) keep(1) reconcile_one_audited [OF Cons.prems(2) cur Cons.prems(3) s(1)]])
    fix i' row' assume m: "(i', row') \<in> set items"
    show "current_row db1 row'"
    proof (rule keep(2))
      show "current_row db row'" by (rule Cons.prems(4) [of i']) (simp add: m)
      show "attempt_id (rc_attempt row) \<noteq> attempt_id (rc_attempt row')"
        using Cons.prems(5) m by (auto simp: item image_iff)
    qed
  qed (use Cons.prems(5) in simp)
qed simp

lemma reconcile_audited:
  assumes wf: "well_formed db" and au: "audited db" and r: "reconcileExpired env now ids db = (Inr n, db')"
  shows "audited db'"
proof -
  have ok: "store_ok db" using wf by (simp add: well_formed_def)
  let ?rows = "reconcile_rows (to_iso now) db"
  let ?items = "zip (map ids [0..<length ?rows]) ?rows"
  from r have f: "fold_result (reconcile_one env (to_iso now)) ?items db = Inr db'"
    by (auto simp: reconcileExpired_def in_transaction_commit and_then_Inr Let_def)
  have "map (\<lambda>(i, row). attempt_id (rc_attempt row)) ?items = map (\<lambda>row. attempt_id (rc_attempt row)) (map snd ?items)"
    unfolding map_map comp_def case_prod_beta' ..
  also have "map snd ?items = ?rows" by (rule map_snd_zip) simp
  finally have dist: "distinct (map (\<lambda>(i, row). attempt_id (rc_attempt row)) ?items)"
    using reconcile_rows_ids [OF ok] by simp
  show ?thesis
    by (rule reconcile_all_audited [OF f wf au _ dist])
      (use reconcile_rows_current [OF wf] set_zip_rightD in fast)
qed

lemma replay_or_audited:
  "audited db \<Longrightarrow> (\<And>n. audited (snd (k n db))) \<Longrightarrow> audited (snd (replay_or env w cred l tok key op d k db))"
  by (auto simp: replay_or_def split: sum.split option.split)

lemma audited_transaction:
  "audited db \<Longrightarrow> (\<And>a db'. body = Inr (a, db') \<Longrightarrow> audited db') \<Longrightarrow> audited (snd (in_transaction db body))"
  by (auto simp: in_transaction_def split: sum.splits)

lemmas audited_calls = replay_or_audited audited_transaction

lemmas audited_bodies = start_body_audited [rotated] transition_body_audited [rotated 2] terminal_body_audited [rotated 2]

interpretation start_log: audited_operation "startExecution env now attemptId eventId w cred l tok inp"
  for env now attemptId eventId w cred l tok inp
  by unfold_locales (auto simp: startExecution_def Let_def intro!: audited_calls dest: audited_bodies)

interpretation uploading_log: audited_operation "markUploading env now eventId w cred l tok key"
  for env now eventId w cred l tok key
  by unfold_locales (auto simp: markUploading_def transitionExecution_def Let_def intro!: audited_calls dest: audited_bodies)

interpretation verifying_log: audited_operation "markVerifying env now eventId w cred l tok key"
  for env now eventId w cred l tok key
  by unfold_locales (auto simp: markVerifying_def transitionExecution_def Let_def intro!: audited_calls dest: audited_bodies)

interpretation complete_log: audited_operation "completeExecution env now eventId retryId w cred l tok inp"
  for env now eventId retryId w cred l tok inp
  by unfold_locales (auto simp: completeExecution_def Let_def intro!: audited_calls dest: audited_bodies)

interpretation fail_log: audited_operation "failExecution env occurred now eventId retryId w cred l tok inp"
  for env occurred now eventId retryId w cred l tok inp
  by unfold_locales (auto simp: failExecution_def Let_def intro!: audited_calls dest: audited_bodies)

interpretation reconcile_log: audited_operation "reconcileExpired env now ids" for env now ids
proof unfold_locales
  fix db assume wf: "well_formed db" and au: "audited db"
  obtain res db' where r: "reconcileExpired env now ids db = (res, db')" by fastforce
  show "audited (snd (reconcileExpired env now ids db))"
  proof (cases res)
    case (Inl e)
    with r have "db' = db" by (auto simp: reconcileExpired_def in_transaction_def split: sum.splits)
    with r au show ?thesis by simp
  next
    case (Inr n)
    with r reconcile_audited [OF wf au, of env now ids n db'] show ?thesis by simp
  qed
qed

section \<open>Every reachable store is audited\<close>

lemmas method_trails =
  dispatch_log.audited cancel_log.audited create_worker_log.audited update_worker_log.audited rotate_log.audited
  heartbeat_log.audited claim_log.audited claimSpecific_log.audited renew_log.audited safe_renew_log.audited
  release_log.audited reap_log.audited start_log.audited uploading_log.audited verifying_log.audited
  complete_log.audited fail_log.audited reconcile_log.audited tick_log.audited
  initialize_log.audited [unfolded snd_conv] create_source_log.audited update_source_log.audited
  create_connector_log.audited connector_status_log.audited create_plan_log.audited update_plan_log.audited
  plan_status_log.audited default_plan_log.audited

lemma call_audited: "control_call db db' \<Longrightarrow> well_formed db \<Longrightarrow> audited db \<Longrightarrow> audited db'"
  by (cases rule: control_call.cases) (assumption | simp only: method_trails)+

lemma without_work_audited: "without_work db \<Longrightarrow> audited db"
  by (simp add: without_work_def audited_def log_of_def status_of_def)

lemma reachable_audited: "reachable_store db \<Longrightarrow> audited db"
proof -
  assume "reachable_store db"
  then obtain db0 where db0: "without_work db0" and calls: "control_call\<^sup>*\<^sup>* db0 db" by (auto simp: reachable_store_def)
  from calls show "audited db"
  proof (induction rule: rtranclp_induct)
    case base
    show ?case by (rule without_work_audited [OF db0])
  next
    case (step y z)
    have "well_formed y" using calls_controlled [OF step.hyps(1) without_work_well_formed [OF db0]] by simp
    from call_audited [OF step.hyps(2) this step.IH] show ?case .
  qed
qed

end
