(* ===== verification/Run_Lifecycle.thy ===== *)
theory Run_Lifecycle
  imports Control_Plane
begin

text \<open>
  What the calls do to work over time, proved by rule induction on the steps of the specification: work
  that has ended stays as it ended, and the jobs of a run are its attempts, numbered from one without a
  gap or a repetition, of which only the last may still be live.
\<close>

section \<open>Ended work\<close>

definition keeps_ended :: "spec \<Rightarrow> spec \<Rightarrow> bool" where
  "keeps_ended s s' \<longleftrightarrow>
     (\<forall>j r n t. sp_jobs s j = Some (r, n, t) \<longrightarrow> \<not> live_job t \<longrightarrow> sp_jobs s' j = Some (r, n, t))
     \<and> (\<forall>r st. sp_runs s r = Some st \<longrightarrow> \<not> live_run st \<longrightarrow> sp_runs s' r = Some st)
     \<and> (\<forall>a j n l x. sp_attempts s a = Some (j, n, l, x) \<longrightarrow> \<not> active_attempt x \<longrightarrow>
          sp_attempts s' a = Some (j, n, l, x))
     \<and> (\<forall>l j. sp_leases s l = Some (j, False) \<longrightarrow> sp_leases s' l = Some (j, False))"

lemma keeps_ended_refl: "keeps_ended s s"
  by (simp add: keeps_ended_def)

lemma keeps_endedD:
  assumes "keeps_ended s s'"
  shows "sp_jobs s j = Some (r, n, t) \<Longrightarrow> \<not> live_job t \<Longrightarrow> sp_jobs s' j = Some (r, n, t)"
    and "sp_runs s r = Some st \<Longrightarrow> \<not> live_run st \<Longrightarrow> sp_runs s' r = Some st"
    and "sp_attempts s a = Some (j, n, l, x) \<Longrightarrow> \<not> active_attempt x \<Longrightarrow> sp_attempts s' a = Some (j, n, l, x)"
    and "sp_leases s l = Some (j, False) \<Longrightarrow> sp_leases s' l = Some (j, False)"
  using assms by (simp_all add: keeps_ended_def)

lemma keeps_ended_trans:
  assumes "keeps_ended s s1" "keeps_ended s1 s2"
  shows "keeps_ended s s2"
  unfolding keeps_ended_def
  by (intro conjI allI impI) (rule keeps_endedD [OF assms(2)]; (assumption | (rule keeps_endedD [OF assms(1)]; assumption)))+

text \<open>An active attempt has an executing job and a running run.\<close>

lemma active_attempt_live:
  assumes "coordinated s" "sp_attempts s a = Some (j, n, l, x)" "active_attempt x" "sp_jobs s j = Some (r, m, t)"
  shows "executing t" "live_job t" "sp_runs s r = Some R_RUNNING" "m = n"
proof -
  have p: "attempt_part (sp_attempts s) (sp_jobs s) (sp_leases s)" "run_part (sp_runs s) (sp_jobs s)"
    using assms(1) by (simp_all add: coordinated_def)
  show t: "executing t"
    using attempt_partD(3) [OF p(1) assms(2,3,4)] executing_attempt [OF assms(3)] by simp
  then show "live_job t" "sp_runs s r = Some R_RUNNING"
    using run_partD(2) [OF p(2) assms(4)] executing_live [of t] by auto
  show "m = n" using attempt_partD(2) [OF p(1) assms(2)] assms(4) by auto
qed

lemma live_runs: "live_run R_PENDING" "live_run R_RUNNING"
  by (simp_all add: live_run_def)

lemma advances_live: "attempt_advances x y \<Longrightarrow> active_attempt x \<and> active_attempt y"
  by (cases x; cases y) simp_all

lemma step_keeps_ended: "spec_step s s' \<Longrightarrow> coordinated s \<Longrightarrow> keeps_ended s s'"
proof (induction rule: spec_step.induct)
  case (cancel s r)
  then have "live_job t" if "sp_jobs s j = Some (r, n, t)" for j n t
    using that by fastforce
  with cancel.hyps show ?case by (auto simp: keeps_ended_def live_runs cancel_jobs_def)
next
  case (close s l j r n t)
  then show ?case by (auto simp: keeps_ended_def)
next
  case (start s l j r n a)
  then show ?case by (auto simp: keeps_ended_def live_runs)
next
  case (advance s l j a n x r y)
  then show ?case
    using advances_live [OF advance.hyps(4)] executing_live [OF executing_attempt [of x]]
    by (auto simp: keeps_ended_def)
next
  case (finish s l j a n x r t e)
  note live = active_attempt_live [OF finish.prems finish.hyps(2,4,3)]
  have "retry_job e r n ((sp_jobs s)(j \<mapsto> (r, n, ending_job e))) k = sp_jobs s k"
    if "k \<noteq> j" "sp_jobs s k \<noteq> None" for k
    using finish.hyps(7) that by (cases e) auto
  moreover have "k \<noteq> j" if "sp_jobs s k = Some (q, m, u)" "\<not> live_job u" for k q m u
    using that live(2) finish.hyps(3) by auto
  ultimately have "retry_job e r n ((sp_jobs s)(j \<mapsto> (r, n, ending_job e))) k = Some (q, m, u)"
    if "sp_jobs s k = Some (q, m, u)" "\<not> live_job u" for k q m u
    using that by simp
  moreover have "q \<noteq> r" if "sp_runs s q = Some st" "\<not> live_run st" for q st
    using that live(3) live_runs by auto
  ultimately show ?case
    using finish.hyps by (auto simp: keeps_ended_def)
next
  case (abandon s a j n l x b r t)
  then show ?case
    using active_attempt_live [OF abandon.prems abandon.hyps(1,2,4)]
    by (auto simp: keeps_ended_def live_runs)
qed (auto simp: keeps_ended_def)

lemma steps_keep_ended: "spec_step\<^sup>*\<^sup>* s s' \<Longrightarrow> coordinated s \<Longrightarrow> keeps_ended s s'"
proof (induction rule: rtranclp_induct)
  case (step y z)
  have "coordinated y" using spec_steps_coordinated step.hyps(1) step.prems by blast
  with step_keeps_ended [OF step.hyps(2)] step show ?case by (auto intro: keeps_ended_trans)
qed (rule keeps_ended_refl)

section \<open>The jobs of a run\<close>

definition numbered :: "spec \<Rightarrow> bool" where
  "numbered s \<longleftrightarrow>
     (\<forall>r. sp_runs s r \<noteq> None \<longrightarrow> (\<exists>j t. sp_jobs s j = Some (r, 1, t)))
     \<and> (\<forall>j r n t. sp_jobs s j = Some (r, n, t) \<longrightarrow>
          1 \<le> n \<and> (1 < n \<longrightarrow> (\<exists>j' t'. sp_jobs s j' = Some (r, n - 1, t'))))
     \<and> (\<forall>j j' r n t t'. sp_jobs s j = Some (r, n, t) \<longrightarrow> sp_jobs s j' = Some (r, n, t') \<longrightarrow> j = j')
     \<and> (\<forall>j j' r n n' t t'. sp_jobs s j = Some (r, n, t) \<longrightarrow> sp_jobs s j' = Some (r, n', t') \<longrightarrow>
          live_job t \<longrightarrow> n' \<le> n)"

lemma numbered_init: "numbered spec_init"
  by (simp add: numbered_def spec_init_def)

lemma numberedD:
  assumes "numbered s"
  shows "sp_runs s r \<noteq> None \<Longrightarrow> \<exists>j t. sp_jobs s j = Some (r, 1, t)"
    and "sp_jobs s j = Some (r, n, t) \<Longrightarrow> 1 \<le> n"
    and "sp_jobs s j = Some (r, n, t) \<Longrightarrow> 1 < n \<Longrightarrow> \<exists>j' t'. sp_jobs s j' = Some (r, n - 1, t')"
    and "sp_jobs s j = Some (r, n, t) \<Longrightarrow> sp_jobs s j' = Some (r, n, t') \<Longrightarrow> j = j'"
    and "sp_jobs s j = Some (r, n, t) \<Longrightarrow> sp_jobs s j' = Some (r, n', t') \<Longrightarrow> live_job t \<Longrightarrow> n' \<le> n"
  using assms unfolding numbered_def by (-, blast+)

lemma numberedI:
  assumes "\<And>r. sp_runs s r \<noteq> None \<Longrightarrow> \<exists>j t. sp_jobs s j = Some (r, 1, t)"
    and "\<And>j r n t. sp_jobs s j = Some (r, n, t) \<Longrightarrow> 1 \<le> n"
    and "\<And>j r n t. sp_jobs s j = Some (r, n, t) \<Longrightarrow> 1 < n \<Longrightarrow> \<exists>j' t'. sp_jobs s j' = Some (r, n - 1, t')"
    and "\<And>j j' r n t t'. sp_jobs s j = Some (r, n, t) \<Longrightarrow> sp_jobs s j' = Some (r, n, t') \<Longrightarrow> j = j'"
    and "\<And>j j' r n n' t t'. sp_jobs s j = Some (r, n, t) \<Longrightarrow> sp_jobs s j' = Some (r, n', t') \<Longrightarrow> live_job t \<Longrightarrow> n' \<le> n"
  shows "numbered s"
  unfolding numbered_def by (intro conjI allI impI) (rule assms; assumption)+

text \<open>A step that moves no job to another run or number and makes no job live again.\<close>

lemma numbered_same:
  assumes num: "numbered s"
    and runs: "\<And>r. sp_runs s' r \<noteq> None \<Longrightarrow> sp_runs s r \<noteq> None"
    and new: "\<And>j r n t. sp_jobs s' j = Some (r, n, t) \<Longrightarrow> \<exists>t0. sp_jobs s j = Some (r, n, t0) \<and> (live_job t \<longrightarrow> live_job t0)"
    and old: "\<And>j r n t. sp_jobs s j = Some (r, n, t) \<Longrightarrow> \<exists>t'. sp_jobs s' j = Some (r, n, t')"
  shows "numbered s'"
proof (rule numberedI)
  show "\<exists>j t. sp_jobs s' j = Some (r, 1, t)" if "sp_runs s' r \<noteq> None" for r
    using numberedD(1) [OF num runs [OF that]] old by blast
  show "1 \<le> n" if "sp_jobs s' j = Some (r, n, t)" for j r n t
    using new [OF that] numberedD(2) [OF num] by blast
  show "\<exists>j' t'. sp_jobs s' j' = Some (r, n - 1, t')" if "sp_jobs s' j = Some (r, n, t)" "1 < n" for j r n t
    using new [OF that(1)] numberedD(3) [OF num _ that(2)] old by blast
  show "j = j'" if "sp_jobs s' j = Some (r, n, t)" "sp_jobs s' j' = Some (r, n, t')" for j j' r n t t'
    using new [OF that(1)] new [OF that(2)] numberedD(4) [OF num] by blast
  show "n' \<le> n" if "sp_jobs s' j = Some (r, n, t)" "sp_jobs s' j' = Some (r, n', t')" "live_job t" for j j' r n n' t t'
    using new [OF that(1)] new [OF that(2)] that(3) numberedD(5) [OF num] by blast
qed

text \<open>A new job whose number follows those of its run, none of which is live.\<close>

lemma numbered_new_job:
  assumes num: "numbered s" and j: "sp_jobs s j = None"
    and top: "\<And>k m t. sp_jobs s k = Some (r, m, t) \<Longrightarrow> m \<le> n \<and> \<not> live_job t"
    and last: "n = 0 \<or> (\<exists>k t. sp_jobs s k = Some (r, n, t))"
    and s': "sp_jobs s' = (sp_jobs s)(j \<mapsto> (r, n + 1, t0))"
    and runs: "\<And>q. sp_runs s' q \<noteq> None \<Longrightarrow> sp_runs s q \<noteq> None \<or> q = r \<and> n = 0"
  shows "numbered s'"
proof (rule numberedI)
  show "\<exists>k t. sp_jobs s' k = Some (q, 1, t)" if "sp_runs s' q \<noteq> None" for q
  proof (cases "sp_runs s q = None")
    case True
    then have "q = r" "n = 0" using runs [OF that] by auto
    then show ?thesis by (intro exI [of _ j]) (simp add: s')
  next
    case False
    then obtain k t where "sp_jobs s k = Some (q, 1, t)" using numberedD(1) [OF num] by blast
    with j show ?thesis by (intro exI [of _ k] exI [of _ t]) (auto simp: s')
  qed
  have n: "0 \<le> n" using last numberedD(2) [OF num] by fastforce
  then show "1 \<le> m" if "sp_jobs s' k = Some (q, m, t)" for k q m t
    using that numberedD(2) [OF num] by (auto simp: s' split: if_splits)
  show "\<exists>k' t'. sp_jobs s' k' = Some (q, m - 1, t')" if "sp_jobs s' k = Some (q, m, t)" "1 < m" for k q m t
  proof (cases "k = j")
    case True
    then have "q = r" "m = n + 1" "n \<noteq> 0" using that by (auto simp: s')
    with last obtain k' t' where "sp_jobs s k' = Some (r, n, t')" by blast
    with \<open>q = r\<close> \<open>m = n + 1\<close> j show ?thesis by (intro exI [of _ k'] exI [of _ t']) (auto simp: s')
  next
    case False
    with that obtain k' t' where "sp_jobs s k' = Some (q, m - 1, t')"
      using numberedD(3) [OF num, of k q m t] by (auto simp: s')
    with j show ?thesis by (intro exI [of _ k'] exI [of _ t']) (auto simp: s')
  qed
  show "k = k'" if "sp_jobs s' k = Some (q, m, t)" "sp_jobs s' k' = Some (q, m, t')" for k k' q m t t'
    using that numberedD(4) [OF num, of k q m t k' t'] top [of k m t] top [of k' m t']
    by (auto simp: s' split: if_splits)
  show "m' \<le> m" if "sp_jobs s' k = Some (q, m, t)" "sp_jobs s' k' = Some (q, m', t')" "live_job t" for k k' q m m' t t'
    using that numberedD(5) [OF num, of k q m t k' m' t'] top [of k m t] top [of k' m' t']
    by (auto simp: s' split: if_splits)
qed

lemma step_numbered: "spec_step s s' \<Longrightarrow> coordinated s \<Longrightarrow> numbered s \<Longrightarrow> numbered s'"
proof (induction rule: spec_step.induct)
  case (dispatch s r j)
  have none: "sp_jobs s k \<noteq> Some (r, m, t)" for k m t
    using run_partD(1) [of "sp_runs s" "sp_jobs s" k r m t] dispatch by (auto simp: coordinated_def)
  show ?case
    by (rule numbered_new_job [of s j r 0]) (use dispatch none in \<open>auto split: if_splits\<close>)
next
  case (cancel s r)
  show ?case
    by (rule numbered_same [OF cancel.prems(2)])
      (use cancel in \<open>auto simp: cancel_jobs_def split: option.splits if_splits\<close>)
next
  case (claim s j r n l)
  show ?case
    by (rule numbered_same [OF claim.prems(2)]) (use claim in \<open>auto split: if_splits\<close>)
next
  case (close s l j r n t)
  show ?case
    by (rule numbered_same [OF close.prems(2)]) (use close in \<open>auto split: if_splits\<close>)
next
  case (start s l j r n a)
  show ?case
    by (rule numbered_same [OF start.prems(2)]) (use start in \<open>auto split: if_splits\<close>)
next
  case (advance s l j a n x r y)
  have "live_job (job_of_attempt x)"
    using executing_live [OF executing_attempt [of x]] advances_live [OF advance.hyps(4)] by simp
  then show ?case
    by (intro numbered_same [OF advance.prems(2)]) (use advance in \<open>auto split: if_splits\<close>)
next
  case (finish s l j a n x r t e)
  note live = active_attempt_live [OF finish.prems(1) finish.hyps(2,4,3)]
  let ?s1 = "s\<lparr>sp_attempts := (sp_attempts s)(a \<mapsto> (j, n, l, ending_attempt e)),
    sp_jobs := (sp_jobs s)(j \<mapsto> (r, n, ending_job e)), sp_runs := (sp_runs s)(r \<mapsto> ending_run e),
    sp_leases := (sp_leases s)(l \<mapsto> (j, False))\<rparr>"
  have one: "numbered ?s1"
    by (rule numbered_same [OF finish.prems(2)]) (use finish.hyps live in \<open>auto split: if_splits\<close>)
  show ?case
  proof (cases e)
    case (Retry j')
    have free: "sp_jobs s j' = None" using finish.hyps(7) Retry by blast
    have other: "k = j" if "sp_jobs s k = Some (r, m, u)" "live_job u" for k m u
      using run_partD(3) [of "sp_runs s" "sp_jobs s" k r m u j n t] finish.prems(1) that finish.hyps(3) live(2)
      by (simp add: coordinated_def)
    show ?thesis
    proof (rule numbered_new_job [OF one, of j' r n])
      show "m \<le> n \<and> \<not> live_job u" if "sp_jobs ?s1 k = Some (r, m, u)" for k m u
        using that other [of k m u] numberedD(5) [OF finish.prems(2) finish.hyps(3) _ live(2), of k m u]
        by (auto split: if_splits)
      show "n = 0 \<or> (\<exists>k u. sp_jobs ?s1 k = Some (r, n, u))" by auto
    qed (use Retry free finish.hyps(3) in auto)
  qed (use one in simp_all)
next
  case (abandon s a j n l x b r t)
  show ?case
    by (rule numbered_same [OF abandon.prems(2)]) (use abandon.hyps in \<open>auto split: if_splits\<close>)
qed

lemma steps_numbered: "spec_step\<^sup>*\<^sup>* s s' \<Longrightarrow> coordinated s \<Longrightarrow> numbered s \<Longrightarrow> coordinated s' \<and> numbered s'"
proof (induction rule: rtranclp_induct)
  case (step y z)
  then show ?case using step_numbered spec_steps_coordinated [of y z] by blast
qed simp

lemma reachable_numbered: "reachable_store db \<Longrightarrow> numbered (view_of db)"
  using calls_controlled without_work_well_formed without_work_view steps_numbered [OF _ coordinated_init numbered_init]
  unfolding reachable_store_def by metis

text \<open>A list of numbers from one with no gap and no repetition.\<close>

lemma numbers_to:
  fixes xs :: "int list"
  assumes d: "distinct xs" and one: "xs \<noteq> [] \<Longrightarrow> 1 \<in> set xs" and pos: "\<And>n. n \<in> set xs \<Longrightarrow> 1 \<le> n"
    and down: "\<And>n. n \<in> set xs \<Longrightarrow> 1 < n \<Longrightarrow> n - 1 \<in> set xs"
  shows "set xs = {1..int (length xs)}"
proof (cases "xs = []")
  case False
  define m where "m = Max (set xs)"
  have m: "m \<in> set xs" "\<And>n. n \<in> set xs \<Longrightarrow> n \<le> m" using False by (simp_all add: m_def)
  have sub: "set xs \<subseteq> {1..m}" using pos m(2) by auto
  have "m - int k \<in> set xs" if "int k < m" for k
    using that m(1)
  proof (induction k)
    case (Suc k)
    then show ?case using down [of "m - int k"] by (simp add: algebra_simps)
  qed simp
  note reach = this
  have "n \<in> set xs" if "1 \<le> n" "n \<le> m" for n
    using reach [of "nat (m - n)"] that by simp
  with sub have "set xs = {1..m}" by auto
  moreover from this have "length xs = nat m" using distinct_card [OF d] by simp
  ultimately show ?thesis using pos [OF m(1)] by simp
qed simp

text \<open>The rows of a view.\<close>

lemma view_rows:
  assumes "store_ok db"
  shows "j \<in> set (jobs db) \<Longrightarrow> sp_jobs (view_of db) (jr_id j) = Some (jr_run_id j, jr_attempt j, jr_status j)"
    and "r \<in> set (collection_runs db) \<Longrightarrow> sp_runs (view_of db) (rr_id r) = Some (rr_status r)"
    and "l \<in> set (leases db) \<Longrightarrow> sp_leases (view_of db) (lr_id l) = Some (lr_job_id l, lr_status l = L_ACTIVE)"
    and "a \<in> set (attempts db) \<Longrightarrow>
      sp_attempts (view_of db) (ar_id a) = Some (ar_job_id a, ar_job_attempt a, ar_lease_id a, ar_status a)"
  using row_found [OF assms] attempt_columns(8) [OF assms] by simp_all

lemma viewed_job:
  "sp_jobs (view_of db) i = Some (r, n, t) \<Longrightarrow>
     \<exists>j. j \<in> set (jobs db) \<and> jr_id j = i \<and> jr_run_id j = r \<and> jr_attempt j = n \<and> jr_status j = t"
  using find_by_SomeD [of jr_id i "jobs db"] by (auto simp: job_by_id_def)

definition jobs_of :: "string \<Rightarrow> control_store \<Rightarrow> job_row list" where
  "jobs_of r db = filter (\<lambda>j. jr_run_id j = r) (jobs db)"

lemma run_numbers:
  assumes "reachable_store db" "r \<in> set (collection_runs db)"
  shows "set (map jr_attempt (jobs_of (rr_id r) db)) = {1..int (length (jobs_of (rr_id r) db))}"
    and "jobs_of (rr_id r) db \<noteq> []" and "distinct (map jr_attempt (jobs_of (rr_id r) db))"
    and "j \<in> set (jobs_of (rr_id r) db) \<Longrightarrow> live_job (jr_status j) \<Longrightarrow> jr_attempt j = int (length (jobs_of (rr_id r) db))"
proof -
  let ?js = "jobs_of (rr_id r) db"
  have ok: "store_ok db" using reachable_well_formed [OF assms(1)] by (simp add: well_formed_def)
  note num = numberedD [OF reachable_numbered [OF assms(1)]]
  have js: "j \<in> set ?js \<longleftrightarrow> j \<in> set (jobs db) \<and> jr_run_id j = rr_id r" for j by (auto simp: jobs_of_def)
  have view: "sp_jobs (view_of db) (jr_id j) = Some (rr_id r, jr_attempt j, jr_status j)" if "j \<in> set ?js" for j
    using view_rows(1) [OF ok, of j] that by (simp add: js)
  have held: "n \<in> set (map jr_attempt ?js)" if "sp_jobs (view_of db) i = Some (rr_id r, n, t)" for i n t
    using viewed_job [OF that] by (auto simp: js image_iff)
  have "inj_on jr_attempt (set ?js)"
  proof (rule inj_onI)
    fix x y assume xy: "x \<in> set ?js" "y \<in> set ?js" "jr_attempt x = jr_attempt y"
    have "jr_id x = jr_id y" using num(4) [OF view [OF xy(1)]] view [OF xy(2)] xy(3) by simp
    moreover have "job_by_id (jr_id x) db = Some x" "job_by_id (jr_id y) db = Some y"
      using row_found(2) [OF ok] xy js by blast+
    ultimately show "x = y" by (metis option.inject)
  qed
  moreover have "distinct ?js"
    using ok by (simp add: jobs_of_def store_ok_def coherent_def distinct_map)
  ultimately show d: "distinct (map jr_attempt ?js)" by (simp add: distinct_map)
  have "sp_runs (view_of db) (rr_id r) \<noteq> None" using view_rows(2) [OF ok assms(2)] by auto
  then have one: "1 \<in> set (map jr_attempt ?js)" using num(1) held by blast
  then show "?js \<noteq> []" by auto
  show all: "set (map jr_attempt ?js) = {1..int (length ?js)}"
  proof -
    have "set (map jr_attempt ?js) = {1..int (length (map jr_attempt ?js))}"
    proof (rule numbers_to [OF d])
      show "1 \<le> n" if "n \<in> set (map jr_attempt ?js)" for n
        using that num(2) [OF view] by (auto simp del: view_simps)
      show "n - 1 \<in> set (map jr_attempt ?js)" if n: "n \<in> set (map jr_attempt ?js)" "1 < n" for n
      proof -
        from n(1) obtain j where "j \<in> set ?js" "n = jr_attempt j" by auto
        with num(3) [OF view [of j]] n(2) held show ?thesis by blast
      qed
    qed (use one in simp)
    then show ?thesis by simp
  qed
  show "jr_attempt j = int (length ?js)" if j: "j \<in> set ?js" "live_job (jr_status j)"
  proof -
    have "int (length ?js) \<in> set (map jr_attempt ?js)" using \<open>?js \<noteq> []\<close> unfolding all by (simp add: Suc_leI)
    then obtain k where k: "k \<in> set ?js" "jr_attempt k = int (length ?js)" by auto
    have "jr_attempt k \<le> jr_attempt j" using num(5) [OF view [OF j(1)] view [OF k(1)] j(2)] .
    moreover have "jr_attempt j \<in> {1..int (length ?js)}" using j(1) unfolding all [symmetric] by simp
    ultimately show ?thesis using k(2) by simp
  qed
qed

end
