(* ===== verification/Work_History.thy ===== *)
theory Work_History
  imports Control_Plane Store_Frames
begin

text \<open>
  What the table of runs keeps over any calls: the run recorded under a workspace and an idempotency key
  stays the one found under that key, with its identifier, its plan and its trigger. A slot of a plan is
  therefore dispatched once for the whole life of the store.
\<close>

definition recorded :: "string \<Rightarrow> string \<Rightarrow> string \<times> string \<times> trigger_type \<Rightarrow> control_store \<Rightarrow> bool" where
  "recorded w key v db \<longleftrightarrow>
     map_option (\<lambda>r. (rr_id r, rr_plan_id r, rr_trigger_type r)) (run_by_key w key db) = Some v"

lemma find_mapped:
  "(\<And>x. x \<in> set xs \<Longrightarrow> P (f x) = P x) \<Longrightarrow> find P (map f xs) = map_option f (find P xs)"
  by (induction xs) simp_all

lemma recorded_update_run: "recorded w key v (update_run c db) = recorded w key v db"
  by (simp add: recorded_def run_by_key_def update_run_def update_by_def find_mapped write_run_def
      option.map_comp comp_def if_distrib cong: if_cong)

lemma recorded_insert_run: "recorded w key v db \<Longrightarrow> insert_run c db = Inr db' \<Longrightarrow> recorded w key v db'"
  by (auto simp: recorded_def run_by_key_def insert_run_def find_snoc split: if_splits)

interpretation recorded_part: execution_frame "recorded w key v" for w key v
proof unfold_locales
  show "recorded w key v db" if "recorded w key v db0" "insert_run c db0 = Inr db" for c db0 db
    using that by (rule recorded_insert_run)
  show "recorded w key v (update_run c db)" if "recorded w key v db" for c db
    using that by (simp add: recorded_update_run)
qed (simp_all add: recorded_def run_by_key_def)

lemma same_work_recorded: "same_work db db' \<Longrightarrow> recorded w key v db \<Longrightarrow> recorded w key v db'"
  by (simp add: same_work_def recorded_def run_by_key_def)

lemmas registry_works =
  initialize_reg.work [unfolded snd_conv] create_source_reg.work update_source_reg.work
  create_connector_reg.work connector_status_reg.work create_plan_reg.work update_plan_reg.work
  plan_status_reg.work default_plan_reg.work

lemma call_recorded: "control_call db db' \<Longrightarrow> recorded w key v db \<Longrightarrow> recorded w key v db'"
  by (cases rule: control_call.cases)
    (assumption | simp only: recorded_part.kept_parts registry_works [THEN same_work_recorded])+

lemma calls_recorded: "control_call\<^sup>*\<^sup>* db db' \<Longrightarrow> recorded w key v db \<Longrightarrow> recorded w key v db'"
  by (induction rule: rtranclp_induct) (auto intro: call_recorded)

text \<open>What a dispatch of a slot may do once a run is recorded under the slot's key.\<close>

lemma recorded_dispatch:
  assumes ok: "store_ok db" and key: "scheduledSlotIdempotencyKey (plan_id plan) slot = Inr key"
    and rec: "recorded (plan_workspaceId plan) key (i, plan_id plan, T_SCHEDULED) db"
    and d: "dispatchScheduled fresh plan slot now db = (res, db')"
  shows "db' = db \<and> (\<forall>d. res = Inr d \<longrightarrow> sdr_replayed d \<and> \<not> sdr_coalesced d \<and> run_id (sdr_run d) = i)"
proof -
  obtain r where r: "run_by_key (plan_workspaceId plan) key db = Some r" "rr_id r = i"
    using rec by (auto simp: recorded_def)
  then have "r \<in> set (collection_runs db)" by (auto simp: run_by_key_def find_Some_iff)
  then have doc: "run_id (rr_document r) = i"
    using ok r(2) by (auto simp: store_ok_def coherent_def canon_run_def run_row_of_def dest!: bspec [of _ _ r] arg_cong [of _ _ rr_id])
  have ex: "(\<exists>e. existingScheduledRun db (plan_workspaceId plan) (plan_id plan) key = Inl e)
      \<or> (\<exists>d. existingScheduledRun db (plan_workspaceId plan) (plan_id plan) key = Inr (Some d)
            \<and> sdr_replayed d \<and> \<not> sdr_coalesced d \<and> run_id (sdr_run d) = i)"
    using r doc by (auto simp: existingScheduledRun_def and_then_def parseRun_def split: sum.split)
  show ?thesis
  proof (cases "and_then (scheduler_loadSource db (plan_sourceId plan)) (\<lambda>source.
      and_then (scheduler_loadConnector db source) (\<lambda>connector. validateScheduledDispatch plan source connector))")
    case (Inl e)
    then have "res = Inl e \<and> db' = db"
      using d by (auto simp: dispatchScheduled_def Let_def and_then_def split: sum.splits)
    then show ?thesis by simp
  next
    case (Inr jobType)
    then obtain source connector where
      "scheduler_loadSource db (plan_sourceId plan) = Inr source" "scheduler_loadConnector db source = Inr connector"
      "validateScheduledDispatch plan source connector = Inr jobType"
      by (auto simp: and_then_Inr)
    with d ex key show ?thesis by (auto simp: dispatchScheduled_def Let_def)
  qed
qed

text \<open>A dispatch that starts a run records it under the slot's key.\<close>

lemma dispatched_recorded:
  assumes "dispatchScheduled fresh plan slot now db = (Inr d, db')" "\<not> sdr_replayed d" "\<not> sdr_coalesced d"
  obtains key where "scheduledSlotIdempotencyKey (plan_id plan) slot = Inr key"
    "recorded (plan_workspaceId plan) key (run_id (sdr_run d), plan_id plan, T_SCHEDULED) db'"
  using assms(1)
proof (rule dispatchScheduled_cases)
  fix source connector jobType key slot_iso runId jobId run job
  assume key: "scheduledSlotIdempotencyKey (plan_id plan) slot = Inr key"
    and run: "run = scheduled_run plan source connector key slot_iso runId (to_iso now)"
    and ins: "insert_dispatch run job db = Inr db'" and none: "run_by_key (plan_workspaceId plan) key db = None"
    and res: "(Inr d :: scheduled_dispatch result) = Inr \<lparr> sdr_run = run, sdr_jobs = [job], sdr_replayed = False, sdr_coalesced = False \<rparr>"
  have "run_by_key (plan_workspaceId plan) key db' = Some (run_row_of run)"
    using none unfolding insert_dispatch_Inr(1) [OF ins] by (simp add: run_by_key_snoc) (simp add: run_row_of_def run)
  with res have "recorded (plan_workspaceId plan) key (run_id (sdr_run d), plan_id plan, T_SCHEDULED) db'"
    by (simp add: recorded_def) (simp add: run_row_of_def run)
  with key show thesis by (rule that)
qed (use assms(2,3) in blast)

end
