(* ===== verification/Sample_Store.thy ===== *)
theory Sample_Store
  imports Lease_Protocol Plan_Registry
begin

text \<open>
  A concrete deployment on which the properties are exercised: one workspace, an active web plan
  with its source and connector, and an active worker with a credential and a fresh heartbeat. The
  instants are given as milliseconds; \<open>now0\<close> is 2024-06-01T00:00:00.000Z.
\<close>

definition now0 :: int where
  "now0 = 1717200000000"

definition sample_id :: "string \<Rightarrow> char \<Rightarrow> string" where
  "sample_id prefix c = prefix @ ''_01ARZ3NDEKTSV4RRFFQ69G5FA'' @ [c]"

definition plan0 :: collection_plan where
  "plan0 =
     \<lparr> plan_id = sample_id ''pln'' CHR ''V'', plan_workspaceId = DEFAULT_WORKSPACE_id,
       plan_sourceId = sample_id ''src'' CHR ''V'', plan_name = ''Daily crawl'',
       plan_status = P_ACTIVE, plan_schedule = IntervalSchedule 3600, plan_priority = HIGH,
       plan_policy =
         \<lparr> includePatterns = [], excludePatterns = [], maxDepth = 2, maxItems = 100,
           renderJavascript = False, fetchAttachments = False, respectRobots = True,
           rateLimitPerMinute = 30, timeoutSeconds = 60, retry_maxAttempts = 2,
           retry_backoffSeconds = 10, policy_locale = None \<rparr>,
       plan_artifactKinds = [A_HTML], plan_conversionProfileId = None,
       plan_createdAt = ''2024-05-01T00:00:00.000Z'', plan_updatedAt = ''2024-05-01T00:00:00.000Z'',
       plan_extensions = None \<rparr>"

definition source0 :: source_definition where
  "source0 =
     \<lparr> source_id = sample_id ''src'' CHR ''V'', source_workspaceId = DEFAULT_WORKSPACE_id,
       source_name = ''Gazette'', source_slug = ''gazette'', source_type = S_WEB,
       source_category = hd SOURCE_CATEGORIES, source_authorityLevel = hd AUTHORITY_LEVELS,
       source_status = S_ACTIVE, source_jurisdictions = [''CN''], source_languages = [''en''],
       source_connector = \<lparr> ref_connectorId = ''web-crawler'', ref_version = ''1.0.0'' \<rparr>,
       source_connectorConfig = [], source_secretRef = None,
       source_canonicalUri = Some ''https://www.gazette.example/'',
       source_entrypoints = [(''https://www.gazette.example/'', None)],
       source_defaultCollectionPlanId = None, source_tags = [],
       source_createdAt = ''2024-05-01T00:00:00.000Z'', source_updatedAt = ''2024-05-01T00:00:00.000Z'',
       source_extensions = None \<rparr>"

definition connector0 :: connector_manifest where
  "connector0 =
     \<lparr> connector_connectorId = ''web-crawler'', connector_displayName = ''Web crawler'',
       connector_version = ''1.0.0'', connector_sourceTypes = [S_WEB],
       connector_runtime = hd CONNECTOR_RUNTIMES, connector_capabilities = [COLLECT],
       connector_supportedJobTypes = [WEB_CRAWL], connector_configurationSchema = [],
       connector_secretSchema = [], connector_outputArtifactKinds = [A_HTML],
       connector_healthMode = hd HEALTH_CHECK_MODES, connector_timeoutSeconds = 30,
       connector_status = C_ACTIVE, connector_extensions = None \<rparr>"

definition worker0 :: worker_definition where
  "worker0 =
     \<lparr> worker_id = sample_id ''wrk'' CHR ''V'', worker_workspaceId = DEFAULT_WORKSPACE_id,
       worker_displayName = ''Crawler A'', worker_desiredState = W_ACTIVE,
       worker_runtimeId = ''crawler-node'', worker_runtimeVersion = ''2.1.0'',
       worker_supportedJobTypes = [WEB_CRAWL],
       worker_connectorBindings =
         [\<lparr> binding_connectorId = ''web-crawler'', binding_version = ''1.0.0'',
            binding_capabilities = [COLLECT] \<rparr>],
       worker_maxConcurrency = 2, worker_labels = [], worker_createdAt = to_iso (now0 - 60000),
       worker_updatedAt = to_iso (now0 - 60000), worker_extensions = None \<rparr>"

definition heartbeat0 :: worker_heartbeat where
  "heartbeat0 =
     \<lparr> heartbeat_id = sample_id ''hbt'' CHR ''V'', heartbeat_workerId = worker_id worker0,
       heartbeat_workspaceId = DEFAULT_WORKSPACE_id, heartbeat_observedAt = to_iso (now0 - 5000),
       heartbeat_receivedAt = to_iso (now0 - 5000), heartbeat_runtimeVersion = ''2.1.0'',
       heartbeat_health = HEALTHY, heartbeat_activeLeaseIds = [], heartbeat_diagnostics = None \<rparr>"

text \<open>A platform: a digest of 32 bytes that keeps short texts apart, and a parser of one known address.\<close>

definition platform0 :: platform where
  "platform0 =
     \<lparr> sha256 = (\<lambda>s. take 32 (map (\<lambda>c. word_of_nat (code_unit c)) s @ replicate 32 0)),
       parse_url = (\<lambda>u. if u = ''https://www.gazette.example/''
                        then Some (''https:'', ''www.gazette.example'') else None),
       parse_date = parse_iso, number_text = (\<lambda>_. ''0'') \<rparr>"

definition config0 :: registry_config where
  "config0 =
     \<lparr> heartbeatFreshnessMs = DEFAULT_HEARTBEAT_FRESHNESS_MS,
       heartbeatClockSkewMs = DEFAULT_HEARTBEAT_CLOCK_SKEW_MS,
       leaseDurationMs = DEFAULT_LEASE_DURATION_MS, maxLeaseLifetimeMs = DEFAULT_MAX_LEASE_LIFETIME_MS,
       maxConcurrentWebLeasesPerDomain = DEFAULT_MAX_CONCURRENT_WEB_LEASES_PER_DOMAIN \<rparr>"

definition store0 :: control_store where
  "store0 =
     \<lparr> workspaces = [\<lparr> ws_id = DEFAULT_WORKSPACE_id, ws_document = DEFAULT_WORKSPACE \<rparr>],
       plans = [\<lparr> pl_connector_id = ''web-crawler'', pl_document = plan0 \<rparr>], sources = [source0],
       connectors =
         [\<lparr> kr_connector_id = ''web-crawler'', kr_version = ''1.0.0'', kr_display_name = ''Web crawler'',
            kr_runtime = hd CONNECTOR_RUNTIMES, kr_status = C_ACTIVE, kr_source_types = [S_WEB],
            kr_capabilities = [COLLECT], kr_job_types = [WEB_CRAWL], kr_artifact_kinds = [A_HTML],
            kr_document = connector0, kr_registered_at = ''2024-05-01T00:00:00.000Z'',
            kr_updated_at = ''2024-05-01T00:00:00.000Z'' \<rparr>],
       collection_runs = [], jobs = [], workers = [worker_row_of worker0],
       credentials = [\<lparr> cr_worker_id = worker_id worker0, cr_digest = digestHex platform0 ''secret'',
                         cr_rotated_at = to_iso (now0 - 60000) \<rparr>],
       heartbeats = [heartbeat_row_of heartbeat0], leases = [], attempts = [], events = [],
       requests = [], artifacts = None \<rparr>"

section \<open>Dispatching the plan\<close>

definition dispatch0 :: dispatch_input where
  "dispatch0 =
     \<lparr> di_planId = plan_id plan0, di_requestedBy = None, di_idempotencyKey = Some ''key-1'',
       di_extensions = None \<rparr>"

definition actor0 :: execution_actor where
  "actor0 = \<lparr> actor_type = LOCAL_ADMIN, actor_id = Some ''local-admin'' \<rparr>"

definition run1 :: collection_run where
  "run1 = dispatched_run plan0 source0 connector0 actor0 (Some ''key-1'') None
     (sample_id ''run'' CHR ''V'') (to_iso now0)"

definition job1 :: job where
  "job1 = dispatched_job run1 WEB_CRAWL (sample_id ''job'' CHR ''V'') (to_iso now0)"

definition store1 :: control_store where
  "store1 = store0\<lparr>collection_runs := [run_row_of run1], jobs := [job_row_of job1]\<rparr>"

lemma sample_plan [simp]:
  "plan_id plan0 = sample_id ''pln'' CHR ''V''" "plan_workspaceId plan0 = DEFAULT_WORKSPACE_id"
  "plan_sourceId plan0 = sample_id ''src'' CHR ''V''" "plan_status plan0 = P_ACTIVE"
  "plan_schedule plan0 = IntervalSchedule 3600" "plan_priority plan0 = HIGH"
  "renderJavascript (plan_policy plan0) = False" "fetchAttachments (plan_policy plan0) = False"
  "rateLimitPerMinute (plan_policy plan0) = 30" "retry_maxAttempts (plan_policy plan0) = 2"
  "retry_backoffSeconds (plan_policy plan0) = 10" "plan_artifactKinds plan0 = [A_HTML]"
  by (simp_all add: plan0_def)

lemma sample_source [simp]:
  "source_id source0 = sample_id ''src'' CHR ''V''" "source_workspaceId source0 = DEFAULT_WORKSPACE_id"
  "source_type source0 = S_WEB" "source_status source0 = S_ACTIVE"
  "source_connector source0 = \<lparr> ref_connectorId = ''web-crawler'', ref_version = ''1.0.0'' \<rparr>"
  by (simp_all add: source0_def)

lemma sample_connector [simp]:
  "connector_connectorId connector0 = ''web-crawler''" "connector_version connector0 = ''1.0.0''"
  "connector_sourceTypes connector0 = [S_WEB]" "connector_capabilities connector0 = [COLLECT]"
  "connector_supportedJobTypes connector0 = [WEB_CRAWL]" "connector_status connector0 = C_ACTIVE"
  "connector_outputArtifactKinds connector0 = [A_HTML]"
  by (simp_all add: connector0_def)

lemma sample_ids [simp]:
  "is_typed_id ''run'' (sample_id ''run'' CHR ''V'')" "is_typed_id ''job'' (sample_id ''job'' CHR ''V'')"
  "is_typed_id ''wsp'' DEFAULT_WORKSPACE_id" "is_typed_id ''src'' (sample_id ''src'' CHR ''V'')"
  "is_typed_id ''pln'' (sample_id ''pln'' CHR ''V'')" "is_typed_id ''wrk'' (sample_id ''wrk'' CHR ''V'')"
  "is_typed_id ''lse'' (sample_id ''lse'' CHR ''V'')" "is_typed_id ''hbt'' (sample_id ''hbt'' CHR ''V'')"
  "is_slug ''web-crawler''" "is_semver ''1.0.0''" "is_semver ''2.1.0''" "is_runtime_id ''crawler-node''"
  by code_simp+

lemma sample_trim [simp]:
  "trim (sample_id ''pln'' CHR ''V'') = sample_id ''pln'' CHR ''V''" "trim ''key-1'' = ''key-1''"
  "trim ''local-admin'' = ''local-admin''" "trim ''Crawler A'' = ''Crawler A''"
  by code_simp+

lemma instant0 [simp]: "n < 100000000000 \<Longrightarrow> -100000000000 < n \<Longrightarrow> iso_instant (now0 + n)"
  by (intro iso_instant_range) (simp_all add: now0_def)

lemma instant_before [simp]: "n < 100000000000 \<Longrightarrow> -100000000000 < n \<Longrightarrow> iso_instant (now0 - n)"
  by (intro iso_instant_range) (simp_all add: now0_def)

lemma instant_now0 [simp]: "iso_instant now0"
  using instant0 [of 0] by simp

lemma sample_documents_valid [simp]:
  "plan_valid plan0" "source_valid source0" "connector_valid connector0"
  by code_simp+

lemma sample_worker_valid [simp]: "worker_valid worker0"
  by (simp add: worker_valid_def worker0_def bounded_text_def binding_valid_def isRfc3339_to_iso
      safe_extensions_def optionally_def)

lemma sample_heartbeat_valid [simp]: "heartbeat_valid heartbeat0"
  by (simp add: heartbeat_valid_def heartbeat0_def worker0_def isRfc3339_to_iso
      safe_extensions_def optionally_def)

lemma run1_valid [simp]: "run_valid run1"
  by (simp add: run_valid_def run1_def dispatched_run_def snapshots_align_def cancellation_valid_def
      trigger_valid_def actor_valid_def actor0_def isRfc3339_to_iso safe_extensions_def optionally_def
      text_within_def)

lemma job1_valid [simp]: "job_valid job1"
  by (simp add: job_valid_def job1_def dispatched_job_def run1_def dispatched_run_def snapshots_align_def cancellation_valid_def
      isRfc3339_to_iso safe_extensions_def optionally_def Let_def)

lemma dispatch_prepared:
  "loadPlan store0 (sample_id ''pln'' CHR ''V'') = Inr plan0"
  "loadSource store0 (sample_id ''src'' CHR ''V'') = Inr source0"
  "loadConnector store0 source0 = Inr connector0" "validateDispatch plan0 source0 connector0 = Inr WEB_CRAWL"
  "normalizeActor None = Inr actor0"
  by (simp_all add: loadPlan_def loadSource_def loadConnector_def connector_by_ref_def store0_def plan_documents_def
      validateDispatch_def assertCapability_def deriveCollectionJobType_def normalizeActor_def actor0_def)

lemma run_by_key_store0: "run_by_key w k store0 = None"
  by (simp add: run_by_key_def store0_def)

lemma insert_dispatch0: "insert_dispatch run1 job1 store0 = Inr store1"
  by (simp add: insert_dispatch_def insert_run_def insert_job_def store1_def store0_def plan_documents_def run1_def job1_def
      dispatched_run_def dispatched_job_def Let_def row_of_key)

lemma sample_dispatch:
  "dispatchManual now0 (sample_id ''run'' CHR ''V'') (sample_id ''job'' CHR ''V'') dispatch0 store0
     = (Inr ((run1, [job1]), False), store1)"
  by (simp add: dispatchManual_def dispatch0_def dispatch_prepared normalizeIdempotencyKey_def
      run_by_key_store0 insert_dispatch0 doc_simps Let_def
      run1_def [symmetric] job1_def [symmetric])

lemma sample_start: "store_ok store0" "coordinated (view_of store0)"
proof -
  show "store_ok store0"
    by (simp add: store_ok_def coherent_def store0_def canon_worker_def worker_row_of_def)
  have "view_of store0 = spec_init"
    by (simp add: view_of_def spec_init_def run_by_id_def job_by_id_def lease_by_id_def store0_def)
  then show "coordinated (view_of store0)"
    by (simp add: coordinated_init)
qed

lemma sample_store1: "store_ok store1" "coordinated (view_of store1)"
  using dispatch_op.keeps_store_ok [OF sample_start sample_dispatch]
    dispatch_op.keeps_coordinated [OF sample_start sample_dispatch] by simp_all

section \<open>Claiming the job\<close>

lemma parse_valid [simp]:
  "job_valid j \<Longrightarrow> parseJob j = Inr j" "run_valid r \<Longrightarrow> parseRun r = Inr r"
  "lease_valid l \<Longrightarrow> parseLease l = Inr l" "worker_valid w \<Longrightarrow> parseWorker w = Inr w"
  "heartbeat_valid h \<Longrightarrow> parseHeartbeat h = Inr h" "attempt_valid a \<Longrightarrow> parseAttempt a = Inr a"
  "event_valid e \<Longrightarrow> parseEvent e = Inr e"
  by simp_all

lemma sample_worker [simp]:
  "worker_id worker0 = sample_id ''wrk'' CHR ''V''" "worker_workspaceId worker0 = DEFAULT_WORKSPACE_id"
  "worker_desiredState worker0 = W_ACTIVE" "worker_supportedJobTypes worker0 = [WEB_CRAWL]"
  "worker_maxConcurrency worker0 = 2"
  "worker_connectorBindings worker0 = [\<lparr> binding_connectorId = ''web-crawler'', binding_version = ''1.0.0'',
            binding_capabilities = [COLLECT] \<rparr>]"
  by (simp_all add: worker0_def)

lemma sample_heartbeat [simp]:
  "heartbeat_receivedAt heartbeat0 = to_iso (now0 - 5000)" "heartbeat_health heartbeat0 = HEALTHY"
  "heartbeat_id heartbeat0 = sample_id ''hbt'' CHR ''V''"
  "heartbeat_workerId heartbeat0 = sample_id ''wrk'' CHR ''V''"
  by (simp_all add: heartbeat0_def)

lemma sample_job [simp]:
  "job_id job1 = sample_id ''job'' CHR ''V''" "job_status job1 = J_PENDING" "job_type job1 = WEB_CRAWL"
  "job_runId job1 = sample_id ''run'' CHR ''V''" "job_attempt job1 = 1" "job_maxAttempts job1 = 2"
  "job_workspaceId job1 = DEFAULT_WORKSPACE_id" "job_availableAt job1 = to_iso now0"
  "job_planSnapshot job1 = plan0" "job_sourceSnapshot job1 = source0" "job_connectorSnapshot job1 = connector0"
  "job_connector job1 = \<lparr> ref_connectorId = ''web-crawler'', ref_version = ''1.0.0'' \<rparr>"
  "job_createdAt job1 = to_iso now0" "job_updatedAt job1 = to_iso now0" "job_priority job1 = HIGH"
  by (simp_all add: job1_def dispatched_job_def run1_def dispatched_run_def Let_def)

lemma sample_digests:
  "verifyDigest platform0 ''secret'' (digestHex platform0 ''secret'')"
  "verifyDigest platform0 ''token'' (digestHex platform0 ''token'')"
  by code_simp+

lemma sample_config [simp]:
  "heartbeatFreshnessMs config0 = 90000" "leaseDurationMs config0 = 120000" "maxLeaseLifetimeMs config0 = 900000"
  "maxConcurrentWebLeasesPerDomain config0 = 1" "heartbeatClockSkewMs config0 = 300000"
  by (simp_all add: config0_def DEFAULT_HEARTBEAT_FRESHNESS_MS_def DEFAULT_LEASE_DURATION_MS_def
      DEFAULT_MAX_LEASE_LIFETIME_MS_def DEFAULT_MAX_CONCURRENT_WEB_LEASES_PER_DOMAIN_def
      DEFAULT_HEARTBEAT_CLOCK_SKEW_MS_def)

lemma store1_simps [simp]:
  "workers store1 = [worker_row_of worker0]" "leases store1 = []" "jobs store1 = [job_row_of job1]"
  "heartbeats store1 = [heartbeat_row_of heartbeat0]" "collection_runs store1 = [run_row_of run1]"
  "credentials store1 = [\<lparr> cr_worker_id = sample_id ''wrk'' CHR ''V'', cr_digest = digestHex platform0 ''secret'',
                         cr_rotated_at = to_iso (now0 - 60000) \<rparr>]"
  by (simp_all add: store1_def store0_def)

lemma verify0: "verifyCredential platform0 store1 (sample_id ''wrk'' CHR ''V'') ''secret'' = Inr worker0"
  using sample_digests(1)
  by (simp add: verifyCredential_def worker_by_id_def worker_row_of_def)

definition job2 :: job where
  "job2 = job1\<lparr>job_status := J_LEASED, job_updatedAt := to_iso now0\<rparr>"

definition lease2 :: job_lease where
  "lease2 = new_lease (sample_id ''lse'' CHR ''V'') worker0 job1 (to_iso now0) (to_iso (now0 + 120000))"

definition store2 :: control_store where
  "store2 = store1\<lparr>jobs := [write_job job2 (job_row_of job1)],
                   leases := [lease_row_of (digestHex platform0 ''token'') lease2]\<rparr>"

lemma parse_iso_instant [simp]: "iso_instant t \<Longrightarrow> parse_iso (to_iso t) = Some t"
  by (rule iso.read_render)

lemma job_valid_status:
  "job_valid j \<Longrightarrow> job_status j \<noteq> J_CANCELLED \<Longrightarrow> s \<noteq> J_CANCELLED \<Longrightarrow> iso_instant t \<Longrightarrow>
     job_valid (j\<lparr>job_status := s, job_updatedAt := to_iso t\<rparr>)"
  by (auto simp: job_valid_def isRfc3339_to_iso cancellation_valid_def)

lemma job2_valid [simp]: "job_valid job2"
  by (simp add: job2_def job_valid_status)

lemma lease2_valid [simp]: "lease_valid lease2"
  by (simp add: lease2_def new_lease_def lease_valid_def isRfc3339_to_iso not_later_def safe_extensions_def optionally_def)

lemma claiming0: "claiming_worker config0 now0 (sample_id ''wrk'' CHR ''V'') store1 = Inr worker0"
  by (simp add: claiming_worker_def getWorker_def worker_by_id_def worker_row_of_def viewForWorker_def
      latestHeartbeat_def heartbeats_newest_first_def heartbeat_row_of_def activeLeases_def
      effectiveStatus_def stale_def)

lemma sample_domain: "domain_of platform0 job1 = Some ''gazette.example''"
proof -
  have "first_domain platform0 (source_canonicalUri source0
             # map (\<lambda>e. Some (fst e)) (source_entrypoints source0)) = Some ''gazette.example''"
    by code_simp
  then show ?thesis by (simp add: domain_of_def webDomainKey_def)
qed

lemma new_Date0 [simp]: "n < 100000000000 \<Longrightarrow> -100000000000 < n \<Longrightarrow> new_Date (now0 + n) = Some (now0 + n)"
  "n < 100000000000 \<Longrightarrow> -100000000000 < n \<Longrightarrow> new_Date (now0 - n) = Some (now0 - n)"
  by (simp_all add: new_Date_def now0_def max_time_def)

lemma domain_state0: "webDomainLeaseState platform0 now0 store1 = Inr (\<lambda>_. None)"
  by (simp add: webDomainLeaseState_def toISOString_def counted_leases_def)

lemma claimable0: "claimable platform0 config0 worker0 (\<lambda>_. None) job1"
  by (simp add: claimable_def workerCanRun_def requiredCapabilities_def webDomainQuotaAllows_def sample_domain)

lemma claim_candidates0: "claim_candidates (to_iso now0) store1 = [job_row_of job1]"
  by (simp add: claim_candidates_def job_row_of_def)

lemma pending0: "update_pending_job job2 store1 = Some (update_job job2 store1)"
  by (simp add: update_pending_job_def job2_def job_row_of_def)

lemma insert_lease0:
  "insert_lease (digestHex platform0 ''token'') lease2 (update_job job2 store1) = Inr store2"
  by (simp add: insert_lease_def lease2_def row_of_key update_job_def store2_def job2_def write_job.key_upd run1_def)

lemma take_job0:
  "claimJobInTransaction platform0 config0 now0 (sample_id ''lse'' CHR ''V'') ''token'' worker0 job1 store1
     = Inr (Some (job2, lease2, ''token''), store2)"
proof -
  have l: "new_lease (sample_id ''lse'' CHR ''V'') worker0 job1 (to_iso now0) (to_iso (now0 + 120000)) = lease2"
    by (simp add: lease2_def)
  have j: "jobWithStatus job1 J_LEASED (to_iso now0) = Inr job2"
    using job2_valid by (simp add: jobWithStatus_Inr job2_def)
  show ?thesis
    by (simp add: claimJobInTransaction_def toISOString_def l j doc_simps pending0 insert_lease0 Let_def)
qed

lemma sample_claim:
  "claim platform0 config0 now0 now0 (sample_id ''lse'' CHR ''V'') ''token'' (sample_id ''wrk'' CHR ''V'') ''secret'' store1
     = (Inr (Some (job2, lease2, ''token'')), store2)"
  by (simp add: claim_def verify0 claim_body_def reapExpiredInTransaction_def expired_leases_def
      claiming0 claim_candidates0 domain_state0 claimable0 take_job0 in_transaction_def job_row_of_def)

section \<open>Renewing, expiring and disabling\<close>

lemma sample_store2: "store_ok store2" "coordinated (view_of store2)"
  using claim_op.keeps_store_ok [OF sample_store1 sample_claim]
    claim_op.keeps_coordinated [OF sample_store1 sample_claim] by simp_all

lemma store2_simps [simp]:
  "leases store2 = [lease_row_of (digestHex platform0 ''token'') lease2]"
  "workers store2 = [worker_row_of worker0]" "jobs store2 = [write_job job2 (job_row_of job1)]"
  "credentials store2 = credentials store1" "heartbeats store2 = [heartbeat_row_of heartbeat0]"
  by (simp_all add: store2_def)

lemma sample_lease [simp]:
  "lease_id lease2 = sample_id ''lse'' CHR ''V''" "lease_jobId lease2 = sample_id ''job'' CHR ''V''"
  "lease_workerId lease2 = sample_id ''wrk'' CHR ''V''" "lease_status lease2 = L_ACTIVE"
  "lease_acquiredAt lease2 = to_iso now0" "lease_expiresAt lease2 = to_iso (now0 + 120000)"
  "lease_runId lease2 = sample_id ''run'' CHR ''V''"
  by (simp_all add: lease2_def)

lemma verify2: "verifyCredential platform0 store2 (sample_id ''wrk'' CHR ''V'') ''secret'' = Inr worker0"
  using sample_digests(1)
  by (simp add: verifyCredential_def worker_by_id_def worker_row_of_def)

lemma owned2:
  "requireOwnedActiveLease platform0 store2 (sample_id ''wrk'' CHR ''V'') (sample_id ''lse'' CHR ''V'') ''token'' = Inr lease2"
  using sample_digests(2)
  by (simp add: requireOwnedActiveLease_def lease_by_id_def lease_row_of_def)

lemma renewed2: "renewed_expiry config0 (now0 + 60000) lease2 = Some (now0 + 180000)"
proof -
  have "now0 + 60000 + 120000 = now0 + 180000" by simp
  then show ?thesis by (simp add: renewed_expiry_def Let_def add.commute [of 180000 now0])
qed

lemma sample_renew:
  "renewLease platform0 config0 (now0 + 60000) (sample_id ''wrk'' CHR ''V'') ''secret'' (sample_id ''lse'' CHR ''V'') ''token'' store2
     = (let l = lease2\<lparr>lease_expiresAt := to_iso (now0 + 180000), lease_updatedAt := to_iso (now0 + 60000)\<rparr>
        in (Inr l, update_lease l store2))"
  by (simp add: renewLease_def verify2 renewLease_body_def owned2 date_due_def renewed2
      toISOString_def in_transaction_def Let_def)

lemma closed2_valid [simp]:
  "s \<noteq> L_ACTIVE \<Longrightarrow> length why \<le> 500 \<Longrightarrow> iso_instant t \<Longrightarrow> lease_valid (closed_lease lease2 s (to_iso t) why)"
  using lease2_valid
  by (simp add: lease_valid_def closed_lease_def isRfc3339_to_iso optionally_def)

lemma return2:
  "returnJobToPending (sample_id ''job'' CHR ''V'') (to_iso (now0 + 120000)) (update_lease l store2)
     = Inr (update_job (job2\<lparr>job_status := J_PENDING, job_updatedAt := to_iso (now0 + 120000)\<rparr>) (update_lease l store2))"
  by (simp add: returnJobToPending_Inr job_by_id_def write_job_def job2_def job_valid_status job_row_of_def)

definition store3 :: control_store where
  "store3 = update_job (job2\<lparr>job_status := J_PENDING, job_updatedAt := to_iso (now0 + 120000)\<rparr>)
      (update_lease (closed_lease lease2 L_EXPIRED (to_iso (now0 + 120000)) ''Lease expired'') store2)"

lemma sample_reap: "reapExpired (now0 + 120000) store2 = (Inr 1, store3)"
  by (simp add: reapExpired_def reapExpiredInTransaction_def expired_leases_def lease_row_of_def
      expireLeaseInTransaction_def close_and_return_def closeLease_def Let_def doc_simps return2
      store3_def in_transaction_def)

lemma sample_expired_renewal:
  "renewLease platform0 config0 (now0 + 120000) (sample_id ''wrk'' CHR ''V'') ''secret'' (sample_id ''lse'' CHR ''V'') ''token'' store2
     = (Inl (RegistryConflictError (Lease LEASE_EXPIRED)), store2)"
  by (simp add: renewLease_def verify2 renewLease_body_def owned2 date_due_def
      expireLeaseInTransaction_def close_and_return_def closeLease_def Let_def doc_simps return2 in_transaction_def)

lemma sample_safe_renewal:
  "safe_renewLease platform0 config0 (now0 + 120000) (now0 + 120000) (sample_id ''wrk'' CHR ''V'') ''secret''
      (sample_id ''lse'' CHR ''V'') ''token'' store2
     = (Inl (RegistryConflictError (Lease LEASE_EXPIRED)), store3)"
  by (simp add: safe_renewLease_def sample_expired_renewal sample_reap)

section \<open>Cancelling, replaying and disabling\<close>

lemma run1_shape [simp]:
  "run_id run1 = sample_id ''run'' CHR ''V''" "run_status run1 = R_PENDING" "run_updatedAt run1 = to_iso now0"
  by (simp_all add: run1_def dispatched_run_def)

lemma sample_record: "getRunById store1 (sample_id ''run'' CHR ''V'') = Inr (Some (run1, [job1]))"
  by (simp add: getRunById_def run_by_id_def recordFromRun_def jobsForRun_def run_row_of_def job_row_of_def)

definition run_cancelled0 :: collection_run where
  "run_cancelled0 = cancelled_run run1 (to_iso (now0 + 1000)) (Some ''obsolete'')"

definition job_cancelled0 :: job where
  "job_cancelled0 = cancelled_job job1 (to_iso (now0 + 1000)) (Some ''obsolete'')"

lemma cancelled_valid [simp]: "run_valid run_cancelled0" "job_valid job_cancelled0"
  using run1_valid job1_valid
  by (simp_all add: run_cancelled0_def job_cancelled0_def run_valid_def job_valid_def cancelled_run_def
      cancelled_job_def cancellation_valid_def optionally_def isRfc3339_to_iso text_within_def)

lemma trim_obsolete [simp]: "trim ''obsolete'' = ''obsolete''"
  by code_simp

lemma sample_cancel:
  "cancel (now0 + 1000) (sample_id ''run'' CHR ''V'') (to_iso now0) (Some ''obsolete'') store1
     = (Inr (run_cancelled0, [job_cancelled0]), update_job job_cancelled0 (update_run run_cancelled0 store1))"
proof -
  have "update_run_if (to_iso now0) run_cancelled0 store1 = Some (update_run run_cancelled0 store1)"
    by (simp add: update_run_if_def run_by_id_def run_cancelled0_def run_row_of_def)
  moreover have "cancel_job_step job_cancelled0 (update_run run_cancelled0 store1)
      = Inr (update_job job_cancelled0 (update_run run_cancelled0 store1))"
    by (simp add: cancel_job_step_Inr job_by_id_def job_cancelled0_def job_row_of_def)
  ultimately show ?thesis
    by (simp add: cancel_def cancel_body_def sample_record Let_def optionally_def doc_simps
        run_cancelled0_def [symmetric] job_cancelled0_def [symmetric] in_transaction_def)
qed

definition disable0 :: update_worker_input where
  "disable0 = \<lparr> uw_displayName = None, uw_desiredState = Some W_DISABLED, uw_runtime = None,
     uw_supportedJobTypes = None, uw_connectorBindings = None, uw_maxConcurrency = None,
     uw_labels = None, uw_extensions = None \<rparr>"

lemma sample_disable:
  "\<exists>view db'. updateWorker config0 (now0 + 1000) (now0 + 1000) (sample_id ''wrk'' CHR ''V'') disable0
      (to_iso (now0 - 60000)) store1 = (Inr view, db')"
proof -
  have valid: "worker_valid (worker0\<lparr>worker_desiredState := W_DISABLED, worker_updatedAt := to_iso (now0 + 1000)\<rparr>)"
    using sample_worker_valid by (simp add: worker_valid_def isRfc3339_to_iso)
  have upd: "applyWorkerUpdate worker0 disable0 (to_iso (now0 + 1000))
      = Inr (worker0\<lparr>worker_desiredState := W_DISABLED, worker_updatedAt := to_iso (now0 + 1000)\<rparr>)"
    using valid unfolding worker0_def by (simp add: applyWorkerUpdate_def disable0_def given_or_def Let_def doc_simps)
  let ?w = "worker0\<lparr>worker_desiredState := W_DISABLED, worker_updatedAt := to_iso (now0 + 1000)\<rparr>"
  let ?db = "store1\<lparr>workers := update_by wr_id (sample_id ''wrk'' CHR ''V'') (write_worker ?w) (workers store1)\<rparr>"
  have "getWorker store1 (sample_id ''wrk'' CHR ''V'') = Inr (Some worker0)"
    by (simp add: getWorker_def worker_by_id_def worker_row_of_def)
  moreover have "validateWorkerBindings store1 ?w = Inr ()"
    by (simp add: validateWorkerBindings_def connector_by_ref_def store1_def store0_def)
  moreover have "worker_updatedAt worker0 = to_iso (now0 - 60000)"
    by (simp add: worker0_def)
  moreover from this have "update_worker_if (sample_id ''wrk'' CHR ''V'') (to_iso (now0 - 60000)) ?w store1 = Some ?db"
    by (simp add: update_worker_if_def worker_by_id_def worker_row_of_def)
  moreover have "revokeActiveLeasesForWorker (sample_id ''wrk'' CHR ''V'') t why ?db = Inr ?db" for t why
    by (simp add: revokeActiveLeasesForWorker_def activeLeases_def)
  moreover have "\<exists>v. viewForWorker config0 (now0 + 1000) ?db ?w = Inr v"
    by (simp add: viewForWorker_def latestHeartbeat_def heartbeats_newest_first_def heartbeat_row_of_def
        activeLeases_def)
  ultimately show ?thesis
    using upd by (auto simp: updateWorker_def in_transaction_def)
qed

end
