(* ===== verification/Sample_Scheduler.thy ===== *)
theory Sample_Scheduler
  imports Scheduler_Protocol Sample_Store
begin

text \<open>
  The scheduler on the sample deployment: the hourly plan is due at \<open>now0\<close>, a tick dispatches it
  and moves its next slot to an hour later. \<open>utc_zones\<close> knows the zone UTC, and a zone whose
  clocks stand still, on which no schedule but the one minute it shows ever comes round.
\<close>

section \<open>Zones\<close>

definition utc_parts :: "int \<Rightarrow> zone_parts" where
  "utc_parts t =
     (let d = t div 86400000; y = year_from_day d; l = leap_year y; n = d - days_from_year y;
          m = month_from_day l n
      in \<lparr> zp_year = Some y, zp_month = Some (m + 1), zp_day = Some (n - month_start l m + 1),
           zp_hour = Some (t mod 86400000 div 3600000), zp_minute = Some (t mod 3600000 div 60000) \<rparr>)"

definition still_parts :: "int \<Rightarrow> zone_parts" where
  "still_parts t =
     \<lparr> zp_year = Some 2024, zp_month = Some 6, zp_day = Some 1, zp_hour = Some 0, zp_minute = Some 0 \<rparr>"

definition utc_zones :: time_zones where
  "utc_zones z =
     (if z = ''UTC'' then Some utc_parts else if z = ''Still'' then Some still_parts else None)"

text \<open>Weekdays at half past nine: the first after Saturday, 1 June 2024, is Monday the third.\<close>

lemma sample_cron:
  "parseCron ''30 9 * * 1-5'' = Inr \<lparr>
     cs_minute = \<lparr> cf_values = [30], cf_unrestricted = False \<rparr>,
     cs_hour = \<lparr> cf_values = [9], cf_unrestricted = False \<rparr>,
     cs_dayOfMonth = \<lparr> cf_values = [1..31], cf_unrestricted = True \<rparr>,
     cs_month = \<lparr> cf_values = [1..12], cf_unrestricted = True \<rparr>,
     cs_dayOfWeek = \<lparr> cf_values = [1, 2, 3, 4, 5], cf_unrestricted = False \<rparr> \<rparr>"
  by code_simp

lemma sample_occurrence:
  "nextCronOccurrence utc_zones ''1 0 * * *'' ''UTC'' (Some now0) = Inr (Some (now0 + 60000))"
  by code_simp

text \<open>A clock that stands still never shows another minute.\<close>

lemma still_search:
  assumes "\<bar>c\<bar> + 60000 * MAX_CRON_LOOKAHEAD_MINUTES \<le> max_time + 60000 * m" "0 \<le> m"
    and no: "\<And>t. \<not> cron_match f spec t" and total: "\<And>t. \<exists>parts. localParts f (Some t) = Inr parts"
  shows "cron_search f spec m (Some c) = schedulerConflict SCHEDULER_CRON_LOOKAHEAD_EXCEEDED"
  using assms(1,2)
proof (induction "nat (MAX_CRON_LOOKAHEAD_MINUTES - m)" arbitrary: m c)
  case 0
  then show ?case by (subst cron_search.simps) simp
next
  case (Suc n)
  then have m: "m < MAX_CRON_LOOKAHEAD_MINUTES" by simp
  obtain parts where "localParts f (Some c) = Inr parts" using total by blast
  with m no have step: "cron_search f spec m (Some c) = cron_search f spec (m + 1) (new_Date (c + 60000))"
    by (simp add: cron_search_step)
  have n: "n = nat (MAX_CRON_LOOKAHEAD_MINUTES - (m + 1))" using Suc.hyps(2) by simp
  show ?case
  proof (cases "\<bar>c + 60000\<bar> \<le> max_time")
    case True
    with step Suc.hyps(1) [OF n, of "c + 60000"] Suc.prems show ?thesis by (simp add: new_Date_def)
  next
    case False
    with Suc.prems m have False by (simp add: algebra_simps)
    then show ?thesis ..
  qed
qed

lemma still_lookahead:
  "nextCronOccurrence utc_zones ''1 0 * * *'' ''Still'' (Some now0)
     = schedulerConflict SCHEDULER_CRON_LOOKAHEAD_EXCEEDED"
proof -
  have "case parseCron ''1 0 * * *'' of Inl e \<Rightarrow> False | Inr spec \<Rightarrow> cf_values (cs_minute spec) = [1]"
    by code_simp
  then obtain spec where spec: "parseCron ''1 0 * * *'' = Inr spec" "cf_values (cs_minute spec) = [1]"
    by (auto split: sum.splits)
  have "cron_search still_parts spec 0 (Some (first_candidate now0))
      = schedulerConflict SCHEDULER_CRON_LOOKAHEAD_EXCEEDED"
    by (rule still_search)
      (auto simp: first_candidate_def now0_def max_time_def MAX_CRON_LOOKAHEAD_MINUTES_def cron_match_def
        cronMatches_def localParts_def still_parts_def spec(2))
  then show ?thesis
    using spec(1)
    by (simp add: nextCronOccurrence_eq timezoneFormatter_def utc_zones_def new_Date_def first_candidate_def
        now0_def max_time_def trim_def is_space_def code_unit_def Let_def)
qed


section \<open>The slot at now0\<close>

definition slot_key0 :: string where
  "slot_key0 = ''schedule:'' @ sample_id ''pln'' CHR ''V'' @ '':'' @ to_iso now0"

definition run_s :: collection_run where
  "run_s = scheduled_run plan0 source0 connector0 slot_key0 (to_iso now0) (sample_id ''run'' CHR ''V'') (to_iso now0)"

definition job_s :: job where
  "job_s = dispatched_job run_s WEB_CRAWL (sample_id ''job'' CHR ''V'') (to_iso now0)"

definition store_s :: control_store where
  "store_s = store0\<lparr>collection_runs := [run_row_of run_s], jobs := [job_row_of job_s]\<rparr>"

definition fresh0 :: "string \<Rightarrow> string \<times> string" where
  "fresh0 p = (sample_id ''run'' CHR ''V'', sample_id ''job'' CHR ''V'')"

lemma run_s_valid [simp]: "run_valid run_s"
proof -
  have "length slot_key0 = 64" by (simp add: slot_key0_def sample_id_def length_to_iso)
  moreover have "safe_extensions (Some [(''x-markorbit.schedule-slot-at'', JStr (to_iso now0))])" by code_simp
  moreover have "trim slot_key0 \<noteq> []" by code_simp
  ultimately show ?thesis
    by (simp add: run_valid_def run_s_def scheduled_run_def snapshots_align_def cancellation_valid_def
      trigger_valid_def actor_valid_def SYSTEM_ACTOR_ID_def isRfc3339_to_iso optionally_def
      text_within_def)
qed

lemma job_s_valid [simp]: "job_valid job_s"
proof -
  have "safe_extensions (Some [(''x-markorbit.schedule-slot-at'', JStr (to_iso now0))])" by code_simp
  then show ?thesis
    by (simp add: job_valid_def job_s_def dispatched_job_def run_s_def scheduled_run_def snapshots_align_def
      cancellation_valid_def isRfc3339_to_iso optionally_def Let_def)
qed

lemma slot_prepared:
  "scheduler_loadSource store0 (sample_id ''src'' CHR ''V'') = Inr source0"
  "scheduler_loadConnector store0 source0 = Inr connector0"
  "validateScheduledDispatch plan0 source0 connector0 = Inr WEB_CRAWL"
  "scheduledSlotIdempotencyKey (sample_id ''pln'' CHR ''V'') (Some now0) = Inr slot_key0"
  "existingScheduledRun store0 w p k = Inr None" "inFlightRunForPlan store0 p = Inr None"
  by (simp_all add: scheduler_loadSource_def scheduler_loadConnector_def connector_by_ref_def store0_def
      validateScheduledDispatch_def scheduler_assertCapability_def deriveCollectionJobType_def
      scheduledSlotIdempotencyKey_def toISOString_def slot_key0_def length_to_iso sample_id_def
      existingScheduledRun_None inFlightRunForPlan_None run_by_key_def plan_in_flight_def)

lemma insert_dispatch_s: "insert_dispatch run_s job_s store0 = Inr store_s"
  by (simp add: insert_dispatch_def insert_run_def insert_job_def store_s_def store0_def plan_documents_def run_s_def job_s_def
      scheduled_run_def dispatched_job_def Let_def row_of_key)

lemma sample_well_formed0: "well_formed store0"
  using sample_start by (simp add: well_formed_def linked_def lease_links_def attempt_links_def store0_def)

abbreviation "dispatch_s \<equiv> \<lparr> sdr_run = run_s, sdr_jobs = [job_s], sdr_replayed = False, sdr_coalesced = False \<rparr>"

lemma sample_slot: "dispatchScheduled fresh0 plan0 (Some now0) now0 store0 = (Inr dispatch_s, store_s)"
  by (simp add: dispatchScheduled_def slot_prepared toISOString_def fresh0_def doc_simps
      run_s_def [symmetric] job_s_def [symmetric] scheduled_commit_def scheduled_body_def insert_dispatch_s)

section \<open>A tick\<close>

definition state0 :: schedule_row where
  "state0 =
     \<lparr> ss_plan_id = sample_id ''pln'' CHR ''V'', ss_workspace_id = DEFAULT_WORKSPACE_id, ss_mode = M_INTERVAL,
       ss_fingerprint = scheduleFingerprint platform0 (IntervalSchedule 3600),
       ss_next_due_at = Some (to_iso now0), ss_last_slot_at = None, ss_last_triggered_at = None,
       ss_last_run_id = None, ss_last_error_code = None, ss_last_error_at = None,
       ss_updated_at = to_iso (now0 - 3600000) \<rparr>"

definition state_s :: schedule_row where
  "state_s =
     state0\<lparr> ss_next_due_at := Some (to_iso (now0 + 3600000)), ss_last_slot_at := Some (to_iso now0),
       ss_last_triggered_at := Some (to_iso now0), ss_last_run_id := Some (sample_id ''run'' CHR ''V''),
       ss_updated_at := to_iso now0 \<rparr>"

definition sd0 :: scheduler_store where
  "sd0 = \<lparr> sd_control = store0, sd_states = [state0] \<rparr>"

definition sd_s :: scheduler_store where
  "sd_s = \<lparr> sd_control = store_s, sd_states = [state_s] \<rparr>"

definition tick_s :: tick_result where
  "tick_s =
     \<lparr> tr_observedAt = to_iso now0, tr_examined = 1, tr_dispatched = 1, tr_replayed = 0, tr_coalesced = 0,
       tr_errors = 0,
       tr_items = [\<lparr> ti_planId = sample_id ''pln'' CHR ''V'', ti_outcome = O_DISPATCHED,
                     ti_nextDueAt = Some (to_iso (now0 + 3600000)),
                     ti_runId = Some (sample_id ''run'' CHR ''V''), ti_errorCode = None \<rparr>] \<rparr>"

lemma new_Date_text_instant: "iso_instant t \<Longrightarrow> new_Date_text env (to_iso t) = Some t"
  using isRfc3339_to_iso [of t] by (simp add: new_Date_text_def isRfc3339_def)

lemma reconcile0:
  "reconcileActivePlan zones platform0 plan0 now [state0] = Inr ((state0, False), [state0])"
proof -
  have "to_iso now0 \<noteq> []" using length_to_iso [of now0] by auto
  then show ?thesis
    by (simp add: reconcileActivePlan_def stateRow_def state0_def state_current_def isRfc3339_to_iso)
qed

lemma next_slot0:
  "future_due zones platform0 plan0 (to_iso now0) now0 = Inr (to_iso (now0 + 3600000))"
proof -
  have "new_Date (future_slot 3600000 now0 now0) = Some (now0 + 3600000)"
    by (simp add: future_slot_def new_Date_def max_time_def now0_def)
  then show ?thesis
    by (simp add: future_due_def nextFutureScheduledAt_def parsePositiveSeconds_def MAX_SAFE_INTEGER_def
      new_Date_text_instant toISOString_def)
qed

lemma rows0: "tick_rows now0 50 sd0 = [plan0]"
  by (simp add: tick_rows_def sd0_def store0_def plan_documents_def)

lemma sample_tick: "tick utc_zones platform0 fresh0 now0 None None sd0 = (Inr tick_s, sd_s)"
proof -
  have "to_iso now0 \<noteq> []" using length_to_iso [of now0] by auto
  then obtain c cs where iso: "to_iso now0 = c # cs" by (cases "to_iso now0") auto
  have disp: "tick_dispatch utc_zones platform0 fresh0 now0 plan0 (to_iso now0) sd0 = (Inr (dispatch_s, state_s), sd_s)"
    by (simp add: tick_dispatch_def sd0_def new_Date_text_instant sample_slot advanceState_def next_slot0
        move_state_def stateRow_def sd_s_def)
      (simp add: state0_def state_s_def run_s_def)
  have "tick_plan utc_zones platform0 fresh0 now0 plan0 acc sd0 =
      (Inr (push_item \<lparr> ti_planId = sample_id ''pln'' CHR ''V'', ti_outcome = O_DISPATCHED,
                     ti_nextDueAt = Some (to_iso (now0 + 3600000)),
                     ti_runId = Some (sample_id ''run'' CHR ''V''), ti_errorCode = None \<rparr>
         (acc\<lparr>tr_dispatched := tr_dispatched acc + 1\<rparr>)), sd_s)" for acc
  proof -
    have eqs: "sd_states sd0 = [state0]" "sd0\<lparr>sd_states := [state0]\<rparr> = sd0"
      "ss_next_due_at state0 = Some (to_iso now0)" "ss_last_error_code state0 = None"
      "ss_next_due_at state_s = Some (to_iso (now0 + 3600000))" "run_id run_s = sample_id ''run'' CHR ''V''"
      by (simp_all add: sd0_def state0_def state_s_def run_s_def)
    have parse: "parsePlan plan0 = Inr plan0" by simp
    show ?thesis
      using disp new_Date_text_instant [of now0 platform0]
      by (simp add: tick_plan_def parse reconcile0 eqs iso)
  qed
  then show ?thesis
    by (simp add: tick_def normalizedTickLimit_def DEFAULT_TICK_LIMIT_def rows0 push_item_def tick_s_def)
qed

end
