(* ===== verification/Sample_History.thy ===== *)
theory Sample_History
  imports Work_History Sample_Scheduler
begin

text \<open>
  The slot of the sample plan after its run was cancelled: dispatched again, it answers with the cancelled
  run.
\<close>

definition run_sc :: collection_run where
  "run_sc = cancelled_run run_s (to_iso (now0 + 1000)) None"

definition job_sc :: job where
  "job_sc = cancelled_job job_s (to_iso (now0 + 1000)) None"

definition store_sc :: control_store where
  "store_sc = update_job job_sc (update_run run_sc store_s)"

lemma s_shape:
  "run_id run_s = sample_id ''run'' CHR ''V''" "job_id job_s = sample_id ''job'' CHR ''V''"
  "job_runId job_s = sample_id ''run'' CHR ''V''" "run_status run_s = R_PENDING" "job_status job_s = J_PENDING"
  "run_updatedAt run_s = to_iso now0"
  by (simp_all add: run_s_def job_s_def scheduled_run_def dispatched_job_def Let_def)

lemma sc_valid [simp]: "run_valid run_sc" "job_valid job_sc"
  using run_s_valid job_s_valid
  by (auto simp: s_shape run_sc_def job_sc_def run_valid_def job_valid_def cancelled_run_def
      cancelled_job_def cancellation_valid_def optionally_def isRfc3339_to_iso)

lemma sc_shape:
  "run_id run_sc = sample_id ''run'' CHR ''V''" "job_id job_sc = sample_id ''job'' CHR ''V''"
  by (simp_all add: run_sc_def job_sc_def cancelled_run_def cancelled_job_def s_shape)

lemma record_s: "getRunById store_s (sample_id ''run'' CHR ''V'') = Inr (Some (run_s, [job_s]))"
  by (simp add: getRunById_def recordFromRun_def run_by_id_def jobsForRun_def store_s_def
      run_row_of_def job_row_of_def s_shape doc_simps)

lemma sample_slot_cancelled:
  "cancel (now0 + 1000) (sample_id ''run'' CHR ''V'') (to_iso now0) None store_s = (Inr (run_sc, [job_sc]), store_sc)"
proof -
  have "update_run_if (to_iso now0) run_sc store_s = Some (update_run run_sc store_s)"
    by (simp add: update_run_if_def run_by_id_def sc_shape store_s_def run_row_of_def s_shape)
  moreover have "cancel_job_step job_sc (update_run run_sc store_s) = Inr store_sc"
    by (simp add: cancel_job_step_Inr job_by_id_def sc_shape store_s_def job_row_of_def s_shape store_sc_def)
  ultimately show ?thesis
    by (simp add: cancel_def cancel_body_def record_s Let_def optionally_def doc_simps s_shape
        run_sc_def [symmetric] job_sc_def [symmetric] in_transaction_def)
qed

lemma sample_slot_replayed:
  "dispatchScheduled fresh0 plan0 (Some now0) (now0 + 2000) store_sc
     = (Inr \<lparr> sdr_run = run_sc, sdr_jobs = [job_sc], sdr_replayed = True, sdr_coalesced = False \<rparr>, store_sc)"
proof -
  have same: "sources store_sc = sources store0" "connectors store_sc = connectors store0"
    by (simp_all add: store_sc_def store_s_def update_job_def update_run_def)
  have load: "scheduler_loadSource store_sc (sample_id ''src'' CHR ''V'') = Inr source0"
    "scheduler_loadConnector store_sc source0 = Inr connector0"
    using slot_prepared(1,2) same
    by (simp_all add: scheduler_loadSource_def scheduler_loadConnector_def connector_by_ref_def)
  have rows: "collection_runs store_sc = [write_run run_sc (run_row_of run_s)]"
    "jobs store_sc = [write_job job_sc (job_row_of job_s)]"
    by (simp_all add: store_sc_def store_s_def update_job_def update_run_def update_by_def sc_shape
        run_row_of_def job_row_of_def s_shape)
  have key: "rr_idempotency_key (write_run run_sc (run_row_of run_s)) = Some slot_key0"
    "rr_workspace_id (write_run run_sc (run_row_of run_s)) = plan_workspaceId plan0"
    "rr_document (write_run run_sc (run_row_of run_s)) = run_sc"
    by (simp_all add: write_run_def run_row_of_def run_s_def scheduled_run_def)
  have job: "jr_run_id (write_job job_sc (job_row_of job_s)) = sample_id ''run'' CHR ''V''"
    "jr_document (write_job job_sc (job_row_of job_s)) = job_sc"
    by (simp_all add: write_job_def job_row_of_def s_shape)
  have run: "run_planId run_sc = plan_id plan0" "trigger_type (run_trigger run_sc) = T_SCHEDULED"
    by (simp_all add: run_sc_def cancelled_run_def run_s_def)
  have "existingScheduledRun store_sc (plan_workspaceId plan0) (plan_id plan0) slot_key0
     = Inr (Some \<lparr> sdr_run = run_sc, sdr_jobs = [job_sc], sdr_replayed = True, sdr_coalesced = False \<rparr>)"
    by (simp add: existingScheduledRun_def run_by_key_def rows key jobsForRun_def job run sc_shape doc_simps)
  then show ?thesis
    by (simp add: dispatchScheduled_def load slot_prepared)
qed

end
