(* ===== verification/Reconciliation.thy ===== *)
theory Reconciliation
  imports Execution_Protocol
begin

text \<open>
  What \<open>reconcileExpired\<close> does to the rows: exactly the active attempts whose lease is closed or has
  expired are settled, each with its job, its run and its lease, and every other attempt is as it was.
  The attempts are described by their own columns and those of their lease.
\<close>

definition stranded :: "control_store \<Rightarrow> string \<Rightarrow> attempt_row \<Rightarrow> bool" where
  "stranded db t a \<longleftrightarrow> active_attempt (ar_status a)
     \<and> (\<exists>l. lease_by_id (ar_lease_id a) db = Some l \<and> (lr_status l \<noteq> L_ACTIVE \<or> lr_expires_at l \<le> t))"

definition settled_rows :: "control_store \<Rightarrow> string \<Rightarrow> string \<Rightarrow> string \<Rightarrow> string \<Rightarrow> bool" where
  "settled_rows db a j r l \<longleftrightarrow>
     map_option ar_status (find_by ar_id a (attempts db)) = Some X_FAILED
     \<and> map_option jr_status (job_by_id j db) = Some J_FAILED
     \<and> map_option rr_status (run_by_id r db) = Some R_FAILED
     \<and> (\<exists>x. lease_by_id l db = Some x \<and> lr_status x \<noteq> L_ACTIVE)"

abbreviation settled_row :: "control_store \<Rightarrow> reconcile_row \<Rightarrow> bool" where
  "settled_row db row \<equiv> settled_rows db (attempt_id (rc_attempt row)) (job_id (rc_job row))
     (run_id (rc_run row)) (lease_id (rc_lease row))"

text \<open>One row.\<close>

lemma reconcile_one_settles:
  assumes wf: "well_formed db" and cur: "current_row db row" and s: "reconcile_one env t (i, row) db = Inr db'"
  shows "settled_row db' row"
proof -
  let ?a' = "ended_attempt (rc_attempt row) (Failure (abandonment t)) t"
  obtain ar lr jr rr where
    ar: "find_by ar_id (attempt_id (rc_attempt row)) (attempts db) = Some ar"
    and lr: "lease_by_id (lease_id (rc_lease row)) db = Some lr" "lr_document lr = rc_lease row"
    and jr: "job_by_id (job_id (rc_job row)) db = Some jr"
    and rr: "run_by_id (run_id (rc_run row)) db = Some rr"
    using cur by (auto simp: current_row_def)
  have ok: "store_ok db" using wf by (simp add: well_formed_def)
  from s obtain event db2 where
    ins: "insert_event event (update_attempt ?a' db) = Inr db2"
    and db': "db' = (let db4 = update_run ((rc_run row)\<lparr>run_status := R_FAILED, run_updatedAt := t\<rparr>)
              (update_job ((rc_job row)\<lparr>job_status := J_FAILED, job_updatedAt := t\<rparr>) db2)
       in if lease_status (rc_lease row) = L_ACTIVE
          then update_lease_closed (ended_lease (rc_lease row) L_EXPIRED ''LEASE_EXPIRED_DURING_EXECUTION'' t) db4
          else db4)"
    by (rule reconcile_one_Inr)
  note fr = insert_frames(2) [OF ins]
  have b: "job_by_id j db2 = job_by_id j db" "run_by_id r db2 = run_by_id r db" "lease_by_id l db2 = lease_by_id l db" for j r l
    using fr by (simp_all add: job_by_id_def run_by_id_def lease_by_id_def)
  have att: "attempts db' = update_by ar_id (attempt_id (rc_attempt row)) (write_attempt ?a') (attempts db)"
    by (rule reconcile_one_refines(4) [OF wf cur s])
  have "map_option ar_status (find_by ar_id (attempt_id (rc_attempt row)) (attempts db')) = Some X_FAILED"
    using ar unfolding att by (simp add: write_attempt.find_update write_attempt_def)
  moreover have "map_option jr_status (job_by_id (job_id (rc_job row)) db') = Some J_FAILED"
    using jr b by (simp add: db' Let_def write_job_def)
  moreover have "map_option rr_status (run_by_id (run_id (rc_run row)) db') = Some R_FAILED"
    using rr b by (simp add: db' Let_def write_run_def)
  moreover have "\<exists>x. lease_by_id (lease_id (rc_lease row)) db' = Some x \<and> lr_status x \<noteq> L_ACTIVE"
    using lr b lease_columns(3) [OF ok lr(1)]
    by (simp add: db' Let_def ended_lease_def write_lease_closed_def)
  ultimately show ?thesis by (simp add: settled_rows_def)
qed

text \<open>All of them: a row settled stays settled while the others are handled.\<close>

lemma reconcile_all_settles:
  assumes "fold_result (reconcile_one env t) items db = Inr db'" and "well_formed db"
    and "\<And>i row. (i, row) \<in> set items \<Longrightarrow> current_row db row"
    and "distinct (map (\<lambda>(i, row). attempt_id (rc_attempt row)) items)"
  shows "(\<forall>(i, row)\<in>set items. settled_row db' row)
    \<and> (\<forall>a. a \<notin> (\<lambda>(i, row). attempt_id (rc_attempt row)) ` set items \<longrightarrow>
          find_by ar_id a (attempts db') = find_by ar_id a (attempts db))
    \<and> (\<forall>j. j \<notin> (\<lambda>(i, row). job_id (rc_job row)) ` set items \<longrightarrow> job_by_id j db' = job_by_id j db)
    \<and> (\<forall>r. r \<notin> (\<lambda>(i, row). run_id (rc_run row)) ` set items \<longrightarrow> run_by_id r db' = run_by_id r db)
    \<and> (\<forall>l. l \<notin> (\<lambda>(i, row). lease_id (rc_lease row)) ` set items \<longrightarrow> lease_by_id l db' = lease_by_id l db)"
  using assms
proof (induction items arbitrary: db)
  case (Cons item items)
  obtain i row where item: "item = (i, row)" by (cases item)
  from Cons.prems(1) obtain db1 where
    s: "reconcile_one env t (i, row) db = Inr db1" "fold_result (reconcile_one env t) items db1 = Inr db'"
    by (auto simp: item and_then_Inr)
  have cur: "current_row db row" by (rule Cons.prems(3) [of i]) (simp add: item)
  note keep = reconcile_one_keeps [OF Cons.prems(2) cur s(1)] and fr = reconcile_one_frame [OF s(1)]
  have ne: "attempt_id (rc_attempt row) \<noteq> attempt_id (rc_attempt row')" if "(i', row') \<in> set items" for i' row'
    using Cons.prems(4) that by (auto simp: item image_iff)
  have old: "current_row db row'" if "(i', row') \<in> set items" for i' row'
    by (rule Cons.prems(3) [of i']) (simp add: that)
  have other: "job_id (rc_job row) \<noteq> job_id (rc_job row')" "run_id (rc_run row) \<noteq> run_id (rc_run row')"
      "lease_id (rc_lease row) \<noteq> lease_id (rc_lease row')" if "(i', row') \<in> set items" for i' row'
    using current_distinct [OF Cons.prems(2) cur old [OF that] ne [OF that]] by simp_all
  have rest: "current_row db1 row'" if "(i', row') \<in> set items" for i' row'
    by (rule keep(2) [OF old [OF that] ne [OF that]])
  have dist: "distinct (map (\<lambda>(i, row). attempt_id (rc_attempt row)) items)" using Cons.prems(4) by simp
  note ih = Cons.IH [OF s(2) keep(1) rest dist]
  have here: "settled_row db1 row" by (rule reconcile_one_settles [OF Cons.prems(2) cur s(1)])
  have "attempt_id (rc_attempt row) \<notin> (\<lambda>(i, row). attempt_id (rc_attempt row)) ` set items"
    "job_id (rc_job row) \<notin> (\<lambda>(i, row). job_id (rc_job row)) ` set items"
    "run_id (rc_run row) \<notin> (\<lambda>(i, row). run_id (rc_run row)) ` set items"
    "lease_id (rc_lease row) \<notin> (\<lambda>(i, row). lease_id (rc_lease row)) ` set items"
    using ne other by fastforce+
  then have "settled_row db' row"
    using ih here unfolding settled_rows_def by simp
  then show ?case
    using ih fr by (simp add: item split: prod.splits)
qed simp

section \<open>The attempts that are settled\<close>

lemma stranded_join:
  assumes wf: "well_formed db" and a: "a \<in> set (attempts db)"
  shows "reconcile_join t db a \<noteq> [] \<longleftrightarrow> stranded db t a"
proof -
  have ok: "store_ok db" "linked db" using wf by (simp_all add: well_formed_def)
  note ac = attempt_columns [OF ok(1) a]
  have av: "sp_attempts (view_of db) (ar_id a) = Some (ar_job_id a, ar_job_attempt a, ar_lease_id a, ar_status a)"
    using ac(8) by simp
  have p: "attempt_part (sp_attempts (view_of db)) (sp_jobs (view_of db)) (sp_leases (view_of db))"
    "run_part (sp_runs (view_of db)) (sp_jobs (view_of db))"
    using wf by (simp_all add: well_formed_def coordinated_def del: view_simps)
  obtain j where j: "job_by_id (ar_job_id a) db = Some j"
    using attempt_partD(2) [OF p(1) av] by auto
  have "ar_run_id a = jr_run_id j" using linked_run(2) [OF ok(2,1) j a] by simp
  then obtain r where "run_by_id (ar_run_id a) db = Some r"
    using run_partD(1) [OF p(2), of "ar_job_id a" "jr_run_id j"] j by auto
  with j show ?thesis
    by (auto simp: neq_Nil_conv reconcile_join_Cons stranded_def)
qed

lemma reconciled_ids:
  assumes wf: "well_formed db"
  shows "(\<lambda>row. attempt_id (rc_attempt row)) ` set (reconcile_rows t db)
      = ar_id ` {a \<in> set (attempts db). stranded db t a}"
    "length (reconcile_rows t db) = length (filter (stranded db t) (attempts db))"
proof -
  have ok: "store_ok db" using wf by (simp add: well_formed_def)
  have one: "\<exists>row. reconcile_join t db a = [row] \<and> attempt_id (rc_attempt row) = ar_id a"
    if "a \<in> set (attempts db)" "stranded db t a" for a
    using that stranded_join [OF wf that(1), of t] attempt_columns(1) [OF ok that(1)]
    by (auto simp: neq_Nil_conv reconcile_join_Cons)
  have only: "stranded db t a \<and> attempt_id (rc_attempt row) = ar_id a"
    if "a \<in> set (attempts db)" "reconcile_join t db a = [row]" for a row
    using that stranded_join [OF wf that(1), of t] attempt_columns(1) [OF ok that(1)]
      reconcile_join_Cons [of t db a row "[]"] by auto
  show "(\<lambda>row. attempt_id (rc_attempt row)) ` set (reconcile_rows t db)
      = ar_id ` {a \<in> set (attempts db). stranded db t a}"
    using one only by (force simp: in_reconcile_rows image_iff)
  have len: "length (concat (map (reconcile_join t db) xs)) = length (filter (stranded db t) xs)"
    if "set xs \<subseteq> set (attempts db)" for xs
    using that
  proof (induction xs)
    case (Cons a xs)
    then show ?case
      using one [of a] stranded_join [OF wf, of a t] by (cases "stranded db t a") auto
  qed simp
  let ?k = "\<lambda>a. (ar_started_at a, ar_id a)"
  have "length (filter (stranded db t) (sort_key ?k (attempts db))) = length (filter (stranded db t) (attempts db))"
    by (simp add: filter_sort)
  with len [of "sort_key ?k (attempts db)"]
  show "length (reconcile_rows t db) = length (filter (stranded db t) (attempts db))"
    by (simp add: reconcile_rows_def)
qed

text \<open>The whole call.\<close>

lemma reconcileExpired_settles:
  assumes wf: "well_formed db" and r: "reconcileExpired env now ids db = (Inr n, db')"
  shows "n = length (filter (stranded db (to_iso now)) (attempts db))"
    "a \<in> set (attempts db) \<Longrightarrow> stranded db (to_iso now) a \<Longrightarrow>
       settled_rows db' (ar_id a) (ar_job_id a) (ar_run_id a) (ar_lease_id a)"
    "a \<in> set (attempts db) \<Longrightarrow> \<not> stranded db (to_iso now) a \<Longrightarrow> find_by ar_id (ar_id a) (attempts db') = Some a"
proof -
  have ok: "store_ok db" using wf by (simp add: well_formed_def)
  let ?t = "to_iso now"
  let ?rows = "reconcile_rows ?t db"
  let ?items = "zip (map ids [0..<length ?rows]) ?rows"
  from r have f: "fold_result (reconcile_one env ?t) ?items db = Inr db'" and n: "n = length ?rows"
    by (auto simp: reconcileExpired_def in_transaction_commit and_then_Inr Let_def)
  show "n = length (filter (stranded db ?t) (attempts db))"
    using n reconciled_ids(2) [OF wf] by simp
  have m: "map (\<lambda>(i, row). g row) ?items = map g ?rows" for g :: "reconcile_row \<Rightarrow> string"
  proof -
    have "map (\<lambda>(i, row). g row) ?items = map g (map snd ?items)"
      unfolding map_map comp_def case_prod_beta' ..
    also have "map snd ?items = ?rows" by (rule map_snd_zip) simp
    finally show ?thesis .
  qed
  have dist: "distinct (map (\<lambda>(i, row). attempt_id (rc_attempt row)) ?items)"
    using reconcile_rows_ids [OF ok] by (simp only: m)
  have cur: "current_row db row" if "(i, row) \<in> set ?items" for i row
    using reconcile_rows_current [OF wf] set_zip_rightD [OF that] by blast
  have all: "(\<forall>(i, row)\<in>set ?items. settled_row db' row)
    \<and> (\<forall>a. a \<notin> (\<lambda>(i, row). attempt_id (rc_attempt row)) ` set ?items \<longrightarrow>
          find_by ar_id a (attempts db') = find_by ar_id a (attempts db))"
    using reconcile_all_settles [OF f wf _ dist] cur by blast
  have ids: "(\<lambda>(i, row). attempt_id (rc_attempt row)) ` set ?items = ar_id ` {a \<in> set (attempts db). stranded db ?t a}"
    using m [of "\<lambda>row. attempt_id (rc_attempt row)"] reconciled_ids(1) [OF wf, of ?t] by (metis set_map)
  show "find_by ar_id (ar_id a) (attempts db') = Some a" if a: "a \<in> set (attempts db)" "\<not> stranded db ?t a"
  proof -
    have "ar_id a \<notin> ar_id ` {a \<in> set (attempts db). stranded db ?t a}"
      using a attempt_columns(8) [OF ok] by (auto; metis option.inject)
    then have "find_by ar_id (ar_id a) (attempts db') = find_by ar_id (ar_id a) (attempts db)"
      using all unfolding ids by blast
    with attempt_columns(8) [OF ok a(1)] show ?thesis by simp
  qed
  show "settled_rows db' (ar_id a) (ar_job_id a) (ar_run_id a) (ar_lease_id a)"
    if a: "a \<in> set (attempts db)" "stranded db ?t a"
  proof -
    have "reconcile_join ?t db a \<noteq> []" using stranded_join [OF wf a(1)] a(2) by blast
    then obtain row where join: "reconcile_join ?t db a = [row]" by (auto simp: neq_Nil_conv reconcile_join_Cons)
    then have "row \<in> set ?rows" using a(1) by (auto simp: in_reconcile_rows)
    then obtain i where "(i, row) \<in> set ?items"
      by (metis (no_types, lifting) in_set_impl_in_set_zip2 length_map length_upt minus_nat.diff_0)
    then have "settled_row db' row" using all by blast
    moreover obtain l j r where "lease_by_id (ar_lease_id a) db = Some l" "job_by_id (ar_job_id a) db = Some j"
        "run_by_id (ar_run_id a) db = Some r"
        "row = \<lparr> rc_attempt = ar_document a, rc_lease = lr_document l, rc_job = jr_document j, rc_run = rr_document r \<rparr>"
      using join by (auto simp: reconcile_join_Cons)
    ultimately show ?thesis
      using attempt_columns(1) [OF ok a(1)] lease_columns(1) [OF ok] job_columns(1) [OF ok] run_columns(1) [OF ok] by simp
  qed
qed

text \<open>An attempt still active has a lease that is active and has time left.\<close>

lemma reconciled_active:
  assumes wf: "well_formed db" and r: "reconcileExpired env now ids db = (Inr n, db')"
    and a: "a \<in> set (attempts db')" "active_attempt (ar_status a)"
  obtains l where "lease_by_id (ar_lease_id a) db' = Some l" "lr_status l = L_ACTIVE" "to_iso now < lr_expires_at l"
proof -
  note rec = reconcileExpired_Inr [OF wf r]
  have "reconcile_join (to_iso now) db' a = []"
  proof (rule ccontr)
    assume "reconcile_join (to_iso now) db' a \<noteq> []"
    then obtain row where "reconcile_join (to_iso now) db' a = [row]" by (auto simp: neq_Nil_conv reconcile_join_Cons)
    then have "row \<in> set (reconcile_rows (to_iso now) db')" using a(1) by (auto simp: in_reconcile_rows)
    with rec(4) show False by simp
  qed
  then have "\<not> stranded db' (to_iso now) a" using stranded_join [OF rec(2) a(1), of "to_iso now"] by simp
  moreover have "lease_by_id (ar_lease_id a) db' \<noteq> None"
  proof -
    have ok: "store_ok db'" using rec(2) by (simp add: well_formed_def)
    have "sp_attempts (view_of db') (ar_id a) = Some (ar_job_id a, ar_job_attempt a, ar_lease_id a, ar_status a)"
      using attempt_columns(8) [OF ok a(1)] by simp
    moreover have "attempt_part (sp_attempts (view_of db')) (sp_jobs (view_of db')) (sp_leases (view_of db'))"
      using rec(2) by (simp add: well_formed_def coordinated_def del: view_simps)
    ultimately show ?thesis using attempt_partD(1) by fastforce
  qed
  ultimately show ?thesis using a(2) that by (auto simp: stranded_def not_less)
qed

end
