(* ===== verification/Sample_Execution.thy ===== *)
theory Sample_Execution
  imports Reconciliation Control_Plane Sample_Store
begin

text \<open>
  The sample continued: the claimed job is started, then either fails and is retried, or is uploaded,
  verified and completed. The stores are what the methods return, and witness the hypotheses of the
  properties about executions.
\<close>

section \<open>Digests and stores the sample starts from\<close>

lemma is_hex_digit: "n < 16 \<Longrightarrow> is_hex (hex_digit n)"
proof -
  have "list_all (\<lambda>n. is_hex (hex_digit n)) [0..<16]" by code_simp
  then show "n < 16 \<Longrightarrow> is_hex (hex_digit n)" by (simp add: list_all_iff)
qed

lemma list_all_toHex: "list_all is_hex (toHex bs)"
proof (induction bs)
  case (Cons b bs)
  have "unat b < 2 ^ LENGTH(8)" by (rule unsigned_less)
  then have "unat b div 16 < 16" "unat b mod 16 < 16" by (simp_all add: less_mult_imp_div_less)
  then show ?case using Cons by (simp add: is_hex_digit)
qed simp

lemma length_toHex: "length (toHex bs) = 2 * length bs"
  by (induction bs) simp_all

lemma sample_hash [simp]: "is_sha256 (hashPayload platform0 v)"
  by (simp add: hashPayload_def digestHex_def is_sha256_def list_all_toHex length_toHex platform0_def)

lemma sample_reachable0: "reachable_store store0"
proof -
  have "without_work store0"
    using sample_start(1) by (simp add: without_work_def store_ok_def store0_def)
  then show ?thesis by (auto simp: reachable_store_def)
qed

lemma sample_reachable1: "reachable_store store1"
  using reachable_call [OF sample_reachable0 control_call.dispatch] sample_dispatch by (metis snd_conv)

lemma sample_reachable2: "reachable_store store2"
  using reachable_call [OF sample_reachable1 control_call.claim] sample_claim by (metis snd_conv)

section \<open>Starting\<close>

definition executor0 :: json where
  "executor0 = JObj [(''executorId'', JStr ''crawler-node''), (''version'', JStr ''1.0.0''), (''mode'', JStr ''FIXTURE'')]"

lemma executor0_valid [simp]: "isExecutionExecutor executor0"
  by code_simp

definition start0 :: start_input where
  "start0 = \<lparr> si_executor = executor0, si_idempotencyKey = ''start-1'' \<rparr>"

abbreviation "hash_start \<equiv> hashPayload platform0 (JObj [(''executor'', executor0)])"

definition attempt4 :: execution_attempt where
  "attempt4 = new_attempt (sample_id ''exa'' CHR ''V'') (sample_id ''wrk'' CHR ''V'') executor0 job2 lease2
     (to_iso (now0 + 1000))"

definition event4 :: execution_event where
  "event4 =
     \<lparr> event_id = sample_id ''eve'' CHR ''V'', event_attemptId = sample_id ''exa'' CHR ''V'', event_sequence = 1,
       event_type = E_STARTED, event_fromStatus = None, event_toStatus = X_RUNNING,
       event_idempotencyKey = ''start-1'', event_payloadHash = hash_start, event_recordedAt = to_iso (now0 + 1000) \<rparr>"

definition job4 :: job where
  "job4 = job2\<lparr>job_status := J_RUNNING, job_updatedAt := to_iso (now0 + 1000)\<rparr>"

definition run4 :: collection_run where
  "run4 = run1\<lparr>run_status := R_RUNNING, run_updatedAt := to_iso (now0 + 1000)\<rparr>"

definition request4 :: request_row where
  "request4 =
     \<lparr> qr_worker_id = sample_id ''wrk'' CHR ''V'', qr_lease_id = sample_id ''lse'' CHR ''V'',
       qr_idempotency_key = ''start-1'', qr_operation = ''START'', qr_payload_hash = hash_start,
       qr_result = (attempt4, event4) \<rparr>"

definition store4 :: control_store where
  "store4 = store2\<lparr>collection_runs := [write_run run4 (run_row_of run1)],
     jobs := [write_job job4 (write_job job2 (job_row_of job1))],
     attempts := [attempt_row_of attempt4], events := [event_row_of event4], requests := [request4]\<rparr>"

lemma sample_ids_execution [simp]:
  "is_typed_id ''exa'' (sample_id ''exa'' CHR ''V'')" "is_typed_id ''eve'' (sample_id ''eve'' CHR ''V'')"
  by code_simp+

lemma sample_keys [simp]:
  "trim ''start-1'' = ''start-1''" "trim ''fail-1'' = ''fail-1''" "trim ''FETCH_FAILED'' = ''FETCH_FAILED''"
  "trim ''Connection reset'' = ''Connection reset''" "text_within 128 ''start-1''" "text_within 128 ''fail-1''"
  by code_simp+

lemma job2_shape [simp]:
  "job_id job2 = sample_id ''job'' CHR ''V''" "job_runId job2 = sample_id ''run'' CHR ''V''"
  "job_attempt job2 = 1" "job_maxAttempts job2 = 2" "job_workspaceId job2 = DEFAULT_WORKSPACE_id"
  "job_status job2 = J_LEASED" "job_planSnapshot job2 = plan0" "job_connectorSnapshot job2 = connector0"
  "job_connector job2 = \<lparr> ref_connectorId = ''web-crawler'', ref_version = ''1.0.0'' \<rparr>"
  "job_type job2 = WEB_CRAWL"
  by (simp_all add: job2_def)

lemma attempt4_valid [simp]: "attempt_valid attempt4"
  by (simp add: attempt_valid_def attempt4_def new_attempt_def isRfc3339_to_iso outcome_valid_def)

lemma event4_valid [simp]: "event_valid event4"
  by (simp add: event_valid_def event4_def isRfc3339_to_iso)

lemma run_valid_status:
  "run_valid r \<Longrightarrow> run_status r \<noteq> R_CANCELLED \<Longrightarrow> s \<noteq> R_CANCELLED \<Longrightarrow> iso_instant t \<Longrightarrow>
     run_valid (r\<lparr>run_status := s, run_updatedAt := to_iso t\<rparr>)"
  by (auto simp: run_valid_def isRfc3339_to_iso cancellation_valid_def)

lemma sample_documents4 [simp]: "job_valid job4" "run_valid run4"
  by (simp_all add: job4_def run4_def job_valid_status run_valid_status)

lemma context2:
  "ownedContext platform0 store2 (sample_id ''wrk'' CHR ''V'') (sample_id ''lse'' CHR ''V'') ''token'' =
     Inr \<lparr> ctx_lease = lease2, ctx_job = job2, ctx_run = run1, ctx_tokenDigest = digestHex platform0 ''token'' \<rparr>"
  using sample_digests(2)
  by (simp add: ownedContext_def loadLeaseContext_def lease_by_id_def lease_row_of_def job_by_id_def job_row_of_def
      run_by_id_def run_row_of_def write_job_def store2_def)

lemma sample_started:
  "startExecution platform0 (now0 + 1000) (sample_id ''exa'' CHR ''V'') (sample_id ''eve'' CHR ''V'')
     (sample_id ''wrk'' CHR ''V'') ''secret'' (sample_id ''lse'' CHR ''V'') ''token'' start0 store2
   = (Inr (attempt4, event4, False), store4)"
proof -
  have req: "requests store2 = []" "attempts store2 = []" "events store2 = []"
    "collection_runs store2 = [run_row_of run1]"
    by (simp_all add: store2_def store1_def store0_def)
  have auth: "authenticate platform0 store2 (sample_id ''wrk'' CHR ''V'') ''secret'' (sample_id ''lse'' CHR ''V'') ''token''
      = Inr \<lparr> ctx_lease = lease2, ctx_job = job2, ctx_run = run1, ctx_tokenDigest = digestHex platform0 ''token'' \<rparr>"
    by (simp add: authenticate_def verify2 context2)
  have active: "requireActiveContext platform0 store2 (sample_id ''wrk'' CHR ''V'') (sample_id ''lse'' CHR ''V'') ''token''
      (to_iso (now0 + 1000))
      = Inr \<lparr> ctx_lease = lease2, ctx_job = job2, ctx_run = run1, ctx_tokenDigest = digestHex platform0 ''token'' \<rparr>"
    by (simp add: requireActiveContext_def context2 dates_le_def)
  have ev: "buildEvent store2 (sample_id ''eve'' CHR ''V'') attempt4 None X_RUNNING E_STARTED ''start-1'' hash_start
      (to_iso (now0 + 1000)) = Inr event4"
    using event4_valid by (simp add: buildEvent_def Let_def doc_simps event4_def attempt4_def req)
  have job4: "job2\<lparr>job_status := J_RUNNING, job_updatedAt := to_iso (now0 + 1000)\<rparr> = job4"
    and run4: "run1\<lparr>run_status := R_RUNNING, run_updatedAt := to_iso (now0 + 1000)\<rparr> = run4"
    by (simp_all add: job4_def run4_def)
  have ins: "insert_attempt attempt4 store2 = Inr (store2\<lparr>attempts := [attempt_row_of attempt4]\<rparr>)"
    by (simp add: insert_attempt_def req attempt4_def run_row_of_def write_job_def job_row_of_def lease_row_of_def
        worker_row_of_def)
  have ins2: "insert_event event4 (store2\<lparr>attempts := [attempt_row_of attempt4]\<rparr>)
      = Inr (store2\<lparr>attempts := [attempt_row_of attempt4], events := [event_row_of event4]\<rparr>)"
    by (simp add: insert_event_def req event4_def attempt4_def attempt_row_of_def)
  have upd: "update_run run4 (update_job job4 (store2\<lparr>attempts := [attempt_row_of attempt4], events := [event_row_of event4]\<rparr>))
      = store4\<lparr>requests := []\<rparr>"
    by (simp add: update_run_def update_job_def store4_def run4_def job4_def req write_job_def job_row_of_def run_row_of_def)
  have rep: "storeReplay (sample_id ''wrk'' CHR ''V'') (sample_id ''lse'' CHR ''V'') ''start-1'' ''START'' hash_start attempt4
      event4 (store4\<lparr>requests := []\<rparr>) = Inr store4"
    by (simp add: storeReplay_def insert_request_def store4_def request4_def worker_row_of_def lease_row_of_def)
  show ?thesis
    by (simp add: startExecution_def start0_def Let_def replay_or_def normalizeTransitionKey_def auth findReplay_def req
        start_body_def active getByLeaseId_def record_of_row_def attempt4_def [symmetric] doc_simps ev ins ins2
        updateJob_def updateRun_def job4 run4 upd rep in_transaction_def)
qed

lemma sample_reachable4: "reachable_store store4"
  using reachable_call [OF sample_reachable2 control_call.start] sample_started by (metis snd_conv)

section \<open>Failing, with a retry\<close>

definition fail0 :: fail_input where
  "fail0 = \<lparr> fi_code = ''FETCH_FAILED'', fi_message = ''Connection reset'', fi_retryable = True,
             fi_idempotencyKey = ''fail-1'' \<rparr>"

definition failure5 :: execution_failure where
  "failure5 = \<lparr> failure_code = ''FETCH_FAILED'', failure_message = ''Connection reset'', failure_retryable = True,
               failure_occurredAt = to_iso (now0 + 2000) \<rparr>"

abbreviation "hash_fail \<equiv> hashPayload platform0 (JObj [(''code'', JStr ''FETCH_FAILED''),
  (''message'', JStr ''Connection reset''), (''retryable'', JBool True)])"

definition attempt5 :: execution_attempt where
  "attempt5 = ended_attempt attempt4 (Failure failure5) (to_iso (now0 + 2000))"

definition event5 :: execution_event where
  "event5 =
     \<lparr> event_id = sample_id ''eve'' CHR ''W'', event_attemptId = sample_id ''exa'' CHR ''V'', event_sequence = 2,
       event_type = E_FAILED, event_fromStatus = Some X_RUNNING, event_toStatus = X_FAILED,
       event_idempotencyKey = ''fail-1'', event_payloadHash = hash_fail, event_recordedAt = to_iso (now0 + 2000) \<rparr>"

definition job5 :: job where
  "job5 = job4\<lparr>job_status := J_RETRY, job_updatedAt := to_iso (now0 + 2000)\<rparr>"

definition retry5 :: job where
  "retry5 = retryJob job4 (sample_id ''job'' CHR ''W'') (to_iso (now0 + 13039)) (to_iso (now0 + 2000))"

definition run5 :: collection_run where
  "run5 = run4\<lparr>run_status := R_PENDING, run_updatedAt := to_iso (now0 + 2000)\<rparr>"

definition lease5 :: job_lease where
  "lease5 = ended_lease lease2 L_RELEASED ''EXECUTION_RETRY_SCHEDULED'' (to_iso (now0 + 2000))"

definition request5 :: request_row where
  "request5 =
     \<lparr> qr_worker_id = sample_id ''wrk'' CHR ''V'', qr_lease_id = sample_id ''lse'' CHR ''V'',
       qr_idempotency_key = ''fail-1'', qr_operation = ''FAIL'', qr_payload_hash = hash_fail,
       qr_result = (attempt5, event5) \<rparr>"

definition store5 :: control_store where
  "store5 = store4\<lparr>collection_runs := [write_run run5 (write_run run4 (run_row_of run1))],
     jobs := [write_job job5 (write_job job4 (write_job job2 (job_row_of job1))), job_row_of retry5],
     leases := [write_lease_closed lease5 (lease_row_of (digestHex platform0 ''token'') lease2)],
     attempts := [write_attempt attempt5 (attempt_row_of attempt4)],
     events := [event_row_of event4, event_row_of event5], requests := [request4, request5]\<rparr>"

lemma job4_shape [simp]:
  "job_id job4 = sample_id ''job'' CHR ''V''" "job_runId job4 = sample_id ''run'' CHR ''V''"
  "job_attempt job4 = 1" "job_maxAttempts job4 = 2" "job_status job4 = J_RUNNING" "job_planSnapshot job4 = plan0"
  "job_connectorSnapshot job4 = connector0" "job_type job4 = WEB_CRAWL"
  by (simp_all add: job4_def)

lemma attempt4_shape [simp]:
  "attempt_id attempt4 = sample_id ''exa'' CHR ''V''" "attempt_status attempt4 = X_RUNNING"
  "attempt_leaseId attempt4 = sample_id ''lse'' CHR ''V''" "attempt_executor attempt4 = executor0"
  by (simp_all add: attempt4_def)

lemma run4_shape [simp]: "run_id run4 = sample_id ''run'' CHR ''V''" "run_status run4 = R_RUNNING"
  by (simp_all add: run4_def)

lemma retry_delay4: "computeExecutionRetryDelayMs platform0 job4 = 11039"
  by (simp add: computeExecutionRetryDelayMs_def MAX_RETRY_BACKOFF_MS_def) code_simp

lemma sample_ids_retry [simp]:
  "is_typed_id ''eve'' (sample_id ''eve'' CHR ''W'')" "is_typed_id ''job'' (sample_id ''job'' CHR ''W'')"
  "sample_id ''eve'' CHR ''W'' \<noteq> sample_id ''eve'' CHR ''V''" "sample_id ''eve'' CHR ''V'' \<noteq> sample_id ''eve'' CHR ''W''"
  "sample_id ''job'' CHR ''W'' \<noteq> sample_id ''job'' CHR ''V''" "sample_id ''job'' CHR ''V'' \<noteq> sample_id ''job'' CHR ''W''"
  by code_simp+

lemma failure5_valid [simp]: "failure_valid failure5"
proof -
  have "is_failure_code ''FETCH_FAILED''" "text_within 1000 ''Connection reset''" by code_simp+
  then show ?thesis by (simp add: failure_valid_def failure5_def isRfc3339_to_iso)
qed

lemma attempt5_valid [simp]: "attempt_valid attempt5"
  using attempt4_valid
  by (simp add: attempt_valid_def attempt5_def isRfc3339_to_iso outcome_valid_def optionally_def attempt4_def new_attempt_def)

lemma event5_valid [simp]: "event_valid event5"
  by (simp add: event_valid_def event5_def isRfc3339_to_iso)

lemma sample_documents5 [simp]: "job_valid job5" "run_valid run5" "lease_valid lease5" "job_valid retry5"
proof -
  show "job_valid job5" "run_valid run5" by (simp_all add: job5_def run5_def job_valid_status run_valid_status)
  have "length ''EXECUTION_RETRY_SCHEDULED'' \<le> 500" by simp
  with lease2_valid show "lease_valid lease5"
    by (simp add: lease5_def ended_lease_def lease_valid_def isRfc3339_to_iso optionally_def)
  show "job_valid retry5"
    using sample_documents4(1)
    by (simp add: retry5_def retryJob_def job_valid_def isRfc3339_to_iso cancellation_valid_def Let_def)
qed

lemma store4_simps [simp]:
  "workers store4 = [worker_row_of worker0]" "credentials store4 = credentials store1"
  "leases store4 = [lease_row_of (digestHex platform0 ''token'') lease2]" "events store4 = [event_row_of event4]"
  "attempts store4 = [attempt_row_of attempt4]" "requests store4 = [request4]"
  "collection_runs store4 = [write_run run4 (run_row_of run1)]"
  "jobs store4 = [write_job job4 (write_job job2 (job_row_of job1))]"
  by (simp_all add: store4_def)

lemma verify4: "verifyCredential platform0 store4 (sample_id ''wrk'' CHR ''V'') ''secret'' = Inr worker0"
  using sample_digests(1)
  by (simp add: verifyCredential_def worker_by_id_def worker_row_of_def)

lemma context4:
  "ownedContext platform0 store4 (sample_id ''wrk'' CHR ''V'') (sample_id ''lse'' CHR ''V'') ''token'' =
     Inr \<lparr> ctx_lease = lease2, ctx_job = job4, ctx_run = run4, ctx_tokenDigest = digestHex platform0 ''token'' \<rparr>"
  using sample_digests(2)
  by (simp add: ownedContext_def loadLeaseContext_def lease_by_id_def lease_row_of_def job_by_id_def job_row_of_def
      run_by_id_def run_row_of_def write_job_def write_run_def)

lemma active4:
  "n < 120000 \<Longrightarrow> 0 < n \<Longrightarrow>
   requireActiveContext platform0 store4 (sample_id ''wrk'' CHR ''V'') (sample_id ''lse'' CHR ''V'') ''token'' (to_iso (now0 + n)) =
     Inr \<lparr> ctx_lease = lease2, ctx_job = job4, ctx_run = run4, ctx_tokenDigest = digestHex platform0 ''token'' \<rparr>"
  by (simp add: requireActiveContext_def context4 dates_le_def)

lemma record4: "requireAttemptByLease store4 (sample_id ''lse'' CHR ''V'') = Inr (attempt4, [event4])"
  by (simp add: requireAttemptByLease_def getByLeaseId_def record_of_row_def recordForAttempt_def attempt_row_of_def
      event_row_of_def event4_def [THEN arg_cong [of _ _ event_attemptId]])

lemma settle5:
  "settle_job platform0 (sample_id ''job'' CHR ''W'') (Failure failure5) job4 run4 (to_iso (now0 + 2000))
     (store4\<lparr>attempts := as, events := es\<rparr>)
   = Inr (''EXECUTION_RETRY_SCHEDULED'', store5\<lparr>leases := leases store4, attempts := as, events := es, requests := [request4]\<rparr>)"
proof -
  have job: "job4\<lparr>job_status := J_RETRY, job_updatedAt := to_iso (now0 + 2000)\<rparr> = job5"
    and run: "run4\<lparr>run_status := R_PENDING, run_updatedAt := to_iso (now0 + 2000)\<rparr> = run5"
    and retry: "retryJob job4 (sample_id ''job'' CHR ''W'') (to_iso (now0 + 13039)) (to_iso (now0 + 2000)) = retry5"
    by (simp_all add: job5_def run5_def retry5_def)
  have at: "toISOString (case parse_iso (to_iso (now0 + 2000)) of None \<Rightarrow> None
      | Some t \<Rightarrow> new_Date (t + computeExecutionRetryDelayMs platform0 job4)) = Inr (to_iso (now0 + 13039))"
    by (simp add: retry_delay4 toISOString_def add.assoc)
  have ins: "insertRetryJob platform0 (sample_id ''job'' CHR ''W'') job4 (to_iso (now0 + 2000))
      (update_job job5 (store4\<lparr>attempts := as, events := es\<rparr>))
      = Inr (store4\<lparr>attempts := as, events := es,
          jobs := [write_job job5 (write_job job4 (write_job job2 (job_row_of job1))), job_row_of retry5]\<rparr>)"
    unfolding insertRetryJob_def at
    by (simp add: retry isJob_job_json)
      (simp add: insert_job_def update_job_def job5_def retry5_def retryJob_def write_job_def job_row_of_def
        run_row_of_def write_run_def)
  have upd: "update_run run5 (store4\<lparr>attempts := as, events := es,
          jobs := [write_job job5 (write_job job4 (write_job job2 (job_row_of job1))), job_row_of retry5]\<rparr>)
      = store5\<lparr>leases := leases store4, attempts := as, events := es, requests := [request4]\<rparr>"
    by (simp add: update_run_def run5_def write_run_def run_row_of_def store5_def store4_def)
  have "updateJob job4 J_RETRY (to_iso (now0 + 2000)) db = Inr (update_job job5 db)"
    "updateRun run4 R_PENDING (to_iso (now0 + 2000)) db = Inr (update_run run5 db)" for db
    by (simp_all add: update_document_Inr job run)
  then show ?thesis
    by (simp add: settle_job_def ins upd failure5_def)
qed

lemma sample_failed:
  "failExecution platform0 (now0 + 2000) (now0 + 2000) (sample_id ''eve'' CHR ''W'') (sample_id ''job'' CHR ''W'')
     (sample_id ''wrk'' CHR ''V'') ''secret'' (sample_id ''lse'' CHR ''V'') ''token'' fail0 store4
   = (Inr (attempt5, event5, False), store5)"
proof -
  have auth: "authenticate platform0 store4 (sample_id ''wrk'' CHR ''V'') ''secret'' (sample_id ''lse'' CHR ''V'') ''token''
      = Inr \<lparr> ctx_lease = lease2, ctx_job = job4, ctx_run = run4, ctx_tokenDigest = digestHex platform0 ''token'' \<rparr>"
    by (simp add: authenticate_def verify4 context4)
  have rep: "findReplay store4 (sample_id ''wrk'' CHR ''V'') (sample_id ''lse'' CHR ''V'') ''fail-1'' ''FAIL'' hash_fail = Inr None"
    by (simp add: findReplay_def request4_def)
  have ev: "buildEvent store4 (sample_id ''eve'' CHR ''W'') attempt5 (Some X_RUNNING) X_FAILED E_FAILED ''fail-1''
      hash_fail (to_iso (now0 + 2000)) = Inr event5"
    using event5_valid
    by (simp add: buildEvent_def Let_def doc_simps event5_def attempt5_def event_row_of_def event4_def)
  have upd: "updateAttempt attempt5 store4 = Inr (store4\<lparr>attempts := [write_attempt attempt5 (attempt_row_of attempt4)]\<rparr>)"
    by (simp add: update_document_Inr) (simp add: update_attempt_def attempt5_def attempt_row_of_def)
  have ins: "insert_event event5 (store4\<lparr>attempts := as\<rparr>) =
      Inr (store4\<lparr>attempts := as, events := [event_row_of event4, event_row_of event5]\<rparr>)"
    if "sample_id ''exa'' CHR ''V'' \<in> ar_id ` set as" for as
    using that by (simp add: insert_event_def event5_def event_row_of_def event4_def)
  have close: "closeExecutionLease lease2 L_RELEASED ''EXECUTION_RETRY_SCHEDULED'' (to_iso (now0 + 2000))
      (store5\<lparr>leases := [lease_row_of (digestHex platform0 ''token'') lease2], requests := [request4]\<rparr>)
      = Inr (store5\<lparr>requests := [request4]\<rparr>)"
    using sample_documents5(3)
    by (simp add: update_document_Inr update_lease_closed_def lease5_def [symmetric])
      (simp add: lease5_def ended_lease_def lease_row_of_def store5_def)
  have store: "storeReplay (sample_id ''wrk'' CHR ''V'') (sample_id ''lse'' CHR ''V'') ''fail-1'' ''FAIL'' hash_fail attempt5
      event5 (store5\<lparr>requests := [request4]\<rparr>) = Inr store5"
    by (simp add: storeReplay_def insert_request_def store5_def request4_def request5_def worker_row_of_def
        lease_row_of_def write_lease_closed_def)
  have ended: "ended_attempt attempt4 (Failure failure5) (to_iso (now0 + 2000)) = attempt5"
    by (simp add: attempt5_def)
  have st: "settle_job platform0 (sample_id ''job'' CHR ''W'') (Failure failure5) job4 run4 (to_iso (now0 + 2000))
      (store4\<lparr>attempts := [write_attempt attempt5 (attempt_row_of attempt4)],
              events := [event_row_of event4, event_row_of event5]\<rparr>)
      = Inr (''EXECUTION_RETRY_SCHEDULED'', store5\<lparr>leases := leases store4, requests := [request4]\<rparr>)"
    by (subst settle5) (simp add: store5_def)
  have aid: "ar_id (write_attempt attempt5 (attempt_row_of attempt4)) = sample_id ''exa'' CHR ''V''"
    by (simp add: write_attempt_def attempt_row_of_def)
  have body: "terminal_body platform0 (now0 + 2000) (sample_id ''eve'' CHR ''W'') (sample_id ''job'' CHR ''W'')
      (sample_id ''wrk'' CHR ''V'') (sample_id ''lse'' CHR ''V'') ''token'' ''fail-1'' ''FAIL'' hash_fail (Failure failure5) store4
      = Inr ((attempt5, event5, False), store5)"
    using attempt5_valid
    by (simp add: terminal_body_def active4 record4 check_completion_def ACTIVE_EXECUTION_STATES_def ended doc_simps
        ev upd ins aid st close store Let_def del: ended_attempt.simps)
  show ?thesis
    by (simp add: failExecution_def fail0_def Let_def replay_or_def normalizeTransitionKey_def auth rep
        failure5_def [symmetric] doc_simps body in_transaction_def)
qed

lemma sample_reachable5: "reachable_store store5"
  using reachable_call [OF sample_reachable4 control_call.fail] sample_failed by (metis snd_conv)

section \<open>Uploading, verifying and completing\<close>

text \<open>The two middle transitions differ only in their stages, times and identifiers.\<close>

definition advanced_attempt :: "attempt_status \<Rightarrow> int \<Rightarrow> execution_attempt" where
  "advanced_attempt x t = attempt4\<lparr>attempt_status := x, attempt_updatedAt := to_iso t\<rparr>"

definition advanced_job :: "attempt_status \<Rightarrow> int \<Rightarrow> job" where
  "advanced_job x t = job4\<lparr>job_status := job_of_attempt x, job_updatedAt := to_iso t\<rparr>"

definition advanced_event :: "char \<Rightarrow> int \<Rightarrow> event_type \<Rightarrow> attempt_status \<Rightarrow> attempt_status \<Rightarrow> string \<Rightarrow> int \<Rightarrow> execution_event" where
  "advanced_event c n op x y key t =
     \<lparr> event_id = sample_id ''eve'' c, event_attemptId = sample_id ''exa'' CHR ''V'', event_sequence = n,
       event_type = op, event_fromStatus = Some x, event_toStatus = y, event_idempotencyKey = key,
       event_payloadHash = hashPayload platform0 (JObj [(''target'', JStr (attempt_status_name y))]),
       event_recordedAt = to_iso t \<rparr>"

definition advanced_request :: "execution_attempt \<Rightarrow> execution_event \<Rightarrow> request_row" where
  "advanced_request a e =
     \<lparr> qr_worker_id = sample_id ''wrk'' CHR ''V'', qr_lease_id = sample_id ''lse'' CHR ''V'',
       qr_idempotency_key = event_idempotencyKey e, qr_operation = event_type_name (event_type e),
       qr_payload_hash = event_payloadHash e, qr_result = (a, e) \<rparr>"

definition advanced_store :: "attempt_status \<Rightarrow> int \<Rightarrow> execution_event list \<Rightarrow> request_row list \<Rightarrow> control_store" where
  "advanced_store x t es qs = store4
     \<lparr> jobs := [write_job (advanced_job x t) (write_job job4 (write_job job2 (job_row_of job1)))],
       attempts := [write_attempt (advanced_attempt x t) (attempt_row_of attempt4)],
       events := map event_row_of es, requests := qs \<rparr>"

lemma advanced_shape [simp]:
  "attempt_id (advanced_attempt x t) = sample_id ''exa'' CHR ''V''" "attempt_status (advanced_attempt x t) = x"
  "attempt_leaseId (advanced_attempt x t) = sample_id ''lse'' CHR ''V''"
  "attempt_executor (advanced_attempt x t) = executor0" "attempt_jobAttempt (advanced_attempt x t) = attempt_jobAttempt attempt4"
  "attempt_runId (advanced_attempt x t) = attempt_runId attempt4" "attempt_jobId (advanced_attempt x t) = attempt_jobId attempt4"
  "attempt_startedAt (advanced_attempt x t) = attempt_startedAt attempt4"
  "job_id (advanced_job x t) = sample_id ''job'' CHR ''V''" "job_status (advanced_job x t) = job_of_attempt x"
  "job_planSnapshot (advanced_job x t) = plan0" "job_connectorSnapshot (advanced_job x t) = connector0"
  "job_runId (advanced_job x t) = sample_id ''run'' CHR ''V''" "job_type (advanced_job x t) = WEB_CRAWL"
  by (simp_all add: advanced_attempt_def advanced_job_def)

lemma advanced_valid [simp]:
  "active_attempt x \<Longrightarrow> iso_instant t \<Longrightarrow> attempt_valid (advanced_attempt x t)"
  "active_attempt x \<Longrightarrow> iso_instant t \<Longrightarrow> job_valid (advanced_job x t)"
proof -
  assume act: "active_attempt x" and t: "iso_instant t"
  show "attempt_valid (advanced_attempt x t)"
    using attempt4_valid act t
    by (cases x) (simp_all add: attempt_valid_def advanced_attempt_def isRfc3339_to_iso outcome_valid_def attempt4_def new_attempt_def)
  show "job_valid (advanced_job x t)"
    unfolding advanced_job_def using act t by (intro job_valid_status) (cases x; simp)+
qed

lemma advanced_simps [simp]:
  "workers (advanced_store x t es qs) = [worker_row_of worker0]" "credentials (advanced_store x t es qs) = credentials store1"
  "leases (advanced_store x t es qs) = [lease_row_of (digestHex platform0 ''token'') lease2]"
  "collection_runs (advanced_store x t es qs) = [write_run run4 (run_row_of run1)]"
  "requests (advanced_store x t es qs) = qs" "events (advanced_store x t es qs) = map event_row_of es"
  "jobs (advanced_store x t es qs) = [write_job (advanced_job x t) (write_job job4 (write_job job2 (job_row_of job1)))]"
  "attempts (advanced_store x t es qs) = [write_attempt (advanced_attempt x t) (attempt_row_of attempt4)]"
  by (simp_all add: advanced_store_def)

lemma write_twice [simp]:
  "write_job j (write_job j' r) = write_job j r" "write_attempt a (write_attempt a' ar) = write_attempt a ar"
  "write_attempt attempt4 (attempt_row_of attempt4) = attempt_row_of attempt4"
  by (simp_all add: write_job_def write_attempt_def attempt_row_of_def)

lemma advanced_store4: "advanced_store X_RUNNING (now0 + 1000) [event4] [request4] = store4"
proof -
  have "advanced_attempt X_RUNNING (now0 + 1000) = attempt4" "advanced_job X_RUNNING (now0 + 1000) = job4"
    by (simp_all add: advanced_attempt_def advanced_job_def attempt4_def new_attempt_def job4_def)
  then show ?thesis by (simp add: advanced_store_def store4_def)
qed

lemma advanced_verify:
  "verifyCredential platform0 (advanced_store x t es qs) (sample_id ''wrk'' CHR ''V'') ''secret'' = Inr worker0"
  using sample_digests(1) by (simp add: verifyCredential_def worker_by_id_def worker_row_of_def)

lemma advanced_context:
  assumes "active_attempt x" "iso_instant t"
  shows "ownedContext platform0 (advanced_store x t es qs) (sample_id ''wrk'' CHR ''V'') (sample_id ''lse'' CHR ''V'') ''token'' =
     Inr \<lparr> ctx_lease = lease2, ctx_job = advanced_job x t, ctx_run = run4, ctx_tokenDigest = digestHex platform0 ''token'' \<rparr>"
  using sample_digests(2) advanced_valid(2) [OF assms]
  by (simp add: ownedContext_def loadLeaseContext_def lease_by_id_def lease_row_of_def job_by_id_def job_row_of_def
      run_by_id_def run_row_of_def write_job_def write_run_def)

lemma advanced_active:
  assumes "active_attempt x" "iso_instant t" "n < 120000" "0 < n"
  shows "requireActiveContext platform0 (advanced_store x t es qs) (sample_id ''wrk'' CHR ''V'') (sample_id ''lse'' CHR ''V'')
      ''token'' (to_iso (now0 + n)) =
     Inr \<lparr> ctx_lease = lease2, ctx_job = advanced_job x t, ctx_run = run4, ctx_tokenDigest = digestHex platform0 ''token'' \<rparr>"
  using assms by (simp add: requireActiveContext_def advanced_context dates_le_def)

text \<open>The recorded events and requests the next transition finds.\<close>

definition history :: "execution_event list \<Rightarrow> request_row list \<Rightarrow> bool" where
  "history es qs \<longleftrightarrow>
     list_all (\<lambda>e. event_valid e \<and> event_attemptId e = sample_id ''exa'' CHR ''V'') es
     \<and> map event_sequence es = map int [1..<length es + 1]
     \<and> list_all (\<lambda>q. qr_worker_id q = sample_id ''wrk'' CHR ''V'' \<and> qr_lease_id q = sample_id ''lse'' CHR ''V'') qs"

lemma history_events:
  assumes "history es qs"
  shows "filter (\<lambda>e. er_attempt_id e = sample_id ''exa'' CHR ''V'') (map event_row_of es) = map event_row_of es"
    and "map_result (\<lambda>e. parseEvent (er_document e)) (map event_row_of es) = Inr es"
    and "sort_key er_sequence (map event_row_of es) = map event_row_of es"
    and "e \<in> set es \<Longrightarrow> event_sequence e \<noteq> int (length es) + 1"
proof -
  show "filter (\<lambda>e. er_attempt_id e = sample_id ''exa'' CHR ''V'') (map event_row_of es) = map event_row_of es"
    using assms by (simp add: history_def list_all_iff event_row_of_def filter_id_conv)
  have "list_all event_valid es" using assms by (simp add: history_def list_all_iff)
  then show "map_result (\<lambda>e. parseEvent (er_document e)) (map event_row_of es) = Inr es"
    by (induction es) (simp_all add: event_row_of_def)
  have "map er_sequence (map event_row_of es) = map int [1..<length es + 1]"
    using assms by (simp add: history_def event_row_of_def comp_def del: upt_Suc)
  then have "sorted (map er_sequence (map event_row_of es))"
    by (simp add: sorted_iff_nth_mono del: upt_Suc map_map)
  then show "sort_key er_sequence (map event_row_of es) = map event_row_of es"
    by (rule sort_key_id_if_sorted)
  assume "e \<in> set es"
  then have "event_sequence e \<in> set (map int [1..<length es + 1])"
    using assms by (metis history_def image_eqI list.set_map)
  then show "event_sequence e \<noteq> int (length es) + 1" by auto
qed

lemma advanced_record:
  assumes "history es qs" "active_attempt x" "iso_instant t"
  shows "requireAttemptByLease (advanced_store x t es qs) (sample_id ''lse'' CHR ''V'') = Inr (advanced_attempt x t, es)"
  using history_events [OF assms(1)] assms(2,3)
  by (simp add: requireAttemptByLease_def getByLeaseId_def record_of_row_def recordForAttempt_def attempt_row_of_def
      write_attempt_def)

lemma advanced_authentic:
  "active_attempt x \<Longrightarrow> iso_instant t \<Longrightarrow>
   authenticate platform0 (advanced_store x t es qs) (sample_id ''wrk'' CHR ''V'') ''secret'' (sample_id ''lse'' CHR ''V'') ''token'' =
     Inr \<lparr> ctx_lease = lease2, ctx_job = advanced_job x t, ctx_run = run4, ctx_tokenDigest = digestHex platform0 ''token'' \<rparr>"
  by (simp add: authenticate_def advanced_verify advanced_context)

lemma fresh_key:
  assumes "history es qs" "key \<notin> qr_idempotency_key ` set qs"
  shows "findReplay (advanced_store x t es qs) w l key op d = Inr None"
proof -
  have "find (\<lambda>q. qr_worker_id q = w \<and> qr_lease_id q = l \<and> qr_idempotency_key q = key) qs = None"
    using assms(2) by (auto simp: find_None_iff)
  then show ?thesis by (simp add: findReplay_def)
qed

lemma advanced_insert_event:
  assumes "history es qs" "event_attemptId e = sample_id ''exa'' CHR ''V''" "event_sequence e = int (length es) + 1"
    and "event_id e \<notin> event_id ` set es"
    and "ar_id r = sample_id ''exa'' CHR ''V''"
  shows "insert_event e ((advanced_store x t es qs)\<lparr>attempts := [r]\<rparr>)
    = Inr ((advanced_store x t es qs)\<lparr>attempts := [r], events := map event_row_of (es @ [e])\<rparr>)"
proof -
  have "er_sequence y \<noteq> event_sequence e" if "y \<in> set (map event_row_of es)" for y
    using that history_events(4) [OF assms(1)] assms(3) by (auto simp: event_row_of_def)
  moreover have "event_id e \<notin> er_id ` set (map event_row_of es)"
    using assms(4) by (auto simp: event_row_of_def)
  ultimately show ?thesis
    using assms(2,5) by (auto simp: insert_event_def)
qed

lemma advanced_request_stored:
  assumes "history es qs" "key \<notin> qr_idempotency_key ` set qs"
    and "leases db = [l]" "lr_id l = sample_id ''lse'' CHR ''V''" "workers db = [worker_row_of worker0]" "requests db = qs"
  shows "storeReplay (sample_id ''wrk'' CHR ''V'') (sample_id ''lse'' CHR ''V'') key op d a e db =
    Inr (db\<lparr>requests := qs @ [\<lparr> qr_worker_id = sample_id ''wrk'' CHR ''V'', qr_lease_id = sample_id ''lse'' CHR ''V'',
       qr_idempotency_key = key, qr_operation = op, qr_payload_hash = d, qr_result = (a, e) \<rparr>]\<rparr>)"
  using assms by (auto simp: storeReplay_def insert_request_def worker_row_of_def)

lemma advancing:
  assumes h: "history es qs" and x: "active_attempt x" "iso_instant t" and y: "active_attempt y"
    and n: "0 < n" "n < 120000"
    and key: "key \<notin> qr_idempotency_key ` set qs" "trim key = key" "text_within 128 key" "key \<noteq> []"
    and e: "e = advanced_event c (int (length es) + 1) op x y key (now0 + n)" "is_typed_id ''eve'' (sample_id ''eve'' c)"
      "sample_id ''eve'' c \<notin> event_id ` set es"
  shows "transitionExecution platform0 (now0 + n) (sample_id ''eve'' c) (sample_id ''wrk'' CHR ''V'') ''secret''
      (sample_id ''lse'' CHR ''V'') ''token'' key op x y (advanced_store x t es qs)
    = (Inr (advanced_attempt y (now0 + n), e, False),
       advanced_store y (now0 + n) (es @ [e]) (qs @ [advanced_request (advanced_attempt y (now0 + n)) e]))"
proof -
  let ?db = "advanced_store x t es qs" and ?a = "advanced_attempt y (now0 + n)"
  let ?d = "hashPayload platform0 (JObj [(''target'', JStr (attempt_status_name y))])"
  have t: "iso_instant (now0 + n)" using n by simp
  have a: "(advanced_attempt x t)\<lparr>attempt_status := y, attempt_updatedAt := to_iso (now0 + n)\<rparr> = ?a"
    and j: "(advanced_job x t)\<lparr>job_status := job_of_attempt y, job_updatedAt := to_iso (now0 + n)\<rparr> = advanced_job y (now0 + n)"
    by (simp_all add: advanced_attempt_def advanced_job_def)
  have ve: "event_valid e"
    using t key(3) e(2) by (simp add: e event_valid_def advanced_event_def isRfc3339_to_iso)
  have ev: "buildEvent ?db (sample_id ''eve'' c) ?a (Some x) y op key ?d (to_iso (now0 + n)) = Inr e"
    using ve history_events(1) [OF h] by (simp add: buildEvent_def Let_def doc_simps e(1) advanced_event_def)
  have upd: "updateAttempt ?a ?db = Inr (?db\<lparr>attempts := [write_attempt ?a (attempt_row_of attempt4)]\<rparr>)"
    using y t by (simp add: update_document_Inr update_attempt_def attempt_row_of_def write_attempt_def)
  have es: "event_id e = sample_id ''eve'' c" "event_attemptId e = sample_id ''exa'' CHR ''V''"
    "event_sequence e = int (length es) + 1" by (simp_all add: e(1) advanced_event_def)
  have r: "ar_id (write_attempt ?a (attempt_row_of attempt4)) = sample_id ''exa'' CHR ''V''"
    by (simp add: write_attempt_def attempt_row_of_def)
  have ins: "insert_event e (?db\<lparr>attempts := [write_attempt ?a (attempt_row_of attempt4)]\<rparr>)
      = Inr (?db\<lparr>attempts := [write_attempt ?a (attempt_row_of attempt4)], events := map event_row_of (es @ [e])\<rparr>)"
    by (rule advanced_insert_event [OF h es(2,3) _ r]) (use e(3) es(1) in simp)
  have uj: "updateJob (advanced_job x t) (job_of_attempt y) (to_iso (now0 + n))
      (?db\<lparr>attempts := [write_attempt ?a (attempt_row_of attempt4)], events := map event_row_of (es @ [e])\<rparr>)
      = Inr (advanced_store y (now0 + n) (es @ [e]) qs)"
    using y t
    by (simp add: update_document_Inr j)
      (simp add: update_job_def write_job_def job_row_of_def advanced_store_def)
  have st: "storeReplay (sample_id ''wrk'' CHR ''V'') (sample_id ''lse'' CHR ''V'') key (event_type_name op) ?d ?a e
        (advanced_store y (now0 + n) (es @ [e]) qs)
      = Inr (advanced_store y (now0 + n) (es @ [e]) (qs @ [advanced_request ?a e]))"
    by (subst advanced_request_stored [OF h key(1), where l = "lease_row_of (digestHex platform0 ''token'') lease2"])
      (simp_all add: lease_row_of_def advanced_request_def advanced_store_def e(1) advanced_event_def)
  have body: "transition_body platform0 (now0 + n) (sample_id ''eve'' c) (sample_id ''wrk'' CHR ''V'')
      (sample_id ''lse'' CHR ''V'') ''token'' key op x y ?d ?db
      = Inr ((?a, e, False), advanced_store y (now0 + n) (es @ [e]) (qs @ [advanced_request ?a e]))"
    using x by (simp add: transition_body_def advanced_active [OF x n(2,1)] advanced_record [OF h x] a ev upd ins uj [simplified map_append list.map] st Let_def)
  have nk: "normalizeTransitionKey key = Inr key"
    using key by (simp add: normalizeTransitionKey_def text_within_def)
  show ?thesis
    using x by (simp add: transitionExecution_def Let_def replay_or_def nk advanced_authentic fresh_key [OF h key(1)]
        body in_transaction_def)
qed

definition event6 :: execution_event where
  "event6 = advanced_event CHR ''X'' 2 E_UPLOADING X_RUNNING X_UPLOADING ''upload-1'' (now0 + 2000)"

definition event7 :: execution_event where
  "event7 = advanced_event CHR ''Y'' 3 E_VERIFYING X_UPLOADING X_VERIFYING ''verify-1'' (now0 + 3000)"

definition store6 :: control_store where
  "store6 = advanced_store X_UPLOADING (now0 + 2000) [event4, event6]
     [request4, advanced_request (advanced_attempt X_UPLOADING (now0 + 2000)) event6]"

definition store7 :: control_store where
  "store7 = advanced_store X_VERIFYING (now0 + 3000) [event4, event6, event7]
     [request4, advanced_request (advanced_attempt X_UPLOADING (now0 + 2000)) event6,
      advanced_request (advanced_attempt X_VERIFYING (now0 + 3000)) event7]"

lemma sample_event_ids [simp]:
  "is_typed_id ''eve'' (sample_id ''eve'' CHR ''X'')" "is_typed_id ''eve'' (sample_id ''eve'' CHR ''Y'')"
  "is_typed_id ''eve'' (sample_id ''eve'' CHR ''Z'')"
  by code_simp+

lemma sample_id_inject [simp]: "sample_id p c = sample_id q d \<longleftrightarrow> p = q \<and> c = d"
  by (auto simp: sample_id_def)

lemma sample_keys_advance [simp]:
  "trim ''upload-1'' = ''upload-1''" "trim ''verify-1'' = ''verify-1''" "trim ''complete-1'' = ''complete-1''"
  "text_within 128 ''upload-1''" "text_within 128 ''verify-1''" "text_within 128 ''complete-1''"
  by code_simp+

lemma sample_event_shape [simp]:
  "event_attemptId event4 = sample_id ''exa'' CHR ''V''" "event_sequence event4 = 1" "event_id event4 = sample_id ''eve'' CHR ''V''"
  "event_attemptId event6 = sample_id ''exa'' CHR ''V''" "event_sequence event6 = 2" "event_id event6 = sample_id ''eve'' CHR ''X''"
  "event_attemptId event7 = sample_id ''exa'' CHR ''V''" "event_sequence event7 = 3" "event_id event7 = sample_id ''eve'' CHR ''Y''"
  by (simp_all add: event4_def event6_def event7_def advanced_event_def)

lemma sample_event_valid [simp]: "event_valid event6" "event_valid event7"
  by (simp_all add: event_valid_def event6_def event7_def advanced_event_def isRfc3339_to_iso)

lemma sample_request_shape [simp]:
  "qr_worker_id request4 = sample_id ''wrk'' CHR ''V''" "qr_lease_id request4 = sample_id ''lse'' CHR ''V''"
  "qr_idempotency_key request4 = ''start-1''" "qr_idempotency_key (advanced_request a event6) = ''upload-1''"
  "qr_idempotency_key (advanced_request a event7) = ''verify-1''"
  "qr_worker_id (advanced_request a e) = sample_id ''wrk'' CHR ''V''" "qr_lease_id (advanced_request a e) = sample_id ''lse'' CHR ''V''"
  by (simp_all add: request4_def advanced_request_def event6_def event7_def advanced_event_def)

lemma sample_history:
  "history [event4] [request4]"
  "history [event4, event6] [request4, advanced_request a event6]"
  "history [event4, event6, event7] [request4, advanced_request a event6, advanced_request b event7]"
  by (simp_all add: history_def upt_rec)

lemma sample_uploaded:
  "markUploading platform0 (now0 + 2000) (sample_id ''eve'' CHR ''X'') (sample_id ''wrk'' CHR ''V'') ''secret''
     (sample_id ''lse'' CHR ''V'') ''token'' ''upload-1'' store4
   = (Inr (advanced_attempt X_UPLOADING (now0 + 2000), event6, False), store6)"
proof -
  have "event6 = advanced_event CHR ''X'' (int (length [event4]) + 1) E_UPLOADING X_RUNNING X_UPLOADING ''upload-1'' (now0 + 2000)"
    by (simp add: event6_def)
  from advancing [OF sample_history(1) _ _ _ _ _ _ _ _ _ this, of "now0 + 1000"] show ?thesis
    by (simp add: markUploading_def advanced_store4 store6_def)
qed

lemma sample_verified:
  "markVerifying platform0 (now0 + 3000) (sample_id ''eve'' CHR ''Y'') (sample_id ''wrk'' CHR ''V'') ''secret''
     (sample_id ''lse'' CHR ''V'') ''token'' ''verify-1'' store6
   = (Inr (advanced_attempt X_VERIFYING (now0 + 3000), event7, False), store7)"
proof -
  have "event7 = advanced_event CHR ''Y'' (int (length [event4, event6]) + 1) E_VERIFYING X_UPLOADING X_VERIFYING ''verify-1'' (now0 + 3000)"
    by (simp add: event7_def)
  from advancing [OF sample_history(2) _ _ _ _ _ _ _ _ _ this, of "now0 + 2000"] show ?thesis
    by (simp add: markVerifying_def store6_def store7_def)
qed

lemma sample_reachable7: "reachable_store store6" "reachable_store store7"
proof -
  show six: "reachable_store store6"
    using reachable_call [OF sample_reachable4 control_call.uploading] sample_uploaded by (metis snd_conv)
  show "reachable_store store7"
    using reachable_call [OF six control_call.verifying] sample_verified by (metis snd_conv)
qed

definition receipt8 :: json where
  "receipt8 = JObj [(''executor'', executor0), (''outputKinds'', JArr [JStr (artifact_kind_name A_HTML)]),
     (''itemsObserved'', JNum 3), (''bytesPrepared'', JNum 0), (''metadataOnly'', JBool True)]"

definition completion0 :: complete_input where
  "completion0 = \<lparr> ci_receipt = receipt8, ci_idempotencyKey = ''complete-1'' \<rparr>"

definition attempt8 :: execution_attempt where
  "attempt8 = ended_attempt (advanced_attempt X_VERIFYING (now0 + 3000)) (Receipt receipt8) (to_iso (now0 + 4000))"

abbreviation "hash_complete \<equiv> hashPayload platform0 (JObj [(''receipt'', receipt8)])"

definition event8 :: execution_event where
  "event8 =
     \<lparr> event_id = sample_id ''eve'' CHR ''Z'', event_attemptId = sample_id ''exa'' CHR ''V'', event_sequence = 4,
       event_type = E_COMPLETED, event_fromStatus = Some X_VERIFYING, event_toStatus = X_COMPLETED,
       event_idempotencyKey = ''complete-1'', event_payloadHash = hash_complete, event_recordedAt = to_iso (now0 + 4000) \<rparr>"

lemma receipt8_valid [simp]: "isExecutionReceipt receipt8"
  by code_simp

lemma receipt8_fields [simp]:
  "receipt_field ''executor'' receipt8 = executor0" "receipt_field ''metadataOnly'' receipt8 = JBool True"
  "json_texts (receipt_field ''outputKinds'' receipt8) = [artifact_kind_name A_HTML]"
  "path_of [''executor''] receipt8 = Some executor0"
  by (simp_all add: receipt8_def)

lemma attempt8_valid [simp]: "attempt_valid attempt8"
  using attempt4_valid
  by (simp add: attempt_valid_def attempt8_def isRfc3339_to_iso outcome_valid_def optionally_def advanced_attempt_def
      attempt4_def new_attempt_def)

lemma event8_valid [simp]: "event_valid event8"
  by (simp add: event_valid_def event8_def isRfc3339_to_iso)

definition job8 :: job where
  "job8 = (advanced_job X_VERIFYING (now0 + 3000))\<lparr>job_status := J_COMPLETED, job_updatedAt := to_iso (now0 + 4000)\<rparr>"

definition run8 :: collection_run where
  "run8 = run4\<lparr>run_status := R_COMPLETED, run_updatedAt := to_iso (now0 + 4000)\<rparr>"

definition lease8 :: job_lease where
  "lease8 = ended_lease lease2 L_RELEASED ''EXECUTION_COMPLETED'' (to_iso (now0 + 4000))"

definition store8 :: control_store where
  "store8 = store7\<lparr>collection_runs := [write_run run8 (write_run run4 (run_row_of run1))],
     jobs := [write_job job8 (write_job job4 (write_job job2 (job_row_of job1)))],
     leases := [write_lease_closed lease8 (lease_row_of (digestHex platform0 ''token'') lease2)],
     attempts := [write_attempt attempt8 (attempt_row_of attempt4)],
     events := map event_row_of [event4, event6, event7, event8],
     requests := requests store7 @ [\<lparr> qr_worker_id = sample_id ''wrk'' CHR ''V'', qr_lease_id = sample_id ''lse'' CHR ''V'',
       qr_idempotency_key = ''complete-1'', qr_operation = ''COMPLETE'', qr_payload_hash = hash_complete,
       qr_result = (attempt8, event8) \<rparr>]\<rparr>"

lemma sample_documents8 [simp]: "job_valid job8" "run_valid run8" "lease_valid lease8"
proof -
  show "job_valid job8" "run_valid run8" by (simp_all add: job8_def run8_def job_valid_status run_valid_status)
  have "length ''EXECUTION_COMPLETED'' \<le> 500" by simp
  with lease2_valid show "lease_valid lease8"
    by (simp add: lease8_def ended_lease_def lease_valid_def isRfc3339_to_iso optionally_def)
qed

lemma complete_body7:
  "terminal_body platform0 (now0 + 4000) (sample_id ''eve'' CHR ''Z'') (sample_id ''job'' CHR ''W'')
     (sample_id ''wrk'' CHR ''V'') (sample_id ''lse'' CHR ''V'') ''token'' ''complete-1'' ''COMPLETE'' hash_complete
     (Receipt receipt8) store7
   = Inr ((attempt8, event8, False), store8)"
proof -
  let ?r = "write_attempt attempt8 (attempt_row_of attempt4)" and ?v = "advanced_attempt X_VERIFYING (now0 + 3000)"
  let ?j = "advanced_job X_VERIFYING (now0 + 3000)"
  let ?db2 = "store7\<lparr>attempts := [?r], events := map event_row_of ([event4, event6, event7] @ [event8])\<rparr>"
  let ?db3 = "?db2\<lparr>collection_runs := collection_runs store8, jobs := jobs store8\<rparr>"
  note h = sample_history(3) [of "advanced_attempt X_UPLOADING (now0 + 2000)" ?v]
  have active: "requireActiveContext platform0 store7 (sample_id ''wrk'' CHR ''V'') (sample_id ''lse'' CHR ''V'') ''token''
      (to_iso (now0 + 4000)) = Inr \<lparr> ctx_lease = lease2, ctx_job = ?j, ctx_run = run4,
        ctx_tokenDigest = digestHex platform0 ''token'' \<rparr>"
    unfolding store7_def by (rule advanced_active) simp_all
  have attempt: "requireAttemptByLease store7 (sample_id ''lse'' CHR ''V'') = Inr (?v, [event4, event6, event7])"
    unfolding store7_def by (rule advanced_record [OF h]) simp_all
  have check: "check_completion store7 ?v ?j (Receipt receipt8) = Inr ()"
    by (simp add: check_completion_def assertReceiptMatchesJob_def assertArtifactEvidence_def)
  have ev: "buildEvent store7 (sample_id ''eve'' CHR ''Z'') attempt8 (Some X_VERIFYING) X_COMPLETED E_COMPLETED ''complete-1''
      hash_complete (to_iso (now0 + 4000)) = Inr event8"
    using event8_valid history_events(1) [OF h]
    by (simp add: buildEvent_def Let_def doc_simps event8_def attempt8_def store7_def)
  have ended: "ended_attempt ?v (Receipt receipt8) (to_iso (now0 + 4000)) = attempt8"
    by (simp add: attempt8_def)
  have upd: "updateAttempt attempt8 store7 = Inr (store7\<lparr>attempts := [?r]\<rparr>)"
    by (simp add: update_document_Inr)
      (simp add: update_attempt_def attempt8_def attempt_row_of_def write_attempt_def store7_def)
  have r: "ar_id ?r = sample_id ''exa'' CHR ''V''" by (simp add: write_attempt_def attempt_row_of_def)
  have ins: "insert_event event8 (store7\<lparr>attempts := [?r]\<rparr>) = Inr ?db2"
    unfolding store7_def by (rule advanced_insert_event [OF h _ _ _ r]) (simp_all add: event8_def)
  have job: "?j\<lparr>job_status := J_COMPLETED, job_updatedAt := to_iso (now0 + 4000)\<rparr> = job8"
    and run: "run4\<lparr>run_status := R_COMPLETED, run_updatedAt := to_iso (now0 + 4000)\<rparr> = run8"
    by (simp_all add: job8_def run8_def)
  have "updateJob ?j J_COMPLETED (to_iso (now0 + 4000)) db = Inr (update_job job8 db)"
    "updateRun run4 R_COMPLETED (to_iso (now0 + 4000)) db = Inr (update_run run8 db)" for db
    by (simp_all add: update_document_Inr job run)
  moreover have "update_run run8 (update_job job8 ?db2) = ?db3"
    by (simp add: update_run_def update_job_def store8_def store7_def run8_def job8_def write_run_def write_job_def
        run_row_of_def job_row_of_def)
  ultimately have settle: "settle_job platform0 (sample_id ''job'' CHR ''W'') (Receipt receipt8) ?j run4 (to_iso (now0 + 4000)) ?db2
      = Inr (''EXECUTION_COMPLETED'', ?db3)"
    by (simp add: settle_job_def)
  have close: "closeExecutionLease lease2 L_RELEASED ''EXECUTION_COMPLETED'' (to_iso (now0 + 4000)) ?db3
      = Inr (store8\<lparr>requests := requests store7\<rparr>)"
    using sample_documents8(3)
    by (simp add: update_document_Inr update_lease_closed_def lease8_def [symmetric])
      (simp add: lease8_def ended_lease_def lease_row_of_def store8_def store7_def)
  have stored: "storeReplay (sample_id ''wrk'' CHR ''V'') (sample_id ''lse'' CHR ''V'') ''complete-1'' ''COMPLETE'' hash_complete
      attempt8 event8 (store8\<lparr>requests := requests store7\<rparr>) = Inr store8"
    by (subst advanced_request_stored [OF h,
          where l = "write_lease_closed lease8 (lease_row_of (digestHex platform0 ''token'') lease2)"])
      (simp_all add: store8_def store7_def lease_row_of_def write_lease_closed_def)
  show ?thesis
    using check upd ins settle close stored ev
    by (simp add: terminal_body_def Let_def active attempt ended doc_simps del: ended_attempt.simps)
qed

lemma sample_completed:
  "completeExecution platform0 (now0 + 4000) (sample_id ''eve'' CHR ''Z'') (sample_id ''job'' CHR ''W'')
     (sample_id ''wrk'' CHR ''V'') ''secret'' (sample_id ''lse'' CHR ''V'') ''token'' completion0 store7
   = (Inr (attempt8, event8, False), store8)"
proof -
  have auth: "\<exists>c. authenticate platform0 store7 (sample_id ''wrk'' CHR ''V'') ''secret'' (sample_id ''lse'' CHR ''V'') ''token'' = Inr c"
    by (simp add: store7_def advanced_authentic)
  have "findReplay store7 (sample_id ''wrk'' CHR ''V'') (sample_id ''lse'' CHR ''V'') ''complete-1'' ''COMPLETE'' hash_complete
      = Inr None"
    unfolding store7_def by (rule fresh_key [OF sample_history(3)]) simp
  with auth show ?thesis
    by (auto simp: completeExecution_def completion0_def Let_def replay_or_def normalizeTransitionKey_def
        complete_body7 in_transaction_def)
qed

lemma sample_reachable8: "reachable_store store8"
  using reachable_call [OF sample_reachable7(2) control_call.complete] sample_completed by (metis snd_conv)

section \<open>Artifact evidence\<close>

definition artifact9 :: artifact_row where
  "artifact9 = \<lparr> xr_receipt_id = sample_id ''air'' CHR ''V'', xr_execution_attempt_id = sample_id ''exa'' CHR ''V'',
     xr_session_id = ''session'',
     xr_document = JObj [(''sizeBytes'', JNum 512), (''artifactKind'', JStr (artifact_kind_name A_HTML))] \<rparr>"

definition session9 :: session_row where
  "session9 = \<lparr> sr_id = ''session'', sr_status = ''FINALIZED'', sr_receipt = Some ''receipt'' \<rparr>"

definition receipt9 :: json where
  "receipt9 = JObj [(''executor'', executor0), (''outputKinds'', JArr [JStr (artifact_kind_name A_HTML)]),
     (''itemsObserved'', JNum 1), (''bytesPrepared'', JNum 512), (''metadataOnly'', JBool False),
     (''artifactReceiptIds'', JArr [JStr (sample_id ''air'' CHR ''V'')])]"

lemma sample_evidence:
  "assertArtifactEvidence (store7\<lparr>artifacts := Some ([artifact9], [session9])\<rparr>) (sample_id ''exa'' CHR ''V'') receipt9 job4
     = Inr ()"
  by (simp add: assertArtifactEvidence_def receipt9_def artifact_evidence_def artifact9_def session9_def)

section \<open>A retried run, and an attempt whose lease ran out\<close>

lemma sample_requeued: "getRunById store5 (sample_id ''run'' CHR ''V'') = Inr (Some (run5, [job5, retry5]))"
proof -
  have shape: "job_runId retry5 = sample_id ''run'' CHR ''V''" "job_attempt retry5 = 2" "run_id run5 = sample_id ''run'' CHR ''V''"
    by (simp_all add: retry5_def run5_def)
  then show ?thesis
    by (simp add: getRunById_def run_by_id_def recordFromRun_def jobsForRun_def store5_def write_run_def run_row_of_def
        write_job_def job_row_of_def)
qed

definition store9 :: control_store where
  "store9 = snd (reconcileExpired platform0 (now0 + 120000) (\<lambda>_. sample_id ''eve'' CHR ''W'') store4)"

lemma sample_reconciled:
  "reconcileExpired platform0 (now0 + 120000) (\<lambda>_. sample_id ''eve'' CHR ''W'') store4 = (Inr 1, store9)"
proof -
  let ?t = "to_iso (now0 + 120000)"
  let ?row = "\<lparr> rc_attempt = attempt4, rc_lease = lease2, rc_job = job4, rc_run = run4 \<rparr>"
  have rows: "reconcile_rows ?t store4 = [?row]"
    by (simp add: reconcile_rows_def reconcile_join_def attempt_row_of_def lease_by_id_def lease_row_of_def job_by_id_def
        run_by_id_def write_job_def job_row_of_def write_run_def run_row_of_def active_states
        attempt4_def new_attempt_def)
  let ?next = "ended_attempt attempt4 (Failure (abandonment ?t)) ?t"
  have iso: "iso_instant (now0 + 120000)" by simp
  have next_valid: "attempt_valid ?next"
  proof -
    have "is_failure_code ''LEASE_EXPIRED_DURING_EXECUTION''"
      "text_within 1000 ''The execution lease ended after execution started; external outcome is unknown.''"
      by code_simp+
    with attempt4_valid iso show ?thesis
      by (simp add: attempt_valid_def outcome_valid_def optionally_def failure_valid_def abandonment_def isRfc3339_to_iso
          attempt4_def new_attempt_def)
  qed
  have key: "text_within 128 (take 128 (''system-reconcile-'' @ sample_id ''lse'' CHR ''V''))" by code_simp
  let ?key = "take 128 (''system-reconcile-'' @ sample_id ''lse'' CHR ''V'')"
  let ?hash = "hashPayload platform0 (JObj [(''code'', JStr (failure_code (abandonment ?t))),
      (''leaseStatus'', JStr (lease_status_name L_ACTIVE))])"
  obtain e where e: "buildEvent store4 (sample_id ''eve'' CHR ''W'') ?next (Some X_RUNNING) X_FAILED E_ABANDONED ?key ?hash ?t = Inr e"
    and shape: "event_id e = sample_id ''eve'' CHR ''W''" "event_attemptId e = sample_id ''exa'' CHR ''V''" "event_sequence e = 2"
    using key iso
    by (simp add: buildEvent_def Let_def doc_simps event_valid_def isRfc3339_to_iso event_row_of_def del: ended_attempt.simps)
  obtain db2 where db2: "insert_event e (update_attempt ?next store4) = Inr db2"
    using shape by (simp add: insert_event_def event_row_of_def update_attempt_def write_attempt_def attempt_row_of_def)
  have "lease_valid (ended_lease lease2 L_EXPIRED ''LEASE_EXPIRED_DURING_EXECUTION'' ?t)"
    using lease2_valid iso by (simp add: ended_lease_def lease_valid_def isRfc3339_to_iso optionally_def)
  moreover have "job_valid (job4\<lparr>job_status := J_FAILED, job_updatedAt := ?t\<rparr>)"
    "run_valid (run4\<lparr>run_status := R_FAILED, run_updatedAt := ?t\<rparr>)"
    using iso by (simp_all add: job_valid_status run_valid_status)
  ultimately have "\<exists>db. reconcile_one platform0 ?t (sample_id ''eve'' CHR ''W'', ?row) store4 = Inr db"
    by (simp only: reconcile_one_def Let_def prod.case reconcile_row.select_convs parse_valid attempt4_valid lease2_valid
        sample_documents4 and_then_simps sample_lease attempt4_shape e update_document_Inr next_valid db2
        updateAttempt_def updateJob_def updateRun_def closeExecutionLease_def doc_simps if_True simp_thms) simp
  then show ?thesis
    unfolding store9_def by (auto simp: reconcileExpired_def rows in_transaction_def Let_def)
qed

lemma sample_settled:
  "length (filter (stranded store4 (to_iso (now0 + 120000))) (attempts store4)) = 1"
  "settled_rows store9 (sample_id ''exa'' CHR ''V'') (sample_id ''job'' CHR ''V'') (sample_id ''run'' CHR ''V'') (sample_id ''lse'' CHR ''V'')"
proof -
  note r = reconcileExpired_settles [OF reachable_well_formed [OF sample_reachable4] sample_reconciled]
  show one: "length (filter (stranded store4 (to_iso (now0 + 120000))) (attempts store4)) = 1" using r(1) by simp
  obtain a where a: "attempts store4 = [a]" "ar_id a = sample_id ''exa'' CHR ''V''" "ar_job_id a = sample_id ''job'' CHR ''V''"
    "ar_run_id a = sample_id ''run'' CHR ''V''" "ar_lease_id a = sample_id ''lse'' CHR ''V''"
    by (simp add: store4_def attempt_row_of_def attempt4_def new_attempt_def job2_def lease2_def new_lease_def Let_def)
  have "stranded store4 (to_iso (now0 + 120000)) a" using one unfolding a(1) by (simp split: if_splits)
  with r(2) [of a] a show "settled_rows store9 (sample_id ''exa'' CHR ''V'') (sample_id ''job'' CHR ''V'') (sample_id ''run'' CHR ''V'') (sample_id ''lse'' CHR ''V'')"
    by simp
qed

lemma sample_well_formed9: "well_formed store9"
  using reconcileExpired_Inr(2) [OF reachable_well_formed [OF sample_reachable4] sample_reconciled] .

end
