(* ===== verification/Plan_Lifecycle.thy ===== *)
theory Plan_Lifecycle
  imports Registry_Protocol Collection_Scheduler
begin

text \<open>
  What the plan registry promises its clients: the default plan of a source is one of its own plans
  that is not archived, a caller with a stale version token is refused, and an active plan that has
  been accepted is one the ledger and the scheduler dispatch.
\<close>

section \<open>Reading back what was written\<close>

lemma find_by_replaced:
  "find_by key k rs = Some r0 \<Longrightarrow> key r = k \<Longrightarrow> find_by key k (update_by key k (\<lambda>_. r) rs) = Some r"
  by (induction rs) (auto split: if_splits)

lemma getPlanById_Some:
  "getPlanById db i = Inr (Some (p, v)) \<Longrightarrow>
     \<exists>r s. find_by pl_id i (plans db) = Some r \<and> pl_document r = p \<and> plan_valid p
       \<and> find_by source_id (plan_sourceId p) (sources db) = Some s \<and> source_valid s"
  by (auto simp: getPlanById_def plan_recordFromRow_def join_source_def and_then_Inr parse_Inr split: option.splits)

lemma write_checked_reads:
  assumes "write_checked change expected p db = Inr (next, db')" "plan_id next = plan_id p"
    "plan_sourceId next = plan_sourceId p"
  obtains c s where "find_by pl_id (plan_id p) (plans db') = Some (planRow next c)"
    "find_by source_id (plan_sourceId next) (sources db') = Some s" "source_valid s"
proof -
  from assms(1) obtain s and c :: connector_manifest where w: "loadSource db (plan_sourceId p) = Inr s"
      "writeUpdate next expected (connector_connectorId c) db = Inr db'"
    by (rule write_checked_Inr) (rule that)
  from w(2) obtain r where r: "find_by pl_id (plan_id p) (plans db) = Some r"
      and db': "db' = db\<lparr>plans := update_by pl_id (plan_id p) (\<lambda>_. planRow next (connector_connectorId c)) (plans db)\<rparr>"
    by (auto simp: writeUpdate_Inr assms(2))
  show ?thesis
    by (rule that [of "connector_connectorId c" s])
      (use w(1) assms(2,3) find_by_replaced [OF r] in \<open>simp_all add: db' loadSource_Inr\<close>)
qed

section \<open>Stale tokens\<close>

text \<open>The version check is the first thing every change does, so it decides.\<close>

lemma expected_plan_stale:
  assumes "find_by pl_id i (plans db) = Some r" "plan_valid (pl_document r)"
    and "find_by source_id (plan_sourceId (pl_document r)) (sources db) = Some s" "source_valid s"
    and "plan_updatedAt (pl_document r) \<noteq> expected"
  shows "expected_plan db i expected = conflict (Plan COLLECTION_PLAN_VERSION_CONFLICT)"
  using assms by (simp add: expected_plan_def getPlanById_def join_source_def plan_recordFromRow_def parsePlan_def
      parseSource_def doc_simps)

lemma stale_token_refused:
  assumes "expected_plan db i expected = conflict (Plan COLLECTION_PLAN_VERSION_CONFLICT)"
  shows "updatePlan now i inp expected db = (conflict (Plan COLLECTION_PLAN_VERSION_CONFLICT), db)"
    "read_plan_status t = Some st \<Longrightarrow>
       updatePlanStatus now now' i t expected db = (conflict (Plan COLLECTION_PLAN_VERSION_CONFLICT), db)"
  using assms by (simp_all add: updatePlan_def updatePlanStatus_def checked_status_def)

lemma updated_plan_stale:
  assumes u: "updatePlan now i inp expected db = (Inr v, db')" and tok: "to_iso now \<noteq> expected"
  shows "expected_plan db' i expected = conflict (Plan COLLECTION_PLAN_VERSION_CONFLICT)"
  using u
proof (cases rule: updatePlan_cases)
  case (2 p r "next")
  note a = applyPlanUpdate_Inr [OF 2(4)]
  have i: "plan_id p = i" using find_by_SomeD [OF 2(1)] 2(2) by (simp add: pl_id_def)
  have same: "plan_id next = plan_id p" "plan_sourceId next = plan_sourceId p" using a by simp_all
  obtain c s where rows: "find_by pl_id (plan_id p) (plans db') = Some (planRow next c)"
      "find_by source_id (plan_sourceId next) (sources db') = Some s" "source_valid s"
    by (rule write_checked_reads [OF 2(5) same])
  show ?thesis
    by (rule expected_plan_stale [of _ _ "planRow next c" s]) (use rows a i tok in simp_all)
qed simp

section \<open>Accepted plans dispatch\<close>

lemma plan_assertCapability_Inr: "plan_assertCapability c cap = Inr u \<longleftrightarrow> cap \<in> set (connector_capabilities c)"
  by (simp add: plan_assertCapability_def)

lemma capability_granted:
  "cap \<in> set (connector_capabilities c) \<Longrightarrow> assertCapability c cap = Inr ()"
  "cap \<in> set (connector_capabilities c) \<Longrightarrow> scheduler_assertCapability c cap = Inr ()"
  by (simp_all add: assertCapability_def scheduler_assertCapability_def)

lemma compatible_plan:
  assumes "validateCompatibility p s c = Inr ()"
  shows "source_type s \<in> set (connector_sourceTypes c)"
    "set (plan_artifactKinds p) \<subseteq> set (connector_outputArtifactKinds c)"
    "renderJavascript (plan_policy p) \<Longrightarrow> RENDER_JAVASCRIPT \<in> set (connector_capabilities c)"
    "fetchAttachments (plan_policy p) \<Longrightarrow> FETCH_ATTACHMENTS \<in> set (connector_capabilities c)"
    "is_change_watch (plan_schedule p) \<Longrightarrow>
       CHECK_UPDATE \<in> set (connector_capabilities c) \<or> WATCH \<in> set (connector_capabilities c)"
    "plan_status p = P_ACTIVE \<Longrightarrow>
       source_status s = S_ACTIVE \<and> connector_status c = C_ACTIVE \<and> COLLECT \<in> set (connector_capabilities c)"
  using assms
  by (auto simp: validateCompatibility_def and_then_Inr plan_assertCapability_Inr filter_empty_conv split: if_splits)

text \<open>What the registry has accepted as active, dispatch refuses at most for its job type.\<close>

lemma accepted_dispatch:
  assumes "validateCompatibility p s c = Inr ()" "plan_status p = P_ACTIVE"
  shows "validateDispatch p s c = deriveCollectionJobType p s c"
    "schedule_mode_of (plan_schedule p) \<noteq> M_MANUAL \<Longrightarrow>
       validateScheduledDispatch p s c = deriveCollectionJobType p s c"
proof -
  note k = compatible_plan [OF assms(1)]
  have watch: "is_change_watch (plan_schedule p) \<longleftrightarrow> schedule_mode_of (plan_schedule p) = M_CHANGE_WATCH"
    by (cases "plan_schedule p") simp_all
  have kinds: "filter (\<lambda>x. x \<notin> set (connector_outputArtifactKinds c)) (plan_artifactKinds p) = []"
    using k(2) by (auto simp: filter_empty_conv)
  show "validateDispatch p s c = deriveCollectionJobType p s c"
    using k(1,3-) assms(2) kinds by (auto simp: validateDispatch_def capability_granted)
  show "validateScheduledDispatch p s c = deriveCollectionJobType p s c"
    if "schedule_mode_of (plan_schedule p) \<noteq> M_MANUAL"
    using k(1,3-) assms(2) kinds that watch by (auto simp: validateScheduledDispatch_def capability_granted)
qed

text \<open>The connector the plan was checked against is the one the ledger and the scheduler load.\<close>

lemma plan_loadConnector_loads:
  assumes "plan_loadConnector db s = Inr c"
  shows "loadConnector db s = Inr c"
  using assms by (auto simp: plan_loadConnector_def loadConnector_def split: option.splits)

lemma created_plan_dispatches:
  assumes "createPlan now i inp db = (Inr (Some (p, v)), db')" "plan_status p = P_ACTIVE"
  obtains s c where "loadSource db' (plan_sourceId p) = Inr s" "loadConnector db' s = Inr c"
    "validateDispatch p s c = deriveCollectionJobType p s c"
    "schedule_mode_of (plan_schedule p) \<noteq> M_MANUAL \<Longrightarrow>
       validateScheduledDispatch p s c = deriveCollectionJobType p s c"
  using assms(1)
proof (cases rule: createPlan_cases)
  case (2 s c q)
  have db': "db' = db\<lparr>plans := plans db @ [planRow q (connector_connectorId c)]\<rparr>" "plan_id q \<notin> pl_id ` set (plans db)"
    using 2(5) by (simp_all add: insert_plan_Inr)
  have "getPlanById db' (plan_id q) = Inr (Some (p, v))" using 2(6) by simp
  then obtain r where "find_by pl_id (plan_id q) (plans db') = Some r" "pl_document r = p"
    by (blast dest: getPlanById_Some)
  moreover have "find_by pl_id (plan_id q) (plans db) = None" using db'(2) by (simp add: find_by_None)
  ultimately have q: "q = p" by (auto simp: db'(1) find_by_append pl_id_def planRow_def)
  have "loadSource db' (plan_sourceId p) = loadSource db (cp_sourceId inp)"
  proof -
    have "source_id s = cp_sourceId inp" "source_valid s"
      using 2(1) find_by_SomeD [of source_id "cp_sourceId inp" "sources db" s] by (simp_all add: loadSource_Inr)
    then have "trim (cp_sourceId inp) = cp_sourceId inp" using source_id_trimmed by (force simp: source_valid_def)
    then show ?thesis using normalizePlan_Inr [OF 2(3)] by (simp add: db' q loadSource_def)
  qed
  moreover have "loadConnector db' s = Inr c"
    using plan_loadConnector_loads [OF 2(2)] by (simp add: db' loadConnector_def connector_by_ref_def)
  ultimately show ?thesis
    using that [of s c] accepted_dispatch [OF 2(4)] 2(1) assms(2) by (simp add: q)
qed simp

section \<open>The default plan of a source\<close>

definition default_ok :: "control_store \<Rightarrow> bool" where
  "default_ok db \<longleftrightarrow>
     (\<forall>s\<in>set (sources db). \<forall>d. source_defaultCollectionPlanId s = Some d \<longrightarrow>
        (\<exists>r\<in>set (plans db). pl_id r = d \<and> plan_sourceId (pl_document r) = source_id s
           \<and> plan_status (pl_document r) \<noteq> P_ARCHIVED))"

lemma default_okD:
  assumes "default_ok db" "s \<in> set (sources db)" "source_defaultCollectionPlanId s = Some d"
  shows "\<exists>r\<in>set (plans db). pl_id r = d \<and> plan_sourceId (pl_document r) = source_id s
     \<and> plan_status (pl_document r) \<noteq> P_ARCHIVED"
  using assms by (simp add: default_ok_def)

text \<open>Plans that stay with their source and are not archived keep the defaults sound.\<close>

definition plan_stays :: "plan_row \<Rightarrow> plan_row \<Rightarrow> bool" where
  "plan_stays r r' \<longleftrightarrow>
     pl_id r' = pl_id r \<and> plan_sourceId (pl_document r') = plan_sourceId (pl_document r)
     \<and> (plan_status (pl_document r) \<noteq> P_ARCHIVED \<longrightarrow> plan_status (pl_document r') \<noteq> P_ARCHIVED)"

lemma default_ok_plans:
  assumes "default_ok db" "db' = db\<lparr>plans := rs\<rparr>" "kept plan_stays (plans db) rs"
  shows "default_ok db'"
  using assms unfolding default_ok_def kept_def plan_stays_def by (simp, metis)

lemma default_ok_sources:
  assumes "default_ok db" and db': "db' = db\<lparr>sources := ss\<rparr>"
    and "\<And>s d. s \<in> set ss \<Longrightarrow> source_defaultCollectionPlanId s = Some d \<Longrightarrow>
       (\<exists>s0\<in>set (sources db). source_id s0 = source_id s \<and> source_defaultCollectionPlanId s0 = Some d)
       \<or> (\<exists>r\<in>set (plans db). pl_id r = d \<and> plan_sourceId (pl_document r) = source_id s
            \<and> plan_status (pl_document r) \<noteq> P_ARCHIVED)"
  shows "default_ok db'"
  using assms unfolding default_ok_def by (simp add: db', metis)

lemma create_plan_default:
  assumes "default_ok db"
  shows "default_ok (snd (createPlan now i inp db))"
proof -
  obtain res db' where c: "createPlan now i inp db = (res, db')" by fastforce
  then have "default_ok db'"
    by (cases rule: createPlan_cases)
      (use assms in \<open>auto simp: insert_plan_Inr plan_stays_def intro!: default_ok_plans [OF assms] kept_append\<close>)
  then show ?thesis by (simp add: c)
qed

text \<open>Writing a plan that stays.\<close>

lemma write_checked_default:
  assumes ok: "catalogue_ok db" "default_ok db" and w: "write_checked change expected p db = Inr (next, db')"
    and row: "find_by pl_id (plan_id p) (plans db) = Some r" "pl_document r = p"
    and same: "plan_id next = plan_id p" "plan_sourceId next = plan_sourceId p"
      "plan_status p \<noteq> P_ARCHIVED \<Longrightarrow> plan_status next \<noteq> P_ARCHIVED"
  shows "default_ok db'"
proof -
  from w obtain c where "writeUpdate next expected c db = Inr db'" by (rule write_checked_Inr)
  then have db': "db' = db\<lparr>plans := update_by pl_id (plan_id p) (\<lambda>_. planRow next c) (plans db)\<rparr>"
    by (simp add: writeUpdate_Inr same(1))
  have "distinct (map pl_id (plans db))" using ok(1) by (simp add: catalogue_ok_def)
  then have "kept plan_stays (plans db) (update_by pl_id (plan_id p) (\<lambda>_. planRow next c) (plans db))"
    by (intro kept_update) (use same row find_by_SomeD [OF row(1)] distinct_key_eq in \<open>fastforce simp: plan_stays_def\<close>)+
  then show ?thesis by (rule default_ok_plans [OF ok(2) db'])
qed

lemma update_plan_default:
  assumes "catalogue_ok db" "default_ok db"
  shows "default_ok (snd (updatePlan now i inp expected db))"
proof -
  obtain res db' where c: "updatePlan now i inp expected db = (res, db')" by fastforce
  then have "default_ok db'"
  proof (cases rule: updatePlan_cases)
    case (2 p r "next")
    note a = applyPlanUpdate_Inr [OF 2(4)]
    have "plan_id p = i" using find_by_SomeD [OF 2(1)] 2(2) by (simp add: pl_id_def)
    with a 2(1,2) show ?thesis by (intro write_checked_default [OF assms 2(5)]) auto
  qed (use assms in simp)
  then show ?thesis by (simp add: c)
qed

text \<open>
  Archiving: at most the plan's own source can name it, and that source is cleared. With a clock in
  the range of the timestamps the clearing cannot fail, so the plan is never archived with its default
  left in place.
\<close>

lemma clearDefault_total:
  assumes "find_by source_id (plan_sourceId p) (sources db) = Some s" "source_valid s" "iso_instant now"
  shows "\<exists>db'. clearDefaultPlanIfNeeded now p db = Inr db'"
proof -
  have "source_valid (s\<lparr>source_updatedAt := to_iso now, source_defaultCollectionPlanId := None\<rparr>)"
    using assms(2,3) by (simp add: source_valid_def isRfc3339_to_iso)
  with assms(1,2) show ?thesis by (auto simp: clearDefault_Inr)
qed

lemma checked_status_default:
  assumes ok: "catalogue_ok db" "default_ok db" and c: "checked_status now i t expected db = Inr (next, db')"
    and "plan_status next \<noteq> P_ARCHIVED"
  shows "default_ok db'"
  using c
proof (rule checked_status_Inr)
  fix st p r
  assume st: "find_by pl_id i (plans db) = Some r" "pl_document r = p"
    "next = p\<lparr>plan_status := st, plan_updatedAt := to_iso now\<rparr>"
    "write_checked (\<lambda>p. Inr (p\<lparr>plan_status := st, plan_updatedAt := to_iso now\<rparr>)) expected p db = Inr (next, db')"
  have i: "plan_id p = i" using find_by_SomeD [OF st(1)] st(2) by (simp add: pl_id_def)
  show ?thesis
    by (rule write_checked_default [OF ok st(4), of r]) (use st i assms(4) in auto)
qed

lemma archived_cleared_default:
  assumes ok: "catalogue_ok db" "default_ok db" and c: "checked_status now i t expected db = Inr (next, db1)"
    and cl: "clearDefaultPlanIfNeeded now' next db1 = Inr db'"
  shows "default_ok db'"
  using c
proof (rule checked_status_Inr)
  fix st p r
  assume st: "find_by pl_id i (plans db) = Some r" "pl_document r = p"
    "next = p\<lparr>plan_status := st, plan_updatedAt := to_iso now\<rparr>"
    "write_checked (\<lambda>p. Inr (p\<lparr>plan_status := st, plan_updatedAt := to_iso now\<rparr>)) expected p db = Inr (next, db1)"
  have i: "plan_id p = i" using find_by_SomeD [OF st(1)] st(2) by (simp add: pl_id_def)
  from st(4) obtain c where "writeUpdate next expected c db = Inr db1" by (rule write_checked_Inr) (rule that)
  then have db1: "db1 = db\<lparr>plans := update_by pl_id i (\<lambda>_. planRow next c) (plans db)\<rparr>"
    using st(3) i by (simp add: writeUpdate_Inr)
  have other: "x \<in> set (plans db1)" if "x \<in> set (plans db)" "pl_id x \<noteq> i" for x
    using that by (auto simp: db1 set_update_by)
  have dist: "distinct (map pl_id (plans db))" "distinct (map source_id (sources db))"
    using ok(1) by (simp_all add: catalogue_ok_def)
  have named: "source_id x = plan_sourceId p" if x: "x \<in> set (sources db)" "source_defaultCollectionPlanId x = Some i" for x
  proof -
    obtain r' where r': "r' \<in> set (plans db)" "pl_id r' = i" "plan_sourceId (pl_document r') = source_id x"
      using default_okD [OF ok(2) x] by blast
    then have "r' = r" using find_by_SomeD [OF st(1)] by (intro distinct_key_eq [OF dist(1)]) simp_all
    with r' st(2) show ?thesis by simp
  qed
  have sound: "\<exists>r\<in>set (plans db1). pl_id r = d \<and> plan_sourceId (pl_document r) = source_id x
      \<and> plan_status (pl_document r) \<noteq> P_ARCHIVED"
    if "x \<in> set (sources db)" "source_defaultCollectionPlanId x = Some d" "d \<noteq> i" for x d
    using default_okD [OF ok(2) that(1,2)] that(3) other by blast
  have src: "sources db1 = sources db" by (simp add: db1)
  obtain s where s: "find_by source_id (plan_sourceId next) (sources db1) = Some s"
      "(if source_defaultCollectionPlanId s = Some (plan_id next)
        then db' = db1\<lparr>sources := update_by source_id (plan_sourceId next)
               (\<lambda>_. s\<lparr>source_updatedAt := to_iso now', source_defaultCollectionPlanId := None\<rparr>) (sources db1)\<rparr>
        else db' = db1)"
    using cl by (auto simp: clearDefault_Inr split: if_splits)
  have n: "plan_id next = i" "plan_sourceId next = plan_sourceId p" using st(3) i by simp_all
  have own: "s \<in> set (sources db)" "source_id s = plan_sourceId p"
    using find_by_SomeD [OF s(1)] by (simp_all add: src n)
  show ?thesis
  proof (cases "source_defaultCollectionPlanId s = Some i")
    case True
    with s(2) have "db' = db1\<lparr>sources := update_by source_id (plan_sourceId p)
        (\<lambda>_. s\<lparr>source_updatedAt := to_iso now', source_defaultCollectionPlanId := None\<rparr>) (sources db)\<rparr>"
      by (simp add: n src)
    then show ?thesis
      using sound named
      by (auto simp: default_ok_def set_update_by split: if_splits) (metis named sound)
  next
    case False
    with s(2) have "db' = db1" by (simp add: n)
    moreover have "source_defaultCollectionPlanId x \<noteq> Some i" if "x \<in> set (sources db)" for x
      using named [OF that] own distinct_key_eq [OF dist(2)] that False by metis
    ultimately show ?thesis using sound by (auto simp: default_ok_def src)
  qed
qed

lemma status_default:
  assumes ok: "catalogue_ok db" "default_ok db" and t: "iso_instant now'"
  shows "default_ok (snd (updatePlanStatus now now' i t expected db))"
proof -
  obtain res db' where c: "updatePlanStatus now now' i t expected db = (res, db')" by fastforce
  then have "default_ok db'"
  proof (cases rule: updatePlanStatus_cases)
    case (2 "next")
    then show ?thesis using checked_status_default [OF ok] by blast
  next
    case (3 "next" e)
    then obtain p st s where w: "write_checked (\<lambda>p. Inr (p\<lparr>plan_status := st, plan_updatedAt := to_iso now\<rparr>)) expected p db
          = Inr (next, db')" "next = p\<lparr>plan_status := st, plan_updatedAt := to_iso now\<rparr>"
      by (elim checked_status_Inr)
    then obtain s where "find_by source_id (plan_sourceId next) (sources db') = Some s" "source_valid s"
      by (elim write_checked_reads) simp_all
    from clearDefault_total [OF this t] 3(3) show ?thesis by auto
  next
    case (4 "next" db1)
    then show ?thesis using archived_cleared_default [OF ok] by blast
  qed (use ok in simp)
  then show ?thesis by (simp add: c)
qed

lemma choose_default:
  assumes ok: "catalogue_ok db" "default_ok db"
  shows "default_ok (snd (setSourceDefaultPlan now i planId expected db))"
proof -
  obtain res db' where c: "setSourceDefaultPlan now i planId expected db = (res, db')" by fastforce
  have "default_ok db'"
  proof (cases res)
    case (Inl e)
    with c ok show ?thesis by (auto simp: setSourceDefaultPlan_def dest: failed_statement)
  next
    case (Inr "next")
    with c have "setSourceDefaultPlan now i planId expected db = (Inr next, db')" by simp
    then obtain s where s: "find_by source_id i (sources db) = Some s"
        "next = s\<lparr>source_updatedAt := to_iso now, source_defaultCollectionPlanId := chosen_plan planId\<rparr>"
        "db' = db\<lparr>sources := update_by source_id i (\<lambda>_. next) (sources db)\<rparr>"
        "\<And>p. chosen_plan planId = Some p \<Longrightarrow> check_default db i p = Inr ()"
      by (rule setSourceDefaultPlan_Inr) (rule that)
    have own: "\<exists>r\<in>set (plans db). pl_id r = d \<and> plan_sourceId (pl_document r) = i
        \<and> plan_status (pl_document r) \<noteq> P_ARCHIVED" if "chosen_plan planId = Some d" for d
      using s(4) [OF that]
      by (auto simp: check_default_def and_then_Inr dest!: getPlanById_Some find_by_SomeD split: option.splits if_splits)
    have i: "source_id next = i" using find_by_SomeD [OF s(1)] s(2) by simp
    show ?thesis
    proof (rule default_ok_sources [OF ok(2) s(3)])
      fix x d
      assume x: "x \<in> set (update_by source_id i (\<lambda>_. next) (sources db))" "source_defaultCollectionPlanId x = Some d"
      from in_replaceD [OF x(1)] show "(\<exists>s0\<in>set (sources db). source_id s0 = source_id x \<and> source_defaultCollectionPlanId s0 = Some d)
         \<or> (\<exists>r\<in>set (plans db). pl_id r = d \<and> plan_sourceId (pl_document r) = source_id x
              \<and> plan_status (pl_document r) \<noteq> P_ARCHIVED)"
      proof
        assume "x = next"
        with x(2) s(2) i own [of d] show ?thesis by simp
      qed (use x(2) in blast)
    qed
  qed
  then show ?thesis by (simp add: c)
qed

text \<open>The source registry keeps the defaults as long as it is not told to set one.\<close>

definition sets_no_default :: "update_source_input \<Rightarrow> bool" where
  "sets_no_default inp \<longleftrightarrow> us_defaultCollectionPlanId inp = Keep \<or> us_defaultCollectionPlanId inp = Clear"

lemma applySourceUpdate_default:
  assumes "applySourceUpdate s inp t = Inr next" "sets_no_default inp"
  shows "source_defaultCollectionPlanId next = None \<or> source_defaultCollectionPlanId next = source_defaultCollectionPlanId s"
  using assms by (auto simp: applySourceUpdate_def updated_source_def Let_def sets_no_default_def split: if_splits)

lemma update_source_default:
  assumes ok: "default_ok db" and inp: "sets_no_default inp"
  shows "default_ok (snd (updateSource now i inp expected db))"
proof -
  obtain res db' where c: "updateSource now i inp expected db = (res, db')" by fastforce
  have "default_ok db'"
  proof (cases res)
    case (Inl e)
    with c ok show ?thesis by (auto simp: updateSource_def dest: failed_statement)
  next
    case (Inr "next")
    with c have "updateSource now i inp expected db = (Inr next, db')" by simp
    then obtain s where u: "find_by source_id i (sources db) = Some s" "applySourceUpdate s inp (to_iso now) = Inr next"
        "db' = db\<lparr>sources := update_by source_id i (\<lambda>_. next) (sources db)\<rparr>"
      by (rule updateSource_Inr) (rule that)
    have i: "source_id next = i" "source_id s = i" "s \<in> set (sources db)"
      using applySourceUpdate_Inr [OF u(2)] find_by_SomeD [OF u(1)] by (simp_all add: same_source_def)
    show ?thesis
    proof (rule default_ok_sources [OF ok u(3)])
      fix x d
      assume x: "x \<in> set (update_by source_id i (\<lambda>_. next) (sources db))" "source_defaultCollectionPlanId x = Some d"
      have "\<exists>s0\<in>set (sources db). source_id s0 = source_id x \<and> source_defaultCollectionPlanId s0 = Some d"
        using in_replaceD [OF x(1)]
      proof
        assume "x = next"
        with x(2) applySourceUpdate_default [OF u(2) inp] i show ?thesis by (intro bexI [of _ s]) auto
      qed (use x(2) in blast)
      then show "(\<exists>s0\<in>set (sources db). source_id s0 = source_id x \<and> source_defaultCollectionPlanId s0 = Some d)
         \<or> (\<exists>r\<in>set (plans db). pl_id r = d \<and> plan_sourceId (pl_document r) = source_id x
              \<and> plan_status (pl_document r) \<noteq> P_ARCHIVED)" ..
    qed
  qed
  then show ?thesis by (simp add: c)
qed

section \<open>Plans their connector no longer supports\<close>

text \<open>
  Every change of status checks the plan against the connector its source is bound to now, the way a
  new plan is checked, also when the plan is only paused or archived.
\<close>

lemma unsupported_status_refused:
  assumes row: "find_by pl_id i (plans db) = Some r" and p: "renderJavascript (plan_policy (pl_document r))"
    and src: "find_by source_id (plan_sourceId (pl_document r)) (sources db) = Some s"
    and con: "connector_by_ref (source_connector s) db = Some k"
      "RENDER_JAVASCRIPT \<notin> set (connector_capabilities (kr_document k))"
  shows "\<exists>e. updatePlanStatus now now' i t expected db = (Inl e, db)"
proof (cases "checked_status now i t expected db")
  case (Inl e)
  then show ?thesis by (simp add: updatePlanStatus_def)
next
  case (Inr x)
  then obtain "next" db1 where "checked_status now i t expected db = Inr (next, db1)" by (cases x) simp
  then have False
  proof (rule checked_status_Inr)
    fix st q r'
    assume st: "find_by pl_id i (plans db) = Some r'" "pl_document r' = q"
      "next = q\<lparr>plan_status := st, plan_updatedAt := to_iso now\<rparr>"
      "write_checked (\<lambda>p. Inr (p\<lparr>plan_status := st, plan_updatedAt := to_iso now\<rparr>)) expected q db = Inr (next, db1)"
    have q: "q = pl_document r" using st(1,2) row by simp
    from st(4) obtain s' c where w: "loadSource db (plan_sourceId q) = Inr s'" "plan_loadConnector db s' = Inr c"
        "validateCompatibility next s' c = Inr ()"
      by (rule write_checked_Inr) (rule that)
    have "s' = s" using w(1) src by (simp add: loadSource_Inr q)
    then have "c = kr_document k" using w(2) con(1) by (simp add: plan_loadConnector_def parse_Inr)
    moreover have "renderJavascript (plan_policy next)" using p q st(3) by simp
    ultimately show False using compatible_plan(3) [OF w(3)] con(2) by simp
  qed
  then show ?thesis ..
qed

end
