(* ===== verification/Catalogue.thy ===== *)
theory Catalogue
  imports Control_Plane Store_Frames Plan_Lifecycle
begin

text \<open>
  The catalogue of workspaces, sources, connectors and plans in the whole system: whatever the control
  plane does, the catalogue stays consistent and only evolves. The registries keep their contract, and
  every other method leaves the catalogue alone.
\<close>

interpretation catalogue_part: execution_frame "\<lambda>db. (workspaces db, sources db, connectors db, plans db) = v" for v
  by unfold_locales (auto simp: update_run_def insert_run_def split: if_splits)

lemma same_catalogue_iff:
  "same_catalogue db db' \<longleftrightarrow>
     (workspaces db', sources db', connectors db', plans db') = (workspaces db, sources db, connectors db, plans db)"
  by (auto simp: same_catalogue_def)

lemmas method_catalogues =
  catalogue_part.kept_parts [OF refl, folded same_catalogue_iff, THEN same_catalogue_kept]

lemmas registry_catalogues =
  initialize_reg.keeps [unfolded snd_conv] create_source_reg.keeps update_source_reg.keeps
  create_connector_reg.keeps connector_status_reg.keeps create_plan_reg.keeps update_plan_reg.keeps
  plan_status_reg.keeps default_plan_reg.keeps

lemma call_catalogue:
  assumes "control_call db db'" "catalogue_ok db"
  shows "catalogue_ok db' \<and> evolves db db'"
  using assms
  by (cases rule: control_call.cases)
    (assumption | simp only: method_catalogues registry_catalogues)+

lemma calls_catalogue:
  assumes "control_call\<^sup>*\<^sup>* db db'" "catalogue_ok db"
  shows "catalogue_ok db' \<and> evolves db db'"
  using assms
proof (induction rule: rtranclp_induct)
  case (step y z)
  with call_catalogue [OF step.hyps(2)] show ?case by (auto intro: evolves_trans)
qed simp

lemma empty_catalogue: "sources db = [] \<Longrightarrow> connectors db = [] \<Longrightarrow> plans db = [] \<Longrightarrow> catalogue_ok db"
  by (simp add: catalogue_ok_def)

text \<open>A row of one catalogue and its successor in a later one.\<close>

lemma later_plan:
  assumes "catalogue_ok db" "evolves db db'" "catalogue_ok db'" "find_by pl_id i (plans db) = Some r"
  obtains r' where "find_by pl_id i (plans db') = Some r'" "same_plan_archived r r'"
proof -
  note r = find_by_SomeD [OF assms(4)]
  from assms(2) r obtain r' where r': "r' \<in> set (plans db')" "same_plan_archived r r'"
    by (auto simp: evolves_def dest: keptD)
  moreover have "pl_id r' = i" using r r'(2) by (simp add: same_plan_archived_def pl_id_def)
  moreover have "distinct (map pl_id (plans db'))" using assms(3) by (simp add: catalogue_ok_def)
  ultimately show ?thesis by (intro that [of r']) (simp_all add: find_by_iff)
qed

lemma coherent_key:
  assumes "coherent_connector x"
  shows "kr_key x = (connector_connectorId (kr_document x), connector_version (kr_document x))"
proof -
  have "x = manifestRow (kr_document x) (kr_registered_at x) (kr_updated_at x)"
    using assms by (simp add: coherent_connector_def)
  then show ?thesis by (metis kr_key_def connector_row.select_convs(1,2) manifestRow_def)
qed

lemma later_connector:
  assumes "catalogue_ok db" "evolves db db'" "catalogue_ok db'" "find_by kr_key k (connectors db) = Some r"
  obtains r' where "find_by kr_key k (connectors db') = Some r'" "same_version r r'"
proof -
  note r = find_by_SomeD [OF assms(4)]
  from assms(2) r obtain r' where r': "r' \<in> set (connectors db')" "same_version r r'"
    by (auto simp: evolves_def dest: keptD)
  have doc: "kr_document r' = (kr_document r)\<lparr>connector_status := connector_status (kr_document r')\<rparr>"
    using r'(2) by (simp add: same_version_def)
  have "coherent_connector r" "coherent_connector r'"
    using assms(1,3) r r'(1) by (auto simp: catalogue_ok_def)
  then have "kr_key r' = kr_key r"
    using arg_cong [OF doc, of connector_connectorId] arg_cong [OF doc, of connector_version]
    by (simp add: coherent_key)
  moreover have "distinct (map kr_key (connectors db'))" using assms(3) by (simp add: catalogue_ok_def)
  ultimately show ?thesis using r r' by (intro that [of r']) (simp_all add: find_by_iff)
qed

end
