(* ===== verification/Sample_Registry.thy ===== *)
theory Sample_Registry
  imports Catalogue Sample_Store
begin

text \<open>
  The sample deployment as a catalogue: a second plan is created for its source, renamed under its
  version token and archived, and a plan whose connector cannot render the pages it wants rendered.
\<close>

definition policy_input0 :: policy_input where
  "policy_input0 =
     \<lparr> pi_includePatterns = ['' /news '', ''''], pi_excludePatterns = [], pi_maxDepth = 1, pi_maxItems = 20,
       pi_renderJavascript = False, pi_fetchAttachments = False, pi_respectRobots = True,
       pi_rateLimitPerMinute = 10, pi_timeoutSeconds = 60, pi_maxAttempts = 1, pi_backoffSeconds = 0,
       pi_locale = None \<rparr>"

definition plan_input0 :: create_plan_input where
  "plan_input0 =
     \<lparr> cp_workspaceId = None, cp_sourceId = sample_id ''src'' CHR ''V'', cp_name = '' Weekly crawl '',
       cp_status = Some P_ACTIVE, cp_schedule = CronInput ''0 3 * * 1 '' ''UTC'', cp_priority = NORMAL,
       cp_policy = policy_input0, cp_output = ([A_HTML, A_HTML], None), cp_extensions = None \<rparr>"

definition plan_w :: collection_plan where
  "plan_w =
     \<lparr> plan_id = sample_id ''pln'' CHR ''W'', plan_workspaceId = DEFAULT_WORKSPACE_id,
       plan_sourceId = sample_id ''src'' CHR ''V'', plan_name = ''Weekly crawl'',
       plan_status = P_ACTIVE, plan_schedule = CronSchedule ''0 3 * * 1'' ''UTC'', plan_priority = NORMAL,
       plan_policy =
         \<lparr> includePatterns = [''/news''], excludePatterns = [], maxDepth = 1, maxItems = 20,
           renderJavascript = False, fetchAttachments = False, respectRobots = True,
           rateLimitPerMinute = 10, timeoutSeconds = 60, retry_maxAttempts = 1,
           retry_backoffSeconds = 0, policy_locale = None \<rparr>,
       plan_artifactKinds = [A_HTML], plan_conversionProfileId = None,
       plan_createdAt = to_iso now0, plan_updatedAt = to_iso now0, plan_extensions = None \<rparr>"

definition view0 :: plan_source where
  "view0 =
     \<lparr> ps_id = source_id source0, ps_name = source_name source0, ps_slug = source_slug source0,
       ps_status = S_ACTIVE, ps_sourceType = S_WEB, ps_connector = source_connector source0 \<rparr>"

definition store_p :: control_store where
  "store_p = store0\<lparr>plans := plans store0 @ [planRow plan_w ''web-crawler'']\<rparr>"

lemma sample_texts:
  "trim ''  /news  '' = ''/news''" "normalize_texts ['' /news '', ''''] = [''/news'']" "normalize_texts [] = []"
  "trim '' Weekly crawl '' = ''Weekly crawl''" "trim ''0 3 * * 1 '' = ''0 3 * * 1''" "trim ''UTC'' = ''UTC''"
  "trim (sample_id ''src'' CHR ''V'') = sample_id ''src'' CHR ''V''" "trim ''Monday crawl'' = ''Monday crawl''"
  "length (split_spaces (trim ''0 3 * * 1'')) = 5" "is_typed_id ''pln'' (sample_id ''pln'' CHR ''W'')"
  "sample_id ''pln'' CHR ''W'' \<noteq> sample_id ''pln'' CHR ''V''"
  "sample_id ''pln'' CHR ''V'' \<noteq> sample_id ''pln'' CHR ''W''"
  by code_simp+

lemma plan_w_fields [simp]:
  "plan_id plan_w = sample_id ''pln'' CHR ''W''" "plan_sourceId plan_w = sample_id ''src'' CHR ''V''"
  "plan_workspaceId plan_w = DEFAULT_WORKSPACE_id" "plan_name plan_w = ''Weekly crawl''"
  "plan_status plan_w = P_ACTIVE" "plan_artifactKinds plan_w = [A_HTML]"
  "plan_schedule plan_w = CronSchedule ''0 3 * * 1'' ''UTC''" "plan_updatedAt plan_w = to_iso now0"
  "renderJavascript (plan_policy plan_w) = False" "fetchAttachments (plan_policy plan_w) = False"
  by (simp_all add: plan_w_def)

lemma plan_w_valid [simp]: "plan_valid plan_w"
  by (simp add: plan_w_def plan_valid_def policy_valid_def sample_texts isRfc3339_to_iso valid_extensions_def
      optionally_def)

lemma sample_normalize: "normalizePlan plan_input0 (sample_id ''pln'' CHR ''W'') (to_iso now0) source0 = Inr plan_w"
proof -
  have "isInteger (numeral n)" "isInteger 1" "isInteger 0" for n by (simp_all add: isInteger_def)
  moreover have "\<lparr> plan_id = sample_id ''pln'' CHR ''W'',
          plan_workspaceId = given_or (cp_workspaceId plan_input0) id (source_workspaceId source0),
          plan_sourceId = trim (cp_sourceId plan_input0), plan_name = trim (cp_name plan_input0),
          plan_status = given_or (cp_status plan_input0) id P_PAUSED,
          plan_schedule = normalizeSchedule (cp_schedule plan_input0), plan_priority = cp_priority plan_input0,
          plan_policy = normalizePolicy (cp_policy plan_input0),
          plan_artifactKinds = unique_list (fst (cp_output plan_input0)),
          plan_conversionProfileId = trimmed_if_given (snd (cp_output plan_input0)),
          plan_createdAt = to_iso now0, plan_updatedAt = to_iso now0,
          plan_extensions = cp_extensions plan_input0 \<rparr> = plan_w"
    by (simp add: plan_input0_def policy_input0_def plan_w_def sample_texts normalizePolicy_def given_or_def
        trimmed_if_given_def)
  ultimately show ?thesis
    by (simp add: normalizePlan_def Let_def doc_simps)
      (simp add: plan_input0_def policy_input0_def policy_integral_def)
qed

lemma sample_compatible:
  "p = plan_w\<lparr>plan_name := n, plan_updatedAt := t\<rparr> \<or> p = plan_w \<or> p = plan_w\<lparr>plan_status := st, plan_updatedAt := t\<rparr>
     \<Longrightarrow> validateCompatibility p source0 connector0 = Inr ()"
  by (auto simp: validateCompatibility_def validateCrawl4AiPolicy_def validateCrawl4AiChangeWatch_def
      plan_assertCapability_def)

lemma store0_tables:
  "find_by source_id (sample_id ''src'' CHR ''V'') (sources store0) = Some source0" "sources store0 = [source0]"
  "pl_id ` set (plans store0) = {sample_id ''pln'' CHR ''V''}" "plan_documents store0 = [plan0]"
  "find_by pl_id (sample_id ''pln'' CHR ''W'') (plans store0) = None" "plan_name plan0 = ''Daily crawl''"
  by (simp_all add: store0_def pl_id_def plan_documents_def plan0_def sample_texts)

lemma sample_loads: "loadSource store0 (sample_id ''src'' CHR ''V'') = Inr source0"
  "plan_loadConnector store0 source0 = Inr connector0"
  by (simp_all add: loadSource_def plan_loadConnector_def connector_by_ref_def store0_def)

lemma sample_create_plan:
  "createPlan now0 (sample_id ''pln'' CHR ''W'') plan_input0 store0 = (Inr (Some (plan_w, view0)), store_p)"
proof -
  have "insert_plan (planRow plan_w ''web-crawler'') store0 = Inr store_p"
    by (simp add: insert_plan_Inr name_taken_def store0_tables store_p_def sample_texts)
  moreover have "getPlanById store_p (sample_id ''pln'' CHR ''W'') = Inr (Some (plan_w, view0))"
    by (simp add: getPlanById_def store_p_def find_by_append store0_tables join_source_def plan_recordFromRow_def
        view0_def doc_simps parsePlan_def parseSource_def)
  moreover have "cp_sourceId plan_input0 = sample_id ''src'' CHR ''V''" by (simp add: plan_input0_def)
  ultimately show ?thesis
    by (simp add: createPlan_def sample_loads sample_normalize sample_compatible conflict_on_unique_def)
qed

section \<open>Renaming the plan under its token\<close>

definition rename0 :: update_plan_input where
  "rename0 =
     \<lparr> up_name = Some ''Monday crawl'', up_schedule = None, up_priority = None, up_policy = None,
       up_output = None, up_extensions = Keep \<rparr>"

definition plan_m :: collection_plan where
  "plan_m = plan_w\<lparr>plan_name := ''Monday crawl'', plan_updatedAt := to_iso (now0 + 1000)\<rparr>"

definition store_m :: control_store where
  "store_m = store_p\<lparr>plans := plans store0 @ [planRow plan_m ''web-crawler'']\<rparr>"

lemma plan_m_valid [simp]: "plan_valid plan_m"
  by (simp add: plan_m_def plan_w_def plan_valid_def policy_valid_def sample_texts isRfc3339_to_iso valid_extensions_def
      optionally_def)

lemma store_p_tables:
  "find_by source_id (sample_id ''src'' CHR ''V'') (sources store_p) = Some source0" "sources store_p = [source0]"
  "find_by pl_id (sample_id ''pln'' CHR ''W'') (plans store_p) = Some (planRow plan_w ''web-crawler'')"
  "plan_documents store_p = [plan0, plan_w]" "plan_loadConnector store_p source0 = Inr connector0"
  "loadSource store_p (sample_id ''src'' CHR ''V'') = Inr source0"
  by (simp_all add: store_p_def store0_def plan_documents_def pl_id_def planRow_def sample_texts
      plan_loadConnector_def connector_by_ref_def loadSource_def)

lemma plan_m_fields [simp]:
  "plan_id plan_m = sample_id ''pln'' CHR ''W''" "plan_sourceId plan_m = sample_id ''src'' CHR ''V''"
  "plan_name plan_m = ''Monday crawl''" "plan_updatedAt plan_m = to_iso (now0 + 1000)"
  "plan_status plan_m = P_ACTIVE"
  by (simp_all add: plan_m_def)

lemma planRow_fields [simp]: "pl_document (planRow p c) = p" "pl_id (planRow p c) = plan_id p"
  by (simp_all add: planRow_def pl_id_def)

lemma sample_write_plan: "writeUpdate plan_m (to_iso now0) ''web-crawler'' store_p = Inr store_m"
proof -
  have "update_by pl_id (sample_id ''pln'' CHR ''W'') (\<lambda>_. planRow plan_m ''web-crawler'') (plans store_p)
      = plans store0 @ [planRow plan_m ''web-crawler'']"
    by (simp add: store_p_def update_by_absent store0_tables sample_texts)
  moreover have "\<not> name_taken plan_m store_p"
    by (simp add: name_taken_def store_p_tables sample_texts store0_tables)
  ultimately show ?thesis
    by (simp add: writeUpdate_def update_plan_if_def conflict_on_unique_def store_p_tables store_m_def)
qed

lemma sample_read:
  assumes "find_by pl_id i (plans db) = Some (planRow p c)" "plan_valid p" "plan_sourceId p = source_id source0"
    "find_by source_id (source_id source0) (sources db) = Some source0"
  shows "getPlanById db i = Inr (Some (p, view0))"
  using assms
  by (simp add: getPlanById_def join_source_def plan_recordFromRow_def view0_def doc_simps parsePlan_def parseSource_def)

lemma sample_update_plan:
  "updatePlan (now0 + 1000) (sample_id ''pln'' CHR ''W'') rename0 (to_iso now0) store_p = (Inr (Some (plan_m, view0)), store_m)"
proof -
  have "applyPlanUpdate plan_w rename0 (to_iso (now0 + 1000)) = Inr plan_m"
  proof -
    have "plan_m = plan_w\<lparr>plan_name := ''Monday crawl'', plan_schedule := plan_schedule plan_w,
            plan_priority := plan_priority plan_w, plan_policy := plan_policy plan_w,
            plan_artifactKinds := plan_artifactKinds plan_w,
            plan_conversionProfileId := plan_conversionProfileId plan_w,
            plan_extensions := plan_extensions plan_w, plan_updatedAt := to_iso (now0 + 1000)\<rparr>"
      by (simp add: plan_m_def)
    then show ?thesis
      by (simp add: applyPlanUpdate_def rename0_def given_or_def Let_def doc_simps sample_texts
          del: plan_w_fields(4,6,7))
  qed
  moreover have "validateCompatibility plan_m source0 connector0 = Inr ()"
    by (rule sample_compatible [where n = "''Monday crawl''" and t = "to_iso (now0 + 1000)"]) (simp add: plan_m_def)
  moreover note sample_write_plan
  moreover have "expected_plan store_p (sample_id ''pln'' CHR ''W'') (to_iso now0) = Inr plan_w"
    by (simp add: expected_plan_def sample_read store_p_tables)
  moreover have "getPlanById store_m (sample_id ''pln'' CHR ''W'') = Inr (Some (plan_m, view0))"
    by (rule sample_read) (simp_all add: store_m_def find_by_append store0_tables store_p_tables)
  ultimately show ?thesis
    by (simp add: updatePlan_def write_checked_def store_p_tables parsePlan_def parseSource_def doc_simps)
qed

section \<open>The catalogue is consistent\<close>

lemma store0_catalogue: "catalogue_ok store0"
proof -
  have "coherent_connector (hd (connectors store0))" "kr_key (hd (connectors store0)) = (''web-crawler'', ''1.0.0'')"
    "kr_document (hd (connectors store0)) = connector0" "connectors store0 = [hd (connectors store0)]"
    by (simp_all add: store0_def coherent_connector_def manifestRow_def kr_key_def)
      (simp add: connector0_def)
  then obtain x where "connectors store0 = [x]" "coherent_connector x" "kr_key x = (''web-crawler'', ''1.0.0'')"
    "kr_document x = connector0" by blast
  moreover have "source_valid source0" "plan_content_valid plan0"
    using plan_valid_content by simp_all
  moreover have "workspaces store0 = [\<lparr> ws_id = DEFAULT_WORKSPACE_id, ws_document = DEFAULT_WORKSPACE \<rparr>]"
    "plans store0 = [\<lparr> pl_connector_id = ''web-crawler'', pl_document = plan0 \<rparr>]" by (simp_all add: store0_def)
  ultimately show ?thesis
    by (simp add: catalogue_ok_def store0_tables bound_source_def placed_plan_def)
qed

text \<open>The source with the plan as its default, and with the plan archived.\<close>

definition store_d :: control_store where
  "store_d = store0\<lparr>sources := [source0\<lparr>source_defaultCollectionPlanId := Some (plan_id plan0)\<rparr>]\<rparr>"

lemma store_d_default: "default_ok store_d"
  by (simp add: default_ok_def store_d_def store0_def pl_id_def)

lemma store_d_catalogue: "catalogue_ok store_d"
proof -
  have "source_valid (source0\<lparr>source_defaultCollectionPlanId := Some (plan_id plan0)\<rparr>)"
    using sample_documents_valid(2) by (simp add: source_valid_def optionally_def)
  then show ?thesis
    using store0_catalogue by (simp add: catalogue_ok_def store_d_def bound_source_def placed_plan_def store0_tables slug_key_def)
qed

definition store_z :: control_store where
  "store_z = store0\<lparr>plans := [planRow (plan0\<lparr>plan_status := P_ARCHIVED\<rparr>) ''web-crawler'']\<rparr>"

lemma store_z_catalogue: "catalogue_ok store_z"
proof -
  have "plan_content_valid (plan0\<lparr>plan_status := P_ARCHIVED\<rparr>)"
    using sample_documents_valid(1) by (intro plan_valid_content) (simp add: plan_valid_def)
  then show ?thesis
    using store0_catalogue by (simp add: catalogue_ok_def store_z_def bound_source_def placed_plan_def store0_tables)
qed

section \<open>A source bound to another connector\<close>

text \<open>
  A plan that wants its pages rendered, accepted while its source was bound to a connector that can;
  then the source is bound to one that cannot.
\<close>

definition browser0 :: connector_manifest where
  "browser0 = connector0\<lparr>connector_connectorId := ''browser-crawler'',
     connector_capabilities := [COLLECT, RENDER_JAVASCRIPT]\<rparr>"

definition plan_j :: collection_plan where
  "plan_j = plan0\<lparr>plan_policy := (plan_policy plan0)\<lparr>renderJavascript := True\<rparr>\<rparr>"

definition source_j :: source_definition where
  "source_j = source0\<lparr>source_connector := \<lparr> ref_connectorId = ''browser-crawler'', ref_version = ''1.0.0'' \<rparr>\<rparr>"

definition store_j :: control_store where
  "store_j = store0\<lparr>sources := [source_j], plans := [planRow plan_j ''browser-crawler''],
     connectors := connectors store0 @ [manifestRow browser0 (to_iso now0) (to_iso now0)]\<rparr>"

definition rebind0 :: update_source_input where
  "rebind0 = (status_update S_ACTIVE)\<lparr>us_connector := Some \<lparr> ref_connectorId = ''web-crawler'', ref_version = ''1.0.0'' \<rparr>\<rparr>"

definition source_k :: source_definition where
  "source_k = source0\<lparr>source_updatedAt := to_iso now0\<rparr>"

definition store_k :: control_store where
  "store_k = store_j\<lparr>sources := [source_k]\<rparr>"

lemma sample_source_texts:
  "trim (source_name source0) = source_name source0" "toLowerCase (trim (source_slug source0)) = source_slug source0"
  "normalize_texts (source_jurisdictions source0) = source_jurisdictions source0"
  "normalize_texts (source_languages source0) = source_languages source0"
  "map normalize_entrypoint (source_entrypoints source0) = source_entrypoints source0"
  "normalize_texts (source_tags source0) = source_tags source0"
  "normalize_ref \<lparr> ref_connectorId = ''web-crawler'', ref_version = ''1.0.0'' \<rparr>
     = \<lparr> ref_connectorId = ''web-crawler'', ref_version = ''1.0.0'' \<rparr>"
  "workspace_status DEFAULT_WORKSPACE = Some (JStr ''ACTIVE'')"
  "trim DEFAULT_WORKSPACE_id = DEFAULT_WORKSPACE_id"
  by code_simp+

lemma source_k_valid: "source_valid source_k" "source_valid source_j"
  using sample_documents_valid(2) by (simp_all add: source_k_def source_j_def source_valid_def isRfc3339_to_iso)
    code_simp

lemma rebind0_applied: "applySourceUpdate source_j rebind0 (to_iso now0) = Inr source_k"
proof -
  have "applySourceUpdate source_j rebind0 (to_iso now0)
      = (if isSourceDefinition (source_json source_k) then Inr source_k else Inl RegistryValidationError)"
    unfolding applySourceUpdate_def updated_source_def Let_def
    by (intro if_cong arg_cong [of _ _ isSourceDefinition] arg_cong [of _ _ source_json] arg_cong [of _ _ Inr]
        source_definition.equality refl arg_cong [of _ _ "\<lambda>x. isSourceDefinition (source_json x)"])
      (simp_all add: rebind0_def status_update_def given_or_def sample_source_texts source_j_def source_k_def)
  then show ?thesis using source_k_valid by (simp add: doc_simps)
qed

lemma browser0_row:
  "connector_by_ref \<lparr> ref_connectorId = ''web-crawler'', ref_version = ''1.0.0'' \<rparr> store_j = Some (hd (connectors store0))"
  "kr_document (hd (connectors store0)) = connector0"
  by (simp_all add: connector_by_ref_def store_j_def store0_def)

lemma sample_rebound:
  "updateSource now0 (sample_id ''src'' CHR ''V'') rebind0 (source_updatedAt source0) store_j = (Inr source_k, store_k)"
proof -
  have fields: "source_id source_j = sample_id ''src'' CHR ''V''" "source_updatedAt source_j = source_updatedAt source0"
      "source_workspaceId source_j = DEFAULT_WORKSPACE_id" "sources store_j = [source_j]"
      "source_id source_k = sample_id ''src'' CHR ''V''" "source_type source_k = S_WEB"
      "source_connector source_k = \<lparr> ref_connectorId = ''web-crawler'', ref_version = ''1.0.0'' \<rparr>"
    by (simp_all add: source_j_def source_k_def store_j_def)
  have "assertWorkspaceActive store_j DEFAULT_WORKSPACE_id = Inr DEFAULT_WORKSPACE"
    by (simp add: assertWorkspaceActive_def sample_source_texts default_workspace_valid store_j_def store0_def)
  moreover have "getSourceById store_j (sample_id ''src'' CHR ''V'') = Inr (Some source_j)"
    using source_k_valid by (simp add: getSourceById_def fields parseSource_def doc_simps)
  moreover have "validateConnectorBinding store_j source_k b = Inr connector0" for b
    by (simp add: validateConnectorBinding_def connectorManifest_def fields browser0_row parseConnector_def doc_simps)
  moreover have "validateConnectorAcquisitionBoundary source_k = Inr ()"
    by (simp add: validateConnectorAcquisitionBoundary_def fields)
  moreover have "rebind0 \<noteq> status_update S_ARCHIVED" by (simp add: rebind0_def status_update_def)
  moreover have "write_source (sample_id ''src'' CHR ''V'') (source_updatedAt source0) source_k store_j = Inr (source_k, store_k)"
    by (simp add: write_source_def update_source_if_def conflict_on_unique_def slug_taken_def fields store_k_def)
  ultimately show ?thesis
    by (simp add: updateSource_def fields rebind0_applied)
qed

end
