(* ===== verification/Artifact_Ingestion_V1.thy ===== *)
theory Artifact_Ingestion_V1
  imports Worker_Execution_V1
begin

text \<open>
  \<open>packages/contracts/src/artifact-ingestion-v1.ts\<close>: ingestion sessions, what an upload was verified
  to be, receipts and events; and the typed raw artifact of \<open>schema-v1.ts\<close>. Descriptors stay JSON
  values, because the program compares them by the digest of their \<open>JSON.stringify\<close> texts.
\<close>

datatype ingestion_status =
  G_CREATED | G_UPLOADING | G_VERIFIED | G_FINALIZED | G_ABORTED | G_QUARANTINED

fun ingestion_status_name :: "ingestion_status \<Rightarrow> string" where
  "ingestion_status_name G_CREATED = ''CREATED''"
| "ingestion_status_name G_UPLOADING = ''UPLOADING''"
| "ingestion_status_name G_VERIFIED = ''VERIFIED''"
| "ingestion_status_name G_FINALIZED = ''FINALIZED''"
| "ingestion_status_name G_ABORTED = ''ABORTED''"
| "ingestion_status_name G_QUARANTINED = ''QUARANTINED''"

definition ARTIFACT_INGESTION_STATUSES :: "string list" where
  "ARTIFACT_INGESTION_STATUSES =
     [''CREATED'', ''UPLOADING'', ''VERIFIED'', ''FINALIZED'', ''ABORTED'', ''QUARANTINED'']"

datatype verification_status = V_MATCHED | V_SIZE_MISMATCH | V_DIGEST_MISMATCH

fun verification_status_name :: "verification_status \<Rightarrow> string" where
  "verification_status_name V_MATCHED = ''MATCHED''"
| "verification_status_name V_SIZE_MISMATCH = ''SIZE_MISMATCH''"
| "verification_status_name V_DIGEST_MISMATCH = ''DIGEST_MISMATCH''"

definition ARTIFACT_VERIFICATION_STATUSES :: "string list" where
  "ARTIFACT_VERIFICATION_STATUSES = [''MATCHED'', ''SIZE_MISMATCH'', ''DIGEST_MISMATCH'']"

datatype ingestion_event_type =
  I_SESSION_CREATED | I_UPLOAD_STARTED | I_UPLOAD_VERIFIED | I_UPLOAD_REJECTED | I_FINALIZED | I_ABORTED

fun ingestion_event_name :: "ingestion_event_type \<Rightarrow> string" where
  "ingestion_event_name I_SESSION_CREATED = ''SESSION_CREATED''"
| "ingestion_event_name I_UPLOAD_STARTED = ''UPLOAD_STARTED''"
| "ingestion_event_name I_UPLOAD_VERIFIED = ''UPLOAD_VERIFIED''"
| "ingestion_event_name I_UPLOAD_REJECTED = ''UPLOAD_REJECTED''"
| "ingestion_event_name I_FINALIZED = ''FINALIZED''"
| "ingestion_event_name I_ABORTED = ''ABORTED''"

definition ARTIFACT_INGESTION_EVENT_TYPES :: "string list" where
  "ARTIFACT_INGESTION_EVENT_TYPES =
     [''SESSION_CREATED'', ''UPLOAD_STARTED'', ''UPLOAD_VERIFIED'', ''UPLOAD_REJECTED'', ''FINALIZED'',
      ''ABORTED'']"

lemma ingestion_status_names [simp]:
  "ingestion_status_name s \<in> set ARTIFACT_INGESTION_STATUSES"
  "ingestion_status_name s = ''FINALIZED'' \<longleftrightarrow> s = G_FINALIZED"
  by (cases s; simp add: ARTIFACT_INGESTION_STATUSES_def)+

lemma verification_status_names [simp]:
  "verification_status_name v \<in> set ARTIFACT_VERIFICATION_STATUSES"
  "verification_status_name v = ''MATCHED'' \<longleftrightarrow> v = V_MATCHED"
  by (cases v; simp add: ARTIFACT_VERIFICATION_STATUSES_def)+

lemma ingestion_event_names [simp]:
  "ingestion_event_name e \<in> set ARTIFACT_INGESTION_EVENT_TYPES"
  "ingestion_event_name e = ''UPLOAD_REJECTED'' \<longleftrightarrow> e = I_UPLOAD_REJECTED"
  by (cases e; simp add: ARTIFACT_INGESTION_EVENT_TYPES_def)+

section \<open>Documents\<close>

record ingestion_session =
  ing_id :: string
  ing_workspaceId :: string
  ing_sourceId :: string
  ing_runId :: string
  ing_jobId :: string
  ing_jobAttempt :: int
  ing_executionAttemptId :: string
  ing_leaseId :: string
  ing_workerId :: string
  ing_connector :: connector_ref
  ing_descriptor :: json
  ing_status :: ingestion_status
  ing_idempotencyKey :: string
  ing_createdAt :: string
  ing_updatedAt :: string
  ing_finalizedAt :: "string option"

record verification_result =
  ver_sessionId :: string
  ver_status :: verification_status
  ver_observedSizeBytes :: int
  ver_observedSha256 :: string
  ver_verifiedAt :: string
  ver_failureCode :: "string option"

record ingestion_receipt =
  rcp_id :: string
  rcp_sessionId :: string
  rcp_artifactId :: string
  rcp_executionAttemptId :: string
  rcp_contentSha256 :: string
  rcp_sizeBytes :: int
  rcp_artifactKind :: string
  rcp_finalizedAt :: string

record ingestion_failure =
  ifl_code :: string
  ifl_message :: string
  ifl_occurredAt :: string

record ingestion_event =
  iev_id :: string
  iev_sessionId :: string
  iev_sequence :: int
  iev_eventType :: ingestion_event_type
  iev_recordedAt :: string
  iev_failure :: "ingestion_failure option"

record raw_artifact =
  raw_id :: string
  raw_workspaceId :: string
  raw_sourceId :: string
  raw_collectionRunId :: string
  raw_version :: int
  raw_supersedesArtifactId :: "string option"
  raw_artifactKind :: string
  raw_mimeType :: string
  raw_originalName :: string
  raw_canonicalUri :: "string option"
  raw_storageUri :: string
  raw_sha256 :: string
  raw_sizeBytes :: int
  raw_capturedAt :: string
  raw_publishedAt :: "string option"
  raw_connector :: connector_ref
  raw_workerId :: string
  raw_requestId :: string
  raw_sourceUri :: string
  raw_parentArtifactIds :: "string list option"
  raw_status :: string
  raw_createdAt :: string
  raw_extensions :: "json_object option"

section \<open>Encoders\<close>

definition session_json :: "ingestion_session \<Rightarrow> json" where
  "session_json s = JObj (
     [(''protocolVersion'', JStr ''1.0''),
      (''objectType'', JStr ''ARTIFACT_INGESTION_SESSION''),
      (''id'', JStr (ing_id s)),
      (''workspaceId'', JStr (ing_workspaceId s)),
      (''sourceId'', JStr (ing_sourceId s)),
      (''runId'', JStr (ing_runId s)),
      (''jobId'', JStr (ing_jobId s)),
      (''jobAttempt'', JInt (ing_jobAttempt s)),
      (''executionAttemptId'', JStr (ing_executionAttemptId s)),
      (''leaseId'', JStr (ing_leaseId s)),
      (''workerId'', JStr (ing_workerId s)),
      (''connector'', connector_ref_json (ing_connector s)),
      (''descriptor'', ing_descriptor s),
      (''status'', JStr (ingestion_status_name (ing_status s))),
      (''idempotencyKey'', JStr (ing_idempotencyKey s)),
      (''createdAt'', JStr (ing_createdAt s)),
      (''updatedAt'', JStr (ing_updatedAt s))]
     @ opt_entry ''finalizedAt'' JStr (ing_finalizedAt s))"

definition verification_json :: "verification_result \<Rightarrow> json" where
  "verification_json v = JObj (
     [(''protocolVersion'', JStr ''1.0''),
      (''objectType'', JStr ''ARTIFACT_VERIFICATION_RESULT''),
      (''sessionId'', JStr (ver_sessionId v)),
      (''status'', JStr (verification_status_name (ver_status v))),
      (''observedSizeBytes'', JInt (ver_observedSizeBytes v)),
      (''observedSha256'', JStr (ver_observedSha256 v)),
      (''verifiedAt'', JStr (ver_verifiedAt v))]
     @ opt_entry ''failureCode'' JStr (ver_failureCode v))"

definition receipt_json :: "ingestion_receipt \<Rightarrow> json" where
  "receipt_json r =
     JObj [(''protocolVersion'', JStr ''1.0''),
           (''objectType'', JStr ''ARTIFACT_INGESTION_RECEIPT''),
           (''id'', JStr (rcp_id r)),
           (''sessionId'', JStr (rcp_sessionId r)),
           (''artifactId'', JStr (rcp_artifactId r)),
           (''executionAttemptId'', JStr (rcp_executionAttemptId r)),
           (''contentSha256'', JStr (rcp_contentSha256 r)),
           (''sizeBytes'', JInt (rcp_sizeBytes r)),
           (''artifactKind'', JStr (rcp_artifactKind r)),
           (''finalizedAt'', JStr (rcp_finalizedAt r))]"

definition ingestion_failure_json :: "ingestion_failure \<Rightarrow> json" where
  "ingestion_failure_json f =
     JObj [(''code'', JStr (ifl_code f)), (''message'', JStr (ifl_message f)),
           (''occurredAt'', JStr (ifl_occurredAt f))]"

definition ingestion_event_json :: "ingestion_event \<Rightarrow> json" where
  "ingestion_event_json e = JObj (
     [(''protocolVersion'', JStr ''1.0''),
      (''objectType'', JStr ''ARTIFACT_INGESTION_EVENT''),
      (''id'', JStr (iev_id e)),
      (''sessionId'', JStr (iev_sessionId e)),
      (''sequence'', JInt (iev_sequence e)),
      (''eventType'', JStr (ingestion_event_name (iev_eventType e))),
      (''recordedAt'', JStr (iev_recordedAt e))]
     @ opt_entry ''failure'' ingestion_failure_json (iev_failure e))"

definition hash_json :: "string \<Rightarrow> json" where
  "hash_json d = JObj [(''algorithm'', JStr ''SHA-256''), (''value'', JStr d)]"

definition raw_artifact_json :: "raw_artifact \<Rightarrow> json" where
  "raw_artifact_json a = JObj (
     [(''schemaVersion'', JStr ''1.0''),
      (''objectType'', JStr ''RAW_ARTIFACT''),
      (''id'', JStr (raw_id a)),
      (''workspaceId'', JStr (raw_workspaceId a)),
      (''sourceId'', JStr (raw_sourceId a)),
      (''collectionRunId'', JStr (raw_collectionRunId a)),
      (''version'', JInt (raw_version a)),
      (''artifactKind'', JStr (raw_artifactKind a)),
      (''mimeType'', JStr (raw_mimeType a)),
      (''originalName'', JStr (raw_originalName a)),
      (''storage'', JObj [(''provider'', JStr ''LOCAL''), (''uri'', JStr (raw_storageUri a))]),
      (''binaryHash'', hash_json (raw_sha256 a)),
      (''contentHash'', hash_json (raw_sha256 a)),
      (''sizeBytes'', JInt (raw_sizeBytes a)),
      (''capturedAt'', JStr (raw_capturedAt a)),
      (''collector'', JObj
         [(''connectorId'', JStr (ref_connectorId (raw_connector a))),
          (''connectorVersion'', JStr (ref_version (raw_connector a))),
          (''workerId'', JStr (raw_workerId a)),
          (''requestId'', JStr (raw_requestId a))]),
      (''provenance'', JObj ((''sourceUri'', JStr (raw_sourceUri a))
         # opt_entry ''parentArtifactIds'' JStrs (raw_parentArtifactIds a))),
      (''status'', JStr (raw_status a)),
      (''createdAt'', JStr (raw_createdAt a))]
     @ opt_entry ''supersedesArtifactId'' JStr (raw_supersedesArtifactId a)
     @ opt_entry ''canonicalUri'' JStr (raw_canonicalUri a)
     @ opt_entry ''publishedAt'' JStr (raw_publishedAt a)
     @ opt_entry ''extensions'' JObj (raw_extensions a))"

section \<open>Guards\<close>

definition ARTIFACT_INGESTION_PROTOCOL_VERSION :: string where
  "ARTIFACT_INGESTION_PROTOCOL_VERSION = ''1.0''"

fun isArtifactUploadDescriptor :: "json \<Rightarrow> bool" where
  "isArtifactUploadDescriptor (JObj ob) =
     (let required = [''artifactKind'', ''mimeType'', ''originalName'', ''expectedSizeBytes'',
            ''expectedSha256'', ''sourceUri''];
          optional = [''canonicalUri'', ''publishedAt'', ''parentArtifactIds'']
      in hasRequiredKeys ob required
       \<and> hasOnlyKeys ob (required @ optional)
       \<and> has ob ''artifactKind'' (isEnumValue ARTIFACT_KINDS)
       \<and> has ob ''mimeType'' (isStringWith is_mime_type)
       \<and> has ob ''originalName'' (isStringWith (text_within 255))
       \<and> has ob ''expectedSizeBytes'' isNonNegativeInteger
       \<and> has ob ''expectedSha256'' (isStringWith is_sha256)
       \<and> has ob ''sourceUri'' isUri
       \<and> may_have ob ''canonicalUri'' isUri
       \<and> may_have ob ''publishedAt'' isRfc3339_json
       \<and> may_have ob ''parentArtifactIds'' (\<lambda>v.
            isArrayOf (isStringWith (is_typed_id ''art'')) v \<and> isSetArray v))"
| "isArtifactUploadDescriptor _ = False"

fun isArtifactIngestionSession :: "json \<Rightarrow> bool" where
  "isArtifactIngestionSession (JObj ob) =
     (let required = [''protocolVersion'', ''objectType'', ''id'', ''workspaceId'', ''sourceId'', ''runId'',
            ''jobId'', ''jobAttempt'', ''executionAttemptId'', ''leaseId'', ''workerId'', ''connector'',
            ''descriptor'', ''status'', ''idempotencyKey'', ''createdAt'', ''updatedAt'']
      in hasRequiredKeys ob required
       \<and> hasOnlyKeys ob (required @ [''finalizedAt''])
       \<and> has_record ob ''connector'' (\<lambda>c.
            hasOnlyKeys c [''connectorId'', ''version'']
            \<and> has c ''connectorId'' (isStringWith is_slug)
            \<and> has c ''version'' (isStringWith is_semver))
       \<and> has ob ''protocolVersion'' (is_text ARTIFACT_INGESTION_PROTOCOL_VERSION)
       \<and> has ob ''objectType'' (is_text ''ARTIFACT_INGESTION_SESSION'')
       \<and> has ob ''id'' (isStringWith (is_typed_id ''ing''))
       \<and> has ob ''workspaceId'' (isStringWith (is_typed_id ''wsp''))
       \<and> has ob ''sourceId'' (isStringWith (is_typed_id ''src''))
       \<and> has ob ''runId'' (isStringWith (is_typed_id ''run''))
       \<and> has ob ''jobId'' (isStringWith (is_typed_id ''job''))
       \<and> has ob ''jobAttempt'' isPositiveInteger
       \<and> has ob ''executionAttemptId'' (isStringWith (is_typed_id ''exa''))
       \<and> has ob ''leaseId'' (isStringWith (is_typed_id ''lse''))
       \<and> has ob ''workerId'' (isStringWith (is_typed_id ''wrk''))
       \<and> has ob ''descriptor'' isArtifactUploadDescriptor
       \<and> has ob ''status'' (isEnumValue ARTIFACT_INGESTION_STATUSES)
       \<and> has ob ''idempotencyKey'' (isStringWith (text_within 128))
       \<and> has ob ''createdAt'' isRfc3339_json
       \<and> has ob ''updatedAt'' isRfc3339_json
       \<and> may_have ob ''finalizedAt'' isRfc3339_json
       \<and> (field ''status'' ob = Some (JStr ''FINALIZED'') \<longleftrightarrow> \<not> lacks ob ''finalizedAt''))"
| "isArtifactIngestionSession _ = False"

fun isArtifactVerificationResult :: "json \<Rightarrow> bool" where
  "isArtifactVerificationResult (JObj ob) =
     (let required = [''protocolVersion'', ''objectType'', ''sessionId'', ''status'', ''observedSizeBytes'',
            ''observedSha256'', ''verifiedAt'']
      in hasRequiredKeys ob required
       \<and> hasOnlyKeys ob (required @ [''failureCode''])
       \<and> has ob ''protocolVersion'' (is_text ARTIFACT_INGESTION_PROTOCOL_VERSION)
       \<and> has ob ''objectType'' (is_text ''ARTIFACT_VERIFICATION_RESULT'')
       \<and> has ob ''sessionId'' (isStringWith (is_typed_id ''ing''))
       \<and> has ob ''status'' (isEnumValue ARTIFACT_VERIFICATION_STATUSES)
       \<and> has ob ''observedSizeBytes'' isNonNegativeInteger
       \<and> has ob ''observedSha256'' (isStringWith is_sha256)
       \<and> has ob ''verifiedAt'' isRfc3339_json
       \<and> may_have ob ''failureCode'' (isStringWith is_failure_code)
       \<and> (field ''status'' ob = Some (JStr ''MATCHED'') \<longleftrightarrow> lacks ob ''failureCode''))"
| "isArtifactVerificationResult _ = False"

fun isArtifactIngestionReceipt :: "json \<Rightarrow> bool" where
  "isArtifactIngestionReceipt (JObj ob) =
     (let required = [''protocolVersion'', ''objectType'', ''id'', ''sessionId'', ''artifactId'',
            ''executionAttemptId'', ''contentSha256'', ''sizeBytes'', ''artifactKind'', ''finalizedAt'']
      in hasRequiredKeys ob required
       \<and> hasOnlyKeys ob required
       \<and> has ob ''protocolVersion'' (is_text ARTIFACT_INGESTION_PROTOCOL_VERSION)
       \<and> has ob ''objectType'' (is_text ''ARTIFACT_INGESTION_RECEIPT'')
       \<and> has ob ''id'' (isStringWith (is_typed_id ''air''))
       \<and> has ob ''sessionId'' (isStringWith (is_typed_id ''ing''))
       \<and> has ob ''artifactId'' (isStringWith (is_typed_id ''art''))
       \<and> has ob ''executionAttemptId'' (isStringWith (is_typed_id ''exa''))
       \<and> has ob ''contentSha256'' (isStringWith is_sha256)
       \<and> has ob ''sizeBytes'' isNonNegativeInteger
       \<and> has ob ''artifactKind'' (isEnumValue ARTIFACT_KINDS)
       \<and> has ob ''finalizedAt'' isRfc3339_json)"
| "isArtifactIngestionReceipt _ = False"

fun isArtifactIngestionFailure :: "json \<Rightarrow> bool" where
  "isArtifactIngestionFailure (JObj ob) =
     (hasRequiredKeys ob [''code'', ''message'', ''occurredAt'']
      \<and> hasOnlyKeys ob [''code'', ''message'', ''occurredAt'']
      \<and> has ob ''code'' (isStringWith is_failure_code)
      \<and> has ob ''message'' (isStringWith (text_within 1000))
      \<and> has ob ''occurredAt'' isRfc3339_json)"
| "isArtifactIngestionFailure _ = False"

fun isArtifactIngestionEvent :: "json \<Rightarrow> bool" where
  "isArtifactIngestionEvent (JObj ob) =
     (let required = [''protocolVersion'', ''objectType'', ''id'', ''sessionId'', ''sequence'', ''eventType'',
            ''recordedAt'']
      in hasRequiredKeys ob required
       \<and> hasOnlyKeys ob (required @ [''failure''])
       \<and> has ob ''protocolVersion'' (is_text ARTIFACT_INGESTION_PROTOCOL_VERSION)
       \<and> has ob ''objectType'' (is_text ''ARTIFACT_INGESTION_EVENT'')
       \<and> has ob ''id'' (isStringWith (is_typed_id ''aev''))
       \<and> has ob ''sessionId'' (isStringWith (is_typed_id ''ing''))
       \<and> has ob ''sequence'' isPositiveInteger
       \<and> has ob ''eventType'' (isEnumValue ARTIFACT_INGESTION_EVENT_TYPES)
       \<and> has ob ''recordedAt'' isRfc3339_json
       \<and> may_have ob ''failure'' isArtifactIngestionFailure
       \<and> (field ''eventType'' ob = Some (JStr ''UPLOAD_REJECTED'') \<longleftrightarrow> \<not> lacks ob ''failure''))"
| "isArtifactIngestionEvent _ = False"

section \<open>What the guards mean for typed documents\<close>

definition session_valid :: "ingestion_session \<Rightarrow> bool" where
  "session_valid s =
     (is_slug (ref_connectorId (ing_connector s)) \<and> is_semver (ref_version (ing_connector s))
      \<and> is_typed_id ''ing'' (ing_id s) \<and> is_typed_id ''wsp'' (ing_workspaceId s)
      \<and> is_typed_id ''src'' (ing_sourceId s) \<and> is_typed_id ''run'' (ing_runId s)
      \<and> is_typed_id ''job'' (ing_jobId s) \<and> 0 < ing_jobAttempt s
      \<and> is_typed_id ''exa'' (ing_executionAttemptId s) \<and> is_typed_id ''lse'' (ing_leaseId s)
      \<and> is_typed_id ''wrk'' (ing_workerId s)
      \<and> isArtifactUploadDescriptor (ing_descriptor s)
      \<and> text_within 128 (ing_idempotencyKey s)
      \<and> isRfc3339 (ing_createdAt s) \<and> isRfc3339 (ing_updatedAt s)
      \<and> optionally isRfc3339 (ing_finalizedAt s)
      \<and> (ing_status s = G_FINALIZED \<longleftrightarrow> ing_finalizedAt s \<noteq> None))"

definition verification_valid :: "verification_result \<Rightarrow> bool" where
  "verification_valid v =
     (is_typed_id ''ing'' (ver_sessionId v) \<and> 0 \<le> ver_observedSizeBytes v
      \<and> is_sha256 (ver_observedSha256 v) \<and> isRfc3339 (ver_verifiedAt v)
      \<and> optionally is_failure_code (ver_failureCode v)
      \<and> (ver_status v = V_MATCHED \<longleftrightarrow> ver_failureCode v = None))"

definition receipt_valid :: "ingestion_receipt \<Rightarrow> bool" where
  "receipt_valid r =
     (is_typed_id ''air'' (rcp_id r) \<and> is_typed_id ''ing'' (rcp_sessionId r)
      \<and> is_typed_id ''art'' (rcp_artifactId r) \<and> is_typed_id ''exa'' (rcp_executionAttemptId r)
      \<and> is_sha256 (rcp_contentSha256 r) \<and> 0 \<le> rcp_sizeBytes r
      \<and> rcp_artifactKind r \<in> set ARTIFACT_KINDS \<and> isRfc3339 (rcp_finalizedAt r))"

definition ingestion_failure_valid :: "ingestion_failure \<Rightarrow> bool" where
  "ingestion_failure_valid f =
     (is_failure_code (ifl_code f) \<and> text_within 1000 (ifl_message f) \<and> isRfc3339 (ifl_occurredAt f))"

definition ingestion_event_valid :: "ingestion_event \<Rightarrow> bool" where
  "ingestion_event_valid e =
     (is_typed_id ''aev'' (iev_id e) \<and> is_typed_id ''ing'' (iev_sessionId e) \<and> 0 < iev_sequence e
      \<and> isRfc3339 (iev_recordedAt e) \<and> optionally ingestion_failure_valid (iev_failure e)
      \<and> (iev_eventType e = I_UPLOAD_REJECTED \<longleftrightarrow> iev_failure e \<noteq> None))"

definition raw_version_valid :: "raw_artifact \<Rightarrow> bool" where
  "raw_version_valid a =
     (case raw_supersedesArtifactId a of
        None \<Rightarrow> raw_version a = 1
      | Some p \<Rightarrow> 1 < raw_version a \<and> is_typed_id ''art'' p \<and> p \<noteq> raw_id a)"

definition raw_artifact_valid :: "raw_artifact \<Rightarrow> bool" where
  "raw_artifact_valid a =
     (is_typed_id ''art'' (raw_id a) \<and> is_typed_id ''wsp'' (raw_workspaceId a)
      \<and> is_typed_id ''src'' (raw_sourceId a) \<and> is_typed_id ''run'' (raw_collectionRunId a)
      \<and> raw_version_valid a \<and> raw_artifactKind a \<in> set ARTIFACT_KINDS
      \<and> is_mime_type (raw_mimeType a) \<and> raw_originalName a \<noteq> []
      \<and> optionally is_uri (raw_canonicalUri a) \<and> is_uri (raw_storageUri a)
      \<and> is_sha256 (raw_sha256 a) \<and> 0 \<le> raw_sizeBytes a
      \<and> isRfc3339 (raw_capturedAt a) \<and> optionally isRfc3339 (raw_publishedAt a)
      \<and> is_slug (ref_connectorId (raw_connector a)) \<and> is_semver (ref_version (raw_connector a))
      \<and> is_typed_id ''wrk'' (raw_workerId a)
      \<and> is_uri (raw_sourceUri a) \<and> optionally (list_all (is_typed_id ''art'')) (raw_parentArtifactIds a)
      \<and> raw_status a \<in> set ARTIFACT_STATUSES \<and> isRfc3339 (raw_createdAt a)
      \<and> valid_extensions (raw_extensions a))"

lemmas ingestion_guard_eval =
  guard_eval ARTIFACT_INGESTION_PROTOCOL_VERSION_def

lemma isArtifactIngestionSession_session_json [doc_simps]:
  "isArtifactIngestionSession (session_json s) = session_valid s"
  by (cases "ing_finalizedAt s")
    (simp_all add: session_json_def session_valid_def connector_ref_json_def ingestion_guard_eval)

lemma isArtifactVerificationResult_verification_json [doc_simps]:
  "isArtifactVerificationResult (verification_json v) = verification_valid v"
  by (cases "ver_failureCode v")
    (simp_all add: verification_json_def verification_valid_def ingestion_guard_eval conj_ac)

lemma isArtifactIngestionReceipt_receipt_json [doc_simps]:
  "isArtifactIngestionReceipt (receipt_json r) = receipt_valid r"
  by (simp add: receipt_json_def receipt_valid_def ingestion_guard_eval)

lemma isArtifactIngestionFailure_failure_json [simp]:
  "isArtifactIngestionFailure (ingestion_failure_json f) = ingestion_failure_valid f"
  by (simp add: ingestion_failure_json_def ingestion_failure_valid_def guard_eval)

lemma isArtifactIngestionEvent_event_json [doc_simps]:
  "isArtifactIngestionEvent (ingestion_event_json e) = ingestion_event_valid e"
  by (cases "iev_failure e")
    (simp_all add: ingestion_event_json_def ingestion_event_valid_def ingestion_guard_eval)

lemma isHash_hash_json [simp]: "isHash (hash_json d) = is_sha256 d"
  by (simp add: hash_json_def guard_eval HASH_ALGORITHMS_def)

lemma above_one: "1 < v \<and> 0 < v \<and> P \<longleftrightarrow> 1 < v \<and> P" "0 < v \<and> 1 < v \<and> P \<longleftrightarrow> 1 < v \<and> P" for v :: int
  by auto

lemma isRawArtifact_raw_artifact_json [doc_simps]:
  "isRawArtifact (raw_artifact_json a) = raw_artifact_valid a"
  by (cases "raw_supersedesArtifactId a"; cases "raw_parentArtifactIds a")
    (simp_all add: raw_artifact_json_def raw_artifact_valid_def raw_version_valid_def above_one
      versionRelationshipIsValid_def guard_eval optionalSchemaExtensions_iff STORAGE_PROVIDERS_def)

end
