(* ===== verification/Content_Store.thy ===== *)
theory Content_Store
  imports Artifact_Ingestion_V1 Worker_Execution "HOL-Library.Sublist"
begin

text \<open>
  \<open>LocalContentAddressedStore\<close> of \<open>packages/persistence/src/raw-artifact-registry.ts\<close>: uploads are
  written to a file of their session, and a verified upload is linked to the path its digest
  names. The file system is a map from absolute paths (their segments) to contents: the store
  writes regular files only, so the tests for symbolic links and directories pass. The root
  directory, the size limit and SHA-256 of a byte sequence, in hexadecimal, are its parameters.
\<close>

type_synonym bytes = "byte list"

type_synonym file_system = "string list \<rightharpoonup> bytes"

record content_store =
  cs_root :: "string list"
  cs_max_bytes :: int
  cs_digest :: "bytes \<Rightarrow> string"

section \<open>Paths\<close>

text \<open>\<open>resolve(root, relativePath)\<close>: empty segments and \<open>.\<close> stay, \<open>..\<close> goes up as far as there is an up.\<close>

fun resolve_segments :: "string list \<Rightarrow> string list \<Rightarrow> string list" where
  "resolve_segments path [] = path"
| "resolve_segments path (w # ws) =
     (if w = [] \<or> w = ''.'' then resolve_segments path ws
      else if w = ''..'' then resolve_segments (butlast path) ws
      else resolve_segments (path @ [w]) ws)"

definition isAbsolute :: "string \<Rightarrow> bool" where
  "isAbsolute p = (p \<noteq> [] \<and> hd p = CHR ''/'')"

text \<open>\<open>relative(root, candidate)\<close>: up to the common ancestor, then down.\<close>

definition relative_path :: "string list \<Rightarrow> string list \<Rightarrow> string list" where
  "relative_path dir candidate =
     (let n = length (longest_common_prefix dir candidate)
      in replicate (length dir - n) ''..'' @ drop n candidate)"

definition pathInside :: "string list \<Rightarrow> string list \<Rightarrow> bool" where
  "pathInside dir candidate =
     (let rel = relative_path dir candidate in rel = [] \<or> hd rel \<noteq> ''..'')"

definition resolveRelative :: "content_store \<Rightarrow> string \<Rightarrow> string list result" where
  "resolveRelative store relativePath =
     (if isAbsolute relativePath \<or> CHR 0x00 \<in> set relativePath
      then Inl (RegistryError (Artifact ARTIFACT_PATH_REJECTED))
      else let resolved = resolve_segments (cs_root store) (split_on CHR ''/'' relativePath)
           in if \<not> pathInside (cs_root store) resolved
              then Inl (RegistryError (Artifact ARTIFACT_PATH_REJECTED)) else Inr resolved)"

definition sessionRelativePath :: "string \<Rightarrow> string result" where
  "sessionRelativePath sessionId =
     (if \<not> is_typed_id ''ing'' sessionId then Inl RegistryValidationError
      else Inr (''sessions/'' @ sessionId @ ''/content.part''))"

definition objectRelativePath :: "string \<Rightarrow> string result" where
  "objectRelativePath digest =
     (if \<not> is_sha256 digest then Inl RegistryValidationError
      else Inr (''objects/sha256/'' @ take 2 digest @ ''/'' @ take 2 (drop 2 digest) @ ''/'' @ digest))"

definition objectPath :: "content_store \<Rightarrow> string \<Rightarrow> string list result" where
  "objectPath store digest = and_then (objectRelativePath digest) (resolveRelative store)"

section \<open>Writing an upload\<close>

text \<open>The chunks of a stream, and whether it breaks after the last of them.\<close>

record upload_stream =
  us_chunks :: "bytes list"
  us_breaks :: bool

fun receive_chunks :: "int \<Rightarrow> bytes \<Rightarrow> bytes list \<Rightarrow> bytes result" where
  "receive_chunks limit received [] = Inr received"
| "receive_chunks limit received (c # cs) =
     (if limit < int (length received + length c) then Inl (RegistryError (Artifact ARTIFACT_TOO_LARGE))
      else receive_chunks limit (received @ c) cs)"

definition receive_stream :: "int \<Rightarrow> upload_stream \<Rightarrow> bytes result" where
  "receive_stream limit stream =
     and_then (receive_chunks limit [] (us_chunks stream)) (\<lambda>received.
       if us_breaks stream then Inl NodeError else Inr received)"

record observed_upload =
  ou_relativePath :: string
  ou_sha256 :: string
  ou_sizeBytes :: int

text \<open>
  \<open>writeSession\<close> awaits the opening of the file and every chunk: it is two stretches here, opening the
  file, with the flag \<open>wx\<close> that fails when it exists, and completing it. A file that cannot be
  completed is removed, and what is written to a file that was removed meanwhile is lost with it.
\<close>

definition openSession ::
    "content_store \<Rightarrow> string \<Rightarrow> file_system \<Rightarrow> (string \<times> string list) result \<times> file_system" where
  "openSession store sessionId fs =
     (case and_then (sessionRelativePath sessionId) (\<lambda>rel.
             and_then (resolveRelative store rel) (\<lambda>target.
               if fs target \<noteq> None then Inl NodeError else Inr (rel, target))) of
        Inl e \<Rightarrow> (Inl e, fs)
      | Inr (rel, target) \<Rightarrow> (Inr (rel, target), fs(target \<mapsto> [])))"

definition writeChunks ::
    "content_store \<Rightarrow> string \<Rightarrow> string list \<Rightarrow> upload_stream \<Rightarrow> file_system
     \<Rightarrow> observed_upload result \<times> file_system" where
  "writeChunks store rel target stream fs =
     (case receive_stream (cs_max_bytes store) stream of
        Inl e \<Rightarrow> (Inl e, fs(target := None))
      | Inr received \<Rightarrow>
          (Inr \<lparr> ou_relativePath = rel, ou_sha256 = cs_digest store received,
                 ou_sizeBytes = int (length received) \<rparr>,
           if fs target = None then fs else fs(target \<mapsto> received)))"

definition writeSession ::
    "content_store \<Rightarrow> string \<Rightarrow> upload_stream \<Rightarrow> file_system \<Rightarrow> observed_upload result \<times> file_system" where
  "writeSession store sessionId stream fs =
     (case openSession store sessionId fs of
        (Inl e, fs1) \<Rightarrow> (Inl e, fs1)
      | (Inr (rel, target), fs1) \<Rightarrow> writeChunks store rel target stream fs1)"

section \<open>Moving and removing files\<close>

definition remove_under :: "string list \<Rightarrow> file_system \<Rightarrow> file_system" where
  "remove_under dir fs = (\<lambda>p. if prefix dir p then None else fs p)"

text \<open>\<open>rename\<close> replaces a file at the target; the clock reading names the quarantined file.\<close>

definition quarantine_path :: "string \<Rightarrow> int \<Rightarrow> string" where
  "quarantine_path sessionId now = ''quarantine/'' @ sessionId @ ''-'' @ int_text now @ ''.part''"

definition quarantine ::
    "content_store \<Rightarrow> string \<Rightarrow> string \<Rightarrow> int \<Rightarrow> file_system \<Rightarrow> unit result \<times> file_system" where
  "quarantine store relativePath sessionId now fs =
     (case and_then (resolveRelative store relativePath) (\<lambda>source.
             and_then (resolveRelative store (quarantine_path sessionId now)) (\<lambda>target.
               Inr (source, target))) of
        Inl e \<Rightarrow> (Inl e, fs)
      | Inr (source, target) \<Rightarrow>
          (case fs source of
             None \<Rightarrow> (Inr (), fs)
           | Some content \<Rightarrow> (Inr (), fs(source := None, target \<mapsto> content))))"

text \<open>
  \<open>link\<close> tolerates a target that exists; the object is verified before the upload is removed, and a
  link that fails verification stays. The removal is awaited, so it is a stretch of its own.
\<close>

definition linkObject ::
    "content_store \<Rightarrow> string \<Rightarrow> string \<Rightarrow> int \<Rightarrow> file_system
     \<Rightarrow> (string \<times> string list) result \<times> file_system" where
  "linkObject store relativePath digest expectedSize fs =
     (case and_then (resolveRelative store relativePath) (\<lambda>source.
             case fs source of
               None \<Rightarrow> Inl NodeError
             | Some content \<Rightarrow>
                 and_then (objectRelativePath digest) (\<lambda>targetRelative.
                 and_then (resolveRelative store targetRelative) (\<lambda>target.
                   Inr (source, content, targetRelative, target)))) of
        Inl e \<Rightarrow> (Inl e, fs)
      | Inr (source, content, targetRelative, target) \<Rightarrow>
          let object = (case fs target of None \<Rightarrow> content | Some c \<Rightarrow> c);
              linked = fs(target \<mapsto> object)
          in if cs_digest store object \<noteq> digest \<or> int (length object) \<noteq> expectedSize
             then (Inl (RegistryError (Artifact ARTIFACT_OBJECT_VERIFICATION_FAILED)), linked)
             else (Inr (targetRelative, source), linked))"

text \<open>The two calls of \<open>rm\<close>, of the upload and of its directory, are awaited one after the other.\<close>

definition removeFile :: "string list \<Rightarrow> file_system \<Rightarrow> file_system" where
  "removeFile source fs = fs(source := None)"

definition removeParent :: "string list \<Rightarrow> file_system \<Rightarrow> file_system" where
  "removeParent source fs = remove_under (butlast source) fs"

definition removeUpload :: "string list \<Rightarrow> file_system \<Rightarrow> file_system" where
  "removeUpload source fs = removeParent source (removeFile source fs)"

definition finalize_object ::
    "content_store \<Rightarrow> string \<Rightarrow> string \<Rightarrow> int \<Rightarrow> file_system \<Rightarrow> string result \<times> file_system" where
  "finalize_object store relativePath digest expectedSize fs =
     (case linkObject store relativePath digest expectedSize fs of
        (Inl e, fs1) \<Rightarrow> (Inl e, fs1)
      | (Inr (targetRelative, source), fs1) \<Rightarrow> (Inr targetRelative, removeUpload source fs1))"

definition resolveObject :: "content_store \<Rightarrow> string \<Rightarrow> file_system \<Rightarrow> string list result" where
  "resolveObject store relativePath fs =
     and_then (resolveRelative store relativePath) (\<lambda>path.
       if fs path = None then Inl NodeError else Inr path)"

text \<open>A missing or empty path is nothing to clean.\<close>

definition cleanupSession ::
    "content_store \<Rightarrow> string option \<Rightarrow> file_system \<Rightarrow> unit result \<times> file_system" where
  "cleanupSession store relativePath fs =
     (case relativePath of
        None \<Rightarrow> (Inr (), fs)
      | Some rel \<Rightarrow>
          if rel = [] then (Inr (), fs)
          else (case resolveRelative store rel of
                  Inl e \<Rightarrow> (Inl e, fs)
                | Inr path \<Rightarrow> (Inr (), remove_under (butlast path) fs)))"

section \<open>Nothing escapes the root\<close>

definition plain_segment :: "string \<Rightarrow> bool" where
  "plain_segment w \<longleftrightarrow> w \<noteq> [] \<and> w \<noteq> ''.'' \<and> w \<noteq> ''..''"

lemma list_all_butlast: "list_all P xs \<Longrightarrow> list_all P (butlast xs)"
  by (induction xs) simp_all

lemma resolve_segments_plain:
  "list_all plain_segment path \<Longrightarrow> list_all plain_segment (resolve_segments path ws)"
  by (induction path ws rule: resolve_segments.induct) (simp_all add: plain_segment_def list_all_butlast)

lemma resolve_plain_segments: "list_all plain_segment ws \<Longrightarrow> resolve_segments path ws = path @ ws"
  by (induction ws arbitrary: path) (auto simp: plain_segment_def)

lemma common_prefix_all: "length (longest_common_prefix xs ys) = length xs \<longleftrightarrow> prefix xs ys"
  by (induction xs ys rule: longest_common_prefix.induct) auto

lemma common_prefix_le: "length (longest_common_prefix xs ys) \<le> length xs"
  using longest_common_prefix_prefix1 [of xs ys] by (rule prefix_length_le)

lemma pathInside_prefix:
  assumes "list_all plain_segment candidate"
  shows "pathInside dir candidate \<longleftrightarrow> prefix dir candidate"
proof -
  let ?n = "length (longest_common_prefix dir candidate)"
  show ?thesis
  proof (cases "?n = length dir")
    case True
    then have "prefix dir candidate" by (simp add: common_prefix_all)
    moreover have "drop (length dir) candidate = [] \<or> hd (drop (length dir) candidate) \<noteq> ''..''"
    proof (cases "drop (length dir) candidate")
      case (Cons w ws)
      then have "w \<in> set candidate" using in_set_dropD [of w "length dir" candidate] by simp
      with assms have "plain_segment w" by (simp add: list_all_iff)
      with Cons show ?thesis by (simp add: plain_segment_def)
    qed simp
    ultimately show ?thesis using True by (simp add: pathInside_def relative_path_def)
  next
    case False
    then have "?n < length dir" using common_prefix_le [of dir candidate] by simp
    then obtain k where "length dir - ?n = Suc k" by (metis Suc_diff_Suc)
    with False show ?thesis by (simp add: pathInside_def relative_path_def common_prefix_all [symmetric])
  qed
qed

lemma resolveRelative_Inr:
  assumes "list_all plain_segment (cs_root store)"
  shows "resolveRelative store rel = Inr path \<longleftrightarrow>
    \<not> isAbsolute rel \<and> CHR 0x00 \<notin> set rel
    \<and> path = resolve_segments (cs_root store) (split_on CHR ''/'' rel) \<and> prefix (cs_root store) path"
  using pathInside_prefix [OF resolve_segments_plain [OF assms]]
  by (auto simp: resolveRelative_def Let_def)

text \<open>The paths the store itself makes, relative to its root and resolved.\<close>

definition session_rel :: "string \<Rightarrow> string" where
  "session_rel i = ''sessions/'' @ i @ ''/content.part''"

definition object_rel :: "string \<Rightarrow> string" where
  "object_rel d = ''objects/sha256/'' @ take 2 d @ ''/'' @ take 2 (drop 2 d) @ ''/'' @ d"

definition session_path :: "content_store \<Rightarrow> string \<Rightarrow> string list" where
  "session_path store i = cs_root store @ [''sessions'', i, ''content.part'']"

definition object_path :: "content_store \<Rightarrow> string \<Rightarrow> string list" where
  "object_path store d = cs_root store @ [''objects'', ''sha256'', take 2 d, take 2 (drop 2 d), d]"

lemma typed_id_chars: "is_typed_id p i \<Longrightarrow> c \<in> set i \<Longrightarrow> c \<in> set p \<or> c = CHR ''_'' \<or> is_crockford c"
proof -
  assume i: "is_typed_id p i" and c: "c \<in> set i"
  let ?n = "length p + 1"
  have "c \<in> set (take ?n i) \<or> c \<in> set (drop ?n i)"
    using c set_append [of "take ?n i" "drop ?n i"] by (simp only: append_take_drop_id Un_iff)
  moreover have "take ?n i = p @ ''_''" using i by (simp add: is_typed_id_def starts_with_def)
  moreover have "list_all is_crockford (drop ?n i)" using i by (simp add: is_typed_id_def)
  ultimately show ?thesis by (auto simp: list_all_iff)
qed

lemma session_id_plain:
  assumes "is_typed_id ''ing'' i"
  shows "CHR ''/'' \<notin> set i" "CHR 0x00 \<notin> set i" "plain_segment i"
proof -
  have c: "c \<in> set i \<Longrightarrow> c \<in> set ''ing_'' \<or> is_crockford c" for c
    using typed_id_chars [OF assms, of c] by auto
  have "\<not> is_crockford (CHR ''/'')" "\<not> is_crockford (CHR 0x00)" "\<not> is_crockford (CHR ''.'')" by code_simp+
  then show "CHR ''/'' \<notin> set i" "CHR 0x00 \<notin> set i" using c by auto
  have "length i = 30" using assms by (simp add: is_typed_id_def)
  then show "plain_segment i" by (auto simp: plain_segment_def)
qed

lemma sha256_plain:
  assumes "is_sha256 d"
  shows "CHR ''/'' \<notin> set d" "CHR 0x00 \<notin> set d" "list_all plain_segment [take 2 d, take 2 (drop 2 d), d]"
    "CHR ''/'' \<notin> set (take 2 d)" "CHR ''/'' \<notin> set (take 2 (drop 2 d))"
    "CHR 0x00 \<notin> set (take 2 d)" "CHR 0x00 \<notin> set (take 2 (drop 2 d))"
proof -
  have d: "c \<in> set d \<Longrightarrow> is_hex c" "length d = 64" for c using assms by (auto simp: is_sha256_def list_all_iff)
  have h: "\<not> is_hex (CHR ''/'')" "\<not> is_hex (CHR 0x00)" "\<not> is_hex (CHR ''.'')" by code_simp+
  then have none: "CHR ''/'' \<notin> set d" "CHR 0x00 \<notin> set d" "CHR ''.'' \<notin> set d" using d(1) by auto
  then show "CHR ''/'' \<notin> set d" "CHR 0x00 \<notin> set d" by simp_all
  from none show "CHR ''/'' \<notin> set (take 2 d)" "CHR ''/'' \<notin> set (take 2 (drop 2 d))"
    "CHR 0x00 \<notin> set (take 2 d)" "CHR 0x00 \<notin> set (take 2 (drop 2 d))"
    by (blast dest: in_set_takeD in_set_dropD)+
  have part: "w \<noteq> [] \<Longrightarrow> set w \<subseteq> set d \<Longrightarrow> plain_segment w" for w
    using none(3) by (auto simp: plain_segment_def)
  have "set (take 2 (drop 2 d)) \<subseteq> set d" using set_take_subset set_drop_subset by (rule subset_trans)
  moreover have "d \<noteq> []" using d(2) by auto
  ultimately show "list_all plain_segment [take 2 d, take 2 (drop 2 d), d]"
    using d(2) part [of d] part [of "take 2 d"] part [of "take 2 (drop 2 d)"] set_take_subset [of 2 d]
    by (simp add: take_eq_Nil)
qed

abbreviation rooted :: "content_store \<Rightarrow> bool" where
  "rooted store \<equiv> list_all plain_segment (cs_root store)"

lemma resolve_below:
  assumes "rooted store" "\<not> isAbsolute rel" "CHR 0x00 \<notin> set rel" "split_on CHR ''/'' rel = ws"
    "list_all plain_segment ws"
  shows "resolveRelative store rel = Inr (cs_root store @ ws)"
  using assms by (simp add: resolveRelative_Inr resolve_plain_segments)

lemma resolve_session:
  assumes "rooted store" "is_typed_id ''ing'' i"
  shows "resolveRelative store (''sessions/'' @ i @ ''/content.part'') = Inr (session_path store i)"
proof -
  have "split_on CHR ''/'' (''sessions/'' @ i @ ''/content.part'') = [''sessions'', i, ''content.part'']"
    using session_id_plain(1) [OF assms(2)] by (simp add: split_on_first)
  then show ?thesis
    unfolding session_path_def
    by (intro resolve_below [OF assms(1)])
      (use session_id_plain [OF assms(2)] in \<open>auto simp: isAbsolute_def plain_segment_def\<close>)
qed

lemma resolve_object:
  assumes "rooted store" "is_sha256 d"
  shows "resolveRelative store (''objects/sha256/'' @ take 2 d @ ''/'' @ take 2 (drop 2 d) @ ''/'' @ d)
    = Inr (object_path store d)"
proof -
  note d = sha256_plain [OF assms(2)]
  have "split_on CHR ''/'' (''objects/sha256/'' @ take 2 d @ ''/'' @ take 2 (drop 2 d) @ ''/'' @ d)
      = [''objects'', ''sha256'', take 2 d, take 2 (drop 2 d), d]"
    using d by (simp add: split_on_first split_on_none)
  then show ?thesis
    unfolding object_path_def
    by (intro resolve_below [OF assms(1)]) (use d in \<open>auto simp: isAbsolute_def plain_segment_def\<close>)
qed

lemma object_path_inject: "object_path store d = object_path store d' \<longleftrightarrow> d = d'"
  by (auto simp: object_path_def)

lemma object_not_session:
  "object_path store d \<noteq> session_path store i" "\<not> prefix (cs_root store @ [''sessions'', i]) (object_path store d)"
  by (simp_all add: object_path_def session_path_def)

section \<open>What the operations do to the files\<close>

lemma receive_chunks_Inr:
  "0 \<le> limit \<Longrightarrow> int (length got) \<le> limit \<Longrightarrow>
   receive_chunks limit got cs = Inr b \<longleftrightarrow> b = got @ concat cs \<and> int (length b) \<le> limit"
  by (induction cs arbitrary: got) auto

lemma receive_stream_Inr:
  "0 \<le> limit \<Longrightarrow> receive_stream limit stream = Inr b \<longleftrightarrow>
     b = concat (us_chunks stream) \<and> \<not> us_breaks stream \<and> int (length b) \<le> limit"
  by (auto simp: receive_stream_def and_then_Inr receive_chunks_Inr split: if_splits)

definition observed_of :: "content_store \<Rightarrow> string \<Rightarrow> bytes \<Rightarrow> observed_upload" where
  "observed_of store i b =
     \<lparr> ou_relativePath = session_rel i, ou_sha256 = cs_digest store b, ou_sizeBytes = int (length b) \<rparr>"

lemma openSession_cases:
  assumes "rooted store" "openSession store i fs = (res, fs')"
  obtains e where "res = Inl e" "fs' = fs"
  | "is_typed_id ''ing'' i" "fs (session_path store i) = None"
      "res = Inr (session_rel i, session_path store i)" "fs' = fs(session_path store i \<mapsto> [])"
proof (cases "is_typed_id ''ing'' i")
  case True
  with assms resolve_session [OF assms(1) True] show ?thesis
    by (cases "fs (session_path store i)")
      (auto simp: openSession_def sessionRelativePath_def session_rel_def intro: that)
next
  case False
  with assms show ?thesis
    by (intro that(1) [of RegistryValidationError]) (auto simp: openSession_def sessionRelativePath_def)
qed

lemma writeChunks_cases:
  assumes "writeChunks store (session_rel i) p stream fs = (res, fs')"
  obtains e where "res = Inl e" "receive_stream (cs_max_bytes store) stream = Inl e" "fs' = fs(p := None)"
  | b where "receive_stream (cs_max_bytes store) stream = Inr b" "res = Inr (observed_of store i b)"
      "fs' = (if fs p = None then fs else fs(p \<mapsto> b))"
  using assms by (auto simp: writeChunks_def observed_of_def session_rel_def split: sum.splits)

lemma linkObject_cases:
  assumes "rooted store" "is_typed_id ''ing'' i" "is_sha256 d"
    "linkObject store (session_rel i) d n fs = (res, fs')"
  obtains e where "res = Inl e" "fs' = fs"
  | c where "fs (session_path store i) = Some c"
      "res = Inl (RegistryError (Artifact ARTIFACT_OBJECT_VERIFICATION_FAILED))"
      "fs' = fs(object_path store d \<mapsto> (case fs (object_path store d) of None \<Rightarrow> c | Some x \<Rightarrow> x))"
  | c x where "fs (session_path store i) = Some c"
      "x = (case fs (object_path store d) of None \<Rightarrow> c | Some x \<Rightarrow> x)"
      "cs_digest store x = d" "int (length x) = n"
      "res = Inr (object_rel d, session_path store i)" "fs' = fs(object_path store d \<mapsto> x)"
proof (cases "fs (session_path store i)")
  case None
  with assms(4) resolve_session [OF assms(1,2)] show ?thesis
    by (intro that(1) [of NodeError]) (auto simp: linkObject_def session_rel_def)
next
  case (Some c)
  let ?x = "case fs (object_path store d) of None \<Rightarrow> c | Some x \<Rightarrow> x"
  note r = resolve_session [OF assms(1,2)] resolve_object [OF assms(1,3)] assms(3)
  show ?thesis
  proof (cases "cs_digest store ?x = d \<and> int (length ?x) = n")
    case True
    with assms(4) Some r show ?thesis
      by (intro that(3) [of c ?x]) (auto simp: linkObject_def objectRelativePath_def session_rel_def object_rel_def Let_def)
  next
    case False
    with assms(4) Some r show ?thesis
      by (intro that(2) [of c]) (auto simp: linkObject_def objectRelativePath_def session_rel_def Let_def)
  qed
qed

lemma removeUpload_session:
  "removeUpload (session_path store i) fs
     = remove_under (cs_root store @ [''sessions'', i]) (fs(session_path store i := None))"
  "removeParent (session_path store i) fs = remove_under (cs_root store @ [''sessions'', i]) fs"
  by (simp_all add: removeUpload_def removeFile_def removeParent_def session_path_def butlast_append)

lemma cleanup_session:
  assumes "rooted store" "is_typed_id ''ing'' i"
  shows "cleanupSession store (Some (session_rel i)) fs
    = (Inr (), remove_under (cs_root store @ [''sessions'', i]) fs)"
  using resolve_session [OF assms]
  by (simp add: cleanupSession_def session_path_def session_rel_def butlast_append)

lemma int_text_plain: "c \<in> set (int_text n) \<Longrightarrow> is_digit c \<or> c = CHR ''-''"
  using decimal_digits by (auto simp: int_text_def list_all_iff split: if_splits)

lemma resolve_quarantine:
  assumes "rooted store" "is_typed_id ''ing'' i"
  shows "resolveRelative store (quarantine_path i now)
    = Inr (cs_root store @ [''quarantine'', i @ ''-'' @ int_text now @ ''.part''])"
proof -
  let ?f = "i @ ''-'' @ int_text now @ ''.part''"
  have "\<not> is_digit (CHR ''/'')" "\<not> is_digit (CHR 0x00)" by code_simp+
  then have n: "CHR ''/'' \<notin> set (int_text now)" "CHR 0x00 \<notin> set (int_text now)"
    using int_text_plain [of _ now] by auto
  have "split_on CHR ''/'' (quarantine_path i now) = [''quarantine'', ?f]"
    unfolding quarantine_path_def
    using n session_id_plain(1) [OF assms(2)] split_on_first [of "CHR ''/''" "''quarantine''" ?f]
    by (simp add: split_on_none)
  then show ?thesis
    by (intro resolve_below [OF assms(1)])
      (use n session_id_plain [OF assms(2)] in \<open>auto simp: quarantine_path_def isAbsolute_def plain_segment_def\<close>)
qed

text \<open>No operation touches an object that is there, or a file outside the root.\<close>

definition keeps_files :: "content_store \<Rightarrow> file_system \<Rightarrow> file_system \<Rightarrow> bool" where
  "keeps_files store fs fs' \<longleftrightarrow>
     (\<forall>d c. fs (object_path store d) = Some c \<longrightarrow> fs' (object_path store d) = Some c)
     \<and> (\<forall>p. \<not> prefix (cs_root store) p \<longrightarrow> fs' p = fs p)"

lemma keeps_object: "keeps_files store fs fs' \<Longrightarrow> fs (object_path store d) = Some c \<Longrightarrow> fs' (object_path store d) = Some c"
  by (simp add: keeps_files_def)

lemma keeps_outside: "keeps_files store fs fs' \<Longrightarrow> \<not> prefix (cs_root store) p \<Longrightarrow> fs' p = fs p"
  by (simp add: keeps_files_def)

lemma below_root [simp]: "prefix (cs_root store) (session_path store i)" "prefix (cs_root store) (object_path store d)"
  by (simp_all add: session_path_def object_path_def)

lemma outside_root:
  "\<not> prefix (cs_root store) p \<Longrightarrow> p \<noteq> session_path store i" "\<not> prefix (cs_root store) p \<Longrightarrow> p \<noteq> object_path store d"
  "\<not> prefix (cs_root store) p \<Longrightarrow> \<not> prefix (cs_root store @ ws) p"
  using below_root by (auto dest: append_prefixD)

lemma keeps_files_refl [simp]: "keeps_files store fs fs"
  by (simp add: keeps_files_def)

lemma keeps_files_trans: "keeps_files store a b \<Longrightarrow> keeps_files store b c \<Longrightarrow> keeps_files store a c"
  by (simp add: keeps_files_def)

lemma keeps_files_session:
  "keeps_files store fs (fs(session_path store i := x))"
  "keeps_files store fs (remove_under (cs_root store @ [''sessions'', i]) fs)"
  "keeps_files store fs (removeFile (session_path store i) fs)"
  "keeps_files store fs (removeParent (session_path store i) fs)"
  "keeps_files store fs (removeUpload (session_path store i) fs)"
  using object_not_session
  by (auto simp: keeps_files_def remove_under_def removeFile_def removeUpload_session outside_root)

lemma keeps_files_open:
  "rooted store \<Longrightarrow> keeps_files store fs (snd (openSession store i fs))"
  by (cases "openSession store i fs", erule (1) openSession_cases) (auto simp: keeps_files_session)

lemma keeps_files_write:
  "keeps_files store fs (snd (writeChunks store rel (session_path store i) stream fs))"
  by (auto simp: writeChunks_def keeps_files_session split: sum.splits)

lemma keeps_files_quarantine:
  assumes "rooted store" "is_typed_id ''ing'' i"
  shows "keeps_files store fs (snd (quarantine store (session_rel i) i now fs))"
  using resolve_session [OF assms] resolve_quarantine [OF assms]
  by (auto simp: quarantine_def session_rel_def keeps_files_def object_not_session object_path_def session_path_def
      split: option.splits dest: append_prefixD)

lemma keeps_files_link:
  assumes "rooted store" "is_typed_id ''ing'' i" "is_sha256 d"
    "linkObject store (session_rel i) d n fs = (res, fs')"
  shows "keeps_files store fs fs'"
  using assms
  by (cases rule: linkObject_cases) (auto simp: keeps_files_def object_path_inject outside_root split: option.splits)

lemma keeps_files_cleanup:
  assumes "rooted store" "is_typed_id ''ing'' i" "temp = None \<or> temp = Some (session_rel i)"
  shows "keeps_files store fs (snd (cleanupSession store temp fs))" "fst (cleanupSession store temp fs) = Inr ()"
  using assms(3) cleanup_session [OF assms(1,2)] by (auto simp: cleanupSession_def keeps_files_session)

end
