(* ===== verification/Artifact_Registry.thy ===== *)
theory Artifact_Registry
  imports Content_Store
begin

text \<open>
  \<open>SqliteRawArtifactRepository\<close> of \<open>packages/persistence/src/raw-artifact-registry.ts\<close>: ingestion
  sessions, their uploads and the raw artifacts they become. Its tables lie beside those of the
  control store and its files in the content store. Two methods are asynchronous: \<open>uploadContent\<close>
  and \<open>finalize\<close> await the file system, and other calls run meanwhile, so each is a function
  per stretch between two awaits, taking what the method holds in its variables.
\<close>

section \<open>State\<close>

text \<open>The columns of a session row that repeat its document are read off the document.\<close>

record ingestion_row =
  ir_descriptor_hash :: string
  ir_document :: ingestion_session
  ir_verification :: "verification_result option"
  ir_receipt :: "ingestion_receipt option"
  ir_failure :: "ingestion_failure option"
  ir_temp_relative_path :: "string option"

record content_object_row =
  co_digest :: string
  co_size_bytes :: int
  co_relative_path :: string
  co_storage_uri :: string
  co_reference_count :: int
  co_created_at :: string
  co_verified_at :: string

record raw_row =
  rw_job_id :: string
  rw_job_attempt :: int
  rw_execution_attempt_id :: string
  rw_session_id :: string
  rw_receipt_id :: string
  rw_content_digest :: string
  rw_document :: raw_artifact

record artifact_db =
  ad_control :: control_store
  ad_sessions :: "ingestion_row list"
  ad_objects :: "content_object_row list"
  ad_artifacts :: "raw_row list"
  ad_events :: "ingestion_event list"

definition ir_id :: "ingestion_row \<Rightarrow> string" where
  "ir_id r = ing_id (ir_document r)"

definition rw_id :: "raw_row \<Rightarrow> string" where
  "rw_id r = raw_id (rw_document r)"

section \<open>Reading rows\<close>

definition parseSession :: "ingestion_session \<Rightarrow> ingestion_session result" where
  "parseSession s =
     (if isArtifactIngestionSession (session_json s) then Inr s else Inl RegistryValidationError)"

definition parseVerification :: "verification_result \<Rightarrow> verification_result result" where
  "parseVerification v =
     (if isArtifactVerificationResult (verification_json v) then Inr v else Inl RegistryValidationError)"

definition parseReceipt :: "ingestion_receipt \<Rightarrow> ingestion_receipt result" where
  "parseReceipt r =
     (if isArtifactIngestionReceipt (receipt_json r) then Inr r else Inl RegistryValidationError)"

definition parseIngestionEvent :: "ingestion_event \<Rightarrow> ingestion_event result" where
  "parseIngestionEvent e =
     (if isArtifactIngestionEvent (ingestion_event_json e) then Inr e else Inl RegistryValidationError)"

definition parseRawArtifact :: "raw_artifact \<Rightarrow> raw_artifact result" where
  "parseRawArtifact a =
     (if isRawArtifact (raw_artifact_json a) then Inr a else Inl RegistryValidationError)"

definition parse_optional :: "('a \<Rightarrow> 'b result) \<Rightarrow> 'a option \<Rightarrow> 'b option result" where
  "parse_optional parse v =
     (case v of None \<Rightarrow> Inr None | Some x \<Rightarrow> and_then (parse x) (\<lambda>y. Inr (Some y)))"

record session_record =
  sn_session :: ingestion_session
  sn_verification :: "verification_result option"
  sn_receipt :: "ingestion_receipt option"
  sn_failure :: "ingestion_failure option"
  sn_events :: "ingestion_event list"

text \<open>A failure document is read without a check of its contents beyond its types.\<close>

definition getSession :: "artifact_db \<Rightarrow> string \<Rightarrow> session_record option result" where
  "getSession db i =
     (case find_by ir_id i (ad_sessions db) of
        None \<Rightarrow> Inr None
      | Some r \<Rightarrow>
          and_then (map_result parseIngestionEvent
                      (sort_key iev_sequence (filter (\<lambda>e. iev_sessionId e = i) (ad_events db)))) (\<lambda>es.
          and_then (parseSession (ir_document r)) (\<lambda>s.
          and_then (parse_optional parseVerification (ir_verification r)) (\<lambda>v.
          and_then (parse_optional parseReceipt (ir_receipt r)) (\<lambda>rc.
            Inr (Some \<lparr> sn_session = s, sn_verification = v, sn_receipt = rc,
                        sn_failure = ir_failure r, sn_events = es \<rparr>))))))"

definition requireSession :: "artifact_db \<Rightarrow> string \<Rightarrow> session_record result" where
  "requireSession db i =
     and_then (getSession db i) (\<lambda>found.
       case found of
         None \<Rightarrow> Inl (RegistryError (Artifact ARTIFACT_SESSION_NOT_FOUND)) | Some rec \<Rightarrow> Inr rec)"

definition sessionRow :: "artifact_db \<Rightarrow> string \<Rightarrow> ingestion_row result" where
  "sessionRow db i =
     (case find_by ir_id i (ad_sessions db) of
        None \<Rightarrow> Inl (RegistryError (Artifact ARTIFACT_SESSION_NOT_FOUND)) | Some r \<Rightarrow> Inr r)"

record artifact_view =
  av_artifact :: raw_artifact
  av_jobId :: string
  av_jobAttempt :: int
  av_executionAttemptId :: string
  av_sessionId :: string
  av_receiptId :: string
  av_contentObject :: content_object_row

definition getArtifact :: "artifact_db \<Rightarrow> string \<Rightarrow> artifact_view option result" where
  "getArtifact db i =
     (case find_by rw_id i (ad_artifacts db) of
        None \<Rightarrow> Inr None
      | Some r \<Rightarrow>
          (case find_by co_digest (rw_content_digest r) (ad_objects db) of
             None \<Rightarrow> Inr None
           | Some ob \<Rightarrow>
               and_then (parseRawArtifact (rw_document r)) (\<lambda>a.
                 Inr (Some \<lparr> av_artifact = a, av_jobId = rw_job_id r, av_jobAttempt = rw_job_attempt r,
                             av_executionAttemptId = rw_execution_attempt_id r,
                             av_sessionId = rw_session_id r, av_receiptId = rw_receipt_id r,
                             av_contentObject = ob \<rparr>))))"

section \<open>Writing rows\<close>

text \<open>\<open>COALESCE(?, column)\<close> keeps what is there when nothing is given.\<close>

fun coalesce :: "'a option \<Rightarrow> 'a option \<Rightarrow> 'a option" where
  "coalesce (Some x) _ = Some x"
| "coalesce None v = v"

record session_options =
  so_verification :: "verification_result option"
  so_receipt :: "ingestion_receipt option"
  so_failure :: "ingestion_failure option"
  so_temp :: "string option"

text \<open>Every caller gives the path, possibly \<open>null\<close>.\<close>

definition write_session :: "ingestion_session \<Rightarrow> session_options \<Rightarrow> artifact_db \<Rightarrow> artifact_db" where
  "write_session s opts db =
     db\<lparr>ad_sessions := update_by ir_id (ing_id s)
          (\<lambda>r. r\<lparr>ir_document := s,
                  ir_verification := coalesce (so_verification opts) (ir_verification r),
                  ir_receipt := coalesce (so_receipt opts) (ir_receipt r),
                  ir_failure := coalesce (so_failure opts) (ir_failure r),
                  ir_temp_relative_path := so_temp opts\<rparr>)
          (ad_sessions db)\<rparr>"

definition updateSession ::
    "ingestion_session \<Rightarrow> session_options \<Rightarrow> artifact_db \<Rightarrow> artifact_db result" where
  "updateSession s opts db =
     (if isArtifactIngestionSession (session_json s) then Inr (write_session s opts db)
      else Inl RegistryValidationError)"

definition next_sequence :: "string \<Rightarrow> artifact_db \<Rightarrow> int" where
  "next_sequence sessionId db =
     fold (\<lambda>e m. max m (iev_sequence e)) (filter (\<lambda>e. iev_sessionId e = sessionId) (ad_events db)) 0 + 1"

definition insertIngestionEvent ::
    "string \<Rightarrow> string \<Rightarrow> ingestion_event_type \<Rightarrow> string \<Rightarrow> ingestion_failure option \<Rightarrow> artifact_db
     \<Rightarrow> artifact_db result" where
  "insertIngestionEvent eventId sessionId eventType recordedAt failure db =
     (let e = \<lparr> iev_id = eventId, iev_sessionId = sessionId, iev_sequence = next_sequence sessionId db,
                iev_eventType = eventType, iev_recordedAt = recordedAt, iev_failure = failure \<rparr>
      in if \<not> isArtifactIngestionEvent (ingestion_event_json e) then Inl RegistryValidationError
         else if eventId \<in> iev_id ` set (ad_events db) then Inl SqliteUniqueConstraint
         else if sessionId \<notin> ir_id ` set (ad_sessions db) then Inl SqliteForeignKeyConstraint
         else Inr (db\<lparr>ad_events := ad_events db @ [e]\<rparr>))"

section \<open>Authentication\<close>

record ingestion_context =
  ic_lease :: job_lease
  ic_job :: job
  ic_run :: collection_run
  ic_attempt :: execution_attempt

definition artifact_authenticate ::
    "platform \<Rightarrow> int \<Rightarrow> string \<Rightarrow> string \<Rightarrow> string \<Rightarrow> string \<Rightarrow> control_store \<Rightarrow> ingestion_context result" where
  "artifact_authenticate env now workerId credential leaseId leaseToken db =
     and_then (verifyCredential env db workerId credential) (\<lambda>_.
       case lease_by_id leaseId db of
         None \<Rightarrow> conflict (Artifact ARTIFACT_EXECUTION_CONTEXT_NOT_FOUND)
       | Some l \<Rightarrow>
           (case (job_by_id (lr_job_id l) db, run_by_id (lr_run_id l) db,
                  find_by ar_lease_id leaseId (attempts db)) of
              (Some j, Some r, Some a) \<Rightarrow>
                and_then (parseLease (lr_document l)) (\<lambda>lease.
                if lease_workerId lease \<noteq> workerId
                   \<or> \<not> verifyDigest env leaseToken (lr_token_digest l)
                   \<or> lease_status lease \<noteq> L_ACTIVE
                   \<or> date_due (parse_iso (lease_expiresAt lease)) now
                then conflict (Artifact ARTIFACT_LEASE_AUTHENTICATION_FAILED)
                else
                  and_then (parseAttempt (ar_document a)) (\<lambda>attempt.
                  if attempt_status attempt \<in> {X_COMPLETED, X_FAILED}
                  then conflict (Artifact ARTIFACT_EXECUTION_TERMINAL)
                  else
                    and_then (parseJob (jr_document j)) (\<lambda>job.
                    and_then (parseRun (rr_document r)) (\<lambda>run.
                      Inr \<lparr> ic_lease = lease, ic_job = job, ic_run = run, ic_attempt = attempt \<rparr>))))
            | _ \<Rightarrow> conflict (Artifact ARTIFACT_EXECUTION_CONTEXT_NOT_FOUND)))"

definition assertOwnership :: "ingestion_session \<Rightarrow> string \<Rightarrow> string \<Rightarrow> unit result" where
  "assertOwnership s workerId leaseId =
     (if ing_workerId s \<noteq> workerId \<or> ing_leaseId s \<noteq> leaseId
      then conflict (Artifact ARTIFACT_SESSION_OWNERSHIP_MISMATCH) else Inr ())"

text \<open>What every method on a session begins with.\<close>

definition owned_session ::
    "platform \<Rightarrow> int \<Rightarrow> string \<Rightarrow> string \<Rightarrow> string \<Rightarrow> string \<Rightarrow> string \<Rightarrow> artifact_db \<Rightarrow> session_record result" where
  "owned_session env now workerId credential leaseId leaseToken sessionId db =
     and_then (artifact_authenticate env now workerId credential leaseId leaseToken (ad_control db)) (\<lambda>_.
     and_then (requireSession db sessionId) (\<lambda>rec.
     and_then (assertOwnership (sn_session rec) workerId leaseId) (\<lambda>_. Inr rec)))"

section \<open>Descriptors\<close>

definition is_control_char :: "char \<Rightarrow> bool" where
  "is_control_char c = (code_unit c < 32 \<or> code_unit c = 127)"

text \<open>\<open>basename\<close> is the last segment, trailing slashes aside.\<close>

definition path_basename :: "string \<Rightarrow> string" where
  "path_basename p =
     (case rev (filter (\<lambda>w. w \<noteq> []) (split_on CHR ''/'' p)) of [] \<Rightarrow> [] | w # _ \<Rightarrow> w)"

definition safeOriginalName :: "string \<Rightarrow> string" where
  "safeOriginalName v =
     (let normalized = trim (path_basename (filter (\<lambda>c. \<not> is_control_char c) v))
      in if normalized = [] \<or> normalized = ''.'' \<or> normalized = ''..'' then ''artifact.bin''
         else take 255 normalized)"

fun descriptor_field :: "string \<Rightarrow> json \<Rightarrow> json option" where
  "descriptor_field k (JObj ob) = field k ob"
| "descriptor_field k _ = None"

definition descriptor_text :: "string \<Rightarrow> json \<Rightarrow> string" where
  "descriptor_text k d = (case descriptor_field k d of Some (JStr s) \<Rightarrow> s | _ \<Rightarrow> [])"

definition descriptor_text_option :: "string \<Rightarrow> json \<Rightarrow> string option" where
  "descriptor_text_option k d = (case descriptor_field k d of Some (JStr s) \<Rightarrow> Some s | _ \<Rightarrow> None)"

definition descriptor_size :: "json \<Rightarrow> rat" where
  "descriptor_size d = (case descriptor_field ''expectedSizeBytes'' d of Some (JNum n) \<Rightarrow> n | _ \<Rightarrow> 0)"

definition descriptor_parents :: "json \<Rightarrow> string list option" where
  "descriptor_parents d =
     (case descriptor_field ''parentArtifactIds'' d of
        Some (JArr vs) \<Rightarrow> Some (map (\<lambda>v. case v of JStr s \<Rightarrow> s | _ \<Rightarrow> []) vs) | _ \<Rightarrow> None)"

text \<open>The assignment replaces the entry where it stands.\<close>

fun with_original_name :: "json \<Rightarrow> json" where
  "with_original_name (JObj ob) =
     JObj (map (\<lambda>(k, v). (k, if k = ''originalName''
                             then JStr (safeOriginalName (descriptor_text ''originalName'' (JObj ob))) else v)) ob)"
| "with_original_name v = v"

section \<open>Sessions\<close>

record create_session_input =
  csi_workerId :: string
  csi_credential :: string
  csi_leaseId :: string
  csi_leaseToken :: string
  csi_descriptor :: json
  csi_idempotencyKey :: string

definition session_by_key :: "string \<Rightarrow> string \<Rightarrow> artifact_db \<Rightarrow> ingestion_row option" where
  "session_by_key workspaceId key db =
     find (\<lambda>r. ing_workspaceId (ir_document r) = workspaceId \<and> ing_idempotencyKey (ir_document r) = key)
       (ad_sessions db)"

definition new_session ::
    "create_session_input \<Rightarrow> ingestion_context \<Rightarrow> string \<Rightarrow> string \<Rightarrow> json \<Rightarrow> string \<Rightarrow> ingestion_session" where
  "new_session inp c i key descriptor now =
     \<lparr> ing_id = i, ing_workspaceId = run_workspaceId (ic_run c), ing_sourceId = run_sourceId (ic_run c),
       ing_runId = run_id (ic_run c), ing_jobId = job_id (ic_job c), ing_jobAttempt = job_attempt (ic_job c),
       ing_executionAttemptId = attempt_id (ic_attempt c), ing_leaseId = lease_id (ic_lease c),
       ing_workerId = csi_workerId inp,
       ing_connector =
         \<lparr> ref_connectorId = connector_connectorId (job_connectorSnapshot (ic_job c)),
           ref_version = connector_version (job_connectorSnapshot (ic_job c)) \<rparr>,
       ing_descriptor = descriptor, ing_status = G_CREATED, ing_idempotencyKey = key,
       ing_createdAt = now, ing_updatedAt = now, ing_finalizedAt = None \<rparr>"

definition insert_session :: "string \<Rightarrow> ingestion_session \<Rightarrow> artifact_db \<Rightarrow> artifact_db result" where
  "insert_session descriptorHash s db =
     (if ing_id s \<in> ir_id ` set (ad_sessions db)
         \<or> session_by_key (ing_workspaceId s) (ing_idempotencyKey s) db \<noteq> None
      then Inl SqliteUniqueConstraint
      else if ing_sourceId s \<notin> source_id ` set (sources (ad_control db))
              \<or> run_by_id (ing_runId s) (ad_control db) = None
              \<or> job_by_id (ing_jobId s) (ad_control db) = None
              \<or> find_by ar_id (ing_executionAttemptId s) (attempts (ad_control db)) = None
              \<or> lease_by_id (ing_leaseId s) (ad_control db) = None
              \<or> worker_by_id (ing_workerId s) (ad_control db) = None
      then Inl SqliteForeignKeyConstraint
      else Inr (db\<lparr>ad_sessions := ad_sessions db @
             [\<lparr> ir_descriptor_hash = descriptorHash, ir_document = s, ir_verification = None,
                ir_receipt = None, ir_failure = None, ir_temp_relative_path = None \<rparr>]\<rparr>))"

text \<open>The clock is read when the lease is checked (\<open>t\<close>) and when the session is made (\<open>now\<close>).\<close>

definition prepare_session ::
    "platform \<Rightarrow> int \<Rightarrow> int \<Rightarrow> string \<Rightarrow> create_session_input \<Rightarrow> artifact_db
     \<Rightarrow> (session_record + string \<times> ingestion_session) result" where
  "prepare_session env t now i inp db =
     (if \<not> isArtifactUploadDescriptor (csi_descriptor inp) then Inl RegistryValidationError
      else
        and_then (normalizeTransitionKey (csi_idempotencyKey inp)) (\<lambda>key.
        and_then (artifact_authenticate env t (csi_workerId inp) (csi_credential inp) (csi_leaseId inp)
                    (csi_leaseToken inp) (ad_control db)) (\<lambda>c.
        let descriptor = with_original_name (csi_descriptor inp);
            descriptorHash = digestHex env (stringify (number_text env) descriptor)
        in case session_by_key (run_workspaceId (ic_run c)) key db of
             Some existing \<Rightarrow>
               if ir_descriptor_hash existing \<noteq> descriptorHash
               then conflict (Artifact ARTIFACT_INGESTION_IDEMPOTENCY_CONFLICT)
               else and_then (requireSession db (ir_id existing)) (\<lambda>rec. Inr (Inl rec))
           | None \<Rightarrow>
               if attempt_status (ic_attempt c) \<notin> {X_RUNNING, X_UPLOADING, X_VERIFYING}
               then conflict (Artifact ARTIFACT_EXECUTION_STATE_CONFLICT)
               else
                 let s = new_session inp c i key descriptor (to_iso now)
                 in if isArtifactIngestionSession (session_json s) then Inr (Inr (descriptorHash, s))
                    else Inl RegistryValidationError)))"

definition createSession ::
    "platform \<Rightarrow> int \<Rightarrow> int \<Rightarrow> string \<Rightarrow> string \<Rightarrow> create_session_input \<Rightarrow> artifact_db
     \<Rightarrow> (session_record \<times> bool) result \<times> artifact_db" where
  "createSession env t now i eventId inp db =
     (case prepare_session env t now i inp db of
        Inl e \<Rightarrow> (Inl e, db)
      | Inr (Inl rec) \<Rightarrow> (Inr (rec, True), db)
      | Inr (Inr (descriptorHash, s)) \<Rightarrow>
          (case in_transaction db
                  (and_then (insert_session descriptorHash s db) (\<lambda>db1.
                   and_then (insertIngestionEvent eventId (ing_id s) I_SESSION_CREATED (to_iso now) None db1)
                     (\<lambda>db2. Inr ((), db2)))) of
             (Inl e, db') \<Rightarrow> (Inl e, db')
           | (Inr _, db') \<Rightarrow> (and_then (requireSession db' i) (\<lambda>rec. Inr (rec, False)), db')))"

end
