(* ===== verification/Artifact_Uploads.thy ===== *)
theory Artifact_Uploads
  imports Artifact_Registry
begin

text \<open>
  The methods of \<open>SqliteRawArtifactRepository\<close> that change a session after it was made, and the
  queries. \<open>uploadContent\<close> and \<open>finalize\<close> await the file system: each is cut at its awaits into
  stretches that run without interruption. The first stretch is a function of its own
  (\<open>upload_begin\<close>, \<open>finalize_begin\<close>); the rest of a call is a task, which holds what the method
  has in its variables, and \<open>resume\<close> runs a task up to its next await.
\<close>

section \<open>Helpers\<close>

definition constantTimeHexEqual :: "string \<Rightarrow> string \<Rightarrow> bool" where
  "constantTimeHexEqual actualHex expectedHex =
     (is_sha256 actualHex \<and> is_sha256 expectedHex \<and> actualHex = expectedHex)"

definition no_session_options :: session_options where
  "no_session_options = \<lparr> so_verification = None, so_receipt = None, so_failure = None, so_temp = None \<rparr>"

text \<open>\<open>ORDER BY created_at DESC, id DESC LIMIT 1\<close>.\<close>

definition rw_created_at :: "raw_row \<Rightarrow> string" where
  "rw_created_at r = raw_createdAt (rw_document r)"

definition newest_first :: "raw_row list \<Rightarrow> raw_row list" where
  "newest_first rs = rev (sort_key (\<lambda>r. (rw_created_at r, rw_id r)) rs)"

definition newest :: "raw_row list \<Rightarrow> raw_row option" where
  "newest rs = (case newest_first rs of [] \<Rightarrow> None | r # _ \<Rightarrow> Some r)"

section \<open>What is known of a page's content\<close>

record content_check =
  cc_workerId :: string
  cc_credential :: string
  cc_leaseId :: string
  cc_leaseToken :: string
  cc_artifactKind :: string
  cc_canonicalUri :: string
  cc_sha256 :: string

definition same_address :: "string \<Rightarrow> string \<Rightarrow> string \<Rightarrow> raw_row \<Rightarrow> bool" where
  "same_address workspaceId sourceId uri r \<longleftrightarrow>
     raw_workspaceId (rw_document r) = workspaceId \<and> raw_sourceId (rw_document r) = sourceId
     \<and> raw_canonicalUri (rw_document r) = Some uri"

text \<open>The result is \<open>unchanged\<close> and the newest artifact's id and digest, if there is one.\<close>

definition checkCurrentContent ::
    "platform \<Rightarrow> int \<Rightarrow> content_check \<Rightarrow> artifact_db \<Rightarrow> (bool \<times> (string \<times> string) option) result" where
  "checkCurrentContent env now inp db =
     and_then (artifact_authenticate env now (cc_workerId inp) (cc_credential inp) (cc_leaseId inp)
                 (cc_leaseToken inp) (ad_control db)) (\<lambda>c.
       let uri = trim (cc_canonicalUri inp); sha256 = toLowerCase (trim (cc_sha256 inp))
       in if uri = [] \<or> 2048 < length uri \<or> parse_url env uri = None then Inl RegistryValidationError
          else if cc_artifactKind inp \<notin> set ARTIFACT_KINDS then Inl RegistryValidationError
          else if \<not> is_sha256 sha256 then Inl RegistryValidationError
          else case newest (filter (\<lambda>r. same_address (run_workspaceId (ic_run c)) (run_sourceId (ic_run c)) uri r
                                     \<and> raw_artifactKind (rw_document r) = cc_artifactKind inp) (ad_artifacts db)) of
                 None \<Rightarrow> Inr (False, None)
               | Some r \<Rightarrow> Inr (constantTimeHexEqual (rw_content_digest r) sha256,
                                Some (rw_id r, rw_content_digest r)))"

section \<open>Rejecting a session\<close>

definition rejectSession ::
    "string \<Rightarrow> ingestion_session \<Rightarrow> ingestion_failure \<Rightarrow> verification_result option \<Rightarrow> artifact_db
     \<Rightarrow> unit result \<times> artifact_db" where
  "rejectSession eventId s failure verification db =
     in_transaction db
       (and_then (updateSession (s\<lparr>ing_status := G_QUARANTINED, ing_updatedAt := ifl_occurredAt failure\<rparr>)
                   (no_session_options\<lparr>so_verification := verification, so_failure := Some failure\<rparr>) db) (\<lambda>db1.
        and_then (insertIngestionEvent eventId (ing_id s) I_UPLOAD_REJECTED (ifl_occurredAt failure)
                   (Some failure) db1) (\<lambda>db2. Inr ((), db2))))"

section \<open>Calls that await the file system\<close>

record finalization =
  fz_session :: ingestion_session
  fz_verification :: verification_result
  fz_temp :: string
  fz_now :: string

datatype artifact_task =
    U_Opening ingestion_session upload_stream
  | U_Writing ingestion_session string "string list" upload_stream
  | U_Quarantining ingestion_session verification_result string
  | U_Rejecting ingestion_session verification_result
  | F_Linking finalization
  | F_Removing finalization string "string list"
  | F_Clearing finalization string "string list"
  | F_Committing finalization string

datatype artifact_outcome =
    Uploaded ingestion_session verification_result
  | Finalized artifact_view ingestion_receipt bool

datatype artifact_progress = Await artifact_task | Settled "artifact_outcome result"

text \<open>
  What a stretch reads from outside: the clock, the identifiers its factories make, and the text of an
  error of the file system or of the stream.
\<close>

record surroundings =
  su_now :: int
  su_eventId :: string
  su_artifactId :: string
  su_receiptId :: string
  su_message :: string

section \<open>Uploading\<close>

text \<open>The first stretch ends at the opening of the file. It is not a transaction.\<close>

definition upload_begin ::
    "platform \<Rightarrow> int \<Rightarrow> surroundings \<Rightarrow> string \<Rightarrow> string \<Rightarrow> string \<Rightarrow> string \<Rightarrow> string \<Rightarrow> upload_stream
     \<Rightarrow> artifact_db \<Rightarrow> artifact_progress \<times> artifact_db" where
  "upload_begin env t su workerId credential leaseId leaseToken sessionId stream db =
     (case owned_session env t workerId credential leaseId leaseToken sessionId db of
        Inl e \<Rightarrow> (Settled (Inl e), db)
      | Inr rec \<Rightarrow>
          let s = sn_session rec in
          if ing_status s = G_VERIFIED
          then (Settled (case sn_verification rec of
                           None \<Rightarrow> Inl RegistryValidationError | Some v \<Rightarrow> Inr (Uploaded s v)), db)
          else if ing_status s \<noteq> G_CREATED
          then (Settled (conflict (Artifact ARTIFACT_SESSION_STATE_CONFLICT)), db)
          else
            let now = to_iso (su_now su);
                uploading = s\<lparr>ing_status := G_UPLOADING, ing_updatedAt := now\<rparr>
            in case and_then (sessionRelativePath sessionId) (\<lambda>rel.
                      updateSession uploading (no_session_options\<lparr>so_temp := Some rel\<rparr>) db) of
                 Inl e \<Rightarrow> (Settled (Inl e), db)
               | Inr db1 \<Rightarrow>
                   (case insertIngestionEvent (su_eventId su) sessionId I_UPLOAD_STARTED now None db1 of
                      Inl e \<Rightarrow> (Settled (Inl e), db1)
                    | Inr db2 \<Rightarrow> (Await (U_Opening uploading stream), db2)))"

text \<open>The \<open>catch\<close> around \<open>writeSession\<close>: what rejecting the session throws replaces the error.\<close>

definition storage_failure :: "content_store \<Rightarrow> surroundings \<Rightarrow> registry_error \<Rightarrow> ingestion_failure" where
  "storage_failure store su e =
     (if e = RegistryError (Artifact ARTIFACT_TOO_LARGE)
      then \<lparr> ifl_code = ''ARTIFACT_TOO_LARGE'',
             ifl_message = ''Artifact exceeds '' @ int_text (cs_max_bytes store) @ '' bytes'',
             ifl_occurredAt = to_iso (su_now su) \<rparr>
      else if e = RegistryError (Artifact ARTIFACT_PATH_REJECTED)
      then \<lparr> ifl_code = ''ARTIFACT_PATH_REJECTED'', ifl_message = su_message su,
             ifl_occurredAt = to_iso (su_now su) \<rparr>
      else \<lparr> ifl_code = ''ARTIFACT_UPLOAD_FAILED'', ifl_message = su_message su,
             ifl_occurredAt = to_iso (su_now su) \<rparr>)"

definition upload_failed ::
    "content_store \<Rightarrow> surroundings \<Rightarrow> ingestion_session \<Rightarrow> registry_error \<Rightarrow> artifact_db
     \<Rightarrow> artifact_progress \<times> artifact_db" where
  "upload_failed store su s e db =
     (case rejectSession (su_eventId su) s (storage_failure store su e) None db of
        (Inl e', db') \<Rightarrow> (Settled (Inl e'), db')
      | (Inr _, db') \<Rightarrow> (Settled (Inl e), db'))"

definition observed_verification ::
    "ingestion_session \<Rightarrow> observed_upload \<Rightarrow> string \<Rightarrow> verification_result" where
  "observed_verification s observed now =
     (let sizeMatches = (of_int (ou_sizeBytes observed) = descriptor_size (ing_descriptor s));
          digestMatches = constantTimeHexEqual (ou_sha256 observed)
            (descriptor_text ''expectedSha256'' (ing_descriptor s))
      in \<lparr> ver_sessionId = ing_id s,
           ver_status = (if \<not> sizeMatches then V_SIZE_MISMATCH
                         else if \<not> digestMatches then V_DIGEST_MISMATCH else V_MATCHED),
           ver_observedSizeBytes = ou_sizeBytes observed, ver_observedSha256 = ou_sha256 observed,
           ver_verifiedAt = now,
           ver_failureCode = (if \<not> sizeMatches then Some ''ARTIFACT_SIZE_MISMATCH''
                              else if \<not> digestMatches then Some ''ARTIFACT_DIGEST_MISMATCH'' else None) \<rparr>)"

definition upload_end ::
    "surroundings \<Rightarrow> ingestion_session \<Rightarrow> observed_upload \<Rightarrow> artifact_db \<Rightarrow> artifact_progress \<times> artifact_db" where
  "upload_end su s observed db =
     (let v = observed_verification s observed (to_iso (su_now su))
      in if \<not> isArtifactVerificationResult (verification_json v) then (Settled (Inl RegistryValidationError), db)
         else if ver_status v \<noteq> V_MATCHED then (Await (U_Quarantining s v (ou_relativePath observed)), db)
         else
           let verified = s\<lparr>ing_status := G_VERIFIED, ing_updatedAt := ver_verifiedAt v\<rparr>
           in case in_transaction db
                (and_then (updateSession verified (no_session_options\<lparr>so_verification := Some v,
                             so_temp := Some (ou_relativePath observed)\<rparr>) db) (\<lambda>db1.
                 and_then (insertIngestionEvent (su_eventId su) (ing_id s) I_UPLOAD_VERIFIED (ver_verifiedAt v)
                             None db1) (\<lambda>db2. Inr ((), db2)))) of
                (Inl e, db') \<Rightarrow> (Settled (Inl e), db')
              | (Inr _, db') \<Rightarrow> (Settled (Inr (Uploaded verified v)), db'))"

fun mismatch_code :: "verification_status \<Rightarrow> artifact_code" where
  "mismatch_code V_SIZE_MISMATCH = ARTIFACT_SIZE_MISMATCH"
| "mismatch_code _ = ARTIFACT_DIGEST_MISMATCH"

definition mismatch_failure :: "verification_result \<Rightarrow> ingestion_failure" where
  "mismatch_failure v =
     \<lparr> ifl_code = (case ver_failureCode v of None \<Rightarrow> [] | Some c \<Rightarrow> c),
       ifl_message = ''Observed upload identity does not match the declared descriptor'',
       ifl_occurredAt = ver_verifiedAt v \<rparr>"

definition upload_rejected ::
    "surroundings \<Rightarrow> ingestion_session \<Rightarrow> verification_result \<Rightarrow> artifact_db \<Rightarrow> artifact_progress \<times> artifact_db" where
  "upload_rejected su s v db =
     (case rejectSession (su_eventId su) s (mismatch_failure v) (Some v) db of
        (Inl e, db') \<Rightarrow> (Settled (Inl e), db')
      | (Inr _, db') \<Rightarrow> (Settled (conflict (Artifact (mismatch_code (ver_status v)))), db'))"

section \<open>Finalizing\<close>

definition finalize_begin ::
    "platform \<Rightarrow> int \<Rightarrow> surroundings \<Rightarrow> string \<Rightarrow> string \<Rightarrow> string \<Rightarrow> string \<Rightarrow> string
     \<Rightarrow> artifact_db \<Rightarrow> artifact_progress" where
  "finalize_begin env t su workerId credential leaseId leaseToken sessionId db =
     (case owned_session env t workerId credential leaseId leaseToken sessionId db of
        Inl e \<Rightarrow> Settled (Inl e)
      | Inr rec \<Rightarrow>
          let s = sn_session rec in
          if ing_status s = G_FINALIZED
          then Settled (case sn_receipt rec of
                 None \<Rightarrow> Inl RegistryValidationError
               | Some rc \<Rightarrow>
                   and_then (getArtifact db (rcp_artifactId rc)) (\<lambda>found.
                     case found of
                       None \<Rightarrow> Inl (RegistryError (Artifact RAW_ARTIFACT_NOT_FOUND))
                     | Some a \<Rightarrow> Inr (Finalized a rc True)))
          else (case (ing_status s, sn_verification rec) of
                  (G_VERIFIED, Some v) \<Rightarrow>
                    (case sessionRow db sessionId of
                       Inl e \<Rightarrow> Settled (Inl e)
                     | Inr r \<Rightarrow>
                         (case ir_temp_relative_path r of
                            None \<Rightarrow> Settled (Inl RegistryValidationError)
                          | Some rel \<Rightarrow>
                              if rel = [] then Settled (Inl RegistryValidationError)
                              else Await (F_Linking \<lparr> fz_session = s, fz_verification = v, fz_temp = rel,
                                                      fz_now = to_iso (su_now su) \<rparr>)))
                | _ \<Rightarrow> Settled (conflict (Artifact ARTIFACT_SESSION_NOT_VERIFIED))))"

definition storage_uri :: "string \<Rightarrow> string" where
  "storage_uri digest = ''artifact+local://sha256/'' @ digest"

definition non_empty :: "string option \<Rightarrow> string option" where
  "non_empty v = (if v = Some [] then None else v)"

definition previous_artifact :: "ingestion_session \<Rightarrow> artifact_db \<Rightarrow> raw_artifact option result" where
  "previous_artifact s db =
     (case non_empty (descriptor_text_option ''canonicalUri'' (ing_descriptor s)) of
        None \<Rightarrow> Inr None
      | Some uri \<Rightarrow>
          parse_optional parseRawArtifact (map_option rw_document
            (newest (filter (same_address (ing_workspaceId s) (ing_sourceId s) uri) (ad_artifacts db)))))"

definition new_raw_artifact ::
    "finalization \<Rightarrow> raw_artifact option \<Rightarrow> string \<Rightarrow> string \<Rightarrow> raw_artifact" where
  "new_raw_artifact f previous artifactId receiptId =
     (let s = fz_session f; v = fz_verification f; d = ing_descriptor s in
      \<lparr> raw_id = artifactId, raw_workspaceId = ing_workspaceId s, raw_sourceId = ing_sourceId s,
        raw_collectionRunId = ing_runId s,
        raw_version = (case previous of None \<Rightarrow> 1 | Some p \<Rightarrow> raw_version p + 1),
        raw_supersedesArtifactId = map_option raw_id previous,
        raw_artifactKind = descriptor_text ''artifactKind'' d, raw_mimeType = descriptor_text ''mimeType'' d,
        raw_originalName = safeOriginalName (descriptor_text ''originalName'' d),
        raw_canonicalUri = non_empty (descriptor_text_option ''canonicalUri'' d),
        raw_storageUri = storage_uri (ver_observedSha256 v), raw_sha256 = ver_observedSha256 v,
        raw_sizeBytes = ver_observedSizeBytes v, raw_capturedAt = fz_now f,
        raw_publishedAt = non_empty (descriptor_text_option ''publishedAt'' d),
        raw_connector = ing_connector s, raw_workerId = ing_workerId s, raw_requestId = ing_id s,
        raw_sourceUri = descriptor_text ''sourceUri'' d, raw_parentArtifactIds = descriptor_parents d,
        raw_status = ''REGISTERED'', raw_createdAt = fz_now f,
        raw_extensions = Some [(''x-markorbit-ingestion'', JObj
          [(''jobId'', JStr (ing_jobId s)), (''jobAttempt'', JInt (ing_jobAttempt s)),
           (''executionAttemptId'', JStr (ing_executionAttemptId s)), (''sessionId'', JStr (ing_id s)),
           (''receiptId'', JStr receiptId)])] \<rparr>)"

definition new_receipt :: "finalization \<Rightarrow> string \<Rightarrow> string \<Rightarrow> ingestion_receipt" where
  "new_receipt f artifactId receiptId =
     (let s = fz_session f; v = fz_verification f in
      \<lparr> rcp_id = receiptId, rcp_sessionId = ing_id s, rcp_artifactId = artifactId,
        rcp_executionAttemptId = ing_executionAttemptId s, rcp_contentSha256 = ver_observedSha256 v,
        rcp_sizeBytes = ver_observedSizeBytes v,
        rcp_artifactKind = descriptor_text ''artifactKind'' (ing_descriptor s), rcp_finalizedAt = fz_now f \<rparr>)"

text \<open>\<open>ON CONFLICT(digest) DO UPDATE\<close>: one more reference to the object that is there.\<close>

definition upsert_object :: "content_object_row \<Rightarrow> artifact_db \<Rightarrow> artifact_db result" where
  "upsert_object ob db =
     (if find_by co_digest (co_digest ob) (ad_objects db) \<noteq> None
      then Inr (db\<lparr>ad_objects := update_by co_digest (co_digest ob)
                  (\<lambda>r. r\<lparr>co_reference_count := co_reference_count r + 1, co_verified_at := co_verified_at ob\<rparr>)
                  (ad_objects db)\<rparr>)
      else if co_relative_path ob \<in> co_relative_path ` set (ad_objects db)
              \<or> co_storage_uri ob \<in> co_storage_uri ` set (ad_objects db)
      then Inl SqliteUniqueConstraint
      else Inr (db\<lparr>ad_objects := ad_objects db @ [ob]\<rparr>))"

definition insert_raw_artifact :: "raw_row \<Rightarrow> artifact_db \<Rightarrow> artifact_db result" where
  "insert_raw_artifact r db =
     (let a = rw_document r in
      if rw_id r \<in> rw_id ` set (ad_artifacts db) \<or> rw_session_id r \<in> rw_session_id ` set (ad_artifacts db)
         \<or> rw_receipt_id r \<in> rw_receipt_id ` set (ad_artifacts db)
      then Inl SqliteUniqueConstraint
      else if raw_sourceId a \<notin> source_id ` set (sources (ad_control db))
              \<or> run_by_id (raw_collectionRunId a) (ad_control db) = None
              \<or> job_by_id (rw_job_id r) (ad_control db) = None
              \<or> find_by ar_id (rw_execution_attempt_id r) (attempts (ad_control db)) = None
              \<or> rw_session_id r \<notin> ir_id ` set (ad_sessions db)
              \<or> rw_content_digest r \<notin> co_digest ` set (ad_objects db)
      then Inl SqliteForeignKeyConstraint
      else Inr (db\<lparr>ad_artifacts := ad_artifacts db @ [r]\<rparr>))"

definition finalize_rows ::
    "surroundings \<Rightarrow> finalization \<Rightarrow> string \<Rightarrow> raw_artifact \<Rightarrow> ingestion_receipt \<Rightarrow> artifact_db
     \<Rightarrow> artifact_db result" where
  "finalize_rows su f targetRelative a rc db =
     (let s = fz_session f; v = fz_verification f in
      and_then (upsert_object
        \<lparr> co_digest = ver_observedSha256 v, co_size_bytes = ver_observedSizeBytes v,
          co_relative_path = targetRelative, co_storage_uri = storage_uri (ver_observedSha256 v),
          co_reference_count = 1, co_created_at = fz_now f, co_verified_at = fz_now f \<rparr> db) (\<lambda>db1.
      and_then (insert_raw_artifact
        \<lparr> rw_job_id = ing_jobId s, rw_job_attempt = ing_jobAttempt s,
          rw_execution_attempt_id = ing_executionAttemptId s, rw_session_id = ing_id s,
          rw_receipt_id = rcp_id rc, rw_content_digest = ver_observedSha256 v, rw_document = a \<rparr> db1) (\<lambda>db2.
      and_then (updateSession
        (s\<lparr>ing_status := G_FINALIZED, ing_updatedAt := fz_now f, ing_finalizedAt := Some (fz_now f)\<rparr>)
        (no_session_options\<lparr>so_receipt := Some rc\<rparr>) db2) (\<lambda>db3.
      insertIngestionEvent (su_eventId su) (ing_id s) I_FINALIZED (fz_now f) None db3))))"

definition finalize_commit ::
    "surroundings \<Rightarrow> finalization \<Rightarrow> string \<Rightarrow> artifact_db \<Rightarrow> artifact_progress \<times> artifact_db" where
  "finalize_commit su f targetRelative db =
     (case previous_artifact (fz_session f) db of
        Inl e \<Rightarrow> (Settled (Inl e), db)
      | Inr previous \<Rightarrow>
          let a = new_raw_artifact f previous (su_artifactId su) (su_receiptId su);
              rc = new_receipt f (su_artifactId su) (su_receiptId su)
          in if \<not> isRawArtifact (raw_artifact_json a) \<or> \<not> isArtifactIngestionReceipt (receipt_json rc)
             then (Settled (Inl RegistryValidationError), db)
             else case in_transaction db
                    (and_then (finalize_rows su f targetRelative a rc db) (\<lambda>db1. Inr ((), db1))) of
                    (Inl e, db') \<Rightarrow> (Settled (Inl e), db')
                  | (Inr _, db') \<Rightarrow>
                      (Settled (and_then (getArtifact db' (raw_id a)) (\<lambda>found.
                         case found of
                           None \<Rightarrow> Inl (RegistryError (Artifact RAW_ARTIFACT_NOT_FOUND))
                         | Some view \<Rightarrow> Inr (Finalized view rc False))), db'))"

section \<open>Resuming\<close>

type_synonym artifact_world = "artifact_db \<times> file_system"

fun resume ::
    "content_store \<Rightarrow> surroundings \<Rightarrow> artifact_task \<Rightarrow> artifact_world \<Rightarrow> artifact_progress \<times> artifact_world" where
  "resume store su (U_Opening s stream) (db, fs) =
     (case openSession store (ing_id s) fs of
        (Inl e, fs') \<Rightarrow> (case upload_failed store su s e db of (p, db') \<Rightarrow> (p, db', fs'))
      | (Inr (rel, target), fs') \<Rightarrow> (Await (U_Writing s rel target stream), db, fs'))"
| "resume store su (U_Writing s rel target stream) (db, fs) =
     (case writeChunks store rel target stream fs of
        (Inl e, fs') \<Rightarrow> (case upload_failed store su s e db of (p, db') \<Rightarrow> (p, db', fs'))
      | (Inr observed, fs') \<Rightarrow> (case upload_end su s observed db of (p, db') \<Rightarrow> (p, db', fs')))"
| "resume store su (U_Quarantining s v rel) (db, fs) =
     (case quarantine store rel (ing_id s) (su_now su) fs of
        (Inl e, fs') \<Rightarrow> (Settled (Inl e), db, fs')
      | (Inr _, fs') \<Rightarrow> (Await (U_Rejecting s v), db, fs'))"
| "resume store su (U_Rejecting s v) (db, fs) =
     (case upload_rejected su s v db of (p, db') \<Rightarrow> (p, db', fs))"
| "resume store su (F_Linking f) (db, fs) =
     (case linkObject store (fz_temp f) (ver_observedSha256 (fz_verification f))
             (ver_observedSizeBytes (fz_verification f)) fs of
        (Inl e, fs') \<Rightarrow> (Settled (Inl e), db, fs')
      | (Inr (rel, source), fs') \<Rightarrow> (Await (F_Removing f rel source), db, fs'))"
| "resume store su (F_Removing f rel source) (db, fs) =
     (Await (F_Clearing f rel source), db, removeFile source fs)"
| "resume store su (F_Clearing f rel source) (db, fs) =
     (Await (F_Committing f rel), db, removeParent source fs)"
| "resume store su (F_Committing f rel) (db, fs) =
     (case finalize_commit su f rel db of (p, db') \<Rightarrow> (p, db', fs))"

text \<open>A call that nothing interrupts: its stretches in a row, each with its own surroundings.\<close>

fun run_task ::
    "content_store \<Rightarrow> surroundings list \<Rightarrow> artifact_progress \<times> artifact_world
     \<Rightarrow> artifact_progress \<times> artifact_world" where
  "run_task store (su # sus) (Await t, w) = run_task store sus (resume store su t w)"
| "run_task store sus pw = pw"

definition uploadContent ::
    "platform \<Rightarrow> content_store \<Rightarrow> int \<Rightarrow> surroundings \<Rightarrow> surroundings list \<Rightarrow> string \<Rightarrow> string \<Rightarrow> string
     \<Rightarrow> string \<Rightarrow> string \<Rightarrow> upload_stream \<Rightarrow> artifact_world \<Rightarrow> artifact_progress \<times> artifact_world" where
  "uploadContent env store t su sus workerId credential leaseId leaseToken sessionId stream w =
     (case upload_begin env t su workerId credential leaseId leaseToken sessionId stream (fst w) of
        (p, db') \<Rightarrow> run_task store sus (p, db', snd w))"

definition finalizeArtifact ::
    "platform \<Rightarrow> content_store \<Rightarrow> int \<Rightarrow> surroundings \<Rightarrow> surroundings list \<Rightarrow> string \<Rightarrow> string \<Rightarrow> string
     \<Rightarrow> string \<Rightarrow> string \<Rightarrow> artifact_world \<Rightarrow> artifact_progress \<times> artifact_world" where
  "finalizeArtifact env store t su sus workerId credential leaseId leaseToken sessionId w =
     run_task store sus
       (finalize_begin env t su workerId credential leaseId leaseToken sessionId (fst w), w)"

section \<open>Aborting and cleaning up\<close>

definition abort_failure :: "string option \<Rightarrow> string \<Rightarrow> ingestion_failure" where
  "abort_failure reason now =
     (let text = (case reason of None \<Rightarrow> [] | Some r \<Rightarrow> trim r) in
      \<lparr> ifl_code = ''ARTIFACT_INGESTION_ABORTED'',
        ifl_message = take 1000 (if text = [] then ''Artifact ingestion was aborted'' else text),
        ifl_occurredAt = now \<rparr>)"

definition abort_rows ::
    "string \<Rightarrow> ingestion_session \<Rightarrow> ingestion_failure \<Rightarrow> string \<Rightarrow> artifact_db \<Rightarrow> artifact_db result" where
  "abort_rows eventId s failure now db =
     and_then (updateSession (s\<lparr>ing_status := G_ABORTED, ing_updatedAt := now\<rparr>)
                 (no_session_options\<lparr>so_failure := Some failure\<rparr>) db)
       (insertIngestionEvent eventId (ing_id s) I_ABORTED now None)"

definition abort ::
    "platform \<Rightarrow> content_store \<Rightarrow> int \<Rightarrow> int \<Rightarrow> string \<Rightarrow> string \<Rightarrow> string \<Rightarrow> string \<Rightarrow> string \<Rightarrow> string
     \<Rightarrow> string option \<Rightarrow> artifact_world \<Rightarrow> session_record result \<times> artifact_world" where
  "abort env store t now eventId workerId credential leaseId leaseToken sessionId reason w =
     (case w of (db, fs) \<Rightarrow>
      (case owned_session env t workerId credential leaseId leaseToken sessionId db of
         Inl e \<Rightarrow> (Inl e, w)
       | Inr rec \<Rightarrow>
           let s = sn_session rec in
           if ing_status s \<in> {G_FINALIZED, G_ABORTED, G_QUARANTINED} then (Inr rec, w)
           else case sessionRow db sessionId of
                  Inl e \<Rightarrow> (Inl e, w)
                | Inr r \<Rightarrow>
                    (case cleanupSession store (ir_temp_relative_path r) fs of
                       (Inl e, fs') \<Rightarrow> (Inl e, db, fs')
                     | (Inr _, fs') \<Rightarrow>
                         (case in_transaction db
                            (and_then (abort_rows eventId s (abort_failure reason (to_iso now)) (to_iso now) db)
                               (\<lambda>db1. Inr ((), db1))) of
                            (Inl e, db') \<Rightarrow> (Inl e, db', fs')
                          | (Inr _, db') \<Rightarrow> (requireSession db' sessionId, db', fs')))))"

definition abandoned_failure :: "string \<Rightarrow> ingestion_failure" where
  "abandoned_failure now =
     \<lparr> ifl_code = ''ARTIFACT_SESSION_ABANDONED'',
       ifl_message = ''Incomplete ingestion session was cleaned up'', ifl_occurredAt = now \<rparr>"

text \<open>
  The loop of \<open>cleanupAbandoned\<close> over the rows read before it, with one event id each. The files a
  failing transaction has already removed stay removed.
\<close>

fun cleanup_rows ::
    "content_store \<Rightarrow> string \<Rightarrow> (string \<times> ingestion_row) list \<Rightarrow> artifact_world
     \<Rightarrow> artifact_db result \<times> file_system" where
  "cleanup_rows store now [] (db, fs) = (Inr db, fs)"
| "cleanup_rows store now ((eventId, r) # rs) (db, fs) =
     (case cleanupSession store (ir_temp_relative_path r) fs of
        (Inl e, fs') \<Rightarrow> (Inl e, fs')
      | (Inr _, fs') \<Rightarrow>
          (case and_then (requireSession db (ir_id r)) (\<lambda>rec.
                  abort_rows eventId (sn_session rec) (abandoned_failure now) now db) of
             Inl e \<Rightarrow> (Inl e, fs')
           | Inr db' \<Rightarrow> cleanup_rows store now rs (db', fs')))"

definition abandoned_sessions :: "string \<Rightarrow> artifact_db \<Rightarrow> ingestion_row list" where
  "abandoned_sessions olderThan db =
     filter (\<lambda>r. ing_status (ir_document r) \<in> {G_CREATED, G_UPLOADING} \<and> ing_updatedAt (ir_document r) < olderThan)
       (ad_sessions db)"

definition cleanupAbandoned ::
    "content_store \<Rightarrow> int \<Rightarrow> string \<Rightarrow> (nat \<Rightarrow> string) \<Rightarrow> artifact_world \<Rightarrow> nat result \<times> artifact_world" where
  "cleanupAbandoned store now olderThan eventIds w =
     (case w of (db, fs) \<Rightarrow>
      let rs = abandoned_sessions olderThan db
      in case cleanup_rows store (to_iso now) (zip (map eventIds [0..<length rs]) rs) (db, fs) of
           (Inl e, fs') \<Rightarrow> (Inl e, db, fs')
         | (Inr db', fs') \<Rightarrow> (Inr (length rs), db', fs'))"

section \<open>Queries\<close>

record artifact_filters =
  af_workspaceId :: "string option"
  af_sourceId :: "string option"
  af_runId :: "string option"
  af_executionAttemptId :: "string option"
  af_artifactKind :: "string option"
  af_status :: "string option"
  af_mimeType :: "string option"
  af_sha256 :: "string option"
  af_q :: "string option"
  af_limit :: "rat option"
  af_offset :: "rat option"

definition artifact_where :: "artifact_filters \<Rightarrow> raw_row \<Rightarrow> bool" where
  "artifact_where f r \<longleftrightarrow>
     (let a = rw_document r in
      given (af_workspaceId f) (\<lambda>v. raw_workspaceId a = v)
      \<and> given (af_sourceId f) (\<lambda>v. raw_sourceId a = v)
      \<and> given (af_runId f) (\<lambda>v. raw_collectionRunId a = v)
      \<and> given (af_executionAttemptId f) (\<lambda>v. rw_execution_attempt_id r = v)
      \<and> given (af_artifactKind f) (\<lambda>v. raw_artifactKind a = v)
      \<and> given (af_status f) (\<lambda>v. raw_status a = v)
      \<and> given (af_mimeType f) (\<lambda>v. raw_mimeType a = v)
      \<and> given (af_sha256 f) (\<lambda>v. rw_content_digest r = v)
      \<and> given (map_option trim (af_q f)) (\<lambda>q.
           sql_like (''%'' @ q @ ''%'') (raw_originalName a)
           \<or> (case raw_canonicalUri a of None \<Rightarrow> False | Some u \<Rightarrow> sql_like (''%'' @ q @ ''%'') u)))"

record artifact_list =
  al_items :: "artifact_view list"
  al_total :: nat
  al_limit :: int
  al_offset :: int
  al_summary :: "(string \<times> nat) list"
  al_summary_total :: nat

definition listArtifacts :: "artifact_filters \<Rightarrow> artifact_db \<Rightarrow> artifact_list result" where
  "listArtifacts f db =
     and_then (normalizeLimit (af_limit f)) (\<lambda>limit.
     and_then (normalizeOffset (af_offset f)) (\<lambda>offset.
       if \<not> given (af_artifactKind f) (\<lambda>k. k \<in> set ARTIFACT_KINDS)
          \<or> \<not> given (af_status f) (\<lambda>k. k \<in> set ARTIFACT_STATUSES)
          \<or> \<not> given (af_sha256 f) is_sha256
       then Inl RegistryValidationError
       else
         let matching = filter (artifact_where f) (ad_artifacts db);
             rows = take (nat limit) (drop (nat offset) (newest_first matching));
             summary = count_by (\<lambda>r. raw_status (rw_document r)) ARTIFACT_STATUSES (ad_artifacts db)
         in and_then (map_result (\<lambda>r. getArtifact db (rw_id r)) rows) (\<lambda>found.
              Inr \<lparr> al_items = concat (map (\<lambda>x. case x of None \<Rightarrow> [] | Some a \<Rightarrow> [a]) found),
                    al_total = length matching, al_limit = limit, al_offset = offset,
                    al_summary = summary, al_summary_total = sum_list (map snd summary) \<rparr>)))"

record content_location =
  cl_path :: "string list"
  cl_mimeType :: string
  cl_originalName :: string
  cl_sizeBytes :: int

definition contentPath :: "content_store \<Rightarrow> string \<Rightarrow> artifact_world \<Rightarrow> content_location result" where
  "contentPath store i w =
     (case w of (db, fs) \<Rightarrow>
      (case find_by rw_id i (ad_artifacts db) of
         None \<Rightarrow> Inl (RegistryError (Artifact RAW_ARTIFACT_NOT_FOUND))
       | Some r \<Rightarrow>
           (case find_by co_digest (rw_content_digest r) (ad_objects db) of
              None \<Rightarrow> Inl (RegistryError (Artifact RAW_ARTIFACT_NOT_FOUND))
            | Some ob \<Rightarrow>
                and_then (parseRawArtifact (rw_document r)) (\<lambda>a.
                and_then (resolveObject store (co_relative_path ob) fs) (\<lambda>path.
                  Inr \<lparr> cl_path = path, cl_mimeType = raw_mimeType a, cl_originalName = raw_originalName a,
                        cl_sizeBytes = raw_sizeBytes a \<rparr>)))))"

text \<open>\<open>assertFinalizedArtifactReceipts\<close>: the receipts an execution names, each with its artifact.\<close>

definition finalized_receipt :: "artifact_db \<Rightarrow> string \<Rightarrow> (ingestion_receipt \<times> raw_artifact) result" where
  "finalized_receipt db i =
     (case find_by rw_receipt_id i (ad_artifacts db) of
        None \<Rightarrow> conflict (Execution ARTIFACT_RECEIPT_NOT_FINALIZED)
      | Some r \<Rightarrow>
          (case find_by ir_id (rw_session_id r) (ad_sessions db) of
             None \<Rightarrow> conflict (Execution ARTIFACT_RECEIPT_NOT_FINALIZED)
           | Some s \<Rightarrow>
               if ing_status (ir_document s) \<noteq> G_FINALIZED
               then conflict (Execution ARTIFACT_RECEIPT_NOT_FINALIZED)
               else
                 (case ir_receipt s of
                    None \<Rightarrow> Inl RegistryValidationError
                  | Some rc \<Rightarrow>
                      and_then (parseReceipt rc) (\<lambda>rc'.
                      and_then (parseRawArtifact (rw_document r)) (\<lambda>a. Inr (rc', a))))))"

definition assertFinalizedArtifactReceipts :: "artifact_db \<Rightarrow> string \<Rightarrow> json \<Rightarrow> unit result" where
  "assertFinalizedArtifactReceipts db attemptId receipt =
     (if \<not> isExecutionReceipt receipt then Inl RegistryValidationError
      else if receipt_field ''metadataOnly'' receipt = JBool True then Inr ()
      else
        and_then (map_result (finalized_receipt db)
                    (json_texts (receipt_field ''artifactReceiptIds'' receipt))) (\<lambda>rs.
          if list_ex (\<lambda>(rc, a). rcp_executionAttemptId rc \<noteq> attemptId) rs
          then conflict (Execution ARTIFACT_RECEIPT_EXECUTION_MISMATCH)
          else if sort (unique_list (map (\<lambda>(rc, a). raw_artifactKind a) rs))
                  \<noteq> sort (json_texts (receipt_field ''outputKinds'' receipt))
          then conflict (Artifact ARTIFACT_RECEIPT_KIND_MISMATCH)
          else if of_nat (length rs) \<noteq> json_number (receipt_field ''itemsObserved'' receipt)
                  \<or> of_int (sum_list (map (\<lambda>(rc, a). raw_sizeBytes a) rs))
                    \<noteq> json_number (receipt_field ''bytesPrepared'' receipt)
          then conflict (Execution ARTIFACT_RECEIPT_TOTAL_MISMATCH) else Inr ()))"

end
