(* ===== verification/Artifact_Protocol.thy ===== *)
theory Artifact_Protocol
  imports Artifact_Uploads Control_Plane
begin

text \<open>
  The ingestion of artifacts as a system: the tables, the files and the calls that await the file
  system. Calls of \<open>SqliteRawArtifactRepository\<close> and of the control plane interleave at every await.
  The invariant: every content object is a file with the digest and the size its row states and as
  many references as there are artifacts of it, every artifact has its finalized session with the
  receipt that names it, and an upload in flight is the only call in flight on its session.
\<close>

section \<open>The system\<close>

record artifact_system =
  sy_db :: artifact_db
  sy_files :: file_system
  sy_tasks :: "artifact_task list"

fun tasks_of :: "artifact_progress \<Rightarrow> artifact_task list" where
  "tasks_of (Await t) = [t]"
| "tasks_of (Settled _) = []"

text \<open>What the completion check of the control plane reads of the tables.\<close>

definition evidence_row :: "raw_row \<Rightarrow> artifact_row" where
  "evidence_row r =
     \<lparr> xr_receipt_id = rw_receipt_id r, xr_execution_attempt_id = rw_execution_attempt_id r,
       xr_session_id = rw_session_id r, xr_document = raw_artifact_json (rw_document r) \<rparr>"

definition evidence_session :: "ingestion_row \<Rightarrow> session_row" where
  "evidence_session s =
     \<lparr> sr_id = ir_id s, sr_status = ingestion_status_name (ing_status (ir_document s)),
       sr_receipt = map_option (\<lambda>rc. stringify (\<lambda>_. []) (receipt_json rc)) (ir_receipt s) \<rparr>"

definition evidence_store :: "artifact_db \<Rightarrow> control_store" where
  "evidence_store db = (ad_control db)\<lparr>artifacts :=
     Some (map evidence_row (ad_artifacts db), map evidence_session (ad_sessions db))\<rparr>"

inductive artifact_step :: "content_store \<Rightarrow> artifact_system \<Rightarrow> artifact_system \<Rightarrow> bool" for store where
  create: "artifact_step store sy (sy\<lparr>sy_db := snd (createSession env t now i eventId inp (sy_db sy))\<rparr>)"
| upload: "upload_begin env t su workerId credential leaseId leaseToken sessionId stream (sy_db sy) = (p, db') \<Longrightarrow>
    artifact_step store sy (sy\<lparr>sy_db := db', sy_tasks := sy_tasks sy @ tasks_of p\<rparr>)"
| finalize: "artifact_step store sy (sy\<lparr>sy_tasks := sy_tasks sy
    @ tasks_of (finalize_begin env t su workerId credential leaseId leaseToken sessionId (sy_db sy))\<rparr>)"
| resume: "sy_tasks sy = pre @ task # post \<Longrightarrow>
    resume store su task (sy_db sy, sy_files sy) = (p, db', fs') \<Longrightarrow>
    artifact_step store sy \<lparr> sy_db = db', sy_files = fs', sy_tasks = pre @ tasks_of p @ post \<rparr>"
| abort: "abort env store t now eventId workerId credential leaseId leaseToken sessionId reason
      (sy_db sy, sy_files sy) = (res, db', fs') \<Longrightarrow>
    artifact_step store sy (sy\<lparr>sy_db := db', sy_files := fs'\<rparr>)"
| cleanup: "cleanupAbandoned store now olderThan eventIds (sy_db sy, sy_files sy) = (res', db', fs') \<Longrightarrow>
    artifact_step store sy (sy\<lparr>sy_db := db', sy_files := fs'\<rparr>)"
| control: "control_call (evidence_store (sy_db sy)) c \<Longrightarrow>
    artifact_step store sy (sy\<lparr>sy_db := (sy_db sy)\<lparr>ad_control := c\<rparr>\<rparr>)"

definition empty_system :: "content_store \<Rightarrow> artifact_system \<Rightarrow> bool" where
  "empty_system store sy \<longleftrightarrow>
     ad_sessions (sy_db sy) = [] \<and> ad_objects (sy_db sy) = [] \<and> ad_artifacts (sy_db sy) = []
     \<and> ad_events (sy_db sy) = [] \<and> sy_tasks sy = []"

definition reachable_system :: "content_store \<Rightarrow> artifact_system \<Rightarrow> bool" where
  "reachable_system store sy \<longleftrightarrow> (\<exists>sy0. empty_system store sy0 \<and> (artifact_step store)\<^sup>*\<^sup>* sy0 sy)"

section \<open>What the writers do\<close>

lemma updateSession_Inr [simp]:
  "updateSession s opts db = Inr db' \<longleftrightarrow> session_valid s \<and> db' = write_session s opts db"
  by (auto simp: updateSession_def doc_simps)

lemma insertIngestionEvent_Inr:
  assumes "insertIngestionEvent eventId i ty now failure db = Inr db'"
  obtains e where "e = \<lparr> iev_id = eventId, iev_sessionId = i, iev_sequence = next_sequence i db,
      iev_eventType = ty, iev_recordedAt = now, iev_failure = failure \<rparr>" "ingestion_event_valid e"
    "i \<in> ir_id ` set (ad_sessions db)" "db' = db\<lparr>ad_events := ad_events db @ [e]\<rparr>"
  using assms by (auto simp: insertIngestionEvent_def Let_def doc_simps split: if_splits)

definition session_status :: "artifact_db \<Rightarrow> string \<Rightarrow> ingestion_status option" where
  "session_status db i = map_option (\<lambda>r. ing_status (ir_document r)) (find_by ir_id i (ad_sessions db))"

abbreviation written_row :: "ingestion_session \<Rightarrow> session_options \<Rightarrow> ingestion_row \<Rightarrow> ingestion_row" where
  "written_row s opts r \<equiv>
     r\<lparr>ir_document := s,
       ir_verification := coalesce (so_verification opts) (ir_verification r),
       ir_receipt := coalesce (so_receipt opts) (ir_receipt r),
       ir_failure := coalesce (so_failure opts) (ir_failure r),
       ir_temp_relative_path := so_temp opts\<rparr>"

lemma write_session_fields [simp]:
  "ad_control (write_session s opts db) = ad_control db" "ad_objects (write_session s opts db) = ad_objects db"
  "ad_artifacts (write_session s opts db) = ad_artifacts db" "ad_events (write_session s opts db) = ad_events db"
  by (simp_all add: write_session_def)

lemma ir_ids_written [simp]: "map ir_id (ad_sessions (write_session s opts db)) = map ir_id (ad_sessions db)"
  by (simp add: write_session_def update_by_def ir_id_def)

lemma ir_ids_written_set [simp]: "ir_id ` set (ad_sessions (write_session s opts db)) = ir_id ` set (ad_sessions db)"
  by (metis ir_ids_written set_map)

lemma ir_id_written: "ir_id (written_row s opts r) = ing_id s"
  by (simp add: ir_id_def)

lemma find_written:
  "find_by ir_id i (ad_sessions (write_session s opts db)) =
     (if i = ing_id s then map_option (written_row s opts) (find_by ir_id i (ad_sessions db))
      else find_by ir_id i (ad_sessions db))"
proof -
  have "find_by ir_id i (update_by ir_id (ing_id s) (written_row s opts) rs) =
     (if i = ing_id s then map_option (written_row s opts) (find_by ir_id i rs) else find_by ir_id i rs)" for rs
    by (induction rs) (auto simp: ir_id_written)
  then show ?thesis by (simp add: write_session_def)
qed

lemma status_written:
  "session_status db (ing_id s) \<noteq> None \<Longrightarrow>
     session_status (write_session s opts db) = (session_status db)(ing_id s \<mapsto> ing_status s)"
  by (auto simp: fun_eq_iff session_status_def find_written)

lemma session_status_other [simp]:
  "session_status (db\<lparr>ad_control := c\<rparr>) = session_status db" "session_status (db\<lparr>ad_events := es\<rparr>) = session_status db"
  "session_status (db\<lparr>ad_objects := os\<rparr>) = session_status db" "session_status (db\<lparr>ad_artifacts := as\<rparr>) = session_status db"
  by (simp_all add: session_status_def fun_eq_iff)

interpretation object_reference: keyed_update co_digest
    "\<lambda>r. r\<lparr>co_reference_count := co_reference_count r + 1, co_verified_at := verifiedAt\<rparr>" for verifiedAt
  by unfold_locales simp

section \<open>The invariant of the tables\<close>

definition session_row_ok :: "ingestion_row \<Rightarrow> bool" where
  "session_row_ok r \<longleftrightarrow>
     session_valid (ir_document r) \<and> optionally verification_valid (ir_verification r)
     \<and> optionally receipt_valid (ir_receipt r)
     \<and> ir_temp_relative_path r \<in> {None, Some (session_rel (ir_id r))}
     \<and> (ing_status (ir_document r) \<in> {G_UPLOADING, G_VERIFIED} \<longrightarrow> ir_temp_relative_path r \<noteq> None)"

definition object_ok :: "content_store \<Rightarrow> file_system \<Rightarrow> raw_row list \<Rightarrow> content_object_row \<Rightarrow> bool" where
  "object_ok store fs rs ob \<longleftrightarrow>
     is_sha256 (co_digest ob) \<and> co_relative_path ob = object_rel (co_digest ob)
     \<and> co_storage_uri ob = storage_uri (co_digest ob)
     \<and> (\<exists>c. fs (object_path store (co_digest ob)) = Some c \<and> cs_digest store c = co_digest ob
          \<and> int (length c) = co_size_bytes ob)
     \<and> co_reference_count ob = int (length (filter (\<lambda>r. rw_content_digest r = co_digest ob) rs))"

definition receipt_of :: "raw_row \<Rightarrow> ingestion_receipt \<Rightarrow> bool" where
  "receipt_of r rc \<longleftrightarrow>
     rcp_id rc = rw_receipt_id r \<and> rcp_sessionId rc = rw_session_id r \<and> rcp_artifactId rc = rw_id r
     \<and> rcp_executionAttemptId rc = rw_execution_attempt_id r \<and> rcp_contentSha256 rc = rw_content_digest r
     \<and> rcp_sizeBytes rc = raw_sizeBytes (rw_document r) \<and> rcp_artifactKind rc = raw_artifactKind (rw_document r)"

definition artifact_row_ok :: "artifact_db \<Rightarrow> raw_row \<Rightarrow> bool" where
  "artifact_row_ok db r \<longleftrightarrow>
     raw_artifact_valid (rw_document r) \<and> raw_sha256 (rw_document r) = rw_content_digest r
     \<and> (\<exists>ob. find_by co_digest (rw_content_digest r) (ad_objects db) = Some ob
          \<and> co_size_bytes ob = raw_sizeBytes (rw_document r))
     \<and> (\<exists>s rc. find_by ir_id (rw_session_id r) (ad_sessions db) = Some s
          \<and> ing_status (ir_document s) = G_FINALIZED \<and> ir_receipt s = Some rc \<and> receipt_of r rc)"

definition tables_ok :: "content_store \<Rightarrow> file_system \<Rightarrow> artifact_db \<Rightarrow> bool" where
  "tables_ok store fs db \<longleftrightarrow>
     distinct (map ir_id (ad_sessions db)) \<and> distinct (map co_digest (ad_objects db))
     \<and> distinct (map rw_id (ad_artifacts db)) \<and> distinct (map rw_session_id (ad_artifacts db))
     \<and> distinct (map rw_receipt_id (ad_artifacts db))
     \<and> (\<forall>r\<in>set (ad_sessions db). session_row_ok r)
     \<and> (\<forall>ob\<in>set (ad_objects db). object_ok store fs (ad_artifacts db) ob)
     \<and> (\<forall>r\<in>set (ad_artifacts db). artifact_row_ok db r)
     \<and> (\<forall>r\<in>set (ad_sessions db). ing_status (ir_document r) = G_FINALIZED \<longrightarrow>
          ir_id r \<in> rw_session_id ` set (ad_artifacts db))"

lemma tables_ok_other [simp]:
  "tables_ok store fs (db\<lparr>ad_control := c\<rparr>) = tables_ok store fs db"
  "tables_ok store fs (db\<lparr>ad_events := es\<rparr>) = tables_ok store fs db"
  by (simp_all add: tables_ok_def artifact_row_ok_def)

lemma object_ok_files: "object_ok store fs rs ob \<Longrightarrow> keeps_files store fs fs' \<Longrightarrow> object_ok store fs' rs ob"
  by (auto simp: object_ok_def dest: keeps_object)

lemma tables_ok_files: "tables_ok store fs db \<Longrightarrow> keeps_files store fs fs' \<Longrightarrow> tables_ok store fs' db"
  unfolding tables_ok_def using object_ok_files by blast

lemma finalized_statusD:
  assumes "tables_ok store fs db" "r \<in> set (ad_artifacts db)"
  shows "session_status db (rw_session_id r) = Some G_FINALIZED"
  using assms by (auto simp: tables_ok_def artifact_row_ok_def session_status_def)

lemma session_row:
  assumes "tables_ok store fs db" "find_by ir_id i (ad_sessions db) = Some r"
  shows "session_row_ok r" "ir_id r = i" "session_valid (ir_document r)" "is_typed_id ''ing'' i"
    "ir_temp_relative_path r = None \<or> ir_temp_relative_path r = Some (session_rel i)"
proof -
  from find_by_SomeD [OF assms(2)] assms(1) show "session_row_ok r" "ir_id r = i"
    by (simp_all add: tables_ok_def)
  then show "session_valid (ir_document r)" "is_typed_id ''ing'' i"
    "ir_temp_relative_path r = None \<or> ir_temp_relative_path r = Some (session_rel i)"
    by (auto simp: session_row_ok_def session_valid_def ir_id_def)
qed

text \<open>A session that is not finalized may be written, to any other state.\<close>

lemma tables_ok_write:
  assumes ok: "tables_ok store fs db" and old: "session_status db (ing_id s) \<noteq> Some G_FINALIZED"
    and new: "session_valid s" "ing_status s \<noteq> G_FINALIZED"
    and opts: "optionally verification_valid (so_verification opts)" "so_receipt opts = None"
      "so_temp opts \<in> {None, Some (session_rel (ing_id s))}"
      "ing_status s \<in> {G_UPLOADING, G_VERIFIED} \<longrightarrow> so_temp opts \<noteq> None"
  shows "tables_ok store fs (write_session s opts db)"
proof -
  let ?db = "write_session s opts db"
  have row: "session_row_ok r \<and> (ing_status (ir_document r) = G_FINALIZED \<longrightarrow> ir_id r \<in> rw_session_id ` set (ad_artifacts db))"
    if "r \<in> set (ad_sessions ?db)" for r
  proof -
    from that consider "r \<in> set (ad_sessions db)"
      | r0 where "r0 \<in> set (ad_sessions db)" "ir_id r0 = ing_id s" "r = written_row s opts r0"
      by (auto simp: write_session_def set_update_by split: if_splits)
    then show ?thesis
    proof cases
      case 1
      with ok show ?thesis by (simp add: tables_ok_def)
    next
      case 2
      with ok have "session_row_ok r0" by (simp add: tables_ok_def)
      with 2 new opts show ?thesis
        by (cases "so_verification opts") (auto simp: session_row_ok_def ir_id_def)
    qed
  qed
  have art: "artifact_row_ok ?db r" if r: "r \<in> set (ad_artifacts db)" for r
  proof -
    have "rw_session_id r \<noteq> ing_id s" using finalized_statusD [OF ok r] old by auto
    moreover have "artifact_row_ok db r" using ok r by (simp add: tables_ok_def)
    ultimately show ?thesis by (simp add: artifact_row_ok_def find_written)
  qed
  show ?thesis
    unfolding tables_ok_def write_session_fields ir_ids_written
    using ok row art by (simp add: tables_ok_def)
qed

lemma tables_ok_insert:
  assumes ok: "tables_ok store fs db" and ins: "insert_session h s db = Inr db'"
    and s: "session_valid s" "ing_status s = G_CREATED"
  shows "tables_ok store fs db'" "session_status db (ing_id s) = None"
    "session_status db' = (session_status db)(ing_id s \<mapsto> G_CREATED)"
proof -
  let ?r = "\<lparr> ir_descriptor_hash = h, ir_document = s, ir_verification = None,
      ir_receipt = None, ir_failure = None, ir_temp_relative_path = None \<rparr>"
  from ins have db': "db' = db\<lparr>ad_sessions := ad_sessions db @ [?r]\<rparr>"
    and fresh: "ing_id s \<notin> ir_id ` set (ad_sessions db)"
    by (auto simp: insert_session_def split: if_splits)
  have [simp]: "ir_id ?r = ing_id s" by (simp add: ir_id_def)
  have none: "find_by ir_id (ing_id s) (ad_sessions db) = None" using fresh by (simp add: find_by_None)
  then show "session_status db (ing_id s) = None" by (simp add: session_status_def)
  show "session_status db' = (session_status db)(ing_id s \<mapsto> G_CREATED)"
    using none s by (auto simp: fun_eq_iff session_status_def db' find_by_append split: option.splits)
  have "artifact_row_ok db' r" if "r \<in> set (ad_artifacts db)" for r
    using ok that by (auto simp: tables_ok_def artifact_row_ok_def db' find_by_append)
  moreover have "session_row_ok ?r" using s by (simp add: session_row_ok_def)
  ultimately show "tables_ok store fs db'"
    using ok fresh s by (auto simp: tables_ok_def db')
qed

section \<open>Registering an artifact\<close>

definition finalized_session :: "finalization \<Rightarrow> ingestion_session" where
  "finalized_session f = (fz_session f)\<lparr>ing_status := G_FINALIZED, ing_updatedAt := fz_now f,
     ing_finalizedAt := Some (fz_now f)\<rparr>"

definition object_row :: "finalization \<Rightarrow> content_object_row" where
  "object_row f =
     (let v = fz_verification f in
      \<lparr> co_digest = ver_observedSha256 v, co_size_bytes = ver_observedSizeBytes v,
        co_relative_path = object_rel (ver_observedSha256 v), co_storage_uri = storage_uri (ver_observedSha256 v),
        co_reference_count = 1, co_created_at = fz_now f, co_verified_at = fz_now f \<rparr>)"

definition raw_row_of :: "finalization \<Rightarrow> raw_artifact \<Rightarrow> ingestion_receipt \<Rightarrow> raw_row" where
  "raw_row_of f a rc =
     (let s = fz_session f in
      \<lparr> rw_job_id = ing_jobId s, rw_job_attempt = ing_jobAttempt s,
        rw_execution_attempt_id = ing_executionAttemptId s, rw_session_id = ing_id s,
        rw_receipt_id = rcp_id rc, rw_content_digest = ver_observedSha256 (fz_verification f), rw_document = a \<rparr>)"

lemma finalize_rows_Inr:
  assumes "finalize_rows su f (object_rel (ver_observedSha256 (fz_verification f))) a rc db = Inr db'"
  obtains db1 db2 e where "upsert_object (object_row f) db = Inr db1"
    "insert_raw_artifact (raw_row_of f a rc) db1 = Inr db2" "session_valid (finalized_session f)"
    "insertIngestionEvent (su_eventId su) (ing_id (fz_session f)) I_FINALIZED (fz_now f) None
       (write_session (finalized_session f) (no_session_options\<lparr>so_receipt := Some rc\<rparr>) db2) = Inr db'"
  using assms
  by (auto simp: finalize_rows_def object_row_def raw_row_of_def finalized_session_def and_then_Inr Let_def)

text \<open>The file an object row of this content needs.\<close>

definition object_file :: "content_store \<Rightarrow> file_system \<Rightarrow> verification_result \<Rightarrow> bool" where
  "object_file store fs v \<longleftrightarrow>
     (\<exists>c. fs (object_path store (ver_observedSha256 v)) = Some c
        \<and> cs_digest store c = ver_observedSha256 v \<and> int (length c) = ver_observedSizeBytes v)"

lemma object_file_keeps: "object_file store fs v \<Longrightarrow> keeps_files store fs fs' \<Longrightarrow> object_file store fs' v"
  by (auto simp: object_file_def dest: keeps_object)

text \<open>
  After the upsert and the insertion the counts agree again; the row lookups are those of the
  tables before, except for the new artifact and its object.
\<close>

lemma upsert_insert_objects:
  assumes ok: "tables_ok store fs db" and up: "upsert_object (object_row f) db = Inr db1"
    and ins: "insert_raw_artifact r db1 = Inr db2"
    and r: "rw_content_digest r = ver_observedSha256 (fz_verification f)"
    and v: "verification_valid (fz_verification f)" "object_file store fs (fz_verification f)"
  shows "\<forall>ob\<in>set (ad_objects db2). object_ok store fs (ad_artifacts db @ [r]) ob"
    "distinct (map co_digest (ad_objects db2))"
    "\<And>d ob. find_by co_digest d (ad_objects db) = Some ob \<Longrightarrow>
       \<exists>ob'. find_by co_digest d (ad_objects db2) = Some ob' \<and> co_size_bytes ob' = co_size_bytes ob"
    "\<exists>ob. find_by co_digest (rw_content_digest r) (ad_objects db2) = Some ob
       \<and> co_size_bytes ob = ver_observedSizeBytes (fz_verification f)"
proof -
  let ?d = "ver_observedSha256 (fz_verification f)"
  let ?upd = "\<lambda>ob. ob\<lparr>co_reference_count := co_reference_count ob + 1, co_verified_at := fz_now f\<rparr>"
  have row: "co_digest (object_row f) = ?d" by (simp add: object_row_def Let_def)
  have objs: "ad_objects db2 = ad_objects db1" using ins by (auto simp: insert_raw_artifact_def Let_def split: if_splits)
  have old: "\<forall>ob\<in>set (ad_objects db). object_ok store fs (ad_artifacts db) ob"
    and dist: "distinct (map co_digest (ad_objects db))"
    using ok by (simp_all add: tables_ok_def)
  have other: "object_ok store fs (ad_artifacts db @ [r]) ob"
    if "ob \<in> set (ad_objects db)" "co_digest ob \<noteq> ?d" for ob
    using old that r by (auto simp: object_ok_def)
  have all: "(\<forall>ob\<in>set (ad_objects db1). object_ok store fs (ad_artifacts db @ [r]) ob)
    \<and> distinct (map co_digest (ad_objects db1))
    \<and> (\<forall>d ob. find_by co_digest d (ad_objects db) = Some ob \<longrightarrow>
        (\<exists>ob'. find_by co_digest d (ad_objects db1) = Some ob' \<and> co_size_bytes ob' = co_size_bytes ob))
    \<and> (\<exists>ob. find_by co_digest ?d (ad_objects db1) = Some ob
        \<and> co_size_bytes ob = ver_observedSizeBytes (fz_verification f))"
  proof (cases "find_by co_digest ?d (ad_objects db)")
    case None
    with up row have db1: "db1 = db\<lparr>ad_objects := ad_objects db @ [object_row f]\<rparr>"
      by (simp add: upsert_object_def split: if_splits)
    have no: "?d \<notin> co_digest ` set (ad_objects db)" using None by (simp add: find_by_None)
    have "filter (\<lambda>x. rw_content_digest x = ?d) (ad_artifacts db) = []"
    proof -
      have "rw_content_digest x \<in> co_digest ` set (ad_objects db)" if "x \<in> set (ad_artifacts db)" for x
        using ok that find_by_None [of co_digest "rw_content_digest x" "ad_objects db"]
        by (force simp: tables_ok_def artifact_row_ok_def)
      with no show ?thesis unfolding filter_empty_conv by metis
    qed
    then have "object_ok store fs (ad_artifacts db @ [r]) (object_row f)"
      using v r by (auto simp: object_ok_def object_row_def Let_def verification_valid_def object_file_def)
    moreover have "object_ok store fs (ad_artifacts db @ [r]) ob" if "ob \<in> set (ad_objects db)" for ob
      using other [OF that] no that by force
    ultimately show ?thesis
      using dist no row
      by (auto simp: db1 find_by_append None) (simp add: object_row_def Let_def)
  next
    case (Some ob0)
    with up row have db1: "db1 = db\<lparr>ad_objects := update_by co_digest ?d ?upd (ad_objects db)\<rparr>"
      by (simp add: upsert_object_def object_row_def Let_def)
    have ob0: "ob0 \<in> set (ad_objects db)" "co_digest ob0 = ?d" using find_by_SomeD [OF Some] by simp_all
    have "object_ok store fs (ad_artifacts db @ [r]) ob" if "ob \<in> set (ad_objects db1)" for ob
    proof -
      from that db1 have "ob \<in> set (update_by co_digest ?d ?upd (ad_objects db))" by simp
      from object_reference.in_updateD [OF this] show ?thesis
      proof (elim disjE conjE exE)
        fix x assume x: "x \<in> set (ad_objects db)" "co_digest x = ?d" "ob = ?upd x"
        with old have "object_ok store fs (ad_artifacts db) x" by blast
        with x r show ?thesis by (auto simp: object_ok_def)
      qed (rule other)
    qed
    moreover have "co_size_bytes ob0 = ver_observedSizeBytes (fz_verification f)"
    proof -
      have "object_ok store fs (ad_artifacts db) ob0" using old ob0 by blast
      with ob0 v(2) show ?thesis by (auto simp: object_ok_def object_file_def)
    qed
    ultimately show ?thesis
      using dist Some by (auto simp: db1 object_reference.find_update object_reference.distinct_update)
  qed
  with objs r show "\<forall>ob\<in>set (ad_objects db2). object_ok store fs (ad_artifacts db @ [r]) ob"
    "distinct (map co_digest (ad_objects db2))"
    "\<And>d ob. find_by co_digest d (ad_objects db) = Some ob \<Longrightarrow>
       \<exists>ob'. find_by co_digest d (ad_objects db2) = Some ob' \<and> co_size_bytes ob' = co_size_bytes ob"
    "\<exists>ob. find_by co_digest (rw_content_digest r) (ad_objects db2) = Some ob
       \<and> co_size_bytes ob = ver_observedSizeBytes (fz_verification f)"
    by simp_all
qed

lemma insert_raw_Inr:
  assumes "insert_raw_artifact r db = Inr db'"
  shows "db' = db\<lparr>ad_artifacts := ad_artifacts db @ [r]\<rparr>" "rw_id r \<notin> rw_id ` set (ad_artifacts db)"
    "rw_session_id r \<notin> rw_session_id ` set (ad_artifacts db)"
    "rw_receipt_id r \<notin> rw_receipt_id ` set (ad_artifacts db)" "rw_session_id r \<in> ir_id ` set (ad_sessions db)"
  using assms by (auto simp: insert_raw_artifact_def Let_def split: if_splits)

lemma upsert_fields:
  assumes "upsert_object ob db = Inr db'"
  shows "ad_artifacts db' = ad_artifacts db" "ad_sessions db' = ad_sessions db" "ad_control db' = ad_control db"
    "ad_events db' = ad_events db"
  using assms by (auto simp: upsert_object_def split: if_splits)

definition finalization_ok :: "finalization \<Rightarrow> bool" where
  "finalization_ok f \<longleftrightarrow>
     session_valid (fz_session f) \<and> verification_valid (fz_verification f)
     \<and> fz_temp f = session_rel (ing_id (fz_session f))"

text \<open>What \<open>finalize\<close> commits: the invariant again, with the session finalized.\<close>

lemma tables_ok_finalize:
  assumes ok: "tables_ok store fs db" and f: "finalization_ok f" and stored: "object_file store fs (fz_verification f)"
    and a: "a = new_raw_artifact f previous artifactId receiptId" "raw_artifact_valid a"
    and rc: "rc = new_receipt f artifactId receiptId" "receipt_valid rc"
    and rows: "finalize_rows su f (object_rel (ver_observedSha256 (fz_verification f))) a rc db = Inr db'"
  shows "tables_ok store fs db'" "session_status db' = (session_status db)(ing_id (fz_session f) \<mapsto> G_FINALIZED)"
    "find_by rw_id artifactId (ad_artifacts db') = Some (raw_row_of f a rc)"
    "find_by rw_id artifactId (ad_artifacts db) = None"
proof -
  let ?i = "ing_id (fz_session f)" and ?r = "raw_row_of f a rc" and ?s = "finalized_session f"
  let ?opts = "no_session_options\<lparr>so_receipt := Some rc\<rparr>"
  obtain db1 db2 e where up: "upsert_object (object_row f) db = Inr db1"
    and ins: "insert_raw_artifact ?r db1 = Inr db2" and s: "session_valid ?s"
    and ev: "insertIngestionEvent (su_eventId su) ?i I_FINALIZED (fz_now f) None (write_session ?s ?opts db2) = Inr db'"
    using finalize_rows_Inr [OF rows] by blast
  note u = upsert_fields [OF up] and n = insert_raw_Inr [OF ins]
  have r: "rw_content_digest ?r = ver_observedSha256 (fz_verification f)" "rw_session_id ?r = ?i"
    "rw_id ?r = artifactId" "rw_document ?r = a" "rw_receipt_id ?r = receiptId"
    by (simp_all add: raw_row_of_def rw_id_def a(1) rc(1) new_raw_artifact_def new_receipt_def Let_def)
  have v: "verification_valid (fz_verification f)" using f by (simp add: finalization_ok_def)
  note objs = upsert_insert_objects [OF ok up ins r(1) v stored]
  have arts2: "ad_artifacts db2 = ad_artifacts db @ [?r]" and sess2: "ad_sessions db2 = ad_sessions db"
    using n(1) u by simp_all
  have id: "ing_id ?s = ?i" "ing_status ?s = G_FINALIZED" by (simp_all add: finalized_session_def)
  have present: "?i \<in> ir_id ` set (ad_sessions db)" using n(5) r(2) u by simp
  then obtain row0 where row0: "find_by ir_id ?i (ad_sessions db) = Some row0"
    using find_by_None [of ir_id ?i "ad_sessions db"] by auto
  have find: "find_by ir_id ?i (ad_sessions (write_session ?s ?opts db2)) = Some (written_row ?s ?opts row0)"
    by (simp add: find_written id sess2 row0)
  let ?db = "write_session ?s ?opts db2"
  obtain es where db': "db' = ?db\<lparr>ad_events := es\<rparr>" by (rule insertIngestionEvent_Inr [OF ev])
  have rok: "receipt_of ?r rc"
    using r by (simp add: receipt_of_def rc(1) a(1) new_receipt_def new_raw_artifact_def raw_row_of_def Let_def)
  have sizes: "raw_sizeBytes a = ver_observedSizeBytes (fz_verification f)" "raw_sha256 a = ver_observedSha256 (fz_verification f)"
    by (simp_all add: a(1) new_raw_artifact_def Let_def)
  have art: "artifact_row_ok ?db x" if "x \<in> set (ad_artifacts db2)" for x
  proof (cases "x = ?r")
    case True
    have "\<exists>ob. find_by co_digest (rw_content_digest ?r) (ad_objects ?db) = Some ob \<and> co_size_bytes ob = raw_sizeBytes a"
      using objs(4) sizes(1) by simp
    moreover have "ing_status (ir_document (written_row ?s ?opts row0)) = G_FINALIZED"
      "ir_receipt (written_row ?s ?opts row0) = Some rc"
      by (simp_all add: finalized_session_def no_session_options_def)
    ultimately show ?thesis
      unfolding artifact_row_ok_def True r(2,4) using find rok a(2) sizes(2) r(1) by metis
  next
    case False
    with that arts2 have x: "x \<in> set (ad_artifacts db)" by simp
    then have "rw_session_id x \<noteq> ?i" using n(3) r(2) u by (auto simp: image_iff)
    moreover have "artifact_row_ok db x" using ok x by (simp add: tables_ok_def)
    ultimately show ?thesis
      using objs(3) by (fastforce simp: artifact_row_ok_def find_written id sess2)
  qed
  have row: "session_row_ok x \<and> (ing_status (ir_document x) = G_FINALIZED \<longrightarrow> ir_id x \<in> rw_session_id ` set (ad_artifacts db2))"
    if "x \<in> set (ad_sessions ?db)" for x
  proof -
    from that consider "x \<in> set (ad_sessions db)"
      | y where "y \<in> set (ad_sessions db)" "ir_id y = ?i" "x = written_row ?s ?opts y"
      by (auto simp: write_session_def set_update_by sess2 id split: if_splits)
    then show ?thesis
    proof cases
      case 1
      with ok arts2 show ?thesis by (auto simp: tables_ok_def)
    next
      case 2
      with ok have "session_row_ok y" by (simp add: tables_ok_def)
      with 2 s rc(2) arts2 r(2) id show ?thesis
        by (auto simp: session_row_ok_def ir_id_def no_session_options_def)
    qed
  qed
  have "tables_ok store fs ?db"
    unfolding tables_ok_def write_session_fields ir_ids_written
    using ok row art objs(1,2) n(2,3,4) u by (simp add: tables_ok_def arts2 sess2)
  then show "tables_ok store fs db'" unfolding db' by simp
  have "session_status db' = session_status ?db" unfolding db' by simp
  also have "\<dots> = (session_status db2)(ing_id ?s \<mapsto> ing_status ?s)"
    by (rule status_written) (simp add: session_status_def sess2 id row0)
  also have "\<dots> = (session_status db)(?i \<mapsto> G_FINALIZED)"
    by (simp add: session_status_def fun_eq_iff sess2 id)
  finally show "session_status db' = (session_status db)(?i \<mapsto> G_FINALIZED)" .
  have none: "find_by rw_id artifactId (ad_artifacts db) = None"
    using n(2) r(3) u by (simp add: find_by_None)
  then show "find_by rw_id artifactId (ad_artifacts db) = None" .
  have "ad_artifacts db' = ad_artifacts db @ [?r]" unfolding db' by (simp add: arts2)
  with none r(3) show "find_by rw_id artifactId (ad_artifacts db') = Some ?r" by (simp add: find_by_append)
qed

end
