(* ===== verification/Artifact_Invariant.thy ===== *)
theory Artifact_Invariant
  imports Artifact_Protocol
begin

text \<open>
  Every step of the artifact system keeps its invariant and leaves the content objects and the files
  outside the root alone: a step writes at most one session, whose state is not final, and the calls
  in flight on that session allow the state it gets.
\<close>

section \<open>Calls in flight\<close>

fun task_session :: "artifact_task \<Rightarrow> string" where
  "task_session (U_Opening s stream) = ing_id s"
| "task_session (U_Writing s rel target stream) = ing_id s"
| "task_session (U_Quarantining s v rel) = ing_id s"
| "task_session (U_Rejecting s v) = ing_id s"
| "task_session (F_Linking f) = ing_id (fz_session f)"
| "task_session (F_Removing f rel source) = ing_id (fz_session f)"
| "task_session (F_Clearing f rel source) = ing_id (fz_session f)"
| "task_session (F_Committing f rel) = ing_id (fz_session f)"

fun is_upload :: "artifact_task \<Rightarrow> bool" where
  "is_upload (F_Linking f) = False"
| "is_upload (F_Removing f rel source) = False"
| "is_upload (F_Clearing f rel source) = False"
| "is_upload (F_Committing f rel) = False"
| "is_upload _ = True"

definition allowed :: "artifact_task \<Rightarrow> ingestion_status set" where
  "allowed t = (if is_upload t then {G_UPLOADING, G_ABORTED} else {G_VERIFIED, G_FINALIZED, G_ABORTED})"

definition upload_session_ok :: "ingestion_session \<Rightarrow> bool" where
  "upload_session_ok s \<longleftrightarrow> session_valid s \<and> ing_status s = G_UPLOADING"

fun task_fields_ok :: "content_store \<Rightarrow> file_system \<Rightarrow> artifact_task \<Rightarrow> bool" where
  "task_fields_ok store fs (U_Opening s stream) = upload_session_ok s"
| "task_fields_ok store fs (U_Writing s rel target stream) =
     (upload_session_ok s \<and> rel = session_rel (ing_id s) \<and> target = session_path store (ing_id s))"
| "task_fields_ok store fs (U_Quarantining s v rel) =
     (upload_session_ok s \<and> verification_valid v \<and> rel = session_rel (ing_id s))"
| "task_fields_ok store fs (U_Rejecting s v) = (upload_session_ok s \<and> verification_valid v)"
| "task_fields_ok store fs (F_Linking f) = finalization_ok f"
| "task_fields_ok store fs (F_Removing f rel source) =
     (finalization_ok f \<and> rel = object_rel (ver_observedSha256 (fz_verification f))
      \<and> source = session_path store (ing_id (fz_session f)) \<and> object_file store fs (fz_verification f))"
| "task_fields_ok store fs (F_Clearing f rel source) =
     (finalization_ok f \<and> rel = object_rel (ver_observedSha256 (fz_verification f))
      \<and> source = session_path store (ing_id (fz_session f)) \<and> object_file store fs (fz_verification f))"
| "task_fields_ok store fs (F_Committing f rel) =
     (finalization_ok f \<and> rel = object_rel (ver_observedSha256 (fz_verification f))
      \<and> object_file store fs (fz_verification f))"

definition task_ok :: "content_store \<Rightarrow> file_system \<Rightarrow> artifact_db \<Rightarrow> artifact_task \<Rightarrow> bool" where
  "task_ok store fs db t \<longleftrightarrow>
     task_fields_ok store fs t \<and> session_status db (task_session t) \<in> Some ` allowed t"

definition apart :: "artifact_task \<Rightarrow> artifact_task \<Rightarrow> bool" where
  "apart t u \<longleftrightarrow> (is_upload t \<or> is_upload u \<longrightarrow> task_session t \<noteq> task_session u)"

definition tasks_ok :: "content_store \<Rightarrow> file_system \<Rightarrow> artifact_db \<Rightarrow> artifact_task list \<Rightarrow> bool" where
  "tasks_ok store fs db ts \<longleftrightarrow> (\<forall>t\<in>set ts. task_ok store fs db t) \<and> sorted_wrt apart ts"

definition system_ok :: "content_store \<Rightarrow> artifact_system \<Rightarrow> bool" where
  "system_ok store sy \<longleftrightarrow>
     tables_ok store (sy_files sy) (sy_db sy) \<and> tasks_ok store (sy_files sy) (sy_db sy) (sy_tasks sy)"

lemma apart_sym: "apart t u \<longleftrightarrow> apart u t"
  by (auto simp: apart_def)

lemma apart_like: "apart t u \<Longrightarrow> task_session t' = task_session t \<Longrightarrow> is_upload t' = is_upload t \<Longrightarrow> apart t' u"
  by (simp add: apart_def)

lemma task_fields_files:
  "task_fields_ok store fs t \<Longrightarrow> keeps_files store fs fs' \<Longrightarrow> task_fields_ok store fs' t"
  by (cases t) (auto dest: object_file_keeps)

lemma tasks_ok_files: "tasks_ok store fs db ts \<Longrightarrow> keeps_files store fs fs' \<Longrightarrow> tasks_ok store fs' db ts"
  unfolding tasks_ok_def task_ok_def using task_fields_files by blast

lemma tasks_ok_same: "session_status db' = session_status db \<Longrightarrow> tasks_ok store fs db' ts = tasks_ok store fs db ts"
  by (simp add: tasks_ok_def task_ok_def)

lemma tasks_ok_moved:
  assumes "tasks_ok store fs db ts" "session_status db' = (session_status db)(i \<mapsto> x)"
    "\<And>t. t \<in> set ts \<Longrightarrow> task_session t = i \<Longrightarrow> x \<in> allowed t"
  shows "tasks_ok store fs db' ts"
  using assms by (auto simp: tasks_ok_def task_ok_def)

lemma tasks_ok_without:
  assumes "tasks_ok store fs db (pre @ t # post)"
  shows "tasks_ok store fs db (pre @ post)" "task_ok store fs db t" "\<And>u. u \<in> set (pre @ post) \<Longrightarrow> apart t u"
  using assms by (auto simp: tasks_ok_def sorted_wrt_append apart_sym)

lemma tasks_ok_with:
  assumes "tasks_ok store fs db (pre @ post)" "task_ok store fs db t" "\<And>u. u \<in> set (pre @ post) \<Longrightarrow> apart t u"
  shows "tasks_ok store fs db (pre @ t # post)"
  using assms by (auto simp: tasks_ok_def sorted_wrt_append apart_sym)

text \<open>A call that begins on a session none of the calls in flight can be at.\<close>

lemma no_task_at:
  assumes "tasks_ok store fs db ts" "t \<in> set ts" "session_status db (task_session t) = st"
    "st \<notin> {Some G_UPLOADING, Some G_ABORTED, Some G_VERIFIED, Some G_FINALIZED}"
  shows False
  using assms by (auto simp: tasks_ok_def task_ok_def allowed_def split: if_splits)

section \<open>Writing one session\<close>

definition session_moved ::
    "content_store \<Rightarrow> file_system \<Rightarrow> artifact_db \<Rightarrow> artifact_db \<Rightarrow> string \<Rightarrow> ingestion_status \<Rightarrow> bool" where
  "session_moved store fs db db' i x \<longleftrightarrow>
     tables_ok store fs db' \<and> session_status db' = (session_status db)(i \<mapsto> x)"

lemma write_moved:
  assumes "tables_ok store fs db" "session_status db (ing_id s) = Some st" "st \<noteq> G_FINALIZED"
    "session_valid s" "ing_status s \<noteq> G_FINALIZED"
    "optionally verification_valid (so_verification opts)" "so_receipt opts = None"
    "so_temp opts \<in> {None, Some (session_rel (ing_id s))}"
    "ing_status s \<in> {G_UPLOADING, G_VERIFIED} \<longrightarrow> so_temp opts \<noteq> None"
    "insertIngestionEvent eventId i ty now failure (write_session s opts db) = Inr db'"
  shows "session_moved store fs db db' (ing_id s) (ing_status s)"
proof -
  obtain es where db': "db' = (write_session s opts db)\<lparr>ad_events := es\<rparr>"
    by (rule insertIngestionEvent_Inr [OF assms(10)])
  show ?thesis
    using tables_ok_write [OF assms(1) _ assms(4-9)] assms(2,3) by (simp add: session_moved_def db' status_written)
qed

lemma rejectSession_cases:
  assumes "rejectSession eventId s failure v db = (res, db')"
    and ok: "tables_ok store fs db" "session_status db (ing_id s) = Some st" "st \<noteq> G_FINALIZED"
      "optionally verification_valid v"
  shows "db' = db \<or> session_moved store fs db db' (ing_id s) G_QUARANTINED"
proof (cases res)
  case (Inl e)
  with assms(1) show ?thesis by (auto simp: rejectSession_def dest: in_transaction_error_rolls_back)
next
  case (Inr u)
  let ?s = "s\<lparr>ing_status := G_QUARANTINED, ing_updatedAt := ifl_occurredAt failure\<rparr>"
  let ?o = "no_session_options\<lparr>so_verification := v, so_failure := Some failure\<rparr>"
  from assms(1) Inr have v: "session_valid ?s"
    and e: "insertIngestionEvent eventId (ing_id s) I_UPLOAD_REJECTED (ifl_occurredAt failure) (Some failure)
      (write_session ?s ?o db) = Inr db'"
    by (auto simp: rejectSession_def in_transaction_commit and_then_Inr)
  have "session_moved store fs db db' (ing_id ?s) (ing_status ?s)"
    by (rule write_moved [OF ok(1) _ ok(3) v _ _ _ _ _ e]) (use ok in \<open>simp_all add: no_session_options_def\<close>)
  then show ?thesis by simp
qed

text \<open>What a call settles with, or goes on as, after a stretch of its own.\<close>

definition settled_or :: "artifact_progress \<Rightarrow> (artifact_task \<Rightarrow> bool) \<Rightarrow> bool" where
  "settled_or p P \<longleftrightarrow> (case p of Settled _ \<Rightarrow> True | Await t \<Rightarrow> P t)"

lemma settled_or_simps [simp]: "settled_or (Settled r) P" "settled_or (Await t) P = P t"
  by (simp_all add: settled_or_def)

definition goes_on ::
    "content_store \<Rightarrow> artifact_db \<Rightarrow> file_system \<Rightarrow> artifact_task \<Rightarrow> artifact_progress \<Rightarrow> artifact_db
     \<Rightarrow> file_system \<Rightarrow> bool" where
  "goes_on store db fs t p db' fs' \<longleftrightarrow>
     keeps_files store fs fs'
     \<and> (db' = db \<and> settled_or p (\<lambda>t'. task_fields_ok store fs' t' \<and> task_session t' = task_session t
              \<and> is_upload t' = is_upload t)
        \<or> (\<exists>x. session_moved store fs' db db' (task_session t) x \<and> tasks_of p = [] \<and>
              (is_upload t \<or> x = G_FINALIZED)))"

text \<open>That is enough for the invariant.\<close>

lemma goes_on_ok:
  assumes t: "tables_ok store fs db" "tasks_ok store fs db (pre @ t # post)" and g: "goes_on store db fs t p db' fs'"
  shows "tables_ok store fs' db'" "tasks_ok store fs' db' (pre @ tasks_of p @ post)"
proof -
  have k: "keeps_files store fs fs'" using g by (simp add: goes_on_def)
  note ts = tasks_ok_without [OF tasks_ok_files [OF t(2) k]]
  from g consider
    (same) "db' = db" "settled_or p (\<lambda>t'. task_fields_ok store fs' t' \<and> task_session t' = task_session t \<and> is_upload t' = is_upload t)"
    | (moved) x where "session_moved store fs' db db' (task_session t) x" "tasks_of p = []" "is_upload t \<or> x = G_FINALIZED"
    unfolding goes_on_def by blast
  then have "tables_ok store fs' db' \<and> tasks_ok store fs' db' (pre @ tasks_of p @ post)"
  proof cases
    case same
    show ?thesis
    proof (cases p)
      case (Await t')
      with same(2) have t': "task_fields_ok store fs' t'" "task_session t' = task_session t" "is_upload t' = is_upload t"
        by simp_all
      then have "task_ok store fs' db t'" using ts(2) by (simp add: task_ok_def allowed_def)
      moreover have "apart t' u" if "u \<in> set (pre @ post)" for u
        using ts(3) [OF that] t'(2,3) by (rule apart_like)
      ultimately show ?thesis
        using tasks_ok_with [OF ts(1)] tables_ok_files [OF t(1) k] same(1) Await by simp
    qed (use ts(1) tables_ok_files [OF t(1) k] same(1) in simp)
  next
    case moved
    have "x \<in> allowed u" if u: "u \<in> set (pre @ post)" "task_session u = task_session t" for u
    proof -
      have "\<not> is_upload t" "\<not> is_upload u" using ts(3) [OF u(1)] u(2) by (auto simp: apart_def)
      with moved(3) show ?thesis by (simp add: allowed_def)
    qed
    with moved(1,2) show ?thesis
      using tasks_ok_moved [OF ts(1), of db' "task_session t" x] by (auto simp: session_moved_def)
  qed
  then show "tables_ok store fs' db'" "tasks_ok store fs' db' (pre @ tasks_of p @ post)" by simp_all
qed

section \<open>Stretches\<close>

text \<open>The session of an upload in flight can be written, whatever the files are now.\<close>

definition uploading_at :: "content_store \<Rightarrow> file_system \<Rightarrow> artifact_db \<Rightarrow> ingestion_session \<Rightarrow> bool" where
  "uploading_at store fs db s \<longleftrightarrow>
     tables_ok store fs db \<and> upload_session_ok s \<and> session_status db (ing_id s) \<in> {Some G_UPLOADING, Some G_ABORTED}"

lemma uploading_atD:
  assumes "uploading_at store fs db s"
  shows "tables_ok store fs db" "\<exists>st. session_status db (ing_id s) = Some st \<and> st \<noteq> G_FINALIZED"
    "is_typed_id ''ing'' (ing_id s)" "session_valid s"
  using assms by (auto simp: uploading_at_def upload_session_ok_def session_valid_def)

lemma upload_failed_moves:
  assumes "upload_failed store su s e db = (p, db')" "uploading_at store fs db s"
  shows "tasks_of p = []" "db' = db \<or> session_moved store fs db db' (ing_id s) G_QUARANTINED"
proof -
  obtain res where r: "rejectSession (su_eventId su) s (storage_failure store su e) None db = (res, db')"
    and p: "tasks_of p = []"
    using assms(1) by (auto simp: upload_failed_def split: prod.splits sum.splits)
  show "tasks_of p = []" by (rule p)
  from uploading_atD(2) [OF assms(2)] obtain st where "session_status db (ing_id s) = Some st" "st \<noteq> G_FINALIZED" by blast
  then show "db' = db \<or> session_moved store fs db db' (ing_id s) G_QUARANTINED"
    by (rule rejectSession_cases [OF r uploading_atD(1) [OF assms(2)]]) simp
qed

lemma upload_rejected_moves:
  assumes "upload_rejected su s v db = (p, db')" "uploading_at store fs db s" "verification_valid v"
  shows "tasks_of p = []" "db' = db \<or> session_moved store fs db db' (ing_id s) G_QUARANTINED"
proof -
  obtain res where r: "rejectSession (su_eventId su) s (mismatch_failure v) (Some v) db = (res, db')"
    and p: "tasks_of p = []"
    using assms(1) by (auto simp: upload_rejected_def split: prod.splits sum.splits)
  show "tasks_of p = []" by (rule p)
  from uploading_atD(2) [OF assms(2)] obtain st where "session_status db (ing_id s) = Some st" "st \<noteq> G_FINALIZED" by blast
  then show "db' = db \<or> session_moved store fs db db' (ing_id s) G_QUARANTINED"
    by (rule rejectSession_cases [OF r uploading_atD(1) [OF assms(2)]]) (simp add: assms(3))
qed

lemma upload_end_moves:
  assumes "upload_end su s observed db = (p, db')" "uploading_at store fs db s"
    "ou_relativePath observed = session_rel (ing_id s)"
  shows "db' = db \<and> tasks_of p = []
    \<or> db' = db \<and> (\<exists>v. p = Await (U_Quarantining s v (session_rel (ing_id s))) \<and> verification_valid v)
    \<or> tasks_of p = [] \<and> session_moved store fs db db' (ing_id s) G_VERIFIED"
proof -
  let ?v = "observed_verification s observed (to_iso (su_now su))"
  let ?s = "s\<lparr>ing_status := G_VERIFIED, ing_updatedAt := ver_verifiedAt ?v\<rparr>"
  let ?o = "no_session_options\<lparr>so_verification := Some ?v, so_temp := Some (ou_relativePath observed)\<rparr>"
  let ?body = "and_then (updateSession ?s ?o db) (\<lambda>db1.
    and_then (insertIngestionEvent (su_eventId su) (ing_id s) I_UPLOAD_VERIFIED (ver_verifiedAt ?v) None db1)
      (\<lambda>db2. Inr ((), db2)))"
  consider "\<not> verification_valid ?v" | "verification_valid ?v" "ver_status ?v \<noteq> V_MATCHED"
    | "verification_valid ?v" "ver_status ?v = V_MATCHED" by blast
  then show ?thesis
  proof cases
    case 1
    with assms(1) show ?thesis by (auto simp: upload_end_def Let_def doc_simps)
  next
    case 2
    with assms(1,3) show ?thesis by (auto simp: upload_end_def Let_def doc_simps)
  next
    case 3
    then obtain res where t: "in_transaction db ?body = (res, db')" and p: "tasks_of p = []"
      using assms(1) by (auto simp: upload_end_def Let_def doc_simps split: prod.splits sum.splits)
    show ?thesis
    proof (cases res)
      case (Inl e)
      with t p show ?thesis by (auto dest: in_transaction_error_rolls_back)
    next
      case (Inr u)
      with t have v: "session_valid ?s"
        and e: "insertIngestionEvent (su_eventId su) (ing_id s) I_UPLOAD_VERIFIED (ver_verifiedAt ?v) None
          (write_session ?s ?o db) = Inr db'"
        by (auto simp: in_transaction_commit and_then_Inr)
      obtain st where st: "session_status db (ing_id s) = Some st" "st \<noteq> G_FINALIZED"
        using uploading_atD(2) [OF assms(2)] by blast
      have "session_moved store fs db db' (ing_id ?s) (ing_status ?s)"
        by (rule write_moved [OF uploading_atD(1) [OF assms(2)] _ st(2) v _ _ _ _ _ e])
          (use st 3 assms(3) in \<open>simp_all add: no_session_options_def\<close>)
      with p show ?thesis by simp
    qed
  qed
qed

lemma finalize_commit_moves:
  assumes "finalize_commit su f (object_rel (ver_observedSha256 (fz_verification f))) db = (p, db')"
    "tables_ok store fs db" "finalization_ok f" "object_file store fs (fz_verification f)"
  shows "tasks_of p = []" "db' = db \<or> session_moved store fs db db' (ing_id (fz_session f)) G_FINALIZED"
proof -
  let ?rel = "object_rel (ver_observedSha256 (fz_verification f))"
  have "tasks_of p = [] \<and> (db' = db \<or> session_moved store fs db db' (ing_id (fz_session f)) G_FINALIZED)"
  proof (cases "previous_artifact (fz_session f) db")
    case (Inl e)
    with assms(1) show ?thesis by (auto simp: finalize_commit_def)
  next
    case (Inr previous)
    let ?a = "new_raw_artifact f previous (su_artifactId su) (su_receiptId su)"
    let ?rc = "new_receipt f (su_artifactId su) (su_receiptId su)"
    show ?thesis
    proof (cases "raw_artifact_valid ?a \<and> receipt_valid ?rc")
      case False
      with Inr assms(1) show ?thesis by (auto simp: finalize_commit_def Let_def doc_simps)
    next
      case True
      let ?body = "and_then (finalize_rows su f ?rel ?a ?rc db) (\<lambda>db1. Inr ((), db1))"
      obtain res where t: "in_transaction db ?body = (res, db')" and p: "tasks_of p = []"
        using Inr True assms(1) by (auto simp: finalize_commit_def Let_def doc_simps split: prod.splits sum.splits)
      show ?thesis
      proof (cases res)
        case (Inl e)
        with t p show ?thesis by (auto dest: in_transaction_error_rolls_back)
      next
        case (Inr u)
        with t have rows: "finalize_rows su f ?rel ?a ?rc db = Inr db'"
          by (auto simp: in_transaction_commit and_then_Inr)
        from tables_ok_finalize(1,2) [OF assms(2-4) refl _ refl _ rows] True p show ?thesis
          by (simp add: session_moved_def)
      qed
    qed
  qed
  then show "tasks_of p = []" "db' = db \<or> session_moved store fs db db' (ing_id (fz_session f)) G_FINALIZED"
    by simp_all
qed

lemma task_okD:
  assumes "task_ok store fs db t" "tables_ok store fs db"
  shows "task_fields_ok store fs t" "session_status db (task_session t) \<in> Some ` allowed t"
  using assms by (simp_all add: task_ok_def)

lemma uploading_task:
  assumes "task_ok store fs db t" "tables_ok store fs db" "is_upload t" "task_session t = ing_id s"
    "upload_session_ok s" "keeps_files store fs fs'"
  shows "uploading_at store fs' db s"
  using assms tables_ok_files by (auto simp: uploading_at_def task_ok_def allowed_def)

lemma goes_onI:
  assumes "keeps_files store fs fs'" "tasks_of p = []"
    "db' = db \<or> session_moved store fs' db db' (task_session t) x" "is_upload t \<or> x = G_FINALIZED"
  shows "goes_on store db fs t p db' fs'"
  using assms by (cases p) (auto simp: goes_on_def)

lemma goes_on_await:
  "keeps_files store fs fs' \<Longrightarrow> task_fields_ok store fs' t' \<Longrightarrow> task_session t' = task_session t \<Longrightarrow>
     is_upload t' = is_upload t \<Longrightarrow> goes_on store db fs t (Await t') db fs'"
  by (simp add: goes_on_def)

lemma resume_goes_on:
  assumes "rooted store" "tables_ok store fs db" "task_ok store fs db t" "resume store su t (db, fs) = (p, db', fs')"
  shows "goes_on store db fs t p db' fs'"
proof (cases t)
  case (U_Opening s stream)
  have s: "upload_session_ok s" using assms(3) U_Opening by (simp add: task_ok_def)
  obtain res fs1 where o: "openSession store (ing_id s) fs = (res, fs1)" by fastforce
  from assms(1) o show ?thesis
  proof (cases rule: openSession_cases)
    case (1 e)
    with assms(4) U_Opening o have u: "upload_failed store su s e db = (p, db')" "fs' = fs"
      by (auto split: prod.splits)
    note at = uploading_task [OF assms(3,2) _ _ s keeps_files_refl]
    show ?thesis
      by (rule goes_onI [where x = G_QUARANTINED])
        (use U_Opening u upload_failed_moves [OF u(1) at] in simp_all)
  next
    case 2
    with assms(4) U_Opening o have p: "p = Await (U_Writing s (session_rel (ing_id s)) (session_path store (ing_id s)) stream)"
      "db' = db" "fs' = fs1" by auto
    have "keeps_files store fs fs1" using 2(4) keeps_files_session(1) by simp
    then show ?thesis unfolding p by (rule goes_on_await) (use s U_Opening in simp_all)
  qed
next
  case (U_Writing s rel target stream)
  have s: "upload_session_ok s" "rel = session_rel (ing_id s)" "target = session_path store (ing_id s)"
    using assms(3) U_Writing by (simp_all add: task_ok_def)
  obtain res fs1 where w: "writeChunks store rel target stream fs = (res, fs1)" by fastforce
  have k: "keeps_files store fs fs1" using keeps_files_write [of store fs rel "ing_id s" stream] w s(3) by simp
  note at = uploading_task [OF assms(3,2) _ _ s(1) k]
  from w [unfolded s(2)] show ?thesis
  proof (cases rule: writeChunks_cases)
    case (1 e)
    with assms(4) U_Writing w have u: "upload_failed store su s e db = (p, db')" "fs' = fs1"
      by (auto split: prod.splits)
    show ?thesis
      by (rule goes_onI [where x = G_QUARANTINED])
        (use U_Writing u k upload_failed_moves [OF u(1) at] in simp_all)
  next
    case (2 b)
    with assms(4) U_Writing w have u: "upload_end su s (observed_of store (ing_id s) b) db = (p, db')" and f: "fs' = fs1"
      by (auto split: prod.splits)
    have "ou_relativePath (observed_of store (ing_id s) b) = session_rel (ing_id s)" by (simp add: observed_of_def)
    from upload_end_moves [OF u at this] U_Writing
    consider "db' = db" "tasks_of p = []"
      | v where "db' = db" "p = Await (U_Quarantining s v (session_rel (ing_id s)))" "verification_valid v"
      | "tasks_of p = []" "session_moved store fs1 db db' (ing_id s) G_VERIFIED" by auto
    then show ?thesis
    proof cases
      case 1
      then show ?thesis by (intro goes_onI [where x = G_FINALIZED]) (use k f in simp_all)
    next
      case (2 v)
      show ?thesis unfolding 2(1,2) f by (rule goes_on_await [OF k]) (use 2(3) s(1) U_Writing in simp_all)
    next
      case 3
      then show ?thesis by (intro goes_onI [where x = G_VERIFIED]) (use k f U_Writing in simp_all)
    qed
  qed
next
  case (U_Quarantining s v rel)
  have s: "upload_session_ok s" "verification_valid v" "rel = session_rel (ing_id s)"
    using assms(3) U_Quarantining by (simp_all add: task_ok_def)
  have i: "is_typed_id ''ing'' (ing_id s)" using s(1) by (simp add: upload_session_ok_def session_valid_def)
  obtain res fs1 where q: "quarantine store rel (ing_id s) (su_now su) fs = (res, fs1)" by fastforce
  have k: "keeps_files store fs fs1" using keeps_files_quarantine [OF assms(1) i, of fs "su_now su"] q s(3) by simp
  show ?thesis
  proof (cases res)
    case (Inl e)
    with assms(4) U_Quarantining q show ?thesis by (intro goes_onI [where x = G_FINALIZED]) (use k in auto)
  next
    case (Inr u)
    with assms(4) U_Quarantining q have p: "p = Await (U_Rejecting s v)" "db' = db" "fs' = fs1" by auto
    show ?thesis unfolding p by (rule goes_on_await [OF k]) (use s U_Quarantining in simp_all)
  qed
next
  case (U_Rejecting s v)
  have s: "upload_session_ok s" "verification_valid v" using assms(3) U_Rejecting by (simp_all add: task_ok_def)
  from assms(4) U_Rejecting have u: "upload_rejected su s v db = (p, db')" "fs' = fs" by (auto split: prod.splits)
  note at = uploading_task [OF assms(3,2) _ _ s(1) keeps_files_refl]
  show ?thesis
    by (rule goes_onI [where x = G_QUARANTINED])
      (use U_Rejecting u upload_rejected_moves [OF u(1) at s(2)] in simp_all)
next
  case (F_Linking f)
  have f: "finalization_ok f" using assms(3) F_Linking by (simp add: task_ok_def)
  then have i: "is_typed_id ''ing'' (ing_id (fz_session f))" and d: "is_sha256 (ver_observedSha256 (fz_verification f))"
    and rel: "fz_temp f = session_rel (ing_id (fz_session f))"
    by (simp_all add: finalization_ok_def session_valid_def verification_valid_def)
  obtain res fs1 where l: "linkObject store (fz_temp f) (ver_observedSha256 (fz_verification f))
      (ver_observedSizeBytes (fz_verification f)) fs = (res, fs1)" by fastforce
  note k = keeps_files_link [OF assms(1) i d l [unfolded rel]]
  from assms(1) i d l [unfolded rel] show ?thesis
  proof (cases rule: linkObject_cases)
    case (1 e)
    with assms(4) F_Linking l show ?thesis by (intro goes_onI [where x = G_FINALIZED]) (use k in auto)
  next
    case (2 c)
    with assms(4) F_Linking l show ?thesis by (intro goes_onI [where x = G_FINALIZED]) (use k in auto)
  next
    case (3 c x)
    with assms(4) F_Linking l have p: "p = Await (F_Removing f (object_rel (ver_observedSha256 (fz_verification f)))
        (session_path store (ing_id (fz_session f))))" "db' = db" "fs' = fs1" by auto
    have "object_file store fs1 (fz_verification f)" using 3 by (simp add: object_file_def)
    then show ?thesis unfolding p by (intro goes_on_await [OF k]) (use f F_Linking in simp_all)
  qed
next
  case (F_Removing f rel source)
  have f: "finalization_ok f" "rel = object_rel (ver_observedSha256 (fz_verification f))"
    "source = session_path store (ing_id (fz_session f))" "object_file store fs (fz_verification f)"
    using assms(3) F_Removing by (simp_all add: task_ok_def)
  from assms(4) F_Removing have p: "p = Await (F_Clearing f rel source)" "db' = db" "fs' = removeFile source fs" by simp_all
  have k: "keeps_files store fs fs'" using p(3) f(3) keeps_files_session(3) by simp
  show ?thesis unfolding p(1,2)
    by (rule goes_on_await [OF k]) (use f F_Removing object_file_keeps [OF f(4) k] in simp_all)
next
  case (F_Clearing f rel source)
  have f: "finalization_ok f" "rel = object_rel (ver_observedSha256 (fz_verification f))"
    "source = session_path store (ing_id (fz_session f))" "object_file store fs (fz_verification f)"
    using assms(3) F_Clearing by (simp_all add: task_ok_def)
  from assms(4) F_Clearing have p: "p = Await (F_Committing f rel)" "db' = db" "fs' = removeParent source fs" by simp_all
  have k: "keeps_files store fs fs'" using p(3) f(3) keeps_files_session(4) by simp
  show ?thesis unfolding p(1,2)
    by (rule goes_on_await [OF k]) (use f F_Clearing object_file_keeps [OF f(4) k] in simp_all)
next
  case (F_Committing f rel)
  have f: "finalization_ok f" "rel = object_rel (ver_observedSha256 (fz_verification f))"
    "object_file store fs (fz_verification f)"
    using assms(3) F_Committing by (simp_all add: task_ok_def)
  from assms(4) F_Committing have c: "finalize_commit su f rel db = (p, db')" "fs' = fs"
    by (auto split: prod.splits)
  show ?thesis
    by (rule goes_onI [where x = G_FINALIZED])
      (use F_Committing c(2) finalize_commit_moves [OF c(1) [unfolded f(2)] assms(2) f(1,3)] in simp_all)
qed

section \<open>First stretches and whole calls\<close>

lemma parse_document_Inr [simp]:
  "parseSession s = Inr s' \<longleftrightarrow> session_valid s \<and> s' = s"
  "parseVerification v = Inr v' \<longleftrightarrow> verification_valid v \<and> v' = v"
  "parseReceipt rc = Inr rc' \<longleftrightarrow> receipt_valid rc \<and> rc' = rc"
  "parseIngestionEvent e = Inr e' \<longleftrightarrow> ingestion_event_valid e \<and> e' = e"
  "parseRawArtifact a = Inr a' \<longleftrightarrow> raw_artifact_valid a \<and> a' = a"
  by (auto simp: parseSession_def parseVerification_def parseReceipt_def parseIngestionEvent_def
      parseRawArtifact_def doc_simps)

lemma parse_optional_same:
  assumes "\<And>x y. parse x = Inr y \<Longrightarrow> y = x" "parse_optional parse v = Inr w"
  shows "w = v"
  using assms by (auto simp: parse_optional_def and_then_Inr split: option.splits)

definition record_of :: "artifact_db \<Rightarrow> string \<Rightarrow> session_record \<Rightarrow> bool" where
  "record_of db i rec \<longleftrightarrow>
     (\<exists>r. find_by ir_id i (ad_sessions db) = Some r \<and> sn_session rec = ir_document r
        \<and> sn_verification rec = ir_verification r \<and> sn_receipt rec = ir_receipt r)"

lemma requireSession_record:
  assumes "requireSession db i = Inr rec"
  shows "record_of db i rec"
proof -
  from assms obtain r where r: "find_by ir_id i (ad_sessions db) = Some r" "sn_session rec = ir_document r"
      "parse_optional parseVerification (ir_verification r) = Inr (sn_verification rec)"
      "parse_optional parseReceipt (ir_receipt r) = Inr (sn_receipt rec)"
    by (auto simp: requireSession_def getSession_def and_then_Inr split: option.splits)
  have "sn_verification rec = ir_verification r" "sn_receipt rec = ir_receipt r"
    using parse_optional_same [OF _ r(3)] parse_optional_same [OF _ r(4)] by simp_all
  with r show ?thesis by (auto simp: record_of_def)
qed

lemma owned_session_record:
  assumes "owned_session env t workerId credential leaseId leaseToken sessionId db = Inr rec"
  shows "record_of db sessionId rec" "ing_workerId (sn_session rec) = workerId" "ing_leaseId (sn_session rec) = leaseId"
    "\<exists>c. artifact_authenticate env t workerId credential leaseId leaseToken (ad_control db) = Inr c"
  using assms
  by (auto simp: owned_session_def and_then_Inr assertOwnership_def intro!: requireSession_record split: if_splits)

lemma record_ofD:
  assumes "record_of db i rec" "tables_ok store fs db"
  obtains r where "find_by ir_id i (ad_sessions db) = Some r" "sn_session rec = ir_document r"
    "sn_verification rec = ir_verification r" "sn_receipt rec = ir_receipt r" "session_row_ok r"
    "ing_id (sn_session rec) = i" "session_status db i = Some (ing_status (sn_session rec))" "is_typed_id ''ing'' i"
    "ir_temp_relative_path r = None \<or> ir_temp_relative_path r = Some (session_rel i)"
proof -
  from assms(1) obtain r where r: "find_by ir_id i (ad_sessions db) = Some r" "sn_session rec = ir_document r"
      "sn_verification rec = ir_verification r" "sn_receipt rec = ir_receipt r"
    by (auto simp: record_of_def)
  note s = session_row [OF assms(2) r(1)]
  have "ing_id (sn_session rec) = i" "session_status db i = Some (ing_status (sn_session rec))"
    using r s by (simp_all add: ir_id_def session_status_def)
  with r s that show ?thesis by blast
qed

lemma upload_begin_ok:
  assumes ok: "tables_ok store fs db" "tasks_ok store fs db ts"
    and b: "upload_begin env t su workerId credential leaseId leaseToken sessionId stream db = (p, db')"
  shows "tables_ok store fs db' \<and> tasks_ok store fs db' (ts @ tasks_of p)"
proof (cases "db' = db \<and> tasks_of p = []")
  case True
  with ok show ?thesis by simp
next
  case False
  from b False obtain rec where rec: "owned_session env t workerId credential leaseId leaseToken sessionId db = Inr rec"
    by (auto simp: upload_begin_def split: sum.splits)
  obtain r where r: "find_by ir_id sessionId (ad_sessions db) = Some r" "sn_session rec = ir_document r"
      "ing_id (sn_session rec) = sessionId" "session_status db sessionId = Some (ing_status (sn_session rec))"
      "is_typed_id ''ing'' sessionId"
    using record_ofD [OF owned_session_record(1) [OF rec] ok(1)] by metis
  let ?now = "to_iso (su_now su)"
  let ?s = "(sn_session rec)\<lparr>ing_status := G_UPLOADING, ing_updatedAt := ?now\<rparr>"
  let ?o = "no_session_options\<lparr>so_temp := Some (session_rel sessionId)\<rparr>"
  have created: "ing_status (sn_session rec) = G_CREATED" and v: "session_valid ?s"
    and ev: "(\<exists>e. insertIngestionEvent (su_eventId su) sessionId I_UPLOAD_STARTED ?now None (write_session ?s ?o db) = Inl e
        \<and> p = Settled (Inl e) \<and> db' = write_session ?s ?o db)
      \<or> insertIngestionEvent (su_eventId su) sessionId I_UPLOAD_STARTED ?now None (write_session ?s ?o db) = Inr db'
        \<and> p = Await (U_Opening ?s stream)"
    using b rec False r(5)
    by (auto simp: upload_begin_def Let_def sessionRelativePath_def session_rel_def split: if_splits sum.splits option.splits)
  have st: "session_status db (ing_id ?s) = Some G_CREATED" using r created by simp
  have none: "u \<in> set ts \<Longrightarrow> task_session u \<noteq> sessionId" for u
    using no_task_at [OF ok(2), of u "Some G_CREATED"] st r(3) by auto
  have w: "tables_ok store fs (write_session ?s ?o db)" "session_status (write_session ?s ?o db) = (session_status db)(sessionId \<mapsto> G_UPLOADING)"
    using tables_ok_write [OF ok(1) _ v, of ?o] status_written [of db ?s ?o] st r(3) by (simp_all add: no_session_options_def)
  have ts: "tasks_ok store fs (write_session ?s ?o db) ts"
    by (rule tasks_ok_moved [OF ok(2) w(2)]) (simp add: none)
  from ev show ?thesis
  proof (elim disjE exE conjE)
    fix e assume "p = Settled (Inl e)" "db' = write_session ?s ?o db"
    with w ts show ?thesis by simp
  next
    assume i: "insertIngestionEvent (su_eventId su) sessionId I_UPLOAD_STARTED ?now None (write_session ?s ?o db) = Inr db'"
      and p: "p = Await (U_Opening ?s stream)"
    obtain es where db': "db' = (write_session ?s ?o db)\<lparr>ad_events := es\<rparr>" by (rule insertIngestionEvent_Inr [OF i])
    have same: "session_status db' = session_status (write_session ?s ?o db)" unfolding db' by simp
    have "task_ok store fs db' (U_Opening ?s stream)"
      using v r(3) w(2) by (simp add: task_ok_def upload_session_ok_def same allowed_def)
    moreover have "apart (U_Opening ?s stream) u" if "u \<in> set ts" for u
      using none [OF that] r(3) by (simp add: apart_def)
    moreover have "tasks_ok store fs db' ts" using ts tasks_ok_same [OF same] by simp
    ultimately have "tasks_ok store fs db' (ts @ [U_Opening ?s stream])"
      using tasks_ok_with [of store fs db' ts "[]"] by simp
    moreover have "tables_ok store fs db'" unfolding db' using w(1) by simp
    ultimately show ?thesis using p by simp
  qed
qed

lemma finalize_begin_task:
  assumes ok: "tables_ok store fs db"
    and b: "finalize_begin env t su workerId credential leaseId leaseToken sessionId db = Await u"
  obtains f where "u = F_Linking f" "finalization_ok f" "ing_id (fz_session f) = sessionId"
    "session_status db sessionId = Some G_VERIFIED"
proof -
  from b obtain rec where rec: "owned_session env t workerId credential leaseId leaseToken sessionId db = Inr rec"
    by (auto simp: finalize_begin_def split: sum.splits)
  obtain r where r: "find_by ir_id sessionId (ad_sessions db) = Some r" "sn_session rec = ir_document r"
      "sn_verification rec = ir_verification r" "session_row_ok r"
      "ing_id (sn_session rec) = sessionId" "session_status db sessionId = Some (ing_status (sn_session rec))"
      "ir_temp_relative_path r = None \<or> ir_temp_relative_path r = Some (session_rel sessionId)"
    using record_ofD [OF owned_session_record(1) [OF rec] ok] by metis
  from b rec r(1) obtain v rel where v: "ing_status (sn_session rec) = G_VERIFIED" "sn_verification rec = Some v"
      "ir_temp_relative_path r = Some rel"
      "u = F_Linking \<lparr> fz_session = sn_session rec, fz_verification = v, fz_temp = rel, fz_now = to_iso (su_now su) \<rparr>"
    by (auto simp: finalize_begin_def Let_def sessionRow_def split: if_splits option.splits ingestion_status.splits)
  have "ir_verification r = Some v" using v(2) r(3) by simp
  with r(2,4) have "verification_valid v" "session_valid (sn_session rec)"
    by (simp_all add: session_row_ok_def)
  with r v show ?thesis by (intro that [OF v(4)]) (simp_all add: finalization_ok_def)
qed

lemma finalize_begin_ok:
  assumes ok: "tables_ok store fs db" "tasks_ok store fs db ts"
  shows "tasks_ok store fs db
    (ts @ tasks_of (finalize_begin env t su workerId credential leaseId leaseToken sessionId db))"
proof (cases "finalize_begin env t su workerId credential leaseId leaseToken sessionId db")
  case (Await u)
  obtain f where f: "u = F_Linking f" "finalization_ok f" "ing_id (fz_session f) = sessionId"
      "session_status db sessionId = Some G_VERIFIED"
    by (rule finalize_begin_task [OF ok(1) Await])
  then have "task_ok store fs db u" by (simp add: task_ok_def allowed_def)
  moreover have "apart u x" if "x \<in> set ts" for x
    using ok(2) that f by (auto simp: tasks_ok_def task_ok_def apart_def allowed_def)
  ultimately show ?thesis using tasks_ok_with [of store fs db ts "[]" u] ok(2) Await by simp
qed (use ok in simp)

lemma prepare_session_new:
  assumes "prepare_session env t now i inp db = Inr (Inr (h, s))"
  shows "session_valid s" "ing_status s = G_CREATED" "ing_id s = i" "ing_finalizedAt s = None"
  using assms
  by (auto simp: prepare_session_def and_then_Inr Let_def doc_simps new_session_def split: if_splits option.splits)

lemma createSession_cases:
  assumes "createSession env t now i eventId inp db = (res, db')"
  obtains "db' = db"
  | h s db1 es where "insert_session h s db = Inr db1" "db' = db1\<lparr>ad_events := es\<rparr>"
      "session_valid s" "ing_status s = G_CREATED" "ing_id s = i"
      "prepare_session env t now i inp db = Inr (Inr (h, s))"
proof (cases "prepare_session env t now i inp db")
  case (Inl e)
  with assms that(1) show ?thesis by (simp add: createSession_def)
next
  case (Inr x)
  show ?thesis
  proof (cases x)
    case (Inl rec)
    with Inr assms that(1) show ?thesis by (simp add: createSession_def)
  next
    case (Inr y)
    then obtain h s where y: "x = Inr (h, s)" by (cases y) auto
    note p = prepare_session_new [OF \<open>prepare_session env t now i inp db = Inr x\<close> [unfolded y]]
    let ?body = "and_then (insert_session h s db) (\<lambda>db1.
      and_then (insertIngestionEvent eventId (ing_id s) I_SESSION_CREATED (to_iso now) None db1) (\<lambda>db2. Inr ((), db2)))"
    obtain r where t: "in_transaction db ?body = (r, db')"
      using assms \<open>prepare_session env t now i inp db = Inr x\<close> y
      by (cases "in_transaction db ?body") (auto simp: createSession_def split: sum.splits)
    show ?thesis
    proof (cases r)
      case (Inl e)
      with t that(1) show ?thesis by (auto dest: in_transaction_error_rolls_back)
    next
      case (Inr u)
      with t obtain db1 where d: "insert_session h s db = Inr db1"
        and e: "insertIngestionEvent eventId (ing_id s) I_SESSION_CREATED (to_iso now) None db1 = Inr db'"
        by (auto simp: in_transaction_commit and_then_Inr)
      obtain es where "db' = db1\<lparr>ad_events := es\<rparr>"
        using insertIngestionEvent_Inr [OF e] by blast
      from that(2) [OF d this p(1-3) \<open>prepare_session env t now i inp db = Inr x\<close> [unfolded y]] show ?thesis .
    qed
  qed
qed

lemma createSession_ok:
  assumes ok: "tables_ok store fs db" "tasks_ok store fs db ts" and c: "createSession env t now i eventId inp db = (res, db')"
  shows "tables_ok store fs db' \<and> tasks_ok store fs db' ts"
  using c
proof (cases rule: createSession_cases)
  case 1
  with ok show ?thesis by simp
next
  case (2 h s db1 es)
  note n = tables_ok_insert [OF ok(1) 2(1,3,4)]
  have none: "u \<in> set ts \<Longrightarrow> task_session u \<noteq> ing_id s" for u
    using no_task_at [OF ok(2), of u None] n(2) by auto
  have "tasks_ok store fs db1 ts"
    by (rule tasks_ok_moved [OF ok(2) n(3)]) (simp add: none)
  moreover have "session_status db' = session_status db1" "tables_ok store fs db'" using n(1) 2(2) by simp_all
  ultimately show ?thesis using tasks_ok_same [of db' db1 store fs ts] by simp
qed

lemma abort_rows_moves:
  assumes "abort_rows eventId s failure now db = Inr db'"
    "tables_ok store fs db" "session_status db (ing_id s) = Some st" "st \<noteq> G_FINALIZED"
  shows "session_moved store fs db db' (ing_id s) G_ABORTED"
proof -
  let ?s = "s\<lparr>ing_status := G_ABORTED, ing_updatedAt := now\<rparr>"
  let ?o = "no_session_options\<lparr>so_failure := Some failure\<rparr>"
  from assms(1) have v: "session_valid ?s"
    and e: "insertIngestionEvent eventId (ing_id s) I_ABORTED now None (write_session ?s ?o db) = Inr db'"
    by (auto simp: abort_rows_def and_then_Inr)
  have "session_moved store fs db db' (ing_id ?s) (ing_status ?s)"
    by (rule write_moved [OF assms(2) _ assms(4) v _ _ _ _ _ e]) (use assms(3) in \<open>simp_all add: no_session_options_def\<close>)
  then show ?thesis by simp
qed

lemma aborted_ok:
  assumes "session_moved store fs db db' i G_ABORTED" "tasks_ok store fs db ts"
  shows "tables_ok store fs db' \<and> tasks_ok store fs db' ts"
  using assms tasks_ok_moved [OF assms(2), of db' i G_ABORTED] by (auto simp: session_moved_def allowed_def)

lemma abort_ok:
  assumes "rooted store" and ok: "tables_ok store fs db" "tasks_ok store fs db ts"
    and a: "abort env store t now eventId workerId credential leaseId leaseToken sessionId reason (db, fs) = (res, db', fs')"
  shows "keeps_files store fs fs' \<and> tables_ok store fs' db' \<and> tasks_ok store fs' db' ts"
proof (cases "db' = db \<and> fs' = fs")
  case True
  with ok show ?thesis by simp
next
  case False
  from a False obtain rec where rec: "owned_session env t workerId credential leaseId leaseToken sessionId db = Inr rec"
    by (auto simp: abort_def split: sum.splits)
  obtain r where r: "find_by ir_id sessionId (ad_sessions db) = Some r"
      "ing_id (sn_session rec) = sessionId" "session_status db sessionId = Some (ing_status (sn_session rec))"
      "is_typed_id ''ing'' sessionId"
      "ir_temp_relative_path r = None \<or> ir_temp_relative_path r = Some (session_rel sessionId)"
    using record_ofD [OF owned_session_record(1) [OF rec] ok(1)] by metis
  note c = keeps_files_cleanup [OF assms(1) r(4,5)]
  obtain fs1 where fs1: "cleanupSession store (ir_temp_relative_path r) fs = (Inr (), fs1)"
    using c(2) [of fs] by (cases "cleanupSession store (ir_temp_relative_path r) fs") auto
  have k: "keeps_files store fs fs1" using c(1) [of fs] fs1 by simp
  let ?rows = "abort_rows eventId (sn_session rec) (abort_failure reason (to_iso now)) (to_iso now) db"
  have st: "ing_status (sn_session rec) \<noteq> G_FINALIZED" and fs': "fs' = fs1"
    and res: "db' = db \<or> ?rows = Inr db'"
    using a rec False r(1) fs1
    by (auto simp: abort_def Let_def sessionRow_def in_transaction_def and_then_Inr and_then_Inl
        split: if_splits sum.splits prod.splits)
  from res show ?thesis
  proof
    assume "db' = db"
    with tables_ok_files [OF ok(1) k] tasks_ok_files [OF ok(2) k] k fs' show ?thesis by simp
  next
    assume rows: "?rows = Inr db'"
    have "session_moved store fs1 db db' (ing_id (sn_session rec)) G_ABORTED"
      by (rule abort_rows_moves [OF rows tables_ok_files [OF ok(1) k] _ st]) (use r in simp)
    from aborted_ok [OF this tasks_ok_files [OF ok(2) k]] k fs' show ?thesis by simp
  qed
qed

lemma cleanup_rows_ok:
  assumes "rooted store" "tables_ok store fs db" "tasks_ok store fs db ts"
    "\<forall>(e, r)\<in>set rs. session_row_ok r \<and> session_status db (ir_id r) \<noteq> Some G_FINALIZED"
    "cleanup_rows store now rs (db, fs) = (res, fs')"
  shows "keeps_files store fs fs' \<and> (\<forall>db'. res = Inr db' \<longrightarrow> tables_ok store fs' db' \<and> tasks_ok store fs' db' ts)"
  using assms
proof (induction rs arbitrary: db fs)
  case Nil
  then show ?case by auto
next
  case (Cons er rs)
  obtain e r where er: "er = (e, r)" by fastforce
  have r: "session_row_ok r" "session_status db (ir_id r) \<noteq> Some G_FINALIZED" using Cons.prems(4) er by simp_all
  then have i: "is_typed_id ''ing'' (ir_id r)"
    and temp: "ir_temp_relative_path r = None \<or> ir_temp_relative_path r = Some (session_rel (ir_id r))"
    by (auto simp: session_row_ok_def session_valid_def ir_id_def)
  note c = keeps_files_cleanup [OF assms(1) i temp]
  obtain fs1 where fs1: "cleanupSession store (ir_temp_relative_path r) fs = (Inr (), fs1)"
    using c(2) [of fs] by (cases "cleanupSession store (ir_temp_relative_path r) fs") auto
  have k: "keeps_files store fs fs1" using c(1) [of fs] fs1 by simp
  note ok = tables_ok_files [OF Cons.prems(2) k] tasks_ok_files [OF Cons.prems(3) k]
  show ?case
  proof (cases "and_then (requireSession db (ir_id r)) (\<lambda>rec. abort_rows e (sn_session rec) (abandoned_failure now) now db)")
    case (Inl x)
    with Cons.prems(5) er fs1 k show ?thesis by auto
  next
    case (Inr db1)
    then obtain rec where q: "requireSession db (ir_id r) = Inr rec"
      and w: "abort_rows e (sn_session rec) (abandoned_failure now) now db = Inr db1"
      by (auto simp: and_then_Inr)
    obtain r' where r': "find_by ir_id (ir_id r) (ad_sessions db) = Some r'" "ing_id (sn_session rec) = ir_id r"
      "session_status db (ir_id r) = Some (ing_status (sn_session rec))"
      using record_ofD [OF requireSession_record [OF q] Cons.prems(2)] by metis
    have m: "session_moved store fs1 db db1 (ing_id (sn_session rec)) G_ABORTED"
      by (rule abort_rows_moves [OF w ok(1), of "ing_status (sn_session rec)"]) (use r r' in auto)
    have rest: "cleanup_rows store now rs (db1, fs1) = (res, fs')"
      using Cons.prems(5) er fs1 Inr by simp
    have "\<forall>(e, x)\<in>set rs. session_row_ok x \<and> session_status db1 (ir_id x) \<noteq> Some G_FINALIZED"
      using Cons.prems(4) m by (auto simp: session_moved_def)
    from Cons.IH [OF assms(1) _ _ this rest] aborted_ok [OF m ok(2)] keeps_files_trans [OF k]
    show ?thesis by blast
  qed
qed

lemma cleanupAbandoned_ok:
  assumes "rooted store" and ok: "tables_ok store fs db" "tasks_ok store fs db ts"
    and a: "cleanupAbandoned store now olderThan eventIds (db, fs) = (res, db', fs')"
  shows "keeps_files store fs fs' \<and> tables_ok store fs' db' \<and> tasks_ok store fs' db' ts"
proof -
  let ?rs = "abandoned_sessions olderThan db"
  let ?z = "zip (map eventIds [0..<length ?rs]) ?rs"
  have "session_row_ok r \<and> session_status db (ir_id r) \<noteq> Some G_FINALIZED" if "(e, r) \<in> set ?z" for e r
  proof -
    have r: "r \<in> set (ad_sessions db)" "ing_status (ir_document r) \<in> {G_CREATED, G_UPLOADING}"
      using set_zip_rightD [OF that] by (auto simp: abandoned_sessions_def)
    moreover have "find_by ir_id (ir_id r) (ad_sessions db) = Some r"
      using ok(1) r(1) find_by_unique by (force simp: tables_ok_def)
    ultimately show ?thesis using ok(1) by (auto simp: tables_ok_def session_status_def)
  qed
  then have rows: "\<forall>(e, r)\<in>set ?z. session_row_ok r \<and> session_status db (ir_id r) \<noteq> Some G_FINALIZED" by blast
  obtain x fs1 where c: "cleanup_rows store (to_iso now) ?z (db, fs) = (x, fs1)" by fastforce
  note w = cleanup_rows_ok [OF assms(1) ok rows c]
  show ?thesis
  proof (cases x)
    case (Inl e)
    with a c w tables_ok_files [OF ok(1)] tasks_ok_files [OF ok(2)] show ?thesis
      by (auto simp: cleanupAbandoned_def Let_def)
  next
    case (Inr db1)
    with a c w show ?thesis by (auto simp: cleanupAbandoned_def Let_def)
  qed
qed

section \<open>Every reachable system\<close>

theorem step_ok:
  assumes "rooted store" "artifact_step store sy sy'" "system_ok store sy"
  shows "system_ok store sy' \<and> keeps_files store (sy_files sy) (sy_files sy')"
proof -
  have ok: "tables_ok store (sy_files sy) (sy_db sy)" "tasks_ok store (sy_files sy) (sy_db sy) (sy_tasks sy)"
    using assms(3) by (simp_all add: system_ok_def)
  from assms(2) show ?thesis
  proof cases
    case (create env t now i eventId inp)
    obtain res db' where c: "createSession env t now i eventId inp (sy_db sy) = (res, db')" by fastforce
    from createSession_ok [OF ok c] create c show ?thesis by (simp add: system_ok_def)
  next
    case (upload env t su workerId credential leaseId leaseToken sessionId stream p db')
    from upload_begin_ok [OF ok upload(2)] upload(1) show ?thesis by (simp add: system_ok_def)
  next
    case (finalize env t su workerId credential leaseId leaseToken sessionId)
    from finalize_begin_ok [OF ok] ok(1) finalize show ?thesis by (simp add: system_ok_def)
  next
    case (resume pre task post su p db' fs')
    note ts = ok(2) [unfolded resume(2)]
    have g: "goes_on store (sy_db sy) (sy_files sy) task p db' fs'"
      by (rule resume_goes_on [OF assms(1) ok(1) tasks_ok_without(2) [OF ts] resume(3)])
    then have "keeps_files store (sy_files sy) fs'" by (simp add: goes_on_def)
    with goes_on_ok [OF ok(1) ts g] resume(1) show ?thesis by (simp add: system_ok_def)
  next
    case (abort env t now eventId workerId credential leaseId leaseToken sessionId reason res db' fs')
    from abort_ok [OF assms(1) ok abort(2)] abort(1) show ?thesis by (simp add: system_ok_def)
  next
    case (cleanup now olderThan eventIds res' db' fs')
    from cleanupAbandoned_ok [OF assms(1) ok cleanup(2)] cleanup(1) show ?thesis by (simp add: system_ok_def)
  next
    case (control c)
    then show ?thesis using ok tasks_ok_same [of "(sy_db sy)\<lparr>ad_control := c\<rparr>" "sy_db sy"] by (simp add: system_ok_def)
  qed
qed

lemma steps_ok:
  assumes "rooted store" "(artifact_step store)\<^sup>*\<^sup>* sy sy'" "system_ok store sy"
  shows "system_ok store sy' \<and> keeps_files store (sy_files sy) (sy_files sy')"
  using assms(2)
proof (induction rule: rtranclp_induct)
  case (step y z)
  then show ?case using step_ok [OF assms(1) step.hyps(2)] keeps_files_trans by blast
qed (use assms(3) in simp)

lemma empty_system_ok: "empty_system store sy \<Longrightarrow> system_ok store sy"
  by (simp add: empty_system_def system_ok_def tables_ok_def tasks_ok_def)

lemma reachable_system_ok: "rooted store \<Longrightarrow> reachable_system store sy \<Longrightarrow> system_ok store sy"
  using steps_ok empty_system_ok by (auto simp: reachable_system_def)

end
