(* ===== verification/Artifact_Results.thy ===== *)
theory Artifact_Results
  imports Artifact_Invariant Execution_Results
begin

text \<open>
  What the invariant of the artifact system gives its users: every artifact can be read and its content
  has the digest and the size it states, a finalized session answers with its artifact, a completion
  that names receipts is backed by stored bytes, and a successful upload, finalized, is the artifact
  of the bytes that were sent.
\<close>

section \<open>Reading artifacts\<close>

lemma artifact_row:
  assumes ok: "tables_ok store fs db" and r: "r \<in> set (ad_artifacts db)"
  obtains ob c s rc where "find_by rw_id (rw_id r) (ad_artifacts db) = Some r" "raw_artifact_valid (rw_document r)"
    "raw_sha256 (rw_document r) = rw_content_digest r"
    "find_by co_digest (rw_content_digest r) (ad_objects db) = Some ob" "is_sha256 (rw_content_digest r)"
    "co_relative_path ob = object_rel (rw_content_digest r)"
    "fs (object_path store (rw_content_digest r)) = Some c" "cs_digest store c = rw_content_digest r"
    "int (length c) = raw_sizeBytes (rw_document r)"
    "find_by ir_id (rw_session_id r) (ad_sessions db) = Some s" "ing_status (ir_document s) = G_FINALIZED"
    "ir_receipt s = Some rc" "receipt_of r rc"
proof -
  have a: "artifact_row_ok db r" using ok r by (simp add: tables_ok_def)
  then obtain ob s rc where ob: "find_by co_digest (rw_content_digest r) (ad_objects db) = Some ob"
      "co_size_bytes ob = raw_sizeBytes (rw_document r)"
    and s: "find_by ir_id (rw_session_id r) (ad_sessions db) = Some s" "ing_status (ir_document s) = G_FINALIZED"
      "ir_receipt s = Some rc" "receipt_of r rc"
    by (auto simp: artifact_row_ok_def)
  have o: "ob \<in> set (ad_objects db)" "co_digest ob = rw_content_digest r" using find_by_SomeD [OF ob(1)] by simp_all
  then have "object_ok store fs (ad_artifacts db) ob" using ok by (simp add: tables_ok_def)
  then obtain c where c: "fs (object_path store (rw_content_digest r)) = Some c" "cs_digest store c = rw_content_digest r"
      "int (length c) = raw_sizeBytes (rw_document r)" "is_sha256 (rw_content_digest r)"
      "co_relative_path ob = object_rel (rw_content_digest r)"
    using o(2) ob(2) by (auto simp: object_ok_def)
  have "find_by rw_id (rw_id r) (ad_artifacts db) = Some r"
    using ok r find_by_unique by (force simp: tables_ok_def)
  with a ob c s show ?thesis by (intro that) (simp_all add: artifact_row_ok_def)
qed

lemma contentPath_reads:
  assumes "rooted store" and ok: "tables_ok store fs db" and r: "r \<in> set (ad_artifacts db)"
  obtains c where "contentPath store (rw_id r) (db, fs) = Inr
      \<lparr> cl_path = object_path store (rw_content_digest r), cl_mimeType = raw_mimeType (rw_document r),
        cl_originalName = raw_originalName (rw_document r), cl_sizeBytes = raw_sizeBytes (rw_document r) \<rparr>"
    "fs (object_path store (rw_content_digest r)) = Some c" "cs_digest store c = raw_sha256 (rw_document r)"
    "int (length c) = raw_sizeBytes (rw_document r)"
proof -
  obtain ob c where a: "find_by rw_id (rw_id r) (ad_artifacts db) = Some r" "raw_artifact_valid (rw_document r)"
      "raw_sha256 (rw_document r) = rw_content_digest r"
      "find_by co_digest (rw_content_digest r) (ad_objects db) = Some ob" "is_sha256 (rw_content_digest r)"
      "co_relative_path ob = object_rel (rw_content_digest r)"
      "fs (object_path store (rw_content_digest r)) = Some c" "cs_digest store c = rw_content_digest r"
      "int (length c) = raw_sizeBytes (rw_document r)"
    using artifact_row [OF ok r] by metis
  have "resolveObject store (co_relative_path ob) fs = Inr (object_path store (rw_content_digest r))"
    using resolve_object [OF assms(1) a(5)] a(6,7) by (simp add: resolveObject_def object_rel_def)
  with a show ?thesis by (intro that [of c]) (auto simp: contentPath_def and_then_Inr)
qed

definition view_of_row :: "artifact_db \<Rightarrow> raw_row \<Rightarrow> artifact_view \<Rightarrow> bool" where
  "view_of_row db r view \<longleftrightarrow>
     av_artifact view = rw_document r \<and> av_sessionId view = rw_session_id r \<and> av_receiptId view = rw_receipt_id r
     \<and> find_by co_digest (rw_content_digest r) (ad_objects db) = Some (av_contentObject view)"

lemma getArtifact_row:
  assumes ok: "tables_ok store fs db" and r: "r \<in> set (ad_artifacts db)"
  obtains view where "getArtifact db (rw_id r) = Inr (Some view)" "view_of_row db r view"
proof -
  obtain ob where a: "find_by rw_id (rw_id r) (ad_artifacts db) = Some r" "raw_artifact_valid (rw_document r)"
      "find_by co_digest (rw_content_digest r) (ad_objects db) = Some ob"
    using artifact_row [OF ok r] by metis
  then show ?thesis
    by (intro that [of "\<lparr> av_artifact = rw_document r, av_jobId = rw_job_id r, av_jobAttempt = rw_job_attempt r,
        av_executionAttemptId = rw_execution_attempt_id r, av_sessionId = rw_session_id r,
        av_receiptId = rw_receipt_id r, av_contentObject = ob \<rparr>"])
      (auto simp: getArtifact_def and_then_Inr view_of_row_def)
qed

text \<open>A finalized session answers \<open>finalize\<close> with its artifact and its receipt.\<close>

lemma finalize_replays:
  assumes ok: "tables_ok store fs db" and st: "session_status db sessionId = Some G_FINALIZED"
    and own: "owned_session env t workerId credential leaseId leaseToken sessionId db = Inr rec"
  obtains r view rc where "r \<in> set (ad_artifacts db)" "rw_session_id r = sessionId" "view_of_row db r view"
    "receipt_of r rc"
    "finalize_begin env t su workerId credential leaseId leaseToken sessionId db = Settled (Inr (Finalized view rc True))"
proof -
  obtain s where s: "find_by ir_id sessionId (ad_sessions db) = Some s" "sn_session rec = ir_document s"
      "sn_receipt rec = ir_receipt s"
    using record_ofD [OF owned_session_record(1) [OF own] ok] by metis
  note row = session_row [OF ok s(1)]
  have fin: "ing_status (ir_document s) = G_FINALIZED" using st s(1) by (simp add: session_status_def)
  then have "sessionId \<in> rw_session_id ` set (ad_artifacts db)"
    using ok find_by_SomeD [OF s(1)] by (auto simp: tables_ok_def)
  then obtain r where r: "r \<in> set (ad_artifacts db)" "rw_session_id r = sessionId" by auto
  obtain rc where rc: "ir_receipt s = Some rc" "receipt_of r rc"
    using artifact_row [OF ok r(1)] r(2) s(1) by (metis option.inject)
  obtain view where v: "getArtifact db (rw_id r) = Inr (Some view)" "view_of_row db r view"
    by (rule getArtifact_row [OF ok r(1)])
  have "finalize_begin env t su workerId credential leaseId leaseToken sessionId db = Settled (Inr (Finalized view rc True))"
    using own s(2,3) fin rc v(1) by (simp add: finalize_begin_def Let_def receipt_of_def)
  with r v rc(2) show ?thesis by (intro that)
qed

section \<open>Completions are backed by stored bytes\<close>

text \<open>The file an artifact receipt of an attempt stands for.\<close>

definition stored_bytes :: "content_store \<Rightarrow> artifact_system \<Rightarrow> string \<Rightarrow> string \<Rightarrow> bytes \<Rightarrow> bool" where
  "stored_bytes store sy attemptId receiptId c \<longleftrightarrow>
     (\<exists>r\<in>set (ad_artifacts (sy_db sy)). rw_receipt_id r = receiptId \<and> rw_execution_attempt_id r = attemptId
        \<and> sy_files sy (object_path store (rw_content_digest r)) = Some c
        \<and> cs_digest store c = raw_sha256 (rw_document r))"

lemma list_all2_choice:
  "list_all2 (\<lambda>x y. \<exists>z. P x y z) xs ys \<Longrightarrow> \<exists>zs. list_all2 (\<lambda>x (y, z). P x y z) xs (zip ys zs) \<and> length zs = length ys"
proof (induction rule: list_all2_induct)
  case (Cons x xs y ys)
  then obtain z zs where "P x y z" "list_all2 (\<lambda>x (y, z). P x y z) xs (zip ys zs)" "length zs = length ys" by blast
  then show ?case by (intro exI [of _ "z # zs"]) simp
qed simp

lemma sum_of_nat: "(\<Sum>x\<leftarrow>xs. of_nat (f x)) = of_nat (sum_list (map f xs))"
  by (induction xs) simp_all

lemma evidence_row_bytes:
  assumes ok: "tables_ok store (sy_files sy) (sy_db sy)"
    and e: "evidenced (map evidence_row (ad_artifacts (sy_db sy))) sessions attemptId receiptId row"
  shows "\<exists>c. stored_bytes store sy attemptId receiptId c \<and> fst row = of_nat (length c)"
proof -
  from e obtain r where r: "r \<in> set (ad_artifacts (sy_db sy))" "rw_receipt_id r = receiptId"
      "rw_execution_attempt_id r = attemptId"
      "receipt_field ''sizeBytes'' (raw_artifact_json (rw_document r)) = JNum (fst row)"
    by (auto simp: evidenced_def evidence_row_def)
  obtain c where c: "sy_files sy (object_path store (rw_content_digest r)) = Some c"
      "cs_digest store c = rw_content_digest r" "int (length c) = raw_sizeBytes (rw_document r)"
      "raw_sha256 (rw_document r) = rw_content_digest r"
    using artifact_row [OF ok r(1)] by metis
  have "fst row = of_int (raw_sizeBytes (rw_document r))"
    using r(4) by (simp add: raw_artifact_json_def field_def)
  then have "fst row = of_nat (length c)" using c(3) by (metis of_int_of_nat_eq)
  with r c show ?thesis unfolding stored_bytes_def by (intro exI [of _ c]) auto
qed

lemma evidence_is_stored:
  assumes ok: "tables_ok store (sy_files sy) (sy_db sy)"
    and e: "assertArtifactEvidence (evidence_store (sy_db sy)) attemptId receipt j = Inr ()"
      "receipt_field ''metadataOnly'' receipt \<noteq> JBool True"
  obtains contents where
    "list_all2 (stored_bytes store sy attemptId) (json_texts (receipt_field ''artifactReceiptIds'' receipt)) contents"
    "of_nat (sum_list (map length contents)) = json_number (receipt_field ''bytesPrepared'' receipt)"
proof -
  let ?ids = "json_texts (receipt_field ''artifactReceiptIds'' receipt)"
  obtain sessions rows where rows:
      "list_all2 (evidenced (map evidence_row (ad_artifacts (sy_db sy))) sessions attemptId) ?ids rows"
      "sum_list (map fst rows) = json_number (receipt_field ''bytesPrepared'' receipt)"
    by (rule assertArtifactEvidence_Inr [OF e]) (auto simp: evidence_store_def)
  have "list_all2 (\<lambda>i row. \<exists>c. stored_bytes store sy attemptId i c \<and> fst row = of_nat (length c)) ?ids rows"
    using rows(1) by (rule list_all2_mono) (rule evidence_row_bytes [OF ok])
  from list_all2_choice [OF this] obtain contents where
    c: "list_all2 (\<lambda>i (row, c). stored_bytes store sy attemptId i c \<and> fst row = of_nat (length c)) ?ids (zip rows contents)"
      "length contents = length rows" by blast
  have "list_all2 (stored_bytes store sy attemptId) ?ids contents"
    using c by (auto simp: list_all2_conv_all_nth)
  moreover have "map fst rows = map (\<lambda>c. of_nat (length c)) contents"
    using c by (intro nth_equalityI) (auto simp: list_all2_conv_all_nth)
  then have "sum_list (map fst rows) = of_nat (sum_list (map length contents))"
    by (simp only: sum_of_nat)
  ultimately show ?thesis using rows(2) by (intro that) simp_all
qed

section \<open>An upload and its artifact\<close>

lemma run_task_settled [simp]: "run_task store sus (Settled r, w) = (Settled r, w)"
  by (cases sus) simp_all

lemma run_task_await:
  assumes "run_task store sus (Await t, w) = (Settled r, w')"
  obtains su sus' where "run_task store sus' (resume store su t w) = (Settled r, w')"
  using assms by (cases sus) auto

lemma rejected_not_uploaded:
  assumes "run_task store sus (Await (U_Quarantining s v rel), w) = (Settled (Inr x), w')"
  shows False
proof -
  obtain db fs where w: "w = (db, fs)" by fastforce
  obtain su sus1 where r: "run_task store sus1 (resume store su (U_Quarantining s v rel) (db, fs)) = (Settled (Inr x), w')"
    using run_task_await [OF assms] w by metis
  then have "\<exists>fs'. run_task store sus1 (Await (U_Rejecting s v), db, fs') = (Settled (Inr x), w')"
    by (auto split: prod.splits sum.splits)
  then obtain fs' su2 sus2 where "run_task store sus2 (resume store su2 (U_Rejecting s v) (db, fs')) = (Settled (Inr x), w')"
    using run_task_await by metis
  then show False by (auto simp: upload_rejected_def split: prod.splits sum.splits)
qed

lemma failed_not_uploaded: "upload_failed store su s e db = (p, db') \<Longrightarrow> run_task store sus (p, db', fs) \<noteq> (Settled (Inr x), w')"
  by (auto simp: upload_failed_def split: prod.splits sum.splits)

lemma upload_end_uploaded:
  assumes e: "upload_end su u observed db = (p, d)"
    and run: "run_task store sus (p, d, fs) = (Settled (Inr (Uploaded s v)), db', fs')"
  obtains es where "v = observed_verification u observed (to_iso (su_now su))" "verification_valid v"
    "ver_status v = V_MATCHED" "s = u\<lparr>ing_status := G_VERIFIED, ing_updatedAt := ver_verifiedAt v\<rparr>"
    "fs' = fs" "db' = (write_session s (no_session_options\<lparr>so_verification := Some v,
       so_temp := Some (ou_relativePath observed)\<rparr>) db)\<lparr>ad_events := es\<rparr>"
proof -
  define w where "w = observed_verification u observed (to_iso (su_now su))"
  define x where "x = u\<lparr>ing_status := G_VERIFIED, ing_updatedAt := ver_verifiedAt w\<rparr>"
  let ?body = "and_then (updateSession x (no_session_options\<lparr>so_verification := Some w,
      so_temp := Some (ou_relativePath observed)\<rparr>) db) (\<lambda>db1.
    and_then (insertIngestionEvent (su_eventId su) (ing_id u) I_UPLOAD_VERIFIED (ver_verifiedAt w) None db1)
      (\<lambda>db2. Inr ((), db2)))"
  have e': "upload_end su u observed db =
     (if \<not> verification_valid w then (Settled (Inl RegistryValidationError), db)
      else if ver_status w \<noteq> V_MATCHED then (Await (U_Quarantining u w (ou_relativePath observed)), db)
      else case in_transaction db ?body of
             (Inl e, db1) \<Rightarrow> (Settled (Inl e), db1) | (Inr _, db1) \<Rightarrow> (Settled (Inr (Uploaded x w)), db1))"
    unfolding upload_end_def Let_def doc_simps w_def x_def by (rule refl)
  have v: "verification_valid w" using e run by (auto simp: e' split: if_splits)
  have m: "ver_status w = V_MATCHED" using e run v rejected_not_uploaded by (fastforce simp: e' split: if_splits)
  obtain r d1 where t: "in_transaction db ?body = (r, d1)" by fastforce
  have "\<exists>u. r = Inr u" using e run v m t by (cases r) (auto simp: e')
  then obtain u1 where r: "r = Inr u1" by blast
  have p: "p = Settled (Inr (Uploaded x w))" "d = d1" using e v m t r by (simp_all add: e')
  from t r have "insertIngestionEvent (su_eventId su) (ing_id u) I_UPLOAD_VERIFIED (ver_verifiedAt w) None
      (write_session x (no_session_options\<lparr>so_verification := Some w, so_temp := Some (ou_relativePath observed)\<rparr>) db) = Inr d1"
    by (auto simp: in_transaction_commit and_then_Inr)
  then obtain es where "d1 = (write_session x (no_session_options\<lparr>so_verification := Some w,
      so_temp := Some (ou_relativePath observed)\<rparr>) db)\<lparr>ad_events := es\<rparr>"
    by (rule insertIngestionEvent_Inr)
  moreover have "s = x" "v = w" "db' = d1" "fs' = fs" using run p by simp_all
  ultimately show ?thesis using v m w_def x_def by (intro that [of es]) (simp_all only:)
qed

lemma observed_matched:
  assumes "v = observed_verification u observed now" "ver_status v = V_MATCHED"
  shows "ver_observedSha256 v = ou_sha256 observed" "ver_observedSizeBytes v = ou_sizeBytes observed"
    "ou_sha256 observed = descriptor_text ''expectedSha256'' (ing_descriptor u)"
    "of_int (ou_sizeBytes observed) = descriptor_size (ing_descriptor u)" "ver_verifiedAt v = now"
  using assms by (auto simp: observed_verification_def Let_def constantTimeHexEqual_def split: if_splits)

lemma upload_begin_uploaded:
  assumes b: "upload_begin env t su workerId credential leaseId token i stream db = (p, d)"
    and run: "run_task store sus (p, d, fs) = (Settled (Inr (Uploaded s v)), w)"
    and ok: "tables_ok store fs0 db" "session_status db i = Some G_CREATED"
  obtains r u es where "find_by ir_id i (ad_sessions db) = Some r" "is_typed_id ''ing'' i"
    "u = (ir_document r)\<lparr>ing_status := G_UPLOADING, ing_updatedAt := to_iso (su_now su)\<rparr>" "ing_id u = i"
    "p = Await (U_Opening u stream)"
    "d = (write_session u (no_session_options\<lparr>so_temp := Some (session_rel i)\<rparr>) db)\<lparr>ad_events := es\<rparr>"
proof -
  obtain rec where rec: "owned_session env t workerId credential leaseId token i db = Inr rec"
    using b run by (auto simp: upload_begin_def split: sum.splits)
  obtain r where r: "find_by ir_id i (ad_sessions db) = Some r" "sn_session rec = ir_document r"
      "ing_id (sn_session rec) = i" "session_status db i = Some (ing_status (sn_session rec))" "is_typed_id ''ing'' i"
    using record_ofD [OF owned_session_record(1) [OF rec] ok(1)] by metis
  define u where "u = (ir_document r)\<lparr>ing_status := G_UPLOADING, ing_updatedAt := to_iso (su_now su)\<rparr>"
  let ?o = "no_session_options\<lparr>so_temp := Some (session_rel i)\<rparr>"
  have "ing_status (ir_document r) = G_CREATED" using ok(2) r by simp
  then have e: "upload_begin env t su workerId credential leaseId token i stream db =
     (case updateSession u ?o db of
        Inl e \<Rightarrow> (Settled (Inl e), db)
      | Inr db1 \<Rightarrow> (case insertIngestionEvent (su_eventId su) i I_UPLOAD_STARTED (to_iso (su_now su)) None db1 of
          Inl e \<Rightarrow> (Settled (Inl e), db1) | Inr db2 \<Rightarrow> (Await (U_Opening u stream), db2)))"
    using rec r(2,5) unfolding u_def by (simp add: upload_begin_def Let_def sessionRelativePath_def session_rel_def)
  have v: "session_valid u"
    using b run by (auto simp: e updateSession_def doc_simps split: if_splits)
  then have up: "updateSession u ?o db = Inr (write_session u ?o db)" by simp
  obtain db2 where i: "insertIngestionEvent (su_eventId su) i I_UPLOAD_STARTED (to_iso (su_now su)) None
      (write_session u ?o db) = Inr db2" "p = Await (U_Opening u stream)" "d = db2"
    using b run unfolding e up by (auto split: sum.splits)
  obtain es where "db2 = (write_session u ?o db)\<lparr>ad_events := es\<rparr>" by (rule insertIngestionEvent_Inr [OF i(1)])
  with r i show ?thesis by (intro that [OF r(1,5) u_def]) (simp_all add: u_def)
qed

text \<open>What a successful upload of a new session has done.\<close>

lemma uploadContent_success:
  assumes "rooted store" and ok: "tables_ok store fs db" and st: "session_status db i = Some G_CREATED"
    and up: "uploadContent env store t su sus workerId credential leaseId token i stream (db, fs)
      = (Settled (Inr (Uploaded s v)), db', fs')"
  obtains r b where "find_by ir_id i (ad_sessions db) = Some r" "ing_id s = i" "ing_status s = G_VERIFIED"
    "ing_descriptor s = ing_descriptor (ir_document r)"
    "receive_stream (cs_max_bytes store) stream = Inr b" "fs' = fs(session_path store i \<mapsto> b)"
    "ver_observedSha256 v = cs_digest store b" "ver_observedSizeBytes v = int (length b)" "verification_valid v"
    "cs_digest store b = descriptor_text ''expectedSha256'' (ing_descriptor s)"
    "of_int (int (length b)) = descriptor_size (ing_descriptor s)"
    "\<exists>r'. find_by ir_id i (ad_sessions db') = Some r' \<and> ir_document r' = s \<and> ir_verification r' = Some v"
    "ad_artifacts db' = ad_artifacts db" "ad_objects db' = ad_objects db"
proof -
  obtain p1 db1 where b1: "upload_begin env t su workerId credential leaseId token i stream db = (p1, db1)" by fastforce
  with up have run1: "run_task store sus (p1, db1, fs) = (Settled (Inr (Uploaded s v)), db', fs')"
    by (simp add: uploadContent_def)
  obtain r u es where r: "find_by ir_id i (ad_sessions db) = Some r" "is_typed_id ''ing'' i"
      and u: "u = (ir_document r)\<lparr>ing_status := G_UPLOADING, ing_updatedAt := to_iso (su_now su)\<rparr>" "ing_id u = i"
      and p1: "p1 = Await (U_Opening u stream)"
      and db1: "db1 = (write_session u (no_session_options\<lparr>so_temp := Some (session_rel i)\<rparr>) db)\<lparr>ad_events := es\<rparr>"
    by (rule upload_begin_uploaded [OF b1 run1 ok st])
  obtain su2 sus2 where run2: "run_task store sus2 (resume store su2 (U_Opening u stream) (db1, fs))
      = (Settled (Inr (Uploaded s v)), db', fs')"
    using run_task_await [OF run1 [unfolded p1]] by blast
  obtain o1 fs1 where o: "openSession store i fs = (o1, fs1)" by fastforce
  from assms(1) o have opened: "fs1 = fs(session_path store i \<mapsto> []) \<and> run_task store sus2
      (Await (U_Writing u (session_rel i) (session_path store i) stream), db1, fs1) = (Settled (Inr (Uploaded s v)), db', fs')"
  proof (cases rule: openSession_cases)
    case (1 e)
    with run2 o u(2) failed_not_uploaded show ?thesis by (fastforce split: prod.splits)
  next
    case 2
    with run2 o u(2) show ?thesis by simp
  qed
  then obtain su3 sus3 where run3: "run_task store sus3 (resume store su3
      (U_Writing u (session_rel i) (session_path store i) stream) (db1, fs1)) = (Settled (Inr (Uploaded s v)), db', fs')"
    using run_task_await by metis
  obtain w1 fs2 where w: "writeChunks store (session_rel i) (session_path store i) stream fs1 = (w1, fs2)" by fastforce
  then have "\<exists>b p d. receive_stream (cs_max_bytes store) stream = Inr b \<and> fs2 = fs(session_path store i \<mapsto> b)
      \<and> upload_end su3 u (observed_of store i b) db1 = (p, d)
      \<and> run_task store sus3 (p, d, fs2) = (Settled (Inr (Uploaded s v)), db', fs')"
  proof (cases rule: writeChunks_cases)
    case (1 e)
    with run3 w failed_not_uploaded show ?thesis by (fastforce split: prod.splits)
  next
    case (2 b)
    obtain p d where e: "upload_end su3 u (observed_of store i b) db1 = (p, d)" by fastforce
    with 2 run3 w opened show ?thesis by (intro exI [of _ b] exI [of _ p] exI [of _ d]) simp
  qed
  then obtain b p d where b: "receive_stream (cs_max_bytes store) stream = Inr b" "fs2 = fs(session_path store i \<mapsto> b)"
      and e: "upload_end su3 u (observed_of store i b) db1 = (p, d)"
      and run4: "run_task store sus3 (p, d, fs2) = (Settled (Inr (Uploaded s v)), db', fs')"
    by blast
  obtain es2 where v: "v = observed_verification u (observed_of store i b) (to_iso (su_now su3))" "verification_valid v"
      "ver_status v = V_MATCHED" and s: "s = u\<lparr>ing_status := G_VERIFIED, ing_updatedAt := ver_verifiedAt v\<rparr>"
      and fs': "fs' = fs2" and db': "db' = (write_session s (no_session_options\<lparr>so_verification := Some v,
         so_temp := Some (ou_relativePath (observed_of store i b))\<rparr>) db1)\<lparr>ad_events := es2\<rparr>"
    by (rule upload_end_uploaded [OF e run4])
  note m = observed_matched [OF v(1,3)]
  have d: "ing_descriptor s = ing_descriptor u" "ing_descriptor u = ing_descriptor (ir_document r)" "ing_id s = i"
    "ing_status s = G_VERIFIED"
    using u by (simp_all add: s)
  have row: "find_by ir_id i (ad_sessions db1) = Some (written_row u (no_session_options\<lparr>so_temp := Some (session_rel i)\<rparr>) r)"
    using r(1) u(2) by (simp add: db1 find_written)
  have "\<exists>r'. find_by ir_id i (ad_sessions db') = Some r' \<and> ir_document r' = s \<and> ir_verification r' = Some v"
    using row d(3) by (simp add: db' find_written)
  moreover have "ad_artifacts db' = ad_artifacts db" "ad_objects db' = ad_objects db" by (simp_all add: db' db1)
  ultimately show ?thesis
    using that [OF r(1) d(3,4) _ b(1)] m v(2) d(1,2) b(2) fs' by (simp add: observed_of_def)
qed

lemma finalize_begin_verified:
  assumes ok: "tables_ok store fs db" and row: "find_by ir_id i (ad_sessions db) = Some r"
      "ing_status (ir_document r) = G_VERIFIED" "ir_verification r = Some v"
    and run: "run_task store sus (finalize_begin env t su workerId credential leaseId token i db, w)
      = (Settled (Inr x), w')"
  obtains f where "finalize_begin env t su workerId credential leaseId token i db = Await (F_Linking f)"
    "finalization_ok f" "fz_verification f = v" "fz_session f = ir_document r" "ing_id (fz_session f) = i"
proof -
  obtain rec where rec: "owned_session env t workerId credential leaseId token i db = Inr rec"
    using run by (auto simp: finalize_begin_def split: sum.splits)
  obtain r' where r': "find_by ir_id i (ad_sessions db) = Some r'" "sn_session rec = ir_document r'"
      "sn_verification rec = ir_verification r'" "ing_id (sn_session rec) = i"
    using record_ofD [OF owned_session_record(1) [OF rec] ok] by metis
  then have same: "r' = r" using row(1) by simp
  have e: "finalize_begin env t su workerId credential leaseId token i db =
    (case ir_temp_relative_path r of
       None \<Rightarrow> Settled (Inl RegistryValidationError)
     | Some rel \<Rightarrow> if rel = [] then Settled (Inl RegistryValidationError)
         else Await (F_Linking \<lparr> fz_session = ir_document r, fz_verification = v, fz_temp = rel,
                fz_now = to_iso (su_now su) \<rparr>))"
    using rec r'(2,3) row by (simp add: finalize_begin_def Let_def sessionRow_def same)
  obtain rel where rel: "finalize_begin env t su workerId credential leaseId token i db =
      Await (F_Linking \<lparr> fz_session = ir_document r, fz_verification = v, fz_temp = rel, fz_now = to_iso (su_now su) \<rparr>)"
    using run unfolding e by (auto split: option.splits if_splits)
  obtain f where "F_Linking \<lparr> fz_session = ir_document r, fz_verification = v, fz_temp = rel, fz_now = to_iso (su_now su) \<rparr> = F_Linking f"
      "finalization_ok f"
    using finalize_begin_task [OF ok rel] by blast
  with rel r' same show ?thesis by (intro that) auto
qed

lemma finalize_commit_finalized:
  assumes c: "finalize_commit su f (object_rel (ver_observedSha256 (fz_verification f))) db
      = (Settled (Inr (Finalized view rc replayed)), db')"
    and ok: "tables_ok store fs db" "finalization_ok f" "object_file store fs (fz_verification f)"
  obtains r where "tables_ok store fs db'" "r \<in> set (ad_artifacts db')" "view_of_row db' r view" "\<not> replayed"
    "rw_session_id r = ing_id (fz_session f)" "rw_content_digest r = ver_observedSha256 (fz_verification f)"
    "receipt_of r rc" "session_status db' (ing_id (fz_session f)) = Some G_FINALIZED" "rw_id r = su_artifactId su"
proof -
  obtain previous where prev: "previous_artifact (fz_session f) db = Inr previous"
    using c by (auto simp: finalize_commit_def split: sum.splits)
  define a where "a = new_raw_artifact f previous (su_artifactId su) (su_receiptId su)"
  define rc' where "rc' = new_receipt f (su_artifactId su) (su_receiptId su)"
  let ?rel = "object_rel (ver_observedSha256 (fz_verification f))"
  let ?body = "and_then (finalize_rows su f ?rel a rc' db) (\<lambda>db1. Inr ((), db1))"
  have e: "finalize_commit su f ?rel db =
    (if \<not> raw_artifact_valid a \<or> \<not> receipt_valid rc' then (Settled (Inl RegistryValidationError), db)
     else case in_transaction db ?body of
            (Inl e, db') \<Rightarrow> (Settled (Inl e), db')
          | (Inr _, db') \<Rightarrow>
              (Settled (and_then (getArtifact db' (raw_id a)) (\<lambda>found.
                 case found of None \<Rightarrow> Inl (RegistryError (Artifact RAW_ARTIFACT_NOT_FOUND))
                 | Some view \<Rightarrow> Inr (Finalized view rc' False))), db'))"
    unfolding finalize_commit_def prev sum.case Let_def doc_simps a_def rc'_def by (rule refl)
  have valid: "raw_artifact_valid a" "receipt_valid rc'" using c by (auto simp: e split: if_splits)
  obtain res d where t: "in_transaction db ?body = (res, d)" by fastforce
  obtain u where res: "res = Inr u" using c unfolding e t by (cases res) (simp_all add: valid)
  have d: "d = db'" and got: "and_then (getArtifact db' (raw_id a)) (\<lambda>found.
      case found of None \<Rightarrow> Inl (RegistryError (Artifact RAW_ARTIFACT_NOT_FOUND))
      | Some view \<Rightarrow> Inr (Finalized view rc' False)) = Inr (Finalized view rc replayed)"
    using c unfolding e t res by (auto simp: valid)
  have rows: "finalize_rows su f ?rel a rc' db = Inr db'" using t res d by (auto simp: in_transaction_commit and_then_Inr)
  note fin = tables_ok_finalize [OF ok a_def valid(1) rc'_def valid(2) rows]
  let ?r = "raw_row_of f a rc'"
  have r: "?r \<in> set (ad_artifacts db')" using find_by_SomeD [OF fin(3)] by simp
  have id: "rw_id ?r = raw_id a" by (simp add: raw_row_of_def rw_id_def Let_def)
  obtain view' where v: "getArtifact db' (rw_id ?r) = Inr (Some view')" "view_of_row db' ?r view'"
    by (rule getArtifact_row [OF fin(1) r])
  have same: "view = view'" "rc = rc'" "\<not> replayed" using got v(1) id by simp_all
  have "receipt_of ?r rc'"
    by (simp add: receipt_of_def raw_row_of_def a_def rc'_def new_receipt_def new_raw_artifact_def Let_def rw_id_def)
  moreover have "rw_session_id ?r = ing_id (fz_session f)" "rw_content_digest ?r = ver_observedSha256 (fz_verification f)"
    "rw_id ?r = su_artifactId su"
    by (simp_all add: raw_row_of_def Let_def rw_id_def a_def new_raw_artifact_def)
  moreover have "session_status db' (ing_id (fz_session f)) = Some G_FINALIZED" using fin(2) by simp
  ultimately show ?thesis using that [OF fin(1) r] v(2) same by simp
qed

lemma finalizeArtifact_success:
  assumes "rooted store" and ok: "tables_ok store fs db"
    and row: "find_by ir_id i (ad_sessions db) = Some r0" "ing_status (ir_document r0) = G_VERIFIED"
      "ir_verification r0 = Some v"
    and b: "fs (session_path store i) = Some b"
    and fin: "finalizeArtifact env store t su sus workerId credential leaseId token i (db, fs)
      = (Settled (Inr (Finalized view rc replayed)), db', fs')"
  obtains r x where "tables_ok store fs' db'" "r \<in> set (ad_artifacts db')" "view_of_row db' r view" "\<not> replayed"
    "rw_session_id r = i" "rw_content_digest r = ver_observedSha256 v" "receipt_of r rc"
    "fs' (object_path store (ver_observedSha256 v)) = Some x"
    "x = (case fs (object_path store (ver_observedSha256 v)) of None \<Rightarrow> b | Some y \<Rightarrow> y)"
    "cs_digest store x = ver_observedSha256 v" "int (length x) = ver_observedSizeBytes v"
    "fs' (session_path store i) = None"
proof -
  have run1: "run_task store sus (finalize_begin env t su workerId credential leaseId token i db, db, fs)
      = (Settled (Inr (Finalized view rc replayed)), db', fs')"
    using fin by (simp add: finalizeArtifact_def)
  obtain f where f: "finalize_begin env t su workerId credential leaseId token i db = Await (F_Linking f)"
      "finalization_ok f" "fz_verification f = v" "ing_id (fz_session f) = i"
    using finalize_begin_verified [OF ok row run1] by metis
  let ?d = "ver_observedSha256 v"
  obtain su2 sus2 where run2: "run_task store sus2 (resume store su2 (F_Linking f) (db, fs))
      = (Settled (Inr (Finalized view rc replayed)), db', fs')"
    using run_task_await [OF run1 [unfolded f(1)]] by blast
  have i: "is_typed_id ''ing'' i" "is_sha256 ?d" "fz_temp f = session_rel i"
    using f by (auto simp: finalization_ok_def session_valid_def verification_valid_def)
  obtain l fs1 where l: "linkObject store (session_rel i) ?d (ver_observedSizeBytes v) fs = (l, fs1)" by fastforce
  from assms(1) i(1,2) l obtain x where x: "x = (case fs (object_path store ?d) of None \<Rightarrow> b | Some y \<Rightarrow> y)"
      "cs_digest store x = ?d" "int (length x) = ver_observedSizeBytes v" "fs1 = fs(object_path store ?d \<mapsto> x)"
      "l = Inr (object_rel ?d, session_path store i)"
  proof (cases rule: linkObject_cases)
    case (3 c x)
    then have "c = b" using b by simp
    from that [OF 3(2) [unfolded this] 3(3,4,6,5)] show ?thesis .
  qed (use run2 f(3) i(3) l in \<open>simp_all\<close>)
  have run3: "run_task store sus2 (Await (F_Removing f (object_rel ?d) (session_path store i)), db, fs1)
      = (Settled (Inr (Finalized view rc replayed)), db', fs')"
    using run2 f(3) i(3) l x(5) by simp
  obtain su4 sus4 where run4: "run_task store sus4 (Await (F_Clearing f (object_rel ?d) (session_path store i)), db,
      removeFile (session_path store i) fs1) = (Settled (Inr (Finalized view rc replayed)), db', fs')"
    using run_task_await [OF run3] by auto
  obtain su5 sus5 where run5: "run_task store sus5 (Await (F_Committing f (object_rel ?d)), db,
      removeUpload (session_path store i) fs1) = (Settled (Inr (Finalized view rc replayed)), db', fs')"
    using run_task_await [OF run4] by (auto simp: removeUpload_def)
  obtain su6 sus6 where run6: "run_task store sus6 (resume store su6 (F_Committing f (object_rel ?d))
      (db, removeUpload (session_path store i) fs1)) = (Settled (Inr (Finalized view rc replayed)), db', fs')"
    using run_task_await [OF run5] by blast
  obtain p d where c: "finalize_commit su6 f (object_rel ?d) db = (p, d)" by fastforce
  have k: "keeps_files store fs fs1" by (rule keeps_files_link [OF assms(1) i(1,2) l])
  have k2: "keeps_files store fs1 (removeUpload (session_path store i) fs1)" by (rule keeps_files_session(5))
  have stored: "object_file store (removeUpload (session_path store i) fs1) (fz_verification f)"
    by (rule object_file_keeps [OF _ k2]) (simp add: object_file_def f(3) x(2-4))
  note ok' = tables_ok_files [OF tables_ok_files [OF ok k] k2]
  have "tasks_of p = []" using finalize_commit_moves(1) [OF c [folded f(3)] ok' f(2) stored] .
  with run6 c have p: "p = Settled (Inr (Finalized view rc replayed))" "d = db'"
      "fs' = removeUpload (session_path store i) fs1"
    by (cases p; simp)+
  obtain r where r: "tables_ok store fs' db'" "r \<in> set (ad_artifacts db')" "view_of_row db' r view" "\<not> replayed"
      "rw_session_id r = i" "rw_content_digest r = ?d" "receipt_of r rc"
    using finalize_commit_finalized [OF c [unfolded p, folded f(3)] ok' f(2) stored] f(3,4) p(3) by metis
  have "fs' (object_path store ?d) = Some x"
    using keeps_object [OF k2, of ?d x] x(4) p(3) by simp
  moreover have "fs' (session_path store i) = None"
    by (simp add: p(3) removeUpload_session remove_under_def)
  ultimately show ?thesis by (rule that [OF r _ x(1-3)])
qed

text \<open>A call that nothing interrupts is a path of the system.\<close>

lemma run_task_steps:
  assumes "run_task store sus (p, db, fs) = (p', db', fs')"
  shows "(artifact_step store)\<^sup>*\<^sup>* \<lparr> sy_db = db, sy_files = fs, sy_tasks = ts @ tasks_of p \<rparr>
    \<lparr> sy_db = db', sy_files = fs', sy_tasks = ts @ tasks_of p' \<rparr>"
  using assms
proof (induction sus arbitrary: p db fs)
  case Nil
  then show ?case by simp
next
  case (Cons su sus)
  show ?case
  proof (cases p)
    case (Await t)
    obtain p1 db1 fs1 where r: "resume store su t (db, fs) = (p1, db1, fs1)" by (metis prod_cases3)
    have "artifact_step store \<lparr> sy_db = db, sy_files = fs, sy_tasks = ts @ tasks_of p \<rparr>
        \<lparr> sy_db = db1, sy_files = fs1, sy_tasks = ts @ tasks_of p1 @ [] \<rparr>"
      by (rule artifact_step.resume [where task = t and su = su]) (simp_all add: Await r)
    moreover have "run_task store sus (p1, db1, fs1) = (p', db', fs')" using Cons.prems Await r by simp
    note Cons.IH [OF this]
    ultimately show ?thesis by (simp add: converse_rtranclp_into_rtranclp)
  qed (use Cons.prems in simp)
qed

lemma uploadContent_steps:
  assumes "uploadContent env store t su sus workerId credential leaseId token i stream (sy_db sy, sy_files sy) = (p, db', fs')"
  shows "(artifact_step store)\<^sup>*\<^sup>* sy \<lparr> sy_db = db', sy_files = fs', sy_tasks = sy_tasks sy @ tasks_of p \<rparr>"
proof -
  obtain p1 db1 where b: "upload_begin env t su workerId credential leaseId token i stream (sy_db sy) = (p1, db1)" by fastforce
  have "artifact_step store sy \<lparr> sy_db = db1, sy_files = sy_files sy, sy_tasks = sy_tasks sy @ tasks_of p1 \<rparr>"
    using artifact_step.upload [OF b] by (cases sy) simp
  moreover have "run_task store sus (p1, db1, sy_files sy) = (p, db', fs')" using assms b by (simp add: uploadContent_def)
  note run_task_steps [OF this]
  ultimately show ?thesis by (rule converse_rtranclp_into_rtranclp)
qed

lemma upload_then_finalize:
  assumes "rooted store" "reachable_system store sy" and st: "session_status (sy_db sy) i = Some G_CREATED"
    and up: "uploadContent env store t su sus workerId credential leaseId token i stream (sy_db sy, sy_files sy)
      = (Settled (Inr (Uploaded s v)), db1, fs1)"
    and fin: "finalizeArtifact env store t' su' sus' workerId credential leaseId token i (db1, fs1)
      = (Settled (Inr (Finalized view rc replayed)), db2, fs2)"
  obtains b c where "receive_stream (cs_max_bytes store) stream = Inr b"
    "contentPath store (raw_id (av_artifact view)) (db2, fs2) = Inr
      \<lparr> cl_path = object_path store (cs_digest store b), cl_mimeType = raw_mimeType (av_artifact view),
        cl_originalName = raw_originalName (av_artifact view), cl_sizeBytes = int (length b) \<rparr>"
    "fs2 (object_path store (cs_digest store b)) = Some c" "cs_digest store c = cs_digest store b"
    "length c = length b" "sy_files sy (object_path store (cs_digest store b)) = None \<longrightarrow> c = b"
    "cs_digest store b = descriptor_text ''expectedSha256'' (ing_descriptor s)"
    "of_int (int (length b)) = descriptor_size (ing_descriptor s)"
    "raw_sha256 (av_artifact view) = cs_digest store b" "av_sessionId view = i" "rcp_artifactId rc = raw_id (av_artifact view)"
proof -
  have ok: "tables_ok store (sy_files sy) (sy_db sy)"
    using reachable_system_ok [OF assms(1,2)] by (simp add: system_ok_def)
  have ok1: "tables_ok store fs1 db1"
    using steps_ok [OF assms(1) uploadContent_steps [OF up] reachable_system_ok [OF assms(1,2)]] by (simp add: system_ok_def)
  obtain r0 b where u: "ing_status s = G_VERIFIED" "receive_stream (cs_max_bytes store) stream = Inr b"
      "fs1 = (sy_files sy)(session_path store i \<mapsto> b)" "ver_observedSha256 v = cs_digest store b"
      "ver_observedSizeBytes v = int (length b)" "cs_digest store b = descriptor_text ''expectedSha256'' (ing_descriptor s)"
      "of_int (int (length b)) = descriptor_size (ing_descriptor s)"
      "find_by ir_id i (ad_sessions db1) = Some r0" "ir_document r0 = s" "ir_verification r0 = Some v"
    using uploadContent_success [OF assms(1) ok st up] by metis
  have st1: "ing_status (ir_document r0) = G_VERIFIED" using u by simp
  have b1: "fs1 (session_path store i) = Some b" using u(3) by simp
  obtain r x where f: "tables_ok store fs2 db2" "r \<in> set (ad_artifacts db2)" "view_of_row db2 r view"
      "rw_session_id r = i" "rw_content_digest r = ver_observedSha256 v" "receipt_of r rc"
      "fs2 (object_path store (ver_observedSha256 v)) = Some x"
      "x = (case fs1 (object_path store (ver_observedSha256 v)) of None \<Rightarrow> b | Some y \<Rightarrow> y)"
      "cs_digest store x = ver_observedSha256 v" "int (length x) = ver_observedSizeBytes v"
    using finalizeArtifact_success [OF assms(1) ok1 u(8) st1 u(10) b1 fin] by metis
  obtain c where c: "contentPath store (rw_id r) (db2, fs2) = Inr
      \<lparr> cl_path = object_path store (rw_content_digest r), cl_mimeType = raw_mimeType (rw_document r),
        cl_originalName = raw_originalName (rw_document r), cl_sizeBytes = raw_sizeBytes (rw_document r) \<rparr>"
      "fs2 (object_path store (rw_content_digest r)) = Some c" "cs_digest store c = raw_sha256 (rw_document r)"
      "int (length c) = raw_sizeBytes (rw_document r)"
    by (rule contentPath_reads [OF assms(1) f(1,2)])
  have view: "av_artifact view = rw_document r" "av_sessionId view = i" using f(3,4) by (simp_all add: view_of_row_def)
  have cx: "c = x" using c(2) f(5,7) by simp
  have len: "length c = length b" using f(10) u(5) cx by simp
  show ?thesis
  proof (rule that [OF u(2)])
    show "contentPath store (raw_id (av_artifact view)) (db2, fs2) = Inr
      \<lparr> cl_path = object_path store (cs_digest store b), cl_mimeType = raw_mimeType (av_artifact view),
        cl_originalName = raw_originalName (av_artifact view), cl_sizeBytes = int (length b) \<rparr>"
      using c(1,4) view(1) f(5) u(4) len by (simp add: rw_id_def)
    show "fs2 (object_path store (cs_digest store b)) = Some c" using c(2) f(5) u(4) by simp
    show "cs_digest store c = cs_digest store b" using f(9) cx u(4) by simp
    show "length c = length b" by (rule len)
    show "sy_files sy (object_path store (cs_digest store b)) = None \<longrightarrow> c = b"
      using f(8) cx u(3,4) object_not_session(1) by simp
    show "raw_sha256 (av_artifact view) = cs_digest store b"
      using c(3) view(1) f(9) cx u(4) by simp
    show "rcp_artifactId rc = raw_id (av_artifact view)" using f(6) view(1) by (simp add: receipt_of_def rw_id_def)
  qed (rule u(6) u(7) view(2))+
qed

section \<open>Where the code does not do what it means to\<close>

text \<open>
  An upload that was aborted while it was awaited settles as verified all the same; its file is gone,
  so it can never be finalized.
\<close>

lemma missing_upload_never_finalizes:
  assumes "rooted store" "tables_ok store fs db" "session_status db i = Some G_VERIFIED" "fs (session_path store i) = None"
  shows "finalizeArtifact env store t su sus workerId credential leaseId token i (db, fs) \<noteq> (Settled (Inr x), w')"
proof
  assume "finalizeArtifact env store t su sus workerId credential leaseId token i (db, fs) = (Settled (Inr x), w')"
  then have run: "run_task store sus (finalize_begin env t su workerId credential leaseId token i db, db, fs)
      = (Settled (Inr x), w')" by (simp add: finalizeArtifact_def)
  show False
  proof (cases "finalize_begin env t su workerId credential leaseId token i db")
    case (Await u)
    obtain f where f: "u = F_Linking f" "finalization_ok f" "ing_id (fz_session f) = i"
      by (rule finalize_begin_task [OF assms(2) Await])
    obtain su2 sus2 where r: "run_task store sus2 (resume store su2 u (db, fs)) = (Settled (Inr x), w')"
      using run_task_await [OF run [unfolded Await]] by blast
    have i: "is_typed_id ''ing'' i" "fz_temp f = session_rel i"
      using f by (auto simp: finalization_ok_def session_valid_def)
    have "linkObject store (session_rel i) d n fs = (Inl NodeError, fs)" for d n
      using resolve_session [OF assms(1) i(1)] assms(4) by (simp add: linkObject_def session_rel_def)
    with r f(1) i(2) show False by simp
  next
    case (Settled res)
    with run have "res = Inr x" by simp
    with Settled obtain rec where rec: "owned_session env t workerId credential leaseId token i db = Inr rec"
      by (auto simp: finalize_begin_def split: sum.splits)
    have "ing_status (sn_session rec) = G_VERIFIED"
      using record_ofD [OF owned_session_record(1) [OF rec] assms(2)] assms(3) by (metis option.inject)
    with Settled rec \<open>res = Inr x\<close> show False
      by (auto simp: finalize_begin_def Let_def split: option.splits sum.splits if_splits)
  qed
qed

lemma abort_of_upload:
  assumes "rooted store" "tables_ok store fs db" "session_status db i = Some G_UPLOADING"
    "abort env store t now eventId workerId credential leaseId token i reason (db, fs) = (Inr rec, db', fs')"
  shows "session_status db' = (session_status db)(i \<mapsto> G_ABORTED)" "fs' (session_path store i) = None" "tables_ok store fs' db'"
proof -
  obtain rec0 where rec: "owned_session env t workerId credential leaseId token i db = Inr rec0"
    using assms(4) by (auto simp: abort_def split: sum.splits)
  obtain r where r: "find_by ir_id i (ad_sessions db) = Some r" "session_row_ok r"
      "ing_id (sn_session rec0) = i" "session_status db i = Some (ing_status (sn_session rec0))" "sn_session rec0 = ir_document r"
      "is_typed_id ''ing'' i" "ir_temp_relative_path r = None \<or> ir_temp_relative_path r = Some (session_rel i)"
    using record_ofD [OF owned_session_record(1) [OF rec] assms(2)] by metis
  have st: "ing_status (sn_session rec0) = G_UPLOADING" using r(4) assms(3) by simp
  then have temp: "ir_temp_relative_path r = Some (session_rel i)"
    using r(2,5,7) by (auto simp: session_row_ok_def)
  let ?fs = "remove_under (cs_root store @ [''sessions'', i]) fs"
  let ?rows = "abort_rows eventId (sn_session rec0) (abort_failure reason (to_iso now)) (to_iso now) db"
  have "?rows = Inr db' \<and> fs' = ?fs"
    using assms(4) rec st r(1) temp cleanup_session [OF assms(1) r(6), of fs]
    by (auto simp: abort_def Let_def sessionRow_def in_transaction_def and_then_Inr split: sum.splits prod.splits)
  then have rows: "?rows = Inr db'" and fs': "fs' = ?fs" by simp_all
  have k: "keeps_files store fs ?fs" by (rule keeps_files_session(2))
  have "session_moved store ?fs db db' (ing_id (sn_session rec0)) G_ABORTED"
    by (rule abort_rows_moves [OF rows tables_ok_files [OF assms(2) k] _, of G_UPLOADING]) (use r assms(3) in simp_all)
  then show "session_status db' = (session_status db)(i \<mapsto> G_ABORTED)" "tables_ok store fs' db'"
    using r(3) fs' by (simp_all add: session_moved_def)
  show "fs' (session_path store i) = None" by (simp add: fs' remove_under_def session_path_def)
qed

lemma aborted_upload_verified:
  assumes "rooted store" and sy: "system_ok store sy"
    and task: "U_Writing s rel target stream \<in> set (sy_tasks sy)"
    and st: "session_status (sy_db sy) (ing_id s) = Some G_UPLOADING"
    and ab: "abort env store t now eventId workerId credential leaseId token (ing_id s) reason (sy_db sy, sy_files sy)
      = (Inr rec, db1, fs1)"
    and re: "resume store su (U_Writing s rel target stream) (db1, fs1) = (Settled (Inr (Uploaded s' v)), db2, fs2)"
  shows "session_status db1 (ing_id s) = Some G_ABORTED \<and> session_status db2 (ing_id s) = Some G_VERIFIED
    \<and> fs2 (session_path store (ing_id s)) = None \<and> tables_ok store fs2 db2"
proof -
  let ?i = "ing_id s"
  have ok: "tables_ok store (sy_files sy) (sy_db sy)" "tasks_ok store (sy_files sy) (sy_db sy) (sy_tasks sy)"
    using sy by (simp_all add: system_ok_def)
  note a = abort_of_upload [OF assms(1) ok(1) st ab]
  have t: "upload_session_ok s" "rel = session_rel ?i" "target = session_path store ?i"
    using ok(2) task by (auto simp: tasks_ok_def task_ok_def)
  obtain w fs' where w: "writeChunks store (session_rel ?i) (session_path store ?i) stream fs1 = (w, fs')" by fastforce
  then have "\<exists>b p d. upload_end su s (observed_of store ?i b) db1 = (p, d) \<and> p = Settled (Inr (Uploaded s' v)) \<and> d = db2
      \<and> fs' = fs1 \<and> fs2 = fs1"
  proof (cases rule: writeChunks_cases)
    case (1 e)
    with re t w show ?thesis by (auto simp: upload_failed_def split: prod.splits sum.splits)
  next
    case (2 b)
    obtain p d where e: "upload_end su s (observed_of store ?i b) db1 = (p, d)" by fastforce
    with 2 re t w a(2) show ?thesis by (intro exI [of _ b] exI [of _ p] exI [of _ d]) simp
  qed
  then obtain b where e: "upload_end su s (observed_of store ?i b) db1 = (Settled (Inr (Uploaded s' v)), db2)"
    and fs2: "fs2 = fs1" by blast
  have at: "uploading_at store fs1 db1 s" using a(1,3) t(1) by (simp add: uploading_at_def)
  have rel: "ou_relativePath (observed_of store ?i b) = session_rel ?i" by (simp add: observed_of_def)
  have "run_task store [] (Settled (Inr (Uploaded s' v)), db2, fs1) = (Settled (Inr (Uploaded s' v)), db2, fs1)" by simp
  then obtain es where s': "s' = s\<lparr>ing_status := G_VERIFIED, ing_updatedAt := ver_verifiedAt v\<rparr>"
    and db2: "db2 = (write_session s' (no_session_options\<lparr>so_verification := Some v,
       so_temp := Some (ou_relativePath (observed_of store ?i b))\<rparr>) db1)\<lparr>ad_events := es\<rparr>"
    by (rule upload_end_uploaded [OF e])
  have v: "session_status db2 ?i = Some G_VERIFIED" using a(1) by (simp add: db2 status_written s')
  from upload_end_moves [OF e at rel] have "db2 = db1 \<or> session_moved store fs1 db1 db2 ?i G_VERIFIED" by auto
  with v a(1,2,3) fs2 show ?thesis by (auto simp: session_moved_def)
qed

text \<open>
  The version of an artifact is that of the newest one at its address, by the time their \<open>finalize\<close>
  began, plus one: a call that began before the newest artifact's call and commits after it does not
  become the newest, and the next one gets its version again.
\<close>

lemma newest_max:
  assumes "newest rs = Some p"
  shows "p \<in> set rs" "q \<in> set rs \<Longrightarrow> (rw_created_at q, rw_id q) \<le> (rw_created_at p, rw_id p)"
proof -
  let ?k = "\<lambda>r. (rw_created_at r, rw_id r)"
  obtain ps where "rev (sort_key ?k rs) = p # ps"
    using assms by (auto simp: newest_def newest_first_def split: list.splits)
  then have s: "sort_key ?k rs = rev ps @ [p]" by (metis rev_swap rev.simps(2))
  then show "p \<in> set rs" by (metis set_sort in_set_conv_decomp)
  have "sorted (map ?k (rev ps @ [p]))" using sorted_sort_key [of ?k rs] s by simp
  moreover assume "q \<in> set rs"
  then have "q \<in> set (rev ps @ [p])" using s by (metis set_sort)
  ultimately show "?k q \<le> ?k p" by (auto simp: sorted_append)
qed

lemma newest_unique:
  assumes "distinct (map rw_id rs)" "p \<in> set rs"
    "\<And>q. q \<in> set rs \<Longrightarrow> (rw_created_at q, rw_id q) \<le> (rw_created_at p, rw_id p)"
  shows "newest rs = Some p"
proof -
  have "rs \<noteq> []" using assms(2) by auto
  then have "sort_key (\<lambda>r. (rw_created_at r, rw_id r)) rs \<noteq> []" by (metis length_0_conv length_sort)
  then obtain p' where p': "newest rs = Some p'"
    by (cases "rev (sort_key (\<lambda>r. (rw_created_at r, rw_id r)) rs)") (auto simp: newest_def newest_first_def)
  have "(rw_created_at p', rw_id p') = (rw_created_at p, rw_id p)"
    using newest_max [OF p'] assms(2,3) by (meson antisym)
  then have "p' = p" using distinct_key_eq [OF assms(1) newest_max(1) [OF p'] assms(2)] by simp
  with p' show ?thesis by simp
qed

lemma newest_late:
  assumes "newest rs = Some p" "distinct (map rw_id (rs @ [r]))" "rw_created_at r < rw_created_at p"
  shows "newest (rs @ [r]) = Some p"
proof (rule newest_unique [OF assms(2)])
  fix q assume "q \<in> set (rs @ [r])"
  then show "(rw_created_at q, rw_id q) \<le> (rw_created_at p, rw_id p)"
    using newest_max(2) [OF assms(1), of q] assms(3) by (cases "q = r") (auto simp: less_eq_prod_def)
qed (use newest_max(1) [OF assms(1)] in simp)

lemma finalize_commit_appends:
  assumes "finalize_commit su f rel db = (Settled (Inr (Finalized view rc replayed)), db')"
    "distinct (map rw_id (ad_artifacts db))"
  obtains previous r where "previous_artifact (fz_session f) db = Inr previous"
    "av_artifact view = new_raw_artifact f previous (su_artifactId su) (su_receiptId su)"
    "ad_artifacts db' = ad_artifacts db @ [r]" "rw_document r = av_artifact view"
    "distinct (map rw_id (ad_artifacts db'))" "raw_artifact_valid (av_artifact view)"
proof -
  obtain previous where prev: "previous_artifact (fz_session f) db = Inr previous"
    using assms(1) by (auto simp: finalize_commit_def split: sum.splits)
  define a where "a = new_raw_artifact f previous (su_artifactId su) (su_receiptId su)"
  define rc' where "rc' = new_receipt f (su_artifactId su) (su_receiptId su)"
  let ?body = "and_then (finalize_rows su f rel a rc' db) (\<lambda>db1. Inr ((), db1))"
  have e: "finalize_commit su f rel db =
    (if \<not> raw_artifact_valid a \<or> \<not> receipt_valid rc' then (Settled (Inl RegistryValidationError), db)
     else case in_transaction db ?body of
            (Inl e, db') \<Rightarrow> (Settled (Inl e), db')
          | (Inr _, db') \<Rightarrow>
              (Settled (and_then (getArtifact db' (raw_id a)) (\<lambda>found.
                 case found of None \<Rightarrow> Inl (RegistryError (Artifact RAW_ARTIFACT_NOT_FOUND))
                 | Some view \<Rightarrow> Inr (Finalized view rc' False))), db'))"
    unfolding finalize_commit_def prev sum.case Let_def doc_simps a_def rc'_def by (rule refl)
  have valid: "raw_artifact_valid a" "receipt_valid rc'" using assms(1) by (auto simp: e split: if_splits)
  obtain res d where t: "in_transaction db ?body = (res, d)" by fastforce
  obtain u where res: "res = Inr u" using assms(1) unfolding e t by (cases res) (simp_all add: valid)
  have d: "d = db'" and got: "getArtifact db' (raw_id a) = Inr (Some view)"
    using assms(1) unfolding e t res by (auto simp: valid and_then_Inr split: option.splits)
  have rows: "finalize_rows su f rel a rc' db = Inr db'" using t res d by (auto simp: in_transaction_commit and_then_Inr)
  define s where "s = fz_session f"
  obtain r ob db1 db2 where up: "upsert_object ob db = Inr db1" and ins: "insert_raw_artifact r db1 = Inr db2"
    and arts: "ad_artifacts db' = ad_artifacts db2" and r: "rw_document r = a"
    using rows by (auto simp: finalize_rows_def and_then_Inr Let_def elim!: insertIngestionEvent_Inr)
  have a2: "ad_artifacts db' = ad_artifacts db @ [r]" "rw_id r \<notin> rw_id ` set (ad_artifacts db)"
    using insert_raw_Inr(1,2) [OF ins] upsert_fields(1) [OF up] arts by simp_all
  have id: "rw_id r = raw_id a" by (simp add: rw_id_def r)
  have "find_by rw_id (raw_id a) (ad_artifacts db') = Some r"
    using a2 id find_by_None [of rw_id "raw_id a" "ad_artifacts db"] by (simp add: find_by_append)
  with got have "av_artifact view = a" by (auto simp: getArtifact_def and_then_Inr r split: option.splits)
  then show ?thesis
    using that [OF prev _ a2(1)] r valid(1) a2 assms(2) by (simp add: a_def)
qed

lemma late_commit_repeats_version:
  assumes one: "finalize_commit su f rel db = (Settled (Inr (Finalized view rc replayed)), db1)"
    and two: "finalize_commit su' g rel' db1 = (Settled (Inr (Finalized view' rc' replayed')), db2)"
    and address: "ing_workspaceId (fz_session g) = ing_workspaceId (fz_session f)"
      "ing_sourceId (fz_session g) = ing_sourceId (fz_session f)"
      "descriptor_text_option ''canonicalUri'' (ing_descriptor (fz_session g)) = Some uri"
      "descriptor_text_option ''canonicalUri'' (ing_descriptor (fz_session f)) = Some uri" "uri \<noteq> []"
    and p: "newest (filter (same_address (ing_workspaceId (fz_session f)) (ing_sourceId (fz_session f)) uri)
        (ad_artifacts db)) = Some p"
      "fz_now f < rw_created_at p" "distinct (map rw_id (ad_artifacts db))"
  shows "raw_version (av_artifact view) = raw_version (rw_document p) + 1
    \<and> raw_version (av_artifact view') = raw_version (av_artifact view)
    \<and> raw_supersedesArtifactId (av_artifact view') = raw_supersedesArtifactId (av_artifact view)
    \<and> raw_canonicalUri (av_artifact view') = raw_canonicalUri (av_artifact view)
    \<and> raw_id (av_artifact view') \<noteq> raw_id (av_artifact view)"
proof -
  let ?here = "same_address (ing_workspaceId (fz_session f)) (ing_sourceId (fz_session f)) uri"
  obtain previous r where f: "previous_artifact (fz_session f) db = Inr previous"
      "av_artifact view = new_raw_artifact f previous (su_artifactId su) (su_receiptId su)"
      "ad_artifacts db1 = ad_artifacts db @ [r]" "rw_document r = av_artifact view"
      "distinct (map rw_id (ad_artifacts db1))"
    by (rule finalize_commit_appends [OF one p(3)])
  obtain previous' r' where g: "previous_artifact (fz_session g) db1 = Inr previous'"
      "av_artifact view' = new_raw_artifact g previous' (su_artifactId su') (su_receiptId su')"
      "ad_artifacts db2 = ad_artifacts db1 @ [r']" "rw_document r' = av_artifact view'"
      "distinct (map rw_id (ad_artifacts db2))"
    by (rule finalize_commit_appends [OF two f(5)])
  have created: "rw_created_at r = fz_now f" by (simp add: rw_created_at_def f(4) f(2) new_raw_artifact_def Let_def)
  have here: "?here r" by (simp add: same_address_def f(4) f(2) new_raw_artifact_def Let_def non_empty_def address)
  have "distinct (map rw_id (filter ?here (ad_artifacts db) @ [r]))"
  proof -
    have "filter ?here (ad_artifacts db) @ [r] = filter ?here (ad_artifacts db1)" using here f(3) by simp
    with f(5) show ?thesis by (simp only:) (rule distinct_map_filter)
  qed
  from newest_late [OF p(1) this] created p(2) here f(3)
  have late: "newest (filter ?here (ad_artifacts db1)) = Some p" by simp
  have "previous = Some (rw_document p)"
    using f(1) p(1) address by (auto simp: previous_artifact_def non_empty_def parse_optional_def and_then_Inr)
  moreover have "previous' = Some (rw_document p)"
    using g(1) late address by (auto simp: previous_artifact_def non_empty_def parse_optional_def and_then_Inr)
  moreover have "rw_id r' \<noteq> rw_id r" using g(3,5) f(3) by auto
  ultimately show ?thesis
    using f(2,4) g(2,4) address by (simp add: new_raw_artifact_def Let_def non_empty_def rw_id_def)
qed

end
