(* ===== verification/Sample_Artifacts.thy ===== *)
theory Sample_Artifacts
  imports Artifact_Results Sample_Execution
begin

text \<open>
  The sample attempt ingests a page: its session is created, uploaded and finalized, or aborted while
  the upload is awaited. The systems are what the methods return.
\<close>

section \<open>Store, descriptor and caller\<close>

text \<open>A digest of 32 bytes that keeps short contents apart.\<close>

definition content0 :: content_store where
  "content0 = \<lparr> cs_root = [''data''], cs_max_bytes = 1000,
     cs_digest = (\<lambda>b. toHex (take 32 (b @ replicate 32 0))) \<rparr>"

definition page0 :: bytes where
  "page0 = [10, 20, 30]"

definition stream0 :: upload_stream where
  "stream0 = \<lparr> us_chunks = [[10], [20, 30]], us_breaks = False \<rparr>"

definition digest0 :: string where
  "digest0 = cs_digest content0 page0"

definition page_uri :: string where
  "page_uri = ''https://www.gazette.example/page''"

definition descriptor0 :: json where
  "descriptor0 = JObj [(''artifactKind'', JStr ''HTML''), (''mimeType'', JStr ''text/html''),
     (''originalName'', JStr ''page.html''), (''expectedSizeBytes'', JInt 3),
     (''expectedSha256'', JStr digest0), (''sourceUri'', JStr page_uri), (''canonicalUri'', JStr page_uri)]"

abbreviation "ing0 \<equiv> sample_id ''ing'' CHR ''V''"
abbreviation "wrk0 \<equiv> sample_id ''wrk'' CHR ''V''"
abbreviation "lse0 \<equiv> sample_id ''lse'' CHR ''V''"

definition create0 :: create_session_input where
  "create0 = \<lparr> csi_workerId = wrk0, csi_credential = ''secret'', csi_leaseId = lse0, csi_leaseToken = ''token'',
     csi_descriptor = descriptor0, csi_idempotencyKey = ''page-1'' \<rparr>"

definition context0 :: ingestion_context where
  "context0 = \<lparr> ic_lease = lease2, ic_job = job4, ic_run = run4, ic_attempt = attempt4 \<rparr>"

lemma content0_rooted [simp]: "rooted content0"
  by (simp add: content0_def plain_segment_def)

lemma content0_digest [simp]: "is_sha256 (cs_digest content0 b)"
  by (simp add: content0_def is_sha256_def list_all_toHex length_toHex)

lemma digest0_text: "digest0 = ''0a141e'' @ replicate 58 CHR ''0''"
  unfolding digest0_def content0_def page0_def by code_simp

lemma digest0_sha256 [simp]: "is_sha256 digest0"
  by (simp add: digest0_def)

lemma descriptor0_valid [simp]: "isArtifactUploadDescriptor descriptor0"
  unfolding descriptor0_def digest0_text page_uri_def by code_simp

lemma descriptor0_name [simp]: "with_original_name descriptor0 = descriptor0"
  unfolding descriptor0_def digest0_text page_uri_def by code_simp

lemma descriptor0_fields [simp]:
  "descriptor_text ''expectedSha256'' descriptor0 = digest0" "descriptor_size descriptor0 = 3"
  "descriptor_text ''artifactKind'' descriptor0 = ''HTML''" "descriptor_text ''mimeType'' descriptor0 = ''text/html''"
  "descriptor_text ''originalName'' descriptor0 = ''page.html''" "descriptor_text ''sourceUri'' descriptor0 = page_uri"
  "descriptor_text_option ''canonicalUri'' descriptor0 = Some page_uri"
  "descriptor_text_option ''publishedAt'' descriptor0 = None" "descriptor_parents descriptor0 = None"
  by (simp_all add: descriptor0_def descriptor_text_def descriptor_size_def descriptor_text_option_def
      descriptor_parents_def field_def)

lemma sample_artifact_ids [simp]:
  "is_typed_id ''ing'' (sample_id ''ing'' CHR ''V'')" "is_typed_id ''ing'' (sample_id ''ing'' CHR ''W'')"
  "is_typed_id ''ing'' (sample_id ''ing'' CHR ''X'')"
  "is_typed_id ''air'' (sample_id ''air'' CHR ''V'')" "is_typed_id ''air'' (sample_id ''air'' CHR ''W'')"
  "is_typed_id ''art'' (sample_id ''art'' CHR ''X'')" "is_typed_id ''air'' (sample_id ''air'' CHR ''X'')"
  "is_typed_id ''art'' (sample_id ''art'' CHR ''V'')" "is_typed_id ''art'' (sample_id ''art'' CHR ''W'')"
  "is_typed_id ''aev'' (sample_id ''aev'' CHR ''V'')" "is_typed_id ''aev'' (sample_id ''aev'' CHR ''W'')"
  "is_typed_id ''aev'' (sample_id ''aev'' CHR ''X'')" "is_typed_id ''aev'' (sample_id ''aev'' CHR ''Y'')"
  "is_typed_id ''aev'' (sample_id ''aev'' CHR ''Z'')" "is_typed_id ''aev'' (sample_id ''aev'' CHR ''T'')"
  by code_simp+

lemma page_key [simp]: "normalizeTransitionKey ''page-1'' = Inr ''page-1''" "text_within 128 ''page-1''"
  by code_simp+

lemma authenticate0:
  assumes "0 < n" "n < 120000"
  shows "artifact_authenticate platform0 (now0 + n) wrk0 ''secret'' lse0 ''token'' store4 = Inr context0"
proof -
  have "attempt_status attempt4 = X_RUNNING" "attempt_leaseId attempt4 = lse0"
    by (simp_all add: attempt4_def new_attempt_def)
  then show ?thesis
    using assms sample_digests(2)
    by (simp add: artifact_authenticate_def verify4 lease_by_id_def lease_row_of_def job_by_id_def job_row_of_def
        run_by_id_def run_row_of_def write_job_def write_run_def attempt_row_of_def context0_def date_due_def)
qed

section \<open>Creating the session\<close>

definition session0 :: ingestion_session where
  "session0 = new_session create0 context0 ing0 ''page-1'' descriptor0 (to_iso (now0 + 2000))"

definition hash0 :: string where
  "hash0 = digestHex platform0 (stringify (number_text platform0) descriptor0)"

definition artifact_event :: "char \<Rightarrow> int \<Rightarrow> ingestion_event_type \<Rightarrow> int \<Rightarrow> ingestion_event" where
  "artifact_event c n ty t =
     \<lparr> iev_id = sample_id ''aev'' c, iev_sessionId = ing0, iev_sequence = n, iev_eventType = ty,
       iev_recordedAt = to_iso t, iev_failure = None \<rparr>"

definition row0 :: ingestion_row where
  "row0 = \<lparr> ir_descriptor_hash = hash0, ir_document = session0, ir_verification = None, ir_receipt = None,
     ir_failure = None, ir_temp_relative_path = None \<rparr>"

definition adb0 :: artifact_db where
  "adb0 = \<lparr> ad_control = store4, ad_sessions = [], ad_objects = [], ad_artifacts = [], ad_events = [] \<rparr>"

definition adb1 :: artifact_db where
  "adb1 = adb0\<lparr>ad_sessions := [row0], ad_events := [artifact_event CHR ''V'' 1 I_SESSION_CREATED (now0 + 2000)]\<rparr>"

lemma session0_fields [simp]:
  "ing_id session0 = ing0" "ing_status session0 = G_CREATED" "ing_descriptor session0 = descriptor0"
  "ing_workerId session0 = wrk0" "ing_leaseId session0 = lse0" "ing_idempotencyKey session0 = ''page-1''"
  "ing_workspaceId session0 = DEFAULT_WORKSPACE_id" "ing_sourceId session0 = sample_id ''src'' CHR ''V''"
  "ing_runId session0 = sample_id ''run'' CHR ''V''" "ing_jobId session0 = sample_id ''job'' CHR ''V''"
  "ing_jobAttempt session0 = 1" "ing_executionAttemptId session0 = sample_id ''exa'' CHR ''V''"
  "ing_finalizedAt session0 = None" "ing_createdAt session0 = to_iso (now0 + 2000)"
  "ing_updatedAt session0 = to_iso (now0 + 2000)"
  "ing_connector session0 = \<lparr> ref_connectorId = ''web-crawler'', ref_version = ''1.0.0'' \<rparr>"
  by (simp_all add: session0_def new_session_def create0_def context0_def run4_def job4_def attempt4_def
      new_attempt_def run1_def dispatched_run_def)

lemma session0_valid [simp]: "session_valid session0"
  by (simp add: session_valid_def isRfc3339_to_iso)

lemma artifact_event_valid:
  assumes "is_typed_id ''aev'' (sample_id ''aev'' c)" "0 < n" "ty \<noteq> I_UPLOAD_REJECTED" "iso_instant t"
  shows "ingestion_event_valid (artifact_event c n ty t)"
  using assms by (simp add: ingestion_event_valid_def artifact_event_def isRfc3339_to_iso)

text \<open>The next event of the session, when the ones before it are numbered up to \<open>n\<close>.\<close>

lemma event_inserted:
  assumes "is_typed_id ''aev'' (sample_id ''aev'' c)" "ty \<noteq> I_UPLOAD_REJECTED" "iso_instant t"
    "next_sequence ing0 db = n" "0 < n" "sample_id ''aev'' c \<notin> iev_id ` set (ad_events db)" "ing0 \<in> ir_id ` set (ad_sessions db)"
  shows "insertIngestionEvent (sample_id ''aev'' c) ing0 ty (to_iso t) None db
    = Inr (db\<lparr>ad_events := ad_events db @ [artifact_event c n ty t]\<rparr>)"
  using artifact_event_valid [OF assms(1,5,2,3)] assms
  by (simp add: insertIngestionEvent_def Let_def doc_simps artifact_event_def)

lemma sample_prepared:
  "prepare_session platform0 (now0 + 2000) (now0 + 2000) ing0 create0 adb0 = Inr (Inr (hash0, session0))"
proof -
  have "csi_descriptor create0 = descriptor0" "csi_workerId create0 = wrk0" "csi_credential create0 = ''secret''"
    "csi_leaseId create0 = lse0" "csi_leaseToken create0 = ''token''" "csi_idempotencyKey create0 = ''page-1''"
    by (simp_all add: create0_def)
  moreover have "session_by_key w k adb0 = None" "ad_control adb0 = store4" for w k
    by (simp_all add: session_by_key_def adb0_def)
  moreover have "ic_attempt context0 = attempt4" by (simp add: context0_def)
  ultimately show ?thesis
    by (simp add: prepare_session_def authenticate0 Let_def doc_simps hash0_def session0_def [symmetric])
qed

lemma sample_created: "snd (createSession platform0 (now0 + 2000) (now0 + 2000) ing0 (sample_id ''aev'' CHR ''V'') create0 adb0) = adb1"
proof -
  let ?db = "adb0\<lparr>ad_sessions := [row0]\<rparr>"
  have refs: "sample_id ''src'' CHR ''V'' \<in> source_id ` set (sources store4)" "run_by_id (sample_id ''run'' CHR ''V'') store4 \<noteq> None"
    "job_by_id (sample_id ''job'' CHR ''V'') store4 \<noteq> None" "find_by ar_id (sample_id ''exa'' CHR ''V'') (attempts store4) \<noteq> None"
    "lease_by_id lse0 store4 \<noteq> None" "worker_by_id wrk0 store4 \<noteq> None"
    by (simp_all add: store4_def store2_def store1_def store0_def run_by_id_def job_by_id_def lease_by_id_def worker_by_id_def
        run_row_of_def job_row_of_def lease_row_of_def worker_row_of_def attempt_row_of_def write_job_def write_run_def)
  have "insert_session hash0 session0 adb0 = Inr ?db"
    using refs by (simp add: insert_session_def adb0_def session_by_key_def row0_def)
  moreover have "insertIngestionEvent (sample_id ''aev'' CHR ''V'') ing0 I_SESSION_CREATED (to_iso (now0 + 2000)) None ?db
      = Inr (?db\<lparr>ad_events := ad_events ?db @ [artifact_event CHR ''V'' 1 I_SESSION_CREATED (now0 + 2000)]\<rparr>)"
    by (rule event_inserted) (simp_all add: next_sequence_def adb0_def row0_def ir_id_def)
  moreover have "?db\<lparr>ad_events := ad_events ?db @ [artifact_event CHR ''V'' 1 I_SESSION_CREATED (now0 + 2000)]\<rparr> = adb1"
    by (simp add: adb1_def adb0_def)
  ultimately show ?thesis by (simp add: createSession_def sample_prepared in_transaction_def)
qed

section \<open>Uploading and finalizing\<close>

lemma owned_sample:
  assumes "0 < n" "n < 120000" "ad_control db = store4" "find_by ir_id ing0 (ad_sessions db) = Some r"
    "session_row_ok r" "ing_workerId (ir_document r) = wrk0" "ing_leaseId (ir_document r) = lse0"
    "list_all ingestion_event_valid (ad_events db)"
  obtains es where "owned_session platform0 (now0 + n) wrk0 ''secret'' lse0 ''token'' ing0 db
    = Inr \<lparr> sn_session = ir_document r, sn_verification = ir_verification r, sn_receipt = ir_receipt r,
            sn_failure = ir_failure r, sn_events = es \<rparr>"
proof -
  let ?es = "sort_key iev_sequence (filter (\<lambda>e. iev_sessionId e = ing0) (ad_events db))"
  have "map_result parseIngestionEvent ?es = Inr (map (\<lambda>e. e) ?es)"
    by (rule map_result_total) (use assms(8) in \<open>simp add: list_all_iff\<close>)
  moreover have "parse_optional parseVerification (ir_verification r) = Inr (ir_verification r)"
    "parse_optional parseReceipt (ir_receipt r) = Inr (ir_receipt r)" "session_valid (ir_document r)"
    using assms(5) by (auto simp: session_row_ok_def parse_optional_def and_then_Inr split: option.splits)
  ultimately have "requireSession db ing0 = Inr \<lparr> sn_session = ir_document r, sn_verification = ir_verification r,
      sn_receipt = ir_receipt r, sn_failure = ir_failure r, sn_events = ?es \<rparr>"
    using assms(4) by (simp add: requireSession_def getSession_def and_then_Inr)
  with assms that [of ?es] show ?thesis by (simp add: owned_session_def authenticate0 assertOwnership_def)
qed

definition uploading0 :: ingestion_session where
  "uploading0 = session0\<lparr>ing_status := G_UPLOADING, ing_updatedAt := to_iso (now0 + 3000)\<rparr>"

definition adb2 :: artifact_db where
  "adb2 = (write_session uploading0 (no_session_options\<lparr>so_temp := Some (session_rel ing0)\<rparr>) adb1)\<lparr>ad_events :=
     ad_events adb1 @ [artifact_event CHR ''W'' 2 I_UPLOAD_STARTED (now0 + 3000)]\<rparr>"

definition surroundings0 :: "int \<Rightarrow> char \<Rightarrow> char \<Rightarrow> surroundings" where
  "surroundings0 n c a = \<lparr> su_now = now0 + n, su_eventId = sample_id ''aev'' c, su_artifactId = sample_id ''art'' a,
     su_receiptId = sample_id ''air'' a, su_message = ''broken stream'' \<rparr>"

lemma surroundings0_fields [simp]:
  "su_now (surroundings0 n c a) = now0 + n" "su_eventId (surroundings0 n c a) = sample_id ''aev'' c"
  "su_artifactId (surroundings0 n c a) = sample_id ''art'' a" "su_receiptId (surroundings0 n c a) = sample_id ''air'' a"
  by (simp_all add: surroundings0_def)

lemma adb1_fields [simp]:
  "ad_control adb1 = store4" "ad_sessions adb1 = [row0]" "ad_objects adb1 = []" "ad_artifacts adb1 = []"
  "ad_events adb1 = [artifact_event CHR ''V'' 1 I_SESSION_CREATED (now0 + 2000)]"
  by (simp_all add: adb1_def adb0_def)

lemma row0_fields [simp]:
  "ir_id row0 = ing0" "ir_document row0 = session0" "ir_verification row0 = None" "ir_receipt row0 = None"
  "ir_temp_relative_path row0 = None" "session_row_ok row0"
  by (simp_all add: row0_def ir_id_def session_row_ok_def)

lemma uploading0_fields [simp]:
  "ing_id uploading0 = ing0" "ing_status uploading0 = G_UPLOADING" "ing_descriptor uploading0 = descriptor0"
  "ing_workerId uploading0 = wrk0" "ing_leaseId uploading0 = lse0"
  by (simp_all add: uploading0_def)

lemma uploading0_valid [simp]: "session_valid uploading0"
  using session0_valid by (simp add: session_valid_def uploading0_def isRfc3339_to_iso)

lemma update_valid: "session_valid s \<Longrightarrow> updateSession s opts db = Inr (write_session s opts db)"
  by simp

lemma sample_upload_begun:
  "upload_begin platform0 (now0 + 3000) (surroundings0 3000 CHR ''W'' CHR ''V'') wrk0 ''secret'' lse0 ''token'' ing0 stream0 adb1
     = (Await (U_Opening uploading0 stream0), adb2)"
proof -
  have row: "find_by ir_id ing0 (ad_sessions adb1) = Some row0" by simp
  have events: "list_all ingestion_event_valid (ad_events adb1)" by (simp add: artifact_event_valid)
  obtain es where own: "owned_session platform0 (now0 + 3000) wrk0 ''secret'' lse0 ''token'' ing0 adb1
    = Inr \<lparr> sn_session = ir_document row0, sn_verification = ir_verification row0, sn_receipt = ir_receipt row0,
            sn_failure = ir_failure row0, sn_events = es \<rparr>"
    by (rule owned_sample [of 3000, OF _ _ _ row _ _ _ events]) simp_all
  let ?o = "no_session_options\<lparr>so_temp := Some (session_rel ing0)\<rparr>"
  have "insertIngestionEvent (sample_id ''aev'' CHR ''W'') ing0 I_UPLOAD_STARTED (to_iso (now0 + 3000)) None
      (write_session uploading0 ?o adb1) = Inr adb2"
    unfolding adb2_def
    by (subst event_inserted [where n = 2]) (simp_all add: next_sequence_def artifact_event_def)
  with own show ?thesis
    by (simp add: upload_begin_def Let_def sessionRelativePath_def session_rel_def update_valid uploading0_def [symmetric])
qed

definition verification0 :: verification_result where
  "verification0 = \<lparr> ver_sessionId = ing0, ver_status = V_MATCHED, ver_observedSizeBytes = 3,
     ver_observedSha256 = digest0, ver_verifiedAt = to_iso (now0 + 4000), ver_failureCode = None \<rparr>"

definition verified0 :: ingestion_session where
  "verified0 = uploading0\<lparr>ing_status := G_VERIFIED, ing_updatedAt := to_iso (now0 + 4000)\<rparr>"

definition adb3 :: artifact_db where
  "adb3 = (write_session verified0 (no_session_options\<lparr>so_verification := Some verification0,
     so_temp := Some (session_rel ing0)\<rparr>) adb2)\<lparr>ad_events :=
     ad_events adb2 @ [artifact_event CHR ''X'' 3 I_UPLOAD_VERIFIED (now0 + 4000)]\<rparr>"

abbreviation "opened0 \<equiv> Map.empty(session_path content0 ing0 \<mapsto> [])"
abbreviation "written0 \<equiv> Map.empty(session_path content0 ing0 \<mapsto> page0)"

lemma adb2_fields [simp]:
  "ad_control adb2 = store4" "ad_objects adb2 = []" "ad_artifacts adb2 = []"
  "ad_events adb2 = [artifact_event CHR ''V'' 1 I_SESSION_CREATED (now0 + 2000),
     artifact_event CHR ''W'' 2 I_UPLOAD_STARTED (now0 + 3000)]"
  "ir_id ` set (ad_sessions adb2) = {ing0}"
  by (simp_all add: adb2_def)

lemma uploading0_row:
  "find_by ir_id ing0 (ad_sessions adb2) =
     Some (written_row uploading0 (no_session_options\<lparr>so_temp := Some (session_rel ing0)\<rparr>) row0)"
  by (simp add: adb2_def find_written)

lemma sample_received: "receive_stream (cs_max_bytes content0) stream0 = Inr page0"
  by (simp add: content0_def stream0_def page0_def receive_stream_def)

lemma sample_opened:
  "resume content0 su (U_Opening uploading0 stream0) (adb2, Map.empty)
     = (Await (U_Writing uploading0 (session_rel ing0) (session_path content0 ing0) stream0), adb2, opened0)"
  using resolve_session [of content0 ing0]
  by (simp add: openSession_def sessionRelativePath_def session_rel_def)

lemma verification0_valid [simp]: "verification_valid verification0"
  by (simp add: verification_valid_def verification0_def isRfc3339_to_iso)

lemma verified0_valid [simp]: "session_valid verified0"
  using session0_valid by (simp add: session_valid_def verified0_def uploading0_def isRfc3339_to_iso)

lemma verified0_fields [simp]:
  "ing_id verified0 = ing0" "ing_status verified0 = G_VERIFIED" "ing_descriptor verified0 = descriptor0"
  "ing_workerId verified0 = wrk0" "ing_leaseId verified0 = lse0" "ing_workspaceId verified0 = DEFAULT_WORKSPACE_id"
  "ing_sourceId verified0 = sample_id ''src'' CHR ''V''"
  "ing_runId verified0 = sample_id ''run'' CHR ''V''" "ing_jobId verified0 = sample_id ''job'' CHR ''V''"
  "ing_jobAttempt verified0 = 1" "ing_executionAttemptId verified0 = sample_id ''exa'' CHR ''V''"
  "ing_connector verified0 = \<lparr> ref_connectorId = ''web-crawler'', ref_version = ''1.0.0'' \<rparr>"
  by (simp_all add: verified0_def uploading0_def)

lemma sample_verification:
  "observed_verification uploading0 (observed_of content0 ing0 page0) (to_iso (now0 + 4000)) = verification0"
  by (simp add: observed_verification_def Let_def observed_of_def verification0_def constantTimeHexEqual_def
      digest0_def [symmetric]) (simp add: page0_def)

lemma upload_ended:
  assumes "insertIngestionEvent (su_eventId su) ing0 I_UPLOAD_VERIFIED (to_iso (now0 + 4000)) None
      (write_session verified0 (no_session_options\<lparr>so_verification := Some verification0, so_temp := Some (session_rel ing0)\<rparr>) db)
      = Inr db'" "su_now su = now0 + 4000"
  shows "upload_end su uploading0 (observed_of content0 ing0 page0) db = (Settled (Inr (Uploaded verified0 verification0)), db')"
proof -
  have "ou_relativePath (observed_of content0 ing0 page0) = session_rel ing0" by (simp add: observed_of_def)
  moreover have "ver_status verification0 = V_MATCHED" "ver_verifiedAt verification0 = to_iso (now0 + 4000)"
    by (simp_all add: verification0_def)
  ultimately show ?thesis
    using assms
    by (simp add: upload_end_def sample_verification doc_simps verified0_def [symmetric] in_transaction_def update_valid)
qed

lemma sample_written:
  "resume content0 (surroundings0 4000 CHR ''X'' CHR ''V'')
     (U_Writing uploading0 (session_rel ing0) (session_path content0 ing0) stream0) (adb2, opened0)
   = (Settled (Inr (Uploaded verified0 verification0)), adb3, written0)"
proof -
  have w: "writeChunks content0 (session_rel ing0) (session_path content0 ing0) stream0 opened0
      = (Inr (observed_of content0 ing0 page0), written0)"
    by (simp add: writeChunks_def sample_received observed_of_def)
  have ins: "insertIngestionEvent (sample_id ''aev'' CHR ''X'') ing0 I_UPLOAD_VERIFIED (to_iso (now0 + 4000)) None
      (write_session verified0 (no_session_options\<lparr>so_verification := Some verification0,
         so_temp := Some (session_rel ing0)\<rparr>) adb2) = Inr adb3"
    unfolding adb3_def
    by (subst event_inserted [where n = 3]) (simp_all add: next_sequence_def artifact_event_def)
  have "upload_end (surroundings0 4000 CHR ''X'' CHR ''V'') uploading0 (observed_of content0 ing0 page0) adb2
      = (Settled (Inr (Uploaded verified0 verification0)), adb3)"
    by (rule upload_ended) (simp_all add: ins)
  with w show ?thesis by simp
qed

lemma sample_upload:
  "uploadContent platform0 content0 (now0 + 3000) (surroundings0 3000 CHR ''W'' CHR ''V'')
     [surroundings0 3500 CHR ''X'' CHR ''V'', surroundings0 4000 CHR ''X'' CHR ''V'']
     wrk0 ''secret'' lse0 ''token'' ing0 stream0 (adb1, Map.empty)
   = (Settled (Inr (Uploaded verified0 verification0)), adb3, written0)"
  by (simp add: uploadContent_def sample_upload_begun sample_opened sample_written del: resume.simps)

definition finalization0 :: finalization where
  "finalization0 = \<lparr> fz_session = verified0, fz_verification = verification0, fz_temp = session_rel ing0,
     fz_now = to_iso (now0 + 5000) \<rparr>"

definition raw0 :: raw_artifact where
  "raw0 = new_raw_artifact finalization0 None (sample_id ''art'' CHR ''V'') (sample_id ''air'' CHR ''V'')"

definition receipt0 :: ingestion_receipt where
  "receipt0 = new_receipt finalization0 (sample_id ''art'' CHR ''V'') (sample_id ''air'' CHR ''V'')"

definition adb4 :: artifact_db where
  "adb4 = (write_session (finalized_session finalization0) (no_session_options\<lparr>so_receipt := Some receipt0\<rparr>) adb3)
     \<lparr>ad_objects := [object_row finalization0], ad_artifacts := [raw_row_of finalization0 raw0 receipt0],
      ad_events := ad_events adb3 @ [artifact_event CHR ''Y'' 4 I_FINALIZED (now0 + 5000)]\<rparr>"

definition artifact_view0 :: artifact_view where
  "artifact_view0 = \<lparr> av_artifact = raw0, av_jobId = sample_id ''job'' CHR ''V'', av_jobAttempt = 1,
     av_executionAttemptId = sample_id ''exa'' CHR ''V'', av_sessionId = ing0,
     av_receiptId = sample_id ''air'' CHR ''V'', av_contentObject = object_row finalization0 \<rparr>"

abbreviation "stored0 \<equiv> removeUpload (session_path content0 ing0) (written0(object_path content0 digest0 \<mapsto> page0))"

lemma adb3_fields [simp]:
  "ad_control adb3 = store4" "ad_objects adb3 = []" "ad_artifacts adb3 = []"
  "ad_events adb3 = [artifact_event CHR ''V'' 1 I_SESSION_CREATED (now0 + 2000),
     artifact_event CHR ''W'' 2 I_UPLOAD_STARTED (now0 + 3000),
     artifact_event CHR ''X'' 3 I_UPLOAD_VERIFIED (now0 + 4000)]"
  "ir_id ` set (ad_sessions adb3) = {ing0}"
  by (simp_all add: adb3_def)

definition row3 :: ingestion_row where
  "row3 = written_row verified0 (no_session_options\<lparr>so_verification := Some verification0,
     so_temp := Some (session_rel ing0)\<rparr>)
     (written_row uploading0 (no_session_options\<lparr>so_temp := Some (session_rel ing0)\<rparr>) row0)"

lemma row3_fields [simp]:
  "ir_document row3 = verified0" "ir_verification row3 = Some verification0" "ir_receipt row3 = None"
  "ir_temp_relative_path row3 = Some (session_rel ing0)" "ir_id row3 = ing0"
  by (simp_all add: row3_def no_session_options_def ir_id_def)

lemma row3_ok [simp]: "session_row_ok row3"
  by (simp add: session_row_ok_def)

lemma find_row3: "find_by ir_id ing0 (ad_sessions adb3) = Some row3"
  by (simp add: adb3_def find_written uploading0_row row3_def)

lemma sample_finalize_begun:
  "finalize_begin platform0 (now0 + 5000) (surroundings0 5000 CHR ''Y'' CHR ''V'') wrk0 ''secret'' lse0 ''token'' ing0 adb3
     = Await (F_Linking finalization0)"
proof -
  have events: "list_all ingestion_event_valid (ad_events adb3)" by (simp add: artifact_event_valid)
  obtain es where own: "owned_session platform0 (now0 + 5000) wrk0 ''secret'' lse0 ''token'' ing0 adb3
    = Inr \<lparr> sn_session = ir_document row3, sn_verification = ir_verification row3, sn_receipt = ir_receipt row3,
            sn_failure = ir_failure row3, sn_events = es \<rparr>"
    by (rule owned_sample [of 5000, OF _ _ _ find_row3 _ _ _ events]) simp_all
  have "session_rel ing0 \<noteq> []" by (simp add: session_rel_def)
  with own show ?thesis
    by (simp add: finalize_begin_def Let_def sessionRow_def find_row3 finalization0_def)
qed

lemma finalization0_fields [simp]:
  "fz_session finalization0 = verified0" "fz_verification finalization0 = verification0"
  "fz_temp finalization0 = session_rel ing0" "fz_now finalization0 = to_iso (now0 + 5000)"
  "ver_observedSha256 verification0 = digest0" "ver_observedSizeBytes verification0 = 3"
  by (simp_all add: finalization0_def verification0_def)

lemma sample_names [simp]:
  "safeOriginalName ''page.html'' = ''page.html''" "is_mime_type ''text/html''" "is_uri page_uri" "page_uri \<noteq> []"
  "is_uri (storage_uri digest0)" "''HTML'' \<in> set ARTIFACT_KINDS" "''REGISTERED'' \<in> set ARTIFACT_STATUSES"
  "is_extension_key ''x-markorbit-ingestion''"
  unfolding digest0_text page_uri_def by code_simp+

lemma raw0_fields [simp]:
  "raw_id raw0 = sample_id ''art'' CHR ''V''" "raw_sha256 raw0 = digest0" "raw_sizeBytes raw0 = 3"
  "raw_artifactKind raw0 = ''HTML''" "raw_version raw0 = 1"
  by (simp_all add: raw0_def new_raw_artifact_def Let_def)

lemma raw0_valid [simp]: "raw_artifact_valid raw0"
  using session0_valid
  by (simp add: raw_artifact_valid_def raw0_def new_raw_artifact_def Let_def raw_version_valid_def non_empty_def
      isRfc3339_to_iso session_valid_def valid_extensions_def)

lemma receipt0_valid [simp]: "receipt_valid receipt0"
  by (simp add: receipt_valid_def receipt0_def new_receipt_def Let_def isRfc3339_to_iso)

lemma sample_linked:
  "resume content0 su (F_Linking finalization0) (adb3, written0)
   = (Await (F_Removing finalization0 (object_rel digest0) (session_path content0 ing0)), adb3,
      written0(object_path content0 digest0 \<mapsto> page0))"
proof -
  have "linkObject content0 (session_rel ing0) digest0 3 written0
      = (Inr (object_rel digest0, session_path content0 ing0), written0(object_path content0 digest0 \<mapsto> page0))"
    using resolve_session [of content0 ing0] resolve_object [of content0 digest0]
    by (simp add: linkObject_def session_rel_def objectRelativePath_def object_rel_def object_not_session
        digest0_def [symmetric] Let_def) (simp add: page0_def)
  then show ?thesis by simp
qed

lemma store4_refs [simp]:
  "source_id ` set (sources store4) = {sample_id ''src'' CHR ''V''}"
  "run_by_id (sample_id ''run'' CHR ''V'') store4 \<noteq> None" "job_by_id (sample_id ''job'' CHR ''V'') store4 \<noteq> None"
  "find_by ar_id (sample_id ''exa'' CHR ''V'') (attempts store4) \<noteq> None"
  by (simp_all add: store4_def store2_def store1_def store0_def run_by_id_def job_by_id_def
      run_row_of_def job_row_of_def attempt_row_of_def write_job_def write_run_def)

lemma finalized0_valid [simp]: "session_valid (finalized_session finalization0)" "ing_id (finalized_session finalization0) = ing0"
  using verified0_valid by (simp_all add: session_valid_def finalized_session_def isRfc3339_to_iso)

lemma write_session_other:
  "write_session s opts (db\<lparr>ad_objects := obs\<rparr>) = (write_session s opts db)\<lparr>ad_objects := obs\<rparr>"
  "write_session s opts (db\<lparr>ad_artifacts := rs\<rparr>) = (write_session s opts db)\<lparr>ad_artifacts := rs\<rparr>"
  by (simp_all add: write_session_def)

lemma sample_rows:
  "finalize_rows (surroundings0 5000 CHR ''Y'' CHR ''V'') finalization0 (object_rel digest0) raw0 receipt0 adb3 = Inr adb4"
proof -
  let ?db1 = "adb3\<lparr>ad_objects := [object_row finalization0]\<rparr>"
  let ?db2 = "?db1\<lparr>ad_artifacts := [raw_row_of finalization0 raw0 receipt0]\<rparr>"
  let ?db3 = "write_session (finalized_session finalization0) (no_session_options\<lparr>so_receipt := Some receipt0\<rparr>) ?db2"
  have up: "upsert_object (object_row finalization0) adb3 = Inr ?db1" by (simp add: upsert_object_def)
  have raw: "rw_document (raw_row_of finalization0 raw0 receipt0) = raw0"
    "rw_job_id (raw_row_of finalization0 raw0 receipt0) = sample_id ''job'' CHR ''V''"
    "rw_execution_attempt_id (raw_row_of finalization0 raw0 receipt0) = sample_id ''exa'' CHR ''V''"
    "rw_session_id (raw_row_of finalization0 raw0 receipt0) = ing0"
    "rw_content_digest (raw_row_of finalization0 raw0 receipt0) = digest0"
    "co_digest (object_row finalization0) = digest0" "raw_sourceId raw0 = sample_id ''src'' CHR ''V''"
    "raw_collectionRunId raw0 = sample_id ''run'' CHR ''V''"
    by (simp_all add: raw_row_of_def object_row_def raw0_def new_raw_artifact_def Let_def)
  have ins: "insert_raw_artifact (raw_row_of finalization0 raw0 receipt0) ?db1 = Inr ?db2"
    by (simp add: insert_raw_artifact_def Let_def raw)
  have ev: "insertIngestionEvent (sample_id ''aev'' CHR ''Y'') ing0 I_FINALIZED (to_iso (now0 + 5000)) None ?db3 = Inr adb4"
    unfolding adb4_def
    by (subst event_inserted [where n = 4]) (simp_all add: next_sequence_def artifact_event_def write_session_other)
  have fin: "verified0\<lparr>ing_status := G_FINALIZED, ing_updatedAt := to_iso (now0 + 5000),
      ing_finalizedAt := Some (to_iso (now0 + 5000))\<rparr> = finalized_session finalization0"
    by (simp add: finalized_session_def)
  have row: "\<lparr> co_digest = digest0, co_size_bytes = 3, co_relative_path = object_rel digest0,
      co_storage_uri = storage_uri digest0, co_reference_count = 1, co_created_at = to_iso (now0 + 5000),
      co_verified_at = to_iso (now0 + 5000) \<rparr> = object_row finalization0"
    by (simp add: object_row_def Let_def)
  have raw_row: "\<lparr> rw_job_id = sample_id ''job'' CHR ''V'', rw_job_attempt = 1,
      rw_execution_attempt_id = sample_id ''exa'' CHR ''V'', rw_session_id = ing0, rw_receipt_id = rcp_id receipt0,
      rw_content_digest = digest0, rw_document = raw0 \<rparr> = raw_row_of finalization0 raw0 receipt0"
    by (simp add: raw_row_of_def Let_def)
  show ?thesis
    by (simp add: finalize_rows_def Let_def row raw_row up ins fin update_valid ev)
qed

lemma sample_committed:
  "finalize_commit (surroundings0 5000 CHR ''Y'' CHR ''V'') finalization0 (object_rel digest0) adb3
     = (Settled (Inr (Finalized artifact_view0 receipt0 False)), adb4)"
proof -
  have "previous_artifact verified0 adb3 = Inr None"
    by (simp add: previous_artifact_def non_empty_def newest_def newest_first_def parse_optional_def)
  moreover have "getArtifact adb4 (sample_id ''art'' CHR ''V'') = Inr (Some artifact_view0)"
    by (simp add: getArtifact_def adb4_def rw_id_def raw_row_of_def Let_def object_row_def artifact_view0_def
        receipt0_def new_receipt_def and_then_Inr)
  ultimately show ?thesis
    by (simp add: finalize_commit_def Let_def doc_simps raw0_def [symmetric] receipt0_def [symmetric] sample_rows
        in_transaction_def)
qed

abbreviation "finalize_surroundings \<equiv> replicate 4 (surroundings0 5000 CHR ''Y'' CHR ''V'')"

lemma sample_finalized:
  "finalizeArtifact platform0 content0 (now0 + 5000) (surroundings0 5000 CHR ''Y'' CHR ''V'')
     finalize_surroundings wrk0 ''secret'' lse0 ''token'' ing0
     (adb3, written0)
   = (Settled (Inr (Finalized artifact_view0 receipt0 False)), adb4, stored0)"
  using sample_linked [of "surroundings0 5000 CHR ''Y'' CHR ''V''"]
  by (simp add: finalizeArtifact_def sample_finalize_begun sample_committed removeUpload_def numeral_nat
      del: resume.simps(5))

section \<open>The systems the sample goes through\<close>

definition system0 :: artifact_system where
  "system0 = \<lparr> sy_db = adb0, sy_files = Map.empty, sy_tasks = [] \<rparr>"

definition system1 :: artifact_system where
  "system1 = \<lparr> sy_db = adb1, sy_files = Map.empty, sy_tasks = [] \<rparr>"

definition system2 :: artifact_system where
  "system2 = \<lparr> sy_db = adb2, sy_files = opened0,
     sy_tasks = [U_Writing uploading0 (session_rel ing0) (session_path content0 ing0) stream0] \<rparr>"

definition system3 :: artifact_system where
  "system3 = \<lparr> sy_db = adb3, sy_files = written0, sy_tasks = [] \<rparr>"

definition system4 :: artifact_system where
  "system4 = \<lparr> sy_db = adb4, sy_files = stored0, sy_tasks = [] \<rparr>"

lemma reachable_system_steps:
  "reachable_system store sy \<Longrightarrow> (artifact_step store)\<^sup>*\<^sup>* sy sy' \<Longrightarrow> reachable_system store sy'"
  by (auto simp: reachable_system_def intro: rtranclp_trans)

lemma sample_system0: "reachable_system content0 system0"
  unfolding reachable_system_def
  by (rule exI [of _ system0]) (simp add: empty_system_def system0_def adb0_def)

lemma sample_system1: "reachable_system content0 system1"
proof -
  have "artifact_step content0 system0 system1"
    using artifact_step.create [of content0 system0 platform0 "now0 + 2000" "now0 + 2000" ing0 "sample_id ''aev'' CHR ''V''" create0]
    by (simp add: system0_def system1_def sample_created)
  with sample_system0 show ?thesis by (blast intro: reachable_system_steps r_into_rtranclp)
qed

lemma sample_system3: "reachable_system content0 system3"
proof -
  have "uploadContent platform0 content0 (now0 + 3000) (surroundings0 3000 CHR ''W'' CHR ''V'')
     [surroundings0 3500 CHR ''X'' CHR ''V'', surroundings0 4000 CHR ''X'' CHR ''V'']
     wrk0 ''secret'' lse0 ''token'' ing0 stream0 (sy_db system1, sy_files system1)
   = (Settled (Inr (Uploaded verified0 verification0)), adb3, written0)"
    by (simp add: system1_def sample_upload)
  from uploadContent_steps [OF this] show ?thesis
    by (intro reachable_system_steps [OF sample_system1]) (simp add: system1_def system3_def)
qed

lemma system2_two:
  "system2 = \<lparr> sy_db = adb2, sy_files = opened0, sy_tasks = [] @ tasks_of
      (Await (U_Writing uploading0 (session_rel ing0) (session_path content0 ing0) stream0)) @ [] \<rparr>"
  by (simp add: system2_def)

lemma sample_system2: "reachable_system content0 system2"
proof -
  let ?s = "\<lparr> sy_db = adb2, sy_files = Map.empty, sy_tasks = [U_Opening uploading0 stream0] \<rparr>"
  have "artifact_step content0 system1 (system1\<lparr>sy_db := adb2, sy_tasks := sy_tasks system1 @ tasks_of (Await (U_Opening uploading0 stream0))\<rparr>)"
    by (rule artifact_step.upload) (simp add: system1_def, rule sample_upload_begun)
  then have one: "artifact_step content0 system1 ?s" by (simp add: system1_def)
  have two: "artifact_step content0 ?s \<lparr> sy_db = adb2, sy_files = opened0, sy_tasks = [] @ tasks_of
      (Await (U_Writing uploading0 (session_rel ing0) (session_path content0 ing0) stream0)) @ [] \<rparr>"
    by (rule artifact_step.resume [where task = "U_Opening uploading0 stream0" and su = "surroundings0 3500 CHR ''X'' CHR ''V''"])
      (simp_all add: sample_opened del: resume.simps)
  have "(artifact_step content0)\<^sup>*\<^sup>* system1 system2"
    using one two [folded system2_two] by (meson converse_rtranclp_into_rtranclp r_into_rtranclp)
  with sample_system1 show ?thesis by (rule reachable_system_steps)
qed

lemma sample_system4: "reachable_system content0 system4"
proof -
  let ?p = "finalize_begin platform0 (now0 + 5000) (surroundings0 5000 CHR ''Y'' CHR ''V'') wrk0 ''secret'' lse0 ''token'' ing0 adb3"
  have one: "artifact_step content0 system3 (system3\<lparr>sy_tasks := sy_tasks system3 @ tasks_of ?p\<rparr>)"
    using artifact_step.finalize [of content0 system3] by (simp add: system3_def)
  have "run_task content0 finalize_surroundings (?p, adb3, written0)
      = (Settled (Inr (Finalized artifact_view0 receipt0 False)), adb4, stored0)"
    using sample_finalized by (simp add: finalizeArtifact_def)
  from run_task_steps [OF this, of "[]"]
  have "(artifact_step content0)\<^sup>*\<^sup>* (system3\<lparr>sy_tasks := sy_tasks system3 @ tasks_of ?p\<rparr>) system4"
    by (simp add: system3_def system4_def)
  with one have "(artifact_step content0)\<^sup>*\<^sup>* system3 system4" by (rule converse_rtranclp_into_rtranclp)
  with sample_system3 show ?thesis by (rule reachable_system_steps)
qed

section \<open>An upload aborted while it is awaited\<close>

definition aborted0 :: ingestion_session where
  "aborted0 = uploading0\<lparr>ing_status := G_ABORTED, ing_updatedAt := to_iso (now0 + 3600)\<rparr>"

definition adb5 :: artifact_db where
  "adb5 = (write_session aborted0 (no_session_options\<lparr>so_failure := Some (abort_failure None (to_iso (now0 + 3600)))\<rparr>) adb2)
     \<lparr>ad_events := ad_events adb2 @ [artifact_event CHR ''X'' 3 I_ABORTED (now0 + 3600)]\<rparr>"

definition adb6 :: artifact_db where
  "adb6 = (write_session verified0 (no_session_options\<lparr>so_verification := Some verification0,
     so_temp := Some (session_rel ing0)\<rparr>) adb5)\<lparr>ad_events :=
     ad_events adb5 @ [artifact_event CHR ''Y'' 4 I_UPLOAD_VERIFIED (now0 + 4000)]\<rparr>"

lemma adb5_fields [simp]:
  "ad_control adb5 = store4"
  "ad_events adb5 = [artifact_event CHR ''V'' 1 I_SESSION_CREATED (now0 + 2000),
     artifact_event CHR ''W'' 2 I_UPLOAD_STARTED (now0 + 3000), artifact_event CHR ''X'' 3 I_ABORTED (now0 + 3600)]"
  "ir_id ` set (ad_sessions adb5) = {ing0}"
  by (simp_all add: adb5_def aborted0_def)

lemma aborted0_valid [simp]: "session_valid aborted0" "ing_id aborted0 = ing0"
  using session0_valid by (simp_all add: session_valid_def aborted0_def uploading0_def isRfc3339_to_iso)

abbreviation "row2 \<equiv> written_row uploading0 (no_session_options\<lparr>so_temp := Some (session_rel ing0)\<rparr>) row0"

lemma row2_ok: "session_row_ok row2"
  by (simp add: session_row_ok_def no_session_options_def ir_id_def)

lemma cleaned0: "remove_under (cs_root content0 @ [''sessions'', ing0]) opened0 = Map.empty"
  by (simp add: fun_eq_iff remove_under_def session_path_def)

lemma find_row5:
  "find_by ir_id ing0 (ad_sessions adb5) = Some (written_row aborted0
     (no_session_options\<lparr>so_failure := Some (abort_failure None (to_iso (now0 + 3600)))\<rparr>) row2)"
  by (simp add: adb5_def find_written uploading0_row)

lemma row5_ok:
  "session_row_ok (written_row aborted0 (no_session_options\<lparr>so_failure := Some (abort_failure None (to_iso (now0 + 3600)))\<rparr>) row2)"
  by (simp add: session_row_ok_def no_session_options_def ir_id_def) (simp add: aborted0_def)

lemma sample_aborted:
  obtains rec where
    "abort platform0 content0 (now0 + 3600) (now0 + 3600) (sample_id ''aev'' CHR ''X'') wrk0 ''secret'' lse0 ''token'' ing0 None
       (adb2, opened0) = (Inr rec, adb5, Map.empty)"
proof -
  have events: "list_all ingestion_event_valid (ad_events adb2)" "list_all ingestion_event_valid (ad_events adb5)"
    by (simp_all add: artifact_event_valid)
  obtain es where own: "owned_session platform0 (now0 + 3600) wrk0 ''secret'' lse0 ''token'' ing0 adb2
    = Inr \<lparr> sn_session = ir_document row2, sn_verification = ir_verification row2, sn_receipt = ir_receipt row2,
            sn_failure = ir_failure row2, sn_events = es \<rparr>"
    by (rule owned_sample [of 3600, OF _ _ _ uploading0_row row2_ok _ _ events(1)]) simp_all
  obtain es5 where own5: "owned_session platform0 (now0 + 3600) wrk0 ''secret'' lse0 ''token'' ing0 adb5 = Inr es5"
    by (rule owned_sample [of 3600, OF _ _ _ find_row5 row5_ok _ _ events(2)]) (simp_all add: aborted0_def)
  then obtain rec where rec: "requireSession adb5 ing0 = Inr rec"
    by (auto simp: owned_session_def and_then_Inr)
  have "insertIngestionEvent (sample_id ''aev'' CHR ''X'') ing0 I_ABORTED (to_iso (now0 + 3600)) None
      (write_session aborted0 (no_session_options\<lparr>so_failure := Some (abort_failure None (to_iso (now0 + 3600)))\<rparr>) adb2) = Inr adb5"
    unfolding adb5_def
    by (subst event_inserted [where n = 3]) (simp_all add: next_sequence_def artifact_event_def)
  then have rows: "abort_rows (sample_id ''aev'' CHR ''X'') uploading0 (abort_failure None (to_iso (now0 + 3600))) (to_iso (now0 + 3600)) adb2 = Inr adb5"
    by (simp add: abort_rows_def aborted0_def [symmetric] update_valid)
  have clean: "cleanupSession content0 (ir_temp_relative_path row2) opened0 = (Inr (), Map.empty)"
    using cleanup_session [of content0 ing0 opened0] cleaned0 by simp
  have "abort platform0 content0 (now0 + 3600) (now0 + 3600) (sample_id ''aev'' CHR ''X'') wrk0 ''secret'' lse0 ''token'' ing0 None
       (adb2, opened0) = (Inr rec, adb5, Map.empty)"
    using own clean by (simp add: abort_def Let_def sessionRow_def uploading0_row rows in_transaction_def rec)
  then show ?thesis by (rule that)
qed

lemma sample_late_upload:
  "resume content0 (surroundings0 4000 CHR ''Y'' CHR ''V'')
     (U_Writing uploading0 (session_rel ing0) (session_path content0 ing0) stream0) (adb5, Map.empty)
   = (Settled (Inr (Uploaded verified0 verification0)), adb6, Map.empty)"
proof -
  have w: "writeChunks content0 (session_rel ing0) (session_path content0 ing0) stream0 Map.empty
      = (Inr (observed_of content0 ing0 page0), Map.empty)"
    by (simp add: writeChunks_def sample_received observed_of_def)
  have ins: "insertIngestionEvent (sample_id ''aev'' CHR ''Y'') ing0 I_UPLOAD_VERIFIED (to_iso (now0 + 4000)) None
      (write_session verified0 (no_session_options\<lparr>so_verification := Some verification0,
         so_temp := Some (session_rel ing0)\<rparr>) adb5) = Inr adb6"
    unfolding adb6_def
    by (subst event_inserted [where n = 4]) (simp_all add: next_sequence_def artifact_event_def)
  have "upload_end (surroundings0 4000 CHR ''Y'' CHR ''V'') uploading0 (observed_of content0 ing0 page0) adb5
      = (Settled (Inr (Uploaded verified0 verification0)), adb6)"
    by (rule upload_ended) (simp_all add: ins)
  with w show ?thesis by simp
qed

section \<open>Two late registrations at one address\<close>

text \<open>
  Two more verified sessions with the same page; both are finalized after the first artifact, which
  began at \<open>now0 + 5000\<close>, although their calls began earlier.
\<close>

definition late_session :: "char \<Rightarrow> ingestion_session" where
  "late_session i = verified0\<lparr>ing_id := sample_id ''ing'' i\<rparr>"

definition late0 :: "char \<Rightarrow> int \<Rightarrow> finalization" where
  "late0 i n = \<lparr> fz_session = late_session i, fz_verification = verification0,
     fz_temp = session_rel (sample_id ''ing'' i), fz_now = to_iso (now0 + n) \<rparr>"

definition late_row :: "char \<Rightarrow> ingestion_row" where
  "late_row i = row3\<lparr>ir_document := late_session i\<rparr>"

definition adb7 :: artifact_db where
  "adb7 = adb4\<lparr>ad_sessions := ad_sessions adb4 @ [late_row CHR ''W'', late_row CHR ''X'']\<rparr>"

definition late_ready :: "artifact_db \<Rightarrow> char \<Rightarrow> char \<Rightarrow> char \<Rightarrow> bool" where
  "late_ready db i a e \<longleftrightarrow>
     ad_control db = store4 \<and> find_by co_digest digest0 (ad_objects db) \<noteq> None
     \<and> sample_id ''ing'' i \<in> ir_id ` set (ad_sessions db) \<and> sample_id ''art'' a \<notin> rw_id ` set (ad_artifacts db)
     \<and> sample_id ''ing'' i \<notin> rw_session_id ` set (ad_artifacts db)
     \<and> sample_id ''air'' a \<notin> rw_receipt_id ` set (ad_artifacts db)
     \<and> sample_id ''aev'' e \<notin> iev_id ` set (ad_events db)
     \<and> filter (\<lambda>x. iev_sessionId x = sample_id ''ing'' i) (ad_events db) = []"

lemma late_fields [simp]:
  "fz_session (late0 i n) = late_session i" "fz_verification (late0 i n) = verification0"
  "fz_now (late0 i n) = to_iso (now0 + n)" "ing_id (late_session i) = sample_id ''ing'' i"
  "ing_workspaceId (late_session i) = DEFAULT_WORKSPACE_id" "ing_sourceId (late_session i) = sample_id ''src'' CHR ''V''"
  "ing_runId (late_session i) = sample_id ''run'' CHR ''V''" "ing_jobId (late_session i) = sample_id ''job'' CHR ''V''"
  "ing_jobAttempt (late_session i) = 1" "ing_executionAttemptId (late_session i) = sample_id ''exa'' CHR ''V''"
  "ing_descriptor (late_session i) = descriptor0" "ing_workerId (late_session i) = wrk0"
  "ing_connector (late_session i) = \<lparr> ref_connectorId = ''web-crawler'', ref_version = ''1.0.0'' \<rparr>"
  by (simp_all add: late0_def late_session_def)

lemma late_raw_valid:
  assumes "is_typed_id ''art'' (sample_id ''art'' a)" "a \<noteq> CHR ''V''" "iso_instant (now0 + n)"
    "is_typed_id ''ing'' (sample_id ''ing'' i)"
  shows "raw_artifact_valid (new_raw_artifact (late0 i n) (Some raw0) (sample_id ''art'' a) (sample_id ''air'' a))"
  using assms verified0_valid
  by (simp add: raw_artifact_valid_def new_raw_artifact_def Let_def raw_version_valid_def non_empty_def
      isRfc3339_to_iso session_valid_def valid_extensions_def)

lemma late_commit:
  assumes ready: "late_ready db i a e" and prev: "previous_artifact (late_session i) db = Inr (Some raw0)"
    and ids: "is_typed_id ''art'' (sample_id ''art'' a)" "a \<noteq> CHR ''V''" "is_typed_id ''air'' (sample_id ''air'' a)"
      "is_typed_id ''ing'' (sample_id ''ing'' i)" "is_typed_id ''aev'' (sample_id ''aev'' e)" "iso_instant (now0 + n)"
  obtains view rc db' r where
    "finalize_commit (surroundings0 n e a) (late0 i n) (object_rel digest0) db = (Settled (Inr (Finalized view rc False)), db')"
    "ad_control db' = store4" "find_by co_digest digest0 (ad_objects db') \<noteq> None"
    "ir_id ` set (ad_sessions db') = ir_id ` set (ad_sessions db)" "ad_artifacts db' = ad_artifacts db @ [r]"
    "rw_id r = sample_id ''art'' a" "rw_session_id r = sample_id ''ing'' i" "rw_receipt_id r = sample_id ''air'' a"
    "rw_created_at r = to_iso (now0 + n)" "same_address DEFAULT_WORKSPACE_id (sample_id ''src'' CHR ''V'') page_uri r"
    "iev_id ` set (ad_events db') = insert (sample_id ''aev'' e) (iev_id ` set (ad_events db))"
    "filter (\<lambda>x. iev_sessionId x \<noteq> sample_id ''ing'' i) (ad_events db')
       = filter (\<lambda>x. iev_sessionId x \<noteq> sample_id ''ing'' i) (ad_events db)"
proof -
  define f where "f = late0 i n"
  define x where "x = new_raw_artifact f (Some raw0) (sample_id ''art'' a) (sample_id ''air'' a)"
  define rc where "rc = new_receipt f (sample_id ''art'' a) (sample_id ''air'' a)"
  define fin where "fin = finalized_session f"
  have f: "fz_session f = late_session i" "fz_verification f = verification0" "fz_now f = to_iso (now0 + n)"
    by (simp_all add: f_def)
  let ?r = "raw_row_of f x rc"
  have valid: "raw_artifact_valid x" "receipt_valid rc" "session_valid fin" "ing_id fin = sample_id ''ing'' i"
    using late_raw_valid [OF ids(1,2,6,4)] ids verified0_valid
    by (simp_all add: x_def f_def rc_def receipt_valid_def new_receipt_def Let_def isRfc3339_to_iso fin_def
        finalized_session_def session_valid_def late_session_def)
  have r: "rw_id ?r = sample_id ''art'' a" "rw_session_id ?r = sample_id ''ing'' i" "rw_receipt_id ?r = sample_id ''air'' a"
    "rw_created_at ?r = to_iso (now0 + n)" "rw_document ?r = x" "rw_content_digest ?r = digest0"
    "rw_job_id ?r = sample_id ''job'' CHR ''V''" "rw_execution_attempt_id ?r = sample_id ''exa'' CHR ''V''"
    "same_address DEFAULT_WORKSPACE_id (sample_id ''src'' CHR ''V'') page_uri ?r"
    "raw_sourceId x = sample_id ''src'' CHR ''V''" "raw_collectionRunId x = sample_id ''run'' CHR ''V''"
    "raw_id x = sample_id ''art'' a"
    by (simp_all add: raw_row_of_def Let_def f x_def rc_def new_raw_artifact_def new_receipt_def rw_id_def
        rw_created_at_def same_address_def non_empty_def)
  obtain ob where ob: "find_by co_digest digest0 (ad_objects db) = Some ob" using ready by (auto simp: late_ready_def)
  define db1 where "db1 = db\<lparr>ad_objects := update_by co_digest digest0
    (\<lambda>r. r\<lparr>co_reference_count := co_reference_count r + 1, co_verified_at := to_iso (now0 + n)\<rparr>) (ad_objects db)\<rparr>"
  have od: "co_digest (object_row f) = digest0" "co_verified_at (object_row f) = to_iso (now0 + n)"
    by (simp_all add: object_row_def Let_def f)
  have up: "upsert_object (object_row f) db = Inr db1"
    using ob by (simp add: upsert_object_def od db1_def)
  have ob1: "find_by co_digest digest0 (ad_objects db1) \<noteq> None"
    using ob by (simp add: db1_def object_reference.find_update)
  then have mem: "digest0 \<in> co_digest ` set (ad_objects db1)" by (simp add: find_by_None)
  define db2 where "db2 = db1\<lparr>ad_artifacts := ad_artifacts db @ [?r]\<rparr>"
  have ins: "insert_raw_artifact ?r db1 = Inr db2"
    using ready mem by (simp add: insert_raw_artifact_def Let_def r db1_def db2_def late_ready_def)
  define db3 where "db3 = write_session fin (no_session_options\<lparr>so_receipt := Some rc\<rparr>) db2"
  define ev where "ev = \<lparr> iev_id = sample_id ''aev'' e, iev_sessionId = sample_id ''ing'' i, iev_sequence = 1,
      iev_eventType = I_FINALIZED, iev_recordedAt = to_iso (now0 + n), iev_failure = None \<rparr>"
  define db4 where "db4 = db3\<lparr>ad_events := ad_events db @ [ev]\<rparr>"
  have evs: "ad_events db3 = ad_events db" by (simp add: db3_def db2_def db1_def)
  have "ingestion_event_valid ev" using ids by (simp add: ev_def ingestion_event_valid_def isRfc3339_to_iso)
  moreover have "next_sequence (sample_id ''ing'' i) db3 = 1"
    using ready by (simp add: next_sequence_def evs late_ready_def)
  moreover have ids3: "ir_id ` set (ad_sessions db3) = ir_id ` set (ad_sessions db)"
    by (simp add: db3_def db2_def db1_def)
  ultimately have event: "insertIngestionEvent (sample_id ''aev'' e) (sample_id ''ing'' i) I_FINALIZED (to_iso (now0 + n)) None db3 = Inr db4"
    using ready by (simp add: insertIngestionEvent_def Let_def doc_simps evs late_ready_def ev_def db4_def)
  have rows: "finalize_rows (surroundings0 n e a) f (object_rel digest0) x rc db = Inr db4"
  proof -
    have "finalize_rows (surroundings0 n e a) f (object_rel (ver_observedSha256 (fz_verification f))) x rc db =
        and_then (upsert_object (object_row f) db) (\<lambda>db1. and_then (insert_raw_artifact ?r db1) (\<lambda>db2.
        and_then (updateSession fin (no_session_options\<lparr>so_receipt := Some rc\<rparr>) db2) (\<lambda>db3.
          insertIngestionEvent (sample_id ''aev'' e) (ing_id (fz_session f)) I_FINALIZED (fz_now f) None db3)))"
      by (simp add: finalize_rows_def object_row_def raw_row_of_def fin_def finalized_session_def Let_def)
    with up ins event valid(3) f show ?thesis by (simp add: update_valid db3_def [symmetric])
  qed
  have arts: "ad_artifacts db4 = ad_artifacts db @ [?r]" by (simp add: db4_def db3_def db2_def)
  have find: "find_by rw_id (sample_id ''art'' a) (ad_artifacts db4) = Some ?r"
    using ready r(1) by (simp add: arts find_by_append late_ready_def find_by_None [THEN iffD2])
  have objs: "ad_objects db4 = ad_objects db1" by (simp add: db4_def db3_def db2_def)
  obtain ob' where ob': "find_by co_digest digest0 (ad_objects db4) = Some ob'" using ob1 objs by auto
  obtain view where got: "getArtifact db4 (sample_id ''art'' a) = Inr (Some view)"
    using find ob' valid(1) by (simp add: getArtifact_def r and_then_Inr)
  have "finalize_commit (surroundings0 n e a) f (object_rel digest0) db = (Settled (Inr (Finalized view rc False)), db4)"
    using prev valid(1,2) rows got r(12)
    by (simp add: finalize_commit_def Let_def doc_simps f x_def [symmetric] rc_def [symmetric] in_transaction_def)
  then show ?thesis
    by (rule that [of view rc db4 ?r, folded f_def])
      (use ready ob1 objs ids3 arts r in \<open>simp_all add: db4_def db3_def db2_def db1_def late_ready_def ev_def\<close>)
qed

abbreviation "first_row \<equiv> raw_row_of finalization0 raw0 receipt0"

lemma first_row_fields [simp]:
  "rw_document first_row = raw0" "rw_id first_row = sample_id ''art'' CHR ''V''" "rw_session_id first_row = ing0"
  "rw_receipt_id first_row = sample_id ''air'' CHR ''V''" "rw_created_at first_row = to_iso (now0 + 5000)"
  "rw_execution_attempt_id first_row = sample_id ''exa'' CHR ''V''" "rw_content_digest first_row = digest0"
  "same_address DEFAULT_WORKSPACE_id (sample_id ''src'' CHR ''V'') page_uri first_row"
  by (simp_all add: raw_row_of_def Let_def rw_id_def rw_created_at_def receipt0_def new_receipt_def raw0_def
      new_raw_artifact_def same_address_def non_empty_def)

lemma adb4_fields [simp]:
  "ad_control adb4 = store4" "ad_objects adb4 = [object_row finalization0]" "ad_artifacts adb4 = [first_row]"
  "ad_events adb4 = ad_events adb3 @ [artifact_event CHR ''Y'' 4 I_FINALIZED (now0 + 5000)]"
  by (simp_all add: adb4_def)

lemma adb7_ready: "late_ready adb7 CHR ''W'' CHR ''W'' CHR ''Z''"
  by (simp add: late_ready_def adb7_def late_row_def ir_id_def artifact_event_def object_row_def Let_def)

lemma late_order: "to_iso (now0 + 4500) < to_iso (now0 + 5000)"
  unfolding now0_def by code_simp

lemma late_newest: "newest [first_row] = Some first_row"
  by (simp add: newest_def newest_first_def)

lemma late_previous:
  assumes "newest (filter (same_address DEFAULT_WORKSPACE_id (sample_id ''src'' CHR ''V'') page_uri) (ad_artifacts db)) = Some first_row"
  shows "previous_artifact (late_session i) db = Inr (Some raw0)"
  using assms by (simp add: previous_artifact_def non_empty_def parse_optional_def and_then_Inr)

lemma sample_late_commits:
  obtains view rc db1 view' rc' db2 where
    "finalize_commit (surroundings0 4500 CHR ''Z'' CHR ''W'') (late0 CHR ''W'' 4500) (object_rel digest0) adb7
       = (Settled (Inr (Finalized view rc False)), db1)"
    "finalize_commit (surroundings0 5500 CHR ''T'' CHR ''X'') (late0 CHR ''X'' 5500) (object_rel digest0) db1
       = (Settled (Inr (Finalized view' rc' False)), db2)"
proof -
  let ?here = "same_address DEFAULT_WORKSPACE_id (sample_id ''src'' CHR ''V'') page_uri"
  have arts: "ad_artifacts adb7 = [first_row]" by (simp add: adb7_def)
  have prev: "previous_artifact (late_session CHR ''W'') adb7 = Inr (Some raw0)"
    by (rule late_previous) (simp add: arts late_newest)
  obtain view rc db1 r where one:
    "finalize_commit (surroundings0 4500 CHR ''Z'' CHR ''W'') (late0 CHR ''W'' 4500) (object_rel digest0) adb7
       = (Settled (Inr (Finalized view rc False)), db1)"
    "ad_control db1 = store4" "find_by co_digest digest0 (ad_objects db1) \<noteq> None"
    "ir_id ` set (ad_sessions db1) = ir_id ` set (ad_sessions adb7)" "ad_artifacts db1 = ad_artifacts adb7 @ [r]"
    "rw_id r = sample_id ''art'' CHR ''W''" "rw_session_id r = sample_id ''ing'' CHR ''W''"
    "rw_receipt_id r = sample_id ''air'' CHR ''W''" "rw_created_at r = to_iso (now0 + 4500)" "?here r"
    "iev_id ` set (ad_events db1) = insert (sample_id ''aev'' CHR ''Z'') (iev_id ` set (ad_events adb7))"
    "filter (\<lambda>x. iev_sessionId x \<noteq> sample_id ''ing'' CHR ''W'') (ad_events db1)
       = filter (\<lambda>x. iev_sessionId x \<noteq> sample_id ''ing'' CHR ''W'') (ad_events adb7)"
    by (rule late_commit [OF adb7_ready prev, where n = 4500]) simp_all
  have none: "filter (\<lambda>x. iev_sessionId x = sample_id ''ing'' CHR ''X'') (ad_events db1) = []"
  proof -
    have "filter (\<lambda>x. iev_sessionId x = sample_id ''ing'' CHR ''X'') es
        = filter (\<lambda>x. iev_sessionId x = sample_id ''ing'' CHR ''X'')
            (filter (\<lambda>x. iev_sessionId x \<noteq> sample_id ''ing'' CHR ''W'') es)" for es
      by (induction es) auto
    then have "filter (\<lambda>x. iev_sessionId x = sample_id ''ing'' CHR ''X'') (ad_events db1)
        = filter (\<lambda>x. iev_sessionId x = sample_id ''ing'' CHR ''X'') (ad_events adb7)"
      using one(12) by metis
    then show ?thesis by (simp add: adb7_def artifact_event_def)
  qed
  have ready: "late_ready db1 CHR ''X'' CHR ''X'' CHR ''T''"
    unfolding late_ready_def one(4,5,11) arts
    using one(2,3,6-8) none by (simp add: adb7_def late_row_def ir_id_def artifact_event_def)
  have "newest ([first_row] @ [r]) = Some first_row"
    by (rule newest_late [OF late_newest]) (simp_all add: one(6,9) late_order)
  then have "previous_artifact (late_session CHR ''X'') db1 = Inr (Some raw0)"
    by (intro late_previous) (simp add: one(5,10) arts)
  note prev = this
  obtain view' rc' db2 r' where
    "finalize_commit (surroundings0 5500 CHR ''T'' CHR ''X'') (late0 CHR ''X'' 5500) (object_rel digest0) db1
       = (Settled (Inr (Finalized view' rc' False)), db2)"
    by (rule late_commit [OF ready prev, where n = 5500]) simp_all
  with one(1) show ?thesis by (rule that)
qed

section \<open>Evidence for the completion of the attempt\<close>

definition receipt10 :: json where
  "receipt10 = JObj [(''executor'', executor0), (''outputKinds'', JArr [JStr ''HTML'']),
     (''itemsObserved'', JNum 1), (''bytesPrepared'', JNum 3), (''metadataOnly'', JBool False),
     (''artifactReceiptIds'', JArr [JStr (sample_id ''air'' CHR ''V'')])]"

lemma sample_artifact_evidence:
  "assertArtifactEvidence (evidence_store (sy_db system4)) (sample_id ''exa'' CHR ''V'') receipt10 job4 = Inr ()"
proof -
  have row: "find_by ir_id ing0 (ad_sessions adb4) = Some (written_row (finalized_session finalization0)
      (no_session_options\<lparr>so_receipt := Some receipt0\<rparr>) row3)"
    by (simp add: adb4_def find_written find_row3)
  have find: "find_by sr_id i (map evidence_session rs) = map_option evidence_session (find_by ir_id i rs)" for i rs
    by (induction rs) (auto simp: evidence_session_def)
  have given: "stringify num (receipt_json rc) \<noteq> []" for num rc by (simp add: receipt_json_def)
  have doc: "receipt_field ''sizeBytes'' (raw_artifact_json raw0) = JNum 3"
    "receipt_field ''artifactKind'' (raw_artifact_json raw0) = JStr ''HTML''"
    by (simp_all add: raw_artifact_json_def field_def)
  show ?thesis
    by (simp add: assertArtifactEvidence_def receipt10_def artifact_evidence_def evidence_store_def system4_def
        evidence_row_def find row doc field_def)
      (simp add: evidence_session_def finalized_session_def given)
qed

end
