(* ===== verification/Spec2Isabelle.thy ===== *)
theory Spec2Isabelle
  imports Audit_Trail Run_Lifecycle Sample_History Sample_Execution Sample_Scheduler Sample_Registry Sample_Artifacts
begin

text \<open>
  The MarkOrbit knowledge system collects trademark sources. This development models its control
  plane and the contracts the control plane speaks: sources are registered with the connectors that
  serve them and get collection plans, plans are dispatched as runs of jobs, workers lease jobs, execute
  them in attempts, ingest the artifacts they find and report what they did; everything is kept in one
  SQLite database, and the bytes of the artifacts in a content-addressed store on disk.
  Paths are relative to packages/.

  Parts, and the theories that model them:

  \<^item> The contracts (contracts/src). A document on the wire is a value of the datatype json
    (Json_Values); the guards of schema-v1.ts, execution-v1.ts, worker-protocol-v1.ts and
    worker-execution-v1.ts are boolean functions on it (Vocabulary, Schema_V1, Execution_V1,
    Worker_Protocol_V1, Worker_Execution_V1). A typed document is a record, X_json writes it as JSON and
    X_valid says when the guard accepts what X_json writes: the lemmas isX_X_json are the bridge.
    execution-lifecycle-v1.ts is Execution_Lifecycle_V1; strings and clocks of the language are Js_Text
    and Js_Date, JSON.stringify is Json_Text, identifiers are Typed_Ids.
  \<^item> The database (Control_Store). Each table is a list of row records, with the columns the statements
    read; primary keys, UNIQUE constraints and foreign keys are checked by the inserts. BEGIN, COMMIT and
    ROLLBACK are in_transaction: a body that throws leaves the store as it was.
  \<^item> The registries. persistence/src/index.ts is Source_Registry (the default workspace and connector,
    initializeRegistry, createSource, updateSource, archiveSource, listSources), connector-registry.ts is
    Connector_Registry (createConnector, updateConnectorStatus, lists) and collection-plan-registry.ts is
    Plan_Registry (createPlan, updatePlan, updatePlanStatus, setSourceDefaultPlan, lists and the
    compatibility checks). A method that writes with one statement leaves the store as it was when it throws;
    updatePlanStatus writes with two, in no transaction, and the model keeps the first when the second fails.
    The inputs of create and update methods are records with the fields of their declared types; what the
    update of a source does with further keys of an untyped request body is applyRawSourceUpdate.
  \<^item> The methods. persistence/src/execution-ledger.ts is Execution_Ledger (dispatchManual, cancel, lists);
    worker-registry.ts and safe-worker-registry.ts are Worker_Registry (workers, credentials, heartbeats,
    claim, claimSpecific, renewLease, releaseLease, reapExpired); controlled-worker-execution.ts is
    Worker_Execution (startExecution, markUploading, markVerifying, completeExecution, failExecution,
    authorizeArtifactRead, reconcileExpired). A method takes the clock readings, identifiers and tokens its
    class was given as arguments and returns its result, a value or a registry_error, with the new store.
    collection-scheduler.ts is Cron_Schedule (cron expressions, zones, the next slot of a schedule) and
    Collection_Scheduler (the table of schedule states beside the control store, dispatchScheduled, tick,
    getState, listStates).
    SHA-256, URL and date parsing of foreign text and the engine's text of a number that is not a small
    integer are fields of the record platform; time zones are a function from names to what the engine's
    formatter shows of an instant.
  \<^item> The artifacts. contracts/src/artifact-ingestion-v1.ts is Artifact_Ingestion_V1. Content_Store is the class
    LocalContentAddressedStore of persistence/src/raw-artifact-registry.ts: the file system is a map from
    paths to bytes, paths are resolved as node:path does, the digest is a field of the record
    content_store. Artifact_Registry has the tables, authentication, events and createSession;
    Artifact_Uploads has uploadContent, finalize (finalizeArtifact), abort, cleanupAbandoned, list, contentPath and
    assertFinalizedArtifactReceipts. uploadContent and finalize await the disk and the stream. Each is cut
    at the awaits whose order can be seen: upload_begin and finalize_begin are the first stretch, the
    rest is an artifact_task that holds the method's variables, and resume runs a task to its next await;
    the removal of the upload, that of its directory and the transaction of finalize are three stretches.
    A stream is its chunks and whether it breaks; it is read in one stretch, since the chunks reach only
    the file of the upload itself. The disk fails only where a file is missing or exists already.
  \<^item> What the methods promise. Coordination states the protocol abstractly: a state spec of runs, jobs,
    leases and attempts, an inductive step relation spec_step and its invariant coordinated. Store_View
    maps a store to its spec (view_of) and says when rows and documents agree (store_ok). Lease_Protocol
    and Execution_Protocol show that every method is a sequence of steps of the specification; Store_Links
    adds that rows refer to the runs their jobs belong to, and the contract of a method as the locale
    control_operation, which every method interprets. Control_Plane closes the system: control_call is one
    call of any method, reachable_store the stores that calls lead to. Execution_Results says what
    successful executions return and why a repeated call is answered from the record; Audit_Trail shows
    that events are a gapless history of every attempt (locales audited_operation, silent_operation).
    Reconciliation describes the attempts reconcileExpired settles by their own rows (stranded,
    settled_rows). Run_Lifecycle adds what calls do to work over time: ended work is final (keeps_ended) and
    the jobs of a run are numbered without a gap (numbered).
    Scheduler_Protocol shows what a tick reports and starts, and that on the control store it is a sequence
    of dispatches, so a tick is a call like any other; the locale occurrence_rule of Cron_Schedule states
    when a next occurrence is the right one, for cron expressions and for intervals.
  \<^item> What the registries promise. Registry_Protocol states the consistent catalogue (catalogue_ok) and how it
    may evolve (evolves: no row is lost, connector versions change only in status, archived plans only in
    their time stamp), and the locales catalogue_operation and registry_operation, which every method of
    the registries interprets; Plan_Lifecycle shows the default plans of sources sound, stale version
    tokens refused and accepted plans dispatchable. A stored plan satisfies Schema v1 except when its
    updatedAt was written from a clock outside the years 0000 to 9999 (plan_content_valid): updateStatus
    checks nothing. Store_Frames derives from what the methods of the other components do that they keep
    every condition on the store that ignores the tables they write (locales work_frame, execution_frame).
    Catalogue instantiates it with the catalogue, which every call of the control plane keeps, and
    Work_History with the run recorded under an idempotency key, so that a slot of a schedule is dispatched
    once for the life of the store.
  \<^item> What ingestion promises. Artifact_Protocol closes the artifact registry as a system of tables, files and
    calls in flight (artifact_step: a new call, the next stretch of one, or a call of the control plane) and
    states its invariant tables_ok: a content object is a file with the digest and size of its row and as
    many references as artifacts, an artifact has its finalized session with the receipt that names it.
    Artifact_Invariant adds what the calls in flight rely on and shows that every step keeps both, whatever
    the interleaving, and leaves stored objects and everything outside the root alone; Artifact_Results says
    what successful calls return, that completions rest on stored bytes, and where an abort during an
    upload and a registration out of order lead.
  \<^item> Samples. Sample_Store, Sample_Execution, Sample_Scheduler, Sample_History, Sample_Registry and
    Sample_Artifacts run the methods on one source with its plans, one worker, one job and one page; the stores and systems they
    pass through witness the hypotheses of the properties.

  The scan and retry loops of the control plane are bounded by the tables, so they are folds over lists;
  the cron search visits at most 367 * 24 * 60 minutes, the code's own bound, and says so with an error;
  the searches over dates in Js_Date and over digits in Json_Text are structural or recurse on a number.

  Not modelled. The clock is a millisecond count and identifiers are arguments: a clock that goes backwards
  and colliding random values are covered, since the theorems hold for all arguments. Statements that create
  tables and indices are represented by the constraints they declare. Numbers are exact (rationals) where
  the engine rounds to doubles, so sums and delays that need more than 53 bits are not covered. Symbolic links, permissions and failures of the disk other
  than missing or existing files are left out of the content store. Concurrent transactions are serialized, as
  BEGIN IMMEDIATE does. The user interface, HTTP routes, process wiring, connectors to external services,
  catalogue data and the domain registries listed in the manifest are outside.
\<close>

section \<open>The control plane as a whole\<close>

text \<open>C1. Whatever methods of the ledger, the registry and the execution repository are called, in any order, with any arguments and at any times, the database follows the specification of jobs, leases and attempts and stays coordinated.\<close>

theorem control_plane_refines_the_specification:
  assumes "without_work db0" "control_call\<^sup>*\<^sup>* db0 db"
  shows "spec_step\<^sup>*\<^sup>* spec_init (view_of db) \<and> coordinated (view_of db)"
  using calls_controlled [OF assms(2) without_work_well_formed [OF assms(1)]] without_work_view [OF assms(1)]
  by (simp add: well_formed_def del: view_simps)

theorem control_plane_witness:
  "spec_step\<^sup>*\<^sup>* spec_init (view_of store1) \<and> coordinated (view_of store1)"
proof (rule control_plane_refines_the_specification)
  show "without_work store0"
    using sample_start(1) by (simp add: without_work_def store_ok_def store0_def)
  show "control_call\<^sup>*\<^sup>* store0 store1"
    using control_call.dispatch [of store0 now0] sample_dispatch by (metis r_into_rtranclp snd_conv)
qed

text \<open>C2. In every reachable store an active lease is on a job in flight of the lease's run, and no other lease on that job is active.\<close>

theorem active_leases_are_exclusive:
  assumes "reachable_store db" "l \<in> set (leases db)" "lr_status l = L_ACTIVE"
  shows "\<exists>j. job_by_id (lr_job_id l) db = Some j \<and> in_flight (jr_status j) \<and> jr_run_id j = lr_run_id l
    \<and> filter (\<lambda>x. lr_job_id x = lr_job_id l \<and> lr_status x = L_ACTIVE) (leases db) = [l]"
proof -
  note wf = reachable_well_formed [OF assms(1)]
  have ok: "store_ok db" "linked db" using wf by (simp_all add: well_formed_def)
  note p = coordinated_parts(2) [OF wf]
  have view: "sp_leases (view_of db) (lr_id x) = Some (lr_job_id x, lr_status x = L_ACTIVE)" if "x \<in> set (leases db)" for x
    using row_found(1) [OF ok(1) that] by simp
  obtain j where j: "job_by_id (lr_job_id l) db = Some j"
    using lease_partD(1) [OF p view [OF assms(2)]] by auto
  moreover have "in_flight (jr_status j)"
    using lease_partD(2) [OF p, of "lr_id l" "lr_job_id l" "jr_run_id j" "jr_attempt j" "jr_status j"] view [OF assms(2)] assms(3) j by simp
  moreover have "filter (\<lambda>x. lr_job_id x = lr_job_id l \<and> lr_status x = L_ACTIVE) (leases db) = [l]"
  proof (rule filter_unique_key [of lr_id])
    show "distinct (map lr_id (leases db))" using ok(1) by (simp add: store_ok_def coherent_def)
    show "lr_id y = lr_id l" if "y \<in> set (leases db)" "lr_job_id y = lr_job_id l \<and> lr_status y = L_ACTIVE" for y
      using lease_partD(3) [OF p, of "lr_id y" "lr_job_id l" "lr_id l"] view [OF assms(2)] view [OF that(1)] that(2) assms(3) by simp
  qed (use assms in simp_all)
  ultimately show ?thesis using linked_run(1) [OF ok(2,1) j assms(2)] by simp
qed

theorem active_leases_witness:
  "\<exists>j. job_by_id (sample_id ''job'' CHR ''V'') store2 = Some j \<and> in_flight (jr_status j) \<and> jr_run_id j = sample_id ''run'' CHR ''V''
    \<and> filter (\<lambda>x. lr_job_id x = sample_id ''job'' CHR ''V'' \<and> lr_status x = L_ACTIVE) (leases store2)
        = [lease_row_of (digestHex platform0 ''token'') lease2]"
  using active_leases_are_exclusive [OF sample_reachable2, of "lease_row_of (digestHex platform0 ''token'') lease2"]
  by (simp add: lease_row_of_def)

text \<open>C3. In every reachable store a job that is pending or in flight is the only such job of its run, and its run has the status the lifecycle derives from it; an active attempt is the only attempt of its job, at the job's attempt number and stage.\<close>

theorem work_follows_its_job:
  assumes "reachable_store db"
  shows "(j \<in> set (jobs db) \<and> live_job (jr_status j) \<longrightarrow>
      (\<exists>r. run_by_id (jr_run_id j) db = Some r \<and> rr_status r = deriveRunStatusFromJob (jr_status j)
        \<and> filter (\<lambda>x. jr_run_id x = jr_run_id j \<and> live_job (jr_status x)) (jobs db) = [j]))
    \<and> (a \<in> set (attempts db) \<and> active_attempt (ar_status a) \<longrightarrow>
      (\<exists>j. job_by_id (ar_job_id a) db = Some j \<and> jr_status j = job_of_attempt (ar_status a)
        \<and> jr_attempt j = ar_job_attempt a \<and> jr_run_id j = ar_run_id a
        \<and> filter (\<lambda>x. ar_job_id x = ar_job_id a) (attempts db) = [a]))"
  using live_job_of_run [OF assms] active_attempt_of_job [OF assms] by blast

theorem work_follows_witness:
  "(\<exists>r. run_by_id (jr_run_id (job_row_of retry5)) store5 = Some r
      \<and> rr_status r = deriveRunStatusFromJob (jr_status (job_row_of retry5))
      \<and> filter (\<lambda>x. jr_run_id x = jr_run_id (job_row_of retry5) \<and> live_job (jr_status x)) (jobs store5)
        = [job_row_of retry5])
   \<and> (\<exists>j. job_by_id (ar_job_id (attempt_row_of attempt4)) store4 = Some j
      \<and> jr_status j = job_of_attempt (ar_status (attempt_row_of attempt4))
      \<and> jr_attempt j = ar_job_attempt (attempt_row_of attempt4) \<and> jr_run_id j = ar_run_id (attempt_row_of attempt4)
      \<and> filter (\<lambda>x. ar_job_id x = ar_job_id (attempt_row_of attempt4)) (attempts store4) = [attempt_row_of attempt4])"
proof
  show "\<exists>r. run_by_id (jr_run_id (job_row_of retry5)) store5 = Some r
      \<and> rr_status r = deriveRunStatusFromJob (jr_status (job_row_of retry5))
      \<and> filter (\<lambda>x. jr_run_id x = jr_run_id (job_row_of retry5) \<and> live_job (jr_status x)) (jobs store5)
        = [job_row_of retry5]"
    by (rule work_follows_its_job [THEN conjunct1, rule_format, OF sample_reachable5])
      (simp_all add: store5_def job_row_of_def retry5_def)
  show "\<exists>j. job_by_id (ar_job_id (attempt_row_of attempt4)) store4 = Some j
      \<and> jr_status j = job_of_attempt (ar_status (attempt_row_of attempt4))
      \<and> jr_attempt j = ar_job_attempt (attempt_row_of attempt4) \<and> jr_run_id j = ar_run_id (attempt_row_of attempt4)
      \<and> filter (\<lambda>x. ar_job_id x = ar_job_id (attempt_row_of attempt4)) (attempts store4) = [attempt_row_of attempt4]"
    by (rule work_follows_its_job [THEN conjunct2, rule_format, OF sample_reachable4]) (simp_all add: attempt_row_of_def)
qed

text \<open>C4. In every reachable store the events of an attempt are an audit trail of it: they are numbered from one without gaps, each starts at the status the previous one ended at, and the last one ends at the attempt's status.\<close>

theorem events_form_an_audit_trail:
  assumes "reachable_store db"
  shows "chained None (map er_document (log_of a db)) (status_of a db)
    \<and> map er_sequence (log_of a db) = map int [1..<length (log_of a db) + 1]"
  using reachable_audited [OF assms] by (simp add: audited_def)

theorem audit_trail_witness:
  "chained None (map er_document (log_of (sample_id ''exa'' CHR ''V'') store8)) (status_of (sample_id ''exa'' CHR ''V'') store8)
    \<and> map er_sequence (log_of (sample_id ''exa'' CHR ''V'') store8)
        = map int [1..<length (log_of (sample_id ''exa'' CHR ''V'') store8) + 1]"
  by (rule events_form_an_audit_trail [OF sample_reachable8])

section \<open>Leasing jobs to workers\<close>

text \<open>C5. A successful claim hands out a job that was pending and due once expired leases had been reaped, of the worker's own workspace and one the worker is able to run; the worker is active, the job becomes LEASED and the lease, valid under the protocol, is built from that job.\<close>

theorem claim_respects_its_guards:
  assumes "store_ok db" "coordinated (view_of db)"
    and "claim env cfg now now' leaseId token workerId credential db = (Inr (Some (j', l, tok)), db')"
  shows "\<exists>n db1 w r x. reapExpiredInTransaction (to_iso now) db = Inr (n, db1)
    \<and> getWorker db1 workerId = Inr (Some w) \<and> worker_desiredState w = W_ACTIVE
    \<and> job_by_id (job_id j') db1 = Some r \<and> jr_status r = J_PENDING \<and> jr_available_at r \<le> to_iso now
    \<and> job_workspaceId (jr_document r) = worker_workspaceId w \<and> workerCanRun w (jr_document r)
    \<and> j' = (jr_document r)\<lparr>job_status := J_LEASED, job_updatedAt := to_iso now\<rparr>
    \<and> l = new_lease leaseId w (jr_document r) (to_iso now) x \<and> lease_valid l \<and> tok = token"
proof -
  from assms(3) obtain n db1 w state r where
    reap: "reapExpiredInTransaction (to_iso now) db = Inr (n, db1)"
    and w: "claiming_worker cfg now' workerId db1 = Inr w"
    and r: "r \<in> set (claim_candidates (to_iso now) db1)" "claimable env cfg w state (jr_document r)"
    and take: "claimJobInTransaction env cfg now leaseId token w (jr_document r) db1 = Inr (Some (j', l, tok), db')"
    by (rule claim_first [OF assms(1,2)])
  note ok1 = reap_refines(1) [OF assms(1,2) reap]
  from claiming_worker_Inr [OF w ok1] obtain wr where
    "worker_by_id workerId db1 = Some wr" "wr_document wr = w" "worker_valid w" "worker_desiredState w = W_ACTIVE"
    by blast
  then have "getWorker db1 workerId = Inr (Some w)" "worker_desiredState w = W_ACTIVE"
    by (simp_all add: getWorker_def)
  moreover note claim_candidatesD [OF r(1)] claimJob_result [OF take]
  moreover from this have "job_by_id (job_id j') db1 = Some r"
    using row_found(2) [OF ok1, of r] job_columns(1) [OF ok1] by simp
  ultimately show ?thesis
    using reap r(2) unfolding claimable_def by blast
qed

theorem claim_respects_its_guards_witness:
  "\<exists>n db1 w r x. reapExpiredInTransaction (to_iso now0) store1 = Inr (n, db1)
    \<and> getWorker db1 (sample_id ''wrk'' CHR ''V'') = Inr (Some w) \<and> worker_desiredState w = W_ACTIVE
    \<and> job_by_id (job_id job2) db1 = Some r \<and> jr_status r = J_PENDING \<and> jr_available_at r \<le> to_iso now0
    \<and> job_workspaceId (jr_document r) = worker_workspaceId w \<and> workerCanRun w (jr_document r)
    \<and> job2 = (jr_document r)\<lparr>job_status := J_LEASED, job_updatedAt := to_iso now0\<rparr>
    \<and> lease2 = new_lease (sample_id ''lse'' CHR ''V'') w (jr_document r) (to_iso now0) x
    \<and> lease_valid lease2 \<and> ''token'' = ''token''"
  using claim_respects_its_guards [OF sample_store1 sample_claim] .

text \<open>C6. Among the candidates the worker may take, claim takes the first by priority, availability time, creation time and id.\<close>

theorem claim_takes_first_in_priority_order:
  assumes "store_ok db" "coordinated (view_of db)"
    and "claim env cfg now now' leaseId token workerId credential db = (Inr (Some (j', l, tok)), db')"
  shows "\<exists>n db1 w state r. reapExpiredInTransaction (to_iso now) db = Inr (n, db1)
    \<and> claiming_worker cfg now' workerId db1 = Inr w \<and> webDomainLeaseState env now db1 = Inr state
    \<and> r \<in> set (claim_candidates (to_iso now) db1)
    \<and> j' = (jr_document r)\<lparr>job_status := J_LEASED, job_updatedAt := to_iso now\<rparr>
    \<and> (\<forall>x\<in>set (claim_candidates (to_iso now) db1). claimable env cfg w state (jr_document x) \<longrightarrow>
         (job_priority j', jr_available_at r, jr_created_at r, jr_id r) \<le> claim_key x)"
proof (rule claim_first [OF assms])
  fix n db1 w state r
  assume "reapExpiredInTransaction (to_iso now) db = Inr (n, db1)"
    "claiming_worker cfg now' workerId db1 = Inr w" "webDomainLeaseState env now db1 = Inr state"
    "r \<in> set (claim_candidates (to_iso now) db1)"
    "\<And>x. x \<in> set (claim_candidates (to_iso now) db1) \<Longrightarrow>
         claimable env cfg w state (jr_document x) \<Longrightarrow> claim_key r \<le> claim_key x"
    and take: "claimJobInTransaction env cfg now leaseId token w (jr_document r) db1 = Inr (Some (j', l, tok), db')"
  moreover have j': "j' = (jr_document r)\<lparr>job_status := J_LEASED, job_updatedAt := to_iso now\<rparr>"
    by (rule claimJob_result(1) [OF take])
  ultimately show ?thesis
    by (intro exI [of _ n] exI [of _ db1] exI [of _ w] exI [of _ state] exI [of _ r])
      (simp add: claim_key_def)
qed

theorem claim_takes_first_witness:
  "\<exists>n db1 w state r. reapExpiredInTransaction (to_iso now0) store1 = Inr (n, db1)
    \<and> claiming_worker config0 now0 (sample_id ''wrk'' CHR ''V'') db1 = Inr w
    \<and> webDomainLeaseState platform0 now0 db1 = Inr state
    \<and> r \<in> set (claim_candidates (to_iso now0) db1)
    \<and> job2 = (jr_document r)\<lparr>job_status := J_LEASED, job_updatedAt := to_iso now0\<rparr>
    \<and> (\<forall>x\<in>set (claim_candidates (to_iso now0) db1).
         claimable platform0 config0 w state (jr_document x) \<longrightarrow>
         (job_priority job2, jr_available_at r, jr_created_at r, jr_id r) \<le> claim_key x)"
  using claim_takes_first_in_priority_order [OF sample_store1 sample_claim] .

text \<open>C7. After a claim, of any job or of a named one, the worker holds at most maxConcurrency active leases and, on the web domain of the job, at most maxConcurrentWebLeasesPerDomain leases are active.\<close>

theorem claim_within_capacity_and_quota:
  assumes "store_ok db" "coordinated (view_of db)" "1 \<le> maxConcurrentWebLeasesPerDomain cfg"
    and "claim env cfg now now' leaseId token workerId credential db = (Inr (Some (j', l, tok)), db')
      \<or> claimSpecific env cfg now now' leaseId token workerId credential jobId db = (Inr (Some (j', l, tok)), db')"
  shows "(\<exists>w. worker_by_id workerId db' = Some w
           \<and> int (worker_load workerId db') \<le> worker_maxConcurrency (wr_document w))
    \<and> (\<forall>d. domain_of env j' = Some d \<longrightarrow>
          int (domain_load env d db') \<le> maxConcurrentWebLeasesPerDomain cfg)"
proof -
  from assms(4) obtain n db1 w r state where
    ok1: "store_ok db1" and w: "claiming_worker cfg now' workerId db1 = Inr w"
    and r: "job_by_id (job_id (jr_document r)) db1 = Some r"
    and st: "webDomainLeaseState env now db1 = Inr state" "webDomainQuotaAllows env cfg (jr_document r) state"
    and take: "claimJobInTransaction env cfg now leaseId token w (jr_document r) db1 = Inr (Some (j', l, tok), db')"
    by (rule claim_taken [OF assms(1,2)])
  note loads = claimJob_loads [OF ok1 r refl take]
  note cw = claiming_worker_Inr [OF w ok1]
  have "worker_by_id workerId db' = worker_by_id workerId db1"
    using claimJob_refines(4) [OF ok1 r refl take] by (simp add: worker_by_id_def)
  moreover have "domain_of env j' = domain_of env (jr_document r)"
    using claimJob_result(1) [OF take] by simp
  ultimately show ?thesis
    using cw(1,4,5) loads quota_bound [OF st _ assms(3)] by auto
qed

theorem claim_within_capacity_witness:
  "\<exists>w. worker_by_id (sample_id ''wrk'' CHR ''V'') store2 = Some w
     \<and> int (worker_load (sample_id ''wrk'' CHR ''V'') store2) \<le> worker_maxConcurrency (wr_document w)
     \<and> int (domain_load platform0 ''gazette.example'' store2) \<le> 1"
  using claim_within_capacity_and_quota [OF sample_store1 _ disjI1 [OF sample_claim]] sample_domain
  by (auto simp: job2_def)

text \<open>C8. A renewed lease expires at most leaseDurationMs after the renewal and at most maxLeaseLifetimeMs after it was acquired; the caller has shown the lease's token, and only the expiry and the update time change.\<close>

theorem renewal_bounded:
  assumes "renewLease env cfg now workerId credential leaseId token db = (Inr l', db')"
    and "store_ok db" "iso_instant (now + leaseDurationMs cfg)" "iso_instant now"
  shows "\<exists>r acquired t. lease_by_id leaseId db = Some r \<and> parse_iso (lease_acquiredAt (lr_document r)) = Some acquired
    \<and> lease_by_id leaseId db' = Some (write_lease l' r)
    \<and> l' = (lr_document r)\<lparr>lease_expiresAt := to_iso t, lease_updatedAt := to_iso now\<rparr>
    \<and> t \<le> now + leaseDurationMs cfg \<and> t \<le> acquired + maxLeaseLifetimeMs cfg
    \<and> verifyDigest env token (lr_token_digest r) \<and> lease_workerId l' = workerId \<and> lease_status l' = L_ACTIVE"
proof -
  from assms(1) have "renewLease_body env cfg now workerId leaseId token db = Inr (l', db')"
    by (auto simp: renewLease_def in_transaction_commit split: sum.splits)
  then obtain l t where own: "requireOwnedActiveLease env db workerId leaseId token = Inr l"
    and t: "renewed_expiry cfg now l = Some t"
    and l': "l' = l\<lparr>lease_expiresAt := to_iso t, lease_updatedAt := to_iso now\<rparr>" and db': "db' = update_lease l' db"
    by (rule renewLease_body_Inr)
  from requireOwned_Inr [OF own] obtain r where r: "lease_by_id leaseId db = Some r" "lr_document r = l"
    "lease_workerId l = workerId" "verifyDigest env token (lr_token_digest r)" "lease_status l = L_ACTIVE" by blast
  moreover have "lease_id l = leaseId"
    using lease_columns(1) [OF assms(2) r(1)] r(2) by simp
  ultimately show ?thesis
    using t by (auto simp: renewed_expiry_def new_Date_def Let_def l' db' split: option.splits if_splits)
qed

theorem renewal_bounded_witness:
  "\<exists>r acquired t. lease_by_id (sample_id ''lse'' CHR ''V'') store2 = Some r
     \<and> parse_iso (lease_acquiredAt (lr_document r)) = Some acquired
     \<and> t \<le> now0 + 60000 + leaseDurationMs config0 \<and> t \<le> acquired + maxLeaseLifetimeMs config0"
proof -
  obtain l db' where "renewLease platform0 config0 (now0 + 60000) (sample_id ''wrk'' CHR ''V'') ''secret''
      (sample_id ''lse'' CHR ''V'') ''token'' store2 = (Inr l, db')"
    using sample_renew by (simp add: Let_def)
  from renewal_bounded [OF this sample_store2(1)] instant0 [of "60000 + 120000"] instant0 [of 60000]
  show ?thesis by (auto simp: add.assoc)
qed

text \<open>C9. The safe registry: when a renewal is refused because the lease had expired, the refusal is followed by a reap, so that no expired lease stays active, although the refused transaction itself was rolled back.\<close>

theorem safe_renewal_reaps_what_it_saw_expired:
  assumes "store_ok db" "coordinated (view_of db)"
    and "safe_renewLease env cfg now now' workerId credential leaseId token db
           = (Inl (RegistryConflictError (Lease LEASE_EXPIRED)), db')"
  shows "\<forall>x\<in>set (leases db'). lr_status x = L_ACTIVE \<longrightarrow> \<not> lr_expires_at x \<le> to_iso now'"
proof -
  obtain res db1 where ren: "renewLease env cfg now workerId credential leaseId token db = (res, db1)"
    by fastforce
  have db1: "store_ok db1" "coordinated (view_of db1)"
    using renew_op.keeps_store_ok [OF assms(1,2) ren] renew_op.keeps_coordinated [OF assms(1,2) ren] .
  have "\<exists>n. reapExpiredInTransaction (to_iso now') db1 = Inr (n, db')"
    using assms(3) ren
    by (auto simp: safe_renewLease_def reapExpired_def in_transaction_def
        split: sum.splits prod.splits if_splits dest!: reap_error)
  then show ?thesis using reap_refines(8) [OF db1] by blast
qed

theorem safe_renewal_witness:
  "expired_leases (to_iso (now0 + 120000)) store3 = []"
  using safe_renewal_reaps_what_it_saw_expired [OF sample_store2 sample_safe_renewal]
  by (auto simp: expired_leases_def filter_empty_conv)

text \<open>C10. An administrator's update that disables a worker leaves it without any active lease.\<close>

theorem disabled_workers_hold_no_lease:
  assumes "store_ok db" "coordinated (view_of db)"
    and "updateWorker cfg now now' i inp expected db = (Inr view, db')" "uw_desiredState inp = Some W_DISABLED"
  shows "worker_load i db' = 0 \<and> worker_desiredState (view_worker view) = W_DISABLED"
proof -
  from assms(3) obtain "next" current where n: "getWorker db i = Inr (Some current)"
    "applyWorkerUpdate current inp (to_iso now) = Inr next" "viewForWorker cfg now' db' next = Inr view"
    and t: "in_transaction db
                  (case update_worker_if i expected next db of
                     None \<Rightarrow> conflict (Worker WORKER_VERSION_CONFLICT)
                   | Some db1 \<Rightarrow>
                       if worker_desiredState next = W_DISABLED
                       then and_then (revokeActiveLeasesForWorker i (to_iso now)
                                ''Worker disabled by administrator'' db1) (\<lambda>db2. Inr ((), db2))
                       else Inr ((), db1)) = (Inr (), db')"
    by (auto simp: updateWorker_def and_then_Inr split: sum.splits option.splits prod.splits if_splits)
  have d: "worker_desiredState next = W_DISABLED"
    using n(2) assms(4) by (auto simp: applyWorkerUpdate_def Let_def given_or_def split: if_splits)
  obtain db1 where db1: "update_worker_if i expected next db = Some db1"
    "revokeActiveLeasesForWorker i (to_iso now) ''Worker disabled by administrator'' db1 = Inr db'"
    using t d by (auto simp: in_transaction_commit and_then_Inr split: option.splits)
  obtain r where r: "worker_by_id i db = Some r" "wr_document r = current"
    using n(1) by (auto simp: getWorker_def and_then_Inr split: option.splits)
  have db1': "db1 = db\<lparr>workers := update_by wr_id i (write_worker next) (workers db)\<rparr>"
    using db1(1) r by (auto simp: update_worker_if_def split: if_splits)
  have "store_ok db1"
    using store_ok_update_worker [OF assms(1) r(1), of "next"] applyWorkerUpdate_keeps [OF n(2)] r(2)
    by (simp add: db1')
  moreover have "view_of db1 = view_of db"
    unfolding db1' by (intro view_of_cong) simp_all
  ultimately have "\<And>x. x \<in> set (leases db') \<Longrightarrow> lr_status x = L_ACTIVE \<Longrightarrow> lr_worker_id x \<noteq> i"
    using revoke_refines(3) [OF _ _ db1(2)] assms(2) by simp
  moreover have "view_worker view = next"
    using n(3) by (auto simp: viewForWorker_def and_then_Inr)
  ultimately show ?thesis
    using d by (auto simp: worker_load_def filter_empty_conv)
qed

theorem disabled_workers_witness:
  "\<exists>view db'. updateWorker config0 (now0 + 1000) (now0 + 1000) (sample_id ''wrk'' CHR ''V'') disable0
      (to_iso (now0 - 60000)) store1 = (Inr view, db')
    \<and> worker_load (sample_id ''wrk'' CHR ''V'') db' = 0 \<and> worker_desiredState (view_worker view) = W_DISABLED"
proof -
  obtain view db' where *: "updateWorker config0 (now0 + 1000) (now0 + 1000) (sample_id ''wrk'' CHR ''V'') disable0
      (to_iso (now0 - 60000)) store1 = (Inr view, db')"
    using sample_disable by blast
  have "uw_desiredState disable0 = Some W_DISABLED" by (simp add: disable0_def)
  from disabled_workers_hold_no_lease [OF sample_store1 * this] * show ?thesis by blast
qed

section \<open>Dispatching and cancelling runs\<close>

text \<open>C11. A dispatch that is not a replay adds exactly one run and one job, both valid and pending, for an active plan, source and connector, with a job type the connector supports.\<close>

theorem dispatch_creates_one_run_and_one_job:
  assumes "dispatchManual now runId jobId inp db = (Inr ((run, js), False), db')"
  shows "\<exists>j. js = [j] \<and> collection_runs db' = collection_runs db @ [run_row_of run] \<and> jobs db' = jobs db @ [job_row_of j]
    \<and> run_valid run \<and> job_valid j \<and> run_status run = R_PENDING \<and> job_status j = J_PENDING \<and> job_attempt j = 1
    \<and> job_runId j = run_id run \<and> run_id run \<notin> rr_id ` set (collection_runs db)
    \<and> plan_status (run_planSnapshot run) = P_ACTIVE \<and> source_status (run_sourceSnapshot run) = S_ACTIVE
    \<and> connector_status (run_connectorSnapshot run) = C_ACTIVE
    \<and> job_type j \<in> set (connector_supportedJobTypes (run_connectorSnapshot run)) \<inter> set COLLECTION_JOB_TYPES"
proof (rule dispatchManual_new [OF assms])
  fix plan source connector jobType key actor
  assume v: "validateDispatch plan source connector = Inr jobType"
    and run: "run = dispatched_run plan source connector actor key (di_extensions inp) runId (to_iso now)"
    and js: "js = [dispatched_job run jobType jobId (to_iso now)]"
    and valid: "run_valid run" "list_all job_valid js"
    and ins: "insert_dispatch run (dispatched_job run jobType jobId (to_iso now)) db = Inr db'"
  show ?thesis
    using insert_dispatch_Inr(1,2) [OF ins] validateDispatch_Inr(1-3,9) [OF v] deriveCollectionJobType_Inr
      valid run js
    by (intro exI [of _ "dispatched_job run jobType jobId (to_iso now)"]) auto
qed

theorem dispatch_creates_witness:
  "\<exists>j. [job1] = [j] \<and> collection_runs store1 = collection_runs store0 @ [run_row_of run1]
    \<and> jobs store1 = jobs store0 @ [job_row_of j]
    \<and> run_valid run1 \<and> job_valid j \<and> run_status run1 = R_PENDING \<and> job_status j = J_PENDING \<and> job_attempt j = 1
    \<and> job_runId j = run_id run1 \<and> run_id run1 \<notin> rr_id ` set (collection_runs store0)
    \<and> plan_status (run_planSnapshot run1) = P_ACTIVE \<and> source_status (run_sourceSnapshot run1) = S_ACTIVE
    \<and> connector_status (run_connectorSnapshot run1) = C_ACTIVE
    \<and> job_type j \<in> set (connector_supportedJobTypes (run_connectorSnapshot run1)) \<inter> set COLLECTION_JOB_TYPES"
  by (rule dispatch_creates_one_run_and_one_job [OF sample_dispatch])

text \<open>C12. Dispatching again under the same idempotency key returns the recorded run, flagged as replayed, and changes nothing.\<close>

theorem dispatch_replays_under_its_key:
  assumes "store_ok db" "coordinated (view_of db)" "di_idempotencyKey inp \<noteq> None"
    and "dispatchManual now runId jobId inp db = (Inr (rec, False), db')"
  shows "dispatchManual now' runId' jobId' inp db' = (Inr (rec, True), db')"
  by (rule dispatch_then_replay [OF assms(1,2,4,3)])

theorem dispatch_replays_witness:
  "dispatchManual (now0 + 5000) (sample_id ''run'' CHR ''W'') (sample_id ''job'' CHR ''W'') dispatch0 store1
     = (Inr ((run1, [job1]), True), store1)"
  by (rule dispatch_replays_under_its_key [OF sample_start _ sample_dispatch]) (simp add: dispatch0_def)

text \<open>C13. A successful cancellation was of a pending run all of whose jobs were pending; it cancels the run and exactly its jobs and touches no other run, job, lease or attempt.\<close>

theorem cancel_takes_a_pending_run_and_its_jobs:
  assumes "store_ok db" "cancel now i expected reason db = (Inr (run, js), db')"
  shows "view_of db' = (view_of db)\<lparr>sp_runs := (sp_runs (view_of db))(i \<mapsto> R_CANCELLED),
           sp_jobs := cancel_jobs i (sp_jobs (view_of db))\<rparr>
    \<and> sp_runs (view_of db) i = Some R_PENDING
    \<and> (\<forall>j n t. sp_jobs (view_of db) j = Some (i, n, t) \<longrightarrow> t = J_PENDING)"
  using cancel_refines(3-5) [OF assms] by blast

theorem cancel_takes_witness:
  "\<exists>db'. view_of db' = (view_of store1)\<lparr>sp_runs := (sp_runs (view_of store1))(sample_id ''run'' CHR ''V'' \<mapsto> R_CANCELLED),
           sp_jobs := cancel_jobs (sample_id ''run'' CHR ''V'') (sp_jobs (view_of store1))\<rparr>
    \<and> sp_runs (view_of store1) (sample_id ''run'' CHR ''V'') = Some R_PENDING"
  using cancel_takes_a_pending_run_and_its_jobs [OF sample_store1(1) sample_cancel] by blast

section \<open>Executing jobs\<close>

text \<open>C14. An attempt starts only under an active, unexpired lease the caller holds and can prove with its token, on a leased job of a pending run, and only once per lease; the job and the run become RUNNING and nothing else changes.\<close>

theorem start_takes_a_leased_job:
  assumes "well_formed db"
    and "startExecution env now attemptId eventId w cred l tok inp db = (Inr (a, e, False), db')"
  shows "\<exists>c. requireActiveContext env db w l tok (to_iso now) = Inr c
    \<and> job_status (ctx_job c) = J_LEASED \<and> run_status (ctx_run c) = R_PENDING
    \<and> l \<notin> ar_lease_id ` set (attempts db)
    \<and> a = new_attempt attemptId w (si_executor inp) (ctx_job c) (ctx_lease c) (to_iso now)
    \<and> view_of db' = started c l attemptId (view_of db)"
proof -
  from assms(2) obtain key where
    body: "start_body env now attemptId eventId w l tok (si_executor inp) key
       (hashPayload env (JObj [(''executor'', si_executor inp)])) db = Inr ((a, e, False), db')"
    by (rule start_fresh)
  then obtain c event db1 where
    c: "requireActiveContext env db w l tok (to_iso now) = Inr c"
      "job_status (ctx_job c) = J_LEASED" "run_status (ctx_run c) = R_PENDING"
    and a: "a = new_attempt attemptId w (si_executor inp) (ctx_job c) (ctx_lease c) (to_iso now)"
    and ins: "insert_attempt a db = Inr db1"
    by (auto elim!: start_body_Inr)
  have "lease_id (ctx_lease c) = l"
    using active_rows [OF assms(1) c(1)] by metis
  then have "l \<notin> ar_lease_id ` set (attempts db)"
    using ins by (auto simp: insert_attempt_def a split: if_splits)
  with start_body_refines(4) [OF assms(1) body] c a show ?thesis by auto
qed

theorem start_takes_a_leased_job_witness:
  "\<exists>c. requireActiveContext platform0 store2 (sample_id ''wrk'' CHR ''V'') (sample_id ''lse'' CHR ''V'') ''token''
        (to_iso (now0 + 1000)) = Inr c
    \<and> job_status (ctx_job c) = J_LEASED \<and> run_status (ctx_run c) = R_PENDING
    \<and> sample_id ''lse'' CHR ''V'' \<notin> ar_lease_id ` set (attempts store2)
    \<and> attempt4 = new_attempt (sample_id ''exa'' CHR ''V'') (sample_id ''wrk'' CHR ''V'') (si_executor start0) (ctx_job c)
        (ctx_lease c) (to_iso (now0 + 1000))
    \<and> view_of store4 = started c (sample_id ''lse'' CHR ''V'') (sample_id ''exa'' CHR ''V'') (view_of store2)"
  by (rule start_takes_a_leased_job [OF reachable_well_formed [OF sample_reachable2] sample_started])

text \<open>C15. A completion is of an attempt and a job that are both VERIFYING, by the executor that started it, with output kinds the plan asked for and the connector supports and with the artifact evidence; attempt, job and run become COMPLETED and the lease is released.\<close>

theorem completion_needs_a_verified_attempt:
  assumes "well_formed db"
    and "completeExecution env now eventId retryId w cred l tok inp db = (Inr (a, e, False), db')"
  shows "\<exists>c a0 es. requireActiveContext env db w l tok (to_iso now) = Inr c
    \<and> requireAttemptByLease db l = Inr (a0, es) \<and> attempt_jobId a0 = job_id (ctx_job c)
    \<and> attempt_status a0 = X_VERIFYING \<and> job_status (ctx_job c) = J_VERIFYING
    \<and> attempt_executor a0 = receipt_field ''executor'' (ci_receipt inp)
    \<and> assertReceiptMatchesJob (ci_receipt inp) (ctx_job c) = Inr ()
    \<and> assertArtifactEvidence db (attempt_id a0) (ci_receipt inp) (ctx_job c) = Inr ()
    \<and> a = ended_attempt a0 (Receipt (ci_receipt inp)) (to_iso now)
    \<and> view_of db' = ended Complete c l (attempt_id a0) (view_of db)"
proof -
  from assms(2) obtain key where
    body: "terminal_body env now eventId retryId w l tok key ''COMPLETE''
       (hashPayload env (JObj [(''receipt'', ci_receipt inp)])) (Receipt (ci_receipt inp)) db = Inr ((a, e, False), db')"
    by (rule complete_fresh)
  from terminal_result [OF assms(1) body] obtain c a0 es where
    c: "requireActiveContext env db w l tok (to_iso now) = Inr c" "requireAttemptByLease db l = Inr (a0, es)"
      "attempt_jobId a0 = job_id (ctx_job c)" "check_completion db a0 (ctx_job c) (Receipt (ci_receipt inp)) = Inr ()"
      "a = ended_attempt a0 (Receipt (ci_receipt inp)) (to_iso now)"
      "view_of db' = ended (ending_of (Receipt (ci_receipt inp)) (ctx_job c) retryId) c l (attempt_id a0) (view_of db)"
    by metis
  from c(4) have
    "attempt_status a0 = X_VERIFYING \<and> job_status (ctx_job c) = J_VERIFYING
      \<and> attempt_executor a0 = receipt_field ''executor'' (ci_receipt inp)
      \<and> assertReceiptMatchesJob (ci_receipt inp) (ctx_job c) = Inr ()
      \<and> assertArtifactEvidence db (attempt_id a0) (ci_receipt inp) (ctx_job c) = Inr ()"
    by (auto simp: check_completion_def and_then_Inr split: if_splits)
  with c show ?thesis by (auto simp: ending_of_def)
qed

theorem completion_witness:
  "\<exists>c a0 es. requireActiveContext platform0 store7 (sample_id ''wrk'' CHR ''V'') (sample_id ''lse'' CHR ''V'') ''token''
        (to_iso (now0 + 4000)) = Inr c
    \<and> requireAttemptByLease store7 (sample_id ''lse'' CHR ''V'') = Inr (a0, es) \<and> attempt_jobId a0 = job_id (ctx_job c)
    \<and> attempt_status a0 = X_VERIFYING \<and> job_status (ctx_job c) = J_VERIFYING
    \<and> attempt_executor a0 = receipt_field ''executor'' (ci_receipt completion0)
    \<and> assertReceiptMatchesJob (ci_receipt completion0) (ctx_job c) = Inr ()
    \<and> assertArtifactEvidence store7 (attempt_id a0) (ci_receipt completion0) (ctx_job c) = Inr ()
    \<and> attempt8 = ended_attempt a0 (Receipt (ci_receipt completion0)) (to_iso (now0 + 4000))
    \<and> view_of store8 = ended Complete c (sample_id ''lse'' CHR ''V'') (attempt_id a0) (view_of store7)"
  by (rule completion_needs_a_verified_attempt [OF reachable_well_formed [OF sample_reachable7(2)] sample_completed])

text \<open>C16. A failure ends the attempt and releases the lease; a retryable one schedules exactly one successor job, at the next attempt number, while attempts are left and sends the job to the dead letters when they are exhausted, and any other fails job and run.\<close>

theorem failure_retries_within_the_attempt_limit:
  assumes "well_formed db"
    and "failExecution env occurred now eventId retryId w cred l tok inp db = (Inr (a, e, False), db')"
  shows "\<exists>c a0 es. requireActiveContext env db w l tok (to_iso now) = Inr c
    \<and> requireAttemptByLease db l = Inr (a0, es) \<and> attempt_jobId a0 = job_id (ctx_job c)
    \<and> active_attempt (attempt_status a0)
    \<and> a = ended_attempt a0 (Failure (reported_failure inp occurred)) (to_iso now)
    \<and> view_of db' = ended
        (if fi_retryable inp
         then if job_attempt (ctx_job c) < job_maxAttempts (ctx_job c) then Retry retryId else Exhaust
         else Fail) c l (attempt_id a0) (view_of db)"
proof -
  from assms(2) obtain key where
    body: "terminal_body env now eventId retryId w l tok key ''FAIL'' (failure_digest env inp)
       (Failure (reported_failure inp occurred)) db = Inr ((a, e, False), db')"
    by (rule fail_fresh)
  from terminal_result [OF assms(1) body] obtain c a0 es where
    c: "requireActiveContext env db w l tok (to_iso now) = Inr c" "requireAttemptByLease db l = Inr (a0, es)"
      "attempt_jobId a0 = job_id (ctx_job c)"
      "check_completion db a0 (ctx_job c) (Failure (reported_failure inp occurred)) = Inr ()"
      "a = ended_attempt a0 (Failure (reported_failure inp occurred)) (to_iso now)"
      "view_of db' = ended (ending_of (Failure (reported_failure inp occurred)) (ctx_job c) retryId) c l (attempt_id a0) (view_of db)"
    by metis
  have act: "active_attempt (attempt_status a0)" by (rule check_completion_Inr(1) [OF c(4)])
  have ending: "ending_of (Failure (reported_failure inp occurred)) (ctx_job c) retryId =
      (if fi_retryable inp
       then if job_attempt (ctx_job c) < job_maxAttempts (ctx_job c) then Retry retryId else Exhaust else Fail)"
    by (simp add: ending_of_def reported_failure_def)
  show ?thesis
    by (intro exI conjI) (rule c(1) c(2) c(3) act c(5) c(6) [unfolded ending])+
qed

theorem failure_witness:
  "\<exists>c a0 es. requireActiveContext platform0 store4 (sample_id ''wrk'' CHR ''V'') (sample_id ''lse'' CHR ''V'') ''token''
        (to_iso (now0 + 2000)) = Inr c
    \<and> requireAttemptByLease store4 (sample_id ''lse'' CHR ''V'') = Inr (a0, es) \<and> attempt_jobId a0 = job_id (ctx_job c)
    \<and> active_attempt (attempt_status a0)
    \<and> attempt5 = ended_attempt a0 (Failure (reported_failure fail0 (now0 + 2000))) (to_iso (now0 + 2000))
    \<and> view_of store5 = ended
        (if fi_retryable fail0
         then if job_attempt (ctx_job c) < job_maxAttempts (ctx_job c) then Retry (sample_id ''job'' CHR ''W'') else Exhaust
         else Fail) c (sample_id ''lse'' CHR ''V'') (attempt_id a0) (view_of store4)"
  by (rule failure_retries_within_the_attempt_limit [OF reachable_well_formed [OF sample_reachable4] sample_failed])

text \<open>C17. Starting, completing or failing again under the same idempotency key, at any later time and with any fresh identifiers, returns the recorded outcome, flagged as replayed, and changes nothing: no second attempt begins and no second retry is scheduled, although a completed or failed attempt has lost its lease.\<close>

theorem outcomes_replay_under_their_key:
  assumes "well_formed db"
  shows "(startExecution env now attemptId eventId w cred l tok inp db = (Inr (a, e, False), db') \<longrightarrow>
      startExecution env now' attemptId' eventId' w cred l tok inp db' = (Inr (a, e, True), db'))
    \<and> (completeExecution env now eventId retryId w cred l tok completion db = (Inr (a, e, False), db') \<longrightarrow>
      completeExecution env now' eventId' retryId' w cred l tok completion db' = (Inr (a, e, True), db'))
    \<and> (failExecution env occurred now eventId retryId w cred l tok failing db = (Inr (a, e, False), db') \<longrightarrow>
      failExecution env occurred' now' eventId' retryId' w cred l tok failing db' = (Inr (a, e, True), db'))"
  by (intro conjI impI) (erule start_replays [OF assms] complete_replays [OF assms] fail_replays [OF assms])+

theorem outcomes_replay_witness:
  "startExecution platform0 (now0 + 9000) (sample_id ''exa'' CHR ''W'') (sample_id ''eve'' CHR ''W'')
     (sample_id ''wrk'' CHR ''V'') ''secret'' (sample_id ''lse'' CHR ''V'') ''token'' start0 store4
   = (Inr (attempt4, event4, True), store4)
   \<and> completeExecution platform0 (now0 + 9000) (sample_id ''eve'' CHR ''W'') (sample_id ''job'' CHR ''X'')
     (sample_id ''wrk'' CHR ''V'') ''secret'' (sample_id ''lse'' CHR ''V'') ''token'' completion0 store8
   = (Inr (attempt8, event8, True), store8)
   \<and> failExecution platform0 (now0 + 9000) (now0 + 9000) (sample_id ''eve'' CHR ''X'') (sample_id ''job'' CHR ''X'')
     (sample_id ''wrk'' CHR ''V'') ''secret'' (sample_id ''lse'' CHR ''V'') ''token'' fail0 store5
   = (Inr (attempt5, event5, True), store5)"
  using outcomes_replay_under_their_key [THEN conjunct1, rule_format,
      OF reachable_well_formed [OF sample_reachable2] sample_started]
    outcomes_replay_under_their_key [THEN conjunct2, THEN conjunct1, rule_format,
      OF reachable_well_formed [OF sample_reachable7(2)] sample_completed]
    outcomes_replay_under_their_key [THEN conjunct2, THEN conjunct2, rule_format,
      OF reachable_well_formed [OF sample_reachable4] sample_failed]
  by blast

text \<open>C18. Reconciling settles exactly the active attempts whose lease is closed or has expired and counts them: each becomes FAILED, its job and run FAILED, and its lease is not active any more; every other attempt is left as it was. An attempt still active afterwards has an active lease with time left. The call follows the specification and keeps the invariant; run again at the same instant it finds nothing and changes nothing.\<close>

theorem reconciling_settles_stranded_attempts:
  assumes "well_formed db" "reconcileExpired env now ids db = (Inr n, db')"
  shows "n = length (filter (stranded db (to_iso now)) (attempts db))
    \<and> (\<forall>a\<in>set (attempts db). if stranded db (to_iso now) a
          then settled_rows db' (ar_id a) (ar_job_id a) (ar_run_id a) (ar_lease_id a)
          else find_by ar_id (ar_id a) (attempts db') = Some a)
    \<and> (\<forall>a\<in>set (attempts db'). active_attempt (ar_status a) \<longrightarrow>
          (\<exists>l. lease_by_id (ar_lease_id a) db' = Some l \<and> lr_status l = L_ACTIVE \<and> to_iso now < lr_expires_at l))
    \<and> well_formed db' \<and> spec_step\<^sup>*\<^sup>* (view_of db) (view_of db')
    \<and> reconcileExpired env now ids' db' = (Inr 0, db')"
proof -
  note r = reconcileExpired_Inr [OF assms]
  have "reconcileExpired env now ids' db' = (Inr 0, db')"
    using r(4) by (simp add: reconcileExpired_def in_transaction_def Let_def)
  moreover have "\<exists>l. lease_by_id (ar_lease_id a) db' = Some l \<and> lr_status l = L_ACTIVE \<and> to_iso now < lr_expires_at l"
    if "a \<in> set (attempts db')" "active_attempt (ar_status a)" for a
    by (rule reconciled_active [OF assms that]) blast
  moreover have "\<forall>a\<in>set (attempts db). if stranded db (to_iso now) a
      then settled_rows db' (ar_id a) (ar_job_id a) (ar_run_id a) (ar_lease_id a)
      else find_by ar_id (ar_id a) (attempts db') = Some a"
    using reconcileExpired_settles(2,3) [OF assms] by simp
  ultimately show ?thesis using r(2,3) reconcileExpired_settles(1) [OF assms] by blast
qed

theorem reconciling_witness:
  "length (filter (stranded store4 (to_iso (now0 + 120000))) (attempts store4)) = 1
    \<and> (\<exists>a. attempts store4 = [a] \<and> settled_rows store9 (ar_id a) (ar_job_id a) (ar_run_id a) (ar_lease_id a))
    \<and> reconcileExpired platform0 (now0 + 120000) (\<lambda>_. sample_id ''eve'' CHR ''X'') store9 = (Inr 0, store9)"
proof -
  note w = reconciling_settles_stranded_attempts [OF reachable_well_formed [OF sample_reachable4] sample_reconciled]
  obtain a where a: "attempts store4 = [a]" by (simp add: store4_def)
  have "stranded store4 (to_iso (now0 + 120000)) a" using sample_settled(1) unfolding a by (simp split: if_splits)
  then have "settled_rows store9 (ar_id a) (ar_job_id a) (ar_run_id a) (ar_lease_id a)"
    using bspec [OF w [THEN conjunct2, THEN conjunct1], of a] by (simp only: a list.set insertI1 if_True)
  moreover have "reconcileExpired platform0 (now0 + 120000) (\<lambda>_. sample_id ''eve'' CHR ''X'') store9 = (Inr 0, store9)"
    using w by blast
  ultimately show ?thesis using sample_settled(1) a by blast
qed

text \<open>C19. A run whose job failed and is being retried is pending again but cannot be cancelled: the RETRY job beside the new one makes the cancellation conflict.\<close>

theorem requeued_run_cannot_be_cancelled:
  assumes "getRunById db i = Inr (Some (run, js))" "run_status run = R_PENDING"
    and "list_ex (\<lambda>j. job_status j = J_RETRY) js"
  shows "cancel now i (run_updatedAt run) None db
           = (Inl (RegistryConflictError (Ledger EXECUTION_JOB_NOT_CANCELLABLE)), db)"
proof (rule cancel_other_job [OF assms(1) refl assms(2)])
  obtain j where "j \<in> set js" "job_status j = J_RETRY"
    using assms(3) by (auto simp: list_ex_iff)
  then show "list_ex (\<lambda>j. job_status j \<noteq> J_PENDING) js"
    unfolding list_ex_iff by (intro bexI [of _ j]) simp_all
qed

theorem requeued_run_witness:
  "cancel (now0 + 5000) (sample_id ''run'' CHR ''V'') (run_updatedAt run5) None store5
     = (Inl (RegistryConflictError (Ledger EXECUTION_JOB_NOT_CANCELLABLE)), store5)"
  by (rule requeued_run_cannot_be_cancelled [OF sample_requeued]) (simp_all add: run5_def job5_def)

section \<open>Ingesting artifacts\<close>

text \<open>C20. In every reachable system of interleaved calls an artifact is stored: contentPath answers with a file below the store root, whose bytes have the digest and the size the artifact states, and the content object of that digest counts as many references as there are artifacts of it.\<close>

theorem artifacts_are_stored:
  assumes "rooted store" "reachable_system store sy" "r \<in> set (ad_artifacts (sy_db sy))"
  shows "\<exists>loc c ob. contentPath store (rw_id r) (sy_db sy, sy_files sy) = Inr loc \<and> prefix (cs_root store) (cl_path loc)
    \<and> sy_files sy (cl_path loc) = Some c \<and> cs_digest store c = raw_sha256 (rw_document r)
    \<and> int (length c) = raw_sizeBytes (rw_document r) \<and> cl_sizeBytes loc = int (length c)
    \<and> find_by co_digest (raw_sha256 (rw_document r)) (ad_objects (sy_db sy)) = Some ob
    \<and> co_reference_count ob = int (length (filter (\<lambda>r'. rw_content_digest r' = co_digest ob) (ad_artifacts (sy_db sy))))"
proof -
  have ok: "tables_ok store (sy_files sy) (sy_db sy)"
    using reachable_system_ok [OF assms(1,2)] by (simp add: system_ok_def)
  obtain ob where ob: "find_by co_digest (raw_sha256 (rw_document r)) (ad_objects (sy_db sy)) = Some ob"
    using artifact_row [OF ok assms(3)] by metis
  then have "object_ok store (sy_files sy) (ad_artifacts (sy_db sy)) ob"
    using ok find_by_SomeD [OF ob] by (simp add: tables_ok_def)
  then have refs: "co_reference_count ob
      = int (length (filter (\<lambda>r'. rw_content_digest r' = co_digest ob) (ad_artifacts (sy_db sy))))"
    by (simp add: object_ok_def)
  obtain c where "contentPath store (rw_id r) (sy_db sy, sy_files sy) = Inr
      \<lparr> cl_path = object_path store (rw_content_digest r), cl_mimeType = raw_mimeType (rw_document r),
        cl_originalName = raw_originalName (rw_document r), cl_sizeBytes = raw_sizeBytes (rw_document r) \<rparr>"
    "sy_files sy (object_path store (rw_content_digest r)) = Some c" "cs_digest store c = raw_sha256 (rw_document r)"
    "int (length c) = raw_sizeBytes (rw_document r)"
    by (rule contentPath_reads [OF assms(1) ok assms(3)])
  moreover have "prefix (cs_root store) (object_path store (rw_content_digest r))" by simp
  ultimately show ?thesis using ob refs by force
qed

theorem artifacts_are_stored_witness:
  "\<exists>loc. contentPath content0 (sample_id ''art'' CHR ''V'') (adb4, stored0) = Inr loc
     \<and> prefix (cs_root content0) (cl_path loc) \<and> cl_sizeBytes loc = 3"
proof -
  have "first_row \<in> set (ad_artifacts (sy_db system4))" by (simp add: system4_def)
  from artifacts_are_stored [OF content0_rooted sample_system4 this] show ?thesis
    by (auto simp: system4_def)
qed

text \<open>C21. No sequence of calls, however interleaved, touches a file outside the store root or changes or removes a content object.\<close>

theorem files_stay_in_the_root:
  assumes "rooted store" "reachable_system store sy" "(artifact_step store)\<^sup>*\<^sup>* sy sy'"
  shows "(\<not> prefix (cs_root store) p \<longrightarrow> sy_files sy' p = sy_files sy p)
    \<and> (sy_files sy (object_path store d) = Some c \<longrightarrow> sy_files sy' (object_path store d) = Some c)"
  using steps_ok [OF assms(1,3) reachable_system_ok [OF assms(1,2)]] by (simp add: keeps_files_def)

theorem files_stay_in_the_root_witness:
  "snd (snd (cleanupAbandoned content0 (now0 + 9000) (to_iso (now0 + 8000)) (\<lambda>_. sample_id ''aev'' CHR ''Z'') (adb4, stored0))) (object_path content0 digest0) = Some page0
   \<and> snd (snd (cleanupAbandoned content0 (now0 + 9000) (to_iso (now0 + 8000)) (\<lambda>_. sample_id ''aev'' CHR ''Z'') (adb4, stored0))) [''etc'', ''passwd''] = None"
proof -
  obtain res db fs where c: "cleanupAbandoned content0 (now0 + 9000) (to_iso (now0 + 8000)) (\<lambda>_. sample_id ''aev'' CHR ''Z'') (adb4, stored0) = (res, db, fs)"
    by (metis prod_cases3)
  then have "artifact_step content0 system4 (system4\<lparr>sy_db := db, sy_files := fs\<rparr>)"
    by (intro artifact_step.cleanup) (simp add: system4_def)
  then have steps: "(artifact_step content0)\<^sup>*\<^sup>* system4 (system4\<lparr>sy_db := db, sy_files := fs\<rparr>)"
    by (rule r_into_rtranclp)
  have "stored0 (object_path content0 digest0) = Some page0"
    unfolding removeUpload_session remove_under_def using object_not_session by simp
  moreover have "stored0 [''etc'', ''passwd''] = None" "\<not> prefix (cs_root content0) [''etc'', ''passwd'']"
    unfolding removeUpload_session remove_under_def by (simp_all add: content0_def session_path_def object_path_def)
  ultimately show ?thesis
    using files_stay_in_the_root [OF content0_rooted sample_system4 steps, of "[''etc'', ''passwd'']" digest0 page0] c
    by (simp add: system4_def)
qed

text \<open>C22. The artifact evidence the control plane accepts for a completion is backed by the store: every receipt it names stands for an artifact of this very attempt whose file has its digest, and the lengths of these files add up to the bytes the receipt claims.\<close>

theorem completions_name_stored_bytes:
  assumes "rooted store" "reachable_system store sy"
    and "assertArtifactEvidence (evidence_store (sy_db sy)) attemptId receipt j = Inr ()"
    and "receipt_field ''metadataOnly'' receipt \<noteq> JBool True"
  shows "\<exists>contents. list_all2 (stored_bytes store sy attemptId) (json_texts (receipt_field ''artifactReceiptIds'' receipt)) contents
    \<and> of_nat (sum_list (map length contents)) = json_number (receipt_field ''bytesPrepared'' receipt)"
proof -
  have "tables_ok store (sy_files sy) (sy_db sy)"
    using reachable_system_ok [OF assms(1,2)] by (simp add: system_ok_def)
  from evidence_is_stored [OF this assms(3,4)] show ?thesis by metis
qed

theorem completions_name_stored_bytes_witness:
  "\<exists>c. stored_bytes content0 system4 (sample_id ''exa'' CHR ''V'') (sample_id ''air'' CHR ''V'') c \<and> length c = 3"
proof -
  have "receipt_field ''metadataOnly'' receipt10 \<noteq> JBool True"
    "json_texts (receipt_field ''artifactReceiptIds'' receipt10) = [sample_id ''air'' CHR ''V'']"
    "json_number (receipt_field ''bytesPrepared'' receipt10) = 3"
    by (simp_all add: receipt10_def field_def)
  with completions_name_stored_bytes [OF content0_rooted sample_system4 sample_artifact_evidence] show ?thesis
    by (auto simp: list_all2_Cons1)
qed

text \<open>C23. When an upload and then the finalization of its session succeed, the artifact returned leads to the bytes of the stream: a file of the digest and length the descriptor declares, equal to the stream's content unless an object of that digest was already there, and the receipt names that artifact.\<close>

theorem an_upload_becomes_its_artifact:
  assumes "rooted store" "reachable_system store sy" "session_status (sy_db sy) i = Some G_CREATED"
    and "uploadContent env store t su sus workerId credential leaseId token i stream (sy_db sy, sy_files sy)
      = (Settled (Inr (Uploaded s v)), db1, fs1)"
    and "finalizeArtifact env store t' su' sus' workerId credential leaseId token i (db1, fs1)
      = (Settled (Inr (Finalized view rc replayed)), db2, fs2)"
  shows "\<exists>b c loc. receive_stream (cs_max_bytes store) stream = Inr b
    \<and> contentPath store (raw_id (av_artifact view)) (db2, fs2) = Inr loc \<and> fs2 (cl_path loc) = Some c
    \<and> length c = length b \<and> cs_digest store c = cs_digest store b
    \<and> cs_digest store b = descriptor_text ''expectedSha256'' (ing_descriptor s)
    \<and> of_int (int (length b)) = descriptor_size (ing_descriptor s)
    \<and> (sy_files sy (cl_path loc) = None \<longrightarrow> c = b)
    \<and> raw_sha256 (av_artifact view) = cs_digest store b \<and> av_sessionId view = i
    \<and> rcp_artifactId rc = raw_id (av_artifact view)"
proof (rule upload_then_finalize [OF assms])
  fix b c
  let ?loc = "\<lparr> cl_path = object_path store (cs_digest store b), cl_mimeType = raw_mimeType (av_artifact view),
        cl_originalName = raw_originalName (av_artifact view), cl_sizeBytes = int (length b) \<rparr>"
  assume a: "receive_stream (cs_max_bytes store) stream = Inr b"
    "contentPath store (raw_id (av_artifact view)) (db2, fs2) = Inr ?loc"
    "fs2 (object_path store (cs_digest store b)) = Some c" "cs_digest store c = cs_digest store b"
    "length c = length b" "sy_files sy (object_path store (cs_digest store b)) = None \<longrightarrow> c = b"
    "cs_digest store b = descriptor_text ''expectedSha256'' (ing_descriptor s)"
    "of_int (int (length b)) = descriptor_size (ing_descriptor s)"
    "raw_sha256 (av_artifact view) = cs_digest store b" "av_sessionId view = i" "rcp_artifactId rc = raw_id (av_artifact view)"
  have "cl_path ?loc = object_path store (cs_digest store b)" by simp
  with a show ?thesis by (intro exI [of _ b] exI [of _ c] exI [of _ ?loc] conjI) (simp_all only:)
qed

theorem an_upload_becomes_its_artifact_witness:
  "\<exists>loc. contentPath content0 (raw_id (av_artifact artifact_view0)) (adb4, stored0) = Inr loc \<and> stored0 (cl_path loc) = Some page0"
proof -
  have "session_status (sy_db system1) ing0 = Some G_CREATED" by (simp add: session_status_def system1_def)
  moreover have "uploadContent platform0 content0 (now0 + 3000) (surroundings0 3000 CHR ''W'' CHR ''V'')
     [surroundings0 3500 CHR ''X'' CHR ''V'', surroundings0 4000 CHR ''X'' CHR ''V'']
     wrk0 ''secret'' lse0 ''token'' ing0 stream0 (sy_db system1, sy_files system1)
   = (Settled (Inr (Uploaded verified0 verification0)), adb3, written0)"
    using sample_upload by (simp add: system1_def)
  note a = an_upload_becomes_its_artifact [OF content0_rooted sample_system1 calculation(1) this sample_finalized]
  then obtain b c loc where "receive_stream (cs_max_bytes content0) stream0 = Inr b"
    "contentPath content0 (raw_id (av_artifact artifact_view0)) (adb4, stored0) = Inr loc" "stored0 (cl_path loc) = Some c"
    "sy_files system1 (cl_path loc) = None \<longrightarrow> c = b"
    by metis
  moreover have "sy_files system1 (cl_path loc) = None" by (simp add: system1_def)
  ultimately show ?thesis by (simp add: sample_received)
qed

text \<open>C24. Finalizing a finalized session again, at any time while the lease is held, answers with the recorded artifact and receipt, which agree with each other and with the stored file, and changes neither a table nor a file.\<close>

theorem finalized_sessions_answer:
  assumes "rooted store" "reachable_system store sy" "session_status (sy_db sy) i = Some G_FINALIZED"
    and "owned_session env t workerId credential leaseId token i (sy_db sy) = Inr rec"
  shows "\<exists>view rc. finalizeArtifact env store t su sus workerId credential leaseId token i (sy_db sy, sy_files sy)
      = (Settled (Inr (Finalized view rc True)), sy_db sy, sy_files sy)
    \<and> av_sessionId view = i \<and> rcp_sessionId rc = i \<and> rcp_artifactId rc = raw_id (av_artifact view)
    \<and> rcp_contentSha256 rc = raw_sha256 (av_artifact view)
    \<and> (\<exists>loc c. contentPath store (raw_id (av_artifact view)) (sy_db sy, sy_files sy) = Inr loc
        \<and> sy_files sy (cl_path loc) = Some c \<and> cs_digest store c = rcp_contentSha256 rc)"
proof -
  have ok: "tables_ok store (sy_files sy) (sy_db sy)"
    using reachable_system_ok [OF assms(1,2)] by (simp add: system_ok_def)
  obtain r view rc where r: "r \<in> set (ad_artifacts (sy_db sy))" "rw_session_id r = i" "view_of_row (sy_db sy) r view"
      "receipt_of r rc"
      "finalize_begin env t su workerId credential leaseId token i (sy_db sy) = Settled (Inr (Finalized view rc True))"
    by (rule finalize_replays [OF ok assms(3,4)])
  obtain c where c: "contentPath store (rw_id r) (sy_db sy, sy_files sy) = Inr
      \<lparr> cl_path = object_path store (rw_content_digest r), cl_mimeType = raw_mimeType (rw_document r),
        cl_originalName = raw_originalName (rw_document r), cl_sizeBytes = raw_sizeBytes (rw_document r) \<rparr>"
    "sy_files sy (object_path store (rw_content_digest r)) = Some c" "cs_digest store c = raw_sha256 (rw_document r)"
    by (rule contentPath_reads [OF assms(1) ok r(1)])
  have "raw_sha256 (rw_document r) = rw_content_digest r"
    using artifact_row [OF ok r(1)] by metis
  with r c show ?thesis
    by (simp add: finalizeArtifact_def view_of_row_def receipt_of_def rw_id_def)
qed

theorem finalized_sessions_answer_witness:
  "\<exists>view rc. finalizeArtifact platform0 content0 (now0 + 6000) (surroundings0 6000 CHR ''Z'' CHR ''W'') []
      wrk0 ''secret'' lse0 ''token'' ing0 (adb4, stored0) = (Settled (Inr (Finalized view rc True)), adb4, stored0)"
proof -
  let ?r = "written_row (finalized_session finalization0) (no_session_options\<lparr>so_receipt := Some receipt0\<rparr>) row3"
  have row: "find_by ir_id ing0 (ad_sessions adb4) = Some ?r" by (simp add: adb4_def find_written find_row3)
  have st: "session_status (sy_db system4) ing0 = Some G_FINALIZED"
    by (simp add: session_status_def system4_def row finalized_session_def)
  have ok: "session_row_ok ?r"
    by (simp add: session_row_ok_def no_session_options_def ir_id_def) (simp add: finalized_session_def)
  have events: "list_all ingestion_event_valid (ad_events adb4)" by (simp add: artifact_event_valid)
  obtain es where "owned_session platform0 (now0 + 6000) wrk0 ''secret'' lse0 ''token'' ing0 adb4
    = Inr \<lparr> sn_session = ir_document ?r, sn_verification = ir_verification ?r, sn_receipt = ir_receipt ?r,
            sn_failure = ir_failure ?r, sn_events = es \<rparr>"
    by (rule owned_sample [of 6000, OF _ _ _ row ok _ _ events]) (simp_all add: finalized_session_def)
  then have "\<exists>rec. owned_session platform0 (now0 + 6000) wrk0 ''secret'' lse0 ''token'' ing0 (sy_db system4) = Inr rec"
    by (simp add: system4_def)
  with finalized_sessions_answer [OF content0_rooted sample_system4 st] show ?thesis
    by (fastforce simp: system4_def)
qed

text \<open>C25. An upload that is awaited while its session is aborted brings the session back: when its stream ends the session is VERIFIED although its file is gone, and no call ever finalizes it from there.\<close>

theorem aborted_uploads_are_verified:
  assumes "rooted store" "reachable_system store sy" "U_Writing s rel target stream \<in> set (sy_tasks sy)"
    and "session_status (sy_db sy) (ing_id s) = Some G_UPLOADING"
    and "abort env store t now eventId workerId credential leaseId token (ing_id s) reason (sy_db sy, sy_files sy)
      = (Inr rec, db1, fs1)"
    and "resume store su (U_Writing s rel target stream) (db1, fs1) = (Settled (Inr (Uploaded s' v)), db2, fs2)"
  shows "session_status db1 (ing_id s) = Some G_ABORTED \<and> session_status db2 (ing_id s) = Some G_VERIFIED
    \<and> fs2 (session_path store (ing_id s)) = None
    \<and> finalizeArtifact env' store t' su' sus workerId' credential' leaseId' token' (ing_id s) (db2, fs2) \<noteq> (Settled (Inr x), w)"
  using aborted_upload_verified [OF assms(1) reachable_system_ok [OF assms(1,2)] assms(3-)]
    missing_upload_never_finalizes [OF assms(1)] by blast

theorem aborted_uploads_are_verified_witness:
  "\<exists>rec. abort platform0 content0 (now0 + 3600) (now0 + 3600) (sample_id ''aev'' CHR ''X'') wrk0 ''secret'' lse0 ''token''
        ing0 None (sy_db system2, sy_files system2) = (Inr rec, adb5, Map.empty)
     \<and> session_status adb5 ing0 = Some G_ABORTED \<and> session_status adb6 ing0 = Some G_VERIFIED
     \<and> (\<forall>sus x w. finalizeArtifact platform0 content0 (now0 + 5000) (surroundings0 5000 CHR ''Z'' CHR ''V'') sus wrk0 ''secret'' lse0
         ''token'' ing0 (adb6, Map.empty) \<noteq> (Settled (Inr x), w))"
proof -
  obtain rec where ab: "abort platform0 content0 (now0 + 3600) (now0 + 3600) (sample_id ''aev'' CHR ''X'') wrk0 ''secret'' lse0 ''token''
      (ing_id uploading0) None (sy_db system2, sy_files system2) = (Inr rec, adb5, Map.empty)"
    using sample_aborted by (auto simp: system2_def)
  have task: "U_Writing uploading0 (session_rel ing0) (session_path content0 ing0) stream0 \<in> set (sy_tasks system2)"
    by (simp add: system2_def)
  have "session_status (sy_db system2) (ing_id uploading0) = Some G_UPLOADING"
    by (simp add: session_status_def system2_def uploading0_row)
  from aborted_uploads_are_verified [OF content0_rooted sample_system2 task this ab sample_late_upload] ab show ?thesis
    by auto
qed

text \<open>C26. When an artifact is registered with a creation time before that of the newest artifact of its address, its finalization having begun earlier, it and the next artifact of the address get the same version number and supersede the same artifact.\<close>

theorem late_registrations_repeat_a_version:
  assumes "finalize_commit su f rel db = (Settled (Inr (Finalized view rc replayed)), db1)"
    and "finalize_commit su' g rel' db1 = (Settled (Inr (Finalized view' rc' replayed')), db2)"
    and "ing_workspaceId (fz_session g) = ing_workspaceId (fz_session f)"
      "ing_sourceId (fz_session g) = ing_sourceId (fz_session f)"
      "descriptor_text_option ''canonicalUri'' (ing_descriptor (fz_session g)) = Some uri"
      "descriptor_text_option ''canonicalUri'' (ing_descriptor (fz_session f)) = Some uri" "uri \<noteq> []"
    and "newest (filter (same_address (ing_workspaceId (fz_session f)) (ing_sourceId (fz_session f)) uri)
        (ad_artifacts db)) = Some p"
      "fz_now f < rw_created_at p" "distinct (map rw_id (ad_artifacts db))"
  shows "raw_version (av_artifact view) = raw_version (rw_document p) + 1
    \<and> raw_version (av_artifact view') = raw_version (av_artifact view)
    \<and> raw_supersedesArtifactId (av_artifact view') = raw_supersedesArtifactId (av_artifact view)
    \<and> raw_canonicalUri (av_artifact view') = raw_canonicalUri (av_artifact view)
    \<and> raw_id (av_artifact view') \<noteq> raw_id (av_artifact view)"
  by (rule late_commit_repeats_version [OF assms])

theorem late_registrations_repeat_a_version_witness:
  "\<exists>view rc db1 view' rc' db2.
     finalize_commit (surroundings0 4500 CHR ''Z'' CHR ''W'') (late0 CHR ''W'' 4500) (object_rel digest0) adb7
       = (Settled (Inr (Finalized view rc False)), db1)
     \<and> finalize_commit (surroundings0 5500 CHR ''T'' CHR ''X'') (late0 CHR ''X'' 5500) (object_rel digest0) db1
       = (Settled (Inr (Finalized view' rc' False)), db2)
     \<and> raw_version (av_artifact view) = 2 \<and> raw_version (av_artifact view') = 2
     \<and> raw_id (av_artifact view') \<noteq> raw_id (av_artifact view)"
proof (rule sample_late_commits)
  fix view rc db1 view' rc' db2
  assume two: "finalize_commit (surroundings0 4500 CHR ''Z'' CHR ''W'') (late0 CHR ''W'' 4500) (object_rel digest0) adb7
       = (Settled (Inr (Finalized view rc False)), db1)"
    "finalize_commit (surroundings0 5500 CHR ''T'' CHR ''X'') (late0 CHR ''X'' 5500) (object_rel digest0) db1
       = (Settled (Inr (Finalized view' rc' False)), db2)"
  have arts: "ad_artifacts adb7 = [first_row]" by (simp add: adb7_def)
  have p: "newest (filter (same_address (ing_workspaceId (fz_session (late0 CHR ''W'' 4500)))
      (ing_sourceId (fz_session (late0 CHR ''W'' 4500))) page_uri) (ad_artifacts adb7)) = Some first_row"
    by (simp add: arts late_newest)
  show ?thesis
    using late_registrations_repeat_a_version [OF two _ _ _ _ _ p] two
    by (simp add: arts late_order)
qed

section \<open>Scheduling plans\<close>

text \<open>C27. A dispatch of a slot that starts a run inserts exactly one run with one job. Whatever calls of the control plane follow, a later dispatch of the same slot of that plan, by whichever process, at whatever time and whatever the plan document says by then, changes nothing: it throws (when its source has been paused, say) or returns that very run, flagged as replayed, in the state it has by then. Right after the first dispatch it returns the same record.\<close>

theorem a_slot_is_dispatched_once:
  assumes "well_formed db" "dispatchScheduled fresh plan slot now db = (Inr d, db')"
    and "\<not> sdr_replayed d" "\<not> sdr_coalesced d"
    and "control_call\<^sup>*\<^sup>* db' db2" "plan_id plan' = plan_id plan" "plan_workspaceId plan' = plan_workspaceId plan"
    and "dispatchScheduled fresh' plan' slot now' db2 = (res, db3)"
  shows "(\<exists>job. sdr_jobs d = [job] \<and> insert_dispatch (sdr_run d) job db = Inr db')
    \<and> well_formed db'
    \<and> dispatchScheduled fresh' plan slot now' db' = (Inr (d\<lparr>sdr_replayed := True\<rparr>), db')
    \<and> db3 = db2
    \<and> (\<forall>e. res = Inr e \<longrightarrow> sdr_replayed e \<and> \<not> sdr_coalesced e \<and> run_id (sdr_run e) = run_id (sdr_run d))"
proof -
  have "store_ok db" "coordinated (view_of db)" using assms(1) by (simp_all add: well_formed_def)
  note replay = dispatchScheduled_replay [OF this assms(2-4)]
  have "control_step db db'" by (rule dispatchScheduled_controlled [OF assms(2)])
  then have wf: "well_formed db'" using control_stepD(1) assms(1) by blast
  then have "store_ok db2" using calls_controlled [OF assms(5)] by (simp add: well_formed_def)
  moreover obtain key where "scheduledSlotIdempotencyKey (plan_id plan') slot = Inr key"
    "recorded (plan_workspaceId plan') key (run_id (sdr_run d), plan_id plan', T_SCHEDULED) db2"
    by (rule dispatched_recorded [OF assms(2-4)]) (use calls_recorded [OF assms(5)] assms(6,7) in simp)
  ultimately have "db3 = db2 \<and> (\<forall>e. res = Inr e \<longrightarrow> sdr_replayed e \<and> \<not> sdr_coalesced e \<and> run_id (sdr_run e) = run_id (sdr_run d))"
    by (rule recorded_dispatch [OF _ _ _ assms(8)])
  moreover have "\<exists>job. sdr_jobs d = [job] \<and> insert_dispatch (sdr_run d) job db = Inr db'"
    using assms(2) by (rule dispatchScheduled_cases) (use assms(3,4) in auto)
  ultimately show ?thesis using replay wf by blast
qed

theorem a_slot_witness:
  "(\<exists>job. sdr_jobs dispatch_s = [job] \<and> insert_dispatch (sdr_run dispatch_s) job store0 = Inr store_s)
    \<and> dispatchScheduled fresh0 plan0 (Some now0) (now0 + 2000) store_sc
        = (Inr \<lparr> sdr_run = run_sc, sdr_jobs = [job_sc], sdr_replayed = True, sdr_coalesced = False \<rparr>, store_sc)
    \<and> run_status run_sc = R_CANCELLED \<and> run_id run_sc = run_id run_s"
proof -
  have call: "control_call\<^sup>*\<^sup>* store_s store_sc"
    using control_call.cancel [of store_s "now0 + 1000" "sample_id ''run'' CHR ''V''" "to_iso now0" None]
    by (simp add: sample_slot_cancelled)
  have "run_status run_sc = R_CANCELLED" by (simp add: run_sc_def cancelled_run_def)
  with a_slot_is_dispatched_once [OF sample_well_formed0 sample_slot _ _ call refl refl sample_slot_replayed] sample_slot_replayed
  show ?thesis by simp
qed

text \<open>C28. Whatever happens in a tick, errors included, a run it starts is pending and SCHEDULED, its plan had no pending or running run before the tick, and it is the only run the tick starts for that plan.\<close>

theorem ticks_start_no_overlapping_runs:
  assumes "tick zones env fresh clock observedAt limit sd = (res, sd')"
    and "r \<in> set (collection_runs (sd_control sd'))" "r \<notin> set (collection_runs (sd_control sd))"
  shows "rr_trigger_type r = T_SCHEDULED \<and> rr_status r = R_PENDING
    \<and> (\<forall>q. \<not> (q \<in> set (collection_runs (sd_control sd)) \<and> rr_plan_id q = rr_plan_id r
               \<and> (rr_status q = R_PENDING \<or> rr_status q = R_RUNNING)))
    \<and> (\<forall>q. \<not> (q \<in> set (collection_runs (sd_control sd')) \<and> q \<notin> set (collection_runs (sd_control sd))
               \<and> rr_plan_id q = rr_plan_id r \<and> q \<noteq> r))"
proof -
  from tick_starts [OF assms(1)] obtain news where
    news: "collection_runs (sd_control sd') = collection_runs (sd_control sd) @ news" "distinct (map rr_plan_id news)"
      "\<forall>r\<in>set news. rr_trigger_type r = T_SCHEDULED \<and> rr_status r = R_PENDING
             \<and> \<not> plan_in_flight (sd_control sd) (rr_plan_id r)"
    by (auto simp: only_starts_idle_def)
  then have r: "r \<in> set news" using assms(2,3) by auto
  have "q = r" if "q \<in> set news" "rr_plan_id q = rr_plan_id r" for q
    using that r news(2) distinct_key_eq by metis
  with r news show ?thesis by (auto simp: plan_in_flight_def)
qed

theorem ticks_start_witness:
  "rr_trigger_type (run_row_of run_s) = T_SCHEDULED \<and> rr_status (run_row_of run_s) = R_PENDING
    \<and> (\<forall>q. \<not> (q \<in> set (collection_runs (sd_control sd0)) \<and> rr_plan_id q = rr_plan_id (run_row_of run_s)
               \<and> (rr_status q = R_PENDING \<or> rr_status q = R_RUNNING)))
    \<and> (\<forall>q. \<not> (q \<in> set (collection_runs (sd_control sd_s)) \<and> q \<notin> set (collection_runs (sd_control sd0))
               \<and> rr_plan_id q = rr_plan_id (run_row_of run_s) \<and> q \<noteq> run_row_of run_s))"
  by (rule ticks_start_no_overlapping_runs [OF sample_tick]) (simp_all add: sd_s_def store_s_def sd0_def store0_def)

text \<open>C29. When the plan documents are valid a tick returns, whatever goes wrong with individual plans: it has one item for each plan examined, in the order examined, at most 250 of them, and its counters are the numbers of items with each outcome.\<close>

theorem ticks_answer_for_every_plan:
  assumes "normalizedTickLimit limit = Inr n" "list_all plan_valid (plan_documents (sd_control sd))"
  shows "\<exists>res sd'. tick zones env fresh now None limit sd = (Inr res, sd')
    \<and> map ti_planId (tr_items res) = map plan_id (tick_rows now n sd)
    \<and> tr_examined res = length (tr_items res) \<and> tr_examined res \<le> 250
    \<and> tr_dispatched res = tally O_DISPATCHED res \<and> tr_replayed res = tally O_REPLAYED res
    \<and> tr_coalesced res = tally O_COALESCED res \<and> tr_errors res = tally O_ERROR res"
proof -
  define acc where "acc = \<lparr> tr_observedAt = to_iso now, tr_examined = length (tick_rows now n sd), tr_dispatched = 0,
     tr_replayed = 0, tr_coalesced = 0, tr_errors = 0, tr_items = [] \<rparr>"
  have acc: "balanced acc" "tr_items acc = []" "tr_examined acc = length (tick_rows now n sd)"
    by (simp_all add: acc_def balanced_def tally_def)
  have "plan_valid p \<and> plan_status p = P_ACTIVE \<and> schedule_mode_of (plan_schedule p) \<noteq> M_MANUAL"
    if "p \<in> set (tick_rows now n sd)" for p
    using that tick_rows_shape(1) [of now n sd] assms(2) by (auto simp: list_all_iff)
  then obtain res sd' where loop: "tick_loop zones env fresh now (tick_rows now n sd) acc sd = (Inr res, sd')"
    using tick_loop_total [of "tick_rows now n sd" zones env fresh now acc sd] by blast
  note report = tick_loop_report [OF loop acc(1)]
  have ids: "map ti_planId (tr_items res) = map plan_id (tick_rows now n sd)" using report(3) acc(2) by simp
  have "length (tr_items res) = length (tick_rows now n sd)" by (rule map_eq_imp_length_eq [OF ids])
  moreover have "nat n \<le> 250"
    using assms(1) by (auto simp: normalizedTickLimit_def DEFAULT_TICK_LIMIT_def MAX_TICK_LIMIT_def
        split: option.splits if_splits)
  moreover have "tick zones env fresh now None limit sd = (Inr res, sd')"
    using loop assms(1) by (simp add: tick_def acc_def)
  ultimately show ?thesis
    using report(1,2) ids acc(3) tick_rows_shape(2) [of now n sd] by (auto simp: balanced_def)
qed

theorem ticks_answer_witness:
  "\<exists>res sd'. tick utc_zones platform0 fresh0 now0 None None sd0 = (Inr res, sd')
    \<and> map ti_planId (tr_items res) = map plan_id (tick_rows now0 50 sd0)
    \<and> tr_examined res = length (tr_items res) \<and> tr_examined res \<le> 250
    \<and> tr_dispatched res = tally O_DISPATCHED res \<and> tr_replayed res = tally O_REPLAYED res
    \<and> tr_coalesced res = tally O_COALESCED res \<and> tr_errors res = tally O_ERROR res"
  by (rule ticks_answer_for_every_plan)
    (simp_all add: normalizedTickLimit_def DEFAULT_TICK_LIMIT_def sd0_def store0_def plan_documents_def)

text \<open>C30. After a tick every plan that was not reported as an error is due at an instant after the tick, so ticks make progress and do not serve a slot again and again.\<close>

theorem served_plans_are_due_later:
  assumes "tick zones env fresh now None limit sd = (Inr res, sd')"
    and "item \<in> set (tr_items res)" "ti_outcome item \<noteq> O_ERROR"
  shows "\<exists>due t. ti_nextDueAt item = Some due \<and> now < t \<and> (due = to_iso t \<or> new_Date_text env due = Some t)"
  using assms(1)
proof (rule tick_loop_of)
  fix now' n acc
  assume t: "(case None of None \<Rightarrow> Some now | Some d \<Rightarrow> d) = Some now'"
    "acc = \<lparr> tr_observedAt = to_iso now', tr_examined = length (tick_rows now' n sd), tr_dispatched = 0,
               tr_replayed = 0, tr_coalesced = 0, tr_errors = 0, tr_items = [] \<rparr>"
    "tick_loop zones env fresh now' (tick_rows now' n sd) acc sd = (Inr res, sd')"
  have "\<forall>i\<in>set (tr_items res). ti_outcome i = O_ERROR \<or> later_due env now' (ti_nextDueAt i)"
    by (rule tick_loop_later [OF t(3)]) (simp add: t(2))
  then have "later_due env now' (ti_nextDueAt item)" using assms(2,3) by blast
  moreover have "now' = now" using t(1) by simp
  ultimately show ?thesis unfolding later_due_def by blast
qed blast

theorem served_plans_witness:
  "\<exists>due t. ti_nextDueAt (hd (tr_items tick_s)) = Some due \<and> now0 < t
     \<and> (due = to_iso t \<or> new_Date_text platform0 due = Some t)"
  by (rule served_plans_are_due_later [OF sample_tick]) (simp_all add: tick_s_def)

text \<open>C31. The next cron occurrence is a whole minute after the reference, at most 367 days later, whose local time matches the expression, and no earlier minute after the reference does; the lookahead error is raised only when no minute of those 367 days matches.\<close>

theorem cron_occurrence_is_the_first_match:
  "(nextCronOccurrence zones expression timezone (Some t) = Inr d \<longrightarrow>
      (\<exists>spec f u. parseCron expression = Inr spec \<and> spec_ok spec \<and> zones (trim timezone) = Some f
        \<and> d = Some u \<and> t < u \<and> u \<le> t + 60000 * MAX_CRON_LOOKAHEAD_MINUTES \<and> cron_due f spec u
        \<and> (\<forall>v. \<not> (t < v \<and> v < u \<and> cron_due f spec v))))
   \<and> (nextCronOccurrence zones expression timezone (Some t)
        = schedulerConflict SCHEDULER_CRON_LOOKAHEAD_EXCEEDED \<longrightarrow>
      (\<exists>spec f. parseCron expression = Inr spec \<and> zones (trim timezone) = Some f
        \<and> (\<forall>v. \<not> (t < v \<and> v \<le> t + 60000 * MAX_CRON_LOOKAHEAD_MINUTES \<and> cron_due f spec v))))"
proof (intro conjI impI)
  assume "nextCronOccurrence zones expression timezone (Some t) = Inr d"
  then show "\<exists>spec f u. parseCron expression = Inr spec \<and> spec_ok spec \<and> zones (trim timezone) = Some f
        \<and> d = Some u \<and> t < u \<and> u \<le> t + 60000 * MAX_CRON_LOOKAHEAD_MINUTES \<and> cron_due f spec u
        \<and> (\<forall>v. \<not> (t < v \<and> v < u \<and> cron_due f spec v))"
  proof (rule nextCronOccurrence_Inr)
    fix spec f u
    assume p: "parseCron expression = Inr spec" "zones (trim timezone) = Some f" "d = Some u"
      "cron_next f spec t = Some u" "u \<le> t + 60000 * MAX_CRON_LOOKAHEAD_MINUTES"
    with cron_rule.next_due [OF p(4)] cron_rule.none_between [OF p(4)] parseCron_ok show ?thesis by blast
  qed
qed (rule nextCronOccurrence_exceeded)

theorem cron_occurrence_witness:
  "(\<exists>spec f u. parseCron ''1 0 * * *'' = Inr spec \<and> spec_ok spec \<and> utc_zones (trim ''UTC'') = Some f
    \<and> Some (now0 + 60000) = Some u \<and> now0 < u \<and> u \<le> now0 + 60000 * MAX_CRON_LOOKAHEAD_MINUTES \<and> cron_due f spec u
    \<and> (\<forall>v. \<not> (now0 < v \<and> v < u \<and> cron_due f spec v)))
  \<and> (\<exists>spec f. parseCron ''1 0 * * *'' = Inr spec \<and> utc_zones (trim ''Still'') = Some f
    \<and> (\<forall>v. \<not> (now0 < v \<and> v \<le> now0 + 60000 * MAX_CRON_LOOKAHEAD_MINUTES \<and> cron_due f spec v)))"
  by (rule conjI, rule cron_occurrence_is_the_first_match [THEN conjunct1, rule_format, OF sample_occurrence],
      rule cron_occurrence_is_the_first_match [THEN conjunct2, rule_format, OF still_lookahead])

text \<open>C32. Reading the text of a list of cron terms (stars, values, ranges, each with an optional step) gives a field with exactly the values the terms denote, marked unrestricted exactly when these are all values of the field.\<close>

theorem cron_fields_denote_their_terms:
  assumes "ts \<noteq> []" "list_all (term_valid lo hi) ts"
  shows "\<exists>f. cronField lo hi adjust (field_text ts) = Inr f
    \<and> set (cf_values f) = adjust ` (\<Union>t\<in>set ts. term_meaning lo hi t)
    \<and> (cf_unrestricted f \<longleftrightarrow> set (cf_values f) = adjust ` {lo..hi})"
  using cronField_text [of ts lo hi adjust] assms cronField_ok by (fastforce simp: list_all_iff field_ok_def)

theorem cron_fields_witness:
  "field_text [(Between 9 17, Some 4), (At 23, None)] = ''9-17/4,23'' \<and>
   (\<exists>f. cronField 0 23 id (field_text [(Between 9 17, Some 4), (At 23, None)]) = Inr f
    \<and> set (cf_values f) = id ` (\<Union>t\<in>set [(Between 9 17, Some 4), (At 23, None)]. term_meaning 0 23 t)
    \<and> (cf_unrestricted f \<longleftrightarrow> set (cf_values f) = id ` {0..23}))"
proof
  show "field_text [(Between 9 17, Some 4), (At 23, None)] = ''9-17/4,23''" by code_simp
qed (rule cron_fields_denote_their_terms; simp add: term_valid_def term_step_def)

section \<open>Registries of sources, connectors and plans\<close>

text \<open>C33. Whatever methods of the control plane are called with inputs of their declared types, the catalogue stays consistent: every stored source and connector satisfies Schema v1, and so does every stored plan, unless its updatedAt is the text of a clock reading outside the years 0000 to 9999, which updateStatus writes unchecked; identifiers, slugs within a workspace, connector versions and plan names within a source are unique, every source is bound to a registered connector version that serves its type in a workspace that exists, every plan belongs to a source of its workspace, and connector columns repeat the manifest.\<close>

theorem the_catalogue_stays_consistent:
  assumes "catalogue_ok db0" "control_call\<^sup>*\<^sup>* db0 db"
  shows "distinct (map source_id (sources db))
    \<and> distinct (map (\<lambda>s. (source_workspaceId s, source_slug s)) (sources db))
    \<and> distinct (map kr_key (connectors db))
    \<and> distinct (map pl_id (plans db))
    \<and> distinct (map (\<lambda>r. (plan_sourceId (pl_document r), plan_name (pl_document r))) (plans db))
    \<and> (\<forall>s\<in>set (sources db). source_valid s \<and> source_workspaceId s \<in> ws_id ` set (workspaces db)
          \<and> (\<exists>r\<in>set (connectors db).
                kr_key r = (ref_connectorId (source_connector s), ref_version (source_connector s))
                \<and> source_type s \<in> set (connector_sourceTypes (kr_document r))))
    \<and> (\<forall>r\<in>set (connectors db). connector_valid (kr_document r)
          \<and> r = manifestRow (kr_document r) (kr_registered_at r) (kr_updated_at r))
    \<and> (\<forall>r\<in>set (plans db).
          (plan_valid (pl_document r)
           \<or> plan_valid ((pl_document r)\<lparr>plan_updatedAt := plan_createdAt (pl_document r)\<rparr>)
             \<and> (\<exists>now. \<not> iso_instant now \<and> plan_updatedAt (pl_document r) = to_iso now))
          \<and> (\<exists>s\<in>set (sources db). source_id s = plan_sourceId (pl_document r)
                \<and> source_workspaceId s = plan_workspaceId (pl_document r)))"
  using calls_catalogue [OF assms(2,1)]
  by (simp add: catalogue_ok_def bound_source_def coherent_connector_def placed_plan_def slug_key_def [abs_def]
      name_key_def [abs_def] plan_content_valid_def)

theorem consistent_catalogue_witness:
  "control_call\<^sup>*\<^sup>* store0 store_m \<and> plans store_m = plans store0 @ [planRow plan_m ''web-crawler'']
    \<and> distinct (map pl_id (plans store_m))
    \<and> distinct (map (\<lambda>r. (plan_sourceId (pl_document r), plan_name (pl_document r))) (plans store_m))"
proof -
  have calls: "control_call\<^sup>*\<^sup>* store0 store_m"
    using control_call.create_plan [of store0 now0 "sample_id ''pln'' CHR ''W''" plan_input0]
      control_call.update_plan [of store_p "now0 + 1000" "sample_id ''pln'' CHR ''W''" rename0 "to_iso now0"]
    by (simp add: sample_create_plan sample_update_plan)
  have "plans store_m = plans store0 @ [planRow plan_m ''web-crawler'']" by (simp add: store_m_def)
  with calls the_catalogue_stays_consistent [OF store0_catalogue calls] show ?thesis by blast
qed

text \<open>C34. An archived plan is never lost and never changes again, except for the time stamp of its last write, whatever methods are called.\<close>

theorem archived_plans_are_final:
  assumes "catalogue_ok db0" "control_call\<^sup>*\<^sup>* db0 db"
    and "find_by pl_id i (plans db0) = Some r" "plan_status (pl_document r) = P_ARCHIVED"
  shows "\<exists>r'. find_by pl_id i (plans db) = Some r'
    \<and> pl_document r' = (pl_document r)\<lparr>plan_updatedAt := plan_updatedAt (pl_document r')\<rparr>"
proof -
  note c = calls_catalogue [OF assms(2,1)]
  obtain r' where "find_by pl_id i (plans db) = Some r'" "same_plan_archived r r'"
    by (rule later_plan [OF assms(1) _ _ assms(3), of db]) (use c in simp_all)
  with assms(4) show ?thesis by (auto simp: same_plan_archived_def)
qed

theorem archived_plans_witness:
  "\<exists>r'. find_by pl_id (plan_id plan0) (plans (snd (updatePlan now0 (plan_id plan0) rename0 (plan_updatedAt plan0) store_z))) = Some r'
    \<and> pl_document r' = plan0\<lparr>plan_status := P_ARCHIVED, plan_updatedAt := plan_updatedAt (pl_document r')\<rparr>"
proof -
  let ?db = "snd (updatePlan now0 (plan_id plan0) rename0 (plan_updatedAt plan0) store_z)"
  have call: "control_call\<^sup>*\<^sup>* store_z ?db" by (intro r_into_rtranclp control_call.update_plan)
  have "find_by pl_id (plan_id plan0) (plans store_z)
      = Some (planRow (plan0\<lparr>plan_status := P_ARCHIVED\<rparr>) ''web-crawler'')" by (simp add: store_z_def)
  from archived_plans_are_final [OF store_z_catalogue call this] show ?thesis by simp
qed

text \<open>C35. A registered connector version is immutable: it is never lost, and of its manifest only the status may change.\<close>

theorem connector_versions_are_immutable:
  assumes "catalogue_ok db0" "control_call\<^sup>*\<^sup>* db0 db" "find_by kr_key k (connectors db0) = Some r"
  shows "\<exists>r'. find_by kr_key k (connectors db) = Some r' \<and> kr_registered_at r' = kr_registered_at r
    \<and> kr_document r' = (kr_document r)\<lparr>connector_status := connector_status (kr_document r')\<rparr>"
proof -
  note c = calls_catalogue [OF assms(2,1)]
  obtain r' where "find_by kr_key k (connectors db) = Some r'" "same_version r r'"
    by (rule later_connector [OF assms(1) _ _ assms(3), of db]) (use c in simp_all)
  then show ?thesis by (auto simp: same_version_def)
qed

theorem connector_versions_witness:
  "\<exists>r'. find_by kr_key (''web-crawler'', ''1.0.0'') (connectors (snd (updateConnectorStatus now0 (''web-crawler'', ''1.0.0'') ''DEPRECATED'' store0)))
      = Some r' \<and> kr_registered_at r' = kr_registered_at (hd (connectors store0))
    \<and> kr_document r' = connector0\<lparr>connector_status := connector_status (kr_document r')\<rparr>"
proof -
  let ?db = "snd (updateConnectorStatus now0 (''web-crawler'', ''1.0.0'') ''DEPRECATED'' store0)"
  have call: "control_call\<^sup>*\<^sup>* store0 ?db" by (intro r_into_rtranclp control_call.connector_status)
  have "find_by kr_key (''web-crawler'', ''1.0.0'') (connectors store0) = Some (hd (connectors store0))"
    by (simp add: store0_def kr_key_def)
  from connector_versions_are_immutable [OF store0_catalogue call this] show ?thesis by (simp add: browser0_row)
qed

text \<open>C36. A plan the registry has accepted as active is dispatched: the ledger loads its source and connector, and manual and scheduled dispatch refuse it for nothing but its job type.\<close>

theorem accepted_plans_are_dispatchable:
  assumes "createPlan now i inp db = (Inr (Some (p, v)), db')" "plan_status p = P_ACTIVE"
  shows "\<exists>s c. loadSource db' (plan_sourceId p) = Inr s \<and> loadConnector db' s = Inr c
    \<and> validateDispatch p s c = deriveCollectionJobType p s c
    \<and> (schedule_mode_of (plan_schedule p) \<noteq> M_MANUAL \<longrightarrow>
         validateScheduledDispatch p s c = deriveCollectionJobType p s c)"
  by (rule created_plan_dispatches [OF assms]) blast

theorem accepted_plans_witness:
  "validateDispatch plan_w source0 connector0 = Inr WEB_CRAWL
    \<and> validateScheduledDispatch plan_w source0 connector0 = Inr WEB_CRAWL"
proof -
  have "loadSource store_p (plan_sourceId plan_w) = Inr source0" "loadConnector store_p source0 = Inr connector0"
    "deriveCollectionJobType plan_w source0 connector0 = Inr WEB_CRAWL"
    by (simp_all add: store_p_tables plan_loadConnector_loads deriveCollectionJobType_def)
  with accepted_plans_are_dispatchable [OF sample_create_plan] show ?thesis by simp
qed

text \<open>C37. A plan that wants its pages rendered by a connector that cannot is stuck: updateStatus refuses every status, archived included, and a source can be bound to such a connector while it has such a plan.\<close>

theorem unsupported_plans_are_stuck:
  assumes "find_by pl_id i (plans db) = Some r" "renderJavascript (plan_policy (pl_document r))"
    and "find_by source_id (plan_sourceId (pl_document r)) (sources db) = Some s"
    and "connector_by_ref (source_connector s) db = Some k"
    and "RENDER_JAVASCRIPT \<notin> set (connector_capabilities (kr_document k))"
  shows "\<exists>e. updatePlanStatus now now' i t expected db = (Inl e, db)"
  by (rule unsupported_status_refused [OF assms])

theorem unsupported_plans_witness:
  "updateSource now0 (sample_id ''src'' CHR ''V'') rebind0 (source_updatedAt source0) store_j = (Inr source_k, store_k)
    \<and> (\<exists>e. updatePlanStatus now0 now0 (plan_id plan0) ''ARCHIVED'' (plan_updatedAt plan0) store_k = (Inl e, store_k))"
proof -
  have "\<exists>e. updatePlanStatus now0 now0 (plan_id plan0) ''ARCHIVED'' (plan_updatedAt plan0) store_k = (Inl e, store_k)"
  proof (rule unsupported_plans_are_stuck [where s = source_k and k = "hd (connectors store0)"])
    show "find_by pl_id (plan_id plan0) (plans store_k) = Some (planRow plan_j ''browser-crawler'')"
      by (simp add: store_k_def store_j_def plan_j_def)
  qed (simp_all add: store_k_def store_j_def plan_j_def source_k_def connector_by_ref_def store0_def)
  then show ?thesis using sample_rebound by blast
qed

section \<open>Work over time\<close>

text \<open>C38. Work that has ended stays as it ended, whatever calls follow: a job that is neither pending nor in flight keeps its run, its attempt number and its status, a run that is neither pending nor running and an attempt that completed or failed keep theirs, and a lease that was closed never becomes active again.\<close>

theorem ended_work_stays_ended:
  assumes "well_formed db" "control_call\<^sup>*\<^sup>* db db'"
  shows "(\<forall>j\<in>set (jobs db). live_job (jr_status j) \<or>
        (\<exists>j'. job_by_id (jr_id j) db' = Some j' \<and> jr_run_id j' = jr_run_id j \<and> jr_attempt j' = jr_attempt j
           \<and> jr_status j' = jr_status j))
    \<and> (\<forall>r\<in>set (collection_runs db). rr_status r \<in> {R_PENDING, R_RUNNING} \<or>
        map_option rr_status (run_by_id (rr_id r) db') = Some (rr_status r))
    \<and> (\<forall>a\<in>set (attempts db). active_attempt (ar_status a) \<or>
        map_option ar_status (find_by ar_id (ar_id a) (attempts db')) = Some (ar_status a))
    \<and> (\<forall>l\<in>set (leases db). lr_status l = L_ACTIVE \<or>
        (\<exists>l'. lease_by_id (lr_id l) db' = Some l' \<and> lr_job_id l' = lr_job_id l \<and> lr_status l' \<noteq> L_ACTIVE))"
proof -
  have wf: "store_ok db" "coordinated (view_of db)" using assms(1) by (simp_all add: well_formed_def)
  note rows = view_rows [OF wf(1)]
  have "keeps_ended (view_of db) (view_of db')"
    using steps_keep_ended [OF _ wf(2)] calls_controlled [OF assms(2,1)] by blast
  note kept = keeps_endedD [OF this]
  have "\<exists>j'. job_by_id (jr_id j) db' = Some j' \<and> jr_run_id j' = jr_run_id j \<and> jr_attempt j' = jr_attempt j
      \<and> jr_status j' = jr_status j" if "j \<in> set (jobs db)" "\<not> live_job (jr_status j)" for j
    using kept(1) [OF rows(1) [OF that(1)] that(2)] by auto
  moreover have "map_option rr_status (run_by_id (rr_id r) db') = Some (rr_status r)"
    if "r \<in> set (collection_runs db)" "rr_status r \<notin> {R_PENDING, R_RUNNING}" for r
    using kept(2) [OF rows(2) [OF that(1)]] that(2) by (simp add: live_run_def)
  moreover have "map_option ar_status (find_by ar_id (ar_id a) (attempts db')) = Some (ar_status a)"
    if "a \<in> set (attempts db)" "\<not> active_attempt (ar_status a)" for a
    using kept(3) [OF rows(4) [OF that(1)] that(2)] by auto
  moreover have "\<exists>l'. lease_by_id (lr_id l) db' = Some l' \<and> lr_job_id l' = lr_job_id l \<and> lr_status l' \<noteq> L_ACTIVE"
    if "l \<in> set (leases db)" "lr_status l \<noteq> L_ACTIVE" for l
    using kept(4) [of "lr_id l" "lr_job_id l"] rows(3) [OF that(1)] that(2) by auto
  ultimately show ?thesis by blast
qed

theorem ended_work_witness:
  "map_option jr_status (job_by_id (sample_id ''job'' CHR ''V'') (snd (reapExpired (now0 + 200000) store9))) = Some J_FAILED
    \<and> map_option rr_status (run_by_id (sample_id ''run'' CHR ''V'') (snd (reapExpired (now0 + 200000) store9))) = Some R_FAILED"
proof -
  obtain j r where j: "job_by_id (sample_id ''job'' CHR ''V'') store9 = Some j" "jr_status j = J_FAILED"
    and r: "run_by_id (sample_id ''run'' CHR ''V'') store9 = Some r" "rr_status r = R_FAILED"
    using sample_settled(2) by (auto simp: settled_rows_def)
  have in_tables: "j \<in> set (jobs store9)" "jr_id j = sample_id ''job'' CHR ''V''"
      "r \<in> set (collection_runs store9)" "rr_id r = sample_id ''run'' CHR ''V''"
    using find_by_SomeD [OF j(1) [unfolded job_by_id_def]] find_by_SomeD [OF r(1) [unfolded run_by_id_def]] by simp_all
  have "control_call\<^sup>*\<^sup>* store9 (snd (reapExpired (now0 + 200000) store9))"
    by (intro r_into_rtranclp control_call.reap)
  from ended_work_stays_ended [OF sample_well_formed9 this] show ?thesis
    using in_tables j(2) r(2) by (auto simp: live_job_def in_flight_def executing_def)
qed

text \<open>C39. In every reachable store a run has jobs, and they are numbered one to their count, without a gap and without a repetition; a job of it that is still pending or in flight is the one with the last number.\<close>

theorem run_attempts_are_numbered:
  assumes "reachable_store db" "r \<in> set (collection_runs db)"
    and "js = filter (\<lambda>j. jr_run_id j = rr_id r) (jobs db)"
  shows "js \<noteq> [] \<and> distinct (map jr_attempt js) \<and> set (map jr_attempt js) = {1..int (length js)}
    \<and> (\<forall>j\<in>set js. live_job (jr_status j) \<longrightarrow> jr_attempt j = int (length js))"
  unfolding assms(3) jobs_of_def [symmetric]
  using run_numbers [OF assms(1,2)] by blast

theorem run_attempts_witness:
  "map (\<lambda>j. (jr_attempt j, jr_status j)) (jobs store5) = [(1, J_RETRY), (2, J_PENDING)]
    \<and> set (map jr_attempt (jobs store5)) = {1..2}"
proof -
  have runs: "\<exists>r. collection_runs store5 = [r] \<and> rr_id r = sample_id ''run'' CHR ''V''"
    by (simp add: store5_def write_run_def run_row_of_def)
  then obtain r where r: "r \<in> set (collection_runs store5)" "rr_id r = sample_id ''run'' CHR ''V''" by auto
  have all: "filter (\<lambda>j. jr_run_id j = rr_id r) (jobs store5) = jobs store5"
    by (simp add: store5_def r(2) write_job_def job_row_of_def job5_def retry5_def retryJob_def Let_def)
  have "map (\<lambda>j. (jr_attempt j, jr_status j)) (jobs store5) = [(1, J_RETRY), (2, J_PENDING)]"
    by (simp add: store5_def write_job_def job_row_of_def job5_def retry5_def retryJob_def Let_def)
  moreover have "length (jobs store5) = 2" by (simp add: store5_def)
  ultimately show ?thesis
    using run_attempts_are_numbered [OF sample_reachable5 r(1) all [symmetric]] by simp
qed

section \<open>Inputs beyond their declared types\<close>

text \<open>C40. applyUpdate spreads its whole input over the source. For an input of the declared type the source keeps its identifier and its workspace; but an input that also has the keys id and workspaceId, as the body PATCH /api/sources/[id] passes on may have, is accepted whenever these are well formed, and the document written then carries the other identifier and the other workspace.\<close>

theorem undeclared_keys_move_a_source:
  assumes "applySourceUpdate s inp t = Inr moved" "is_typed_id ''src'' i" "is_typed_id ''wsp'' w"
  shows "source_id moved = source_id s \<and> source_workspaceId moved = source_workspaceId s
    \<and> applyRawSourceUpdate s inp [] t = Inr (source_json moved)
    \<and> applyRawSourceUpdate s inp [(''id'', JStr i), (''workspaceId'', JStr w)] t
        = Inr (source_json (moved\<lparr>source_id := i, source_workspaceId := w\<rparr>))"
proof -
  have "moved = updated_source s inp t"
    using assms(1) by (simp add: applySourceUpdate_def Let_def split: if_splits)
  with raw_update_declared [of s inp t] raw_update_moves [OF assms] assms(1) show ?thesis
    by (simp add: updated_source_def)
qed

theorem undeclared_keys_witness:
  "applyRawSourceUpdate source_j rebind0 [(''id'', JStr (sample_id ''src'' CHR ''W'')), (''workspaceId'', JStr (sample_id ''wsp'' CHR ''W''))]
      (to_iso now0) = Inr (source_json (source_k\<lparr>source_id := sample_id ''src'' CHR ''W'', source_workspaceId := sample_id ''wsp'' CHR ''W''\<rparr>))
    \<and> source_id source_k = sample_id ''src'' CHR ''V''"
proof -
  have "is_typed_id ''src'' (sample_id ''src'' CHR ''W'')" "is_typed_id ''wsp'' (sample_id ''wsp'' CHR ''W'')" by code_simp+
  from undeclared_keys_move_a_source [OF rebind0_applied this] show ?thesis
    by (simp add: source_j_def)
qed

end
